(* ===== verification/Qz_Prelude.thy ===== *)
theory Qz_Prelude
  imports Complex_Main "HOL-Library.Word" "HOL-Library.Product_Lexorder"
begin

text \<open>
  Shared vocabulary of the development: machine integers and identifiers, Rust strings as
  UTF-8 byte lists, \<open>AppError\<close> and \<open>AppResult\<close> of \<^verbatim>\<open>src-tauri/src/error.rs\<close>, the fragment of
  SQL that the repositories use (\<open>SELECT\<close> by key, \<open>UPDATE \<dots> WHERE\<close>, the number of affected
  rows), and the interface that every text-encoded status enum of the program implements.

  The Chinese message texts of the program are rendered in English, since theory sources are
  ASCII. No definition below branches on a message, except the marker search of
  \<open>can_automatically_retry\<close>, whose ASCII markers occur in none of the rendered prefixes.
\<close>

named_theorems sql_simps \<open>rewriting of table operations\<close>
named_theorems result_simps \<open>case analysis of results\<close>
named_theorems error_intros \<open>the errors a composed result can have\<close>

section \<open>Types\<close>

type_synonym uuid = "128 word"
type_synonym u64 = "64 word"
type_synonym u32 = "32 word"

text \<open>A result is an error on the left or a value on the right, as \<open>Result<T, E>\<close>.\<close>

datatype app_error =
    Validation string
  | Compatibility string
  | Serialization string
  | Ipc string
  | OutputLimitExceeded u64
  | Transfer string
  | Integrity string
  | Permission string
  | PasswordlessSudoRequired
  | RestorePointAlreadyConsumed
  | DiskSpace string
  | Cancelled
  | RemoteStateUncertain string
  | NotReady
  | Security string
  | UnsupportedScriptPackage string
  | ForbiddenScriptField string
  | UnsafeScriptPackage string
  | ScriptConfirmationRequired string
  | ScriptPreviewExpired string
  | UpdateError string
  | Io string
  | Database string
  | Migration string
  | Ssh string
  | SshCommand int string
  | Tauri string

type_synonym 'a app_result = "app_error + 'a"

fun code :: "app_error \<Rightarrow> string" where
  "code (Validation _) = ''validation''"
| "code (Compatibility _) = ''compatibility''"
| "code (Serialization _) = ''serialization''"
| "code (Ipc _) = ''ipc''"
| "code (OutputLimitExceeded _) = ''output_limit_exceeded''"
| "code (Transfer _) = ''transfer''"
| "code (Integrity _) = ''integrity''"
| "code (Permission _) = ''permission''"
| "code PasswordlessSudoRequired = ''passwordless_sudo_required''"
| "code RestorePointAlreadyConsumed = ''restore_point_already_consumed''"
| "code (DiskSpace _) = ''disk_space''"
| "code Cancelled = ''cancelled''"
| "code (RemoteStateUncertain _) = ''remote_state_uncertain''"
| "code NotReady = ''not_ready''"
| "code (Security _) = ''security''"
| "code (UnsupportedScriptPackage _) = ''unsupported_script_package''"
| "code (ForbiddenScriptField _) = ''forbidden_script_field''"
| "code (UnsafeScriptPackage _) = ''unsafe_script_package''"
| "code (ScriptConfirmationRequired _) = ''script_confirmation_required''"
| "code (ScriptPreviewExpired _) = ''script_preview_expired''"
| "code (UpdateError _) = ''update''"
| "code (Io _) = ''io''"
| "code (Database _) = ''database''"
| "code (Migration _) = ''migration''"
| "code (Ssh _) = ''ssh''"
| "code (SshCommand _ _) = ''ssh_command''"
| "code (Tauri _) = ''tauri''"

fun retryable_error :: "app_error \<Rightarrow> bool" where
  "retryable_error (Io _) = True"
| "retryable_error (Ssh _) = True"
| "retryable_error (Transfer _) = True"
| "retryable_error (DiskSpace _) = True"
| "retryable_error (RemoteStateUncertain _) = True"
| "retryable_error _ = False"

text \<open>Combinators for results: \<open>?\<close>, \<open>map\<close> and \<open>transpose\<close> of the source.\<close>

fun bind_res :: "'e + 'a \<Rightarrow> ('a \<Rightarrow> 'e + 'b) \<Rightarrow> 'e + 'b" where
  "bind_res (Inl e) f = Inl e"
| "bind_res (Inr x) f = f x"

fun map_res :: "('a \<Rightarrow> 'b) \<Rightarrow> 'e + 'a \<Rightarrow> 'e + 'b" where
  "map_res f (Inl e) = Inl e"
| "map_res f (Inr x) = Inr (f x)"

fun map_err :: "('e \<Rightarrow> 'f) \<Rightarrow> 'e + 'a \<Rightarrow> 'f + 'a" where
  "map_err f (Inl e) = Inl (f e)"
| "map_err f (Inr x) = Inr x"

text \<open>\<open>ok_or\<close> of an option.\<close>

definition ok_or :: "'e \<Rightarrow> 'a option \<Rightarrow> 'e + 'a" where
  "ok_or e v = (case v of None \<Rightarrow> Inl e | Some x \<Rightarrow> Inr x)"

fun transpose_opt :: "('a \<Rightarrow> 'b app_result) \<Rightarrow> 'a option \<Rightarrow> 'b option app_result" where
  "transpose_opt f None = Inr None"
| "transpose_opt f (Some x) = map_res Some (f x)"

fun collect_res :: "('a \<Rightarrow> 'b app_result) \<Rightarrow> 'a list \<Rightarrow> 'b list app_result" where
  "collect_res f [] = Inr []"
| "collect_res f (x # xs) =
     (case f x of Inl e \<Rightarrow> Inl e | Inr y \<Rightarrow> map_res ((#) y) (collect_res f xs))"

definition is_ok :: "'e + 'a \<Rightarrow> bool" where
  "is_ok r \<longleftrightarrow> (case r of Inl _ \<Rightarrow> False | Inr _ \<Rightarrow> True)"

lemma is_ok_simps [simp]: "is_ok (Inr x)" "\<not> is_ok (Inl e)"
  by (simp_all add: is_ok_def)

lemma bind_res_Inr [result_simps]: "bind_res r f = Inr y \<longleftrightarrow> (\<exists>x. r = Inr x \<and> f x = Inr y)"
  by (cases r) auto

lemma map_res_Inr [result_simps]: "map_res f r = Inr y \<longleftrightarrow> (\<exists>x. r = Inr x \<and> y = f x)"
  by (cases r) auto

lemma map_res_Inl [result_simps]: "map_res f r = Inl e \<longleftrightarrow> r = Inl e"
  by (cases r) auto

lemma map_err_Inr [result_simps]: "map_err f r = Inr x \<longleftrightarrow> r = Inr x"
  by (cases r) auto

lemma ok_or_Inr [result_simps]: "ok_or e v = Inr x \<longleftrightarrow> v = Some x"
  by (cases v) (auto simp: ok_or_def)

text \<open>Every error of a result satisfies a predicate; the rules follow the shape of the code.\<close>

definition fails_only :: "('e \<Rightarrow> bool) \<Rightarrow> 'e + 'a \<Rightarrow> bool" where
  "fails_only P r \<longleftrightarrow> (case r of Inl e \<Rightarrow> P e | Inr _ \<Rightarrow> True)"

lemma fails_onlyD: "fails_only P r \<Longrightarrow> r = Inl e \<Longrightarrow> P e"
  by (simp add: fails_only_def)

lemma fails_only_simps [simp]: "fails_only P (Inl e) = P e" "fails_only P (Inr x)"
  by (simp_all add: fails_only_def)

lemma fails_only_bind [error_intros]:
  "fails_only P r \<Longrightarrow> (\<And>x. fails_only P (f x)) \<Longrightarrow> fails_only P (bind_res r f)"
  by (cases r) auto

lemma fails_only_map_err [error_intros]: "(\<And>e. P (f e)) \<Longrightarrow> fails_only P (map_err f r)"
  by (cases r) auto

lemma fails_only_ok_or [error_intros]: "P e \<Longrightarrow> fails_only P (ok_or e v)"
  by (cases v) (auto simp: ok_or_def)

lemma fails_only_if [error_intros]:
  "fails_only P r \<Longrightarrow> fails_only P t \<Longrightarrow> fails_only P (if b then r else t)"
  by simp

lemma fails_only_Inr [error_intros]: "fails_only P (Inr x)"
  by simp

lemma fails_only_Inl [error_intros]: "P e \<Longrightarrow> fails_only P (Inl e)"
  by simp

lemma collect_res_all:
  assumes "\<forall>x \<in> set xs. f x = Inr (g x)"
  shows "collect_res f xs = Inr (map g xs)"
  using assms by (induction xs) auto

section \<open>Strings\<close>

text \<open>A Rust \<open>String\<close> is its list of UTF-8 bytes; \<open>len()\<close> is \<open>length\<close>.\<close>

definition byte :: "char \<Rightarrow> nat" where
  "byte c = of_char c"

text \<open>Continuation bytes are 0x80 to 0xBF; every other byte starts a character.\<close>

definition is_cont :: "char \<Rightarrow> bool" where
  "is_cont c \<longleftrightarrow> 128 \<le> byte c \<and> byte c < 192"

definition char_count :: "string \<Rightarrow> nat" where
  "char_count s = length (filter (\<lambda>c. \<not> is_cont c) s)"

definition is_char_boundary :: "string \<Rightarrow> nat \<Rightarrow> bool" where
  "is_char_boundary s i \<longleftrightarrow>
     i = 0 \<or> i = length s \<or> (i < length s \<and> \<not> is_cont (s ! i))"

text \<open>The loop \<open>while !is_char_boundary(boundary) { boundary -= 1 }\<close>.\<close>

fun floor_boundary :: "string \<Rightarrow> nat \<Rightarrow> nat" where
  "floor_boundary s 0 = 0"
| "floor_boundary s (Suc i) =
     (if is_char_boundary s (Suc i) then Suc i else floor_boundary s i)"

definition truncate_utf8 :: "string \<Rightarrow> nat \<Rightarrow> string" where
  "truncate_utf8 s n = (if length s \<le> n then s else take (floor_boundary s n) s)"

definition cap_utf8 :: "string option \<Rightarrow> nat \<Rightarrow> string option" where
  "cap_utf8 v n = map_option (\<lambda>s. if length s > n then take (floor_boundary s n) s else s) v"

definition ssh_command :: "int \<Rightarrow> string \<Rightarrow> app_error" where
  "ssh_command exit_status stderr =
     (let max_stderr_bytes = 8 * 1024 in
      SshCommand exit_status
        (if length stderr > max_stderr_bytes
         then take (floor_boundary stderr max_stderr_bytes) stderr else stderr))"

definition ascii_lower :: "char \<Rightarrow> char" where
  "ascii_lower c = (if 65 \<le> byte c \<and> byte c \<le> 90 then char_of (byte c + 32) else c)"

definition to_ascii_lowercase :: "string \<Rightarrow> string" where
  "to_ascii_lowercase = map ascii_lower"

definition is_ascii_digit :: "char \<Rightarrow> bool" where
  "is_ascii_digit c \<longleftrightarrow> 48 \<le> byte c \<and> byte c \<le> 57"

definition is_ascii_alphanumeric :: "char \<Rightarrow> bool" where
  "is_ascii_alphanumeric c \<longleftrightarrow>
     is_ascii_digit c \<or> (65 \<le> byte c \<and> byte c \<le> 90) \<or> (97 \<le> byte c \<and> byte c \<le> 122)"

fun starts_with :: "string \<Rightarrow> string \<Rightarrow> bool" where
  "starts_with s [] = True"
| "starts_with [] (p # ps) = False"
| "starts_with (c # cs) (p # ps) = (c = p \<and> starts_with cs ps)"

fun str_contains :: "string \<Rightarrow> string \<Rightarrow> bool" where
  "str_contains [] p = (p = [])"
| "str_contains (c # cs) p = (starts_with (c # cs) p \<or> str_contains cs p)"

text \<open>
  \<open>str::split\<close> on one ASCII character, as a list of segments (never empty).
\<close>

fun split_char :: "char \<Rightarrow> string \<Rightarrow> string list" where
  "split_char d [] = [[]]"
| "split_char d (c # cs) =
     (if c = d then [] # split_char d cs
      else (case split_char d cs of [] \<Rightarrow> [[c]] | w # ws \<Rightarrow> (c # w) # ws))"

text \<open>Decimal notation, as \<open>{}\<close> prints integers.\<close>

fun decimal :: "nat \<Rightarrow> string" where
  "decimal n =
     (if n < 10 then [char_of (48 + n)] else decimal (n div 10) @ [char_of (48 + n mod 10)])"

declare decimal.simps [simp del]

definition decimal_int :: "int \<Rightarrow> string" where
  "decimal_int z = (if z < 0 then ''-'' @ decimal (nat (- z)) else decimal (nat z))"

text \<open>
  \<open>to_string()\<close> of an error. The program's own messages are Chinese; here, as in every message
  of the model, an English gloss stands for the fixed part, and the payload is kept.
\<close>

fun display :: "app_error \<Rightarrow> string" where
  "display (Validation m) = ''invalid input: '' @ m"
| "display (Compatibility m) = ''compatibility check failed: '' @ m"
| "display (Serialization m) = ''serialization failed: '' @ m"
| "display (Ipc m) = ''desktop event channel failed: '' @ m"
| "display (OutputLimitExceeded n) = ''output exceeds '' @ decimal (unat n) @ '' bytes''"
| "display (Transfer m) = ''file transfer failed: '' @ m"
| "display (Integrity m) = ''integrity check failed: '' @ m"
| "display (Permission m) = ''insufficient rights: '' @ m"
| "display PasswordlessSudoRequired = ''the account is not root and has no passwordless sudo''"
| "display RestorePointAlreadyConsumed = ''the restore point has already been used''"
| "display (DiskSpace m) = ''not enough space: '' @ m"
| "display Cancelled = ''operation cancelled''"
| "display (RemoteStateUncertain m) = ''remote state cannot be confirmed: '' @ m"
| "display NotReady = ''data directory is not initialised''"
| "display (Security m) = ''security check failed: '' @ m"
| "display (UnsupportedScriptPackage m) = ''script package version not supported: '' @ m"
| "display (ForbiddenScriptField m) = ''script package has a forbidden field: '' @ m"
| "display (UnsafeScriptPackage m) = ''script package failed its safety check: '' @ m"
| "display (ScriptConfirmationRequired m) = ''script needs a second confirmation: '' @ m"
| "display (ScriptPreviewExpired m) = ''script preview has expired: '' @ m"
| "display (UpdateError m) = ''update failed: '' @ m"
| "display (Io m) = ''I/O operation failed: '' @ m"
| "display (Database m) = ''database operation failed: '' @ m"
| "display (Migration m) = ''database migration failed: '' @ m"
| "display (Ssh m) = ''SSH operation failed: '' @ m"
| "display (SshCommand exit_status stderr) =
     ''SSH command failed (exit code '' @ decimal_int exit_status @ ''): '' @ stderr"
| "display (Tauri m) = ''desktop window operation failed: '' @ m"

text \<open>
  \<open>str::trim\<close> removes Unicode white space. \<open>ws_prefix\<close> gives the number of bytes of the
  white-space character a string starts with (0 if none): U+0009 to U+000D and U+0020,
  U+0085, U+00A0, U+1680, U+2000 to U+200A, U+2028, U+2029, U+202F, U+205F, U+3000.
\<close>

fun ws_prefix :: "nat list \<Rightarrow> nat" where
  "ws_prefix [] = 0"
| "ws_prefix (a # xs) =
     (if (9 \<le> a \<and> a \<le> 13) \<or> a = 32 then 1
      else if a = 194 then (case xs of b # _ \<Rightarrow> if b = 133 \<or> b = 160 then 2 else 0 | _ \<Rightarrow> 0)
      else if a = 225 then
        (case xs of b # c # _ \<Rightarrow> if b = 154 \<and> c = 128 then 3 else 0 | _ \<Rightarrow> 0)
      else if a = 226 then
        (case xs of b # c # _ \<Rightarrow>
           if (b = 128 \<and> (128 \<le> c \<and> c \<le> 138 \<or> c = 168 \<or> c = 169 \<or> c = 175))
              \<or> (b = 129 \<and> c = 159) then 3 else 0
         | _ \<Rightarrow> 0)
      else if a = 227 then
        (case xs of b # c # _ \<Rightarrow> if b = 128 \<and> c = 128 then 3 else 0 | _ \<Rightarrow> 0)
      else 0)"

function trim_start :: "string \<Rightarrow> string" where
  "trim_start s =
     (let n = ws_prefix (map byte s) in if n = 0 \<or> s = [] then s else trim_start (drop n s))"
  by pat_completeness auto
termination
  by (relation "measure length") auto

declare trim_start.simps [simp del]

text \<open>\<open>s.trim().is_empty()\<close>: nothing is left after the leading white space.\<close>

definition is_blank :: "string \<Rightarrow> bool" where
  "is_blank s \<longleftrightarrow> trim_start s = []"

text \<open>\<open>Uuid::to_string\<close>: 32 lower-case hexadecimal digits in groups of 8, 4, 4, 4 and 12.\<close>

definition hex_digit :: "nat \<Rightarrow> char" where
  "hex_digit n = char_of (if n < 10 then 48 + n else 87 + n)"

fun hex_digits :: "nat \<Rightarrow> nat \<Rightarrow> string" where
  "hex_digits 0 v = []"
| "hex_digits (Suc n) v = hex_digits n (v div 16) @ [hex_digit (v mod 16)]"

definition uuid_text :: "uuid \<Rightarrow> string" where
  "uuid_text u =
     (let h = hex_digits 32 (unat u) in
      take 8 h @ ''-'' @ take 4 (drop 8 h) @ ''-'' @ take 4 (drop 12 h) @ ''-''
      @ take 4 (drop 16 h) @ ''-'' @ drop 20 h)"

definition is_uuid_char :: "char \<Rightarrow> bool" where
  "is_uuid_char c \<longleftrightarrow> c \<in> set ''0123456789abcdef-''"

lemma hex_digit_set: "n < 16 \<Longrightarrow> hex_digit n \<in> set ''0123456789abcdef''"
proof -
  assume "n < 16"
  then have "n \<in> set [0..<16]" by simp
  moreover have "\<forall>n \<in> set [0..<16]. hex_digit n \<in> set ''0123456789abcdef''" by code_simp
  ultimately show ?thesis by blast
qed

lemma hex_digits_chars: "set (hex_digits n v) \<subseteq> set ''0123456789abcdef''"
proof (induction n arbitrary: v)
  case 0
  then show ?case by simp
next
  case (Suc n)
  then show ?case using hex_digit_set [of "v mod 16"] by auto
qed

lemma uuid_text_chars: "set (uuid_text u) \<subseteq> set ''0123456789abcdef-''"
proof -
  have "set (take a (drop b h)) \<subseteq> set h" and "set (take a h) \<subseteq> set h" and "set (drop a h) \<subseteq> set h"
    for a b and h :: string
    using set_take_subset set_drop_subset by (fastforce dest: in_set_takeD in_set_dropD)+
  with hex_digits_chars [of 32 "unat u"] show ?thesis
    unfolding uuid_text_def Let_def by (simp only: set_append) (fastforce dest: in_set_takeD in_set_dropD)
qed

subsection \<open>Facts about truncation\<close>

lemma floor_boundary_le: "floor_boundary s n \<le> n"
  by (induction n) auto

lemma floor_boundary_boundary: "is_char_boundary s (floor_boundary s n)"
  by (induction n) (auto simp: is_char_boundary_def)

lemma floor_boundary_greatest:
  "m \<le> n \<Longrightarrow> is_char_boundary s m \<Longrightarrow> m \<le> floor_boundary s n"
  by (induction n) (auto simp: le_Suc_eq)

lemma truncate_utf8_length: "length (truncate_utf8 s n) \<le> n"
  using floor_boundary_le [of s n] by (auto simp: truncate_utf8_def)

lemma cap_utf8_length: "cap_utf8 v n = Some s \<Longrightarrow> length s \<le> n"
  using floor_boundary_le [of _ n]
  by (cases v) (auto simp: cap_utf8_def min_le_iff_disj split: if_splits)

section \<open>Tables\<close>

text \<open>
  A table is the list of its rows. \<open>row_by\<close> is \<open>SELECT \<dots> WHERE id=?\<close> with
  \<open>fetch_optional\<close>; \<open>upd_where\<close> is \<open>UPDATE \<dots> SET \<dots> WHERE\<close>; \<open>affected\<close> is
  \<open>rows_affected()\<close> of that statement.
\<close>

definition row_by :: "('r \<Rightarrow> 'k) \<Rightarrow> 'k \<Rightarrow> 'r list \<Rightarrow> 'r option" where
  "row_by key k rows = List.find (\<lambda>r. key r = k) rows"

definition upd_where :: "('r \<Rightarrow> bool) \<Rightarrow> ('r \<Rightarrow> 'r) \<Rightarrow> 'r list \<Rightarrow> 'r list" where
  "upd_where p f rows = map (\<lambda>r. if p r then f r else r) rows"

definition affected :: "('r \<Rightarrow> bool) \<Rightarrow> 'r list \<Rightarrow> nat" where
  "affected p rows = length (filter p rows)"

lemma row_by_Nil [sql_simps, simp]: "row_by key k [] = None"
  by (simp add: row_by_def)

lemma row_by_Cons [sql_simps, simp]:
  "row_by key k (r # rows) = (if key r = k then Some r else row_by key k rows)"
  by (simp add: row_by_def)

lemma row_by_Some: "row_by key k rows = Some r \<Longrightarrow> r \<in> set rows \<and> key r = k"
  by (induction rows) (auto split: if_splits)

lemma row_by_None: "row_by key k rows = None \<longleftrightarrow> k \<notin> key ` set rows"
  by (induction rows) auto

lemma row_by_distinct:
  "distinct (map key rows) \<Longrightarrow> r \<in> set rows \<Longrightarrow> row_by key (key r) rows = Some r"
  by (induction rows) (auto simp: rev_image_eqI)

lemma row_by_append:
  "row_by key k (xs @ ys) = (case row_by key k xs of None \<Rightarrow> row_by key k ys | Some r \<Rightarrow> Some r)"
  by (induction xs) auto

lemma upd_where_Nil [simp]: "upd_where p f [] = []"
  by (simp add: upd_where_def)

lemma upd_where_Cons [simp]:
  "upd_where p f (r # rows) = (if p r then f r else r) # upd_where p f rows"
  by (simp add: upd_where_def)

lemma affected_Nil [simp]: "affected p [] = 0"
  by (simp add: affected_def)

lemma affected_Cons [simp]: "affected p (r # rows) = (if p r then Suc (affected p rows) else affected p rows)"
  by (simp add: affected_def)

lemma set_upd_where: "set (upd_where p f rows) = (\<lambda>r. if p r then f r else r) ` set rows"
  by (simp add: upd_where_def)

lemma upd_where_keys:
  "(\<And>r. key (f r) = key r) \<Longrightarrow> map key (upd_where p f rows) = map key rows"
  by (simp add: upd_where_def)

lemma row_by_upd_where [sql_simps]:
  assumes "\<And>r. key (f r) = key r"
  shows "row_by key j (upd_where (\<lambda>r. key r = k \<and> p r) f rows) =
    (if j = k then map_option (\<lambda>r. if p r then f r else r) (row_by key j rows)
     else row_by key j rows)"
  using assms by (induction rows) auto

lemma affected_zero: "affected p rows = 0 \<Longrightarrow> upd_where p f rows = rows"
  by (induction rows) (auto split: if_splits)

lemma affected_by_key:
  assumes "distinct (map key rows)"
  shows "affected (\<lambda>r. key r = k \<and> p r) rows =
    (case row_by key k rows of None \<Rightarrow> 0 | Some r \<Rightarrow> if p r then 1 else 0)"
  using assms
proof (induction rows)
  case Nil
  then show ?case by simp
next
  case (Cons a rows)
  show ?case
  proof (cases "key a = k")
    case True
    with Cons.prems have "k \<notin> key ` set rows" by simp
    then have "affected (\<lambda>r. key r = k \<and> p r) rows = 0"
      by (auto simp: affected_def filter_empty_conv)
    with True show ?thesis by simp
  next
    case False
    with Cons show ?thesis by simp
  qed
qed

text \<open>
  A statement that would leave a row violating a \<open>CHECK\<close> or foreign-key constraint fails as
  a whole and changes nothing; \<open>run_update\<close> returns the number of affected rows otherwise.
\<close>

definition run_update ::
  "('r \<Rightarrow> bool) \<Rightarrow> ('r \<Rightarrow> bool) \<Rightarrow> ('r \<Rightarrow> 'r) \<Rightarrow> 'r list \<Rightarrow> (nat \<times> 'r list) app_result" where
  "run_update chk p f rows =
     (if list_all (\<lambda>r. p r \<longrightarrow> chk (f r)) rows then Inr (affected p rows, upd_where p f rows)
      else Inl (Database ''constraint failed''))"

lemma run_update_Inr [result_simps]:
  "run_update chk p f rows = Inr (n, rows') \<longleftrightarrow>
     list_all (\<lambda>r. p r \<longrightarrow> chk (f r)) rows \<and> n = affected p rows \<and> rows' = upd_where p f rows"
  by (auto simp: run_update_def)

lemma list_all_upd_where:
  assumes "list_all P rows" and "\<And>r. r \<in> set rows \<Longrightarrow> P r \<Longrightarrow> p r \<Longrightarrow> P (f r)"
  shows "list_all P (upd_where p f rows)"
  using assms by (auto simp: list_all_iff set_upd_where)

text \<open>
  How one write changes a table: some rows are updated, each along \<open>P\<close>, and new rows come after
  the old ones.
\<close>

definition grows :: "('r \<Rightarrow> 'r \<Rightarrow> bool) \<Rightarrow> 'r list \<Rightarrow> 'r list \<Rightarrow> bool" where
  "grows P rows rows' \<longleftrightarrow> (\<exists>p f new. rows' = upd_where p f rows @ new \<and> (\<forall>r. p r \<longrightarrow> P r (f r)))"

lemma upd_where_none: "upd_where (\<lambda>_. False) f rows = rows"
  by (simp add: upd_where_def)

lemma grows_append: "grows P rows (rows @ new)"
  unfolding grows_def using upd_where_none [of id rows] by (metis (full_types))

lemma grows_refl [simp]: "grows P rows rows"
  using grows_append [of P rows "[]"] by simp

lemma grows_upd: "(\<And>r. p r \<Longrightarrow> P r (f r)) \<Longrightarrow> grows P rows (upd_where p f rows)"
  unfolding grows_def by (metis append_Nil2)

lemma grows_row:
  assumes "grows P rows rows'" and "\<And>r r'. P r r' \<Longrightarrow> key r' = key r" and "row_by key k rows = Some r"
  shows "\<exists>r'. row_by key k rows' = Some r' \<and> (r' = r \<or> P r r')"
proof -
  obtain p f new where g: "rows' = upd_where p f rows @ new" "\<And>r. p r \<Longrightarrow> P r (f r)"
    using assms(1) unfolding grows_def by blast
  have keys: "p a \<Longrightarrow> key (f a) = key a" for a using assms(2) [OF g(2)] .
  have "row_by key k (upd_where p f rows) = Some (if p r then f r else r)"
    using assms(3) keys by (induction rows) (auto split: if_splits)
  then show ?thesis using g by (auto simp: row_by_append)
qed

text \<open>
  A database operation maps the state to a result and a new state; an error leaves whatever
  the statements before it have written. \<open>bind_st\<close> sequences two operations with \<open>?\<close>.
\<close>

type_synonym ('s, 'a) st = "'s \<Rightarrow> 'a app_result \<times> 's"

definition bind_st ::
  "('s \<Rightarrow> ('e + 'a) \<times> 's) \<Rightarrow> ('a \<Rightarrow> 's \<Rightarrow> ('e + 'b) \<times> 's) \<Rightarrow> 's \<Rightarrow> ('e + 'b) \<times> 's" where
  "bind_st m f = (\<lambda>s. case m s of (Inl e, s') \<Rightarrow> (Inl e, s') | (Inr x, s') \<Rightarrow> f x s')"

definition ret_st :: "'a \<Rightarrow> 's \<Rightarrow> ('e + 'a) \<times> 's" where
  "ret_st x = (\<lambda>s. (Inr x, s))"

definition fail_st :: "'e \<Rightarrow> 's \<Rightarrow> ('e + 'a) \<times> 's" where
  "fail_st e = (\<lambda>s. (Inl e, s))"

definition read_st :: "('s \<Rightarrow> 'e + 'a) \<Rightarrow> 's \<Rightarrow> ('e + 'a) \<times> 's" where
  "read_st f = (\<lambda>s. (f s, s))"

text \<open>\<open>let _ = \<dots>\<close>: the result of an operation is dropped, its state is kept.\<close>

definition ignore_st :: "('s \<Rightarrow> ('e + 'a) \<times> 's) \<Rightarrow> 's \<Rightarrow> 's" where
  "ignore_st m s = snd (m s)"

lemma ret_st_simp [simp]: "ret_st x s = (Inr x, s)"
  by (simp add: ret_st_def)

lemma fail_st_simp [simp]: "fail_st e s = (Inl e, s)"
  by (simp add: fail_st_def)

lemma read_st_simp [simp]: "read_st f s = (f s, s)"
  by (simp add: read_st_def)

lemma bind_read [simp]:
  "bind_st (read_st f) g s = (case f s of Inl e \<Rightarrow> (Inl e, s) | Inr x \<Rightarrow> g x s)"
  by (simp add: bind_st_def split: sum.split)

lemma bind_ret [simp]: "bind_st (ret_st x) g = g x"
  by (simp add: bind_st_def fun_eq_iff)

text \<open>A predicate on states that every branch of an operation keeps.\<close>

definition keeps :: "('s \<Rightarrow> bool) \<Rightarrow> ('s \<Rightarrow> ('e + 'a) \<times> 's) \<Rightarrow> bool" where
  "keeps I m \<longleftrightarrow> (\<forall>s. I s \<longrightarrow> I (snd (m s)))"

named_theorems keeps_intros \<open>invariants kept by composed operations\<close>

lemma keepsI: "(\<And>s. I s \<Longrightarrow> I (snd (m s))) \<Longrightarrow> keeps I m"
  by (simp add: keeps_def)

lemma keepsD: "keeps I m \<Longrightarrow> I s \<Longrightarrow> I (snd (m s))"
  by (simp add: keeps_def)

lemma keeps_bind [keeps_intros]:
  "keeps I m \<Longrightarrow> (\<And>x. keeps I (f x)) \<Longrightarrow> keeps I (bind_st m f)"
  by (auto simp: keeps_def bind_st_def split: prod.split sum.split)

lemma keeps_ret [keeps_intros]: "keeps I (ret_st x)"
  by (simp add: keeps_def)

lemma keeps_fail [keeps_intros]: "keeps I (fail_st e)"
  by (simp add: keeps_def)

lemma keeps_read [keeps_intros]: "keeps I (read_st f)"
  by (simp add: keeps_def)

lemma keeps_if [keeps_intros]: "keeps I m \<Longrightarrow> keeps I n \<Longrightarrow> keeps I (if b then m else n)"
  by simp

lemma keeps_case_sum:
  "(\<And>e. keeps I (f e)) \<Longrightarrow> (\<And>x. keeps I (g x)) \<Longrightarrow> keeps I (case r of Inl e \<Rightarrow> f e | Inr x \<Rightarrow> g x)"
  by (simp split: sum.split)

lemma keeps_case_option:
  "keeps I m \<Longrightarrow> (\<And>x. keeps I (g x)) \<Longrightarrow> keeps I (case v of None \<Rightarrow> m | Some x \<Rightarrow> g x)"
  by (simp split: option.split)

lemma keeps_case_prod: "(\<And>a b. keeps I (g a b)) \<Longrightarrow> keeps I (case p of (a, b) \<Rightarrow> g a b)"
  by (simp split: prod.split)

lemma keeps_let: "(\<And>x. keeps I (g x)) \<Longrightarrow> keeps I (let x = v in g x)"
  by (simp add: Let_def)

text \<open>
  What holds after an operation that succeeds (\<open>Q\<close>, with its value) and after one that fails (\<open>E\<close>),
  when \<open>I\<close> held before.
\<close>

definition triple ::
  "('s \<Rightarrow> bool) \<Rightarrow> ('s \<Rightarrow> ('e + 'a) \<times> 's) \<Rightarrow> ('a \<Rightarrow> 's \<Rightarrow> bool) \<Rightarrow> ('s \<Rightarrow> bool) \<Rightarrow> bool"
where
  "triple I m Q E \<longleftrightarrow> (\<forall>s. I s \<longrightarrow> (case m s of (Inr x, s') \<Rightarrow> Q x s' | (Inl _, s') \<Rightarrow> E s'))"

lemma triple_keeps: "keeps I m \<Longrightarrow> (\<And>s. I s \<Longrightarrow> E s) \<Longrightarrow> triple I m (\<lambda>_. I) E"
  unfolding triple_def by (auto dest: keepsD split: prod.split sum.split)

lemma tripleI:
  "(\<And>s x s'. I s \<Longrightarrow> m s = (Inr x, s') \<Longrightarrow> Q x s') \<Longrightarrow> (\<And>s e s'. I s \<Longrightarrow> m s = (Inl e, s') \<Longrightarrow> E s') \<Longrightarrow>
     triple I m Q E"
  by (simp add: triple_def split: prod.split sum.split)

lemma tripleD:
  assumes "triple I m Q E" and "I s"
  shows "fst (m s) = Inr x \<Longrightarrow> Q x (snd (m s))" and "fst (m s) = Inl e \<Longrightarrow> E (snd (m s))"
  using assms by (cases "m s"; cases "fst (m s)"; fastforce simp: triple_def)+

lemma triple_bind:
  "triple I m Q E \<Longrightarrow> (\<And>x. triple (Q x) (k x) R E) \<Longrightarrow> triple I (bind_st m k) R E"
  by (fastforce simp: triple_def bind_st_def split: prod.split sum.split)

lemma triple_keep:
  "keeps I m \<Longrightarrow> (\<And>s. I s \<Longrightarrow> E s) \<Longrightarrow> (\<And>x. triple I (k x) R E) \<Longrightarrow> triple I (bind_st m k) R E"
  by (rule triple_bind [OF triple_keeps])

lemma triple_conseq:
  "triple I m Q E \<Longrightarrow> (\<And>s. I' s \<Longrightarrow> I s) \<Longrightarrow> (\<And>x s. Q x s \<Longrightarrow> Q' x s) \<Longrightarrow> (\<And>s. E s \<Longrightarrow> E' s) \<Longrightarrow>
     triple I' m Q' E'"
  by (fastforce simp: triple_def split: prod.splits sum.splits)

lemma triple_ret: "(\<And>s. I s \<Longrightarrow> Q x s) \<Longrightarrow> triple I (ret_st x) Q E"
  by (simp add: triple_def ret_st_def)

lemma triple_fail_st: "(\<And>s. I s \<Longrightarrow> E s) \<Longrightarrow> triple I (fail_st e) Q E"
  by (simp add: triple_def fail_st_def)

lemma triple_read: "(\<And>s x. I s \<Longrightarrow> f s = Inr x \<Longrightarrow> Q x s) \<Longrightarrow> (\<And>s. I s \<Longrightarrow> E s) \<Longrightarrow> triple I (read_st f) Q E"
  by (simp add: triple_def read_st_def split: sum.split)

lemma triple_if: "(b \<Longrightarrow> triple I m Q E) \<Longrightarrow> (\<not> b \<Longrightarrow> triple I n Q E) \<Longrightarrow> triple I (if b then m else n) Q E"
  by simp

text \<open>A fact that does not depend on the state is a premise.\<close>

lemma triple_fact: "(P \<Longrightarrow> triple I m Q E) \<Longrightarrow> triple (\<lambda>s. P \<and> I s) m Q E"
  by (auto simp: triple_def)

section \<open>Text-encoded enums\<close>

text \<open>
  Every status column of the database holds the text \<open>as_str\<close> of an enum, read back with
  \<open>TryFrom<&str>\<close> or \<open>FromStr\<close>. What the repositories rely on is the pair of laws below;
  each enum of the program interprets this locale.
\<close>

locale str_enum =
  fixes as_str :: "'e \<Rightarrow> string" and parse :: "string \<Rightarrow> 'e app_result"
  assumes parse_as_str: "parse (as_str x) = Inr x"
    and parse_sound: "parse s = Inr x \<Longrightarrow> s = as_str x"
begin

lemma parse_iff: "parse s = Inr x \<longleftrightarrow> s = as_str x"
  using parse_as_str parse_sound by auto

lemma as_str_inject: "as_str x = as_str y \<longleftrightarrow> x = y"
  by (metis parse_as_str sum.inject(2))

lemma parse_total: "is_ok (parse s) \<longleftrightarrow> s \<in> range as_str"
  by (cases "parse s") (auto simp: parse_as_str dest: parse_sound)

end

section \<open>Status machines\<close>

text \<open>
  A status machine has a transition test and a class of sealed states that no transition
  leaves. A run of the machine never leaves a sealed state.
\<close>

locale status_machine =
  fixes can_step :: "'s \<Rightarrow> 's \<Rightarrow> bool" and sealed :: "'s \<Rightarrow> bool"
  assumes sealed_step: "sealed s \<Longrightarrow> can_step s t \<Longrightarrow> t = s"
begin

lemma sealed_run: "can_step\<^sup>*\<^sup>* s t \<Longrightarrow> sealed s \<Longrightarrow> t = s"
  by (induction rule: rtranclp_induct) (auto dest: sealed_step)

lemma not_sealed_if_moved: "can_step\<^sup>*\<^sup>* s t \<Longrightarrow> s \<noteq> t \<Longrightarrow> \<not> sealed s"
  using sealed_run by blast

end

end
