(* ===== verification/Transfer_Jobs.thy ===== *)
theory Transfer_Jobs
  imports Qz_Prelude
begin

text \<open>
  File-transfer jobs: the enums and the retry policy of \<^verbatim>\<open>src-tauri/src/domain/transfer_job.rs\<close>
  and the table operations of \<^verbatim>\<open>src-tauri/src/repositories/transfer_job_repository.rs\<close> over
  the table of migration 0009. A row of \<open>transfer_jobs\<close> is the record \<open>transfer_job\<close>, whose
  integer columns hold SQLite integers (\<open>int\<close>) and whose \<open>REAL\<close> columns hold rationals (no
  operation of the repository computes with them). Each operation takes the clock reading
  \<open>now_millis()\<close> and freshly drawn identifiers as arguments. The connection pool is assumed
  to execute every statement; the constraints of the table are checked.
\<close>

section \<open>Domain\<close>

datatype transfer_direction = Upload | Download

fun direction_as_str :: "transfer_direction \<Rightarrow> string" where
  "direction_as_str Upload = ''upload''"
| "direction_as_str Download = ''download''"

definition direction_try_from :: "string \<Rightarrow> transfer_direction app_result" where
  "direction_try_from value =
     (if value = ''upload'' then Inr Upload
      else if value = ''download'' then Inr Download
      else Inl (Validation (''unknown transfer direction: '' @ value)))"

interpretation direction_enum: str_enum direction_as_str direction_try_from
proof unfold_locales
  fix x show "direction_try_from (direction_as_str x) = Inr x"
    by (cases x) (simp_all add: direction_try_from_def)
next
  fix s x assume "direction_try_from s = Inr x"
  then show "s = direction_as_str x"
    by (auto simp: direction_try_from_def split: if_splits)
qed

datatype transfer_job_status =
  TQueued | TConnecting | TTransferring | TVerifying | TFinalizing |
  TSucceeded | TFailed | TCancelled | TUncertain

fun job_status_as_str :: "transfer_job_status \<Rightarrow> string" where
  "job_status_as_str TQueued = ''queued''"
| "job_status_as_str TConnecting = ''connecting''"
| "job_status_as_str TTransferring = ''transferring''"
| "job_status_as_str TVerifying = ''verifying''"
| "job_status_as_str TFinalizing = ''finalizing''"
| "job_status_as_str TSucceeded = ''succeeded''"
| "job_status_as_str TFailed = ''failed''"
| "job_status_as_str TCancelled = ''cancelled''"
| "job_status_as_str TUncertain = ''uncertain''"

definition job_status_try_from :: "string \<Rightarrow> transfer_job_status app_result" where
  "job_status_try_from value =
     (if value = ''queued'' then Inr TQueued
      else if value = ''connecting'' then Inr TConnecting
      else if value = ''transferring'' then Inr TTransferring
      else if value = ''verifying'' then Inr TVerifying
      else if value = ''finalizing'' then Inr TFinalizing
      else if value = ''succeeded'' then Inr TSucceeded
      else if value = ''failed'' then Inr TFailed
      else if value = ''cancelled'' then Inr TCancelled
      else if value = ''uncertain'' then Inr TUncertain
      else Inl (Validation (''unknown transfer status: '' @ value)))"

interpretation job_status_enum: str_enum job_status_as_str job_status_try_from
proof unfold_locales
  fix x show "job_status_try_from (job_status_as_str x) = Inr x"
    by (cases x) (simp_all add: job_status_try_from_def)
next
  fix s x assume "job_status_try_from s = Inr x"
  then show "s = job_status_as_str x"
    by (auto simp: job_status_try_from_def split: if_splits)
qed

fun is_terminal :: "transfer_job_status \<Rightarrow> bool" where
  "is_terminal TSucceeded = True"
| "is_terminal TFailed = True"
| "is_terminal TCancelled = True"
| "is_terminal TUncertain = True"
| "is_terminal _ = False"

fun is_active :: "transfer_job_status \<Rightarrow> bool" where
  "is_active TConnecting = True"
| "is_active TTransferring = True"
| "is_active TVerifying = True"
| "is_active TFinalizing = True"
| "is_active _ = False"

definition can_transition_to :: "transfer_job_status \<Rightarrow> transfer_job_status \<Rightarrow> bool" where
  "can_transition_to self nxt =
     (if self = nxt then True
      else case self of
        TQueued \<Rightarrow> nxt \<in> {TConnecting, TCancelled}
      | TConnecting \<Rightarrow> nxt \<in> {TTransferring, TFailed, TCancelled, TUncertain}
      | TTransferring \<Rightarrow> nxt \<in> {TVerifying, TFinalizing, TFailed, TCancelled, TUncertain}
      | TVerifying \<Rightarrow> nxt \<in> {TFinalizing, TFailed, TCancelled, TUncertain}
      | TFinalizing \<Rightarrow> nxt \<in> {TSucceeded, TFailed, TCancelled, TUncertain}
      | TFailed \<Rightarrow> nxt \<in> {TQueued}
      | TUncertain \<Rightarrow> nxt \<in> {TQueued}
      | TSucceeded \<Rightarrow> False
      | TCancelled \<Rightarrow> False)"

interpretation job_machine: status_machine can_transition_to "\<lambda>s. s = TSucceeded \<or> s = TCancelled"
  by unfold_locales (auto simp: can_transition_to_def split: if_splits)

lemma status_trichotomy: "s = TQueued \<or> is_active s \<or> is_terminal s"
  by (cases s) auto

lemma active_not_terminal [simp]: "is_active s \<Longrightarrow> \<not> is_terminal s"
  by (cases s) auto

lemma active_not_queued [simp]: "is_active s \<Longrightarrow> s \<noteq> TQueued"
  by (cases s) auto

lemma terminal_not_queued [simp]: "is_terminal s \<Longrightarrow> s \<noteq> TQueued"
  by (cases s) auto

datatype transfer_phase = PConnecting | PTransferring | PVerifying | PFinalizing

fun status_from_phase :: "transfer_phase \<Rightarrow> transfer_job_status" where
  "status_from_phase PConnecting = TConnecting"
| "status_from_phase PTransferring = TTransferring"
| "status_from_phase PVerifying = TVerifying"
| "status_from_phase PFinalizing = TFinalizing"

lemma status_from_phase_active [simp]: "is_active (status_from_phase p)"
  by (cases p) auto

record transfer_job =
  tj_id :: uuid
  tj_execution_id :: "uuid option"
  tj_server_id :: string
  tj_direction :: transfer_direction
  tj_source_path :: string
  tj_target_path :: string
  tj_overwrite :: bool
  tj_verification :: string
  tj_status :: transfer_job_status
  tj_transferred :: int
  tj_total :: "int option"
  tj_percent :: "rat option"
  tj_bytes_per_second :: "rat option"
  tj_average_bytes_per_second :: "rat option"
  tj_eta_seconds :: "int option"
  tj_attempt_count :: int
  tj_max_attempts :: int
  tj_cancel_requested :: bool
  tj_retryable :: bool
  tj_error_category :: "string option"
  tj_error_message :: "string option"
  tj_sha256 :: "string option"
  tj_location :: "string option"
  tj_created_at :: int
  tj_updated_at :: int
  tj_started_at :: "int option"
  tj_finished_at :: "int option"

record new_transfer_job =
  nj_server_id :: string
  nj_direction :: transfer_direction
  nj_source_path :: string
  nj_target_path :: string
  nj_overwrite :: bool
  nj_verification :: string

definition non_transient_markers :: "string list" where
  "non_transient_markers =
     [''auth'', ''host key'', ''fingerprint'', ''permission'', ''denied'', ''disk'',
      ''no space'', ''integrity'', ''checksum'', ''hash mismatch'']"

definition can_automatically_retry :: "string \<Rightarrow> string \<Rightarrow> int \<Rightarrow> int \<Rightarrow> bool" where
  "can_automatically_retry category message attempt_count max_attempts =
     (if attempt_count \<ge> max_attempts \<or> category \<notin> {''io'', ''ssh'', ''transfer''} then False
      else \<not> list_ex (str_contains (to_ascii_lowercase message)) non_transient_markers)"

section \<open>Repository\<close>

text \<open>The tables that the operations read: jobs, and the two tables they reference.\<close>

record transfer_db =
  db_servers :: "string list"
  db_executions :: "uuid list"
  db_jobs :: "transfer_job list"

record transfer_job_finish =
  fin_status :: transfer_job_status
  fin_retryable :: bool
  fin_error_category :: "string option"
  fin_error_message :: "string option"
  fin_sha256 :: "string option"
  fin_location :: "string option"

datatype cancel_transfer_action =
  CancelledQueued | SignalExecution uuid | AwaitExecutionId

text \<open>The \<open>CHECK\<close> and foreign-key constraints of migration 0009.\<close>

definition opt_all :: "('a \<Rightarrow> bool) \<Rightarrow> 'a option \<Rightarrow> bool" where
  "opt_all p v \<longleftrightarrow> (case v of None \<Rightarrow> True | Some x \<Rightarrow> p x)"

lemma opt_all_simps [simp]: "opt_all p None" "opt_all p (Some x) = p x"
  by (simp_all add: opt_all_def)

definition job_row_ok :: "transfer_db \<Rightarrow> transfer_job \<Rightarrow> bool" where
  "job_row_ok db r \<longleftrightarrow>
     tj_server_id r \<in> set (db_servers db)
     \<and> opt_all (\<lambda>e. e \<in> set (db_executions db)) (tj_execution_id r)
     \<and> tj_verification r \<in> {''balanced'', ''strict'', ''transport_only''}
     \<and> 0 \<le> tj_transferred r
     \<and> opt_all (\<lambda>v. 0 \<le> v) (tj_total r)
     \<and> opt_all (\<lambda>v. 0 \<le> v \<and> v \<le> 100) (tj_percent r)
     \<and> opt_all (\<lambda>v. 0 \<le> v) (tj_bytes_per_second r)
     \<and> opt_all (\<lambda>v. 0 \<le> v) (tj_average_bytes_per_second r)
     \<and> opt_all (\<lambda>v. 0 \<le> v) (tj_eta_seconds r)
     \<and> 0 \<le> tj_attempt_count r
     \<and> 1 \<le> tj_max_attempts r \<and> tj_max_attempts r \<le> 10"

text \<open>\<open>UPDATE transfer_jobs SET f WHERE p\<close>: the number of affected rows.\<close>

definition update_jobs ::
  "(transfer_job \<Rightarrow> bool) \<Rightarrow> (transfer_job \<Rightarrow> transfer_job) \<Rightarrow> (transfer_db, nat) st" where
  "update_jobs p f db =
     (case run_update (job_row_ok db) p f (db_jobs db) of
        Inl e \<Rightarrow> (Inl e, db)
      | Inr (n, rows) \<Rightarrow> (Inr n, db\<lparr>db_jobs := rows\<rparr>))"

definition to_i64 :: "u64 \<Rightarrow> string \<Rightarrow> int app_result" where
  "to_i64 v label =
     (if unat v < 2 ^ 63 then Inr (int (unat v))
      else Inl (Validation (label @ '' out of range'')))"

definition from_i64 :: "int \<Rightarrow> string \<Rightarrow> int app_result" where
  "from_i64 v label = (if 0 \<le> v then Inr v else Inl (Validation (label @ '' invalid'')))"

definition from_u32 :: "int \<Rightarrow> string \<Rightarrow> int app_result" where
  "from_u32 v label =
     (if 0 \<le> v \<and> v < 2 ^ 32 then Inr v else Inl (Validation (label @ '' invalid'')))"

definition map_job :: "transfer_job \<Rightarrow> transfer_job app_result" where
  "map_job row =
     bind_res (from_i64 (tj_transferred row) ''transferred bytes'') (\<lambda>transferred.
     bind_res (transpose_opt (\<lambda>v. from_i64 v ''total bytes'') (tj_total row)) (\<lambda>total.
     bind_res (transpose_opt (\<lambda>v. from_i64 v ''remaining seconds'') (tj_eta_seconds row)) (\<lambda>eta.
     bind_res (from_u32 (tj_attempt_count row) ''attempt count'') (\<lambda>attempts.
     bind_res (from_u32 (tj_max_attempts row) ''maximal attempts'') (\<lambda>max_attempts.
       Inr (row\<lparr>tj_transferred := transferred, tj_total := total, tj_eta_seconds := eta,
                tj_attempt_count := attempts, tj_max_attempts := max_attempts\<rparr>))))))"

definition validate_draft :: "new_transfer_job \<Rightarrow> unit app_result" where
  "validate_draft draft =
     (if is_blank (nj_server_id draft) \<or> is_blank (nj_source_path draft)
         \<or> is_blank (nj_target_path draft)
         \<or> CHR 0x00 \<in> set (nj_source_path draft) \<or> CHR 0x00 \<in> set (nj_target_path draft)
      then Inl (Validation ''transfer job definition incomplete'')
      else if nj_verification draft \<notin> {''balanced'', ''strict'', ''transport_only''}
      then Inl (Validation ''invalid verification policy'')
      else Inr ())"

definition get :: "uuid \<Rightarrow> transfer_db \<Rightarrow> transfer_job option app_result" where
  "get i db = transpose_opt map_job (row_by tj_id i (db_jobs db))"

definition require :: "uuid \<Rightarrow> transfer_db \<Rightarrow> transfer_job app_result" where
  "require i db =
     bind_res (get i db) (\<lambda>v.
       case v of None \<Rightarrow> Inl (Validation ''transfer job does not exist'') | Some j \<Rightarrow> Inr j)"

definition new_row :: "new_transfer_job \<Rightarrow> uuid \<Rightarrow> int \<Rightarrow> transfer_job" where
  "new_row draft i now =
     \<lparr>tj_id = i, tj_execution_id = None, tj_server_id = nj_server_id draft,
      tj_direction = nj_direction draft, tj_source_path = nj_source_path draft,
      tj_target_path = nj_target_path draft, tj_overwrite = nj_overwrite draft,
      tj_verification = nj_verification draft, tj_status = TQueued, tj_transferred = 0,
      tj_total = None, tj_percent = None, tj_bytes_per_second = None,
      tj_average_bytes_per_second = None, tj_eta_seconds = None, tj_attempt_count = 0,
      tj_max_attempts = 3, tj_cancel_requested = False, tj_retryable = False,
      tj_error_category = None, tj_error_message = None, tj_sha256 = None, tj_location = None,
      tj_created_at = now, tj_updated_at = now, tj_started_at = None, tj_finished_at = None\<rparr>"

definition create :: "new_transfer_job \<Rightarrow> uuid \<Rightarrow> int \<Rightarrow> (transfer_db, transfer_job) st" where
  "create draft i now db =
     (case validate_draft draft of
        Inl e \<Rightarrow> (Inl e, db)
      | Inr _ \<Rightarrow>
          if job_row_ok db (new_row draft i now) \<and> row_by tj_id i (db_jobs db) = None
          then (let db' = db\<lparr>db_jobs := db_jobs db @ [new_row draft i now]\<rparr>
                in (require i db', db'))
          else (Inl (Database ''constraint failed''), db))"

definition queue_key :: "transfer_job \<Rightarrow> int \<times> uuid" where
  "queue_key r = (tj_created_at r, tj_id r)"

definition list_jobs :: "string option \<Rightarrow> transfer_db \<Rightarrow> transfer_job list app_result" where
  "list_jobs server db =
     collect_res map_job
       (take 200 (rev (sort_key queue_key
         (filter (\<lambda>r. server = None \<or> server = Some (tj_server_id r)) (db_jobs db)))))"

definition active_on :: "string \<Rightarrow> transfer_db \<Rightarrow> nat" where
  "active_on server db =
     affected (\<lambda>r. tj_server_id r = server \<and> is_active (tj_status r)) (db_jobs db)"

definition next_runnable :: "transfer_db \<Rightarrow> transfer_job option app_result" where
  "next_runnable db =
     (case sort_key queue_key
             (filter (\<lambda>r. tj_status r = TQueued \<and> active_on (tj_server_id r) db < 2) (db_jobs db)) of
        [] \<Rightarrow> Inr None
      | r # _ \<Rightarrow> transpose_opt map_job (Some r))"

definition has_pending :: "transfer_db \<Rightarrow> bool" where
  "has_pending db =
     list_ex (\<lambda>r. tj_status r = TQueued \<or> is_active (tj_status r)) (db_jobs db)"

definition coalesce :: "'a option \<Rightarrow> 'a \<Rightarrow> 'a option" where
  "coalesce v d = (case v of None \<Rightarrow> Some d | Some x \<Rightarrow> Some x)"

definition claim :: "uuid \<Rightarrow> int \<Rightarrow> (transfer_db, bool) st" where
  "claim i now =
     bind_st (update_jobs (\<lambda>r. tj_id r = i \<and> tj_status r = TQueued)
       (\<lambda>r. r\<lparr>tj_status := TConnecting, tj_attempt_count := tj_attempt_count r + 1,
              tj_cancel_requested := False, tj_retryable := False, tj_error_category := None,
              tj_error_message := None, tj_sha256 := None, tj_location := None,
              tj_transferred := 0, tj_total := None, tj_percent := None,
              tj_bytes_per_second := None, tj_average_bytes_per_second := None,
              tj_eta_seconds := None, tj_started_at := coalesce (tj_started_at r) now,
              tj_finished_at := None, tj_updated_at := now\<rparr>))
       (\<lambda>n. ret_st (n = 1))"

definition set_execution :: "uuid \<Rightarrow> uuid \<Rightarrow> int \<Rightarrow> (transfer_db, bool) st" where
  "set_execution i execution_id now =
     bind_st (update_jobs (\<lambda>r. tj_id r = i \<and> is_active (tj_status r))
       (\<lambda>r. r\<lparr>tj_execution_id := Some execution_id, tj_updated_at := now\<rparr>))
       (\<lambda>n. ret_st (n = 1))"

definition update_progress ::
  "uuid \<Rightarrow> transfer_job_status \<Rightarrow> u64 \<Rightarrow> u64 option \<Rightarrow> rat option \<Rightarrow> rat option \<Rightarrow> rat option
   \<Rightarrow> u64 option \<Rightarrow> int \<Rightarrow> (transfer_db, unit) st" where
  "update_progress i status transferred tot percent bps avg eta now =
     (if \<not> is_active status then fail_st (Validation ''invalid progress status'')
      else bind_st (read_st (\<lambda>_. to_i64 transferred ''transferred bytes'')) (\<lambda>transferred'.
           bind_st (read_st (\<lambda>_. transpose_opt (\<lambda>v. to_i64 v ''total bytes'') tot)) (\<lambda>total'.
           bind_st (read_st (\<lambda>_. transpose_opt (\<lambda>v. to_i64 v ''remaining seconds'') eta)) (\<lambda>eta'.
           bind_st (update_jobs (\<lambda>r. tj_id r = i \<and> is_active (tj_status r))
             (\<lambda>r. r\<lparr>tj_status := status, tj_transferred := transferred', tj_total := total',
                    tj_percent := percent, tj_bytes_per_second := bps,
                    tj_average_bytes_per_second := avg, tj_eta_seconds := eta',
                    tj_updated_at := now\<rparr>))
             (\<lambda>_. ret_st ())))))"

definition finish :: "uuid \<Rightarrow> transfer_job_finish \<Rightarrow> int \<Rightarrow> (transfer_db, unit) st" where
  "finish i fin now =
     (if \<not> is_terminal (fin_status fin) then fail_st (Validation ''invalid final status'')
      else bind_st (update_jobs (\<lambda>r. tj_id r = i \<and> is_active (tj_status r))
             (\<lambda>r. r\<lparr>tj_status := fin_status fin, tj_retryable := fin_retryable fin,
                    tj_error_category := fin_error_category fin,
                    tj_error_message := cap_utf8 (fin_error_message fin) (8 * 1024),
                    tj_sha256 := fin_sha256 fin, tj_location := fin_location fin,
                    tj_percent := (if fin_status fin = TSucceeded then Some 100 else tj_percent r),
                    tj_finished_at := Some now, tj_updated_at := now\<rparr>))
           (\<lambda>n. if n = 1 then ret_st () else fail_st (Validation ''transfer job already ended'')))"

text \<open>
  \<open>request_cancel\<close> runs in one transaction: it returns an error only before its first write.
\<close>

definition request_cancel :: "uuid \<Rightarrow> int \<Rightarrow> (transfer_db, cancel_transfer_action) st" where
  "request_cancel i now db =
     (case row_by tj_id i (db_jobs db) of
        None \<Rightarrow> (Inl (Validation ''transfer job does not exist''), db)
      | Some row \<Rightarrow>
          if tj_status row = TQueued then
            bind_st (update_jobs (\<lambda>r. tj_id r = i \<and> tj_status r = TQueued)
              (\<lambda>r. r\<lparr>tj_status := TCancelled, tj_cancel_requested := True, tj_retryable := False,
                     tj_finished_at := Some now, tj_updated_at := now\<rparr>))
              (\<lambda>_. ret_st CancelledQueued) db
          else if is_active (tj_status row) then
            bind_st (update_jobs (\<lambda>r. tj_id r = i)
              (\<lambda>r. r\<lparr>tj_cancel_requested := True, tj_updated_at := now\<rparr>))
              (\<lambda>_. ret_st (case tj_execution_id row of
                             Some e \<Rightarrow> SignalExecution e | None \<Rightarrow> AwaitExecutionId)) db
          else (Inl (Validation ''transfer job already ended''), db))"

definition should_cancel :: "uuid \<Rightarrow> transfer_db \<Rightarrow> bool" where
  "should_cancel i db =
     (case row_by tj_id i (db_jobs db) of None \<Rightarrow> False | Some r \<Rightarrow> tj_cancel_requested r)"

definition retry :: "uuid \<Rightarrow> int \<Rightarrow> (transfer_db, transfer_job) st" where
  "retry i now =
     bind_st (update_jobs
       (\<lambda>r. tj_id r = i \<and> (tj_status r = TFailed \<or> tj_status r = TUncertain) \<and> tj_retryable r
            \<and> tj_attempt_count r < tj_max_attempts r)
       (\<lambda>r. r\<lparr>tj_status := TQueued, tj_execution_id := None, tj_cancel_requested := False,
              tj_retryable := False, tj_error_category := None, tj_error_message := None,
              tj_finished_at := None, tj_updated_at := now\<rparr>))
       (\<lambda>n. if n \<noteq> 1 then fail_st (Validation ''transfer cannot be retried'')
            else read_st (require i))"

definition requeue_automatically :: "uuid \<Rightarrow> int \<Rightarrow> (transfer_db, bool) st" where
  "requeue_automatically i now =
     bind_st (update_jobs
       (\<lambda>r. tj_id r = i \<and> tj_status r = TFailed \<and> tj_retryable r
            \<and> tj_attempt_count r < tj_max_attempts r)
       (\<lambda>r. r\<lparr>tj_status := TQueued, tj_execution_id := None, tj_cancel_requested := False,
              tj_error_category := None, tj_error_message := None, tj_finished_at := None,
              tj_updated_at := now\<rparr>))
       (\<lambda>n. ret_st (n = 1))"

definition recover_interrupted :: "int \<Rightarrow> (transfer_db, nat) st" where
  "recover_interrupted now =
     update_jobs (\<lambda>r. is_active (tj_status r))
       (\<lambda>r. r\<lparr>tj_status := TUncertain, tj_retryable := True,
              tj_error_category := Some ''interrupted'',
              tj_error_message := Some ''result not confirmed when the application exited'',
              tj_finished_at := Some now, tj_updated_at := now\<rparr>)"

section \<open>Row invariant\<close>

text \<open>What the operations keep true of every row beyond the constraints of the schema.\<close>

definition lifecycle :: "transfer_job \<Rightarrow> bool" where
  "lifecycle r \<longleftrightarrow>
     0 \<le> tj_attempt_count r \<and> tj_attempt_count r \<le> tj_max_attempts r
     \<and> (tj_status r = TQueued \<longrightarrow> tj_attempt_count r < tj_max_attempts r)
     \<and> (is_active (tj_status r) \<longrightarrow> 1 \<le> tj_attempt_count r \<and> tj_started_at r \<noteq> None)
     \<and> (is_terminal (tj_status r) \<longleftrightarrow> tj_finished_at r \<noteq> None)
     \<and> (tj_status r = TSucceeded \<longrightarrow> tj_percent r = Some 100)"

definition jobs_inv :: "transfer_db \<Rightarrow> bool" where
  "jobs_inv db \<longleftrightarrow>
     distinct (map tj_id (db_jobs db))
     \<and> list_all (\<lambda>r. job_row_ok db r \<and> lifecycle r) (db_jobs db)"

lemma job_row_ok_jobs [simp]: "job_row_ok (db\<lparr>db_jobs := rows\<rparr>) = job_row_ok db"
  by (simp add: job_row_ok_def fun_eq_iff)

lemma jobs_inv_row:
  "jobs_inv db \<Longrightarrow> r \<in> set (db_jobs db) \<Longrightarrow> job_row_ok db r \<and> lifecycle r"
  by (auto simp: jobs_inv_def list_all_iff)

lemma jobs_inv_row_by:
  "jobs_inv db \<Longrightarrow> row_by tj_id i (db_jobs db) = Some r \<Longrightarrow> job_row_ok db r \<and> lifecycle r \<and> tj_id r = i"
  using jobs_inv_row row_by_Some by metis

lemma map_job_ok:
  assumes "job_row_ok db r" "lifecycle r"
  shows "map_job r = Inr r"
proof -
  have "tj_attempt_count r < 2 ^ 32" "tj_max_attempts r < 2 ^ 32"
    using assms by (auto simp: job_row_ok_def lifecycle_def)
  with assms show ?thesis
    by (cases "tj_total r"; cases "tj_eta_seconds r")
       (auto simp: map_job_def from_i64_def from_u32_def job_row_ok_def)
qed

lemma get_ok: "jobs_inv db \<Longrightarrow> get i db = Inr (row_by tj_id i (db_jobs db))"
  by (cases "row_by tj_id i (db_jobs db)")
     (auto simp: get_def map_job_ok dest!: jobs_inv_row_by)

lemma require_ok:
  "jobs_inv db \<Longrightarrow> require i db =
     (case row_by tj_id i (db_jobs db) of
        None \<Rightarrow> Inl (Validation ''transfer job does not exist'') | Some r \<Rightarrow> Inr r)"
  by (simp add: require_def get_ok)

text \<open>The one lemma about \<open>UPDATE\<close> that every operation's invariance proof uses.\<close>

lemma update_jobs_keeps [keeps_intros]:
  assumes "\<And>r. tj_id (f r) = tj_id r"
    and "\<And>r. p r \<Longrightarrow> lifecycle r \<Longrightarrow> lifecycle (f r)"
  shows "keeps jobs_inv (update_jobs p f)"
proof (rule keepsI)
  fix db assume inv: "jobs_inv db"
  show "jobs_inv (snd (update_jobs p f db))"
  proof (cases "run_update (job_row_ok db) p f (db_jobs db)")
    case (Inl e)
    with inv show ?thesis by (simp add: update_jobs_def)
  next
    case (Inr nr)
    then obtain n rows where nr: "nr = (n, rows)" by force
    with Inr have chk: "list_all (\<lambda>r. p r \<longrightarrow> job_row_ok db (f r)) (db_jobs db)"
      and rows: "rows = upd_where p f (db_jobs db)" by (auto simp: run_update_Inr)
    have "map tj_id rows = map tj_id (db_jobs db)"
      unfolding rows using assms(1) by (rule upd_where_keys)
    moreover have "list_all (\<lambda>r. job_row_ok db r \<and> lifecycle r) rows"
      using inv chk assms(2) unfolding rows
      by (intro list_all_upd_where) (auto simp: jobs_inv_def list_all_iff)
    ultimately show ?thesis
      using inv Inr nr by (simp add: update_jobs_def jobs_inv_def)
  qed
qed

lemma update_jobs_ok:
  assumes "jobs_inv db" and "\<And>r. p r \<Longrightarrow> job_row_ok db r \<Longrightarrow> lifecycle r \<Longrightarrow> job_row_ok db (f r)"
  shows "update_jobs p f db =
    (Inr (affected p (db_jobs db)), db\<lparr>db_jobs := upd_where p f (db_jobs db)\<rparr>)"
  using assms by (auto simp: update_jobs_def run_update_def jobs_inv_def list_all_iff)

lemma claim_keeps [keeps_intros]: "keeps jobs_inv (claim i now)"
  unfolding claim_def
  by (intro keeps_intros) (auto simp: lifecycle_def coalesce_def split: option.splits)

lemma set_execution_keeps [keeps_intros]: "keeps jobs_inv (set_execution i e now)"
  unfolding set_execution_def by (intro keeps_intros) (auto simp: lifecycle_def)

lemma update_progress_keeps [keeps_intros]:
  "keeps jobs_inv (update_progress i status a b c d e f now)"
proof (cases "is_active status")
  case True
  then show ?thesis
    unfolding update_progress_def
    by (intro keeps_intros) (auto simp: lifecycle_def elim: is_active.elims)
next
  case False
  then show ?thesis by (simp add: update_progress_def keeps_intros)
qed

lemma finish_keeps [keeps_intros]: "keeps jobs_inv (finish i fin now)"
proof (cases "is_terminal (fin_status fin)")
  case True
  then show ?thesis
    unfolding finish_def
    by (intro keeps_intros) (auto simp: lifecycle_def elim: is_terminal.elims)
next
  case False
  then show ?thesis by (simp add: finish_def keeps_intros)
qed

lemma retry_keeps [keeps_intros]: "keeps jobs_inv (retry i now)"
  unfolding retry_def by (intro keeps_intros) (auto simp: lifecycle_def)

lemma requeue_keeps [keeps_intros]: "keeps jobs_inv (requeue_automatically i now)"
  unfolding requeue_automatically_def by (intro keeps_intros) (auto simp: lifecycle_def)

lemma recover_keeps [keeps_intros]: "keeps jobs_inv (recover_interrupted now)"
  unfolding recover_interrupted_def by (intro keeps_intros) (auto simp: lifecycle_def)

lemma request_cancel_keeps [keeps_intros]: "keeps jobs_inv (request_cancel i now)"
proof (rule keepsI)
  fix db assume inv: "jobs_inv db"
  have q: "keeps jobs_inv (bind_st (update_jobs (\<lambda>r. tj_id r = i \<and> tj_status r = TQueued)
              (\<lambda>r. r\<lparr>tj_status := TCancelled, tj_cancel_requested := True, tj_retryable := False,
                     tj_finished_at := Some now, tj_updated_at := now\<rparr>))
              (\<lambda>_. ret_st CancelledQueued))"
    by (intro keeps_intros) (auto simp: lifecycle_def)
  have a: "keeps jobs_inv (bind_st (update_jobs (\<lambda>r. tj_id r = i)
              (\<lambda>r. r\<lparr>tj_cancel_requested := True, tj_updated_at := now\<rparr>)) (\<lambda>_. ret_st x))"
    for x :: cancel_transfer_action
    by (intro keeps_intros) (auto simp: lifecycle_def)
  show "jobs_inv (snd (request_cancel i now db))"
    using inv keepsD [OF q inv] keepsD [OF a inv]
    by (auto simp: request_cancel_def split: option.split)
qed

lemma create_keeps [keeps_intros]: "keeps jobs_inv (create draft i now)"
proof (rule keepsI)
  fix db assume inv: "jobs_inv db"
  have "lifecycle (new_row draft i now)" and "tj_id (new_row draft i now) = i"
    by (simp_all add: lifecycle_def new_row_def)
  with inv show "jobs_inv (snd (create draft i now db))"
    by (auto simp: create_def jobs_inv_def Let_def row_by_None split: sum.split)
qed

section \<open>An example table\<close>

text \<open>One server with a failed job (1), two queued jobs (2, 3) and an active job (4).\<close>

definition example_draft :: new_transfer_job where
  "example_draft =
     \<lparr>nj_server_id = ''s'', nj_direction = Upload, nj_source_path = ''/a'', nj_target_path = ''/b'',
      nj_overwrite = False, nj_verification = ''balanced''\<rparr>"

definition example_failed :: transfer_job where
  "example_failed =
     (new_row example_draft 1 10)\<lparr>tj_status := TFailed, tj_attempt_count := 1, tj_retryable := True,
        tj_error_category := Some ''io'', tj_started_at := Some 11, tj_finished_at := Some 12\<rparr>"

definition example_active :: transfer_job where
  "example_active =
     (new_row example_draft 4 40)\<lparr>tj_status := TTransferring, tj_attempt_count := 1,
        tj_cancel_requested := True, tj_started_at := Some 41\<rparr>"

definition example_db :: transfer_db where
  "example_db =
     \<lparr>db_servers = [''s''], db_executions = [7],
      db_jobs = [example_failed, new_row example_draft 2 20, new_row example_draft 3 30, example_active]\<rparr>"

definition example_idle_db :: transfer_db where
  "example_idle_db =
     \<lparr>db_servers = [''s''], db_executions = [7],
      db_jobs = [example_failed, new_row example_draft 2 20, new_row example_draft 3 30]\<rparr>"

lemmas example_defs =
  example_db_def example_idle_db_def example_failed_def example_active_def new_row_def
  example_draft_def

lemma example_db_inv: "jobs_inv example_db" "jobs_inv example_idle_db"
  by (simp_all add: jobs_inv_def example_defs job_row_ok_def lifecycle_def)

end
