(* ===== verification/Transfer_History.thy ===== *)
theory Transfer_History
  imports Transfer_Jobs
begin

text \<open>
  Histories of the \<open>transfer_jobs\<close> table: every operation of the repository as a call, runs of
  calls, and what a run does to one row (its attempts, its status, and final rows).
\<close>

section \<open>Runs of repository calls\<close>

text \<open>
  The calls that write the table, as data, so that a history of the table is a list. Any
  interleaving of workers and user requests is such a list.
\<close>

datatype repo_op =
    OCreate new_transfer_job uuid int
  | OClaim uuid int
  | OSetExecution uuid uuid int
  | OProgress uuid transfer_job_status u64 "u64 option" "rat option" "rat option" "rat option"
      "u64 option" int
  | OFinish uuid transfer_job_finish int
  | OCancel uuid int
  | ORetry uuid int
  | ORequeue uuid int
  | ORecover int

fun apply_op :: "repo_op \<Rightarrow> transfer_db \<Rightarrow> transfer_db" where
  "apply_op (OCreate d i t) db = snd (create d i t db)"
| "apply_op (OClaim i t) db = snd (claim i t db)"
| "apply_op (OSetExecution i e t) db = snd (set_execution i e t db)"
| "apply_op (OProgress i s n tot p b a eta t) db = snd (update_progress i s n tot p b a eta t db)"
| "apply_op (OFinish i fin t) db = snd (finish i fin t db)"
| "apply_op (OCancel i t) db = snd (request_cancel i t db)"
| "apply_op (ORetry i t) db = snd (retry i t db)"
| "apply_op (ORequeue i t) db = snd (requeue_automatically i t db)"
| "apply_op (ORecover t) db = snd (recover_interrupted t db)"

fun run_ops :: "repo_op list \<Rightarrow> transfer_db \<Rightarrow> transfer_db" where
  "run_ops [] db = db"
| "run_ops (c # cs) db = run_ops cs (apply_op c db)"

text \<open>How often a run hands the job \<open>i\<close> to a worker.\<close>

fun claims_won :: "uuid \<Rightarrow> repo_op list \<Rightarrow> transfer_db \<Rightarrow> nat" where
  "claims_won i [] db = 0"
| "claims_won i (c # cs) db =
     (case c of OClaim j t \<Rightarrow> if j = i \<and> fst (claim j t db) = Inr True then 1 else 0 | _ \<Rightarrow> 0)
     + claims_won i cs (apply_op c db)"

lemma apply_op_inv: "jobs_inv db \<Longrightarrow> jobs_inv (apply_op c db)"
  by (cases c) (auto intro: keepsD keeps_intros)

lemma run_ops_inv: "jobs_inv db \<Longrightarrow> jobs_inv (run_ops cs db)"
  by (induction cs arbitrary: db) (auto intro: apply_op_inv)

subsection \<open>What one call does to one row\<close>

definition job_at :: "transfer_db \<Rightarrow> uuid \<Rightarrow> transfer_job option" where
  "job_at db i = row_by tj_id i (db_jobs db)"

definition status_at :: "transfer_db \<Rightarrow> uuid \<Rightarrow> transfer_job_status option" where
  "status_at db i = map_option tj_status (job_at db i)"

lemma job_at_inv: "jobs_inv db \<Longrightarrow> job_at db i = Some r \<Longrightarrow> job_row_ok db r \<and> lifecycle r \<and> tj_id r = i"
  unfolding job_at_def by (rule jobs_inv_row_by)

lemma job_at_update:
  assumes "\<And>r. tj_id (f r) = tj_id r"
  shows "job_at (db\<lparr>db_jobs := upd_where (\<lambda>r. tj_id r = k \<and> p r) f (db_jobs db)\<rparr>) j =
    (if j = k then map_option (\<lambda>r. if p r then f r else r) (job_at db j) else job_at db j)"
  using assms by (simp add: job_at_def sql_simps)

text \<open>
  Under the invariant, a keyed update whose new row respects the constraints changes the row
  of its key and no other, and reports one affected row exactly when the guard held.
\<close>

lemma keyed_update:
  assumes inv: "jobs_inv db" and key: "\<And>r. tj_id (f r) = tj_id r"
    and ok: "\<And>r. p r \<Longrightarrow> job_row_ok db r \<Longrightarrow> lifecycle r \<Longrightarrow> job_row_ok db (f r)"
  shows "fst (update_jobs (\<lambda>r. tj_id r = k \<and> p r) f db) =
      Inr (case job_at db k of None \<Rightarrow> 0 | Some r \<Rightarrow> if p r then 1 else 0)"
    and "job_at (snd (update_jobs (\<lambda>r. tj_id r = k \<and> p r) f db)) j =
      (if j = k then map_option (\<lambda>r. if p r then f r else r) (job_at db j) else job_at db j)"
proof -
  have "update_jobs (\<lambda>r. tj_id r = k \<and> p r) f db =
    (Inr (affected (\<lambda>r. tj_id r = k \<and> p r) (db_jobs db)),
     db\<lparr>db_jobs := upd_where (\<lambda>r. tj_id r = k \<and> p r) f (db_jobs db)\<rparr>)"
    using inv ok by (intro update_jobs_ok) auto
  moreover have "distinct (map tj_id (db_jobs db))" using inv by (simp add: jobs_inv_def)
  ultimately show "fst (update_jobs (\<lambda>r. tj_id r = k \<and> p r) f db) =
      Inr (case job_at db k of None \<Rightarrow> 0 | Some r \<Rightarrow> if p r then 1 else 0)"
    and "job_at (snd (update_jobs (\<lambda>r. tj_id r = k \<and> p r) f db)) j =
      (if j = k then map_option (\<lambda>r. if p r then f r else r) (job_at db j) else job_at db j)"
    using key by (simp_all add: affected_by_key job_at_def sql_simps)
qed

text \<open>Without the constraint premise the statement may fail, and then nothing changes.\<close>

lemma keyed_update_cases:
  assumes key: "\<And>r. tj_id (f r) = tj_id r"
  shows "snd (update_jobs (\<lambda>r. tj_id r = k \<and> p r) f db) = db \<or>
    (\<forall>j. job_at (snd (update_jobs (\<lambda>r. tj_id r = k \<and> p r) f db)) j =
      (if j = k then map_option (\<lambda>r. if p r then f r else r) (job_at db j) else job_at db j))"
  using job_at_update [OF key]
  by (auto simp: update_jobs_def run_update_def)

lemma snd_bind_ret: "snd (bind_st m (\<lambda>x. ret_st (g x)) s) = snd (m s)"
  by (simp add: bind_st_def split: prod.split sum.split)

lemma snd_bind_nochange:
  assumes "\<And>x s. snd (f x s) = s"
  shows "snd (bind_st m f s) = snd (m s)"
  using assms by (simp add: bind_st_def split: prod.split sum.split)

lemma snd_if_st: "snd ((if b then m else n) s) = (if b then snd (m s) else snd (n s))"
  by simp

lemma fst_bind_ret: "fst (bind_st m (\<lambda>x. ret_st (g x)) s) = map_res g (fst (m s))"
  by (cases "m s"; cases "fst (m s)") (auto simp: bind_st_def split: sum.split)

lemma update_jobs_frame:
  assumes "\<And>r. tj_id (f r) = tj_id r" and "\<And>r. g (f r) = g r"
  shows "map_option g (job_at (snd (update_jobs p f db)) j) = map_option g (job_at db j)"
proof -
  have "map_option g (row_by tj_id j (upd_where p f rows)) = map_option g (row_by tj_id j rows)"
    for rows using assms by (induction rows) auto
  then show ?thesis by (auto simp: update_jobs_def run_update_def job_at_def)
qed

lemma create_job_at:
  "job_at db j = Some r \<Longrightarrow> job_at (snd (create d i t db)) j = Some r"
  by (auto simp: create_def job_at_def Let_def row_by_append split: sum.split option.split)

lemma create_job_at_None:
  "job_at db j = None \<Longrightarrow> job_at (snd (create d i t db)) j \<in> {None, Some (new_row d i t)}"
  by (auto simp: create_def job_at_def Let_def row_by_append new_row_def split: sum.split)

text \<open>Every operation but \<open>create\<close> is one guarded \<open>UPDATE\<close> followed by reads.\<close>

lemmas snd_ops =
  snd_bind_ret snd_bind_nochange snd_if_st

text \<open>
  An operation \<open>m\<close> leaves the field \<open>g\<close> of every job alone if each of its updates does.
\<close>

definition leaves :: "(transfer_job \<Rightarrow> 'a) \<Rightarrow> (transfer_db, 'b) st \<Rightarrow> bool" where
  "leaves g m \<longleftrightarrow> (\<forall>db j. map_option g (job_at (snd (m db)) j) = map_option g (job_at db j))"

named_theorems leaves_intros \<open>fields left alone by composed operations\<close>

lemma leaves_update [leaves_intros]:
  "(\<And>r. tj_id (f r) = tj_id r) \<Longrightarrow> (\<And>r. g (f r) = g r) \<Longrightarrow> leaves g (update_jobs p f)"
  by (simp add: leaves_def update_jobs_frame)

lemma leaves_bind [leaves_intros]:
  "leaves g m \<Longrightarrow> (\<And>x. leaves g (f x)) \<Longrightarrow> leaves g (bind_st m f)"
  by (auto simp: leaves_def bind_st_def split: prod.split sum.split) (metis snd_conv)+

lemma leaves_pure [leaves_intros]:
  "leaves g (ret_st x)" "leaves g (fail_st e)" "leaves g (read_st h)"
  by (simp_all add: leaves_def)

lemma leaves_if [leaves_intros]: "leaves g m \<Longrightarrow> leaves g n \<Longrightarrow> leaves g (if b then m else n)"
  by simp

lemma leaves_request_cancel:
  assumes "\<And>r s c t f u. g (r\<lparr>tj_status := s, tj_cancel_requested := c, tj_retryable := t,
      tj_finished_at := f, tj_updated_at := u\<rparr>) = g r"
    and "\<And>r c u. g (r\<lparr>tj_cancel_requested := c, tj_updated_at := u\<rparr>) = g r"
  shows "leaves g (request_cancel i now)"
  using assms
  by (auto simp: leaves_def request_cancel_def snd_bind_ret update_jobs_frame split: option.split)

definition attempts :: "transfer_job \<Rightarrow> int \<times> int" where
  "attempts r = (tj_attempt_count r, tj_max_attempts r)"

lemma attempts_simps [simp]:
  "attempts r = (a, m) \<longleftrightarrow> tj_attempt_count r = a \<and> tj_max_attempts r = m"
  by (auto simp: attempts_def)

lemma leaves_attempts:
  "leaves attempts (set_execution i e t)" "leaves attempts (update_progress i s n tot p b a eta t)"
  "leaves attempts (finish i fin t)" "leaves attempts (request_cancel i t)"
  "leaves attempts (retry i t)" "leaves attempts (requeue_automatically i t)"
  "leaves attempts (recover_interrupted t)"
  unfolding set_execution_def update_progress_def finish_def retry_def requeue_automatically_def
    recover_interrupted_def
  by (intro leaves_intros leaves_request_cancel; simp add: attempts_def)+

subsection \<open>Attempts\<close>

lemma claim_effect:
  assumes "jobs_inv db"
  shows "fst (claim i t db) = Inr (status_at db i = Some TQueued)"
    and "map_option attempts (job_at (snd (claim i t db)) j) =
      map_option (\<lambda>r. (tj_attempt_count r + (if j = i \<and> tj_status r = TQueued then 1 else 0),
                       tj_max_attempts r)) (job_at db j)"
    and "status_at (snd (claim i t db)) j =
      (if j = i \<and> status_at db j = Some TQueued then Some TConnecting else status_at db j)"
proof -
  let ?f = "\<lambda>r. r\<lparr>tj_status := TConnecting, tj_attempt_count := tj_attempt_count r + 1,
              tj_cancel_requested := False, tj_retryable := False, tj_error_category := None,
              tj_error_message := None, tj_sha256 := None, tj_location := None,
              tj_transferred := 0, tj_total := None, tj_percent := None,
              tj_bytes_per_second := None, tj_average_bytes_per_second := None,
              tj_eta_seconds := None, tj_started_at := coalesce (tj_started_at r) t,
              tj_finished_at := None, tj_updated_at := t\<rparr>"
  have ok: "tj_id (?f r) = tj_id r"
    "tj_status r = TQueued \<Longrightarrow> job_row_ok db r \<Longrightarrow> lifecycle r \<Longrightarrow> job_row_ok db (?f r)" for r
    by (auto simp: job_row_ok_def)
  note u = keyed_update [OF assms, of ?f "\<lambda>r. tj_status r = TQueued", OF ok]
  show "fst (claim i t db) = Inr (status_at db i = Some TQueued)"
    using u(1) by (cases "job_at db i") (auto simp: claim_def fst_bind_ret status_at_def)
  show "map_option attempts (job_at (snd (claim i t db)) j) =
      map_option (\<lambda>r. (tj_attempt_count r + (if j = i \<and> tj_status r = TQueued then 1 else 0),
                       tj_max_attempts r)) (job_at db j)"
    using u(2) by (cases "job_at db j") (auto simp: claim_def snd_bind_ret)
  show "status_at (snd (claim i t db)) j =
      (if j = i \<and> status_at db j = Some TQueued then Some TConnecting else status_at db j)"
    using u(2) by (cases "job_at db j") (auto simp: claim_def snd_bind_ret status_at_def)
qed

lemma leaves_attemptsD:
  assumes "leaves attempts m" and "job_at db i = Some r"
  shows "\<exists>r'. job_at (snd (m db)) i = Some r' \<and> tj_max_attempts r' = tj_max_attempts r \<and>
    tj_attempt_count r' = tj_attempt_count r"
proof -
  have "map_option attempts (job_at (snd (m db)) i) = Some (attempts r)"
    using assms unfolding leaves_def by simp
  then show ?thesis by (auto simp: attempts_def)
qed

lemma apply_op_attempts:
  assumes "jobs_inv db" and "job_at db i = Some r"
  shows "\<exists>r'. job_at (apply_op c db) i = Some r' \<and> tj_max_attempts r' = tj_max_attempts r \<and>
    tj_attempt_count r' = tj_attempt_count r + int (claims_won i [c] db)"
proof (cases c)
  case (OCreate d k t)
  with assms create_job_at show ?thesis by fastforce
next
  case (OClaim k t)
  with claim_effect(1) [OF assms(1), of k t] claim_effect(2) [OF assms(1), of k t i] assms(2)
  show ?thesis by (auto simp: status_at_def split: if_splits)
qed (use leaves_attempts [THEN leaves_attemptsD, OF assms(2)] in simp_all)

text \<open>C15: A job is handed to a worker at most \<open>max_attempts\<close> times (never more than 10), whatever
  interleaving of workers, user requests and recoveries follows: the attempt counter counts
  exactly the successful claims, and it stays within \<open>max_attempts\<close>.\<close>

theorem transfer_attempts_bounded:
  assumes "jobs_inv db" and "job_at db i = Some r"
  shows "\<exists>r'. job_at (run_ops cs db) i = Some r' \<and> tj_max_attempts r' = tj_max_attempts r \<and>
    tj_attempt_count r' = tj_attempt_count r + int (claims_won i cs db) \<and>
    tj_attempt_count r' \<le> tj_max_attempts r \<and> tj_max_attempts r \<le> 10"
  using assms
proof (induction cs arbitrary: db r)
  case Nil
  with job_at_inv [OF Nil] show ?case by (auto simp: lifecycle_def job_row_ok_def)
next
  case (Cons c cs)
  from apply_op_attempts [OF Cons.prems, of c] obtain r' where
    r': "job_at (apply_op c db) i = Some r'" "tj_max_attempts r' = tj_max_attempts r"
      "tj_attempt_count r' = tj_attempt_count r + int (claims_won i [c] db)" by blast
  from Cons.IH [OF apply_op_inv [OF Cons.prems(1)] r'(1)] r'(2,3) show ?case by auto
qed

subsection \<open>Status moves\<close>

definition moves ::
  "(transfer_job_status \<Rightarrow> transfer_job_status \<Rightarrow> bool) \<Rightarrow> transfer_db \<Rightarrow> transfer_db \<Rightarrow> bool" where
  "moves ok db db' \<longleftrightarrow>
     (\<forall>j s. status_at db j = Some s \<longrightarrow> (\<exists>s'. status_at db' j = Some s' \<and> ok s s'))"

lemma can_transition_refl [simp]: "can_transition_to s s"
  by (simp add: can_transition_to_def)

lemma update_jobs_at:
  assumes "\<And>r. tj_id (f r) = tj_id r" and "job_at db j = Some r"
  shows "job_at (snd (update_jobs p f db)) j = Some r
    \<or> p r \<and> job_at (snd (update_jobs p f db)) j = Some (f r)"
proof -
  have "row_by tj_id j (upd_where p f rows) =
      map_option (\<lambda>r. if p r then f r else r) (row_by tj_id j rows)" for rows
    using assms(1) by (induction rows) auto
  with assms(2) show ?thesis by (auto simp: update_jobs_def run_update_def job_at_def)
qed

lemma moves_update:
  assumes "\<And>r. tj_id (f r) = tj_id r"
    and "\<And>j r. p r \<Longrightarrow> job_at db j = Some r \<Longrightarrow> can_transition_to (tj_status r) (tj_status (f r))"
  shows "moves can_transition_to db (snd (update_jobs p f db))"
  unfolding moves_def
proof (intro allI impI)
  fix j s assume "status_at db j = Some s"
  then obtain r where r: "job_at db j = Some r" "s = tj_status r" by (auto simp: status_at_def)
  from update_jobs_at [where f = f and p = p, OF assms(1) r(1)] assms(2) [OF _ r(1)] r(2)
  show "\<exists>s'. status_at (snd (update_jobs p f db)) j = Some s' \<and> can_transition_to s s'"
    by (auto simp: status_at_def)
qed

lemma moves_refl: "moves can_transition_to db db"
  by (simp add: moves_def)

text \<open>A call is in order when the status it reports is a step of the machine.\<close>

fun in_order :: "repo_op \<Rightarrow> transfer_db \<Rightarrow> bool" where
  "in_order (OProgress i s n tot p b a eta t) db \<longleftrightarrow>
     (\<forall>s0. status_at db i = Some s0 \<longrightarrow> is_active s0 \<longrightarrow> can_transition_to s0 s)"
| "in_order (OFinish i fin t) db \<longleftrightarrow>
     (fin_status fin = TSucceeded \<longrightarrow> (\<forall>s0. status_at db i = Some s0 \<longrightarrow> is_active s0 \<longrightarrow> s0 = TFinalizing))"
| "in_order _ db \<longleftrightarrow> True"

lemma job_at_id: "job_at db j = Some r \<Longrightarrow> tj_id r = j"
  unfolding job_at_def using row_by_Some by metis

lemma status_at_row: "job_at db j = Some r \<Longrightarrow> tj_id r = i \<Longrightarrow> status_at db i = Some (tj_status r)"
  using job_at_id by (fastforce simp: status_at_def)

lemma active_can_fail:
  "is_active s \<Longrightarrow> t \<in> {TFailed, TCancelled, TUncertain} \<Longrightarrow> can_transition_to s t"
  by (cases s) (auto simp: can_transition_to_def)

lemma moves_finish:
  assumes "in_order (OFinish i fin t) db"
  shows "moves can_transition_to db (snd (finish i fin t db))"
proof (cases "is_terminal (fin_status fin)")
  case True
  then have split: "fin_status fin = TSucceeded \<or> fin_status fin \<in> {TFailed, TCancelled, TUncertain}"
    by (cases "fin_status fin") auto
  have "can_transition_to (tj_status r) (fin_status fin)"
    if "tj_id r = i \<and> is_active (tj_status r)" "job_at db j = Some r" for j r
    using that split assms status_at_row [OF that(2)] active_can_fail
    by (auto simp: can_transition_to_def)
  then show ?thesis using True by (auto simp: finish_def snd_ops intro!: moves_update)
next
  case False
  then show ?thesis by (simp add: finish_def moves_refl)
qed

text \<open>A progress report either changes nothing or performs exactly this update.\<close>

definition progress_update where
  "progress_update i s t x y p b a z =
     update_jobs (\<lambda>r. tj_id r = i \<and> is_active (tj_status r))
       (\<lambda>r. r\<lparr>tj_status := s, tj_transferred := x, tj_total := y,
              tj_percent := p, tj_bytes_per_second := b,
              tj_average_bytes_per_second := a, tj_eta_seconds := z, tj_updated_at := t\<rparr>)"

lemma update_progress_cases:
  "snd (update_progress i s n tot p b a eta t db) = db \<or>
   is_active s \<and> (\<exists>x y z. snd (update_progress i s n tot p b a eta t db) =
                       snd (progress_update i s t x y p b a z db))"
  by (cases "to_i64 n ''transferred bytes''";
      cases "transpose_opt (\<lambda>v. to_i64 v ''total bytes'') tot";
      cases "transpose_opt (\<lambda>v. to_i64 v ''remaining seconds'') eta")
     (auto simp: update_progress_def progress_update_def snd_bind_ret)

lemma moves_progress:
  assumes "in_order (OProgress i s n tot p b a eta t) db"
  shows "moves can_transition_to db (snd (update_progress i s n tot p b a eta t db))"
proof -
  have *: "moves can_transition_to db (snd (progress_update i s t x y p b a z db))" for x y z
    unfolding progress_update_def
    by (rule moves_update) (use assms status_at_row in auto)
  then show ?thesis
    using update_progress_cases [of i s n tot p b a eta t db] moves_refl by fastforce
qed

text \<open>C36: Every write of the repository moves every job along \<open>can_transition_to\<close> or leaves its
  status alone, provided the progress and success reports that workers pass in come in the
  machine's order; all other calls enforce the machine by their guards.\<close>

theorem transfer_moves_respect_machine:
  assumes "in_order c db"
  shows "moves can_transition_to db (apply_op c db)"
proof (cases c)
  case (OCreate d i t)
  then show ?thesis using create_job_at by (fastforce simp: moves_def status_at_def)
next
  case (OClaim i t)
  then show ?thesis
    by (auto simp: claim_def snd_ops can_transition_to_def intro!: moves_update)
next
  case (OSetExecution i e t)
  then show ?thesis by (auto simp: set_execution_def snd_ops intro!: moves_update)
next
  case (OProgress i s n tot p b a eta t)
  then show ?thesis using assms moves_progress by simp
next
  case (OFinish i fin t)
  then show ?thesis using assms moves_finish by simp
next
  case (OCancel i t)
  then show ?thesis
    by (auto simp: request_cancel_def snd_ops moves_refl can_transition_to_def
        intro!: moves_update split: option.split)
next
  case (ORetry i t)
  then show ?thesis
    by (auto simp: retry_def snd_ops can_transition_to_def intro!: moves_update)
next
  case (ORequeue i t)
  then show ?thesis
    by (auto simp: requeue_automatically_def snd_ops can_transition_to_def intro!: moves_update)
next
  case (ORecover t)
  then show ?thesis
    by (auto simp: recover_interrupted_def active_can_fail intro!: moves_update)
qed

subsection \<open>Final rows\<close>

lemma update_jobs_untouched:
  assumes "\<And>r. tj_id (f r) = tj_id r" and "job_at db j = Some r" and "\<not> p r"
  shows "job_at (snd (update_jobs p f db)) j = Some r"
  using update_jobs_at [OF assms(1,2), where p = p] assms(3) by blast

lemma final_row_step:
  assumes "job_at db j = Some r" and "tj_status r = TSucceeded \<or> tj_status r = TCancelled"
  shows "job_at (apply_op c db) j = Some r"
proof -
  note un = update_jobs_untouched [OF _ assms(1)]
  have cases: "\<not> is_active (tj_status r)" "tj_status r \<noteq> TQueued" "tj_status r \<noteq> TFailed"
    "tj_status r \<noteq> TUncertain" using assms(2) by auto
  have id: "tj_id r = j" using job_at_id [OF assms(1)] .
  show ?thesis
  proof (cases c)
    case (OCreate d i t)
    then show ?thesis using create_job_at [OF assms(1)] by simp
  next
    case (OProgress i s n tot p b a eta t)
    have "job_at (snd (progress_update i s t x y p b a z db)) j = Some r" for x y z
      unfolding progress_update_def by (rule un) (use cases in auto)
    then show ?thesis
      using OProgress assms(1) update_progress_cases [of i s n tot p b a eta t db] by fastforce
  next
    case (OCancel i t)
    show ?thesis
    proof (cases "i = j")
      case True
      then show ?thesis using OCancel assms(1) cases
        by (simp add: request_cancel_def job_at_def)
    next
      case False
      then show ?thesis using OCancel assms(1) id un
        by (auto simp: request_cancel_def snd_ops split: option.split)
    qed
  qed (use cases un in \<open>auto simp: claim_def set_execution_def finish_def retry_def
         requeue_automatically_def recover_interrupted_def snd_ops assms(1)\<close>)
qed

text \<open>A succeeded or cancelled job is final: no history of calls, in any order and for any
  job, changes any column of its row.\<close>

theorem transfer_final_rows_immutable:
  assumes "job_at db j = Some r" and "tj_status r = TSucceeded \<or> tj_status r = TCancelled"
  shows "job_at (run_ops cs db) j = Some r"
  using assms by (induction cs arbitrary: db) (auto intro: final_row_step)

section \<open>Witnesses\<close>

theorem transfer_attempts_bounded_witness:
  "\<exists>r'. job_at (run_ops [ORetry 1 50, OClaim 1 51, OClaim 1 52] example_db) 1 = Some r'
     \<and> tj_attempt_count r' = 1 + int (claims_won 1 [ORetry 1 50, OClaim 1 51, OClaim 1 52] example_db)
     \<and> tj_attempt_count r' \<le> 3"
proof -
  have "job_at example_db 1 = Some example_failed" by (simp add: job_at_def example_defs)
  from transfer_attempts_bounded [OF example_db_inv(1) this, of "[ORetry 1 50, OClaim 1 51, OClaim 1 52]"]
  show ?thesis
    by (simp add: example_failed_def new_row_def del: run_ops.simps claims_won.simps) blast
qed

theorem transfer_moves_respect_machine_witness:
  "moves can_transition_to example_db
     (apply_op (OProgress 4 TVerifying 5 None None None None None 60) example_db)"
  by (rule transfer_moves_respect_machine)
     (simp add: status_at_def job_at_def example_defs can_transition_to_def)

theorem transfer_final_rows_immutable_witness:
  "job_at (run_ops [ORetry 2 61, OClaim 2 62] (snd (request_cancel 2 60 example_db))) 2
     = job_at (snd (request_cancel 2 60 example_db)) 2
   \<and> job_at (snd (request_cancel 2 60 example_db)) 2 \<noteq> None"
proof -
  let ?r = "(new_row example_draft 2 20)\<lparr>tj_status := TCancelled, tj_cancel_requested := True,
    tj_finished_at := Some 60, tj_updated_at := 60\<rparr>"
  have row: "job_at (snd (request_cancel 2 60 example_db)) 2 = Some ?r"
    by (simp add: request_cancel_def job_at_def example_defs snd_bind_ret update_jobs_def
        run_update_def job_row_ok_def)
  show ?thesis
    using transfer_final_rows_immutable [OF row, of "[ORetry 2 61, OClaim 2 62]"] row
    by (simp del: run_ops.simps)
qed

end
