(* ===== verification/Transfer_Schedule.thy ===== *)
theory Transfer_Schedule
  imports Transfer_History
begin

text \<open>
  Scheduling facts about the job table: which job \<open>next_runnable\<close> hands out, the limit of two
  active jobs per server when polling and claiming are not interleaved, cancellation, retry
  and the recovery that runs when the application starts.
\<close>

section \<open>Counting rows\<close>

lemma affected_mono:
  assumes "\<And>r. p r \<Longrightarrow> q (f r) \<Longrightarrow> q r"
  shows "affected q (upd_where p f rows) \<le> affected q rows"
  using assms by (induction rows) (auto simp: le_SucI)

lemma affected_keyed_le:
  assumes "distinct (map key rows)" and "row_by key k rows = Some r"
  shows "affected q (upd_where (\<lambda>r. key r = k \<and> p r) f rows) \<le> affected q rows + (if q (f r) then 1 else 0)"
  using assms
proof (induction rows)
  case Nil
  then show ?case by simp
next
  case (Cons a rows)
  show ?case
  proof (cases "key a = k")
    case True
    with Cons.prems have "k \<notin> key ` set rows" and ar: "a = r" by auto
    then have "upd_where (\<lambda>r. key r = k \<and> p r) f rows = rows"
      by (auto simp: upd_where_def intro!: map_idI)
    with ar True show ?thesis by simp
  next
    case False
    with Cons show ?thesis by auto
  qed
qed

lemma active_on_update:
  assumes "\<And>r. tj_server_id (f r) = tj_server_id r"
    and "\<And>r. p r \<Longrightarrow> is_active (tj_status (f r)) \<Longrightarrow> is_active (tj_status r)"
  shows "active_on s (snd (update_jobs p f db)) \<le> active_on s db"
  using assms by (auto simp: active_on_def update_jobs_def run_update_def intro!: affected_mono)

lemma active_on_keyed:
  assumes "\<And>r. tj_server_id (f r) = tj_server_id r"
    and "distinct (map tj_id (db_jobs db))" and "row_by tj_id k (db_jobs db) = Some r"
  shows "active_on s (snd (update_jobs (\<lambda>r. tj_id r = k \<and> p r) f db)) \<le>
    active_on s db + (if tj_server_id r = s then 1 else 0)"
  using affected_keyed_le [OF assms(2,3), where f = f and p = p
      and q = "\<lambda>r. tj_server_id r = s \<and> is_active (tj_status r)"] assms(1)
  by (auto simp: active_on_def update_jobs_def run_update_def split: if_splits)

lemma active_on_progress:
  "active_on s (snd (update_progress i st n tot p b a eta t db)) \<le> active_on s db"
proof -
  have "active_on s (snd (progress_update i st t x y p b a z db)) \<le> active_on s db" for x y z
    unfolding progress_update_def by (rule active_on_update) auto
  then show ?thesis
    using update_progress_cases [of i st n tot p b a eta t db] by fastforce
qed

lemma active_on_create: "active_on s (snd (create d i t db)) = active_on s db"
  by (auto simp: create_def active_on_def affected_def new_row_def Let_def split: sum.split)

lemma active_on_other_ops:
  assumes "\<And>i t. c \<noteq> OClaim i t"
  shows "active_on s (apply_op c db) \<le> active_on s db"
proof (cases c)
  case (OClaim i t)
  with assms show ?thesis by blast
next
  case (OCreate d i t)
  then show ?thesis by (simp add: active_on_create)
next
  case (OProgress i st n tot p b a eta t)
  then show ?thesis by (simp add: active_on_progress)
next
  case (OCancel i t)
  then show ?thesis
    by (auto simp: request_cancel_def snd_ops intro!: active_on_update split: option.split)
qed (auto simp: set_execution_def finish_def retry_def requeue_automatically_def
       recover_interrupted_def snd_ops intro!: active_on_update elim: is_terminal.elims)

section \<open>Polling\<close>

definition runnable :: "transfer_db \<Rightarrow> transfer_job \<Rightarrow> bool" where
  "runnable db r \<longleftrightarrow> r \<in> set (db_jobs db) \<and> tj_status r = TQueued \<and> active_on (tj_server_id r) db < 2"

lemma sort_key_head:
  assumes "sort_key f xs = x # ys"
  shows "x \<in> set xs \<and> (\<forall>y \<in> set xs. f x \<le> f y)"
proof -
  have "sorted (map f (x # ys))" using sorted_sort_key [of f xs] assms by simp
  moreover have "set xs = set (x # ys)" using set_sort [of f xs] assms by simp
  ultimately show ?thesis by auto
qed

lemma next_runnable_cases:
  assumes "jobs_inv db"
  shows "(next_runnable db = Inr None \<and> (\<forall>r. \<not> runnable db r)) \<or>
    (\<exists>r. next_runnable db = Inr (Some r) \<and> runnable db r \<and>
      (\<forall>r'. runnable db r' \<longrightarrow> queue_key r \<le> queue_key r'))"
proof -
  let ?xs = "filter (\<lambda>r. tj_status r = TQueued \<and> active_on (tj_server_id r) db < 2) (db_jobs db)"
  have run: "r \<in> set ?xs \<longleftrightarrow> runnable db r" for r by (auto simp: runnable_def)
  show ?thesis
  proof (cases "sort_key queue_key ?xs")
    case Nil
    then have "?xs = []" using set_sort [of queue_key ?xs] by simp
    with Nil run show ?thesis by (auto simp: next_runnable_def)
  next
    case (Cons r ys)
    note head = sort_key_head [OF Cons]
    then have "runnable db r" using run by blast
    moreover from this have "map_job r = Inr r"
      using jobs_inv_row [OF assms] map_job_ok by (auto simp: runnable_def)
    ultimately show ?thesis using Cons head run by (auto simp: next_runnable_def)
  qed
qed

text \<open>\<open>next_runnable\<close> never fails on a well-formed table; it returns nothing exactly when
  every queued job is on a server that already has two active jobs, and otherwise the
  earliest (by creation time, then identifier) of the queued jobs on the other servers.\<close>

theorem transfer_next_runnable_is_oldest:
  assumes "jobs_inv db"
  shows "(next_runnable db = Inr None \<longleftrightarrow> (\<forall>r. \<not> runnable db r)) \<and>
    (next_runnable db = Inr (Some r) \<longleftrightarrow>
       runnable db r \<and> (\<forall>r'. runnable db r' \<longrightarrow> queue_key r \<le> queue_key r'))"
proof -
  have "r = r'" if "runnable db r" "runnable db r'" "queue_key r = queue_key r'" for r r'
    using that assms by (auto simp: runnable_def queue_key_def jobs_inv_def distinct_map dest: inj_onD)
  then show ?thesis
    using next_runnable_cases [OF assms] by (metis Inr_inject antisym option.distinct(1) option.inject)
qed

text \<open>When a worker claims the job it has just polled, with no other call between, no
  server ever gets more than two active jobs; and no call other than a claim adds an active
  job to any server.\<close>

theorem transfer_server_limit_if_poll_is_fresh:
  assumes inv: "jobs_inv db" and poll: "next_runnable db = Inr (Some r)"
    and limit: "active_on s db \<le> 2"
  shows "active_on s (snd (claim (tj_id r) now db)) \<le> 2 \<and>
    ((\<forall>i t. c \<noteq> OClaim i t) \<longrightarrow> active_on s (apply_op c db) \<le> active_on s db)"
proof -
  from poll next_runnable_cases [OF inv] have run: "runnable db r" by auto
  then have row: "row_by tj_id (tj_id r) (db_jobs db) = Some r"
    using inv by (auto simp: runnable_def jobs_inv_def intro: row_by_distinct)
  have "active_on s (snd (claim (tj_id r) now db)) \<le> active_on s db + (if tj_server_id r = s then 1 else 0)"
    unfolding claim_def snd_ops using inv by (intro active_on_keyed row) (auto simp: jobs_inv_def)
  moreover have "tj_server_id r = s \<Longrightarrow> active_on s db < 2" using run by (auto simp: runnable_def)
  ultimately show ?thesis using limit active_on_other_ops by (fastforce split: if_splits)
qed

section \<open>Cancellation, retry, recovery\<close>

lemma cancel_queued_update:
  assumes "jobs_inv db"
  shows "job_at (snd (update_jobs (\<lambda>r. tj_id r = i \<and> tj_status r = TQueued)
      (\<lambda>r. r\<lparr>tj_status := TCancelled, tj_cancel_requested := True, tj_retryable := False,
             tj_finished_at := Some now, tj_updated_at := now\<rparr>) db)) i =
    map_option (\<lambda>r. if tj_status r = TQueued
      then r\<lparr>tj_status := TCancelled, tj_cancel_requested := True, tj_retryable := False,
             tj_finished_at := Some now, tj_updated_at := now\<rparr> else r) (job_at db i)"
  using keyed_update(2) [OF assms, of "\<lambda>r. r\<lparr>tj_status := TCancelled, tj_cancel_requested := True,
      tj_retryable := False, tj_finished_at := Some now, tj_updated_at := now\<rparr>"
      "\<lambda>r. tj_status r = TQueued" i i]
  by (simp add: job_row_ok_def)

lemma cancel_active_update:
  assumes "jobs_inv db"
  shows "job_at (snd (update_jobs (\<lambda>r. tj_id r = i)
      (\<lambda>r. r\<lparr>tj_cancel_requested := True, tj_updated_at := now\<rparr>) db)) i =
    map_option (\<lambda>r. r\<lparr>tj_cancel_requested := True, tj_updated_at := now\<rparr>) (job_at db i)"
  using keyed_update(2) [OF assms, of "\<lambda>r. r\<lparr>tj_cancel_requested := True, tj_updated_at := now\<rparr>"
      "\<lambda>r. True" i i]
  by (simp add: job_row_ok_def)

lemma update_jobs_Inr:
  assumes "jobs_inv db" and "\<And>r. p r \<Longrightarrow> job_row_ok db r \<Longrightarrow> lifecycle r \<Longrightarrow> job_row_ok db (f r)"
  shows "\<exists>n. fst (update_jobs p f db) = Inr n"
  using update_jobs_ok [OF assms] by simp

lemma bind_ret_ok:
  assumes "fst (m s) = Inr n"
  shows "bind_st m (\<lambda>_. ret_st x) s = (Inr x, snd (m s))"
  using assms by (cases "m s") (auto simp: bind_st_def)

text \<open>What a cancel request does, on every branch: an unknown job and an ended job are
  errors that change nothing; a queued job becomes cancelled at once; an active job is
  flagged, and the caller learns which execution to signal, if one is registered.\<close>

theorem transfer_request_cancel_spec:
  assumes inv: "jobs_inv db"
  shows "case job_at db i of
      None \<Rightarrow> request_cancel i now db = (Inl (Validation ''transfer job does not exist''), db)
    | Some r \<Rightarrow>
        if is_terminal (tj_status r)
        then request_cancel i now db = (Inl (Validation ''transfer job already ended''), db)
        else if tj_status r = TQueued
        then fst (request_cancel i now db) = Inr CancelledQueued \<and>
             job_at (snd (request_cancel i now db)) i =
               Some (r\<lparr>tj_status := TCancelled, tj_cancel_requested := True, tj_retryable := False,
                       tj_finished_at := Some now, tj_updated_at := now\<rparr>)
        else fst (request_cancel i now db) =
               Inr (case tj_execution_id r of Some e \<Rightarrow> SignalExecution e | None \<Rightarrow> AwaitExecutionId) \<and>
             job_at (snd (request_cancel i now db)) i =
               Some (r\<lparr>tj_cancel_requested := True, tj_updated_at := now\<rparr>)"
proof (cases "job_at db i")
  case None
  then show ?thesis by (simp add: request_cancel_def job_at_def)
next
  case (Some r)
  have row: "row_by tj_id i (db_jobs db) = Some r" using Some by (simp add: job_at_def)
  let ?fq = "\<lambda>r. r\<lparr>tj_status := TCancelled, tj_cancel_requested := True, tj_retryable := False,
                  tj_finished_at := Some now, tj_updated_at := now\<rparr>"
  let ?fa = "\<lambda>r. r\<lparr>tj_cancel_requested := True, tj_updated_at := now\<rparr>"
  obtain n m where
    "fst (update_jobs (\<lambda>r. tj_id r = i \<and> tj_status r = TQueued) ?fq db) = Inr n"
    "fst (update_jobs (\<lambda>r. tj_id r = i) ?fa db) = Inr m"
    using update_jobs_Inr [OF inv, of "\<lambda>r. tj_id r = i \<and> tj_status r = TQueued" ?fq]
      update_jobs_Inr [OF inv, of "\<lambda>r. tj_id r = i" ?fa]
    by (auto simp: job_row_ok_def)
  then show ?thesis
    using row Some cancel_queued_update [OF inv] cancel_active_update [OF inv]
      status_trichotomy [of "tj_status r"]
    by (auto simp: request_cancel_def bind_ret_ok)
qed

text \<open>A retry succeeds exactly for a failed or uncertain job that is marked retryable and has
  attempts left; it puts that job back in the queue with its error, its execution and any
  cancellation cleared, and otherwise changes nothing.\<close>

theorem transfer_retry_spec:
  assumes inv: "jobs_inv db" and row: "job_at db i = Some r"
  shows "if (tj_status r = TFailed \<or> tj_status r = TUncertain) \<and> tj_retryable r
            \<and> tj_attempt_count r < tj_max_attempts r
    then (let r' = r\<lparr>tj_status := TQueued, tj_execution_id := None, tj_cancel_requested := False,
              tj_retryable := False, tj_error_category := None, tj_error_message := None,
              tj_finished_at := None, tj_updated_at := now\<rparr>
          in fst (retry i now db) = Inr r' \<and> job_at (snd (retry i now db)) i = Some r')
    else retry i now db = (Inl (Validation ''transfer cannot be retried''), db)"
proof -
  let ?p = "\<lambda>r. (tj_status r = TFailed \<or> tj_status r = TUncertain) \<and> tj_retryable r
            \<and> tj_attempt_count r < tj_max_attempts r"
  let ?f = "\<lambda>r. r\<lparr>tj_status := TQueued, tj_execution_id := None, tj_cancel_requested := False,
              tj_retryable := False, tj_error_category := None, tj_error_message := None,
              tj_finished_at := None, tj_updated_at := now\<rparr>"
  let ?u = "update_jobs (\<lambda>r. tj_id r = i \<and> ?p r) ?f db"
  have u: "fst ?u = Inr (if ?p r then 1 else 0)" "job_at (snd ?u) i = Some (if ?p r then ?f r else r)"
    using keyed_update [OF inv, of ?f ?p i] row by (simp_all add: job_row_ok_def)
  have inv': "jobs_inv (snd (retry i now db))" using inv retry_keeps by (rule keepsD [rotated])
  have snd_eq: "snd (retry i now db) = snd ?u"
    unfolding retry_def by (rule snd_bind_nochange) simp
  show ?thesis
  proof (cases "?p r")
    case True
    have "require i (snd ?u) = Inr (?f r)"
      using require_ok [of "snd ?u" i] inv' u(2) True snd_eq by (simp add: job_at_def)
    then have "fst (retry i now db) = Inr (?f r)"
      using u(1) True by (cases ?u) (simp add: retry_def bind_st_def)
    with True u(2) snd_eq show ?thesis by (simp add: Let_def)
  next
    case False
    have "affected (\<lambda>r. tj_id r = i \<and> ?p r) (db_jobs db) = 0"
      using inv row False by (simp add: affected_by_key jobs_inv_def job_at_def)
    then have "?u = (Inr 0, db)"
      using update_jobs_ok [OF inv, of "\<lambda>r. tj_id r = i \<and> ?p r" ?f]
      by (auto simp: job_row_ok_def affected_zero)
    with False show ?thesis by (simp add: retry_def bind_st_def)
  qed
qed

lemma recover_rows:
  assumes inv: "jobs_inv db"
  shows "recover_interrupted now db = (Inr (affected (\<lambda>r. is_active (tj_status r)) (db_jobs db)),
      db\<lparr>db_jobs := upd_where (\<lambda>r. is_active (tj_status r)) (\<lambda>r. r\<lparr>tj_status := TUncertain,
              tj_retryable := True, tj_error_category := Some ''interrupted'',
              tj_error_message := Some ''result not confirmed when the application exited'',
              tj_finished_at := Some now, tj_updated_at := now\<rparr>) (db_jobs db)\<rparr>)"
  unfolding recover_interrupted_def using inv by (rule update_jobs_ok) (simp add: job_row_ok_def)

lemma transfer_recovery_rows:
  "jobs_inv db \<Longrightarrow> r \<in> set (db_jobs (snd (recover_interrupted now db))) \<Longrightarrow> \<not> is_active (tj_status r)"
  by (auto simp: recover_rows set_upd_where)

text \<open>After the start-up recovery no job is active; each interrupted job has become
  uncertain and retryable, every other row is unchanged, and the count returned is the number
  of interrupted jobs.\<close>

theorem transfer_recovery_spec:
  assumes inv: "jobs_inv db"
  shows "fst (recover_interrupted now db) = Inr (affected (\<lambda>r. is_active (tj_status r)) (db_jobs db)) \<and>
    (\<forall>r \<in> set (db_jobs (snd (recover_interrupted now db))). \<not> is_active (tj_status r)) \<and>
    (\<forall>i r. job_at db i = Some r \<longrightarrow>
      (if is_active (tj_status r)
       then \<exists>r'. job_at (snd (recover_interrupted now db)) i = Some r' \<and>
              tj_status r' = TUncertain \<and> tj_retryable r' \<and> attempts r' = attempts r
       else job_at (snd (recover_interrupted now db)) i = Some r))"
proof -
  let ?f = "\<lambda>r. r\<lparr>tj_status := TUncertain, tj_retryable := True,
              tj_error_category := Some ''interrupted'',
              tj_error_message := Some ''result not confirmed when the application exited'',
              tj_finished_at := Some now, tj_updated_at := now\<rparr>"
  have eq: "recover_interrupted now db = (Inr (affected (\<lambda>r. is_active (tj_status r)) (db_jobs db)),
      db\<lparr>db_jobs := upd_where (\<lambda>r. is_active (tj_status r)) ?f (db_jobs db)\<rparr>)"
    by (rule recover_rows[OF inv])
  have rb: "row_by tj_id i (upd_where (\<lambda>r. is_active (tj_status r)) ?f rows) =
      map_option (\<lambda>r. if is_active (tj_status r) then ?f r else r) (row_by tj_id i rows)" for i rows
    by (induction rows) auto
  show ?thesis by (auto simp: eq rb set_upd_where job_at_def attempts_def)
qed

section \<open>Witnesses\<close>

lemma example_next: "next_runnable example_idle_db = Inr (Some (new_row example_draft 2 20))"
  by (simp add: next_runnable_def example_defs active_on_def affected_def queue_key_def map_job_def
      from_i64_def from_u32_def)

theorem transfer_next_runnable_is_oldest_witness:
  "runnable example_idle_db (new_row example_draft 2 20)
   \<and> \<not> (\<exists>r'. runnable example_idle_db r' \<and> queue_key r' < queue_key (new_row example_draft 2 20))"
  using transfer_next_runnable_is_oldest [OF example_db_inv(2), of "new_row example_draft 2 20"]
    example_next by (metis linorder_not_less)

theorem transfer_server_limit_if_poll_is_fresh_witness:
  "active_on ''s'' (snd (claim 2 50 example_idle_db)) \<le> 2"
  using transfer_server_limit_if_poll_is_fresh [OF example_db_inv(2) example_next, of "''s''" 50]
  by (simp add: active_on_def affected_def example_defs)

theorem transfer_request_cancel_spec_witness:
  "fst (request_cancel 2 60 example_db) = Inr CancelledQueued
   \<and> fst (request_cancel 4 60 example_db) = Inr AwaitExecutionId
   \<and> request_cancel 1 60 example_db = (Inl (Validation ''transfer job already ended''), example_db)"
  using transfer_request_cancel_spec [OF example_db_inv(1), of 2 60]
    transfer_request_cancel_spec [OF example_db_inv(1), of 4 60]
    transfer_request_cancel_spec [OF example_db_inv(1), of 1 60]
  by (simp add: job_at_def example_defs)

theorem transfer_retry_spec_witness:
  "\<exists>r. fst (retry 1 60 example_db) = Inr r \<and> tj_status r = TQueued
     \<and> job_at (snd (retry 1 60 example_db)) 1 = Some r"
proof -
  have row: "job_at example_db 1 = Some example_failed" by (simp add: job_at_def example_defs)
  show ?thesis using transfer_retry_spec [OF example_db_inv(1) row, of 60]
    by (simp add: Let_def example_failed_def new_row_def)
qed

theorem transfer_recovery_spec_witness:
  "fst (recover_interrupted 60 example_db) = Inr 1
   \<and> (\<exists>r. job_at (snd (recover_interrupted 60 example_db)) 4 = Some r \<and> tj_status r = TUncertain)"
proof -
  have row: "job_at example_db 4 = Some example_active" by (simp add: job_at_def example_defs)
  have "is_active (tj_status example_active)" by (simp add: example_active_def)
  with transfer_recovery_spec [OF example_db_inv(1), of 60] row
  have "\<exists>r. job_at (snd (recover_interrupted 60 example_db)) 4 = Some r \<and> tj_status r = TUncertain"
    by (metis (no_types, lifting))
  moreover have "affected (\<lambda>r. is_active (tj_status r)) (db_jobs example_db) = 1"
    by (simp add: affected_def example_defs)
  ultimately show ?thesis
    using transfer_recovery_spec [OF example_db_inv(1), of 60] by simp
qed

end
