(* ===== verification/Sftp_Pipeline.thy ===== *)
theory Sftp_Pipeline
  imports Qz_Prelude
begin

text \<open>
  The pipelined SFTP download: the window planner and the reordering buffer of
  \<^verbatim>\<open>src-tauri/src/core/sftp/pipeline.rs\<close> and the loop \<open>run_download_pipeline\<close> of
  \<^verbatim>\<open>src-tauri/src/core/sftp/transfer.rs\<close>. Unsigned 64-bit quantities are naturals with the
  saturating operations of the source written out; a \<open>Chunk\<close> is the pair of its offset and
  length. The remote server and the order in which outstanding reads complete are parameters.
\<close>

section \<open>Planning\<close>

definition u64_max :: nat where "u64_max = 2 ^ 64 - 1"
definition u32_max :: nat where "u32_max = 2 ^ 32 - 1"

definition sat_add :: "nat \<Rightarrow> nat \<Rightarrow> nat" where
  "sat_add a b = min (a + b) u64_max"

definition max_pipeline_requests :: nat where "max_pipeline_requests = 8"
definition max_pipeline_bytes :: nat where "max_pipeline_bytes = 16 * 1024 * 1024"
definition max_read_chunk_bytes :: nat where "max_read_chunk_bytes = 2 * 1024 * 1024"
definition default_read_chunk_bytes :: nat where "default_read_chunk_bytes = 256 * 1024"
definition sftp_data_packet_overhead :: nat where "sftp_data_packet_overhead = 9"

lemmas pipeline_constants =
  max_pipeline_requests_def max_pipeline_bytes_def max_read_chunk_bytes_def
  default_read_chunk_bytes_def sftp_data_packet_overhead_def u64_max_def u32_max_def

type_synonym chunk = "nat \<times> nat"

definition effective_read_chunk :: "nat option \<Rightarrow> nat option \<Rightarrow> nat" where
  "effective_read_chunk server_packet_len server_read_len =
     (let packet_data_len =
            (case server_packet_len of
               None \<Rightarrow> None
             | Some packet \<Rightarrow> (let d = packet - sftp_data_packet_overhead in if d > 0 then Some d else None));
          wanted = (case server_read_len of
               Some r \<Rightarrow> r
             | None \<Rightarrow> (case packet_data_len of Some d \<Rightarrow> d | None \<Rightarrow> default_read_chunk_bytes));
          capped = min wanted (case packet_data_len of Some d \<Rightarrow> d | None \<Rightarrow> max_read_chunk_bytes)
      in max 1 (min capped max_read_chunk_bytes))"

text \<open>The \<open>while\<close> loop of \<open>plan_window_from\<close>: \<open>count\<close> is \<open>chunks.len()\<close>.\<close>

function plan_loop :: "nat \<Rightarrow> nat \<Rightarrow> nat \<Rightarrow> nat \<Rightarrow> nat \<Rightarrow> nat \<Rightarrow> chunk list" where
  "plan_loop file_len chunk_bytes request_limit offset count window_bytes =
     (if offset < file_len \<and> count < request_limit \<and> window_bytes < max_pipeline_bytes
      then let len = min (min (file_len - offset) chunk_bytes) (max_pipeline_bytes - window_bytes)
           in if len = 0 then []
              else (offset, len mod 2 ^ 32)
                   # plan_loop file_len chunk_bytes request_limit (sat_add offset len) (Suc count)
                       (sat_add window_bytes len)
      else [])"
  by pat_completeness auto
termination
  by (relation "measure (\<lambda>(file_len, chunk, limit, offset, count, window). limit - count)") auto

declare plan_loop.simps [simp del]

definition plan_window_from :: "nat \<Rightarrow> nat \<Rightarrow> nat \<Rightarrow> nat \<Rightarrow> chunk list" where
  "plan_window_from start file_len requested_chunk_bytes max_requests =
     (if start \<ge> file_len \<or> requested_chunk_bytes = 0 \<or> max_requests = 0 then []
      else plan_loop file_len (min (min requested_chunk_bytes max_read_chunk_bytes) u32_max)
             (min max_requests max_pipeline_requests) start 0 0)"

section \<open>The reordering buffer\<close>

type_synonym bytes = "8 word list"

record ordered_chunk_buffer =
  next_offset :: nat
  chunks :: "(nat \<times> bytes) list"
  buffered_bytes :: nat

definition new_buffer :: "nat \<Rightarrow> ordered_chunk_buffer" where
  "new_buffer start = \<lparr>next_offset = start, chunks = [], buffered_bytes = 0\<rparr>"

definition insert_chunk ::
  "nat \<Rightarrow> bytes \<Rightarrow> ordered_chunk_buffer \<Rightarrow> bool \<times> ordered_chunk_buffer" where
  "insert_chunk offset data b =
     (if data = [] \<or> offset < next_offset b \<or> map_of (chunks b) offset \<noteq> None then (False, b)
      else (True, b\<lparr>buffered_bytes := sat_add (buffered_bytes b) (length data),
                    chunks := (offset, data) # chunks b\<rparr>))"

function drain_ready ::
  "ordered_chunk_buffer \<Rightarrow> (nat \<times> bytes) list \<times> ordered_chunk_buffer" where
  "drain_ready b =
     (case map_of (chunks b) (next_offset b) of
        None \<Rightarrow> ([], b)
      | Some data \<Rightarrow>
          let b' = b\<lparr>chunks := filter (\<lambda>c. fst c \<noteq> next_offset b) (chunks b),
                     next_offset := sat_add (next_offset b) (length data),
                     buffered_bytes := buffered_bytes b - length data\<rparr>
          in case drain_ready b' of (drained, b'') \<Rightarrow> ((next_offset b, data) # drained, b''))"
  by pat_completeness auto
termination
proof (relation "measure (\<lambda>b. length (chunks b))", goal_cases)
  case 1
  then show ?case by simp
next
  case (2 b data b')
  then have "(next_offset b, data) \<in> set (chunks b)" by (auto dest: map_of_SomeD)
  then have "length (filter (\<lambda>c. fst c \<noteq> next_offset b) (chunks b)) < length (chunks b)"
    by (intro length_filter_less) auto
  with 2 show ?case by simp
qed

declare drain_ready.simps [simp del]

section \<open>The download loop\<close>

record pipeline_stats =
  max_in_flight :: nat
  max_buffered_bytes :: nat

definition observe :: "nat \<Rightarrow> nat \<Rightarrow> pipeline_stats \<Rightarrow> pipeline_stats" where
  "observe in_flight buffered s =
     s\<lparr>max_in_flight := max (max_in_flight s) in_flight,
       max_buffered_bytes := max (max_buffered_bytes s) buffered\<rparr>"

text \<open>A read of the server returns data, the end of the file, or a failure.\<close>

datatype read_response = Data bytes | Eof | ReadError app_error

text \<open>
  \<open>server t offset len\<close> is the response to the read that completes at time \<open>t\<close>. The scheduler
  either lets the cancellation fire, or completes one of the outstanding reads; the writes of the
  turn that follows succeed, except those for which it names an error (a full disk, a cancellation
  during the write, a closed event sink).
\<close>

type_synonym server = "nat \<Rightarrow> nat \<Rightarrow> nat \<Rightarrow> read_response"

datatype choice = CancelNow | CompleteRead nat "nat \<Rightarrow> app_error option"

record pipeline_state =
  transferred :: nat
  local_file :: bytes
  hashed :: bytes
  reads :: "chunk list"
  ordered :: ordered_chunk_buffer
  stats :: pipeline_stats
  clock :: nat

definition remove_nth :: "nat \<Rightarrow> 'a list \<Rightarrow> 'a list" where
  "remove_nth i xs = take i xs @ drop (Suc i) xs"

definition write_download_chunk ::
  "app_error option \<Rightarrow> bytes \<Rightarrow> pipeline_state \<Rightarrow> pipeline_state app_result" where
  "write_download_chunk failure data s =
     (case failure of
        Some e \<Rightarrow> Inl e
      | None \<Rightarrow> Inr (s\<lparr>local_file := local_file s @ data, hashed := hashed s @ data,
                        transferred := sat_add (transferred s) (length data)\<rparr>))"

fun write_blocks ::
  "(nat \<Rightarrow> app_error option) \<Rightarrow> nat \<Rightarrow> (nat \<times> bytes) list \<Rightarrow> pipeline_state \<Rightarrow> pipeline_state app_result"
where
  "write_blocks failures k [] s = Inr s"
| "write_blocks failures k ((_, data) # blocks) s =
     bind_res (write_download_chunk (failures k) data s) (write_blocks failures (Suc k) blocks)"

text \<open>One turn of the inner loop, for the outstanding read number \<open>i\<close>.\<close>

definition complete_read ::
  "server \<Rightarrow> nat \<Rightarrow> (nat \<Rightarrow> app_error option) \<Rightarrow> pipeline_state \<Rightarrow> pipeline_state app_result" where
  "complete_read server i failures s =
     (let (offset, len) = reads s ! i;
          s = s\<lparr>clock := Suc (clock s), reads := remove_nth i (reads s)\<rparr>
      in case server (clock s) offset len of
        Eof \<Rightarrow> Inl (Integrity ''remote file ended before its announced size'')
      | ReadError e \<Rightarrow> Inl e
      | Data data \<Rightarrow>
          if data = [] \<or> length data > len
          then Inl (Integrity ''remote returned an invalid SFTP block'')
          else
            let s = (if length data < len
                     then s\<lparr>reads := reads s @ [(sat_add offset (length data), len - length data)]\<rparr>
                     else s);
                (accepted, buf) = insert_chunk offset data (ordered s)
            in if \<not> accepted then Inl (Integrity ''remote returned a duplicate or overlapping block'')
               else
                 let s = s\<lparr>ordered := buf,
                           stats := observe (length (reads s)) (buffered_bytes buf) (stats s)\<rparr>
                 in if buffered_bytes buf > max_pipeline_bytes
                    then Inl (Integrity ''pipeline buffer above its limit'')
                    else (case drain_ready buf of (drained, buf') \<Rightarrow>
                            write_blocks failures 0 drained (s\<lparr>ordered := buf'\<rparr>)))"

text \<open>The inner loop consumes scheduler choices; \<open>None\<close> means the schedule ended first.\<close>

fun run_window ::
  "server \<Rightarrow> choice list \<Rightarrow> pipeline_state \<Rightarrow> (pipeline_state \<times> choice list) app_result option" where
  "run_window server cs s =
     (if reads s = [] then Some (Inr (s, cs))
      else case cs of
        [] \<Rightarrow> None
      | CancelNow # _ \<Rightarrow> Some (Inl Cancelled)
      | CompleteRead i failures # cs' \<Rightarrow>
          (case complete_read server (i mod length (reads s)) failures s of
             Inl e \<Rightarrow> Some (Inl e)
           | Inr s' \<Rightarrow> run_window server cs' s'))"

declare run_window.simps [simp del]

text \<open>The start of a turn of the outer loop: plan a window and issue its reads.\<close>

definition window_end :: "chunk list \<Rightarrow> nat" where
  "window_end cs = sat_add (fst (last cs)) (snd (last cs))"

definition open_window :: "nat \<Rightarrow> nat \<Rightarrow> pipeline_state \<Rightarrow> (pipeline_state \<times> nat) app_result" where
  "open_window chunk_bytes file_len s =
     (let cs = plan_window_from (transferred s) file_len chunk_bytes max_pipeline_requests in
      if cs = [] then Inl (Integrity ''pipeline cannot plan the rest of the file'')
      else Inr (s\<lparr>reads := cs, ordered := new_buffer (transferred s),
                  stats := observe (length cs) 0 (stats s)\<rparr>, window_end cs))"

text \<open>
  The outer loop, with a bound on its turns (the number of scheduler choices suffices, since
  every window completes at least one read).
\<close>

fun run_windows ::
  "nat \<Rightarrow> server \<Rightarrow> nat \<Rightarrow> nat \<Rightarrow> choice list \<Rightarrow> pipeline_state \<Rightarrow> pipeline_state app_result option" where
  "run_windows fuel server chunk_bytes file_len cs s =
     (if \<not> transferred s < file_len then Some (Inr s)
      else case fuel of
        0 \<Rightarrow> None
      | Suc fuel' \<Rightarrow>
          (case open_window chunk_bytes file_len s of
             Inl e \<Rightarrow> Some (Inl e)
           | Inr (s', wend) \<Rightarrow>
               (case run_window server cs s' of
                  None \<Rightarrow> None
                | Some (Inl e) \<Rightarrow> Some (Inl e)
                | Some (Inr (s'', cs')) \<Rightarrow>
                    if transferred s'' \<noteq> wend \<or> buffered_bytes (ordered s'') \<noteq> 0
                    then Some (Inl (Integrity ''pipeline did not form contiguous content''))
                    else run_windows fuel' server chunk_bytes file_len cs' s'')))"

declare run_windows.simps [simp del]

definition initial_state :: pipeline_state where
  "initial_state =
     \<lparr>transferred = 0, local_file = [], hashed = [], reads = [], ordered = new_buffer 0,
      stats = \<lparr>max_in_flight = 0, max_buffered_bytes = 0\<rparr>, clock = 0\<rparr>"

definition run_download_pipeline ::
  "server \<Rightarrow> nat \<Rightarrow> nat \<Rightarrow> choice list \<Rightarrow> pipeline_state app_result option" where
  "run_download_pipeline server chunk_bytes file_len cs =
     run_windows (length cs) server chunk_bytes file_len cs initial_state"

end
