(* ===== verification/Sftp_Download.thy ===== *)
theory Sftp_Download
  imports Sftp_Pipeline "HOL-Library.Multiset"
begin

text \<open>
  Correctness of the pipelined download of \<^verbatim>\<open>core/sftp/transfer.rs\<close>. The central invariant is
  that, inside a window, the outstanding reads together with the buffered blocks tile the part of
  the window that is not written yet: every byte of it is asked for or held exactly once.
\<close>

section \<open>Tilings\<close>

fun path :: "nat \<Rightarrow> chunk list \<Rightarrow> nat \<Rightarrow> bool" where
  "path a [] b \<longleftrightarrow> a = b"
| "path a ((off, n) # qs) b \<longleftrightarrow> off = a \<and> 0 < n \<and> path (a + n) qs b"

definition piece :: "nat \<times> bytes \<Rightarrow> chunk" where
  "piece c = (fst c, length (snd c))"

definition tiles :: "nat \<Rightarrow> chunk list \<Rightarrow> (nat \<times> bytes) list \<Rightarrow> nat \<Rightarrow> bool" where
  "tiles a rds chs b \<longleftrightarrow> (\<exists>qs. path a qs b \<and> mset qs = mset rds + mset (map piece chs))"

lemma path_append: "path a (xs @ ys) b \<longleftrightarrow> (\<exists>m. path a xs m \<and> path m ys b)"
  by (induction xs arbitrary: a) auto

lemma path_sum: "path a qs b \<Longrightarrow> a + sum_list (map snd qs) = b"
  by (induction qs arbitrary: a) (auto simp flip: add.assoc)

lemma path_le: "path a qs b \<Longrightarrow> a \<le> b"
  using path_sum by fastforce

lemma path_start: "path a qs b \<Longrightarrow> c \<in> set qs \<Longrightarrow> a \<le> fst c \<and> fst c + snd c \<le> b \<and> 0 < snd c"
proof (induction qs arbitrary: a)
  case (Cons q qs)
  obtain off n where q: "q = (off, n)" by (cases q)
  with Cons.prems have p: "off = a" "0 < n" "path (a + n) qs b" by auto
  show ?case
  proof (cases "c = q")
    case True
    with q p path_le[OF p(3)] show ?thesis by simp
  next
    case False
    with Cons.prems have "c \<in> set qs" by simp
    with Cons.IH[OF p(3)] show ?thesis by auto
  qed
qed simp

lemma path_distinct: "path a qs b \<Longrightarrow> distinct (map fst qs)"
proof (induction qs arbitrary: a)
  case (Cons q qs)
  obtain off n where q: "q = (off, n)" by (cases q)
  with Cons.prems have p: "off = a" "0 < n" "path (a + n) qs b" by auto
  have "a \<notin> fst ` set qs"
  proof
    assume "a \<in> fst ` set qs"
    then obtain c where "c \<in> set qs" "fst c = a" by auto
    with path_start[OF p(3)] p(2) show False by fastforce
  qed
  with Cons.IH[OF p(3)] q p(1) show ?case by simp
qed simp

lemma path_split:
  assumes "path a (xs @ (off, n) # ys) b" "0 < k" "k < n"
  shows "path a (xs @ (off, k) # (off + k, n - k) # ys) b"
  using assms by (auto simp: path_append)

lemma path_head:
  assumes "path a qs b" "(a, n) \<in> set qs"
  shows "\<exists>qs'. qs = (a, n) # qs'"
proof (cases qs)
  case Nil
  with assms show ?thesis by simp
next
  case (Cons q qs')
  obtain off m where q: "q = (off, m)" by (cases q)
  with Cons assms(1) have p: "off = a" "0 < m" "path (a + m) qs' b" by auto
  have "(a, n) \<notin> set qs'" using path_start[OF p(3), of "(a, n)"] p(2) by auto
  with assms(2) Cons q p(1) show ?thesis by auto
qed

lemma sum_list_mset_eq: "mset xs = mset ys \<Longrightarrow> sum_list (map f xs) = (sum_list (map f ys) :: nat)"
  by (metis mset_map sum_mset_sum_list)

lemma mset_remove_nth: "i < length xs \<Longrightarrow> mset xs = add_mset (xs ! i) (mset (remove_nth i xs))"
proof -
  assume i: "i < length xs"
  have "mset xs = mset (take i xs @ xs ! i # drop (Suc i) xs)"
    using id_take_nth_drop[OF i] by simp
  then show ?thesis by (simp add: remove_nth_def)
qed

lemma tiles_le: "tiles a rds chs b \<Longrightarrow> a \<le> b"
  by (auto simp: tiles_def dest: path_le)

lemma tiles_sum:
  assumes "tiles a rds chs b"
  shows "a + sum_list (map snd rds) + sum_list (map (\<lambda>c. length (snd c)) chs) = b"
proof -
  from assms obtain qs where p: "path a qs b" and m: "mset qs = mset (rds @ map piece chs)"
    by (auto simp: tiles_def)
  have "sum_list (map snd qs) = sum_list (map snd (rds @ map piece chs))"
    by (rule sum_list_mset_eq[OF m])
  with path_sum[OF p] show ?thesis by (simp add: piece_def comp_def)
qed

lemma tiles_distinct:
  assumes "tiles a rds chs b"
  shows "distinct (map fst rds @ map fst chs)"
proof -
  from assms obtain qs where p: "path a qs b" and m: "mset qs = mset (rds @ map piece chs)"
    by (auto simp: tiles_def)
  have "mset (map fst qs) = mset (map fst (rds @ map piece chs))" using m by (metis mset_map)
  then have "distinct (map fst (rds @ map piece chs))"
    using path_distinct[OF p] mset_eq_imp_distinct_iff by blast
  then show ?thesis by (simp add: piece_def comp_def)
qed

lemma tiles_read:
  assumes "tiles a rds chs b" "(off, n) \<in> set rds"
  shows "a \<le> off" "off + n \<le> b" "0 < n" "map_of chs off = None"
proof -
  from assms(1) obtain qs where p: "path a qs b" and m: "mset qs = mset rds + mset (map piece chs)"
    by (auto simp: tiles_def)
  have "(off, n) \<in> set qs" using assms(2) m by (metis UnCI set_mset_mset set_mset_union)
  from path_start[OF p this] show "a \<le> off" "off + n \<le> b" "0 < n" by auto
  have "off \<notin> fst ` set chs"
    using tiles_distinct[OF assms(1)] assms(2) by force
  then show "map_of chs off = None" by (simp add: map_of_eq_None_iff)
qed

lemma tiles_chunk:
  assumes "tiles a rds chs b" "(off, d) \<in> set chs"
  shows "a \<le> off" "off + length d \<le> b" "d \<noteq> []"
proof -
  from assms(1) obtain qs where p: "path a qs b" and m: "mset qs = mset rds + mset (map piece chs)"
    by (auto simp: tiles_def)
  have "piece (off, d) \<in> set (map piece chs)" using assms(2) by auto
  then have "(off, length d) \<in> set qs" using m
    by (metis UnCI fst_conv piece_def set_mset_mset set_mset_union snd_conv)
  from path_start[OF p this] show "a \<le> off" "off + length d \<le> b" "d \<noteq> []" by auto
qed

lemma tiles_full:
  assumes "tiles a rds chs b" "i < length rds" "rds ! i = (off, length d)"
  shows "tiles a (remove_nth i rds) ((off, d) # chs) b"
  using assms mset_remove_nth[OF assms(2)] by (auto simp: tiles_def piece_def)

lemma tiles_short:
  assumes t: "tiles a rds chs b" and i: "i < length rds" "rds ! i = (off, n)"
    and d: "d \<noteq> []" "length d < n"
  shows "tiles a (remove_nth i rds @ [(off + length d, n - length d)]) ((off, d) # chs) b"
proof -
  from t obtain qs where p: "path a qs b" and m: "mset qs = mset rds + mset (map piece chs)"
    by (auto simp: tiles_def)
  have m': "mset qs = add_mset (off, n) (mset (remove_nth i rds) + mset (map piece chs))"
    using m mset_remove_nth[OF i(1)] i(2) by simp
  then have "(off, n) \<in> set qs" by (metis set_mset_mset union_single_eq_member)
  then obtain xs ys where qs: "qs = xs @ (off, n) # ys" by (meson split_list)
  let ?qs = "xs @ (off, length d) # (off + length d, n - length d) # ys"
  have "path a ?qs b" using path_split[of a xs off n ys b "length d"] p qs d by simp
  moreover have "mset ?qs = mset (remove_nth i rds @ [(off + length d, n - length d)])
                  + mset (map piece ((off, d) # chs))"
    using m' qs by (simp add: piece_def)
  ultimately show ?thesis unfolding tiles_def by blast
qed

lemma mset_filter_key:
  "distinct (map fst chs) \<Longrightarrow> (k, d) \<in> set chs \<Longrightarrow>
     mset chs = add_mset (k, d) (mset (filter (\<lambda>c. fst c \<noteq> k) chs))"
proof (induction chs)
  case (Cons c chs)
  show ?case
  proof (cases "fst c = k")
    case True
    then have k: "k \<notin> fst ` set chs" using Cons.prems(1) by simp
    then have "(k, d) \<notin> set chs" by force
    then have "c = (k, d)" using Cons.prems(2) by simp
    moreover have "filter (\<lambda>c. fst c \<noteq> k) chs = chs" using k by (intro filter_True) auto
    ultimately show ?thesis by simp
  next
    case False
    with Cons.prems have "distinct (map fst chs)" "(k, d) \<in> set chs" by auto
    with Cons.IH False show ?thesis by simp
  qed
qed simp

lemma tiles_drain:
  assumes t: "tiles a rds chs b" and d: "map_of chs a = Some d"
  shows "tiles (a + length d) rds (filter (\<lambda>c. fst c \<noteq> a) chs) b"
proof -
  from t obtain qs where p: "path a qs b" and m: "mset qs = mset rds + mset (map piece chs)"
    by (auto simp: tiles_def)
  have mem: "(a, d) \<in> set chs" using d by (rule map_of_SomeD)
  have dist: "distinct (map fst chs)" using tiles_distinct[OF t] by simp
  have ms: "mset chs = add_mset (a, d) (mset (filter (\<lambda>c. fst c \<noteq> a) chs))"
    by (rule mset_filter_key[OF dist mem])
  have "image_mset piece (mset chs)
          = image_mset piece (add_mset (a, d) (mset (filter (\<lambda>c. fst c \<noteq> a) chs)))"
    by (rule arg_cong[OF ms])
  then have m': "mset qs = add_mset (a, length d)
              (mset rds + mset (map piece (filter (\<lambda>c. fst c \<noteq> a) chs)))"
    using m by (simp add: piece_def del: mset_filter)
  then have "(a, length d) \<in> set qs" by (metis set_mset_mset union_single_eq_member)
  then obtain qs' where qs: "qs = (a, length d) # qs'" using path_head[OF p] by blast
  have "path (a + length d) qs' b" using p qs by simp
  moreover have "mset qs' = mset rds + mset (map piece (filter (\<lambda>c. fst c \<noteq> a) chs))"
    using m' qs by (simp del: mset_filter)
  ultimately show ?thesis unfolding tiles_def by blast
qed

lemma tiles_no_reads:
  assumes "tiles a [] chs b" "map_of chs a = None"
  shows "a = b \<and> chs = []"
proof -
  from assms(1) obtain qs where p: "path a qs b" and m: "mset qs = mset (map piece chs)"
    by (auto simp: tiles_def)
  show ?thesis
  proof (cases qs)
    case Nil
    with p m show ?thesis by simp
  next
    case (Cons q qs')
    obtain off n where q: "q = (off, n)" by (cases q)
    with Cons p have "off = a" by simp
    with q Cons m have "(a, n) \<in> set (map piece chs)"
      by (metis list.set_intros(1) mset_eq_setD)
    then have "a \<in> fst ` set chs" by (auto simp: piece_def)
    with assms(2) show ?thesis by (simp add: map_of_eq_None_iff)
  qed
qed

section \<open>The planner\<close>

lemma sat_add_exact: "a + b \<le> u64_max \<Longrightarrow> sat_add a b = a + b"
  by (simp add: sat_add_def)

lemma plan_loop_tiles:
  assumes "off \<le> file_len" "file_len \<le> u64_max" "0 < cb" "cb \<le> max_read_chunk_bytes"
    "window \<le> max_pipeline_bytes"
  shows "\<exists>b. path off (plan_loop file_len cb limit off cnt window) b \<and> b \<le> file_len
            \<and> b - off \<le> max_pipeline_bytes - window
            \<and> length (plan_loop file_len cb limit off cnt window) \<le> limit - cnt"
  using assms
proof (induction file_len cb limit off cnt window rule: plan_loop.induct)
  case (1 file_len cb limit off cnt window)
  show ?case
  proof (cases "off < file_len \<and> cnt < limit \<and> window < max_pipeline_bytes")
    case False
    then show ?thesis using 1(2) by (subst (1 2) plan_loop.simps) auto
  next
    case True
    define n where "n = min (min (file_len - off) cb) (max_pipeline_bytes - window)"
    have n: "0 < n" "n \<le> file_len - off" "n \<le> max_pipeline_bytes - window" "n mod 2 ^ 32 = n"
      using True 1(4,5) by (auto simp: n_def max_read_chunk_bytes_def)
    have sat: "sat_add off n = off + n" "sat_add window n = window + n"
      using n 1(3,6) True by (auto intro!: sat_add_exact simp: pipeline_constants)
    have unroll: "plan_loop file_len cb limit off cnt window
        = (off, n) # plan_loop file_len cb limit (off + n) (Suc cnt) (window + n)"
      using True n sat by (subst plan_loop.simps) (simp add: Let_def flip: n_def)
    have "\<exists>b. path (off + n) (plan_loop file_len cb limit (off + n) (Suc cnt) (window + n)) b \<and> b \<le> file_len
            \<and> b - (off + n) \<le> max_pipeline_bytes - (window + n)
            \<and> length (plan_loop file_len cb limit (off + n) (Suc cnt) (window + n)) \<le> limit - Suc cnt"
      using 1(1)[OF True n_def] n True sat 1(3-6) by simp
    then obtain b where b: "path (off + n) (plan_loop file_len cb limit (off + n) (Suc cnt) (window + n)) b"
      "b \<le> file_len" "b - (off + n) \<le> max_pipeline_bytes - (window + n)"
      "length (plan_loop file_len cb limit (off + n) (Suc cnt) (window + n)) \<le> limit - Suc cnt"
      by blast
    have "b - off \<le> max_pipeline_bytes - window" using b(3) n path_le[OF b(1)] by linarith
    moreover have "Suc (limit - Suc cnt) = limit - cnt" using True by linarith
    ultimately show ?thesis using b n unroll by (intro exI[of _ b]) auto
  qed
qed

lemma plan_loop_nonempty:
  assumes "off < file_len" "cnt < limit" "window < max_pipeline_bytes" "0 < cb"
  shows "plan_loop file_len cb limit off cnt window \<noteq> []"
  using assms by (subst plan_loop.simps) (simp add: Let_def)

lemma plan_window_tiles:
  assumes "start < file_len" "file_len \<le> u64_max" "0 < cb" "0 < m"
  shows "\<exists>b. path start (plan_window_from start file_len cb m) b \<and> start < b \<and> b \<le> file_len
            \<and> b - start \<le> max_pipeline_bytes
            \<and> length (plan_window_from start file_len cb m) \<le> min m max_pipeline_requests
            \<and> plan_window_from start file_len cb m \<noteq> []"
proof -
  let ?cb = "min (min cb max_read_chunk_bytes) u32_max"
  let ?cs = "plan_window_from start file_len cb m"
  have cs: "?cs = plan_loop file_len ?cb (min m max_pipeline_requests) start 0 0"
    using assms by (simp add: plan_window_from_def)
  have cb: "0 < ?cb" "?cb \<le> max_read_chunk_bytes" using assms(3) by (auto simp: pipeline_constants)
  have ne: "?cs \<noteq> []" unfolding cs using assms cb
    by (intro plan_loop_nonempty) (auto simp: pipeline_constants)
  obtain b where b: "path start ?cs b" "b \<le> file_len" "b - start \<le> max_pipeline_bytes"
      "length ?cs \<le> min m max_pipeline_requests"
    unfolding cs using plan_loop_tiles[of start file_len ?cb 0 "min m max_pipeline_requests" 0]
      assms cb by auto
  have "start < b" using b(1) ne path_sum[OF b(1)] by (cases ?cs) auto
  with b ne show ?thesis by blast
qed

lemma effective_read_chunk_bounds:
  "1 \<le> effective_read_chunk packet_len read_len"
  "effective_read_chunk packet_len read_len \<le> 2 * 1024 * 1024"
  by (simp_all add: effective_read_chunk_def Let_def pipeline_constants)

lemma effective_read_chunk_fits:
  "9 < p \<Longrightarrow> effective_read_chunk (Some p) read_len + 9 \<le> p"
  by (auto simp: effective_read_chunk_def Let_def pipeline_constants max_def min_def split: option.split)

lemma path_window_end:
  assumes "path a cs b" "cs \<noteq> []" "b \<le> u64_max"
  shows "window_end cs = b"
proof -
  obtain xs off n where cs: "cs = xs @ [(off, n)]" using assms(2) by (metis append_butlast_last_id surj_pair)
  with assms(1) have "off + n = b" by (auto simp: path_append)
  with assms(3) cs show ?thesis by (simp add: window_end_def sat_add_def)
qed

section \<open>One turn of the inner loop\<close>

definition total_chunks :: "(nat \<times> bytes) list \<Rightarrow> nat" where
  "total_chunks chs = sum_list (map (\<lambda>c. length (snd c)) chs)"

text \<open>The buffer invariant: what is outstanding or held tiles the rest of the window.\<close>

definition buffer_ok :: "chunk list \<Rightarrow> ordered_chunk_buffer \<Rightarrow> nat \<Rightarrow> bool" where
  "buffer_ok rds b wend \<longleftrightarrow>
     tiles (next_offset b) rds (chunks b) wend \<and> buffered_bytes b = total_chunks (chunks b)
     \<and> wend \<le> u64_max"

text \<open>The content invariant: every held block is the content of the remote file at its offset.\<close>

definition holds_content :: "bytes \<Rightarrow> (nat \<times> bytes) list \<Rightarrow> bool" where
  "holds_content remote chs \<longleftrightarrow> (\<forall>c\<in>set chs. snd c = take (length (snd c)) (drop (fst c) remote))"

lemma total_chunks_filter:
  "distinct (map fst chs) \<Longrightarrow> (k, d) \<in> set chs \<Longrightarrow>
     total_chunks chs = length d + total_chunks (filter (\<lambda>c. fst c \<noteq> k) chs)"
proof -
  assume "distinct (map fst chs)" "(k, d) \<in> set chs"
  then have "mset chs = mset ((k, d) # filter (\<lambda>c. fst c \<noteq> k) chs)"
    using mset_filter_key by (simp only: mset.simps)
  from sum_list_mset_eq[OF this] show ?thesis by (simp add: total_chunks_def)
qed

lemma drain_ready_spec:
  assumes "buffer_ok rds b wend" "drain_ready b = (drained, b')"
  shows "buffer_ok rds b' wend \<and> map_of (chunks b') (next_offset b') = None
       \<and> next_offset b' = next_offset b + total_chunks drained
       \<and> set (chunks b') \<subseteq> set (chunks b)
       \<and> (holds_content remote (chunks b) \<longrightarrow>
            concat (map snd drained) = take (total_chunks drained) (drop (next_offset b) remote))"
  using assms
proof (induction b arbitrary: drained b' rule: drain_ready.induct)
  case (1 b)
  show ?case
  proof (cases "map_of (chunks b) (next_offset b)")
    case None
    with 1(3) have "drained = []" "b' = b" by (subst (asm) drain_ready.simps; simp)+
    with None 1(2) show ?thesis by (simp add: total_chunks_def)
  next
    case (Some d)
    let ?b = "b\<lparr>chunks := filter (\<lambda>c. fst c \<noteq> next_offset b) (chunks b),
                next_offset := sat_add (next_offset b) (length d),
                buffered_bytes := buffered_bytes b - length d\<rparr>"
    obtain dr where dr: "drain_ready ?b = (dr, b')" "drained = (next_offset b, d) # dr"
      using 1(3) Some by (subst (asm) drain_ready.simps) (auto split: prod.splits)
    have t: "tiles (next_offset b) rds (chunks b) wend" and w: "wend \<le> u64_max"
      and s: "buffered_bytes b = total_chunks (chunks b)"
      using 1(2) by (auto simp: buffer_ok_def)
    have mem: "(next_offset b, d) \<in> set (chunks b)" using Some by (rule map_of_SomeD)
    have dist: "distinct (map fst (chunks b))" using tiles_distinct[OF t] by simp
    have le: "next_offset b + length d \<le> wend" using tiles_chunk(2)[OF t mem] .
    have sat: "sat_add (next_offset b) (length d) = next_offset b + length d"
      using le w by (intro sat_add_exact) simp
    have bok: "buffer_ok rds ?b wend"
      using tiles_drain[OF t Some] s w sat total_chunks_filter[OF dist mem]
      by (simp add: buffer_ok_def)
    have IH: "buffer_ok rds b' wend \<and> map_of (chunks b') (next_offset b') = None
       \<and> next_offset b' = next_offset ?b + total_chunks dr
       \<and> set (chunks b') \<subseteq> set (chunks ?b)
       \<and> (holds_content remote (chunks ?b) \<longrightarrow>
            concat (map snd dr) = take (total_chunks dr) (drop (next_offset ?b) remote))"
      by (rule 1(1)[OF Some refl bok dr(1)])
    have tot: "total_chunks drained = length d + total_chunks dr"
      using dr(2) by (simp add: total_chunks_def)
    have cont: "concat (map snd drained) = take (total_chunks drained) (drop (next_offset b) remote)"
      if h: "holds_content remote (chunks b)"
    proof -
      have "holds_content remote (chunks ?b)" using h by (auto simp: holds_content_def)
      with IH sat have c: "concat (map snd dr)
          = take (total_chunks dr) (drop (next_offset b + length d) remote)" by simp
      have "d = take (length d) (drop (next_offset b) remote)"
        using h mem by (auto simp: holds_content_def)
      with c show ?thesis unfolding tot using dr(2)
        by (simp add: take_add add.commute)
    qed
    show ?thesis
    proof (intro conjI impI)
      show "set (chunks b') \<subseteq> set (chunks b)" using IH by auto
      show "next_offset b' = next_offset b + total_chunks drained" using IH sat tot by simp
    qed (use IH cont in auto)
  qed
qed

lemma write_blocks_spec:
  assumes "write_blocks failures k drained s = Inr s'"
    "transferred s + total_chunks drained \<le> u64_max"
  shows "s' = s\<lparr>local_file := local_file s @ concat (map snd drained),
                hashed := hashed s @ concat (map snd drained),
                transferred := transferred s + total_chunks drained\<rparr>"
  using assms
proof (induction drained arbitrary: k s)
  case Nil
  then show ?case by (simp add: total_chunks_def)
next
  case (Cons c drained)
  obtain off d where c: "c = (off, d)" by (cases c)
  let ?s = "s\<lparr>local_file := local_file s @ d, hashed := hashed s @ d,
              transferred := transferred s + length d\<rparr>"
  have tot: "total_chunks (c # drained) = length d + total_chunks drained"
    using c by (simp add: total_chunks_def)
  have sat: "sat_add (transferred s) (length d) = transferred s + length d"
    using Cons.prems(2) tot by (intro sat_add_exact) simp
  have "write_blocks failures (Suc k) drained ?s = Inr s'"
    using Cons.prems(1) c sat by (auto simp: write_download_chunk_def split: option.splits)
  from Cons.IH[OF this] Cons.prems(2) tot c show ?case by (simp add: add.assoc)
qed

lemma write_blocks_ok:
  assumes "\<And>j. failures j = None"
  shows "\<exists>s'. write_blocks failures k drained s = Inr s'"
  by (induction drained arbitrary: k s) (auto simp: write_download_chunk_def assms)

definition win_inv :: "pipeline_state \<Rightarrow> nat \<Rightarrow> bool" where
  "win_inv s wend \<longleftrightarrow>
     buffer_ok (reads s) (ordered s) wend
     \<and> next_offset (ordered s) = transferred s \<and> length (local_file s) = transferred s
     \<and> map_of (chunks (ordered s)) (transferred s) = None
     \<and> hashed s = local_file s \<and> wend - transferred s \<le> max_pipeline_bytes
     \<and> length (reads s) \<le> max_pipeline_requests
     \<and> max_in_flight (stats s) \<le> max_pipeline_requests
     \<and> max_buffered_bytes (stats s) \<le> max_pipeline_bytes"

definition content_inv :: "bytes \<Rightarrow> pipeline_state \<Rightarrow> bool" where
  "content_inv remote s \<longleftrightarrow>
     local_file s = take (transferred s) remote \<and> holds_content remote (chunks (ordered s))"

text \<open>A server that serves the bytes of the remote file, and one that always serves something.\<close>

definition serves :: "server \<Rightarrow> bytes \<Rightarrow> bool" where
  "serves server remote \<longleftrightarrow>
     (\<forall>t off n d. server t off n = Data d \<longrightarrow> d = take (length d) (drop off remote))"

definition responsive :: "server \<Rightarrow> bool" where
  "responsive server \<longleftrightarrow>
     (\<forall>t off n. 0 < n \<longrightarrow> (\<exists>d. server t off n = Data d \<and> d \<noteq> [] \<and> length d \<le> n))"

text \<open>The errors that come from the server, the scheduler or the local disk.\<close>

definition external_error :: "server \<Rightarrow> choice list \<Rightarrow> app_error \<Rightarrow> bool" where
  "external_error server cs e \<longleftrightarrow>
     e = Integrity ''remote file ended before its announced size''
     \<or> e = Integrity ''remote returned an invalid SFTP block''
     \<or> (\<exists>t off n. server t off n = ReadError e)
     \<or> (e = Cancelled \<and> CancelNow \<in> set cs)
     \<or> (\<exists>i failures k. CompleteRead i failures \<in> set cs \<and> failures k = Some e)"

lemma write_blocks_error:
  "write_blocks failures k drained s = Inl e \<Longrightarrow> \<exists>j. failures j = Some e"
  by (induction drained arbitrary: k s) (auto simp: write_download_chunk_def split: option.splits)

definition read_total :: "pipeline_state \<Rightarrow> nat" where
  "read_total s = sum_list (map snd (reads s))"

text \<open>The state in which an accepted block has been put in the buffer.\<close>

definition accept_block :: "nat \<Rightarrow> bytes \<Rightarrow> pipeline_state \<Rightarrow> pipeline_state" where
  "accept_block i d s =
     (let (off, n) = reads s ! i;
          rest = remove_nth i (reads s)
                 @ (if length d < n then [(off + length d, n - length d)] else []);
          buf = (ordered s)\<lparr>buffered_bytes := buffered_bytes (ordered s) + length d,
                            chunks := (off, d) # chunks (ordered s)\<rparr>
      in s\<lparr>clock := Suc (clock s), reads := rest,
           stats := observe (length rest) (buffered_bytes buf) (stats s), ordered := buf\<rparr>)"

lemma length_remove_nth: "i < length xs \<Longrightarrow> length (remove_nth i xs) = length xs - 1"
  by (simp add: remove_nth_def)

lemma sum_remove_nth:
  "i < length xs \<Longrightarrow> sum_list (map f xs) = (f (xs ! i) :: nat) + sum_list (map f (remove_nth i xs))"
  using sum_list_mset_eq[of xs "xs ! i # remove_nth i xs" f] mset_remove_nth[of i xs] by simp

lemma accept_block_inv:
  assumes inv: "win_inv s wend" and i: "i < length (reads s)" "reads s ! i = (off, n)"
    and d: "d \<noteq> []" "length d \<le> n"
  shows "buffer_ok (reads (accept_block i d s)) (ordered (accept_block i d s)) wend"
    and "buffered_bytes (ordered (accept_block i d s)) \<le> max_pipeline_bytes"
    and "length (reads (accept_block i d s)) \<le> max_pipeline_requests"
    and "read_total s = read_total (accept_block i d s) + length d"
proof -
  let ?o = "ordered s"
  have t: "tiles (next_offset ?o) (reads s) (chunks ?o) wend" and w: "wend \<le> u64_max"
    and b: "buffered_bytes ?o = total_chunks (chunks ?o)"
    and lim: "wend - next_offset ?o \<le> max_pipeline_bytes" "length (reads s) \<le> max_pipeline_requests"
    using inv by (auto simp: win_inv_def buffer_ok_def)
  have t': "tiles (next_offset ?o) (reads (accept_block i d s)) ((off, d) # chunks ?o) wend"
  proof (cases "length d < n")
    case True
    with tiles_short[OF t i d(1) True] i(2) show ?thesis by (simp add: accept_block_def)
  next
    case False
    with d(2) i have "reads s ! i = (off, length d)" by simp
    from tiles_full[OF t i(1) this] False i(2) show ?thesis by (simp add: accept_block_def)
  qed
  then show "buffer_ok (reads (accept_block i d s)) (ordered (accept_block i d s)) wend"
    using w b i(2) by (simp add: buffer_ok_def accept_block_def total_chunks_def)
  have "total_chunks ((off, d) # chunks ?o) \<le> wend - next_offset ?o"
    using tiles_sum[OF t'] by (simp add: total_chunks_def)
  then show "buffered_bytes (ordered (accept_block i d s)) \<le> max_pipeline_bytes"
    using b lim i(2) by (simp add: accept_block_def total_chunks_def)
  show "length (reads (accept_block i d s)) \<le> max_pipeline_requests"
    using lim(2) i length_remove_nth[OF i(1)] by (auto simp: accept_block_def)
  show "read_total s = read_total (accept_block i d s) + length d"
    using sum_remove_nth[OF i(1), of snd] i(2) d(2) by (auto simp: read_total_def accept_block_def)
qed

lemma complete_read_data:
  assumes inv: "win_inv s wend" and i: "i < length (reads s)" "reads s ! i = (off, n)"
    and d: "d \<noteq> []" "length d \<le> n" and srv: "server (Suc (clock s)) off n = Data d"
    and dr: "drain_ready (ordered (accept_block i d s)) = (drained, buf)"
  shows "complete_read server i failures s
       = write_blocks failures 0 drained ((accept_block i d s)\<lparr>ordered := buf\<rparr>)"
proof -
  let ?o = "ordered s"
  have t: "tiles (next_offset ?o) (reads s) (chunks ?o) wend" and w: "wend \<le> u64_max"
    using inv by (auto simp: win_inv_def buffer_ok_def)
  have mem: "(off, n) \<in> set (reads s)" using i by (metis nth_mem)
  note r = tiles_read[OF t mem]
  have le: "buffered_bytes ?o + length d \<le> max_pipeline_bytes"
    using accept_block_inv(2)[OF inv i d] i(2) by (simp add: accept_block_def)
  have s1: "sat_add off (length d) = off + length d"
    using r(2) d(2) w by (intro sat_add_exact) simp
  have s2: "sat_add (buffered_bytes ?o) (length d) = buffered_bytes ?o + length d"
    using le by (intro sat_add_exact) (simp add: pipeline_constants)
  have ins: "insert_chunk off d ?o
      = (True, ?o\<lparr>buffered_bytes := buffered_bytes ?o + length d, chunks := (off, d) # chunks ?o\<rparr>)"
    using d(1) r(1,4) s2 by (simp add: insert_chunk_def)
  show ?thesis
  proof (cases "length d < n")
    case True
    then show ?thesis using i(2) srv d ins le s1 dr
      by (simp add: complete_read_def Let_def accept_block_def)
  next
    case False
    with d(2) have "n = length d" by simp
    then show ?thesis using i(2) srv d ins le s1 dr
      by (simp add: complete_read_def Let_def accept_block_def)
  qed
qed

lemma complete_read_step:
  assumes inv: "win_inv s wend" and i: "i < length (reads s)"
    and res: "complete_read server i failures s = Inr s'"
  shows "win_inv s' wend \<and> read_total s' < read_total s
       \<and> (serves server remote \<longrightarrow> content_inv remote s \<longrightarrow> content_inv remote s')"
proof -
  obtain off n where rd: "reads s ! i = (off, n)" by fastforce
  obtain d where srv: "server (Suc (clock s)) off n = Data d" and d: "d \<noteq> []" "length d \<le> n"
    using res rd by (auto simp: complete_read_def Let_def split: read_response.splits if_splits)
  let ?s = "accept_block i d s"
  obtain drained buf where dr: "drain_ready (ordered ?s) = (drained, buf)" by fastforce
  note acc = accept_block_inv[OF inv i rd d]
  have wb: "write_blocks failures 0 drained (?s\<lparr>ordered := buf\<rparr>) = Inr s'"
    using res complete_read_data[where server = server, OF inv i rd d srv dr] by simp
  have spec: "buffer_ok (reads ?s) buf wend" "map_of (chunks buf) (next_offset buf) = None"
    "next_offset buf = next_offset (ordered ?s) + total_chunks drained"
    "set (chunks buf) \<subseteq> set (chunks (ordered ?s))"
    "holds_content remote (chunks (ordered ?s)) \<Longrightarrow>
       concat (map snd drained) = take (total_chunks drained) (drop (next_offset (ordered ?s)) remote)"
    using drain_ready_spec[where remote = remote, OF acc(1) dr] by auto
  have same: "transferred ?s = transferred s" "local_file ?s = local_file s" "hashed ?s = hashed s"
    "next_offset (ordered ?s) = transferred s"
    "chunks (ordered ?s) = (off, d) # chunks (ordered s)"
    "stats ?s = observe (length (reads ?s)) (buffered_bytes (ordered ?s)) (stats s)"
    using inv rd by (auto simp: accept_block_def Let_def win_inv_def split: prod.splits)
  have "next_offset buf \<le> wend" using spec(1) tiles_le by (auto simp: buffer_ok_def)
  moreover have w: "wend \<le> u64_max" using inv by (auto simp: win_inv_def buffer_ok_def)
  ultimately have le: "transferred s + total_chunks drained \<le> u64_max" using spec(3) same by simp
  have s': "s' = ?s\<lparr>ordered := buf, local_file := local_file s @ concat (map snd drained),
                hashed := hashed s @ concat (map snd drained),
                transferred := transferred s + total_chunks drained\<rparr>"
    using write_blocks_spec[OF wb] le same by simp
  have len: "length (concat (map snd drained)) = total_chunks drained"
    by (simp add: length_concat total_chunks_def comp_def)
  have st: "max_in_flight (stats s') \<le> max_pipeline_requests"
    "max_buffered_bytes (stats s') \<le> max_pipeline_bytes"
    using s' same(6) acc(2,3) inv by (simp_all add: observe_def win_inv_def)
  have "win_inv s' wend"
    using spec(1-3) same(1-4) s' st acc(3) inv len unfolding win_inv_def by simp linarith
  moreover have "read_total s' < read_total s"
    using acc(4) d(1) s' by (simp add: read_total_def)
  moreover have "content_inv remote s'" if srvs: "serves server remote" and ci: "content_inv remote s"
  proof -
    have h: "holds_content remote (chunks (ordered ?s))"
      using srvs ci srv same(5) by (auto simp: holds_content_def serves_def content_inv_def)
    then have "holds_content remote (chunks buf)" using spec(4) by (auto simp: holds_content_def)
    moreover have "local_file s @ concat (map snd drained)
        = take (transferred s + total_chunks drained) remote"
      using spec(5)[OF h] ci same(4) by (simp add: content_inv_def take_add)
    ultimately show ?thesis using s' by (simp add: content_inv_def)
  qed
  ultimately show ?thesis by blast
qed

lemma complete_read_error:
  assumes inv: "win_inv s wend" and i: "i < length (reads s)"
    and res: "complete_read server i failures s = Inl e" and c: "CompleteRead j failures \<in> set cs"
  shows "external_error server cs e"
proof -
  obtain off n where rd: "reads s ! i = (off, n)" by fastforce
  show ?thesis
  proof (cases "server (Suc (clock s)) off n")
    case (Data d)
    show ?thesis
    proof (cases "d \<noteq> [] \<and> length d \<le> n")
      case True
      obtain drained buf where dr: "drain_ready (ordered (accept_block i d s)) = (drained, buf)"
        by fastforce
      from complete_read_data[where server = server, OF inv i rd _ _ Data dr] True res
      have "write_blocks failures 0 drained ((accept_block i d s)\<lparr>ordered := buf\<rparr>) = Inl e" by simp
      from write_blocks_error[OF this] c show ?thesis unfolding external_error_def by blast
    next
      case False
      then have "complete_read server i failures s
          = Inl (Integrity ''remote returned an invalid SFTP block'')"
        using rd Data by (auto simp: complete_read_def Let_def)
      with res show ?thesis by (simp add: external_error_def)
    qed
  next
    case Eof
    then have "e = Integrity ''remote file ended before its announced size''"
      using res rd by (simp add: complete_read_def Let_def)
    then show ?thesis by (simp add: external_error_def)
  next
    case (ReadError e')
    then have "e' = e" using res rd by (simp add: complete_read_def Let_def)
    with ReadError show ?thesis unfolding external_error_def by blast
  qed
qed

lemma complete_read_succeeds:
  assumes inv: "win_inv s wend" and i: "i < length (reads s)"
    and srv: "responsive server" and f: "\<And>k. failures k = None"
  shows "\<exists>s'. complete_read server i failures s = Inr s'"
proof -
  obtain off n where rd: "reads s ! i = (off, n)" by fastforce
  have "(off, n) \<in> set (reads s)" using i rd by (metis nth_mem)
  then have "0 < n" using inv tiles_read(3) by (auto simp: win_inv_def buffer_ok_def)
  then obtain d where d: "server (Suc (clock s)) off n = Data d" "d \<noteq> []" "length d \<le> n"
    using srv unfolding responsive_def by blast
  obtain drained buf where dr: "drain_ready (ordered (accept_block i d s)) = (drained, buf)"
    by fastforce
  show ?thesis
    unfolding complete_read_data[where server = server, OF inv i rd d(2,3,1) dr]
    using write_blocks_ok[OF f] .
qed

section \<open>A window, and the whole file\<close>

lemma run_window_step:
  assumes "win_inv s wend"
  shows "(\<forall>s' cs'. run_window server cs s = Some (Inr (s', cs')) \<longrightarrow>
            win_inv s' wend \<and> reads s' = [] \<and> set cs' \<subseteq> set cs
            \<and> length cs' + read_total s \<ge> length cs \<and> (reads s \<noteq> [] \<longrightarrow> length cs' < length cs)
            \<and> (serves server remote \<longrightarrow> content_inv remote s \<longrightarrow> content_inv remote s'))
       \<and> (\<forall>e. run_window server cs s = Some (Inl e) \<longrightarrow> external_error server cs e)"
  using assms
proof (induction server cs s rule: run_window.induct)
  case (1 server cs s)
  show ?case
  proof (cases "reads s = []")
    case True
    then show ?thesis using 1(2) by (simp add: run_window.simps)
  next
    case ne: False
    show ?thesis
    proof (cases cs)
      case Nil
      with ne show ?thesis by (simp add: run_window.simps)
    next
      case (Cons c cs0)
      show ?thesis
      proof (cases c)
        case CancelNow
        with ne Cons show ?thesis by (auto simp: run_window.simps external_error_def)
      next
        case (CompleteRead i failures)
        have i: "i mod length (reads s) < length (reads s)" using ne by simp
        show ?thesis
        proof (cases "complete_read server (i mod length (reads s)) failures s")
          case (Inl e)
          have "external_error server cs e"
            by (rule complete_read_error[OF 1(2) i Inl, of i]) (simp add: Cons CompleteRead)
          with ne Cons CompleteRead Inl show ?thesis by (simp add: run_window.simps)
        next
          case (Inr s1)
          have unroll: "run_window server cs s = run_window server cs0 s1"
            using ne Cons CompleteRead Inr by (subst run_window.simps) simp
          note st = complete_read_step[where remote = remote, OF 1(2) i Inr]
          have inv1: "win_inv s1 wend" using st by blast
          note IH = 1(1)[OF ne Cons CompleteRead Inr inv1]
          have ext: "external_error server cs0 e \<Longrightarrow> external_error server cs e" for e
            unfolding external_error_def Cons by (meson list.set_intros(2))
          show ?thesis
          proof (intro conjI allI impI)
            fix s' cs' assume "run_window server cs s = Some (Inr (s', cs'))"
            with unroll have r: "run_window server cs0 s1 = Some (Inr (s', cs'))" by simp
            have h: "win_inv s' wend" "reads s' = []" "set cs' \<subseteq> set cs0"
                "length cs' + read_total s1 \<ge> length cs0"
                "reads s1 \<noteq> [] \<longrightarrow> length cs' < length cs0"
                "serves server remote \<longrightarrow> content_inv remote s1 \<longrightarrow> content_inv remote s'"
              using IH r by blast+
            show "win_inv s' wend" "reads s' = []" by (fact h)+
            show "set cs' \<subseteq> set cs" using h(3) Cons by auto
            show "length cs' + read_total s \<ge> length cs" using h(4) st Cons by simp
            show "length cs' < length cs"
            proof (cases "reads s1 = []")
              case True
              with r have "cs' = cs0" by (simp add: run_window.simps)
              with Cons show ?thesis by simp
            next
              case False
              with h(5) Cons show ?thesis by simp
            qed
            show "content_inv remote s'" if "serves server remote" "content_inv remote s"
              using h(6) st that by blast
          next
            fix e assume "run_window server cs s = Some (Inl e)"
            with unroll IH ext show "external_error server cs e" by simp
          qed
        qed
      qed
    qed
  qed
qed

lemma run_window_succeeds:
  assumes "win_inv s wend" "responsive server" "read_total s \<le> length cs"
    and "\<forall>c\<in>set cs. \<exists>i. c = CompleteRead i (\<lambda>_. None)"
  shows "\<exists>s' cs'. run_window server cs s = Some (Inr (s', cs'))"
  using assms
proof (induction server cs s rule: run_window.induct)
  case (1 server cs s)
  show ?case
  proof (cases "reads s = []")
    case True
    then show ?thesis by (simp add: run_window.simps)
  next
    case ne: False
    then obtain off n where on: "(off, n) \<in> set (reads s)" by (metis list.set_intros(1) neq_Nil_conv surj_pair)
    then have "0 < n" using 1(2) tiles_read(3) by (auto simp: win_inv_def buffer_ok_def)
    moreover have "n \<le> read_total s"
    proof -
      have "n \<in> set (map snd (reads s))" using on by force
      then show ?thesis unfolding read_total_def by (intro member_le_sum_list) auto
    qed
    ultimately have "cs \<noteq> []" using 1(4) by auto
    then obtain i cs0 where cs: "cs = CompleteRead i (\<lambda>_. None) # cs0"
      using 1(5) by (metis list.set_intros(1) neq_Nil_conv)
    have i: "i mod length (reads s) < length (reads s)" using ne by simp
    obtain s1 where s1: "complete_read server (i mod length (reads s)) (\<lambda>_. None) s = Inr s1"
      using complete_read_succeeds[where failures = "\<lambda>_. None", OF 1(2) i 1(3) refl] by blast
    have unroll: "run_window server cs s = run_window server cs0 s1"
      using ne cs s1 by (subst run_window.simps) simp
    note st = complete_read_step[where remote = "[]", OF 1(2) i s1]
    have "\<exists>s' cs'. run_window server cs0 s1 = Some (Inr (s', cs'))"
    proof (rule 1(1)[OF ne cs refl s1])
      show "win_inv s1 wend" using st by blast
      show "read_total s1 \<le> length cs0" using st 1(4) cs by simp
      show "\<forall>c\<in>set cs0. \<exists>i. c = CompleteRead i (\<lambda>_. None)" using 1(5) cs by simp
    qed (fact 1(3))
    with unroll show ?thesis by simp
  qed
qed

lemma open_window_inv:
  assumes "win_inv s w" "transferred s < file_len" "file_len \<le> u64_max" "0 < cb"
  shows "\<exists>s' wend. open_window cb file_len s = Inr (s', wend) \<and> win_inv s' wend
          \<and> transferred s' = transferred s \<and> transferred s < wend \<and> wend \<le> file_len
          \<and> read_total s' = wend - transferred s \<and> reads s' \<noteq> []
          \<and> (content_inv remote s \<longrightarrow> content_inv remote s')"
proof -
  let ?cs = "plan_window_from (transferred s) file_len cb max_pipeline_requests"
  have "0 < max_pipeline_requests" by (simp add: pipeline_constants)
  from plan_window_tiles[OF assms(2-4) this] obtain wend where
    w: "path (transferred s) ?cs wend" "transferred s < wend" "wend \<le> file_len"
       "wend - transferred s \<le> max_pipeline_bytes" "length ?cs \<le> max_pipeline_requests" "?cs \<noteq> []"
    by auto
  let ?s = "s\<lparr>reads := ?cs, ordered := new_buffer (transferred s),
              stats := observe (length ?cs) 0 (stats s)\<rparr>"
  have op: "open_window cb file_len s = Inr (?s, wend)"
    using w(6) path_window_end[OF w(1,6)] w(3) assms(3)
    by (simp add: open_window_def Let_def)
  have "tiles (transferred s) ?cs [] wend" using w(1) by (auto simp: tiles_def)
  then have "win_inv ?s wend" using w(3-5) assms(1,3)
    by (simp add: win_inv_def buffer_ok_def new_buffer_def observe_def total_chunks_def)
  moreover have "read_total ?s = wend - transferred s"
    using path_sum[OF w(1)] by (simp add: read_total_def)
  moreover have "content_inv remote s \<longrightarrow> content_inv remote ?s"
    by (simp add: content_inv_def holds_content_def new_buffer_def)
  ultimately show ?thesis using op w(2,3,6) by auto
qed

lemma window_complete:
  assumes "win_inv s wend" "reads s = []"
  shows "transferred s = wend \<and> buffered_bytes (ordered s) = 0"
proof -
  have "tiles (transferred s) [] (chunks (ordered s)) wend"
    and "map_of (chunks (ordered s)) (transferred s) = None"
    and "buffered_bytes (ordered s) = total_chunks (chunks (ordered s))"
    using assms by (auto simp: win_inv_def buffer_ok_def)
  with tiles_no_reads show ?thesis by (fastforce simp: total_chunks_def)
qed

text \<open>The whole loop, from any state between two windows.\<close>

lemma run_windows_ok:
  assumes "win_inv s w" "file_len \<le> u64_max" "0 < cb" "transferred s \<le> file_len"
  shows "(\<forall>s'. run_windows fuel server cb file_len cs s = Some (Inr s') \<longrightarrow>
            (\<exists>w'. win_inv s' w') \<and> transferred s' = file_len
            \<and> (serves server remote \<longrightarrow> content_inv remote s \<longrightarrow> content_inv remote s'))
       \<and> (\<forall>e. run_windows fuel server cb file_len cs s = Some (Inl e) \<longrightarrow> external_error server cs e)"
  using assms
proof (induction fuel arbitrary: cs s w)
  case 0
  then show ?case by (auto simp: run_windows.simps)
next
  case (Suc fuel)
  show ?case
  proof (cases "transferred s < file_len")
    case False
    then show ?thesis using Suc.prems by (auto simp: run_windows.simps)
  next
    case True
    obtain s1 wend where op: "open_window cb file_len s = Inr (s1, wend)" "win_inv s1 wend"
      "wend \<le> file_len" "content_inv remote s \<longrightarrow> content_inv remote s1"
      using open_window_inv[where remote = remote, OF Suc.prems(1) True Suc.prems(2,3)] by blast
    note rw = run_window_step[where remote = remote and server = server and cs = cs, OF op(2)]
    show ?thesis
    proof (cases "run_window server cs s1")
      case None
      then show ?thesis using True op(1) by (simp add: run_windows.simps)
    next
      case (Some r)
      show ?thesis
      proof (cases r)
        case (Inl e)
        then show ?thesis using True op(1) Some rw by (simp add: run_windows.simps)
      next
        case (Inr p)
        obtain s2 cs2 where p: "p = (s2, cs2)" by (cases p)
        have h: "win_inv s2 wend" "reads s2 = []" "set cs2 \<subseteq> set cs"
          "serves server remote \<longrightarrow> content_inv remote s1 \<longrightarrow> content_inv remote s2"
          using rw Some Inr p by blast+
        note fin = window_complete[OF h(1,2)]
        have unroll: "run_windows (Suc fuel) server cb file_len cs s
            = run_windows fuel server cb file_len cs2 s2"
          using True op(1) Some Inr p fin by (subst run_windows.simps) simp
        have ext: "external_error server cs2 e \<Longrightarrow> external_error server cs e" for e
          using h(3) unfolding external_error_def by blast
        have IH: "(\<forall>s'. run_windows fuel server cb file_len cs2 s2 = Some (Inr s') \<longrightarrow>
              (\<exists>w'. win_inv s' w') \<and> transferred s' = file_len
              \<and> (serves server remote \<longrightarrow> content_inv remote s2 \<longrightarrow> content_inv remote s'))
            \<and> (\<forall>e. run_windows fuel server cb file_len cs2 s2 = Some (Inl e)
                 \<longrightarrow> external_error server cs2 e)"
          by (rule Suc.IH[OF h(1) Suc.prems(2,3)]) (use fin op(3) in simp)
        with unroll ext h(4) op(4) show ?thesis by simp
      qed
    qed
  qed
qed

lemma run_windows_succeeds:
  assumes "win_inv s w" "file_len \<le> u64_max" "0 < cb" "transferred s \<le> file_len"
    and "responsive server" "\<forall>c\<in>set cs. \<exists>i. c = CompleteRead i (\<lambda>_. None)"
    and "file_len - transferred s \<le> length cs" "file_len - transferred s \<le> fuel"
  shows "\<exists>s'. run_windows fuel server cb file_len cs s = Some (Inr s')"
  using assms
proof (induction fuel arbitrary: cs s w)
  case 0
  then show ?case by (auto simp: run_windows.simps)
next
  case (Suc fuel)
  show ?case
  proof (cases "transferred s < file_len")
    case False
    then show ?thesis by (simp add: run_windows.simps)
  next
    case True
    obtain s1 wend where op: "open_window cb file_len s = Inr (s1, wend)" "win_inv s1 wend"
      "wend \<le> file_len" "transferred s < wend" "read_total s1 = wend - transferred s" "reads s1 \<noteq> []"
      using open_window_inv[OF Suc.prems(1) True Suc.prems(2,3)] by blast
    have "read_total s1 \<le> length cs" using op(3,5) Suc.prems(7) by simp
    with run_window_succeeds[OF op(2) Suc.prems(5) _ Suc.prems(6)] obtain s2 cs2
      where rw: "run_window server cs s1 = Some (Inr (s2, cs2))" by blast
    have h: "win_inv s2 wend" "reads s2 = []" "set cs2 \<subseteq> set cs"
      "length cs2 + read_total s1 \<ge> length cs"
      using run_window_step[where server = server and cs = cs, OF op(2)] rw by blast+
    note fin = window_complete[OF h(1,2)]
    have unroll: "run_windows (Suc fuel) server cb file_len cs s
        = run_windows fuel server cb file_len cs2 s2"
      using True op(1) rw fin by (subst run_windows.simps) simp
    have "\<exists>s'. run_windows fuel server cb file_len cs2 s2 = Some (Inr s')"
    proof (rule Suc.IH[OF h(1) Suc.prems(2,3)])
      show "transferred s2 \<le> file_len" using fin op(3) by simp
      show "\<forall>c\<in>set cs2. \<exists>i. c = CompleteRead i (\<lambda>_. None)" using h(3) Suc.prems(6) by blast
      show "file_len - transferred s2 \<le> length cs2"
        using fin h(4) op(3,5) Suc.prems(7) True op(4) by simp
      show "file_len - transferred s2 \<le> fuel" using fin op(4) Suc.prems(8) by simp
    qed (fact Suc.prems(5))
    with unroll show ?thesis by simp
  qed
qed

lemma initial_inv: "win_inv initial_state 0 \<and> content_inv remote initial_state"
proof -
  have "tiles 0 [] [] 0" by (auto simp: tiles_def intro: exI[of _ "[]"])
  then show ?thesis
    by (simp add: win_inv_def buffer_ok_def initial_state_def new_buffer_def total_chunks_def
        content_inv_def holds_content_def)
qed

section \<open>Concrete runs\<close>

text \<open>A five byte file, served at most one byte at a time, with the last read completing first.\<close>

definition example_remote :: bytes where "example_remote = [10, 20, 30, 40, 50]"

definition example_server :: server where
  "example_server t off n = (if off < 5 then Data (take (min n 1) (drop off example_remote)) else Eof)"

definition example_schedule :: "choice list" where
  "example_schedule = map (\<lambda>i. CompleteRead i (\<lambda>_. None)) [1, 0, 1, 0, 0]"

lemma example_serves: "serves example_server example_remote"
  by (auto simp: serves_def example_server_def example_remote_def)

lemma example_run:
  "run_download_pipeline example_server 3 5 example_schedule
     = Some (Inr \<lparr>transferred = 5, local_file = example_remote, hashed = example_remote, reads = [],
                  ordered = \<lparr>next_offset = 5, chunks = [], buffered_bytes = 0\<rparr>,
                  stats = \<lparr>max_in_flight = 2, max_buffered_bytes = 3\<rparr>, clock = 5\<rparr>)"
  by (simp add: run_download_pipeline_def run_windows.simps open_window_def plan_window_from_def
      plan_loop.simps pipeline_constants initial_state_def sat_add_def window_end_def new_buffer_def
      observe_def run_window.simps complete_read_def example_server_def example_remote_def
      example_schedule_def remove_nth_def insert_chunk_def drain_ready.simps
      write_download_chunk_def Let_def)

section \<open>The properties\<close>

text \<open>C7: If the server answers every read with bytes of the remote file at the offset asked for
  (possibly fewer than asked for, in any completion order), a pipelined download that returns \<open>Ok\<close>
  has written exactly the first \<open>file_len\<close> bytes of the file, in order, and has hashed the same
  bytes.\<close>
theorem pipelined_download_content:
  assumes "serves server remote" and "file_len \<le> u64_max" and "0 < chunk_bytes"
    and "run_download_pipeline server chunk_bytes file_len cs = Some (Inr s)"
  shows "local_file s = take file_len remote \<and> hashed s = local_file s
       \<and> length (local_file s) = file_len \<and> transferred s = file_len"
proof -
  have "transferred initial_state \<le> file_len" by (simp add: initial_state_def)
  note ok = run_windows_ok[where server = server and remote = remote and fuel = "length cs" and cs = cs,
      OF conjunct1[OF initial_inv] assms(2,3) this]
  have r: "run_windows (length cs) server chunk_bytes file_len cs initial_state = Some (Inr s)"
    using assms(4) by (simp add: run_download_pipeline_def)
  have t: "transferred s = file_len" "content_inv remote s" "\<exists>w. win_inv s w"
    using ok r assms(1) initial_inv by blast+
  then show ?thesis by (auto simp: content_inv_def win_inv_def)
qed

theorem pipelined_download_content_witness:
  "\<exists>s. run_download_pipeline example_server 3 5 example_schedule = Some (Inr s)
     \<and> local_file s = [10, 20, 30, 40, 50]"
proof -
  obtain s where s: "run_download_pipeline example_server 3 5 example_schedule = Some (Inr s)"
    using example_run by blast
  then show ?thesis
    using pipelined_download_content[OF example_serves _ _ s]
    by (simp add: u64_max_def example_remote_def)
qed

text \<open>Whatever the server answers, the download never has more than eight reads in flight nor more
  than 16 MiB buffered, a successful one has written exactly \<open>file_len\<close> bytes, and it fails only with
  an error that comes from the server, the cancellation or the local disk: the internal alarms for
  overlapping blocks, buffer overflow, a failing plan or non-contiguous content never fire.\<close>
theorem pipelined_download_limits:
  assumes "file_len \<le> u64_max" and "0 < chunk_bytes"
    and "run_download_pipeline server chunk_bytes file_len cs = Some r"
  shows "case r of
           Inr s \<Rightarrow> length (local_file s) = file_len \<and> max_in_flight (stats s) \<le> 8
                   \<and> max_buffered_bytes (stats s) \<le> 16 * 1024 * 1024
         | Inl e \<Rightarrow> external_error server cs e"
proof -
  have "transferred initial_state \<le> file_len" by (simp add: initial_state_def)
  note ok = run_windows_ok[where server = server and fuel = "length cs" and cs = cs,
      OF conjunct1[OF initial_inv] assms(1,2) this]
  have r: "run_windows (length cs) server chunk_bytes file_len cs initial_state = Some r"
    using assms(3) by (simp add: run_download_pipeline_def)
  show ?thesis
  proof (cases r)
    case (Inl e)
    with ok r show ?thesis by simp
  next
    case (Inr s)
    with ok r have "transferred s = file_len" "\<exists>w. win_inv s w" by blast+
    with Inr show ?thesis by (auto simp: win_inv_def pipeline_constants)
  qed
qed

theorem pipelined_download_limits_witness:
  "(\<exists>s. run_download_pipeline example_server 3 5 example_schedule = Some (Inr s)
       \<and> length (local_file s) = 5 \<and> max_in_flight (stats s) \<le> 8)"
  using pipelined_download_limits[OF _ _ example_run] by (simp add: example_run u64_max_def)

text \<open>C37: A download from a server that keeps answering with data, without cancellation or disk error,
  ends with success, whatever the order in which the reads complete and however short they are: a
  schedule of as many completions as the file has bytes is enough.\<close>
theorem pipelined_download_completes:
  assumes "responsive server" and "file_len \<le> u64_max" and "0 < chunk_bytes"
    and "\<forall>c\<in>set cs. \<exists>i. c = CompleteRead i (\<lambda>_. None)" and "file_len \<le> length cs"
  shows "\<exists>s. run_download_pipeline server chunk_bytes file_len cs = Some (Inr s)"
  unfolding run_download_pipeline_def using assms initial_inv
  by (intro run_windows_succeeds[of _ 0]) (auto simp: initial_state_def)

theorem pipelined_download_completes_witness:
  "\<exists>s. run_download_pipeline (\<lambda>t off n. Data (replicate (min n 2) 7)) 3 4
         (map (\<lambda>i. CompleteRead i (\<lambda>_. None)) [3, 2, 1, 0]) = Some (Inr s)"
  by (rule pipelined_download_completes) (auto simp: responsive_def u64_max_def)

text \<open>A planned window starts at the given offset, covers a contiguous nonempty range of the file
  with nonempty chunks, in at most eight requests and at most 16 MiB, and the chunk size negotiated with the
  server is at least one byte, at most 2 MiB, and leaves room for the packet header.\<close>
theorem plan_window_contiguous:
  assumes "start < file_len" and "file_len \<le> u64_max" and "0 < max_requests"
  shows "\<exists>stop. path start (plan_window_from start file_len (effective_read_chunk packet_len read_len) max_requests) stop
           \<and> start < stop \<and> stop \<le> file_len \<and> stop - start \<le> 16 * 1024 * 1024
           \<and> length (plan_window_from start file_len (effective_read_chunk packet_len read_len) max_requests)
               \<le> min max_requests 8
           \<and> 1 \<le> effective_read_chunk packet_len read_len
           \<and> effective_read_chunk packet_len read_len \<le> 2 * 1024 * 1024
           \<and> (case packet_len of Some p \<Rightarrow> 9 < p \<longrightarrow> effective_read_chunk packet_len read_len + 9 \<le> p
              | None \<Rightarrow> True)"
  using plan_window_tiles[OF assms(1,2) _ assms(3), of "effective_read_chunk packet_len read_len"]
    effective_read_chunk_bounds[of packet_len read_len] effective_read_chunk_fits[of _ read_len]
  by (auto simp: pipeline_constants split: option.splits)

theorem plan_window_contiguous_witness:
  "\<exists>stop. path 3 (plan_window_from 3 1000000 (effective_read_chunk (Some 32777) None) 4) stop
           \<and> 3 < stop \<and> stop \<le> 1000000 \<and> stop - 3 \<le> 16 * 1024 * 1024"
  using plan_window_contiguous[of 3 1000000 4 "Some 32777" None] by (auto simp: u64_max_def)

end
