(* ===== verification/Exec_Events.thy ===== *)
theory Exec_Events
  imports Transfer_Jobs
begin

text \<open>
  Executions and their event stream: \<^verbatim>\<open>src-tauri/src/domain/execution.rs\<close> (the status enum and
  the records) and \<^verbatim>\<open>src-tauri/src/domain/events.rs\<close> (payloads, sequence numbers, the output
  budget, and the chunker that turns the bytes of a remote stream into UTF-8 event texts).
\<close>

section \<open>Executions\<close>

datatype execution_status = EQueued | ERunning | ESucceeded | EFailed | ECancelled | EUncertain

fun execution_status_as_str :: "execution_status \<Rightarrow> string" where
  "execution_status_as_str EQueued = ''queued''"
| "execution_status_as_str ERunning = ''running''"
| "execution_status_as_str ESucceeded = ''succeeded''"
| "execution_status_as_str EFailed = ''failed''"
| "execution_status_as_str ECancelled = ''cancelled''"
| "execution_status_as_str EUncertain = ''uncertain''"

fun execution_is_terminal :: "execution_status \<Rightarrow> bool" where
  "execution_is_terminal s \<longleftrightarrow> s \<in> {ESucceeded, EFailed, ECancelled, EUncertain}"

definition execution_status_try_from :: "string \<Rightarrow> execution_status app_result" where
  "execution_status_try_from value =
     (if value = ''queued'' then Inr EQueued
      else if value = ''running'' then Inr ERunning
      else if value = ''succeeded'' then Inr ESucceeded
      else if value = ''failed'' then Inr EFailed
      else if value = ''cancelled'' then Inr ECancelled
      else if value = ''uncertain'' then Inr EUncertain
      else Inl (Validation (''unknown execution status: '' @ value)))"

interpretation execution_status_enum: str_enum execution_status_as_str execution_status_try_from
proof unfold_locales
  fix x show "execution_status_try_from (execution_status_as_str x) = Inr x"
    by (cases x) (simp_all add: execution_status_try_from_def)
next
  fix s x assume "execution_status_try_from s = Inr x"
  then show "s = execution_status_as_str x"
    by (auto simp: execution_status_try_from_def split: if_splits)
qed

record execution_record =
  er_id :: uuid
  er_server_id :: string
  er_task_id :: string
  er_task_version :: int
  er_category :: string
  er_status :: execution_status
  er_created_at :: int
  er_started_at :: "int option"
  er_finished_at :: "int option"
  er_duration_ms :: "u64 option"
  er_exit_code :: "int option"
  er_error_category :: "string option"
  er_error_message :: "string option"
  er_retryable :: bool
  er_parameters_summary :: "string option"
  er_output_summary :: "string option"
  er_remote_process_group :: "string option"

record execution_parameter =
  ep_name :: string
  ep_display_value :: string
  ep_sensitive :: bool

record execution_file =
  ef_id :: uuid
  ef_relative_path :: string
  ef_purpose :: string
  ef_size_bytes :: u64
  ef_sha256 :: string

record execution_details =
  ed_record :: execution_record
  ed_parameters :: "execution_parameter list"
  ed_files :: "execution_file list"

section \<open>Events\<close>

text \<open>\<open>serde_json::Value\<close>; numbers are integers or the rational value of a float.\<close>

datatype json =
    JNull | JBool bool | JInt int | JFloat rat | JString string
  | JArray "json list" | JObject "(string \<times> json) list"

fun json_get :: "json \<Rightarrow> string \<Rightarrow> json option" where
  "json_get (JObject members) key = map_of members key"
| "json_get _ key = None"

fun json_as_str :: "json \<Rightarrow> string option" where
  "json_as_str (JString s) = Some s"
| "json_as_str _ = None"

datatype execution_event_payload =
    Started uuid int
  | Stdout string u64
  | Stderr string u64
  | Progress transfer_phase u64 "u64 option" "rat option" "rat option" "rat option" "u64 option"
  | FileProduced execution_file
  | Finished execution_status "int option" u64 "json option"
  | Failed string string bool

record execution_event =
  ev_sequence :: u64
  ev_emitted_at :: int
  ev_payload :: execution_event_payload

definition next_event :: "execution_event_payload \<Rightarrow> int \<Rightarrow> u64 \<Rightarrow> execution_event \<times> u64" where
  "next_event payload now current =
     (let current' = (if current = - 1 then current else current + 1)
      in (\<lparr>ev_sequence = current', ev_emitted_at = now, ev_payload = payload\<rparr>, current'))"

section \<open>Output budget\<close>

record output_budget =
  ob_limit :: u64
  ob_consumed :: u64

definition new_budget :: "u64 \<Rightarrow> output_budget" where
  "new_budget limit = \<lparr>ob_limit = limit, ob_consumed = 0\<rparr>"

definition consume :: "u64 \<Rightarrow> (output_budget, u64) st" where
  "consume bytes b =
     (if unat (ob_consumed b) + unat bytes \<ge> 2 ^ 64
      then (Inl (OutputLimitExceeded (ob_limit b)), b)
      else if ob_consumed b + bytes > ob_limit b
      then (Inl (OutputLimitExceeded (ob_limit b)), b)
      else (Inr (ob_consumed b + bytes), b\<lparr>ob_consumed := ob_consumed b + bytes\<rparr>))"

section \<open>Decoding UTF-8\<close>

text \<open>
  \<open>str::from_utf8\<close> at one position: a character of \<open>n\<close> bytes, an invalid sequence of \<open>n\<close> bytes
  (\<open>error_len = Some n\<close>), or the beginning of a character at the end of the input
  (\<open>error_len = None\<close>).
\<close>

datatype utf8_step = Char nat | Bad nat | Incomplete

definition utf8_width :: "nat \<Rightarrow> nat" where
  "utf8_width a =
     (if a < 128 then 1 else if a < 194 then 0 else if a < 224 then 2
      else if a < 240 then 3 else if a < 245 then 4 else 0)"

definition cont_byte :: "nat \<Rightarrow> bool" where
  "cont_byte b \<longleftrightarrow> 128 \<le> b \<and> b < 192"

definition second_ok :: "nat \<Rightarrow> nat \<Rightarrow> bool" where
  "second_ok a b \<longleftrightarrow>
     (if a = 224 then 160 \<le> b \<and> b < 192
      else if a = 237 then 128 \<le> b \<and> b < 160
      else if a = 240 then 144 \<le> b \<and> b < 192
      else if a = 244 then 128 \<le> b \<and> b < 144
      else cont_byte b)"

fun utf8_next :: "string \<Rightarrow> utf8_step" where
  "utf8_next [] = Incomplete"
| "utf8_next (c # cs) =
     (let a = byte c; w = utf8_width a in
      if w = 0 then Bad 1
      else if w = 1 then Char 1
      else (case cs of
          [] \<Rightarrow> Incomplete
        | c2 # cs2 \<Rightarrow>
            if \<not> second_ok a (byte c2) then Bad 1
            else if w = 2 then Char 2
            else (case cs2 of
                [] \<Rightarrow> Incomplete
              | c3 # cs3 \<Rightarrow>
                  if \<not> cont_byte (byte c3) then Bad 2
                  else if w = 3 then Char 3
                  else (case cs3 of
                      [] \<Rightarrow> Incomplete
                    | c4 # _ \<Rightarrow> if \<not> cont_byte (byte c4) then Bad 3 else Char 4))))"

declare utf8_next.simps(2) [simp del]

lemma utf8_next_bounds:
  "utf8_next s = Char n \<Longrightarrow> 0 < n \<and> n \<le> 4 \<and> n \<le> length s"
  "utf8_next s = Bad n \<Longrightarrow> 0 < n \<and> n \<le> 3 \<and> n \<le> length s"
  by (cases s; auto simp: utf8_next.simps Let_def split: if_splits list.splits)+

text \<open>A decision of the decoder does not depend on the bytes that arrive later.\<close>

lemma utf8_next_stable:
  "utf8_next s \<noteq> Incomplete \<Longrightarrow> utf8_next (s @ t) = utf8_next s"
  by (cases s) (auto simp: utf8_next.simps Let_def split: if_splits list.splits)

lemma utf8_next_local:
  "utf8_next s = Char n \<Longrightarrow> utf8_next (take n s @ t) = Char n"
  by (cases s) (auto simp: utf8_next.simps Let_def take_Cons' split: if_splits list.splits)

text \<open>\<open>from_utf8\<close>: the length of the valid prefix, and the error that ends it.\<close>

datatype utf8_error = InvalidLen nat | Truncated

function from_utf8 :: "string \<Rightarrow> nat \<times> utf8_error option" where
  "from_utf8 s =
     (if s = [] then (0, None)
      else case utf8_next s of
        Char n \<Rightarrow> (case from_utf8 (drop n s) of (valid, err) \<Rightarrow> (n + valid, err))
      | Bad n \<Rightarrow> (0, Some (InvalidLen n))
      | Incomplete \<Rightarrow> (0, Some Truncated))"
  by pat_completeness auto
termination
  by (relation "measure length") (auto dest: utf8_next_bounds)

declare from_utf8.simps [simp del]

definition replacement :: string where
  "replacement = [CHR 0xEF, CHR 0xBF, CHR 0xBD]"

lemma from_utf8_le: "fst (from_utf8 s) \<le> length s"
proof (induction s rule: from_utf8.induct)
  case (1 s)
  show ?case
  proof (cases "utf8_next s")
    case (Char n)
    with 1 utf8_next_bounds(1)[OF Char] show ?thesis
      by (subst from_utf8.simps) (fastforce split: prod.splits)
  qed (auto simp: from_utf8.simps)
qed

lemma from_utf8_error:
  "from_utf8 s = (v, Some (InvalidLen n)) \<Longrightarrow> 0 < n \<and> v + n \<le> length s"
proof (induction s arbitrary: v rule: from_utf8.induct)
  case (1 s)
  show ?case
  proof (cases "utf8_next s")
    case (Char m)
    with 1(2) obtain v' where v: "from_utf8 (drop m s) = (v', Some (InvalidLen n))" "v = m + v'"
      by (subst (asm) from_utf8.simps) (auto split: if_splits prod.splits)
    have "s \<noteq> []" using Char by auto
    from 1(1)[OF this Char v(1)] v(2) utf8_next_bounds(1)[OF Char] show ?thesis by auto
  next
    case (Bad m)
    with 1(2) utf8_next_bounds(2)[OF Bad] show ?thesis
      by (subst (asm) from_utf8.simps) (auto split: if_splits)
  qed (use 1(2) in \<open>subst (asm) from_utf8.simps, auto split: if_splits\<close>)
qed

section \<open>The chunker\<close>

record utf8_chunker =
  max_bytes :: nat
  pending :: string

definition max_event_bytes :: nat where "max_event_bytes = 32 * 1024"

definition new_chunker :: "nat \<Rightarrow> utf8_chunker app_result" where
  "new_chunker limit =
     (if 4 \<le> limit \<and> limit \<le> max_event_bytes then Inr \<lparr>max_bytes = limit, pending = []\<rparr>
      else Inl (Validation ''chunk limit out of range''))"

text \<open>The loop of \<open>drain_decodable\<close>: the decoded text and the bytes that stay pending.\<close>

function drain_loop :: "bool \<Rightarrow> string \<Rightarrow> string \<times> string" where
  "drain_loop at_end buf =
     (case from_utf8 buf of
        (valid, None) \<Rightarrow> (buf, [])
      | (valid, Some (InvalidLen n)) \<Rightarrow>
          (case drain_loop at_end (drop n (drop valid buf)) of
             (text, rest) \<Rightarrow> (take valid buf @ replacement @ text, rest))
      | (valid, Some Truncated) \<Rightarrow>
          if \<not> at_end then (take valid buf, drop valid buf)
          else (take valid buf @ replacement, []))"
  by pat_completeness auto
termination
  by (relation "measure (\<lambda>(f, p). length p)") (auto dest!: from_utf8_error[OF sym])

declare drain_loop.simps [simp del]

text \<open>\<open>char_indices\<close> of a string, as the list of its characters.\<close>

function utf8_chars :: "string \<Rightarrow> string list" where
  "utf8_chars s =
     (case utf8_next s of Char n \<Rightarrow> take n s # utf8_chars (drop n s) | _ \<Rightarrow> [])"
  by pat_completeness auto
termination
proof (relation "measure length", goal_cases)
  case 1
  then show ?case by simp
next
  case (2 s n)
  then have "0 < n" "n \<le> length s" by (auto dest: utf8_next_bounds)
  then show ?case by simp
qed

declare utf8_chars.simps [simp del]

text \<open>
  The loop of \<open>split_utf8\<close>: \<open>current\<close> is \<open>value[start..index]\<close>.
\<close>

fun split_chars :: "nat \<Rightarrow> string \<Rightarrow> string list \<Rightarrow> string list" where
  "split_chars limit current [] = (if current \<noteq> [] then [current] else [])"
| "split_chars limit current (c # cs) =
     (if length current + length c > limit then current # split_chars limit c cs
      else split_chars limit (current @ c) cs)"

definition split_utf8 :: "string \<Rightarrow> nat \<Rightarrow> string list" where
  "split_utf8 v limit = (if v = [] then [] else split_chars limit [] (utf8_chars v))"

definition drain_decodable :: "bool \<Rightarrow> utf8_chunker \<Rightarrow> string list \<times> utf8_chunker" where
  "drain_decodable at_end c =
     (case drain_loop at_end (pending c) of
        (text, rest) \<Rightarrow> (split_utf8 text (max_bytes c), c\<lparr>pending := rest\<rparr>))"

definition push_bytes :: "string \<Rightarrow> utf8_chunker \<Rightarrow> string list \<times> utf8_chunker" where
  "push_bytes bytes c = drain_decodable False (c\<lparr>pending := pending c @ bytes\<rparr>)"

definition finish_chunks :: "utf8_chunker \<Rightarrow> string list \<times> utf8_chunker" where
  "finish_chunks c = drain_decodable True c"

end
