(* ===== verification/Exec_Stream.thy ===== *)
theory Exec_Stream
  imports Exec_Events
begin

text \<open>
  The event stream is faithful to the bytes of the remote command: whatever the sizes in which
  they arrive, the event texts are the lossy decoding of the whole stream, cut at character
  boundaries, and the output budget counts every byte.
\<close>

section \<open>Lossy decoding as a specification\<close>

text \<open>The decoding of a complete byte string: invalid sequences become U+FFFD.\<close>

function lossy :: "string \<Rightarrow> string" where
  "lossy s =
     (if s = [] then []
      else case utf8_next s of
        Char n \<Rightarrow> take n s @ lossy (drop n s)
      | Bad n \<Rightarrow> replacement @ lossy (drop n s)
      | Incomplete \<Rightarrow> replacement)"
  by pat_completeness auto
termination
  by (relation "measure length") (auto dest: utf8_next_bounds)

declare lossy.simps [simp del]

definition valid_utf8 :: "string \<Rightarrow> bool" where
  "valid_utf8 s \<longleftrightarrow> from_utf8 s = (length s, None)"

lemma from_utf8_Char:
  "utf8_next s = Char n \<Longrightarrow> from_utf8 s = (n + fst (from_utf8 (drop n s)), snd (from_utf8 (drop n s)))"
  by (subst from_utf8.simps) (auto split: prod.splits)

lemma lossy_Char: "utf8_next s = Char n \<Longrightarrow> lossy s = take n s @ lossy (drop n s)"
  by (subst lossy.simps) auto

lemma lossy_Bad: "s \<noteq> [] \<Longrightarrow> utf8_next s = Bad n \<Longrightarrow> lossy s = replacement @ lossy (drop n s)"
  by (subst lossy.simps) auto

lemma from_utf8_spec:
  "(case snd (from_utf8 s) of
      None \<Rightarrow> fst (from_utf8 s) = length s \<and> lossy (s @ t) = s @ lossy t
    | Some (InvalidLen n) \<Rightarrow>
        lossy (s @ t) = take (fst (from_utf8 s)) s @ replacement
                        @ lossy (drop n (drop (fst (from_utf8 s)) s) @ t)
    | Some Truncated \<Rightarrow>
        lossy (s @ t) = take (fst (from_utf8 s)) s @ lossy (drop (fst (from_utf8 s)) s @ t)
        \<and> drop (fst (from_utf8 s)) s \<noteq> [] \<and> utf8_next (drop (fst (from_utf8 s)) s) = Incomplete)
   \<and> valid_utf8 (take (fst (from_utf8 s)) s)"
proof (induction s rule: from_utf8.induct)
  case (1 s)
  show ?case
  proof (cases "s = []")
    case True
    then show ?thesis by (simp add: from_utf8.simps valid_utf8_def)
  next
    case ne: False
    show ?thesis
    proof (cases "utf8_next s")
      case (Char n)
      note b = utf8_next_bounds(1)[OF Char]
      have st: "utf8_next (s @ t) = Char n" using Char utf8_next_stable by simp
      have ls: "lossy (s @ t) = take n s @ lossy (drop n s @ t)"
        using lossy_Char[OF st] b by simp
      define v where "v = fst (from_utf8 (drop n s))"
      have f: "fst (from_utf8 s) = n + v" "snd (from_utf8 s) = snd (from_utf8 (drop n s))"
        using from_utf8_Char[OF Char] by (simp_all add: v_def)
      have tk: "take (n + v) s = take n s @ take v (drop n s)" by (simp add: take_add)
      have dr: "drop (n + v) s = drop v (drop n s)" by (simp add: add.commute)
      have vl: "v \<le> length (drop n s)" unfolding v_def by (rule from_utf8_le)
      note IH = 1(1)[OF ne Char, folded v_def]
      have loc: "utf8_next (take (n + v) s) = Char n"
        unfolding tk by (rule utf8_next_local[OF Char])
      have "valid_utf8 (take v (drop n s))" using IH by blast
      then have "valid_utf8 (take (n + v) s)"
        using from_utf8_Char[OF loc] b vl unfolding valid_utf8_def tk by simp
      with IH ls f tk dr b show ?thesis
        by (auto split: option.splits utf8_error.splits)
    next
      case (Bad n)
      note b = utf8_next_bounds(2)[OF Bad]
      have st: "utf8_next (s @ t) = Bad n" using Bad utf8_next_stable by simp
      have "from_utf8 s = (0, Some (InvalidLen n))" using ne Bad by (simp add: from_utf8.simps)
      with lossy_Bad[OF _ st] ne b show ?thesis by (simp add: valid_utf8_def from_utf8.simps)
    next
      case Incomplete
      with ne have "from_utf8 s = (0, Some Truncated)" by (simp add: from_utf8.simps)
      with ne Incomplete show ?thesis by (simp add: valid_utf8_def from_utf8.simps)
    qed
  qed
qed

lemma valid_append: "valid_utf8 a \<Longrightarrow> valid_utf8 b \<Longrightarrow> valid_utf8 (a @ b)"
proof (induction a rule: from_utf8.induct)
  case (1 a)
  show ?case
  proof (cases "a = []")
    case False
    show ?thesis
    proof (cases "utf8_next a")
      case (Char n)
      note bd = utf8_next_bounds(1)[OF Char]
      have "valid_utf8 (drop n a)"
        using 1(2) from_utf8_Char[OF Char] bd by (auto simp: valid_utf8_def prod_eq_iff)
      from 1(1)[OF False Char this 1(3)] have "valid_utf8 (drop n a @ b)" .
      moreover have "utf8_next (a @ b) = Char n" using Char utf8_next_stable by simp
      ultimately show ?thesis using from_utf8_Char bd by (simp add: valid_utf8_def)
    qed (use 1(2) False in \<open>auto simp: valid_utf8_def from_utf8.simps\<close>)
  qed (use 1(3) in simp)
qed

lemma valid_replacement: "valid_utf8 replacement"
  by code_simp

lemma drain_loop_more:
  "drain_loop False buf = (dec, rest) \<Longrightarrow> lossy (buf @ t) = dec @ lossy (rest @ t) \<and> valid_utf8 dec"
proof (induction buf arbitrary: dec rest rule: measure_induct_rule[where f = length])
  case (less buf)
  note spec = from_utf8_spec[of buf t]
  obtain v err where f: "from_utf8 buf = (v, err)" by fastforce
  consider "err = None" | n where "err = Some (InvalidLen n)" | "err = Some Truncated"
    by (cases err) (auto intro: utf8_error.exhaust)
  then show ?case
  proof cases
    case 1
    then have "dec = buf" "rest = []" using less.prems f by (subst (asm) drain_loop.simps; simp)+
    with 1 f spec show ?thesis by auto
  next
    case (2 n)
    obtain dec' rest' where d: "drain_loop False (drop n (drop v buf)) = (dec', rest')" by fastforce
    with less.prems f 2 have
      tr: "dec = take v buf @ replacement @ dec'" "rest = rest'"
      by (subst (asm) drain_loop.simps; simp)+
    have "0 < n \<and> v + n \<le> length buf" using from_utf8_error[of buf v n] f 2 by simp
    then have lt: "length (drop n (drop v buf)) < length buf" by auto
    have "lossy (drop n (drop v buf) @ t) = dec' @ lossy (rest' @ t) \<and> valid_utf8 dec'"
      by (rule less.IH[OF lt d])
    with spec f 2 tr show ?thesis by (auto intro!: valid_append valid_replacement)
  next
    case 3
    then have "dec = take v buf" "rest = drop v buf"
      using less.prems f by (subst (asm) drain_loop.simps; simp)+
    with 3 f spec show ?thesis by auto
  qed
qed

lemma drain_loop_finish:
  "drain_loop True buf = (dec, rest) \<Longrightarrow> lossy buf = dec \<and> rest = [] \<and> valid_utf8 dec"
proof (induction buf arbitrary: dec rest rule: measure_induct_rule[where f = length])
  case (less buf)
  note spec = from_utf8_spec[of buf "[]"]
  have nil: "lossy [] = []" by (simp add: lossy.simps)
  obtain v err where f: "from_utf8 buf = (v, err)" by fastforce
  consider "err = None" | n where "err = Some (InvalidLen n)" | "err = Some Truncated"
    by (cases err) (auto intro: utf8_error.exhaust)
  then show ?case
  proof cases
    case 1
    then have "dec = buf" "rest = []" using less.prems f by (subst (asm) drain_loop.simps; simp)+
    with 1 f spec nil show ?thesis by auto
  next
    case (2 n)
    obtain dec' rest' where d: "drain_loop True (drop n (drop v buf)) = (dec', rest')" by fastforce
    with less.prems f 2 have
      tr: "dec = take v buf @ replacement @ dec'" "rest = rest'"
      by (subst (asm) drain_loop.simps; simp)+
    have "0 < n \<and> v + n \<le> length buf" using from_utf8_error[of buf v n] f 2 by simp
    then have lt: "length (drop n (drop v buf)) < length buf" by auto
    have "lossy (drop n (drop v buf)) = dec' \<and> rest' = [] \<and> valid_utf8 dec'"
      by (rule less.IH[OF lt d])
    with spec f 2 tr show ?thesis by (auto intro!: valid_append valid_replacement)
  next
    case 3
    have "lossy (drop v buf) = replacement"
      using spec f 3 by (subst lossy.simps) auto
    moreover have "dec = take v buf @ replacement" "rest = []"
      using less.prems f 3 by (subst (asm) drain_loop.simps; simp)+
    ultimately show ?thesis using spec f 3 by (auto intro!: valid_append valid_replacement)
  qed
qed

section \<open>Cutting a text into events\<close>

definition one_char :: "string \<Rightarrow> bool" where
  "one_char c \<longleftrightarrow> c \<noteq> [] \<and> length c \<le> 4 \<and> valid_utf8 c"

lemma utf8_chars_spec:
  "valid_utf8 s \<Longrightarrow> concat (utf8_chars s) = s \<and> list_all one_char (utf8_chars s)"
proof (induction s rule: utf8_chars.induct)
  case (1 s)
  show ?case
  proof (cases "utf8_next s")
    case (Char n)
    note b = utf8_next_bounds(1)[OF Char]
    have v: "valid_utf8 (drop n s)"
      using 1(2) from_utf8_Char[OF Char] b by (auto simp: valid_utf8_def prod_eq_iff)
    have "utf8_next (take n s) = Char n" using utf8_next_local[OF Char, of "[]"] by simp
    then have "valid_utf8 (take n s)"
      using from_utf8_Char[of "take n s" n] b by (simp add: valid_utf8_def from_utf8.simps[of "[]"])
    then have "one_char (take n s)" using b by (auto simp: one_char_def)
    with 1(1)[OF Char v] Char show ?thesis by (subst (1 2) utf8_chars.simps) simp
  next
    case (Bad n)
    with 1(2) show ?thesis by (cases s) (auto simp: valid_utf8_def from_utf8.simps utf8_chars.simps)
  next
    case Incomplete
    with 1(2) show ?thesis by (cases s) (auto simp: valid_utf8_def from_utf8.simps utf8_chars.simps)
  qed
qed

definition good_chunk :: "nat \<Rightarrow> string \<Rightarrow> bool" where
  "good_chunk limit c \<longleftrightarrow> c \<noteq> [] \<and> length c \<le> limit \<and> valid_utf8 c"

lemma split_chars_spec:
  assumes "list_all one_char cs" "4 \<le> limit" "cur = [] \<or> good_chunk limit cur"
  shows "concat (split_chars limit cur cs) = cur @ concat cs
       \<and> list_all (good_chunk limit) (split_chars limit cur cs)"
  using assms
proof (induction cs arbitrary: cur)
  case (Cons c cs)
  then have c: "good_chunk limit c" "length c \<le> 4" by (auto simp: one_char_def good_chunk_def)
  have vc: "valid_utf8 cur" using Cons.prems(3) by (auto simp: good_chunk_def valid_utf8_def from_utf8.simps)
  show ?case
  proof (cases "length cur + length c > limit")
    case True
    then have "good_chunk limit cur" using Cons.prems(2,3) c(2) by auto
    with Cons.IH[of c] Cons.prems(1,2) c True show ?thesis by simp
  next
    case False
    then have "good_chunk limit (cur @ c)" using c vc by (auto simp: good_chunk_def intro: valid_append)
    with Cons.IH[of "cur @ c"] Cons.prems(1,2) False show ?thesis by simp
  qed
qed auto

lemma split_utf8_spec:
  assumes "valid_utf8 v" "4 \<le> limit"
  shows "concat (split_utf8 v limit) = v \<and> list_all (good_chunk limit) (split_utf8 v limit)"
  using split_chars_spec[of "utf8_chars v" limit "[]"] utf8_chars_spec[OF assms(1)] assms(2)
  by (simp add: split_utf8_def)

section \<open>A whole stream\<close>

text \<open>The stream: one \<open>push\<close> for every block that arrives, then \<open>finish\<close>.\<close>

fun feed :: "string list \<Rightarrow> utf8_chunker \<Rightarrow> string list" where
  "feed [] c = fst (finish_chunks c)"
| "feed (block # blocks) c =
     (case push_bytes block c of (out, c') \<Rightarrow> out @ feed blocks c')"

lemma feed_spec:
  "4 \<le> max_bytes c \<Longrightarrow>
     concat (feed blocks c) = lossy (pending c @ concat blocks)
     \<and> list_all (good_chunk (max_bytes c)) (feed blocks c)"
proof (induction blocks arbitrary: c)
  case Nil
  obtain dec rest where d: "drain_loop True (pending c) = (dec, rest)" by fastforce
  with drain_loop_finish[OF d] split_utf8_spec[of dec "max_bytes c"] Nil show ?case
    by (simp add: finish_chunks_def drain_decodable_def)
next
  case (Cons b blocks)
  obtain dec rest where d: "drain_loop False (pending c @ b) = (dec, rest)" by fastforce
  let ?c = "c\<lparr>pending := rest\<rparr>"
  have p: "push_bytes b c = (split_utf8 dec (max_bytes c), ?c)"
    using d by (simp add: push_bytes_def drain_decodable_def)
  note dm = drain_loop_more[OF d, of "concat blocks"]
  with Cons.IH[of ?c] p split_utf8_spec[of dec "max_bytes c"] Cons.prems show ?case by simp
qed

text \<open>C23: The event texts of a stream, however its bytes are cut into blocks, concatenate to the
  lossy UTF-8 decoding of the whole stream (a character split between two blocks is never
  damaged), and every text is nonempty, valid UTF-8 and within the limit of the chunker.\<close>
theorem chunker_stream_lossless:
  assumes "new_chunker limit = Inr c"
  shows "concat (feed blocks c) = lossy (concat blocks)
       \<and> (\<forall>dec \<in> set (feed blocks c). dec \<noteq> [] \<and> length dec \<le> limit \<and> valid_utf8 dec)"
proof -
  have "4 \<le> max_bytes c" "max_bytes c = limit" "pending c = []"
    using assms by (auto simp: new_chunker_def split: if_splits)
  with feed_spec[of c blocks] show ?thesis by (auto simp: list_all_iff good_chunk_def)
qed

theorem chunker_stream_lossless_witness:
  "concat (feed [[CHR 0xE4, CHR 0xBD], [CHR 0xA0, CHR ''a''], [CHR 0xFF]] \<lparr>max_bytes = 4, pending = []\<rparr>)
     = lossy [CHR 0xE4, CHR 0xBD, CHR 0xA0, CHR ''a'', CHR 0xFF]
   \<and> lossy [CHR 0xE4, CHR 0xBD, CHR 0xA0, CHR ''a'', CHR 0xFF]
     = [CHR 0xE4, CHR 0xBD, CHR 0xA0, CHR ''a'', CHR 0xEF, CHR 0xBF, CHR 0xBD]"
proof
  have n: "new_chunker 4 = Inr \<lparr>max_bytes = 4, pending = []\<rparr>"
    by (simp add: new_chunker_def max_event_bytes_def)
  show "concat (feed [[CHR 0xE4, CHR 0xBD], [CHR 0xA0, CHR ''a''], [CHR 0xFF]] \<lparr>max_bytes = 4, pending = []\<rparr>)
     = lossy [CHR 0xE4, CHR 0xBD, CHR 0xA0, CHR ''a'', CHR 0xFF]"
    using chunker_stream_lossless[OF n, of "[[CHR 0xE4, CHR 0xBD], [CHR 0xA0, CHR ''a''], [CHR 0xFF]]"]
    by (simp del: feed.simps)
  show "lossy [CHR 0xE4, CHR 0xBD, CHR 0xA0, CHR ''a'', CHR 0xFF]
     = [CHR 0xE4, CHR 0xBD, CHR 0xA0, CHR ''a'', CHR 0xEF, CHR 0xBF, CHR 0xBD]"
    by code_simp
qed

section \<open>The output budget\<close>

fun consume_all :: "u64 list \<Rightarrow> (output_budget, unit) st" where
  "consume_all [] = ret_st ()"
| "consume_all (n # ns) = bind_st (consume n) (\<lambda>_. consume_all ns)"

lemma consume_ok:
  "fst (consume n b) = (if unat (ob_consumed b) + unat n \<le> unat (ob_limit b)
     then Inr (ob_consumed b + n) else Inl (OutputLimitExceeded (ob_limit b)))
   \<and> ob_limit (snd (consume n b)) = ob_limit b
   \<and> unat (ob_consumed (snd (consume n b))) =
       (if unat (ob_consumed b) + unat n \<le> unat (ob_limit b)
        then unat (ob_consumed b) + unat n else unat (ob_consumed b))"
proof (cases "unat (ob_consumed b) + unat n \<ge> 2 ^ 64")
  case True
  moreover have "unat (ob_limit b) < 2 ^ 64" using unsigned_less[of "ob_limit b"] by simp
  ultimately show ?thesis by (simp add: consume_def)
next
  case False
  then have "unat (ob_consumed b + n) = unat (ob_consumed b) + unat n"
    by (simp add: unat_word_ariths)
  with False show ?thesis by (auto simp: consume_def word_less_nat_alt not_less)
qed

text \<open>The output budget admits a sequence of blocks exactly when the sum of their sizes, as natural
  numbers, is within the limit; the 64-bit counter never wraps, and a refusal is the error that
  carries the limit.\<close>
theorem output_budget_exact:
  "fst (consume_all ns (new_budget limit)) =
     (if sum_list (map unat ns) \<le> unat limit then Inr () else Inl (OutputLimitExceeded limit))"
proof -
  have "fst (consume_all ns b) =
     (if unat (ob_consumed b) + sum_list (map unat ns) \<le> unat (ob_limit b)
      then Inr () else Inl (OutputLimitExceeded (ob_limit b)))"
    if "unat (ob_consumed b) \<le> unat (ob_limit b)" for b
    using that
  proof (induction ns arbitrary: b)
    case Nil
    then show ?case by simp
  next
    case (Cons n ns)
    obtain r b' where c: "consume n b = (r, b')" by fastforce
    with consume_ok[of n b] Cons.IH[of b'] Cons.prems show ?case
      by (cases r) (auto simp: bind_st_def add.assoc split: if_splits)
  qed
  from this[of "new_budget limit"] show ?thesis by (simp add: new_budget_def)
qed

end
