(* ===== verification/Sftp_Paths.thy ===== *)
theory Sftp_Paths
  imports Qz_Prelude
begin

text \<open>
  The checks and string constructions that stand between a user's request and the remote side:
  \<open>validate_remote_path\<close>, \<open>remote_hash_command\<close>, \<open>parse_sha256_output\<close>,
  \<open>remote_partial_path\<close>, \<open>download_destination\<close> and \<open>select_verification\<close> of
  \<^verbatim>\<open>src-tauri/src/core/sftp/transfer.rs\<close>, the entry-name checks of
  \<^verbatim>\<open>src-tauri/src/core/sftp/browser.rs\<close>, and \<open>shell_quote\<close> of
  \<^verbatim>\<open>src-tauri/src/core/tasks/parameters.rs\<close>.
\<close>

section \<open>Remote paths\<close>

definition is_ascii_alphabetic :: "char \<Rightarrow> bool" where
  "is_ascii_alphabetic c \<longleftrightarrow> (65 \<le> byte c \<and> byte c \<le> 90) \<or> (97 \<le> byte c \<and> byte c \<le> 122)"

fun windows_drive_absolute :: "string \<Rightarrow> bool" where
  "windows_drive_absolute (a # b # c # _) = (is_ascii_alphabetic a \<and> b = CHR '':'' \<and> c = CHR ''/'')"
| "windows_drive_absolute _ = False"

definition validate_remote_path :: "string \<Rightarrow> unit app_result" where
  "validate_remote_path path =
     (if path = [] \<or> CHR 0x00 \<in> set path \<or> CHR 0x5C \<in> set path
         \<or> \<not> (starts_with path ''/'' \<or> windows_drive_absolute path)
      then Inl (Validation ''remote path must be an absolute SFTP path'')
      else if list_ex (\<lambda>component. component = ''..'') (split_char (CHR ''/'') path)
      then Inl (Validation ''remote path must not contain a parent directory'')
      else Inr ())"

text \<open>\<open>str::rsplit_once('/')\<close>: the parts before and after the last slash.\<close>

fun rsplit_once :: "char \<Rightarrow> string \<Rightarrow> (string \<times> string) option" where
  "rsplit_once d [] = None"
| "rsplit_once d (c # cs) =
     (case rsplit_once d cs of
        Some (a, b) \<Rightarrow> Some (c # a, b)
      | None \<Rightarrow> if c = d then Some ([], cs) else None)"

definition remote_partial_path :: "uuid \<Rightarrow> string \<Rightarrow> string app_result" where
  "remote_partial_path new_v4 remote_path =
     bind_res (validate_remote_path remote_path) (\<lambda>_.
       case rsplit_once (CHR ''/'') remote_path of
         None \<Rightarrow> Inl (Validation ''remote path lacks a file name'')
       | Some (directory, name) \<Rightarrow>
           if name = [] then Inl (Validation ''remote path lacks a file name'')
           else let directory = (if directory = [] then ''/'' else directory);
                    separator = (if directory = ''/'' then [] else ''/'')
                in Inr (directory @ separator @ ''.qingzhou-'' @ name @ ''.''
                        @ uuid_text new_v4 @ ''.partial''))"

section \<open>Shell quoting\<close>

text \<open>\<open>value.replace('\'', "'\"'\"'")\<close> between two single quotes.\<close>

definition quote_escape :: string where
  "quote_escape = [CHR 0x27, CHR 0x22, CHR 0x27, CHR 0x22, CHR 0x27]"

definition shell_quote :: "string \<Rightarrow> string" where
  "shell_quote v =
     CHR 0x27 # concat (map (\<lambda>c. if c = CHR 0x27 then quote_escape else [c]) v) @ [CHR 0x27]"

text \<open>
  What POSIX (Shell Command Language, 2.2.2 and 2.2.3) reads from a word made of quoted parts
  only: single quotes preserve every character up to the next single quote; double quotes
  preserve characters other than \<open>$\<close>, the backquote and the backslash. A word with a
  character outside quotes, an unfinished quote or one of the three in double quotes is not
  literal (\<open>None\<close>).
\<close>

datatype quote_mode = Outside | Single | Double

fun sh_literal :: "quote_mode \<Rightarrow> string \<Rightarrow> string option" where
  "sh_literal Outside [] = Some []"
| "sh_literal _ [] = None"
| "sh_literal Outside (c # cs) =
     (if c = CHR 0x27 then sh_literal Single cs
      else if c = CHR 0x22 then sh_literal Double cs else None)"
| "sh_literal Single (c # cs) =
     (if c = CHR 0x27 then sh_literal Outside cs else map_option ((#) c) (sh_literal Single cs))"
| "sh_literal Double (c # cs) =
     (if c = CHR 0x22 then sh_literal Outside cs
      else if c \<in> {CHR ''$'', CHR 0x60, CHR 0x5C} then None
      else map_option ((#) c) (sh_literal Double cs))"

lemma sh_literal_quoted:
  "sh_literal Single
     (concat (map (\<lambda>c. if c = CHR 0x27 then quote_escape else [c]) v) @ [CHR 0x27]) = Some v"
  by (induction v) (auto simp: quote_escape_def)

text \<open>C22: Quoting is injection-proof: whatever bytes a value holds, a POSIX shell reads the quoted
  text as one word whose value is exactly those bytes.\<close>

theorem shell_quote_is_literal: "sh_literal Outside (shell_quote v) = Some v"
  by (simp add: shell_quote_def sh_literal_quoted)

section \<open>Remote digests\<close>

datatype verification_policy = Balanced | Strict | TransportOnly
datatype verification_level_t = LevelRemoteHash | LevelTransportAndSize
datatype verification_strategy = RemoteHash | SftpReread | TransportAndSize

fun select_verification :: "verification_policy \<Rightarrow> bool \<Rightarrow> verification_strategy" where
  "select_verification TransportOnly _ = TransportAndSize"
| "select_verification _ True = RemoteHash"
| "select_verification Balanced False = TransportAndSize"
| "select_verification Strict False = SftpReread"

fun verification_level :: "verification_strategy \<Rightarrow> verification_level_t" where
  "verification_level RemoteHash = LevelRemoteHash"
| "verification_level SftpReread = LevelRemoteHash"
| "verification_level TransportAndSize = LevelTransportAndSize"

text \<open>
  The capabilities that the hash command reads: whether the remote side is Windows (by family
  or by path style), and the commands it has.
\<close>

record hash_capabilities =
  hc_windows :: bool
  hc_has_command :: "string \<Rightarrow> bool"

definition remote_hash_command :: "hash_capabilities \<Rightarrow> string \<Rightarrow> string option app_result" where
  "remote_hash_command capabilities remote_path =
     bind_res (validate_remote_path remote_path) (\<lambda>_.
       if hc_windows capabilities \<or> \<not> starts_with remote_path ''/'' then Inr None
       else let quoted = shell_quote remote_path in
         Inr (if hc_has_command capabilities ''sha256sum'' then Some (''sha256sum -- '' @ quoted)
              else if hc_has_command capabilities ''sha256'' then Some (''sha256 -q '' @ quoted)
              else if hc_has_command capabilities ''shasum'' then Some (''shasum -a 256 -- '' @ quoted)
              else None))"

definition strip_suffix :: "char \<Rightarrow> string \<Rightarrow> string" where
  "strip_suffix c s = (if s \<noteq> [] \<and> last s = c then butlast s else s)"

text \<open>The text before the first white-space character, and the rest from there, if any.\<close>

fun find_whitespace :: "string \<Rightarrow> string \<times> string option" where
  "find_whitespace [] = ([], None)"
| "find_whitespace (c # cs) =
     (if ws_prefix (map byte (c # cs)) > 0 then ([], Some (c # cs))
      else (case find_whitespace cs of (a, b) \<Rightarrow> (c # a, b)))"

definition is_ascii_hexdigit :: "char \<Rightarrow> bool" where
  "is_ascii_hexdigit c \<longleftrightarrow>
     is_ascii_digit c \<or> (65 \<le> byte c \<and> byte c \<le> 70) \<or> (97 \<le> byte c \<and> byte c \<le> 102)"

definition parse_sha256_output :: "string \<Rightarrow> string app_result" where
  "parse_sha256_output output =
     (let line = strip_suffix (CHR 0x0D) (strip_suffix (CHR 0x0A) output) in
      if CHR 0x0D \<in> set line \<or> CHR 0x0A \<in> set line
      then Inl (Integrity ''remote SHA-256 output is ambiguous'')
      else case find_whitespace line of (digest, rest) \<Rightarrow>
        let trailing = map_option trim_start rest in
        if length digest \<noteq> 64 \<or> \<not> list_all is_ascii_hexdigit digest
        then Inl (Integrity ''remote SHA-256 output is malformed'')
        else if (case trailing of None \<Rightarrow> False | Some path \<Rightarrow> path = [] \<or> CHR 0x00 \<in> set path)
        then Inl (Integrity ''remote SHA-256 output is malformed'')
        else Inr (to_ascii_lowercase digest))"

section \<open>Local destinations\<close>

text \<open>
  \<open>Path::join\<close> of the standard library on the two families of hosts: an absolute second path
  replaces the first, and on Windows so does one that starts with a drive prefix.
\<close>

datatype host_os = UnixHost | WindowsHost

fun has_drive_prefix :: "string \<Rightarrow> bool" where
  "has_drive_prefix (a # b # _) = (is_ascii_alphabetic a \<and> b = CHR '':'')"
| "has_drive_prefix _ = False"

definition is_separator :: "host_os \<Rightarrow> char \<Rightarrow> bool" where
  "is_separator os c \<longleftrightarrow> c = CHR ''/'' \<or> (os = WindowsHost \<and> c = CHR 0x5C)"

definition is_absolute :: "host_os \<Rightarrow> string \<Rightarrow> bool" where
  "is_absolute os p \<longleftrightarrow>
     (case os of
        UnixHost \<Rightarrow> starts_with p ''/''
      | WindowsHost \<Rightarrow> (has_drive_prefix p \<and> length p \<ge> 3 \<and> is_separator os (p ! 2))
          \<or> (length p \<ge> 2 \<and> is_separator os (p ! 0) \<and> is_separator os (p ! 1)))"

definition path_join :: "host_os \<Rightarrow> string \<Rightarrow> string \<Rightarrow> string" where
  "path_join os base p =
     (if is_absolute os p then p
      else if os = WindowsHost \<and> has_drive_prefix p then p
      else if os = WindowsHost \<and> p \<noteq> [] \<and> is_separator os (hd p)
      then (if has_drive_prefix base then take 2 base else []) @ p
      else if base = [] \<or> is_separator os (last base) then base @ p
      else base @ (if os = WindowsHost then [CHR 0x5C] else ''/'') @ p)"

definition download_destination :: "host_os \<Rightarrow> string \<Rightarrow> string \<Rightarrow> string app_result" where
  "download_destination os data_root suggested_name =
     (if suggested_name = [] \<or> CHR 0x00 \<in> set suggested_name
         \<or> suggested_name = ''.'' \<or> suggested_name = ''..''
         \<or> CHR ''/'' \<in> set suggested_name \<or> CHR 0x5C \<in> set suggested_name
         \<or> is_absolute os suggested_name
      then Inl (Validation ''invalid download file name'')
      else Inr (path_join os (path_join os data_root ''downloads'') suggested_name))"

section \<open>Browser paths\<close>

definition validate_remote_directory_path :: "string \<Rightarrow> unit app_result" where
  "validate_remote_directory_path path =
     bind_res (validate_remote_path path) (\<lambda>_.
       let windows_drive_root = (windows_drive_absolute path \<and> length path = 3) in
       if path \<noteq> ''/'' \<and> \<not> windows_drive_root \<and> last path = CHR ''/''
       then Inl (Validation ''remote directory must not end in a slash'')
       else Inr ())"

definition trim_end_slashes :: "string \<Rightarrow> string" where
  "trim_end_slashes s = rev (dropWhile (\<lambda>c. c = CHR ''/'') (rev s))"

definition remote_parent :: "string \<Rightarrow> string option" where
  "remote_parent path =
     (if path = ''/'' then None
      else case rsplit_once (CHR ''/'') (trim_end_slashes path) of
        None \<Rightarrow> None
      | Some (parent, _) \<Rightarrow>
          Some (if parent = [] then ''/''
                else if length parent = 2 \<and> last parent = CHR '':'' then parent @ ''/''
                else parent))"

definition validate_remote_entry_name :: "string \<Rightarrow> unit app_result" where
  "validate_remote_entry_name name =
     (if is_blank name \<or> name = ''.'' \<or> name = ''..''
         \<or> CHR ''/'' \<in> set name \<or> CHR 0x5C \<in> set name \<or> CHR 0x00 \<in> set name
         \<or> length name > 255
      then Inl (Validation ''invalid remote name'')
      else Inr ())"

definition remote_child_path :: "string \<Rightarrow> string \<Rightarrow> string app_result" where
  "remote_child_path directory name =
     bind_res (validate_remote_directory_path directory) (\<lambda>_.
     bind_res (validate_remote_entry_name name) (\<lambda>_.
       Inr (if last directory = CHR ''/'' then directory @ name else directory @ ''/'' @ name)))"

section \<open>Facts about paths\<close>

lemma split_char_not_Nil [simp]: "split_char d s \<noteq> []"
  by (induction s) (auto split: list.split)

lemma split_char_append: "split_char d (a @ d # b) = split_char d a @ split_char d b"
  by (induction a) (auto split: list.split)

lemma split_char_single: "d \<notin> set s \<Longrightarrow> split_char d s = [s]"
  by (induction s) auto

lemma rsplit_once_None: "d \<notin> set s \<Longrightarrow> rsplit_once d s = None"
  by (induction s) auto

lemma rsplit_once_append: "d \<notin> set b \<Longrightarrow> rsplit_once d (a @ d # b) = Some (a, b)"
  by (induction a) (auto simp: rsplit_once_None)

lemma rsplit_once_Some: "rsplit_once d s = Some (a, b) \<Longrightarrow> s = a @ d # b \<and> d \<notin> set b"
proof (induction s arbitrary: a)
  case Nil
  then show ?case by simp
next
  case (Cons c s)
  have none: "rsplit_once d s = None \<Longrightarrow> d \<notin> set s" for s
    by (induction s) (auto split: option.splits if_splits)
  from Cons show ?case by (auto split: option.splits if_splits dest: none)
qed

definition path_start :: "string \<Rightarrow> bool" where
  "path_start p \<longleftrightarrow> starts_with p ''/'' \<or> windows_drive_absolute p"

lemma path_start_append: "path_start a \<Longrightarrow> path_start (a @ b)"
  by (cases a rule: windows_drive_absolute.cases) (auto simp: path_start_def)

lemma path_start_slash: "path_start (a @ CHR ''/'' # b) \<Longrightarrow> path_start (a @ CHR ''/'' # c)"
  by (cases a rule: windows_drive_absolute.cases; cases b; cases c) (auto simp: path_start_def)

lemma validate_remote_path_iff:
  "validate_remote_path p = Inr () \<longleftrightarrow>
     p \<noteq> [] \<and> CHR 0x00 \<notin> set p \<and> CHR 0x5C \<notin> set p \<and> path_start p
     \<and> ''..'' \<notin> set (split_char (CHR ''/'') p)"
  by (auto simp: validate_remote_path_def path_start_def list_ex_iff)

lemma validate_sibling:
  assumes "validate_remote_path (a @ CHR ''/'' # b) = Inr ()"
    and "set n \<inter> {CHR ''/'', CHR 0x00, CHR 0x5C} = {}" and "n \<noteq> ''..''"
  shows "validate_remote_path (a @ CHR ''/'' # n) = Inr ()"
  using assms path_start_slash
  by (auto simp: validate_remote_path_iff split_char_append split_char_single)

lemma entry_name_iff:
  "validate_remote_entry_name n = Inr () \<longleftrightarrow>
     \<not> is_blank n \<and> n \<noteq> ''.'' \<and> n \<noteq> ''..'' \<and> set n \<inter> {CHR ''/'', CHR 0x00, CHR 0x5C} = {}
     \<and> length n \<le> 255"
  by (auto simp: validate_remote_entry_name_def)

lemma is_blank_Nil [simp]: "is_blank []"
  by (simp add: is_blank_def trim_start.simps)

lemma trim_end_slashes_name:
  "n \<noteq> [] \<Longrightarrow> CHR ''/'' \<notin> set n \<Longrightarrow> trim_end_slashes (a @ n) = a @ n"
  by (cases n rule: rev_cases) (auto simp: trim_end_slashes_def)

text \<open>The path of a new entry stays inside the directory it is created in: it passes the
  remote-path checks itself, and its parent is that directory. The one exception is the Unix
  directory \<open>/:\<close>, which \<open>remote_parent\<close> takes for a drive.\<close>

theorem remote_child_parent_roundtrip:
  assumes "remote_child_path directory name = Inr path"
  shows "validate_remote_path path = Inr () \<and>
    remote_parent path = Some (if directory = ''/:'' then ''/:/'' else directory)"
proof -
  from assms have dir: "validate_remote_directory_path directory = Inr ()"
    and name: "validate_remote_entry_name name = Inr ()"
    and path: "path = (if last directory = CHR ''/'' then directory @ name else directory @ ''/'' @ name)"
    by (auto simp: remote_child_path_def bind_res_Inr)
  from dir have valid: "validate_remote_path directory = Inr ()"
    and tail: "directory = ''/'' \<or> windows_drive_absolute directory \<and> length directory = 3
       \<or> last directory \<noteq> CHR ''/''"
    by (auto simp: validate_remote_directory_path_def bind_res_Inr Let_def split: if_splits)
  from valid have ne: "directory \<noteq> []" and start: "path_start directory"
    by (auto simp: validate_remote_path_iff)
  from name have n: "name \<noteq> []" "name \<noteq> ''..''" "set name \<inter> {CHR ''/'', CHR 0x00, CHR 0x5C} = {}"
    by (auto simp: entry_name_iff)
  show ?thesis
  proof (cases "last directory = CHR ''/''")
    case True
    then obtain d where d: "directory = d @ [CHR ''/'']" using ne by (metis append_butlast_last_id)
    have "validate_remote_path path = Inr ()"
      using validate_sibling [of d "[]" name] valid n d path True by simp
    moreover have "rsplit_once (CHR ''/'') (trim_end_slashes path) = Some (d, name)"
      using trim_end_slashes_name [of name "d @ ''/''"] rsplit_once_append [of "CHR ''/''" name d] n path d True
      by simp
    moreover have "d = [] \<or> (length d = 2 \<and> last d = CHR '':'')"
      using tail d True by (cases d rule: windows_drive_absolute.cases) auto
    moreover have "path \<noteq> ''/''" using path True n d by (cases d) auto
    ultimately show ?thesis using d by (auto simp: remote_parent_def)
  next
    case False
    have "validate_remote_path (directory @ CHR ''/'' # name) = Inr ()"
      using valid n path_start_append [OF start]
      by (auto simp: validate_remote_path_iff split_char_append split_char_single)
    moreover have "rsplit_once (CHR ''/'') (trim_end_slashes path) = Some (directory, name)"
      using trim_end_slashes_name [of name "directory @ ''/''"]
        rsplit_once_append [of "CHR ''/''" name directory] n path False by simp
    moreover have "length directory = 2 \<and> last directory = CHR '':'' \<longleftrightarrow> directory = ''/:''"
      using start by (cases directory rule: windows_drive_absolute.cases)
        (auto simp: path_start_def length_Suc_conv numeral_2_eq_2 split: list.splits)
    moreover have "path \<noteq> ''/''" using path False n ne by (cases directory) auto
    ultimately show ?thesis using path False ne by (auto simp: remote_parent_def)
  qed
qed

text \<open>The temporary name of an upload is a valid remote path in the directory of the target
  (a leading double slash is read as the root), and never the target itself, so that nothing
  the upload writes before the final rename touches the target.\<close>

theorem remote_partial_path_beside_target:
  assumes "remote_partial_path u target = Inr partial"
  shows "validate_remote_path partial = Inr () \<and> partial \<noteq> target \<and>
    (\<exists>d n. rsplit_once (CHR ''/'') target = Some (d, n) \<and>
      rsplit_once (CHR ''/'') partial =
        Some (if d = ''/'' then [] else d, ''.qingzhou-'' @ n @ ''.'' @ uuid_text u @ ''.partial''))"
proof -
  from assms obtain d n where valid: "validate_remote_path target = Inr ()"
    and split: "rsplit_once (CHR ''/'') target = Some (d, n)"
    and p: "partial = (if d = ''/'' then [] else d)
              @ CHR ''/'' # ''.qingzhou-'' @ n @ ''.'' @ uuid_text u @ ''.partial''"
    by (fastforce simp: remote_partial_path_def bind_res_Inr Let_def split: option.splits if_splits)
  let ?n = "''.qingzhou-'' @ n @ ''.'' @ uuid_text u @ ''.partial''"
  let ?d = "if d = ''/'' then [] else d"
  from split have t: "target = d @ CHR ''/'' # n" "CHR ''/'' \<notin> set n"
    using rsplit_once_Some by auto
  have u: "CHR ''/'' \<notin> set (uuid_text u)" "CHR 0x00 \<notin> set (uuid_text u)" "CHR 0x5C \<notin> set (uuid_text u)"
    using uuid_text_chars [of u] by auto
  from valid t have "CHR 0x00 \<notin> set n" "CHR 0x5C \<notin> set n" by (auto simp: validate_remote_path_iff)
  then have fresh: "set ?n \<inter> {CHR ''/'', CHR 0x00, CHR 0x5C} = {}" using t u by simp
  then have "validate_remote_path (d @ CHR ''/'' # ?n) = Inr ()"
    using validate_sibling [of d n ?n] valid t by simp
  moreover have "validate_remote_path (CHR ''/'' # ?n) = Inr ()"
    using fresh validate_sibling [of "[]" "[]" ?n]
    by (simp add: validate_remote_path_def)
  ultimately have "validate_remote_path partial = Inr ()" using p by (simp split: if_splits)
  moreover have "rsplit_once (CHR ''/'') partial = Some (?d, ?n)"
    using fresh rsplit_once_append [of "CHR ''/''" ?n ?d] p by simp
  moreover have "partial \<noteq> target"
  proof
    assume "partial = target"
    then have "length (?d @ CHR ''/'' # ?n) = length (d @ CHR ''/'' # n)" using p t by metis
    then show False by (simp split: if_splits)
  qed
  ultimately show ?thesis using split by blast
qed

section \<open>Digests read back\<close>

definition is_lower_hex :: "char \<Rightarrow> bool" where
  "is_lower_hex c \<longleftrightarrow> is_ascii_digit c \<or> (97 \<le> byte c \<and> byte c \<le> 102)"

lemma byte_char_of: "n < 256 \<Longrightarrow> byte (char_of n) = n"
  by (simp add: byte_def)

lemma lower_hexdigit: "is_ascii_hexdigit c \<Longrightarrow> is_lower_hex (ascii_lower c)"
  by (auto simp: is_ascii_hexdigit_def is_lower_hex_def is_ascii_digit_def ascii_lower_def byte_char_of)

lemma hexdigit_not_white:
  assumes "is_ascii_hexdigit c"
  shows "ws_prefix (map byte (c # cs)) = 0"
proof -
  have "48 \<le> byte c \<and> byte c \<le> 102"
    using assms by (auto simp: is_ascii_hexdigit_def is_ascii_digit_def)
  then show ?thesis by (simp del: One_nat_def)
qed

lemma find_whitespace_digest:
  assumes "list_all is_ascii_hexdigit d" and "rest = [] \<or> ws_prefix (map byte rest) > 0"
  shows "find_whitespace (d @ rest) = (d, if rest = [] then None else Some rest)"
  using assms
proof (induction d)
  case Nil
  then show ?case by (cases rest) (simp_all del: ws_prefix.simps list.map)
next
  case (Cons c d)
  then show ?case using hexdigit_not_white [of c "d @ rest"]
    by (simp del: ws_prefix.simps list.map)
qed

text \<open>A digest is accepted only in canonical form, and the output formats of the three hash
  commands (the digest alone, or the digest, two spaces and the path, each with or without a
  line end) give the digest in lower case.\<close>

theorem parse_sha256_output_spec:
  "(parse_sha256_output out = Inr d \<longrightarrow> length d = 64 \<and> list_all is_lower_hex d) \<and>
   (length h = 64 \<and> list_all is_ascii_hexdigit h \<and> eol \<in> {[], [CHR 0x0A], [CHR 0x0D, CHR 0x0A]} \<longrightarrow>
     parse_sha256_output (h @ eol) = Inr (to_ascii_lowercase h) \<and>
     (path \<noteq> [] \<and> hd path = CHR ''/'' \<and> set path \<inter> {CHR 0x00, CHR 0x0A, CHR 0x0D} = {} \<longrightarrow>
        parse_sha256_output (h @ ''  '' @ path @ eol) = Inr (to_ascii_lowercase h)))"
proof (intro conjI impI)
  assume "parse_sha256_output out = Inr d"
  then obtain h where h: "length h = 64" "list_all is_ascii_hexdigit h" "d = to_ascii_lowercase h"
    by (auto simp: parse_sha256_output_def Let_def split: prod.splits if_splits)
  then show "length d = 64" by (simp add: to_ascii_lowercase_def)
  from h show "list_all is_lower_hex d"
    by (auto simp: to_ascii_lowercase_def list_all_iff lower_hexdigit)
next
  assume asm: "length h = 64 \<and> list_all is_ascii_hexdigit h \<and> eol \<in> {[], [CHR 0x0A], [CHR 0x0D, CHR 0x0A]}"
  have hx: "c \<in> set h \<Longrightarrow> c \<noteq> CHR 0x0A \<and> c \<noteq> CHR 0x0D" for c
    using asm by (auto simp: list_all_iff is_ascii_hexdigit_def is_ascii_digit_def byte_def)
  then have last: "x \<noteq> CHR 0x0A \<and> x \<noteq> CHR 0x0D" if "h \<noteq> []" "last h = x" for x
    using that last_in_set by blast
  have ne: "h \<noteq> []" using asm by auto
  have strip: "strip_suffix (CHR 0x0D) (strip_suffix (CHR 0x0A) (s @ eol)) = s"
    if "s \<noteq> []" "last s \<noteq> CHR 0x0A" "last s \<noteq> CHR 0x0D" for s
    using asm that by (auto simp: strip_suffix_def butlast_append)
  have d0: "find_whitespace h = (h, None)"
    using find_whitespace_digest [of h "[]"] asm by simp
  show "parse_sha256_output (h @ eol) = Inr (to_ascii_lowercase h)"
    using asm strip [of h] ne last hx d0 by (auto simp: parse_sha256_output_def Let_def)
  assume path: "path \<noteq> [] \<and> hd path = CHR ''/'' \<and> set path \<inter> {CHR 0x00, CHR 0x0A, CHR 0x0D} = {}"
  then obtain p where p: "path = CHR ''/'' # p" by (cases path) auto
  have trim: "trim_start (''  '' @ path) = path"
    unfolding p by (simp add: trim_start.simps byte_def)
  have d1: "find_whitespace (h @ ''  '' @ path) = (h, Some (''  '' @ path))"
    using find_whitespace_digest [of h "''  '' @ path"] asm by (simp add: byte_def)
  have "last (h @ ''  '' @ path) \<in> set path" using path by (simp add: last_in_set)
  with path have "last (h @ ''  '' @ path) \<noteq> CHR 0x0A" "last (h @ ''  '' @ path) \<noteq> CHR 0x0D"
    by (metis Int_iff empty_iff insertI1 insertI2)+
  then have "strip_suffix (CHR 0x0D) (strip_suffix (CHR 0x0A) ((h @ ''  '' @ path) @ eol)) = h @ ''  '' @ path"
    by (intro strip) auto
  then show "parse_sha256_output (h @ ''  '' @ path @ eol) = Inr (to_ascii_lowercase h)"
    using asm path hx d1 trim
    by (auto simp: parse_sha256_output_def Let_def simp del: find_whitespace.simps)
qed

section \<open>Downloads and the data root\<close>

text \<open>An accepted download name adds exactly one path component below the \<open>downloads\<close> directory
  of the data root, on Unix always and on Windows unless the name starts with a drive prefix;
  a name such as \<open>C:x\<close> passes the checks on Windows and replaces the whole path.\<close>

theorem download_destination_confinement:
  assumes "download_destination os data_root name = Inr dest"
  shows "name \<notin> {[], ''.'', ''..''} \<and> set name \<inter> {CHR ''/'', CHR 0x5C, CHR 0x00} = {} \<and>
    (if os = WindowsHost \<and> has_drive_prefix name then dest = name
     else \<exists>sep. sep \<in> {[], ''/'', [CHR 0x5C]} \<and> dest = path_join os data_root ''downloads'' @ sep @ name)"
proof -
  from assms have name: "name \<notin> {[], ''.'', ''..''}" "set name \<inter> {CHR ''/'', CHR 0x5C, CHR 0x00} = {}"
    and abs: "\<not> is_absolute os name"
    and dest: "dest = path_join os (path_join os data_root ''downloads'') name"
    by (auto simp: download_destination_def split: if_splits)
  have "\<not> is_separator os (hd name)"
    using name by (cases name) (auto simp: is_separator_def)
  with abs dest name show ?thesis by (auto simp: path_join_def)
qed

lemma download_destination_windows_escape:
  "download_destination WindowsHost ''D:/data'' ''C:evil.exe'' = Inr ''C:evil.exe''"
  by (simp add: download_destination_def path_join_def is_absolute_def is_separator_def
      is_ascii_alphabetic_def byte_def)

section \<open>Witnesses\<close>

lemma example_child: "remote_child_path ''/srv/data'' ''report.txt'' = Inr ''/srv/data/report.txt''"
  by code_simp

theorem remote_child_parent_roundtrip_witness:
  "validate_remote_path ''/srv/data/report.txt'' = Inr ()
   \<and> remote_parent ''/srv/data/report.txt'' = Some ''/srv/data''"
  using remote_child_parent_roundtrip [OF example_child] by simp

lemma example_partial:
  "\<exists>p. remote_partial_path 5 ''/srv/a.txt'' = Inr p"
  by (simp add: remote_partial_path_def validate_remote_path_def is_blank_def Let_def
      trim_start.simps byte_def split: option.splits)

theorem remote_partial_path_beside_target_witness:
  "\<exists>p. remote_partial_path 5 ''/srv/a.txt'' = Inr p \<and> validate_remote_path p = Inr () \<and> p \<noteq> ''/srv/a.txt''"
  using example_partial remote_partial_path_beside_target by blast

theorem parse_sha256_output_spec_witness:
  "parse_sha256_output (replicate 64 (CHR ''A'') @ ''  '' @ ''/srv/a.txt'' @ [CHR 0x0A])
     = Inr (to_ascii_lowercase (replicate 64 (CHR ''A'')))"
  using parse_sha256_output_spec [where h = "replicate 64 (CHR ''A'')" and eol = "[CHR 0x0A]"
      and path = "''/srv/a.txt''" and out = "[]" and d = "[]"]
  by (simp add: list_all_iff is_ascii_hexdigit_def is_ascii_digit_def byte_def)

lemma example_download:
  "download_destination UnixHost ''/home/u'' ''a.txt'' = Inr ''/home/u/downloads/a.txt''"
  by code_simp

theorem download_destination_confinement_witness:
  "\<exists>sep. ''/home/u/downloads/a.txt'' = path_join UnixHost ''/home/u'' ''downloads'' @ sep @ ''a.txt''"
  using download_destination_confinement [OF example_download] by auto

end
