(* ===== verification/Transfer_Queue.thy ===== *)
theory Transfer_Queue
  imports Transfer_Schedule Exec_Events Sftp_Paths
begin

text \<open>
  The background transfer queue of \<^verbatim>\<open>src-tauri/src/services/transfer_queue_service.rs\<close>: the
  requests of the user, one execution of a job by a worker, and the three workers that run side
  by side as a step relation. The SSH transfer itself (\<open>TransferService\<close>) and the registry of
  running executions are parameters: an execution is given by the events the transfer emits and
  by the result it returns.
\<close>

section \<open>Requests\<close>

record upload_request =
  ur_local_path :: string
  ur_remote_path :: string
  ur_overwrite :: bool
  ur_verification :: verification_policy

record download_request =
  dr_remote_path :: string
  dr_suggested_name :: string
  dr_overwrite :: bool
  dr_verification :: verification_policy

fun verification_name :: "verification_policy \<Rightarrow> string" where
  "verification_name Balanced = ''balanced''"
| "verification_name Strict = ''strict''"
| "verification_name TransportOnly = ''transport_only''"

definition parse_verification :: "string \<Rightarrow> verification_policy app_result" where
  "parse_verification value =
     (if value = ''balanced'' then Inr Balanced
      else if value = ''strict'' then Inr Strict
      else if value = ''transport_only'' then Inr TransportOnly
      else Inl (Validation ''invalid verification policy''))"

interpretation verification_enum: str_enum verification_name parse_verification
proof unfold_locales
  fix x show "parse_verification (verification_name x) = Inr x"
    by (cases x) (simp_all add: parse_verification_def)
next
  fix s x assume "parse_verification s = Inr x"
  then show "s = verification_name x" by (auto simp: parse_verification_def split: if_splits)
qed

definition enqueue_upload ::
  "string \<Rightarrow> upload_request \<Rightarrow> uuid \<Rightarrow> int \<Rightarrow> (transfer_db, transfer_job) st" where
  "enqueue_upload server_id request i now =
     bind_st (read_st (\<lambda>_. validate_remote_path (ur_remote_path request))) (\<lambda>_.
       create \<lparr>nj_server_id = server_id, nj_direction = Upload,
               nj_source_path = ur_local_path request, nj_target_path = ur_remote_path request,
               nj_overwrite = ur_overwrite request,
               nj_verification = verification_name (ur_verification request)\<rparr> i now)"

definition enqueue_download ::
  "string \<Rightarrow> download_request \<Rightarrow> uuid \<Rightarrow> int \<Rightarrow> (transfer_db, transfer_job) st" where
  "enqueue_download server_id request i now =
     bind_st (read_st (\<lambda>_. validate_remote_path (dr_remote_path request))) (\<lambda>_.
       if is_blank (dr_suggested_name request)
          \<or> list_ex (\<lambda>c. c \<in> {CHR ''/'', CHR 0x5C, CHR 0x00}) (dr_suggested_name request)
       then fail_st (Validation ''invalid download name'')
       else create \<lparr>nj_server_id = server_id, nj_direction = Download,
               nj_source_path = dr_remote_path request, nj_target_path = dr_suggested_name request,
               nj_overwrite = dr_overwrite request,
               nj_verification = verification_name (dr_verification request)\<rparr> i now)"

definition is_idle :: "transfer_db \<Rightarrow> bool" where
  "is_idle db \<longleftrightarrow> \<not> has_pending db"

text \<open>\<open>registry e\<close> is the answer of \<open>ExecutionRegistry::cancel\<close> for the execution \<open>e\<close>.\<close>

definition cancel :: "(uuid \<Rightarrow> unit app_result) \<Rightarrow> uuid \<Rightarrow> int \<Rightarrow> (transfer_db, transfer_job) st" where
  "cancel registry i now =
     bind_st (request_cancel i now) (\<lambda>action.
       case action of
         CancelledQueued \<Rightarrow> read_st (require i)
       | AwaitExecutionId \<Rightarrow> read_st (require i)
       | SignalExecution execution_id \<Rightarrow>
           (case registry execution_id of
              Inl e \<Rightarrow> bind_st (read_st (require i)) (\<lambda>current.
                         if \<not> is_terminal (tj_status current) then fail_st e
                         else read_st (require i))
            | Inr _ \<Rightarrow> read_st (require i)))"

section \<open>One execution\<close>

fun job_status_of_execution :: "execution_status \<Rightarrow> transfer_job_status" where
  "job_status_of_execution ESucceeded = TSucceeded"
| "job_status_of_execution ECancelled = TCancelled"
| "job_status_of_execution EUncertain = TUncertain"
| "job_status_of_execution EQueued = TFailed"
| "job_status_of_execution ERunning = TFailed"
| "job_status_of_execution EFailed = TFailed"

definition result_fields :: "json option \<Rightarrow> string option \<times> string option" where
  "result_fields res =
     (Option.bind (Option.bind res (\<lambda>v. json_get v ''sha256'')) json_as_str,
      Option.bind (Option.bind res (\<lambda>v. json_get v ''location'')) json_as_str)"

definition status_of_category :: "string \<Rightarrow> transfer_job_status" where
  "status_of_category category =
     (if category = ''cancelled'' then TCancelled
      else if category = ''remote_state_uncertain'' then TUncertain
      else TFailed)"

definition finished_fields :: "execution_status \<Rightarrow> json option \<Rightarrow> transfer_job_finish" where
  "finished_fields status res =
     \<lparr>fin_status = job_status_of_execution status, fin_retryable = False, fin_error_category = None,
      fin_error_message = None, fin_sha256 = fst (result_fields res),
      fin_location = snd (result_fields res)\<rparr>"

definition failed_fields :: "string \<Rightarrow> string \<Rightarrow> bool \<Rightarrow> transfer_job_finish" where
  "failed_fields category message retryable =
     \<lparr>fin_status = status_of_category category, fin_retryable = retryable,
      fin_error_category = Some category, fin_error_message = Some message,
      fin_sha256 = None, fin_location = None\<rparr>"

text \<open>
  One turn of \<open>process_events\<close>; the result is the execution to signal, when the user has asked
  for cancellation before the execution identifier was known.
\<close>

fun process_event :: "uuid \<Rightarrow> execution_event_payload \<Rightarrow> int \<Rightarrow> (transfer_db, uuid option) st" where
  "process_event i (Started execution_id _) now =
     bind_st (set_execution i execution_id now) (\<lambda>_.
       read_st (\<lambda>db. Inr (if should_cancel i db then Some execution_id else None)))"
| "process_event i (Progress phase transferred tot percent bps avg eta) now =
     bind_st (update_progress i (status_from_phase phase) transferred tot percent bps avg eta now)
       (\<lambda>_. ret_st None)"
| "process_event i (Finished status _ _ res) now =
     bind_st (finish i (finished_fields status res) now) (\<lambda>_. ret_st None)"
| "process_event i (Failed category message retryable) now =
     bind_st (finish i (failed_fields category message retryable) now) (\<lambda>_. ret_st None)"
| "process_event i (Stdout _ _) now = ret_st None"
| "process_event i (Stderr _ _) now = ret_st None"
| "process_event i (FileProduced _) now = ret_st None"

text \<open>The loop over the channel; an error ends it.\<close>

fun process_events :: "uuid \<Rightarrow> (int \<times> execution_event_payload) list \<Rightarrow> (transfer_db, unit) st" where
  "process_events i [] = ret_st ()"
| "process_events i ((now, payload) # events) =
     bind_st (process_event i payload now) (\<lambda>_. process_events i events)"

text \<open>\<open>QueueEventSink\<close> keeps the result of the last \<open>Finished\<close> event it has seen.\<close>

fun captured_result :: "execution_event_payload list \<Rightarrow> json option \<Rightarrow> json option" where
  "captured_result [] captured = captured"
| "captured_result (Finished _ _ _ res # events) captured = captured_result events res"
| "captured_result (_ # events) captured = captured_result events captured"

definition details_fields :: "execution_details \<Rightarrow> json option \<Rightarrow> transfer_job_finish" where
  "details_fields details captured =
     \<lparr>fin_status = job_status_of_execution (er_status (ed_record details)),
      fin_retryable = er_retryable (ed_record details),
      fin_error_category = er_error_category (ed_record details),
      fin_error_message = er_error_message (ed_record details),
      fin_sha256 = fst (result_fields captured), fin_location = snd (result_fields captured)\<rparr>"

definition ensure_finished ::
  "uuid \<Rightarrow> execution_details \<Rightarrow> json option \<Rightarrow> int \<Rightarrow> (transfer_db, unit) st" where
  "ensure_finished i details captured now =
     bind_st (read_st (require i)) (\<lambda>job.
       if is_terminal (tj_status job) then ret_st ()
       else finish i (details_fields details captured) now)"

definition execute_inner ::
  "uuid \<Rightarrow> (int \<times> execution_event_payload) list \<Rightarrow> execution_details app_result \<Rightarrow> int
   \<Rightarrow> (transfer_db, unit) st" where
  "execute_inner i events outcome now =
     bind_st (read_st (require i)) (\<lambda>job.
     bind_st (read_st (\<lambda>_. parse_verification (tj_verification job))) (\<lambda>_.
     bind_st (process_events i events) (\<lambda>_.
     bind_st (read_st (\<lambda>_. outcome)) (\<lambda>details.
       ensure_finished i details (captured_result (map snd events) None) now))))"

definition error_fields :: "app_error \<Rightarrow> transfer_job_finish" where
  "error_fields e =
     \<lparr>fin_status = TFailed, fin_retryable = retryable_error e, fin_error_category = Some (code e),
      fin_error_message = Some (display e), fin_sha256 = None, fin_location = None\<rparr>"

definition or_default :: "string option \<Rightarrow> string" where
  "or_default v = (case v of None \<Rightarrow> [] | Some s \<Rightarrow> s)"

definition wants_requeue :: "transfer_job \<Rightarrow> bool" where
  "wants_requeue job \<longleftrightarrow>
     tj_status job = TFailed \<and> tj_retryable job
     \<and> can_automatically_retry (or_default (tj_error_category job))
         (or_default (tj_error_message job)) (tj_attempt_count job) (tj_max_attempts job)"

definition execute ::
  "uuid \<Rightarrow> (int \<times> execution_event_payload) list \<Rightarrow> execution_details app_result \<Rightarrow> int \<Rightarrow> int
   \<Rightarrow> transfer_db \<Rightarrow> transfer_db" where
  "execute i events outcome now later db =
     (case execute_inner i events outcome now db of (r, db1) \<Rightarrow>
        let db2 = (case r of Inl e \<Rightarrow> ignore_st (finish i (error_fields e) now) db1 | Inr _ \<Rightarrow> db1)
        in case require i db2 of
             Inr job \<Rightarrow> if wants_requeue job then ignore_st (requeue_automatically i later) db2 else db2
           | Inl _ \<Rightarrow> db2)"

section \<open>Three workers\<close>

text \<open>Where a worker stands between two of its database calls.\<close>

datatype worker =
    Polling
  | Claiming uuid
  | Executing uuid
  | Ensuring uuid execution_details "json option"
  | Closing uuid transfer_job_finish
  | Failing uuid app_error
  | Settling uuid
  | Requeueing uuid

record queue_state =
  qs_db :: transfer_db
  qs_workers :: "worker list"

definition queue_workers :: nat where "queue_workers = 3"

abbreviation stands :: "queue_state \<Rightarrow> nat \<Rightarrow> worker \<Rightarrow> bool" where
  "stands s w p \<equiv> w < length (qs_workers s) \<and> qs_workers s ! w = p"

abbreviation step_to :: "queue_state \<Rightarrow> nat \<Rightarrow> worker \<Rightarrow> transfer_db \<Rightarrow> queue_state" where
  "step_to s w p db \<equiv> s\<lparr>qs_db := db, qs_workers := (qs_workers s)[w := p]\<rparr>"

text \<open>
  Every database call of \<open>worker_loop\<close>, \<open>execute\<close> and \<open>ensure_finished\<close> is one step, so that the
  steps of the workers and of the user interleave the way their transactions do.
\<close>

inductive queue_step :: "queue_state \<Rightarrow> queue_state \<Rightarrow> bool" where
  poll: "stands s w Polling \<Longrightarrow> next_runnable (qs_db s) = Inr (Some job) \<Longrightarrow>
     queue_step s (step_to s w (Claiming (tj_id job)) (qs_db s))"
| claim_won: "stands s w (Claiming i) \<Longrightarrow> claim i now (qs_db s) = (Inr True, db) \<Longrightarrow>
     queue_step s (step_to s w (Executing i) db)"
| claim_lost: "stands s w (Claiming i) \<Longrightarrow> claim i now (qs_db s) = (r, db) \<Longrightarrow> r \<noteq> Inr True \<Longrightarrow>
     queue_step s (step_to s w Polling db)"
| event: "stands s w (Executing i) \<Longrightarrow> process_event i payload now (qs_db s) = (Inr sig, db) \<Longrightarrow>
     queue_step s (step_to s w (Executing i) db)"
| event_failed: "stands s w (Executing i) \<Longrightarrow> process_event i payload now (qs_db s) = (Inl e, db) \<Longrightarrow>
     queue_step s (step_to s w (Failing i e) db)"
| returned_error: "stands s w (Executing i) \<Longrightarrow>
     queue_step s (step_to s w (Failing i e) (qs_db s))"
| returned: "stands s w (Executing i) \<Longrightarrow>
     queue_step s (step_to s w (Ensuring i details captured) (qs_db s))"
| ensure_skip: "stands s w (Ensuring i details captured) \<Longrightarrow> require i (qs_db s) = Inr job \<Longrightarrow>
     is_terminal (tj_status job) \<Longrightarrow> queue_step s (step_to s w (Settling i) (qs_db s))"
| ensure_close: "stands s w (Ensuring i details captured) \<Longrightarrow> require i (qs_db s) = Inr job \<Longrightarrow>
     \<not> is_terminal (tj_status job) \<Longrightarrow>
     queue_step s (step_to s w (Closing i (details_fields details captured)) (qs_db s))"
| ensure_error: "stands s w (Ensuring i details captured) \<Longrightarrow> require i (qs_db s) = Inl e \<Longrightarrow>
     queue_step s (step_to s w (Failing i e) (qs_db s))"
| close_ok: "stands s w (Closing i fin) \<Longrightarrow> finish i fin now (qs_db s) = (Inr (), db) \<Longrightarrow>
     queue_step s (step_to s w (Settling i) db)"
| close_error: "stands s w (Closing i fin) \<Longrightarrow> finish i fin now (qs_db s) = (Inl e, db) \<Longrightarrow>
     queue_step s (step_to s w (Failing i e) db)"
| failing: "stands s w (Failing i e) \<Longrightarrow> finish i (error_fields e) now (qs_db s) = (r, db) \<Longrightarrow>
     queue_step s (step_to s w (Settling i) db)"
| settle_requeue: "stands s w (Settling i) \<Longrightarrow> require i (qs_db s) = Inr job \<Longrightarrow> wants_requeue job \<Longrightarrow>
     queue_step s (step_to s w (Requeueing i) (qs_db s))"
| settle_end: "stands s w (Settling i) \<Longrightarrow>
     (case require i (qs_db s) of Inr job \<Rightarrow> \<not> wants_requeue job | Inl _ \<Rightarrow> True) \<Longrightarrow>
     queue_step s (step_to s w Polling (qs_db s))"
| requeue: "stands s w (Requeueing i) \<Longrightarrow> requeue_automatically i now (qs_db s) = (r, db) \<Longrightarrow>
     queue_step s (step_to s w Polling db)"
| user_create: "create draft i now (qs_db s) = (r, db) \<Longrightarrow> queue_step s (s\<lparr>qs_db := db\<rparr>)"
| user_cancel: "request_cancel i now (qs_db s) = (r, db) \<Longrightarrow> queue_step s (s\<lparr>qs_db := db\<rparr>)"
| user_retry: "retry i now (qs_db s) = (r, db) \<Longrightarrow> queue_step s (s\<lparr>qs_db := db\<rparr>)"

text \<open>The application runs the recovery before it starts the workers.\<close>

definition queue_init :: "queue_state \<Rightarrow> bool" where
  "queue_init s \<longleftrightarrow>
     (\<exists>db now. jobs_inv db \<and> qs_db s = snd (recover_interrupted now db)
        \<and> qs_workers s = replicate queue_workers Polling)"

inductive queue_reachable :: "queue_state \<Rightarrow> bool" where
  start: "queue_init s \<Longrightarrow> queue_reachable s"
| step: "queue_reachable s \<Longrightarrow> queue_step s t \<Longrightarrow> queue_reachable t"

end
