(* ===== verification/Queue_Workers.thy ===== *)
theory Queue_Workers
  imports Transfer_Queue
begin

text \<open>
  Correctness of the transfer queue: what one execution leaves behind, how many jobs can be
  active at once, and two interleavings that the code admits.
\<close>

section \<open>Stores that hand out work\<close>

text \<open>
  What a pool of workers needs of the store it takes its work from: a claim makes only the
  claimed item busy, a release ends it, nothing else makes an item busy. The client is a list of
  holders, one per worker; \<open>Some i\<close> is a worker that still has to release \<open>i\<close>.
\<close>

definition holders :: "'i option list \<Rightarrow> 'i set" where
  "holders hs = {i. Some i \<in> set hs}"

lemma card_holders: "card (holders hs) \<le> length hs" "finite (holders hs)"
proof -
  have h: "holders hs \<subseteq> the ` set hs" by (force simp: holders_def image_iff)
  then show "finite (holders hs)" using finite_surj[OF finite_set] by blast
  have "card (holders hs) \<le> card (the ` set hs)" using h by (intro card_mono) auto
  also have "\<dots> \<le> card (set hs)" by (rule card_image_le) simp
  also have "\<dots> \<le> length hs" by (rule card_length)
  finally show "card (holders hs) \<le> length hs" .
qed

lemma holders_keep: "w < length hs \<Longrightarrow> hs ! w = None \<Longrightarrow> holders hs \<subseteq> holders (hs[w := x])"
proof
  fix i assume w: "w < length hs" "hs ! w = None" and "i \<in> holders hs"
  then obtain v where v: "v < length hs" "hs ! v = Some i" by (auto simp: holders_def in_set_conv_nth)
  with w have "v \<noteq> w" by auto
  with v have "hs[w := x] ! v = Some i" by simp
  with v(1) show "i \<in> holders (hs[w := x])"
    by (metis (mono_tags) holders_def length_list_update mem_Collect_eq nth_mem)
qed

lemma holders_put: "w < length hs \<Longrightarrow> i \<in> holders (hs[w := Some i])"
  by (auto simp: holders_def set_update_memI)

lemma holders_release:
  "w < length hs \<Longrightarrow> hs ! w = Some i \<Longrightarrow> holders hs - {i} \<subseteq> holders (hs[w := x])"
proof
  fix j assume w: "w < length hs" "hs ! w = Some i" and "j \<in> holders hs - {i}"
  then obtain v where v: "v < length hs" "hs ! v = Some j" "j \<noteq> i"
    by (auto simp: holders_def in_set_conv_nth)
  with w have "v \<noteq> w" by auto
  with v have "hs[w := x] ! v = Some j" by simp
  with v(1) show "j \<in> holders (hs[w := x])"
    by (metis (mono_tags) holders_def length_list_update mem_Collect_eq nth_mem)
qed

locale job_store =
  fixes inv :: "'s \<Rightarrow> bool" and busy :: "'s \<Rightarrow> 'i set"
    and claims :: "'i \<Rightarrow> 's \<Rightarrow> 's \<Rightarrow> bool" and releases :: "'i \<Rightarrow> 's \<Rightarrow> 's \<Rightarrow> bool"
    and others :: "'s \<Rightarrow> 's \<Rightarrow> bool"
  assumes claims_law: "inv s \<Longrightarrow> claims i s s' \<Longrightarrow> inv s' \<and> busy s' \<subseteq> insert i (busy s)"
    and releases_law: "inv s \<Longrightarrow> releases i s s' \<Longrightarrow> inv s' \<and> busy s' \<subseteq> busy s - {i}"
    and others_law: "inv s \<Longrightarrow> others s s' \<Longrightarrow> inv s' \<and> busy s' \<subseteq> busy s"
begin

lemma claim_covered:
  assumes "inv s" "busy s \<subseteq> holders hs" "w < length hs" "hs ! w = None" "claims i s s'"
  shows "inv s' \<and> busy s' \<subseteq> holders (hs[w := Some i])"
  using claims_law[OF assms(1,5)] assms(2) holders_keep[OF assms(3,4)] holders_put[OF assms(3)]
  by blast

lemma release_covered:
  assumes "inv s" "busy s \<subseteq> holders hs" "w < length hs" "hs ! w = Some i" "releases i s s'"
  shows "inv s' \<and> busy s' \<subseteq> holders (hs[w := x])"
  using releases_law[OF assms(1,5)] assms(2) holders_release[OF assms(3,4)] by blast

lemma other_covered:
  assumes "inv s" "busy s \<subseteq> holders hs" "others s s'"
  shows "inv s' \<and> busy s' \<subseteq> holders hs"
  using others_law[OF assms(1,3)] assms(2) by blast

lemma drop_covered:
  assumes "inv s" "busy s \<subseteq> holders hs" "w < length hs" "hs ! w = Some i" "i \<notin> busy s"
  shows "busy s \<subseteq> holders (hs[w := x])"
  using assms(2,5) holders_release[OF assms(3,4)] by blast

lemma covered_card:
  assumes "busy s \<subseteq> holders hs"
  shows "finite (busy s) \<and> card (busy s) \<le> length hs"
  using assms card_holders finite_subset card_mono by (metis le_trans)

end

section \<open>The job table is such a store\<close>

definition active_ids :: "transfer_db \<Rightarrow> uuid set" where
  "active_ids db = tj_id ` {r \<in> set (db_jobs db). is_active (tj_status r)}"

lemma active_ids_iff:
  assumes "jobs_inv db"
  shows "i \<in> active_ids db \<longleftrightarrow> (\<exists>r. job_at db i = Some r \<and> is_active (tj_status r))"
proof
  assume "i \<in> active_ids db"
  then obtain r where r: "r \<in> set (db_jobs db)" "is_active (tj_status r)" "tj_id r = i"
    by (auto simp: active_ids_def)
  then have "job_at db i = Some r"
    using assms row_by_distinct[of tj_id "db_jobs db" r] by (auto simp: job_at_def jobs_inv_def)
  with r show "\<exists>r. job_at db i = Some r \<and> is_active (tj_status r)" by blast
next
  assume "\<exists>r. job_at db i = Some r \<and> is_active (tj_status r)"
  then show "i \<in> active_ids db"
    unfolding active_ids_def job_at_def using row_by_Some by fastforce
qed

lemma active_ids_status:
  "jobs_inv db \<Longrightarrow> i \<in> active_ids db \<longleftrightarrow> (\<exists>s. status_at db i = Some s \<and> is_active s)"
  by (auto simp: active_ids_iff status_at_def)

text \<open>No operation but a claim makes a job active.\<close>

lemma active_ids_update:
  assumes "\<And>r. tj_id (f r) = tj_id r"
    and "\<And>r. p r \<Longrightarrow> is_active (tj_status (f r)) \<Longrightarrow> is_active (tj_status r)"
  shows "active_ids (snd (update_jobs p f db)) \<subseteq> active_ids db"
proof -
  have "\<exists>x. is_active (tj_status x) \<and> x \<in> set (db_jobs db) \<and> tj_id r = tj_id x"
    if "r \<in> set (upd_where p f (db_jobs db))" "is_active (tj_status r)" for r
    using that assms by (auto simp: set_upd_where split: if_splits)
  then show ?thesis
    by (auto simp: update_jobs_def run_update_def active_ids_def split: if_splits)
qed

lemma active_ids_create: "active_ids (snd (create d i t db)) \<subseteq> active_ids db"
  by (auto simp: create_def active_ids_def new_row_def Let_def split: sum.split)

lemma active_ids_progress:
  "active_ids (snd (update_progress i st n tot p b a eta t db)) \<subseteq> active_ids db"
proof -
  have "active_ids (snd (progress_update i st t x y p b a z db)) \<subseteq> active_ids db" for x y z
    unfolding progress_update_def by (rule active_ids_update) auto
  then show ?thesis
    using update_progress_cases [of i st n tot p b a eta t db] by fastforce
qed

lemma active_ids_finish_subset: "active_ids (snd (finish i fin t db)) \<subseteq> active_ids db"
  by (auto simp: finish_def snd_ops elim: is_terminal.elims
      dest!: subsetD[OF active_ids_update, rotated 2])

lemma active_ids_cancel: "active_ids (snd (request_cancel i t db)) \<subseteq> active_ids db"
proof -
  have "active_ids (snd (update_jobs (\<lambda>r. tj_id r = i \<and> tj_status r = TQueued)
      (\<lambda>r. r\<lparr>tj_status := TCancelled, tj_cancel_requested := True, tj_retryable := False,
             tj_finished_at := Some t, tj_updated_at := t\<rparr>) db)) \<subseteq> active_ids db"
    by (rule active_ids_update) auto
  moreover have "active_ids (snd (update_jobs (\<lambda>r. tj_id r = i)
      (\<lambda>r. r\<lparr>tj_cancel_requested := True, tj_updated_at := t\<rparr>) db)) \<subseteq> active_ids db"
    by (rule active_ids_update) auto
  ultimately show ?thesis by (simp add: request_cancel_def snd_ops split: option.split)
qed

lemma active_ids_retry: "active_ids (snd (retry i t db)) \<subseteq> active_ids db"
  unfolding retry_def snd_ops by (subst snd_bind_nochange) (auto dest!: subsetD[OF active_ids_update, rotated 2])

lemma active_ids_requeue: "active_ids (snd (requeue_automatically i t db)) \<subseteq> active_ids db"
  unfolding requeue_automatically_def snd_ops by (rule active_ids_update) auto

lemma active_ids_set_execution: "active_ids (snd (set_execution i e t db)) \<subseteq> active_ids db"
  unfolding set_execution_def snd_ops by (rule active_ids_update) auto

lemma active_ids_claim:
  assumes "jobs_inv db"
  shows "active_ids (snd (claim i t db)) \<subseteq> insert i (active_ids db)"
    and "fst (claim i t db) \<noteq> Inr True \<Longrightarrow> active_ids (snd (claim i t db)) \<subseteq> active_ids db"
proof -
  have inv': "jobs_inv (snd (claim i t db))" using keepsD[OF claim_keeps assms] .
  show "active_ids (snd (claim i t db)) \<subseteq> insert i (active_ids db)"
    using claim_effect(3)[OF assms, of i t] assms inv' by (auto simp: active_ids_status split: if_splits)
  show "active_ids (snd (claim i t db)) \<subseteq> active_ids db" if "fst (claim i t db) \<noteq> Inr True"
    using claim_effect(1,3)[OF assms, of i t] that assms inv'
    by (auto simp: active_ids_status split: if_splits)
qed

definition finished_row :: "transfer_job_finish \<Rightarrow> int \<Rightarrow> transfer_job \<Rightarrow> transfer_job" where
  "finished_row fin now r =
     r\<lparr>tj_status := fin_status fin, tj_retryable := fin_retryable fin,
       tj_error_category := fin_error_category fin,
       tj_error_message := cap_utf8 (fin_error_message fin) (8 * 1024),
       tj_sha256 := fin_sha256 fin, tj_location := fin_location fin,
       tj_percent := (if fin_status fin = TSucceeded then Some 100 else tj_percent r),
       tj_finished_at := Some now, tj_updated_at := now\<rparr>"

lemma finish_as_update:
  "is_terminal (fin_status fin) \<Longrightarrow>
     finish i fin now = bind_st (update_jobs (\<lambda>r. tj_id r = i \<and> is_active (tj_status r))
       (finished_row fin now))
       (\<lambda>n. if n = 1 then ret_st () else fail_st (Validation ''transfer job already ended''))"
  unfolding finish_def finished_row_def[abs_def] by (simp only: not_True_eq_False if_False)

lemma finished_row_keeps:
  "tj_id (finished_row fin now r) = tj_id r"
  "job_row_ok db r \<Longrightarrow> job_row_ok db (finished_row fin now r)"
  by (simp_all add: finished_row_def job_row_ok_def)

lemma finish_effect:
  assumes "jobs_inv db" "is_terminal (fin_status fin)"
  shows "job_at (snd (finish i fin now db)) j =
      (if j = i then map_option (\<lambda>r. if is_active (tj_status r) then finished_row fin now r else r)
         (job_at db j) else job_at db j)"
    and "fst (finish i fin now db) =
      (if i \<in> active_ids db then Inr () else Inl (Validation ''transfer job already ended''))"
proof -
  let ?u = "update_jobs (\<lambda>r. tj_id r = i \<and> is_active (tj_status r)) (finished_row fin now) db"
  note u = keyed_update[where f = "finished_row fin now" and p = "\<lambda>r. is_active (tj_status r)" and k = i,
      OF assms(1) finished_row_keeps(1)] finished_row_keeps(2)
  have u1: "fst ?u = Inr (case job_at db i of None \<Rightarrow> 0 | Some r \<Rightarrow> if is_active (tj_status r) then 1 else 0)"
    by (rule u(1)) (rule u(3))
  have u2: "job_at (snd ?u) j = (if j = i then map_option (\<lambda>r. if is_active (tj_status r)
      then finished_row fin now r else r) (job_at db j) else job_at db j)"
    by (rule u(2)) (rule u(3))
  have "snd (finish i fin now db) = snd ?u"
    unfolding finish_as_update[OF assms(2)] by (rule snd_bind_nochange) simp
  with u2 show "job_at (snd (finish i fin now db)) j =
      (if j = i then map_option (\<lambda>r. if is_active (tj_status r) then finished_row fin now r else r)
         (job_at db j) else job_at db j)"
    by simp
  obtain r db' where run: "?u = (r, db')" by (cases ?u)
  have act: "i \<in> active_ids db \<longleftrightarrow> (\<exists>r. job_at db i = Some r \<and> is_active (tj_status r))"
    by (rule active_ids_iff[OF assms(1)])
  have "r = Inr (if i \<in> active_ids db then 1 else 0)"
    using u1 run unfolding act by (cases "job_at db i") auto
  then show "fst (finish i fin now db) =
      (if i \<in> active_ids db then Inr () else Inl (Validation ''transfer job already ended''))"
    unfolding finish_as_update[OF assms(2)] using run by (simp add: bind_st_def)
qed

lemma active_ids_finish:
  assumes "jobs_inv db" "is_terminal (fin_status fin)"
  shows "active_ids (snd (finish i fin now db)) = active_ids db - {i}"
proof (rule set_eqI)
  fix j
  have inv': "jobs_inv (snd (finish i fin now db))" using keepsD[OF finish_keeps assms(1)] .
  have na: "\<not> is_active (tj_status (finished_row fin now r))" for r
    using assms(2) active_not_terminal by (auto simp: finished_row_def)
  show "j \<in> active_ids (snd (finish i fin now db)) \<longleftrightarrow> j \<in> active_ids db - {i}"
    unfolding active_ids_iff[OF inv'] finish_effect(1)[OF assms] Diff_iff active_ids_iff[OF assms(1)]
    using na by (cases "job_at db j") auto
qed

lemma fields_terminal [simp]:
  "is_terminal (fin_status (finished_fields status res))"
  "is_terminal (fin_status (failed_fields category message retryable))"
  "is_terminal (fin_status (details_fields details captured))"
  "is_terminal (fin_status (error_fields e))"
proof -
  have "is_terminal (job_status_of_execution s)" for s by (cases s) auto
  then show "is_terminal (fin_status (finished_fields status res))"
    "is_terminal (fin_status (details_fields details captured))"
    by (simp_all add: finished_fields_def details_fields_def)
  show "is_terminal (fin_status (failed_fields category message retryable))"
    by (simp add: failed_fields_def status_of_category_def)
  show "is_terminal (fin_status (error_fields e))" by (simp add: error_fields_def)
qed

lemma process_event_keeps [keeps_intros]: "keeps jobs_inv (process_event i payload now)"
  by (cases payload) (auto intro!: keeps_intros)

lemma active_ids_process_event: "active_ids (snd (process_event i payload now db)) \<subseteq> active_ids db"
proof (cases payload)
  case (Started e t)
  have "snd (process_event i payload now db) = snd (set_execution i e now db)"
    unfolding Started process_event.simps by (rule snd_bind_nochange) simp
  with active_ids_set_execution show ?thesis by simp
next
  case (Progress a b c d e f g)
  then show ?thesis using active_ids_progress by (simp add: snd_ops)
next
  case (Finished a b c d)
  then show ?thesis using active_ids_finish_subset by (simp add: snd_ops)
next
  case (Failed a b c)
  then show ?thesis using active_ids_finish_subset by (simp add: snd_ops)
qed auto

definition table_claims :: "uuid \<Rightarrow> transfer_db \<Rightarrow> transfer_db \<Rightarrow> bool" where
  "table_claims i db db' \<longleftrightarrow> (\<exists>now r. claim i now db = (r, db'))"

definition table_releases :: "uuid \<Rightarrow> transfer_db \<Rightarrow> transfer_db \<Rightarrow> bool" where
  "table_releases i db db' \<longleftrightarrow>
     (\<exists>fin now r. is_terminal (fin_status fin) \<and> finish i fin now db = (r, db'))"

definition table_others :: "transfer_db \<Rightarrow> transfer_db \<Rightarrow> bool" where
  "table_others db db' \<longleftrightarrow>
     (\<exists>d i now r. create d i now db = (r, db')) \<or> (\<exists>i now r. request_cancel i now db = (r, db'))
     \<or> (\<exists>i now r. retry i now db = (r, db')) \<or> (\<exists>i now r. requeue_automatically i now db = (r, db'))
     \<or> (\<exists>i payload now r. process_event i payload now db = (r, db'))
     \<or> (\<exists>i now r. claim i now db = (r, db') \<and> r \<noteq> Inr True)"

interpretation transfer_store: job_store jobs_inv active_ids table_claims table_releases table_others
proof unfold_locales
  fix db i db' assume inv: "jobs_inv db" and "table_claims i db db'"
  then obtain now where "db' = snd (claim i now db)" by (auto simp: table_claims_def) (metis snd_conv)
  then show "jobs_inv db' \<and> active_ids db' \<subseteq> insert i (active_ids db)"
    using keepsD[OF claim_keeps inv] active_ids_claim(1)[OF inv] by simp
next
  fix db i db' assume inv: "jobs_inv db" and "table_releases i db db'"
  then obtain fin now where "is_terminal (fin_status fin)" "db' = snd (finish i fin now db)"
    by (auto simp: table_releases_def) (metis snd_conv)
  then show "jobs_inv db' \<and> active_ids db' \<subseteq> active_ids db - {i}"
    using keepsD[OF finish_keeps inv] active_ids_finish[OF inv] by simp
next
  fix db db' assume inv: "jobs_inv db" and "table_others db db'"
  then show "jobs_inv db' \<and> active_ids db' \<subseteq> active_ids db"
    unfolding table_others_def
  proof (elim disjE exE conjE)
    fix d i now r assume "create d i now db = (r, db')"
    then show ?thesis using keepsD[OF create_keeps inv, of d i now] active_ids_create[of d i now db] by simp
  next
    fix i now r assume "request_cancel i now db = (r, db')"
    then show ?thesis
      using keepsD[OF request_cancel_keeps inv, of i now] active_ids_cancel[of i now db] by simp
  next
    fix i now r assume "retry i now db = (r, db')"
    then show ?thesis using keepsD[OF retry_keeps inv, of i now] active_ids_retry[of i now db] by simp
  next
    fix i now r assume "requeue_automatically i now db = (r, db')"
    then show ?thesis
      using keepsD[OF requeue_keeps inv, of i now] active_ids_requeue[of i now db] by simp
  next
    fix i payload now r assume "process_event i payload now db = (r, db')"
    then show ?thesis
      using keepsD[OF process_event_keeps inv, of i payload now]
        active_ids_process_event[of i payload now db] by simp
  next
    fix i now r assume "claim i now db = (r, db')" "r \<noteq> Inr True"
    then show ?thesis
      using keepsD[OF claim_keeps inv, of i now] active_ids_claim(2)[OF inv, of i now] by simp
  qed
qed

section \<open>The pool never has more active jobs than workers\<close>

fun holder :: "worker \<Rightarrow> uuid option" where
  "holder (Executing i) = Some i"
| "holder (Ensuring i _ _) = Some i"
| "holder (Closing i _) = Some i"
| "holder (Failing i _) = Some i"
| "holder _ = None"

fun closes_terminal :: "worker \<Rightarrow> bool" where
  "closes_terminal (Closing i fin) = is_terminal (fin_status fin)"
| "closes_terminal _ = True"

definition queue_inv :: "queue_state \<Rightarrow> bool" where
  "queue_inv s \<longleftrightarrow>
     jobs_inv (qs_db s) \<and> active_ids (qs_db s) \<subseteq> holders (map holder (qs_workers s))
     \<and> length (qs_workers s) = queue_workers \<and> list_all closes_terminal (qs_workers s)"

lemma queue_invI:
  assumes "queue_inv s" "closes_terminal p"
    and "jobs_inv db \<and> active_ids db \<subseteq> holders ((map holder (qs_workers s))[w := holder p])"
  shows "queue_inv (step_to s w p db)"
  using assms set_update_subset_insert[of "qs_workers s" w p]
  by (auto simp: queue_inv_def map_update list_all_iff)

lemma queue_inv_parts:
  assumes "queue_inv s" "stands s w p"
  shows "jobs_inv (qs_db s)" "active_ids (qs_db s) \<subseteq> holders (map holder (qs_workers s))"
    "w < length (map holder (qs_workers s))" "map holder (qs_workers s) ! w = holder p"
    "closes_terminal p"
  using assms by (auto simp: queue_inv_def list_all_iff)

text \<open>A worker that stays a holder, one that claims, one that releases.\<close>

lemma stay_inv:
  assumes "queue_inv s" "stands s w p" "holder q = holder p" "closes_terminal q"
    and "table_others (qs_db s) db \<or> db = qs_db s"
  shows "queue_inv (step_to s w q db)"
proof (rule queue_invI[OF assms(1,4)])
  note i = queue_inv_parts[OF assms(1,2)]
  have "(map holder (qs_workers s))[w := holder q] = map holder (qs_workers s)"
    using i(3,4) assms(3) by (metis list_update_id)
  then show "jobs_inv db \<and> active_ids db \<subseteq> holders ((map holder (qs_workers s))[w := holder q])"
    using transfer_store.other_covered[OF i(1,2)] assms(5) i(1,2) by auto
qed

lemma claim_inv:
  assumes "queue_inv s" "stands s w (Claiming i)" "claim i now (qs_db s) = (r, db)"
  shows "queue_inv (step_to s w (Executing i) db)"
proof (rule queue_invI[OF assms(1)])
  note p = queue_inv_parts[OF assms(1,2)]
  have c: "table_claims i (qs_db s) db" using assms(3) by (auto simp: table_claims_def)
  show "jobs_inv db \<and> active_ids db \<subseteq> holders ((map holder (qs_workers s))[w := holder (Executing i)])"
    using transfer_store.claim_covered[OF p(1-3) _ c] p(4) by simp
qed simp

lemma release_inv:
  assumes "queue_inv s" "stands s w p" "holder p = Some i" "closes_terminal q"
    and "finish i fin now (qs_db s) = (r, db)" "is_terminal (fin_status fin)"
  shows "queue_inv (step_to s w q db)"
proof (rule queue_invI[OF assms(1,4)])
  note p = queue_inv_parts[OF assms(1,2)]
  have c: "table_releases i (qs_db s) db" using assms(5,6) by (auto simp: table_releases_def)
  show "jobs_inv db \<and> active_ids db \<subseteq> holders ((map holder (qs_workers s))[w := holder q])"
    using transfer_store.release_covered[OF p(1-3) _ c] p(4) assms(3) by simp
qed

lemma queue_step_inv: "queue_step s t \<Longrightarrow> queue_inv s \<Longrightarrow> queue_inv t"
proof (induction rule: queue_step.induct)
  case (poll s w job)
  then show ?case by (intro stay_inv[where p = Polling]) auto
next
  case (claim_won s w i now db)
  then show ?case by (intro claim_inv) auto
next
  case (claim_lost s w i now r db)
  then show ?case by (intro stay_inv[where p = "Claiming i"]) (auto simp: table_others_def)
next
  case (event s w i payload now sig db)
  then show ?case by (intro stay_inv[where p = "Executing i"]) (auto simp: table_others_def)
next
  case (event_failed s w i payload now e db)
  then show ?case by (intro stay_inv[where p = "Executing i"]) (auto simp: table_others_def)
next
  case (returned_error s w i e)
  then show ?case by (intro stay_inv[where p = "Executing i"]) auto
next
  case (returned s w i details captured)
  then show ?case by (intro stay_inv[where p = "Executing i"]) auto
next
  case (ensure_skip s w i details captured job)
  note p = queue_inv_parts[OF ensure_skip(4,1)]
  have "job_at (qs_db s) i = Some job"
    using ensure_skip(2) require_ok[OF p(1), of i] by (auto simp: job_at_def split: option.splits)
  then have "i \<notin> active_ids (qs_db s)"
    using ensure_skip(3) active_ids_iff[OF p(1)] active_not_terminal by auto
  then have "active_ids (qs_db s) \<subseteq> holders ((map holder (qs_workers s))[w := None])"
    using transfer_store.drop_covered[OF p(1-3)] p(4) by simp
  with ensure_skip(4) p(1) show ?case by (intro queue_invI) auto
next
  case (ensure_close s w i details captured job)
  then show ?case by (intro stay_inv[where p = "Ensuring i details captured"]) auto
next
  case (ensure_error s w i details captured e)
  then show ?case by (intro stay_inv[where p = "Ensuring i details captured"]) auto
next
  case (close_ok s w i fin now db)
  then show ?case
    using queue_inv_parts(5) by (intro release_inv[where p = "Closing i fin" and fin = fin]) fastforce+
next
  case (close_error s w i fin now e db)
  note p = queue_inv_parts[OF close_error(3,1)]
  have "table_releases i (qs_db s) db"
    using close_error(2) p(5) by (auto simp: table_releases_def)
  then have "jobs_inv db \<and> active_ids db \<subseteq> active_ids (qs_db s)"
    using transfer_store.releases_law[OF p(1)] by blast
  moreover have "(map holder (qs_workers s))[w := holder (Failing i e)] = map holder (qs_workers s)"
    using p(3,4) by (metis holder.simps(3,4) list_update_id)
  ultimately show ?case using close_error(3) p(2) by (intro queue_invI) auto
next
  case (failing s w i e now r db)
  then show ?case
    by (intro release_inv[where p = "Failing i e" and fin = "error_fields e"]) auto
next
  case (settle_requeue s w i job)
  then show ?case by (intro stay_inv[where p = "Settling i"]) auto
next
  case (settle_end s w i)
  then show ?case by (intro stay_inv[where p = "Settling i"]) auto
next
  case (requeue s w i now r db)
  then show ?case by (intro stay_inv[where p = "Requeueing i"]) (auto simp: table_others_def)
next
  case (user_create draft i now s r db)
  then have "table_others (qs_db s) db" by (auto simp: table_others_def)
  with user_create(2) transfer_store.other_covered show ?case by (auto simp: queue_inv_def)
next
  case (user_cancel i now s r db)
  then have "table_others (qs_db s) db" by (auto simp: table_others_def)
  with user_cancel(2) transfer_store.other_covered show ?case by (auto simp: queue_inv_def)
next
  case (user_retry i now s r db)
  then have "table_others (qs_db s) db" by (auto simp: table_others_def)
  with user_retry(2) transfer_store.other_covered show ?case by (auto simp: queue_inv_def)
qed

lemma recover_none_active:
  assumes "jobs_inv db"
  shows "jobs_inv (snd (recover_interrupted now db)) \<and> active_ids (snd (recover_interrupted now db)) = {}"
  using keepsD[OF recover_keeps assms] transfer_recovery_rows[OF assms] by (auto simp: active_ids_def)

lemma queue_reachable_inv: "queue_reachable s \<Longrightarrow> queue_inv s"
proof (induction rule: queue_reachable.induct)
  case (start s)
  then show ?case
    using recover_none_active by (auto simp: queue_init_def queue_inv_def list_all_iff)
next
  case (step s t)
  then show ?case using queue_step_inv by blast
qed

lemma affected_active:
  assumes "jobs_inv db"
  shows "affected (\<lambda>r. is_active (tj_status r)) (db_jobs db) = card (active_ids db)"
proof -
  let ?rows = "filter (\<lambda>r. is_active (tj_status r)) (db_jobs db)"
  have "distinct (map tj_id ?rows)" using assms by (simp add: jobs_inv_def distinct_map_filter)
  then have "card (set (map tj_id ?rows)) = length (map tj_id ?rows)" by (rule distinct_card)
  moreover have "set (map tj_id ?rows) = active_ids db" by (auto simp: active_ids_def)
  ultimately show ?thesis by (simp add: affected_def)
qed

text \<open>C1: However the steps of the three workers and of the user interleave, the table stays well
  formed and at most three jobs are active: every active job is held by a worker that will still
  finish it.\<close>
theorem queue_active_bounded:
  assumes "queue_reachable s"
  shows "jobs_inv (qs_db s)
       \<and> affected (\<lambda>r. is_active (tj_status r)) (db_jobs (qs_db s)) \<le> queue_workers
       \<and> active_ids (qs_db s) \<subseteq> holders (map holder (qs_workers s))"
proof -
  have inv: "queue_inv s" using assms by (rule queue_reachable_inv)
  then have i: "jobs_inv (qs_db s)" "active_ids (qs_db s) \<subseteq> holders (map holder (qs_workers s))"
    "length (map holder (qs_workers s)) = queue_workers" by (auto simp: queue_inv_def)
  with transfer_store.covered_card[OF i(2)] affected_active[OF i(1)] show ?thesis by simp
qed

section \<open>One execution, undisturbed\<close>

lemma process_events_keeps [keeps_intros]: "keeps jobs_inv (process_events i events)"
proof (induction i events rule: process_events.induct)
  case (1 i)
  show ?case unfolding process_events.simps by (intro keeps_intros)
next
  case (2 i now payload events)
  then show ?case unfolding process_events.simps by (intro keeps_intros)
qed

lemma ensure_finished_keeps [keeps_intros]: "keeps jobs_inv (ensure_finished i details captured now)"
  unfolding ensure_finished_def by (intro keeps_intros)

lemma execute_inner_keeps [keeps_intros]: "keeps jobs_inv (execute_inner i events outcome now)"
  unfolding execute_inner_def by (intro keeps_intros)

lemma ensure_finished_settles:
  assumes "jobs_inv db" "ensure_finished i details captured now db = (Inr (), db')"
  shows "i \<notin> active_ids db'"
proof (cases "job_at db i")
  case None
  with assms show ?thesis
    by (auto simp: ensure_finished_def require_ok job_at_def)
next
  case (Some job)
  then have r: "require i db = Inr job" using require_ok[OF assms(1)] by (simp add: job_at_def)
  show ?thesis
  proof (cases "is_terminal (tj_status job)")
    case True
    with assms(2) r have "db' = db" by (simp add: ensure_finished_def)
    with True Some assms(1) active_not_terminal show ?thesis by (auto simp: active_ids_iff)
  next
    case False
    with assms(2) r have "db' = snd (finish i (details_fields details captured) now db)"
      by (simp add: ensure_finished_def)
    then show ?thesis using active_ids_finish[OF assms(1)] by simp
  qed
qed

lemma execute_inner_settles:
  assumes "jobs_inv db" "execute_inner i events outcome now db = (Inr (), db')"
  shows "i \<notin> active_ids db'"
proof -
  from assms(2) obtain db1 details where
    p: "process_events i events db = (Inr (), db1)"
    and f: "ensure_finished i details (captured_result (map snd events) None) now db1 = (Inr (), db')"
    by (auto simp: execute_inner_def bind_st_def split: sum.splits prod.splits)
  have "jobs_inv db1" using keepsD[OF process_events_keeps assms(1), of i events] p by simp
  from ensure_finished_settles[OF this f] show ?thesis .
qed

text \<open>C35: A worker that executes a job on a well-formed table, with no call of another worker or of the user
  between its own database calls: whatever events the transfer emits and whatever it returns, when it is
  done the table is still well formed and the job is not active any more: it has ended, or it is queued
  again with attempts left. Nothing is claimed about calls in between, such as a retry of the failed
  job by the user and a claim of it by another worker before the first one is done.\<close>
theorem execute_settles:
  assumes "jobs_inv db"
  shows "jobs_inv (execute i events outcome now later db)
       \<and> (\<forall>r. job_at (execute i events outcome now later db) i = Some r \<longrightarrow>
            is_terminal (tj_status r)
            \<or> (tj_status r = TQueued \<and> tj_attempt_count r < tj_max_attempts r))"
proof -
  obtain res db1 where inner: "execute_inner i events outcome now db = (res, db1)" by fastforce
  define db2 where "db2 = (case res of Inl e \<Rightarrow> ignore_st (finish i (error_fields e) now) db1 | Inr _ \<Rightarrow> db1)"
  have inv1: "jobs_inv db1" using keepsD[OF execute_inner_keeps assms, of i events outcome now] inner by simp
  have two: "jobs_inv db2 \<and> i \<notin> active_ids db2"
  proof (cases res)
    case (Inl e)
    then show ?thesis
      using keepsD[OF finish_keeps inv1] active_ids_finish[OF inv1] by (simp add: db2_def ignore_st_def)
  next
    case (Inr u)
    with execute_inner_settles[OF assms] inner inv1 show ?thesis by (simp add: db2_def)
  qed
  define db3 where "db3 = execute i events outcome now later db"
  have "db3 = db2 \<or> db3 = snd (requeue_automatically i later db2)"
    unfolding db3_def execute_def inner
    by (auto simp: ignore_st_def Let_def db2_def split: sum.splits)
  then have three: "jobs_inv db3" "i \<notin> active_ids db3"
    using two keepsD[OF requeue_keeps] active_ids_requeue by auto blast+
  have "is_terminal (tj_status r) \<or> (tj_status r = TQueued \<and> tj_attempt_count r < tj_max_attempts r)"
    if r: "job_at db3 i = Some r" for r
  proof -
    have "\<not> is_active (tj_status r)" using three r by (auto simp: active_ids_iff)
    moreover have "lifecycle r" using job_at_inv[OF three(1) r] by simp
    ultimately show ?thesis using status_trichotomy[of "tj_status r"] by (auto simp: lifecycle_def)
  qed
  with three(1) show ?thesis by (simp add: db3_def)
qed

text \<open>What the automatic retry of a failed job does.\<close>

lemma requeue_effect:
  assumes "jobs_inv db" "job_at db i = Some r" "tj_status r = TFailed" "tj_retryable r"
    "tj_attempt_count r < tj_max_attempts r"
  shows "job_at (snd (requeue_automatically i now db)) i =
    Some (r\<lparr>tj_status := TQueued, tj_execution_id := None, tj_cancel_requested := False,
            tj_error_category := None, tj_error_message := None, tj_finished_at := None,
            tj_updated_at := now\<rparr>)"
proof -
  let ?f = "\<lambda>r. r\<lparr>tj_status := TQueued, tj_execution_id := None, tj_cancel_requested := False,
            tj_error_category := None, tj_error_message := None, tj_finished_at := None,
            tj_updated_at := now\<rparr>"
  let ?p = "\<lambda>r. tj_status r = TFailed \<and> tj_retryable r \<and> tj_attempt_count r < tj_max_attempts r"
  have "job_at (snd (update_jobs (\<lambda>r. tj_id r = i \<and> ?p r) ?f db)) i
      = map_option (\<lambda>r. if ?p r then ?f r else r) (job_at db i)"
    using keyed_update(2)[OF assms(1), of ?f ?p i i] by (simp add: job_row_ok_def)
  with assms(2-5) show ?thesis
    by (simp add: requeue_automatically_def snd_bind_ret)
qed

lemma wants_requeue_attempts: "wants_requeue r \<Longrightarrow> tj_attempt_count r < tj_max_attempts r"
  by (auto simp: wants_requeue_def can_automatically_retry_def split: if_splits)

text \<open>When a transfer fails before it has emitted any event, the job of the worker becomes failed
  with the category of the error, or it goes back to the queue when the error is transient and an
  attempt is left. In the second case the row's cancellation flag is cleared too: a cancellation that
  the user requested while the transfer was connecting is lost and the job runs again.\<close>
theorem execute_early_error:
  assumes "jobs_inv db" and "job_at db i = Some r" and "is_active (tj_status r)"
  shows "let failed_row = finished_row (error_fields e) now r in
    job_at (execute i [] (Inl e) now later db) i = Some
    (if wants_requeue failed_row
     then failed_row\<lparr>tj_status := TQueued, tj_execution_id := None, tj_cancel_requested := False,
            tj_error_category := None, tj_error_message := None, tj_finished_at := None,
            tj_updated_at := later\<rparr>
     else failed_row)"
proof -
  define failed_row where "failed_row = finished_row (error_fields e) now r"
  let ?db = "snd (finish i (error_fields e) now db)"
  have row: "job_row_ok db r" using job_at_inv[OF assms(1,2)] by simp
  have req: "require i db = Inr r" using require_ok[OF assms(1), of i] assms(2) by (simp add: job_at_def)
  obtain v where v: "parse_verification (tj_verification r) = Inr v"
    using row by (auto simp: job_row_ok_def parse_verification_def)
  have inner: "execute_inner i [] (Inl e) now db = (Inl e, db)"
    using req v by (simp add: execute_inner_def bind_st_def)
  have inv: "jobs_inv ?db" using keepsD[OF finish_keeps assms(1)] .
  have at: "job_at ?db i = Some failed_row"
    using finish_effect(1)[OF assms(1), of "error_fields e" i now i] assms(2,3)
    by (simp add: failed_row_def)
  have req': "require i ?db = Inr failed_row"
    using require_ok[OF inv, of i] at by (simp add: job_at_def)
  show ?thesis
  proof (cases "wants_requeue failed_row")
    case True
    then have "tj_status failed_row = TFailed" "tj_retryable failed_row"
      "tj_attempt_count failed_row < tj_max_attempts failed_row"
      using wants_requeue_attempts by (auto simp: wants_requeue_def)
    from requeue_effect[OF inv at this] True req' inner show ?thesis
      by (simp add: execute_def ignore_st_def flip: failed_row_def)
  next
    case False
    with at req' inner show ?thesis by (simp add: execute_def ignore_st_def flip: failed_row_def)
  qed
qed

section \<open>The limit per server\<close>

text \<open>A worker polls, claims; the user retries: each as one step from a state of the pool.\<close>

lemma reach_poll:
  "queue_reachable s \<Longrightarrow> qs_db s = db \<Longrightarrow> qs_workers s = ws \<Longrightarrow> w < length ws \<Longrightarrow> ws ! w = Polling
   \<Longrightarrow> next_runnable db = Inr (Some job) \<Longrightarrow> tj_id job = i
   \<Longrightarrow> queue_reachable \<lparr>qs_db = db, qs_workers = ws[w := Claiming i]\<rparr>"
  using queue_reachable.step[OF _ queue_step.poll, of s w job] by (cases s) auto

lemma reach_claim:
  "queue_reachable s \<Longrightarrow> qs_db s = db \<Longrightarrow> qs_workers s = ws \<Longrightarrow> w < length ws \<Longrightarrow> ws ! w = Claiming i
   \<Longrightarrow> claim i now db = (Inr True, db')
   \<Longrightarrow> queue_reachable \<lparr>qs_db = db', qs_workers = ws[w := Executing i]\<rparr>"
  using queue_reachable.step[OF _ queue_step.claim_won, of s w i now db'] by (cases s) auto

lemma reach_retry:
  "queue_reachable s \<Longrightarrow> qs_db s = db \<Longrightarrow> qs_workers s = ws \<Longrightarrow> snd (retry i now db) = db'
   \<Longrightarrow> queue_reachable \<lparr>qs_db = db', qs_workers = ws\<rparr>"
  using queue_reachable.step[OF _ queue_step.user_retry, of s i now "fst (retry i now db)" db']
  by (cases s) auto

definition claimed_row :: "transfer_job \<Rightarrow> transfer_job" where
  "claimed_row r = r\<lparr>tj_status := TConnecting, tj_attempt_count := tj_attempt_count r + 1,
     tj_retryable := False, tj_error_category := None, tj_started_at := coalesce (tj_started_at r) 50,
     tj_finished_at := None, tj_updated_at := 50\<rparr>"

definition retried_row :: transfer_job where
  "retried_row = example_failed\<lparr>tj_status := TQueued, tj_retryable := False, tj_error_category := None,
     tj_finished_at := None, tj_updated_at := 60\<rparr>"

definition race_db :: "transfer_job list \<Rightarrow> transfer_db" where
  "race_db rows = \<lparr>db_servers = [''s''], db_executions = [7], db_jobs = rows\<rparr>"

abbreviation "q2 \<equiv> new_row example_draft 2 20"
abbreviation "q3 \<equiv> new_row example_draft 3 30"

lemmas race_eval = race_db_def claimed_row_def retried_row_def example_defs next_runnable_def
  active_on_def affected_def queue_key_def map_job_def from_i64_def from_u32_def claim_def retry_def
  update_jobs_def run_update_def bind_st_def job_row_ok_def coalesce_def upd_where_def

lemma race_start:
  "queue_reachable \<lparr>qs_db = race_db [example_failed, q2, q3], qs_workers = [Polling, Polling, Polling]\<rparr>"
proof (rule queue_reachable.start)
  show "queue_init \<lparr>qs_db = race_db [example_failed, q2, q3], qs_workers = [Polling, Polling, Polling]\<rparr>"
    unfolding queue_init_def
    by (intro exI[of _ example_idle_db] exI[of _ 0] conjI example_db_inv)
       (simp_all add: recover_interrupted_def race_eval queue_workers_def numeral_3_eq_3)
qed

text \<open>C38: Polling and claiming are two transactions, so the limit of two active jobs per server is not
  kept by the pool: there is a reachable state with three active jobs on one server. A worker polls the
  job 3 while one job is active, the user retries the older job 1, another worker polls that one, and both
  claims succeed.\<close>
theorem server_limit_race:
  "\<exists>s. queue_reachable s \<and> active_on ''s'' (qs_db s) = 3"
proof -
  have 1: "queue_reachable \<lparr>qs_db = race_db [example_failed, q2, q3], qs_workers = [Claiming 2, Polling, Polling]\<rparr>"
    using reach_poll[OF race_start refl refl, of 0 q2 2] by (simp add: race_eval)
  have 2: "queue_reachable \<lparr>qs_db = race_db [example_failed, claimed_row q2, q3], qs_workers = [Executing 2, Polling, Polling]\<rparr>"
    using reach_claim[OF 1 refl refl, of 0 2 50] by (simp add: race_eval)
  have 3: "queue_reachable \<lparr>qs_db = race_db [example_failed, claimed_row q2, q3], qs_workers = [Executing 2, Claiming 3, Polling]\<rparr>"
    using reach_poll[OF 2 refl refl, of 1 q3 3] by (simp add: race_eval)
  have 4: "queue_reachable \<lparr>qs_db = race_db [retried_row, claimed_row q2, q3], qs_workers = [Executing 2, Claiming 3, Polling]\<rparr>"
    using reach_retry[OF 3 refl refl, of 1 60] by (simp add: race_eval require_def get_def)
  have 5: "queue_reachable \<lparr>qs_db = race_db [retried_row, claimed_row q2, q3], qs_workers = [Executing 2, Claiming 3, Claiming 1]\<rparr>"
    using reach_poll[OF 4 refl refl, of 2 retried_row 1] by (simp add: race_eval)
  have 6: "queue_reachable \<lparr>qs_db = race_db [retried_row, claimed_row q2, claimed_row q3], qs_workers = [Executing 2, Executing 3, Claiming 1]\<rparr>"
    using reach_claim[OF 5 refl refl, of 1 3 50] by (simp add: race_eval)
  have 7: "queue_reachable \<lparr>qs_db = race_db [claimed_row retried_row, claimed_row q2, claimed_row q3], qs_workers = [Executing 2, Executing 3, Executing 1]\<rparr>"
    using reach_claim[OF 6 refl refl, of 2 1 50] by (simp add: race_eval)
  then show ?thesis by (intro exI conjI) (assumption, simp add: race_eval)
qed

section \<open>Witnesses\<close>

theorem queue_active_bounded_witness:
  "\<exists>s. queue_reachable s \<and> affected (\<lambda>r. is_active (tj_status r)) (db_jobs (qs_db s)) \<le> queue_workers"
  using race_start queue_active_bounded[OF race_start] by blast

theorem execute_settles_witness:
  "jobs_inv (execute 4 [(45, Progress PVerifying 3 None None None None None)] (Inl Cancelled) 50 60 example_db)"
  using execute_settles[OF example_db_inv(1)] by blast

theorem execute_early_error_witness:
  "tj_cancel_requested example_active
   \<and> (\<exists>r. job_at (execute 4 [] (Inl (Io ''connection reset'')) 50 60 example_db) 4 = Some r
        \<and> tj_status r = TQueued \<and> \<not> tj_cancel_requested r)"
proof -
  have "job_at example_db 4 = Some example_active" "is_active (tj_status example_active)"
    by (simp_all add: example_defs job_at_def)
  note e = execute_early_error[OF example_db_inv(1) this, where now = 50 and later = 60
      and e = "Io ''connection reset''"]
  have w: "wants_requeue (finished_row (error_fields (Io ''connection reset'')) 50 example_active)"
    by (simp add: wants_requeue_def finished_row_def error_fields_def or_default_def cap_utf8_def
        can_automatically_retry_def example_defs non_transient_markers_def to_ascii_lowercase_def
        ascii_lower_def byte_def)
  show ?thesis using e w by (simp add: Let_def) (simp add: example_defs)
qed

end
