(* ===== verification/Workflow_Model.thy ===== *)
theory Workflow_Model
  imports Exec_Events Sftp_Paths
begin

text \<open>
  Workflows: the data of \<^verbatim>\<open>src-tauri/src/domain/workflow.rs\<close>, the transition tables of
  \<^verbatim>\<open>core/workflows/state_machine.rs\<close>, the conditions of \<^verbatim>\<open>core/workflows/condition.rs\<close> and the
  checks of a log search (\<^verbatim>\<open>core/logs/request.rs\<close>), which workflow nodes embed. JSON objects are
  association lists in key order without duplicates, as \<open>serde_json\<close> keeps them; a coordinate is
  \<open>None\<close> when the \<open>f64\<close> is not finite.
\<close>

section \<open>Definitions\<close>

record node_position =
  np_x :: "rat option"
  np_y :: "rat option"

datatype workflow_custom_mode = CustomCommand | CustomScript

datatype numeric_operator = NumEqual | NumNotEqual | LessThan | LessThanOrEqual | GreaterThan | GreaterThanOrEqual

datatype equality_operator = OpEqual | OpNotEqual

datatype workflow_condition =
    ExitCode numeric_operator int
  | ResultField string equality_operator json
  | OutputContains string bool

datatype workflow_node_config =
    NStart
  | NTask string int "(string \<times> json) list"
  | NCustom workflow_custom_mode string u64
  | NUpload string string bool bool
  | NDownload string string bool
  | NLogSearch string string bool "8 word" u32 "string option" "string option"
  | NCondition uuid workflow_condition
  | NStop string

record workflow_node =
  wn_id :: uuid
  wn_name :: string
  wn_position :: node_position
  wn_config :: workflow_node_config

datatype workflow_edge_branch = BSuccess | BTrue | BFalse

record workflow_edge =
  we_from :: uuid
  we_to :: uuid
  we_branch :: workflow_edge_branch

record workflow_draft =
  wd_id :: "uuid option"
  wd_name :: string
  wd_description :: string
  wd_nodes :: "workflow_node list"
  wd_edges :: "workflow_edge list"

record workflow_definition =
  wf_id :: uuid
  wf_name :: string
  wf_description :: string
  wf_version :: int
  wf_checksum :: string
  wf_nodes :: "workflow_node list"
  wf_edges :: "workflow_edge list"

definition draft_of_definition :: "workflow_definition \<Rightarrow> workflow_draft" where
  "draft_of_definition v =
     \<lparr>wd_id = Some (wf_id v), wd_name = wf_name v, wd_description = wf_description v,
      wd_nodes = wf_nodes v, wd_edges = wf_edges v\<rparr>"

section \<open>Statuses\<close>

datatype workflow_run_status =
  WQueued | WRunning | WPaused | WSucceeded | WCancelled | WUncertain | WRolledBack | WRollbackFailed

fun run_status_as_str :: "workflow_run_status \<Rightarrow> string" where
  "run_status_as_str WQueued = ''queued''"
| "run_status_as_str WRunning = ''running''"
| "run_status_as_str WPaused = ''paused''"
| "run_status_as_str WSucceeded = ''succeeded''"
| "run_status_as_str WCancelled = ''cancelled''"
| "run_status_as_str WUncertain = ''uncertain''"
| "run_status_as_str WRolledBack = ''rolled_back''"
| "run_status_as_str WRollbackFailed = ''rollback_failed''"

definition run_status_from_str :: "string \<Rightarrow> workflow_run_status app_result" where
  "run_status_from_str value =
     (if value = ''queued'' then Inr WQueued
      else if value = ''running'' then Inr WRunning
      else if value = ''paused'' then Inr WPaused
      else if value = ''succeeded'' then Inr WSucceeded
      else if value = ''cancelled'' then Inr WCancelled
      else if value = ''uncertain'' then Inr WUncertain
      else if value = ''rolled_back'' then Inr WRolledBack
      else if value = ''rollback_failed'' then Inr WRollbackFailed
      else Inl (Validation ''invalid workflow status in the database''))"

interpretation run_status_enum: str_enum run_status_as_str run_status_from_str
proof unfold_locales
  fix x show "run_status_from_str (run_status_as_str x) = Inr x"
    by (cases x) (simp_all add: run_status_from_str_def)
next
  fix s x assume "run_status_from_str s = Inr x"
  then show "s = run_status_as_str x" by (auto simp: run_status_from_str_def split: if_splits)
qed

datatype workflow_node_status =
  NPending | NRunning | NSucceeded | NFailed | NCancelled | NUncertain | NSkipped

fun node_status_as_str :: "workflow_node_status \<Rightarrow> string" where
  "node_status_as_str NPending = ''pending''"
| "node_status_as_str NRunning = ''running''"
| "node_status_as_str NSucceeded = ''succeeded''"
| "node_status_as_str NFailed = ''failed''"
| "node_status_as_str NCancelled = ''cancelled''"
| "node_status_as_str NUncertain = ''uncertain''"
| "node_status_as_str NSkipped = ''skipped''"

definition node_is_terminal :: "workflow_node_status \<Rightarrow> bool" where
  "node_is_terminal s \<longleftrightarrow> s \<in> {NSucceeded, NFailed, NCancelled, NUncertain, NSkipped}"

definition node_status_from_str :: "string \<Rightarrow> workflow_node_status app_result" where
  "node_status_from_str value =
     (if value = ''pending'' then Inr NPending
      else if value = ''running'' then Inr NRunning
      else if value = ''succeeded'' then Inr NSucceeded
      else if value = ''failed'' then Inr NFailed
      else if value = ''cancelled'' then Inr NCancelled
      else if value = ''uncertain'' then Inr NUncertain
      else if value = ''skipped'' then Inr NSkipped
      else Inl (Validation ''invalid workflow node status in the database''))"

interpretation node_status_enum: str_enum node_status_as_str node_status_from_str
proof unfold_locales
  fix x show "node_status_from_str (node_status_as_str x) = Inr x"
    by (cases x) (simp_all add: node_status_from_str_def)
next
  fix s x assume "node_status_from_str s = Inr x"
  then show "s = node_status_as_str x" by (auto simp: node_status_from_str_def split: if_splits)
qed

datatype restore_point_status = RCreating | RAvailable | RFailed | RRollingBack | RRolledBack | RExpired

fun restore_status_as_str :: "restore_point_status \<Rightarrow> string" where
  "restore_status_as_str RCreating = ''creating''"
| "restore_status_as_str RAvailable = ''available''"
| "restore_status_as_str RFailed = ''failed''"
| "restore_status_as_str RRollingBack = ''rolling_back''"
| "restore_status_as_str RRolledBack = ''rolled_back''"
| "restore_status_as_str RExpired = ''expired''"

definition restore_status_from_str :: "string \<Rightarrow> restore_point_status app_result" where
  "restore_status_from_str value =
     (if value = ''creating'' then Inr RCreating
      else if value = ''available'' then Inr RAvailable
      else if value = ''failed'' then Inr RFailed
      else if value = ''rolling_back'' then Inr RRollingBack
      else if value = ''rolled_back'' then Inr RRolledBack
      else if value = ''expired'' then Inr RExpired
      else Inl (Validation ''invalid restore point status in the database''))"

interpretation restore_status_enum: str_enum restore_status_as_str restore_status_from_str
proof unfold_locales
  fix x show "restore_status_from_str (restore_status_as_str x) = Inr x"
    by (cases x) (simp_all add: restore_status_from_str_def)
next
  fix s x assume "restore_status_from_str s = Inr x"
  then show "s = restore_status_as_str x" by (auto simp: restore_status_from_str_def split: if_splits)
qed

section \<open>Transition tables\<close>

definition validate_run_transition :: "workflow_run_status \<Rightarrow> workflow_run_status \<Rightarrow> unit app_result" where
  "validate_run_transition src dst =
     (if (src, dst) \<in>
           {(WQueued, WRunning), (WQueued, WCancelled), (WRunning, WPaused), (WRunning, WSucceeded),
            (WRunning, WCancelled), (WRunning, WUncertain), (WPaused, WRunning), (WPaused, WCancelled),
            (WPaused, WRolledBack), (WPaused, WRollbackFailed), (WSucceeded, WRolledBack),
            (WSucceeded, WRollbackFailed), (WCancelled, WRolledBack), (WCancelled, WRollbackFailed),
            (WUncertain, WRolledBack), (WUncertain, WRollbackFailed), (WRollbackFailed, WRolledBack)}
      then Inr ()
      else Inl (Validation (''workflow status cannot change from '' @ run_status_as_str src
                            @ '' to '' @ run_status_as_str dst)))"

definition validate_node_transition :: "workflow_node_status \<Rightarrow> workflow_node_status \<Rightarrow> unit app_result" where
  "validate_node_transition src dst =
     (if (src, dst) \<in>
           {(NPending, NRunning), (NPending, NSkipped), (NPending, NCancelled), (NRunning, NSucceeded),
            (NRunning, NFailed), (NRunning, NCancelled), (NRunning, NUncertain)}
      then Inr ()
      else Inl (Validation (''workflow node status cannot change from '' @ node_status_as_str src
                            @ '' to '' @ node_status_as_str dst)))"

interpretation run_machine: status_machine
  "\<lambda>s t. s = t \<or> is_ok (validate_run_transition s t)" "\<lambda>s. s = WRolledBack"
  by unfold_locales (auto simp: validate_run_transition_def split: if_splits)

interpretation node_machine: status_machine
  "\<lambda>s t. s = t \<or> is_ok (validate_node_transition s t)" node_is_terminal
  by unfold_locales (auto simp: validate_node_transition_def node_is_terminal_def split: if_splits)

section \<open>Conditions\<close>

record condition_context =
  cc_exit_code :: "int option"
  cc_result :: "json option"
  cc_output_summary :: "string option"

definition is_result_char :: "char \<Rightarrow> bool" where
  "is_result_char c \<longleftrightarrow> is_ascii_alphanumeric c \<or> c = CHR ''_'' \<or> c = CHR ''-''"

definition validate_result_path :: "string \<Rightarrow> unit app_result" where
  "validate_result_path path =
     (if path = [] \<or> length path > 512
         \<or> list_ex (\<lambda>seg. seg = [] \<or> length seg > 64 \<or> \<not> list_all is_result_char seg)
             (split_char (CHR ''.'') path)
      then Inl (Validation ''invalid condition result path'') else Inr ())"

fun json_is_scalar :: "json \<Rightarrow> bool" where
  "json_is_scalar (JString _) = True"
| "json_is_scalar (JInt _) = True"
| "json_is_scalar (JFloat _) = True"
| "json_is_scalar (JBool _) = True"
| "json_is_scalar _ = False"

fun validate_condition :: "workflow_condition \<Rightarrow> unit app_result" where
  "validate_condition (ExitCode _ _) = Inr ()"
| "validate_condition (ResultField path _ value) =
     bind_res (validate_result_path path) (\<lambda>_.
       if \<not> json_is_scalar value
       then Inl (Validation ''condition value must be a string, a number or a boolean'') else Inr ())"
| "validate_condition (OutputContains needle _) =
     (if needle = [] \<or> length needle > 512 \<or> CHR 0x00 \<in> set needle
      then Inl (Validation ''condition text must have 1 to 512 bytes'') else Inr ())"

fun compare_number :: "int \<Rightarrow> numeric_operator \<Rightarrow> int \<Rightarrow> bool" where
  "compare_number actual NumEqual expected = (actual = expected)"
| "compare_number actual NumNotEqual expected = (actual \<noteq> expected)"
| "compare_number actual LessThan expected = (actual < expected)"
| "compare_number actual LessThanOrEqual expected = (actual \<le> expected)"
| "compare_number actual GreaterThan expected = (actual > expected)"
| "compare_number actual GreaterThanOrEqual expected = (actual \<ge> expected)"

text \<open>The loop over the segments of the path.\<close>

fun json_path :: "json \<Rightarrow> string list \<Rightarrow> json app_result" where
  "json_path actual [] = Inr actual"
| "json_path actual (seg # segs) =
     (case json_get actual seg of
        None \<Rightarrow> Inl (Validation ''condition result field does not exist'')
      | Some v \<Rightarrow> json_path v segs)"

definition evaluate_condition :: "workflow_condition \<Rightarrow> condition_context \<Rightarrow> bool app_result" where
  "evaluate_condition condition ctx =
     bind_res (validate_condition condition) (\<lambda>_.
       case condition of
         ExitCode operator value \<Rightarrow>
           (case cc_exit_code ctx of
              None \<Rightarrow> Inl (Validation ''condition source has no exit code'')
            | Some actual \<Rightarrow> Inr (compare_number actual operator value))
       | ResultField path operator value \<Rightarrow>
           (case cc_result ctx of
              None \<Rightarrow> Inl (Validation ''condition source has no structured result'')
            | Some res \<Rightarrow> bind_res (json_path res (split_char (CHR ''.'') path)) (\<lambda>actual.
                Inr (case operator of OpEqual \<Rightarrow> actual = value | OpNotEqual \<Rightarrow> actual \<noteq> value)))
       | OutputContains needle negated \<Rightarrow>
           (let found = str_contains (case cc_output_summary ctx of None \<Rightarrow> [] | Some s \<Rightarrow> s) needle
            in Inr (if negated then \<not> found else found)))"

section \<open>Log searches\<close>

datatype log_search_target = LogContent | LogFilename

record log_search_request =
  ls_target :: log_search_target
  ls_path :: string
  ls_keyword :: string
  ls_case_sensitive :: bool
  ls_context_lines :: "8 word"
  ls_limit :: u32
  ls_start_time :: "string option"
  ls_end_time :: "string option"

definition valid_time :: "string \<Rightarrow> bool" where
  "valid_time value \<longleftrightarrow>
     value \<noteq> [] \<and> length value \<le> 64
     \<and> list_all (\<lambda>c. is_ascii_digit c \<or> c \<in> set ''-:.+TZ '') value"

text \<open>The order of Rust strings: byte by byte, a prefix first.\<close>

fun str_less :: "string \<Rightarrow> string \<Rightarrow> bool" where
  "str_less _ [] = False"
| "str_less [] (_ # _) = True"
| "str_less (a # s) (b # t) = (byte a < byte b \<or> (a = b \<and> str_less s t))"

definition validate_filename_search :: "log_search_request \<Rightarrow> unit app_result" where
  "validate_filename_search r =
     (if ls_path r \<noteq> [] then Inl (Validation ''no log path in a file name search'')
      else if ls_keyword r = [] \<or> length (ls_keyword r) > 256
              \<or> list_ex (\<lambda>c. c \<in> {CHR 0x00, CHR 0x0D, CHR 0x0A, CHR 0x1F}) (ls_keyword r)
      then Inl (Validation ''invalid file name keyword'')
      else if ls_case_sensitive r \<or> ls_context_lines r \<noteq> 0
              \<or> \<not> (1 \<le> ls_limit r \<and> ls_limit r \<le> 200)
              \<or> ls_start_time r \<noteq> None \<or> ls_end_time r \<noteq> None
      then Inl (Validation ''invalid file name search'')
      else Inr ())"

definition validate_log_search :: "log_search_request \<Rightarrow> unit app_result" where
  "validate_log_search r =
     (if ls_target r = LogFilename then validate_filename_search r
      else if ls_path r \<noteq> []
              \<and> (hd (ls_path r) \<noteq> CHR ''/'' \<or> CHR 0x00 \<in> set (ls_path r)
                 \<or> ''..'' \<in> set (split_char (CHR ''/'') (ls_path r)) \<or> last (ls_path r) = CHR ''/'')
      then Inl (Validation ''log path must be the absolute path of a remote file'')
      else if ls_keyword r = [] \<or> CHR 0x00 \<in> set (ls_keyword r) \<or> length (ls_keyword r) > 512
      then Inl (Validation ''invalid log keyword'')
      else if ls_context_lines r > 20 then Inl (Validation ''more than 20 context lines'')
      else if \<not> (1 \<le> ls_limit r \<and> ls_limit r \<le> 10000) then Inl (Validation ''invalid result limit'')
      else if opt_all (\<lambda>v. \<not> valid_time v) (ls_start_time r) \<and> ls_start_time r \<noteq> None
              \<or> opt_all (\<lambda>v. \<not> valid_time v) (ls_end_time r) \<and> ls_end_time r \<noteq> None
      then Inl (Validation ''invalid log time range'')
      else (case (ls_start_time r, ls_end_time r) of
              (Some start, Some stop) \<Rightarrow>
                if str_less stop start then Inl (Validation ''log start time after its end time'') else Inr ()
            | _ \<Rightarrow> Inr ()))"

end
