(* ===== verification/Workflow_Graph.thy ===== *)
theory Workflow_Graph
  imports Workflow_Model "HOL-Library.AList"
begin

text \<open>
  Validation of a workflow graph: \<^verbatim>\<open>src-tauri/src/core/workflows/validation.rs\<close>. The maps of the
  source from a node to its outgoing and incoming edges are functions; the order in which
  \<open>HashMap::iter\<close> yields the keys is an argument. The look-up of a task in the built-in catalogue
  and the check of its parameters (\<^verbatim>\<open>core/tasks\<close>) are the argument \<open>check_task\<close>.
\<close>

datatype diagnostic_code =
    GraphLimit | DuplicateNode | StartCount | StartEdges | StopEdges | MissingNode | SelfEdge
  | DuplicateEdge | InvalidBranch | ConditionBranches | Cycle | UnreachableNode | NoTerminalPath
  | InvalidParameters

record workflow_diagnostic =
  dg_code :: diagnostic_code
  dg_node_id :: "uuid option"
  dg_message :: string

record workflow_report =
  rp_valid :: bool
  rp_start_node_id :: "uuid option"
  rp_diagnostics :: "workflow_diagnostic list"

definition diag :: "diagnostic_code \<Rightarrow> uuid option \<Rightarrow> string \<Rightarrow> workflow_diagnostic" where
  "diag c n message = \<lparr>dg_code = c, dg_node_id = n, dg_message = message\<rparr>"

section \<open>Nodes\<close>

type_synonym task_check = "string \<Rightarrow> int \<Rightarrow> (string \<times> json) list \<Rightarrow> unit app_result"

fun validate_config :: "task_check \<Rightarrow> host_os \<Rightarrow> workflow_node_config \<Rightarrow> unit app_result" where
  "validate_config check_task os NStart = Inr ()"
| "validate_config check_task os (NTask task_id task_version parameters) =
     check_task task_id task_version parameters"
| "validate_config check_task os (NCustom _ content timeout_seconds) =
     (if is_blank content \<or> CHR 0x00 \<in> set content \<or> length content > 1024 * 1024
         \<or> \<not> (1 \<le> timeout_seconds \<and> timeout_seconds \<le> 3600)
      then Inl (Validation ''invalid custom command or script'') else Inr ())"
| "validate_config check_task os (NUpload local_path remote_path overwrite create_restore_point) =
     (if \<not> is_absolute os local_path \<or> CHR 0x00 \<in> set local_path
      then Inl (Validation ''upload source must be an absolute local path'')
      else if create_restore_point \<and> \<not> overwrite
      then Inl (Validation ''only an overwriting upload can create a restore point'')
      else validate_remote_path remote_path)"
| "validate_config check_task os (NDownload remote_path suggested_name _) =
     bind_res (validate_remote_path remote_path) (\<lambda>_.
       map_res (\<lambda>_. ()) (download_destination os ''D:/workflow-data'' suggested_name))"
| "validate_config check_task os
      (NLogSearch path keyword case_sensitive context_lines limit start_time end_time) =
     validate_log_search
       \<lparr>ls_target = LogContent, ls_path = path, ls_keyword = keyword,
        ls_case_sensitive = case_sensitive, ls_context_lines = context_lines, ls_limit = limit,
        ls_start_time = start_time, ls_end_time = end_time\<rparr>"
| "validate_config check_task os (NCondition _ predicate) = validate_condition predicate"
| "validate_config check_task os (NStop message) =
     (if message = [] \<or> length message > 4096 \<or> CHR 0x00 \<in> set message
      then Inl (Validation ''stop message must have 1 to 4096 bytes'') else Inr ())"

definition validate_node :: "task_check \<Rightarrow> host_os \<Rightarrow> workflow_node \<Rightarrow> unit app_result" where
  "validate_node check_task os n =
     (if is_blank (wn_name n) \<or> char_count (wn_name n) > 200
         \<or> np_x (wn_position n) = None \<or> np_y (wn_position n) = None
      then Inl (Validation ''invalid node name or position'')
      else validate_config check_task os (wn_config n))"

text \<open>The loop over the nodes; \<open>seen\<close> holds the keys of the map built so far.\<close>

fun node_diagnostics ::
  "task_check \<Rightarrow> host_os \<Rightarrow> uuid list \<Rightarrow> workflow_node list \<Rightarrow> workflow_diagnostic list" where
  "node_diagnostics check_task os seen [] = []"
| "node_diagnostics check_task os seen (n # ns) =
     (if wn_id n \<in> set seen then [diag DuplicateNode (Some (wn_id n)) ''duplicate node''] else [])
     @ (case validate_node check_task os n of
          Inl e \<Rightarrow> [diag InvalidParameters (Some (wn_id n)) (display e)] | Inr _ \<Rightarrow> [])
     @ node_diagnostics check_task os (wn_id n # seen) ns"

section \<open>Edges\<close>

definition is_start :: "workflow_node \<Rightarrow> bool" where
  "is_start n \<longleftrightarrow> wn_config n = NStart"

definition edge_key :: "workflow_edge \<Rightarrow> uuid \<times> uuid \<times> workflow_edge_branch" where
  "edge_key e = (we_from e, we_to e, we_branch e)"

definition known_edge :: "uuid set \<Rightarrow> workflow_edge \<Rightarrow> bool" where
  "known_edge ids e \<longleftrightarrow> we_from e \<in> ids \<and> we_to e \<in> ids"

fun edge_diagnostics ::
  "uuid set \<Rightarrow> (uuid \<times> uuid \<times> workflow_edge_branch) list \<Rightarrow> workflow_edge list \<Rightarrow> workflow_diagnostic list"
where
  "edge_diagnostics ids seen [] = []"
| "edge_diagnostics ids seen (e # es) =
     (if \<not> known_edge ids e
      then diag MissingNode (Some (we_from e)) ''edge to a missing node'' # edge_diagnostics ids seen es
      else (if we_from e = we_to e then [diag SelfEdge (Some (we_from e)) ''edge to itself''] else [])
           @ (if edge_key e \<in> set seen then [diag DuplicateEdge (Some (we_from e)) ''duplicate edge''] else [])
           @ edge_diagnostics ids (edge_key e # seen) es)"

text \<open>The maps \<open>outgoing\<close> and \<open>incoming\<close>: the edges between known nodes, in the order of the draft.\<close>

definition outgoing :: "uuid set \<Rightarrow> workflow_edge list \<Rightarrow> uuid \<Rightarrow> workflow_edge list" where
  "outgoing ids es i = filter (\<lambda>e. known_edge ids e \<and> we_from e = i) es"

definition incoming :: "uuid set \<Rightarrow> workflow_edge list \<Rightarrow> uuid \<Rightarrow> workflow_edge list" where
  "incoming ids es i = filter (\<lambda>e. known_edge ids e \<and> we_to e = i) es"

definition branch_diagnostics ::
  "uuid set \<Rightarrow> workflow_edge list \<Rightarrow> workflow_node \<Rightarrow> workflow_diagnostic list" where
  "branch_diagnostics ids es n =
     (let outs = outgoing ids es (wn_id n); here = Some (wn_id n) in
      case wn_config n of
        NStart \<Rightarrow>
          if incoming ids es (wn_id n) \<noteq> [] \<or> length outs \<noteq> 1 \<or> we_branch (outs ! 0) \<noteq> BSuccess
          then [diag StartEdges here ''start node must have one success edge and none to it''] else []
      | NStop _ \<Rightarrow>
          if outs \<noteq> [] then [diag StopEdges here ''stop node must not have an outgoing edge''] else []
      | NCondition source _ \<Rightarrow>
          (let has_true = length (filter (\<lambda>e. we_branch e = BTrue) outs) = 1;
               has_false = length (filter (\<lambda>e. we_branch e = BFalse) outs) = 1;
               distinct_targets = (length outs = 2 \<and> we_to (outs ! 0) \<noteq> we_to (outs ! 1))
           in (if length outs \<noteq> 2 \<or> \<not> has_true \<or> \<not> has_false \<or> \<not> distinct_targets
               then [diag ConditionBranches here ''condition node needs a true and a false branch''] else [])
              @ (if source \<notin> ids \<or> source = wn_id n
                 then [diag InvalidParameters here ''invalid condition source''] else []))
      | _ \<Rightarrow>
          if length outs > 1 \<or> (outs \<noteq> [] \<and> we_branch (hd outs) \<noteq> BSuccess)
          then [diag InvalidBranch here ''at most one success edge''] else [])"

section \<open>Cycles\<close>

text \<open>
  Kahn's algorithm. \<open>deg\<close> is the map \<open>indegree\<close>; \<open>None\<close> is the panic of \<open>*value -= 1\<close> at zero.
\<close>

fun relax ::
  "workflow_edge list \<Rightarrow> (uuid \<times> nat) list \<Rightarrow> uuid list \<Rightarrow> ((uuid \<times> nat) list \<times> uuid list) option"
where
  "relax [] deg queue = Some (deg, queue)"
| "relax (e # es) deg queue =
     (case map_of deg (we_to e) of
        None \<Rightarrow> relax es deg queue
      | Some v \<Rightarrow>
          if v = 0 then None
          else relax es (AList.update (we_to e) (v - 1) deg)
                 (if v - 1 = 0 then queue @ [we_to e] else queue))"

lemma sum_update:
  "map_of deg k = Some v \<Longrightarrow> v \<noteq> 0 \<Longrightarrow>
     Suc (sum_list (map snd (AList.update k (v - 1) deg))) = sum_list (map snd deg)"
  by (induction deg) (auto split: if_splits)

lemma relax_measure:
  "relax es deg queue = Some (deg', queue') \<Longrightarrow>
     sum_list (map snd deg') + length queue' \<le> sum_list (map snd deg) + length queue"
proof (induction es deg queue rule: relax.induct)
  case (2 e es deg queue)
  show ?case
  proof (cases "map_of deg (we_to e)")
    case None
    with 2 show ?thesis by simp
  next
    case (Some v)
    with 2(3) have "v \<noteq> 0" by (auto split: if_splits)
    with 2(2)[OF Some] 2(3) Some sum_update[OF Some] show ?thesis by (auto split: if_splits)
  qed
qed simp

function kahn ::
  "(uuid \<Rightarrow> workflow_edge list) \<Rightarrow> (uuid \<times> nat) list \<Rightarrow> uuid list \<Rightarrow> nat \<Rightarrow> nat option" where
  "kahn out deg [] visited = Some visited"
| "kahn out deg (i # queue) visited =
     (case relax (out i) deg queue of
        None \<Rightarrow> None
      | Some (deg', queue') \<Rightarrow> kahn out deg' queue' (Suc visited))"
  by pat_completeness auto
termination
  by (relation "measure (\<lambda>(out, deg, queue, visited). sum_list (map snd deg) + length queue)")
     (auto dest: relax_measure simp: less_Suc_eq_le)

definition indegrees :: "uuid set \<Rightarrow> workflow_edge list \<Rightarrow> uuid list \<Rightarrow> (uuid \<times> nat) list" where
  "indegrees ids es keys = map (\<lambda>i. (i, length (incoming ids es i))) keys"

text \<open>\<open>keys\<close> is the order in which the map of the node identifiers is iterated.\<close>

definition has_cycle :: "uuid list \<Rightarrow> workflow_node list \<Rightarrow> workflow_edge list \<Rightarrow> bool option" where
  "has_cycle keys nodes es =
     (let ids = wn_id ` set nodes;
          deg = indegrees ids es keys;
          queue = map fst (filter (\<lambda>(i, d). d = 0) deg)
      in map_option (\<lambda>visited. visited \<noteq> length nodes) (kahn (outgoing ids es) deg queue 0))"

section \<open>Reachability\<close>

function reach_loop :: "(uuid \<Rightarrow> workflow_edge list) \<Rightarrow> uuid list \<Rightarrow> uuid list \<Rightarrow> uuid list" where
  "reach_loop out reached [] = reached"
| "reach_loop out reached (i # queue) =
     (if i \<in> set reached then reach_loop out reached queue
      else reach_loop out (i # reached) (queue @ map we_to (out i)))"
  by pat_completeness auto
termination
proof (relation "measures [\<lambda>(out, reached, queue). card (UNIV - set reached :: uuid set),
                           \<lambda>(out, reached, queue). length queue]", goal_cases)
  case (3 out reached i queue)
  then have "UNIV - set (i # reached) \<subset> (UNIV - set reached :: uuid set)" by auto
  then have "card (UNIV - set (i # reached) :: uuid set) < card (UNIV - set reached :: uuid set)"
    by (intro psubset_card_mono) auto
  then show ?case by simp
qed auto

definition reachable_from :: "uuid \<Rightarrow> (uuid \<Rightarrow> workflow_edge list) \<Rightarrow> uuid list" where
  "reachable_from start out = reach_loop out [] [start]"

section \<open>The report\<close>

definition is_terminal_node :: "uuid set \<Rightarrow> workflow_edge list \<Rightarrow> uuid list \<Rightarrow> workflow_node \<Rightarrow> bool" where
  "is_terminal_node ids es reached n \<longleftrightarrow>
     wn_id n \<in> set reached \<and> outgoing ids es (wn_id n) = []
     \<and> \<not> (case wn_config n of NStart \<Rightarrow> True | NCondition _ _ \<Rightarrow> True | _ \<Rightarrow> False)"

definition start_diagnostics ::
  "workflow_node list \<Rightarrow> workflow_edge list \<Rightarrow> uuid option \<Rightarrow> workflow_diagnostic list" where
  "start_diagnostics nodes es start_id =
     (let ids = wn_id ` set nodes in
      case start_id of
        None \<Rightarrow> []
      | Some start \<Rightarrow>
          (let reached = reachable_from start (outgoing ids es) in
             map (\<lambda>n. diag UnreachableNode (Some (wn_id n)) ''node not reachable from the start'')
               (filter (\<lambda>n. wn_id n \<notin> set reached) nodes)
             @ (if \<not> list_ex (is_terminal_node ids es reached) nodes
                then [diag NoTerminalPath None ''no reachable terminal node''] else [])))"

text \<open>\<open>None\<close> is a panic of \<open>has_cycle\<close>.\<close>

definition validate_workflow ::
  "task_check \<Rightarrow> host_os \<Rightarrow> uuid list \<Rightarrow> workflow_draft \<Rightarrow> workflow_report option" where
  "validate_workflow check_task os keys draft =
     (let nodes = wd_nodes draft; es = wd_edges draft; ids = wn_id ` set nodes;
          starts = filter is_start nodes;
          start_id = (if length starts = 1 then Some (wn_id (starts ! 0)) else None)
      in map_option (\<lambda>cycle.
           let ds =
             (if length nodes > 100 \<or> length es > 200
              then [diag GraphLimit None ''at most 100 nodes and 200 edges''] else [])
             @ node_diagnostics check_task os [] nodes
             @ (if length starts \<noteq> 1 then [diag StartCount None ''exactly one start node''] else [])
             @ edge_diagnostics ids [] es
             @ concat (map (branch_diagnostics ids es) nodes)
             @ (if cycle then [diag Cycle None ''cycle''] else [])
             @ start_diagnostics nodes es start_id
           in \<lparr>rp_valid = (ds = []), rp_start_node_id = start_id, rp_diagnostics = ds\<rparr>)
         (has_cycle keys nodes es))"

definition require_valid_workflow ::
  "task_check \<Rightarrow> host_os \<Rightarrow> uuid list \<Rightarrow> workflow_draft \<Rightarrow> unit app_result option" where
  "require_valid_workflow check_task os keys draft =
     map_option (\<lambda>report.
       if rp_valid report then Inr ()
       else Inl (Validation (case rp_diagnostics report of
                               d # _ \<Rightarrow> dg_message d | [] \<Rightarrow> ''workflow validation failed'')))
     (validate_workflow check_task os keys draft)"

end
