(* ===== verification/Workflow_Repo.thy ===== *)
theory Workflow_Repo
  imports Workflow_Graph Transfer_Jobs "HOL-Library.Product_Lexorder" "HOL-Library.Option_ord"
begin

text \<open>
  The workflow tables of migration 0003 and the operations of
  \<^verbatim>\<open>src-tauri/src/repositories/workflow_repository.rs\<close>. A stored JSON text is the value it encodes;
  its size, which the repository limits, is the length of \<open>render\<close>, an argument that stands for
  \<open>serde_json::to_string\<close>; \<open>checksum\<close> stands for the SHA-256 of the encoded definition. Clock
  readings and fresh identifiers are arguments.
\<close>

section \<open>Rows\<close>

record workflow_row =
  wk_id :: uuid
  wk_name :: string
  wk_description :: string
  wk_current_version :: int
  wk_created_at :: int
  wk_updated_at :: int

record workflow_version_row =
  wv_workflow_id :: uuid
  wv_version :: int
  wv_name :: string
  wv_description :: string
  wv_nodes :: "workflow_node list"
  wv_edges :: "workflow_edge list"
  wv_checksum :: string
  wv_created_at :: int

record workflow_run =
  wr_id :: uuid
  wr_workflow_id :: uuid
  wr_workflow_version :: int
  wr_server_id :: string
  wr_status :: workflow_run_status
  wr_current_node_id :: "uuid option"
  wr_created_at :: int
  wr_started_at :: "int option"
  wr_finished_at :: "int option"
  wr_duration_ms :: "int option"
  wr_error_category :: "string option"
  wr_error_message :: "string option"
  wr_retryable :: bool

record workflow_node_run =
  nr_run_id :: uuid
  nr_node_id :: uuid
  nr_attempt :: int
  nr_status :: workflow_node_status
  nr_execution_id :: "uuid option"
  nr_started_at :: "int option"
  nr_finished_at :: "int option"
  nr_duration_ms :: "int option"
  nr_exit_code :: "int option"
  nr_result :: "json option"
  nr_output_summary :: "string option"
  nr_error_message :: "string option"
  nr_retryable :: bool

record workflow_restore_point =
  rp_id :: uuid
  rp_run_id :: uuid
  rp_node_id :: uuid
  rp_remote_path :: string
  rp_relative_path :: "string option"
  rp_original_existed :: bool
  rp_size_bytes :: "int option"
  rp_sha256 :: "string option"
  rp_status :: restore_point_status
  rp_applicability :: json
  rp_error_message :: "string option"
  rp_created_at :: int
  rp_updated_at :: int

datatype workflow_event_payload =
    RunStarted uuid uuid string
  | RunStatusChanged uuid workflow_run_status "string option"
  | NodeStarted uuid uuid int
  | NodeStatusChanged uuid uuid int workflow_node_status "uuid option" "string option"
  | ConditionEvaluated uuid uuid bool
  | RestorePointChanged uuid uuid uuid string
  | RunFinished uuid workflow_run_status u64

record workflow_run_event =
  wev_run_id :: uuid
  wev_sequence :: int
  wev_event_type :: string
  wev_payload :: json
  wev_emitted_at :: int

record workflow_db =
  wdb_servers :: "string list"
  wdb_executions :: "uuid list"
  wdb_workflows :: "workflow_row list"
  wdb_versions :: "workflow_version_row list"
  wdb_runs :: "workflow_run list"
  wdb_node_runs :: "workflow_node_run list"
  wdb_restore_points :: "workflow_restore_point list"
  wdb_events :: "workflow_run_event list"

definition ensure_one :: "nat \<Rightarrow> string \<Rightarrow> unit app_result" where
  "ensure_one rows message = (if rows = 1 then Inr () else Inl (Validation message))"

text \<open>\<open>UPDATE\<close> on the run, node-run and restore-point tables; the number of affected rows.\<close>

definition update_runs ::
  "(workflow_run \<Rightarrow> bool) \<Rightarrow> (workflow_run \<Rightarrow> workflow_run) \<Rightarrow> (workflow_db, nat) st" where
  "update_runs p f db =
     (Inr (affected p (wdb_runs db)), db\<lparr>wdb_runs := upd_where p f (wdb_runs db)\<rparr>)"

definition node_row_ok :: "workflow_db \<Rightarrow> workflow_node_run \<Rightarrow> bool" where
  "node_row_ok db r \<longleftrightarrow>
     (\<exists>run \<in> set (wdb_runs db). wr_id run = nr_run_id r)
     \<and> opt_all (\<lambda>e. e \<in> set (wdb_executions db)) (nr_execution_id r) \<and> 0 < nr_attempt r"

definition update_node_runs ::
  "(workflow_node_run \<Rightarrow> bool) \<Rightarrow> (workflow_node_run \<Rightarrow> workflow_node_run) \<Rightarrow> (workflow_db, nat) st" where
  "update_node_runs p f db =
     (case run_update (node_row_ok db) p f (wdb_node_runs db) of
        Inl e \<Rightarrow> (Inl e, db)
      | Inr (n, rows) \<Rightarrow> (Inr n, db\<lparr>wdb_node_runs := rows\<rparr>))"

definition update_points ::
  "(workflow_restore_point \<Rightarrow> bool) \<Rightarrow> (workflow_restore_point \<Rightarrow> workflow_restore_point)
   \<Rightarrow> (workflow_db, nat) st" where
  "update_points p f db =
     (Inr (affected p (wdb_restore_points db)),
      db\<lparr>wdb_restore_points := upd_where p f (wdb_restore_points db)\<rparr>)"

definition expect_one :: "(workflow_db, nat) st \<Rightarrow> string \<Rightarrow> (workflow_db, unit) st" where
  "expect_one m message = bind_st m (\<lambda>n. read_st (\<lambda>_. ensure_one n message))"

text \<open>\<open>CASE WHEN started_at IS NULL THEN 0 ELSE MAX(0, now - started_at) END\<close>\<close>

definition elapsed :: "int option \<Rightarrow> int \<Rightarrow> int" where
  "elapsed started now = (case started of None \<Rightarrow> 0 | Some s \<Rightarrow> max 0 (now - s))"

section \<open>Definitions\<close>

text \<open>\<open>str::trim\<close>: white space is removed at the start and, one character at a time, at the end.\<close>

definition ws_suffix :: "string \<Rightarrow> nat" where
  "ws_suffix s =
     (case filter (\<lambda>n. n \<le> length s \<and> ws_prefix (map byte (drop (length s - n) s)) = n) [1, 2, 3] of
        [] \<Rightarrow> 0 | n # _ \<Rightarrow> n)"

lemma ws_suffix_bounds: "ws_suffix s \<noteq> 0 \<Longrightarrow> ws_suffix s \<le> length s"
  by (auto simp: ws_suffix_def split: if_splits)

function trim_end :: "string \<Rightarrow> string" where
  "trim_end s = (if ws_suffix s = 0 then s else trim_end (take (length s - ws_suffix s) s))"
  by pat_completeness auto
termination
  using ws_suffix_bounds by (relation "measure length") (fastforce simp: min_def)+

declare trim_end.simps [simp del]

definition trim :: "string \<Rightarrow> string" where
  "trim s = trim_end (trim_start s)"

definition validate_workflow_draft :: "workflow_draft \<Rightarrow> unit app_result" where
  "validate_workflow_draft draft =
     (if is_blank (wd_name draft) \<or> char_count (trim (wd_name draft)) > 200
         \<or> length (wd_description draft) > 4096
      then Inl (Validation ''workflow name or description above the limit'')
      else if length (wd_nodes draft) > 100 \<or> length (wd_edges draft) > 200
      then Inl (Validation ''workflow graph above 100 nodes or 200 edges'')
      else Inr ())"

definition next_version_row ::
  "(workflow_draft \<Rightarrow> string) \<Rightarrow> uuid \<Rightarrow> int \<Rightarrow> int \<Rightarrow> workflow_draft \<Rightarrow> workflow_version_row" where
  "next_version_row checksum i version now draft =
     \<lparr>wv_workflow_id = i, wv_version = version, wv_name = wd_name draft,
      wv_description = wd_description draft, wv_nodes = wd_nodes draft, wv_edges = wd_edges draft,
      wv_checksum = checksum draft, wv_created_at = now\<rparr>"

definition version_at :: "workflow_db \<Rightarrow> uuid \<Rightarrow> int \<Rightarrow> workflow_version_row option" where
  "version_at db i version =
     row_by (\<lambda>v. (wv_workflow_id v, wv_version v)) (i, version) (wdb_versions db)"

definition definition_of :: "workflow_version_row \<Rightarrow> workflow_definition" where
  "definition_of v =
     \<lparr>wf_id = wv_workflow_id v, wf_name = wv_name v, wf_description = wv_description v,
      wf_version = wv_version v, wf_checksum = wv_checksum v, wf_nodes = wv_nodes v,
      wf_edges = wv_edges v\<rparr>"

text \<open>The \<open>CHECK\<close> constraints of \<open>workflows\<close>.\<close>

definition workflow_row_ok :: "workflow_draft \<Rightarrow> bool" where
  "workflow_row_ok draft \<longleftrightarrow>
     1 \<le> char_count (wd_name draft) \<and> char_count (wd_name draft) \<le> 200
     \<and> length (wd_description draft) \<le> 4096"

text \<open>
  \<open>save\<close>, in one transaction. \<open>fresh\<close> is the identifier drawn when the draft has none. A definition
  that is unchanged since the current version is not stored again.
\<close>

definition wf_save ::
  "(workflow_draft \<Rightarrow> string) \<Rightarrow> uuid \<Rightarrow> int \<Rightarrow> workflow_draft \<Rightarrow> (workflow_db, workflow_definition) st" where
  "wf_save checksum fresh now draft db =
     (case validate_workflow_draft draft of
        Inl e \<Rightarrow> (Inl e, db)
      | Inr _ \<Rightarrow>
          let i = (case wd_id draft of None \<Rightarrow> fresh | Some i \<Rightarrow> i);
              existing = (case row_by wk_id i (wdb_workflows db) of
                 None \<Rightarrow> None
               | Some w \<Rightarrow> version_at db i (wk_current_version w))
          in case existing of
               Some v \<Rightarrow>
                 if wv_checksum v = checksum draft
                 then if wv_version v \<ge> 2 ^ 31 then (Inl (Validation ''workflow version out of range''), db)
                 else (Inr (definition_of (next_version_row checksum i (wv_version v) now draft)), db)
                 else
                   (let version = wv_version v + 1; row = next_version_row checksum i version now draft in
                    if wv_version v = 2 ^ 63 - 1 then (Inl (Validation ''workflow version out of range''), db)
                    else if version_at db i version \<noteq> None \<or> \<not> workflow_row_ok draft
                    then (Inl (Database ''constraint failed''), db)
                    else if version \<ge> 2 ^ 31 then (Inl (Validation ''workflow version out of range''), db)
                    else (Inr (definition_of row),
                          db\<lparr>wdb_versions := wdb_versions db @ [row],
                             wdb_workflows := upd_where (\<lambda>w. wk_id w = i)
                               (\<lambda>w. w\<lparr>wk_name := wd_name draft, wk_description := wd_description draft,
                                      wk_current_version := version, wk_updated_at := now\<rparr>)
                               (wdb_workflows db)\<rparr>))
             | None \<Rightarrow>
                 (let row = next_version_row checksum i 1 now draft in
                  if row_by wk_id i (wdb_workflows db) \<noteq> None \<or> version_at db i 1 \<noteq> None
                     \<or> \<not> workflow_row_ok draft
                  then (Inl (Database ''constraint failed''), db)
                  else (Inr (definition_of row),
                        db\<lparr>wdb_workflows := wdb_workflows db
                             @ [\<lparr>wk_id = i, wk_name = wd_name draft, wk_description = wd_description draft,
                                 wk_current_version = 1, wk_created_at = now, wk_updated_at = now\<rparr>],
                           wdb_versions := wdb_versions db @ [row]\<rparr>)))"

definition wf_get :: "uuid \<Rightarrow> int option \<Rightarrow> workflow_db \<Rightarrow> workflow_definition option" where
  "wf_get i version db =
     (case row_by wk_id i (wdb_workflows db) of
        None \<Rightarrow> None
      | Some w \<Rightarrow> map_option definition_of
          (version_at db i (case version of None \<Rightarrow> wk_current_version w | Some v \<Rightarrow> v)))"

text \<open>Deleting a workflow deletes its versions, unless a run refers to one of them.\<close>

definition wf_delete :: "uuid \<Rightarrow> (workflow_db, bool) st" where
  "wf_delete i db =
     (if row_by wk_id i (wdb_workflows db) = None then (Inr False, db)
      else if \<exists>run \<in> set (wdb_runs db). wr_workflow_id run = i
      then (Inl (Validation ''a workflow with runs cannot be deleted''), db)
      else (Inr True, db\<lparr>wdb_workflows := filter (\<lambda>w. wk_id w \<noteq> i) (wdb_workflows db),
                         wdb_versions := filter (\<lambda>v. wv_workflow_id v \<noteq> i) (wdb_versions db)\<rparr>))"

section \<open>Runs\<close>

definition get_run_record :: "uuid \<Rightarrow> workflow_db \<Rightarrow> workflow_run option" where
  "get_run_record i db = row_by wr_id i (wdb_runs db)"

definition create_run :: "uuid \<Rightarrow> int \<Rightarrow> string \<Rightarrow> uuid \<Rightarrow> int \<Rightarrow> (workflow_db, workflow_run) st" where
  "create_run workflow_id version server_id i now db =
     (if is_blank server_id \<or> version \<le> 0
      then (Inl (Validation ''incomplete workflow run''), db)
      else if server_id \<notin> set (wdb_servers db) \<or> version_at db workflow_id version = None
              \<or> get_run_record i db \<noteq> None
      then (Inl (Database ''constraint failed''), db)
      else
        (let row = \<lparr>wr_id = i, wr_workflow_id = workflow_id, wr_workflow_version = version,
                    wr_server_id = server_id, wr_status = WQueued, wr_current_node_id = None,
                    wr_created_at = now, wr_started_at = None, wr_finished_at = None,
                    wr_duration_ms = None, wr_error_category = None, wr_error_message = None,
                    wr_retryable = False\<rparr>
         in (Inr row, db\<lparr>wdb_runs := wdb_runs db @ [row]\<rparr>)))"

definition mark_run_running :: "uuid \<Rightarrow> uuid \<Rightarrow> int \<Rightarrow> (workflow_db, unit) st" where
  "mark_run_running run node now =
     expect_one (update_runs (\<lambda>r. wr_id r = run \<and> wr_status r = WQueued)
       (\<lambda>r. r\<lparr>wr_status := WRunning, wr_current_node_id := Some node, wr_started_at := Some now\<rparr>))
       ''workflow cannot start''"

definition set_current_node :: "uuid \<Rightarrow> uuid \<Rightarrow> (workflow_db, unit) st" where
  "set_current_node run node =
     expect_one (update_runs (\<lambda>r. wr_id r = run \<and> wr_status r = WRunning)
       (\<lambda>r. r\<lparr>wr_current_node_id := Some node\<rparr>)) ''workflow cannot proceed''"

definition attempts_of :: "uuid \<Rightarrow> uuid \<Rightarrow> workflow_db \<Rightarrow> int list" where
  "attempts_of run node db =
     map nr_attempt (filter (\<lambda>r. nr_run_id r = run \<and> nr_node_id r = node) (wdb_node_runs db))"

text \<open>\<open>COALESCE(MAX(attempt), 0) + 1\<close>\<close>

definition next_attempt :: "uuid \<Rightarrow> uuid \<Rightarrow> workflow_db \<Rightarrow> int" where
  "next_attempt run node db = foldr max (attempts_of run node db) 0 + 1"

definition insert_node_run ::
  "uuid \<Rightarrow> uuid \<Rightarrow> workflow_node_status \<Rightarrow> int option \<Rightarrow> (workflow_db, workflow_node_run) st" where
  "insert_node_run run node status started db =
     (let row = \<lparr>nr_run_id = run, nr_node_id = node, nr_attempt = next_attempt run node db,
                 nr_status = status, nr_execution_id = None, nr_started_at = started,
                 nr_finished_at = None, nr_duration_ms = None, nr_exit_code = None, nr_result = None,
                 nr_output_summary = None, nr_error_message = None, nr_retryable = False\<rparr>
      in if \<not> node_row_ok db row then (Inl (Database ''constraint failed''), db)
         else let db' = db\<lparr>wdb_node_runs := wdb_node_runs db @ [row]\<rparr>
              in if next_attempt run node db \<ge> 2 ^ 31
                 then (Inl (Validation ''node attempts out of range''), db')
                 else (Inr row, db'))"

definition start_node_attempt :: "uuid \<Rightarrow> uuid \<Rightarrow> int \<Rightarrow> (workflow_db, workflow_node_run) st" where
  "start_node_attempt run node now = insert_node_run run node NRunning (Some now)"

definition record_skipped_node :: "uuid \<Rightarrow> uuid \<Rightarrow> (workflow_db, workflow_node_run) st" where
  "record_skipped_node run node = insert_node_run run node NSkipped None"

record finish_workflow_run =
  fr_run_id :: uuid
  fr_status :: workflow_run_status
  fr_finished_at :: int
  fr_error_category :: "string option"
  fr_error_message :: "string option"
  fr_retryable :: bool

definition finish_run :: "finish_workflow_run \<Rightarrow> (workflow_db, unit) st" where
  "finish_run fin =
     (if fr_status fin \<notin> {WPaused, WSucceeded, WCancelled, WUncertain}
      then fail_st (Validation ''invalid workflow result status'')
      else expect_one (update_runs (\<lambda>r. wr_id r = fr_run_id fin \<and> wr_status r = WRunning)
             (\<lambda>r. r\<lparr>wr_status := fr_status fin, wr_finished_at := Some (fr_finished_at fin),
                    wr_duration_ms := Some (elapsed (wr_started_at r) (fr_finished_at fin)),
                    wr_error_category := fr_error_category fin,
                    wr_error_message := cap_utf8 (fr_error_message fin) (8 * 1024),
                    wr_retryable := fr_retryable fin\<rparr>)) ''workflow cannot end'')"

definition resume_paused_run :: "uuid \<Rightarrow> int \<Rightarrow> (workflow_db, unit) st" where
  "resume_paused_run run now =
     expect_one (update_runs (\<lambda>r. wr_id r = run \<and> wr_status r = WPaused \<and> wr_retryable r)
       (\<lambda>r. r\<lparr>wr_status := WRunning, wr_started_at := Some now, wr_finished_at := None,
              wr_duration_ms := None, wr_error_category := None, wr_error_message := None,
              wr_retryable := False\<rparr>)) ''only a retryable paused workflow can resume''"

definition node_key :: "uuid \<Rightarrow> uuid \<Rightarrow> int \<Rightarrow> workflow_node_run \<Rightarrow> bool" where
  "node_key run node attempt r \<longleftrightarrow> nr_run_id r = run \<and> nr_node_id r = node \<and> nr_attempt r = attempt"

definition link_node_execution :: "uuid \<Rightarrow> uuid \<Rightarrow> int \<Rightarrow> uuid \<Rightarrow> (workflow_db, unit) st" where
  "link_node_execution run node attempt execution =
     expect_one (update_node_runs (\<lambda>r. node_key run node attempt r \<and> nr_status r = NRunning)
       (\<lambda>r. r\<lparr>nr_execution_id := Some execution\<rparr>)) ''node execution cannot be stored''"

record finish_workflow_node =
  fn_run_id :: uuid
  fn_node_id :: uuid
  fn_attempt :: int
  fn_status :: workflow_node_status
  fn_finished_at :: int
  fn_exit_code :: "int option"
  fn_result :: "json option"
  fn_output_summary :: "string option"
  fn_error_message :: "string option"
  fn_retryable :: bool

definition finish_node :: "(json \<Rightarrow> string) \<Rightarrow> finish_workflow_node \<Rightarrow> (workflow_db, unit) st" where
  "finish_node render fin =
     (if \<not> node_is_terminal (fn_status fin) then fail_st (Validation ''invalid final node status'')
      else if (case fn_result fin of None \<Rightarrow> False | Some v \<Rightarrow> length (render v) > 32 * 1024)
      then fail_st (Validation ''structured node result above 32 KiB'')
      else expect_one (update_node_runs
             (\<lambda>r. node_key (fn_run_id fin) (fn_node_id fin) (fn_attempt fin) r \<and> nr_status r = NRunning)
             (\<lambda>r. r\<lparr>nr_status := fn_status fin, nr_finished_at := Some (fn_finished_at fin),
                    nr_duration_ms := Some (elapsed (nr_started_at r) (fn_finished_at fin)),
                    nr_exit_code := fn_exit_code fin, nr_result := fn_result fin,
                    nr_output_summary := cap_utf8 (fn_output_summary fin) (8 * 1024),
                    nr_error_message := cap_utf8 (fn_error_message fin) (8 * 1024),
                    nr_retryable := fn_retryable fin\<rparr>)) ''node cannot reach a final status'')"

definition finish_rollback_run :: "uuid \<Rightarrow> bool \<Rightarrow> string option \<Rightarrow> int \<Rightarrow> (workflow_db, unit) st" where
  "finish_rollback_run run succeeded message now =
     expect_one (update_runs
       (\<lambda>r. wr_id r = run
            \<and> wr_status r \<in> {WPaused, WSucceeded, WCancelled, WUncertain, WRollbackFailed})
       (\<lambda>r. r\<lparr>wr_status := (if succeeded then WRolledBack else WRollbackFailed),
              wr_finished_at := Some now,
              wr_error_category := (if succeeded then None else Some ''rollback''),
              wr_error_message := cap_utf8 message (8 * 1024), wr_retryable := \<not> succeeded\<rparr>))
       ''workflow status does not allow a rollback''"

definition append_event ::
  "(json \<Rightarrow> string) \<Rightarrow> uuid \<Rightarrow> string \<Rightarrow> json \<Rightarrow> int \<Rightarrow> (workflow_db, workflow_run_event) st" where
  "append_event render run event_type payload emitted_at db =
     (if is_blank event_type \<or> length event_type > 100
      then (Inl (Validation ''invalid workflow event type''), db)
      else if length (render payload) > 32 * 1024
      then (Inl (Validation ''workflow event above 32 KiB''), db)
      else if get_run_record run db = None then (Inl (Database ''constraint failed''), db)
      else
        (let row = \<lparr>wev_run_id = run,
                    wev_sequence = foldr max (map wev_sequence
                      (filter (\<lambda>e. wev_run_id e = run) (wdb_events db))) 0 + 1,
                    wev_event_type = event_type, wev_payload = payload, wev_emitted_at = emitted_at\<rparr>
         in (Inr row, db\<lparr>wdb_events := wdb_events db @ [row]\<rparr>)))"

section \<open>Restore points\<close>

text \<open>\<open>check_path\<close> is \<open>validate_restore_point_relative_path\<close> of \<^verbatim>\<open>core/workflows/restore_paths.rs\<close>.\<close>

record new_restore_point =
  nrp_run_id :: uuid
  nrp_node_id :: uuid
  nrp_remote_path :: string
  nrp_relative_path :: "string option"
  nrp_applicability :: json

definition create_restore_point ::
  "(json \<Rightarrow> string) \<Rightarrow> (string \<Rightarrow> unit app_result) \<Rightarrow> new_restore_point \<Rightarrow> uuid \<Rightarrow> int
   \<Rightarrow> (workflow_db, workflow_restore_point) st" where
  "create_restore_point render check_path draft i now =
     bind_st (read_st (\<lambda>_. validate_remote_path (nrp_remote_path draft))) (\<lambda>_.
     bind_st (read_st (\<lambda>_. transpose_opt check_path (nrp_relative_path draft))) (\<lambda>_ db.
       if length (render (nrp_applicability draft)) > 8 * 1024
       then (Inl (Validation ''restore point conditions above 8 KiB''), db)
       else if get_run_record (nrp_run_id draft) db = None
               \<or> row_by rp_id i (wdb_restore_points db) \<noteq> None
       then (Inl (Database ''constraint failed''), db)
       else
         (let row = \<lparr>rp_id = i, rp_run_id = nrp_run_id draft, rp_node_id = nrp_node_id draft,
                     rp_remote_path = nrp_remote_path draft, rp_relative_path = nrp_relative_path draft,
                     rp_original_existed = False, rp_size_bytes = None, rp_sha256 = None,
                     rp_status = RCreating, rp_applicability = nrp_applicability draft,
                     rp_error_message = None, rp_created_at = now, rp_updated_at = now\<rparr>
          in (Inr row, db\<lparr>wdb_restore_points := wdb_restore_points db @ [row]\<rparr>))))"

record finish_restore =
  frp_id :: uuid
  frp_status :: restore_point_status
  frp_original_existed :: bool
  frp_relative_path :: "string option"
  frp_size_bytes :: "u64 option"
  frp_sha256 :: "string option"
  frp_error_message :: "string option"

definition is_sha256_text :: "string \<Rightarrow> bool" where
  "is_sha256_text hash \<longleftrightarrow> length hash = 64 \<and>
     list_all (\<lambda>c. is_ascii_digit c \<or> ascii_lower c \<in> set ''abcdef'') hash"

text \<open>The \<open>match\<close> on the final status, which normalises the columns that are stored.\<close>

definition normalize_restore :: "finish_restore \<Rightarrow> finish_restore app_result" where
  "normalize_restore fin =
     (if frp_status fin = RAvailable \<and> frp_original_existed fin then
        (if frp_relative_path fin = None \<or> frp_size_bytes fin = None
            \<or> \<not> (case frp_sha256 fin of None \<Rightarrow> False | Some hash \<Rightarrow> is_sha256_text hash)
         then Inl (Validation ''restore point lacks its path, size or SHA-256'')
         else Inr (fin\<lparr>frp_error_message := None\<rparr>))
      else if frp_status fin = RAvailable then
        Inr (fin\<lparr>frp_relative_path := None, frp_size_bytes := None, frp_sha256 := None,
                 frp_error_message := None\<rparr>)
      else
        Inr (fin\<lparr>frp_original_existed := False, frp_relative_path := None, frp_size_bytes := None,
                 frp_sha256 := None,
                 frp_error_message := (if frp_error_message fin \<in> {None, Some []}
                                       then Some ''restore point creation failed''
                                       else frp_error_message fin)\<rparr>))"

definition finish_restore_point ::
  "(string \<Rightarrow> unit app_result) \<Rightarrow> finish_restore \<Rightarrow> int \<Rightarrow> (workflow_db, unit) st" where
  "finish_restore_point check_path fin now =
     (if frp_status fin \<notin> {RAvailable, RFailed}
      then fail_st (Validation ''invalid restore point status'')
      else
        bind_st (read_st (\<lambda>_. transpose_opt check_path (frp_relative_path fin))) (\<lambda>_.
        bind_st (read_st (\<lambda>_. normalize_restore fin)) (\<lambda>norm.
        bind_st (read_st (\<lambda>_. transpose_opt (\<lambda>v. to_i64 v ''restore point size'') (frp_size_bytes norm))) (\<lambda>size_bytes.
          expect_one (update_points (\<lambda>r. rp_id r = frp_id norm \<and> rp_status r = RCreating)
            (\<lambda>r. r\<lparr>rp_status := frp_status norm, rp_original_existed := frp_original_existed norm,
                   rp_relative_path := frp_relative_path norm, rp_size_bytes := size_bytes,
                   rp_sha256 := frp_sha256 norm,
                   rp_error_message := cap_utf8 (frp_error_message norm) (8 * 1024),
                   rp_updated_at := now\<rparr>)) ''restore point cannot be completed''))))"

definition get_restore_point :: "uuid \<Rightarrow> workflow_db \<Rightarrow> workflow_restore_point option" where
  "get_restore_point i db = row_by rp_id i (wdb_restore_points db)"

definition list_restore_points :: "uuid \<Rightarrow> workflow_db \<Rightarrow> workflow_restore_point list" where
  "list_restore_points run db =
     sort_key (\<lambda>r. (rp_created_at r, rp_id r)) (filter (\<lambda>r. rp_run_id r = run) (wdb_restore_points db))"

definition mark_restore_point_rolling_back :: "uuid \<Rightarrow> int \<Rightarrow> (workflow_db, unit) st" where
  "mark_restore_point_rolling_back i now =
     expect_one (update_points (\<lambda>r. rp_id r = i \<and> rp_status r = RAvailable)
       (\<lambda>r. r\<lparr>rp_status := RRollingBack, rp_error_message := None, rp_updated_at := now\<rparr>))
       ''restore point cannot be rolled back''"

definition finish_restore_point_rollback ::
  "uuid \<Rightarrow> bool \<Rightarrow> string option \<Rightarrow> int \<Rightarrow> (workflow_db, unit) st" where
  "finish_restore_point_rollback i succeeded error_message now =
     expect_one (update_points (\<lambda>r. rp_id r = i \<and> rp_status r = RRollingBack)
       (\<lambda>r. r\<lparr>rp_status := (if succeeded then RRolledBack else RFailed),
              rp_error_message := cap_utf8 error_message (8 * 1024), rp_updated_at := now\<rparr>))
       ''restore point is not being rolled back''"

definition expire_restore_point :: "uuid \<Rightarrow> int \<Rightarrow> (workflow_db, bool) st" where
  "expire_restore_point i now =
     bind_st (update_points (\<lambda>r. rp_id r = i \<and> rp_status r \<in> {RAvailable, RFailed, RRolledBack})
       (\<lambda>r. r\<lparr>rp_status := RExpired, rp_updated_at := now\<rparr>)) (\<lambda>n. ret_st (n = 1))"

section \<open>Reading and recovering\<close>

record workflow_run_details =
  det_run :: workflow_run
  det_node_runs :: "workflow_node_run list"
  det_restore_points :: "workflow_restore_point list"
  det_events :: "workflow_run_event list"

definition get_run :: "uuid \<Rightarrow> workflow_db \<Rightarrow> workflow_run_details option" where
  "get_run run db = map_option (\<lambda>r.
     \<lparr>det_run = r,
      det_node_runs = sort_key (\<lambda>n. (nr_started_at n, nr_node_id n, nr_attempt n))
        (filter (\<lambda>n. nr_run_id n = run) (wdb_node_runs db)),
      det_restore_points = list_restore_points run db,
      det_events = sort_key wev_sequence (filter (\<lambda>e. wev_run_id e = run) (wdb_events db))\<rparr>)
     (get_run_record run db)"

definition wf_recover_interrupted :: "int \<Rightarrow> (workflow_db, nat \<times> nat) st" where
  "wf_recover_interrupted now =
     bind_st (update_node_runs (\<lambda>r. nr_status r = NRunning)
       (\<lambda>r. r\<lparr>nr_status := NUncertain, nr_finished_at := Some now,
              nr_duration_ms := Some (elapsed (nr_started_at r) now),
              nr_error_message := Some ''remote node status not confirmed when the application exited'',
              nr_retryable := True\<rparr>)) (\<lambda>nodes.
     bind_st (update_runs (\<lambda>r. wr_status r = WRunning)
       (\<lambda>r. r\<lparr>wr_status := WUncertain, wr_finished_at := Some now,
              wr_duration_ms := Some (elapsed (wr_started_at r) now),
              wr_error_category := Some ''interrupted'',
              wr_error_message := Some ''remote workflow status not confirmed when the application exited'',
              wr_retryable := True\<rparr>)) (\<lambda>runs.
       ret_st (runs, nodes)))"

end
