(* ===== verification/Workflow_Run.thy ===== *)
theory Workflow_Run
  imports Workflow_Repo
begin

text \<open>
  Running a workflow: \<^verbatim>\<open>src-tauri/src/services/workflow_service.rs\<close>, the registry of active runs
  (\<^verbatim>\<open>services/workflow_registry.rs\<close>) and the node adapters (\<^verbatim>\<open>services/workflow_nodes\<close>). The
  world is the database, the registry, the events that reached the sink and a counter that
  numbers the readings of the environment. The environment holds the clock, the JSON library,
  the sink, the user's cancel requests, and the services a remote node calls.
\<close>

section \<open>Registry of active runs\<close>

record active_run =
  ar_cancelled :: bool
  ar_child :: "uuid option"

type_synonym run_registry = "uuid \<rightharpoonup> active_run"

definition registry_register :: "uuid \<Rightarrow> (run_registry, unit) st" where
  "registry_register run reg =
     (if reg run \<noteq> None then (Inl (Validation ''workflow run already registered''), reg)
      else (Inr (), reg(run \<mapsto> \<lparr>ar_cancelled = False, ar_child = None\<rparr>)))"

definition registry_set_child :: "uuid \<Rightarrow> uuid \<Rightarrow> (run_registry, unit) st" where
  "registry_set_child run execution reg =
     (case reg run of
        None \<Rightarrow> (Inl (Validation ''workflow run is not registered''), reg)
      | Some a \<Rightarrow>
          if ar_child a \<noteq> None then (Inl (Validation ''workflow already has a running child''), reg)
          else (Inr (), reg(run \<mapsto> a\<lparr>ar_child := Some execution\<rparr>)))"

definition registry_clear_child :: "uuid \<Rightarrow> uuid \<Rightarrow> (run_registry, unit) st" where
  "registry_clear_child run execution reg =
     (case reg run of
        None \<Rightarrow> (Inl (Validation ''workflow run is not registered''), reg)
      | Some a \<Rightarrow>
          if ar_child a \<noteq> Some execution then (Inl (Validation ''child execution does not match''), reg)
          else (Inr (), reg(run \<mapsto> a\<lparr>ar_child := None\<rparr>)))"

definition registry_current_child :: "uuid \<Rightarrow> run_registry \<Rightarrow> uuid option" where
  "registry_current_child run reg = (case reg run of None \<Rightarrow> None | Some a \<Rightarrow> ar_child a)"

definition registry_cancel :: "uuid \<Rightarrow> (run_registry, uuid option) st" where
  "registry_cancel run reg =
     (case reg run of
        None \<Rightarrow> (Inl (Validation ''workflow run is not registered''), reg)
      | Some a \<Rightarrow> (Inr (ar_child a), reg(run \<mapsto> a\<lparr>ar_cancelled := True\<rparr>)))"

definition registry_remove :: "uuid \<Rightarrow> (run_registry, unit) st" where
  "registry_remove run reg = (Inr (), reg(run := None))"

text \<open>\<open>ChildTrackingSink\<close>: the child it holds, after the events it has passed on.\<close>

definition child_send :: "uuid \<Rightarrow> execution_event_payload \<Rightarrow> (run_registry \<times> uuid option, unit) st" where
  "child_send run payload s =
     (case (payload, s) of
        (Started execution _, (reg, child)) \<Rightarrow>
          (case registry_set_child run execution reg of
             (Inl e, reg') \<Rightarrow> (Inl e, (reg', child))
           | (Inr _, reg') \<Rightarrow> (Inr (), (reg', Some execution)))
      | (Finished _ _ _ _, (reg, Some c)) \<Rightarrow>
          (case registry_clear_child run c reg of (r, reg') \<Rightarrow> (r, (reg', None)))
      | (Failed _ _ _, (reg, Some c)) \<Rightarrow>
          (case registry_clear_child run c reg of (r, reg') \<Rightarrow> (r, (reg', None)))
      | _ \<Rightarrow> (Inr (), s))"

section \<open>World and environment\<close>

record workflow_event =
  we_sequence :: u64
  we_emitted_at :: int
  we_payload :: workflow_event_payload

record run_world =
  w_db :: workflow_db
  w_registry :: run_registry
  w_sent :: "workflow_event list"
  w_tick :: nat

record node_outcome =
  no_execution_id :: uuid
  no_task_id :: string
  no_status :: workflow_node_status
  no_exit_code :: "int option"
  no_result :: "json option"
  no_output_summary :: "string option"
  no_error_category :: "string option"
  no_error_message :: "string option"
  no_retryable :: bool
  no_files :: "execution_file list"

text \<open>
  A service returns its result, the event payloads it sent, and the child execution that the
  tracking sink still holds; \<open>env_cancels\<close> says whether the user has asked to cancel the run by
  the time of a reading.
\<close>

type_synonym service_reply = "execution_details app_result \<times> execution_event_payload list \<times> uuid option"

record run_env =
  env_clock :: "nat \<Rightarrow> int"
  env_fresh :: "nat \<Rightarrow> uuid"
  env_cancels :: "nat \<Rightarrow> bool"
  env_encode :: "workflow_event_payload \<Rightarrow> json option"
  env_redact :: "json \<Rightarrow> json"
  env_decode :: "json \<Rightarrow> workflow_event_payload option"
  env_render :: "json \<Rightarrow> string"
  env_sink :: "workflow_event list \<Rightarrow> workflow_event \<Rightarrow> unit app_result"
  env_task_known :: "string \<Rightarrow> int \<Rightarrow> unit app_result"
  env_service :: "uuid \<Rightarrow> string \<Rightarrow> workflow_node_config \<Rightarrow> bool \<Rightarrow> run_world \<Rightarrow> service_reply \<times> run_world"
  env_capture :: "uuid \<Rightarrow> uuid \<Rightarrow> string \<Rightarrow> string \<Rightarrow> (run_world, workflow_restore_point) st"
  env_os :: host_os
  env_check_task :: task_check
  env_keys :: "workflow_node list \<Rightarrow> uuid list"
  env_trusted :: "string \<Rightarrow> unit app_result"
  env_dangerous_task :: "string \<Rightarrow> bool"
  env_connect :: "string \<Rightarrow> (string \<Rightarrow> int \<Rightarrow> unit app_result) app_result"

definition on_db :: "(workflow_db, 'a) st \<Rightarrow> (run_world, 'a) st" where
  "on_db m w = (case m (w_db w) of (r, db) \<Rightarrow> (r, w\<lparr>w_db := db\<rparr>))"

definition on_registry :: "(run_registry, 'a) st \<Rightarrow> (run_world, 'a) st" where
  "on_registry m w = (case m (w_registry w) of (r, reg) \<Rightarrow> (r, w\<lparr>w_registry := reg\<rparr>))"

definition now_millis :: "run_env \<Rightarrow> (run_world, int) st" where
  "now_millis env w = (Inr (env_clock env (w_tick w)), w\<lparr>w_tick := Suc (w_tick w)\<rparr>)"

definition new_uuid :: "run_env \<Rightarrow> (run_world, uuid) st" where
  "new_uuid env w = (Inr (env_fresh env (w_tick w)), w\<lparr>w_tick := Suc (w_tick w)\<rparr>)"

text \<open>
  The test \<open>cancel.is_cancelled()\<close>. A request of the user that has come in since the last test is
  the call of \<open>registry_cancel\<close> it makes.
\<close>

definition is_cancelled :: "run_env \<Rightarrow> uuid \<Rightarrow> run_world \<Rightarrow> bool \<times> run_world" where
  "is_cancelled env run w =
     (let reg = (if env_cancels env (w_tick w) then snd (registry_cancel run (w_registry w))
                 else w_registry w);
          w' = w\<lparr>w_registry := reg, w_tick := Suc (w_tick w)\<rparr>
      in (case reg run of None \<Rightarrow> False | Some a \<Rightarrow> ar_cancelled a, w'))"

section \<open>Events\<close>

definition emit :: "run_env \<Rightarrow> uuid \<Rightarrow> workflow_event_payload \<Rightarrow> (run_world, unit) st" where
  "emit env run payload =
     (case env_encode env payload of
        None \<Rightarrow> fail_st (Serialization ''workflow event cannot be serialised'')
      | Some raw \<Rightarrow>
          (let redacted = env_redact env raw in
           case Option.bind (json_get redacted ''type'') json_as_str of
             None \<Rightarrow> fail_st (Serialization ''workflow event has no type'')
           | Some event_type \<Rightarrow>
               bind_st (now_millis env) (\<lambda>emitted_at.
               bind_st (on_db (append_event (env_render env) run event_type redacted emitted_at)) (\<lambda>persisted.
                 case env_decode env redacted of
                   None \<Rightarrow> fail_st (Serialization ''redacted workflow event is invalid'')
                 | Some payload' \<Rightarrow>
                     if wev_sequence persisted < 0 then fail_st (Validation ''invalid event sequence'')
                     else (\<lambda>w.
                       let event = \<lparr>we_sequence = of_int (wev_sequence persisted),
                                    we_emitted_at = emitted_at, we_payload = payload'\<rparr>
                       in case env_sink env (w_sent w) event of
                            Inl e \<Rightarrow> (Inl e, w)
                          | Inr _ \<Rightarrow> (Inr (), w\<lparr>w_sent := w_sent w @ [event]\<rparr>))))))"

section \<open>Nodes\<close>

record step_outcome =
  so_status :: workflow_node_status
  so_execution_id :: "uuid option"
  so_exit_code :: "int option"
  so_result :: "json option"
  so_output_summary :: "string option"
  so_error_category :: "string option"
  so_error_message :: "string option"
  so_retryable :: bool
  so_condition_result :: "bool option"

definition step_succeeded :: "string \<Rightarrow> json option \<Rightarrow> step_outcome" where
  "step_succeeded output_summary res =
     \<lparr>so_status = NSucceeded, so_execution_id = None, so_exit_code = Some 0, so_result = res,
      so_output_summary = Some output_summary, so_error_category = None, so_error_message = None,
      so_retryable = False, so_condition_result = None\<rparr>"

definition step_failed :: "app_error \<Rightarrow> step_outcome" where
  "step_failed e =
     \<lparr>so_status = NFailed, so_execution_id = None, so_exit_code = None, so_result = None,
      so_output_summary = None, so_error_category = Some (code e), so_error_message = Some (display e),
      so_retryable = retryable_error e, so_condition_result = None\<rparr>"

definition step_of_outcome :: "node_outcome \<Rightarrow> step_outcome" where
  "step_of_outcome v =
     \<lparr>so_status = no_status v, so_execution_id = Some (no_execution_id v),
      so_exit_code = no_exit_code v, so_result = no_result v, so_output_summary = no_output_summary v,
      so_error_category = no_error_category v, so_error_message = no_error_message v,
      so_retryable = no_retryable v, so_condition_result = None\<rparr>"

definition cancelled_outcome :: step_outcome where
  "cancelled_outcome =
     \<lparr>so_status = NCancelled, so_execution_id = None, so_exit_code = None, so_result = None,
      so_output_summary = None, so_error_category = Some ''cancelled'',
      so_error_message = Some (display Cancelled), so_retryable = False, so_condition_result = None\<rparr>"

text \<open>\<open>map_execution_details\<close> and \<open>ResultCapture\<close> of \<^verbatim>\<open>workflow_nodes/mod.rs\<close>.\<close>

fun node_status_of :: "execution_status \<Rightarrow> workflow_node_status app_result" where
  "node_status_of ESucceeded = Inr NSucceeded"
| "node_status_of EFailed = Inr NFailed"
| "node_status_of ECancelled = Inr NCancelled"
| "node_status_of EUncertain = Inr NUncertain"
| "node_status_of EQueued = Inl (RemoteStateUncertain ''child execution not final when it returned'')"
| "node_status_of ERunning = Inl (RemoteStateUncertain ''child execution not final when it returned'')"

definition map_execution_details :: "execution_details \<Rightarrow> json option \<Rightarrow> node_outcome app_result" where
  "map_execution_details details res =
     (let r = ed_record details in
      map_res (\<lambda>status.
        \<lparr>no_execution_id = er_id r, no_task_id = er_task_id r, no_status = status,
         no_exit_code = er_exit_code r, no_result = res, no_output_summary = er_output_summary r,
         no_error_category = er_error_category r, no_error_message = er_error_message r,
         no_retryable = er_retryable r, no_files = ed_files details\<rparr>) (node_status_of (er_status r)))"

fun captured_result :: "json option \<Rightarrow> execution_event_payload list \<Rightarrow> json option" where
  "captured_result res [] = res"
| "captured_result res (Finished _ _ _ v # ps) = captured_result v ps"
| "captured_result res (_ # ps) = captured_result res ps"

text \<open>
  The two adapters with the tracking sink around them: the service is called, the sink releases
  a child it still holds, and the details of the execution become the outcome of the node.
\<close>

definition adapter_check :: "run_env \<Rightarrow> workflow_node_config \<Rightarrow> unit app_result" where
  "adapter_check env config =
     (case config of NTask task_id task_version _ \<Rightarrow> env_task_known env task_id task_version | _ \<Rightarrow> Inr ())"

definition adapter_outcome ::
  "workflow_node_config \<Rightarrow> execution_details app_result \<Rightarrow> execution_event_payload list \<Rightarrow> node_outcome app_result"
where
  "adapter_outcome config details events =
     bind_res details (\<lambda>d. bind_res (map_execution_details d (captured_result None events)) (\<lambda>outcome.
       if no_status outcome = NSucceeded \<and> (case config of NDownload _ _ _ \<Rightarrow> True | _ \<Rightarrow> False)
          \<and> no_files outcome = []
       then Inl (Integrity ''download succeeded without a verified file'') else Inr outcome))"

definition run_adapter ::
  "run_env \<Rightarrow> uuid \<Rightarrow> string \<Rightarrow> bool \<Rightarrow> workflow_node_config \<Rightarrow> run_world \<Rightarrow> step_outcome \<times> run_world" where
  "run_adapter env run server_id confirmed config w =
     (case adapter_check env config of
        Inl e \<Rightarrow> (step_failed e, w)
      | Inr _ \<Rightarrow>
          (case env_service env run server_id config confirmed w of
             ((details, events, child), w1) \<Rightarrow>
               (case (case child of
                        None \<Rightarrow> (Inr (), w1)
                      | Some c \<Rightarrow> on_registry (registry_clear_child run c) w1) of
                  (Inl e, w2) \<Rightarrow> (step_failed e, w2)
                | (Inr _, w2) \<Rightarrow>
                    (case adapter_outcome config details events of
                       Inl e \<Rightarrow> step_failed e | Inr v \<Rightarrow> step_of_outcome v, w2))))"

type_synonym contexts = "uuid \<rightharpoonup> condition_context"

definition execute_condition :: "contexts \<Rightarrow> uuid \<Rightarrow> workflow_condition \<Rightarrow> step_outcome" where
  "execute_condition ctxs source predicate =
     (case (case ctxs source of
              None \<Rightarrow> Inl (Validation ''condition source has no result yet'')
            | Some ctx \<Rightarrow> evaluate_condition predicate ctx) of
        Inl e \<Rightarrow> step_failed e
      | Inr v \<Rightarrow>
          (step_succeeded (if v then ''condition is true'' else ''condition is false'')
             (Some (JObject [(''value'', JBool v)])))\<lparr>so_condition_result := Some v\<rparr>)"

definition execute_node ::
  "run_env \<Rightarrow> uuid \<Rightarrow> string \<Rightarrow> bool \<Rightarrow> contexts \<Rightarrow> workflow_node \<Rightarrow> run_world \<Rightarrow> step_outcome \<times> run_world" where
  "execute_node env run server_id confirmed ctxs n w =
     (case wn_config n of
        NStart \<Rightarrow> (step_succeeded ''workflow started'' (Some (JObject [(''started'', JBool True)])), w)
      | NStop message \<Rightarrow> (step_succeeded message (Some (JObject [(''stopped'', JBool True)])), w)
      | NCondition source predicate \<Rightarrow> (execute_condition ctxs source predicate, w)
      | NUpload local_path remote_path overwrite with_restore_point \<Rightarrow>
          (let upload = NUpload local_path remote_path overwrite False in
           if with_restore_point then
             (case env_capture env run (wn_id n) server_id remote_path w of
                (Inl e, w1) \<Rightarrow> (step_failed e, w1)
              | (Inr point, w1) \<Rightarrow>
                  (case emit env run (RestorePointChanged run (wn_id n) (rp_id point)
                           (restore_status_as_str (rp_status point))) w1 of
                     (Inl e, w2) \<Rightarrow> (step_failed e, w2)
                   | (Inr _, w2) \<Rightarrow> run_adapter env run server_id confirmed upload w2))
           else run_adapter env run server_id confirmed upload w)
      | config \<Rightarrow> run_adapter env run server_id confirmed config w)"

section \<open>The run loop\<close>

definition next_node :: "workflow_definition \<Rightarrow> uuid \<Rightarrow> bool option \<Rightarrow> uuid option app_result" where
  "next_node v current condition_result =
     (let branch = (case condition_result of None \<Rightarrow> BSuccess | Some b \<Rightarrow> if b then BTrue else BFalse);
          matches = filter (\<lambda>e. we_from e = current \<and> we_branch e = branch) (wf_edges v)
      in if length matches > 1 then Inl (Validation ''next workflow node is not unique'')
         else Inr (case matches of [] \<Rightarrow> None | e # _ \<Rightarrow> Some (we_to e)))"

text \<open>The loop over the nodes that were not visited.\<close>

fun record_skipped :: "run_env \<Rightarrow> uuid \<Rightarrow> uuid set \<Rightarrow> workflow_node list \<Rightarrow> (run_world, unit) st" where
  "record_skipped env run visited [] = ret_st ()"
| "record_skipped env run visited (n # ns) =
     (if wn_id n \<in> visited then record_skipped env run visited ns
      else
        bind_st (on_db (record_skipped_node run (wn_id n))) (\<lambda>row.
        bind_st (emit env run (NodeStatusChanged run (wn_id n) (nr_attempt row) NSkipped None
                   (Some ''branch not selected''))) (\<lambda>_.
        record_skipped env run visited ns)))"

definition require_run :: "uuid \<Rightarrow> (run_world, workflow_run_details) st" where
  "require_run run = read_st (\<lambda>w.
     case get_run run (w_db w) of None \<Rightarrow> Inl (Database ''row not found'') | Some d \<Rightarrow> Inr d)"

definition service_finish_run ::
  "run_env \<Rightarrow> uuid \<Rightarrow> workflow_run_status \<Rightarrow> string option \<Rightarrow> string option \<Rightarrow> bool \<Rightarrow> (run_world, unit) st" where
  "service_finish_run env run status error_category error_message retryable =
     bind_st (now_millis env) (\<lambda>t.
     bind_st (on_db (finish_run
       \<lparr>fr_run_id = run, fr_status = status, fr_finished_at = t, fr_error_category = error_category,
        fr_error_message = error_message, fr_retryable = retryable\<rparr>)) (\<lambda>_.
     bind_st (emit env run (RunStatusChanged run status error_message)) (\<lambda>_.
     bind_st (read_st (\<lambda>w. Inr (case get_run run (w_db w) of
                 None \<Rightarrow> 0
               | Some d \<Rightarrow> (case wr_duration_ms (det_run d) of None \<Rightarrow> 0 | Some ms \<Rightarrow> of_int ms))))
       (\<lambda>duration_ms. emit env run (RunFinished run status duration_ms)))))"

fun run_status_after :: "workflow_node_status \<Rightarrow> workflow_run_status" where
  "run_status_after NFailed = WPaused"
| "run_status_after NCancelled = WCancelled"
| "run_status_after NUncertain = WUncertain"
| "run_status_after _ = WPaused"

definition context_of :: "step_outcome \<Rightarrow> condition_context" where
  "context_of v = \<lparr>cc_exit_code = so_exit_code v, cc_result = so_result v,
                   cc_output_summary = so_output_summary v\<rparr>"

text \<open>What one iteration of the loop needs to know of the run.\<close>

record run_frame =
  rf_definition :: workflow_definition
  rf_run :: uuid
  rf_server_id :: string
  rf_confirmed :: bool

definition node_attempt ::
  "run_env \<Rightarrow> run_frame \<Rightarrow> contexts \<Rightarrow> uuid \<Rightarrow> (run_world, step_outcome) st" where
  "node_attempt env fr ctxs current =
     (let run = rf_run fr in
      bind_st (on_db (set_current_node run current)) (\<lambda>_.
      bind_st (read_st (\<lambda>_. case find (\<lambda>n. wn_id n = current) (wf_nodes (rf_definition fr)) of
                              None \<Rightarrow> Inl (Validation ''workflow node does not exist'') | Some n \<Rightarrow> Inr n)) (\<lambda>n.
      bind_st (now_millis env) (\<lambda>started.
      bind_st (on_db (start_node_attempt run current started)) (\<lambda>row.
      bind_st (emit env run (NodeStarted run current (nr_attempt row))) (\<lambda>_.
      bind_st (\<lambda>w. case is_cancelled env run w of (stop, w1) \<Rightarrow>
                 if stop then (Inr cancelled_outcome, w1)
                 else (case execute_node env run (rf_server_id fr) (rf_confirmed fr) ctxs n w1 of
                         (v, w2) \<Rightarrow> (Inr v, w2))) (\<lambda>outcome.
      bind_st (case so_execution_id outcome of
                 None \<Rightarrow> ret_st ()
               | Some e \<Rightarrow> on_db (link_node_execution run current (nr_attempt row) e)) (\<lambda>_.
      bind_st (now_millis env) (\<lambda>finished.
      bind_st (on_db (finish_node (env_render env)
        \<lparr>fn_run_id = run, fn_node_id = current, fn_attempt = nr_attempt row,
         fn_status = so_status outcome, fn_finished_at = finished, fn_exit_code = so_exit_code outcome,
         fn_result = so_result outcome, fn_output_summary = so_output_summary outcome,
         fn_error_message = so_error_message outcome, fn_retryable = so_retryable outcome\<rparr>)) (\<lambda>_.
      bind_st (emit env run (NodeStatusChanged run current (nr_attempt row) (so_status outcome)
                 (so_execution_id outcome) (so_error_message outcome))) (\<lambda>_.
      ret_st outcome)))))))))))"

datatype turn = TurnEnd workflow_run_details | TurnNext uuid

text \<open>
  The rest of an iteration. \<open>settle\<close> is what follows \<open>finish_run\<close>: \<open>run\<close> removes the run from the
  registry there, \<open>continue_retry\<close> leaves that to its caller.
\<close>

definition after_node ::
  "run_env \<Rightarrow> run_frame \<Rightarrow> (run_world, unit) st \<Rightarrow> uuid set \<Rightarrow> uuid \<Rightarrow> step_outcome \<Rightarrow> (run_world, turn) st" where
  "after_node env fr settle visited current outcome =
     (let run = rf_run fr in
      if so_status outcome \<noteq> NSucceeded then
        bind_st (service_finish_run env run (run_status_after (so_status outcome))
                   (so_error_category outcome) (so_error_message outcome) (so_retryable outcome)) (\<lambda>_.
        bind_st settle (\<lambda>_. bind_st (require_run run) (\<lambda>d. ret_st (TurnEnd d))))
      else
        bind_st (case so_condition_result outcome of
                   None \<Rightarrow> ret_st () | Some b \<Rightarrow> emit env run (ConditionEvaluated run current b)) (\<lambda>_.
        bind_st (read_st (\<lambda>_. next_node (rf_definition fr) current (so_condition_result outcome))) (\<lambda>nxt.
        case nxt of
          Some n \<Rightarrow> ret_st (TurnNext n)
        | None \<Rightarrow>
            bind_st (record_skipped env run visited (wf_nodes (rf_definition fr))) (\<lambda>_.
            bind_st (service_finish_run env run WSucceeded None None False) (\<lambda>_.
            bind_st settle (\<lambda>_. bind_st (require_run run) (\<lambda>d. ret_st (TurnEnd d))))))))"

text \<open>
  The loop, which \<open>run\<close> and \<open>continue_retry\<close> share; its fuel is the number of iterations, and
  \<open>None\<close> means that more are needed.
\<close>

fun run_loop ::
  "nat \<Rightarrow> run_env \<Rightarrow> run_frame \<Rightarrow> (run_world, unit) st \<Rightarrow> contexts \<Rightarrow> uuid set \<Rightarrow> uuid \<Rightarrow> run_world
   \<Rightarrow> (workflow_run_details app_result \<times> run_world) option" where
  "run_loop 0 env fr settle ctxs visited current w = None"
| "run_loop (Suc fuel) env fr settle ctxs visited current w =
     (case node_attempt env fr ctxs current w of
        (Inl e, w1) \<Rightarrow> Some (Inl e, w1)
      | (Inr outcome, w1) \<Rightarrow>
          (case after_node env fr settle (insert current visited) current outcome w1 of
             (Inl e, w2) \<Rightarrow> Some (Inl e, w2)
           | (Inr (TurnEnd d), w2) \<Rightarrow> Some (Inr d, w2)
           | (Inr (TurnNext nxt), w2) \<Rightarrow>
               run_loop fuel env fr settle (ctxs(current \<mapsto> context_of outcome))
                 (insert current visited) nxt w2))"

section \<open>Starting and retrying\<close>

record start_request =
  sr_workflow_id :: uuid
  sr_workflow_version :: "int option"
  sr_server_id :: string
  sr_dangerous_confirmed :: bool

definition requires_dangerous_confirmation :: "run_env \<Rightarrow> workflow_definition \<Rightarrow> bool" where
  "requires_dangerous_confirmation env v = list_ex (\<lambda>n. case wn_config n of
       NCustom _ _ _ \<Rightarrow> True
     | NUpload _ _ overwrite _ \<Rightarrow> overwrite
     | NTask task_id _ _ \<Rightarrow> env_dangerous_task env task_id
     | _ \<Rightarrow> False) (wf_nodes v)"

definition has_remote_nodes :: "workflow_definition \<Rightarrow> bool" where
  "has_remote_nodes v = list_ex (\<lambda>n. case wn_config n of
       NTask _ _ _ \<Rightarrow> True | NCustom _ _ _ \<Rightarrow> True | NUpload _ _ _ _ \<Rightarrow> True
     | NDownload _ _ _ \<Rightarrow> True | NLogSearch _ _ _ _ _ _ _ \<Rightarrow> True | _ \<Rightarrow> False) (wf_nodes v)"

definition check_compatibility ::
  "(string \<Rightarrow> int \<Rightarrow> unit app_result) \<Rightarrow> workflow_definition \<Rightarrow> unit app_result" where
  "check_compatibility supports v = map_res (\<lambda>_. ()) (collect_res (\<lambda>n. case wn_config n of
       NTask task_id task_version _ \<Rightarrow> supports task_id task_version | _ \<Rightarrow> Inr ()) (wf_nodes v))"

text \<open>\<open>None\<close> is a panic of the validation.\<close>

definition preflight ::
  "run_env \<Rightarrow> start_request \<Rightarrow> workflow_db \<Rightarrow> workflow_definition app_result option" where
  "preflight env request db =
     (if is_blank (sr_server_id request) then Some (Inl (Validation ''a server must be chosen''))
      else case wf_get (sr_workflow_id request) (sr_workflow_version request) db of
        None \<Rightarrow> Some (Inl (Validation ''workflow or version does not exist''))
      | Some v \<Rightarrow>
          map_option (\<lambda>valid.
            bind_res valid (\<lambda>_.
            bind_res (env_trusted env (sr_server_id request)) (\<lambda>_.
              if requires_dangerous_confirmation env v \<and> \<not> sr_dangerous_confirmed request
              then Inl (Validation ''dangerous steps need a second confirmation'')
              else if has_remote_nodes v
              then bind_res (env_connect env (sr_server_id request)) (\<lambda>supports.
                     bind_res (check_compatibility supports v) (\<lambda>_. Inr v))
              else Inr v)))
          (require_valid_workflow (env_check_task env) (env_os env) (env_keys env (wf_nodes v))
             (draft_of_definition v)))"

text \<open>The part of \<open>run\<close> before the loop.\<close>

definition open_run ::
  "run_env \<Rightarrow> start_request \<Rightarrow> workflow_definition \<Rightarrow> uuid \<Rightarrow> (run_world, uuid) st" where
  "open_run env request v start =
     bind_st (new_uuid env) (\<lambda>i.
     bind_st (now_millis env) (\<lambda>created.
     bind_st (on_db (create_run (wf_id v) (wf_version v) (sr_server_id request) i created)) (\<lambda>run.
     bind_st (on_registry (registry_register (wr_id run))) (\<lambda>_.
     bind_st (now_millis env) (\<lambda>started.
     bind_st (on_db (mark_run_running (wr_id run) start started)) (\<lambda>_.
     bind_st (emit env (wr_id run) (RunStarted (wr_id run) (wf_id v) (sr_server_id request))) (\<lambda>_.
     ret_st (wr_id run))))))))"

definition frame_of :: "start_request \<Rightarrow> workflow_definition \<Rightarrow> uuid \<Rightarrow> run_frame" where
  "frame_of request v run =
     \<lparr>rf_definition = v, rf_run = run, rf_server_id = sr_server_id request,
      rf_confirmed = sr_dangerous_confirmed request\<rparr>"

definition run_workflow ::
  "nat \<Rightarrow> run_env \<Rightarrow> start_request \<Rightarrow> run_world \<Rightarrow> (workflow_run_details app_result \<times> run_world) option" where
  "run_workflow fuel env request w =
     (case preflight env request (w_db w) of
        None \<Rightarrow> None
      | Some (Inl e) \<Rightarrow> Some (Inl e, w)
      | Some (Inr v) \<Rightarrow>
          (case find is_start (wf_nodes v) of
             None \<Rightarrow> Some (Inl (Validation ''workflow has no start node''), w)
           | Some n \<Rightarrow>
               (case open_run env request v (wn_id n) w of
                  (Inl e, w1) \<Rightarrow> Some (Inl e, w1)
                | (Inr run, w1) \<Rightarrow>
                    run_loop fuel env (frame_of request v run) (on_registry (registry_remove run))
                      Map.empty {} (wn_id n) w1)))"

definition service_cancel :: "uuid \<Rightarrow> (uuid \<Rightarrow> (run_world, unit) st) \<Rightarrow> (run_world, unit) st" where
  "service_cancel run cancel_execution =
     bind_st (on_registry (registry_cancel run)) (\<lambda>child.
       case child of None \<Rightarrow> ret_st () | Some e \<Rightarrow> cancel_execution e)"

text \<open>The row of the highest attempt of each node.\<close>

definition latest_node_run :: "workflow_run_details \<Rightarrow> uuid \<Rightarrow> workflow_node_run option" where
  "latest_node_run d i =
     fold (\<lambda>r best. if nr_node_id r = i
                       \<and> (case best of None \<Rightarrow> True | Some b \<Rightarrow> nr_attempt b < nr_attempt r)
                     then Some r else best) (det_node_runs d) None"

definition contexts_of_run :: "workflow_run_details \<Rightarrow> contexts" where
  "contexts_of_run d i =
     (case latest_node_run d i of
        None \<Rightarrow> None
      | Some r \<Rightarrow>
          if nr_status r = NSucceeded
          then Some \<lparr>cc_exit_code = nr_exit_code r, cc_result = nr_result r,
                     cc_output_summary = nr_output_summary r\<rparr>
          else None)"

definition visited_of_run :: "workflow_run_details \<Rightarrow> uuid set" where
  "visited_of_run d =
     {i \<in> nr_node_id ` set (det_node_runs d).
        case latest_node_run d i of None \<Rightarrow> False | Some r \<Rightarrow> nr_status r \<in> {NSucceeded, NSkipped}}"

definition retry_node :: "workflow_run_details \<Rightarrow> uuid app_result" where
  "retry_node d =
     (if wr_status (det_run d) \<noteq> WPaused \<or> \<not> wr_retryable (det_run d)
      then Inl (Validation ''only a retryable paused workflow can be retried'')
      else case wr_current_node_id (det_run d) of
        None \<Rightarrow> Inl (Validation ''paused workflow has no failed node'')
      | Some current \<Rightarrow>
          (case latest_node_run d current of
             None \<Rightarrow> Inl (Validation ''paused workflow has no record of the failed node'')
           | Some r \<Rightarrow>
               if nr_status r \<noteq> NFailed \<or> \<not> nr_retryable r
               then Inl (Validation ''the failed node cannot be retried'') else Inr current))"

definition reopen_run :: "run_env \<Rightarrow> uuid \<Rightarrow> (run_world, unit) st" where
  "reopen_run env run =
     bind_st (now_millis env) (\<lambda>t.
     bind_st (on_db (resume_paused_run run t)) (\<lambda>_.
     bind_st (on_registry (registry_register run)) (\<lambda>_.
     emit env run (RunStatusChanged run WRunning (Some ''retrying the failed node'')))))"

definition retry_failed_node ::
  "nat \<Rightarrow> run_env \<Rightarrow> uuid \<Rightarrow> bool \<Rightarrow> run_world \<Rightarrow> (workflow_run_details app_result \<times> run_world) option" where
  "retry_failed_node fuel env run confirmed w =
     (case fst (require_run run w) of
        Inl e \<Rightarrow> Some (Inl e, w)
      | Inr d \<Rightarrow>
          (case retry_node d of
             Inl e \<Rightarrow> Some (Inl e, w)
           | Inr current \<Rightarrow>
               (let request = \<lparr>sr_workflow_id = wr_workflow_id (det_run d),
                               sr_workflow_version = Some (wr_workflow_version (det_run d)),
                               sr_server_id = wr_server_id (det_run d),
                               sr_dangerous_confirmed = confirmed\<rparr>
                in case preflight env request (w_db w) of
                     None \<Rightarrow> None
                   | Some (Inl e) \<Rightarrow> Some (Inl e, w)
                   | Some (Inr v) \<Rightarrow>
                       (case reopen_run env run w of
                          (Inl e, w1) \<Rightarrow> Some (Inl e, w1)
                        | (Inr _, w1) \<Rightarrow>
                            map_option (\<lambda>(r, w2). (r, w2\<lparr>w_registry := (w_registry w2)(run := None)\<rparr>))
                              (run_loop fuel env (frame_of request v run) (ret_st ())
                                 (contexts_of_run d) (visited_of_run d) current w1)))))"

end
