(* ===== verification/Workflow_Valid.thy ===== *)
theory Workflow_Valid
  imports Workflow_Graph
begin

text \<open>
  What an accepted workflow graph guarantees: Kahn's algorithm decides acyclicity whatever the
  iteration order of the maps, the search finds exactly the reachable nodes, and a valid draft is
  a rooted acyclic graph whose branching follows its node kinds.
\<close>

section \<open>Kahn's algorithm\<close>

definition edge_rel :: "uuid set \<Rightarrow> workflow_edge list \<Rightarrow> (uuid \<times> uuid) set" where
  "edge_rel ids es = {(we_from e, we_to e) | e. e \<in> set es \<and> known_edge ids e}"

definition hits :: "workflow_edge list \<Rightarrow> uuid \<Rightarrow> nat" where
  "hits es v = length (filter (\<lambda>e. we_to e = v) es)"

lemma hits_simps [simp]:
  "hits [] v = 0" "hits (e # es) v = (if we_to e = v then Suc (hits es v) else hits es v)"
  by (simp_all add: hits_def)

lemma hits_Cons_le: "hits es v \<le> hits (e # es) v"
  by simp

text \<open>The effect of one pass over the edges of a node.\<close>

definition relaxed :: "(uuid \<Rightarrow> nat option) \<Rightarrow> workflow_edge list \<Rightarrow> uuid list \<Rightarrow> (uuid \<times> nat) list \<Rightarrow> bool" where
  "relaxed deg es fresh deg' \<longleftrightarrow>
     distinct fresh \<and> map_of deg' = (\<lambda>v. map_option (\<lambda>d. d - hits es v) (deg v))
     \<and> set fresh = {v. \<exists>d. deg v = Some d \<and> 0 < d \<and> hits es v = d}"

lemma relaxed_unknown:
  assumes "relaxed deg es fresh deg'" "deg (we_to e) = None"
  shows "relaxed deg (e # es) fresh deg'"
proof -
  have "deg v = Some d \<Longrightarrow> hits (e # es) v = hits es v" for v d using assms(2) by auto
  then have "(\<lambda>v. map_option (\<lambda>d. d - hits (e # es) v) (deg v)) = (\<lambda>v. map_option (\<lambda>d. d - hits es v) (deg v))"
    by (intro ext option.map_cong refl) auto
  moreover have "(\<exists>d. deg v = Some d \<and> 0 < d \<and> hits (e # es) v = d) \<longleftrightarrow> (\<exists>d. deg v = Some d \<and> 0 < d \<and> hits es v = d)" for v
    using assms(2) by (cases "deg v") auto
  ultimately show ?thesis using assms(1) unfolding relaxed_def by simp
qed

lemma relaxed_known:
  assumes "relaxed (deg(we_to e \<mapsto> d - 1)) es fresh deg'" "deg (we_to e) = Some d"
    "Suc (hits es (we_to e)) \<le> d"
  shows "relaxed deg (e # es) ((if d - 1 = 0 then [we_to e] else []) @ fresh) deg'"
proof -
  define t where "t = we_to e"
  define h where "h = hits es"
  define first where "first = (if d - 1 = 0 then [t] else [])"
  have hc: "hits (e # es) v = (if v = t then Suc (h v) else h v)" for v
    by (auto simp: t_def h_def)
  have dt: "deg t = Some d" "Suc (h t) \<le> d" using assms(2,3) by (simp_all add: t_def h_def)
  have r: "distinct fresh"
    "\<And>v. map_of deg' v = map_option (\<lambda>d. d - h v) (if v = t then Some (d - 1) else deg v)"
    "\<And>v. v \<in> set fresh \<longleftrightarrow> (\<exists>d'. (if v = t then Some (d - 1) else deg v) = Some d' \<and> 0 < d' \<and> h v = d')"
    using assms(1) by (simp_all add: relaxed_def t_def h_def)
  have ft: "set first = (if d = 1 then {t} else {})" "distinct first" using dt(2) by (auto simp: first_def)
  have tf: "t \<in> set fresh \<longleftrightarrow> d \<noteq> 1 \<and> h t = d - 1" using r(3)[of t] dt(2) by auto
  have dist: "distinct (first @ fresh)" using ft tf r(1) by auto
  have m: "map_of deg' v = map_option (\<lambda>d. d - hits (e # es) v) (deg v)" for v
  proof (cases "v = t")
    case True
    with r(2)[of t] dt show ?thesis by (simp only: hc if_True option.map) simp
  next
    case False
    with r(2)[of v] show ?thesis by (simp only: hc if_False)
  qed
  have s: "v \<in> set (first @ fresh) \<longleftrightarrow> (\<exists>d. deg v = Some d \<and> 0 < d \<and> hits (e # es) v = d)" for v
  proof (cases "v = t")
    case True
    have "t \<in> set (first @ fresh) \<longleftrightarrow> Suc (h t) = d"
      using tf ft(1) dt(2) by auto
    with True dt show ?thesis by (simp only: hc if_True) auto
  next
    case False
    then have "v \<in> set (first @ fresh) \<longleftrightarrow> v \<in> set fresh" using ft(1) by auto
    with False r(3)[of v] show ?thesis by (simp only: hc if_False)
  qed
  show ?thesis unfolding relaxed_def t_def[symmetric] first_def[symmetric]
    using dist m s by (intro conjI ext set_eqI) (simp_all only: mem_Collect_eq)
qed

lemma relax_spec:
  assumes "\<And>v d. map_of deg v = Some d \<Longrightarrow> hits es v \<le> d"
  shows "\<exists>deg' fresh. relax es deg queue = Some (deg', queue @ fresh) \<and> relaxed (map_of deg) es fresh deg'"
  using assms
proof (induction es arbitrary: deg queue)
  case Nil
  have "relaxed (map_of deg) [] [] deg" by (auto simp: relaxed_def option.map_ident)
  then show ?case by auto
next
  case (Cons e es)
  show ?case
  proof (cases "map_of deg (we_to e)")
    case None
    have "hits es v \<le> d" if "map_of deg v = Some d" for v d
      using Cons.prems[OF that] hits_Cons_le le_trans by blast
    from Cons.IH[where queue = queue, OF this] relaxed_unknown None show ?thesis by fastforce
  next
    case (Some d)
    let ?t = "we_to e"
    let ?q = "if d - 1 = 0 then queue @ [?t] else queue"
    have hd: "Suc (hits es ?t) \<le> d" using Cons.prems[OF Some] by simp
    have upd: "map_of (AList.update ?t (d - 1) deg) = (map_of deg)(?t \<mapsto> d - 1)"
      by (rule update_conv')
    have "hits es v \<le> d'" if "map_of (AList.update ?t (d - 1) deg) v = Some d'" for v d'
      using that hd Cons.prems[of v d'] unfolding upd by (cases "v = ?t") auto
    from Cons.IH[where queue = ?q and deg = "AList.update ?t (d - 1) deg", OF this] obtain deg' fresh where IH:
      "relax es (AList.update ?t (d - 1) deg) ?q = Some (deg', ?q @ fresh)"
      "relaxed ((map_of deg)(?t \<mapsto> d - 1)) es fresh deg'" unfolding upd by blast
    have "relax (e # es) deg queue = Some (deg', queue @ (if d - 1 = 0 then [?t] else []) @ fresh)"
      using IH(1) Some hd by auto
    with relaxed_known[OF IH(2) Some hd] show ?thesis by blast
  qed
qed

text \<open>
  The invariant of the loop: \<open>P\<close> is the set of the nodes taken from the queue. The map holds the
  number of edges into a node that do not come from \<open>P\<close>; the nodes at zero are those of \<open>P\<close> and of
  the queue; the graph restricted to \<open>P\<close> has no cycle, and \<open>P\<close> is closed under predecessors.
\<close>

definition into :: "uuid set \<Rightarrow> workflow_edge list \<Rightarrow> uuid set \<Rightarrow> uuid \<Rightarrow> nat" where
  "into ids es P v = length (filter (\<lambda>e. known_edge ids e \<and> we_to e = v \<and> we_from e \<notin> P) es)"

definition kahn_inv ::
  "uuid set \<Rightarrow> workflow_edge list \<Rightarrow> uuid set \<Rightarrow> (uuid \<times> nat) list \<Rightarrow> uuid list \<Rightarrow> bool" where
  "kahn_inv ids es P deg queue \<longleftrightarrow>
     (\<forall>v. map_of deg v = (if v \<in> ids then Some (into ids es P v) else None))
     \<and> distinct queue \<and> P \<inter> set queue = {} \<and> P \<union> set queue = {v \<in> ids. into ids es P v = 0}
     \<and> acyclic (edge_rel ids es \<inter> P \<times> P)"

lemma into_insert:
  assumes "i \<notin> P"
  shows "into ids es P v = into ids es (insert i P) v + hits (outgoing ids es i) v"
  using assms by (induction es) (auto simp: into_def hits_def outgoing_def)

lemma into_zero:
  "into ids es P v = 0 \<longleftrightarrow> (\<forall>u. (u, v) \<in> edge_rel ids es \<longrightarrow> u \<in> P)"
  by (auto simp: into_def edge_rel_def filter_empty_conv)

lemma acyclic_add_sink:
  assumes "acyclic (R \<inter> P \<times> P)" "i \<notin> P" "\<And>v. (i, v) \<in> R \<Longrightarrow> v \<notin> insert i P"
  shows "acyclic (R \<inter> insert i P \<times> insert i P)"
proof -
  let ?R = "R \<inter> insert i P \<times> insert i P"
  have no_out: "(i, v) \<notin> ?R" for v using assms(3) by auto
  have trans: "(x, y) \<in> ?R\<^sup>+ \<Longrightarrow> y \<noteq> i \<Longrightarrow> (x, y) \<in> (R \<inter> P \<times> P)\<^sup>+" for x y
  proof (induction rule: trancl_induct)
    case (base y)
    with no_out have "x \<noteq> i" by blast
    with base show ?case by blast
  next
    case (step y z)
    with no_out have "y \<noteq> i" by blast
    then have "(x, y) \<in> (R \<inter> P \<times> P)\<^sup>+" using step.IH by blast
    moreover have "(y, z) \<in> R \<inter> P \<times> P" using step(2) \<open>y \<noteq> i\<close> step.prems by blast
    ultimately show ?case by (rule trancl.trancl_into_trancl)
  qed
  have "(x, x) \<notin> ?R\<^sup>+" for x
  proof
    assume c: "(x, x) \<in> ?R\<^sup>+"
    then obtain y where "(x, y) \<in> ?R" by (meson tranclD)
    with no_out have "x \<noteq> i" by blast
    with trans[OF c] assms(1) show False by (auto simp: acyclic_def)
  qed
  then show ?thesis by (simp add: acyclic_def)
qed

lemma kahn_inv_step:
  assumes "kahn_inv ids es P deg (i # queue)"
  shows "\<exists>deg' queue'. relax (outgoing ids es i) deg queue = Some (deg', queue')
           \<and> kahn_inv ids es (insert i P) deg' queue'"
proof -
  define f where "f = into ids es P"
  define g where "g = into ids es (insert i P)"
  define h where "h = hits (outgoing ids es i)"
  have inv: "\<And>v. map_of deg v = (if v \<in> ids then Some (f v) else None)"
    "distinct (i # queue)" "P \<inter> set (i # queue) = {}"
    "P \<union> set (i # queue) = {v \<in> ids. f v = 0}"
    "acyclic (edge_rel ids es \<inter> P \<times> P)"
    using assms unfolding kahn_inv_def f_def by auto
  have iP: "i \<notin> P" using inv(3) by simp
  have fg: "f v = g v + h v" for v
    unfolding f_def g_def h_def by (rule into_insert[OF iP])
  have le: "hits (outgoing ids es i) v \<le> d" if "map_of deg v = Some d" for v d
    using that inv(1)[of v] fg[of v] by (simp add: h_def split: if_splits)
  obtain deg' fresh where run: "relax (outgoing ids es i) deg queue = Some (deg', queue @ fresh)"
    and rel: "relaxed (map_of deg) (outgoing ids es i) fresh deg'"
    using relax_spec[where deg = deg and queue = queue, OF le] by blast
  have r: "distinct fresh" "\<And>v. map_of deg' v = map_option (\<lambda>d. d - h v) (map_of deg v)"
    "\<And>v. v \<in> set fresh \<longleftrightarrow> (\<exists>d. map_of deg v = Some d \<and> 0 < d \<and> h v = d)"
    using rel by (simp_all add: relaxed_def h_def)
  have deg': "map_of deg' v = (if v \<in> ids then Some (g v) else None)" for v
    using r(2)[of v] inv(1)[of v] fg[of v] by simp
  have fresh: "v \<in> set fresh \<longleftrightarrow> v \<in> ids \<and> 0 < f v \<and> g v = 0" for v
    using r(3)[of v] inv(1)[of v] fg[of v] by auto
  have old: "v \<in> insert i P \<union> set queue \<longleftrightarrow> v \<in> ids \<and> f v = 0" for v
    using inv(4) by auto
  have disj: "set fresh \<inter> (insert i P \<union> set queue) = {}"
  proof (rule equals0I)
    fix v assume "v \<in> set fresh \<inter> (insert i P \<union> set queue)"
    then have "v \<in> set fresh" "v \<in> insert i P \<union> set queue" by blast+
    with fresh[of v] old[of v] show False by simp
  qed
  have all: "insert i P \<union> set (queue @ fresh) = {v \<in> ids. g v = 0}"
  proof (rule set_eqI)
    fix v
    have "v \<in> insert i P \<union> set (queue @ fresh) \<longleftrightarrow> (v \<in> insert i P \<union> set queue) \<or> v \<in> set fresh"
      by simp
    also have "\<dots> \<longleftrightarrow> v \<in> ids \<and> g v = 0" unfolding fresh old using fg[of v] by auto
    finally show "v \<in> insert i P \<union> set (queue @ fresh) \<longleftrightarrow> v \<in> {v \<in> ids. g v = 0}" by simp
  qed
  have dist: "distinct (queue @ fresh)" using inv(2) r(1) disj by auto
  have new: "insert i P \<inter> set (queue @ fresh) = {}" using inv(2,3) disj by auto
  have acy: "acyclic (edge_rel ids es \<inter> insert i P \<times> insert i P)"
  proof (rule acyclic_add_sink[OF inv(5) iP])
    fix v assume e: "(i, v) \<in> edge_rel ids es"
    have "f v \<noteq> 0" unfolding f_def using e iP into_zero[of ids es P v] by blast
    then show "v \<notin> insert i P" using old[of v] by auto
  qed
  have "kahn_inv ids es (insert i P) deg' (queue @ fresh)"
    unfolding kahn_inv_def g_def[symmetric] using deg' dist new all acy by blast
  with run show ?thesis by blast
qed

lemma kahn_result:
  assumes "kahn_inv ids es P deg queue" "finite ids"
  shows "\<exists>P' deg'. kahn (outgoing ids es) deg queue visited = Some (visited + card P' - card P)
            \<and> P \<subseteq> P' \<and> P' \<subseteq> ids \<and> kahn_inv ids es P' deg' []"
  using assms
proof (induction "outgoing ids es" deg queue visited arbitrary: P rule: kahn.induct)
  case (1 deg visited)
  have "P \<subseteq> ids" using 1(1) by (auto simp: kahn_inv_def)
  with 1 show ?case by (intro exI[of _ P] exI[of _ deg]) auto
next
  case (2 deg i queue visited)
  from kahn_inv_step[OF 2(2)] obtain deg' queue' where
    s: "relax (outgoing ids es i) deg queue = Some (deg', queue')"
       "kahn_inv ids es (insert i P) deg' queue'" by blast
  have iP: "i \<notin> P" "P \<subseteq> ids" using 2(2) by (auto simp: kahn_inv_def)
  then have fin: "finite P" using 2(3) finite_subset by blast
  have "card (insert i P) = Suc (card P)" using iP fin by simp
  moreover obtain P' deg'' where
    k: "kahn (outgoing ids es) deg' queue' (Suc visited) = Some (Suc visited + card P' - card (insert i P))"
       "insert i P \<subseteq> P'" "P' \<subseteq> ids" "kahn_inv ids es P' deg'' []"
    using 2(1)[OF s(1) refl s(2) 2(3)] by blast
  ultimately show ?case using s(1) by (intro exI[of _ P'] exI[of _ deg'']) auto
qed

lemma acyclic_subset_all:
  assumes "finite R" "acyclic R" "P \<subseteq> V" "P \<noteq> V" "R \<subseteq> V \<times> V"
  shows "\<exists>v \<in> V - P. \<forall>u. (u, v) \<in> R \<longrightarrow> u \<in> P"
proof -
  have "wf R" using assms(1,2) by (rule finite_acyclic_wf)
  moreover obtain x where "x \<in> V - P" using assms(3,4) by blast
  ultimately obtain v where "v \<in> V - P" "\<And>u. (u, v) \<in> R \<Longrightarrow> u \<notin> V - P"
    using wfE_min[of R x "V - P"] by metis
  with assms(5) show ?thesis by (intro bexI[of _ v]) auto
qed

lemma finite_edge_rel: "finite (edge_rel ids es)"
proof -
  have "edge_rel ids es \<subseteq> (\<lambda>e. (we_from e, we_to e)) ` set es" by (auto simp: edge_rel_def)
  then show ?thesis using finite_subset by blast
qed

lemma edge_rel_subset: "edge_rel ids es \<subseteq> ids \<times> ids"
  by (auto simp: edge_rel_def known_edge_def)

lemma kahn_inv_start:
  assumes "set keys = ids" "distinct keys"
  shows "kahn_inv ids es {} (indegrees ids es keys)
           (map fst (filter (\<lambda>(i, d). d = 0) (indegrees ids es keys)))"
proof -
  have z: "into ids es {} v = length (incoming ids es v)" for v
    by (simp add: into_def incoming_def)
  have q: "map fst (filter (\<lambda>(i, d). d = 0) (indegrees ids es keys)) = filter (\<lambda>i. into ids es {} i = 0) keys"
    unfolding z by (induction keys) (auto simp: indegrees_def)
  have m: "map_of (indegrees ids es keys) v = (if v \<in> set keys then Some (into ids es {} v) else None)" for v
    unfolding z indegrees_def by (induction keys) auto
  have s: "set (filter (\<lambda>i. into ids es {} i = 0) keys) = {v \<in> ids. into ids es {} v = 0}"
    using assms(1) by auto
  show ?thesis
    unfolding kahn_inv_def q s using m assms by (simp add: acyclic_def)
qed

lemma has_cycle_spec:
  assumes "set keys = wn_id ` set nodes" "distinct keys"
  shows "has_cycle keys nodes es
       = Some (\<not> (distinct (map wn_id nodes) \<and> acyclic (edge_rel (wn_id ` set nodes) es)))"
proof -
  define ids where "ids = wn_id ` set nodes"
  have fin: "finite ids" by (simp add: ids_def)
  have "kahn_inv ids es {} (indegrees ids es keys)
      (map fst (filter (\<lambda>(i, d). d = 0) (indegrees ids es keys)))"
    using kahn_inv_start assms by (simp add: ids_def)
  from kahn_result[OF this fin, of 0] obtain P deg where
    k: "kahn (outgoing ids es) (indegrees ids es keys)
          (map fst (filter (\<lambda>(i, d). d = 0) (indegrees ids es keys))) 0 = Some (card P)"
    and P: "P \<subseteq> ids" and inv: "kahn_inv ids es P deg []"
    by auto
  have closed: "P = {v \<in> ids. into ids es P v = 0}" "acyclic (edge_rel ids es \<inter> P \<times> P)"
    using inv by (simp_all add: kahn_inv_def)
  have full: "P = ids \<longleftrightarrow> acyclic (edge_rel ids es)"
  proof
    assume "P = ids"
    with closed(2) edge_rel_subset[of ids es] show "acyclic (edge_rel ids es)"
      by (simp add: Int_absorb2)
  next
    assume acy: "acyclic (edge_rel ids es)"
    show "P = ids"
    proof (rule ccontr)
      assume "P \<noteq> ids"
      from acyclic_subset_all[OF finite_edge_rel acy P this edge_rel_subset]
      obtain v where v: "v \<in> ids" "v \<notin> P" "\<forall>u. (u, v) \<in> edge_rel ids es \<longrightarrow> u \<in> P" by blast
      then have "into ids es P v = 0" using into_zero by blast
      with v closed(1) show False by blast
    qed
  qed
  have card_ids: "card ids \<le> length nodes" "card ids = length nodes \<longleftrightarrow> distinct (map wn_id nodes)"
    unfolding ids_def using card_image_le[of "set nodes" wn_id] card_length[of nodes]
      card_distinct[of "map wn_id nodes"] distinct_card[of "map wn_id nodes"] by auto
  have "card P \<le> card ids" "card P = card ids \<longleftrightarrow> P = ids"
    using P fin card_mono card_subset_eq by blast+
  then have "card P = length nodes \<longleftrightarrow> distinct (map wn_id nodes) \<and> acyclic (edge_rel ids es)"
    using card_ids full by linarith
  then show ?thesis using k by (simp add: has_cycle_def Let_def flip: ids_def)
qed

section \<open>Reachability\<close>

lemma reach_loop_spec:
  assumes "\<And>i. i \<in> set reached \<Longrightarrow> we_to ` set (out i) \<subseteq> set reached \<union> set queue"
  shows "set (reach_loop out reached queue)
       = {v. \<exists>u \<in> set reached \<union> set queue. (u, v) \<in> {(a, b). b \<in> we_to ` set (out a)}\<^sup>*}"
  using assms
proof (induction out reached queue rule: reach_loop.induct)
  case (1 out reached)
  let ?R = "{(a, b). b \<in> we_to ` set (out a)}"
  have "v \<in> set reached" if "(u, v) \<in> ?R\<^sup>*" "u \<in> set reached" for u v
    using that by (induction rule: rtrancl_induct) (use 1 in auto)
  then show ?case by auto
next
  case (2 out reached i queue)
  let ?R = "{(a, b). b \<in> we_to ` set (out a)}"
  show ?case
  proof (cases "i \<in> set reached")
    case True
    then have eq: "set reached \<union> set (i # queue) = set reached \<union> set queue" by auto
    from 2(1)[OF True] 2(3) True show ?thesis unfolding eq by simp
  next
    case False
    have "\<And>j. j \<in> set (i # reached) \<Longrightarrow>
        we_to ` set (out j) \<subseteq> set (i # reached) \<union> set (queue @ map we_to (out i))"
    proof -
      fix j assume "j \<in> set (i # reached)"
      then consider "j = i" | "j \<in> set reached" by auto
      then show "we_to ` set (out j) \<subseteq> set (i # reached) \<union> set (queue @ map we_to (out i))"
      proof cases
        case 2
        from \<open>\<And>j. j \<in> set reached \<Longrightarrow> we_to ` set (out j) \<subseteq> set reached \<union> set (i # queue)\<close>[OF 2]
        show ?thesis by auto
      qed auto
    qed
    from 2(2)[OF False this] have
      "set (reach_loop out reached (i # queue))
         = {v. \<exists>u \<in> set (i # reached) \<union> set (queue @ map we_to (out i)). (u, v) \<in> ?R\<^sup>*}"
      using False by simp
    also have "\<dots> = {v. \<exists>u \<in> set reached \<union> set (i # queue). (u, v) \<in> ?R\<^sup>*}"
      by (auto intro: converse_rtrancl_into_rtrancl)
    finally show ?thesis .
  qed
qed

lemma reachable_from_spec:
  "set (reachable_from start (outgoing ids es)) = {v. (start, v) \<in> (edge_rel ids es)\<^sup>*}"
proof -
  have "{(a, b). b \<in> we_to ` set (outgoing ids es a)} = edge_rel ids es"
    by (auto simp: outgoing_def edge_rel_def)
  then show ?thesis using reach_loop_spec[of "[]" "outgoing ids es" "[start]"]
    by (simp add: reachable_from_def)
qed

section \<open>The validation and its specification\<close>

text \<open>What a workflow graph should be, without algorithms.\<close>

definition exits :: "workflow_edge list \<Rightarrow> uuid \<Rightarrow> workflow_edge list" where
  "exits es i = filter (\<lambda>e. we_from e = i) es"

definition branches_ok :: "uuid set \<Rightarrow> workflow_edge list \<Rightarrow> workflow_node \<Rightarrow> bool" where
  "branches_ok ids es n \<longleftrightarrow>
     (case wn_config n of
        NStart \<Rightarrow> (\<forall>e \<in> set es. we_to e \<noteq> wn_id n)
                  \<and> (\<exists>e. exits es (wn_id n) = [e] \<and> we_branch e = BSuccess)
      | NStop _ \<Rightarrow> exits es (wn_id n) = []
      | NCondition source _ \<Rightarrow>
          (\<exists>a b. exits es (wn_id n) = [a, b] \<and> {we_branch a, we_branch b} = {BTrue, BFalse}
             \<and> we_to a \<noteq> we_to b)
          \<and> source \<in> ids \<and> source \<noteq> wn_id n
      | _ \<Rightarrow> exits es (wn_id n) = [] \<or> (\<exists>e. exits es (wn_id n) = [e] \<and> we_branch e = BSuccess))"

definition rooted :: "workflow_node list \<Rightarrow> workflow_edge list \<Rightarrow> uuid \<Rightarrow> bool" where
  "rooted nodes es start \<longleftrightarrow>
     (\<exists>n. filter is_start nodes = [n] \<and> wn_id n = start)
     \<and> (\<forall>n \<in> set nodes. (start, wn_id n) \<in> (edge_rel (wn_id ` set nodes) es)\<^sup>*)"

definition workflow_ok :: "task_check \<Rightarrow> host_os \<Rightarrow> workflow_node list \<Rightarrow> workflow_edge list \<Rightarrow> uuid \<Rightarrow> bool" where
  "workflow_ok check_task os nodes es start \<longleftrightarrow>
     length nodes \<le> 100 \<and> length es \<le> 200
     \<and> distinct (map wn_id nodes) \<and> (\<forall>n \<in> set nodes. validate_node check_task os n = Inr ())
     \<and> (\<forall>e \<in> set es. known_edge (wn_id ` set nodes) e) \<and> distinct (map edge_key es)
     \<and> (\<forall>n \<in> set nodes. branches_ok (wn_id ` set nodes) es n)
     \<and> acyclic (edge_rel (wn_id ` set nodes) es) \<and> rooted nodes es start"

lemma node_diagnostics_Nil:
  "node_diagnostics check_task os seen ns = [] \<longleftrightarrow>
     distinct (map wn_id ns) \<and> set seen \<inter> wn_id ` set ns = {}
     \<and> (\<forall>n \<in> set ns. validate_node check_task os n = Inr ())"
  by (induction ns arbitrary: seen) (auto split: sum.splits)

lemma edge_diagnostics_Nil:
  "edge_diagnostics ids seen es = [] \<longleftrightarrow>
     (\<forall>e \<in> set es. known_edge ids e \<and> we_from e \<noteq> we_to e)
     \<and> distinct (map edge_key es) \<and> set seen \<inter> edge_key ` set es = {}"
  by (induction es arbitrary: seen) auto

lemma outgoing_exits: "\<forall>e \<in> set es. known_edge ids e \<Longrightarrow> outgoing ids es i = exits es i"
  unfolding outgoing_def exits_def by (rule filter_cong) auto

lemma incoming_none: "\<forall>e \<in> set es. known_edge ids e \<Longrightarrow> incoming ids es i = [] \<longleftrightarrow> (\<forall>e \<in> set es. we_to e \<noteq> i)"
  by (auto simp: incoming_def filter_empty_conv)

lemma two_edges:
  "length (filter (\<lambda>e. we_branch e = BTrue) [a, b]) = 1 \<and> length (filter (\<lambda>e. we_branch e = BFalse) [a, b]) = 1
     \<longleftrightarrow> {we_branch a, we_branch b} = {BTrue, BFalse}"
  by (cases "we_branch a"; cases "we_branch b") (simp_all add: doubleton_eq_iff)

lemma two_branches:
  "length outs = 2 \<and> length (filter (\<lambda>e. we_branch e = BTrue) outs) = 1
     \<and> length (filter (\<lambda>e. we_branch e = BFalse) outs) = 1 \<and> we_to (outs ! 0) \<noteq> we_to (outs ! 1)
   \<longleftrightarrow> (\<exists>a b. outs = [a, b] \<and> {we_branch a, we_branch b} = {BTrue, BFalse} \<and> we_to a \<noteq> we_to b)"
  (is "?n \<and> ?t \<and> ?f \<and> ?d \<longleftrightarrow> ?rhs")
proof
  assume l: "?n \<and> ?t \<and> ?f \<and> ?d"
  from l have "length outs = 2" ..
  then obtain a b where ab: "outs = [a, b]" by (auto simp: length_Suc_conv numeral_2_eq_2)
  from l have "?t \<and> ?f" by (elim conjE, intro conjI)
  then have br: "{we_branch a, we_branch b} = {BTrue, BFalse}" unfolding ab by (rule iffD1[OF two_edges])
  from l have ?d by (elim conjE)
  then have "we_to a \<noteq> we_to b" unfolding ab by simp
  with ab br show ?rhs by (intro exI conjI)
next
  assume ?rhs
  then obtain a b where ab: "outs = [a, b]" and br: "{we_branch a, we_branch b} = {BTrue, BFalse}"
    and d: "we_to a \<noteq> we_to b" by (elim exE conjE)
  have "?t \<and> ?f" unfolding ab by (rule iffD2[OF two_edges br])
  moreover have ?n ?d using d unfolding ab by simp_all
  ultimately show "?n \<and> ?t \<and> ?f \<and> ?d" by (elim conjE, intro conjI)
qed

lemma one_exit: "length outs = 1 \<and> we_branch (outs ! 0) = BSuccess \<longleftrightarrow> (\<exists>e. outs = [e] \<and> we_branch e = BSuccess)"
  by (cases outs) auto

lemma branch_diagnostics_Nil:
  assumes "\<forall>e \<in> set es. known_edge ids e"
  shows "branch_diagnostics ids es n = [] \<longleftrightarrow> branches_ok ids es n"
proof -
  define outs where "outs = exits es (wn_id n)"
  have o: "outgoing ids es (wn_id n) = outs" using outgoing_exits[OF assms] by (simp add: outs_def)
  have i: "incoming ids es (wn_id n) = [] \<longleftrightarrow> (\<forall>e \<in> set es. we_to e \<noteq> wn_id n)"
    by (rule incoming_none[OF assms])
  have other: "(if length outs > 1 \<or> (outs \<noteq> [] \<and> we_branch (hd outs) \<noteq> BSuccess) then [d] else []) = []
      \<longleftrightarrow> outs = [] \<or> (\<exists>e. outs = [e] \<and> we_branch e = BSuccess)" for d :: workflow_diagnostic
    by (cases outs) auto
  show ?thesis
  proof (cases "wn_config n")
    case NStart
    have "branch_diagnostics ids es n = [] \<longleftrightarrow>
        incoming ids es (wn_id n) = [] \<and> length outs = 1 \<and> we_branch (outs ! 0) = BSuccess"
      using NStart by (simp add: branch_diagnostics_def o Let_def)
    with NStart i one_exit[of outs] show ?thesis by (simp add: branches_ok_def flip: outs_def)
  next
    case (NCondition source p)
    have "branch_diagnostics ids es n = [] \<longleftrightarrow>
        (length outs = 2 \<and> length (filter (\<lambda>e. we_branch e = BTrue) outs) = 1
         \<and> length (filter (\<lambda>e. we_branch e = BFalse) outs) = 1 \<and> we_to (outs ! 0) \<noteq> we_to (outs ! 1))
        \<and> source \<in> ids \<and> source \<noteq> wn_id n"
      using NCondition by (auto simp: branch_diagnostics_def o Let_def)
    with NCondition two_branches[of outs] show ?thesis by (simp add: branches_ok_def flip: outs_def)
  next
    case (NStop m)
    then show ?thesis by (simp add: branch_diagnostics_def branches_ok_def o Let_def flip: outs_def)
  qed (simp_all only: branch_diagnostics_def branches_ok_def o Let_def workflow_node_config.case
         other outs_def[symmetric])
qed

text \<open>A finite acyclic graph has a reachable node without an exit.\<close>

lemma reachable_sink:
  assumes "finite R" "acyclic R"
  shows "\<exists>v. (s, v) \<in> R\<^sup>* \<and> (\<forall>w. (v, w) \<notin> R)"
proof -
  have "wf (R\<inverse>)" using assms by (rule finite_acyclic_wf_converse)
  then obtain v where "(s, v) \<in> R\<^sup>*" "\<And>w. (w, v) \<in> R\<inverse> \<Longrightarrow> (s, w) \<notin> R\<^sup>*"
    using wfE_min[of "R\<inverse>" s "{v. (s, v) \<in> R\<^sup>*}"] by auto
  then show ?thesis by (meson converse_iff rtrancl.rtrancl_into_rtrancl)
qed

lemma start_diagnostics_Nil:
  assumes known: "\<forall>e \<in> set es. known_edge (wn_id ` set nodes) e"
    and br: "\<forall>n \<in> set nodes. branches_ok (wn_id ` set nodes) es n"
    and acy: "acyclic (edge_rel (wn_id ` set nodes) es)" and start: "start \<in> wn_id ` set nodes"
  shows "start_diagnostics nodes es (Some start) = [] \<longleftrightarrow>
     (\<forall>n \<in> set nodes. (start, wn_id n) \<in> (edge_rel (wn_id ` set nodes) es)\<^sup>*)"
proof -
  let ?ids = "wn_id ` set nodes"
  let ?R = "edge_rel ?ids es"
  obtain v where v: "(start, v) \<in> ?R\<^sup>*" "\<forall>w. (v, w) \<notin> ?R"
    using reachable_sink[OF finite_edge_rel acy] by blast
  have "v \<in> ?ids" using v(1) start edge_rel_subset[of ?ids es] by (induction rule: rtrancl_induct) auto
  then obtain n where n: "n \<in> set nodes" "wn_id n = v" by auto
  have none: "exits es v = []"
    using v(2) known by (auto simp: exits_def filter_empty_conv edge_rel_def)
  have "branches_ok ?ids es n" using br n by blast
  then have kind: "\<not> (case wn_config n of NStart \<Rightarrow> True | NCondition _ _ \<Rightarrow> True | _ \<Rightarrow> False)"
    using none n(2) by (auto simp: branches_ok_def split: workflow_node_config.splits)
  have "is_terminal_node ?ids es (reachable_from start (outgoing ?ids es)) n"
    unfolding is_terminal_node_def reachable_from_spec outgoing_exits[OF known]
    using n(2) v(1) none kind by blast
  then have "list_ex (is_terminal_node ?ids es (reachable_from start (outgoing ?ids es))) nodes"
    using n(1) by (auto simp: list_ex_iff)
  then show ?thesis
    by (auto simp: start_diagnostics_def Let_def reachable_from_spec filter_empty_conv)
qed

text \<open>The cycle test never underflows its counters and, whatever the iteration order of the hash
  maps, answers "no cycle" exactly when the node identifiers are distinct and the edges between known
  nodes form an acyclic graph.\<close>
theorem cycle_test_exact:
  assumes "set keys = wn_id ` set nodes" and "distinct keys"
  shows "has_cycle keys nodes es
       = Some (\<not> (distinct (map wn_id nodes) \<and> acyclic (edge_rel (wn_id ` set nodes) es)))"
  using assms by (rule has_cycle_spec)

lemma validate_workflow_valid:
  assumes "set keys = wn_id ` set (wd_nodes draft)" and "distinct keys"
  shows "\<exists>r. validate_workflow check_task os keys draft = Some r
       \<and> (rp_valid r \<longleftrightarrow> (\<exists>start. rp_start_node_id r = Some start
             \<and> workflow_ok check_task os (wd_nodes draft) (wd_edges draft) start))"
proof -
  let ?nodes = "wd_nodes draft" and ?es = "wd_edges draft"
  let ?ids = "wn_id ` set ?nodes"
  define start_id where "start_id = (if length (filter is_start ?nodes) = 1
      then Some (wn_id (filter is_start ?nodes ! 0)) else None)"
  define cyc where "cyc = (\<not> (distinct (map wn_id ?nodes) \<and> acyclic (edge_rel ?ids ?es)))"
  have hc: "has_cycle keys ?nodes ?es = Some cyc" unfolding cyc_def using assms by (rule has_cycle_spec)
  obtain r where r: "validate_workflow check_task os keys draft = Some r" "rp_start_node_id r = start_id"
    and v: "rp_valid r \<longleftrightarrow> length ?nodes \<le> 100 \<and> length ?es \<le> 200
        \<and> node_diagnostics check_task os [] ?nodes = [] \<and> length (filter is_start ?nodes) = 1
        \<and> edge_diagnostics ?ids [] ?es = [] \<and> (\<forall>n \<in> set ?nodes. branch_diagnostics ?ids ?es n = [])
        \<and> \<not> cyc \<and> start_diagnostics ?nodes ?es start_id = []"
    using hc by (auto simp: validate_workflow_def Let_def start_id_def)
  have one: "length (filter is_start ?nodes) = 1 \<longleftrightarrow> (\<exists>n. filter is_start ?nodes = [n])"
    by (cases "filter is_start ?nodes") auto
  have no_self: "we_from e \<noteq> we_to e" if "acyclic (edge_rel ?ids ?es)" "e \<in> set ?es" "known_edge ?ids e" for e
  proof
    assume "we_from e = we_to e"
    with that(2,3) have "(we_from e, we_from e) \<in> edge_rel ?ids ?es" unfolding edge_rel_def by force
    with that(1) show False by (auto simp: acyclic_def)
  qed
  have "rp_valid r \<longleftrightarrow> (\<exists>start. start_id = Some start \<and> workflow_ok check_task os ?nodes ?es start)"
  proof (cases "\<exists>n. filter is_start ?nodes = [n]")
    case False
    then have "length (filter is_start ?nodes) \<noteq> 1" using one by blast
    then show ?thesis using v False by (auto simp: start_id_def)
  next
    case True
    then obtain n where n: "filter is_start ?nodes = [n]" by blast
    then have "n \<in> set (filter is_start ?nodes)" by simp
    then have nin: "wn_id n \<in> ?ids" by simp
    have sid: "start_id = Some (wn_id n)" using n by (simp add: start_id_def)
    have len: "length (filter is_start ?nodes) = 1" using n by simp
    have "rp_valid r \<longleftrightarrow> workflow_ok check_task os ?nodes ?es (wn_id n)"
    proof (cases "(\<forall>e \<in> set ?es. known_edge ?ids e) \<and> (\<forall>n \<in> set ?nodes. branches_ok ?ids ?es n)
                   \<and> acyclic (edge_rel ?ids ?es)")
      case c: True
      then have br: "\<forall>n \<in> set ?nodes. branch_diagnostics ?ids ?es n = []"
        using branch_diagnostics_Nil by blast
      have "start_diagnostics ?nodes ?es start_id = [] \<longleftrightarrow> rooted ?nodes ?es (wn_id n)"
        unfolding sid rooted_def using start_diagnostics_Nil[of ?es ?nodes "wn_id n"] c nin n by simp
      with v br c len no_self show ?thesis
        by (auto simp: workflow_ok_def node_diagnostics_Nil edge_diagnostics_Nil cyc_def)
    next
      case c: False
      have "\<not> workflow_ok check_task os ?nodes ?es (wn_id n)" using c by (auto simp: workflow_ok_def)
      moreover have "\<not> rp_valid r"
      proof
        assume "rp_valid r"
        with v have "\<forall>e \<in> set ?es. known_edge ?ids e" "\<forall>n \<in> set ?nodes. branch_diagnostics ?ids ?es n = []"
          "acyclic (edge_rel ?ids ?es)" by (auto simp: edge_diagnostics_Nil cyc_def)
        with c branch_diagnostics_Nil show False by blast
      qed
      ultimately show ?thesis by blast
    qed
    with sid show ?thesis by simp
  qed
  with r show ?thesis by auto
qed

text \<open>C14: The validation accepts a workflow exactly when it meets the specification: within the limits,
  distinct nodes with valid settings, no dangling or repeated edge, one start node from which every
  node is reachable, no cycle, and exits that fit the kind of each node. (The separate diagnostics for
  self edges and for a missing terminal node add nothing to these conditions.)\<close>
theorem workflow_validation_exact:
  assumes "set keys = wn_id ` set (wd_nodes draft)" and "distinct keys"
  shows "\<exists>r. validate_workflow check_task os keys draft = Some r
       \<and> (rp_valid r \<longleftrightarrow> (\<exists>start. rp_start_node_id r = Some start
             \<and> workflow_ok check_task os (wd_nodes draft) (wd_edges draft) start))"
  using assms by (rule validate_workflow_valid)

section \<open>An example workflow\<close>

definition example_node :: "uuid \<Rightarrow> workflow_node_config \<Rightarrow> workflow_node" where
  "example_node i config =
     \<lparr>wn_id = i, wn_name = ''n'', wn_position = \<lparr>np_x = Some 0, np_y = Some 0\<rparr>, wn_config = config\<rparr>"

definition example_nodes :: "workflow_node list" where
  "example_nodes =
     [example_node 1 NStart, example_node 2 (NCustom CustomCommand ''id'' 60),
      example_node 3 (NCondition 2 (ExitCode NumEqual 0)), example_node 4 (NStop ''a''),
      example_node 5 (NStop ''b'')]"

definition example_edges :: "workflow_edge list" where
  "example_edges =
     [\<lparr>we_from = 1, we_to = 2, we_branch = BSuccess\<rparr>, \<lparr>we_from = 2, we_to = 3, we_branch = BSuccess\<rparr>,
      \<lparr>we_from = 3, we_to = 4, we_branch = BTrue\<rparr>, \<lparr>we_from = 3, we_to = 5, we_branch = BFalse\<rparr>]"

definition example_workflow :: workflow_draft where
  "example_workflow =
     \<lparr>wd_id = None, wd_name = ''w'', wd_description = [], wd_nodes = example_nodes, wd_edges = example_edges\<rparr>"

lemma example_valid:
  "validate_workflow (\<lambda>_ _ _. Inr ()) UnixHost [3, 1, 5, 2, 4] example_workflow
     = Some \<lparr>rp_valid = True, rp_start_node_id = Some 1, rp_diagnostics = []\<rparr>"
  by (simp add: validate_workflow_def example_workflow_def example_nodes_def example_edges_def example_node_def is_start_def has_cycle_def
    indegrees_def incoming_def outgoing_def known_edge_def Let_def validate_node_def is_blank_def trim_start.simps byte_def char_count_def is_cont_def
    edge_key_def branch_diagnostics_def start_diagnostics_def reachable_from_def is_terminal_node_def)

lemma example_keys: "set [3, 1, 5, 2, 4] = wn_id ` set example_nodes" "distinct [3, 1, 5, 2, 4 :: uuid]"
  by (auto simp: example_nodes_def example_node_def)

lemma example_has_cycle: "has_cycle [3, 1, 5, 2, 4] example_nodes example_edges = Some False"
  by (simp add: example_nodes_def example_edges_def example_node_def has_cycle_def
      indegrees_def incoming_def outgoing_def known_edge_def Let_def)

theorem cycle_test_exact_witness:
  "acyclic (edge_rel (wn_id ` set example_nodes) example_edges)"
  using cycle_test_exact[OF example_keys, of example_edges] example_has_cycle by simp

theorem workflow_validation_exact_witness:
  "workflow_ok (\<lambda>_ _ _. Inr ()) UnixHost example_nodes example_edges 1"
  using workflow_validation_exact[where draft = example_workflow and check_task = "\<lambda>_ _ _. Inr ()"
      and os = UnixHost and keys = "[3, 1, 5, 2, 4]"] example_keys example_valid
  by (simp add: example_workflow_def)

end
