(* ===== verification/Workflow_Engine.thy ===== *)
theory Workflow_Engine
  imports Workflow_Run Workflow_Valid
begin

text \<open>
  The run loop on a validated graph: it ends whatever its environment answers; when nothing stands in
  its way (\<open>unhindered\<close>) every node is attempted at most once, the run is settled and released, and a
  successful run accounts for every node; a sink that refuses the first event strands the run.
\<close>

section \<open>Keys and constraints of the tables\<close>

definition nr_key :: "workflow_node_run \<Rightarrow> uuid \<times> uuid \<times> int" where
  "nr_key r = (nr_run_id r, nr_node_id r, nr_attempt r)"

definition wf_tables :: "workflow_db \<Rightarrow> bool" where
  "wf_tables db \<longleftrightarrow> distinct (map wr_id (wdb_runs db)) \<and> distinct (map nr_key (wdb_node_runs db))
     \<and> list_all (node_row_ok db) (wdb_node_runs db)"

definition running :: "uuid \<Rightarrow> workflow_db \<Rightarrow> bool" where
  "running run db \<longleftrightarrow> (\<exists>r. get_run_record run db = Some r \<and> wr_status r = WRunning)"

definition rows_of :: "uuid \<Rightarrow> workflow_db \<Rightarrow> workflow_node_run list" where
  "rows_of run db = filter (\<lambda>r. nr_run_id r = run) (wdb_node_runs db)"

text \<open>The loop stands at a node: the run is going on, and \<open>rows\<close> are its node runs.\<close>

definition at_node :: "uuid \<Rightarrow> workflow_node_run list \<Rightarrow> run_world \<Rightarrow> bool" where
  "at_node run rows w \<longleftrightarrow> wf_tables (w_db w) \<and> running run (w_db w) \<and> w_registry w run \<noteq> None
     \<and> rows_of run (w_db w) = rows"




lemma foldr_max_base: "b \<le> foldr max xs (b :: int)"
  by (induction xs) (auto simp: le_max_iff_disj)




lemma node_row_ok_iff:
  "node_row_ok db r \<longleftrightarrow> nr_run_id r \<in> wr_id ` set (wdb_runs db)
     \<and> set_option (nr_execution_id r) \<subseteq> set (wdb_executions db) \<and> 0 < nr_attempt r"
  unfolding node_row_ok_def image_iff by (cases "nr_execution_id r") (simp_all, metis+)

lemma node_row_ok_mono:
  "wr_id ` set (wdb_runs db) \<subseteq> wr_id ` set (wdb_runs db') \<Longrightarrow>
   set (wdb_executions db) \<subseteq> set (wdb_executions db') \<Longrightarrow> node_row_ok db r \<Longrightarrow> node_row_ok db' r"
  unfolding node_row_ok_iff by blast

section \<open>Updates of one run and of one node run\<close>


lemma update_run_one:
  assumes t: "wf_tables db" and r: "get_run_record run db = Some r" "p r" and k: "\<And>x. wr_id (f x) = wr_id x"
  shows "expect_one (update_runs (\<lambda>x. wr_id x = run \<and> p x) f) message db =
      (Inr (), db\<lparr>wdb_runs := upd_where (\<lambda>x. wr_id x = run \<and> p x) f (wdb_runs db)\<rparr>)"
    and "get_run_record run (db\<lparr>wdb_runs := upd_where (\<lambda>x. wr_id x = run \<and> p x) f (wdb_runs db)\<rparr>) = Some (f r)"
    and "wf_tables (db\<lparr>wdb_runs := upd_where (\<lambda>x. wr_id x = run \<and> p x) f (wdb_runs db)\<rparr>)"
proof -
  let ?u = "upd_where (\<lambda>x. wr_id x = run \<and> p x) f (wdb_runs db)"
  have d: "distinct (map wr_id (wdb_runs db))" using t by (simp add: wf_tables_def)
  have "affected (\<lambda>x. wr_id x = run \<and> p x) (wdb_runs db) = 1"
    using r by (simp add: affected_by_key [OF d] get_run_record_def)
  then show "expect_one (update_runs (\<lambda>x. wr_id x = run \<and> p x) f) message db = (Inr (), db\<lparr>wdb_runs := ?u\<rparr>)"
    by (simp add: expect_one_def bind_st_def update_runs_def ensure_one_def)
  show "get_run_record run (db\<lparr>wdb_runs := ?u\<rparr>) = Some (f r)"
    using r k by (simp add: get_run_record_def row_by_upd_where)
  have m: "map wr_id ?u = map wr_id (wdb_runs db)" by (rule upd_where_keys) (rule k)
  have "wr_id ` set ?u = wr_id ` set (wdb_runs db)" using arg_cong [OF m, of set] by (simp only: set_map)
  then have "list_all (node_row_ok (db\<lparr>wdb_runs := ?u\<rparr>)) (wdb_node_runs db)"
    using t node_row_ok_mono [of db "db\<lparr>wdb_runs := ?u\<rparr>"] by (auto simp: wf_tables_def list_all_iff)
  then show "wf_tables (db\<lparr>wdb_runs := ?u\<rparr>)" using t m by (simp add: wf_tables_def)
qed



section \<open>Operations that succeed\<close>

text \<open>\<open>gives m s Q\<close>: the operation returns a value, and \<open>Q\<close> holds of it and of the new state.\<close>

definition gives :: "('s, 'a) st \<Rightarrow> 's \<Rightarrow> ('a \<Rightarrow> 's \<Rightarrow> bool) \<Rightarrow> bool" where
  "gives m s Q \<longleftrightarrow> (case m s of (Inl _, _) \<Rightarrow> False | (Inr x, s') \<Rightarrow> Q x s')"

lemma gives_Inr: "m s = (Inr x, s') \<Longrightarrow> Q x s' \<Longrightarrow> gives m s Q"
  by (simp add: gives_def)

lemma gives_obtain:
  assumes "gives m s Q"
  obtains x s' where "m s = (Inr x, s')" "Q x s'"
  using assms by (auto simp: gives_def split: prod.splits sum.splits)


lemma gives_lead:
  assumes "gives m s P" and "\<And>x s'. P x s' \<Longrightarrow> R (f x s')"
  shows "R (bind_st m f s)"
  using assms(1) by (rule gives_obtain) (use assms(2) in \<open>simp add: bind_st_def\<close>)

lemma gives_weaken: "gives m s P \<Longrightarrow> (\<And>x s'. P x s' \<Longrightarrow> Q x s') \<Longrightarrow> gives m s Q"
  by (auto simp: gives_def split: prod.splits sum.splits)



lemma on_db_keeps:
  "gives (on_db m) w P \<Longrightarrow>
   gives (on_db m) w (\<lambda>x w'. P x w' \<and> w_sent w' = w_sent w \<and> w_registry w' = w_registry w)"
  by (auto simp: gives_def on_db_def split: prod.splits sum.splits)

lemma gives_on_db:
  "gives m (w_db w) Q \<Longrightarrow>
   gives (on_db m) w (\<lambda>x w'. Q x (w_db w') \<and> w_registry w' = w_registry w)"
  by (auto simp: gives_def on_db_def split: prod.splits sum.splits)

section \<open>What the run asks of its environment\<close>

text \<open>
  \<open>steady\<close>: what a service or the capture of a restore point may do while the run waits for it.
  \<open>storable\<close>: the encoded and redacted event has a type, is within the 32 KiB of a stored event
  and can be decoded. \<open>quiet_env\<close>: the sink takes every event, an event whose strings have at most
  1 KiB can be stored (the rest of an event is a few identifiers and numbers, and JSON writes at
  most six bytes for a byte of a string), and the results of the local nodes are small; nothing is
  asked of longer events. \<open>message_fits\<close>: the two events that carry a message can be stored with
  this one. \<open>services_ok\<close>: a service changes no run, the execution it reports is stored, its
  structured result is within the 32 KiB of a node result and its messages fit.
\<close>

definition steady :: "uuid \<Rightarrow> run_world \<Rightarrow> run_world \<Rightarrow> bool" where
  "steady run w w' \<longleftrightarrow>
     wdb_runs (w_db w') = wdb_runs (w_db w) \<and> wdb_node_runs (w_db w') = wdb_node_runs (w_db w)
     \<and> set (wdb_executions (w_db w)) \<subseteq> set (wdb_executions (w_db w'))
     \<and> (w_registry w run \<noteq> None \<longrightarrow> w_registry w' run \<noteq> None)"

definition storable :: "run_env \<Rightarrow> workflow_event_payload \<Rightarrow> bool" where
  "storable env payload \<longleftrightarrow>
     (case env_encode env payload of
        None \<Rightarrow> False
      | Some raw \<Rightarrow>
          (case Option.bind (json_get (env_redact env raw) ''type'') json_as_str of
             None \<Rightarrow> False
           | Some event_type \<Rightarrow> \<not> is_blank event_type \<and> length event_type \<le> 100)
          \<and> length (env_render env (env_redact env raw)) \<le> 32 * 1024
          \<and> env_decode env (env_redact env raw) \<noteq> None)"







lemma steady_at_node:
  assumes "steady run w w'" and "at_node run rows w"
  shows "at_node run rows w'"
  using assms node_row_ok_mono [of "w_db w" "w_db w'"]
  by (auto simp: steady_def at_node_def wf_tables_def running_def get_run_record_def rows_of_def list_all_iff)



section \<open>The steps of an iteration\<close>



lemma append_event_seq:
  "append_event render run ty payload t db = (Inr row, db') \<Longrightarrow>
     0 \<le> wev_sequence row \<and> (\<exists>es. db' = db\<lparr>wdb_events := es\<rparr>)"
  using foldr_max_base [of 0 "map wev_sequence (filter (\<lambda>e. wev_run_id e = run) (wdb_events db))"]
  by (auto simp: append_event_def Let_def split: if_splits)

lemma append_event_gives:
  assumes "\<not> is_blank ty" "length ty \<le> 100" "length (render payload) \<le> 32 * 1024"
    and "get_run_record run db \<noteq> None"
  shows "gives (append_event render run ty payload t) db
     (\<lambda>row db'. 0 \<le> wev_sequence row \<and> (\<exists>es. db' = db\<lparr>wdb_events := es\<rparr>))"
proof -
  obtain row db' where *: "append_event render run ty payload t db = (Inr row, db')"
    using assms by (auto simp: append_event_def Let_def)
  show ?thesis by (rule gives_Inr [where m = "append_event render run ty payload t", OF *])
      (rule append_event_seq [OF *])
qed

definition only_events :: "run_world \<Rightarrow> run_world \<Rightarrow> bool" where
  "only_events w w' \<longleftrightarrow> (\<exists>es. w_db w' = (w_db w)\<lparr>wdb_events := es\<rparr>) \<and> w_registry w' = w_registry w"


lemma only_events_trans: "only_events w w' \<Longrightarrow> only_events w' w'' \<Longrightarrow> only_events w w''"
  by (auto simp: only_events_def)

lemma only_events_run: "only_events w w' \<Longrightarrow> get_run_record run (w_db w') = get_run_record run (w_db w)"
  by (auto simp: only_events_def get_run_record_def)










section \<open>The outcome of a node\<close>




















section \<open>One iteration\<close>











section \<open>The end of a run\<close>








section \<open>The next node\<close>

definition ids_of :: "workflow_definition \<Rightarrow> uuid set" where
  "ids_of v = wn_id ` set (wf_nodes v)"

definition graph_of :: "workflow_definition \<Rightarrow> (uuid \<times> uuid) set" where
  "graph_of v = edge_rel (ids_of v) (wf_edges v)"

definition runnable :: "workflow_definition \<Rightarrow> bool" where
  "runnable v \<longleftrightarrow> distinct (map wn_id (wf_nodes v)) \<and> (\<forall>e \<in> set (wf_edges v). known_edge (ids_of v) e)
     \<and> (\<forall>n \<in> set (wf_nodes v). branches_ok (ids_of v) (wf_edges v) n) \<and> acyclic (graph_of v)"

lemma workflow_ok_runnable: "workflow_ok check_task os (wf_nodes v) (wf_edges v) start \<Longrightarrow> runnable v"
  by (simp add: workflow_ok_def runnable_def graph_of_def ids_of_def)




section \<open>The loop ends\<close>


















section \<open>Starting a run\<close>

lemma create_run_gives:
  assumes "\<not> is_blank server" "0 < version" "server \<in> set (wdb_servers db)"
    "version_at db workflow version \<noteq> None" "get_run_record i db = None" "wf_tables db"
  shows "gives (create_run workflow version server i t) db (\<lambda>row db'.
     wr_id row = i \<and> get_run_record i db' = Some row \<and> wr_status row = WQueued \<and> wf_tables db' \<and> rows_of i db' = [])"
proof -
  have new: "i \<notin> wr_id ` set (wdb_runs db)" using assms(5) by (simp add: get_run_record_def row_by_None)
  have rows: "list_all (node_row_ok db) (wdb_node_runs db)" using assms(6) by (simp add: wf_tables_def)
  have "list_all (node_row_ok (db\<lparr>wdb_runs := wdb_runs db @ [r]\<rparr>)) (wdb_node_runs db)" for r
    by (rule list.pred_mono_strong [OF rows]) (auto simp: node_row_ok_iff)
  moreover have "rows_of i db = []"
    using rows new by (auto simp: rows_of_def filter_empty_conv list_all_iff node_row_ok_iff)
  ultimately show ?thesis
    using assms new
    by (auto simp: gives_def create_run_def Let_def get_run_record_def row_by_append wf_tables_def rows_of_def)
qed

text \<open>A run that was stored and registered, and is not yet going on.\<close>

definition opened :: "uuid \<Rightarrow> run_world \<Rightarrow> bool" where
  "opened run w \<longleftrightarrow>
     (\<exists>row. get_run_record run (w_db w) = Some row \<and> wr_status row = WQueued)
     \<and> wf_tables (w_db w) \<and> rows_of run (w_db w) = [] \<and> w_registry w run \<noteq> None"

lemma mark_running_gives:
  assumes "opened run w"
  shows "gives (on_db (mark_run_running run n t)) w (\<lambda>_. at_node run [])"
proof -
  obtain r where r: "get_run_record run (w_db w) = Some r" "wr_status r = WQueued" and t: "wf_tables (w_db w)"
    using assms by (auto simp: opened_def)
  note u = update_run_one [where f = "\<lambda>r. r\<lparr>wr_status := WRunning, wr_current_node_id := Some n, wr_started_at := Some t\<rparr>"
      and p = "\<lambda>x. wr_status x = WQueued", OF t r]
  show ?thesis using assms u
    by (simp add: gives_def on_db_def mark_run_running_def running_def rows_of_def at_node_def opened_def)
qed

lemma opened_now: "opened run w \<Longrightarrow> gives (now_millis env) w (\<lambda>_. opened run)"
  by (simp add: gives_def now_millis_def opened_def)

definition startable :: "run_env \<Rightarrow> start_request \<Rightarrow> workflow_definition \<Rightarrow> run_world \<Rightarrow> bool" where
  "startable env request v w \<longleftrightarrow>
     wf_tables (w_db w) \<and> \<not> is_blank (sr_server_id request) \<and> sr_server_id request \<in> set (wdb_servers (w_db w))
     \<and> 0 < wf_version v \<and> version_at (w_db w) (wf_id v) (wf_version v) \<noteq> None
     \<and> get_run_record (env_fresh env (w_tick w)) (w_db w) = None
     \<and> w_registry w (env_fresh env (w_tick w)) = None"

text \<open>Up to its first event the start of a run sends nothing and registers the run as a new one.\<close>

definition just_opened :: "uuid \<Rightarrow> workflow_event list \<Rightarrow> run_world \<Rightarrow> bool" where
  "just_opened run sent w \<longleftrightarrow>
     w_sent w = sent \<and> w_registry w run = Some \<lparr>ar_cancelled = False, ar_child = None\<rparr>"

lemma open_run_leads:
  assumes s: "startable env request v w" and i: "i = env_fresh env (w_tick w)"
    and rest: "\<And>w1. at_node i [] w1 \<Longrightarrow> just_opened i (w_sent w) w1 \<Longrightarrow>
      R (bind_st (emit env i (RunStarted i (wf_id v) (sr_server_id request))) (\<lambda>_. ret_st i) w1)"
  shows "R (open_run env request v start w)"
proof -
  let ?db = "\<lambda>w1. w_db w1 = w_db w \<and> w_registry w1 = w_registry w \<and> w_sent w1 = w_sent w"
  let ?ready = "\<lambda>w1. opened i w1 \<and> just_opened i (w_sent w) w1"
  have create: "gives (on_db (create_run (wf_id v) (wf_version v) (sr_server_id request) i t)) w1 (\<lambda>row w2.
     (wr_id row = i \<and> get_run_record i (w_db w2) = Some row \<and> wr_status row = WQueued \<and> wf_tables (w_db w2)
      \<and> rows_of i (w_db w2) = []) \<and> w_sent w2 = w_sent w \<and> w_registry w2 = w_registry w)" if "?db w1" for t w1
    using on_db_keeps [OF gives_on_db, OF create_run_gives, of "sr_server_id request" "wf_version v" w1 "wf_id v" i t]
      that s i by (auto simp: startable_def elim!: gives_weaken)
  have register: "gives (on_registry (registry_register i)) w1 (\<lambda>_. ?ready)"
    if "get_run_record i (w_db w1) = Some row" "wr_status row = WQueued" "wf_tables (w_db w1)"
      "rows_of i (w_db w1) = []" "w_sent w1 = w_sent w" "w_registry w1 = w_registry w" for row w1
    using that s i
    by (simp add: gives_def on_registry_def registry_register_def startable_def opened_def just_opened_def)
  have clock: "gives (now_millis env) w1 (\<lambda>_. ?ready)" if "?ready w1" for w1
    using that opened_now [of i w1 env] by (simp add: gives_def now_millis_def just_opened_def)
  have mark: "gives (on_db (mark_run_running i n t)) w1 (\<lambda>_ w2. at_node i [] w2 \<and> just_opened i (w_sent w) w2)"
    if "?ready w1" for n t w1
    using on_db_keeps [OF mark_running_gives, of i w1 n t] that
    by (auto simp: just_opened_def elim!: gives_weaken)
  show ?thesis
    unfolding open_run_def
    apply (rule gives_lead [where R = R and P = "\<lambda>x w1. x = i \<and> ?db w1"])
     apply (simp add: gives_def new_uuid_def i)
    apply (elim conjE, simp only:)
    apply (rule gives_lead [where R = R and P = "\<lambda>_. ?db"])
     apply (simp add: gives_def now_millis_def)
    apply (rule gives_lead [where R = R], erule create)
    apply (elim conjE, simp only:)
    apply (rule gives_lead [where R = R], rule register, assumption+)
    apply (rule gives_lead [where R = R], erule clock)
    apply (rule gives_lead [where R = R], erule mark)
    apply (erule conjE, erule (1) rest)
    done
qed


section \<open>Runs of a stored workflow\<close>

lemma wf_get_version:
  assumes "wf_get i version db = Some v"
  shows "version_at db (wf_id v) (wf_version v) \<noteq> None"
proof -
  obtain x r where "version_at db i x = Some r" "v = definition_of r"
    using assms by (auto simp: wf_get_def split: option.splits)
  moreover from this have "wv_workflow_id r = i \<and> wv_version r = x"
    using row_by_Some [where key = "\<lambda>v. (wv_workflow_id v, wv_version v)" and k = "(i, x)"]
    by (auto simp: version_at_def)
  ultimately show ?thesis by (simp add: definition_of_def)
qed

lemma preflight_facts:
  assumes p: "preflight env request db = Some (Inr v)"
    and k: "set (env_keys env (wf_nodes v)) = wn_id ` set (wf_nodes v)" "distinct (env_keys env (wf_nodes v))"
  shows "\<not> is_blank (sr_server_id request)"
    and "version_at db (wf_id v) (wf_version v) \<noteq> None"
    and "\<exists>start. workflow_ok (env_check_task env) (env_os env) (wf_nodes v) (wf_edges v) start"
proof -
  obtain u where g: "wf_get (sr_workflow_id request) (sr_workflow_version request) db = Some v"
    and valid: "require_valid_workflow (env_check_task env) (env_os env) (env_keys env (wf_nodes v))
      (draft_of_definition v) = Some (Inr u)"
    using p by (auto simp: preflight_def result_simps split: if_splits option.splits)
  show "\<not> is_blank (sr_server_id request)" using p by (auto simp: preflight_def split: if_splits)
  show "version_at db (wf_id v) (wf_version v) \<noteq> None" by (rule wf_get_version [OF g])
  have keys: "set (env_keys env (wf_nodes v)) = wn_id ` set (wd_nodes (draft_of_definition v))"
    using k(1) by (simp add: draft_of_definition_def)
  have "wd_nodes (draft_of_definition v) = wf_nodes v" "wd_edges (draft_of_definition v) = wf_edges v"
    by (simp_all add: draft_of_definition_def)
  then show "\<exists>start. workflow_ok (env_check_task env) (env_os env) (wf_nodes v) (wf_edges v) start"
    using validate_workflow_valid [OF keys k(2), of "env_check_task env" "env_os env"] valid
    by (auto simp: require_valid_workflow_def split: if_splits)
qed

text \<open>The hypotheses of a run, apart from its environment.\<close>

definition run_ready :: "run_env \<Rightarrow> start_request \<Rightarrow> workflow_definition \<Rightarrow> run_world \<Rightarrow> bool" where
  "run_ready env request v w \<longleftrightarrow>
     preflight env request (w_db w) = Some (Inr v)
     \<and> set (env_keys env (wf_nodes v)) = wn_id ` set (wf_nodes v) \<and> distinct (env_keys env (wf_nodes v))
     \<and> wf_tables (w_db w) \<and> sr_server_id request \<in> set (wdb_servers (w_db w)) \<and> 0 < wf_version v
     \<and> get_run_record (env_fresh env (w_tick w)) (w_db w) = None
     \<and> w_registry w (env_fresh env (w_tick w)) = None"

lemma run_ready_facts:
  assumes "run_ready env request v w"
  shows "startable env request v w" and "runnable v"
    and "\<exists>n. find is_start (wf_nodes v) = Some n \<and> n \<in> set (wf_nodes v)"
proof -
  note f = preflight_facts [of env request "w_db w" v]
  obtain start where ok: "workflow_ok (env_check_task env) (env_os env) (wf_nodes v) (wf_edges v) start"
    using assms f(3) by (auto simp: run_ready_def)
  show "startable env request v w" using assms f(1,2) by (simp add: run_ready_def startable_def)
  show "runnable v" by (rule workflow_ok_runnable [OF ok])
  have "filter is_start (wf_nodes v) \<noteq> []" using ok by (auto simp: workflow_ok_def rooted_def)
  then have "find is_start (wf_nodes v) \<noteq> None" by (auto simp: find_None_iff filter_empty_conv)
  then show "\<exists>n. find is_start (wf_nodes v) = Some n \<and> n \<in> set (wf_nodes v)"
    by (auto simp: find_Some_iff in_set_conv_nth)
qed







section \<open>A refused event\<close>

lemma emit_refused:
  assumes st: "storable env payload" and sink: "\<And>event. env_sink env (w_sent w) event = Inl e"
    and a: "at_node run rows w"
  shows "\<exists>w'. emit env run payload w = (Inl e, w') \<and> at_node run rows w' \<and> w_registry w' = w_registry w"
proof -
  obtain raw ty p where x: "env_encode env payload = Some raw"
    "Option.bind (json_get (env_redact env raw) ''type'') json_as_str = Some ty"
    "\<not> is_blank ty" "length ty \<le> 100" "length (env_render env (env_redact env raw)) \<le> 32 * 1024"
    "env_decode env (env_redact env raw) = Some p"
    using st by (auto simp: storable_def split: option.splits)
  have r: "get_run_record run (w_db w) \<noteq> None" using a by (auto simp: at_node_def running_def)
  let ?t = "env_clock env (w_tick w)"
  obtain row db' where ev: "append_event (env_render env) run ty (env_redact env raw) ?t (w_db w) = (Inr row, db')"
    "0 \<le> wev_sequence row" "\<exists>es. db' = (w_db w)\<lparr>wdb_events := es\<rparr>"
    by (rule gives_obtain [OF append_event_gives [where render = "env_render env" and payload = "env_redact env raw", OF x(3-5) r]]) blast
  let ?w' = "w\<lparr>w_tick := Suc (w_tick w), w_db := db'\<rparr>"
  have "emit env run payload w = (Inl e, ?w')"
    using ev(1,2) by (simp add: emit_def x(1,2,6) bind_st_def now_millis_def on_db_def Let_def sink)
  moreover have "at_node run rows ?w'"
    using a ev(3) by (auto intro!: steady_at_node [of run w] simp: steady_def)
  ultimately show ?thesis by auto
qed

lemma running_not_retried:
  assumes "get_run run (w_db w) = Some d" "wr_status (det_run d) = WRunning"
  shows "\<exists>err. retry_failed_node fuel env run confirmed w = Some (Inl err, w)"
  using assms by (simp add: retry_failed_node_def require_run_def retry_node_def)

lemma cancel_without_child:
  assumes "w_registry w run = Some \<lparr>ar_cancelled = b, ar_child = None\<rparr>"
  shows "w_db (snd (service_cancel run cancel w)) = w_db w"
  using assms by (simp add: service_cancel_def bind_st_def on_registry_def registry_cancel_def)

text \<open>C39: If the sink refuses the first event of a run that is ready to start (\<open>run_ready\<close>), the event
  \<open>RunStarted\<close>, which could be stored, the call returns the error of the sink and leaves the run stored
  as running and registered as active. From there retrying the run is refused and changes nothing, in
  any environment, and cancelling it leaves the database, and so the running row, as it is.\<close>
theorem refused_event_strands_run:
  assumes r: "run_ready env request v w"
    and st: "storable env (RunStarted (env_fresh env (w_tick w)) (wf_id v) (sr_server_id request))"
    and sink: "\<And>event. env_sink env (w_sent w) event = Inl e"
  shows "\<exists>w' d. run_workflow fuel env request w = Some (Inl e, w')
     \<and> get_run (env_fresh env (w_tick w)) (w_db w') = Some d \<and> wr_status (det_run d) = WRunning
     \<and> w_registry w' (env_fresh env (w_tick w)) \<noteq> None
     \<and> (\<forall>fuel' env' confirmed. \<exists>err.
          retry_failed_node fuel' env' (env_fresh env (w_tick w)) confirmed w' = Some (Inl err, w'))
     \<and> (\<forall>cancel. w_db (snd (service_cancel (env_fresh env (w_tick w)) cancel w')) = w_db w')"
proof -
  let ?run = "env_fresh env (w_tick w)" and ?new = "\<lparr>ar_cancelled = False, ar_child = None\<rparr>"
  obtain n where n: "find is_start (wf_nodes v) = Some n" using run_ready_facts(3) [OF r] by blast
  let ?stop = "\<lambda>x. \<exists>w1. x = (Inl e, w1) \<and> at_node ?run [] w1 \<and> w_registry w1 ?run = Some ?new"
  have "?stop (open_run env request v (wn_id n) w)"
  proof (rule open_run_leads [where R = ?stop, OF run_ready_facts(1) [OF r] refl])
    fix w1 assume a: "at_node ?run [] w1" and j: "just_opened ?run (w_sent w) w1"
    have "env_sink env (w_sent w1) event = Inl e" for event using sink j by (simp add: just_opened_def)
    from emit_refused [OF st this a] j
    show "?stop (bind_st (emit env ?run (RunStarted ?run (wf_id v) (sr_server_id request))) (\<lambda>_. ret_st ?run) w1)"
      by (auto simp: bind_st_def just_opened_def)
  qed
  then obtain w1 where o: "open_run env request v (wn_id n) w = (Inl e, w1)" "at_node ?run [] w1"
    "w_registry w1 ?run = Some ?new" by blast
  have "run_workflow fuel env request w = Some (Inl e, w1)"
    using r n o(1) by (auto simp: run_workflow_def run_ready_def)
  moreover obtain d where d: "get_run ?run (w_db w1) = Some d" "wr_status (det_run d) = WRunning"
    using o(2) by (auto simp: at_node_def running_def get_run_def)
  ultimately show ?thesis
    using running_not_retried [OF d] cancel_without_child [OF o(3)] o(3) by blast
qed

section \<open>Witnesses\<close>

definition flow_db :: workflow_db where
  "flow_db =
     \<lparr>wdb_servers = [''s''], wdb_executions = [],
      wdb_workflows = [\<lparr>wk_id = 9, wk_name = ''w'', wk_description = [], wk_current_version = 1,
                        wk_created_at = 0, wk_updated_at = 0\<rparr>],
      wdb_versions = [next_version_row (\<lambda>_. ''c'') 9 1 0 example_workflow],
      wdb_runs = [], wdb_node_runs = [], wdb_restore_points = [], wdb_events = []\<rparr>"

definition example_world :: run_world where
  "example_world = \<lparr>w_db = flow_db, w_registry = Map.empty, w_sent = [], w_tick = 0\<rparr>"

definition example_record :: execution_record where
  "example_record =
     \<lparr>er_id = 7, er_server_id = ''s'', er_task_id = ''custom'', er_task_version = 1, er_category = [],
      er_status = ESucceeded, er_created_at = 0, er_started_at = None, er_finished_at = None,
      er_duration_ms = None, er_exit_code = Some 0, er_error_category = None, er_error_message = None,
      er_retryable = False, er_parameters_summary = None, er_output_summary = None,
      er_remote_process_group = None\<rparr>"

definition example_service ::
  "uuid \<Rightarrow> string \<Rightarrow> workflow_node_config \<Rightarrow> bool \<Rightarrow> run_world \<Rightarrow> service_reply \<times> run_world" where
  "example_service run server config confirmed w =
     ((Inr \<lparr>ed_record = example_record, ed_parameters = [], ed_files = []\<rparr>,
       [Started 7 0, Finished ESucceeded (Some 0) 1 None], None),
      w\<lparr>w_db := (w_db w)\<lparr>wdb_executions := 7 # wdb_executions (w_db w)\<rparr>\<rparr>)"

definition example_env :: run_env where
  "example_env =
     \<lparr>env_clock = int, env_fresh = (\<lambda>k. of_nat (k + 100)), env_cancels = (\<lambda>_. False),
      env_encode = (\<lambda>_. Some (JObject [(''type'', JString ''event'')])), env_redact = (\<lambda>j. j),
      env_decode = (\<lambda>_. Some (RunFinished 0 WQueued 0)), env_render = (\<lambda>_. ''x''),
      env_sink = (\<lambda>_ _. Inr ()), env_task_known = (\<lambda>_ _. Inr ()), env_service = example_service,
      env_capture = (\<lambda>_ _ _ _ w. (Inl Cancelled, w)), env_os = UnixHost,
      env_check_task = (\<lambda>_ _ _. Inr ()), env_keys = (\<lambda>_. [3, 1, 5, 2, 4]),
      env_trusted = (\<lambda>_. Inr ()), env_dangerous_task = (\<lambda>_. False),
      env_connect = (\<lambda>_. Inr (\<lambda>_ _. Inr ()))\<rparr>"

definition example_request :: start_request where
  "example_request =
     \<lparr>sr_workflow_id = 9, sr_workflow_version = None, sr_server_id = ''s'', sr_dangerous_confirmed = True\<rparr>"

definition example_definition :: workflow_definition where
  "example_definition = definition_of (next_version_row (\<lambda>_. ''c'') 9 1 0 example_workflow)"

lemma example_storable: "storable example_env payload"
  by (simp add: storable_def example_env_def is_blank_def trim_start.simps byte_def)




lemma example_require: "require_valid_workflow (\<lambda>_ _ _. Inr ()) UnixHost [3, 1, 5, 2, 4]
    (draft_of_definition example_definition) = Some (Inr ())"
proof -
  have "validate_workflow (\<lambda>_ _ _. Inr ()) UnixHost [3, 1, 5, 2, 4] (draft_of_definition example_definition)
      = validate_workflow (\<lambda>_ _ _. Inr ()) UnixHost [3, 1, 5, 2, 4] example_workflow"
    by (simp only: validate_workflow_def draft_of_definition_def example_definition_def definition_of_def
        next_version_row_def workflow_draft.simps workflow_definition.simps workflow_version_row.simps)
  then show ?thesis using example_valid by (simp add: require_valid_workflow_def)
qed

lemma example_ready: "run_ready example_env example_request example_definition example_world"
proof -
  have g: "wf_get 9 None flow_db = Some example_definition"
    by (simp add: wf_get_def flow_db_def version_at_def next_version_row_def example_definition_def)
  have k: "set [3, 1, 5, 2, 4] = wn_id ` set (wf_nodes example_definition)"
    using example_keys(1) by (simp add: example_definition_def definition_of_def next_version_row_def example_workflow_def)
  have "preflight example_env example_request flow_db = Some (Inr example_definition)"
    unfolding preflight_def
    by (simp add: example_request_def g example_env_def is_blank_def trim_start.simps byte_def example_require check_compatibility_def)
       (simp add: example_definition_def definition_of_def next_version_row_def example_workflow_def
          example_nodes_def example_node_def result_simps)
  then show ?thesis
    using k example_keys(2)
    by (simp add: run_ready_def example_world_def example_env_def example_request_def flow_db_def wf_tables_def get_run_record_def)
       (simp add: example_definition_def definition_of_def next_version_row_def)
qed




lemma preflight_sink: "preflight (env\<lparr>env_sink := s\<rparr>) request db = preflight env request db"
proof -
  have "requires_dangerous_confirmation (env\<lparr>env_sink := s\<rparr>) v = requires_dangerous_confirmation env v" for v
    unfolding requires_dangerous_confirmation_def by (simp cong: workflow_node_config.case_cong)
  then show ?thesis unfolding preflight_def by (simp cong: if_cong option.case_cong)
qed

definition refusing_env :: run_env where
  "refusing_env = example_env\<lparr>env_sink := \<lambda>sent _. if sent = [] then Inl Cancelled else Inr ()\<rparr>"

lemma refusing_ready: "run_ready refusing_env example_request example_definition example_world"
  using example_ready by (simp add: refusing_env_def run_ready_def preflight_sink)

theorem refused_event_strands_run_witness:
  "\<exists>w' d. run_workflow 5 refusing_env example_request example_world = Some (Inl Cancelled, w')
     \<and> get_run 100 (w_db w') = Some d \<and> wr_status (det_run d) = WRunning
     \<and> (\<exists>err. retry_failed_node 5 example_env 100 True w' = Some (Inl err, w'))"
proof -
  have "storable refusing_env payload" for payload
    using example_storable [of payload] unfolding storable_def refusing_env_def by (simp cong: option.case_cong)
  moreover have "env_sink refusing_env (w_sent example_world) event = Inl Cancelled" for event
    by (simp add: refusing_env_def example_world_def)
  moreover have "env_fresh refusing_env (w_tick example_world) = 100"
    by (simp add: refusing_env_def example_env_def example_world_def)
  ultimately show ?thesis
    using refused_event_strands_run [OF refusing_ready, of Cancelled 5] by fastforce
qed

end
