(* ===== verification/Workflow_History.thy ===== *)
theory Workflow_History
  imports Workflow_Repo
begin

text \<open>
  Histories of the workflow tables: the writes of the repository as data, and what no sequence of
  them can do to a stored version, to the status of a run, to a finished node run, or to a restore
  point.
\<close>

section \<open>Writes as data\<close>

datatype wf_op =
    WSave uuid int workflow_draft
  | WDelete uuid
  | WCreateRun uuid int string uuid int
  | WMarkRunning uuid uuid int
  | WSetCurrent uuid uuid
  | WStartNode uuid uuid int
  | WSkipNode uuid uuid
  | WLink uuid uuid int uuid
  | WFinishNode finish_workflow_node
  | WFinishRun finish_workflow_run
  | WResume uuid int
  | WFinishRollback uuid bool "string option" int
  | WAppendEvent uuid string json int
  | WCreatePoint new_restore_point uuid int
  | WFinishPoint finish_restore int
  | WMarkPoint uuid int
  | WFinishPointRollback uuid bool "string option" int
  | WExpirePoint uuid int
  | WRecover int

record wf_codec =
  wc_checksum :: "workflow_draft \<Rightarrow> string"
  wc_render :: "json \<Rightarrow> string"
  wc_check_path :: "string \<Rightarrow> unit app_result"

fun apply_wf :: "wf_codec \<Rightarrow> wf_op \<Rightarrow> workflow_db \<Rightarrow> workflow_db" where
  "apply_wf c (WSave i t d) = ignore_st (wf_save (wc_checksum c) i t d)"
| "apply_wf c (WDelete i) = ignore_st (wf_delete i)"
| "apply_wf c (WCreateRun w k s i t) = ignore_st (create_run w k s i t)"
| "apply_wf c (WMarkRunning r n t) = ignore_st (mark_run_running r n t)"
| "apply_wf c (WSetCurrent r n) = ignore_st (set_current_node r n)"
| "apply_wf c (WStartNode r n t) = ignore_st (start_node_attempt r n t)"
| "apply_wf c (WSkipNode r n) = ignore_st (record_skipped_node r n)"
| "apply_wf c (WLink r n k e) = ignore_st (link_node_execution r n k e)"
| "apply_wf c (WFinishNode f) = ignore_st (finish_node (wc_render c) f)"
| "apply_wf c (WFinishRun f) = ignore_st (finish_run f)"
| "apply_wf c (WResume r t) = ignore_st (resume_paused_run r t)"
| "apply_wf c (WFinishRollback r b m t) = ignore_st (finish_rollback_run r b m t)"
| "apply_wf c (WAppendEvent r y p t) = ignore_st (append_event (wc_render c) r y p t)"
| "apply_wf c (WCreatePoint d i t) = ignore_st (create_restore_point (wc_render c) (wc_check_path c) d i t)"
| "apply_wf c (WFinishPoint f t) = ignore_st (finish_restore_point (wc_check_path c) f t)"
| "apply_wf c (WMarkPoint i t) = ignore_st (mark_restore_point_rolling_back i t)"
| "apply_wf c (WFinishPointRollback i b m t) = ignore_st (finish_restore_point_rollback i b m t)"
| "apply_wf c (WExpirePoint i t) = ignore_st (expire_restore_point i t)"
| "apply_wf c (WRecover t) = ignore_st (wf_recover_interrupted t)"

fun run_wf :: "wf_codec \<Rightarrow> wf_op list \<Rightarrow> workflow_db \<Rightarrow> workflow_db" where
  "run_wf c [] db = db"
| "run_wf c (x # xs) db = run_wf c xs (apply_wf c x db)"

section \<open>Which table a write changes\<close>

lemma ignore_expect: "ignore_st (expect_one m message) db = snd (m db)"
  by (simp add: ignore_st_def expect_one_def bind_st_def split: prod.split sum.split)

lemma snd_expect [simp]: "snd (expect_one m message db) = snd (m db)"
  by (simp add: expect_one_def bind_st_def split: prod.split sum.split)

lemma update_runs_db: "snd (update_runs p f db) = db\<lparr>wdb_runs := upd_where p f (wdb_runs db)\<rparr>"
  by (simp add: update_runs_def)

lemma update_points_db: "snd (update_points p f db) = db\<lparr>wdb_restore_points := upd_where p f (wdb_restore_points db)\<rparr>"
  by (simp add: update_points_def)

lemma update_node_runs_db:
  "snd (update_node_runs p f db) \<in> {db, db\<lparr>wdb_node_runs := upd_where p f (wdb_node_runs db)\<rparr>}"
  by (auto simp: update_node_runs_def run_update_def)

text \<open>The other tables of each kind of write.\<close>

lemma update_node_runs_frame [simp]:
  "wdb_versions (snd (update_node_runs p f db)) = wdb_versions db"
  "wdb_runs (snd (update_node_runs p f db)) = wdb_runs db"
  "wdb_restore_points (snd (update_node_runs p f db)) = wdb_restore_points db"
  by (simp_all add: update_node_runs_def run_update_def)

lemma save_effect:
  "\<exists>new. wdb_versions (snd (wf_save ck i t d db)) = wdb_versions db @ new"
  "wdb_runs (snd (wf_save ck i t d db)) = wdb_runs db"
  "wdb_node_runs (snd (wf_save ck i t d db)) = wdb_node_runs db"
  "wdb_restore_points (snd (wf_save ck i t d db)) = wdb_restore_points db"
  by (auto simp: wf_save_def Let_def split: sum.split option.split)

lemma insert_effect:
  "\<exists>new. wdb_node_runs (snd (insert_node_run r n s t db)) = wdb_node_runs db @ new"
  "wdb_versions (snd (insert_node_run r n s t db)) = wdb_versions db"
  "wdb_runs (snd (insert_node_run r n s t db)) = wdb_runs db"
  "wdb_restore_points (snd (insert_node_run r n s t db)) = wdb_restore_points db"
  by (auto simp: insert_node_run_def Let_def)

lemma event_effect:
  "wdb_versions (snd (append_event render r y p t db)) = wdb_versions db"
  "wdb_runs (snd (append_event render r y p t db)) = wdb_runs db"
  "wdb_node_runs (snd (append_event render r y p t db)) = wdb_node_runs db"
  "wdb_restore_points (snd (append_event render r y p t db)) = wdb_restore_points db"
  by (auto simp: append_event_def Let_def)

lemma create_run_effect:
  "\<exists>new. wdb_runs (snd (create_run w k s i t db)) = wdb_runs db @ new"
  "wdb_versions (snd (create_run w k s i t db)) = wdb_versions db"
  "wdb_node_runs (snd (create_run w k s i t db)) = wdb_node_runs db"
  "wdb_restore_points (snd (create_run w k s i t db)) = wdb_restore_points db"
  by (auto simp: create_run_def Let_def)

lemma delete_effect:
  "wdb_runs (snd (wf_delete i db)) = wdb_runs db"
  "wdb_node_runs (snd (wf_delete i db)) = wdb_node_runs db"
  "wdb_restore_points (snd (wf_delete i db)) = wdb_restore_points db"
  by (auto simp: wf_delete_def)

lemma create_point_effect:
  "\<exists>new. wdb_restore_points (snd (create_restore_point render chk d i t db)) = wdb_restore_points db @ new"
  "wdb_versions (snd (create_restore_point render chk d i t db)) = wdb_versions db"
  "wdb_runs (snd (create_restore_point render chk d i t db)) = wdb_runs db"
  "wdb_node_runs (snd (create_restore_point render chk d i t db)) = wdb_node_runs db"
  by (auto simp: create_restore_point_def Let_def bind_st_def split: sum.split)

text \<open>Completing a restore point: either nothing is written, or this update.\<close>

lemma finish_point_effect:
  "snd (finish_restore_point chk fin t db) = db \<or>
   (frp_status fin \<in> {RAvailable, RFailed} \<and>
    (\<exists>f. snd (finish_restore_point chk fin t db) =
           db\<lparr>wdb_restore_points := upd_where (\<lambda>r. rp_id r = frp_id fin \<and> rp_status r = RCreating) f (wdb_restore_points db)\<rparr>
         \<and> (\<forall>r. rp_id (f r) = rp_id r \<and> rp_status (f r) = frp_status fin)))"
proof (cases "frp_status fin \<in> {RAvailable, RFailed}")
  case False
  then show ?thesis by (simp add: finish_restore_point_def)
next
  case status: True
  have norm: "frp_id norm = frp_id fin \<and> frp_status norm = frp_status fin" if "normalize_restore fin = Inr norm" for norm
    using that by (auto simp: normalize_restore_def split: if_splits)
  show ?thesis
  proof (cases "snd (finish_restore_point chk fin t db) = db")
    case False
    then obtain u norm size where *: "transpose_opt chk (frp_relative_path fin) = Inr u" "normalize_restore fin = Inr norm"
      "transpose_opt (\<lambda>v. to_i64 v ''restore point size'') (frp_size_bytes norm) = Inr size"
      using status by (auto simp: finish_restore_point_def bind_st_def split: sum.splits)
    show ?thesis
      using status * norm [OF *(2)]
      by (intro disjI2 conjI exI [of _ "\<lambda>r. r\<lparr>rp_status := frp_status norm, rp_original_existed := frp_original_existed norm,
                   rp_relative_path := frp_relative_path norm, rp_size_bytes := size, rp_sha256 := frp_sha256 norm,
                   rp_error_message := cap_utf8 (frp_error_message norm) (8 * 1024), rp_updated_at := t\<rparr>"])
         (simp_all add: finish_restore_point_def bind_st_def expect_one_def update_points_def ensure_one_def split: sum.splits)
  qed simp
qed

lemma recover_effect:
  "wdb_runs (snd (wf_recover_interrupted t db)) \<in> {wdb_runs db,
     upd_where (\<lambda>r. wr_status r = WRunning)
       (\<lambda>r. r\<lparr>wr_status := WUncertain, wr_finished_at := Some t,
              wr_duration_ms := Some (elapsed (wr_started_at r) t),
              wr_error_category := Some ''interrupted'',
              wr_error_message := Some ''remote workflow status not confirmed when the application exited'',
              wr_retryable := True\<rparr>) (wdb_runs db)}"
  "wdb_node_runs (snd (wf_recover_interrupted t db)) \<in> {wdb_node_runs db,
     upd_where (\<lambda>r. nr_status r = NRunning)
       (\<lambda>r. r\<lparr>nr_status := NUncertain, nr_finished_at := Some t,
              nr_duration_ms := Some (elapsed (nr_started_at r) t),
              nr_error_message := Some ''remote node status not confirmed when the application exited'',
              nr_retryable := True\<rparr>) (wdb_node_runs db)}"
  "wdb_versions (snd (wf_recover_interrupted t db)) = wdb_versions db"
  "wdb_restore_points (snd (wf_recover_interrupted t db)) = wdb_restore_points db"
  by (simp_all add: wf_recover_interrupted_def bind_st_def update_node_runs_def run_update_def update_runs_def)

section \<open>How each table evolves\<close>

definition run_step :: "workflow_run \<Rightarrow> workflow_run \<Rightarrow> bool" where
  "run_step r r' \<longleftrightarrow> wr_id r' = wr_id r \<and> wr_workflow_id r' = wr_workflow_id r
     \<and> wr_workflow_version r' = wr_workflow_version r
     \<and> (wr_status r' = wr_status r \<or> is_ok (validate_run_transition (wr_status r) (wr_status r')))"

definition row_key :: "workflow_node_run \<Rightarrow> uuid \<times> uuid \<times> int" where
  "row_key r = (nr_run_id r, nr_node_id r, nr_attempt r)"

definition node_step :: "workflow_node_run \<Rightarrow> workflow_node_run \<Rightarrow> bool" where
  "node_step r r' \<longleftrightarrow> row_key r' = row_key r \<and> nr_status r = NRunning"

definition point_steps :: "(restore_point_status \<times> restore_point_status) set" where
  "point_steps = {(RCreating, RAvailable), (RCreating, RFailed), (RAvailable, RRollingBack),
     (RRollingBack, RRolledBack), (RRollingBack, RFailed), (RAvailable, RExpired), (RFailed, RExpired),
     (RRolledBack, RExpired)}"

definition point_step :: "workflow_restore_point \<Rightarrow> workflow_restore_point \<Rightarrow> bool" where
  "point_step r r' \<longleftrightarrow> rp_id r' = rp_id r \<and> (rp_status r, rp_status r') \<in> point_steps"

interpretation point_machine: status_machine "\<lambda>s t. s = t \<or> (s, t) \<in> point_steps" "\<lambda>s. s = RExpired"
  by unfold_locales (auto simp: point_steps_def)

lemmas expect_ops = mark_run_running_def set_current_node_def resume_paused_run_def
  finish_rollback_run_def link_node_execution_def mark_restore_point_rolling_back_def
  finish_restore_point_rollback_def

lemmas insert_ops = start_node_attempt_def record_skipped_node_def

lemma ignore_finish_run:
  "ignore_st (finish_run fin) db = db \<or> fr_status fin \<in> {WPaused, WSucceeded, WCancelled, WUncertain}
     \<and> (\<exists>f. ignore_st (finish_run fin) db = db\<lparr>wdb_runs := upd_where (\<lambda>r. wr_id r = fr_run_id fin \<and> wr_status r = WRunning) f (wdb_runs db)\<rparr>
        \<and> (\<forall>r. wr_id (f r) = wr_id r \<and> wr_workflow_id (f r) = wr_workflow_id r
                 \<and> wr_workflow_version (f r) = wr_workflow_version r \<and> wr_status (f r) = fr_status fin))"
proof (cases "fr_status fin \<in> {WPaused, WSucceeded, WCancelled, WUncertain}")
  case True
  then show ?thesis
    by (intro disjI2 conjI exI [of _ "\<lambda>r. r\<lparr>wr_status := fr_status fin, wr_finished_at := Some (fr_finished_at fin),
                    wr_duration_ms := Some (elapsed (wr_started_at r) (fr_finished_at fin)),
                    wr_error_category := fr_error_category fin,
                    wr_error_message := cap_utf8 (fr_error_message fin) (8 * 1024),
                    wr_retryable := fr_retryable fin\<rparr>"])
       (simp_all add: finish_run_def ignore_expect update_runs_db)
next
  case False
  then show ?thesis by (simp add: finish_run_def ignore_st_def)
qed

lemma ignore_finish_node:
  "ignore_st (finish_node render fin) db = db
   \<or> (\<exists>f. ignore_st (finish_node render fin) db = db\<lparr>wdb_node_runs :=
            upd_where (\<lambda>r. node_key (fn_run_id fin) (fn_node_id fin) (fn_attempt fin) r \<and> nr_status r = NRunning) f (wdb_node_runs db)\<rparr>
        \<and> (\<forall>r. row_key (f r) = row_key r))"
proof (cases "node_is_terminal (fn_status fin)
    \<and> \<not> (case fn_result fin of None \<Rightarrow> False | Some v \<Rightarrow> length (render v) > 32 * 1024)")
  case True
  define f where "f = (\<lambda>r :: workflow_node_run. r\<lparr>nr_status := fn_status fin, nr_finished_at := Some (fn_finished_at fin),
                    nr_duration_ms := Some (elapsed (nr_started_at r) (fn_finished_at fin)),
                    nr_exit_code := fn_exit_code fin, nr_result := fn_result fin,
                    nr_output_summary := cap_utf8 (fn_output_summary fin) (8 * 1024),
                    nr_error_message := cap_utf8 (fn_error_message fin) (8 * 1024),
                    nr_retryable := fn_retryable fin\<rparr>)"
  have "row_key (f r) = row_key r" for r by (simp add: f_def row_key_def)
  moreover have "ignore_st (finish_node render fin) db = snd (update_node_runs
      (\<lambda>r. node_key (fn_run_id fin) (fn_node_id fin) (fn_attempt fin) r \<and> nr_status r = NRunning) f db)"
    using True by (simp add: finish_node_def ignore_expect f_def)
  ultimately show ?thesis
    using update_node_runs_db [of "\<lambda>r. node_key (fn_run_id fin) (fn_node_id fin) (fn_attempt fin) r \<and> nr_status r = NRunning" f db]
    by auto
next
  case False
  then show ?thesis by (auto simp: finish_node_def ignore_st_def)
qed

lemma expire_db:
  "ignore_st (expire_restore_point i t) db = snd (update_points
     (\<lambda>r. rp_id r = i \<and> rp_status r \<in> {RAvailable, RFailed, RRolledBack})
     (\<lambda>r. r\<lparr>rp_status := RExpired, rp_updated_at := t\<rparr>) db)"
  by (simp add: expire_restore_point_def ignore_st_def bind_st_def update_points_def)

lemma runs_grow: "grows run_step (wdb_runs db) (wdb_runs (apply_wf c x db))"
proof (cases x)
  case (WCreateRun w k s i t)
  then show ?thesis using create_run_effect(1) [of w k s i t db] grows_append by (auto simp: ignore_st_def)
next
  case (WFinishRun fin)
  then show ?thesis using ignore_finish_run [of fin db]
    by (auto simp: run_step_def validate_run_transition_def intro!: grows_upd)
next
  case (WRecover t)
  then show ?thesis using recover_effect(1) [of t db]
    by (auto simp: ignore_st_def run_step_def validate_run_transition_def intro!: grows_upd)
next
  case (WFinishPoint f t)
  then show ?thesis using finish_point_effect [of "wc_check_path c" f t db] by (auto simp: ignore_st_def)
next
  case (WFinishNode f)
  then show ?thesis using ignore_finish_node [of "wc_render c" f db] by auto
qed (auto simp: expect_ops insert_ops ignore_expect update_runs_db update_points_db ignore_st_def
      save_effect insert_effect event_effect delete_effect create_point_effect expire_db [unfolded ignore_st_def]
      run_step_def validate_run_transition_def intro!: grows_upd)

lemma nodes_grow: "grows node_step (wdb_node_runs db) (wdb_node_runs (apply_wf c x db))"
proof (cases x)
  case (WCreateRun w k s i t)
  then show ?thesis using create_run_effect(3) [of w k s i t db] by (auto simp: ignore_st_def)
next
  case (WStartNode r n t)
  then show ?thesis using insert_effect(1) [of r n NRunning "Some t" db] grows_append
    by (auto simp: ignore_st_def insert_ops)
next
  case (WSkipNode r n)
  then show ?thesis using insert_effect(1) [of r n NSkipped None db] grows_append
    by (auto simp: ignore_st_def insert_ops)
next
  case (WLink r n k e)
  then show ?thesis
    using update_node_runs_db [of "\<lambda>x. node_key r n k x \<and> nr_status x = NRunning" "\<lambda>x. x\<lparr>nr_execution_id := Some e\<rparr>" db]
    by (auto simp: ignore_st_def link_node_execution_def node_step_def row_key_def intro!: grows_upd)
next
  case (WFinishNode f)
  then show ?thesis using ignore_finish_node [of "wc_render c" f db]
    by (auto simp: node_step_def intro!: grows_upd)
next
  case (WFinishRun fin)
  then show ?thesis using ignore_finish_run [of fin db] by auto
next
  case (WFinishPoint f t)
  then show ?thesis using finish_point_effect [of "wc_check_path c" f t db] by (auto simp: ignore_st_def)
next
  case (WRecover t)
  then show ?thesis using recover_effect(2) [of t db]
    by (auto simp: ignore_st_def node_step_def row_key_def intro!: grows_upd)
qed (auto simp: expect_ops ignore_st_def update_runs_db update_points_db
      save_effect event_effect delete_effect create_point_effect expire_db [unfolded ignore_st_def])

lemma points_grow: "grows point_step (wdb_restore_points db) (wdb_restore_points (apply_wf c x db))"
proof (cases x)
  case (WCreatePoint d i t)
  then show ?thesis
    using create_point_effect(1) [of "wc_render c" "wc_check_path c" d i t db] grows_append by (auto simp: ignore_st_def)
next
  case (WFinishRun fin)
  then show ?thesis using ignore_finish_run [of fin db] by auto
next
  case (WFinishNode f)
  then show ?thesis using ignore_finish_node [of "wc_render c" f db] by auto
next
  case (WFinishPoint f t)
  then show ?thesis using finish_point_effect [of "wc_check_path c" f t db]
    by (auto simp: ignore_st_def point_step_def point_steps_def intro!: grows_upd)
qed (auto simp: expect_ops insert_ops ignore_st_def update_runs_db update_points_db
      save_effect insert_effect event_effect delete_effect create_run_effect recover_effect
      expire_db [unfolded ignore_st_def] point_step_def point_steps_def intro!: grows_upd)

text \<open>Versions are only ever appended, except by the deletion of a workflow that has no run.\<close>

lemma versions_grow:
  "(\<exists>new. wdb_versions (apply_wf c x db) = wdb_versions db @ new)
   \<or> (\<exists>i. (\<forall>r \<in> set (wdb_runs db). wr_workflow_id r \<noteq> i)
        \<and> wdb_versions (apply_wf c x db) = filter (\<lambda>v. wv_workflow_id v \<noteq> i) (wdb_versions db))"
proof (cases x)
  case (WSave i t d)
  then show ?thesis using save_effect(1) [of "wc_checksum c" i t d db] by (auto simp: ignore_st_def)
next
  case (WDelete i)
  then show ?thesis by (auto simp: ignore_st_def wf_delete_def)
next
  case (WFinishRun fin)
  then show ?thesis using ignore_finish_run [of fin db] by auto
next
  case (WFinishNode f)
  then show ?thesis using ignore_finish_node [of "wc_render c" f db] by auto
next
  case (WFinishPoint f t)
  then show ?thesis using finish_point_effect [of "wc_check_path c" f t db] by (auto simp: ignore_st_def)
qed (auto simp: expect_ops insert_ops ignore_st_def update_runs_db update_points_db
      insert_effect event_effect create_run_effect create_point_effect recover_effect
      expire_db [unfolded ignore_st_def])

lemma row_by_filter: "row_by key k rows = Some r \<Longrightarrow> p r \<Longrightarrow> (\<And>x. key x = k \<Longrightarrow> p x) \<Longrightarrow> row_by key k (filter p rows) = Some r"
  by (induction rows) (auto split: if_splits)

lemma version_kept:
  assumes v: "version_at db i k = Some v" and r: "r \<in> set (wdb_runs db)" "wr_workflow_id r = i"
  shows "version_at (apply_wf c x db) i k = Some v"
  using versions_grow [of c x db]
proof (elim disjE exE conjE)
  fix new assume "wdb_versions (apply_wf c x db) = wdb_versions db @ new"
  then show ?thesis using v by (simp add: version_at_def row_by_append)
next
  fix j assume j: "\<forall>r \<in> set (wdb_runs db). wr_workflow_id r \<noteq> j"
    and f: "wdb_versions (apply_wf c x db) = filter (\<lambda>v. wv_workflow_id v \<noteq> j) (wdb_versions db)"
  have "i \<noteq> j" using j r by auto
  then have "row_by (\<lambda>v. (wv_workflow_id v, wv_version v)) (i, k) (filter (\<lambda>v. wv_workflow_id v \<noteq> j) (wdb_versions db)) = Some v"
    using v row_by_Some [of "\<lambda>v. (wv_workflow_id v, wv_version v)" "(i, k)" "wdb_versions db" v]
    by (intro row_by_filter) (auto simp: version_at_def)
  then show ?thesis by (simp add: version_at_def f)
qed

lemma run_kept:
  assumes "get_run_record i db = Some r"
  shows "\<exists>r'. get_run_record i (apply_wf c x db) = Some r' \<and> (r' = r \<or> run_step r r')"
  unfolding get_run_record_def
  by (rule grows_row [OF runs_grow]) (use assms in \<open>simp_all add: run_step_def get_run_record_def\<close>)

section \<open>Properties of every history\<close>

text \<open>C18: A workflow version that a run refers to is immutable: whatever is saved, deleted, run or
  recovered afterwards, in any order, the run still finds the version it was started with, with the same
  nodes, edges and checksum, and still refers to it.\<close>
theorem run_keeps_its_version:
  assumes "get_run_record i db = Some r"
    and "version_at db (wr_workflow_id r) (wr_workflow_version r) = Some v"
  shows "\<exists>r'. get_run_record i (run_wf c xs db) = Some r' \<and> wr_workflow_id r' = wr_workflow_id r
     \<and> wr_workflow_version r' = wr_workflow_version r
     \<and> version_at (run_wf c xs db) (wr_workflow_id r') (wr_workflow_version r') = Some v"
  using assms
proof (induction xs arbitrary: db r)
  case Nil
  then show ?case by simp
next
  case (Cons x xs)
  obtain r' where r': "get_run_record i (apply_wf c x db) = Some r'" "r' = r \<or> run_step r r'"
    using run_kept [OF Cons.prems(1)] by blast
  then have same: "wr_workflow_id r' = wr_workflow_id r" "wr_workflow_version r' = wr_workflow_version r"
    by (auto simp: run_step_def)
  have "r \<in> set (wdb_runs db)" using Cons.prems(1) row_by_Some by (fastforce simp: get_run_record_def)
  from version_kept [OF Cons.prems(2) this refl, of c x]
  show ?case using Cons.IH [OF r'(1)] same by simp
qed

text \<open>C40: Every history of repository calls moves the status of a run along the transition table of
  the state machine, and a run that was rolled back stays rolled back.\<close>
theorem run_status_follows_machine:
  assumes "get_run_record i db = Some r"
  shows "\<exists>r'. get_run_record i (run_wf c xs db) = Some r'
     \<and> (\<lambda>s t. s = t \<or> is_ok (validate_run_transition s t))\<^sup>*\<^sup>* (wr_status r) (wr_status r')
     \<and> (wr_status r = WRolledBack \<longrightarrow> wr_status r' = WRolledBack)"
proof -
  have "\<exists>r'. get_run_record i (run_wf c xs db) = Some r'
     \<and> (\<lambda>s t. s = t \<or> is_ok (validate_run_transition s t))\<^sup>*\<^sup>* (wr_status r) (wr_status r')"
    using assms
  proof (induction xs arbitrary: db r)
    case (Cons x xs)
    obtain r' where r': "get_run_record i (apply_wf c x db) = Some r'" "r' = r \<or> run_step r r'"
      using run_kept [OF Cons.prems] by blast
    have step: "wr_status r = wr_status r' \<or> is_ok (validate_run_transition (wr_status r) (wr_status r'))"
      using r'(2) by (auto simp: run_step_def)
    obtain r2 where "get_run_record i (run_wf c xs (apply_wf c x db)) = Some r2"
      "(\<lambda>s t. s = t \<or> is_ok (validate_run_transition s t))\<^sup>*\<^sup>* (wr_status r') (wr_status r2)"
      using Cons.IH [OF r'(1)] by blast
    with converse_rtranclp_into_rtranclp [where r = "\<lambda>s t. s = t \<or> is_ok (validate_run_transition s t)", OF step]
    show ?case by simp
  qed auto
  then obtain r' where r': "get_run_record i (run_wf c xs db) = Some r'"
    "(\<lambda>s t. s = t \<or> is_ok (validate_run_transition s t))\<^sup>*\<^sup>* (wr_status r) (wr_status r')" by blast
  then show ?thesis using run_machine.sealed_run [OF r'(2)] by simp
qed

text \<open>A node run that has left the status \<open>running\<close> is never written again: no history of calls
  changes any of its columns.\<close>
theorem finished_node_runs_immutable:
  assumes "row_by row_key key (wdb_node_runs db) = Some r" and "nr_status r \<noteq> NRunning"
  shows "row_by row_key key (wdb_node_runs (run_wf c xs db)) = Some r"
  using assms(1)
proof (induction xs arbitrary: db)
  case (Cons x xs)
  have "\<exists>r'. row_by row_key key (wdb_node_runs (apply_wf c x db)) = Some r' \<and> (r' = r \<or> node_step r r')"
    by (rule grows_row [OF nodes_grow _ Cons.prems]) (simp add: node_step_def)
  then show ?case using Cons.IH assms(2) by (auto simp: node_step_def)
qed simp

text \<open>How often a history starts to roll back the restore point \<open>i\<close>.\<close>

fun rollbacks_started :: "wf_codec \<Rightarrow> uuid \<Rightarrow> wf_op list \<Rightarrow> workflow_db \<Rightarrow> nat" where
  "rollbacks_started c i [] db = 0"
| "rollbacks_started c i (x # xs) db =
     (case x of WMarkPoint j t \<Rightarrow>
        if j = i \<and> fst (mark_restore_point_rolling_back j t db) = Inr () then 1 else 0 | _ \<Rightarrow> 0)
     + rollbacks_started c i xs (apply_wf c x db)"

definition before_rollback :: "restore_point_status \<Rightarrow> bool" where
  "before_rollback s \<longleftrightarrow> s \<in> {RCreating, RAvailable}"

lemma points_row:
  assumes "get_restore_point i db = Some r"
  shows "\<exists>r'. get_restore_point i (apply_wf c x db) = Some r' \<and> (r' = r \<or> point_step r r')"
  unfolding get_restore_point_def
  by (rule grows_row [OF points_grow]) (use assms in \<open>simp_all add: point_step_def get_restore_point_def\<close>)

lemma mark_needs_available:
  assumes "get_restore_point i db = Some r" "distinct (map rp_id (wdb_restore_points db))"
  shows "fst (mark_restore_point_rolling_back i t db) = Inr () \<longleftrightarrow> rp_status r = RAvailable"
    and "rp_status r = RAvailable \<Longrightarrow> \<exists>r'. get_restore_point i (apply_wf c (WMarkPoint i t) db) = Some r' \<and> rp_status r' = RRollingBack"
proof -
  have "affected (\<lambda>x. rp_id x = i \<and> rp_status x = RAvailable) (wdb_restore_points db) = (if rp_status r = RAvailable then 1 else 0)"
    using assms by (simp add: affected_by_key get_restore_point_def)
  then show "fst (mark_restore_point_rolling_back i t db) = Inr () \<longleftrightarrow> rp_status r = RAvailable"
    by (simp add: mark_restore_point_rolling_back_def expect_one_def bind_st_def update_points_def ensure_one_def)
  show "rp_status r = RAvailable \<Longrightarrow> \<exists>r'. get_restore_point i (apply_wf c (WMarkPoint i t) db) = Some r' \<and> rp_status r' = RRollingBack"
    using assms(1)
    by (simp add: mark_restore_point_rolling_back_def ignore_st_def update_points_db get_restore_point_def row_by_upd_where)
qed

lemma points_distinct:
  assumes "distinct (map rp_id (wdb_restore_points db))"
  shows "distinct (map rp_id (wdb_restore_points (apply_wf c x db)))"
proof -
  have upd: "distinct (map rp_id (upd_where p f (wdb_restore_points db)))" if "\<And>r. rp_id (f r) = rp_id r" for p f
    using assms upd_where_keys [where key = rp_id and f = f, OF that] by simp
  show ?thesis
  proof (cases x)
    case (WCreatePoint d i t)
    then show ?thesis using assms
      by (auto simp: create_restore_point_def ignore_st_def bind_st_def Let_def row_by_None split: sum.splits)
  next
    case (WFinishRun fin)
    then show ?thesis using ignore_finish_run [of fin db] assms by auto
  next
    case (WFinishNode f)
    then show ?thesis using ignore_finish_node [of "wc_render c" f db] assms by auto
  next
    case (WFinishPoint f t)
    then show ?thesis using finish_point_effect [of "wc_check_path c" f t db] assms
      by (auto simp: ignore_st_def intro!: upd)
  qed (use assms in \<open>auto simp: expect_ops insert_ops ignore_st_def update_runs_db update_points_db
      save_effect insert_effect event_effect delete_effect create_run_effect recover_effect
      expire_db [unfolded ignore_st_def] intro!: upd\<close>)
qed

text \<open>C34: The rollback of a restore point is started at most once in any history: the guards of the
  updates admit no way back to a status from which it could be started again.\<close>
theorem restore_point_rolled_back_once:
  assumes "get_restore_point i db = Some r" and "distinct (map rp_id (wdb_restore_points db))"
  shows "rollbacks_started c i xs db \<le> (if before_rollback (rp_status r) then 1 else 0)"
  using assms
proof (induction xs arbitrary: db r)
  case (Cons x xs)
  obtain r' where r': "get_restore_point i (apply_wf c x db) = Some r'" "r' = r \<or> point_step r r'"
    using points_row [OF Cons.prems(1)] by blast
  have rest: "rollbacks_started c i xs (apply_wf c x db) \<le> (if before_rollback (rp_status r') then 1 else 0)"
    by (rule Cons.IH [OF r'(1) points_distinct [OF Cons.prems(2)]])
  have step: "before_rollback (rp_status r') \<Longrightarrow> before_rollback (rp_status r)"
    using r'(2) by (auto simp: point_step_def point_steps_def before_rollback_def)
  show ?case
  proof (cases "\<exists>t. x = WMarkPoint i t \<and> fst (mark_restore_point_rolling_back i t db) = Inr ()")
    case True
    then obtain t where t: "x = WMarkPoint i t" "fst (mark_restore_point_rolling_back i t db) = Inr ()" by blast
    have a: "rp_status r = RAvailable" using t(2) mark_needs_available(1) [OF Cons.prems] by blast
    have "rp_status r' = RRollingBack"
      using mark_needs_available(2) [OF Cons.prems a, of c t] r'(1) t(1) by auto
    then show ?thesis using rest a t by (simp add: before_rollback_def)
  next
    case False
    then have "(case x of WMarkPoint j t \<Rightarrow>
        if j = i \<and> fst (mark_restore_point_rolling_back j t db) = Inr () then 1 else 0 | _ \<Rightarrow> 0) = (0 :: nat)"
      by (auto split: wf_op.split)
    then show ?thesis using rest step by (cases "before_rollback (rp_status r')") auto
  qed
qed simp

text \<open>The three ways in which \<open>save\<close> succeeds.\<close>

lemma save_cases:
  assumes "wf_save ck fresh now draft db = (Inr v, db')"
  obtains (unchanged) w old where "row_by wk_id (wf_id v) (wdb_workflows db) = Some w"
      "version_at db (wf_id v) (wk_current_version w) = Some old" "wv_checksum old = ck draft"
      "v = definition_of (next_version_row ck (wf_id v) (wv_version old) now draft)" "db' = db"
  | (stored) row where "row = next_version_row ck (wf_id v) (wf_version v) now draft" "v = definition_of row"
      "wdb_versions db' = wdb_versions db @ [row]" "version_at db (wf_id v) (wf_version v) = None"
      "\<exists>w. row_by wk_id (wf_id v) (wdb_workflows db') = Some w \<and> wk_current_version w = wf_version v"
proof -
  define i where "i = (case wd_id draft of None \<Rightarrow> fresh | Some i \<Rightarrow> i)"
  have flds: "wf_id (definition_of (next_version_row ck i k now draft)) = i"
    "wf_version (definition_of (next_version_row ck i k now draft)) = k" for k
    by (simp_all add: definition_of_def next_version_row_def)
  have valid: "validate_workflow_draft draft = Inr ()"
    using assms by (auto simp: wf_save_def split: sum.splits)
  show thesis
  proof (cases "\<exists>w old. row_by wk_id i (wdb_workflows db) = Some w \<and> version_at db i (wk_current_version w) = Some old")
    case True
    then obtain w old where w: "row_by wk_id i (wdb_workflows db) = Some w" "version_at db i (wk_current_version w) = Some old" by blast
    show thesis
    proof (cases "wv_checksum old = ck draft")
      case True
      then have v: "v = definition_of (next_version_row ck i (wv_version old) now draft)" "db' = db"
        using assms valid w by (auto simp: wf_save_def Let_def i_def [symmetric] split: if_splits)
      then show thesis using unchanged w True flds by metis
    next
      case False
      let ?k = "wv_version old + 1"
      have v: "v = definition_of (next_version_row ck i ?k now draft)" "version_at db i ?k = None"
        "wdb_versions db' = wdb_versions db @ [next_version_row ck i ?k now draft]"
        "wdb_workflows db' = upd_where (\<lambda>w. wk_id w = i) (\<lambda>w. w\<lparr>wk_name := wd_name draft,
           wk_description := wd_description draft, wk_current_version := ?k, wk_updated_at := now\<rparr>) (wdb_workflows db)"
        using assms valid w False by (auto simp: wf_save_def Let_def i_def [symmetric] split: if_splits)
      have "\<exists>w. row_by wk_id i (wdb_workflows db') = Some w \<and> wk_current_version w = ?k"
        unfolding v(4) using w(1) row_by_upd_where [where key = "wk_id :: workflow_row \<Rightarrow> uuid" and j = i and k = i and p = "\<lambda>_. True"] by simp
      then show thesis by (intro stored [where row = "next_version_row ck i ?k now draft"]) (use v flds in simp_all)
    qed
  next
    case False
    then have none: "(case row_by wk_id i (wdb_workflows db) of None \<Rightarrow> None
        | Some w \<Rightarrow> version_at db i (wk_current_version w)) = None"
      by (auto split: option.splits)
    have v: "v = definition_of (next_version_row ck i 1 now draft)" "version_at db i 1 = None"
      "row_by wk_id i (wdb_workflows db) = None"
      "db' = db\<lparr>wdb_workflows := wdb_workflows db
             @ [\<lparr>wk_id = i, wk_name = wd_name draft, wk_description = wd_description draft,
                 wk_current_version = 1, wk_created_at = now, wk_updated_at = now\<rparr>],
           wdb_versions := wdb_versions db @ [next_version_row ck i 1 now draft]\<rparr>"
      using assms valid none by (auto simp: wf_save_def Let_def i_def [symmetric] split: if_splits)
    show thesis by (intro stored [where row = "next_version_row ck i 1 now draft"])
        (use v flds in \<open>simp_all add: row_by_append\<close>)
  qed
qed

text \<open>Saving a workflow: the draft becomes the current version under its identifier and is what
  \<open>get\<close> returns; a draft whose checksum equals that of the current version leaves the database as it
  was.\<close>
theorem save_then_get:
  assumes "wf_save ck fresh now draft db = (Inr v, db')"
  shows "wf_nodes v = wd_nodes draft \<and> wf_edges v = wd_edges draft \<and> wf_name v = wd_name draft
     \<and> (if db' = db
        then \<exists>old. wf_get (wf_id v) None db = Some old \<and> wf_checksum old = ck draft \<and> wf_version v = wf_version old
        else wf_get (wf_id v) None db' = Some v)"
  using assms
proof (cases rule: save_cases)
  case (unchanged w old)
  have v: "wf_nodes v = wd_nodes draft" "wf_edges v = wd_edges draft" "wf_name v = wd_name draft" "wf_version v = wv_version old"
    by (subst unchanged(4), simp add: definition_of_def next_version_row_def)+
  have "wf_get (wf_id v) None db = Some (definition_of old)" using unchanged(1,2) by (simp add: wf_get_def)
  then show ?thesis using v unchanged(3,5) by (simp add: definition_of_def)
next
  case (stored row)
  have new: "db' \<noteq> db" using stored(3) by auto
  have "wv_workflow_id row = wf_id v \<and> wv_version row = wf_version v"
    unfolding stored(1) by (simp add: next_version_row_def)
  then have "version_at db' (wf_id v) (wf_version v) = Some row"
    using stored(4) by (simp add: version_at_def stored(3) row_by_append)
  then have "wf_get (wf_id v) None db' = Some v" using stored(2,5) by (auto simp: wf_get_def)
  moreover have "wf_nodes v = wd_nodes draft \<and> wf_edges v = wd_edges draft \<and> wf_name v = wd_name draft"
    by (subst (1 2 3) stored(2), subst (1 2 3) stored(1)) (simp add: definition_of_def next_version_row_def)
  ultimately show ?thesis using new by simp
qed

section \<open>Witnesses\<close>

definition sample_draft :: workflow_draft where
  "sample_draft = \<lparr>wd_id = Some 9, wd_name = ''w'', wd_description = [], wd_nodes = [], wd_edges = []\<rparr>"

definition sample_run :: workflow_run where
  "sample_run =
     \<lparr>wr_id = 5, wr_workflow_id = 9, wr_workflow_version = 1, wr_server_id = ''s'', wr_status = WRunning,
      wr_current_node_id = Some 1, wr_created_at = 0, wr_started_at = Some 0, wr_finished_at = None,
      wr_duration_ms = None, wr_error_category = None, wr_error_message = None, wr_retryable = False\<rparr>"

definition sample_node_run :: workflow_node_run where
  "sample_node_run =
     \<lparr>nr_run_id = 5, nr_node_id = 1, nr_attempt = 1, nr_status = NSucceeded, nr_execution_id = None,
      nr_started_at = Some 0, nr_finished_at = Some 1, nr_duration_ms = Some 1, nr_exit_code = Some 0,
      nr_result = None, nr_output_summary = None, nr_error_message = None, nr_retryable = False\<rparr>"

definition sample_point :: workflow_restore_point where
  "sample_point =
     \<lparr>rp_id = 3, rp_run_id = 5, rp_node_id = 1, rp_remote_path = ''/a'', rp_relative_path = None,
      rp_original_existed = False, rp_size_bytes = None, rp_sha256 = None, rp_status = RAvailable,
      rp_applicability = JNull, rp_error_message = None, rp_created_at = 0, rp_updated_at = 0\<rparr>"

definition sample_flow_db :: workflow_db where
  "sample_flow_db =
     \<lparr>wdb_servers = [''s''], wdb_executions = [],
      wdb_workflows = [\<lparr>wk_id = 9, wk_name = ''w'', wk_description = [], wk_current_version = 1,
                        wk_created_at = 0, wk_updated_at = 0\<rparr>],
      wdb_versions = [next_version_row (\<lambda>d. wd_name d) 9 1 0 sample_draft],
      wdb_runs = [sample_run], wdb_node_runs = [sample_node_run], wdb_restore_points = [sample_point],
      wdb_events = []\<rparr>"

definition sample_codec :: wf_codec where
  "sample_codec = \<lparr>wc_checksum = (\<lambda>d. wd_name d), wc_render = (\<lambda>_. ''x''), wc_check_path = (\<lambda>_. Inr ())\<rparr>"

lemma sample_rows:
  "get_run_record 5 sample_flow_db = Some sample_run"
  "version_at sample_flow_db 9 1 = Some (next_version_row (\<lambda>d. wd_name d) 9 1 0 sample_draft)"
  "row_by row_key (5, 1, 1) (wdb_node_runs sample_flow_db) = Some sample_node_run"
  "get_restore_point 3 sample_flow_db = Some sample_point"
  "distinct (map rp_id (wdb_restore_points sample_flow_db))"
  by (simp_all add: sample_flow_db_def get_run_record_def version_at_def get_restore_point_def row_key_def
      sample_run_def sample_node_run_def sample_point_def next_version_row_def)

theorem run_keeps_its_version_witness:
  "\<exists>r'. get_run_record 5 (run_wf sample_codec [WDelete 9, WSave 1 7 (sample_draft\<lparr>wd_name := ''x''\<rparr>)] sample_flow_db) = Some r'
     \<and> version_at (run_wf sample_codec [WDelete 9, WSave 1 7 (sample_draft\<lparr>wd_name := ''x''\<rparr>)] sample_flow_db) 9 1
         = Some (next_version_row (\<lambda>d. wd_name d) 9 1 0 sample_draft)"
  using run_keeps_its_version [OF sample_rows(1), of _ sample_codec "[WDelete 9, WSave 1 7 (sample_draft\<lparr>wd_name := ''x''\<rparr>)]"] sample_rows(2)
  by (auto simp: sample_run_def simp del: run_wf.simps)

theorem run_status_follows_machine_witness:
  "\<exists>r'. get_run_record 5 (run_wf sample_codec [WRecover 4, WFinishRollback 5 True None 8] sample_flow_db) = Some r'
     \<and> (\<lambda>s t. s = t \<or> is_ok (validate_run_transition s t))\<^sup>*\<^sup>* WRunning (wr_status r')"
  using run_status_follows_machine [OF sample_rows(1), of sample_codec "[WRecover 4, WFinishRollback 5 True None 8]"]
  by (auto simp: sample_run_def simp del: run_wf.simps)

theorem finished_node_runs_immutable_witness:
  "row_by row_key (5, 1, 1) (wdb_node_runs (run_wf sample_codec [WStartNode 5 1 2, WRecover 4] sample_flow_db)) = Some sample_node_run"
  by (rule finished_node_runs_immutable [OF sample_rows(3)]) (simp add: sample_node_run_def)

theorem restore_point_rolled_back_once_witness:
  "rollbacks_started sample_codec 3 [WMarkPoint 3 1, WFinishPointRollback 3 False None 2, WMarkPoint 3 3] sample_flow_db \<le> 1"
  using restore_point_rolled_back_once [OF sample_rows(4,5), of sample_codec
      "[WMarkPoint 3 1, WFinishPointRollback 3 False None 2, WMarkPoint 3 3]"]
  by (simp add: before_rollback_def sample_point_def del: rollbacks_started.simps)

lemma sample_save:
  "\<exists>db'. wf_save (\<lambda>d. wd_name d) 1 7 (sample_draft\<lparr>wd_name := ''x''\<rparr>) sample_flow_db
     = (Inr (definition_of (next_version_row (\<lambda>d. wd_name d) 9 2 7 (sample_draft\<lparr>wd_name := ''x''\<rparr>))), db')"
  by (simp add: wf_save_def sample_draft_def validate_workflow_draft_def is_blank_def trim_def trim_start.simps
      trim_end.simps ws_suffix_def byte_def char_count_def is_cont_def sample_flow_db_def version_at_def
      next_version_row_def workflow_row_ok_def Let_def)

theorem save_then_get_witness:
  "\<exists>v db'. wf_save (\<lambda>d. wd_name d) 1 7 (sample_draft\<lparr>wd_name := ''x''\<rparr>) sample_flow_db = (Inr v, db')
     \<and> wf_name v = ''x''"
proof -
  obtain db' where s: "wf_save (\<lambda>d. wd_name d) 1 7 (sample_draft\<lparr>wd_name := ''x''\<rparr>) sample_flow_db
     = (Inr (definition_of (next_version_row (\<lambda>d. wd_name d) 9 2 7 (sample_draft\<lparr>wd_name := ''x''\<rparr>))), db')"
    using sample_save by blast
  have "wf_name (definition_of (next_version_row (\<lambda>d. wd_name d) 9 2 7 (sample_draft\<lparr>wd_name := ''x''\<rparr>))) = ''x''"
    using save_then_get [OF s] by (elim conjE) simp
  with s show ?thesis by blast
qed

end
