(* ===== verification/Update_Source.thy ===== *)
theory Update_Source
  imports Sftp_Paths "HOL-Library.Multiset"
begin

text \<open>
  Where an update may come from: the release metadata and the life cycle of an update
  (\<^verbatim>\<open>src-tauri/src/domain/update.rs\<close>), and the trusted sources, the manifest and the choice between
  the two sources (\<^verbatim>\<open>src-tauri/src/core/updates/mod.rs\<close>). The crates \<open>semver\<close>, \<open>url\<close>,
  \<open>serde_json\<close> and \<open>reqwest\<close> are arguments: \<open>update_libs\<close> holds what they parse, and a transport
  answers an endpoint with bytes or an error.
\<close>

section \<open>Releases\<close>

definition max_update_bytes :: nat where
  "max_update_bytes = 512 * 1024 * 1024"

definition supported_update_platforms :: "string list" where
  "supported_update_platforms =
     [''windows-x86_64-nsis'', ''windows-aarch64-nsis'', ''macos-x86_64-dmg'', ''macos-aarch64-dmg'',
      ''linux-x86_64-appimage'', ''linux-aarch64-appimage'', ''windows-x86_64'']"

datatype update_source = Github | Modelscope

datatype update_phase =
  UIdle | UChecking | UUpToDate | UAvailable | UDownloading | UDownloaded | UInstalling | UFailed

datatype update_validation_error =
  InvalidVersion | InvalidPlatform | InvalidSignature | InvalidSha256 | InvalidSize
| InvalidBuildId | InvalidUrl

fun validation_text :: "update_validation_error \<Rightarrow> string" where
  "validation_text InvalidVersion = ''update version is not valid SemVer''"
| "validation_text InvalidPlatform = ''update platform is not supported''"
| "validation_text InvalidSignature = ''update signature is missing or too long''"
| "validation_text InvalidSha256 = ''update SHA-256 has an invalid format''"
| "validation_text InvalidSize = ''update package size is invalid''"
| "validation_text InvalidBuildId = ''update build id is invalid''"
| "validation_text InvalidUrl = ''update download address is empty''"

definition sha256_digest_parse :: "string \<Rightarrow> update_validation_error + string" where
  "sha256_digest_parse v =
     (if length v = 64 \<and> list_all (\<lambda>c. is_ascii_digit c \<or> (97 \<le> byte c \<and> byte c \<le> 102)) v
      then Inr v else Inl InvalidSha256)"

text \<open>\<open>UpdateRelease\<close>; \<open>UpdateReleaseInput\<close> has the same fields, with the digest unchecked.\<close>

record update_release =
  ur_version :: string
  ur_notes :: string
  ur_published_at :: "string option"
  ur_platform :: string
  ur_download_url :: string
  ur_signature :: string
  ur_sha256 :: string
  ur_size :: u64
  ur_build_id :: string
  ur_source :: update_source

section \<open>Libraries\<close>

record url =
  url_scheme :: string
  url_username :: string
  url_password :: "string option"
  url_host :: "string option"
  url_port :: "nat option"
  url_path :: string
  url_query :: "string option"
  url_query_pairs :: "(string \<times> string) list"
  url_fragment :: "string option"

record platform_manifest =
  pm_url :: string
  pm_signature :: string
  pm_sha256 :: string
  pm_size :: u64
  pm_build_id :: string

record static_manifest =
  sm_version :: string
  sm_notes :: string
  sm_pub_date :: "string option"
  sm_platforms :: "string \<rightharpoonup> platform_manifest"

text \<open>
  \<open>Version::parse\<close> and the order of versions, \<open>Url::parse\<close>, and \<open>serde_json::from_slice\<close> on a
  \<open>StaticManifest\<close>.
\<close>

record 'v update_libs =
  lib_version :: "string \<Rightarrow> 'v option"
  lib_newer :: "'v \<Rightarrow> 'v \<Rightarrow> bool"
  lib_url :: "string \<Rightarrow> url option"
  lib_manifest :: "string \<Rightarrow> static_manifest option"

definition release_new ::
  "('v, 'z) update_libs_scheme \<Rightarrow> update_release \<Rightarrow> update_validation_error + update_release" where
  "release_new libs input =
     (if lib_version libs (ur_version input) = None then Inl InvalidVersion
      else if ur_platform input \<notin> set supported_update_platforms then Inl InvalidPlatform
      else if is_blank (ur_download_url input) then Inl InvalidUrl
      else if is_blank (ur_signature input) \<or> length (ur_signature input) > 16 * 1024
        then Inl InvalidSignature
      else if ur_size input = 0 \<or> unat (ur_size input) > max_update_bytes then Inl InvalidSize
      else if is_blank (ur_build_id input) \<or> length (ur_build_id input) > 128 then Inl InvalidBuildId
      else map_res (\<lambda>d. input\<lparr>ur_sha256 := d\<rparr>) (sha256_digest_parse (ur_sha256 input)))"

definition is_newer_than ::
  "('v, 'z) update_libs_scheme \<Rightarrow> update_release \<Rightarrow> string \<Rightarrow> update_validation_error + bool" where
  "is_newer_than libs release current =
     bind_res (ok_or InvalidVersion (lib_version libs (ur_version release))) (\<lambda>candidate.
     bind_res (ok_or InvalidVersion (lib_version libs current)) (\<lambda>current.
     Inr (lib_newer libs candidate current)))"

section \<open>Life cycle of an update\<close>

record update_lifecycle =
  lc_phase :: update_phase
  lc_release :: "update_release option"
  lc_last_error :: "string option"

datatype update_transition_error = UpdateTransition update_phase update_phase

definition lifecycle_default :: update_lifecycle where
  "lifecycle_default = \<lparr>lc_phase = UIdle, lc_release = None, lc_last_error = None\<rparr>"

type_synonym lifecycle_op = "update_lifecycle \<Rightarrow> (update_transition_error + unit) \<times> update_lifecycle"

definition begin_check :: lifecycle_op where
  "begin_check l =
     (if lc_phase l \<in> {UIdle, UUpToDate, UAvailable, UFailed}
      then (Inr (), l\<lparr>lc_phase := UChecking, lc_release := None, lc_last_error := None\<rparr>)
      else (Inl (UpdateTransition (lc_phase l) UChecking), l))"

definition require_phase :: "update_phase \<Rightarrow> update_phase \<Rightarrow> update_lifecycle \<Rightarrow> update_transition_error + unit"
where
  "require_phase expected nxt l =
     (if lc_phase l = expected then Inr () else Inl (UpdateTransition (lc_phase l) nxt))"

definition set_up_to_date :: lifecycle_op where
  "set_up_to_date = bind_st (read_st (require_phase UChecking UUpToDate))
     (\<lambda>_ l. (Inr (), l\<lparr>lc_phase := UUpToDate, lc_release := None\<rparr>))"

definition set_available :: "update_release \<Rightarrow> lifecycle_op" where
  "set_available release = bind_st (read_st (require_phase UChecking UAvailable))
     (\<lambda>_ l. (Inr (), l\<lparr>lc_phase := UAvailable, lc_release := Some release\<rparr>))"

definition begin_download :: lifecycle_op where
  "begin_download = bind_st (read_st (require_phase UAvailable UDownloading))
     (\<lambda>_ l. (Inr (), l\<lparr>lc_phase := UDownloading\<rparr>))"

definition set_downloaded :: lifecycle_op where
  "set_downloaded = bind_st (read_st (require_phase UDownloading UDownloaded))
     (\<lambda>_ l. (Inr (), l\<lparr>lc_phase := UDownloaded\<rparr>))"

definition begin_install :: lifecycle_op where
  "begin_install = bind_st (read_st (require_phase UDownloaded UInstalling))
     (\<lambda>_ l. (Inr (), l\<lparr>lc_phase := UInstalling\<rparr>))"

definition fail_update :: "string \<Rightarrow> update_lifecycle \<Rightarrow> update_lifecycle" where
  "fail_update message l = l\<lparr>lc_phase := UFailed, lc_last_error := Some message\<rparr>"

definition reset_update :: "update_lifecycle \<Rightarrow> update_lifecycle" where
  "reset_update l = lifecycle_default"

section \<open>Trusted sources\<close>

datatype source_failure_kind = KNetwork | KNotFound | KServer | KInvalidManifest | KSecurity

record source_error =
  se_kind :: source_failure_kind
  se_message :: string

definition source_failure :: "source_failure_kind \<Rightarrow> string \<Rightarrow> source_error" where
  "source_failure k m = \<lparr>se_kind = k, se_message = m\<rparr>"

definition allows_fallback :: "source_error \<Rightarrow> bool" where
  "allows_fallback e \<longleftrightarrow> se_kind e \<in> {KNetwork, KNotFound, KServer}"

definition invalid_manifest :: "string \<Rightarrow> source_error" where
  "invalid_manifest m = source_failure KInvalidManifest m"

definition security :: "string \<Rightarrow> source_error" where
  "security m = source_failure KSecurity m"

definition map_validation_error :: "update_validation_error \<Rightarrow> source_error" where
  "map_validation_error e = invalid_manifest (validation_text e)"

record source_policy =
  github_owner :: string
  modelscope_namespace :: string

definition project_name :: string where
  "project_name = ''QingzhouSSH''"

definition valid_namespace :: "string \<Rightarrow> bool" where
  "valid_namespace v \<longleftrightarrow> v \<noteq> [] \<and> length v \<le> 64
     \<and> list_all (\<lambda>c. is_ascii_alphanumeric c \<or> c = CHR ''-'' \<or> c = CHR ''_'') v"

definition policy_new :: "string \<Rightarrow> string \<Rightarrow> source_error + source_policy" where
  "policy_new owner namespace =
     (if \<not> valid_namespace owner \<or> \<not> valid_namespace namespace
      then Inl (source_failure KSecurity ''update source namespace is invalid'')
      else Inr \<lparr>github_owner = owner, modelscope_namespace = namespace\<rparr>)"

definition manifest_endpoint :: "source_policy \<Rightarrow> update_source \<Rightarrow> string" where
  "manifest_endpoint policy src =
     (case src of
        Github \<Rightarrow> ''https://github.com/'' @ github_owner policy @ ''/'' @ project_name
          @ ''/releases/latest/download/latest.json''
      | Modelscope \<Rightarrow> ''https://modelscope.cn/api/v1/models/'' @ modelscope_namespace policy @ ''/''
          @ project_name @ ''/repo?Revision=master&FilePath=releases%2Flatest.json'')"

definition validate_github_url :: "source_policy \<Rightarrow> url \<Rightarrow> source_error + unit" where
  "validate_github_url policy u =
     (let expected_prefix = ''/'' @ github_owner policy @ ''/'' @ project_name @ ''/releases/download/'' in
      if url_host u \<noteq> Some ''github.com'' \<or> \<not> starts_with (url_path u) expected_prefix
         \<or> url_query u \<noteq> None
      then Inl (security ''GitHub package does not belong to the fixed public repository'')
      else Inr ())"

text \<open>The loop over \<open>query_pairs()\<close> with its two accumulators.\<close>

fun scan_query ::
  "(string \<times> string) list \<Rightarrow> string option \<Rightarrow> string option \<Rightarrow> source_error + string option \<times> string option"
where
  "scan_query [] revision file_path = Inr (revision, file_path)"
| "scan_query ((key, v) # rest) revision file_path =
     (if key = ''Revision'' \<and> revision = None then scan_query rest (Some v) file_path
      else if key = ''FilePath'' \<and> file_path = None then scan_query rest revision (Some v)
      else Inl (security ''ModelScope address has an unknown parameter''))"

definition validate_modelscope_url :: "source_policy \<Rightarrow> url \<Rightarrow> source_error + unit" where
  "validate_modelscope_url policy u =
     (let expected_path = ''/api/v1/models/'' @ modelscope_namespace policy @ ''/'' @ project_name @ ''/repo'' in
      if url_host u \<notin> {Some ''modelscope.cn'', Some ''www.modelscope.cn''} \<or> url_path u \<noteq> expected_path
      then Inl (security ''ModelScope package does not belong to the fixed public project'')
      else
        bind_res (scan_query (url_query_pairs u) None None) (\<lambda>(revision, file_path).
        bind_res (ok_or (security ''ModelScope address has no file path'') file_path) (\<lambda>file_path.
        if revision \<noteq> Some ''master'' \<or> \<not> starts_with file_path ''releases/''
           \<or> str_contains file_path ''..'' \<or> CHR 0x5C \<in> set file_path \<or> starts_with file_path ''/''
        then Inl (security ''ModelScope file leaves the releases directory'')
        else Inr ())))"

definition validate_download_url ::
  "('v, 'z) update_libs_scheme \<Rightarrow> source_policy \<Rightarrow> update_source \<Rightarrow> string \<Rightarrow> source_error + unit" where
  "validate_download_url libs policy src v =
     bind_res (ok_or (security ''package address is invalid'') (lib_url libs v)) (\<lambda>u.
       if url_scheme u \<noteq> ''https'' \<or> url_username u \<noteq> [] \<or> url_password u \<noteq> None
          \<or> url_port u \<noteq> None \<or> url_fragment u \<noteq> None
       then Inl (security ''package needs a standard HTTPS address without credentials'')
       else case src of
              Github \<Rightarrow> validate_github_url policy u
            | Modelscope \<Rightarrow> validate_modelscope_url policy u)"

section \<open>Manifest\<close>

datatype manifest_decision = UpToDate | Available update_release

definition max_manifest_bytes :: nat where
  "max_manifest_bytes = 128 * 1024"

definition select_platform :: "static_manifest \<Rightarrow> string \<Rightarrow> source_error + string" where
  "select_platform manifest platform_key =
     (if sm_platforms manifest platform_key \<noteq> None then Inr platform_key
      else if platform_key = ''windows-x86_64-nsis'' \<and> sm_platforms manifest ''windows-x86_64'' \<noteq> None
      then Inr ''windows-x86_64''
      else Inl (invalid_manifest (''manifest lacks the platform '' @ platform_key)))"

definition parse_manifest_for_platform ::
  "('v, 'z) update_libs_scheme \<Rightarrow> source_policy \<Rightarrow> update_source \<Rightarrow> string \<Rightarrow> string \<Rightarrow> string
   \<Rightarrow> source_error + manifest_decision" where
  "parse_manifest_for_platform libs policy src current_version bytes platform_key =
     (if bytes = [] \<or> length bytes > max_manifest_bytes
      then Inl (invalid_manifest ''manifest size is invalid'')
      else
        bind_res (ok_or (invalid_manifest ''manifest format is invalid'') (lib_manifest libs bytes)) (\<lambda>manifest.
        bind_res (select_platform manifest platform_key) (\<lambda>selected_key.
        let platform = the (sm_platforms manifest selected_key) in
        bind_res (validate_download_url libs policy src (pm_url platform)) (\<lambda>_.
        bind_res (map_err map_validation_error (release_new libs
          \<lparr>ur_version = sm_version manifest, ur_notes = sm_notes manifest,
           ur_published_at = sm_pub_date manifest, ur_platform = selected_key,
           ur_download_url = pm_url platform, ur_signature = pm_signature platform,
           ur_sha256 = pm_sha256 platform, ur_size = pm_size platform,
           ur_build_id = pm_build_id platform, ur_source = src\<rparr>)) (\<lambda>release.
        bind_res (map_err map_validation_error (is_newer_than libs release current_version)) (\<lambda>newer.
        Inr (if newer then Available release else UpToDate)))))))"

section \<open>Choice of the source\<close>

record http_response =
  hr_status :: nat
  hr_content_length :: "nat option"
  hr_body :: "string option"

text \<open>\<open>HttpManifestTransport::fetch\<close>; \<open>send\<close> is the request of the \<open>reqwest\<close> client.\<close>

definition http_fetch :: "(string \<Rightarrow> http_response option) \<Rightarrow> string \<Rightarrow> source_error + string" where
  "http_fetch send endpoint =
     (case send endpoint of
        None \<Rightarrow> Inl (source_failure KNetwork ''update source request failed'')
      | Some response \<Rightarrow>
          if hr_status response = 404
            then Inl (source_failure KNotFound ''update source has no manifest yet'')
          else if 500 \<le> hr_status response \<and> hr_status response < 600
            then Inl (source_failure KServer ''update source is unavailable'')
          else if \<not> (200 \<le> hr_status response \<and> hr_status response < 300)
            then Inl (source_failure KSecurity ''update source refused access'')
          else if (case hr_content_length response of None \<Rightarrow> False | Some n \<Rightarrow> n > max_manifest_bytes)
            then Inl (invalid_manifest ''manifest is too large'')
          else (case hr_body response of
                  None \<Rightarrow> Inl (source_failure KNetwork ''reading the manifest failed'')
                | Some bytes \<Rightarrow>
                    if length bytes > max_manifest_bytes
                    then Inl (invalid_manifest ''manifest is too large'') else Inr bytes))"

record source_selection =
  sel_source :: update_source
  sel_decision :: manifest_decision
  sel_fallback_reason :: "string option"

record 'v update_checker_env =
  ck_libs :: "'v update_libs"
  ck_policy :: source_policy
  ck_platform :: string

definition check_source ::
  "'v update_checker_env \<Rightarrow> (string \<Rightarrow> source_error + string) \<Rightarrow> update_source \<Rightarrow> string
   \<Rightarrow> source_error + manifest_decision" where
  "check_source env fetch src current_version =
     bind_res (fetch (manifest_endpoint (ck_policy env) src)) (\<lambda>bytes.
       parse_manifest_for_platform (ck_libs env) (ck_policy env) src current_version bytes (ck_platform env))"

definition dual_check ::
  "'v update_checker_env \<Rightarrow> (string \<Rightarrow> source_error + string) \<Rightarrow> string \<Rightarrow> source_error + source_selection"
where
  "dual_check env fetch current_version =
     (case check_source env fetch Github current_version of
        Inr decision \<Rightarrow>
          Inr \<lparr>sel_source = Github, sel_decision = decision, sel_fallback_reason = None\<rparr>
      | Inl e \<Rightarrow>
          if allows_fallback e then
            map_res (\<lambda>decision.
              \<lparr>sel_source = Modelscope, sel_decision = decision,
               sel_fallback_reason = Some (se_message e)\<rparr>)
              (check_source env fetch Modelscope current_version)
          else Inl e)"

section \<open>What an accepted release satisfies\<close>

text \<open>The addresses of a source: those of the releases of the fixed project.\<close>

definition project_address :: "source_policy \<Rightarrow> update_source \<Rightarrow> url \<Rightarrow> bool" where
  "project_address policy src u \<longleftrightarrow>
     url_scheme u = ''https'' \<and> url_username u = [] \<and> url_password u = None \<and> url_port u = None
     \<and> url_fragment u = None
     \<and> (case src of
          Github \<Rightarrow>
            url_host u = Some ''github.com'' \<and> url_query u = None
            \<and> (\<exists>rest. url_path u =
                 ''/'' @ github_owner policy @ ''/'' @ project_name @ ''/releases/download/'' @ rest)
        | Modelscope \<Rightarrow>
            url_host u \<in> {Some ''modelscope.cn'', Some ''www.modelscope.cn''}
            \<and> url_path u = ''/api/v1/models/'' @ modelscope_namespace policy @ ''/'' @ project_name @ ''/repo''
            \<and> (\<exists>f. mset (url_query_pairs u) =
                     {#(''Revision'', ''master''), (''FilePath'', ''releases/'' @ f)#}
                   \<and> \<not> str_contains (''releases/'' @ f) ''..'' \<and> CHR 0x5C \<notin> set f))"

text \<open>
  The path of a GitHub address is checked by its prefix only, so that it stays below that prefix
  rests on the \<open>url\<close> crate: \<open>Url::parse\<close> resolves the \<open>..\<close> segments of an HTTPS address, as the URL
  standard says (\<open>parents_resolved\<close>).
\<close>

definition parent_segment :: "string \<Rightarrow> bool" where
  "parent_segment seg \<longleftrightarrow>
     to_ascii_lowercase seg \<in> {''..'', ''.%2e'', ''%2e.'', ''%2e%2e''}"

definition no_parent_segment :: "string \<Rightarrow> bool" where
  "no_parent_segment path \<longleftrightarrow> list_all (\<lambda>seg. \<not> parent_segment seg) (split_char (CHR ''/'') path)"

definition parents_resolved :: "('v, 'z) update_libs_scheme \<Rightarrow> bool" where
  "parents_resolved libs \<longleftrightarrow>
     (\<forall>v u. lib_url libs v = Some u \<and> url_scheme u = ''https'' \<longrightarrow> no_parent_segment (url_path u))"

definition trusted_release :: "'v update_checker_env \<Rightarrow> string \<Rightarrow> update_release \<Rightarrow> bool" where
  "trusted_release env current_version r \<longleftrightarrow>
     (\<exists>u. lib_url (ck_libs env) (ur_download_url r) = Some u
          \<and> project_address (ck_policy env) (ur_source r) u
          \<and> (parents_resolved (ck_libs env) \<longrightarrow> no_parent_segment (url_path u)))
     \<and> length (ur_sha256 r) = 64
     \<and> list_all is_lower_hex (ur_sha256 r)
     \<and> 0 < unat (ur_size r) \<and> unat (ur_size r) \<le> 512 * 1024 * 1024
     \<and> ur_platform r \<in> set supported_update_platforms
     \<and> (\<exists>new old. lib_version (ck_libs env) (ur_version r) = Some new
          \<and> lib_version (ck_libs env) current_version = Some old \<and> lib_newer (ck_libs env) new old)"

lemma starts_with_joined: "starts_with s p \<longleftrightarrow> (\<exists>rest. s = p @ rest)"
  by (induction s p rule: starts_with.induct) auto

lemma sha256_digest_parse_Inr:
  "sha256_digest_parse v = Inr d \<Longrightarrow> d = v \<and> length v = 64 \<and> list_all is_lower_hex v"
  by (auto simp: sha256_digest_parse_def list_all_iff is_ascii_digit_def is_lower_hex_def split: if_splits)

lemma scan_query_Inr:
  "scan_query ps a b = Inr (a', b') \<Longrightarrow>
     mset (map (Pair ''Revision'') (case a of None \<Rightarrow> [] | Some v \<Rightarrow> [v]))
     + mset (map (Pair ''FilePath'') (case b of None \<Rightarrow> [] | Some v \<Rightarrow> [v])) + mset ps
     = mset (map (Pair ''Revision'') (case a' of None \<Rightarrow> [] | Some v \<Rightarrow> [v]))
       + mset (map (Pair ''FilePath'') (case b' of None \<Rightarrow> [] | Some v \<Rightarrow> [v]))"
  by (induction ps a b rule: scan_query.induct) (auto split: if_splits option.splits)

lemma modelscope_address:
  assumes "validate_modelscope_url policy u = Inr ()"
  shows "url_host u \<in> {Some ''modelscope.cn'', Some ''www.modelscope.cn''}
    \<and> url_path u = ''/api/v1/models/'' @ modelscope_namespace policy @ ''/'' @ project_name @ ''/repo''
    \<and> (\<exists>f. mset (url_query_pairs u) = {#(''Revision'', ''master''), (''FilePath'', ''releases/'' @ f)#}
           \<and> \<not> str_contains (''releases/'' @ f) ''..'' \<and> CHR 0x5C \<notin> set f)"
proof -
  obtain path where q: "scan_query (url_query_pairs u) None None = Inr (Some ''master'', Some path)"
    and p: "starts_with path ''releases/''" "\<not> str_contains path ''..''" "CHR 0x5C \<notin> set path"
    and h: "url_host u \<in> {Some ''modelscope.cn'', Some ''www.modelscope.cn''}"
      "url_path u = ''/api/v1/models/'' @ modelscope_namespace policy @ ''/'' @ project_name @ ''/repo''"
    using assms unfolding validate_modelscope_url_def Let_def
    by (auto simp: result_simps split: if_splits)
  obtain f where "path = ''releases/'' @ f" using p(1) unfolding starts_with_joined by blast
  with scan_query_Inr [OF q] p h show ?thesis by auto
qed

lemma validate_download_url_Inr:
  assumes "validate_download_url libs policy src v = Inr ()"
  shows "\<exists>u. lib_url libs v = Some u \<and> project_address policy src u
    \<and> (parents_resolved libs \<longrightarrow> no_parent_segment (url_path u))"
proof -
  obtain u where u: "lib_url libs v = Some u" "url_scheme u = ''https''" "url_username u = []"
    "url_password u = None" "url_port u = None" "url_fragment u = None"
    and a: "(case src of Github \<Rightarrow> validate_github_url policy u
              | Modelscope \<Rightarrow> validate_modelscope_url policy u) = Inr ()"
    using assms by (auto simp: validate_download_url_def result_simps split: if_splits)
  have "project_address policy src u"
  proof (cases src)
    case Github
    with a u show ?thesis
      by (auto simp: project_address_def validate_github_url_def Let_def starts_with_joined
          split: if_splits)
  next
    case Modelscope
    with a u modelscope_address [of policy u] show ?thesis by (simp add: project_address_def)
  qed
  with u show ?thesis by (auto simp: parents_resolved_def)
qed

lemma release_new_Inr:
  assumes "release_new libs input = Inr r"
  shows "r = input \<and> length (ur_sha256 r) = 64 \<and> list_all is_lower_hex (ur_sha256 r)
    \<and> 0 < unat (ur_size r) \<and> unat (ur_size r) \<le> 512 * 1024 * 1024
    \<and> ur_platform r \<in> set supported_update_platforms"
  using assms sha256_digest_parse_Inr [of "ur_sha256 input"]
  by (auto simp: release_new_def result_simps max_update_bytes_def unat_gt_0 split: if_splits)

lemma parsed_release_trusted:
  assumes "parse_manifest_for_platform (ck_libs env) (ck_policy env) src current bytes platform
           = Inr (Available r)"
  shows "trusted_release env current r \<and> ur_source r = src"
proof -
  obtain manifest :: static_manifest and key where
    url: "validate_download_url (ck_libs env) (ck_policy env) src
            (pm_url (the (sm_platforms manifest key))) = Inr ()"
    and new: "release_new (ck_libs env)
          \<lparr>ur_version = sm_version manifest, ur_notes = sm_notes manifest,
           ur_published_at = sm_pub_date manifest, ur_platform = key,
           ur_download_url = pm_url (the (sm_platforms manifest key)),
           ur_signature = pm_signature (the (sm_platforms manifest key)),
           ur_sha256 = pm_sha256 (the (sm_platforms manifest key)),
           ur_size = pm_size (the (sm_platforms manifest key)),
           ur_build_id = pm_build_id (the (sm_platforms manifest key)), ur_source = src\<rparr> = Inr r"
    and newer: "is_newer_than (ck_libs env) r current = Inr True"
    using assms
    by (auto simp: parse_manifest_for_platform_def Let_def result_simps split: if_splits)
  have "\<exists>u. lib_url (ck_libs env) (ur_download_url r) = Some u \<and> project_address (ck_policy env) src u
      \<and> (parents_resolved (ck_libs env) \<longrightarrow> no_parent_segment (url_path u))"
    and "ur_source r = src"
    using validate_download_url_Inr [OF url] release_new_Inr [OF new] by auto
  moreover have "\<exists>n old. lib_version (ck_libs env) (ur_version r) = Some n
      \<and> lib_version (ck_libs env) current = Some old \<and> lib_newer (ck_libs env) n old"
    using newer by (auto simp: is_newer_than_def result_simps)
  ultimately show ?thesis using release_new_Inr [OF new] unfolding trusted_release_def by blast
qed

text \<open>No error that the checks of a manifest raise allows a fallback: only fetching does.\<close>

lemma check_errors_final:
  "\<not> allows_fallback (security m)" "\<not> allows_fallback (invalid_manifest m)"
  "\<not> allows_fallback (map_validation_error e)"
  by (simp_all add: security_def invalid_manifest_def map_validation_error_def source_failure_def
      allows_fallback_def)

lemma scan_query_final: "fails_only (\<lambda>e. \<not> allows_fallback e) (scan_query ps a b)"
  by (induction ps a b rule: scan_query.induct) (simp_all add: check_errors_final)

lemma address_errors_final: "fails_only (\<lambda>e. \<not> allows_fallback e) (validate_download_url libs policy src v)"
  unfolding validate_download_url_def validate_github_url_def validate_modelscope_url_def Let_def
    split_beta
  by (cases src; simp only: update_source.case)
    (intro error_intros scan_query_final check_errors_final)+

lemma manifest_errors_final:
  "fails_only (\<lambda>e. \<not> allows_fallback e) (parse_manifest_for_platform libs policy src current bytes platform)"
  unfolding parse_manifest_for_platform_def select_platform_def Let_def
  by (intro error_intros address_errors_final check_errors_final)

lemma check_source_fallback:
  assumes "check_source env fetch src current = Inl e" and "allows_fallback e"
  shows "fetch (manifest_endpoint (ck_policy env) src) = Inl e"
proof (cases "fetch (manifest_endpoint (ck_policy env) src)")
  case (Inr bytes)
  with assms(1) have "parse_manifest_for_platform (ck_libs env) (ck_policy env) src current bytes
      (ck_platform env) = Inl e" by (simp add: check_source_def)
  with assms(2) fails_onlyD [OF manifest_errors_final] show ?thesis by blast
qed (use assms(1) in \<open>simp add: check_source_def\<close>)

lemma dual_check_cases:
  assumes "dual_check env fetch current = Inr sel"
  shows "(sel_source sel = Github \<and> sel_fallback_reason sel = None
      \<or> sel_source sel = Modelscope \<and> (\<exists>e. fetch (manifest_endpoint (ck_policy env) Github) = Inl e
            \<and> allows_fallback e \<and> sel_fallback_reason sel = Some (se_message e)))
    \<and> check_source env fetch (sel_source sel) current = Inr (sel_decision sel)"
proof (cases "check_source env fetch Github current")
  case (Inl e)
  with assms have "allows_fallback e" by (simp add: dual_check_def split: if_splits)
  moreover from this Inl have "fetch (manifest_endpoint (ck_policy env) Github) = Inl e"
    by (rule check_source_fallback [rotated])
  ultimately show ?thesis using assms Inl by (auto simp: dual_check_def result_simps)
next
  case (Inr d)
  with assms show ?thesis by (auto simp: dual_check_def)
qed

text \<open>The answer of ModelScope enters only after a failure of GitHub that allows the fallback.\<close>

lemma dual_check_fallback:
  "fetch (manifest_endpoint (ck_policy env) Github) = Inl e \<Longrightarrow> allows_fallback e \<Longrightarrow>
   dual_check env fetch current =
     map_res (\<lambda>d. \<lparr>sel_source = Modelscope, sel_decision = d, sel_fallback_reason = Some (se_message e)\<rparr>)
       (check_source env fetch Modelscope current)"
  by (simp add: dual_check_def check_source_def)

lemma dual_check_github_only:
  assumes "\<not> (\<exists>e. fetch (manifest_endpoint (ck_policy env) Github) = Inl e \<and> allows_fallback e)"
    and "other (manifest_endpoint (ck_policy env) Github) = fetch (manifest_endpoint (ck_policy env) Github)"
  shows "dual_check env other current = dual_check env fetch current"
proof -
  have same: "check_source env other Github current = check_source env fetch Github current"
    using assms(2) by (simp add: check_source_def)
  have "\<not> allows_fallback e" if "check_source env fetch Github current = Inl e" for e
    using check_source_fallback [OF that] assms(1) by blast
  then show ?thesis by (auto simp: dual_check_def same split: sum.split)
qed

text \<open>C24: An update that the check offers is trusted, whatever the two servers answer: its address is an
  HTTPS address without credentials, port or fragment. On GitHub its host is \<open>github.com\<close>, it has no
  query and its path starts with the release downloads of the fixed repository, and has no \<open>..\<close> segment
  after that because the URL parser resolves them (the one property of the \<open>url\<close> crate this needs); on
  ModelScope its path is that of the fixed repository and its two parameters name a file below
  \<open>releases/\<close> without \<open>..\<close> or backslash. Its digest is 64 lower-case hexadecimal digits, its size
  positive and at most 512 MiB, its platform a supported one and its version newer than the running
  one. ModelScope decides the result, error or not, exactly when fetching from GitHub failed with a
  network, not-found or server error; otherwise its answer changes nothing: a manifest that GitHub
  delivered is final, however bad, and so is a refusal.\<close>
theorem accepted_update_trusted:
  shows "(\<forall>sel. dual_check env fetch current = Inr sel \<longrightarrow>
       (case sel_source sel of
            Github \<Rightarrow> sel_fallback_reason sel = None
          | Modelscope \<Rightarrow> (\<exists>e. fetch (manifest_endpoint (ck_policy env) Github) = Inl e
              \<and> se_kind e \<in> {KNetwork, KNotFound, KServer} \<and> sel_fallback_reason sel = Some (se_message e)))
       \<and> (case sel_decision sel of
            UpToDate \<Rightarrow> True
          | Available r \<Rightarrow> ur_source r = sel_source sel \<and> trusted_release env current r))
     \<and> (\<forall>e. fetch (manifest_endpoint (ck_policy env) Github) = Inl e \<and> se_kind e \<in> {KNetwork, KNotFound, KServer} \<longrightarrow>
          dual_check env fetch current =
            map_res (\<lambda>d. \<lparr>sel_source = Modelscope, sel_decision = d, sel_fallback_reason = Some (se_message e)\<rparr>)
              (check_source env fetch Modelscope current))
     \<and> (\<forall>other. other (manifest_endpoint (ck_policy env) Github) = fetch (manifest_endpoint (ck_policy env) Github)
          \<and> \<not> (\<exists>e. fetch (manifest_endpoint (ck_policy env) Github) = Inl e
                 \<and> se_kind e \<in> {KNetwork, KNotFound, KServer}) \<longrightarrow>
          dual_check env other current = dual_check env fetch current)"
proof (intro conjI)
  have "ur_source r = sel_source sel \<and> trusted_release env current r"
    if sel: "dual_check env fetch current = Inr sel" "sel_decision sel = Available r" for sel r
    using conjunct2 [OF dual_check_cases [OF sel(1)]] sel(2) parsed_release_trusted
    unfolding check_source_def bind_res_Inr by metis
  then show "\<forall>sel. dual_check env fetch current = Inr sel \<longrightarrow>
       (case sel_source sel of
            Github \<Rightarrow> sel_fallback_reason sel = None
          | Modelscope \<Rightarrow> (\<exists>e. fetch (manifest_endpoint (ck_policy env) Github) = Inl e
              \<and> se_kind e \<in> {KNetwork, KNotFound, KServer} \<and> sel_fallback_reason sel = Some (se_message e)))
       \<and> (case sel_decision sel of
            UpToDate \<Rightarrow> True
          | Available r \<Rightarrow> ur_source r = sel_source sel \<and> trusted_release env current r)"
    by (fastforce dest: dual_check_cases simp: allows_fallback_def split: manifest_decision.split update_source.split)
qed (use dual_check_fallback dual_check_github_only in \<open>auto simp: allows_fallback_def\<close>)

section \<open>An example\<close>

definition example_checker :: "nat update_checker_env" where
  "example_checker =
     \<lparr>ck_libs =
        \<lparr>lib_version = (\<lambda>v. if v = ''1.2.0'' then Some 120 else if v = ''1.1.0'' then Some 110 else None),
         lib_newer = (\<lambda>a b. a > b),
         lib_url = (\<lambda>v. Some \<lparr>url_scheme = ''https'', url_username = [], url_password = None,
            url_host = Some ''modelscope.cn'', url_port = None,
            url_path = ''/api/v1/models/lx/QingzhouSSH/repo'', url_query = Some [],
            url_query_pairs = [(''Revision'', ''master''), (''FilePath'', ''releases/a.exe'')],
            url_fragment = None\<rparr>),
         lib_manifest = (\<lambda>b. Some \<lparr>sm_version = ''1.2.0'', sm_notes = [], sm_pub_date = None,
            sm_platforms = [''windows-x86_64'' \<mapsto> \<lparr>pm_url = ''u'', pm_signature = ''s'',
               pm_sha256 = replicate 64 (CHR ''a''), pm_size = 3, pm_build_id = ''b''\<rparr>]\<rparr>)\<rparr>,
      ck_policy = \<lparr>github_owner = ''lx'', modelscope_namespace = ''lx''\<rparr>,
      ck_platform = ''windows-x86_64-nsis''\<rparr>"

definition example_release :: update_release where
  "example_release =
     \<lparr>ur_version = ''1.2.0'', ur_notes = [], ur_published_at = None, ur_platform = ''windows-x86_64'',
      ur_download_url = ''u'', ur_signature = ''s'', ur_sha256 = replicate 64 (CHR ''a''), ur_size = 3,
      ur_build_id = ''b'', ur_source = Modelscope\<rparr>"

text \<open>GitHub answers \<open>503\<close>, the mirror with a manifest.\<close>

definition example_send :: "string \<Rightarrow> http_response option" where
  "example_send endpoint =
     Some (if starts_with endpoint ''https://github.com/''
           then \<lparr>hr_status = 503, hr_content_length = None, hr_body = None\<rparr>
           else \<lparr>hr_status = 200, hr_content_length = Some 2, hr_body = Some ''{}''\<rparr>)"

lemma example_check:
  "dual_check example_checker (http_fetch example_send) ''1.1.0'' =
     Inr \<lparr>sel_source = Modelscope, sel_decision = Available example_release,
          sel_fallback_reason = Some ''update source is unavailable''\<rparr>"
  by (simp add: dual_check_def check_source_def example_checker_def example_send_def example_release_def
      http_fetch_def manifest_endpoint_def allows_fallback_def source_failure_def
      parse_manifest_for_platform_def max_manifest_bytes_def ok_or_def select_platform_def
      validate_download_url_def validate_modelscope_url_def project_name_def release_new_def
      supported_update_platforms_def is_blank_def trim_start.simps byte_def max_update_bytes_def
      sha256_digest_parse_def is_newer_than_def list_all_iff)

lemma example_parents_resolved: "parents_resolved (ck_libs example_checker)"
proof -
  have "no_parent_segment ''/api/v1/models/lx/QingzhouSSH/repo''" by code_simp
  then show ?thesis by (auto simp: parents_resolved_def example_checker_def)
qed

theorem accepted_update_trusted_witness:
  "trusted_release example_checker ''1.1.0'' example_release
   \<and> (\<exists>u. lib_url (ck_libs example_checker) (ur_download_url example_release) = Some u
        \<and> project_address (ck_policy example_checker) Modelscope u \<and> no_parent_segment (url_path u))
   \<and> (\<exists>e. http_fetch example_send (manifest_endpoint (ck_policy example_checker) Github) = Inl e
        \<and> se_kind e \<in> {KNetwork, KNotFound, KServer}
        \<and> dual_check example_checker (http_fetch example_send) ''1.1.0'' =
            map_res (\<lambda>d. \<lparr>sel_source = Modelscope, sel_decision = d, sel_fallback_reason = Some (se_message e)\<rparr>)
              (check_source example_checker (http_fetch example_send) Modelscope ''1.1.0''))"
proof -
  note t = accepted_update_trusted [of example_checker "http_fetch example_send" "''1.1.0''"]
  have sel: "ur_source example_release = Modelscope \<and> trusted_release example_checker ''1.1.0'' example_release"
    and e: "\<exists>e. http_fetch example_send (manifest_endpoint (ck_policy example_checker) Github) = Inl e
        \<and> se_kind e \<in> {KNetwork, KNotFound, KServer}"
    using conjunct1 [OF t] example_check by auto
  have "\<exists>u. lib_url (ck_libs example_checker) (ur_download_url example_release) = Some u
        \<and> project_address (ck_policy example_checker) Modelscope u \<and> no_parent_segment (url_path u)"
    using sel example_parents_resolved unfolding trusted_release_def by auto
  then show ?thesis using sel e conjunct1 [OF conjunct2 [OF t]] by blast
qed

end
