(* ===== verification/Update_Service.thy ===== *)
theory Update_Service
  imports Update_Source
begin

text \<open>
  Keeping, downloading and installing an update: the state file and the staging directory
  (\<^verbatim>\<open>src-tauri/src/core/updates/state_store.rs\<close>) and the update service, the signed adapter and the
  manager (\<^verbatim>\<open>src-tauri/src/services/update_service.rs\<close>).

  The state is the memory of the manager and of the service together with the files below the
  \<open>updates\<close> directory, named by their path components. Every file operation reads one tick of the
  environment, which says whether it fails. The hash, the printing and parsing of the state file, the
  network and the installer of the updater plugin are arguments.
\<close>

section \<open>State\<close>

datatype stored_check_status = StoredUpToDate | StoredAvailable | StoredFailed

record stored_check_result =
  sc_status :: stored_check_status
  sc_version :: "string option"
  sc_source :: "update_source option"
  sc_message :: "string option"

record update_persistent_state =
  up_auto_check :: bool
  up_last_checked_at :: "u64 option"
  up_last_result :: "stored_check_result option"
  up_staged_file :: "string option"

definition persistent_default :: update_persistent_state where
  "persistent_default =
     \<lparr>up_auto_check = True, up_last_checked_at = None, up_last_result = None, up_staged_file = None\<rparr>"

text \<open>\<open>now.saturating_sub(last) >= interval\<close> on unsigned seconds.\<close>

definition automatic_check_due :: "update_persistent_state \<Rightarrow> u64 \<Rightarrow> u64 \<Rightarrow> bool" where
  "automatic_check_due st now interval =
     (if \<not> up_auto_check st then False
      else case up_last_checked_at st of
             None \<Rightarrow> True
           | Some t \<Rightarrow> (if t \<le> now then now - t else 0) \<ge> interval)"

record staged_update =
  st_version :: string
  st_relative_path :: string
  st_sha256 :: string
  st_size :: u64

datatype update_adapter_error = ANetwork | ASignature | AManifest | AInstall

datatype store_error =
  StoreIo string | StoreSerialization | InvalidStagedPath string | AtomicWrite string

datatype update_service_error =
  SAdapter update_adapter_error | SIntegrity | SNotDownloaded | SConfirmationRequired
| SStore store_error | SIo string

datatype update_manager_error =
  MSource source_error | MTransition update_transition_error | MStore store_error
| MService update_service_error

type_synonym file_path = "string list"

text \<open>
  What the updater plugin found on the server: the raw manifest as bytes, and the fields that the
  plugin itself read. An installer that was launched is logged with its bytes.
\<close>

record plugin_update =
  pu_raw :: "string option"
  pu_version :: string
  pu_download_url :: string
  pu_signature :: string

record update_progress_event =
  pe_sequence :: u64
  pe_downloaded_bytes :: u64
  pe_total_bytes :: "u64 option"

record update_system =
  us_lifecycle :: update_lifecycle
  us_fallback_reason :: "string option"
  us_staged :: "staged_update option"
  us_pending :: "(update_release \<times> staged_update) option"
  us_disk :: "file_path \<rightharpoonup> string"
  us_tick :: nat
  us_launched :: "(plugin_update \<times> string) list"
  us_events :: "update_progress_event list"

record update_env =
  ue_os :: host_os
  ue_fault :: "nat \<Rightarrow> string option"
  ue_parse_state :: "string \<Rightarrow> update_persistent_state option"
  ue_print_state :: "update_persistent_state \<Rightarrow> string option"
  ue_sha256 :: "string \<Rightarrow> string"
  ue_current_version :: string

text \<open>One file operation: it takes a tick and may fail.\<close>

definition file_op :: "update_env \<Rightarrow> (string \<Rightarrow> 'e) \<Rightarrow> (update_system \<Rightarrow> update_system)
    \<Rightarrow> update_system \<Rightarrow> ('e + unit) \<times> update_system" where
  "file_op env err f s =
     (let s' = s\<lparr>us_tick := Suc (us_tick s)\<rparr> in
      case ue_fault env (us_tick s) of None \<Rightarrow> (Inr (), f s') | Some m \<Rightarrow> (Inl (err m), s'))"

definition no_change :: "update_system \<Rightarrow> update_system" where
  "no_change s = s"

definition put_file :: "file_path \<Rightarrow> string \<Rightarrow> update_system \<Rightarrow> update_system" where
  "put_file p c s = s\<lparr>us_disk := (us_disk s)(p \<mapsto> c)\<rparr>"

definition drop_file :: "file_path \<Rightarrow> update_system \<Rightarrow> update_system" where
  "drop_file p s = s\<lparr>us_disk := (us_disk s)(p := None)\<rparr>"

definition lift_err :: "('e \<Rightarrow> 'f) \<Rightarrow> ('s \<Rightarrow> ('e + 'a) \<times> 's) \<Rightarrow> 's \<Rightarrow> ('f + 'a) \<times> 's" where
  "lift_err f m s = (case m s of (r, s') \<Rightarrow> (map_err f r, s'))"

section \<open>Paths\<close>

text \<open>
  \<open>Path::components\<close>: separators and dots between names are dropped, except a leading dot. On Windows
  a drive prefix comes first, and a path that starts with two separators starts with a prefix or with
  the root, which no caller distinguishes.
\<close>

datatype path_component = CPrefix | CRootDir | CCurDir | CParentDir | CNormal string

fun split_names :: "host_os \<Rightarrow> string \<Rightarrow> string list" where
  "split_names os [] = [[]]"
| "split_names os (c # cs) =
     (if is_separator os c then [] # split_names os cs
      else case split_names os cs of [] \<Rightarrow> [[c]] | w # ws \<Rightarrow> (c # w) # ws)"

definition body_components :: "host_os \<Rightarrow> string \<Rightarrow> path_component list" where
  "body_components os s =
     map (\<lambda>w. if w = ''..'' then CParentDir else CNormal w)
       (filter (\<lambda>w. w \<noteq> [] \<and> w \<noteq> ''.'') (split_names os s))"

definition rooted_components :: "host_os \<Rightarrow> string \<Rightarrow> path_component list" where
  "rooted_components os s =
     (if s \<noteq> [] \<and> is_separator os (hd s) then CRootDir # body_components os s
      else if hd (split_names os s) = ''.'' then CCurDir # body_components os s
      else body_components os s)"

definition path_components :: "host_os \<Rightarrow> string \<Rightarrow> path_component list" where
  "path_components os s =
     (if os = WindowsHost \<and> length s \<ge> 2 \<and> is_separator os (s ! 0) \<and> is_separator os (s ! 1)
        then CPrefix # body_components os s
      else if os = WindowsHost \<and> has_drive_prefix s then CPrefix # rooted_components os (drop 2 s)
      else rooted_components os s)"

fun component_name :: "path_component \<Rightarrow> string option" where
  "component_name (CNormal n) = Some n"
| "component_name _ = None"

definition validate_staged_file :: "host_os \<Rightarrow> string option \<Rightarrow> store_error + unit" where
  "validate_staged_file os v =
     (case v of
        None \<Rightarrow> Inr ()
      | Some p \<Rightarrow>
          (let components = path_components os p;
               safe = components \<noteq> [] \<and> length components \<le> 4 \<and> hd components = CNormal ''staged''
                      \<and> list_all (\<lambda>c. component_name c \<noteq> None) components
           in if safe then Inr () else Inl (InvalidStagedPath p)))"

definition resolve_staged_file :: "host_os \<Rightarrow> string \<Rightarrow> store_error + file_path" where
  "resolve_staged_file os relative =
     bind_res (validate_staged_file os (Some relative)) (\<lambda>_.
       Inr (map (\<lambda>c. the (component_name c)) (path_components os relative)))"

section \<open>State store\<close>

definition state_path :: file_path where
  "state_path = [''state.json'']"

definition max_state_bytes :: nat where
  "max_state_bytes = 64 * 1024"

definition store_load :: "update_env \<Rightarrow> update_system \<Rightarrow> (store_error + update_persistent_state) \<times> update_system"
where
  "store_load env =
     bind_st (file_op env StoreIo no_change) (\<lambda>_. read_st (\<lambda>s.
       case us_disk s state_path of
         None \<Rightarrow> Inr persistent_default
       | Some content \<Rightarrow>
           if length content > max_state_bytes then Inl (InvalidStagedPath ''state file is too large'')
           else bind_res (ok_or StoreSerialization (ue_parse_state env content)) (\<lambda>st.
                bind_res (validate_staged_file (ue_os env) (up_staged_file st)) (\<lambda>_. Inr st))))"

definition store_save ::
  "update_env \<Rightarrow> update_persistent_state \<Rightarrow> update_system \<Rightarrow> (store_error + unit) \<times> update_system" where
  "store_save env st =
     bind_st (read_st (\<lambda>_.
       bind_res (validate_staged_file (ue_os env) (up_staged_file st)) (\<lambda>_.
       bind_res (ok_or StoreSerialization (ue_print_state env st)) (\<lambda>payload.
       if length payload > max_state_bytes then Inl (InvalidStagedPath ''state file is too large'')
       else Inr payload)))) (\<lambda>payload. file_op env AtomicWrite (put_file state_path payload))"

text \<open>
  \<open>cleanup_partial_files\<close> walks the directories down to depth 4 in the order in which the system
  lists them; \<open>entries\<close> is that order. The walk stops at the first failure.
\<close>

definition ends_with :: "string \<Rightarrow> string \<Rightarrow> bool" where
  "ends_with s p = starts_with (rev s) (rev p)"

definition is_partial :: "file_path \<Rightarrow> bool" where
  "is_partial p \<longleftrightarrow> p \<noteq> [] \<and> length p \<le> 5 \<and> ends_with (last p) ''.partial''"

fun cleanup_directory ::
  "update_env \<Rightarrow> file_path list \<Rightarrow> update_system \<Rightarrow> (store_error + nat) \<times> update_system" where
  "cleanup_directory env [] s = (Inr 0, s)"
| "cleanup_directory env (p # ps) s =
     (if us_disk s p \<noteq> None \<and> is_partial p then
        (case file_op env StoreIo (drop_file p) s of
           (Inl e, s') \<Rightarrow> (Inl e, s')
         | (Inr _, s') \<Rightarrow> (case cleanup_directory env ps s' of (r, t) \<Rightarrow> (map_res Suc r, t)))
      else cleanup_directory env ps s)"

section \<open>Adapter\<close>

text \<open>
  \<open>SignedUpdateAdapter\<close>: the progress reports of a download are the bytes so far and the total. An
  installation that succeeds has launched the installer of an update of the plugin.
\<close>

record update_adapter =
  ad_download :: "nat \<Rightarrow> update_release \<Rightarrow> (update_adapter_error + string) \<times> (u64 \<times> u64 option) list"
  ad_install :: "nat \<Rightarrow> update_release \<Rightarrow> string \<Rightarrow> update_adapter_error + plugin_update"

datatype updater_error = Minisign | Base64 | SignatureUtf8 | UNetwork | Reqwest | Http | OtherUpdater

fun map_updater_error :: "updater_error \<Rightarrow> update_adapter_error" where
  "map_updater_error Minisign = ASignature"
| "map_updater_error Base64 = ASignature"
| "map_updater_error SignatureUtf8 = ASignature"
| "map_updater_error UNetwork = ANetwork"
| "map_updater_error Reqwest = ANetwork"
| "map_updater_error Http = ANetwork"
| "map_updater_error OtherUpdater = AManifest"

text \<open>
  The plugin: building the updater for a target and an endpoint, its check, the download of an update
  in chunks, and its installer.
\<close>

record updater_plugin =
  pl_build :: "nat \<Rightarrow> string \<Rightarrow> string \<Rightarrow> updater_error + unit"
  pl_check :: "nat \<Rightarrow> string \<Rightarrow> string \<Rightarrow> updater_error + plugin_update option"
  pl_download :: "nat \<Rightarrow> plugin_update \<Rightarrow> (updater_error + string) \<times> (nat \<times> u64 option) list"
  pl_install :: "nat \<Rightarrow> plugin_update \<Rightarrow> string \<Rightarrow> updater_error + unit"

definition resolve_update ::
  "'v update_checker_env \<Rightarrow> updater_plugin \<Rightarrow> string \<Rightarrow> nat \<Rightarrow> update_release
   \<Rightarrow> update_adapter_error + plugin_update" where
  "resolve_update env plugin package_version t expected =
     (let endpoint = manifest_endpoint (ck_policy env) (ur_source expected) in
      bind_res (ok_or AManifest (lib_url (ck_libs env) endpoint)) (\<lambda>_.
      bind_res (map_err map_updater_error (pl_build plugin t (ur_platform expected) endpoint)) (\<lambda>_.
      bind_res (map_err map_updater_error (pl_check plugin t (ur_platform expected) endpoint)) (\<lambda>found.
      bind_res (ok_or AManifest found) (\<lambda>update.
      bind_res (ok_or AManifest (pu_raw update)) (\<lambda>raw.
      bind_res (map_err (\<lambda>_. AManifest)
        (parse_manifest_for_platform (ck_libs env) (ck_policy env) (ur_source expected) package_version raw
           (ck_platform env))) (\<lambda>decision.
      case decision of
        UpToDate \<Rightarrow> Inl AManifest
      | Available actual \<Rightarrow>
          if actual \<noteq> expected \<or> pu_version update \<noteq> ur_version expected
             \<or> pu_download_url update \<noteq> ur_download_url expected
             \<or> pu_signature update \<noteq> ur_signature expected
          then Inl AManifest else Inr update)))))))"

fun add_chunks :: "u64 \<Rightarrow> (nat \<times> u64 option) list \<Rightarrow> (u64 \<times> u64 option) list" where
  "add_chunks downloaded [] = []"
| "add_chunks downloaded ((chunk, sz) # rest) =
     (let d = (if unat downloaded + chunk \<le> unat (- 1 :: u64) then downloaded + of_nat chunk else - 1)
      in (d, sz) # add_chunks d rest)"

definition tauri_adapter :: "'v update_checker_env \<Rightarrow> updater_plugin \<Rightarrow> string \<Rightarrow> update_adapter" where
  "tauri_adapter env plugin package_version =
     \<lparr>ad_download = (\<lambda>t release.
        case resolve_update env plugin package_version t release of
          Inl e \<Rightarrow> (Inl e, [])
        | Inr update \<Rightarrow>
            (case pl_download plugin t update of
               (r, chunks) \<Rightarrow> (map_err map_updater_error r, add_chunks 0 chunks))),
      ad_install = (\<lambda>t release bytes.
        bind_res (resolve_update env plugin package_version t release) (\<lambda>update.
        case pl_install plugin t update bytes of Inl _ \<Rightarrow> Inl AInstall | Inr _ \<Rightarrow> Inr update))\<rparr>"

section \<open>Service\<close>

definition staged_relative_path :: "update_release \<Rightarrow> update_service_error + string" where
  "staged_relative_path release =
     bind_res
       (let p = ur_platform release in
        if p \<in> {''windows-x86_64'', ''windows-x86_64-nsis'', ''windows-aarch64-nsis''} then Inr ''exe''
        else if p \<in> {''macos-x86_64-dmg'', ''macos-aarch64-dmg''} then Inr ''app.tar.gz''
        else if p \<in> {''linux-x86_64-appimage'', ''linux-aarch64-appimage''} then Inr ''AppImage''
        else Inl SIntegrity) (\<lambda>suffix.
       Inr (''staged/'' @ ur_version release @ ''/QingzhouSSH-'' @ ur_version release @ ''-''
            @ ur_platform release @ ''.'' @ suffix))"

definition verify_bytes :: "update_env \<Rightarrow> update_release \<Rightarrow> string \<Rightarrow> update_service_error + unit" where
  "verify_bytes env release bytes =
     (if length bytes \<noteq> unat (ur_size release) then Inl SIntegrity
      else if ue_sha256 env bytes \<noteq> ur_sha256 release then Inl SIntegrity
      else Inr ())"

definition partial_path :: "file_path \<Rightarrow> file_path" where
  "partial_path p = butlast p @ [last p @ ''.partial'']"

text \<open>\<open>fs::rename\<close> of the partial file onto the final one.\<close>

definition rename_file :: "file_path \<Rightarrow> file_path \<Rightarrow> update_system \<Rightarrow> update_system" where
  "rename_file p q s = s\<lparr>us_disk := (us_disk s)(q := us_disk s p, p := None)\<rparr>"

definition write_verified_file :: "update_env \<Rightarrow> file_path \<Rightarrow> file_path \<Rightarrow> string
    \<Rightarrow> update_system \<Rightarrow> (update_service_error + unit) \<times> update_system" where
  "write_verified_file env partial_file final bytes =
     (let write =
        bind_st (file_op env SIo (put_file partial_file [])) (\<lambda>_.
        bind_st (file_op env SIo (put_file partial_file bytes)) (\<lambda>_.
        bind_st (file_op env SIo no_change) (\<lambda>_.
        file_op env SIo (rename_file partial_file final))))
      in (\<lambda>s.
        if us_disk s final = None then write s
        else bind_st (file_op env SIo no_change) (\<lambda>_ s.
               if us_disk s final = Some bytes then (Inr (), s)
               else bind_st (file_op env SIo (drop_file final)) (\<lambda>_. write) s) s))"

text \<open>Downloading: what happens to the bytes of the adapter once they are there.\<close>

definition stage_bytes :: "update_env \<Rightarrow> update_release \<Rightarrow> string
    \<Rightarrow> update_system \<Rightarrow> (update_service_error + staged_update) \<times> update_system" where
  "stage_bytes env release bytes =
     bind_st (read_st (\<lambda>_. verify_bytes env release bytes)) (\<lambda>_.
     bind_st (read_st (\<lambda>_. staged_relative_path release)) (\<lambda>relative_path.
     bind_st (read_st (\<lambda>_. map_err SStore (resolve_staged_file (ue_os env) relative_path))) (\<lambda>final_path.
     bind_st (file_op env SIo no_change) (\<lambda>_.
     bind_st (\<lambda>s.
       case write_verified_file env (partial_path final_path) final_path bytes s of
         (Inl e, s') \<Rightarrow> (Inl e, ignore_st (file_op env SIo (drop_file (partial_path final_path))) s')
       | (Inr _, s') \<Rightarrow> (Inr (), s')) (\<lambda>_.
     let staged = \<lparr>st_version = ur_version release, st_relative_path = relative_path,
                   st_sha256 = ur_sha256 release, st_size = ur_size release\<rparr> in
     bind_st (lift_err SStore (store_load env)) (\<lambda>st.
     bind_st (lift_err SStore (store_save env (st\<lparr>up_staged_file := Some relative_path\<rparr>))) (\<lambda>_ s.
     (Inr staged, s\<lparr>us_pending := Some (release, staged)\<rparr>))))))))"

definition service_download :: "update_env \<Rightarrow> update_adapter \<Rightarrow> update_release
    \<Rightarrow> update_system \<Rightarrow> (update_service_error + staged_update) \<times> update_system" where
  "service_download env adapter release s =
     bind_st (read_st (\<lambda>s. map_err SAdapter (fst (ad_download adapter (us_tick s) release))))
       (\<lambda>bytes s. stage_bytes env release bytes (s\<lparr>us_tick := Suc (us_tick s)\<rparr>)) s"

text \<open>Installing: the bytes are read from the disk and verified again before the adapter gets them.\<close>

definition read_pending :: "update_env \<Rightarrow> update_system
    \<Rightarrow> (update_service_error + update_release \<times> string) \<times> update_system" where
  "read_pending env =
     bind_st (read_st (\<lambda>s. ok_or SNotDownloaded (us_pending s))) (\<lambda>(release, staged).
     bind_st (read_st (\<lambda>_. map_err SStore (resolve_staged_file (ue_os env) (st_relative_path staged)))) (\<lambda>path.
     bind_st (file_op env SIo no_change) (\<lambda>_.
     bind_st (read_st (\<lambda>s. ok_or (SIo ''not found'') (us_disk s path))) (\<lambda>bytes.
     bind_st (read_st (\<lambda>_. verify_bytes env release bytes)) (\<lambda>_.
     ret_st (release, bytes))))))"

definition launch :: "update_adapter \<Rightarrow> update_release \<Rightarrow> string
    \<Rightarrow> update_system \<Rightarrow> (update_service_error + unit) \<times> update_system" where
  "launch adapter release bytes s =
     (let s' = s\<lparr>us_tick := Suc (us_tick s)\<rparr> in
      case ad_install adapter (us_tick s) release bytes of
        Inl e \<Rightarrow> (Inl (SAdapter e), s')
      | Inr update \<Rightarrow> (Inr (), s'\<lparr>us_launched := us_launched s @ [(update, bytes)]\<rparr>))"

definition service_install :: "update_env \<Rightarrow> update_adapter \<Rightarrow> bool
    \<Rightarrow> update_system \<Rightarrow> (update_service_error + unit) \<times> update_system" where
  "service_install env adapter confirmed =
     (if \<not> confirmed then fail_st SConfirmationRequired
      else bind_st (read_pending env) (\<lambda>(release, bytes). launch adapter release bytes))"

definition service_clear_downloaded :: "update_env
    \<Rightarrow> update_system \<Rightarrow> (update_service_error + bool) \<times> update_system" where
  "service_clear_downloaded env s =
     (let pending = us_pending s in
      bind_st (lift_err SStore (store_load env)) (\<lambda>st.
      let relative_path = (case pending of Some (_, staged) \<Rightarrow> Some (st_relative_path staged)
                           | None \<Rightarrow> up_staged_file st) in
      bind_st
        (case relative_path of
           None \<Rightarrow> ret_st False
         | Some p \<Rightarrow>
             bind_st (read_st (\<lambda>_. map_err SStore (resolve_staged_file (ue_os env) p))) (\<lambda>path s.
             bind_st (file_op env SIo (drop_file path)) (\<lambda>_. ret_st (us_disk s path \<noteq> None)) s)) (\<lambda>removed.
      bind_st (lift_err SStore (store_save env (st\<lparr>up_staged_file := None\<rparr>))) (\<lambda>_. ret_st removed)))
      (s\<lparr>us_pending := None\<rparr>))"

section \<open>Manager\<close>

fun public_source_error :: "source_failure_kind \<Rightarrow> string" where
  "public_source_error KNetwork = ''update network is unavailable''"
| "public_source_error KNotFound = ''update source has published no manifest''"
| "public_source_error KServer = ''update server is unavailable''"
| "public_source_error KInvalidManifest = ''update manifest is invalid''"
| "public_source_error KSecurity = ''update source failed the security check''"

fun public_service_error :: "update_service_error \<Rightarrow> string" where
  "public_service_error (SAdapter ANetwork) = ''update network is unavailable''"
| "public_service_error (SAdapter ASignature) = ''update signature verification failed''"
| "public_service_error (SAdapter AManifest) = ''update manifest check failed''"
| "public_service_error (SAdapter AInstall) = ''update installer failed to start''"
| "public_service_error SIntegrity = ''update package failed the integrity check''"
| "public_service_error SNotDownloaded = ''update package is not downloaded yet''"
| "public_service_error SConfirmationRequired = ''installing an update needs confirmation''"
| "public_service_error (SStore _) = ''storing the update state failed''"
| "public_service_error (SIo _) = ''an update file operation failed''"

fun source_label :: "update_source \<Rightarrow> string" where
  "source_label Github = ''GitHub Releases''"
| "source_label Modelscope = ''ModelScope mirror''"

text \<open>\<open>AvailableUpdate\<close> is the release without its address, signature and digest, with a label.\<close>

record available_update =
  av_version :: string
  av_notes :: string
  av_published_at :: "string option"
  av_size :: u64
  av_build_id :: string
  av_source :: update_source
  av_source_label :: string

definition available_of :: "update_release \<Rightarrow> available_update" where
  "available_of r =
     \<lparr>av_version = ur_version r, av_notes = ur_notes r, av_published_at = ur_published_at r,
      av_size = ur_size r, av_build_id = ur_build_id r, av_source = ur_source r,
      av_source_label = source_label (ur_source r)\<rparr>"

record update_status =
  ust_current_version :: string
  ust_phase :: update_phase
  ust_auto_check :: bool
  ust_last_checked_at :: "u64 option"
  ust_last_result :: "stored_check_result option"
  ust_release :: "available_update option"
  ust_fallback_reason :: "string option"
  ust_staged :: "staged_update option"
  ust_last_error :: "string option"

type_synonym 'a manager_op = "update_system \<Rightarrow> (update_manager_error + 'a) \<times> update_system"

definition on_lifecycle :: "lifecycle_op \<Rightarrow> unit manager_op" where
  "on_lifecycle f s =
     (case f (us_lifecycle s) of (r, l) \<Rightarrow> (map_err MTransition r, s\<lparr>us_lifecycle := l\<rparr>))"

definition fail_lifecycle :: "string \<Rightarrow> update_system \<Rightarrow> update_system" where
  "fail_lifecycle message s = s\<lparr>us_lifecycle := fail_update message (us_lifecycle s)\<rparr>"

definition manager_status :: "update_env \<Rightarrow> update_status manager_op" where
  "manager_status env =
     bind_st (lift_err MStore (store_load env)) (\<lambda>persistent. read_st (\<lambda>s. Inr
       \<lparr>ust_current_version = ue_current_version env, ust_phase = lc_phase (us_lifecycle s),
        ust_auto_check = up_auto_check persistent, ust_last_checked_at = up_last_checked_at persistent,
        ust_last_result = up_last_result persistent,
        ust_release = map_option available_of (lc_release (us_lifecycle s)),
        ust_fallback_reason = us_fallback_reason s, ust_staged = us_staged s,
        ust_last_error = lc_last_error (us_lifecycle s)\<rparr>))"

definition persist_check :: "update_env \<Rightarrow> u64 \<Rightarrow> stored_check_result \<Rightarrow> unit manager_op" where
  "persist_check env now v =
     bind_st (lift_err MStore (store_load env)) (\<lambda>st.
     lift_err MStore (store_save env (st\<lparr>up_last_checked_at := Some now, up_last_result := Some v\<rparr>)))"

text \<open>
  Each handler is cut where it waits for the network or for the installer. A check that is not due
  answers with the status (\<open>Some\<close>).
\<close>

definition automatic_check_interval :: u64 where
  "automatic_check_interval = 6 * 60 * 60"

definition check_begin :: "update_env \<Rightarrow> bool \<Rightarrow> u64 \<Rightarrow> update_status option manager_op" where
  "check_begin env manual now =
     bind_st (lift_err MStore (store_load env)) (\<lambda>persistent.
       if \<not> manual \<and> \<not> automatic_check_due persistent now automatic_check_interval
       then bind_st (manager_status env) (\<lambda>st. ret_st (Some st))
       else bind_st (on_lifecycle begin_check) (\<lambda>_ s. (Inr None, s\<lparr>us_fallback_reason := None\<rparr>)))"

definition check_end ::
  "update_env \<Rightarrow> u64 \<Rightarrow> source_error + source_selection \<Rightarrow> update_status manager_op" where
  "check_end env now outcome =
     (case outcome of
        Inr selection \<Rightarrow> (\<lambda>s.
          bind_st
            (case sel_decision selection of
               UpToDate \<Rightarrow>
                 bind_st (on_lifecycle set_up_to_date) (\<lambda>_. ret_st
                   \<lparr>sc_status = StoredUpToDate, sc_version = Some (ue_current_version env),
                    sc_source = Some (sel_source selection), sc_message = Some ''up to date''\<rparr>)
             | Available release \<Rightarrow>
                 bind_st (on_lifecycle (set_available release)) (\<lambda>_. ret_st
                   \<lparr>sc_status = StoredAvailable, sc_version = Some (ur_version release),
                    sc_source = Some (sel_source selection), sc_message = Some ''update available''\<rparr>))
            (\<lambda>v. bind_st (persist_check env now v) (\<lambda>_. manager_status env))
            (s\<lparr>us_fallback_reason := sel_fallback_reason selection\<rparr>))
      | Inl e \<Rightarrow> (\<lambda>s.
          let message = public_source_error (se_kind e) in
          bind_st (persist_check env now
            \<lparr>sc_status = StoredFailed, sc_version = None, sc_source = None, sc_message = Some message\<rparr>)
            (\<lambda>_. fail_st (MSource e)) (fail_lifecycle message s)))"

definition manager_check ::
  "update_env \<Rightarrow> (nat \<Rightarrow> source_error + source_selection) \<Rightarrow> bool \<Rightarrow> u64 \<Rightarrow> update_status manager_op" where
  "manager_check env check manual now =
     bind_st (check_begin env manual now) (\<lambda>early.
       case early of
         Some st \<Rightarrow> ret_st st
       | None \<Rightarrow> (\<lambda>s. check_end env now (check (us_tick s)) (s\<lparr>us_tick := Suc (us_tick s)\<rparr>)))"

text \<open>\<open>expect\<close> on the release of the life cycle: \<open>None\<close> is the panic.\<close>

definition download_begin :: "update_release option manager_op" where
  "download_begin =
     bind_st (on_lifecycle begin_download) (\<lambda>_. read_st (\<lambda>s. Inr (lc_release (us_lifecycle s))))"

text \<open>The progress callback, with its sequence number and high-water mark.\<close>

fun progress_events :: "u64 \<Rightarrow> u64 \<Rightarrow> (u64 \<times> u64 option) list \<Rightarrow> update_progress_event list" where
  "progress_events sequence last_downloaded [] = []"
| "progress_events sequence last_downloaded ((downloaded, all) # rest) =
     (let sequence = (if sequence = - 1 then - 1 else sequence + 1);
          last_downloaded = max last_downloaded downloaded
      in \<lparr>pe_sequence = sequence, pe_downloaded_bytes = last_downloaded, pe_total_bytes = all\<rparr>
         # progress_events sequence last_downloaded rest)"

definition download_end ::
  "update_env \<Rightarrow> update_adapter \<Rightarrow> update_release \<Rightarrow> update_status manager_op" where
  "download_end env adapter release s =
     (case service_download env adapter release
             (s\<lparr>us_events := us_events s
                  @ progress_events 0 0 (snd (ad_download adapter (us_tick s) release))\<rparr>) of
        (Inl e, s') \<Rightarrow> (Inl (MService e), fail_lifecycle (public_service_error e) s')
      | (Inr staged, s') \<Rightarrow>
          bind_st (on_lifecycle set_downloaded) (\<lambda>_. manager_status env) (s'\<lparr>us_staged := Some staged\<rparr>))"

definition manager_download ::
  "update_env \<Rightarrow> update_adapter \<Rightarrow> update_status option manager_op" where
  "manager_download env adapter =
     bind_st download_begin (\<lambda>release.
       case release of
         None \<Rightarrow> ret_st None
       | Some r \<Rightarrow> bind_st (download_end env adapter r) (\<lambda>st. ret_st (Some st)))"

definition install_begin :: "update_env \<Rightarrow> bool \<Rightarrow> (update_release \<times> string) manager_op" where
  "install_begin env confirmed =
     (if \<not> confirmed then fail_st (MService SConfirmationRequired)
      else bind_st (on_lifecycle begin_install) (\<lambda>_ s.
        case read_pending env s of
          (Inl e, s') \<Rightarrow> (Inl (MService e), fail_lifecycle (public_service_error e) s')
        | (Inr v, s') \<Rightarrow> (Inr v, s')))"

definition install_end ::
  "update_env \<Rightarrow> update_adapter \<Rightarrow> update_release \<Rightarrow> string \<Rightarrow> update_status manager_op" where
  "install_end env adapter release bytes s =
     (case launch adapter release bytes s of
        (Inl e, s') \<Rightarrow> (Inl (MService e), fail_lifecycle (public_service_error e) s')
      | (Inr _, s') \<Rightarrow> manager_status env s')"

definition manager_install :: "update_env \<Rightarrow> update_adapter \<Rightarrow> bool \<Rightarrow> update_status manager_op" where
  "manager_install env adapter confirmed =
     bind_st (install_begin env confirmed) (\<lambda>(release, bytes). install_end env adapter release bytes)"

definition manager_clear_downloaded :: "update_env \<Rightarrow> update_status manager_op" where
  "manager_clear_downloaded env =
     bind_st (lift_err MService (service_clear_downloaded env)) (\<lambda>_ s.
       manager_status env
         (s\<lparr>us_staged := None, us_fallback_reason := None, us_lifecycle := reset_update (us_lifecycle s)\<rparr>))"

definition manager_set_auto_check :: "update_env \<Rightarrow> bool \<Rightarrow> update_status manager_op" where
  "manager_set_auto_check env enabled =
     bind_st (lift_err MStore (store_load env)) (\<lambda>st.
     bind_st (lift_err MStore (store_save env (st\<lparr>up_auto_check := enabled\<rparr>))) (\<lambda>_.
     manager_status env))"

text \<open>\<open>new_with_components\<close>: the partial files are removed and the memory is empty.\<close>

definition update_start :: "(file_path \<rightharpoonup> string) \<Rightarrow> update_system" where
  "update_start disk =
     \<lparr>us_lifecycle = lifecycle_default, us_fallback_reason = None, us_staged = None, us_pending = None,
      us_disk = disk, us_tick = 0, us_launched = [], us_events = []\<rparr>"

definition manager_new ::
  "update_env \<Rightarrow> file_path list \<Rightarrow> (file_path \<rightharpoonup> string) \<Rightarrow> (update_manager_error + nat) \<times> update_system" where
  "manager_new env entries disk = lift_err MStore (cleanup_directory env entries) (update_start disk)"

end
