(* ===== verification/Update_History.thy ===== *)
theory Update_History
  imports Update_Service
begin

text \<open>
  Histories of the update manager: commands of the user, answers of the network and of the installer
  in any order, and anything at all happening to the files in between. What reaches an installer is
  the package that the manifest described. The checker and the signed adapter are used through two
  interfaces, which \<open>dual_check\<close> and \<open>tauri_adapter\<close> provide.
\<close>

section \<open>Histories\<close>

text \<open>What a command waits for, with the data it holds meanwhile.\<close>

datatype update_task = TCheck u64 | TDownload update_release | TInstall update_release string

datatype update_event =
  EvCheck bool u64 | EvDownload | EvInstall bool | EvClear | EvAutoCheck bool
| EvAnswer nat | EvDisk "file_path \<rightharpoonup> string"

type_synonym update_state = "update_system \<times> update_task list"

definition answer_task :: "update_env \<Rightarrow> (nat \<Rightarrow> source_error + source_selection) \<Rightarrow> update_adapter
    \<Rightarrow> update_task \<Rightarrow> update_system \<Rightarrow> update_system" where
  "answer_task env check adapter task s =
     (case task of
        TCheck now \<Rightarrow> snd (check_end env now (check (us_tick s)) (s\<lparr>us_tick := Suc (us_tick s)\<rparr>))
      | TDownload r \<Rightarrow> snd (download_end env adapter r s)
      | TInstall r bytes \<Rightarrow> snd (install_end env adapter r bytes s))"

fun update_exec :: "update_env \<Rightarrow> (nat \<Rightarrow> source_error + source_selection) \<Rightarrow> update_adapter
    \<Rightarrow> update_event \<Rightarrow> update_state \<Rightarrow> update_state" where
  "update_exec env check adapter (EvCheck manual now) (s, ts) =
     (case check_begin env manual now s of
        (Inr None, s') \<Rightarrow> (s', ts @ [TCheck now])
      | (_, s') \<Rightarrow> (s', ts))"
| "update_exec env check adapter EvDownload (s, ts) =
     (case download_begin s of
        (Inr (Some r), s') \<Rightarrow> (s', ts @ [TDownload r])
      | (_, s') \<Rightarrow> (s', ts))"
| "update_exec env check adapter (EvInstall confirmed) (s, ts) =
     (case install_begin env confirmed s of
        (Inr (r, bytes), s') \<Rightarrow> (s', ts @ [TInstall r bytes])
      | (_, s') \<Rightarrow> (s', ts))"
| "update_exec env check adapter EvClear (s, ts) = (snd (manager_clear_downloaded env s), ts)"
| "update_exec env check adapter (EvAutoCheck enabled) (s, ts) = (snd (manager_set_auto_check env enabled s), ts)"
| "update_exec env check adapter (EvAnswer i) (s, ts) =
     (if i < length ts then (answer_task env check adapter (ts ! i) s, take i ts @ drop (Suc i) ts)
      else (s, ts))"
| "update_exec env check adapter (EvDisk disk) (s, ts) = (s\<lparr>us_disk := disk\<rparr>, ts)"

definition run_update :: "update_env \<Rightarrow> (nat \<Rightarrow> source_error + source_selection) \<Rightarrow> update_adapter
    \<Rightarrow> update_event list \<Rightarrow> update_state \<Rightarrow> update_state" where
  "run_update env check adapter evs s = fold (update_exec env check adapter) evs s"

section \<open>What file operations leave alone\<close>

definition memory :: "update_system \<Rightarrow>
    update_lifecycle \<times> staged_update option \<times> (update_release \<times> staged_update) option
    \<times> (plugin_update \<times> string) list" where
  "memory s = (us_lifecycle s, us_staged s, us_pending s, us_launched s)"

lemma memory_upd [simp]:
  "memory (s\<lparr>us_tick := t\<rparr>) = memory s" "memory (s\<lparr>us_disk := d\<rparr>) = memory s"
  "memory (s\<lparr>us_events := e\<rparr>) = memory s" "memory (s\<lparr>us_fallback_reason := f\<rparr>) = memory s"
  by (simp_all add: memory_def)

lemma memory_files [simp]:
  "memory (no_change s) = memory s" "memory (put_file p c s) = memory s"
  "memory (drop_file p s) = memory s" "memory (rename_file p q s) = memory s"
  by (simp_all add: memory_def no_change_def put_file_def drop_file_def rename_file_def)

lemma keeps_file_op [keeps_intros]:
  "(\<And>s. memory (f s) = memory s) \<Longrightarrow> keeps (\<lambda>s. memory s = M) (file_op env err f)"
  by (auto simp: keeps_def file_op_def Let_def split: option.split)

lemma keeps_lift_err [keeps_intros]: "keeps I m \<Longrightarrow> keeps I (lift_err f m)"
  by (auto simp: keeps_def lift_err_def split: prod.split)

lemma keeps_store_load [keeps_intros]: "keeps (\<lambda>s. memory s = M) (store_load env)"
  unfolding store_load_def by (intro keeps_intros) simp

lemma keeps_store_save [keeps_intros]: "keeps (\<lambda>s. memory s = M) (store_save env st)"
  unfolding store_save_def by (intro keeps_intros) simp

lemma keeps_manager_status [keeps_intros]: "keeps (\<lambda>s. memory s = M) (manager_status env)"
  unfolding manager_status_def by (intro keeps_intros)

lemma keeps_persist_check [keeps_intros]: "keeps (\<lambda>s. memory s = M) (persist_check env now v)"
  unfolding persist_check_def by (intro keeps_intros)

lemma keeps_set_auto_check: "keeps (\<lambda>s. memory s = M) (manager_set_auto_check env enabled)"
  unfolding manager_set_auto_check_def by (intro keeps_intros)

lemma memory_eq: "keeps (\<lambda>s. memory s = memory s0) m \<Longrightarrow> memory (snd (m s0)) = memory s0"
  by (rule keepsD) simp_all

lemma bind_st_memory:
  assumes "bind_st m f s = (r, s')" and "\<And>M. keeps (\<lambda>s. memory s = M) m"
  shows "(\<exists>e t. m s = (Inl e, t) \<and> r = Inl e \<and> s' = t \<and> memory t = memory s)
       \<or> (\<exists>x t. m s = (Inr x, t) \<and> f x t = (r, s') \<and> memory t = memory s)"
  using assms(1) memory_eq [OF assms(2), of s]
  by (auto simp: bind_st_def split: prod.splits sum.splits)

lemma keeps_write_verified_file [keeps_intros]:
  "keeps (\<lambda>s. memory s = M) (write_verified_file env p q bytes)"
proof -
  let ?w = "bind_st (file_op env SIo (put_file p [])) (\<lambda>_.
     bind_st (file_op env SIo (put_file p bytes)) (\<lambda>_.
     bind_st (file_op env SIo no_change) (\<lambda>_. file_op env SIo (rename_file p q))))"
  have w: "keeps (\<lambda>s. memory s = M) ?w" by (intro keeps_intros) simp_all
  have d: "keeps (\<lambda>s. memory s = M) (bind_st (file_op env SIo (drop_file q)) (\<lambda>_. ?w))"
    by (intro keeps_intros w) simp
  have e: "keeps (\<lambda>s. memory s = M) (\<lambda>s. if us_disk s q = Some bytes then (Inr (), s)
      else bind_st (file_op env SIo (drop_file q)) (\<lambda>_. ?w) s)"
    using d by (auto simp: keeps_def)
  have "keeps (\<lambda>s. memory s = M) (bind_st (file_op env SIo no_change) (\<lambda>_ s. if us_disk s q = Some bytes then (Inr (), s)
      else bind_st (file_op env SIo (drop_file q)) (\<lambda>_. ?w) s))"
    by (intro keeps_intros e) simp
  with w show ?thesis unfolding write_verified_file_def Let_def by (auto simp: keeps_def)
qed

text \<open>
  What an operation ends with. A step that touches no memory either ends the operation with its error,
  or leads into the rest of it.
\<close>

definition ends_in :: "(update_system \<Rightarrow> 'r \<times> update_system) \<Rightarrow> update_system
    \<Rightarrow> ('r \<Rightarrow> update_system \<Rightarrow> bool) \<Rightarrow> bool" where
  "ends_in m s Q \<longleftrightarrow> Q (fst (m s)) (snd (m s))"

lemma ends_inD: "ends_in m s Q \<Longrightarrow> m s = (r, s') \<Longrightarrow> Q r s'"
  by (simp add: ends_in_def)

lemma ends_in_quiet:
  assumes "\<And>M. keeps (\<lambda>s. memory s = M) m" and "\<And>r t. memory t = memory s \<Longrightarrow> Q r t"
  shows "ends_in m s Q"
  unfolding ends_in_def by (rule assms(2)) (rule memory_eq [OF assms(1)])

lemma ends_in_bind:
  assumes "\<And>M. keeps (\<lambda>s. memory s = M) m"
    and "\<And>e t. memory t = memory s \<Longrightarrow> Q (Inl e) t"
    and "\<And>x t. memory t = memory s \<Longrightarrow> fst (m s) = Inr x \<Longrightarrow> ends_in (f x) t Q"
  shows "ends_in (bind_st m f) s Q"
proof -
  have m: "memory (snd (m s)) = memory s" by (rule memory_eq [OF assms(1)])
  show ?thesis
  proof (cases "m s")
    case (Pair r t)
    with m assms(2,3) show ?thesis by (cases r) (auto simp: ends_in_def bind_st_def)
  qed
qed

lemma ends_in_read:
  assumes "\<And>e. Q (Inl e) s" and "\<And>x. f s = Inr x \<Longrightarrow> ends_in (g x) s Q"
  shows "ends_in (bind_st (read_st f) g) s Q"
  using assms by (auto simp: ends_in_def split: sum.split)

definition verified :: "update_env \<Rightarrow> update_release \<Rightarrow> string \<Rightarrow> bool" where
  "verified env r bytes \<longleftrightarrow> length bytes = unat (ur_size r) \<and> ue_sha256 env bytes = ur_sha256 r"

lemma verify_bytes_Inr: "verify_bytes env r bytes = Inr () \<longleftrightarrow> verified env r bytes"
  by (simp add: verify_bytes_def verified_def)

lemma keeps_staging:
  "keeps (\<lambda>s. memory s = M) (\<lambda>s.
     case write_verified_file env p q bytes s of
       (Inl e, s') \<Rightarrow> (Inl e, ignore_st (file_op env SIo (drop_file p)) s')
     | (Inr x, s') \<Rightarrow> (Inr (), s'))"
proof -
  have "memory (ignore_st (file_op env SIo (drop_file p)) s) = memory s" for s
    unfolding ignore_st_def by (rule memory_eq, rule keeps_file_op) simp
  moreover have "memory (snd (write_verified_file env p q bytes s)) = memory s" for s
    by (rule memory_eq, rule keeps_write_verified_file)
  ultimately show ?thesis
    by (auto simp: keeps_def split: prod.split sum.split) (metis snd_conv)+
qed

text \<open>Only a verified package becomes the pending update.\<close>

lemma stage_bytes_ends:
  "ends_in (stage_bytes env r bytes) s (\<lambda>res t.
     case res of
       Inl _ \<Rightarrow> memory t = memory s
     | Inr staged \<Rightarrow> verified env r bytes
         \<and> memory t = (us_lifecycle s, us_staged s, Some (r, staged), us_launched s))"
  unfolding stage_bytes_def Let_def
  apply (rule ends_in_read)
   apply simp
  apply (rule ends_in_read)
   apply simp
  apply (rule ends_in_read)
   apply simp
  apply (rule ends_in_bind)
    apply (intro keeps_intros, simp)
   apply simp
  apply (rule ends_in_bind)
    apply (rule keeps_staging)
   apply simp
  apply (rule ends_in_bind)
    apply (intro keeps_intros)
   apply simp
  apply (rule ends_in_bind)
    apply (intro keeps_intros)
   apply simp
  apply (simp add: ends_in_def verify_bytes_Inr memory_def)
  done

text \<open>What the installation reads back is verified again, whatever lies on the disk.\<close>

lemma read_pending_ends:
  "ends_in (read_pending env) s (\<lambda>res t. memory t = memory s \<and>
     (case res of
        Inl _ \<Rightarrow> True
      | Inr (r, bytes) \<Rightarrow> verified env r bytes \<and> (\<exists>staged. us_pending s = Some (r, staged))))"
  unfolding read_pending_def split_beta
  apply (rule ends_in_read)
   apply simp
  apply (rule ends_in_read)
   apply simp
  apply (rule ends_in_bind)
    apply (intro keeps_intros, simp)
   apply simp
  apply (rule ends_in_read)
   apply simp
  apply (rule ends_in_read)
   apply simp
  apply (auto simp: ends_in_def verify_bytes_Inr ok_or_Inr)
  done

section \<open>The interfaces of the manager\<close>

text \<open>What the manager relies on: a checker offers good releases only, and an adapter that starts an
  installer starts that of the release it was given.\<close>

locale release_checker =
  fixes check :: "nat \<Rightarrow> source_error + source_selection" and good :: "update_release \<Rightarrow> bool"
  assumes offers: "check t = Inr sel \<Longrightarrow> sel_decision sel = Available r \<Longrightarrow> good r"

locale release_installer =
  fixes adapter :: update_adapter and installs :: "update_release \<Rightarrow> plugin_update \<Rightarrow> bool"
  assumes launches: "ad_install adapter t r bytes = Inr u \<Longrightarrow> installs r u"

locale update_parties = release_checker check good + release_installer adapter installs
  for check good adapter installs +
  fixes env :: update_env
begin

definition launch_ok :: "plugin_update \<times> string \<Rightarrow> bool" where
  "launch_ok l \<longleftrightarrow> (\<exists>r. good r \<and> verified env r (snd l) \<and> installs r (fst l))"

text \<open>The release of the life cycle is good, and present where the code expects it.\<close>

definition lifecycle_ok :: "update_lifecycle \<Rightarrow> bool" where
  "lifecycle_ok l \<longleftrightarrow> (\<forall>r. lc_release l = Some r \<longrightarrow> good r)
     \<and> (lc_phase l \<in> {UAvailable, UDownloading, UDownloaded} \<longrightarrow> lc_release l \<noteq> None)"

definition system_ok :: "update_system \<Rightarrow> bool" where
  "system_ok s \<longleftrightarrow> lifecycle_ok (us_lifecycle s) \<and> (\<forall>r st. us_pending s = Some (r, st) \<longrightarrow> good r)
     \<and> (\<forall>l \<in> set (us_launched s). launch_ok l)"

definition task_ok :: "update_task \<Rightarrow> bool" where
  "task_ok task = (case task of
     TCheck _ \<Rightarrow> True | TDownload r \<Rightarrow> good r | TInstall r bytes \<Rightarrow> good r \<and> verified env r bytes)"

lemma system_ok_memory: "memory t = memory s \<Longrightarrow> system_ok t = system_ok s"
  by (simp add: system_ok_def memory_def)

lemma keeps_quiet: "(\<And>M. keeps (\<lambda>s. memory s = M) m) \<Longrightarrow> keeps system_ok m"
proof (rule keepsI)
  fix s assume q: "\<And>M. keeps (\<lambda>s. memory s = M) m" and s: "system_ok s"
  have "memory (snd (m s)) = memory s" by (rule memory_eq [OF q])
  from s system_ok_memory [OF this] show "system_ok (snd (m s))" by blast
qed

lemmas quiet_intros = keeps_quiet [OF keeps_lift_err [OF keeps_store_load]]
  keeps_quiet [OF keeps_lift_err [OF keeps_store_save]] keeps_quiet [OF keeps_manager_status]
  keeps_quiet [OF keeps_persist_check] keeps_quiet [OF keeps_set_auto_check]

lemma system_ok_simps [simp]:
  "system_ok (s\<lparr>us_fallback_reason := f\<rparr>) = system_ok s" "system_ok (s\<lparr>us_tick := t\<rparr>) = system_ok s"
  "system_ok (s\<lparr>us_staged := st\<rparr>) = system_ok s" "system_ok (s\<lparr>us_disk := d\<rparr>) = system_ok s"
  "system_ok (s\<lparr>us_events := ev\<rparr>) = system_ok s"
  by (simp_all add: system_ok_def)

lemma lifecycle_ops:
  "lifecycle_ok l \<Longrightarrow> lifecycle_ok (snd (begin_check l))"
  "lifecycle_ok l \<Longrightarrow> lifecycle_ok (snd (set_up_to_date l))"
  "lifecycle_ok l \<Longrightarrow> good r \<Longrightarrow> lifecycle_ok (snd (set_available r l))"
  "lifecycle_ok l \<Longrightarrow> lifecycle_ok (snd (begin_download l))"
  "lifecycle_ok l \<Longrightarrow> lifecycle_ok (snd (set_downloaded l))"
  "lifecycle_ok l \<Longrightarrow> lifecycle_ok (snd (begin_install l))"
  "lifecycle_ok l \<Longrightarrow> lifecycle_ok (fail_update m l)"
  "lifecycle_ok (reset_update l)"
  by (auto simp: lifecycle_ok_def begin_check_def set_up_to_date_def set_available_def begin_download_def
      set_downloaded_def begin_install_def require_phase_def fail_update_def reset_update_def
      lifecycle_default_def bind_st_def)

lemma keeps_on_lifecycle:
  "(\<And>l. lifecycle_ok l \<Longrightarrow> lifecycle_ok (snd (f l))) \<Longrightarrow> keeps system_ok (on_lifecycle f)"
  by (auto simp: keeps_def on_lifecycle_def system_ok_def split: prod.split) (metis snd_conv)+

lemma system_ok_fail [simp]: "system_ok s \<Longrightarrow> system_ok (fail_lifecycle m s)"
  by (simp add: fail_lifecycle_def system_ok_def lifecycle_ops)

lemma keeps_then:
  "(\<And>s. system_ok s \<Longrightarrow> system_ok (f s)) \<Longrightarrow> keeps system_ok m \<Longrightarrow> keeps system_ok (\<lambda>s. m (f s))"
  by (auto simp: keeps_def)

lemma keeps_check_begin: "keeps system_ok (check_begin env manual now)"
  unfolding check_begin_def
  apply (rule keeps_bind)
   apply (rule quiet_intros)
  apply (rule keeps_if)
   apply (rule keeps_bind)
    apply (rule quiet_intros)
   apply (rule keeps_ret)
  apply (rule keeps_bind)
   apply (rule keeps_on_lifecycle)
   apply (erule lifecycle_ops)
  apply (simp add: keeps_def)
  done

lemma keeps_check_end:
  assumes "\<And>sel r. outcome = Inr sel \<Longrightarrow> sel_decision sel = Available r \<Longrightarrow> good r"
  shows "keeps system_ok (check_end env now outcome)"
proof (cases outcome)
  case (Inl e)
  have "keeps system_ok (bind_st (persist_check env now v) (\<lambda>_. fail_st (MSource e)))" for v
    by (rule keeps_bind [OF quiet_intros(4) keeps_fail])
  then show ?thesis unfolding check_end_def Inl sum.case Let_def
    by (rule keeps_then [rotated]) simp
next
  case (Inr sel)
  have p: "keeps system_ok (bind_st (persist_check env now v) (\<lambda>_. manager_status env))" for v
    by (rule keeps_bind [OF quiet_intros(4) quiet_intros(3)])
  have "keeps system_ok (on_lifecycle set_up_to_date)"
    by (rule keeps_on_lifecycle) (erule lifecycle_ops)
  moreover have "sel_decision sel = Available r \<Longrightarrow> keeps system_ok (on_lifecycle (set_available r))" for r
    by (rule keeps_on_lifecycle) (erule lifecycle_ops, rule assms [OF Inr])
  ultimately show ?thesis unfolding check_end_def Inr sum.case
    by (cases "sel_decision sel"; simp only: manifest_decision.case)
      (rule keeps_then, simp, rule keeps_bind [OF keeps_bind [OF _ keeps_ret] p], simp)+
qed

lemma keeps_download_begin: "keeps system_ok download_begin"
  unfolding download_begin_def by (intro keeps_intros keeps_on_lifecycle lifecycle_ops)

lemma download_begin_release:
  assumes "system_ok s" and "download_begin s = (Inr v, s')"
  shows "\<exists>r. v = Some r \<and> good r"
  using assms
  by (auto simp: download_begin_def on_lifecycle_def begin_download_def require_phase_def bind_st_def
      system_ok_def lifecycle_ok_def split: if_splits)

lemma system_ok_service_download:
  assumes "good r" and "system_ok s"
  shows "system_ok (snd (service_download env adapter r s))"
proof -
  let ?t = "s\<lparr>us_tick := Suc (us_tick s)\<rparr>"
  show ?thesis
  proof (cases "fst (ad_download adapter (us_tick s) r)")
    case (Inl e)
    with assms(2) show ?thesis by (simp add: service_download_def)
  next
    case (Inr bytes)
    obtain res t where e: "stage_bytes env r bytes ?t = (res, t)" by (meson surj_pair)
    have "system_ok t"
      using ends_inD [OF stage_bytes_ends e] assms system_ok_memory [of t ?t]
      by (cases res) (simp_all add: system_ok_def memory_def)
    with Inr e show ?thesis by (simp add: service_download_def)
  qed
qed

lemma keeps_download_end: "good r \<Longrightarrow> keeps system_ok (download_end env adapter r)"
proof (rule keepsI)
  fix s assume g: "good r" and s: "system_ok s"
  let ?s = "s\<lparr>us_events := us_events s @ progress_events 0 0 (snd (ad_download adapter (us_tick s) r))\<rparr>"
  have "system_ok ?s" using s by simp
  then have d: "system_ok (snd (service_download env adapter r ?s))" by (rule system_ok_service_download [OF g])
  have "keeps system_ok (bind_st (on_lifecycle set_downloaded) (\<lambda>_. manager_status env))"
    by (intro keeps_intros keeps_on_lifecycle lifecycle_ops quiet_intros)
  note e = keepsD [OF this]
  from d show "system_ok (snd (download_end env adapter r s))"
    unfolding download_end_def by (auto split: prod.split sum.split intro!: e)
qed

lemma install_begin_ok:
  assumes "system_ok s" and "install_begin env confirmed s = (res, s')"
  shows "system_ok s' \<and> (\<forall>r bytes. res = Inr (r, bytes) \<longrightarrow> good r \<and> verified env r bytes)"
proof (cases "confirmed \<and> fst (on_lifecycle begin_install s) = Inr ()")
  case False
  have "system_ok (snd (on_lifecycle begin_install s))"
    by (intro keepsD [OF keeps_on_lifecycle] lifecycle_ops assms(1))
  with False assms show ?thesis
    by (cases "on_lifecycle begin_install s")
      (auto simp: install_begin_def bind_st_def split: if_splits sum.splits)
next
  case True
  let ?t = "snd (on_lifecycle begin_install s)"
  have t: "system_ok ?t" by (intro keepsD [OF keeps_on_lifecycle] lifecycle_ops assms(1))
  obtain v t' where v: "read_pending env ?t = (v, t')" by (meson surj_pair)
  from ends_inD [OF read_pending_ends v]
  have m: "memory t' = memory ?t" and r: "v = Inr (r, bytes) \<Longrightarrow>
      verified env r bytes \<and> (\<exists>staged. us_pending ?t = Some (r, staged))" for r bytes by auto
  from t r have "v = Inr (r, bytes) \<Longrightarrow> good r \<and> verified env r bytes" for r bytes
    by (auto simp: system_ok_def)
  moreover have "system_ok t'" using t system_ok_memory [OF m] by simp
  ultimately show ?thesis using True assms(2) v
    by (cases "on_lifecycle begin_install s") (auto simp: install_begin_def bind_st_def split: sum.splits)
qed

lemma keeps_install_end: "good r \<Longrightarrow> verified env r bytes \<Longrightarrow> keeps system_ok (install_end env adapter r bytes)"
proof (rule keepsI)
  fix s assume g: "good r" "verified env r bytes" and s: "system_ok s"
  have "system_ok (snd (launch adapter r bytes s))"
    using g s launches by (auto simp: launch_def Let_def system_ok_def launch_ok_def split: sum.split)
  moreover have "system_ok t \<Longrightarrow> system_ok (snd (manager_status env t))" for t
    by (intro keepsD [OF keeps_quiet [OF keeps_manager_status]])
  ultimately show "system_ok (snd (install_end env adapter r bytes s))"
    unfolding install_end_def by (auto split: prod.split sum.split)
qed

lemma keeps_clear: "keeps system_ok (manager_clear_downloaded env)"
proof (rule keepsI)
  fix s assume s: "system_ok s"
  let ?s = "s\<lparr>us_pending := None\<rparr>"
  have q: "keeps (\<lambda>s. memory s = M)
      (case v of None \<Rightarrow> ret_st False
         | Some p \<Rightarrow>
             bind_st (read_st (\<lambda>_. map_err SStore (resolve_staged_file (ue_os env) p))) (\<lambda>path s.
             bind_st (file_op env SIo (drop_file path)) (\<lambda>_. ret_st (us_disk s path \<noteq> None)) s))" for M v
  proof (cases v)
    case (Some p)
    have "keeps (\<lambda>s. memory s = M) (\<lambda>s. bind_st (file_op env SIo (drop_file path))
        (\<lambda>_. ret_st (us_disk s path \<noteq> None)) s)" for path
      by (auto simp: keeps_def bind_st_def file_op_def Let_def split: option.split)
    with Some show ?thesis by (simp only: option.case) (intro keeps_bind keeps_read)
  qed (simp add: keeps_ret)
  have "memory (snd (service_clear_downloaded env s)) = memory ?s"
    unfolding service_clear_downloaded_def Let_def
    by (rule memory_eq) (intro keeps_bind keeps_lift_err keeps_store_load keeps_store_save q keeps_ret)
  moreover have "system_ok ?s" using s by (simp add: system_ok_def)
  ultimately have c: "system_ok (snd (service_clear_downloaded env s))" using system_ok_memory by blast
  have "system_ok (t\<lparr>us_staged := None, us_fallback_reason := None,
      us_lifecycle := reset_update (us_lifecycle t)\<rparr>)" if "system_ok t" for t
    using that by (simp add: system_ok_def lifecycle_ops)
  with c keepsD [OF keeps_quiet [OF keeps_manager_status]]
  show "system_ok (snd (manager_clear_downloaded env s))"
    unfolding manager_clear_downloaded_def by (auto simp: bind_st_def lift_err_def split: prod.split sum.split)
qed

definition state_ok :: "update_state \<Rightarrow> bool" where
  "state_ok st \<longleftrightarrow> system_ok (fst st) \<and> (\<forall>task \<in> set (snd st). task_ok task)"

lemma answer_task_ok: "task_ok task \<Longrightarrow> system_ok s \<Longrightarrow> system_ok (answer_task env check adapter task s)"
  using keepsD [OF keeps_check_end] keepsD [OF keeps_download_end] keepsD [OF keeps_install_end] offers
  by (cases task) (auto simp: answer_task_def task_ok_def)

lemma update_exec_ok: "state_ok st \<Longrightarrow> state_ok (update_exec env check adapter ev st)"
proof (cases st)
  case (Pair s ts)
  assume "state_ok st"
  with Pair have s: "system_ok s" and ts: "\<And>task. task \<in> set ts \<Longrightarrow> task_ok task"
    by (auto simp: state_ok_def)
  show ?thesis
  proof (cases ev)
    case (EvCheck manual now)
    have "check_begin env manual now s = (v, t) \<Longrightarrow> system_ok t" for v t
      using keepsD [OF keeps_check_begin s] by (metis snd_conv)
    with EvCheck Pair s ts show ?thesis
      by (auto simp: state_ok_def task_ok_def split: prod.split sum.split option.split)
  next
    case EvDownload
    have "download_begin s = (v, t) \<Longrightarrow> system_ok t" for v t
      using keepsD [OF keeps_download_begin s] by (metis snd_conv)
    with EvDownload Pair s ts download_begin_release [OF s] show ?thesis
      by (auto simp: state_ok_def task_ok_def split: prod.split sum.split option.split)
  next
    case (EvInstall confirmed)
    with Pair ts install_begin_ok [OF s] show ?thesis
      by (auto simp: state_ok_def task_ok_def split: prod.split sum.split)
  next
    case EvClear
    with Pair ts keepsD [OF keeps_clear s] show ?thesis by (simp add: state_ok_def)
  next
    case (EvAutoCheck enabled)
    with Pair ts keepsD [OF keeps_quiet [OF keeps_set_auto_check] s] show ?thesis by (simp add: state_ok_def)
  next
    case (EvAnswer i)
    with Pair s ts answer_task_ok show ?thesis
      by (auto simp: state_ok_def dest: in_set_takeD in_set_dropD)
  next
    case (EvDisk disk)
    with Pair s ts show ?thesis by (simp add: state_ok_def)
  qed
qed

lemma start_ok: "state_ok (update_start disk, [])"
  by (simp add: state_ok_def update_start_def system_ok_def lifecycle_ok_def lifecycle_default_def)

lemma run_update_ok: "state_ok st \<Longrightarrow> state_ok (run_update env check adapter evs st)"
  by (induction evs arbitrary: st) (simp_all add: run_update_def update_exec_ok)

lemma run_launches:
  assumes "run_update env check adapter evs (update_start disk, []) = (s, ts)"
  shows "(u, bytes) \<in> set (us_launched s) \<Longrightarrow> \<exists>r. good r \<and> verified env r bytes \<and> installs r u"
    and "fst (download_begin s) \<noteq> Inr None"
proof -
  have ok: "system_ok s" using run_update_ok [OF start_ok, of evs disk] assms by (simp add: state_ok_def)
  then show "(u, bytes) \<in> set (us_launched s) \<Longrightarrow> \<exists>r. good r \<and> verified env r bytes \<and> installs r u"
    unfolding system_ok_def launch_ok_def by fastforce
  show "fst (download_begin s) \<noteq> Inr None"
    using download_begin_release [OF ok] by (metis option.distinct(1) prod.collapse)
qed

end

section \<open>The parties of the program\<close>

text \<open>What the plugin is told to install: the update it found is the release that was checked.\<close>

definition installs_release :: "'v update_checker_env \<Rightarrow> string \<Rightarrow> update_release \<Rightarrow> plugin_update \<Rightarrow> bool" where
  "installs_release ck package_version r u \<longleftrightarrow>
     pu_version u = ur_version r \<and> pu_download_url u = ur_download_url r \<and> pu_signature u = ur_signature r
     \<and> trusted_release ck package_version r"

interpretation trusted: release_checker "\<lambda>t. dual_check ck (fetch t) current" "trusted_release ck current"
  for ck :: "'v update_checker_env" and fetch current
proof unfold_locales
  fix t sel r
  assume c: "dual_check ck (fetch t) current = Inr sel" and d: "sel_decision sel = Available r"
  obtain bytes where "parse_manifest_for_platform (ck_libs ck) (ck_policy ck) (sel_source sel) current bytes
      (ck_platform ck) = Inr (Available r)"
    using conjunct2 [OF dual_check_cases [OF c]] d unfolding check_source_def bind_res_Inr by metis
  then show "trusted_release ck current r" using parsed_release_trusted by blast
qed

lemma resolve_update_Inr:
  assumes "resolve_update ck plugin package_version t r = Inr u"
  shows "installs_release ck package_version r u"
proof -
  obtain raw v decision where p: "parse_manifest_for_platform (ck_libs ck) (ck_policy ck) (ur_source r)
      package_version raw (ck_platform ck) = Inr decision"
    and d: "(case decision of
        UpToDate \<Rightarrow> Inl AManifest
      | Available actual \<Rightarrow>
          if actual \<noteq> r \<or> pu_version v \<noteq> ur_version r \<or> pu_download_url v \<noteq> ur_download_url r
             \<or> pu_signature v \<noteq> ur_signature r
          then Inl AManifest else Inr v) = Inr u"
    using assms unfolding resolve_update_def Let_def bind_res_Inr map_err_Inr by blast
  from d have "decision = Available r"
    and u: "pu_version u = ur_version r" "pu_download_url u = ur_download_url r" "pu_signature u = ur_signature r"
    by (cases decision; simp split: if_splits)+
  with p have "trusted_release ck package_version r" using parsed_release_trusted by blast
  with u show ?thesis by (simp add: installs_release_def)
qed

interpretation signed: release_installer "tauri_adapter ck plugin package_version"
  "installs_release ck package_version"
  for ck :: "'v update_checker_env" and plugin package_version
proof unfold_locales
  fix t r bytes u
  assume "ad_install (tauri_adapter ck plugin package_version) t r bytes = Inr u"
  then obtain v where "resolve_update ck plugin package_version t r = Inr v"
    "(case pl_install plugin t v bytes of Inl _ \<Rightarrow> Inl AInstall | Inr _ \<Rightarrow> Inr v) = Inr u"
    by (auto simp: tauri_adapter_def bind_res_Inr)
  then have "resolve_update ck plugin package_version t r = Inr u"
    by (cases "pl_install plugin t v bytes") simp_all
  then show "installs_release ck package_version r u" by (rule resolve_update_Inr)
qed

interpretation parties: update_parties "\<lambda>t. dual_check ck (fetch t) current" "trusted_release ck current"
  "tauri_adapter ck plugin package_version" "installs_release ck package_version" env
  for ck :: "'v update_checker_env" and fetch current plugin package_version env
  by unfold_locales

section \<open>What reaches an installer\<close>

text \<open>C12: Whatever the servers, the plugin and the user do, in whatever order commands and answers come,
  and however the files are changed meanwhile, an installer that was launched got exactly a package that a
  trusted manifest describes: a package of the right size and SHA-256 digest, for a release that the check
  accepted as newer than the running version and that the plugin's own manifest confirmed again, with the same
  version, address and signature. Besides, starting a download never finds the release missing.\<close>
theorem only_verified_updates_installed:
  assumes "run_update env (\<lambda>t. dual_check ck (fetch t) current) (tauri_adapter ck plugin package_version) evs
             (update_start disk, []) = (s, ts)"
  shows "(\<forall>(u, bytes) \<in> set (us_launched s). \<exists>r.
            trusted_release ck current r \<and> trusted_release ck package_version r
            \<and> length bytes = unat (ur_size r) \<and> ue_sha256 env bytes = ur_sha256 r
            \<and> pu_version u = ur_version r \<and> pu_download_url u = ur_download_url r
            \<and> pu_signature u = ur_signature r)
         \<and> fst (download_begin s) \<noteq> Inr None"
  using parties.run_launches [OF assms] unfolding installs_release_def verified_def by fastforce

section \<open>An example\<close>

definition example_update_env :: update_env where
  "example_update_env =
     \<lparr>ue_os = WindowsHost, ue_fault = (\<lambda>_. None), ue_parse_state = (\<lambda>_. Some persistent_default),
      ue_print_state = (\<lambda>_. Some ''{}''), ue_sha256 = (\<lambda>_. replicate 64 (CHR ''a'')),
      ue_current_version = ''1.1.0''\<rparr>"

definition example_found :: plugin_update where
  "example_found = \<lparr>pu_raw = Some ''{}'', pu_version = ''1.2.0'', pu_download_url = ''u'', pu_signature = ''s''\<rparr>"

definition example_plugin :: updater_plugin where
  "example_plugin =
     \<lparr>pl_build = (\<lambda>_ _ _. Inr ()), pl_check = (\<lambda>_ _ _. Inr (Some example_found)),
      pl_download = (\<lambda>_ _. (Inr ''abc'', [(2, Some 3), (1, Some 3)])), pl_install = (\<lambda>_ _ _. Inr ())\<rparr>"

abbreviation example_run_update :: "update_event list \<Rightarrow> update_state \<Rightarrow> update_state" where
  "example_run_update \<equiv> run_update example_update_env
     (\<lambda>t. dual_check example_checker (http_fetch example_send) ''1.1.0'')
     (tauri_adapter example_checker example_plugin ''1.1.0'')"

lemma example_parse:
  "parse_manifest_for_platform (ck_libs example_checker) (ck_policy example_checker) Modelscope ''1.1.0''
     ''{}'' (ck_platform example_checker) = Inr (Available example_release)"
  by (simp add: example_checker_def example_release_def
      parse_manifest_for_platform_def max_manifest_bytes_def ok_or_def select_platform_def
      validate_download_url_def validate_modelscope_url_def project_name_def release_new_def
      supported_update_platforms_def is_blank_def trim_start.simps byte_def max_update_bytes_def
      sha256_digest_parse_def is_newer_than_def list_all_iff)

lemma example_release_fields [simp]:
  "ur_version example_release = ''1.2.0''" "ur_platform example_release = ''windows-x86_64''"
  "ur_download_url example_release = ''u''" "ur_signature example_release = ''s''"
  "ur_sha256 example_release = replicate 64 (CHR ''a'')" "ur_size example_release = 3"
  "ur_source example_release = Modelscope"
  by (simp_all add: example_release_def)

lemma example_resolve [simp]:
  "resolve_update example_checker example_plugin ''1.1.0'' t example_release = Inr example_found"
proof -
  have "ok_or AManifest (lib_url (ck_libs example_checker) v) = Inr (the (lib_url (ck_libs example_checker) v))" for v
    by (simp add: example_checker_def ok_or_def)
  then show ?thesis
    using example_parse by (simp add: resolve_update_def Let_def) (simp add: ok_or_def example_plugin_def example_found_def)
qed

lemma example_adapter [simp]:
  "ad_download (tauri_adapter example_checker example_plugin ''1.1.0'') t example_release
     = (Inr ''abc'', [(2, Some 3), (3, Some 3)])"
  "ad_install (tauri_adapter example_checker example_plugin ''1.1.0'') t example_release bytes = Inr example_found"
  by (simp_all add: tauri_adapter_def) (simp_all add: example_plugin_def Let_def unsigned_minus_1_eq_mask mask_eq_exp_minus_1)

lemmas example_step_defs = example_update_env_def file_op_def no_change_def put_file_def drop_file_def
  rename_file_def lift_err_def bind_st_def store_load_def store_save_def validate_staged_file_def
  ok_or_def persistent_default_def max_state_bytes_def on_lifecycle_def begin_check_def
  require_phase_def manager_status_def persist_check_def

lemma example_path: "path_components WindowsHost ''staged/1.2.0/QingzhouSSH-1.2.0-windows-x86_64.exe''
   = [CNormal ''staged'', CNormal ''1.2.0'', CNormal ''QingzhouSSH-1.2.0-windows-x86_64.exe'']"
  by code_simp

lemma example_checked:
  "\<exists>s. example_run_update [EvCheck True 5, EvAnswer 0] (update_start Map.empty, []) = (s, [])
     \<and> us_lifecycle s = \<lparr>lc_phase = UAvailable, lc_release = Some example_release, lc_last_error = None\<rparr>
     \<and> us_disk s = [state_path \<mapsto> ''{}''] \<and> us_launched s = []"
  by (simp add: run_update_def update_start_def lifecycle_default_def check_begin_def example_step_defs Let_def
     answer_task_def check_end_def example_check set_available_def state_path_def)

lemma example_downloaded:
  assumes "us_lifecycle s = \<lparr>lc_phase = UAvailable, lc_release = Some example_release, lc_last_error = None\<rparr>"
    "us_disk s = [state_path \<mapsto> ''{}'']" "us_launched s = []"
  shows "\<exists>s'. example_run_update [EvDownload, EvAnswer 0] (s, []) = (s', [])
     \<and> us_lifecycle s' = \<lparr>lc_phase = UDownloaded, lc_release = Some example_release, lc_last_error = None\<rparr>
     \<and> us_disk s' [''staged'', ''1.2.0'', ''QingzhouSSH-1.2.0-windows-x86_64.exe''] = Some ''abc''
     \<and> (\<exists>st. us_pending s' = Some (example_release, st) \<and> st_relative_path st = ''staged/1.2.0/QingzhouSSH-1.2.0-windows-x86_64.exe'')
     \<and> us_launched s' = []"
  using assms
  by (simp add: run_update_def download_begin_def begin_download_def example_step_defs Let_def
     answer_task_def download_end_def service_download_def stage_bytes_def
     verify_bytes_def staged_relative_path_def resolve_staged_file_def example_path
     write_verified_file_def partial_path_def state_path_def set_downloaded_def)

lemma status_launched: "us_launched (snd (manager_status env s)) = us_launched s"
  using memory_eq [OF keeps_manager_status, of env s] by (simp add: memory_def)

lemma example_installed:
  assumes "us_lifecycle s = \<lparr>lc_phase = UDownloaded, lc_release = Some example_release, lc_last_error = None\<rparr>"
     "us_disk s [''staged'', ''1.2.0'', ''QingzhouSSH-1.2.0-windows-x86_64.exe''] = Some ''abc''"
     "us_pending s = Some (example_release, st)" "st_relative_path st = ''staged/1.2.0/QingzhouSSH-1.2.0-windows-x86_64.exe''"
     "us_launched s = []"
  shows "\<exists>s'. example_run_update [EvInstall True, EvAnswer 0] (s, []) = (s', []) \<and> us_launched s' = [(example_found, ''abc'')]"
  using assms
  by (simp add: run_update_def install_begin_def begin_install_def example_update_env_def file_op_def no_change_def bind_st_def
     ok_or_def on_lifecycle_def require_phase_def validate_staged_file_def Let_def read_pending_def
     status_launched answer_task_def install_end_def launch_def verify_bytes_def resolve_staged_file_def example_path)

lemma example_launched:
  "\<exists>s ts. example_run_update [EvCheck True 5, EvAnswer 0, EvDownload, EvAnswer 0, EvInstall True, EvAnswer 0]
     (update_start Map.empty, []) = (s, ts) \<and> us_launched s = [(example_found, ''abc'')]"
proof -
  obtain s1 where 1: "example_run_update [EvCheck True 5, EvAnswer 0] (update_start Map.empty, []) = (s1, [])"
    and h1: "us_lifecycle s1 = \<lparr>lc_phase = UAvailable, lc_release = Some example_release, lc_last_error = None\<rparr>"
      "us_disk s1 = [state_path \<mapsto> ''{}'']" "us_launched s1 = []"
    using example_checked by blast
  obtain s2 st where 2: "example_run_update [EvDownload, EvAnswer 0] (s1, []) = (s2, [])"
    and h2: "us_lifecycle s2 = \<lparr>lc_phase = UDownloaded, lc_release = Some example_release, lc_last_error = None\<rparr>"
     "us_disk s2 [''staged'', ''1.2.0'', ''QingzhouSSH-1.2.0-windows-x86_64.exe''] = Some ''abc''"
     "us_pending s2 = Some (example_release, st)"
     "st_relative_path st = ''staged/1.2.0/QingzhouSSH-1.2.0-windows-x86_64.exe''" "us_launched s2 = []"
    using example_downloaded [OF h1] by blast
  obtain s3 where "example_run_update [EvInstall True, EvAnswer 0] (s2, []) = (s3, [])"
    "us_launched s3 = [(example_found, ''abc'')]"
    using example_installed [OF h2] by blast
  with 1 2 show ?thesis by (simp add: run_update_def)
qed

theorem only_verified_updates_installed_witness:
  "\<exists>s ts. example_run_update [EvCheck True 5, EvAnswer 0, EvDownload, EvAnswer 0, EvInstall True, EvAnswer 0]
     (update_start Map.empty, []) = (s, ts) \<and> us_launched s = [(example_found, ''abc'')]
     \<and> (\<exists>r. trusted_release example_checker ''1.1.0'' r \<and> ur_version r = ''1.2.0'' \<and> unat (ur_size r) = 3)"
proof -
  obtain s ts where r: "example_run_update [EvCheck True 5, EvAnswer 0, EvDownload, EvAnswer 0, EvInstall True,
      EvAnswer 0] (update_start Map.empty, []) = (s, ts)" and l: "us_launched s = [(example_found, ''abc'')]"
    using example_launched by blast
  from only_verified_updates_installed [OF r] l
  have "\<exists>r. trusted_release example_checker ''1.1.0'' r \<and> ur_version r = ''1.2.0'' \<and> unat (ur_size r) = 3"
    by (force simp: example_found_def)
  with r l show ?thesis by blast
qed

end
