(* ===== verification/Update_Flow.thy ===== *)
theory Update_Flow
  imports Update_History
begin

text \<open>
  The good path of an update: where a package is staged, and what a download and the installation after
  it do when no file operation fails.
\<close>

section \<open>Where a package is staged\<close>

text \<open>What the \<open>semver\<close> crate accepts starts with a digit and has only these characters.\<close>

definition semver_text :: "string \<Rightarrow> bool" where
  "semver_text v \<longleftrightarrow> v \<noteq> [] \<and> is_ascii_digit (hd v)
     \<and> list_all (\<lambda>c. is_ascii_alphanumeric c \<or> c = CHR ''.'' \<or> c = CHR ''-'' \<or> c = CHR ''+'') v"

definition plain_name :: "host_os \<Rightarrow> string \<Rightarrow> bool" where
  "plain_name os n \<longleftrightarrow> n \<noteq> [] \<and> n \<noteq> ''.'' \<and> n \<noteq> ''..'' \<and> list_all (\<lambda>c. \<not> is_separator os c) n"

lemma split_names_append:
  "list_all (\<lambda>c. \<not> is_separator os c) a \<Longrightarrow> split_names os (a @ CHR ''/'' # b) = a # split_names os b"
  by (induction a) (auto simp: is_separator_def)

lemma split_names_single: "list_all (\<lambda>c. \<not> is_separator os c) a \<Longrightarrow> split_names os a = [a]"
  by (induction a) auto

lemma path_components_three:
  assumes "plain_name os a" and "plain_name os b" and "plain_name os c"
    and "\<not> has_drive_prefix (a @ CHR ''/'' # b @ CHR ''/'' # c)"
  shows "path_components os (a @ CHR ''/'' # b @ CHR ''/'' # c) = [CNormal a, CNormal b, CNormal c]"
proof -
  let ?p = "a @ CHR ''/'' # b @ CHR ''/'' # c"
  have s: "split_names os ?p = [a, b, c]"
    using assms(1-3) by (simp add: plain_name_def split_names_append split_names_single)
  obtain x xs where a: "a = x # xs" "\<not> is_separator os x"
    using assms(1) by (cases a) (auto simp: plain_name_def)
  have "body_components os ?p = [CNormal a, CNormal b, CNormal c]"
    using assms(1-3) by (simp add: body_components_def s plain_name_def)
  moreover have "hd (split_names os ?p) \<noteq> ''.''" using assms(1) s by (simp add: plain_name_def)
  ultimately show ?thesis
    using assms(4) a by (simp add: path_components_def rooted_components_def)
qed

lemma semver_char_plain:
  assumes "is_ascii_alphanumeric c \<or> c = CHR ''.'' \<or> c = CHR ''-'' \<or> c = CHR ''+''"
  shows "\<not> is_separator os c"
proof -
  have "\<not> is_ascii_alphanumeric (CHR ''/'')" "\<not> is_ascii_alphanumeric (CHR 0x5C)"
    by (simp_all add: is_ascii_alphanumeric_def is_ascii_digit_def byte_def)
  with assms show ?thesis by (auto simp: is_separator_def)
qed

lemma semver_plain: "semver_text v \<Longrightarrow> plain_name os v"
proof -
  assume v: "semver_text v"
  have "\<not> is_ascii_digit (CHR ''.'')" by (simp add: is_ascii_digit_def byte_def)
  with v have "v \<noteq> ''.''" "v \<noteq> ''..''" by (auto simp: semver_text_def)
  with v show ?thesis using semver_char_plain by (auto simp: semver_text_def plain_name_def list_all_iff)
qed

definition staged_name :: "update_release \<Rightarrow> string" where
  "staged_name r = ''QingzhouSSH-'' @ ur_version r @ ''-'' @ ur_platform r @ ''.''
     @ (if ur_platform r \<in> {''windows-x86_64'', ''windows-x86_64-nsis'', ''windows-aarch64-nsis''} then ''exe''
        else if ur_platform r \<in> {''macos-x86_64-dmg'', ''macos-aarch64-dmg''} then ''app.tar.gz''
        else ''AppImage'')"

definition staged_path :: "update_release \<Rightarrow> file_path" where
  "staged_path r = [''staged'', ur_version r, staged_name r]"

lemma staged_name_plain:
  assumes "semver_text (ur_version r)" and "ur_platform r \<in> set supported_update_platforms"
  shows "plain_name os (staged_name r)"
proof -
  have "list_all (\<lambda>c. \<not> is_separator os c) (ur_version r)"
    using semver_plain [OF assms(1)] by (simp add: plain_name_def)
  moreover have "list_all (\<lambda>c. \<not> is_separator os c) (ur_platform r)"
    using assms(2) by (auto simp: supported_update_platforms_def is_separator_def)
  ultimately show ?thesis by (simp add: plain_name_def staged_name_def is_separator_def)
qed

lemma staged_relative:
  assumes "semver_text (ur_version r)" and "ur_platform r \<in> set supported_update_platforms"
  shows "\<exists>p. staged_relative_path r = Inr p \<and> resolve_staged_file os p = Inr (staged_path r)"
proof -
  let ?p = "''staged'' @ CHR ''/'' # ur_version r @ CHR ''/'' # staged_name r"
  have "staged_relative_path r = Inr ?p"
    using assms(2) by (auto simp: staged_relative_path_def staged_name_def Let_def supported_update_platforms_def)
  moreover have "path_components os ?p = [CNormal ''staged'', CNormal (ur_version r), CNormal (staged_name r)]"
    by (rule path_components_three [OF _ semver_plain [OF assms(1)] staged_name_plain [OF assms]])
      (simp_all add: plain_name_def is_separator_def)
  ultimately show ?thesis
    by (auto simp: resolve_staged_file_def validate_staged_file_def staged_path_def)
qed

section \<open>When no file operation fails\<close>

definition calm :: "update_env \<Rightarrow> bool" where
  "calm env \<longleftrightarrow> ue_fault env = (\<lambda>_. None)"

lemma calm_op: "calm env \<Longrightarrow> file_op env err f s = (Inr (), f (s\<lparr>us_tick := Suc (us_tick s)\<rparr>))"
  by (simp add: file_op_def calm_def Let_def)

lemma calm_bind: "calm env \<Longrightarrow> bind_st (file_op env err f) g s = g () (f (s\<lparr>us_tick := Suc (us_tick s)\<rparr>))"
  by (simp add: calm_op bind_st_def)

text \<open>What loading reads from the state file.\<close>

definition stored_state :: "update_env \<Rightarrow> string option \<Rightarrow> store_error + update_persistent_state" where
  "stored_state env content =
     (case content of
        None \<Rightarrow> Inr persistent_default
      | Some content \<Rightarrow>
          if length content > max_state_bytes then Inl (InvalidStagedPath ''state file is too large'')
          else bind_res (ok_or StoreSerialization (ue_parse_state env content)) (\<lambda>st.
               bind_res (validate_staged_file (ue_os env) (up_staged_file st)) (\<lambda>_. Inr st)))"

lemma calm_load:
  "calm env \<Longrightarrow> store_load env s = (stored_state env (us_disk s state_path), s\<lparr>us_tick := Suc (us_tick s)\<rparr>)"
  by (simp add: store_load_def calm_bind no_change_def stored_state_def)

lemma calm_write:
  assumes "calm env" and "p \<noteq> q"
  shows "\<exists>s'. write_verified_file env p q bytes s = (Inr (), s') \<and> memory s' = memory s
    \<and> us_disk s' q = Some bytes \<and> (\<forall>x. x \<noteq> p \<longrightarrow> x \<noteq> q \<longrightarrow> us_disk s' x = us_disk s x)"
  using assms
  by (auto simp: write_verified_file_def calm_bind calm_op Let_def no_change_def put_file_def drop_file_def
      rename_file_def memory_def)

lemma partial_path_other: "p \<noteq> [] \<Longrightarrow> partial_path p \<noteq> p"
  by (cases p rule: rev_cases) (auto simp: partial_path_def)

lemma calm_stage:
  assumes c: "calm env" and v: "verified env r bytes"
    and r: "staged_relative_path r = Inr path" "resolve_staged_file (ue_os env) path = Inr file_at"
    and d: "file_at \<noteq> []" "state_path \<noteq> file_at" "state_path \<noteq> partial_path file_at"
    and l: "stored_state env (us_disk s state_path) = Inr p"
    and w: "ue_print_state env (p\<lparr>up_staged_file := Some path\<rparr>) = Some payload"
      "length payload \<le> max_state_bytes"
  shows "\<exists>s'. stage_bytes env r bytes s =
      (Inr \<lparr>st_version = ur_version r, st_relative_path = path, st_sha256 = ur_sha256 r, st_size = ur_size r\<rparr>, s')
    \<and> memory s' = (us_lifecycle s, us_staged s, Some (r, \<lparr>st_version = ur_version r, st_relative_path = path,
          st_sha256 = ur_sha256 r, st_size = ur_size r\<rparr>), us_launched s)
    \<and> us_disk s' file_at = Some bytes \<and> us_disk s' state_path = Some payload
    \<and> (\<forall>x. x \<notin> {file_at, partial_path file_at, state_path} \<longrightarrow> us_disk s' x = us_disk s x)"
proof -
  let ?s = "s\<lparr>us_tick := Suc (us_tick s)\<rparr>"
  obtain t where t: "write_verified_file env (partial_path file_at) file_at bytes ?s = (Inr (), t)"
    "memory t = memory ?s" "us_disk t file_at = Some bytes"
    "\<forall>x. x \<noteq> partial_path file_at \<longrightarrow> x \<noteq> file_at \<longrightarrow> us_disk t x = us_disk ?s x"
    using calm_write [OF c partial_path_other [OF d(1)], of bytes ?s] by blast
  have "validate_staged_file (ue_os env) (Some path) = Inr ()"
    using r(2) by (simp add: resolve_staged_file_def bind_res_Inr)
  with t v r l w d c show ?thesis
    by (auto simp: stage_bytes_def verify_bytes_Inr [symmetric] calm_bind no_change_def Let_def bind_st_def
        lift_err_def calm_load store_save_def ok_or_def calm_op put_file_def memory_def)
qed

lemma calm_status:
  assumes "calm env" and "stored_state env (us_disk s state_path) = Inr p"
  shows "\<exists>st. manager_status env s = (Inr st, s\<lparr>us_tick := Suc (us_tick s)\<rparr>) \<and> ust_phase st = lc_phase (us_lifecycle s)"
  using assms by (simp add: manager_status_def bind_st_def lift_err_def calm_load)

lemma calm_download:
  assumes c: "calm env" and ph: "lc_phase (us_lifecycle s) = UAvailable" and rel: "lc_release (us_lifecycle s) = Some r"
    and ad: "fst (ad_download adapter (us_tick s) r) = Inr bytes" and v: "verified env r bytes"
    and r: "staged_relative_path r = Inr path" "resolve_staged_file (ue_os env) path = Inr file_at"
    and d: "file_at \<noteq> []" "state_path \<noteq> file_at" "state_path \<noteq> partial_path file_at"
    and l: "stored_state env (us_disk s state_path) = Inr p"
    and w: "ue_print_state env (p\<lparr>up_staged_file := Some path\<rparr>) = Some payload"
      "length payload \<le> max_state_bytes" "ue_parse_state env payload = Some (p\<lparr>up_staged_file := Some path\<rparr>)"
  shows "\<exists>st s' staged. manager_download env adapter s = (Inr (Some st), s') \<and> ust_phase st = UDownloaded
    \<and> lc_phase (us_lifecycle s') = UDownloaded \<and> us_pending s' = Some (r, staged)
    \<and> st_relative_path staged = path \<and> us_launched s' = us_launched s
    \<and> us_disk s' file_at = Some bytes \<and> us_disk s' state_path = Some payload
    \<and> (\<forall>x. x \<notin> {file_at, partial_path file_at, state_path} \<longrightarrow> us_disk s' x = us_disk s x)"
proof -
  let ?l = "(us_lifecycle s)\<lparr>lc_phase := UDownloading\<rparr>"
  let ?e = "us_events s @ progress_events 0 0 (snd (ad_download adapter (us_tick s) r))"
  let ?s = "s\<lparr>us_lifecycle := ?l, us_events := ?e, us_tick := Suc (us_tick s)\<rparr>"
  let ?staged = "\<lparr>st_version = ur_version r, st_relative_path = path, st_sha256 = ur_sha256 r, st_size = ur_size r\<rparr>"
  have b: "download_begin s = (Inr (Some r), s\<lparr>us_lifecycle := ?l\<rparr>)"
    using ph rel by (simp add: download_begin_def on_lifecycle_def begin_download_def require_phase_def bind_st_def)
  have "stored_state env (us_disk ?s state_path) = Inr p" using l by simp
  from calm_stage [OF c v r d this w(1,2)] obtain t where
    t: "stage_bytes env r bytes ?s = (Inr ?staged, t)"
    and m: "memory t = (?l, us_staged s, Some (r, ?staged), us_launched s)"
    and f: "us_disk t file_at = Some bytes" "us_disk t state_path = Some payload"
      "\<forall>x. x \<notin> {file_at, partial_path file_at, state_path} \<longrightarrow> us_disk t x = us_disk s x"
    by auto
  have "service_download env adapter r (s\<lparr>us_lifecycle := ?l, us_events := ?e\<rparr>) = (Inr ?staged, t)"
    using ad t by (simp add: service_download_def)
  moreover have "validate_staged_file (ue_os env) (Some path) = Inr ()"
    using r(2) by (simp add: resolve_staged_file_def bind_res_Inr)
  then have "stored_state env (Some payload) = Inr (p\<lparr>up_staged_file := Some path\<rparr>)"
    using w by (simp add: stored_state_def ok_or_def)
  moreover have "us_lifecycle t = ?l" "us_pending t = Some (r, ?staged)" "us_launched t = us_launched s"
    using m by (simp_all add: memory_def)
  ultimately show ?thesis
    using f b
    by (simp add: manager_download_def download_end_def bind_st_def on_lifecycle_def set_downloaded_def
        require_phase_def manager_status_def lift_err_def calm_load [OF c])
qed

text \<open>
  What the installation does when the package on the disk is the described one: the installer is
  called once, with these bytes, and its answer decides.
\<close>

definition installed ::
  "update_env \<Rightarrow> update_adapter \<Rightarrow> update_system \<Rightarrow> update_release \<Rightarrow> string \<Rightarrow> bool" where
  "installed env adapter s r bytes \<longleftrightarrow>
     (case manager_install env adapter True s of (res, s') \<Rightarrow>
        (case ad_install adapter (Suc (us_tick s)) r bytes of
           Inr u \<Rightarrow> (\<exists>st. res = Inr st \<and> ust_phase st = UInstalling) \<and> us_launched s' = us_launched s @ [(u, bytes)]
         | Inl e \<Rightarrow> res = Inl (MService (SAdapter e)) \<and> lc_phase (us_lifecycle s') = UFailed
                    \<and> us_launched s' = us_launched s))"

lemma calm_install:
  assumes c: "calm env" and ph: "lc_phase (us_lifecycle s) = UDownloaded" and p: "us_pending s = Some (r, staged)"
    and r: "resolve_staged_file (ue_os env) (st_relative_path staged) = Inr file_at"
    and f: "us_disk s file_at = Some bytes" and v: "verified env r bytes"
    and l: "stored_state env (us_disk s state_path) = Inr st"
  shows "installed env adapter s r bytes"
  using assms(2-) verify_bytes_Inr [of env r bytes]
  by (simp add: installed_def manager_install_def install_begin_def bind_st_def on_lifecycle_def begin_install_def
      require_phase_def read_pending_def calm_op [OF c] no_change_def ok_or_def install_end_def launch_def Let_def
      manager_status_def lift_err_def calm_load [OF c] fail_lifecycle_def fail_update_def split: sum.split)

text \<open>C25: A download and the installation after it, under these conditions: the check has found an
  update whose version has the characters of a SemVer text and whose platform is a supported one; the
  adapter delivers bytes of the described size and digest; no file operation fails; the state file can
  be read, and the state with the path of the package in it can be written as text within the limit
  of 64 KiB and is read back from that text. Then the download ends in the phase Downloaded with
  exactly these bytes under \<open>staged/<version>/\<close> and no other file than that package, its partial file
  and the state file touched. The confirmed installation that follows passes exactly these bytes to the
  installer, whose answer decides: if it accepts, these bytes are launched, once, and the phase is
  Installing; if it refuses or fails, the call returns its error, the
  phase is Failed and nothing was launched.\<close>
theorem download_then_install:
  assumes "calm env" and "lc_phase (us_lifecycle s) = UAvailable" and "lc_release (us_lifecycle s) = Some r"
    and sem: "semver_text (ur_version r)" "ur_platform r \<in> set supported_update_platforms"
    and "fst (ad_download adapter (us_tick s) r) = Inr bytes" and v: "verified env r bytes"
    and path: "staged_relative_path r = Inr path"
    and "stored_state env (us_disk s state_path) = Inr p"
    and w: "ue_print_state env (p\<lparr>up_staged_file := Some path\<rparr>) = Some payload"
      "length payload \<le> max_state_bytes" "ue_parse_state env payload = Some (p\<lparr>up_staged_file := Some path\<rparr>)"
  shows "\<exists>st s'. manager_download env adapter s = (Inr (Some st), s') \<and> ust_phase st = UDownloaded
    \<and> us_disk s' (staged_path r) = Some bytes \<and> us_launched s' = us_launched s
    \<and> (\<forall>x. x \<notin> {staged_path r, partial_path (staged_path r), state_path} \<longrightarrow> us_disk s' x = us_disk s x)
    \<and> (case manager_install env adapter True s' of (res, s'') \<Rightarrow>
         (case ad_install adapter (Suc (us_tick s')) r bytes of
            Inr u \<Rightarrow> (\<exists>st'. res = Inr st' \<and> ust_phase st' = UInstalling)
                     \<and> us_launched s'' = us_launched s @ [(u, bytes)]
          | Inl e \<Rightarrow> res = Inl (MService (SAdapter e)) \<and> lc_phase (us_lifecycle s'') = UFailed
                     \<and> us_launched s'' = us_launched s))"
proof -
  have res: "resolve_staged_file (ue_os env) path = Inr (staged_path r)"
    using staged_relative [OF sem, of "ue_os env"] path by auto
  have other: "staged_path r \<noteq> []" "state_path \<noteq> staged_path r" "state_path \<noteq> partial_path (staged_path r)"
    by (simp_all add: staged_path_def state_path_def partial_path_def)
  note download = calm_download [OF assms(1-3,6) v path res other assms(9) w]
  from download obtain st s' staged where
    a: "manager_download env adapter s = (Inr (Some st), s')" "ust_phase st = UDownloaded"
    and b: "lc_phase (us_lifecycle s') = UDownloaded" "us_pending s' = Some (r, staged)"
      "st_relative_path staged = path" "us_launched s' = us_launched s"
    and f: "us_disk s' (staged_path r) = Some bytes" "us_disk s' state_path = Some payload"
      "\<forall>x. x \<notin> {staged_path r, partial_path (staged_path r), state_path} \<longrightarrow> us_disk s' x = us_disk s x"
    by blast
  have "validate_staged_file (ue_os env) (Some path) = Inr ()"
    using res by (simp add: resolve_staged_file_def bind_res_Inr)
  then have "stored_state env (us_disk s' state_path) = Inr (p\<lparr>up_staged_file := Some path\<rparr>)"
    using w f(2) by (simp add: stored_state_def ok_or_def)
  from calm_install [OF assms(1) b(1,2) _ f(1) v this, of adapter] res b(3)
  have "installed env adapter s' r bytes" by simp
  then show ?thesis using a b(4) f(1,3) unfolding installed_def
    by (intro exI [of _ st] exI [of _ s']) (auto split: sum.splits prod.splits)
qed

definition example_flow_env :: update_env where
  "example_flow_env = example_update_env\<lparr>ue_parse_state := (\<lambda>_. Some (persistent_default
     \<lparr>up_staged_file := Some ''staged/1.2.0/QingzhouSSH-1.2.0-windows-x86_64.exe''\<rparr>))\<rparr>"

definition example_ready :: update_system where
  "example_ready = (update_start Map.empty)
     \<lparr>us_lifecycle := \<lparr>lc_phase = UAvailable, lc_release = Some example_release, lc_last_error = None\<rparr>\<rparr>"

lemma example_flow_facts:
  "calm example_flow_env" "lc_phase (us_lifecycle example_ready) = UAvailable"
  "lc_release (us_lifecycle example_ready) = Some example_release"
  "semver_text (ur_version example_release)" "ur_platform example_release \<in> set supported_update_platforms"
  "verified example_flow_env example_release ''abc''"
  "staged_relative_path example_release = Inr ''staged/1.2.0/QingzhouSSH-1.2.0-windows-x86_64.exe''"
  "stored_state example_flow_env (us_disk example_ready state_path) = Inr persistent_default"
  "ue_print_state example_flow_env st = Some ''{}''" "length ''{}'' \<le> max_state_bytes"
  "ue_parse_state example_flow_env ''{}'' = Some (persistent_default
     \<lparr>up_staged_file := Some ''staged/1.2.0/QingzhouSSH-1.2.0-windows-x86_64.exe''\<rparr>)"
  by (simp_all add: calm_def example_flow_env_def example_update_env_def example_ready_def semver_text_def
      is_ascii_digit_def is_ascii_alphanumeric_def byte_def supported_update_platforms_def verified_def
      staged_relative_path_def stored_state_def update_start_def max_state_bytes_def)

theorem download_then_install_witness:
  "\<exists>st s' st' s''. manager_download example_flow_env (tauri_adapter example_checker example_plugin ''1.1.0'')
        example_ready = (Inr (Some st), s')
     \<and> us_disk s' [''staged'', ''1.2.0'', ''QingzhouSSH-1.2.0-windows-x86_64.exe''] = Some ''abc''
     \<and> manager_install example_flow_env (tauri_adapter example_checker example_plugin ''1.1.0'') True s' = (Inr st', s'')
     \<and> us_launched s'' = [(example_found, ''abc'')]"
proof -
  let ?ad = "tauri_adapter example_checker example_plugin ''1.1.0''"
  have at: "staged_path example_release = [''staged'', ''1.2.0'', ''QingzhouSSH-1.2.0-windows-x86_64.exe'']"
    by (simp add: staged_path_def staged_name_def)
  have none: "us_launched example_ready = []" by (simp add: example_ready_def update_start_def)
  have down: "fst (ad_download ?ad (us_tick example_ready) example_release) = Inr ''abc''" by simp
  have found: "ad_install ?ad t example_release ''abc'' = Inr example_found" for t by simp
  from download_then_install [where adapter = ?ad, OF example_flow_facts(1-5) down example_flow_facts(6-11)]
  obtain st s' where d: "manager_download example_flow_env ?ad example_ready = (Inr (Some st), s')"
    "us_disk s' (staged_path example_release) = Some ''abc''"
    and i: "case manager_install example_flow_env ?ad True s' of (res, s'') \<Rightarrow>
      (\<exists>st'. res = Inr st' \<and> ust_phase st' = UInstalling) \<and> us_launched s'' = [(example_found, ''abc'')]"
    by (auto simp: found none)
  obtain res s'' where m: "manager_install example_flow_env ?ad True s' = (res, s'')" by fastforce
  from i obtain st' where "res = Inr st'" "us_launched s'' = [(example_found, ''abc'')]" by (auto simp: m)
  with d m show ?thesis unfolding at by blast
qed

end
