(* ===== verification/Host_Files.thy ===== *)
theory Host_Files
  imports Qz_Prelude "HOL-Library.AList" "HOL-Library.Sublist"
begin

text \<open>
  The files of the host as a tree: a directory is the list of its entries in the order in which the
  system lists them. Paths are canonical and absolute, as the list of their components. What the
  data migration uses of \<open>std::fs\<close>: looking up a path, creating directories, replacing a file
  atomically and removing one.
\<close>

type_synonym host_path = "string list"

datatype host_node = HFile string | HDir "(string \<times> host_node) list" | HSpecial

fun lookup :: "host_path \<Rightarrow> host_node \<Rightarrow> host_node option" where
  "lookup [] t = Some t"
| "lookup (n # p) (HDir cs) = (case map_of cs n of None \<Rightarrow> None | Some c \<Rightarrow> lookup p c)"
| "lookup (n # p) _ = None"

text \<open>\<open>put p v t\<close> replaces what is at \<open>p\<close>; directories on the way are created when missing.\<close>

fun put :: "host_path \<Rightarrow> host_node \<Rightarrow> host_node \<Rightarrow> host_node" where
  "put [] v t = v"
| "put (n # p) v (HDir cs) =
     HDir (AList.update n (put p v (case map_of cs n of None \<Rightarrow> HDir [] | Some c \<Rightarrow> c)) cs)"
| "put (n # p) v t = t"

fun remove_at :: "host_path \<Rightarrow> host_node \<Rightarrow> host_node" where
  "remove_at [] t = t"
| "remove_at [n] (HDir cs) = HDir (AList.delete n cs)"
| "remove_at (n # p) (HDir cs) =
     (case map_of cs n of None \<Rightarrow> HDir cs | Some c \<Rightarrow> HDir (AList.update n (remove_at p c) cs))"
| "remove_at (n # p) t = t"

fun is_dir :: "host_node option \<Rightarrow> bool" where
  "is_dir (Some (HDir _)) = True"
| "is_dir _ = False"

text \<open>\<open>create_dir_all\<close> fails when something on the way is not a directory.\<close>

definition can_mkdir :: "host_path \<Rightarrow> host_node \<Rightarrow> bool" where
  "can_mkdir p t \<longleftrightarrow> list_all (\<lambda>q. lookup q t = None \<or> is_dir (lookup q t)) (prefixes p)"

definition mkdir_all :: "host_path \<Rightarrow> host_node \<Rightarrow> host_node" where
  "mkdir_all p t = (if is_dir (lookup p t) then t else put p (HDir []) t)"

section \<open>Well-formed trees\<close>

text \<open>The names in a directory are distinct.\<close>

fun wf_tree :: "host_node \<Rightarrow> bool" where
  "wf_tree (HDir cs) = (distinct (map fst cs) \<and> list_all (\<lambda>c. wf_tree (snd c)) cs)"
| "wf_tree _ = True"

lemma wf_tree_lookup: "wf_tree t \<Longrightarrow> lookup p t = Some u \<Longrightarrow> wf_tree u"
proof (induction p t rule: lookup.induct)
  case (2 n p cs)
  then obtain c where c: "map_of cs n = Some c" "lookup p c = Some u" by (auto split: option.splits)
  then have "wf_tree c" using 2(2) map_of_SomeD [OF c(1)] by (auto simp: list_all_iff)
  with 2 c show ?case by simp
qed auto

lemma update_in: "(k, v) \<in> set (AList.update n x cs) \<Longrightarrow> (k, v) \<in> set cs \<or> (k = n \<and> v = x)"
  by (induction cs) (auto split: if_splits)

lemma wf_tree_update:
  "wf_tree (HDir cs) \<Longrightarrow> wf_tree x \<Longrightarrow> wf_tree (HDir (AList.update n x cs))"
  using update_in by (fastforce simp: list_all_iff distinct_update)

lemma wf_tree_put: "wf_tree t \<Longrightarrow> wf_tree v \<Longrightarrow> wf_tree (put p v t)"
proof (induction p v t rule: put.induct)
  case (2 n p v cs)
  have "wf_tree (case map_of cs n of None \<Rightarrow> HDir [] | Some c \<Rightarrow> c)"
    using 2(2) map_of_SomeD by (fastforce simp: list_all_iff split: option.split)
  with 2 show ?case by (simp add: wf_tree_update del: wf_tree.simps)
qed auto

lemma wf_tree_mkdir_all: "wf_tree t \<Longrightarrow> wf_tree (mkdir_all p t)"
  by (simp add: mkdir_all_def wf_tree_put)

section \<open>Frames\<close>

lemma lookup_append: "lookup (p @ q) t = (case lookup p t of None \<Rightarrow> None | Some u \<Rightarrow> lookup q u)"
  by (induction p t rule: lookup.induct) (auto split: option.splits)

lemma lookup_file: "lookup q (HFile c) = (if q = [] then Some (HFile c) else None)"
  by (cases q) auto

text \<open>A path that is neither above nor below the one that is written is not touched.\<close>

lemma lookup_put_parallel: "q \<parallel> p \<Longrightarrow> lookup q (put p v t) = lookup q t"
proof (induction p v t arbitrary: q rule: put.induct)
  case (2 n p v cs)
  then obtain m q' where q: "q = m # q'" by (cases q) auto
  show ?case
  proof (cases "m = n")
    case True
    with q 2(2) have "q' \<parallel> p" by (simp add: parallel_def)
    from 2(1) [OF this] have e: "lookup q' (put p v (case map_of cs n of None \<Rightarrow> HDir [] | Some c \<Rightarrow> c))
        = lookup q' (case map_of cs n of None \<Rightarrow> HDir [] | Some c \<Rightarrow> c)" .
    have "q' \<noteq> []" using \<open>q' \<parallel> p\<close> by auto
    with e q True show ?thesis by (cases q') (auto simp: update_Some_unfold update_conv' split: option.splits)
  qed (simp add: q update_conv')
qed auto

text \<open>Writing below a path is writing in the subtree.\<close>

lemma lookup_put_below:
  "is_dir (lookup q t) \<Longrightarrow> lookup q (put (q @ p) v t) = Some (put p v (the (lookup q t)))"
proof (induction q arbitrary: t)
  case (Cons n q)
  then obtain cs where t: "t = HDir cs" by (cases t) auto
  with Cons(2) obtain c where "map_of cs n = Some c" "is_dir (lookup q c)" by (auto split: option.splits)
  with Cons(1) [of c] t show ?case by (simp add: update_conv')
qed simp

lemma lookup_put_same:
  assumes "\<And>a b. p = a @ b \<Longrightarrow> b \<noteq> [] \<Longrightarrow> is_dir (lookup a t) \<or> lookup a t = None"
  shows "lookup p (put p v t) = Some v"
  using assms
proof (induction p arbitrary: t)
  case (Cons n p)
  from Cons(2) [of "[]" "n # p"] obtain cs where t: "t = HDir cs" by (cases t) auto
  let ?c = "case map_of cs n of None \<Rightarrow> HDir [] | Some c \<Rightarrow> c"
  have "is_dir (lookup a ?c) \<or> lookup a ?c = None" if "p = a @ b" "b \<noteq> []" for a b
  proof (cases "map_of cs n")
    case None
    then show ?thesis by (cases a) auto
  next
    case (Some c)
    with Cons(2) [of "n # a" b] that t show ?thesis by simp
  qed
  from Cons(1) [OF this] t show ?case by (simp add: update_conv')
qed simp

lemma lookup_put_prefix:
  assumes "is_dir (lookup q t)" and "q \<noteq> p" and "prefix q p"
  shows "is_dir (lookup q (put p v t))"
proof -
  obtain r where p: "p = q @ r" "r \<noteq> []" using assms(2,3) by (auto simp: prefix_def)
  obtain cs where cs: "lookup q t = Some (HDir cs)" using assms(1) by (cases "lookup q t"; cases "the (lookup q t)") auto
  obtain n r' where "r = n # r'" using p(2) by (cases r) auto
  with lookup_put_below [OF assms(1), of r v] p cs show ?thesis by simp
qed

lemma remove_at_two: "remove_at (n # m # p) (HDir cs) =
    (case map_of cs n of None \<Rightarrow> HDir cs | Some c \<Rightarrow> HDir (AList.update n (remove_at (m # p) c) cs))"
  by simp

lemma wf_tree_remove: "wf_tree t \<Longrightarrow> wf_tree (remove_at p t)"
proof (induction p t rule: remove_at.induct)
  case (2 n cs)
  then show ?case by (auto simp: list_all_iff distinct_map_filter AList.delete_eq)
next
  case (3 n m p cs)
  show ?case
  proof (cases "map_of cs n")
    case (Some c)
    then have "wf_tree c" using 3(2) map_of_SomeD [OF Some] by (auto simp: list_all_iff)
    with 3(1) [OF Some] 3(2) Some show ?thesis by (simp add: wf_tree_update del: wf_tree.simps)
  qed (use 3(2) in simp)
qed auto

lemma lookup_remove_parallel: "q \<parallel> p \<Longrightarrow> lookup q (remove_at p t) = lookup q t"
proof (induction p t arbitrary: q rule: remove_at.induct)
  case (2 n cs)
  then obtain m q' where q: "q = m # q'" by (cases q) auto
  with 2 have "m \<noteq> n" by (auto simp: parallel_def)
  with q show ?case by (simp add: delete_conv')
next
  case (3 n k p cs)
  then obtain m q' where q: "q = m # q'" by (cases q) auto
  show ?case
  proof (cases "m = n")
    case True
    with q 3(2) have "q' \<parallel> k # p" by (simp add: parallel_def)
    with 3(1) True q show ?thesis by (auto simp: update_conv' split: option.split)
  qed (auto simp: q update_conv' split: option.split)
qed auto

end
