(* ===== verification/Migration_Model.thy ===== *)
theory Migration_Model
  imports Host_Files "HOL-Library.List_Lexorder" "HOL-Library.Char_ord"
begin

text \<open>
  Moving the data directory: the manifest and the checks before the copy
  (\<^verbatim>\<open>src-tauri/src/core/data_migration/preflight.rs\<close>), the journal (\<^verbatim>\<open>journal.rs\<close>), the copy and its
  verification (\<^verbatim>\<open>copy.rs\<close>) and the worker process (\<^verbatim>\<open>worker.rs\<close>).

  Every operation of the system reads one tick of the environment, which says whether it fails, or
  whether the process dies right before it. An atomic file write is one such operation. The state is
  the file tree of the host, the two pointers to the data directory and the journal variable of the
  worker. Hashing and the text form of the journal and of the completion marker are arguments.
\<close>

section \<open>Data\<close>

definition journal_file :: string where
  "journal_file = ''.qingzhou-data-migration.json''"

definition complete_file :: string where
  "complete_file = ''.qingzhou-data-migration-complete.json''"

definition allowed_root_entries :: "string list" where
  "allowed_root_entries =
     [''app.db'', ''app.db-wal'', ''app.db-shm'', ''vault'', ''logs'', ''downloads'', ''backups'',
      ''templates'', ''cache'', ''updates'', journal_file, complete_file]"

datatype entry_kind = EntryFile | EntryDirectory

record manifest_entry =
  mf_path :: host_path
  mf_kind :: entry_kind
  mf_size :: nat
  mf_sha256 :: "string option"

record data_manifest =
  dm_entries :: "manifest_entry list"
  dm_file_count :: nat
  dm_total_bytes :: nat

record migration_preview =
  mp_preview_id :: uuid
  mp_confirmation_token :: uuid
  mp_expires_at :: int
  mp_source :: host_path
  mp_target :: host_path
  mp_file_count :: nat
  mp_total_bytes :: nat
  mp_required_bytes :: nat
  mp_available_bytes :: nat
  mp_retryable :: bool

datatype data_root_source =
  RootEnvironment | RootPortableCustom | RootPortableDefault | RootPlatform | RootRegistry | RootNeedsSelection

datatype migration_phase =
  MPrepared | MCopying | MVerifying | MSwitched | MCompleted | MFailed

record migration_journal =
  mj_schema_version :: u32
  mj_migration_id :: uuid
  mj_source :: host_path
  mj_target :: host_path
  mj_source_mode :: data_root_source
  mj_parent_pid :: u32
  mj_file_count :: nat
  mj_total_bytes :: nat
  mj_copied_files :: nat
  mj_copied_bytes :: nat
  mj_phase :: migration_phase
  mj_error_summary :: "string option"
  mj_started_at :: int
  mj_updated_at :: int
  mj_acknowledged :: bool

record complete_marker =
  cm_migration_id :: uuid
  cm_previous_root :: host_path
  cm_file_count :: nat
  cm_total_bytes :: nat
  cm_completed_at :: int

definition u64_limit :: nat where
  "u64_limit = 2 ^ 64 - 1"

section \<open>State and environment\<close>

datatype fault = IoFault string | CrashFault

datatype stop = Err app_error | Crash

record mig_state =
  ms_host :: host_node
  ms_platform_root :: "host_path option"
  ms_portable_root :: "host_path option"
  ms_journal :: migration_journal
  ms_tick :: nat

record mig_env =
  me_fault :: "nat \<Rightarrow> fault option"
  me_clock :: "nat \<Rightarrow> int"
  me_fresh :: "nat \<Rightarrow> uuid"
  me_space :: "nat \<Rightarrow> nat"
  me_reparse :: "host_path \<Rightarrow> bool"
  me_sha256 :: "string \<Rightarrow> string"
  me_print_journal :: "migration_journal \<Rightarrow> string"
  me_parse_journal :: "string \<Rightarrow> migration_journal option"
  me_print_marker :: "complete_marker \<Rightarrow> string"
  me_parse_marker :: "string \<Rightarrow> complete_marker option"
  me_pid :: u32

type_synonym 'a mig_op = "mig_state \<Rightarrow> (stop + 'a) \<times> mig_state"

definition io :: "mig_env \<Rightarrow> (mig_state \<Rightarrow> mig_state) \<Rightarrow> unit mig_op" where
  "io env f s =
     (let s' = s\<lparr>ms_tick := Suc (ms_tick s)\<rparr> in
      case me_fault env (ms_tick s) of
        None \<Rightarrow> (Inr (), f s')
      | Some (IoFault m) \<Rightarrow> (Inl (Err (Io m)), s')
      | Some CrashFault \<Rightarrow> (Inl Crash, s'))"

definition nop :: "mig_state \<Rightarrow> mig_state" where
  "nop s = s"

definition on_host :: "(host_node \<Rightarrow> host_node) \<Rightarrow> mig_state \<Rightarrow> mig_state" where
  "on_host f s = s\<lparr>ms_host := f (ms_host s)\<rparr>"

definition fail :: "app_error \<Rightarrow> 'a mig_op" where
  "fail e = fail_st (Err e)"

definition ensure :: "bool \<Rightarrow> app_error \<Rightarrow> unit mig_op" where
  "ensure b e = (if b then ret_st () else fail e)"

definition host :: "host_path \<Rightarrow> mig_state \<Rightarrow> host_node option" where
  "host p s = lookup p (ms_host s)"

definition now_ms :: "mig_env \<Rightarrow> mig_state \<Rightarrow> int" where
  "now_ms env s = me_clock env (ms_tick s)"

text \<open>\<open>or_else\<close> and the handling of errors: a crash is not handled by anybody.\<close>

definition or_else_st :: "'a mig_op \<Rightarrow> (app_error \<Rightarrow> 'a mig_op) \<Rightarrow> 'a mig_op" where
  "or_else_st m h s = (case m s of (Inl (Err e), s') \<Rightarrow> h e s' | r \<Rightarrow> r)"

text \<open>\<open>let _ = \<dots>\<close>: an error is dropped, a crash is not.\<close>

definition dropped :: "unit mig_op \<Rightarrow> unit mig_op" where
  "dropped m = or_else_st m (\<lambda>_. ret_st ())"

text \<open>\<open>AtomicFile::write\<close> with \<open>AllowOverwrite\<close>: the directory must exist, and the target must not be one.\<close>

definition write_atomic :: "mig_env \<Rightarrow> host_path \<Rightarrow> string \<Rightarrow> unit mig_op" where
  "write_atomic env p content =
     bind_st (\<lambda>s. ensure (is_dir (host (butlast p) s) \<and> \<not> is_dir (host p s)) (Io ''cannot write'') s) (\<lambda>_.
     io env (on_host (put p (HFile content))))"

definition create_dir_all :: "mig_env \<Rightarrow> host_path \<Rightarrow> unit mig_op" where
  "create_dir_all env p =
     bind_st (\<lambda>s. ensure (can_mkdir p (ms_host s)) (Io ''not a directory'') s) (\<lambda>_.
     io env (on_host (mkdir_all p)))"

definition read_file :: "mig_env \<Rightarrow> host_path \<Rightarrow> string mig_op" where
  "read_file env p =
     bind_st (io env nop) (\<lambda>_ s.
       case host p s of Some (HFile c) \<Rightarrow> (Inr c, s) | _ \<Rightarrow> (Inl (Err (Io ''cannot read'')), s))"

section \<open>Journal\<close>

definition journal_prepared :: "uuid \<Rightarrow> host_path \<Rightarrow> host_path \<Rightarrow> data_root_source \<Rightarrow> u32 \<Rightarrow> data_manifest
    \<Rightarrow> int \<Rightarrow> migration_journal" where
  "journal_prepared new_v4 source target source_mode parent_pid manifest now =
     \<lparr>mj_schema_version = 1, mj_migration_id = new_v4, mj_source = source, mj_target = target,
      mj_source_mode = source_mode, mj_parent_pid = parent_pid, mj_file_count = dm_file_count manifest,
      mj_total_bytes = dm_total_bytes manifest, mj_copied_files = 0, mj_copied_bytes = 0,
      mj_phase = MPrepared, mj_error_summary = None, mj_started_at = now, mj_updated_at = now,
      mj_acknowledged = False\<rparr>"

definition journal_transition :: "migration_phase \<Rightarrow> int \<Rightarrow> migration_journal \<Rightarrow> migration_journal" where
  "journal_transition phase now j =
     (let j = j\<lparr>mj_phase := phase, mj_updated_at := now\<rparr> in
      if phase \<noteq> MFailed then j\<lparr>mj_error_summary := None\<rparr> else j)"

text \<open>\<open>chars().take(n)\<close> on the bytes of a string.\<close>

fun take_chars :: "nat \<Rightarrow> string \<Rightarrow> string" where
  "take_chars n [] = []"
| "take_chars n (c # cs) =
     (if is_cont c then c # take_chars n cs
      else case n of 0 \<Rightarrow> [] | Suc m \<Rightarrow> c # take_chars m cs)"

definition journal_fail :: "app_error \<Rightarrow> int \<Rightarrow> migration_journal \<Rightarrow> migration_journal" where
  "journal_fail e now j =
     j\<lparr>mj_phase := MFailed, mj_updated_at := now, mj_error_summary := Some (take_chars 512 (display e))\<rparr>"

definition journal_validate :: "migration_journal \<Rightarrow> unit app_result" where
  "journal_validate j =
     (if mj_schema_version j \<noteq> 1 then Inl (Validation ''migration journal version not supported'')
      else if mj_source j = mj_target j then Inl (Security ''migration journal paths are invalid'')
      else Inr ())"

definition checked :: "'a app_result \<Rightarrow> 'a mig_op" where
  "checked r = (\<lambda>s. (map_err Err r, s))"

definition journal_save :: "mig_env \<Rightarrow> migration_journal \<Rightarrow> unit mig_op" where
  "journal_save env j =
     bind_st (checked (journal_validate j)) (\<lambda>_.
     bind_st (write_atomic env (mj_source j @ [journal_file]) (me_print_journal env j)) (\<lambda>_ s.
       if host (mj_target j) s \<noteq> None
       then write_atomic env (mj_target j @ [journal_file]) (me_print_journal env j) s
       else (Inr (), s)))"

definition journal_load :: "mig_env \<Rightarrow> host_path \<Rightarrow> migration_journal mig_op" where
  "journal_load env p =
     bind_st (read_file env p) (\<lambda>payload.
     bind_st (checked (ok_or (Serialization ''invalid journal'') (me_parse_journal env payload))) (\<lambda>j.
     bind_st (checked (journal_validate j)) (\<lambda>_. ret_st j)))"

text \<open>Changing the journal variable of the worker, and saving it.\<close>

definition on_journal :: "(migration_journal \<Rightarrow> migration_journal) \<Rightarrow> unit mig_op" where
  "on_journal f = (\<lambda>s. (Inr (), s\<lparr>ms_journal := f (ms_journal s)\<rparr>))"

definition save_journal :: "mig_env \<Rightarrow> unit mig_op" where
  "save_journal env = (\<lambda>s. journal_save env (ms_journal s) s)"

definition enter_phase :: "mig_env \<Rightarrow> migration_phase \<Rightarrow> unit mig_op" where
  "enter_phase env phase =
     bind_st (\<lambda>s. on_journal (journal_transition phase (now_ms env s)) s) (\<lambda>_. save_journal env)"

section \<open>Manifest\<close>

definition entry_of_file :: "mig_env \<Rightarrow> host_path \<Rightarrow> string \<Rightarrow> manifest_entry" where
  "entry_of_file env rel content =
     \<lparr>mf_path = rel, mf_kind = EntryFile, mf_size = length content, mf_sha256 = Some (me_sha256 env content)\<rparr>"

definition entry_of_dir :: "host_path \<Rightarrow> manifest_entry" where
  "entry_of_dir rel = \<lparr>mf_path = rel, mf_kind = EntryDirectory, mf_size = 0, mf_sha256 = None\<rparr>"

text \<open>\<open>scan_entry\<close> on an entry of the tree; \<open>scan_children\<close> is its loop over a directory.\<close>

fun scan_entry :: "mig_env \<Rightarrow> host_path \<Rightarrow> host_path \<Rightarrow> host_node \<Rightarrow> manifest_entry list mig_op"
  and scan_children ::
    "mig_env \<Rightarrow> host_path \<Rightarrow> host_path \<Rightarrow> (string \<times> host_node) list \<Rightarrow> manifest_entry list mig_op" where
  "scan_entry env base rel (HFile c) s =
     bind_st (io env nop) (\<lambda>_.
     bind_st (ensure (\<not> me_reparse env (base @ rel)) (Security ''data directory has a link'')) (\<lambda>_.
     ret_st [entry_of_file env rel c])) s"
| "scan_entry env base rel (HDir cs) s =
     (case bind_st (io env nop) (\<lambda>_. ensure (\<not> me_reparse env (base @ rel)) (Security ''data directory has a link'')) s of
        (Inl e, s') \<Rightarrow> (Inl e, s')
      | (Inr _, s') \<Rightarrow>
          (case scan_children env base rel cs s' of
             (Inl e, s'') \<Rightarrow> (Inl e, s'')
           | (Inr es, s'') \<Rightarrow> (Inr (entry_of_dir rel # es), s'')))"
| "scan_entry env base rel HSpecial s =
     bind_st (io env nop) (\<lambda>_.
     bind_st (ensure (\<not> me_reparse env (base @ rel)) (Security ''data directory has a link'')) (\<lambda>_.
     fail (Security ''unsupported file type''))) s"
| "scan_children env base rel [] s = (Inr [], s)"
| "scan_children env base rel ((n, t) # cs) s =
     (case scan_entry env base (rel @ [n]) t s of
        (Inl e, s') \<Rightarrow> (Inl e, s')
      | (Inr es, s') \<Rightarrow>
          (case scan_children env base rel cs s' of
             (Inl e, s'') \<Rightarrow> (Inl e, s'')
           | (Inr es', s'') \<Rightarrow> (Inr (es @ es'), s'')))"

text \<open>The loop over the root, which knows the declared entries and skips the two migration files.\<close>

fun scan_root :: "mig_env \<Rightarrow> host_path \<Rightarrow> (string \<times> host_node) list \<Rightarrow> manifest_entry list mig_op" where
  "scan_root env base [] s = (Inr [], s)"
| "scan_root env base ((n, t) # cs) s =
     (if n \<notin> set allowed_root_entries
      then (Inl (Err (Security (''undeclared root entry: '' @ n))), s)
      else if n = journal_file \<or> n = complete_file then scan_root env base cs s
      else case scan_entry env base [n] t s of
             (Inl e, s') \<Rightarrow> (Inl e, s')
           | (Inr es, s') \<Rightarrow>
               (case scan_root env base cs s' of
                  (Inl e, s'') \<Rightarrow> (Inl e, s'')
                | (Inr es', s'') \<Rightarrow> (Inr (es @ es'), s'')))"

definition manifest_of :: "manifest_entry list \<Rightarrow> data_manifest" where
  "manifest_of es =
     \<lparr>dm_entries = sort_key mf_path es,
      dm_file_count = length (filter (\<lambda>e. mf_kind e = EntryFile) es),
      dm_total_bytes = sum_list (map mf_size es)\<rparr>"

definition scan_manifest :: "mig_env \<Rightarrow> host_path \<Rightarrow> data_manifest mig_op" where
  "scan_manifest env base =
     bind_st (io env nop) (\<lambda>_.
     bind_st (\<lambda>s. case host base s of
        Some (HDir cs) \<Rightarrow> scan_root env base cs s
      | _ \<Rightarrow> (Inl (Err (Io ''cannot list'')), s)) (\<lambda>es. ret_st (manifest_of es)))"

section \<open>Preflight\<close>

definition minimum_space_reserve :: nat where
  "minimum_space_reserve = 64 * 1024 * 1024"

definition validate_absolute_non_root :: "host_path \<Rightarrow> unit app_result" where
  "validate_absolute_non_root p =
     (if p = [] then Inl (Validation ''the directory must not be the root'') else Inr ())"

definition reject_related_paths :: "host_path \<Rightarrow> host_path \<Rightarrow> unit app_result" where
  "reject_related_paths source target =
     (if source = target then Inl (Validation ''the target must differ from the source'')
      else if prefix source target \<or> prefix target source
      then Inl (Validation ''the target must not be above or below the source'')
      else Inr ())"

text \<open>The walk from the target up to the root.\<close>

definition reject_reparse_ancestors :: "mig_env \<Rightarrow> host_path \<Rightarrow> unit mig_op" where
  "reject_reparse_ancestors env target =
     bind_st (io env nop) (\<lambda>_ s.
       ensure (\<not> list_ex (\<lambda>p. host p s \<noteq> None \<and> me_reparse env p) (rev (prefixes target)))
         (Security ''the target or a directory above it is a link'') s)"

definition validate_retry_target :: "data_manifest \<Rightarrow> data_manifest \<Rightarrow> unit app_result" where
  "validate_retry_target source target =
     (if list_all (\<lambda>existing.
           case List.find (\<lambda>c. mf_path c = mf_path existing) (dm_entries source) of
             None \<Rightarrow> False | Some expected \<Rightarrow> mf_kind expected = mf_kind existing) (dm_entries target)
      then Inr () else Inl (Security ''the failed target has a file that is not of the source''))"

definition probe_name :: "uuid \<Rightarrow> string" where
  "probe_name u = ''.migration-write-probe-'' @ uuid_text u"

text \<open>\<open>probe_writable\<close> leaves nothing behind, unless its file cannot be removed.\<close>

definition probe_writable :: "mig_env \<Rightarrow> host_path \<Rightarrow> unit mig_op" where
  "probe_writable env directory = (\<lambda>s.
     let probe = directory @ [probe_name (me_fresh env (ms_tick s))] in
     case io env (on_host (put probe (HFile ''qingzhou-data-migration''))) s of
       (Inl Crash, s') \<Rightarrow> (Inl Crash, s')
     | (r, s') \<Rightarrow>
         (case io env (on_host (remove_at probe)) s' of
            (Inl Crash, s'') \<Rightarrow> (Inl Crash, s'')
          | (c, s'') \<Rightarrow> (bind_res r (\<lambda>_. c), s'')))"

definition required_space :: "nat \<Rightarrow> nat" where
  "required_space bytes = min (bytes + max minimum_space_reserve (bytes div 10)) u64_limit"

definition preflight_inner ::
  "mig_env \<Rightarrow> host_path \<Rightarrow> host_path \<Rightarrow> int \<Rightarrow> bool \<Rightarrow> (migration_preview \<times> data_manifest) mig_op" where
  "preflight_inner env source target now retryable =
     bind_st (checked (validate_absolute_non_root source)) (\<lambda>_.
     bind_st (checked (validate_absolute_non_root target)) (\<lambda>_.
     bind_st (\<lambda>s. ensure (is_dir (host source s)) (Validation ''the data directory does not exist'') s) (\<lambda>_.
     bind_st (checked (reject_related_paths source target)) (\<lambda>_.
     bind_st (reject_reparse_ancestors env target) (\<lambda>_.
     bind_st (ensure (\<not> me_reparse env source) (Security ''the data directory is a link'')) (\<lambda>_.
     bind_st (scan_manifest env source) (\<lambda>manifest.
     bind_st (\<lambda>s.
       if host target s = None then (Inr (), s)
       else bind_st (scan_manifest env target) (\<lambda>target_manifest.
              if dm_entries target_manifest = [] then ret_st ()
              else if \<not> retryable then fail (Validation ''the target directory is not empty'')
              else checked (validate_retry_target manifest target_manifest)) s) (\<lambda>_.
     bind_st (create_dir_all env target) (\<lambda>_.
     bind_st (ensure (\<not> me_reparse env target) (Security ''the target directory is a link'')) (\<lambda>_.
     bind_st (probe_writable env target) (\<lambda>_.
     bind_st (\<lambda>s. bind_st (io env nop) (\<lambda>_. ret_st (me_space env (ms_tick s))) s) (\<lambda>available.
     let required = required_space (dm_total_bytes manifest) in
     bind_st (ensure (available \<ge> required) (DiskSpace ''not enough space on the target disk'')) (\<lambda>_ s.
     (Inr (\<lparr>mp_preview_id = me_fresh env (ms_tick s), mp_confirmation_token = me_fresh env (Suc (ms_tick s)),
            mp_expires_at = now + 5 * 60 * 1000, mp_source = source, mp_target = target,
            mp_file_count = dm_file_count manifest, mp_total_bytes = dm_total_bytes manifest,
            mp_required_bytes = required, mp_available_bytes = available, mp_retryable = retryable\<rparr>,
           manifest), s))))))))))))))"

section \<open>Copy and verification\<close>

definition validate_existing_target :: "mig_env \<Rightarrow> host_path \<Rightarrow> data_manifest \<Rightarrow> bool \<Rightarrow> unit mig_op" where
  "validate_existing_target env target manifest retryable =
     bind_st (scan_manifest env target) (\<lambda>existing.
       if dm_entries existing = [] then ret_st ()
       else if \<not> retryable then fail (Validation ''files appeared in the target directory'')
       else checked (validate_retry_target manifest existing))"

definition should_copy_file :: "mig_env \<Rightarrow> host_path \<Rightarrow> manifest_entry \<Rightarrow> bool \<Rightarrow> bool mig_op" where
  "should_copy_file env target_path entry retryable = (\<lambda>s.
     if host target_path s = None then (Inr True, s)
     else if \<not> retryable then fail (Validation ''target file exists'') s
     else bind_st (read_file env target_path) (\<lambda>c.
            ret_st (length c \<noteq> mf_size entry \<or> Some (me_sha256 env c) \<noteq> mf_sha256 entry)) s)"

definition copy_file_atomic :: "mig_env \<Rightarrow> host_path \<Rightarrow> host_path \<Rightarrow> unit mig_op" where
  "copy_file_atomic env source target =
     bind_st (read_file env source) (\<lambda>c. write_atomic env target c)"

definition count_file :: "nat \<Rightarrow> int \<Rightarrow> migration_journal \<Rightarrow> migration_journal" where
  "count_file bytes now j =
     j\<lparr>mj_copied_files := min (mj_copied_files j + 1) u64_limit,
       mj_copied_bytes := min (mj_copied_bytes j + bytes) u64_limit, mj_updated_at := now\<rparr>"

definition copy_entry :: "mig_env \<Rightarrow> host_path \<Rightarrow> host_path \<Rightarrow> bool \<Rightarrow> manifest_entry \<Rightarrow> unit mig_op" where
  "copy_entry env source target retryable entry =
     (case mf_kind entry of
        EntryDirectory \<Rightarrow> create_dir_all env (target @ mf_path entry)
      | EntryFile \<Rightarrow>
          bind_st (should_copy_file env (target @ mf_path entry) entry retryable) (\<lambda>copy.
          bind_st
            (if copy then
               bind_st (create_dir_all env (butlast (target @ mf_path entry))) (\<lambda>_.
               copy_file_atomic env (source @ mf_path entry) (target @ mf_path entry))
             else ret_st ()) (\<lambda>_.
          bind_st (\<lambda>s. on_journal (count_file (mf_size entry) (now_ms env s)) s) (\<lambda>_.
          save_journal env))))"

fun copy_entries :: "mig_env \<Rightarrow> host_path \<Rightarrow> host_path \<Rightarrow> bool \<Rightarrow> manifest_entry list \<Rightarrow> unit mig_op" where
  "copy_entries env source target retryable [] = ret_st ()"
| "copy_entries env source target retryable (e # es) =
     bind_st (copy_entry env source target retryable e) (\<lambda>_. copy_entries env source target retryable es)"

definition verify_manifest :: "mig_env \<Rightarrow> host_path \<Rightarrow> data_manifest \<Rightarrow> unit mig_op" where
  "verify_manifest env target expected =
     bind_st (scan_manifest env target) (\<lambda>actual.
       ensure (actual = expected) (Integrity ''the target differs from the manifest of the source''))"

definition copy_and_verify_inner :: "mig_env \<Rightarrow> host_path \<Rightarrow> host_path \<Rightarrow> data_manifest \<Rightarrow> bool \<Rightarrow> unit mig_op" where
  "copy_and_verify_inner env source target manifest retryable =
     bind_st (validate_existing_target env target manifest retryable) (\<lambda>_.
     bind_st (enter_phase env MCopying) (\<lambda>_.
     bind_st (copy_entries env source target retryable (dm_entries manifest)) (\<lambda>_.
     bind_st (enter_phase env MVerifying) (\<lambda>_.
     verify_manifest env target manifest))))"

text \<open>An error marks the journal as failed, and the attempt to save that is not checked.\<close>

definition record_failure :: "mig_env \<Rightarrow> app_error \<Rightarrow> unit mig_op" where
  "record_failure env e =
     bind_st (\<lambda>s. on_journal (journal_fail e (now_ms env s)) s) (\<lambda>_. dropped (save_journal env))"

definition copy_and_verify :: "mig_env \<Rightarrow> host_path \<Rightarrow> host_path \<Rightarrow> data_manifest \<Rightarrow> bool \<Rightarrow> unit mig_op" where
  "copy_and_verify env source target manifest retryable =
     or_else_st (copy_and_verify_inner env source target manifest retryable)
       (\<lambda>e. bind_st (record_failure env e) (\<lambda>_. fail e))"

section \<open>Worker\<close>

datatype root_pointer = PointerPlatform | PointerPortable host_path

definition pointer_commit :: "mig_env \<Rightarrow> root_pointer \<Rightarrow> host_path \<Rightarrow> unit mig_op" where
  "pointer_commit env pointer target =
     (case pointer of
        PointerPlatform \<Rightarrow> io env (\<lambda>s. s\<lparr>ms_platform_root := Some target\<rparr>)
      | PointerPortable default_root \<Rightarrow>
          if target = default_root then io env (\<lambda>s. s\<lparr>ms_portable_root := None\<rparr>)
          else io env (\<lambda>s. s\<lparr>ms_portable_root := Some target\<rparr>))"

definition write_complete_marker :: "mig_env \<Rightarrow> data_manifest \<Rightarrow> unit mig_op" where
  "write_complete_marker env manifest = (\<lambda>s.
     write_atomic env (mj_target (ms_journal s) @ [complete_file])
       (me_print_marker env
          \<lparr>cm_migration_id = mj_migration_id (ms_journal s), cm_previous_root = mj_source (ms_journal s),
           cm_file_count = dm_file_count manifest, cm_total_bytes = dm_total_bytes manifest,
           cm_completed_at = now_ms env s\<rparr>) s)"

definition validate_worker_journal :: "mig_env \<Rightarrow> host_path \<Rightarrow> migration_journal mig_op" where
  "validate_worker_journal env journal_path =
     bind_st (ensure (journal_path \<noteq> [] \<and> last journal_path = journal_file)
       (Security ''journal path is invalid'')) (\<lambda>_.
     bind_st (journal_load env journal_path) (\<lambda>j.
     bind_st (ensure (butlast journal_path = mj_source j \<and> mj_phase j = MPrepared)
       (Security ''journal does not belong to this directory'')) (\<lambda>_.
     bind_st (ensure (mj_parent_pid j \<noteq> 0 \<and> mj_parent_pid j \<noteq> me_pid env)
       (Security ''parent process is invalid'')) (\<lambda>_.
     ret_st j))))"

definition worker_work :: "mig_env \<Rightarrow> root_pointer \<Rightarrow> host_path \<Rightarrow> host_path \<Rightarrow> unit mig_op" where
  "worker_work env pointer source target =
     bind_st (io env nop) (\<lambda>_.
     bind_st (\<lambda>s. or_else_st (preflight_inner env source target (now_ms env s) False)
                (\<lambda>_ s. preflight_inner env source target (now_ms env s) True s) s) (\<lambda>(preview, manifest).
     bind_st (\<lambda>s. on_journal (\<lambda>j. j\<lparr>mj_file_count := dm_file_count manifest,
                mj_total_bytes := dm_total_bytes manifest, mj_copied_files := 0, mj_copied_bytes := 0,
                mj_updated_at := now_ms env s\<rparr>) s) (\<lambda>_.
     bind_st (save_journal env) (\<lambda>_.
     bind_st (copy_and_verify env (mp_source preview) (mp_target preview) manifest (mp_retryable preview)) (\<lambda>_.
     bind_st (write_complete_marker env manifest) (\<lambda>_.
     bind_st (pointer_commit env pointer target) (\<lambda>_.
     bind_st (enter_phase env MSwitched) (\<lambda>_.
     enter_phase env MCompleted))))))))"

definition run_worker :: "mig_env \<Rightarrow> root_pointer \<Rightarrow> host_path \<Rightarrow> migration_phase mig_op" where
  "run_worker env pointer journal_path =
     bind_st (validate_worker_journal env journal_path) (\<lambda>j.
     bind_st (\<lambda>s. (Inr (), s\<lparr>ms_journal := j\<rparr>)) (\<lambda>_.
     bind_st (or_else_st
       (bind_st (worker_work env pointer (mj_source j) (mj_target j)) (\<lambda>_. ret_st MCompleted))
       (\<lambda>e. bind_st (record_failure env e) (\<lambda>_. ret_st MFailed))) (\<lambda>phase.
     bind_st (io env nop) (\<lambda>_. ret_st phase))))"

text \<open>\<open>run_system_worker\<close>: the pointer follows from where the data directory came from.\<close>

definition run_system_worker :: "mig_env \<Rightarrow> host_path \<Rightarrow> host_path \<Rightarrow> migration_phase mig_op" where
  "run_system_worker env executable_directory journal_path =
     bind_st (validate_worker_journal env journal_path) (\<lambda>j.
     bind_st
       (case mj_source_mode j of
          RootPlatform \<Rightarrow> ret_st PointerPlatform
        | RootRegistry \<Rightarrow> ret_st PointerPlatform
        | RootPortableCustom \<Rightarrow> ret_st (PointerPortable (executable_directory @ [''data'']))
        | RootPortableDefault \<Rightarrow> ret_st (PointerPortable (executable_directory @ [''data'']))
        | RootEnvironment \<Rightarrow> fail (Security ''this data directory cannot be moved'')
        | RootNeedsSelection \<Rightarrow> fail (Security ''this data directory cannot be moved'')) (\<lambda>pointer.
     run_worker env pointer journal_path))"

section \<open>The next start\<close>

record data_root_inputs =
  di_env_override :: "host_path option"
  di_portable_mode :: bool
  di_portable_custom_root :: "host_path option"
  di_portable_default_root :: "host_path option"
  di_platform_root :: "host_path option"

record data_root_resolution =
  dr_source :: data_root_source
  dr_path :: "host_path option"
  dr_mutable :: bool

definition resolve_data_root :: "data_root_inputs \<Rightarrow> data_root_resolution app_result" where
  "resolve_data_root input =
     (case di_env_override input of
        Some path \<Rightarrow> Inr \<lparr>dr_source = RootEnvironment, dr_path = Some path, dr_mutable = False\<rparr>
      | None \<Rightarrow>
          if di_portable_mode input then
            (case di_portable_custom_root input of
               Some path \<Rightarrow> Inr \<lparr>dr_source = RootPortableCustom, dr_path = Some path, dr_mutable = True\<rparr>
             | None \<Rightarrow>
                 bind_res (ok_or (Validation ''no portable default directory'') (di_portable_default_root input))
                   (\<lambda>path. Inr \<lparr>dr_source = RootPortableDefault, dr_path = Some path, dr_mutable = True\<rparr>))
          else
            (case di_platform_root input of
               Some path \<Rightarrow> Inr \<lparr>dr_source = RootPlatform, dr_path = Some path, dr_mutable = True\<rparr>
             | None \<Rightarrow> Inr \<lparr>dr_source = RootNeedsSelection, dr_path = None, dr_mutable = True\<rparr>))"

definition completion_marker_is_valid :: "mig_env \<Rightarrow> host_path \<Rightarrow> migration_journal \<Rightarrow> mig_state \<Rightarrow> bool" where
  "completion_marker_is_valid env base j s =
     (case host (base @ [complete_file]) s of
        Some (HFile payload) \<Rightarrow>
          (case me_parse_marker env payload of
             None \<Rightarrow> False
           | Some m \<Rightarrow> cm_migration_id m = mj_migration_id j \<and> cm_previous_root m = mj_source j)
      | _ \<Rightarrow> False)"

definition migration_recovery_resolution ::
  "data_root_resolution \<Rightarrow> migration_journal \<Rightarrow> bool \<Rightarrow> mig_state \<Rightarrow> data_root_resolution option app_result"
where
  "migration_recovery_resolution current j marker_valid s =
     (case dr_path current of
        None \<Rightarrow> Inr None
      | Some current_root \<Rightarrow>
          if dr_source current = RootEnvironment \<or> current_root \<noteq> mj_target j then Inr None
          else if mj_phase j = MCompleted \<and> marker_valid then Inr None
          else if \<not> is_dir (host (mj_source j) s) \<or> mj_source j = mj_target j
                  \<or> mj_source_mode j \<in> {RootEnvironment, RootNeedsSelection}
          then Inl (Security ''the target is invalid and the old directory cannot be verified'')
          else Inr (Some \<lparr>dr_source = mj_source_mode j, dr_path = Some (mj_source j), dr_mutable = True\<rparr>))"

definition recover_runtime_resolution :: "mig_env \<Rightarrow> data_root_resolution \<Rightarrow> data_root_resolution mig_op" where
  "recover_runtime_resolution env resolution =
     (case dr_path resolution of
        None \<Rightarrow> ret_st resolution
      | Some base \<Rightarrow> (\<lambda>s.
          case host (base @ [journal_file]) s of
            Some (HFile _) \<Rightarrow>
              bind_st (journal_load env (base @ [journal_file])) (\<lambda>j.
              bind_st (\<lambda>s. checked (migration_recovery_resolution resolution j
                         (completion_marker_is_valid env base j s) s) s) (\<lambda>recovered.
              case recovered of
                None \<Rightarrow> ret_st resolution
              | Some r \<Rightarrow>
                  bind_st
                    (case dr_source r of
                       RootPortableDefault \<Rightarrow> io env (\<lambda>s. s\<lparr>ms_portable_root := None\<rparr>)
                     | RootPortableCustom \<Rightarrow> io env (\<lambda>s. s\<lparr>ms_portable_root := dr_path r\<rparr>)
                     | _ \<Rightarrow> io env (\<lambda>s. s\<lparr>ms_platform_root := dr_path r\<rparr>)) (\<lambda>_. ret_st r))) s
          | _ \<Rightarrow> (Inr resolution, s)))"

text \<open>\<open>resolve_runtime_data_root\<close>: a portable program reads the pointer beside its executable, an
  installed one the pointer of the platform.\<close>

definition runtime_inputs :: "host_path option \<Rightarrow> bool \<Rightarrow> host_path \<Rightarrow> mig_state \<Rightarrow> data_root_inputs" where
  "runtime_inputs env_override portable_mode executable_directory s =
     \<lparr>di_env_override = env_override, di_portable_mode = portable_mode,
      di_portable_custom_root = (if portable_mode then ms_portable_root s else None),
      di_portable_default_root = (if portable_mode then Some (executable_directory @ [''data'']) else None),
      di_platform_root = (if portable_mode then None else ms_platform_root s)\<rparr>"

definition resolve_runtime_data_root ::
  "mig_env \<Rightarrow> host_path option \<Rightarrow> bool \<Rightarrow> host_path \<Rightarrow> data_root_resolution mig_op" where
  "resolve_runtime_data_root env env_override portable_mode executable_directory =
     bind_st (\<lambda>s. checked (resolve_data_root (runtime_inputs env_override portable_mode executable_directory s)) s)
       (recover_runtime_resolution env)"

end
