(* ===== verification/Migration_Safety.thy ===== *)
theory Migration_Safety
  imports Migration_Model
begin

text \<open>
  What the migration guarantees at every moment: the old directory keeps its data, the pointer moves
  only after the new directory has been verified against the manifest of the old one, and whatever
  operation fails and wherever the process dies, the next start finds a directory with the data.
\<close>

section \<open>What a scan returns\<close>

fun entries :: "mig_env \<Rightarrow> host_path \<Rightarrow> host_node \<Rightarrow> manifest_entry list"
  and children_entries :: "mig_env \<Rightarrow> host_path \<Rightarrow> (string \<times> host_node) list \<Rightarrow> manifest_entry list" where
  "entries env rel (HFile c) = [entry_of_file env rel c]"
| "entries env rel (HDir cs) = entry_of_dir rel # children_entries env rel cs"
| "entries env rel HSpecial = []"
| "children_entries env rel [] = []"
| "children_entries env rel ((n, t) # cs) = entries env (rel @ [n]) t @ children_entries env rel cs"

definition special_name :: "string \<Rightarrow> bool" where
  "special_name n \<longleftrightarrow> n = journal_file \<or> n = complete_file"

definition root_entries :: "mig_env \<Rightarrow> (string \<times> host_node) list \<Rightarrow> manifest_entry list" where
  "root_entries env cs = children_entries env [] (filter (\<lambda>c. \<not> special_name (fst c)) cs)"

fun no_special :: "host_node \<Rightarrow> bool" where
  "no_special HSpecial = False"
| "no_special (HDir cs) = list_all (\<lambda>c. no_special (snd c)) cs"
| "no_special (HFile _) = True"

text \<open>The operations that only read leave everything but the tick.\<close>

definition frozen :: "mig_state \<Rightarrow> mig_state \<Rightarrow> bool" where
  "frozen s s' \<longleftrightarrow> (\<exists>t. s' = s\<lparr>ms_tick := t\<rparr>)"

lemma frozen_refl [simp]: "frozen s s"
  unfolding frozen_def by (rule exI [of _ "ms_tick s"]) simp

lemma frozen_trans: "frozen s t \<Longrightarrow> frozen t u \<Longrightarrow> frozen s u"
  by (auto simp: frozen_def)

lemma frozen_host: "frozen s s' \<Longrightarrow> ms_host s' = ms_host s"
  by (auto simp: frozen_def)

lemma io_nop_frozen: "frozen s (snd (io env nop s))"
  by (auto simp: io_def nop_def frozen_def Let_def split: option.split fault.split)

lemma io_nop_pair: "io env nop s = (r, s') \<Longrightarrow> frozen s s'"
  using io_nop_frozen [of s env] by simp

lemma ensure_simps: "ensure b e s = (if b then (Inr (), s) else (Inl (Err e), s))"
  by (simp add: ensure_def fail_def)

lemma scan_entry_frozen:
  "frozen s (snd (scan_entry env base rel t s))"
  "frozen s (snd (scan_children env base rel cs s))"
proof (induction env base rel t s and env base rel cs s rule: scan_entry_scan_children.induct)
  case (2 env base rel cs s)
  note ih = 2
  have f: "frozen s (snd (bind_st (io env nop) (\<lambda>_. ensure (\<not> me_reparse env (base @ rel)) (Security ''data directory has a link'')) s))"
    using io_nop_frozen [of s env] by (auto simp: bind_st_def ensure_simps split: prod.split sum.split)
  show ?case
  proof (cases "bind_st (io env nop) (\<lambda>_. ensure (\<not> me_reparse env (base @ rel)) (Security ''data directory has a link'')) s")
    case (Pair r s')
    with f have "frozen s s'" by simp
    show ?thesis
    proof (cases r)
      case (Inl e)
      with Pair \<open>frozen s s'\<close> show ?thesis by simp
    next
      case (Inr u)
      from ih [OF Pair [symmetric] Inr] have "frozen s' (snd (scan_children env base rel cs s'))" .
      with \<open>frozen s s'\<close> Pair Inr show ?thesis
        by (auto split: prod.split sum.split intro: frozen_trans)
    qed
  qed
next
  case (5 env base rel n t cs s)
  show ?case
  proof (cases "scan_entry env base (rel @ [n]) t s")
    case (Pair r s')
    with 5(1) have f: "frozen s s'" by simp
    show ?thesis
    proof (cases r)
      case (Inr es)
      from 5(2) [OF Pair [symmetric] Inr] f Pair Inr show ?thesis
        by (auto split: prod.split sum.split intro: frozen_trans)
    qed (use f Pair in simp)
  qed
qed (auto simp: bind_st_def ensure_simps fail_def split: prod.split sum.split dest: io_nop_pair)

lemma scan_entry_Inr:
  "scan_entry env base rel t s = (Inr es, s') \<Longrightarrow> es = entries env rel t \<and> no_special t"
  "scan_children env base rel cs s = (Inr es, s') \<Longrightarrow>
     es = children_entries env rel cs \<and> list_all (\<lambda>c. no_special (snd c)) cs"
proof (induction env base rel t s and env base rel cs s arbitrary: es s' and es s'
    rule: scan_entry_scan_children.induct)
  case (1 env base rel c s)
  then show ?case by (auto simp: bind_st_def ensure_simps split: prod.splits sum.splits if_splits)
next
  case (2 env base rel cs s)
  from 2(2) obtain s1 es' where
    a: "bind_st (io env nop) (\<lambda>_. ensure (\<not> me_reparse env (base @ rel)) (Security ''data directory has a link'')) s = (Inr (), s1)"
    and b: "scan_children env base rel cs s1 = (Inr es', s')" "es = entry_of_dir rel # es'"
    by (auto split: prod.splits sum.splits)
  from 2(1) [OF a [symmetric] refl b(1)] b(2) show ?case by simp
next
  case (3 env base rel s)
  then show ?case by (auto simp: bind_st_def ensure_simps fail_def split: prod.splits sum.splits if_splits)
next
  case (4 env base rel s)
  then show ?case by simp
next
  case (5 env base rel n t cs s)
  from 5(3) obtain s1 es1 es2 where
    a: "scan_entry env base (rel @ [n]) t s = (Inr es1, s1)"
    and b: "scan_children env base rel cs s1 = (Inr es2, s')" "es = es1 @ es2"
    by (auto split: prod.splits sum.splits)
  from 5(1) [OF a] 5(2) [OF a [symmetric] refl b(1)] b(2) show ?case by simp
qed

lemma scan_root_frozen: "frozen s (snd (scan_root env base cs s))"
proof (induction env base cs s rule: scan_root.induct)
  case (2 env base n t cs s)
  show ?case
  proof (cases "n \<in> set allowed_root_entries \<and> \<not> (n = journal_file \<or> n = complete_file)")
    case False
    with 2 show ?thesis by auto
  next
    case True
    show ?thesis
    proof (cases "scan_entry env base [n] t s")
      case (Pair r s')
      then have f: "frozen s s'" using scan_entry_frozen(1) [of s env base "[n]" t] by simp
      show ?thesis
      proof (cases r)
        case (Inr es)
        with 2(2) [OF _ _ Pair [symmetric]] True f Pair show ?thesis
          by (auto split: prod.split sum.split intro: frozen_trans)
      qed (use f Pair True in auto)
    qed
  qed
qed simp

lemma scan_root_Inr:
  "scan_root env base cs s = (Inr es, s') \<Longrightarrow>
     es = root_entries env cs \<and> list_all (\<lambda>c. fst c \<in> set allowed_root_entries) cs
     \<and> list_all (\<lambda>c. special_name (fst c) \<or> no_special (snd c)) cs"
proof (induction env base cs s arbitrary: es s' rule: scan_root.induct)
  case (2 env base n t cs s)
  show ?case
  proof (cases "special_name n")
    case True
    with 2 show ?thesis by (auto simp: special_name_def root_entries_def split: if_splits)
  next
    case False
    with 2(3) obtain s1 es1 es2 where n: "n \<in> set allowed_root_entries"
      and a: "scan_entry env base [n] t s = (Inr es1, s1)"
      and b: "scan_root env base cs s1 = (Inr es2, s')" "es = es1 @ es2"
      by (auto simp: special_name_def split: prod.splits sum.splits if_splits)
    have "es2 = root_entries env cs \<and> list_all (\<lambda>c. fst c \<in> set allowed_root_entries) cs
        \<and> list_all (\<lambda>c. special_name (fst c) \<or> no_special (snd c)) cs"
      using 2(2) [OF _ _ a [symmetric] refl b(1)] n False by (simp add: special_name_def)
    with scan_entry_Inr(1) [OF a] b(2) n False show ?thesis by (simp add: root_entries_def)
  qed
qed (simp add: root_entries_def)

lemma scan_manifest_frozen: "frozen s (snd (scan_manifest env base s))"
proof -
  obtain r t where io: "io env nop s = (r, t)" by (meson surj_pair)
  then have f: "frozen s t" by (rule io_nop_pair)
  have "frozen t (snd (scan_root env base cs t))" for cs by (rule scan_root_frozen)
  with f io show ?thesis
    by (cases r) (auto simp: scan_manifest_def bind_st_def split: prod.split sum.split option.split host_node.split
        dest: frozen_trans, (metis frozen_trans snd_conv)+)
qed

lemma scan_manifest_Inr:
  assumes "scan_manifest env base s = (Inr m, s')"
  shows "\<exists>cs. host base s = Some (HDir cs) \<and> m = manifest_of (root_entries env cs)
     \<and> list_all (\<lambda>c. fst c \<in> set allowed_root_entries) cs
     \<and> list_all (\<lambda>c. special_name (fst c) \<or> no_special (snd c)) cs"
proof -
  from assms obtain t where io: "io env nop s = (Inr (), t)"
    and r: "bind_st (\<lambda>s. case host base s of
        Some (HDir cs) \<Rightarrow> scan_root env base cs s
      | _ \<Rightarrow> (Inl (Err (Io ''cannot list'')), s)) (\<lambda>es. ret_st (manifest_of es)) t = (Inr m, s')"
    by (auto simp: scan_manifest_def bind_st_def split: prod.splits sum.splits)
  from r obtain cs es where "host base t = Some (HDir cs)" "scan_root env base cs t = (Inr es, s')" "m = manifest_of es"
    by (auto simp: bind_st_def split: prod.splits sum.splits option.splits host_node.splits)
  with io_nop_pair [OF io] scan_root_Inr [of env base cs t es s'] show ?thesis
    by (auto simp: host_def frozen_host)
qed

section \<open>The content of a directory\<close>

text \<open>What the manifest says of a node: its kind, and the size and digest of a file.\<close>

fun describe :: "mig_env \<Rightarrow> host_path \<Rightarrow> host_node \<Rightarrow> manifest_entry option" where
  "describe env rel (HFile c) = Some (entry_of_file env rel c)"
| "describe env rel (HDir cs) = Some (entry_of_dir rel)"
| "describe env rel HSpecial = None"

lemma describe_path: "describe env rel t = Some e \<Longrightarrow> mf_path e = rel"
  by (cases t) (auto simp: entry_of_file_def entry_of_dir_def)

text \<open>An entry of a scan is the description of a node below, and every node below has its entry.\<close>

lemma entries_lookup:
  "wf_tree t \<Longrightarrow> e \<in> set (entries env rel t) \<longleftrightarrow>
     (\<exists>q u. lookup q t = Some u \<and> describe env (rel @ q) u = Some e)"
  "distinct (map fst cs) \<Longrightarrow> list_all (\<lambda>c. wf_tree (snd c)) cs \<Longrightarrow> e \<in> set (children_entries env rel cs) \<longleftrightarrow>
     (\<exists>n q u. lookup (n # q) (HDir cs) = Some u \<and> describe env (rel @ n # q) u = Some e)"
proof (induction env rel t and env rel cs rule: entries_children_entries.induct)
  case (1 env rel c)
  show ?case by (auto simp: lookup_file)
next
  case (2 env rel cs)
  have "(\<exists>q u. lookup q (HDir cs) = Some u \<and> describe env (rel @ q) u = Some e)
      \<longleftrightarrow> e = entry_of_dir rel \<or> (\<exists>n q u. lookup (n # q) (HDir cs) = Some u \<and> describe env (rel @ n # q) u = Some e)"
    (is "?l \<longleftrightarrow> ?r")
  proof
    assume ?l
    then obtain q u where "lookup q (HDir cs) = Some u" "describe env (rel @ q) u = Some e" by blast
    then show ?r by (cases q) auto
  next
    assume ?r
    then show ?l
    proof
      assume "e = entry_of_dir rel"
      then have "lookup [] (HDir cs) = Some (HDir cs) \<and> describe env (rel @ []) (HDir cs) = Some e" by simp
      then show ?l by blast
    qed blast
  qed
  with 2 show ?case by simp
next
  case (3 env rel)
  then show ?case by (auto elim: lookup.elims)
next
  case (4 env rel)
  then show ?case by simp
next
  case (5 env rel n t cs)
  then have n: "map_of cs n = None" by (simp add: map_of_eq_None_iff)
  have t: "e \<in> set (entries env (rel @ [n]) t) \<longleftrightarrow> (\<exists>q u. lookup q t = Some u \<and> describe env (rel @ n # q) u = Some e)"
    using 5 by simp
  have cs: "e \<in> set (children_entries env rel cs) \<longleftrightarrow>
      (\<exists>m q u. lookup (m # q) (HDir cs) = Some u \<and> describe env (rel @ m # q) u = Some e)"
    using 5 by simp
  have split: "lookup (m # q) (HDir ((n, t) # cs)) = (if m = n then lookup q t else lookup (m # q) (HDir cs))" for m q
    by auto
  have none: "lookup (n # q) (HDir cs) = None" for q using n by simp
  show ?case unfolding children_entries.simps set_append Un_iff t cs split
  proof (intro iffI; elim disjE exE conjE)
    fix q u assume "lookup q t = Some u" "describe env (rel @ n # q) u = Some e"
    then show "\<exists>m q u. (if m = n then lookup q t else lookup (m # q) (HDir cs)) = Some u \<and> describe env (rel @ m # q) u = Some e"
      by (metis (full_types))
  next
    fix m q u assume a: "lookup (m # q) (HDir cs) = Some u" "describe env (rel @ m # q) u = Some e"
    then have "m \<noteq> n" using none by auto
    with a show "\<exists>m q u. (if m = n then lookup q t else lookup (m # q) (HDir cs)) = Some u \<and> describe env (rel @ m # q) u = Some e"
      by (metis (full_types))
  next
    fix m q u assume "(if m = n then lookup q t else lookup (m # q) (HDir cs)) = Some u" "describe env (rel @ m # q) u = Some e"
    then show "(\<exists>q u. lookup q t = Some u \<and> describe env (rel @ n # q) u = Some e) \<or>
        (\<exists>m q u. lookup (m # q) (HDir cs) = Some u \<and> describe env (rel @ m # q) u = Some e)"
      by (metis (full_types))
  qed
qed

text \<open>What lies at a path below a root, as the manifest sees it.\<close>

definition content :: "mig_env \<Rightarrow> host_path \<Rightarrow> host_node \<Rightarrow> host_path \<Rightarrow> manifest_entry option" where
  "content env base t q = Option.bind (lookup (base @ q) t) (describe env q)"

text \<open>Two roots hold the same data: the two files of the migration itself aside.\<close>

definition same_data :: "mig_env \<Rightarrow> host_path \<Rightarrow> host_node \<Rightarrow> host_path \<Rightarrow> host_node \<Rightarrow> bool" where
  "same_data env a t b u \<longleftrightarrow>
     (\<forall>n q. \<not> special_name n \<longrightarrow> content env a t (n # q) = content env b u (n # q))"

lemma map_of_filter_key: "map_of (filter (\<lambda>c. P (fst c)) cs) n = (if P n then map_of cs n else None)"
  by (induction cs) auto

lemma root_entries_content:
  assumes "wf_tree (HDir cs)" and "lookup base t = Some (HDir cs)"
  shows "e \<in> set (root_entries env cs) \<longleftrightarrow>
    (\<exists>n q. \<not> special_name n \<and> content env base t (n # q) = Some e)"
proof -
  let ?cs = "filter (\<lambda>c. \<not> special_name (fst c)) cs"
  have "distinct (map fst ?cs)" "list_all (\<lambda>c. wf_tree (snd c)) ?cs"
    using assms(1) by (auto simp: distinct_map inj_on_def list_all_iff)
  from entries_lookup(2) [OF this, of e env "[]"]
  have "e \<in> set (root_entries env cs) \<longleftrightarrow>
      (\<exists>n q u. lookup (n # q) (HDir ?cs) = Some u \<and> describe env (n # q) u = Some e)"
    by (simp add: root_entries_def)
  also have "\<dots> \<longleftrightarrow> (\<exists>n q. \<not> special_name n \<and> content env base t (n # q) = Some e)"
  proof -
    have lk: "lookup (n # q) (HDir ?cs) = (if special_name n then None else lookup (n # q) (HDir cs))" for n q
      using map_of_filter_key [of "\<lambda>n. \<not> special_name n" cs n] by simp
    have ct: "content env base t (n # q) = Option.bind (lookup (n # q) (HDir cs)) (describe env (n # q))" for n q
      using assms(2) by (simp add: content_def lookup_append del: lookup.simps)
    show ?thesis unfolding lk ct by (auto simp: bind_eq_Some_conv simp del: lookup.simps split: if_splits)
  qed
  finally show ?thesis .
qed

lemma same_dataI:
  assumes "wf_tree (HDir cs)" "lookup a t = Some (HDir cs)" "wf_tree (HDir ds)" "lookup b u = Some (HDir ds)"
    and "manifest_of (root_entries env cs) = manifest_of (root_entries env ds)"
  shows "same_data env a t b u"
proof -
  have "set (root_entries env cs) = set (root_entries env ds)"
    using arg_cong [OF assms(5), of "\<lambda>m. set (dm_entries m)"] by (simp add: manifest_of_def)
  then have sub: "content env a t (n # q) = Some e \<longleftrightarrow> content env b u (n # q) = Some e" if "\<not> special_name n" for n q e
  proof -
    have path: "content env c v p = Some e \<Longrightarrow> mf_path e = p" for c v p
      by (auto simp: content_def describe_path split: Option.bind_splits)
    show ?thesis
      using that path root_entries_content [OF assms(1,2), of e env] root_entries_content [OF assms(3,4), of e env]
        \<open>set (root_entries env cs) = set (root_entries env ds)\<close> by (metis (no_types, lifting))
  qed
  then show ?thesis unfolding same_data_def by (metis not_None_eq)
qed

section \<open>The old directory is kept\<close>

text \<open>\<open>serde_json\<close> reads back the journal it wrote.\<close>

definition serde_ok :: "mig_env \<Rightarrow> bool" where
  "serde_ok env \<longleftrightarrow> (\<forall>j. me_parse_journal env (me_print_journal env j) = Some j)"

text \<open>What a migration is about: its directories, the kind of the old root, and the state before it.\<close>

record migration =
  mg_source :: host_path
  mg_target :: host_path
  mg_mode :: data_root_source
  mg_id :: uuid
  mg_before :: mig_state

definition journal_of :: "migration \<Rightarrow> migration_journal \<Rightarrow> bool" where
  "journal_of g j \<longleftrightarrow> mj_source j = mg_source g \<and> mj_target j = mg_target g
     \<and> mj_source_mode j = mg_mode g \<and> mj_migration_id j = mg_id g \<and> mj_schema_version j = 1"

definition journal_at :: "mig_env \<Rightarrow> migration \<Rightarrow> host_path \<Rightarrow> host_node \<Rightarrow> bool" where
  "journal_at env g base t \<longleftrightarrow>
     (\<exists>c j. lookup (base @ [journal_file]) t = Some (HFile c) \<and> me_parse_journal env c = Some j \<and> journal_of g j)"

definition kept :: "mig_env \<Rightarrow> migration \<Rightarrow> mig_state \<Rightarrow> bool" where
  "kept env g s \<longleftrightarrow>
     wf_tree (ms_host s) \<and> journal_of g (ms_journal s) \<and> is_dir (lookup (mg_source g) (ms_host s))
     \<and> journal_at env g (mg_source g) (ms_host s)
     \<and> (\<forall>n q. \<not> special_name n \<longrightarrow>
          lookup (mg_source g @ n # q) (ms_host s) = lookup (mg_source g @ n # q) (ms_host (mg_before g)))"

definition unmoved :: "mig_env \<Rightarrow> migration \<Rightarrow> mig_state \<Rightarrow> bool" where
  "unmoved env g s \<longleftrightarrow> kept env g s \<and> ms_platform_root s = ms_platform_root (mg_before g)
     \<and> ms_portable_root s = ms_portable_root (mg_before g)"

lemma kept_tick [simp]: "kept env g (s\<lparr>ms_tick := t\<rparr>) = kept env g s"
  "unmoved env g (s\<lparr>ms_tick := t\<rparr>) = unmoved env g s"
  by (simp_all add: kept_def unmoved_def)

lemma kept_frozen: "frozen s s' \<Longrightarrow> unmoved env g s \<Longrightarrow> unmoved env g s'"
  by (auto simp: frozen_def)

lemma keeps_io:
  "(\<And>s. I s \<Longrightarrow> I (f s)) \<Longrightarrow> (\<And>s t. I s \<Longrightarrow> I (s\<lparr>ms_tick := t\<rparr>)) \<Longrightarrow> keeps I (io env f)"
  by (auto simp: keeps_def io_def Let_def split: option.split fault.split)

lemma parallel_below: "a \<parallel> b \<Longrightarrow> a @ p \<parallel> b @ q"
  by (rule parallel_append)

lemma special_parallel: "\<not> special_name n \<Longrightarrow> special_name m \<Longrightarrow> a @ n # q \<parallel> a @ [m]"
  by (auto simp: parallel_def special_name_def)

text \<open>Writing below the target.\<close>

lemma kept_put_target:
  assumes p: "mg_source g \<parallel> mg_target g" and k: "kept env g s" and v: "wf_tree v"
  shows "kept env g (on_host (put (mg_target g @ p) v) s)"
proof -
  have "lookup (mg_source g @ r) (put (mg_target g @ p) v t) = lookup (mg_source g @ r) t" for r t
    by (rule lookup_put_parallel) (rule parallel_below [OF p])
  from this [of "[]"] this k v show ?thesis
    by (auto simp: kept_def on_host_def wf_tree_put journal_at_def)
qed

lemma kept_remove_target:
  assumes p: "mg_source g \<parallel> mg_target g" and k: "kept env g s"
  shows "kept env g (on_host (remove_at (mg_target g @ p)) s)"
proof -
  have "lookup (mg_source g @ r) (remove_at (mg_target g @ p) t) = lookup (mg_source g @ r) t" for r t
    by (rule lookup_remove_parallel) (rule parallel_below [OF p])
  from this [of "[]"] this k show ?thesis
    by (auto simp: kept_def on_host_def wf_tree_remove journal_at_def)
qed

text \<open>Writing the journal of the old directory.\<close>

lemma kept_put_journal:
  assumes k: "kept env g s" and j: "journal_of g j" and e: "serde_ok env"
  shows "kept env g (on_host (put (mg_source g @ [journal_file]) (HFile (me_print_journal env j))) s)"
proof -
  let ?p = "mg_source g @ [journal_file]"
  let ?t = "put ?p (HFile (me_print_journal env j)) (ms_host s)"
  obtain c where c: "lookup ?p (ms_host s) = Some (HFile c)" using k by (auto simp: kept_def journal_at_def)
  have d: "is_dir (lookup (mg_source g) (ms_host s))" using k by (simp add: kept_def)
  have "lookup ?p ?t = lookup [journal_file] (put [journal_file] (HFile (me_print_journal env j))
      (the (lookup (mg_source g) (ms_host s))))"
    by (subst lookup_append) (simp add: lookup_put_below [OF d])
  also have "\<dots> = Some (HFile (me_print_journal env j))"
    using d by (cases "lookup (mg_source g) (ms_host s)"; cases "the (lookup (mg_source g) (ms_host s))")
      (auto simp: update_conv')
  finally have "journal_at env g (mg_source g) ?t"
    using j e by (auto simp: journal_at_def serde_ok_def)
  moreover have "is_dir (lookup (mg_source g) ?t)"
    by (rule lookup_put_prefix [OF d]) simp_all
  moreover have "lookup (mg_source g @ n # q) ?t = lookup (mg_source g @ n # q) (ms_host s)" if "\<not> special_name n" for n q
    by (rule lookup_put_parallel) (rule special_parallel [OF that], simp add: special_name_def)
  ultimately show ?thesis using k by (simp add: kept_def on_host_def wf_tree_put)
qed

section \<open>Every step before the switch keeps it\<close>

definition ready :: "mig_env \<Rightarrow> migration \<Rightarrow> bool" where
  "ready env g \<longleftrightarrow> mg_source g \<parallel> mg_target g \<and> serde_ok env"

lemma ready_apart: "ready env g \<Longrightarrow> mg_source g \<parallel> mg_target g"
  by (simp add: ready_def)

lemma ready_serde: "ready env g \<Longrightarrow> serde_ok env"
  by (simp add: ready_def)

lemma keeps_state: "(\<And>x. keeps I (m x)) \<Longrightarrow> keeps I (\<lambda>s. m (f s) s)"
  by (simp add: keeps_def)

lemma keeps_or_else: "keeps I m \<Longrightarrow> (\<And>e. keeps I (h e)) \<Longrightarrow> keeps I (or_else_st m h)"
  by (fastforce simp: keeps_def or_else_st_def split: prod.split sum.split stop.split)

lemma keeps_dropped: "keeps I m \<Longrightarrow> keeps I (dropped m)"
  unfolding dropped_def by (intro keeps_or_else keeps_ret)

lemma keeps_ensure: "keeps I (ensure b e)"
  by (simp add: ensure_def fail_def keeps_ret keeps_fail)

lemma keeps_guard: "keeps I (\<lambda>s. ensure (b s) e s)"
  by (simp add: keeps_def ensure_simps)

lemma keeps_mfail: "keeps I (fail e)"
  by (simp add: fail_def keeps_fail)

lemma keeps_checked: "keeps I (checked r)"
  by (simp add: checked_def keeps_def)

text \<open>
  An invariant that does not look below the target directory. Everything the migration does before the
  journal is written keeps such an invariant: it reads anywhere, and writes below the target.
\<close>

locale target_frame =
  fixes I :: "mig_state \<Rightarrow> bool" and target :: host_path
  assumes tick: "I s \<Longrightarrow> I (s\<lparr>ms_tick := t\<rparr>)"
    and put_below: "I s \<Longrightarrow> wf_tree v \<Longrightarrow> I (on_host (put (target @ p) v) s)"
    and remove_below: "I s \<Longrightarrow> I (on_host (remove_at (target @ p)) s)"
begin

lemma reads: "keeps I (io env nop)"
  by (rule keeps_io) (simp_all add: nop_def tick)

lemma read_file: "keeps I (read_file env p)"
proof -
  have "keeps I (\<lambda>s. case host p s of Some (HFile c) \<Rightarrow> (Inr c, s) | _ \<Rightarrow> (Inl (Err (Io ''cannot read'')), s))"
    by (auto simp: keeps_def split: option.split host_node.split)
  then show ?thesis unfolding read_file_def by (rule keeps_bind [OF reads])
qed

lemma scan: "keeps I (scan_manifest env base)"
proof (rule keepsI)
  fix s assume "I s"
  moreover obtain t where "snd (scan_manifest env base s) = s\<lparr>ms_tick := t\<rparr>"
    using scan_manifest_frozen [of s env base] by (auto simp: frozen_def)
  ultimately show "I (snd (scan_manifest env base s))" by (simp add: tick)
qed

lemma writes: "keeps I (write_atomic env (target @ p) c)"
  unfolding write_atomic_def by (rule keeps_bind [OF keeps_guard keeps_io]) (simp_all add: put_below tick)

lemma create: "keeps I (create_dir_all env (target @ p))"
proof -
  have "I (on_host (mkdir_all (target @ p)) s)" if "I s" for s
    using put_below [OF that, of "HDir []" p] that by (simp add: mkdir_all_def on_host_def)
  then show ?thesis unfolding create_dir_all_def by (intro keeps_bind [OF keeps_guard keeps_io] tick)
qed

lemma create_parent: "p \<noteq> [] \<Longrightarrow> keeps I (create_dir_all env (butlast (target @ p)))"
  using create [of env "butlast p"] by (simp add: butlast_append)

lemma probe: "keeps I (probe_writable env target)"
proof (rule keepsI)
  fix s assume s: "I s"
  let ?p = "target @ [probe_name (me_fresh env (ms_tick s))]"
  have put: "keeps I (io env (on_host (put ?p (HFile ''qingzhou-data-migration''))))"
    by (rule keeps_io) (simp_all add: put_below tick)
  have rem: "keeps I (io env (on_host (remove_at ?p)))"
    by (rule keeps_io) (simp_all add: remove_below tick)
  obtain r1 s1 where 1: "io env (on_host (put ?p (HFile ''qingzhou-data-migration''))) s = (r1, s1)"
    by (meson surj_pair)
  obtain r2 s2 where 2: "io env (on_host (remove_at ?p)) s1 = (r2, s2)" by (meson surj_pair)
  have "I s1" using keepsD [OF put s] 1 by simp
  moreover from keepsD [OF rem this] 2 have "I s2" by simp
  ultimately show "I (snd (probe_writable env target s))"
    by (auto simp: probe_writable_def Let_def 1 2 split: sum.split stop.split)
qed

lemma target_check:
  "keeps I (\<lambda>s.
     if host p s = None then (Inr (), s)
     else bind_st (scan_manifest env p) (\<lambda>target_manifest.
            if dm_entries target_manifest = [] then ret_st ()
            else if \<not> retryable then fail (Validation ''the target directory is not empty'')
            else checked (validate_retry_target manifest target_manifest)) s)"
proof -
  have "keeps I (bind_st (scan_manifest env p) (\<lambda>target_manifest.
            if dm_entries target_manifest = [] then ret_st ()
            else if \<not> retryable then fail (Validation ''the target directory is not empty'')
            else checked (validate_retry_target manifest target_manifest)))"
    by (intro keeps_bind scan keeps_if keeps_ret keeps_mfail keeps_checked)
  then show ?thesis by (auto simp: keeps_def)
qed

lemma space: "keeps I (\<lambda>s. bind_st (io env nop) (\<lambda>_. ret_st (me_space env (ms_tick s))) s)"
  by (rule keeps_state) (intro keeps_bind reads keeps_ret)

lemma ancestors: "keeps I (reject_reparse_ancestors env p)"
  unfolding reject_reparse_ancestors_def by (rule keeps_bind [OF reads keeps_guard])

lemma preflight: "keeps I (preflight_inner env source target now retryable)"
proof -
  have last_step: "keeps I (\<lambda>s. (Inr (f s), s))" for f by (simp add: keeps_def)
  show ?thesis unfolding preflight_inner_def Let_def
    by (rule keeps_bind keeps_checked keeps_guard keeps_ensure scan target_check create [of env "[]", simplified] probe space
        ancestors last_step)+
qed

lemma should_copy: "keeps I (should_copy_file env p e retryable)"
proof -
  have "keeps I (bind_st (read_file env p) (\<lambda>c.
            ret_st (length c \<noteq> mf_size e \<or> Some (me_sha256 env c) \<noteq> mf_sha256 e)))"
    by (rule keeps_bind [OF read_file keeps_ret])
  then show ?thesis by (auto simp: should_copy_file_def keeps_def fail_def)
qed

end

text \<open>What is not below the target, and the pointers, as they were.\<close>

definition elsewhere :: "host_path \<Rightarrow> mig_state \<Rightarrow> mig_state \<Rightarrow> bool" where
  "elsewhere target s0 s \<longleftrightarrow> wf_tree (ms_host s)
     \<and> (\<forall>q. q \<parallel> target \<longrightarrow> lookup q (ms_host s) = lookup q (ms_host s0))
     \<and> ms_platform_root s = ms_platform_root s0 \<and> ms_portable_root s = ms_portable_root s0"

interpretation elsewhere: target_frame "elsewhere target s0" target for target s0
proof unfold_locales
  have below: "q \<parallel> target \<Longrightarrow> q \<parallel> target @ p" for q p using parallel_below [of q target "[]" p] by simp
  fix s t v p
  show "elsewhere target s0 s \<Longrightarrow> elsewhere target s0 (s\<lparr>ms_tick := t\<rparr>)" by (simp add: elsewhere_def)
  show "elsewhere target s0 s \<Longrightarrow> wf_tree v \<Longrightarrow> elsewhere target s0 (on_host (put (target @ p) v) s)"
    using below by (simp add: elsewhere_def on_host_def wf_tree_put lookup_put_parallel)
  show "elsewhere target s0 s \<Longrightarrow> elsewhere target s0 (on_host (remove_at (target @ p)) s)"
    using below by (simp add: elsewhere_def on_host_def wf_tree_remove lookup_remove_parallel)
qed

lemma unmoved_on_host:
  "unmoved env g s \<Longrightarrow> kept env g (on_host f s) \<Longrightarrow> unmoved env g (on_host f s)"
  by (simp add: unmoved_def on_host_def)

lemma unmoved_kept: "unmoved env g s \<Longrightarrow> kept env g s"
  by (simp add: unmoved_def)

lemma unmoved_frame: "ready env g \<Longrightarrow> target_frame (unmoved env g) (mg_target g)"
  by unfold_locales
    (simp_all add: unmoved_on_host unmoved_kept kept_put_target kept_remove_target ready_apart)

lemmas keeps_nop = target_frame.reads [OF unmoved_frame]
  and keeps_read_file = target_frame.read_file [OF unmoved_frame]
  and keeps_scan = target_frame.scan [OF unmoved_frame]
  and keeps_write_target = target_frame.writes [OF unmoved_frame]
  and keeps_create_target = target_frame.create [OF unmoved_frame]
  and keeps_create_parent = target_frame.create_parent [OF unmoved_frame]
  and keeps_probe = target_frame.probe [OF unmoved_frame]
  and keeps_target_check = target_frame.target_check [OF unmoved_frame]
  and keeps_space = target_frame.space [OF unmoved_frame]
  and keeps_ancestors = target_frame.ancestors [OF unmoved_frame]
  and keeps_should_copy = target_frame.should_copy [OF unmoved_frame]

lemma keeps_write_source_journal:
  "ready env g \<Longrightarrow> journal_of g j \<Longrightarrow>
     keeps (unmoved env g) (write_atomic env (mg_source g @ [journal_file]) (me_print_journal env j))"
  unfolding write_atomic_def
  by (rule keeps_bind [OF keeps_guard keeps_io])
    (simp_all add: unmoved_on_host unmoved_kept kept_put_journal ready_serde)

lemma keeps_journal_save: "ready env g \<Longrightarrow> journal_of g j \<Longrightarrow> keeps (unmoved env g) (journal_save env j)"
proof -
  assume r: "ready env g" and j: "journal_of g j"
  have "keeps (unmoved env g) (\<lambda>s. if host (mj_target j) s \<noteq> None
      then write_atomic env (mj_target j @ [journal_file]) (me_print_journal env j) s else (Inr (), s))"
    using keeps_write_target [OF r, where p = "[journal_file]"] j by (auto simp: keeps_def journal_of_def)
  moreover have "keeps (unmoved env g) (write_atomic env (mj_source j @ [journal_file]) (me_print_journal env j))"
    using keeps_write_source_journal [OF r j] j by (simp add: journal_of_def)
  ultimately show ?thesis unfolding journal_save_def by (intro keeps_bind keeps_checked)
qed

lemma unmoved_journal: "unmoved env g s \<Longrightarrow> journal_of g (ms_journal s)"
  by (simp add: unmoved_def kept_def)

lemma keeps_save_journal: "ready env g \<Longrightarrow> keeps (unmoved env g) (save_journal env)"
  using keeps_journal_save unmoved_journal by (fastforce simp: keeps_def save_journal_def)

lemma keeps_on_journal:
  "(\<And>j. journal_of g j \<Longrightarrow> journal_of g (f j)) \<Longrightarrow> keeps (unmoved env g) (on_journal f)"
  by (simp add: keeps_def on_journal_def unmoved_def kept_def)

lemma journal_of_changes:
  "journal_of g j \<Longrightarrow> journal_of g (journal_transition phase t j)"
  "journal_of g j \<Longrightarrow> journal_of g (journal_fail e t j)"
  "journal_of g j \<Longrightarrow> journal_of g (count_file n t j)"
  "journal_of g j \<Longrightarrow> journal_of g (j\<lparr>mj_file_count := a, mj_total_bytes := b, mj_copied_files := c,
     mj_copied_bytes := d, mj_updated_at := t\<rparr>)"
  by (simp_all add: journal_of_def journal_transition_def journal_fail_def count_file_def Let_def)

lemma keeps_journal_change:
  assumes "\<And>x j. journal_of g j \<Longrightarrow> journal_of g (f x j)"
  shows "keeps (unmoved env g) (\<lambda>s. on_journal (f (h s)) s)"
  by (rule keeps_state [where m = "\<lambda>x. on_journal (f x)"]) (rule keeps_on_journal, rule assms)

lemma keeps_enter_phase: "ready env g \<Longrightarrow> keeps (unmoved env g) (enter_phase env phase)"
  unfolding enter_phase_def
  by (intro keeps_bind keeps_journal_change keeps_save_journal journal_of_changes)

lemma keeps_record_failure: "ready env g \<Longrightarrow> keeps (unmoved env g) (record_failure env e)"
  unfolding record_failure_def
  by (intro keeps_bind keeps_journal_change keeps_dropped keeps_save_journal journal_of_changes)

lemma keeps_copy_entry:
  assumes r: "ready env g" and p: "mf_path e \<noteq> []"
  shows "keeps (unmoved env g) (copy_entry env src (mg_target g) retryable e)"
proof (cases "mf_kind e")
  case EntryFile
  have copy: "keeps (unmoved env g) (if c then
      bind_st (create_dir_all env (butlast (mg_target g @ mf_path e))) (\<lambda>_.
        copy_file_atomic env (src @ mf_path e) (mg_target g @ mf_path e)) else ret_st ())" for c
    unfolding copy_file_atomic_def
    by (intro keeps_if keeps_bind keeps_create_parent [OF r p] keeps_read_file [OF r] keeps_write_target [OF r] keeps_ret)
  show ?thesis unfolding copy_entry_def EntryFile entry_kind.case
    by (rule keeps_bind keeps_should_copy [OF r] copy keeps_journal_change journal_of_changes keeps_save_journal [OF r] | assumption)+
next
  case EntryDirectory
  then show ?thesis by (simp add: copy_entry_def keeps_create_target r)
qed

lemma keeps_copy_entries:
  "ready env g \<Longrightarrow> \<forall>e \<in> set es. mf_path e \<noteq> [] \<Longrightarrow>
     keeps (unmoved env g) (copy_entries env src (mg_target g) retryable es)"
  by (induction es) (simp_all add: keeps_ret keeps_bind keeps_copy_entry)

lemma keeps_copy_and_verify:
  assumes r: "ready env g" and p: "\<forall>e \<in> set (dm_entries m). mf_path e \<noteq> []"
  shows "keeps (unmoved env g) (copy_and_verify env src (mg_target g) m retryable)"
proof -
  have "keeps (unmoved env g) (validate_existing_target env (mg_target g) m retryable)"
    unfolding validate_existing_target_def
    by (intro keeps_bind keeps_scan [OF r] keeps_if keeps_ret keeps_mfail keeps_checked)
  moreover have "keeps (unmoved env g) (verify_manifest env (mg_target g) m)"
    unfolding verify_manifest_def by (rule keeps_bind [OF keeps_scan [OF r] keeps_ensure])
  ultimately have "keeps (unmoved env g) (copy_and_verify_inner env src (mg_target g) m retryable)"
    unfolding copy_and_verify_inner_def
    by (intro keeps_bind keeps_enter_phase [OF r] keeps_copy_entries [OF r p])
  then show ?thesis unfolding copy_and_verify_def
    by (intro keeps_or_else keeps_bind keeps_record_failure [OF r] keeps_mfail)
qed

lemma keeps_marker: "ready env g \<Longrightarrow> keeps (unmoved env g) (write_complete_marker env m)"
proof (rule keepsI)
  fix s assume r: "ready env g" and u: "unmoved env g s"
  have "mj_target (ms_journal s) = mg_target g" using unmoved_journal [OF u] by (simp add: journal_of_def)
  with keepsD [OF keeps_write_target [OF r] u] show "unmoved env g (snd (write_complete_marker env m s))"
    by (simp add: write_complete_marker_def)
qed

end
