(* ===== verification/Migration_Switch.thy ===== *)
theory Migration_Switch
  imports Migration_Safety
begin

text \<open>
  The switch of the data directory, and the start of the program after it. A run of the worker is
  followed from its first operation to whichever one was its last: before the commit of the pointer
  everything is as it was, after it the new directory holds the data, and the recovery of the next
  start reads off the journals which of the two to use.
\<close>

section \<open>The switch\<close>

text \<open>The new directory holds the data that the old one had before, and the journal.\<close>

definition copied :: "mig_env \<Rightarrow> migration \<Rightarrow> mig_state \<Rightarrow> bool" where
  "copied env g s \<longleftrightarrow> journal_at env g (mg_target g) (ms_host s)
     \<and> same_data env (mg_source g) (ms_host (mg_before g)) (mg_target g) (ms_host s)"

definition settled :: "mig_env \<Rightarrow> migration \<Rightarrow>
    (host_path option \<Rightarrow> host_path option \<Rightarrow> host_node option \<Rightarrow> bool) \<Rightarrow> mig_state \<Rightarrow> bool"
where
  "settled env g P s \<longleftrightarrow> kept env g s \<and> copied env g s
     \<and> P (ms_platform_root s) (ms_portable_root s) (host (mg_target g @ [complete_file]) s)"

lemma same_data_special:
  assumes "special_name m" and "same_data env a t b u"
  shows "same_data env a t b (put (b @ [m]) v u)"
proof -
  have "lookup (b @ n # q) (put (b @ [m]) v u) = lookup (b @ n # q) u" if "\<not> special_name n" for n q
    by (rule lookup_put_parallel) (rule special_parallel [OF that assms(1)])
  with assms(2) show ?thesis by (simp add: same_data_def content_def)
qed

lemma same_data_other:
  assumes "b \<parallel> p" and "same_data env a t b u"
  shows "same_data env a t b (put p v u)"
proof -
  have "lookup (b @ q) (put p v u) = lookup (b @ q) u" for q
    by (rule lookup_put_parallel) (use parallel_below [OF assms(1), of q "[]"] in simp)
  with assms(2) show ?thesis by (simp add: same_data_def content_def)
qed

lemma lookup_put_child:
  assumes "is_dir (lookup b t)"
  shows "lookup (b @ [m]) (put (b @ [m]) v t) = Some v"
proof -
  obtain cs where "lookup b t = Some (HDir cs)" using assms by (cases "lookup b t"; cases "the (lookup b t)") auto
  with lookup_put_below [OF assms, of "[m]" v] show ?thesis by (simp add: lookup_append update_conv')
qed

lemma journal_at_dir: "journal_at env g b t \<Longrightarrow> is_dir (lookup b t)"
  by (cases "lookup b t"; cases "the (lookup b t)") (auto simp: journal_at_def lookup_append)

lemma journal_at_put:
  assumes "journal_of g j" "serde_ok env" "is_dir (lookup b t)"
  shows "journal_at env g b (put (b @ [journal_file]) (HFile (me_print_journal env j)) t)"
  using assms(1,2) lookup_put_child [OF assms(3)] by (auto simp: journal_at_def serde_ok_def)

lemma journal_at_other:
  assumes "b @ [journal_file] \<parallel> p"
  shows "journal_at env g b (put p v t) = journal_at env g b t"
  by (simp add: journal_at_def lookup_put_parallel [OF assms])

lemma complete_journal_parallel: "b @ [journal_file] \<parallel> b @ [complete_file]"
  by (simp add: parallel_def journal_file_def complete_file_def)

lemma copied_put_source:
  assumes r: "ready env g" and c: "copied env g s"
  shows "copied env g (on_host (put (mg_source g @ p) v) s)"
proof -
  have p: "mg_target g \<parallel> mg_source g @ p"
    using parallel_below [OF parallel_commute [THEN iffD1, OF ready_apart [OF r]], of "[]" p] by simp
  then have "mg_target g @ [journal_file] \<parallel> mg_source g @ p"
    using parallel_below [OF parallel_commute [THEN iffD1, OF ready_apart [OF r]]] by blast
  with p c show ?thesis by (simp add: copied_def on_host_def journal_at_other same_data_other)
qed

lemma copied_put_journal:
  assumes r: "ready env g" and c: "copied env g s" and j: "journal_of g j"
  shows "copied env g (on_host (put (mg_target g @ [journal_file]) (HFile (me_print_journal env j))) s)"
proof -
  have "journal_at env g (mg_target g) (ms_host s)" using c by (simp add: copied_def)
  from journal_at_put [OF j ready_serde [OF r] journal_at_dir [OF this]] c show ?thesis
    by (simp add: copied_def on_host_def same_data_special special_name_def)
qed

lemma copied_put_marker:
  "copied env g s \<Longrightarrow> copied env g (on_host (put (mg_target g @ [complete_file]) v) s)"
  by (simp add: copied_def on_host_def same_data_special special_name_def journal_at_other
      complete_journal_parallel)

lemma settled_tick [simp]: "settled env g P (s\<lparr>ms_tick := t\<rparr>) = settled env g P s"
  by (simp add: settled_def copied_def host_def)

lemma settled_put:
  "settled env g P s \<Longrightarrow> kept env g (on_host (put p v) s) \<Longrightarrow> copied env g (on_host (put p v) s) \<Longrightarrow>
     mg_target g @ [complete_file] \<parallel> p \<Longrightarrow> settled env g P (on_host (put p v) s)"
  by (simp add: settled_def on_host_def host_def lookup_put_parallel)

lemma apart_below: "ready env g \<Longrightarrow> mg_target g @ p \<parallel> mg_source g @ q"
  by (meson parallel_below parallel_commute ready_apart)

lemma settled_kept: "settled env g P s \<Longrightarrow> kept env g s"
  and settled_copied: "settled env g P s \<Longrightarrow> copied env g s"
  and settled_journal: "settled env g P s \<Longrightarrow> journal_of g (ms_journal s)"
  by (simp_all add: settled_def kept_def)

lemma keeps_settled_journal_save:
  assumes r: "ready env g" and j: "journal_of g j"
  shows "keeps (settled env g P) (journal_save env j)"
proof -
  have src: "keeps (settled env g P) (write_atomic env (mg_source g @ [journal_file]) (me_print_journal env j))"
    unfolding write_atomic_def
    by (rule keeps_bind [OF keeps_guard keeps_io])
      (simp_all add: settled_put kept_put_journal [OF settled_kept j ready_serde [OF r]]
        copied_put_source [OF r settled_copied] apart_below [OF r])
  have tgt: "keeps (settled env g P) (write_atomic env (mg_target g @ [journal_file]) (me_print_journal env j))"
    unfolding write_atomic_def
    by (rule keeps_bind [OF keeps_guard keeps_io])
      (simp_all add: settled_put kept_put_target [OF ready_apart [OF r] settled_kept]
        copied_put_journal [OF r settled_copied j] complete_journal_parallel [THEN parallel_commute [THEN iffD1]])
  have "keeps (settled env g P) (\<lambda>s. if host (mj_target j) s \<noteq> None
      then write_atomic env (mj_target j @ [journal_file]) (me_print_journal env j) s else (Inr (), s))"
    using tgt j by (auto simp: keeps_def journal_of_def)
  with src j show ?thesis unfolding journal_save_def by (intro keeps_bind keeps_checked) (simp_all add: journal_of_def)
qed

lemma keeps_settled_save: "ready env g \<Longrightarrow> keeps (settled env g P) (save_journal env)"
  using keeps_settled_journal_save settled_journal by (fastforce simp: keeps_def save_journal_def)

lemma keeps_settled_on_journal:
  assumes "\<And>x j. journal_of g j \<Longrightarrow> journal_of g (f x j)"
  shows "keeps (settled env g P) (\<lambda>s. on_journal (f (h s)) s)"
  using assms by (simp add: keeps_def on_journal_def settled_def kept_def copied_def host_def)

lemma keeps_settled_phase: "ready env g \<Longrightarrow> keeps (settled env g P) (enter_phase env phase)"
  unfolding enter_phase_def
  by (intro keeps_bind keeps_settled_on_journal keeps_settled_save journal_of_changes)

lemma keeps_settled_failure: "ready env g \<Longrightarrow> keeps (settled env g P) (record_failure env e)"
  unfolding record_failure_def
  by (intro keeps_bind keeps_settled_on_journal keeps_dropped keeps_settled_save journal_of_changes)

section \<open>What holds after a step that succeeds, and after one that does not\<close>

lemma triple_or_else:
  "triple I m Q E \<Longrightarrow> (\<And>e. triple E (h e) Q E) \<Longrightarrow> triple I (or_else_st m h) Q E"
  by (fastforce simp: triple_def or_else_st_def split: prod.splits sum.splits stop.splits)

lemma triple_fail: "(\<And>s. I s \<Longrightarrow> E s) \<Longrightarrow> triple I (fail e) Q E"
  by (simp add: triple_def fail_def fail_st_def)

lemma triple_checked: "(\<And>s x. I s \<Longrightarrow> r = Inr x \<Longrightarrow> Q x s) \<Longrightarrow> (\<And>s. I s \<Longrightarrow> E s) \<Longrightarrow> triple I (checked r) Q E"
  by (cases r) (auto simp: triple_def checked_def)

lemma triple_ensure: "(\<And>s. I s \<Longrightarrow> b \<Longrightarrow> Q s) \<Longrightarrow> (\<And>s. I s \<Longrightarrow> E s) \<Longrightarrow> triple I (ensure b e) (\<lambda>_. Q) E"
  by (simp add: triple_def ensure_simps)

section \<open>The manifest of the copy\<close>

definition scanned :: "mig_env \<Rightarrow> migration \<Rightarrow> data_manifest \<Rightarrow> bool" where
  "scanned env g m \<longleftrightarrow> (\<exists>s cs. unmoved env g s \<and> lookup (mg_source g) (ms_host s) = Some (HDir cs)
     \<and> m = manifest_of (root_entries env cs))"

lemma triple_scan:
  assumes r: "ready env g"
  shows "triple (unmoved env g) (scan_manifest env p)
     (\<lambda>m s. (\<exists>cs. lookup p (ms_host s) = Some (HDir cs) \<and> m = manifest_of (root_entries env cs)) \<and> unmoved env g s)
     (unmoved env g)"
proof -
  have "\<exists>cs. lookup p (ms_host s') = Some (HDir cs) \<and> m = manifest_of (root_entries env cs)"
    if "scan_manifest env p s = (Inr m, s')" for m s s'
    using scan_manifest_Inr [OF that] scan_manifest_frozen [of s env p] that by (auto simp: host_def frozen_host)
  moreover have "unmoved env g s'" if "scan_manifest env p s = (r, s')" "unmoved env g s" for r s s'
    using keepsD [OF keeps_scan [OF r] that(2), of env p] that(1) by simp
  ultimately show ?thesis by (auto simp: triple_def split: prod.split sum.split)
qed

lemma scanned_paths:
  assumes "scanned env g m" shows "\<forall>e \<in> set (dm_entries m). mf_path e \<noteq> []"
proof -
  obtain s cs where s: "unmoved env g s" "lookup (mg_source g) (ms_host s) = Some (HDir cs)"
    and m: "m = manifest_of (root_entries env cs)" using assms by (auto simp: scanned_def)
  have "wf_tree (HDir cs)" by (rule wf_tree_lookup [OF _ s(2)]) (use s(1) in \<open>simp add: unmoved_def kept_def\<close>)
  have "mf_path e = n # q" if "content env b t (n # q) = Some e" for b t n q e
    using that by (auto simp: content_def describe_path split: Option.bind_splits)
  with root_entries_content [OF \<open>wf_tree (HDir cs)\<close> s(2), of _ env] show ?thesis
    by (fastforce simp: m manifest_of_def)
qed

text \<open>A directory that scans to the manifest of the old one holds its data.\<close>

lemma scanned_same:
  assumes m: "scanned env g (manifest_of (root_entries env ds))"
    and t: "wf_tree t" "lookup p t = Some (HDir ds)"
  shows "same_data env (mg_source g) (ms_host (mg_before g)) p t"
proof -
  obtain s cs where s: "unmoved env g s" "lookup (mg_source g) (ms_host s) = Some (HDir cs)"
    and eq: "manifest_of (root_entries env cs) = manifest_of (root_entries env ds)"
    using m unfolding scanned_def by metis
  have k: "kept env g s" using s(1) by (simp add: unmoved_def)
  have "same_data env (mg_source g) (ms_host s) p t"
    by (rule same_dataI [OF wf_tree_lookup [OF _ s(2)] s(2) wf_tree_lookup [OF t] t(2) eq])
      (use k in \<open>simp add: kept_def\<close>)
  moreover have "content env (mg_source g) (ms_host s) (n # q) = content env (mg_source g) (ms_host (mg_before g)) (n # q)"
    if "\<not> special_name n" for n q using k that by (simp add: kept_def content_def)
  ultimately show ?thesis by (simp add: same_data_def)
qed

section \<open>The journal of the new directory\<close>

lemma write_atomic_Inr:
  "write_atomic env (b @ [m]) c s = (Inr x, s') \<Longrightarrow>
     is_dir (lookup b (ms_host s)) \<and> s' = on_host (put (b @ [m]) (HFile c)) (s\<lparr>ms_tick := Suc (ms_tick s)\<rparr>)"
  by (auto simp: write_atomic_def bind_st_def ensure_simps io_def Let_def host_def
      split: if_splits option.splits fault.splits)

lemma write_atomic_lookup:
  assumes "write_atomic env (b @ [m]) c s = (Inr x, s')"
  shows "lookup (b @ [m]) (ms_host s') = Some (HFile c)"
  using write_atomic_Inr [OF assms] by (auto simp: on_host_def lookup_put_child)

lemma journal_save_target:
  assumes "serde_ok env" and "journal_save env j s = (Inr x, s')"
  shows "host (mj_target j) s' = None \<or> (\<exists>c. lookup (mj_target j @ [journal_file]) (ms_host s') = Some (HFile c)
    \<and> me_parse_journal env c = Some j)"
proof -
  from assms(2) obtain s1 where s1: "(if host (mj_target j) s1 \<noteq> None
       then write_atomic env (mj_target j @ [journal_file]) (me_print_journal env j) s1
       else (Inr (), s1)) = (Inr x, s')"
    by (auto simp: journal_save_def bind_st_def checked_def split: prod.splits sum.splits)
  show ?thesis
  proof (cases "host (mj_target j) s1 = None")
    case False
    with s1 have "write_atomic env (mj_target j @ [journal_file]) (me_print_journal env j) s1 = (Inr x, s')" by simp
    from write_atomic_lookup [OF this] assms(1) show ?thesis by (simp add: serde_ok_def)
  qed (use s1 in auto)
qed

lemma write_atomic_journal: "ms_journal (snd (write_atomic env p c s)) = ms_journal s"
  by (simp add: write_atomic_def bind_st_def ensure_simps io_def Let_def on_host_def split: option.split fault.split)

lemma journal_save_journal: "ms_journal (snd (journal_save env j s)) = ms_journal s"
  using write_atomic_journal
  by (auto simp: journal_save_def bind_st_def checked_def split: prod.split sum.split) (metis snd_conv)+

lemma enter_phase_target:
  assumes "serde_ok env" and "journal_of g (ms_journal s)" and "enter_phase env phase s = (Inr x, s')"
  shows "mj_phase (ms_journal s') = phase"
    and "journal_of g (ms_journal s')"
    and "host (mg_target g) s' = None \<or> (\<exists>c. lookup (mg_target g @ [journal_file]) (ms_host s') = Some (HFile c)
      \<and> me_parse_journal env c = Some (ms_journal s'))"
proof -
  let ?j = "journal_transition phase (now_ms env s) (ms_journal s)"
  let ?s = "s\<lparr>ms_journal := ?j\<rparr>"
  have save: "journal_save env ?j ?s = (Inr x, s')"
    using assms(3) by (simp add: enter_phase_def bind_st_def on_journal_def save_journal_def)
  have j: "ms_journal s' = ?j" using journal_save_journal [of env ?j ?s] save by simp
  have "journal_of g ?j" by (rule journal_of_changes(1) [OF assms(2)])
  then show "journal_of g (ms_journal s')" and "mj_phase (ms_journal s') = phase"
    by (simp_all add: j journal_transition_def Let_def)
  show "host (mg_target g) s' = None \<or> (\<exists>c. lookup (mg_target g @ [journal_file]) (ms_host s') = Some (HFile c)
      \<and> me_parse_journal env c = Some (ms_journal s'))"
    using journal_save_target [OF assms(1) save] \<open>journal_of g ?j\<close> by (simp add: j journal_of_def)
qed

definition journaled :: "mig_env \<Rightarrow> migration \<Rightarrow> mig_state \<Rightarrow> bool" where
  "journaled env g s \<longleftrightarrow> host (mg_target g) s = None \<or> journal_at env g (mg_target g) (ms_host s)"

lemma triple_enter_phase:
  assumes r: "ready env g"
  shows "triple (unmoved env g) (enter_phase env phase) (\<lambda>_ s. journaled env g s \<and> unmoved env g s) (unmoved env g)"
proof -
  have "journaled env g s'" if "unmoved env g s" "enter_phase env phase s = (Inr x, s')" for s s' x
    using enter_phase_target [OF ready_serde [OF r] unmoved_journal [OF that(1)] that(2)]
    by (auto simp: journaled_def journal_at_def)
  moreover have "unmoved env g s'" if "unmoved env g s" "enter_phase env phase s = (x, s')" for s s' x
    using keepsD [OF keeps_enter_phase [OF r] that(1), of phase] that(2) by simp
  ultimately show ?thesis by (auto simp: triple_def split: prod.split sum.split)
qed

section \<open>The copy\<close>

lemma triple_verify:
  assumes r: "ready env g" and m: "scanned env g m"
  shows "triple (\<lambda>s. journaled env g s \<and> unmoved env g s) (verify_manifest env (mg_target g) m)
     (\<lambda>_ s. copied env g s \<and> unmoved env g s) (unmoved env g)"
proof -
  have keep: "keeps (\<lambda>s. journaled env g s \<and> unmoved env g s) (scan_manifest env (mg_target g))"
  proof (rule keepsI)
    fix s assume "journaled env g s \<and> unmoved env g s"
    with scan_manifest_frozen [of s env "mg_target g"]
    show "journaled env g (snd (scan_manifest env (mg_target g) s)) \<and> unmoved env g (snd (scan_manifest env (mg_target g) s))"
      by (auto simp: journaled_def host_def frozen_host kept_frozen)
  qed
  show ?thesis
  proof (rule tripleI)
    fix s s' x
    assume s: "journaled env g s \<and> unmoved env g s" and v: "verify_manifest env (mg_target g) m s = (Inr x, s')"
    from v have sc: "scan_manifest env (mg_target g) s = (Inr m, s')"
      by (auto simp: verify_manifest_def bind_st_def ensure_simps split: prod.splits sum.splits if_splits)
    have s': "journaled env g s' \<and> unmoved env g s'" using keepsD [OF keep s] sc by simp
    from scan_manifest_Inr [OF sc] obtain ds where ds: "host (mg_target g) s = Some (HDir ds)"
      and m': "m = manifest_of (root_entries env ds)" by auto
    have h: "ms_host s' = ms_host s" using scan_manifest_frozen [of s env "mg_target g"] sc by (simp add: frozen_host)
    have "wf_tree (ms_host s')" using s' by (simp add: unmoved_def kept_def)
    from scanned_same [OF m [unfolded m'] this] ds h
    have "same_data env (mg_source g) (ms_host (mg_before g)) (mg_target g) (ms_host s')" by (simp add: host_def)
    with s' ds h show "copied env g s' \<and> unmoved env g s'" by (simp add: copied_def journaled_def host_def)
  next
    fix s s' e
    assume s: "journaled env g s \<and> unmoved env g s" and v: "verify_manifest env (mg_target g) m s = (Inl e, s')"
    have "keeps (unmoved env g) (verify_manifest env (mg_target g) m)"
      unfolding verify_manifest_def by (rule keeps_bind [OF keeps_scan [OF r] keeps_ensure])
    from keepsD [OF this, of s] s v show "unmoved env g s'" by simp
  qed
qed

lemma triple_copy_and_verify:
  assumes r: "ready env g" and m: "scanned env g m"
  shows "triple (unmoved env g) (copy_and_verify env src (mg_target g) m retryable)
     (\<lambda>_ s. copied env g s \<and> unmoved env g s) (unmoved env g)"
proof -
  have v: "keeps (unmoved env g) (validate_existing_target env (mg_target g) m retryable)"
    unfolding validate_existing_target_def
    by (intro keeps_bind keeps_scan [OF r] keeps_if keeps_ret keeps_mfail keeps_checked)
  have "triple (unmoved env g) (copy_and_verify_inner env src (mg_target g) m retryable)
     (\<lambda>_ s. copied env g s \<and> unmoved env g s) (unmoved env g)"
    unfolding copy_and_verify_inner_def
    by (rule triple_keep [OF v] triple_keep [OF keeps_enter_phase [OF r]]
        triple_keep [OF keeps_copy_entries [OF r scanned_paths [OF m]]]
        triple_bind [OF triple_enter_phase [OF r]] triple_verify [OF r m] | assumption)+
  then show ?thesis unfolding copy_and_verify_def
    by (rule triple_or_else) (rule triple_keep [OF keeps_record_failure [OF r]] triple_fail | assumption)+
qed

section \<open>The checks before the copy\<close>

definition checked_preview :: "mig_env \<Rightarrow> migration \<Rightarrow> migration_preview \<times> data_manifest \<Rightarrow> bool" where
  "checked_preview env g p \<longleftrightarrow>
     mp_source (fst p) = mg_source g \<and> mp_target (fst p) = mg_target g \<and> scanned env g (snd p)"

lemma triple_preflight:
  assumes r: "ready env g"
  shows "triple (unmoved env g) (preflight_inner env (mg_source g) (mg_target g) now retryable)
     (\<lambda>p s. checked_preview env g p \<and> unmoved env g s) (unmoved env g)"
proof -
  note create = keeps_create_target [OF r, where p = "[]", simplified]
  have scan: "triple (unmoved env g) (scan_manifest env (mg_source g))
     (\<lambda>m s. scanned env g m \<and> unmoved env g s) (unmoved env g)"
    by (rule triple_conseq [OF triple_scan [OF r]]) (auto simp: scanned_def)
  have result: "triple (unmoved env g) (\<lambda>s. (Inr (f s, m), s))
      (\<lambda>p s. checked_preview env g p \<and> unmoved env g s) (unmoved env g)"
    if "scanned env g m" "\<And>s. mp_source (f s) = mg_source g \<and> mp_target (f s) = mg_target g" for f m
    using that by (simp add: triple_def checked_preview_def)
  show ?thesis unfolding preflight_inner_def Let_def
    apply (rule triple_keep [OF keeps_checked], assumption)
    apply (rule triple_keep [OF keeps_checked], assumption)
    apply (rule triple_keep [OF keeps_guard], assumption)
    apply (rule triple_keep [OF keeps_checked], assumption)
    apply (rule triple_keep [OF keeps_ancestors [OF r]], assumption)
    apply (rule triple_keep [OF keeps_ensure], assumption)
    apply (rule triple_bind [OF scan])
    apply (rule triple_fact)
    apply (rule triple_keep [OF keeps_target_check [OF r]], assumption)
    apply (rule triple_keep [OF create], assumption)
    apply (rule triple_keep [OF keeps_ensure], assumption)
    apply (rule triple_keep [OF keeps_probe [OF r]], assumption)
    apply (rule triple_keep [OF keeps_space [OF r]], assumption)
    apply (rule triple_keep [OF keeps_ensure], assumption)
    apply (rule result, assumption)
    apply simp
    done
qed

section \<open>The worker\<close>

text \<open>The value the pointers have after the commit.\<close>

definition committed :: "root_pointer \<Rightarrow> migration \<Rightarrow> host_path option \<Rightarrow> host_path option \<Rightarrow> bool" where
  "committed pointer g platform portable \<longleftrightarrow>
     (case pointer of
        PointerPlatform \<Rightarrow> platform = Some (mg_target g) \<and> portable = ms_portable_root (mg_before g)
      | PointerPortable d \<Rightarrow> platform = ms_platform_root (mg_before g)
          \<and> portable = (if mg_target g = d then None else Some (mg_target g)))"

definition marker_node :: "mig_env \<Rightarrow> migration \<Rightarrow> host_node option \<Rightarrow> bool" where
  "marker_node env g v \<longleftrightarrow> (\<exists>c m. v = Some (HFile c) \<and> me_parse_marker env c = Some m
     \<and> cm_migration_id m = mg_id g \<and> cm_previous_root m = mg_source g)"

definition marker_ok :: "mig_env \<Rightarrow> bool" where
  "marker_ok env \<longleftrightarrow> (\<forall>m. me_parse_marker env (me_print_marker env m) = Some m)"

definition marked :: "mig_env \<Rightarrow> migration \<Rightarrow> mig_state \<Rightarrow> bool" where
  "marked env g = settled env g (\<lambda>platform portable v. platform = ms_platform_root (mg_before g)
     \<and> portable = ms_portable_root (mg_before g) \<and> marker_node env g v)"

definition switched :: "mig_env \<Rightarrow> root_pointer \<Rightarrow> migration \<Rightarrow> mig_state \<Rightarrow> bool" where
  "switched env pointer g = settled env g (\<lambda>platform portable v. committed pointer g platform portable \<and> marker_node env g v)"

definition either :: "mig_env \<Rightarrow> root_pointer \<Rightarrow> migration \<Rightarrow> mig_state \<Rightarrow> bool" where
  "either env pointer g s \<longleftrightarrow> unmoved env g s \<or> switched env pointer g s"

definition completed :: "mig_env \<Rightarrow> root_pointer \<Rightarrow> migration \<Rightarrow> mig_state \<Rightarrow> bool" where
  "completed env pointer g s \<longleftrightarrow> switched env pointer g s \<and> (\<exists>c j. journal_of g j \<and> mj_phase j = MCompleted
     \<and> lookup (mg_target g @ [journal_file]) (ms_host s) = Some (HFile c) \<and> me_parse_journal env c = Some j)"

lemma marked_unmoved: "marked env g s \<Longrightarrow> unmoved env g s"
  by (simp add: marked_def settled_def unmoved_def)

lemma triple_marker:
  assumes r: "ready env g" and m: "marker_ok env"
  shows "triple (\<lambda>s. copied env g s \<and> unmoved env g s) (write_complete_marker env mf)
     (\<lambda>_. marked env g) (unmoved env g)"
proof (rule tripleI)
  fix s x s'
  assume s: "copied env g s \<and> unmoved env g s" and w: "write_complete_marker env mf s = (Inr x, s')"
  have j: "mj_target (ms_journal s) = mg_target g" "mj_source (ms_journal s) = mg_source g"
      "mj_migration_id (ms_journal s) = mg_id g"
    using s by (auto dest!: unmoved_journal simp: journal_of_def)
  define c where "c = me_print_marker env
          \<lparr>cm_migration_id = mj_migration_id (ms_journal s), cm_previous_root = mj_source (ms_journal s),
           cm_file_count = dm_file_count mf, cm_total_bytes = dm_total_bytes mf, cm_completed_at = now_ms env s\<rparr>"
  from w have w: "write_atomic env (mg_target g @ [complete_file]) c s = (Inr x, s')"
    by (simp add: write_complete_marker_def j c_def)
  have s': "s' = on_host (put (mg_target g @ [complete_file]) (HFile c)) (s\<lparr>ms_tick := Suc (ms_tick s)\<rparr>)"
    using write_atomic_Inr [OF w] by simp
  have "copied env g (s\<lparr>ms_tick := Suc (ms_tick s)\<rparr>)" using s by (simp add: copied_def)
  from copied_put_marker [OF this] have "copied env g s'" by (simp add: s')
  moreover have "unmoved env g s'"
    using keepsD [OF keeps_marker [OF r], of s mf] s w by (simp add: write_complete_marker_def j c_def)
  moreover have "marker_node env g (host (mg_target g @ [complete_file]) s')"
    using write_atomic_lookup [OF w] m j by (auto simp: marker_node_def host_def c_def marker_ok_def)
  ultimately show "marked env g s'" by (simp add: marked_def settled_def unmoved_def)
next
  fix s e s'
  assume s: "copied env g s \<and> unmoved env g s" and w: "write_complete_marker env mf s = (Inl e, s')"
  show "unmoved env g s'" using keepsD [OF keeps_marker [OF r], of s mf] s w by simp
qed

lemma triple_commit:
  "triple (marked env g) (pointer_commit env pointer (mg_target g)) (\<lambda>_. switched env pointer g) (unmoved env g)"
proof (rule tripleI)
  fix s x s'
  assume s: "marked env g s" and c: "pointer_commit env pointer (mg_target g) s = (Inr x, s')"
  show "switched env pointer g s'"
  proof (cases pointer)
    case PointerPlatform
    with s c show ?thesis
      by (auto simp: marked_def switched_def settled_def committed_def pointer_commit_def io_def Let_def kept_def
          copied_def host_def split: option.splits fault.splits)
  next
    case (PointerPortable d)
    with s c show ?thesis
      by (auto simp: marked_def switched_def settled_def committed_def pointer_commit_def io_def Let_def kept_def
          copied_def host_def split: option.splits fault.splits if_splits)
  qed
next
  fix s e s'
  assume s: "marked env g s" and c: "pointer_commit env pointer (mg_target g) s = (Inl e, s')"
  then have "s' = s\<lparr>ms_tick := Suc (ms_tick s)\<rparr>"
    by (auto simp: pointer_commit_def io_def Let_def split: root_pointer.splits option.splits fault.splits if_splits)
  with marked_unmoved [OF s] show "unmoved env g s'" by simp
qed

lemma keeps_switched_phase: "ready env g \<Longrightarrow> keeps (switched env pointer g) (enter_phase env phase)"
  unfolding switched_def by (rule keeps_settled_phase)

lemma triple_completed:
  assumes r: "ready env g"
  shows "triple (switched env pointer g) (enter_phase env MCompleted) (\<lambda>_. completed env pointer g)
     (switched env pointer g)"
proof (rule tripleI)
  fix s x s' assume s: "switched env pointer g s" and e: "enter_phase env MCompleted s = (Inr x, s')"
  have s': "switched env pointer g s'" using keepsD [OF keeps_switched_phase [OF r] s] e by (metis snd_conv)
  then have "journal_at env g (mg_target g) (ms_host s')" by (simp add: switched_def settled_def copied_def)
  with journal_at_dir [OF this] have "host (mg_target g) s' \<noteq> None" by (auto simp: host_def elim: is_dir.elims)
  moreover have j: "journal_of g (ms_journal s)" using s by (simp add: switched_def settled_journal)
  ultimately show "completed env pointer g s'"
    using enter_phase_target [OF ready_serde [OF r] j e] s' by (auto simp: completed_def)
next
  fix s e' s' assume s: "switched env pointer g s" and e: "enter_phase env MCompleted s = (Inl e', s')"
  show "switched env pointer g s'" using keepsD [OF keeps_switched_phase [OF r] s] e by (metis snd_conv)
qed

lemma triple_to_either:
  "triple I m Q (unmoved env g) \<Longrightarrow> triple I m Q (either env pointer g)"
  by (erule triple_conseq) (simp_all add: either_def)

lemma triple_worker_work:
  assumes r: "ready env g" and m: "marker_ok env"
  shows "triple (unmoved env g) (worker_work env pointer (mg_source g) (mg_target g))
     (\<lambda>_. completed env pointer g) (either env pointer g)"
proof -
  note pre = triple_preflight [OF r]
  have preflight: "triple (unmoved env g)
      (\<lambda>s. or_else_st (preflight_inner env (mg_source g) (mg_target g) (now_ms env s) False)
                (\<lambda>_ s. preflight_inner env (mg_source g) (mg_target g) (now_ms env s) True s) s)
      (\<lambda>p s. checked_preview env g p \<and> unmoved env g s) (unmoved env g)"
  proof -
    have "triple (unmoved env g) (\<lambda>s. preflight_inner env (mg_source g) (mg_target g) (now_ms env s) True s)
        (\<lambda>p s. checked_preview env g p \<and> unmoved env g s) (unmoved env g)"
      using pre [of _ True] by (simp add: triple_def)
    then have "triple (unmoved env g) (or_else_st (preflight_inner env (mg_source g) (mg_target g) now False)
                (\<lambda>_ s. preflight_inner env (mg_source g) (mg_target g) (now_ms env s) True s))
        (\<lambda>p s. checked_preview env g p \<and> unmoved env g s) (unmoved env g)" for now
      by (rule triple_or_else [OF pre])
    then show ?thesis by (simp add: triple_def)
  qed
  have change: "keeps (unmoved env g) (\<lambda>s. on_journal (\<lambda>j. j\<lparr>mj_file_count := a, mj_total_bytes := b,
      mj_copied_files := 0, mj_copied_bytes := 0, mj_updated_at := now_ms env s\<rparr>) s)" for a b
    by (rule keeps_journal_change) (rule journal_of_changes)
  have rest: "triple (unmoved env g)
     (bind_st (\<lambda>s. on_journal (\<lambda>j. j\<lparr>mj_file_count := dm_file_count mf,
                mj_total_bytes := dm_total_bytes mf, mj_copied_files := 0, mj_copied_bytes := 0,
                mj_updated_at := now_ms env s\<rparr>) s) (\<lambda>_.
     bind_st (save_journal env) (\<lambda>_.
     bind_st (copy_and_verify env (mp_source pv) (mp_target pv) mf (mp_retryable pv)) (\<lambda>_.
     bind_st (write_complete_marker env mf) (\<lambda>_.
     bind_st (pointer_commit env pointer (mg_target g)) (\<lambda>_.
     bind_st (enter_phase env MSwitched) (\<lambda>_.
     enter_phase env MCompleted)))))))
     (\<lambda>_. completed env pointer g) (either env pointer g)" if c: "checked_preview env g (pv, mf)" for pv mf
  proof -
    have paths: "mp_source pv = mg_source g" "mp_target pv = mg_target g" and sc: "scanned env g mf"
      using c by (simp_all add: checked_preview_def)
    show ?thesis unfolding paths
      apply (rule triple_keep [OF change], simp add: either_def)
      apply (rule triple_keep [OF keeps_save_journal [OF r]], simp add: either_def)
      apply (rule triple_bind [OF triple_to_either [OF triple_copy_and_verify [OF r sc]]])
      apply (rule triple_bind [OF triple_to_either [OF triple_marker [OF r m]]])
      apply (rule triple_bind [OF triple_to_either [OF triple_commit]])
      apply (rule triple_keep [OF keeps_switched_phase [OF r]], simp add: either_def)
      apply (rule triple_conseq [OF triple_completed [OF r, of pointer]], simp_all add: either_def)
      done
  qed
  show ?thesis unfolding worker_work_def
    apply (rule triple_keep [OF keeps_nop [OF r]], simp add: either_def)
    apply (rule triple_bind [OF triple_to_either [OF preflight]])
    apply (split prod.split, intro allI impI)
    apply (rule triple_fact, rule rest)
    apply simp
    done
qed

text \<open>Before the worker has read the journal, and after the run: its variable does not matter.\<close>

definition forget :: "(mig_state \<Rightarrow> bool) \<Rightarrow> mig_state \<Rightarrow> bool" where
  "forget I s \<longleftrightarrow> (\<exists>j. I (s\<lparr>ms_journal := j\<rparr>))"

lemma forgetI: "I s \<Longrightarrow> forget I s"
  unfolding forget_def by (rule exI [of _ "ms_journal s"]) simp

lemma keeps_forget:
  assumes "\<And>s t. I (s\<lparr>ms_tick := t\<rparr>) = I s"
  shows "keeps (forget I) (io env nop)"
proof (rule keeps_io)
  fix s t assume "forget I s"
  then obtain j where j: "I (s\<lparr>ms_journal := j\<rparr>)" by (auto simp: forget_def)
  have "s\<lparr>ms_tick := t, ms_journal := j\<rparr> = s\<lparr>ms_journal := j\<rparr>\<lparr>ms_tick := t\<rparr>" by simp
  with j assms show "forget I (s\<lparr>ms_tick := t\<rparr>)" unfolding forget_def by metis
qed (simp add: nop_def)

lemma keeps_forget_io: "keeps (forget (unmoved env g)) (io env nop)"
  by (rule keeps_forget) simp

lemma triple_load:
  "triple (forget (unmoved env g)) (journal_load env (mg_source g @ [journal_file]))
     (\<lambda>j s. journal_of g j \<and> forget (unmoved env g) s) (forget (unmoved env g))"
proof -
  have rd: "triple (forget (unmoved env g)) (read_file env (mg_source g @ [journal_file]))
      (\<lambda>c s. (\<exists>j. me_parse_journal env c = Some j \<and> journal_of g j) \<and> forget (unmoved env g) s) (forget (unmoved env g))"
    unfolding read_file_def
    by (rule triple_keep [OF keeps_forget_io], assumption)
      (fastforce simp: triple_def forget_def unmoved_def kept_def journal_at_def host_def)
  show ?thesis unfolding journal_load_def
    apply (rule triple_bind [OF rd])
    apply (rule triple_fact)
    apply (rule triple_bind)
     apply (rule triple_checked [where Q = "\<lambda>j s. journal_of g j \<and> forget (unmoved env g) s"])
      apply (auto simp: ok_or_def split: option.splits) [2]
    apply (rule triple_fact)
    apply (rule triple_keep [OF keeps_checked], assumption)
    apply (rule triple_ret, simp)
    done
qed

lemma triple_validate_journal:
  "triple (forget (unmoved env g)) (validate_worker_journal env (mg_source g @ [journal_file]))
     (\<lambda>j s. journal_of g j \<and> forget (unmoved env g) s) (forget (unmoved env g))"
  unfolding validate_worker_journal_def
  apply (rule triple_keep [OF keeps_ensure], assumption)
  apply (rule triple_bind [OF triple_load])
  apply (rule triple_fact)
  apply (rule triple_keep [OF keeps_ensure], assumption)
  apply (rule triple_keep [OF keeps_ensure], assumption)
  apply (rule triple_ret, simp)
  done

lemma keeps_either_failure:
  assumes r: "ready env g" shows "keeps (either env pointer g) (record_failure env e)"
proof (rule keepsI)
  fix s assume "either env pointer g s"
  then show "either env pointer g (snd (record_failure env e s))"
    unfolding either_def switched_def
    using keepsD [OF keeps_record_failure [OF r]] keepsD [OF keeps_settled_failure [OF r]] by blast
qed

lemma journal_of_paths: "journal_of g j \<Longrightarrow> mj_source j = mg_source g \<and> mj_target j = mg_target g"
  by (simp add: journal_of_def)

definition finished :: "mig_env \<Rightarrow> root_pointer \<Rightarrow> migration \<Rightarrow> migration_phase \<Rightarrow> mig_state \<Rightarrow> bool" where
  "finished env pointer g phase = (if phase = MCompleted then completed env pointer g else either env pointer g)"

lemma triple_run_worker:
  assumes r: "ready env g" and m: "marker_ok env"
  shows "triple (forget (unmoved env g)) (run_worker env pointer (mg_source g @ [journal_file]))
     (\<lambda>phase. finished env pointer g phase) (forget (either env pointer g))"
proof -
  have weak: "forget (unmoved env g) s \<Longrightarrow> forget (either env pointer g) s" for s
    by (auto simp: forget_def either_def)
  have set_journal: "triple (forget (unmoved env g)) (\<lambda>s. (Inr (), s\<lparr>ms_journal := j\<rparr>)) (\<lambda>_. unmoved env g) E"
    if "journal_of g j" for j E
    using that by (auto simp: triple_def forget_def unmoved_def kept_def)
  have work: "triple (unmoved env g)
      (or_else_st (bind_st (worker_work env pointer (mg_source g) (mg_target g)) (\<lambda>_. ret_st MCompleted))
        (\<lambda>e. bind_st (record_failure env e) (\<lambda>_. ret_st MFailed)))
      (finished env pointer g) (either env pointer g)"
    apply (rule triple_or_else)
     apply (rule triple_bind [OF triple_worker_work [OF r m]])
     apply (rule triple_ret, simp add: finished_def)
    apply (rule triple_keep [OF keeps_either_failure [OF r]], assumption)
    apply (rule triple_ret, simp add: finished_def)
    done
  note final = triple_conseq [where I' = "unmoved env g" and Q' = "finished env pointer g", OF work _ _ forgetI, simplified]
  have rest: "keeps (finished env pointer g phase) (io env nop)" for phase
    by (rule keeps_io) (auto simp: nop_def finished_def completed_def either_def switched_def split: if_splits)
  have fin: "finished env pointer g phase s \<Longrightarrow> forget (either env pointer g) s" for phase s
    by (auto simp: finished_def completed_def either_def intro: forgetI split: if_splits)
  show ?thesis unfolding run_worker_def
    apply (rule triple_bind [OF triple_conseq [OF triple_validate_journal _ _ weak]])
       apply assumption
      apply assumption
     apply assumption
    apply (rule triple_fact)
    apply (frule journal_of_paths)
    apply (simp only:)
    apply (rule triple_bind, erule set_journal)
    apply (rule triple_bind, rule final, assumption)
    apply (rule triple_keep [OF rest fin], assumption)
    apply (rule triple_ret, assumption)
    done
qed

end
