(* ===== verification/Migration_Recovery.thy ===== *)
theory Migration_Recovery
  imports Migration_Switch
begin

text \<open>
  The start of the program after a run of the migration worker, whether that ended, failed or died.
\<close>

section \<open>Reading the journal back\<close>

definition calm :: "mig_env \<Rightarrow> mig_env" where
  "calm env = env\<lparr>me_fault := \<lambda>_. None\<rparr>"

lemma calm_simps [simp]:
  "me_fault (calm env) t = None" "me_parse_journal (calm env) = me_parse_journal env"
  "me_parse_marker (calm env) = me_parse_marker env"
  by (simp_all add: calm_def)

lemma io_calm [simp]: "io (calm env) f s = (Inr (), f (s\<lparr>ms_tick := Suc (ms_tick s)\<rparr>))"
  by (simp add: io_def Let_def)

lemma journal_of_valid: "ready env g \<Longrightarrow> journal_of g j \<Longrightarrow> journal_validate j = Inr ()"
  using ready_apart [of env g] by (auto simp: journal_validate_def journal_of_def)

lemma journal_load_calm:
  assumes "ready env g" and "journal_of g j" and "lookup p (ms_host s) = Some (HFile c)" and "me_parse_journal env c = Some j"
  shows "journal_load (calm env) p s = (Inr j, s\<lparr>ms_tick := Suc (ms_tick s)\<rparr>)"
  using assms(3,4) journal_of_valid [OF assms(1,2)]
  by (simp add: journal_load_def read_file_def bind_st_def nop_def host_def checked_def ok_or_def ret_st_def)

definition pointer_of :: "data_root_source \<Rightarrow> host_path \<Rightarrow> root_pointer" where
  "pointer_of mode executable_directory =
     (if mode = RootPortableCustom \<or> mode = RootPortableDefault
      then PointerPortable (executable_directory @ [''data'']) else PointerPlatform)"

text \<open>The start before the migration: the program took the old directory from its pointer.\<close>

definition started :: "bool \<Rightarrow> host_path \<Rightarrow> migration \<Rightarrow> bool" where
  "started portable exe g \<longleftrightarrow> resolve_data_root (runtime_inputs None portable exe (mg_before g))
     = Inr \<lparr>dr_source = mg_mode g, dr_path = Some (mg_source g), dr_mutable = True\<rparr>"

lemma started_unmoved:
  assumes "started portable exe g" and "unmoved env g s"
  shows "resolve_data_root (runtime_inputs None portable exe s)
     = Inr \<lparr>dr_source = mg_mode g, dr_path = Some (mg_source g), dr_mutable = True\<rparr>"
  using assms by (cases portable) (simp_all add: started_def runtime_inputs_def unmoved_def)

lemma started_committed:
  assumes "started portable exe g"
    and "committed (pointer_of (mg_mode g) exe) g (ms_platform_root s) (ms_portable_root s)"
  shows "\<exists>src. src \<noteq> RootEnvironment \<and> resolve_data_root (runtime_inputs None portable exe s)
     = Inr \<lparr>dr_source = src, dr_path = Some (mg_target g), dr_mutable = True\<rparr>"
  using assms
  by (auto simp: started_def runtime_inputs_def resolve_data_root_def committed_def pointer_of_def ok_or_def
      split: option.splits if_splits)

text \<open>Falling back to the old directory makes the pointer lead there again.\<close>

definition fall_back :: "data_root_source \<Rightarrow> host_path \<Rightarrow> mig_state \<Rightarrow> mig_state" where
  "fall_back mode p s =
     (case mode of
        RootPortableDefault \<Rightarrow> s\<lparr>ms_portable_root := None\<rparr>
      | RootPortableCustom \<Rightarrow> s\<lparr>ms_portable_root := Some p\<rparr>
      | _ \<Rightarrow> s\<lparr>ms_platform_root := Some p\<rparr>)"

lemma started_fall_back:
  assumes "started portable exe g"
  shows "resolve_data_root (runtime_inputs None portable exe (fall_back (mg_mode g) (mg_source g) s))
     = Inr \<lparr>dr_source = mg_mode g, dr_path = Some (mg_source g), dr_mutable = True\<rparr>"
  using assms
  by (auto simp: started_def runtime_inputs_def resolve_data_root_def fall_back_def ok_or_def
      split: option.splits if_splits)

lemma started_mode:
  "started portable exe g \<Longrightarrow> mg_mode g \<in> {RootPlatform, RootPortableCustom, RootPortableDefault}"
  by (auto simp: started_def runtime_inputs_def resolve_data_root_def ok_or_def
      split: option.splits if_splits)

section \<open>What the next start does\<close>

lemma recover_unmoved:
  assumes r: "ready env g" and j: "journal_at env g (mg_source g) (ms_host s)"
  shows "recover_runtime_resolution (calm env) \<lparr>dr_source = m, dr_path = Some (mg_source g), dr_mutable = True\<rparr> s
     = (Inr \<lparr>dr_source = m, dr_path = Some (mg_source g), dr_mutable = True\<rparr>, s\<lparr>ms_tick := Suc (ms_tick s)\<rparr>)"
proof -
  obtain c j where c: "lookup (mg_source g @ [journal_file]) (ms_host s) = Some (HFile c)"
    "me_parse_journal env c = Some j" "journal_of g j" using j by (auto simp: journal_at_def)
  have "mg_source g \<noteq> mg_target g" using ready_apart [OF r] by auto
  with c journal_load_calm [OF r c(3,1,2)] show ?thesis
    by (simp add: recover_runtime_resolution_def host_def bind_st_def checked_def migration_recovery_resolution_def
        journal_of_def ret_st_def)
qed

lemma recover_switched:
  assumes r: "ready env g" and st: "started portable exe g"
    and j: "lookup (mg_target g @ [journal_file]) (ms_host s) = Some (HFile c)" "me_parse_journal env c = Some j" "journal_of g j"
    and d: "is_dir (lookup (mg_source g) (ms_host s))" and src: "src \<noteq> RootEnvironment"
  defines "ok \<equiv> mj_phase j = MCompleted \<and> completion_marker_is_valid env (mg_target g) j s"
  shows "recover_runtime_resolution (calm env) \<lparr>dr_source = src, dr_path = Some (mg_target g), dr_mutable = True\<rparr> s
     = (if ok then (Inr \<lparr>dr_source = src, dr_path = Some (mg_target g), dr_mutable = True\<rparr>, s\<lparr>ms_tick := Suc (ms_tick s)\<rparr>)
        else (Inr \<lparr>dr_source = mg_mode g, dr_path = Some (mg_source g), dr_mutable = True\<rparr>,
              fall_back (mg_mode g) (mg_source g) (s\<lparr>ms_tick := Suc (Suc (ms_tick s))\<rparr>)))"
proof -
  have ne: "mg_source g \<noteq> mg_target g" using ready_apart [OF r] by auto
  have marker: "completion_marker_is_valid (calm env) p j (s\<lparr>ms_tick := t\<rparr>) = completion_marker_is_valid env p j s" for p t
    by (simp add: completion_marker_is_valid_def host_def split: option.split host_node.split)
  show ?thesis
  proof (cases ok)
    case True
    with j journal_load_calm [OF r j(3,1,2)] src show ?thesis
      by (simp add: recover_runtime_resolution_def host_def bind_st_def checked_def migration_recovery_resolution_def
        journal_of_def ret_st_def marker ok_def)
  next
    case False
    then have ok: "\<not> (mj_phase j = MCompleted \<and> completion_marker_is_valid env (mg_target g) j s)" by (simp add: ok_def)
    have mode: "mg_mode g \<noteq> RootEnvironment" "mg_mode g \<noteq> RootNeedsSelection" using started_mode [OF st] by auto
    have res: "migration_recovery_resolution \<lparr>dr_source = src, dr_path = Some (mg_target g), dr_mutable = True\<rparr> j
        (completion_marker_is_valid env (mg_target g) j s) (s\<lparr>ms_tick := t\<rparr>)
      = Inr (Some \<lparr>dr_source = mg_mode g, dr_path = Some (mg_source g), dr_mutable = True\<rparr>)" for t
      using j(3) ok src d ne mode by (auto simp: migration_recovery_resolution_def journal_of_def host_def)
    have load: "journal_load (calm env) (mg_target g @ [journal_file]) s = (Inr j, s\<lparr>ms_tick := Suc (ms_tick s)\<rparr>)"
      by (rule journal_load_calm [OF r j(3,1,2)])
    from started_mode [OF st] False show ?thesis
      by (auto simp: recover_runtime_resolution_def host_def j(1) load bind_st_def checked_def marker res ret_st_def fall_back_def)
  qed
qed

definition next_start :: "mig_env \<Rightarrow> bool \<Rightarrow> host_path \<Rightarrow> mig_state \<Rightarrow> (stop + data_root_resolution) \<times> mig_state"
where
  "next_start env portable exe = resolve_runtime_data_root (calm env) None portable exe"

text \<open>The data of a migration is at a directory, and the program takes it from there from now on.\<close>

definition served_from :: "mig_env \<Rightarrow> bool \<Rightarrow> host_path \<Rightarrow> migration \<Rightarrow> host_path \<Rightarrow> mig_state \<Rightarrow> bool" where
  "served_from env portable exe g p s \<longleftrightarrow> (\<exists>R s2. next_start env portable exe s = (Inr R, s2)
     \<and> dr_path R = Some p \<and> resolve_data_root (runtime_inputs None portable exe s2) = Inr R
     \<and> same_data env (mg_source g) (ms_host (mg_before g)) (mg_source g) (ms_host s2)
     \<and> same_data env (mg_source g) (ms_host (mg_before g)) p (ms_host s2))"

lemma next_start_resolved:
  "resolve_data_root (runtime_inputs None portable exe s) = Inr R \<Longrightarrow>
     next_start env portable exe s = recover_runtime_resolution (calm env) R s"
  by (simp add: next_start_def resolve_runtime_data_root_def bind_st_def checked_def)

lemma kept_same: "kept env g s \<Longrightarrow> same_data env (mg_source g) (ms_host (mg_before g)) (mg_source g) (ms_host s)"
  by (simp add: kept_def same_data_def content_def)

lemma runtime_inputs_more [simp]:
  "runtime_inputs e portable exe (s\<lparr>ms_tick := t\<rparr>) = runtime_inputs e portable exe s"
  "runtime_inputs e portable exe (s\<lparr>ms_journal := j\<rparr>) = runtime_inputs e portable exe s"
  by (simp_all add: runtime_inputs_def)

lemma fall_back_host [simp]: "ms_host (fall_back m p s) = ms_host s"
  by (cases m) (simp_all add: fall_back_def)

lemma served_unmoved:
  assumes r: "ready env g" and st: "started portable exe g" and u: "forget (unmoved env g) s"
  shows "served_from env portable exe g (mg_source g) s"
proof -
  obtain v where v: "unmoved env g (s\<lparr>ms_journal := v\<rparr>)" using u by (auto simp: forget_def)
  then have k: "kept env g (s\<lparr>ms_journal := v\<rparr>)" by (simp add: unmoved_def)
  then have "journal_at env g (mg_source g) (ms_host s)" by (simp add: kept_def)
  from recover_unmoved [OF r this] next_start_resolved started_unmoved [OF st v] kept_same [OF k]
  show ?thesis by (simp add: served_from_def)
qed

lemma served_switched:
  assumes r: "ready env g" and st: "started portable exe g"
    and sw: "forget (switched env (pointer_of (mg_mode g) exe) g) s"
  shows "served_from env portable exe g (mg_source g) s \<or> served_from env portable exe g (mg_target g) s"
    and "completed env (pointer_of (mg_mode g) exe) g s \<Longrightarrow> served_from env portable exe g (mg_target g) s"
proof -
  obtain v where v: "switched env (pointer_of (mg_mode g) exe) g (s\<lparr>ms_journal := v\<rparr>)" using sw by (auto simp: forget_def)
  then have k: "kept env g (s\<lparr>ms_journal := v\<rparr>)" and c: "copied env g (s\<lparr>ms_journal := v\<rparr>)"
    by (simp_all add: switched_def settled_def)
  have d: "is_dir (lookup (mg_source g) (ms_host s))" using k by (simp add: kept_def)
  obtain src where src: "src \<noteq> RootEnvironment" and res: "resolve_data_root (runtime_inputs None portable exe s)
     = Inr \<lparr>dr_source = src, dr_path = Some (mg_target g), dr_mutable = True\<rparr>"
    using started_committed [OF st, of s] v by (auto simp: switched_def settled_def)
  obtain f j where j: "lookup (mg_target g @ [journal_file]) (ms_host s) = Some (HFile f)"
    "me_parse_journal env f = Some j" "journal_of g j" using c by (auto simp: copied_def journal_at_def)
  have data: "same_data env (mg_source g) (ms_host (mg_before g)) (mg_target g) (ms_host s)"
    using c by (simp add: copied_def)
  have old: "same_data env (mg_source g) (ms_host (mg_before g)) (mg_source g) (ms_host s)"
    using kept_same [OF k] by simp
  note after = next_start_resolved [OF res, of env, unfolded recover_switched [OF r st j d src]]
  show "served_from env portable exe g (mg_source g) s \<or> served_from env portable exe g (mg_target g) s"
    using after old data res started_fall_back [OF st]
    by (cases "mj_phase j = MCompleted \<and> completion_marker_is_valid env (mg_target g) j s") (auto simp: served_from_def)
  assume "completed env (pointer_of (mg_mode g) exe) g s"
  then have "mj_phase j = MCompleted" "marker_node env g (host (mg_target g @ [complete_file]) s)"
    using j by (auto simp: completed_def switched_def settled_def)
  then have "mj_phase j = MCompleted \<and> completion_marker_is_valid env (mg_target g) j s"
    using j(3) by (auto simp: completion_marker_is_valid_def marker_node_def journal_of_def)
  then show "served_from env portable exe g (mg_target g) s"
    using after old data res by (simp add: served_from_def)
qed

lemma served_either:
  assumes "ready env g" and "started portable exe g" and "forget (either env (pointer_of (mg_mode g) exe) g) s"
  shows "served_from env portable exe g (mg_source g) s \<or> served_from env portable exe g (mg_target g) s"
  using assms(3) served_unmoved [OF assms(1,2)] served_switched(1) [OF assms(1,2)]
  by (auto simp: forget_def either_def)

section \<open>The whole migration\<close>

lemma triple_run_system_worker:
  assumes r: "ready env g" and m: "marker_ok env" and st: "started portable exe g"
  shows "triple (forget (unmoved env g)) (run_system_worker env exe (mg_source g @ [journal_file]))
    (\<lambda>phase s. finished env (pointer_of (mg_mode g) exe) g phase s)
    (forget (either env (pointer_of (mg_mode g) exe) g))"
proof -
  have weak: "triple I m Q (forget (unmoved env g)) \<Longrightarrow> triple I m Q (forget (either env (pointer_of (mg_mode g) exe) g))"
    for I Q and m :: "'b mig_op"
    by (erule triple_conseq) (auto simp: forget_def either_def)
  show ?thesis unfolding run_system_worker_def
    apply (rule triple_bind [OF weak [OF triple_validate_journal]])
    apply (rule triple_fact)
    subgoal for j
      using started_mode [OF st] triple_run_worker [OF r m, of "pointer_of (mg_mode g) exe"]
      by (auto simp: journal_of_def pointer_of_def bind_st_def ret_st_def)
    done
qed

end
