(* ===== verification/Migration_Text.thy ===== *)
theory Migration_Text
  imports Migration_Recovery
begin

text \<open>
  The migration as a whole, with an example. The program prints its journal and its completion marker
  with \<^verbatim>\<open>serde_json\<close>, which the theorem relies on for one thing: it reads back what it wrote. A text
  form that does shows that this can be met.
\<close>

section \<open>Writers and readers\<close>

type_synonym 'a form = "('a \<Rightarrow> string) \<times> (string \<Rightarrow> ('a \<times> string) option)"

definition reads_back :: "'a form \<Rightarrow> bool" where
  "reads_back f \<longleftrightarrow> (\<forall>x r. snd f (fst f x @ r) = Some (x, r))"

fun write_nat :: "nat \<Rightarrow> string" where
  "write_nat 0 = ''0''"
| "write_nat (Suc n) = CHR ''1'' # write_nat n"

fun read_nat :: "string \<Rightarrow> (nat \<times> string) option" where
  "read_nat [] = None"
| "read_nat (c # r) =
     (if c = CHR ''0'' then Some (0, r) else map_option (\<lambda>(n, r). (Suc n, r)) (read_nat r))"

definition nat_form :: "nat form" where
  "nat_form = (write_nat, read_nat)"

definition char_form :: "char form" where
  "char_form = ((\<lambda>c. [c]), (\<lambda>s. case s of [] \<Rightarrow> None | c # r \<Rightarrow> Some (c, r)))"

definition conv_form :: "('a \<Rightarrow> 'b) \<Rightarrow> ('b \<Rightarrow> 'a) \<Rightarrow> 'b form \<Rightarrow> 'a form" where
  "conv_form to from f = (\<lambda>x. fst f (to x), \<lambda>s. map_option (\<lambda>(y, r). (from y, r)) (snd f s))"

definition pair_form :: "'a form \<Rightarrow> 'b form \<Rightarrow> ('a \<times> 'b) form" where
  "pair_form f g = (\<lambda>(x, y). fst f x @ fst g y,
     \<lambda>s. Option.bind (snd f s) (\<lambda>(x, r). map_option (\<lambda>(y, r). ((x, y), r)) (snd g r)))"

fun read_list :: "'a form \<Rightarrow> nat \<Rightarrow> string \<Rightarrow> ('a list \<times> string) option" where
  "read_list f 0 r = Some ([], r)"
| "read_list f (Suc n) r =
     Option.bind (snd f r) (\<lambda>(x, r). map_option (\<lambda>(xs, r). (x # xs, r)) (read_list f n r))"

definition list_form :: "'a form \<Rightarrow> 'a list form" where
  "list_form f = (\<lambda>xs. write_nat (length xs) @ concat (map (fst f) xs),
     \<lambda>s. Option.bind (read_nat s) (\<lambda>(n, r). read_list f n r))"

lemma read_write_nat [simp]: "read_nat (write_nat n @ r) = Some (n, r)"
  by (induction n) simp_all

lemma nat_form_ok: "reads_back nat_form"
  by (simp add: reads_back_def nat_form_def)

lemma char_form_ok: "reads_back char_form"
  by (simp add: reads_back_def char_form_def)

lemma conv_form_ok: "(\<And>x. from (to x) = x) \<Longrightarrow> reads_back f \<Longrightarrow> reads_back (conv_form to from f)"
  by (simp add: reads_back_def conv_form_def)

lemma pair_form_ok: "reads_back f \<Longrightarrow> reads_back g \<Longrightarrow> reads_back (pair_form f g)"
  by (simp add: reads_back_def pair_form_def)

lemma list_form_ok:
  assumes "reads_back f" shows "reads_back (list_form f)"
proof -
  have "read_list f (length xs) (concat (map (fst f) xs) @ r) = Some (xs, r)" for xs r
    using assms by (induction xs) (simp_all add: reads_back_def)
  then show ?thesis by (simp add: reads_back_def list_form_def)
qed

section \<open>The fields\<close>

definition string_form :: "string form" where
  "string_form = list_form char_form"

definition path_form :: "host_path form" where
  "path_form = list_form string_form"

definition word_form :: "'a::len word form" where
  "word_form = conv_form unat word_of_nat nat_form"

definition int_form :: "int form" where
  "int_form = conv_form (\<lambda>i. if i < 0 then 2 * nat (- i - 1) + 1 else 2 * nat i)
     (\<lambda>n. if odd n then - int (n div 2) - 1 else int (n div 2)) nat_form"

definition bool_form :: "bool form" where
  "bool_form = conv_form (\<lambda>b. if b then 1 else 0) (\<lambda>n. n = 1) nat_form"

definition source_form :: "data_root_source form" where
  "source_form = conv_form
     (\<lambda>m. case m of RootEnvironment \<Rightarrow> 0 | RootPortableCustom \<Rightarrow> 1 | RootPortableDefault \<Rightarrow> 2
        | RootPlatform \<Rightarrow> 3 | RootRegistry \<Rightarrow> 4 | RootNeedsSelection \<Rightarrow> 5)
     (\<lambda>n. [RootEnvironment, RootPortableCustom, RootPortableDefault, RootPlatform, RootRegistry,
        RootNeedsSelection] ! (min n 5)) nat_form"

definition phase_form :: "migration_phase form" where
  "phase_form = conv_form
     (\<lambda>p. case p of MPrepared \<Rightarrow> 0 | MCopying \<Rightarrow> 1 | MVerifying \<Rightarrow> 2 | MSwitched \<Rightarrow> 3 | MCompleted \<Rightarrow> 4 | MFailed \<Rightarrow> 5)
     (\<lambda>n. [MPrepared, MCopying, MVerifying, MSwitched, MCompleted, MFailed] ! (min n 5)) nat_form"

definition summary_form :: "string option form" where
  "summary_form = conv_form (\<lambda>e. case e of None \<Rightarrow> [] | Some m \<Rightarrow> [m])
     (\<lambda>l. case l of [] \<Rightarrow> None | m # _ \<Rightarrow> Some m) (list_form string_form)"

lemma string_form_ok: "reads_back string_form"
  by (simp add: string_form_def list_form_ok char_form_ok)

lemma path_form_ok: "reads_back path_form"
  by (simp add: path_form_def list_form_ok string_form_ok)

lemma word_form_ok: "reads_back (word_form :: 'a::len word form)"
  by (simp add: word_form_def conv_form_ok nat_form_ok)

lemma int_form_ok: "reads_back int_form"
  by (auto simp: int_form_def intro!: conv_form_ok nat_form_ok)

lemma bool_form_ok: "reads_back bool_form"
  by (simp add: bool_form_def conv_form_ok nat_form_ok)

lemma source_form_ok: "reads_back source_form"
  unfolding source_form_def by (rule conv_form_ok [OF _ nat_form_ok]) (simp split: data_root_source.split)

lemma phase_form_ok: "reads_back phase_form"
  unfolding phase_form_def by (rule conv_form_ok [OF _ nat_form_ok]) (simp split: migration_phase.split)

lemma summary_form_ok: "reads_back summary_form"
  by (auto simp: summary_form_def split: option.split intro!: conv_form_ok list_form_ok string_form_ok)

lemmas forms_ok = pair_form_ok path_form_ok word_form_ok int_form_ok bool_form_ok source_form_ok phase_form_ok
  summary_form_ok nat_form_ok

section \<open>Journal and marker\<close>

definition journal_form :: "migration_journal form" where
  "journal_form = conv_form
     (\<lambda>j. (mj_schema_version j, mj_migration_id j, mj_source j, mj_target j, mj_source_mode j, mj_parent_pid j,
        mj_file_count j, mj_total_bytes j, mj_copied_files j, mj_copied_bytes j, mj_phase j, mj_error_summary j,
        mj_started_at j, mj_updated_at j, mj_acknowledged j))
     (\<lambda>(v, i, s, t, m, p, fc, tb, cf, cb, ph, e, st, u, a). \<lparr>mj_schema_version = v, mj_migration_id = i,
        mj_source = s, mj_target = t, mj_source_mode = m, mj_parent_pid = p, mj_file_count = fc, mj_total_bytes = tb,
        mj_copied_files = cf, mj_copied_bytes = cb, mj_phase = ph, mj_error_summary = e, mj_started_at = st,
        mj_updated_at = u, mj_acknowledged = a\<rparr>)
     (pair_form word_form (pair_form word_form (pair_form path_form (pair_form path_form (pair_form source_form
       (pair_form word_form (pair_form nat_form (pair_form nat_form (pair_form nat_form (pair_form nat_form
       (pair_form phase_form (pair_form summary_form (pair_form int_form (pair_form int_form bool_form))))))))))))))"

definition marker_form :: "complete_marker form" where
  "marker_form = conv_form
     (\<lambda>m. (cm_migration_id m, cm_previous_root m, cm_file_count m, cm_total_bytes m, cm_completed_at m))
     (\<lambda>(i, p, f, t, c). \<lparr>cm_migration_id = i, cm_previous_root = p, cm_file_count = f, cm_total_bytes = t, cm_completed_at = c\<rparr>)
     (pair_form word_form (pair_form path_form (pair_form nat_form (pair_form nat_form int_form))))"

lemma journal_form_ok: "reads_back journal_form"
  unfolding journal_form_def by (rule conv_form_ok) (simp, intro forms_ok)

lemma marker_form_ok: "reads_back marker_form"
  unfolding marker_form_def by (rule conv_form_ok) (simp, intro forms_ok)

definition print_with :: "'a form \<Rightarrow> 'a \<Rightarrow> string" where
  "print_with f x = fst f x"

definition parse_with :: "'a form \<Rightarrow> string \<Rightarrow> 'a option" where
  "parse_with f s = map_option fst (snd f s)"

lemma parse_print: "reads_back f \<Longrightarrow> parse_with f (print_with f x) = Some x"
proof -
  assume "reads_back f"
  then have "snd f (fst f x @ []) = Some (x, [])" unfolding reads_back_def by blast
  then show ?thesis by (simp add: parse_with_def print_with_def)
qed

section \<open>The theorem\<close>

lemma worker_then_start:
  assumes "src \<parallel> tgt" and "serde_ok env" "marker_ok env"
    and "wf_tree (ms_host s)" "is_dir (host src s)"
    and "host (src @ [journal_file]) s = Some (HFile c)" "me_parse_journal env c = Some j"
    and "mj_source j = src" "mj_target j = tgt" "mj_schema_version j = 1"
    and "resolve_data_root (runtime_inputs None portable exe s)
      = Inr \<lparr>dr_source = mj_source_mode j, dr_path = Some src, dr_mutable = True\<rparr>"
  shows "\<exists>R p s2. resolve_runtime_data_root (calm env) None portable exe (snd (run_system_worker env exe (src @ [journal_file]) s)) = (Inr R, s2)
      \<and> dr_path R = Some p \<and> (p = tgt \<or> p = src \<and> fst (run_system_worker env exe (src @ [journal_file]) s) \<noteq> Inr MCompleted)
      \<and> same_data env src (ms_host s) p (ms_host s2) \<and> same_data env src (ms_host s) src (ms_host s2)
      \<and> resolve_data_root (runtime_inputs None portable exe s2) = Inr R"
proof -
  define after where "after = run_system_worker env exe (src @ [journal_file]) s"
  define g where "g = \<lparr>mg_source = src, mg_target = tgt, mg_mode = mj_source_mode j,
    mg_id = mj_migration_id j, mg_before = s\<rparr>"
  have g: "mg_source g = src" "mg_target g = tgt" "mg_before g = s" "mg_mode g = mj_source_mode j"
    by (simp_all add: g_def)
  have r: "ready env g" using assms(1,2) by (simp add: ready_def g)
  have j: "journal_of g j" using assms(8-10) by (simp add: journal_of_def g_def)
  have "unmoved env g (s\<lparr>ms_journal := j\<rparr>)"
    using assms(4-7) j by (auto simp: unmoved_def kept_def journal_at_def host_def g)
  then have start: "forget (unmoved env g) s" by (auto simp: forget_def)
  have st: "started portable exe g" using assms(11) by (simp add: started_def g)
  let ?P = "pointer_of (mg_mode g) exe"
  have t: "triple (forget (unmoved env g)) (run_system_worker env exe (src @ [journal_file]))
    (finished env ?P g) (forget (either env ?P g))"
    using triple_run_system_worker [OF r assms(3) st] by (simp add: g)
  have done_served: "served_from env portable exe g tgt (snd after)" if "fst after = Inr MCompleted"
  proof -
    have "completed env ?P g (snd after)"
      using tripleD(1) [OF t start] that by (simp add: after_def finished_def)
    moreover from this have "forget (switched env ?P g) (snd after)" by (simp add: completed_def forgetI)
    ultimately show ?thesis using served_switched(2) [OF r st] by (simp add: g)
  qed
  have "finished env ?P g phase t \<Longrightarrow> forget (either env ?P g) t" for phase t
    by (auto simp: finished_def completed_def either_def intro: forgetI split: if_splits)
  then have "forget (either env ?P g) (snd after)"
    using tripleD [OF t start] by (cases "fst after") (auto simp: after_def)
  from served_either [OF r st this] done_served
  have "\<exists>p. served_from env portable exe g p (snd after) \<and> (p = tgt \<or> p = src \<and> fst after \<noteq> Inr MCompleted)"
    by (auto simp: g)
  then show ?thesis by (auto simp: served_from_def next_start_def g after_def [symmetric])
qed

text \<open>C11: Moving the data directory is safe against every failure. Whichever operations of the system
  fail in a run of the migration worker, and wherever the process dies, the next start of the program
  finds a data directory: the old or the new one, with every file and directory that the old one had
  before, and the old one itself still has them. The pointer to the data directory agrees with the
  choice, so later starts make the same. After a run that reports completion it is the new one.\<close>

theorem migration_crash_safe:
  assumes "src \<parallel> tgt" and "serde_ok env" "marker_ok env"
    and "wf_tree (ms_host s)" "is_dir (host src s)"
    and "host (src @ [journal_file]) s = Some (HFile c)" "me_parse_journal env c = Some j"
    and "mj_source j = src" "mj_target j = tgt" "mj_schema_version j = 1"
    and "resolve_data_root (runtime_inputs None portable exe s)
      = Inr \<lparr>dr_source = mj_source_mode j, dr_path = Some src, dr_mutable = True\<rparr>"
  defines "after \<equiv> run_system_worker env exe (src @ [journal_file]) s"
  shows "\<exists>R p s2. resolve_runtime_data_root (calm env) None portable exe (snd after) = (Inr R, s2)
      \<and> dr_path R = Some p \<and> (p = tgt \<or> p = src \<and> fst after \<noteq> Inr MCompleted)
      \<and> same_data env src (ms_host s) p (ms_host s2) \<and> same_data env src (ms_host s) src (ms_host s2)
      \<and> resolve_data_root (runtime_inputs None portable exe s2) = Inr R"
  unfolding after_def by (rule worker_then_start [OF assms(1-11)])

definition example_journal :: migration_journal where
  "example_journal = journal_prepared 7 [''old''] [''new''] RootPlatform 4
     \<lparr>dm_entries = [], dm_file_count = 1, dm_total_bytes = 4\<rparr> 1000"

definition example_env :: "(nat \<Rightarrow> fault option) \<Rightarrow> mig_env" where
  "example_env faults = \<lparr>me_fault = faults, me_clock = (\<lambda>t. 1000 + int t), me_fresh = of_nat, me_space = (\<lambda>_. 2 ^ 40),
     me_reparse = (\<lambda>_. False), me_sha256 = (\<lambda>c. c), me_print_journal = print_with journal_form,
     me_parse_journal = parse_with journal_form, me_print_marker = print_with marker_form,
     me_parse_marker = parse_with marker_form, me_pid = 9\<rparr>"

definition example_state :: mig_state where
  "example_state = \<lparr>ms_host = HDir [(''old'', HDir [(''app.db'', HFile ''rows''), (''vault'', HDir []),
       (journal_file, HFile (print_with journal_form example_journal))])],
     ms_platform_root = Some [''old''], ms_portable_root = None, ms_journal = example_journal, ms_tick = 0\<rparr>"

lemma example_forms: "serde_ok (example_env f)" "marker_ok (example_env f)"
  by (simp_all add: serde_ok_def marker_ok_def example_env_def parse_print journal_form_ok marker_form_ok)

text \<open>The process dies at its twentieth operation, in the middle of the copy.\<close>

theorem migration_crash_safe_witness:
  "\<exists>R p s2. resolve_runtime_data_root (calm (example_env (\<lambda>t. if t = 20 then Some CrashFault else None))) None False [''bin'']
        (snd (run_system_worker (example_env (\<lambda>t. if t = 20 then Some CrashFault else None)) [''bin'']
          ([''old''] @ [journal_file]) example_state)) = (Inr R, s2)
      \<and> dr_path R = Some p \<and> p \<in> {[''old''], [''new'']}
      \<and> same_data (example_env (\<lambda>t. if t = 20 then Some CrashFault else None)) [''old''] (ms_host example_state) p (ms_host s2)"
proof -
  define f :: "nat \<Rightarrow> fault option" where "f = (\<lambda>t. if t = 20 then Some CrashFault else None)"
  have apart: "[''old''] \<parallel> [''new'']" by (simp add: parallel_def)
  have tree: "wf_tree (ms_host example_state)" and dir: "is_dir (host [''old''] example_state)"
    and journal: "host ([''old''] @ [journal_file]) example_state = Some (HFile (print_with journal_form example_journal))"
    by (simp_all add: example_state_def host_def journal_file_def)
  have parse: "me_parse_journal (example_env f) (print_with journal_form example_journal) = Some example_journal"
    by (simp add: example_env_def parse_print journal_form_ok)
  have paths: "mj_source example_journal = [''old'']" "mj_target example_journal = [''new'']"
      "mj_schema_version example_journal = 1"
    by (simp_all add: example_journal_def journal_prepared_def)
  have before: "resolve_data_root (runtime_inputs None False [''bin''] example_state)
      = Inr \<lparr>dr_source = mj_source_mode example_journal, dr_path = Some [''old''], dr_mutable = True\<rparr>"
    by (simp add: resolve_data_root_def runtime_inputs_def example_state_def example_journal_def journal_prepared_def)
  show ?thesis unfolding f_def [symmetric]
    using migration_crash_safe [OF apart example_forms tree dir journal parse paths before] by blast
qed

end
