(* ===== verification/Migration_Service.thy ===== *)
theory Migration_Service
  imports Migration_Text
begin

text \<open>
  The service in front of the migration (\<^verbatim>\<open>src-tauri/src/services/data_migration_service.rs\<close>): a
  migration is previewed, confirmed once with the token of the preview before it expires, checked
  again, and then handed to the worker process through the journal.
\<close>

section \<open>State\<close>

record stored_preview =
  sp_preview :: migration_preview
  sp_source_mode :: data_root_source

type_synonym preview_registry = "uuid \<rightharpoonup> stored_preview"

record migration_service =
  sv_root :: host_path
  sv_registry :: preview_registry
  sv_spawned :: "host_path list"
  sv_sys :: mig_state

type_synonym 'a service_op = "migration_service \<Rightarrow> (stop + 'a) \<times> migration_service"

definition on_sys :: "'a mig_op \<Rightarrow> 'a service_op" where
  "on_sys m v = (case m (sv_sys v) of (r, s) \<Rightarrow> (r, v\<lparr>sv_sys := s\<rparr>))"

definition asking :: "'a app_result \<Rightarrow> 'a service_op" where
  "asking r = (\<lambda>v. (map_err Err r, v))"

section \<open>Preview registry\<close>

definition issue_preview :: "migration_preview \<Rightarrow> data_root_source \<Rightarrow> migration_preview service_op" where
  "issue_preview preview source_mode v =
     (Inr preview, v\<lparr>sv_registry := (sv_registry v)(mp_preview_id preview \<mapsto>
        \<lparr>sp_preview = preview, sp_source_mode = source_mode\<rparr>)\<rparr>)"

definition consume_preview :: "uuid \<Rightarrow> uuid \<Rightarrow> int \<Rightarrow> preview_registry
    \<Rightarrow> (migration_preview \<times> data_root_source) app_result \<times> preview_registry" where
  "consume_preview preview_id confirmation_token now previews =
     (case previews preview_id of
        None \<Rightarrow> (Inl (Validation ''the preview does not exist or was used''), previews)
      | Some stored \<Rightarrow>
          if mp_expires_at (sp_preview stored) \<le> now
          then (Inl (Validation ''the confirmation has expired''), previews(preview_id := None))
          else if mp_confirmation_token (sp_preview stored) \<noteq> confirmation_token
          then (Inl (Security ''the confirmation token is invalid''), previews)
          else (Inr (sp_preview stored, sp_source_mode stored), previews(preview_id := None)))"

section \<open>Operations of the service\<close>

definition ensure_mutable_source :: "data_root_source \<Rightarrow> bool \<Rightarrow> unit app_result" where
  "ensure_mutable_source source_mode mutable =
     (if \<not> mutable \<or> source_mode = RootEnvironment then Inl (Validation ''the data directory is locked'')
      else if source_mode = RootNeedsSelection then Inl NotReady
      else Inr ())"

definition migration_status :: "mig_env \<Rightarrow> migration_journal option service_op" where
  "migration_status env = (\<lambda>v.
     case host (sv_root v @ [journal_file]) (sv_sys v) of
       Some (HFile _) \<Rightarrow>
         bind_st (on_sys (journal_load env (sv_root v @ [journal_file]))) (\<lambda>j. ret_st (Some j)) v
     | _ \<Rightarrow> (Inr None, v))"

definition service_preflight ::
  "mig_env \<Rightarrow> host_path \<Rightarrow> data_root_source \<Rightarrow> bool \<Rightarrow> migration_preview service_op" where
  "service_preflight env target source_mode mutable =
     bind_st (asking (ensure_mutable_source source_mode mutable)) (\<lambda>_.
     bind_st (\<lambda>v. on_sys (preflight_inner env (sv_root v) target (now_ms env (sv_sys v)) False) v) (\<lambda>(preview, _).
     issue_preview preview source_mode))"

definition service_preflight_retry :: "mig_env \<Rightarrow> data_root_source \<Rightarrow> bool \<Rightarrow> migration_preview service_op" where
  "service_preflight_retry env source_mode mutable =
     bind_st (asking (ensure_mutable_source source_mode mutable)) (\<lambda>_.
     bind_st (migration_status env) (\<lambda>status.
     case status of
       None \<Rightarrow> asking (Inl (Validation ''no failed migration to retry''))
     | Some failed \<Rightarrow>
         if mj_phase failed \<noteq> MFailed then asking (Inl (Validation ''no failed migration to retry''))
         else
           bind_st (\<lambda>v. asking (if host (mj_source failed) (sv_sys v) = None \<or> host (sv_root v) (sv_sys v) = None
               then Inl (Io ''no such directory'') else Inr ()) v) (\<lambda>_.
           bind_st (\<lambda>v. asking (if mj_source failed \<noteq> sv_root v \<or> mj_source_mode failed \<noteq> source_mode
               then Inl (Security ''the failed migration is not of this directory'') else Inr ()) v) (\<lambda>_.
           bind_st (\<lambda>v. on_sys (preflight_inner env (sv_root v) (mj_target failed) (now_ms env (sv_sys v)) True) v)
             (\<lambda>(preview, _). issue_preview preview source_mode)))))"

definition start_migration ::
  "mig_env \<Rightarrow> uuid \<Rightarrow> uuid \<Rightarrow> data_root_source \<Rightarrow> bool \<Rightarrow> migration_journal service_op" where
  "start_migration env preview_id confirmation_token source_mode mutable =
     bind_st (asking (ensure_mutable_source source_mode mutable)) (\<lambda>_.
     bind_st (\<lambda>v. case consume_preview preview_id confirmation_token (now_ms env (sv_sys v)) (sv_registry v) of
                (r, previews) \<Rightarrow> (map_err Err r, v\<lparr>sv_registry := previews\<rparr>)) (\<lambda>(stored, stored_mode).
     bind_st (asking (if stored_mode \<noteq> source_mode
       then Inl (Security ''the source of the data directory changed before the confirmation'') else Inr ())) (\<lambda>_.
     bind_st (\<lambda>v. on_sys (preflight_inner env (sv_root v) (mp_target stored) (now_ms env (sv_sys v)) (mp_retryable stored)) v)
       (\<lambda>(current, manifest).
     bind_st (asking (if mp_source current \<noteq> mp_source stored \<or> mp_target current \<noteq> mp_target stored
         \<or> mp_file_count current \<noteq> mp_file_count stored \<or> mp_total_bytes current \<noteq> mp_total_bytes stored
       then Inl (Security ''the directories changed before the confirmation'') else Inr ())) (\<lambda>_ v.
     let j = journal_prepared (me_fresh env (ms_tick (sv_sys v))) (mp_source current) (mp_target current) source_mode
               (me_pid env) manifest (now_ms env (sv_sys v)) in
     bind_st (on_sys (journal_save env j)) (\<lambda>_.
     bind_st (on_sys (io env nop)) (\<lambda>_ v.
     (Inr j, v\<lparr>sv_spawned := (mj_source j @ [journal_file]) # sv_spawned v\<rparr>))) v)))))"

definition acknowledge_migration :: "mig_env \<Rightarrow> uuid \<Rightarrow> migration_journal service_op" where
  "acknowledge_migration env migration_id =
     bind_st (migration_status env) (\<lambda>status.
     case status of
       None \<Rightarrow> asking (Inl (Validation ''no migration to acknowledge''))
     | Some journal \<Rightarrow>
         if mj_migration_id journal \<noteq> migration_id
         then asking (Inl (Security ''the id of the migration does not match''))
         else (\<lambda>v.
           let j = journal\<lparr>mj_acknowledged := True, mj_updated_at := now_ms env (sv_sys v)\<rparr> in
           bind_st (on_sys (journal_save env j)) (\<lambda>_. ret_st j) v))"

section \<open>What a successful start went through\<close>

lemma bind_Inr: "bind_st m k s = (Inr y, s') \<longleftrightarrow> (\<exists>x t. m s = (Inr x, t) \<and> k x t = (Inr y, s'))"
  by (auto simp: bind_st_def split: prod.split sum.split)

lemma on_sys_Inr: "on_sys m v = (Inr x, v') \<longleftrightarrow> (\<exists>s. m (sv_sys v) = (Inr x, s) \<and> v' = v\<lparr>sv_sys := s\<rparr>)"
  by (auto simp: on_sys_def split: prod.split)

lemma asking_Inr: "asking r v = (Inr x, v') \<longleftrightarrow> r = Inr x \<and> v' = v"
  by (cases r) (auto simp: asking_def)

lemma consume_Inr:
  "consume_preview i token now reg = (Inr (p, mode), reg') \<longleftrightarrow>
     reg i = Some \<lparr>sp_preview = p, sp_source_mode = mode\<rparr> \<and> now < mp_expires_at p
     \<and> mp_confirmation_token p = token \<and> reg' = reg(i := None)"
  by (cases "the (reg i)") (auto simp: consume_preview_def split: option.splits)

lemma preflight_Inr:
  assumes "preflight_inner env src tgt now retryable s = (Inr (p, m), s')"
  shows "mp_source p = src" "mp_target p = tgt" "src \<parallel> tgt" "is_dir (lookup src (ms_host s))"
    "mp_file_count p = dm_file_count m" "mp_total_bytes p = dm_total_bytes m"
  using assms
  by (auto simp: preflight_inner_def bind_Inr checked_def ensure_simps validate_absolute_non_root_def
      reject_related_paths_def parallel_def host_def Let_def split: if_splits)

lemma ensure_mutable_Inr: "ensure_mutable_source mode mutable = Inr () \<longleftrightarrow>
    mutable \<and> mode \<noteq> RootEnvironment \<and> mode \<noteq> RootNeedsSelection"
  by (simp add: ensure_mutable_source_def)

definition start_trace where
  "start_trace env i token mode v j v' p cur m s1 s2 s3 \<longleftrightarrow>
     sv_registry v i = Some \<lparr>sp_preview = p, sp_source_mode = mode\<rparr> \<and> now_ms env (sv_sys v) < mp_expires_at p
     \<and> mp_confirmation_token p = token
     \<and> preflight_inner env (sv_root v) (mp_target p) (now_ms env (sv_sys v)) (mp_retryable p) (sv_sys v) = (Inr (cur, m), s1)
     \<and> mp_file_count cur = mp_file_count p \<and> mp_total_bytes cur = mp_total_bytes p
     \<and> j = journal_prepared (me_fresh env (ms_tick s1)) (sv_root v) (mp_target p) mode (me_pid env) m (now_ms env s1)
     \<and> journal_save env j s1 = (Inr (), s2) \<and> io env nop s2 = (Inr (), s3)
     \<and> v' = v\<lparr>sv_registry := (sv_registry v)(i := None), sv_sys := s3,
         sv_spawned := (sv_root v @ [journal_file]) # sv_spawned v\<rparr>"

lemma start_Inr:
  assumes "start_migration env i token mode mutable v = (Inr j, v')"
  obtains p cur m s1 s2 s3 where "start_trace env i token mode v j v' p cur m s1 s2 s3" "mutable"
proof -
  from assms obtain v1 p m1 where ok: "ensure_mutable_source mode mutable = Inr ()"
    and c: "consume_preview i token (now_ms env (sv_sys v)) (sv_registry v) = (Inr (p, mode), (sv_registry v)(i := None))"
    and v1: "v1 = v\<lparr>sv_registry := (sv_registry v)(i := None)\<rparr>"
    and rest: "bind_st (\<lambda>v. on_sys (preflight_inner env (sv_root v) (mp_target p) (now_ms env (sv_sys v)) (mp_retryable p)) v)
       (\<lambda>(current, manifest).
     bind_st (asking (if mp_source current \<noteq> mp_source p \<or> mp_target current \<noteq> mp_target p
         \<or> mp_file_count current \<noteq> mp_file_count p \<or> mp_total_bytes current \<noteq> mp_total_bytes p
       then Inl (Security ''the directories changed before the confirmation'') else Inr ())) (\<lambda>_ v.
     let j = journal_prepared (me_fresh env (ms_tick (sv_sys v))) (mp_source current) (mp_target current) mode
               (me_pid env) manifest (now_ms env (sv_sys v)) in
     bind_st (on_sys (journal_save env j)) (\<lambda>_.
     bind_st (on_sys (io env nop)) (\<lambda>_ v.
     (Inr j, v\<lparr>sv_spawned := (mj_source j @ [journal_file]) # sv_spawned v\<rparr>))) v)) v1 = (Inr j, v')"
    unfolding start_migration_def
    by (auto simp: bind_Inr asking_Inr consume_Inr map_err_Inr split: prod.splits if_splits)
  from rest obtain cur m s1 s2 s3 where
    pre: "preflight_inner env (sv_root v) (mp_target p) (now_ms env (sv_sys v)) (mp_retryable p) (sv_sys v) = (Inr (cur, m), s1)"
    and same: "mp_source cur = mp_source p" "mp_target cur = mp_target p"
      "mp_file_count cur = mp_file_count p" "mp_total_bytes cur = mp_total_bytes p"
    and j: "j = journal_prepared (me_fresh env (ms_tick s1)) (mp_source cur) (mp_target cur) mode (me_pid env) m (now_ms env s1)"
    and save: "journal_save env j s1 = (Inr (), s2)" and spawn: "io env nop s2 = (Inr (), s3)"
    and v': "v' = v\<lparr>sv_registry := (sv_registry v)(i := None), sv_sys := s3,
       sv_spawned := (mj_source j @ [journal_file]) # sv_spawned v\<rparr>"
    unfolding v1 by (auto simp: bind_Inr asking_Inr on_sys_Inr Let_def split: prod.splits if_splits)
  note facts = preflight_Inr [OF pre]
  have "mj_source j = sv_root v" by (simp add: j journal_prepared_def facts)
  with pre same j save spawn v' facts c
  have "start_trace env i token mode v j v' p cur m s1 s2 s3" by (auto simp: start_trace_def consume_Inr)
  moreover have mutable using ok by (simp add: ensure_mutable_Inr)
  ultimately show ?thesis by (rule that)
qed

section \<open>The hand-over to the worker\<close>

lemma write_atomic_effect:
  assumes "write_atomic env (b @ [m]) c s = (Inr x, s')"
  shows "ms_host s' = put (b @ [m]) (HFile c) (ms_host s)" "ms_platform_root s' = ms_platform_root s"
    "ms_portable_root s' = ms_portable_root s" "is_dir (lookup b (ms_host s))"
  using write_atomic_Inr [OF assms] by (simp_all add: on_host_def)

lemma journal_save_effect:
  assumes "journal_save env j s = (Inr x, s')" and apart: "mj_source j \<parallel> mj_target j"
  shows "lookup (mj_source j @ [journal_file]) (ms_host s') = Some (HFile (me_print_journal env j))"
    and "wf_tree (ms_host s) \<Longrightarrow> wf_tree (ms_host s')"
    and "q \<parallel> mj_source j @ [journal_file] \<Longrightarrow> q \<parallel> mj_target j @ [journal_file] \<Longrightarrow> lookup q (ms_host s') = lookup q (ms_host s)"
    and "is_dir (lookup (mj_source j) (ms_host s'))"
    and "ms_platform_root s' = ms_platform_root s" "ms_portable_root s' = ms_portable_root s"
proof -
  let ?f = "HFile (me_print_journal env j)" and ?p = "mj_source j @ [journal_file]" and ?q = "mj_target j @ [journal_file]"
  have below: "mj_source j @ a \<parallel> ?q" for a by (rule parallel_below [OF apart])
  from assms(1) obtain s1 where w1: "write_atomic env ?p (me_print_journal env j) s = (Inr (), s1)"
    and w2: "(if host (mj_target j) s1 \<noteq> None then write_atomic env ?q (me_print_journal env j) s1 else (Inr (), s1)) = (Inr x, s')"
    by (auto simp: journal_save_def bind_Inr checked_def split: if_splits)
  note e1 = write_atomic_effect [OF w1]
  have e2: "ms_host s' = ms_host s1 \<or> ms_host s' = put ?q ?f (ms_host s1)" "ms_platform_root s' = ms_platform_root s1"
    "ms_portable_root s' = ms_portable_root s1"
    using w2 write_atomic_effect [of env "mj_target j" journal_file "me_print_journal env j" s1 x s'] by (auto split: if_splits)
  have "lookup ?p (ms_host s1) = Some ?f" using lookup_put_child [OF e1(4)] by (simp add: e1)
  then show "lookup ?p (ms_host s') = Some ?f" using e2(1) below by (auto simp: lookup_put_parallel)
  show "wf_tree (ms_host s) \<Longrightarrow> wf_tree (ms_host s')" using e1(1) e2(1) by (auto simp: wf_tree_put)
  show "q \<parallel> ?p \<Longrightarrow> q \<parallel> ?q \<Longrightarrow> lookup q (ms_host s') = lookup q (ms_host s)"
    using e1(1) e2(1) by (auto simp: lookup_put_parallel)
  have "is_dir (lookup (mj_source j) (ms_host s1))"
    unfolding e1(1) by (rule lookup_put_prefix [OF e1(4)]) simp_all
  then show "is_dir (lookup (mj_source j) (ms_host s'))"
    using e2(1) below [of "[]"] by (auto simp: lookup_put_parallel)
  show "ms_platform_root s' = ms_platform_root s" "ms_portable_root s' = ms_portable_root s"
    using e1 e2 by simp_all
qed

lemma same_data_trans:
  "same_data env a t b u \<Longrightarrow> same_data env b u c v \<Longrightarrow> same_data env a t c v"
  by (simp add: same_data_def)

text \<open>After a start, the state is one that the worker can begin with.\<close>

lemma start_ready:
  assumes st: "start_migration env i token mode mutable v = (Inr j, v')" and wf: "wf_tree (ms_host (sv_sys v))"
  shows "sv_root v \<parallel> mj_target j" "wf_tree (ms_host (sv_sys v'))" "is_dir (host (sv_root v) (sv_sys v'))"
    "host (sv_root v @ [journal_file]) (sv_sys v') = Some (HFile (me_print_journal env j))"
    "mj_source j = sv_root v" "mj_source_mode j = mode" "mj_schema_version j = 1"
    "runtime_inputs None portable exe (sv_sys v') = runtime_inputs None portable exe (sv_sys v)"
    "same_data env' (sv_root v) (ms_host (sv_sys v)) (sv_root v) (ms_host (sv_sys v'))"
proof -
  obtain p cur m s1 s2 s3 where tr: "start_trace env i token mode v j v' p cur m s1 s2 s3"
    by (rule start_Inr [OF st])
  then have pre: "preflight_inner env (sv_root v) (mp_target p) (now_ms env (sv_sys v)) (mp_retryable p) (sv_sys v) = (Inr (cur, m), s1)"
    and jd: "j = journal_prepared (me_fresh env (ms_tick s1)) (sv_root v) (mp_target p) mode (me_pid env) m (now_ms env s1)"
    and save: "journal_save env j s1 = (Inr (), s2)" and spawn: "io env nop s2 = (Inr (), s3)"
    unfolding start_trace_def by blast+
  have v': "sv_sys v' = s3" using tr by (simp add: start_trace_def)
  have j: "mj_source j = sv_root v" "mj_target j = mp_target p" "mj_source_mode j = mode" "mj_schema_version j = 1"
    by (simp_all add: jd journal_prepared_def)
  show "mj_source j = sv_root v" "mj_source_mode j = mode" "mj_schema_version j = 1" by (rule j)+
  have apart: "sv_root v \<parallel> mj_target j" using preflight_Inr(3) [OF pre] by (simp add: j)
  then show "sv_root v \<parallel> mj_target j" .
  have "elsewhere (mj_target j) (sv_sys v) (sv_sys v)" using wf by (simp add: elsewhere_def)
  from keepsD [OF elsewhere.preflight this, of env "sv_root v" "now_ms env (sv_sys v)" "mp_retryable p"] pre
  have e: "elsewhere (mj_target j) (sv_sys v) s1" by (simp add: j)
  have fr: "frozen s2 s3" by (rule io_nop_pair [OF spawn])
  note eff = journal_save_effect [OF save, unfolded j(1), OF apart]
  show "wf_tree (ms_host (sv_sys v'))" "is_dir (host (sv_root v) (sv_sys v'))"
    "host (sv_root v @ [journal_file]) (sv_sys v') = Some (HFile (me_print_journal env j))"
    using eff e by (simp_all add: v' frozen_host [OF fr] host_def elsewhere_def)
  show "runtime_inputs None portable exe (sv_sys v') = runtime_inputs None portable exe (sv_sys v)"
    using fr eff(5,6) e by (auto simp: v' runtime_inputs_def frozen_def elsewhere_def)
  have "lookup (sv_root v @ n # q) (ms_host s3) = lookup (sv_root v @ n # q) (ms_host (sv_sys v))" if n: "\<not> special_name n" for n q
  proof -
    have "sv_root v @ n # q \<parallel> mj_target j" using parallel_below [OF apart, of "n # q" "[]"] by simp
    moreover have "sv_root v @ n # q \<parallel> sv_root v @ [journal_file]"
      by (rule special_parallel [OF n]) (simp add: special_name_def)
    ultimately show ?thesis
      using eff(3) [of "sv_root v @ n # q"] parallel_below [OF apart, of "n # q" "[journal_file]"] e
      by (simp add: frozen_host [OF fr] elsewhere_def)
  qed
  then show "same_data env' (sv_root v) (ms_host (sv_sys v)) (sv_root v) (ms_host (sv_sys v'))"
    by (simp add: v' same_data_def content_def)
qed

section \<open>An example\<close>

definition quiet_env :: mig_env where "quiet_env = example_env (\<lambda>_. None)"
definition example_preview :: migration_preview where
  "example_preview = \<lparr>mp_preview_id = 1, mp_confirmation_token = 2, mp_expires_at = 5000, mp_source = [''old''],
     mp_target = [''new''], mp_file_count = 1, mp_total_bytes = 4, mp_required_bytes = 0, mp_available_bytes = 0,
     mp_retryable = False\<rparr>"
definition example_sys :: mig_state where
  "example_sys = \<lparr>ms_host = HDir [(''old'', HDir [(''app.db'', HFile ''rows''), (''vault'', HDir [])])],
     ms_platform_root = Some [''old''], ms_portable_root = None, ms_journal = example_journal, ms_tick = 0\<rparr>"
definition example_service :: migration_service where
  "example_service = \<lparr>sv_root = [''old''], sv_registry = [1 \<mapsto> \<lparr>sp_preview = example_preview, sp_source_mode = RootPlatform\<rparr>],
     sv_spawned = [], sv_sys = example_sys\<rparr>"
lemma quiet_simps: "me_fault quiet_env t = None" "me_reparse quiet_env p = False" "me_space quiet_env t = 2 ^ 40"
  "me_clock quiet_env t = 1000 + int t"
  by (simp_all add: quiet_env_def example_env_def)
lemma io_quiet: "io quiet_env f s = (Inr (), f (s\<lparr>ms_tick := Suc (ms_tick s)\<rparr>))"
  by (simp add: io_def quiet_simps)
lemma example_names: "''app.db'' \<in> set allowed_root_entries" "''vault'' \<in> set allowed_root_entries"
  "''app.db'' \<noteq> journal_file" "''app.db'' \<noteq> complete_file" "''vault'' \<noteq> journal_file" "''vault'' \<noteq> complete_file"
  by (simp_all add: allowed_root_entries_def journal_file_def complete_file_def)

definition example_after :: mig_state where
  "example_after = \<lparr>ms_host = HDir [(''old'', HDir [(''app.db'', HFile ''rows''), (''vault'', HDir [])]), (''new'', HDir [])],
     ms_platform_root = Some [''old''], ms_portable_root = None, ms_journal = example_journal, ms_tick = 8\<rparr>"

lemma example_preflight:
  "\<exists>cur m. preflight_inner quiet_env [''old''] [''new''] now False example_sys = (Inr (cur, m), example_after)
     \<and> mp_source cur = [''old''] \<and> mp_target cur = [''new''] \<and> mp_file_count cur = 1 \<and> mp_total_bytes cur = 4"
  by (simp add: preflight_inner_def bind_st_def checked_def validate_absolute_non_root_def example_sys_def host_def
    ensure_simps reject_related_paths_def reject_reparse_ancestors_def io_quiet nop_def quiet_simps scan_manifest_def
    ret_st_def create_dir_all_def on_host_def can_mkdir_def mkdir_all_def probe_writable_def Let_def required_space_def
    minimum_space_reserve_def u64_limit_def manifest_of_def entry_of_file_def entry_of_dir_def example_names example_after_def)

lemma example_save:
  "mj_source j = [''old''] \<Longrightarrow> mj_target j = [''new''] \<Longrightarrow> mj_schema_version j = 1 \<Longrightarrow>
     \<exists>s. journal_save quiet_env j example_after = (Inr (), s)"
  by (simp add: journal_save_def bind_st_def checked_def journal_validate_def write_atomic_def ensure_simps host_def
    example_after_def io_quiet on_host_def example_names example_names(3-6) [symmetric])

lemma example_start: "\<exists>j v'. start_migration quiet_env 1 2 RootPlatform True example_service = (Inr j, v')"
proof -
  obtain cur m where pre: "preflight_inner quiet_env [''old''] [''new''] (now_ms quiet_env example_sys) False example_sys = (Inr (cur, m), example_after)"
    and cur: "mp_source cur = [''old'']" "mp_target cur = [''new'']" "mp_file_count cur = 1" "mp_total_bytes cur = 4"
    using example_preflight [of "now_ms quiet_env example_sys"] by blast
  let ?j = "journal_prepared (me_fresh quiet_env (ms_tick example_after)) [''old''] [''new''] RootPlatform (me_pid quiet_env) m
      (now_ms quiet_env example_after)"
  obtain s where save: "journal_save quiet_env ?j example_after = (Inr (), s)"
    using example_save [of ?j] by (auto simp: journal_prepared_def)
  have now: "now_ms quiet_env example_sys = 1000" by (simp add: now_ms_def quiet_simps example_sys_def)
  show ?thesis
    using pre save cur
    by (simp add: start_migration_def bind_st_def asking_def ensure_mutable_source_def consume_preview_def example_service_def
      example_preview_def now on_sys_def io_quiet nop_def Let_def)
qed

section \<open>The theorems\<close>

text \<open>C19: A migration that was confirmed is safe from the moment of the confirmation. Suppose the program
  runs on the data directory that its pointer names, and the service accepts the start of a migration.
  Then whichever operations of the worker fail and wherever it dies, the next start of the program finds
  the data directory, the old one or the confirmed target, with all that the old one had when the
  migration was confirmed, and the old one still has it.\<close>

theorem confirmed_migration_is_safe:
  assumes "resolve_data_root (runtime_inputs None portable exe (sv_sys v)) = Inr R" "dr_path R = Some (sv_root v)"
    and "wf_tree (ms_host (sv_sys v))"
    and "start_migration env preview_id token (dr_source R) (dr_mutable R) v = (Inr j, v')"
    and "serde_ok env'" "marker_ok env'" "me_print_journal env = me_print_journal env'"
  shows "\<exists>R' p s2. resolve_runtime_data_root (calm env') None portable exe
        (snd (run_system_worker env' exe (sv_root v @ [journal_file]) (sv_sys v'))) = (Inr R', s2)
      \<and> dr_path R' = Some p \<and> p \<in> {sv_root v, mj_target j}
      \<and> same_data env' (sv_root v) (ms_host (sv_sys v)) p (ms_host s2)
      \<and> same_data env' (sv_root v) (ms_host (sv_sys v)) (sv_root v) (ms_host s2)"
proof -
  note s = start_ready [OF assms(4,3)]
  have mutable: "dr_mutable R" using start_Inr [OF assms(4)] by blast
  have parse: "me_parse_journal env' (me_print_journal env j) = Some j" using assms(5,7) by (simp add: serde_ok_def)
  have R: "R = \<lparr>dr_source = mj_source_mode j, dr_path = Some (sv_root v), dr_mutable = True\<rparr>"
    using assms(2) mutable s(6) by simp
  have before: "resolve_data_root (runtime_inputs None portable exe (sv_sys v'))
      = Inr \<lparr>dr_source = mj_source_mode j, dr_path = Some (sv_root v), dr_mutable = True\<rparr>"
    using assms(1) by (simp only: s(8) R)
  show ?thesis
    using worker_then_start [OF s(1) assms(5,6) s(2,3,4) parse s(5) refl s(7) before] same_data_trans [OF s(9)] by blast
qed

text \<open>The worker dies at operation 30, in the copy.\<close>

theorem confirmed_migration_is_safe_witness:
  "\<exists>j v' R' p s2. start_migration quiet_env 1 2 RootPlatform True example_service = (Inr j, v')
      \<and> resolve_runtime_data_root (calm (example_env (\<lambda>t. if t = 30 then Some CrashFault else None))) None False [''bin'']
        (snd (run_system_worker (example_env (\<lambda>t. if t = 30 then Some CrashFault else None)) [''bin'']
          ([''old''] @ [journal_file]) (sv_sys v'))) = (Inr R', s2)
      \<and> dr_path R' = Some p \<and> p \<in> {[''old''], mj_target j}
      \<and> same_data (example_env (\<lambda>t. if t = 30 then Some CrashFault else None)) [''old''] (ms_host example_sys) p (ms_host s2)"
proof -
  define f :: "nat \<Rightarrow> fault option" where "f = (\<lambda>t. if t = 30 then Some CrashFault else None)"
  obtain j v' where st: "start_migration quiet_env 1 2 RootPlatform True example_service = (Inr j, v')"
    using example_start by blast
  let ?R = "\<lparr>dr_source = RootPlatform, dr_path = Some [''old''], dr_mutable = True\<rparr>"
  have sys: "sv_root example_service = [''old'']" "sv_sys example_service = example_sys"
    by (simp_all add: example_service_def)
  have before: "resolve_data_root (runtime_inputs None False [''bin''] (sv_sys example_service)) = Inr ?R"
    "dr_path ?R = Some (sv_root example_service)"
    by (simp_all add: sys resolve_data_root_def runtime_inputs_def example_sys_def)
  have tree: "wf_tree (ms_host (sv_sys example_service))" by (simp add: sys example_sys_def)
  have st': "start_migration quiet_env 1 2 (dr_source ?R) (dr_mutable ?R) example_service = (Inr j, v')" using st by simp
  have printer: "me_print_journal quiet_env = me_print_journal (example_env f)"
    by (simp add: quiet_env_def example_env_def)
  show ?thesis unfolding f_def [symmetric]
    using confirmed_migration_is_safe [OF before tree st' example_forms printer] st unfolding sys by blast
qed

text \<open>C26: A preview is confirmed at most once. A start succeeds only with the token of a preview that was
  issued, has not expired and was made for the same kind of data directory, and the migration it starts
  goes to the target of that preview; the preview is used up, and a second start with its id fails and
  starts nothing.\<close>

theorem migration_confirmed_once:
  assumes "start_migration env i token mode mutable v = (Inr j, v')"
  shows "(\<exists>p. sv_registry v i = Some \<lparr>sp_preview = p, sp_source_mode = mode\<rparr> \<and> mp_confirmation_token p = token
      \<and> now_ms env (sv_sys v) < mp_expires_at p \<and> mj_target j = mp_target p
      \<and> mj_file_count j = mp_file_count p \<and> mj_total_bytes j = mp_total_bytes p)
    \<and> sv_spawned v' = (sv_root v @ [journal_file]) # sv_spawned v
    \<and> (\<exists>e. start_migration env i token' mode' mutable' v' = (Inl (Err e), v'))"
proof -
  obtain p cur m s1 s2 s3 where tr: "start_trace env i token mode v j v' p cur m s1 s2 s3"
    by (rule start_Inr [OF assms])
  then have reg: "sv_registry v i = Some \<lparr>sp_preview = p, sp_source_mode = mode\<rparr>" "now_ms env (sv_sys v) < mp_expires_at p"
      "mp_confirmation_token p = token"
    and pre: "preflight_inner env (sv_root v) (mp_target p) (now_ms env (sv_sys v)) (mp_retryable p) (sv_sys v) = (Inr (cur, m), s1)"
    and same: "mp_file_count cur = mp_file_count p" "mp_total_bytes cur = mp_total_bytes p"
    and jd: "j = journal_prepared (me_fresh env (ms_tick s1)) (sv_root v) (mp_target p) mode (me_pid env) m (now_ms env s1)"
    and v': "v' = v\<lparr>sv_registry := (sv_registry v)(i := None), sv_sys := s3,
       sv_spawned := (sv_root v @ [journal_file]) # sv_spawned v\<rparr>"
    unfolding start_trace_def by blast+
  have "sv_registry v' i = None" by (simp add: v')
  then have again: "\<exists>e. start_migration env i token' mode' mutable' v' = (Inl (Err e), v')"
    by (simp add: start_migration_def bind_st_def asking_def ensure_mutable_source_def consume_preview_def)
  have "mj_target j = mp_target p" "mj_file_count j = mp_file_count p" "mj_total_bytes j = mp_total_bytes p"
    using same preflight_Inr(5,6) [OF pre] by (simp_all add: jd journal_prepared_def)
  with reg again show ?thesis by (auto simp: v')
qed

theorem migration_confirmed_once_witness:
  "\<exists>j v' p e. start_migration quiet_env 1 2 RootPlatform True example_service = (Inr j, v')
     \<and> sv_registry example_service 1 = Some \<lparr>sp_preview = p, sp_source_mode = RootPlatform\<rparr> \<and> mj_target j = mp_target p
     \<and> start_migration quiet_env 1 2 RootPlatform True v' = (Inl (Err e), v')"
proof -
  obtain j v' where st: "start_migration quiet_env 1 2 RootPlatform True example_service = (Inr j, v')"
    using example_start by blast
  from migration_confirmed_once [OF this, of 2 RootPlatform True] st show ?thesis by blast
qed

end
