(* ===== verification/Net_Addr.thy ===== *)
theory Net_Addr
  imports Qz_Prelude
begin

text \<open>
  What the program uses of the standard library on texts that a user enters: \<open>parse::<u8>()\<close>,
  \<open>parse::<u16>()\<close>, \<open>parse::<IpAddr>()\<close>, \<open>split_once\<close>, \<open>split_whitespace\<close>, \<open>ends_with\<close> and
  \<open>eq_ignore_ascii_case\<close>.
\<close>

section \<open>Numbers\<close>

definition digit_value :: "char \<Rightarrow> nat" where
  "digit_value c =
     (if is_ascii_digit c then byte c - 48
      else if 97 \<le> byte c \<and> byte c \<le> 102 then byte c - 87
      else if 65 \<le> byte c \<and> byte c \<le> 70 then byte c - 55 else 16)"

definition digits_value :: "nat \<Rightarrow> string \<Rightarrow> nat" where
  "digits_value radix ds = foldl (\<lambda>a c. radix * a + digit_value c) 0 ds"

text \<open>\<open>parse\<close> of an unsigned type with \<open>bound\<close> values: an optional plus sign, then digits.\<close>

definition parse_unsigned :: "nat \<Rightarrow> string \<Rightarrow> nat option" where
  "parse_unsigned bound s =
     (let ds = (case s of c # cs \<Rightarrow> if c = CHR ''+'' then cs else s | [] \<Rightarrow> []);
          v = digits_value 10 ds
      in if ds = [] \<or> \<not> list_all is_ascii_digit ds \<or> bound \<le> v then None else Some v)"

abbreviation "parse_u8 \<equiv> parse_unsigned 256"
abbreviation "parse_u16 \<equiv> parse_unsigned 65536"
abbreviation "parse_u32 \<equiv> parse_unsigned 4294967296"

section \<open>Texts\<close>

fun split_once :: "char \<Rightarrow> string \<Rightarrow> (string \<times> string) option" where
  "split_once d [] = None"
| "split_once d (c # cs) =
     (if c = d then Some ([], cs) else map_option (\<lambda>(a, b). (c # a, b)) (split_once d cs))"

definition ends_with :: "string \<Rightarrow> string \<Rightarrow> bool" where
  "ends_with s p = starts_with (rev s) (rev p)"

definition strip_prefix :: "string \<Rightarrow> string \<Rightarrow> string option" where
  "strip_prefix p s = (if starts_with s p then Some (drop (length p) s) else None)"

definition eq_ignore_ascii_case :: "string \<Rightarrow> string \<Rightarrow> bool" where
  "eq_ignore_ascii_case a b \<longleftrightarrow> to_ascii_lowercase a = to_ascii_lowercase b"

text \<open>The words between white space; \<open>cur\<close> is the word under way.\<close>

function split_ws :: "string \<Rightarrow> string \<Rightarrow> string list" where
  "split_ws cur s =
     (let word = (if cur = [] then [] else [cur]); n = ws_prefix (map byte s)
      in if s = [] then word
         else if n = 0 then split_ws (cur @ [hd s]) (tl s)
         else word @ split_ws [] (drop n s))"
  by pat_completeness auto
termination
  by (relation "measure (\<lambda>(cur, s). length s)") auto

declare split_ws.simps [simp del]

definition split_whitespace :: "string \<Rightarrow> string list" where
  "split_whitespace s = split_ws [] s"

section \<open>Addresses\<close>

datatype ip_addr = IpV4 "nat list" | IpV6 "nat list"

fun is_ipv4 :: "ip_addr \<Rightarrow> bool" where
  "is_ipv4 (IpV4 _) = True"
| "is_ipv4 (IpV6 _) = False"

text \<open>
  The parser of \<open>core::net\<close>: each reader returns its value and the rest of the text, or \<open>None\<close> and
  consumes nothing. A number has at most \<open>most\<close> digits; an octet has no leading zero.
\<close>

definition read_number :: "nat \<Rightarrow> nat \<Rightarrow> bool \<Rightarrow> nat \<Rightarrow> string \<Rightarrow> (nat \<times> string) option" where
  "read_number radix most allow_zero_prefix bound s =
     (let ds = takeWhile (\<lambda>c. digit_value c < radix) s; v = digits_value radix ds
      in if ds = [] \<or> most < length ds \<or> bound \<le> v
            \<or> (\<not> allow_zero_prefix \<and> hd ds = CHR ''0'' \<and> 1 < length ds)
         then None else Some (v, drop (length ds) s))"

definition read_given_char :: "char \<Rightarrow> string \<Rightarrow> string option" where
  "read_given_char c s = (case s of x # xs \<Rightarrow> if x = c then Some xs else None | [] \<Rightarrow> None)"

text \<open>A separator precedes every item but the first.\<close>

definition read_separator ::
  "char \<Rightarrow> nat \<Rightarrow> (string \<Rightarrow> ('a \<times> string) option) \<Rightarrow> string \<Rightarrow> ('a \<times> string) option" where
  "read_separator sep index inner s =
     (if index = 0 then inner s else Option.bind (read_given_char sep s) inner)"

abbreviation read_octet :: "nat \<Rightarrow> string \<Rightarrow> (nat \<times> string) option" where
  "read_octet index \<equiv> read_separator (CHR ''.'') index (read_number 10 3 False 256)"

definition read_ipv4_addr :: "string \<Rightarrow> (nat list \<times> string) option" where
  "read_ipv4_addr s =
     Option.bind (read_octet 0 s) (\<lambda>(a, s1).
     Option.bind (read_octet 1 s1) (\<lambda>(b, s2).
     Option.bind (read_octet 2 s2) (\<lambda>(c, s3).
     Option.bind (read_octet 3 s3) (\<lambda>(d, s4). Some ([a, b, c, d], s4)))))"

text \<open>
  \<open>read_groups\<close> fills at most \<open>limit\<close> groups; an embedded IPv4 address fills two and ends the list.
\<close>

function read_groups :: "nat \<Rightarrow> nat \<Rightarrow> string \<Rightarrow> nat list \<times> bool \<times> string" where
  "read_groups limit i s =
     (if limit \<le> i then ([], False, s)
      else case (if i < limit - 1 then read_separator (CHR '':'') i read_ipv4_addr s else None) of
        Some (octets, s') \<Rightarrow>
          ([256 * octets ! 0 + octets ! 1, 256 * octets ! 2 + octets ! 3], True, s')
      | None \<Rightarrow>
          (case read_separator (CHR '':'') i (read_number 16 4 True 65536) s of
             None \<Rightarrow> ([], False, s)
           | Some (g, s') \<Rightarrow>
               (case read_groups limit (Suc i) s' of (gs, v4, rest) \<Rightarrow> (g # gs, v4, rest))))"
  by pat_completeness auto
termination
  by (relation "measure (\<lambda>(limit, i, s). limit - i)") auto

declare read_groups.simps [simp del]

definition read_ipv6_addr :: "string \<Rightarrow> (nat list \<times> string) option" where
  "read_ipv6_addr s =
     (case read_groups 8 0 s of (front, v4, s1) \<Rightarrow>
        if length front = 8 then Some (front, s1)
        else if v4 then None
        else Option.bind (read_given_char (CHR '':'') s1) (\<lambda>s2.
             Option.bind (read_given_char (CHR '':'') s2) (\<lambda>s3.
               case read_groups (8 - (length front + 1)) 0 s3 of (back, _, s4) \<Rightarrow>
                 Some (front @ replicate (8 - length front - length back) 0 @ back, s4))))"

definition parse_ip_addr :: "string \<Rightarrow> ip_addr option" where
  "parse_ip_addr s =
     (case read_ipv4_addr s of
        Some (octets, rest) \<Rightarrow> if rest = [] then Some (IpV4 octets) else None
      | None \<Rightarrow>
          (case read_ipv6_addr s of
             Some (groups, rest) \<Rightarrow> if rest = [] then Some (IpV6 groups) else None
           | None \<Rightarrow> None))"

end
