(* ===== verification/Task_Model.thy ===== *)
theory Task_Model
  imports Exec_Events Net_Addr
begin

text \<open>
  Built-in tasks as data: \<^verbatim>\<open>src-tauri/src/core/tasks/model.rs\<close> (task definitions, implementations,
  steps and parameters), the capabilities of a server in \<^verbatim>\<open>src-tauri/src/core/system_probe.rs\<close>, and
  the choice of an implementation in \<^verbatim>\<open>src-tauri/src/core/tasks/mod.rs\<close>.
\<close>

section \<open>Tasks\<close>

datatype task_category =
    CatSystem | CatStorage | CatNetwork | CatSecurity | CatService | CatLogs | CatWeb | CatContainer
  | CatScript | CatAdvanced

fun task_category_as_str :: "task_category \<Rightarrow> string" where
  "task_category_as_str CatSystem = ''system''"
| "task_category_as_str CatStorage = ''storage''"
| "task_category_as_str CatNetwork = ''network''"
| "task_category_as_str CatSecurity = ''security''"
| "task_category_as_str CatService = ''service''"
| "task_category_as_str CatLogs = ''logs''"
| "task_category_as_str CatWeb = ''web''"
| "task_category_as_str CatContainer = ''container''"
| "task_category_as_str CatScript = ''script''"
| "task_category_as_str CatAdvanced = ''advanced''"

datatype privilege_requirement = CurrentUser | RootOrPasswordlessSudo
datatype privilege_mode = PrivRoot | PasswordlessSudo
datatype execution_scope = SingleServer | ReadOnlyBatch
datatype risk_level = Safe | Caution | Dangerous

fun risk_level_as_str :: "risk_level \<Rightarrow> string" where
  "risk_level_as_str Safe = ''safe''"
| "risk_level_as_str Caution = ''caution''"
| "risk_level_as_str Dangerous = ''dangerous''"

datatype parameter_kind =
    PString (min_length: nat) (max_length: nat) (multiline: bool)
  | PInteger (int_min: int) (int_max: int)
  | PBoolean
  | PEnum (options: "string list")
  | PAbsolutePath
  | PTimezone
  | PServiceName
  | PTimeRange
  | PHost
  | PPort
  | PInterfaceName
  | PCidr
  | PContainerName
  | PFileMode
  | PCronExpression
  | PManagedId
  | PMultiSelect (options: "string list") (max_items: nat)
  | PServiceMultiSelect (max_items: nat)

record parameter_definition =
  pd_name :: string
  pd_label :: string
  pd_description :: string
  pd_kind :: parameter_kind
  pd_required :: bool
  pd_default_value :: "json option"
  pd_sensitive :: bool

record compatibility_predicate =
  cp_os_families :: "string list"
  cp_service_managers :: "string list"
  cp_required_commands :: "string list"

record task_step =
  ts_id :: string
  ts_title :: string
  ts_timeout_seconds :: u64
  ts_output_limit_bytes :: u64
  ts_command_template :: string

datatype backup_item_kind = RemoteFile | CommandSnapshot | ManagedBlock | RuntimeState

record backup_item_definition =
  bi_id :: string
  bi_kind :: backup_item_kind
  bi_target_template :: string

type_synonym backup_plan = "backup_item_definition list"

record rollback_plan =
  rb_steps :: "task_step list"
  rb_automatic_on_failure :: bool

datatype result_parser_kind =
    ParseText | ParseKeyValue | ParseTable | ParseHealthSummary | ParseNetworkProbe
  | ParseServiceStatus | ParseContainerStatus

record task_implementation =
  ti_id :: string
  ti_compatibility :: compatibility_predicate
  ti_preflight_steps :: "task_step list"
  ti_preview_steps :: "task_step list"
  ti_backup_plan :: "backup_plan option"
  ti_execution_steps :: "task_step list"
  ti_verify_steps :: "task_step list"
  ti_rollback_plan :: "rollback_plan option"
  ti_result_parser :: result_parser_kind

datatype output_kind = OutText | OutTable | OutKeyValue | OutLogMatches

record task_definition =
  td_id :: string
  td_version :: int
  td_category :: task_category
  td_title :: string
  td_description :: string
  td_risk_level :: risk_level
  td_estimated_seconds :: u32
  td_privilege :: privilege_requirement
  td_scope :: execution_scope
  td_parameters :: "parameter_definition list"
  td_implementations :: "task_implementation list"
  td_output_kind :: output_kind

section \<open>Capabilities of a server\<close>

datatype remote_os_family = OsLinux | OsBsd | OsWindows | OsUnknown
datatype remote_shell = PosixSh | Bash | PowerShell | ShellUnknown
datatype remote_path_style = PathPosix | PathWindowsSftp | PathUnknown

fun os_family_as_str :: "remote_os_family \<Rightarrow> string" where
  "os_family_as_str OsLinux = ''linux''"
| "os_family_as_str OsBsd = ''bsd''"
| "os_family_as_str OsWindows = ''windows''"
| "os_family_as_str OsUnknown = ''unknown''"

record network_interface =
  ni_name :: string
  ni_is_up :: bool
  ni_is_default :: bool
  ni_addresses :: "string list"
  ni_gateway4 :: "string option"
  ni_gateway6 :: "string option"

record system_capabilities =
  sc_probe_schema_version :: u32
  sc_platform_family :: remote_os_family
  sc_remote_shell :: remote_shell
  sc_path_style :: remote_path_style
  sc_os_id :: string
  sc_os_family :: string
  sc_version_id :: "string option"
  sc_package_manager :: "string option"
  sc_service_manager :: string
  sc_architecture :: string
  sc_shell :: string
  sc_commands :: "string list"
  sc_services :: "string list"
  sc_containers :: "string list"
  sc_interfaces :: "network_interface list"
  sc_dns_servers :: "string list"
  sc_current_timezone :: "string option"
  sc_current_time :: "string option"
  sc_ntp_enabled :: "bool option"
  sc_ntp_synchronized :: "bool option"
  sc_timezones :: "string list"

definition has_command :: "system_capabilities \<Rightarrow> string \<Rightarrow> bool" where
  "has_command capabilities command \<longleftrightarrow>
     list_ex (\<lambda>available. eq_ignore_ascii_case available command) (sc_commands capabilities)
     \<or> (command = ''systemctl'' \<and> sc_service_manager capabilities = ''systemd'')
     \<or> (command = ''service'' \<and> sc_service_manager capabilities = ''service'')"

definition has_service :: "system_capabilities \<Rightarrow> string \<Rightarrow> bool" where
  "has_service capabilities service \<longleftrightarrow>
     list_ex (\<lambda>available. eq_ignore_ascii_case available service) (sc_services capabilities)"

definition has_container :: "system_capabilities \<Rightarrow> string \<Rightarrow> bool" where
  "has_container capabilities container \<longleftrightarrow>
     list_ex (\<lambda>available. available = container) (sc_containers capabilities)"

definition interface_named :: "system_capabilities \<Rightarrow> string \<Rightarrow> network_interface option" where
  "interface_named capabilities name =
     List.find (\<lambda>item. ni_name item = name) (sc_interfaces capabilities)"

definition has_interface :: "system_capabilities \<Rightarrow> string \<Rightarrow> bool" where
  "has_interface capabilities name \<longleftrightarrow> interface_named capabilities name \<noteq> None"

definition default_interface :: "system_capabilities \<Rightarrow> network_interface option" where
  "default_interface capabilities =
     (let interfaces = sc_interfaces capabilities in
      case List.find ni_is_default interfaces of
        Some i \<Rightarrow> Some i
      | None \<Rightarrow>
          (case List.find (\<lambda>i. ni_is_up i \<and> ni_name i \<noteq> ''lo'') interfaces of
             Some i \<Rightarrow> Some i
           | None \<Rightarrow> List.find (\<lambda>i. ni_name i \<noteq> ''lo'') interfaces))"

section \<open>Choice of an implementation\<close>

definition matches_capabilities :: "compatibility_predicate \<Rightarrow> system_capabilities \<Rightarrow> bool" where
  "matches_capabilities predicate capabilities \<longleftrightarrow>
     (cp_os_families predicate = []
      \<or> list_ex (\<lambda>family. family = sc_os_family capabilities
                  \<or> family = os_family_as_str (sc_platform_family capabilities))
          (cp_os_families predicate))
     \<and> (cp_service_managers predicate = []
        \<or> list_ex (\<lambda>manager. manager = sc_service_manager capabilities)
            (cp_service_managers predicate))
     \<and> list_all (has_command capabilities) (cp_required_commands predicate)"

definition select_implementation ::
  "task_definition \<Rightarrow> system_capabilities \<Rightarrow> task_implementation app_result" where
  "select_implementation task capabilities =
     ok_or (Compatibility (''task '' @ td_id task @ '' does not support the system ''
              @ sc_os_id capabilities @ '' ('' @ sc_os_family capabilities
              @ '') or a required command is missing''))
       (List.find (\<lambda>implementation.
           matches_capabilities (ti_compatibility implementation) capabilities)
         (td_implementations task))"

definition task_version_is_compatible :: "task_definition \<Rightarrow> int \<Rightarrow> bool" where
  "task_version_is_compatible task requested_version \<longleftrightarrow>
     td_version task = requested_version
     \<or> (td_version task = 2 \<and> requested_version = 1
        \<and> td_id task \<in> set [''system.overview'', ''system.disk_usage'',
             ''system.process_query'', ''service.status'', ''service.start'', ''service.stop'',
             ''service.restart'', ''logs.search''])"

lemma select_implementation_first:
  assumes "select_implementation d c = Inr i"
  shows "i \<in> set (td_implementations d)" and "matches_capabilities (ti_compatibility i) c"
  using assms by (auto simp: select_implementation_def result_simps find_Some_iff)

end
