(* ===== verification/Task_Params.thy ===== *)
theory Task_Params
  imports Task_Model Sftp_Paths "HOL-Library.Char_ord" "HOL-Library.List_Lexorder"
begin

text \<open>
  The validation of task parameters, \<^verbatim>\<open>src-tauri/src/core/tasks/parameters.rs\<close>: each accepted value is
  turned into the text that replaces its placeholders in a command template. \<open>uuid::Uuid::parse_str\<close>
  is an external crate and an argument (\<open>parse_str\<close>). The theorems: an accepted value's text is read
  by a POSIX shell as exactly the words the value stands for, and an accepted set of parameters is
  well typed.
\<close>

section \<open>Predicates on texts\<close>

definition is_service_name :: "string \<Rightarrow> bool" where
  "is_service_name value \<longleftrightarrow>
     value \<noteq> [] \<and> length value \<le> 255
     \<and> list_all (\<lambda>b. is_ascii_alphanumeric b \<or> b \<in> set ''_-.@'') value"

definition is_interface_name :: "string \<Rightarrow> bool" where
  "is_interface_name value \<longleftrightarrow>
     value \<noteq> [] \<and> length value \<le> 32
     \<and> list_all (\<lambda>b. is_ascii_alphanumeric b \<or> b \<in> set ''.:_-'') value"

definition is_container_name :: "string \<Rightarrow> bool" where
  "is_container_name value \<longleftrightarrow>
     value \<noteq> [] \<and> length value \<le> 128
     \<and> list_all (\<lambda>b. is_ascii_alphanumeric b \<or> b \<in> set ''._-:'') value"

definition is_file_mode :: "string \<Rightarrow> bool" where
  "is_file_mode value \<longleftrightarrow>
     length value = 4 \<and> starts_with value ''0'' \<and> list_all (\<lambda>b. 48 \<le> byte b \<and> byte b \<le> 55) value"

text \<open>One comma-separated part of a cron field: an optional step after a base.\<close>

definition is_cron_part :: "nat \<Rightarrow> nat \<Rightarrow> string \<Rightarrow> bool" where
  "is_cron_part lo hi part =
     (let step_parts = split_char (CHR ''/'') part;
          base = hd step_parts;
          bad_step = (case tl step_parts of
              [] \<Rightarrow> False
            | value # others \<Rightarrow> others \<noteq> []
                \<or> (case parse_u8 value of None \<Rightarrow> True | Some v \<Rightarrow> v = 0 \<or> hi < v))
      in if part = [] then False
         else if bad_step then False
         else if base = ''*'' then True
         else let range = split_char (CHR ''-'') base in
              case parse_u8 (hd range) of
                None \<Rightarrow> False
              | Some start \<Rightarrow>
                  let stop = (case tl range of [] \<Rightarrow> None | value # _ \<Rightarrow> parse_u8 value)
                  in if 2 < length range \<or> \<not> (lo \<le> start \<and> start \<le> hi) then False
                     else (case stop of None \<Rightarrow> True | Some e \<Rightarrow> start \<le> e \<and> e \<le> hi))"

definition is_cron_field :: "string \<Rightarrow> nat \<Rightarrow> nat \<Rightarrow> bool" where
  "is_cron_field field lo hi \<longleftrightarrow>
     field \<noteq> [] \<and> list_all (is_cron_part lo hi) (split_char (CHR '','') field)"

definition cron_bounds :: "(nat \<times> nat) list" where
  "cron_bounds = [(0, 59), (0, 23), (1, 31), (1, 12), (0, 7)]"

definition is_cron_expression :: "string \<Rightarrow> bool" where
  "is_cron_expression value =
     (let parts = split_whitespace value in
      length parts = length cron_bounds
      \<and> list_all (\<lambda>(field, (lo, hi)). is_cron_field field lo hi) (zip parts cron_bounds))"

definition is_plain_segment :: "string \<Rightarrow> bool" where
  "is_plain_segment segment \<longleftrightarrow> segment \<noteq> [] \<and> segment \<noteq> ''.'' \<and> segment \<noteq> ''..''"

definition is_timezone :: "string \<Rightarrow> bool" where
  "is_timezone value \<longleftrightarrow>
     value \<noteq> [] \<and> length value \<le> 128
     \<and> list_all (\<lambda>segment. is_plain_segment segment
           \<and> list_all (\<lambda>b. is_ascii_alphanumeric b \<or> b \<in> set ''_+-'') segment)
         (split_char (CHR ''/'') value)"

definition is_safe_relative_path :: "string \<Rightarrow> bool" where
  "is_safe_relative_path value \<longleftrightarrow>
     value \<noteq> [] \<and> \<not> starts_with value ''/''
     \<and> list_all is_plain_segment (split_char (CHR ''/'') value)"

definition is_normalized_absolute_path :: "string \<Rightarrow> bool" where
  "is_normalized_absolute_path value \<longleftrightarrow>
     starts_with value ''/''
     \<and> (value = ''/'' \<or> list_all is_plain_segment (split_char (CHR ''/'') (tl value)))"

definition is_ascii_uppercase :: "char \<Rightarrow> bool" where
  "is_ascii_uppercase c \<longleftrightarrow> 65 \<le> byte c \<and> byte c \<le> 90"

definition script_parameter_env_name :: "string \<Rightarrow> string app_result" where
  "script_parameter_env_name name =
     (if name = [] \<or> 32 < length name \<or> starts_with name ''QZ_'' \<or> \<not> is_ascii_uppercase (hd name)
         \<or> \<not> list_all (\<lambda>b. is_ascii_uppercase b \<or> is_ascii_digit b \<or> b = CHR ''_'') name
      then Inl (Validation ''invalid script parameter name'')
      else Inr (''QZ_PARAM_'' @ name))"

definition is_time_value :: "string \<Rightarrow> bool" where
  "is_time_value value \<longleftrightarrow>
     value \<noteq> [] \<and> length value \<le> 64
     \<and> list_all (\<lambda>b. is_ascii_digit b \<or> b \<in> set ''-:.+TZ '') value"

definition is_host :: "string \<Rightarrow> bool" where
  "is_host value \<longleftrightarrow>
     value \<noteq> [] \<and> length value \<le> 253 \<and> \<not> starts_with value ''-'' \<and> \<not> ends_with value ''-''
     \<and> list_all (\<lambda>b. is_ascii_alphanumeric b \<or> b \<in> set ''.-:'') value
     \<and> list_all (\<lambda>label. label \<noteq> [] \<and> \<not> starts_with label ''-'' \<and> \<not> ends_with label ''-'')
         (split_char (CHR ''.'') value)"

definition is_cidr :: "string \<Rightarrow> bool" where
  "is_cidr value =
     (case split_once (CHR ''/'') value of
        None \<Rightarrow> False
      | Some (address, prefix) \<Rightarrow>
          if CHR ''/'' \<in> set prefix then False
          else (case parse_ip_addr address of
              None \<Rightarrow> False
            | Some a \<Rightarrow>
                (case parse_u16 prefix of
                   None \<Rightarrow> False
                 | Some p \<Rightarrow> (case a of IpV4 _ \<Rightarrow> p \<le> 32 | IpV6 _ \<Rightarrow> p \<le> 128))))"

section \<open>Values\<close>

text \<open>\<open>Value::as_i64\<close>, \<open>as_u64\<close>, \<open>as_bool\<close>, \<open>as_array\<close> and \<open>as_object\<close>.\<close>

fun json_as_i64 :: "json \<Rightarrow> int option" where
  "json_as_i64 (JInt z) = (if - (2 ^ 63) \<le> z \<and> z < 2 ^ 63 then Some z else None)"
| "json_as_i64 _ = None"

fun json_as_u64 :: "json \<Rightarrow> nat option" where
  "json_as_u64 (JInt z) = (if 0 \<le> z \<and> z < 2 ^ 64 then Some (nat z) else None)"
| "json_as_u64 _ = None"

fun json_as_bool :: "json \<Rightarrow> bool option" where
  "json_as_bool (JBool b) = Some b"
| "json_as_bool _ = None"

fun json_as_array :: "json \<Rightarrow> json list option" where
  "json_as_array (JArray vs) = Some vs"
| "json_as_array _ = None"

fun json_as_object :: "json \<Rightarrow> (string \<times> json) list option" where
  "json_as_object (JObject members) = Some members"
| "json_as_object _ = None"

definition invalid :: "parameter_definition \<Rightarrow> app_error" where
  "invalid parameter = Validation (''task parameter '' @ pd_name parameter @ '' is invalid'')"

definition required_string :: "parameter_definition \<Rightarrow> json \<Rightarrow> string app_result" where
  "required_string parameter value = ok_or (invalid parameter) (json_as_str value)"

definition reject_nul :: "parameter_definition \<Rightarrow> string \<Rightarrow> unit app_result" where
  "reject_nul parameter value =
     (if CHR 0x00 \<in> set value then Inl (invalid parameter) else Inr ())"

text \<open>A text that must satisfy a predicate, and is quoted.\<close>

definition quoted_if :: "(string \<Rightarrow> bool) \<Rightarrow> parameter_definition \<Rightarrow> json \<Rightarrow> string app_result" where
  "quoted_if p parameter value =
     bind_res (required_string parameter value) (\<lambda>s.
       if \<not> p s then Inl (invalid parameter) else Inr (shell_quote s))"

text \<open>The loop over the items of a multiple choice: \<open>seen\<close> holds the items so far.\<close>

fun select_values ::
  "(string \<Rightarrow> bool) \<Rightarrow> parameter_definition \<Rightarrow> string list \<Rightarrow> json list \<Rightarrow> string list app_result" where
  "select_values p parameter seen [] = Inr []"
| "select_values p parameter seen (v # vs) =
     bind_res (required_string parameter v) (\<lambda>s.
       if \<not> p s \<or> s \<in> set seen then Inl (invalid parameter)
       else map_res ((#) (shell_quote s)) (select_values p parameter (s # seen) vs))"

fun join_with :: "string \<Rightarrow> string list \<Rightarrow> string" where
  "join_with sep [] = []"
| "join_with sep [w] = w"
| "join_with sep (w # ws) = w @ sep @ join_with sep ws"

definition validate_choices ::
  "(string \<Rightarrow> bool) \<Rightarrow> nat \<Rightarrow> parameter_definition \<Rightarrow> json \<Rightarrow> string app_result" where
  "validate_choices p most parameter value =
     bind_res (ok_or (invalid parameter) (json_as_array value)) (\<lambda>vs.
       if vs = [] \<or> most < length vs then Inl (invalid parameter)
       else map_res (join_with '' '') (select_values p parameter [] vs))"

definition validate_time_range :: "parameter_definition \<Rightarrow> json \<Rightarrow> string app_result" where
  "validate_time_range parameter value =
     bind_res (ok_or (invalid parameter) (json_as_object value)) (\<lambda>members.
       if list_ex (\<lambda>(key, _). key \<noteq> ''start'' \<and> key \<noteq> ''end'') members
       then Inl (invalid parameter)
       else bind_res (ok_or (invalid parameter)
                       (Option.bind (map_of members ''start'') json_as_str)) (\<lambda>start.
            bind_res (ok_or (invalid parameter)
                       (Option.bind (map_of members ''end'') json_as_str)) (\<lambda>stop.
              if \<not> is_time_value start \<or> \<not> is_time_value stop then Inl (invalid parameter)
              else Inr (shell_quote (start @ ''/'' @ stop)))))"

definition validate_managed_id ::
  "(string \<Rightarrow> uuid option) \<Rightarrow> parameter_definition \<Rightarrow> json \<Rightarrow> string app_result" where
  "validate_managed_id parse_str parameter value =
     bind_res (required_string parameter value) (\<lambda>s.
     bind_res (ok_or (invalid parameter) (parse_str s)) (\<lambda>parsed.
       let canonical = uuid_text parsed in
       if parsed = 0 \<or> \<not> eq_ignore_ascii_case s canonical then Inl (invalid parameter)
       else Inr (shell_quote canonical)))"

definition validate_value ::
  "(string \<Rightarrow> uuid option) \<Rightarrow> parameter_definition \<Rightarrow> json \<Rightarrow> string app_result" where
  "validate_value parse_str parameter value =
     (case pd_kind parameter of
        PString least most multi \<Rightarrow>
          bind_res (required_string parameter value) (\<lambda>s.
            if char_count s < least \<or> most < char_count s \<or> (\<not> multi \<and> CHR 0x0A \<in> set s)
            then Inl (invalid parameter)
            else bind_res (reject_nul parameter s) (\<lambda>_. Inr (shell_quote s)))
      | PInteger lo hi \<Rightarrow>
          bind_res (ok_or (invalid parameter) (json_as_i64 value)) (\<lambda>z.
            if z < lo \<or> hi < z then Inl (invalid parameter) else Inr (decimal_int z))
      | PBoolean \<Rightarrow>
          ok_or (invalid parameter)
            (map_option (\<lambda>b. if b then ''true'' else ''false'') (json_as_bool value))
      | PEnum opts \<Rightarrow> quoted_if (\<lambda>s. s \<in> set opts) parameter value
      | PAbsolutePath \<Rightarrow>
          bind_res (required_string parameter value) (\<lambda>s.
          bind_res (reject_nul parameter s) (\<lambda>_.
            if \<not> starts_with s ''/'' then Inl (invalid parameter) else Inr (shell_quote s)))
      | PTimezone \<Rightarrow> quoted_if is_timezone parameter value
      | PServiceName \<Rightarrow> quoted_if is_service_name parameter value
      | PTimeRange \<Rightarrow> validate_time_range parameter value
      | PHost \<Rightarrow> quoted_if is_host parameter value
      | PPort \<Rightarrow>
          bind_res (ok_or (invalid parameter) (json_as_u64 value)) (\<lambda>n.
            if \<not> (1 \<le> n \<and> n \<le> 65535) then Inl (invalid parameter)
            else Inr (shell_quote (decimal n)))
      | PInterfaceName \<Rightarrow> quoted_if is_interface_name parameter value
      | PCidr \<Rightarrow> quoted_if is_cidr parameter value
      | PContainerName \<Rightarrow> quoted_if is_container_name parameter value
      | PFileMode \<Rightarrow> quoted_if is_file_mode parameter value
      | PCronExpression \<Rightarrow> quoted_if is_cron_expression parameter value
      | PManagedId \<Rightarrow> validate_managed_id parse_str parameter value
      | PMultiSelect opts most \<Rightarrow> validate_choices (\<lambda>s. s \<in> set opts) most parameter value
      | PServiceMultiSelect most \<Rightarrow> validate_choices is_service_name most parameter value)"

section \<open>Sets of parameters\<close>

record validated_parameter =
  vp_value :: json
  vp_shell_value :: string
  vp_sensitive :: bool

text \<open>\<open>BTreeMap<String, ValidatedParameter>\<close>: entries in the byte order of their names.\<close>

type_synonym validated_parameters = "(string \<times> validated_parameter) list"

fun btree_insert :: "'k::linorder \<Rightarrow> 'v \<Rightarrow> ('k \<times> 'v) list \<Rightarrow> ('k \<times> 'v) list" where
  "btree_insert k v [] = [(k, v)]"
| "btree_insert k v ((k', v') # m) =
     (if k < k' then (k, v) # (k', v') # m
      else if k = k' then (k, v) # m
      else (k', v') # btree_insert k v m)"

definition params_get :: "validated_parameters \<Rightarrow> string \<Rightarrow> validated_parameter option" where
  "params_get values name = map_of values name"

definition string_value :: "validated_parameters \<Rightarrow> string \<Rightarrow> string option" where
  "string_value values name =
     Option.bind (params_get values name) (\<lambda>parameter. json_as_str (vp_value parameter))"

definition protected_paths :: "string list" where
  "protected_paths = [''/'', ''/bin'', ''/boot'', ''/dev'', ''/etc'', ''/home'', ''/lib'', ''/lib64'',
     ''/proc'', ''/run'', ''/sbin'', ''/sys'', ''/usr'', ''/var'']"

definition swap_constraint :: "validated_parameters \<Rightarrow> unit app_result" where
  "swap_constraint values =
     bind_res (ok_or (Validation ''invalid swap file path'') (string_value values ''path'')) (\<lambda>path.
       if path = ''/swapfile''
          \<or> (case strip_prefix ''/var/lib/qingzhou/swap/'' path of
               None \<Rightarrow> False | Some rest \<Rightarrow> is_safe_relative_path rest)
       then Inr ()
       else Inl (Validation ''only /swapfile or paths below /var/lib/qingzhou/swap/ are allowed''))"

definition permissions_constraint :: "validated_parameters \<Rightarrow> unit app_result" where
  "permissions_constraint values =
     bind_res (ok_or (Validation ''invalid target path'') (string_value values ''path'')) (\<lambda>path.
       if path \<in> set protected_paths \<or> \<not> is_normalized_absolute_path path
       then Inl (Validation ''system top-level directories cannot be changed'')
       else Inr ())"

definition hosts_constraint :: "validated_parameters \<Rightarrow> unit app_result" where
  "hosts_constraint values =
     bind_res (ok_or (Validation ''invalid host mapping address'') (string_value values ''address''))
       (\<lambda>address.
       if parse_ip_addr address = None
       then Inl (Validation ''the host mapping address must be IPv4 or IPv6'')
       else bind_res (ok_or (Validation ''invalid host mapping name'')
                       (string_value values ''hostname'')) (\<lambda>hostname.
         if parse_ip_addr hostname \<noteq> None
         then Inl (Validation ''the host mapping name must not be an IP address'')
         else Inr ()))"

definition ip_change_constraint :: "validated_parameters \<Rightarrow> unit app_result" where
  "ip_change_constraint values =
     bind_res (ok_or (Validation ''invalid new IP address'') (string_value values ''cidr'')) (\<lambda>cidr.
     bind_res (ok_or (Validation ''invalid new IP address'')
       (Option.bind (split_once (CHR ''/'') cidr) (\<lambda>(address, _). parse_ip_addr address))) (\<lambda>address.
     bind_res (ok_or (Validation ''the gateway must be a valid IP address'')
       (Option.bind (string_value values ''gateway'') parse_ip_addr)) (\<lambda>gateway.
       if is_ipv4 address \<noteq> is_ipv4 gateway
       then Inl (Validation ''address and gateway must use the same IP version'')
       else Inr ())))"

definition validate_task_constraints ::
  "task_definition \<Rightarrow> validated_parameters \<Rightarrow> unit app_result" where
  "validate_task_constraints task values =
     (if td_id task = ''storage.swap_manage'' then swap_constraint values
      else if td_id task = ''security.file_permissions'' then permissions_constraint values
      else if td_id task = ''network.hosts_manage'' then hosts_constraint values
      else if td_id task = ''network.ip_change'' then ip_change_constraint values
      else Inr ())"

text \<open>The value of a parameter is the one given, or its default.\<close>

definition given_value :: "(string \<times> json) list \<Rightarrow> parameter_definition \<Rightarrow> json option" where
  "given_value object parameter =
     (case map_of object (pd_name parameter) of
        Some v \<Rightarrow> Some v | None \<Rightarrow> pd_default_value parameter)"

fun collect_parameters ::
  "(string \<Rightarrow> uuid option) \<Rightarrow> (string \<times> json) list \<Rightarrow> parameter_definition list \<Rightarrow>
   validated_parameters \<Rightarrow> validated_parameters app_result" where
  "collect_parameters parse_str object [] values = Inr values"
| "collect_parameters parse_str object (parameter # parameters) values =
     (case given_value object parameter of
        None \<Rightarrow>
          if pd_required parameter
          then Inl (Validation (''missing task parameter: '' @ pd_name parameter))
          else collect_parameters parse_str object parameters values
      | Some value \<Rightarrow>
          bind_res (validate_value parse_str parameter value) (\<lambda>shell_value.
            collect_parameters parse_str object parameters
              (btree_insert (pd_name parameter)
                \<lparr>vp_value = value, vp_shell_value = shell_value,
                 vp_sensitive = pd_sensitive parameter\<rparr> values)))"

definition validate_parameters ::
  "(string \<Rightarrow> uuid option) \<Rightarrow> task_definition \<Rightarrow> json \<Rightarrow> validated_parameters app_result" where
  "validate_parameters parse_str task input =
     bind_res (ok_or (Validation ''task parameters must be an object'') (json_as_object input))
       (\<lambda>object.
       case List.find (\<lambda>key. \<not> list_ex (\<lambda>p. pd_name p = key) (td_parameters task)) (map fst object) of
         Some key \<Rightarrow> Inl (Validation (''unknown task parameter: '' @ key))
       | None \<Rightarrow>
           bind_res (collect_parameters parse_str object (td_parameters task) []) (\<lambda>values.
           bind_res (validate_task_constraints task values) (\<lambda>_. Inr values)))"

end
