(* ===== verification/Task_Shell.thy ===== *)
theory Task_Shell
  imports Task_Params
begin

text \<open>
  What a remote shell reads from the text of a parameter. \<open>sh_words\<close> is the part of POSIX word
  splitting that a literal needs; \<open>literal_words\<close> is what a value stands for; \<open>well_typed\<close> says
  which values belong to a kind of parameter, without the order of the checks in the code.
\<close>

section \<open>Shell words\<close>

definition is_plain_char :: "char \<Rightarrow> bool" where
  "is_plain_char c \<longleftrightarrow> is_ascii_alphanumeric c \<or> c \<in> set ''-_./:@+,%''"

text \<open>
  The words of a text made of blanks, plain characters and quoted parts (Shell Command Language, 2.2
  and 2.3); \<open>cur\<close> is the word under way. Any character that could start an expansion, a
  redirection or a second command makes the text not literal.
\<close>

fun sh_words :: "quote_mode \<Rightarrow> string option \<Rightarrow> string \<Rightarrow> string list option" where
  "sh_words Outside cur [] = Some (case cur of None \<Rightarrow> [] | Some w \<Rightarrow> [w])"
| "sh_words _ cur [] = None"
| "sh_words Outside cur (c # cs) =
     (let w = (case cur of None \<Rightarrow> [] | Some w \<Rightarrow> w) in
      if c = CHR 0x27 then sh_words Single (Some w) cs
      else if c = CHR 0x22 then sh_words Double (Some w) cs
      else if c = CHR '' '' then
        (case cur of None \<Rightarrow> sh_words Outside None cs
         | Some w \<Rightarrow> map_option ((#) w) (sh_words Outside None cs))
      else if is_plain_char c then sh_words Outside (Some (w @ [c])) cs
      else None)"
| "sh_words Single cur (c # cs) =
     (let w = (case cur of None \<Rightarrow> [] | Some w \<Rightarrow> w) in
      if c = CHR 0x27 then sh_words Outside (Some w) cs else sh_words Single (Some (w @ [c])) cs)"
| "sh_words Double cur (c # cs) =
     (let w = (case cur of None \<Rightarrow> [] | Some w \<Rightarrow> w) in
      if c = CHR 0x22 then sh_words Outside (Some w) cs
      else if c \<in> {CHR ''$'', CHR 0x60, CHR 0x5C} then None
      else sh_words Double (Some (w @ [c])) cs)"

abbreviation shell_words :: "string \<Rightarrow> string list option" where
  "shell_words s \<equiv> sh_words Outside None s"

definition word_so_far :: "string option \<Rightarrow> string" where
  "word_so_far cur = (case cur of None \<Rightarrow> [] | Some w \<Rightarrow> w)"

lemma word_so_far_simps [simp]: "word_so_far None = []" "word_so_far (Some w) = w"
  by (simp_all add: word_so_far_def)

lemma sh_words_single:
  "sh_words Single (Some w)
     (concat (map (\<lambda>c. if c = CHR 0x27 then quote_escape else [c]) v) @ CHR 0x27 # rest)
   = sh_words Outside (Some (w @ v)) rest"
  by (induction v arbitrary: w) (auto simp: quote_escape_def Let_def)

lemma sh_words_quote: "sh_words Outside cur (shell_quote v @ rest) =
    sh_words Outside (Some (word_so_far cur @ v)) rest"
  by (simp add: shell_quote_def sh_words_single word_so_far_def)

lemma plain_char_codes:
  "is_plain_char c \<Longrightarrow> c \<noteq> CHR 0x27 \<and> c \<noteq> CHR 0x22 \<and> c \<noteq> CHR '' ''"
  by (auto simp: is_plain_char_def is_ascii_alphanumeric_def is_ascii_digit_def byte_def)

lemma sh_words_plain:
  "list_all is_plain_char v \<Longrightarrow> v \<noteq> [] \<Longrightarrow>
     sh_words Outside cur (v @ rest) = sh_words Outside (Some (word_so_far cur @ v)) rest"
proof (induction v arbitrary: cur)
  case (Cons c v)
  then have c: "c \<noteq> CHR 0x27" "c \<noteq> CHR 0x22" "c \<noteq> CHR '' ''" "is_plain_char c"
    using plain_char_codes by auto
  show ?case
    using Cons c by (cases "v = []") (auto simp: Let_def word_so_far_def)
qed simp

lemma shell_words_quote [simp]: "shell_words (shell_quote v) = Some [v]"
  using sh_words_quote [of None v "[]"] by simp

lemma shell_words_plain: "list_all is_plain_char v \<Longrightarrow> v \<noteq> [] \<Longrightarrow> shell_words v = Some [v]"
  using sh_words_plain [of v None "[]"] by simp

lemma shell_words_join: "shell_words (join_with '' '' (map shell_quote vs)) = Some vs"
proof (induction vs rule: induct_list012)
  case (3 v u vs)
  then show ?case
    using sh_words_quote [of None v "CHR '' '' # join_with '' '' (map shell_quote (u # vs))"]
    by simp
qed (simp_all)

section \<open>Decimal numbers are plain\<close>

lemma decimal_digit_plain: "d < (10::nat) \<Longrightarrow> is_plain_char (char_of (48 + d))"
  by (simp add: is_plain_char_def is_ascii_alphanumeric_def is_ascii_digit_def byte_def)

lemma decimal_plain: "list_all is_plain_char (decimal n) \<and> decimal n \<noteq> []"
proof (induction n rule: decimal.induct)
  case (1 n)
  show ?case
  proof (cases "n < 10")
    case True
    then show ?thesis using decimal_digit_plain [of n] by (subst (1 2) decimal.simps) simp
  next
    case False
    then show ?thesis using 1 decimal_digit_plain [of "n mod 10"] by (subst (1 2) decimal.simps) simp
  qed
qed

lemma decimal_int_plain: "list_all is_plain_char (decimal_int z) \<and> decimal_int z \<noteq> []"
  using decimal_plain by (simp add: decimal_int_def is_plain_char_def)

section \<open>What a value stands for\<close>

fun choice_text :: "json \<Rightarrow> string" where
  "choice_text (JString s) = s"
| "choice_text _ = []"

fun time_range_text :: "json \<Rightarrow> string" where
  "time_range_text (JObject members) =
     choice_text (the (map_of members ''start'')) @ ''/'' @ choice_text (the (map_of members ''end''))"
| "time_range_text _ = []"

fun scalar_words :: "json \<Rightarrow> string list" where
  "scalar_words (JString s) = [s]"
| "scalar_words (JInt z) = [decimal_int z]"
| "scalar_words (JBool b) = [if b then ''true'' else ''false'']"
| "scalar_words (JArray vs) = map choice_text vs"
| "scalar_words _ = []"

definition literal_words :: "(string \<Rightarrow> uuid option) \<Rightarrow> parameter_kind \<Rightarrow> json \<Rightarrow> string list" where
  "literal_words parse_str kind value =
     (case kind of
        PTimeRange \<Rightarrow> [time_range_text value]
      | PManagedId \<Rightarrow> [uuid_text (the (parse_str (choice_text value)))]
      | _ \<Rightarrow> scalar_words value)"

section \<open>Which values belong to a kind\<close>

definition is_text :: "(string \<Rightarrow> bool) \<Rightarrow> json \<Rightarrow> bool" where
  "is_text p value \<longleftrightarrow> (case value of JString s \<Rightarrow> p s | _ \<Rightarrow> False)"

definition is_choice :: "(string \<Rightarrow> bool) \<Rightarrow> nat \<Rightarrow> json \<Rightarrow> bool" where
  "is_choice p most value \<longleftrightarrow>
     (case value of
        JArray vs \<Rightarrow> vs \<noteq> [] \<and> length vs \<le> most \<and> list_all (is_text p) vs
                      \<and> distinct (map choice_text vs)
      | _ \<Rightarrow> False)"

definition is_time_range :: "json \<Rightarrow> bool" where
  "is_time_range value \<longleftrightarrow>
     (case value of
        JObject members \<Rightarrow>
          set (map fst members) \<subseteq> {''start'', ''end''}
          \<and> (case (Option.bind (map_of members ''start'') json_as_str,
                     Option.bind (map_of members ''end'') json_as_str) of
               (Some a, Some b) \<Rightarrow> is_time_value a \<and> is_time_value b
             | _ \<Rightarrow> False)
      | _ \<Rightarrow> False)"

definition is_managed_id :: "(string \<Rightarrow> uuid option) \<Rightarrow> string \<Rightarrow> bool" where
  "is_managed_id parse_str s \<longleftrightarrow>
     (case parse_str s of
        None \<Rightarrow> False | Some u \<Rightarrow> u \<noteq> 0 \<and> eq_ignore_ascii_case s (uuid_text u))"

definition well_typed :: "(string \<Rightarrow> uuid option) \<Rightarrow> parameter_kind \<Rightarrow> json \<Rightarrow> bool" where
  "well_typed parse_str kind value =
     (case kind of
        PString least most multi \<Rightarrow>
          is_text (\<lambda>s. least \<le> char_count s \<and> char_count s \<le> most
            \<and> (multi \<or> CHR 0x0A \<notin> set s) \<and> CHR 0x00 \<notin> set s) value
      | PInteger lo hi \<Rightarrow>
          (case value of
             JInt z \<Rightarrow> lo \<le> z \<and> z \<le> hi \<and> - (2 ^ 63) \<le> z \<and> z < 2 ^ 63 | _ \<Rightarrow> False)
      | PBoolean \<Rightarrow> (case value of JBool _ \<Rightarrow> True | _ \<Rightarrow> False)
      | PEnum opts \<Rightarrow> is_text (\<lambda>s. s \<in> set opts) value
      | PAbsolutePath \<Rightarrow> is_text (\<lambda>s. starts_with s ''/'' \<and> CHR 0x00 \<notin> set s) value
      | PTimezone \<Rightarrow> is_text is_timezone value
      | PServiceName \<Rightarrow> is_text is_service_name value
      | PTimeRange \<Rightarrow> is_time_range value
      | PHost \<Rightarrow> is_text is_host value
      | PPort \<Rightarrow> (case value of JInt z \<Rightarrow> 1 \<le> z \<and> z \<le> 65535 | _ \<Rightarrow> False)
      | PInterfaceName \<Rightarrow> is_text is_interface_name value
      | PCidr \<Rightarrow> is_text is_cidr value
      | PContainerName \<Rightarrow> is_text is_container_name value
      | PFileMode \<Rightarrow> is_text is_file_mode value
      | PCronExpression \<Rightarrow> is_text is_cron_expression value
      | PManagedId \<Rightarrow> is_text (is_managed_id parse_str) value
      | PMultiSelect opts most \<Rightarrow> is_choice (\<lambda>s. s \<in> set opts) most value
      | PServiceMultiSelect most \<Rightarrow> is_choice is_service_name most value)"


section \<open>The checks of the code\<close>

named_theorems value_checks \<open>when a check of the code accepts\<close>

lemma required_string_Inr [value_checks]:
  "required_string parameter value = Inr s \<longleftrightarrow> value = JString s"
  by (cases "value") (auto simp: required_string_def ok_or_def)

lemma reject_nul_Inr [value_checks]: "reject_nul parameter s = Inr x \<longleftrightarrow> CHR 0x00 \<notin> set s"
  by (simp add: reject_nul_def)

lemma quoted_if_Inr [value_checks]:
  "quoted_if p parameter value = Inr sh \<longleftrightarrow> is_text p value \<and> sh = shell_quote (choice_text value)"
  by (cases "value") (auto simp: quoted_if_def is_text_def result_simps value_checks)

lemma select_values_Inr [value_checks]:
  "select_values p parameter seen vs = Inr ws \<longleftrightarrow>
     list_all (is_text p) vs \<and> distinct (map choice_text vs)
     \<and> set seen \<inter> choice_text ` set vs = {} \<and> ws = map shell_quote (map choice_text vs)"
proof (induction vs arbitrary: seen ws)
  case (Cons v vs)
  show ?case
    by (cases v) (auto simp: required_string_def ok_or_def is_text_def Cons result_simps)
qed auto

lemma validate_choices_Inr [value_checks]:
  "validate_choices p most parameter value = Inr sh \<longleftrightarrow>
     is_choice p most value \<and> sh = join_with '' '' (map shell_quote (scalar_words value))"
  by (cases "value")
     (auto simp: validate_choices_def is_choice_def result_simps value_checks ok_or_def)

lemma member_text_Some:
  "Option.bind (map_of members key) json_as_str = Some s \<longleftrightarrow> map_of members key = Some (JString s)"
  by (cases "map_of members key") (auto elim: json_as_str.elims)

lemma is_time_range_object:
  "is_time_range (JObject members) \<longleftrightarrow>
     set (map fst members) \<subseteq> {''start'', ''end''}
     \<and> (\<exists>a b. map_of members ''start'' = Some (JString a) \<and> map_of members ''end'' = Some (JString b)
          \<and> is_time_value a \<and> is_time_value b)"
proof -
  have "(case (u, v) of (Some a, Some b) \<Rightarrow> p a \<and> p b | _ \<Rightarrow> False)
      \<longleftrightarrow> (\<exists>a b. u = Some a \<and> v = Some b \<and> p a \<and> p b)" for u v and p :: "string \<Rightarrow> bool"
    by (cases u; cases v) auto
  then show ?thesis unfolding is_time_range_def json.case member_text_Some [symmetric] by presburger
qed

lemma ok_or_Some: "ok_or e (Some x) = Inr x"
  by (simp add: ok_or_def)

lemma two_checks:
  "bind_res (ok_or e u) (\<lambda>a. bind_res (ok_or e v) (\<lambda>b.
      if \<not> p a \<or> \<not> p b then Inl e else Inr (f a b))) = Inr r
   \<longleftrightarrow> (\<exists>a b. u = Some a \<and> v = Some b \<and> p a \<and> p b \<and> r = f a b)"
  by (cases u; cases v) (auto simp: ok_or_def)

lemma validate_time_range_object:
  "validate_time_range parameter (JObject members) = Inr sh \<longleftrightarrow>
     set (map fst members) \<subseteq> {''start'', ''end''}
     \<and> (\<exists>a b. map_of members ''start'' = Some (JString a) \<and> map_of members ''end'' = Some (JString b)
          \<and> is_time_value a \<and> is_time_value b \<and> sh = shell_quote (a @ ''/'' @ b))"
proof -
  have keys: "list_ex (\<lambda>(key, _). key \<noteq> ''start'' \<and> key \<noteq> ''end'') members
      \<longleftrightarrow> \<not> set (map fst members) \<subseteq> {''start'', ''end''}"
    by (induction members) (simp_all add: case_prod_beta conj_comms del: char.inject)
  have code: "validate_time_range parameter (JObject members) =
      (if \<not> set (map fst members) \<subseteq> {''start'', ''end''} then Inl (invalid parameter)
       else bind_res (ok_or (invalid parameter) (Option.bind (map_of members ''start'') json_as_str)) (\<lambda>a.
            bind_res (ok_or (invalid parameter) (Option.bind (map_of members ''end'') json_as_str)) (\<lambda>b.
              if \<not> is_time_value a \<or> \<not> is_time_value b then Inl (invalid parameter)
              else Inr (shell_quote (a @ ''/'' @ b)))))"
    unfolding validate_time_range_def json_as_object.simps ok_or_Some bind_res.simps(2) keys ..
  have guard: "((if \<not> g then Inl e else m) = Inr sh) \<longleftrightarrow> g \<and> m = Inr sh" for g e and m :: "string app_result"
    by simp
  show ?thesis
    unfolding code guard two_checks member_text_Some ..
qed

lemma validate_time_range_Inr [value_checks]:
  "validate_time_range parameter value = Inr sh \<longleftrightarrow>
     is_time_range value \<and> sh = shell_quote (time_range_text value)"
proof (cases "value")
  case (JObject members)
  show ?thesis
    unfolding JObject validate_time_range_object is_time_range_object by auto
qed (auto simp: validate_time_range_def is_time_range_def ok_or_def)

lemma validate_managed_id_Inr [value_checks]:
  "validate_managed_id parse_str parameter value = Inr sh \<longleftrightarrow>
     is_text (is_managed_id parse_str) value
     \<and> sh = shell_quote (uuid_text (the (parse_str (choice_text value))))"
  by (cases "value")
     (auto simp: validate_managed_id_def is_text_def is_managed_id_def result_simps value_checks
       Let_def split: option.splits)

lemma json_as_i64_Some [value_checks]:
  "json_as_i64 value = Some z \<longleftrightarrow> value = JInt z \<and> - (2 ^ 63) \<le> z \<and> z < 2 ^ 63"
  by (cases "value") auto

lemma json_as_u64_Some [value_checks]:
  "json_as_u64 value = Some n \<longleftrightarrow> (\<exists>z. value = JInt z \<and> 0 \<le> z \<and> z < 2 ^ 64 \<and> n = nat z)"
  by (cases "value") auto

lemma json_as_bool_Some [value_checks]: "json_as_bool value = Some b \<longleftrightarrow> value = JBool b"
  by (cases "value") auto

text \<open>The text of an accepted value, by kind.\<close>

definition value_text :: "(string \<Rightarrow> uuid option) \<Rightarrow> parameter_kind \<Rightarrow> json \<Rightarrow> string" where
  "value_text parse_str kind value =
     (case kind of
        PInteger _ _ \<Rightarrow> hd (scalar_words value)
      | PBoolean \<Rightarrow> hd (scalar_words value)
      | _ \<Rightarrow> join_with '' '' (map shell_quote (literal_words parse_str kind value)))"

lemma validate_value_Inr:
  "validate_value parse_str parameter value = Inr sh \<longleftrightarrow>
     well_typed parse_str (pd_kind parameter) value
     \<and> sh = value_text parse_str (pd_kind parameter) value"
proof (cases "pd_kind parameter")
  case (PString a b c)
  then show ?thesis
    by (cases "value")
       (auto simp: validate_value_def well_typed_def value_text_def literal_words_def is_text_def
         result_simps value_checks)
next
  case (PInteger a b)
  then show ?thesis
    by (cases "value")
       (auto simp: validate_value_def well_typed_def value_text_def result_simps value_checks ok_or_def)
next
  case PBoolean
  then show ?thesis
    by (cases "value")
       (auto simp: validate_value_def well_typed_def value_text_def result_simps value_checks ok_or_def)
next
  case PAbsolutePath
  then show ?thesis
    by (cases "value")
       (auto simp: validate_value_def well_typed_def value_text_def literal_words_def is_text_def
         result_simps value_checks)
next
  case PPort
  then show ?thesis
    by (cases "value")
       (auto simp: validate_value_def well_typed_def value_text_def literal_words_def
         result_simps value_checks decimal_int_def ok_or_def)
qed (cases "value";
     auto simp: validate_value_def well_typed_def value_text_def literal_words_def value_checks
       is_text_def is_choice_def is_time_range_def)+

lemma well_typed_words:
  assumes "well_typed parse_str kind value"
  shows "shell_words (value_text parse_str kind value) = Some (literal_words parse_str kind value)"
proof (cases kind)
  case (PInteger a b)
  with assms show ?thesis
    using shell_words_plain decimal_int_plain
    by (auto simp: well_typed_def value_text_def literal_words_def split: json.splits)
next
  case PBoolean
  have "shell_words ''true'' = Some [''true'']" "shell_words ''false'' = Some [''false'']"
    by (rule shell_words_plain; code_simp)+
  with PBoolean assms show ?thesis
    by (auto simp: well_typed_def value_text_def literal_words_def split: json.splits)
qed (simp_all add: value_text_def shell_words_join)

lemmas validate_value_words = validate_value_Inr well_typed_words


section \<open>Sets of parameters\<close>

lemma btree_insert_keys: "fst ` set (btree_insert k v m) = insert k (fst ` set m)"
proof (induction m)
  case (Cons e m)
  then show ?case by (cases e) auto
qed simp

lemma btree_insert_sorted:
  "sorted_wrt (<) (map fst m) \<Longrightarrow> sorted_wrt (<) (map fst (btree_insert k v m))"
proof (induction m)
  case (Cons e m)
  obtain k' v' where e: "e = (k', v')" by force
  show ?case
    using Cons btree_insert_keys [of k v m] unfolding e by (auto simp: list_all_iff)
qed simp

lemma btree_insert_map_of:
  "sorted_wrt (<) (map fst m) \<Longrightarrow> map_of (btree_insert k v m) = (map_of m)(k \<mapsto> v)"
proof (induction m)
  case (Cons e m)
  then show ?case by (cases e) (auto simp: fun_eq_iff)
qed simp

lemma btree_insert_set: "set (btree_insert k v m) \<subseteq> insert (k, v) (set m)"
proof (induction m)
  case (Cons e m)
  then show ?case by (cases e) auto
qed simp

text \<open>An entry of the result comes from a declared parameter, holds the value given for it (or its
  default), has the declared kind, and its text stands for exactly that value.\<close>

definition entry_ok ::
  "(string \<Rightarrow> uuid option) \<Rightarrow> task_definition \<Rightarrow> (string \<times> json) list \<Rightarrow>
   string \<times> validated_parameter \<Rightarrow> bool" where
  "entry_ok parse_str task object e \<longleftrightarrow>
     list_ex (\<lambda>p. pd_name p = fst e \<and> given_value object p = Some (vp_value (snd e))
         \<and> well_typed parse_str (pd_kind p) (vp_value (snd e))
         \<and> vp_sensitive (snd e) = pd_sensitive p
         \<and> shell_words (vp_shell_value (snd e))
             = Some (literal_words parse_str (pd_kind p) (vp_value (snd e))))
       (td_parameters task)"

definition accepted_parameters ::
  "(string \<Rightarrow> uuid option) \<Rightarrow> task_definition \<Rightarrow> (string \<times> json) list \<Rightarrow> validated_parameters \<Rightarrow> bool"
  where
  "accepted_parameters parse_str task object values \<longleftrightarrow>
     list_all (entry_ok parse_str task object) values
     \<and> sorted_wrt (<) (map fst values)
     \<and> list_all (\<lambda>p. pd_required p \<longrightarrow> params_get values (pd_name p) \<noteq> None) (td_parameters task)
     \<and> list_all (\<lambda>(key, _). list_ex (\<lambda>p. pd_name p = key) (td_parameters task)) object"

lemma collect_parameters_keys:
  "collect_parameters parse_str object ps values = Inr values' \<Longrightarrow>
     fst ` set values \<subseteq> fst ` set values' \<and>
     (\<forall>p \<in> set ps. pd_required p \<longrightarrow> pd_name p \<in> fst ` set values')"
proof (induction ps arbitrary: "values")
  case (Cons p ps)
  show ?case
  proof (cases "given_value object p")
    case None
    then show ?thesis using Cons by (auto split: if_splits)
  next
    case (Some v)
    then obtain sh where
      "collect_parameters parse_str object ps (btree_insert (pd_name p)
         \<lparr>vp_value = v, vp_shell_value = sh, vp_sensitive = pd_sensitive p\<rparr> values) = Inr values'"
      using Cons.prems by (auto simp: result_simps)
    from Cons.IH [OF this] show ?thesis by (auto simp: btree_insert_keys)
  qed
qed simp

lemma collect_parameters_sorted:
  "collect_parameters parse_str object ps values = Inr values' \<Longrightarrow>
     sorted_wrt (<) (map fst values) \<Longrightarrow> sorted_wrt (<) (map fst values')"
  by (induction ps arbitrary: "values")
     (auto simp: result_simps btree_insert_sorted split: option.splits if_splits)

lemma collect_parameters_entries:
  assumes "collect_parameters parse_str object ps values = Inr values'"
    and "set ps \<subseteq> set (td_parameters task)" and "list_all (entry_ok parse_str task object) values"
  shows "list_all (entry_ok parse_str task object) values'"
  using assms
proof (induction ps arbitrary: "values")
  case (Cons p ps)
  show ?case
  proof (cases "given_value object p")
    case None
    then show ?thesis using Cons by (auto split: if_splits)
  next
    case (Some v)
    define e where "e sh = \<lparr>vp_value = v, vp_shell_value = sh, vp_sensitive = pd_sensitive p\<rparr>" for sh
    from Some Cons.prems(1) obtain sh where sh: "validate_value parse_str p v = Inr sh"
      "collect_parameters parse_str object ps (btree_insert (pd_name p) (e sh) values) = Inr values'"
      by (auto simp: result_simps e_def)
    have "entry_ok parse_str task object (pd_name p, e sh)"
      using Cons.prems(2) Some sh(1) unfolding entry_ok_def list_ex_iff e_def
      by (intro bexI [of _ p]) (auto simp: validate_value_Inr well_typed_words)
    with Cons.prems(3) have "list_all (entry_ok parse_str task object)
        (btree_insert (pd_name p) (e sh) values)"
      using btree_insert_set [of "pd_name p" "e sh" "values"] by (auto simp: list_all_iff)
    with Cons.IH [OF sh(2)] Cons.prems(2) show ?thesis by simp
  qed
qed simp

lemma validate_parameters_accepted:
  assumes "validate_parameters parse_str task (JObject object) = Inr values"
  shows "accepted_parameters parse_str task object values"
proof -
  from assms have c: "collect_parameters parse_str object (td_parameters task) [] = Inr values"
    and k: "List.find (\<lambda>key. \<not> list_ex (\<lambda>p. pd_name p = key) (td_parameters task)) (map fst object) = None"
    unfolding validate_parameters_def by (auto simp: ok_or_def result_simps split: option.splits)
  show ?thesis
    using collect_parameters_keys [OF c] collect_parameters_sorted [OF c]
      collect_parameters_entries [OF c, of task] k
    unfolding accepted_parameters_def params_get_def map_of_eq_None_iff
    by (auto simp: list_all_iff find_None_iff)
qed

lemma validate_parameters_object:
  "validate_parameters parse_str task input = Inr values \<Longrightarrow> \<exists>object. input = JObject object"
  by (cases "input") (auto simp: validate_parameters_def ok_or_def)

text \<open>Parameters that are accepted are well typed: each has a declared name, its value is the one
  given or the declared default and belongs to the declared kind, no required one is missing, no
  unknown one is present, and the text that will stand in the command is read by a POSIX shell as
  exactly the words of that value, with nothing left to expand.\<close>

theorem accepted_parameters_typed:
  assumes "validate_parameters parse_str task (JObject object) = Inr values"
  shows "accepted_parameters parse_str task object values"
  using assms by (rule validate_parameters_accepted)

text \<open>Which sets are refused before the constraints of single tasks.\<close>

lemma collect_parameters_ok:
  "is_ok (collect_parameters parse_str object ps values) \<longleftrightarrow>
     list_all (\<lambda>p. case given_value object p of None \<Rightarrow> \<not> pd_required p
                 | Some v \<Rightarrow> well_typed parse_str (pd_kind p) v) ps"
proof (induction ps arbitrary: "values")
  case (Cons p ps)
  show ?case
  proof (cases "given_value object p")
    case None
    then show ?thesis using Cons by simp
  next
    case (Some v)
    show ?thesis
    proof (cases "validate_value parse_str p v")
      case (Inl e)
      then have "\<not> well_typed parse_str (pd_kind p) v"
        using validate_value_Inr [of parse_str p v] by force
      with Inl Some show ?thesis by simp
    next
      case (Inr sh)
      then have "well_typed parse_str (pd_kind p) v" by (simp add: validate_value_Inr)
      with Inr Some Cons show ?thesis by simp
    qed
  qed
qed simp

text \<open>
  The fields of a cron expression: the end of a range is only checked when it is a number, so a
  range that starts with \<open>1-\<close> is accepted whatever follows, as if it were \<open>1\<close>.
\<close>

lemma split_char_none: "d \<notin> set w \<Longrightarrow> split_char d w = [w]"
  by (induction w) auto

lemma split_char_once: "d \<notin> set a \<Longrightarrow> d \<notin> set b \<Longrightarrow> split_char d (a @ d # b) = [a, b]"
  by (induction a) (auto simp: split_char_none)

lemma cron_range_end_unchecked:
  assumes "CHR '','' \<notin> set rest" "CHR ''/'' \<notin> set rest" "CHR ''-'' \<notin> set rest"
    and "parse_u8 rest = None" and "lo \<le> 1" "1 \<le> hi"
  shows "is_cron_field (''1-'' @ rest) lo hi"
proof -
  have "split_char (CHR '','') (''1-'' @ rest) = [''1-'' @ rest]"
    and "split_char (CHR ''/'') (''1-'' @ rest) = [''1-'' @ rest]"
    using assms by (simp_all add: split_char_none)
  moreover have "split_char (CHR ''-'') (''1-'' @ rest) = [''1'', rest]"
    using split_char_once [of "CHR ''-''" "''1''" rest] assms by simp
  moreover have "parse_u8 ''1'' = Some 1"
    by (simp add: parse_unsigned_def digits_value_def digit_value_def is_ascii_digit_def byte_def)
  ultimately show ?thesis
    using assms by (simp add: is_cron_field_def is_cron_part_def)
qed

end
