(* ===== verification/Task_Render.thy ===== *)
theory Task_Render
  imports Task_Shell
begin

text \<open>
  The rendering of command templates, \<^verbatim>\<open>src-tauri/src/core/tasks/render.rs\<close>. The code replaces the
  placeholders of one parameter after the other in the whole text. \<open>filled\<close> is the obvious
  one-pass meaning of a template; the two agree as long as no value contains a double brace.
\<close>

section \<open>Searching and replacing\<close>

text \<open>\<open>str::find\<close> of a pattern.\<close>

fun find_str :: "string \<Rightarrow> string \<Rightarrow> nat option" where
  "find_str p [] = (if p = [] then Some 0 else None)"
| "find_str p (c # cs) = (if starts_with (c # cs) p then Some 0 else map_option Suc (find_str p cs))"

text \<open>\<open>str::replace\<close> of a non-empty pattern, from the left, not looking into what was inserted.\<close>

function replace_str :: "string \<Rightarrow> string \<Rightarrow> string \<Rightarrow> string" where
  "replace_str p v s =
     (case s of [] \<Rightarrow> []
      | c # cs \<Rightarrow>
          if p \<noteq> [] \<and> starts_with s p then v @ replace_str p v (drop (length p) s)
          else c # replace_str p v cs)"
  by pat_completeness auto
termination
  by (relation "measure (\<lambda>(p, v, s). length s)") auto

declare replace_str.simps [simp del]

lemma replace_str_Nil [simp]: "replace_str p v [] = []"
  by (simp add: replace_str.simps)

lemma starts_with_append: "starts_with (p @ s) p"
  by (induction p) auto

lemma starts_with_iff: "starts_with s p \<longleftrightarrow> take (length p) s = p"
  by (induction s p rule: starts_with.induct) auto

lemma find_str_bound: "find_str p s = Some i \<Longrightarrow> i + length p \<le> length s"
proof (induction s arbitrary: i)
  case (Cons c cs)
  show ?case
  proof (cases "starts_with (c # cs) p")
    case True
    then have "length p \<le> length (c # cs)"
      unfolding starts_with_iff by (metis length_take min.cobounded1 min_def nat_le_linear)
    with True Cons.prems show ?thesis by simp
  qed (use Cons in \<open>auto\<close>)
qed (auto split: if_splits)

lemma str_contains_find: "str_contains s p \<longleftrightarrow> find_str p s \<noteq> None"
  by (induction s) auto

section \<open>The code\<close>

definition placeholder :: "string \<Rightarrow> string" where
  "placeholder name = ''{{'' @ name @ ''}}''"

definition optional_placeholder :: "string \<Rightarrow> string" where
  "optional_placeholder name = ''{{?'' @ name @ ''}}''"

definition empty_quotes :: string where
  "empty_quotes = [CHR 0x27, CHR 0x27]"

definition is_parameter_byte :: "char \<Rightarrow> bool" where
  "is_parameter_byte b \<longleftrightarrow> is_ascii_alphanumeric b \<or> b = CHR ''_''"

function replace_missing_optional_parameters :: "string \<Rightarrow> string app_result" where
  "replace_missing_optional_parameters command =
     (case find_str ''{{?'' command of
        None \<Rightarrow> Inr command
      | Some start \<Rightarrow>
          let remainder = drop (start + 3) command in
          case find_str ''}}'' remainder of
            None \<Rightarrow> Inl (Validation ''the task has an unclosed optional parameter'')
          | Some stop \<Rightarrow>
              let name = take stop remainder in
              if name = [] \<or> \<not> list_all is_parameter_byte name
              then Inl (Validation ''the task has an invalid optional parameter name'')
              else replace_missing_optional_parameters
                     (take start command @ empty_quotes @ drop (stop + 2) remainder))"
  by pat_completeness auto
termination
proof (relation "measure length", simp, goal_cases)
  case (1 command start remainder stop name)
  then show ?case
    using find_str_bound [of "''{{?''" command start] find_str_bound [of "''}}''" remainder stop]
    by (cases name) (auto simp: empty_quotes_def)
qed

declare replace_missing_optional_parameters.simps [simp del]

text \<open>The loop over the parameters, in the order of their names.\<close>

fun replace_parameters :: "validated_parameters \<Rightarrow> string \<Rightarrow> string" where
  "replace_parameters [] command = command"
| "replace_parameters ((name, parameter) # parameters) command =
     replace_parameters parameters
       (replace_str (optional_placeholder name) (vp_shell_value parameter)
         (replace_str (placeholder name) (vp_shell_value parameter) command))"

definition render_template :: "string \<Rightarrow> string \<Rightarrow> validated_parameters \<Rightarrow> string app_result" where
  "render_template template implementation_id parameters =
     bind_res (replace_missing_optional_parameters (replace_parameters parameters template))
       (\<lambda>command.
       if str_contains command ''{{'' \<or> str_contains command ''}}''
       then Inl (Validation (''task implementation '' @ implementation_id
                              @ '' has unresolved parameters''))
       else Inr command)"

definition render_task_step_command ::
  "task_step \<Rightarrow> string \<Rightarrow> validated_parameters \<Rightarrow> string app_result" where
  "render_task_step_command step implementation_id parameters =
     render_template (ts_command_template step) implementation_id parameters"

definition render_command :: "task_implementation \<Rightarrow> validated_parameters \<Rightarrow> string app_result" where
  "render_command implementation parameters =
     (case ti_execution_steps implementation of
        [] \<Rightarrow> Inl (Validation (''task implementation '' @ ti_id implementation
                               @ '' has no executable step''))
      | step # _ \<Rightarrow> render_task_step_command step (ti_id implementation) parameters)"

section \<open>Templates in one pass\<close>

text \<open>A template is literal text with placeholders in it.\<close>

datatype segment = Lit string | Hole string | OptHole string

fun segment_text :: "segment \<Rightarrow> string" where
  "segment_text (Lit s) = s"
| "segment_text (Hole name) = placeholder name"
| "segment_text (OptHole name) = optional_placeholder name"

definition template_text :: "segment list \<Rightarrow> string" where
  "template_text segments = concat (map segment_text segments)"

text \<open>
  Literal text that no placeholder can start or end in, alone or together with its neighbours. The
  shell text of a value without double braces is of this form.
\<close>

definition quiet :: "string \<Rightarrow> bool" where
  "quiet s \<longleftrightarrow> \<not> str_contains s ''{{'' \<and> \<not> str_contains s ''}}''
     \<and> (s \<noteq> [] \<longrightarrow> hd s \<noteq> CHR ''}'' \<and> List.last s \<noteq> CHR ''{'')"

definition clean_name :: "string \<Rightarrow> bool" where
  "clean_name name \<longleftrightarrow> name \<noteq> [] \<and> list_all is_parameter_byte name"

fun clean_segment :: "segment \<Rightarrow> bool" where
  "clean_segment (Lit s) = quiet s"
| "clean_segment (Hole name) = clean_name name"
| "clean_segment (OptHole name) = clean_name name"

definition segment_value :: "validated_parameters \<Rightarrow> segment \<Rightarrow> string" where
  "segment_value parameters segment =
     (case segment of
        Lit s \<Rightarrow> s
      | Hole name \<Rightarrow> (case params_get parameters name of
            Some p \<Rightarrow> vp_shell_value p | None \<Rightarrow> placeholder name)
      | OptHole name \<Rightarrow> (case params_get parameters name of
            Some p \<Rightarrow> vp_shell_value p | None \<Rightarrow> empty_quotes))"

definition unbound :: "validated_parameters \<Rightarrow> segment \<Rightarrow> bool" where
  "unbound parameters segment \<longleftrightarrow>
     (case segment of Hole name \<Rightarrow> params_get parameters name = None | _ \<Rightarrow> False)"

definition filled :: "string \<Rightarrow> segment list \<Rightarrow> validated_parameters \<Rightarrow> string app_result" where
  "filled implementation_id segments parameters =
     (if list_ex (unbound parameters) segments
      then Inl (Validation (''task implementation '' @ implementation_id
                             @ '' has unresolved parameters''))
      else Inr (concat (map (segment_value parameters) segments)))"


section \<open>Where a pattern cannot occur\<close>

text \<open>\<open>silent p w f\<close>: no occurrence of \<open>p\<close> in \<open>w @ f\<close> starts within \<open>w\<close>.\<close>

fun silent :: "string \<Rightarrow> string \<Rightarrow> string \<Rightarrow> bool" where
  "silent p [] f = True"
| "silent p (c # w) f = (\<not> starts_with (c # w @ f) p \<and> silent p w f)"

lemma silent_append [simp]: "silent p (u @ w) f \<longleftrightarrow> silent p u (w @ f) \<and> silent p w f"
  by (induction u) auto

lemma starts_with_trans: "starts_with s p \<Longrightarrow> starts_with p q \<Longrightarrow> starts_with s q"
proof (induction s q arbitrary: p rule: starts_with.induct)
  case (2 q qs)
  then show ?case by (cases p) auto
next
  case (3 c cs q qs)
  then show ?case by (cases p) auto
qed simp

lemma silent_mono: "silent q w f \<Longrightarrow> starts_with p q \<Longrightarrow> silent p w f"
  by (induction w) (auto dest: starts_with_trans)

lemma replace_silent:
  "silent p w f \<Longrightarrow> replace_str p v (w @ f) = w @ replace_str p v f"
  by (induction w) (simp_all add: replace_str.simps [of p v "_ # _"])

lemma find_silent:
  "silent p w f \<Longrightarrow> find_str p (w @ f) = map_option ((+) (length w)) (find_str p f)"
  by (induction w; cases "find_str p f") auto

lemma silent_head: "list_all (\<lambda>c. c \<noteq> x) w \<Longrightarrow> silent (x # p) w f"
  by (induction w) auto

lemma find_here: "starts_with s p \<Longrightarrow> find_str p s = Some 0"
  by (cases s) (auto simp: starts_with_iff)

lemma starts_with_two:
  "starts_with s [a, b] \<longleftrightarrow> (\<exists>r. s = a # b # r)"
  by (cases s; cases "tl s") auto

lemma silent_double:
  assumes "\<not> str_contains s [a, a]" and "s \<noteq> [] \<Longrightarrow> List.last s \<noteq> a \<or> f = [] \<or> hd f \<noteq> a"
  shows "silent [a, a] s f"
  using assms
proof (induction s)
  case (Cons c s)
  have "silent [a, a] s f" using Cons by (cases s) auto
  moreover have "\<not> starts_with (c # s @ f) [a, a]"
    using Cons.prems by (cases s; cases f) (auto simp: starts_with_two)
  ultimately show ?case by simp
qed simp

lemma quiet_open: "quiet s \<Longrightarrow> silent ''{{'' s f"
  by (rule silent_double) (auto simp: quiet_def)

lemma quiet_close: "quiet s \<Longrightarrow> f = [] \<or> hd f \<noteq> CHR ''}'' \<Longrightarrow> silent ''}}'' s f"
  by (rule silent_double) (auto simp: quiet_def)

section \<open>Names\<close>

lemma parameter_byte_no_brace:
  "is_parameter_byte c \<Longrightarrow> c \<noteq> CHR ''{'' \<and> c \<noteq> CHR ''}'' \<and> c \<noteq> CHR ''?''"
  by (auto simp: is_parameter_byte_def is_ascii_alphanumeric_def is_ascii_digit_def byte_def)

lemma name_no_brace:
  "clean_name m \<Longrightarrow> list_all (\<lambda>c. c \<noteq> CHR ''{'') m \<and> list_all (\<lambda>c. c \<noteq> CHR ''}'') m"
  using parameter_byte_no_brace unfolding clean_name_def list_all_iff by blast

lemma clean_name_hd:
  "clean_name m \<Longrightarrow> \<exists>c cs. m = c # cs \<and> c \<noteq> CHR ''{'' \<and> c \<noteq> CHR ''?'' \<and> c \<noteq> CHR ''}''"
  using parameter_byte_no_brace by (cases m) (auto simp: clean_name_def)

lemma name_unique:
  assumes "list_all is_parameter_byte m" "list_all is_parameter_byte n"
    and "starts_with (m @ ''}}'' @ f) (n @ ''}}'')"
  shows "m = n"
  using assms
proof (induction m arbitrary: n)
  case Nil
  then show ?case by (cases n) (auto dest: parameter_byte_no_brace)
next
  case (Cons c m)
  then show ?case by (cases n) (auto dest: parameter_byte_no_brace)
qed

lemma placeholder_tail: "clean_name m \<Longrightarrow> silent ''{{'' (CHR ''{'' # m @ ''}}'') f"
  using clean_name_hd [of m] name_no_brace [of m]
  by (auto simp: silent_head)

lemma optional_tail: "clean_name m \<Longrightarrow> silent ''{{'' (CHR ''{'' # CHR ''?'' # m @ ''}}'') f"
  using name_no_brace [of m] by (auto simp: silent_head)

lemma opens [simp]:
  "starts_with (placeholder n) ''{{''" "starts_with (optional_placeholder n) ''{{''"
  "starts_with ''{{?'' ''{{''"
  by (simp_all add: placeholder_def optional_placeholder_def)

lemma placeholder_silent:
  assumes "clean_name m" and "starts_with p ''{{''" and "\<not> starts_with (placeholder m @ f) p"
  shows "silent p (placeholder m) f"
  using assms silent_mono [OF placeholder_tail [OF assms(1)] assms(2)]
  by (simp add: placeholder_def)

lemma optional_silent:
  assumes "clean_name m" and "starts_with p ''{{''" and "\<not> starts_with (optional_placeholder m @ f) p"
  shows "silent p (optional_placeholder m) f"
  using assms silent_mono [OF optional_tail [OF assms(1)] assms(2)]
  by (simp add: optional_placeholder_def)

lemma distinct_placeholders:
  assumes "clean_name m" "clean_name n"
  shows "starts_with (placeholder m @ f) (placeholder n) \<longleftrightarrow> m = n"
    and "starts_with (optional_placeholder m @ f) (optional_placeholder n) \<longleftrightarrow> m = n"
    and "\<not> starts_with (placeholder m @ f) (optional_placeholder n)"
    and "\<not> starts_with (optional_placeholder m @ f) (placeholder n)"
    and "\<not> starts_with (placeholder m @ f) ''{{?''"
proof -
  have u: "starts_with (m @ ''}}'' @ f) (n @ ''}}'') \<longleftrightarrow> m = n"
    using name_unique [of m n f] assms starts_with_append [of "n @ ''}}''" f]
    by (auto simp: clean_name_def)
  show "starts_with (placeholder m @ f) (placeholder n) \<longleftrightarrow> m = n"
    and "starts_with (optional_placeholder m @ f) (optional_placeholder n) \<longleftrightarrow> m = n"
    using u by (simp_all add: placeholder_def optional_placeholder_def)
  show "\<not> starts_with (placeholder m @ f) (optional_placeholder n)"
    and "\<not> starts_with (optional_placeholder m @ f) (placeholder n)"
    and "\<not> starts_with (placeholder m @ f) ''{{?''"
    using clean_name_hd [OF assms(1)] clean_name_hd [OF assms(2)]
    by (auto simp: placeholder_def optional_placeholder_def)
qed


section \<open>One pass\<close>

lemma template_text_simps [simp]:
  "template_text [] = []"
  "template_text (seg # segs) = segment_text seg @ template_text segs"
  "template_text (as @ bs) = template_text as @ template_text bs"
  by (simp_all add: template_text_def)

text \<open>Replacing the placeholders of one name.\<close>

fun fill_hole :: "string \<Rightarrow> string \<Rightarrow> segment \<Rightarrow> segment" where
  "fill_hole n v (Hole m) = (if m = n then Lit v else Hole m)"
| "fill_hole n v seg = seg"

fun fill_optional :: "string \<Rightarrow> string \<Rightarrow> segment \<Rightarrow> segment" where
  "fill_optional n v (OptHole m) = (if m = n then Lit v else OptHole m)"
| "fill_optional n v seg = seg"

lemma replace_hit:
  "p \<noteq> [] \<Longrightarrow> replace_str p v (p @ f) = v @ replace_str p v f"
proof -
  assume p: "p \<noteq> []"
  then obtain c cs where e: "p @ f = c # cs" by (cases p) auto
  then have "drop (length p) (c # cs) = f" by (metis append_eq_conv_conj)
  with p e starts_with_append [of p f] show ?thesis
    by (subst replace_str.simps) simp
qed

lemma placeholder_not_Nil [simp]: "placeholder n \<noteq> []" "optional_placeholder n \<noteq> []"
  by (simp_all add: placeholder_def optional_placeholder_def)

lemma replace_placeholder:
  assumes "list_all clean_segment segs" "clean_name n"
  shows "replace_str (placeholder n) v (template_text segs)
    = template_text (map (fill_hole n v) segs)"
  using assms(1)
proof (induction segs)
  case (Cons seg segs)
  note IH = Cons.IH
  show ?case
  proof (cases seg)
    case (Lit s)
    then show ?thesis
      using Cons replace_silent [OF silent_mono [OF quiet_open opens(1)]] by simp
  next
    case (Hole m)
    then show ?thesis
      using Cons placeholder_silent [of m "placeholder n"] distinct_placeholders(1) [OF _ assms(2)]
      by (auto simp: replace_hit replace_silent)
  next
    case (OptHole m)
    then show ?thesis
      using Cons optional_silent [of m "placeholder n"] distinct_placeholders(4) [OF _ assms(2)]
      by (auto simp: replace_silent)
  qed
qed simp

lemma replace_optional:
  assumes "list_all clean_segment segs" "clean_name n"
  shows "replace_str (optional_placeholder n) v (template_text segs)
    = template_text (map (fill_optional n v) segs)"
  using assms(1)
proof (induction segs)
  case (Cons seg segs)
  show ?case
  proof (cases seg)
    case (Lit s)
    then show ?thesis
      using Cons replace_silent [OF silent_mono [OF quiet_open opens(2)]] by simp
  next
    case (Hole m)
    then show ?thesis
      using Cons placeholder_silent [of m "optional_placeholder n"]
        distinct_placeholders(3) [OF _ assms(2)]
      by (auto simp: replace_silent)
  next
    case (OptHole m)
    then show ?thesis
      using Cons optional_silent [of m "optional_placeholder n"]
        distinct_placeholders(2) [OF _ assms(2)]
      by (auto simp: replace_hit replace_silent)
  qed
qed simp

lemma fill_clean:
  "quiet v \<Longrightarrow> clean_segment seg \<Longrightarrow>
     clean_segment (fill_hole n v seg) \<and> clean_segment (fill_optional n v seg)"
  by (cases seg) auto

definition bind_segment :: "validated_parameters \<Rightarrow> segment \<Rightarrow> segment" where
  "bind_segment parameters seg =
     (case seg of
        Lit s \<Rightarrow> Lit s
      | Hole m \<Rightarrow> (case params_get parameters m of
                    Some p \<Rightarrow> Lit (vp_shell_value p) | None \<Rightarrow> Hole m)
      | OptHole m \<Rightarrow> (case params_get parameters m of
                       Some p \<Rightarrow> Lit (vp_shell_value p) | None \<Rightarrow> OptHole m))"

definition clean_parameter :: "string \<times> validated_parameter \<Rightarrow> bool" where
  "clean_parameter e \<longleftrightarrow> clean_name (fst e) \<and> quiet (vp_shell_value (snd e))"

lemma bind_segment_step:
  "bind_segment parameters (fill_optional n (vp_shell_value p) (fill_hole n (vp_shell_value p) seg))
   = bind_segment ((n, p) # parameters) seg"
  by (cases seg) (auto simp: bind_segment_def params_get_def)

lemma bind_segment_clean:
  "list_all clean_parameter parameters \<Longrightarrow> clean_segment seg \<Longrightarrow>
     clean_segment (bind_segment parameters seg)"
  by (cases seg)
     (auto simp: bind_segment_def params_get_def list_all_iff clean_parameter_def
       dest!: map_of_SomeD split: option.split)

lemma replace_parameters_segments:
  assumes "list_all clean_segment segs" and "list_all clean_parameter parameters"
  shows "replace_parameters parameters (template_text segs)
    = template_text (map (bind_segment parameters) segs)"
  using assms
proof (induction parameters arbitrary: segs)
  case Nil
  have "bind_segment [] seg = seg" for seg
    by (cases seg) (auto simp: bind_segment_def params_get_def)
  then show ?case by (simp add: map_idI)
next
  case (Cons e parameters)
  obtain n p where e: "e = (n, p)" by force
  define v where "v = vp_shell_value p"
  from Cons.prems(2) e have n: "clean_name n" and v: "quiet v"
    by (auto simp: clean_parameter_def v_def)
  have c1: "list_all clean_segment (map (fill_hole n v) segs)"
    and c2: "list_all clean_segment (map (fill_optional n v) (map (fill_hole n v) segs))"
    using Cons.prems(1) fill_clean [OF v] by (auto simp: list_all_iff)
  have "replace_parameters (e # parameters) (template_text segs)
      = replace_parameters parameters
          (template_text (map (fill_optional n v) (map (fill_hole n v) segs)))"
    unfolding e replace_parameters.simps
    using replace_placeholder [OF Cons.prems(1) n] replace_optional [OF c1 n] v_def by simp
  also have "\<dots> = template_text (map (bind_segment parameters)
      (map (fill_optional n v) (map (fill_hole n v) segs)))"
    using Cons.IH [OF c2] Cons.prems(2) by simp
  also have "\<dots> = template_text (map (bind_segment (e # parameters)) segs)"
    by (simp add: e v_def bind_segment_step comp_def)
  finally show ?case .
qed

text \<open>Optional placeholders that are left.\<close>

fun drop_optional :: "segment \<Rightarrow> segment" where
  "drop_optional (OptHole m) = Lit empty_quotes"
| "drop_optional seg = seg"

fun is_optional :: "segment \<Rightarrow> bool" where
  "is_optional (OptHole _) = True"
| "is_optional _ = False"

lemma no_optional_silent:
  "list_all clean_segment segs \<Longrightarrow> \<not> list_ex is_optional segs \<Longrightarrow>
     silent ''{{?'' (template_text segs) f"
proof (induction segs)
  case (Cons seg segs)
  show ?case
  proof (cases seg)
    case (Lit s)
    then show ?thesis using Cons silent_mono [OF quiet_open opens(3)] by simp
  next
    case (Hole m)
    then show ?thesis
      using Cons placeholder_silent [of m "''{{?''"] distinct_placeholders(5) [of m m] by auto
  next
    case (OptHole m)
    then show ?thesis using Cons by simp
  qed
qed simp

lemma quiet_empty_quotes: "quiet empty_quotes"
  by (simp add: quiet_def empty_quotes_def)

lemma first_optional:
  assumes "list_ex is_optional segs"
  obtains as m bs where "segs = as @ OptHole m # bs" "\<not> list_ex is_optional as"
proof -
  from assms have "\<exists>x \<in> set segs. is_optional x" by (simp add: list_ex_iff)
  then obtain as x bs where "segs = as @ x # bs" "is_optional x" "\<forall>y \<in> set as. \<not> is_optional y"
    by (rule split_list_first_propE)
  then show ?thesis using that by (cases x) (auto simp: list_ex_iff)
qed

lemma missing_optional_step:
  assumes "list_all clean_segment (as @ OptHole m # bs)" "\<not> list_ex is_optional as"
  shows "replace_missing_optional_parameters (template_text (as @ OptHole m # bs))
    = replace_missing_optional_parameters (template_text (as @ Lit empty_quotes # bs))"
proof -
  let ?a = "template_text as" and ?b = "template_text bs"
  have m: "clean_name m" using assms by simp
  have "find_str ''{{?'' (?a @ optional_placeholder m @ ?b) = Some (length ?a)"
    using find_silent [OF no_optional_silent [of as "optional_placeholder m @ ?b"]] assms
    by (simp add: optional_placeholder_def)
  moreover have "drop (length ?a + 3) (?a @ optional_placeholder m @ ?b) = m @ ''}}'' @ ?b"
    by (simp add: optional_placeholder_def)
  moreover have "find_str ''}}'' (m @ ''}}'' @ ?b) = Some (length m)"
    using find_silent [OF silent_head [of "CHR ''}''" m "''}''" "''}}'' @ ?b"]] name_no_brace [OF m]
    by simp
  ultimately show ?thesis
    using m by (subst replace_missing_optional_parameters.simps) (simp add: clean_name_def Let_def)
qed

lemma missing_optional_segments:
  "list_all clean_segment segs \<Longrightarrow>
     replace_missing_optional_parameters (template_text segs)
     = Inr (template_text (map drop_optional segs))"
proof (induction "length (filter is_optional segs)" arbitrary: segs rule: less_induct)
  case less
  show ?case
  proof (cases "list_ex is_optional segs")
    case False
    then have "find_str ''{{?'' (template_text segs) = None"
      using find_silent [OF no_optional_silent [of segs "[]"]] less.prems by simp
    moreover have "map drop_optional segs = segs"
      using False by (induction segs) (auto elim: is_optional.elims)
    ultimately show ?thesis by (subst replace_missing_optional_parameters.simps) simp
  next
    case True
    then obtain as m bs where s: "segs = as @ OptHole m # bs" "\<not> list_ex is_optional as"
      by (rule first_optional)
    have "replace_missing_optional_parameters (template_text (as @ Lit empty_quotes # bs))
        = Inr (template_text (map drop_optional (as @ Lit empty_quotes # bs)))"
      using less.prems quiet_empty_quotes by (intro less.hyps) (simp_all add: s)
    then show ?thesis using missing_optional_step [of as m bs] less.prems s by simp
  qed
qed


text \<open>What is left is resolved exactly if no required placeholder is open.\<close>

lemma template_head:
  "list_all clean_segment segs \<Longrightarrow> \<not> list_ex is_optional segs \<Longrightarrow>
     template_text segs = [] \<or> hd (template_text segs) \<noteq> CHR ''}''"
proof (induction segs)
  case (Cons seg segs)
  then show ?case
    by (cases seg; cases "segment_text seg") (auto simp: quiet_def placeholder_def)
qed simp

lemma resolved_text:
  assumes "list_all clean_segment segs" "list_all (\<lambda>seg. \<exists>s. seg = Lit s) segs"
  shows "silent ''{{'' (template_text segs) [] \<and> silent ''}}'' (template_text segs) []"
  using assms
proof (induction segs)
  case (Cons seg segs)
  obtain s where s: "seg = Lit s" using Cons.prems by auto
  have "\<not> list_ex is_optional segs" using Cons.prems(2) by (auto simp: list_all_iff list_ex_iff)
  then have "template_text segs = [] \<or> hd (template_text segs) \<noteq> CHR ''}''"
    using Cons.prems by (intro template_head) auto
  then show ?case
    using Cons s quiet_open [of s] quiet_close [of s "template_text segs"] by simp
qed simp

lemma silent_contains: "silent p w [] \<Longrightarrow> p \<noteq> [] \<Longrightarrow> \<not> str_contains w p"
  using find_silent [of p w "[]"] by (simp add: str_contains_find)

lemma contains_append: "str_contains (a @ p @ b) p"
proof (induction a)
  case Nil
  show ?case using starts_with_append [of p b] by (cases "p @ b") auto
qed simp

lemma resolved_iff:
  assumes "list_all clean_segment segs" "\<not> list_ex is_optional segs"
  shows "str_contains (template_text segs) ''{{'' \<or> str_contains (template_text segs) ''}}''
    \<longleftrightarrow> list_ex (\<lambda>seg. \<exists>m. seg = Hole m) segs"
proof (cases "list_ex (\<lambda>seg. \<exists>m. seg = Hole m) segs")
  case True
  then obtain m where "Hole m \<in> set segs" by (auto simp: list_ex_iff)
  then obtain as bs where "segs = as @ Hole m # bs" by (auto dest: split_list)
  then have "template_text segs = template_text as @ ''{{'' @ m @ ''}}'' @ template_text bs"
    by (simp add: placeholder_def)
  with True show ?thesis using contains_append by metis
next
  case False
  have "list_all (\<lambda>seg. \<exists>s. seg = Lit s) segs"
    unfolding list_all_iff
  proof
    fix seg assume "seg \<in> set segs"
    with False assms(2) show "\<exists>s. seg = Lit s" by (cases seg) (auto simp: list_ex_iff)
  qed
  with False resolved_text [OF assms(1)] silent_contains show ?thesis by blast
qed

lemma final_segment:
  "drop_optional (bind_segment parameters seg)
   = (if unbound parameters seg then seg else Lit (segment_value parameters seg))"
  by (cases seg) (auto simp: bind_segment_def unbound_def segment_value_def split: option.split)

lemma drop_optional_clean: "clean_segment seg \<Longrightarrow> clean_segment (drop_optional seg)"
  by (cases seg) (auto simp: quiet_empty_quotes)

lemma drop_optional_none: "\<not> list_ex is_optional (map drop_optional segs)"
proof (induction segs)
  case (Cons seg segs)
  then show ?case by (cases seg) auto
qed simp

lemma render_template_filled:
  assumes "list_all clean_segment segs" and "list_all clean_parameter parameters"
  shows "render_template (template_text segs) impl parameters = filled impl segs parameters"
proof -
  let ?bound = "map (bind_segment parameters) segs"
  let ?final = "map drop_optional ?bound"
  have clean: "list_all clean_segment ?bound"
    using assms bind_segment_clean by (auto simp: list_all_iff)
  have final: "list_all clean_segment ?final"
    using clean drop_optional_clean by (auto simp: list_all_iff)
  have open_: "list_ex (\<lambda>seg. \<exists>m. seg = Hole m) ?final \<longleftrightarrow> list_ex (unbound parameters) segs"
  proof -
    have "(\<exists>m. drop_optional (bind_segment parameters seg) = Hole m) \<longleftrightarrow> unbound parameters seg" for seg
      by (cases seg) (auto simp: final_segment unbound_def)
    then show ?thesis by (simp add: list_ex_iff del: drop_optional.simps)
  qed
  have "template_text ?final = concat (map (segment_value parameters) segs)"
    if "\<not> list_ex (unbound parameters) segs"
    using that by (induction segs) (auto simp: final_segment)
  then show ?thesis
    unfolding render_template_def replace_parameters_segments [OF assms]
      missing_optional_segments [OF clean] bind_res.simps resolved_iff [OF final drop_optional_none]
      open_ filled_def
    by auto
qed

end
