(* ===== verification/Task_Plan.thy ===== *)
theory Task_Plan
  imports Task_Render
begin

text \<open>
  From a task and its parameters to the commands that will run:
  \<^verbatim>\<open>src-tauri/src/core/tasks/planner.rs\<close> and \<^verbatim>\<open>src-tauri/src/core/tasks/privilege.rs\<close>.
\<close>

section \<open>Plans\<close>

record rendered_task_step =
  rs_id :: string
  rs_title :: string
  rs_command :: string
  rs_timeout_seconds :: u64
  rs_output_limit_bytes :: u64

record planned_task =
  pt_definition_id :: string
  pt_definition_version :: int
  pt_implementation_id :: string
  pt_risk_level :: risk_level
  pt_privilege :: privilege_requirement
  pt_parameters :: validated_parameters
  pt_preflight_steps :: "rendered_task_step list"
  pt_preview_steps :: "rendered_task_step list"
  pt_backup_plan :: "backup_plan option"
  pt_execution_steps :: "rendered_task_step list"
  pt_verify_steps :: "rendered_task_step list"
  pt_rollback_plan :: "rollback_plan option"
  pt_result_parser :: result_parser_kind
  pt_estimated_seconds :: u32

record public_task_plan =
  pp_definition_id :: string
  pp_definition_version :: int
  pp_implementation_id :: string
  pp_risk_level :: risk_level
  pp_privilege :: privilege_requirement
  pp_step_titles :: "string list"
  pp_estimated_seconds :: u32

definition public_summary :: "planned_task \<Rightarrow> public_task_plan" where
  "public_summary planned =
     \<lparr>pp_definition_id = pt_definition_id planned,
      pp_definition_version = pt_definition_version planned,
      pp_implementation_id = pt_implementation_id planned,
      pp_risk_level = pt_risk_level planned,
      pp_privilege = pt_privilege planned,
      pp_step_titles = map rs_title (pt_preflight_steps planned @ pt_execution_steps planned),
      pp_estimated_seconds = pt_estimated_seconds planned\<rparr>"

definition render_step ::
  "string \<Rightarrow> validated_parameters \<Rightarrow> task_step \<Rightarrow> rendered_task_step app_result" where
  "render_step implementation_id parameters step =
     map_res (\<lambda>command.
         \<lparr>rs_id = ts_id step, rs_title = ts_title step, rs_command = command,
          rs_timeout_seconds = ts_timeout_seconds step,
          rs_output_limit_bytes = ts_output_limit_bytes step\<rparr>)
       (render_task_step_command step implementation_id parameters)"

definition render_steps ::
  "task_step list \<Rightarrow> string \<Rightarrow> validated_parameters \<Rightarrow> rendered_task_step list app_result" where
  "render_steps steps implementation_id parameters =
     collect_res (render_step implementation_id parameters) steps"

text \<open>\<open>None\<close> for a kind that names nothing on the server.\<close>

definition discovered ::
  "system_capabilities \<Rightarrow> parameter_kind \<Rightarrow> json \<Rightarrow> bool option" where
  "discovered capabilities kind value =
     (case kind of
        PServiceName \<Rightarrow>
          Some (case json_as_str value of None \<Rightarrow> False | Some s \<Rightarrow> has_service capabilities s)
      | PContainerName \<Rightarrow>
          Some (case json_as_str value of None \<Rightarrow> False | Some s \<Rightarrow> has_container capabilities s)
      | PInterfaceName \<Rightarrow>
          Some (case json_as_str value of None \<Rightarrow> False | Some s \<Rightarrow> has_interface capabilities s)
      | PServiceMultiSelect _ \<Rightarrow>
          Some (case json_as_array value of
              None \<Rightarrow> False
            | Some vs \<Rightarrow> list_all (\<lambda>v. case json_as_str v of
                  None \<Rightarrow> False | Some s \<Rightarrow> has_service capabilities s) vs)
      | _ \<Rightarrow> None)"

fun check_targets ::
  "parameter_definition list \<Rightarrow> system_capabilities \<Rightarrow> validated_parameters \<Rightarrow> unit app_result" where
  "check_targets [] capabilities parameters = Inr ()"
| "check_targets (p # ps) capabilities parameters =
     (case params_get parameters (pd_name p) of
        None \<Rightarrow> check_targets ps capabilities parameters
      | Some vp \<Rightarrow>
          (case discovered capabilities (pd_kind p) (vp_value vp) of
             Some False \<Rightarrow> Inl (Compatibility (''target '' @ pd_label p
                                  @ '' was not found by the capability probe''))
           | _ \<Rightarrow> check_targets ps capabilities parameters))"

definition validate_discovered_targets ::
  "task_definition \<Rightarrow> system_capabilities \<Rightarrow> validated_parameters \<Rightarrow> unit app_result" where
  "validate_discovered_targets task capabilities parameters =
     check_targets (td_parameters task) capabilities parameters"

definition plan_task ::
  "(string \<Rightarrow> uuid option) \<Rightarrow> task_definition \<Rightarrow> system_capabilities \<Rightarrow> json \<Rightarrow>
   planned_task app_result" where
  "plan_task parse_str task capabilities input =
     bind_res (validate_parameters parse_str task input) (\<lambda>parameters.
     bind_res (validate_discovered_targets task capabilities parameters) (\<lambda>_.
     bind_res (select_implementation task capabilities) (\<lambda>implementation.
     let render = (\<lambda>steps. render_steps steps (ti_id implementation) parameters) in
     bind_res (render (ti_preflight_steps implementation)) (\<lambda>preflight_steps.
     bind_res (render (ti_preview_steps implementation)) (\<lambda>preview_steps.
     bind_res (render (ti_execution_steps implementation)) (\<lambda>execution_steps.
     bind_res (render (ti_verify_steps implementation)) (\<lambda>verify_steps.
       if execution_steps = []
       then Inl (Validation (''task implementation '' @ ti_id implementation
                              @ '' has no executable step''))
       else Inr
         \<lparr>pt_definition_id = td_id task, pt_definition_version = td_version task,
          pt_implementation_id = ti_id implementation, pt_risk_level = td_risk_level task,
          pt_privilege = td_privilege task, pt_parameters = parameters,
          pt_preflight_steps = preflight_steps, pt_preview_steps = preview_steps,
          pt_backup_plan = ti_backup_plan implementation, pt_execution_steps = execution_steps,
          pt_verify_steps = verify_steps, pt_rollback_plan = ti_rollback_plan implementation,
          pt_result_parser = ti_result_parser implementation,
          pt_estimated_seconds = td_estimated_seconds task\<rparr>)))))))"

definition validate_scope :: "task_definition \<Rightarrow> nat \<Rightarrow> unit app_result" where
  "validate_scope task server_count =
     (if server_count = 0 then Inl (Validation ''at least one server must be chosen'')
      else if 1 < server_count \<and> (td_risk_level task \<noteq> Safe \<or> td_scope task \<noteq> ReadOnlyBatch)
      then Inl (Validation ''only safe read-only tasks can run as a batch'')
      else Inr ())"

section \<open>Privileges\<close>

record command_output =
  co_exit_status :: int
  co_stdout :: string
  co_stderr :: string

text \<open>\<open>str::trim\<close> of a text whose end is ASCII: leading white space, then trailing white space.\<close>

definition trim_ascii_end :: "string \<Rightarrow> string" where
  "trim_ascii_end s =
     rev (dropWhile (\<lambda>c. (9 \<le> byte c \<and> byte c \<le> 13) \<or> byte c = 32) (rev s))"

definition parse_uid :: "command_output \<Rightarrow> nat app_result" where
  "parse_uid output =
     (if co_exit_status output \<noteq> 0
      then Inl (ssh_command (co_exit_status output) (co_stderr output))
      else ok_or (Security ''the server returned invalid account information'')
             (parse_u32 (trim_ascii_end (trim_start (co_stdout output)))))"

definition evaluate_privilege_probe ::
  "command_output \<Rightarrow> command_output option \<Rightarrow> privilege_mode app_result" where
  "evaluate_privilege_probe uid_output sudo_output =
     bind_res (parse_uid uid_output) (\<lambda>uid.
       if uid = 0 then Inr PrivRoot
       else if (case sudo_output of None \<Rightarrow> False | Some output \<Rightarrow> co_exit_status output = 0)
       then Inr PasswordlessSudo
       else Inl PasswordlessSudoRequired)"

definition privilege_uid_command :: string where
  "privilege_uid_command = ''id -u''"

definition passwordless_sudo_probe_command :: string where
  "passwordless_sudo_probe_command = ''sudo -n true''"

text \<open>\<open>run\<close> executes a command on the authenticated session.\<close>

definition probe_privilege ::
  "(string \<Rightarrow> command_output app_result) \<Rightarrow> privilege_mode app_result" where
  "probe_privilege run =
     bind_res (run privilege_uid_command) (\<lambda>uid_output.
     bind_res (parse_uid uid_output) (\<lambda>uid.
       if uid = 0 then Inr PrivRoot
       else bind_res (run passwordless_sudo_probe_command) (\<lambda>sudo_output.
              evaluate_privilege_probe uid_output (Some sudo_output))))"

definition elevate_fixed_command :: "string \<Rightarrow> privilege_mode \<Rightarrow> string app_result" where
  "elevate_fixed_command command mode =
     (if command = [] \<or> CHR 0x00 \<in> set command
      then Inl (Validation ''a built-in command must not be empty or hold invalid characters'')
      else if list_ex (str_contains command) [''sudo -S'', ''SUDO_ASKPASS'', ''--stdin'']
      then Inl (Security ''a built-in command has a forbidden way to elevate'')
      else (case mode of
          PrivRoot \<Rightarrow> Inr command
        | PasswordlessSudo \<Rightarrow> Inr (''sudo -n -- sh -c '' @ shell_quote command)))"

section \<open>What a plan guarantees\<close>

lemma collect_res_Inr:
  "collect_res f xs = Inr ys \<longleftrightarrow> length ys = length xs \<and> (\<forall>i < length xs. f (xs ! i) = Inr (ys ! i))"
proof (induction xs arbitrary: ys)
  case (Cons x xs)
  show ?case
    by (cases ys)
       (auto simp: result_simps Cons nth_Cons less_Suc_eq_0_disj split: sum.splits)
qed auto

lemma plan_task_Inr:
  assumes "plan_task parse_str task capabilities input = Inr planned"
  obtains implementation where
    "validate_parameters parse_str task input = Inr (pt_parameters planned)"
    "validate_discovered_targets task capabilities (pt_parameters planned) = Inr ()"
    "select_implementation task capabilities = Inr implementation"
    "render_steps (ti_preflight_steps implementation) (ti_id implementation) (pt_parameters planned)
       = Inr (pt_preflight_steps planned)"
    "render_steps (ti_preview_steps implementation) (ti_id implementation) (pt_parameters planned)
       = Inr (pt_preview_steps planned)"
    "render_steps (ti_execution_steps implementation) (ti_id implementation) (pt_parameters planned)
       = Inr (pt_execution_steps planned)"
    "render_steps (ti_verify_steps implementation) (ti_id implementation) (pt_parameters planned)
       = Inr (pt_verify_steps planned)"
    "pt_execution_steps planned \<noteq> []"
    "pt_backup_plan planned = ti_backup_plan implementation"
    "pt_rollback_plan planned = ti_rollback_plan implementation"
    "pt_definition_id planned = td_id task" "pt_risk_level planned = td_risk_level task"
    "pt_privilege planned = td_privilege task" "pt_implementation_id planned = ti_id implementation"
    "pt_definition_version planned = td_version task"
  using assms unfolding plan_task_def Let_def
  by (auto simp: result_simps split: if_splits)

lemma check_targets_found:
  assumes "check_targets ps capabilities parameters = Inr ()" "p \<in> set ps"
    and "params_get parameters (pd_name p) = Some vp"
  shows "discovered capabilities (pd_kind p) (vp_value vp) \<noteq> Some False"
  using assms by (induction ps) (auto split: option.splits bool.splits)

text \<open>No command of a plan has a placeholder left in it.\<close>

lemma rendered_resolved:
  assumes "render_steps steps impl parameters = Inr rendered" "r \<in> set rendered"
  shows "\<not> str_contains (rs_command r) ''{{'' \<and> \<not> str_contains (rs_command r) ''}}''"
proof -
  obtain i where i: "i < length rendered" "rendered ! i = r"
    using assms(2) by (auto simp: in_set_conv_nth)
  with assms(1) have "render_step impl parameters (steps ! i) = Inr r"
    by (auto simp: render_steps_def collect_res_Inr)
  then show ?thesis
    by (auto simp: render_step_def render_task_step_command_def render_template_def result_simps
        split: if_splits)
qed

definition target_found ::
  "system_capabilities \<Rightarrow> validated_parameters \<Rightarrow> parameter_definition \<Rightarrow> bool" where
  "target_found capabilities parameters p \<longleftrightarrow>
     (case params_get parameters (pd_name p) of
        None \<Rightarrow> True | Some vp \<Rightarrow> discovered capabilities (pd_kind p) (vp_value vp) \<noteq> Some False)"

definition resolved_step :: "rendered_task_step \<Rightarrow> bool" where
  "resolved_step r \<longleftrightarrow>
     \<not> str_contains (rs_command r) ''{{'' \<and> \<not> str_contains (rs_command r) ''}}''"

lemma plan_task_sound:
  assumes "plan_task parse_str task capabilities (JObject object) = Inr planned"
  shows "accepted_parameters parse_str task object (pt_parameters planned)
    \<and> list_all (target_found capabilities (pt_parameters planned)) (td_parameters task)
    \<and> list_all resolved_step (pt_preflight_steps planned @ pt_preview_steps planned
        @ pt_execution_steps planned @ pt_verify_steps planned)
    \<and> pt_execution_steps planned \<noteq> []"
  using assms
proof (rule plan_task_Inr, goal_cases)
  case (1 implementation)
  have "list_all (target_found capabilities (pt_parameters planned)) (td_parameters task)"
    using check_targets_found [OF 1(2)[unfolded validate_discovered_targets_def]]
    by (auto simp: list_all_iff target_found_def split: option.split)
  moreover have "list_all resolved_step (pt_preflight_steps planned @ pt_preview_steps planned
      @ pt_execution_steps planned @ pt_verify_steps planned)"
    unfolding list_all_iff resolved_step_def set_append
    using rendered_resolved [OF 1(4)] rendered_resolved [OF 1(5)] rendered_resolved [OF 1(6)]
      rendered_resolved [OF 1(7)] by blast
  ultimately show ?case
    using validate_parameters_accepted [OF 1(1)] 1(8) by simp
qed

end
