(* ===== verification/Op_Model.thy ===== *)
theory Op_Model
  imports Task_Plan
begin

text \<open>
  Operations: \<^verbatim>\<open>src-tauri/src/domain/operation.rs\<close> (runs of built-in tasks, their steps, and the two
  status machines) and \<^verbatim>\<open>src-tauri/src/domain/operation_restore.rs\<close> (restore points and items).
\<close>

section \<open>Runs\<close>

datatype operation_status =
    OpValidating | OpPreflighting | OpPreviewReady | OpWaitingConfirmation | OpBackingUp
  | OpRunning | OpVerifying | OpSucceeded | OpFailed | OpCancelled
  | OpUncertain | OpRollbackAvailable | OpRollingBack | OpRolledBack | OpRollbackPartial
  | OpRollbackFailed

fun operation_status_as_str :: "operation_status \<Rightarrow> string" where
  "operation_status_as_str OpValidating = ''validating''"
| "operation_status_as_str OpPreflighting = ''preflighting''"
| "operation_status_as_str OpPreviewReady = ''preview_ready''"
| "operation_status_as_str OpWaitingConfirmation = ''waiting_confirmation''"
| "operation_status_as_str OpBackingUp = ''backing_up''"
| "operation_status_as_str OpRunning = ''running''"
| "operation_status_as_str OpVerifying = ''verifying''"
| "operation_status_as_str OpSucceeded = ''succeeded''"
| "operation_status_as_str OpFailed = ''failed''"
| "operation_status_as_str OpCancelled = ''cancelled''"
| "operation_status_as_str OpUncertain = ''uncertain''"
| "operation_status_as_str OpRollbackAvailable = ''rollback_available''"
| "operation_status_as_str OpRollingBack = ''rolling_back''"
| "operation_status_as_str OpRolledBack = ''rolled_back''"
| "operation_status_as_str OpRollbackPartial = ''rollback_partial''"
| "operation_status_as_str OpRollbackFailed = ''rollback_failed''"

definition operation_status_try_from :: "string \<Rightarrow> operation_status app_result" where
  "operation_status_try_from v =
     (if v = ''validating'' then Inr OpValidating
      else if v = ''preflighting'' then Inr OpPreflighting
      else if v = ''preview_ready'' then Inr OpPreviewReady
      else if v = ''waiting_confirmation'' then Inr OpWaitingConfirmation
      else if v = ''backing_up'' then Inr OpBackingUp
      else if v = ''running'' then Inr OpRunning
      else if v = ''verifying'' then Inr OpVerifying
      else if v = ''succeeded'' then Inr OpSucceeded
      else if v = ''failed'' then Inr OpFailed
      else if v = ''cancelled'' then Inr OpCancelled
      else if v = ''uncertain'' then Inr OpUncertain
      else if v = ''rollback_available'' then Inr OpRollbackAvailable
      else if v = ''rolling_back'' then Inr OpRollingBack
      else if v = ''rolled_back'' then Inr OpRolledBack
      else if v = ''rollback_partial'' then Inr OpRollbackPartial
      else if v = ''rollback_failed'' then Inr OpRollbackFailed
      else Inl (Validation (''unknown operation status: '' @ v)))"

interpretation operation_status_enum: str_enum operation_status_as_str operation_status_try_from
proof unfold_locales
  fix x show "operation_status_try_from (operation_status_as_str x) = Inr x"
    by (cases x) (simp_all add: operation_status_try_from_def)
next
  fix s x assume "operation_status_try_from s = Inr x"
  then show "s = operation_status_as_str x"
    by (auto simp: operation_status_try_from_def split: if_splits)
qed

text \<open>The pairs of \<open>can_transition_to\<close>, by their first status.\<close>

fun op_next :: "operation_status \<Rightarrow> operation_status set" where
  "op_next OpValidating = {OpPreflighting, OpFailed, OpCancelled}"
| "op_next OpPreflighting = {OpPreviewReady, OpBackingUp, OpRunning, OpFailed, OpCancelled, OpUncertain}"
| "op_next OpPreviewReady = {OpWaitingConfirmation, OpBackingUp, OpRunning, OpCancelled}"
| "op_next OpWaitingConfirmation = {OpBackingUp, OpCancelled}"
| "op_next OpBackingUp = {OpRunning, OpFailed, OpCancelled, OpUncertain, OpRollbackAvailable}"
| "op_next OpRunning = {OpVerifying, OpSucceeded, OpFailed, OpCancelled, OpUncertain, OpRollbackAvailable}"
| "op_next OpVerifying = {OpSucceeded, OpFailed, OpCancelled, OpUncertain, OpRollbackAvailable}"
| "op_next OpUncertain = {OpSucceeded, OpRolledBack, OpRollbackAvailable}"
| "op_next OpFailed = {OpRollbackAvailable}"
| "op_next OpSucceeded = {OpRollbackAvailable}"
| "op_next OpRollbackPartial = {OpRollbackAvailable}"
| "op_next OpRollbackFailed = {OpRollbackAvailable}"
| "op_next OpRollbackAvailable = {OpRollingBack}"
| "op_next OpRollingBack = {OpRolledBack, OpRollbackPartial, OpRollbackFailed, OpUncertain}"
| "op_next OpCancelled = {}"
| "op_next OpRolledBack = {}"

definition op_can_transition :: "operation_status \<Rightarrow> operation_status \<Rightarrow> bool" where
  "op_can_transition s t \<longleftrightarrow> t \<in> op_next s"

definition op_is_terminal :: "operation_status \<Rightarrow> bool" where
  "op_is_terminal s \<longleftrightarrow>
     s \<in> {OpSucceeded, OpFailed, OpCancelled, OpUncertain, OpRolledBack, OpRollbackPartial,
           OpRollbackFailed}"

text \<open>Two of the terminal statuses are final; the others can still be rolled back or reconciled.\<close>

definition op_is_final :: "operation_status \<Rightarrow> bool" where
  "op_is_final s \<longleftrightarrow> s \<in> {OpCancelled, OpRolledBack}"

interpretation op_machine: status_machine op_can_transition op_is_final
  by unfold_locales (auto simp: op_can_transition_def op_is_final_def)

section \<open>Steps\<close>

datatype operation_phase =
    PhPreflight | PhBackup | PhExecute | PhVerify | PhRollback

fun operation_phase_as_str :: "operation_phase \<Rightarrow> string" where
  "operation_phase_as_str PhPreflight = ''preflight''"
| "operation_phase_as_str PhBackup = ''backup''"
| "operation_phase_as_str PhExecute = ''execute''"
| "operation_phase_as_str PhVerify = ''verify''"
| "operation_phase_as_str PhRollback = ''rollback''"

definition operation_phase_try_from :: "string \<Rightarrow> operation_phase app_result" where
  "operation_phase_try_from v =
     (if v = ''preflight'' then Inr PhPreflight
      else if v = ''backup'' then Inr PhBackup
      else if v = ''execute'' then Inr PhExecute
      else if v = ''verify'' then Inr PhVerify
      else if v = ''rollback'' then Inr PhRollback
      else Inl (Validation (''unknown operation phase: '' @ v)))"

interpretation operation_phase_enum: str_enum operation_phase_as_str operation_phase_try_from
proof unfold_locales
  fix x show "operation_phase_try_from (operation_phase_as_str x) = Inr x"
    by (cases x) (simp_all add: operation_phase_try_from_def)
next
  fix s x assume "operation_phase_try_from s = Inr x"
  then show "s = operation_phase_as_str x"
    by (auto simp: operation_phase_try_from_def split: if_splits)
qed

datatype step_status =
    StPending | StRunning | StSucceeded | StFailed | StCancelled
  | StUncertain | StSkipped

fun step_status_as_str :: "step_status \<Rightarrow> string" where
  "step_status_as_str StPending = ''pending''"
| "step_status_as_str StRunning = ''running''"
| "step_status_as_str StSucceeded = ''succeeded''"
| "step_status_as_str StFailed = ''failed''"
| "step_status_as_str StCancelled = ''cancelled''"
| "step_status_as_str StUncertain = ''uncertain''"
| "step_status_as_str StSkipped = ''skipped''"

definition step_status_try_from :: "string \<Rightarrow> step_status app_result" where
  "step_status_try_from v =
     (if v = ''pending'' then Inr StPending
      else if v = ''running'' then Inr StRunning
      else if v = ''succeeded'' then Inr StSucceeded
      else if v = ''failed'' then Inr StFailed
      else if v = ''cancelled'' then Inr StCancelled
      else if v = ''uncertain'' then Inr StUncertain
      else if v = ''skipped'' then Inr StSkipped
      else Inl (Validation (''unknown step status: '' @ v)))"

interpretation step_status_enum: str_enum step_status_as_str step_status_try_from
proof unfold_locales
  fix x show "step_status_try_from (step_status_as_str x) = Inr x"
    by (cases x) (simp_all add: step_status_try_from_def)
next
  fix s x assume "step_status_try_from s = Inr x"
  then show "s = step_status_as_str x"
    by (auto simp: step_status_try_from_def split: if_splits)
qed

fun step_next :: "step_status \<Rightarrow> step_status set" where
  "step_next StPending = {StRunning, StCancelled, StSkipped}"
| "step_next StRunning = {StSucceeded, StFailed, StCancelled, StUncertain}"
| "step_next StFailed = {StRunning}"
| "step_next StUncertain = {StRunning, StSucceeded}"
| "step_next _ = {}"

definition step_can_transition :: "step_status \<Rightarrow> step_status \<Rightarrow> bool" where
  "step_can_transition s t \<longleftrightarrow> t \<in> step_next s"

definition step_is_terminal :: "step_status \<Rightarrow> bool" where
  "step_is_terminal s \<longleftrightarrow> s \<in> {StSucceeded, StFailed, StCancelled, StUncertain, StSkipped}"

definition step_is_final :: "step_status \<Rightarrow> bool" where
  "step_is_final s \<longleftrightarrow> s \<in> {StSucceeded, StCancelled, StSkipped}"

interpretation step_machine: status_machine step_can_transition step_is_final
  by unfold_locales (auto simp: step_can_transition_def step_is_final_def)

section \<open>Records\<close>

record operation_run =
  or_id :: uuid
  or_server_id :: string
  or_task_id :: string
  or_task_version :: int
  or_risk_level :: risk_level
  or_status :: operation_status
  or_parameters_summary :: "string option"
  or_result :: "json option"
  or_error_category :: "string option"
  or_error_message :: "string option"
  or_created_at :: int
  or_updated_at :: int
  or_finished_at :: "int option"

record operation_step =
  os_run_id :: uuid
  os_phase :: operation_phase
  os_index :: nat
  os_step_id :: string
  os_title :: string
  os_status :: step_status
  os_execution_id :: "uuid option"
  os_output_summary :: "string option"
  os_error_message :: "string option"
  os_started_at :: "int option"
  os_finished_at :: "int option"

record operation_details =
  od_run :: operation_run
  od_steps :: "operation_step list"

record operation_filter =
  of_server_id :: "string option"
  of_task_id :: "string option"
  of_status :: "operation_status option"
  of_created_from :: "int option"
  of_created_to :: "int option"

record new_operation_run =
  nor_server_id :: string
  nor_task_id :: string
  nor_task_version :: int
  nor_risk_level :: risk_level
  nor_parameters_summary :: "string option"

record new_operation_step =
  nos_run_id :: uuid
  nos_phase :: operation_phase
  nos_index :: nat
  nos_step_id :: string
  nos_title :: string

record finish_operation_step =
  fos_run_id :: uuid
  fos_phase :: operation_phase
  fos_index :: nat
  fos_status :: step_status
  fos_execution_id :: "uuid option"
  fos_output_summary :: "string option"
  fos_error_message :: "string option"
  fos_finished_at :: int

section \<open>Restore points\<close>

datatype restore_point_status =
    RpCreating | RpAvailable | RpRollingBack | RpRolledBack | RpPartial
  | RpFailed | RpExpired | RpCleanupPending

fun restore_point_status_as_str :: "restore_point_status \<Rightarrow> string" where
  "restore_point_status_as_str RpCreating = ''creating''"
| "restore_point_status_as_str RpAvailable = ''available''"
| "restore_point_status_as_str RpRollingBack = ''rolling_back''"
| "restore_point_status_as_str RpRolledBack = ''rolled_back''"
| "restore_point_status_as_str RpPartial = ''partial''"
| "restore_point_status_as_str RpFailed = ''failed''"
| "restore_point_status_as_str RpExpired = ''expired''"
| "restore_point_status_as_str RpCleanupPending = ''cleanup_pending''"

definition restore_point_status_try_from :: "string \<Rightarrow> restore_point_status app_result" where
  "restore_point_status_try_from v =
     (if v = ''creating'' then Inr RpCreating
      else if v = ''available'' then Inr RpAvailable
      else if v = ''rolling_back'' then Inr RpRollingBack
      else if v = ''rolled_back'' then Inr RpRolledBack
      else if v = ''partial'' then Inr RpPartial
      else if v = ''failed'' then Inr RpFailed
      else if v = ''expired'' then Inr RpExpired
      else if v = ''cleanup_pending'' then Inr RpCleanupPending
      else Inl (Validation (''unknown restore point status: '' @ v)))"

interpretation restore_point_status_enum: str_enum restore_point_status_as_str restore_point_status_try_from
proof unfold_locales
  fix x show "restore_point_status_try_from (restore_point_status_as_str x) = Inr x"
    by (cases x) (simp_all add: restore_point_status_try_from_def)
next
  fix s x assume "restore_point_status_try_from s = Inr x"
  then show "s = restore_point_status_as_str x"
    by (auto simp: restore_point_status_try_from_def split: if_splits)
qed

datatype restore_item_status =
    RiPending | RiAvailable | RiRollingBack | RiRolledBack | RiFailed
  | RiSkipped

fun restore_item_status_as_str :: "restore_item_status \<Rightarrow> string" where
  "restore_item_status_as_str RiPending = ''pending''"
| "restore_item_status_as_str RiAvailable = ''available''"
| "restore_item_status_as_str RiRollingBack = ''rolling_back''"
| "restore_item_status_as_str RiRolledBack = ''rolled_back''"
| "restore_item_status_as_str RiFailed = ''failed''"
| "restore_item_status_as_str RiSkipped = ''skipped''"

definition restore_item_status_try_from :: "string \<Rightarrow> restore_item_status app_result" where
  "restore_item_status_try_from v =
     (if v = ''pending'' then Inr RiPending
      else if v = ''available'' then Inr RiAvailable
      else if v = ''rolling_back'' then Inr RiRollingBack
      else if v = ''rolled_back'' then Inr RiRolledBack
      else if v = ''failed'' then Inr RiFailed
      else if v = ''skipped'' then Inr RiSkipped
      else Inl (Validation (''unknown restore item status: '' @ v)))"

interpretation restore_item_status_enum: str_enum restore_item_status_as_str restore_item_status_try_from
proof unfold_locales
  fix x show "restore_item_status_try_from (restore_item_status_as_str x) = Inr x"
    by (cases x) (simp_all add: restore_item_status_try_from_def)
next
  fix s x assume "restore_item_status_try_from s = Inr x"
  then show "s = restore_item_status_as_str x"
    by (auto simp: restore_item_status_try_from_def split: if_splits)
qed

record op_restore_point =
  orp_id :: uuid
  orp_run_id :: uuid
  orp_server_id :: string
  orp_task_id :: string
  orp_status :: restore_point_status
  orp_local_relative_dir :: string
  orp_remote_asset_id :: "string option"
  orp_expires_at :: "int option"
  orp_created_at :: int
  orp_updated_at :: int

record op_restore_item =
  ori_id :: uuid
  ori_point_id :: uuid
  ori_ordinal :: nat
  ori_kind :: backup_item_kind
  ori_remote_target :: string
  ori_local_relative_path :: "string option"
  ori_sha256 :: "string option"
  ori_original_metadata :: json
  ori_status :: restore_item_status
  ori_error_summary :: "string option"

record op_restore_details =
  rd_point :: op_restore_point
  rd_items :: "op_restore_item list"

record new_op_restore_point =
  norp_run_id :: uuid
  norp_server_id :: string
  norp_task_id :: string
  norp_local_relative_dir :: string
  norp_remote_asset_id :: "string option"
  norp_expires_at :: "int option"

record new_op_restore_item =
  nori_point_id :: uuid
  nori_ordinal :: nat
  nori_kind :: backup_item_kind
  nori_remote_target :: string
  nori_local_relative_path :: "string option"
  nori_sha256 :: "string option"
  nori_original_metadata :: json
  nori_status :: restore_item_status
  nori_error_summary :: "string option"

end
