(* ===== verification/Op_Repo.thy ===== *)
theory Op_Repo
  imports Op_Model
begin

text \<open>
  \<^verbatim>\<open>src-tauri/src/repositories/operation_repository.rs\<close> and
  \<^verbatim>\<open>src-tauri/src/repositories/operation_restore_repository.rs\<close> over the tables of
  \<^verbatim>\<open>migrations/0004_operations.sql\<close> and \<^verbatim>\<open>migrations/0006_operation_restore_points.sql\<close>. Every query
  is a function on the tables; a clock reading and a fresh UUID are arguments. Columns hold the
  values they encode; \<open>encode\<close> is \<open>serde_json::to_string\<close> where a size limit depends on it.
\<close>

record op_db =
  odb_servers :: "string list"
  odb_executions :: "uuid list"
  odb_runs :: "operation_run list"
  odb_steps :: "operation_step list"
  odb_points :: "op_restore_point list"
  odb_items :: "op_restore_item list"

definition ensure_changed :: "nat \<Rightarrow> string \<Rightarrow> unit app_result" where
  "ensure_changed rows message = (if rows = 1 then Inr () else Inl (Validation message))"

definition coalesce_opt :: "'a option \<Rightarrow> 'a option \<Rightarrow> 'a option" where
  "coalesce_opt new old = (case new of None \<Rightarrow> old | Some _ \<Rightarrow> new)"

definition max_i64 :: nat where
  "max_i64 = 2 ^ 63 - 1"

definition index_to_i64 :: "nat \<Rightarrow> unit app_result" where
  "index_to_i64 i =
     (if i \<le> max_i64 then Inr () else Inl (Validation ''operation step index out of range''))"

section \<open>Runs\<close>

definition run_row :: "op_db \<Rightarrow> uuid \<Rightarrow> operation_run option" where
  "run_row db i = row_by or_id i (odb_runs db)"

definition validate_run :: "new_operation_run \<Rightarrow> unit app_result" where
  "validate_run draft =
     (if is_blank (nor_server_id draft) \<or> is_blank (nor_task_id draft) \<or> nor_task_version draft \<le> 0
         \<or> CHR 0x00 \<in> set (nor_server_id draft) \<or> CHR 0x00 \<in> set (nor_task_id draft)
      then Inl (Validation ''incomplete operation run'')
      else if (case nor_parameters_summary draft of None \<Rightarrow> False
               | Some s \<Rightarrow> 8 * 1024 < length s \<or> CHR 0x00 \<in> set s)
      then Inl (Validation ''invalid operation parameter summary'')
      else Inr ())"

definition new_run_row :: "new_operation_run \<Rightarrow> uuid \<Rightarrow> int \<Rightarrow> operation_run" where
  "new_run_row draft i now =
     \<lparr>or_id = i, or_server_id = nor_server_id draft, or_task_id = nor_task_id draft,
      or_task_version = nor_task_version draft, or_risk_level = nor_risk_level draft,
      or_status = OpValidating, or_parameters_summary = nor_parameters_summary draft,
      or_result = None, or_error_category = None, or_error_message = None, or_created_at = now,
      or_updated_at = now, or_finished_at = None\<rparr>"

definition op_create :: "new_operation_run \<Rightarrow> uuid \<Rightarrow> int \<Rightarrow> (op_db, operation_run) st" where
  "op_create draft i now db =
     (case validate_run draft of
        Inl e \<Rightarrow> (Inl e, db)
      | Inr _ \<Rightarrow>
          if run_row db i \<noteq> None \<or> nor_server_id draft \<notin> set (odb_servers db)
          then (Inl (Database ''constraint failed''), db)
          else (Inr (new_run_row draft i now),
                db\<lparr>odb_runs := odb_runs db @ [new_run_row draft i now]\<rparr>))"

definition update_op_runs ::
  "(operation_run \<Rightarrow> bool) \<Rightarrow> (operation_run \<Rightarrow> operation_run) \<Rightarrow> op_db \<Rightarrow> nat \<times> op_db" where
  "update_op_runs p f db =
     (affected p (odb_runs db), db\<lparr>odb_runs := upd_where p f (odb_runs db)\<rparr>)"

text \<open>A transaction whose last statement must have changed one row, or is rolled back.\<close>

definition commit_one :: "nat \<times> op_db \<Rightarrow> string \<Rightarrow> op_db \<Rightarrow> unit app_result \<times> op_db" where
  "commit_one u message db =
     (case ensure_changed (fst u) message of Inl e \<Rightarrow> (Inl e, db) | Inr _ \<Rightarrow> (Inr (), snd u))"

definition op_transition :: "uuid \<Rightarrow> operation_status \<Rightarrow> int \<Rightarrow> (op_db, unit) st" where
  "op_transition i next now db =
     (case run_row db i of
        None \<Rightarrow> (Inl (Validation ''operation run does not exist''), db)
      | Some r \<Rightarrow>
          let current = or_status r in
          if \<not> op_can_transition current next
          then (Inl (Validation (''operation status cannot go from '' @ operation_status_as_str current
                       @ '' to '' @ operation_status_as_str next)), db)
          else commit_one
                 (update_op_runs (\<lambda>r. or_id r = i \<and> or_status r = current)
                   (\<lambda>r. r\<lparr>or_status := next, or_updated_at := now,
                          or_finished_at := (if op_is_terminal next then Some now else None)\<rparr>) db)
                 ''operation status was changed by another operation'' db)"

text \<open>A confirmed personal script starts without a backup phase.\<close>

definition op_start_personal_script :: "uuid \<Rightarrow> int \<Rightarrow> (op_db, unit) st" where
  "op_start_personal_script i now db =
     (case run_row db i of
        None \<Rightarrow> (Inl (Validation ''operation run does not exist''), db)
      | Some r \<Rightarrow>
          if or_status r \<noteq> OpWaitingConfirmation \<or> or_task_id r \<noteq> ''script.personal''
             \<or> or_risk_level r \<noteq> Dangerous \<or> list_ex (\<lambda>s. os_run_id s = i) (odb_steps db)
          then (Inl (Validation ''only a confirmed script without recovery can start directly''), db)
          else commit_one
                 (update_op_runs
                   (\<lambda>r. or_id r = i \<and> or_status r = OpWaitingConfirmation
                        \<and> or_task_id r = ''script.personal'' \<and> or_risk_level r = Dangerous)
                   (\<lambda>r. r\<lparr>or_status := OpRunning, or_updated_at := now\<rparr>) db)
                 ''script status was changed by another operation'' db)"

definition max_result_bytes :: nat where
  "max_result_bytes = 256 * 1024"

text \<open>The \<open>CHECK\<close> constraint of the column \<open>result_json\<close>.\<close>

definition result_column_bytes :: nat where
  "result_column_bytes = 65536"

definition op_set_result :: "(json \<Rightarrow> string) \<Rightarrow> uuid \<Rightarrow> json \<Rightarrow> int \<Rightarrow> (op_db, unit) st" where
  "op_set_result encode i result now db =
     (let p = (\<lambda>r. or_id r = i \<and> or_status r \<in> {OpRunning, OpVerifying}) in
      if max_result_bytes < length (encode result)
      then (Inl (Validation ''operation result above the limit''), db)
      else if list_ex p (odb_runs db) \<and> result_column_bytes < length (encode result)
      then (Inl (Database ''constraint failed''), db)
      else let u = update_op_runs p (\<lambda>r. r\<lparr>or_result := Some result, or_updated_at := now\<rparr>) db
           in (ensure_changed (fst u) ''only a running operation can store a result'', snd u))"

section \<open>Steps\<close>

definition step_key :: "operation_step \<Rightarrow> uuid \<times> operation_phase \<times> nat" where
  "step_key s = (os_run_id s, os_phase s, os_index s)"

definition step_row :: "op_db \<Rightarrow> uuid \<Rightarrow> operation_phase \<Rightarrow> nat \<Rightarrow> operation_step option" where
  "step_row db run phase index = row_by step_key (run, phase, index) (odb_steps db)"

definition validate_step :: "new_operation_step \<Rightarrow> unit app_result" where
  "validate_step draft =
     (if is_blank (nos_step_id draft) \<or> is_blank (nos_title draft)
         \<or> CHR 0x00 \<in> set (nos_step_id draft) \<or> CHR 0x00 \<in> set (nos_title draft)
         \<or> 200 < length (nos_step_id draft) \<or> 500 < length (nos_title draft)
      then Inl (Validation ''invalid operation step'')
      else index_to_i64 (nos_index draft))"

definition new_step_row :: "new_operation_step \<Rightarrow> operation_step" where
  "new_step_row draft =
     \<lparr>os_run_id = nos_run_id draft, os_phase = nos_phase draft, os_index = nos_index draft,
      os_step_id = nos_step_id draft, os_title = nos_title draft, os_status = StPending,
      os_execution_id = None, os_output_summary = None, os_error_message = None,
      os_started_at = None, os_finished_at = None\<rparr>"

definition op_create_step :: "new_operation_step \<Rightarrow> (op_db, operation_step) st" where
  "op_create_step draft db =
     (case validate_step draft of
        Inl e \<Rightarrow> (Inl e, db)
      | Inr _ \<Rightarrow>
          if run_row db (nos_run_id draft) = None
             \<or> step_row db (nos_run_id draft) (nos_phase draft) (nos_index draft) \<noteq> None
          then (Inl (Database ''constraint failed''), db)
          else (Inr (new_step_row draft), db\<lparr>odb_steps := odb_steps db @ [new_step_row draft]\<rparr>))"

definition update_op_steps ::
  "(operation_step \<Rightarrow> bool) \<Rightarrow> (operation_step \<Rightarrow> operation_step) \<Rightarrow> op_db \<Rightarrow> nat \<times> op_db" where
  "update_op_steps p f db =
     (affected p (odb_steps db), db\<lparr>odb_steps := upd_where p f (odb_steps db)\<rparr>)"

text \<open>The columns a transition of a step writes; a missing value keeps the old one.\<close>

record step_change =
  sc_next :: step_status
  sc_execution_id :: "uuid option"
  sc_output_summary :: "string option"
  sc_error_message :: "string option"
  sc_started_at :: "int option"
  sc_finished_at :: "int option"

definition apply_step_change :: "step_change \<Rightarrow> operation_step \<Rightarrow> operation_step" where
  "apply_step_change c s =
     s\<lparr>os_status := sc_next c,
       os_execution_id := coalesce_opt (sc_execution_id c) (os_execution_id s),
       os_output_summary := coalesce_opt (sc_output_summary c) (os_output_summary s),
       os_error_message := coalesce_opt (sc_error_message c) (os_error_message s),
       os_started_at := coalesce_opt (sc_started_at c) (os_started_at s),
       os_finished_at := coalesce_opt (sc_finished_at c) (os_finished_at s)\<rparr>"

definition transition_step ::
  "uuid \<Rightarrow> operation_phase \<Rightarrow> nat \<Rightarrow> step_change \<Rightarrow> (op_db, unit) st" where
  "transition_step run phase index c db =
     (case index_to_i64 index of
        Inl e \<Rightarrow> (Inl e, db)
      | Inr _ \<Rightarrow>
     (case step_row db run phase index of
        None \<Rightarrow> (Inl (Validation ''operation step does not exist''), db)
      | Some s \<Rightarrow>
          let current = os_status s in
          if \<not> step_can_transition current (sc_next c)
          then (Inl (Validation (''operation step cannot go from '' @ step_status_as_str current
                       @ '' to '' @ step_status_as_str (sc_next c))), db)
          else if (case sc_execution_id c of None \<Rightarrow> False | Some e \<Rightarrow> e \<notin> set (odb_executions db))
          then (Inl (Database ''constraint failed''), db)
          else commit_one
                 (update_op_steps (\<lambda>s. step_key s = (run, phase, index) \<and> os_status s = current)
                   (apply_step_change c) db)
                 ''operation step was changed by another operation'' db))"

definition op_mark_step_running :: "uuid \<Rightarrow> operation_phase \<Rightarrow> nat \<Rightarrow> int \<Rightarrow> (op_db, unit) st" where
  "op_mark_step_running run phase index started_at =
     transition_step run phase index
       \<lparr>sc_next = StRunning, sc_execution_id = None, sc_output_summary = None,
        sc_error_message = None, sc_started_at = Some started_at, sc_finished_at = None\<rparr>"

definition op_finish_step :: "finish_operation_step \<Rightarrow> (op_db, unit) st" where
  "op_finish_step fin =
     (if \<not> step_is_terminal (fos_status fin)
      then fail_st (Validation ''invalid final status of a step'')
      else transition_step (fos_run_id fin) (fos_phase fin) (fos_index fin)
             \<lparr>sc_next = fos_status fin, sc_execution_id = fos_execution_id fin,
              sc_output_summary = cap_utf8 (fos_output_summary fin) (8 * 1024),
              sc_error_message = cap_utf8 (fos_error_message fin) (8 * 1024),
              sc_started_at = None, sc_finished_at = Some (fos_finished_at fin)\<rparr>)"

definition op_skip_pending_steps ::
  "uuid \<Rightarrow> operation_phase \<Rightarrow> nat \<Rightarrow> int \<Rightarrow> (op_db, nat) st" where
  "op_skip_pending_steps run phase from_index now db =
     (case index_to_i64 from_index of
        Inl e \<Rightarrow> (Inl e, db)
      | Inr _ \<Rightarrow>
          let u = update_op_steps
                    (\<lambda>s. os_run_id s = run \<and> os_phase s = phase \<and> from_index \<le> os_index s
                         \<and> os_status s = StPending)
                    (\<lambda>s. s\<lparr>os_status := StSkipped, os_finished_at := Some now\<rparr>) db
          in (Inr (fst u), snd u))"

section \<open>Reading\<close>

fun phase_rank :: "operation_phase \<Rightarrow> nat" where
  "phase_rank PhPreflight = 0"
| "phase_rank PhBackup = 1"
| "phase_rank PhExecute = 2"
| "phase_rank PhVerify = 3"
| "phase_rank PhRollback = 4"

definition op_get :: "uuid \<Rightarrow> op_db \<Rightarrow> operation_details option" where
  "op_get i db =
     map_option (\<lambda>r. \<lparr>od_run = r,
         od_steps = sort_key (\<lambda>s. (phase_rank (os_phase s), os_index s))
           (filter (\<lambda>s. os_run_id s = i) (odb_steps db))\<rparr>)
       (run_row db i)"

definition matches_opt :: "'a option \<Rightarrow> ('a \<Rightarrow> bool) \<Rightarrow> bool" where
  "matches_opt v p \<longleftrightarrow> (case v of None \<Rightarrow> True | Some x \<Rightarrow> p x)"

definition op_list :: "operation_filter \<Rightarrow> op_db \<Rightarrow> operation_run list" where
  "op_list f db =
     take 500 (sort_key (\<lambda>r. (- or_created_at r, - uint (or_id r)))
       (filter (\<lambda>r. matches_opt (of_server_id f) (\<lambda>v. or_server_id r = v)
                 \<and> matches_opt (of_task_id f) (\<lambda>v. or_task_id r = v)
                 \<and> matches_opt (of_status f) (\<lambda>v. or_status r = v)
                 \<and> matches_opt (of_created_from f) (\<lambda>v. v \<le> or_created_at r)
                 \<and> matches_opt (of_created_to f) (\<lambda>v. or_created_at r \<le> v))
         (odb_runs db)))"

section \<open>Recovery after a restart\<close>

definition op_interrupted :: "operation_status \<Rightarrow> bool" where
  "op_interrupted s \<longleftrightarrow> s \<in> {OpPreflighting, OpBackingUp, OpRunning, OpVerifying, OpRollingBack}"

definition op_recover_interrupted :: "int \<Rightarrow> (op_db, nat) st" where
  "op_recover_interrupted now db =
     (let db1 = snd (update_op_steps
            (\<lambda>s. os_status s = StRunning
                 \<and> list_ex (\<lambda>r. or_id r = os_run_id s \<and> op_interrupted (or_status r)) (odb_runs db))
            (\<lambda>s. s\<lparr>os_status := StUncertain, os_finished_at := Some now,
                   os_error_message := Some ''step state not confirmed when the program ended''\<rparr>) db);
          u = update_op_runs (\<lambda>r. op_interrupted (or_status r))
            (\<lambda>r. r\<lparr>or_status := OpUncertain, or_updated_at := now, or_finished_at := Some now,
                   or_error_category := Some ''interrupted'',
                   or_error_message := Some ''remote state not confirmed when the program ended''\<rparr>) db1
      in (Inr (fst u), snd u))"

end
