(* ===== verification/Op_Restore_Repo.thy ===== *)
theory Op_Restore_Repo
  imports Op_Repo
begin

text \<open>
  Restore points of operations: \<^verbatim>\<open>src-tauri/src/repositories/operation_restore_repository.rs\<close>.
\<close>

section \<open>Paths of restore assets\<close>

text \<open>
  \<open>Path::components\<close> of a relative path: empty and \<open>.\<close> segments vanish, except a leading \<open>.\<close>,
  which is a component of its own (\<open>CurDir\<close>).
\<close>

datatype path_part = PRoot | PCurDir | PParent | PNormal string

definition path_parts :: "string \<Rightarrow> path_part list" where
  "path_parts s =
     (if s = [] then []
      else let segments = split_char (CHR ''/'') s;
               part = (\<lambda>x. if x = ''..'' then PParent else PNormal x);
               rest = (\<lambda>xs. map part (filter (\<lambda>x. x \<noteq> [] \<and> x \<noteq> ''.'') xs))
           in if hd s = CHR ''/'' then PRoot # rest segments
              else if hd segments = ''.'' then PCurDir # rest (tl segments)
              else rest segments)"

fun safe_part :: "path_part \<Rightarrow> bool" where
  "safe_part (PNormal name) \<longleftrightarrow> CHR '':'' \<notin> set name"
| "safe_part _ \<longleftrightarrow> False"

definition validate_relative_path :: "string \<Rightarrow> unit app_result" where
  "validate_relative_path v =
     (if v = [] \<or> 4096 < length v \<or> CHR 0x00 \<in> set v \<or> CHR 0x5C \<in> set v
         \<or> \<not> list_all safe_part (path_parts v)
      then Inl (Security ''restore assets must lie inside the data directory'')
      else Inr ())"

definition require_descendant :: "string \<Rightarrow> string \<Rightarrow> unit app_result" where
  "require_descendant parent child =
     (let p = path_parts parent; c = path_parts child in
      if take (length p) c = p \<and> c \<noteq> p then Inr ()
      else Inl (Security ''restore item outside the directory of its restore point''))"

section \<open>Points\<close>

definition point_row :: "op_db \<Rightarrow> uuid \<Rightarrow> op_restore_point option" where
  "point_row db i = row_by orp_id i (odb_points db)"

definition items_of :: "op_db \<Rightarrow> uuid \<Rightarrow> op_restore_item list" where
  "items_of db i = filter (\<lambda>x. ori_point_id x = i) (odb_items db)"

text \<open>\<open>ORDER BY ordinal,id\<close>; ordinals are unique within a point.\<close>

definition rs_list_items :: "uuid \<Rightarrow> op_db \<Rightarrow> op_restore_item list" where
  "rs_list_items i db = sort_key ori_ordinal (items_of db i)"

definition validate_point :: "new_op_restore_point \<Rightarrow> unit app_result" where
  "validate_point draft =
     (if is_blank (norp_server_id draft) \<or> is_blank (norp_task_id draft)
         \<or> CHR 0x00 \<in> set (norp_server_id draft) \<or> CHR 0x00 \<in> set (norp_task_id draft)
         \<or> (case norp_remote_asset_id draft of None \<Rightarrow> False
            | Some v \<Rightarrow> CHR 0x00 \<in> set v \<or> 512 < length v \<or> is_blank v)
      then Inl (Validation ''invalid restore point'')
      else validate_relative_path (norp_local_relative_dir draft))"

text \<open>\<open>CHECK\<close> of \<open>local_relative_dir\<close> and \<open>local_relative_path\<close>, up to the given length.\<close>

definition relative_column_ok :: "nat \<Rightarrow> string \<Rightarrow> bool" where
  "relative_column_ok limit v \<longleftrightarrow>
     1 \<le> length v \<and> length v \<le> limit \<and> hd v \<noteq> CHR ''/'' \<and> CHR 0x5C \<notin> set v \<and> CHR '':'' \<notin> set v
     \<and> v \<noteq> ''..'' \<and> \<not> starts_with v ''../'' \<and> \<not> str_contains v ''/../''"

definition new_point_row :: "new_op_restore_point \<Rightarrow> uuid \<Rightarrow> int \<Rightarrow> op_restore_point" where
  "new_point_row draft i now =
     \<lparr>orp_id = i, orp_run_id = norp_run_id draft, orp_server_id = norp_server_id draft,
      orp_task_id = norp_task_id draft, orp_status = RpCreating,
      orp_local_relative_dir = norp_local_relative_dir draft,
      orp_remote_asset_id = norp_remote_asset_id draft, orp_expires_at = norp_expires_at draft,
      orp_created_at = now, orp_updated_at = now\<rparr>"

definition rs_create :: "new_op_restore_point \<Rightarrow> uuid \<Rightarrow> int \<Rightarrow> (op_db, op_restore_point) st" where
  "rs_create draft i now db =
     (case validate_point draft of
        Inl e \<Rightarrow> (Inl e, db)
      | Inr _ \<Rightarrow>
     (case run_row db (norp_run_id draft) of
        None \<Rightarrow> (Inl (Validation ''operation run does not exist''), db)
      | Some run \<Rightarrow>
          if or_server_id run \<noteq> norp_server_id draft \<or> or_task_id run \<noteq> norp_task_id draft
          then (Inl (Validation ''restore point and run differ in server or task''), db)
          else if point_row db i \<noteq> None
             \<or> list_ex (\<lambda>p. orp_run_id p = norp_run_id draft) (odb_points db)
             \<or> norp_server_id draft \<notin> set (odb_servers db)
             \<or> \<not> relative_column_ok 2048 (norp_local_relative_dir draft)
          then (Inl (Database ''constraint failed''), db)
          else (Inr (new_point_row draft i now),
                db\<lparr>odb_points := odb_points db @ [new_point_row draft i now]\<rparr>)))"

definition is_ascii_hexdigit :: "char \<Rightarrow> bool" where
  "is_ascii_hexdigit c \<longleftrightarrow> digit_value c < 16"

definition validate_item :: "new_op_restore_item \<Rightarrow> unit app_result" where
  "validate_item draft =
     (if 1000 \<le> nori_ordinal draft \<or> is_blank (nori_remote_target draft)
         \<or> CHR 0x00 \<in> set (nori_remote_target draft) \<or> 4096 < length (nori_remote_target draft)
         \<or> (case nori_error_summary draft of None \<Rightarrow> False | Some v \<Rightarrow> CHR 0x00 \<in> set v)
      then Inl (Validation ''invalid restore item'')
      else bind_res
        (case nori_local_relative_path draft of
           None \<Rightarrow> Inr ()
         | Some relative \<Rightarrow> bind_res (validate_relative_path relative) (\<lambda>_.
             if ends_with relative ''.partial''
             then Inl (Security ''a partial asset is not a backup'') else Inr ())) (\<lambda>_.
        case nori_sha256 draft of
          None \<Rightarrow> Inr ()
        | Some hash \<Rightarrow> if length hash \<noteq> 64 \<or> \<not> list_all is_ascii_hexdigit hash
            then Inl (Validation ''invalid SHA-256 of a restore item'') else Inr ()))"

definition new_item_row :: "new_op_restore_item \<Rightarrow> uuid \<Rightarrow> op_restore_item" where
  "new_item_row draft i =
     \<lparr>ori_id = i, ori_point_id = nori_point_id draft, ori_ordinal = nori_ordinal draft,
      ori_kind = nori_kind draft, ori_remote_target = nori_remote_target draft,
      ori_local_relative_path = nori_local_relative_path draft,
      ori_sha256 = map_option to_ascii_lowercase (nori_sha256 draft),
      ori_original_metadata = nori_original_metadata draft, ori_status = nori_status draft,
      ori_error_summary = cap_utf8 (nori_error_summary draft) (8 * 1024)\<rparr>"

definition rs_add_item ::
  "(json \<Rightarrow> string) \<Rightarrow> new_op_restore_item \<Rightarrow> uuid \<Rightarrow> (op_db, op_restore_item) st" where
  "rs_add_item encode draft i db =
     (case validate_item draft of
        Inl e \<Rightarrow> (Inl e, db)
      | Inr _ \<Rightarrow>
     (case point_row db (nori_point_id draft) of
        None \<Rightarrow> (Inl (Validation ''restore point does not exist''), db)
      | Some point \<Rightarrow>
          if orp_status point \<noteq> RpCreating
          then (Inl (Validation ''items can only be added while the point is created''), db)
          else (case (case nori_local_relative_path draft of None \<Rightarrow> Inr ()
                      | Some relative \<Rightarrow> require_descendant (orp_local_relative_dir point) relative) of
              Inl e \<Rightarrow> (Inl e, db)
            | Inr _ \<Rightarrow>
                if 16 * 1024 < length (encode (nori_original_metadata draft))
                then (Inl (Validation ''metadata of a restore item above 16 KiB''), db)
                else if row_by ori_id i (odb_items db) \<noteq> None
                   \<or> list_ex (\<lambda>x. ori_ordinal x = nori_ordinal draft)
                       (items_of db (nori_point_id draft))
                   \<or> (case nori_local_relative_path draft of None \<Rightarrow> False
                      | Some v \<Rightarrow> \<not> relative_column_ok 4096 v)
                then (Inl (Database ''constraint failed''), db)
                else (Inr (new_item_row draft i),
                      db\<lparr>odb_items := odb_items db @ [new_item_row draft i]\<rparr>))))"

definition update_points ::
  "(op_restore_point \<Rightarrow> bool) \<Rightarrow> (op_restore_point \<Rightarrow> op_restore_point) \<Rightarrow> op_db \<Rightarrow> nat \<times> op_db" where
  "update_points p f db =
     (affected p (odb_points db), db\<lparr>odb_points := upd_where p f (odb_points db)\<rparr>)"

definition update_items ::
  "(op_restore_item \<Rightarrow> bool) \<Rightarrow> (op_restore_item \<Rightarrow> op_restore_item) \<Rightarrow> op_db \<Rightarrow> nat \<times> op_db" where
  "update_items p f db =
     (affected p (odb_items db), db\<lparr>odb_items := upd_where p f (odb_items db)\<rparr>)"

text \<open>One statement, then the check that it changed one row.\<close>

definition one_row :: "(op_db \<Rightarrow> nat \<times> op_db) \<Rightarrow> string \<Rightarrow> (op_db, unit) st" where
  "one_row u message db = (ensure_changed (fst (u db)) message, snd (u db))"

definition rs_mark_available :: "uuid \<Rightarrow> int \<Rightarrow> (op_db, unit) st" where
  "rs_mark_available i now db =
     one_row (update_points
         (\<lambda>p. orp_id p = i \<and> orp_status p = RpCreating \<and> items_of db i \<noteq> []
              \<and> list_all (\<lambda>x. ori_status x = RiAvailable) (items_of db i))
         (\<lambda>p. p\<lparr>orp_status := RpAvailable, orp_updated_at := now\<rparr>))
       ''restore point is not complete'' db"

definition rs_attach_remote_asset :: "uuid \<Rightarrow> string \<Rightarrow> int \<Rightarrow> int \<Rightarrow> (op_db, unit) st" where
  "rs_attach_remote_asset i asset expires_at now =
     (if asset = [] \<or> 256 < length asset \<or> starts_with asset ''/'' \<or> CHR 0x5C \<in> set asset
         \<or> CHR 0x00 \<in> set asset \<or> \<not> list_all is_plain_segment (split_char (CHR ''/'') asset)
         \<or> expires_at \<le> 0
      then fail_st (Validation ''invalid remote restore asset'')
      else one_row (update_points
             (\<lambda>p. orp_id p = i \<and> orp_status p = RpAvailable \<and> orp_remote_asset_id p = None)
             (\<lambda>p. p\<lparr>orp_remote_asset_id := Some asset, orp_expires_at := Some expires_at,
                    orp_updated_at := now\<rparr>))
           ''restore point cannot hold a remote asset'')"

definition rs_begin_cleanup :: "uuid \<Rightarrow> int \<Rightarrow> int \<Rightarrow> (op_db, unit) st" where
  "rs_begin_cleanup i limit now =
     one_row (update_points
         (\<lambda>p. orp_id p = i \<and>
              (orp_status p = RpRolledBack
               \<or> ((case orp_expires_at p of None \<Rightarrow> False | Some t \<Rightarrow> t \<le> limit)
                  \<and> orp_status p \<in> {RpAvailable, RpPartial, RpFailed})))
         (\<lambda>p. p\<lparr>orp_status := RpCleanupPending, orp_updated_at := now\<rparr>))
       ''only used or expired restore assets can be removed''"

definition rs_finish_cleanup :: "uuid \<Rightarrow> int \<Rightarrow> (op_db, unit) st" where
  "rs_finish_cleanup i now =
     one_row (update_points (\<lambda>p. orp_id p = i \<and> orp_status p = RpCleanupPending)
         (\<lambda>p. p\<lparr>orp_status := RpExpired, orp_remote_asset_id := None, orp_updated_at := now\<rparr>))
       ''restore assets are not pending removal''"

text \<open>One transaction over the point and its items.\<close>

definition rs_mark_remote_rollback_observed :: "uuid \<Rightarrow> int \<Rightarrow> (op_db, unit) st" where
  "rs_mark_remote_rollback_observed i now db =
     (let u = update_points (\<lambda>p. orp_id p = i \<and> orp_status p = RpAvailable)
                (\<lambda>p. p\<lparr>orp_status := RpRolledBack, orp_updated_at := now\<rparr>) db
      in case ensure_changed (fst u) ''only an available restore point can record a rollback'' of
           Inl e \<Rightarrow> (Inl e, db)
         | Inr _ \<Rightarrow>
             (Inr (), snd (update_items (\<lambda>x. ori_point_id x = i \<and> ori_status x = RiAvailable)
                (\<lambda>x. x\<lparr>ori_status := RiRolledBack, ori_error_summary := None\<rparr>) (snd u))))"

definition rs_mark_creation_failed :: "uuid \<Rightarrow> int \<Rightarrow> (op_db, unit) st" where
  "rs_mark_creation_failed i now =
     one_row (update_points (\<lambda>p. orp_id p = i \<and> orp_status p = RpCreating)
         (\<lambda>p. p\<lparr>orp_status := RpFailed, orp_updated_at := now\<rparr>))
       ''restore point is not being created''"

definition rs_mark_item_rolling_back :: "uuid \<Rightarrow> (op_db, unit) st" where
  "rs_mark_item_rolling_back i =
     one_row (update_items (\<lambda>x. ori_id x = i \<and> ori_status x \<in> {RiAvailable, RiFailed})
         (\<lambda>x. x\<lparr>ori_status := RiRollingBack, ori_error_summary := None\<rparr>))
       ''restore item cannot be rolled back now''"

definition rs_finish_item_rollback ::
  "uuid \<Rightarrow> restore_item_status \<Rightarrow> string option \<Rightarrow> (op_db, unit) st" where
  "rs_finish_item_rollback i status error_summary =
     (if status \<notin> {RiRolledBack, RiFailed, RiSkipped}
      then fail_st (Validation ''invalid result of a restore item'')
      else one_row (update_items (\<lambda>x. ori_id x = i \<and> ori_status x = RiRollingBack)
             (\<lambda>x. x\<lparr>ori_status := status, ori_error_summary := cap_utf8 error_summary (8 * 1024)\<rparr>))
           ''restore item is not being rolled back'')"

definition rs_recover_interrupted :: "int \<Rightarrow> (op_db, nat) st" where
  "rs_recover_interrupted now db =
     (let db1 = snd (update_items (\<lambda>x. ori_status x = RiRollingBack)
            (\<lambda>x. x\<lparr>ori_status := RiFailed,
                   ori_error_summary := Some ''item state not confirmed when the program ended''\<rparr>) db);
          u = update_points (\<lambda>p. orp_status p = RpRollingBack)
            (\<lambda>p. p\<lparr>orp_status := RpPartial, orp_updated_at := now\<rparr>) db1
      in (Inr (fst u), snd u))"

definition rs_begin_rollback :: "uuid \<Rightarrow> int \<Rightarrow> (op_db, unit) st" where
  "rs_begin_rollback i now db =
     (let u = update_points (\<lambda>p. orp_id p = i \<and> orp_status p \<in> {RpAvailable, RpPartial, RpFailed})
                (\<lambda>p. p\<lparr>orp_status := RpRollingBack, orp_updated_at := now\<rparr>) db
      in if fst u = 1 then (Inr (), snd u)
         else (case point_row (snd u) i of
             Some p \<Rightarrow>
               if orp_status p = RpRolledBack then (Inl RestorePointAlreadyConsumed, snd u)
               else (Inl (Validation ''restore point cannot be rolled back now''), snd u)
           | None \<Rightarrow> (Inl (Validation ''restore point does not exist''), snd u)))"

definition rs_finish_rollback :: "uuid \<Rightarrow> restore_point_status \<Rightarrow> int \<Rightarrow> (op_db, unit) st" where
  "rs_finish_rollback i status now =
     (if status \<notin> {RpRolledBack, RpPartial, RpFailed}
      then fail_st (Validation ''invalid result of a rollback'')
      else one_row (update_points (\<lambda>p. orp_id p = i \<and> orp_status p = RpRollingBack)
             (\<lambda>p. p\<lparr>orp_status := status, orp_updated_at := now\<rparr>))
           ''restore point is not being rolled back'')"

definition rs_get :: "uuid \<Rightarrow> op_db \<Rightarrow> op_restore_details option" where
  "rs_get i db =
     map_option (\<lambda>p. \<lparr>rd_point = p, rd_items = rs_list_items i db\<rparr>) (point_row db i)"

definition rs_list_by_run :: "uuid \<Rightarrow> op_db \<Rightarrow> op_restore_details list" where
  "rs_list_by_run run db =
     map (\<lambda>p. \<lparr>rd_point = p, rd_items = rs_list_items (orp_id p) db\<rparr>)
       (sort_key (\<lambda>p. (orp_created_at p, uint (orp_id p)))
         (filter (\<lambda>p. orp_run_id p = run) (odb_points db)))"

end
