(* ===== verification/Task_Catalog.thy ===== *)
theory Task_Catalog
  imports Task_Plan
begin

text \<open>
  The constructors of the task catalogue, \<^verbatim>\<open>src-tauri/src/core/tasks/catalog/helpers.rs\<close> and
  \<^verbatim>\<open>src-tauri/src/core/tasks/catalog.rs\<close>, and some of its tasks: the log search and the process
  query of \<^verbatim>\<open>catalog.rs\<close>, the service actions of \<^verbatim>\<open>catalog/services.rs\<close> and the file permissions of
  \<^verbatim>\<open>catalog/security.rs\<close>. On them, what the replacement of placeholders does to a value that
  contains a placeholder itself.
\<close>

section \<open>Constructors\<close>

definition supported_families :: "string list" where
  "supported_families = [''debian'', ''rhel'', ''openeuler'']"

definition linux_read_only_families :: "string list" where
  "linux_read_only_families = [''debian'', ''rhel'', ''openeuler'', ''linux'']"

definition parameter ::
  "string \<Rightarrow> string \<Rightarrow> string \<Rightarrow> parameter_kind \<Rightarrow> bool \<Rightarrow> json option \<Rightarrow> parameter_definition" where
  "parameter name label description kind required default_value =
     \<lparr>pd_name = name, pd_label = label, pd_description = description, pd_kind = kind,
      pd_required = required, pd_default_value = default_value, pd_sensitive = False\<rparr>"

definition string_parameter ::
  "string \<Rightarrow> string \<Rightarrow> string \<Rightarrow> nat \<Rightarrow> nat \<Rightarrow> parameter_definition" where
  "string_parameter name label description least most =
     parameter name label description (PString least most False) True None"

definition integer_parameter ::
  "string \<Rightarrow> string \<Rightarrow> string \<Rightarrow> int \<Rightarrow> int \<Rightarrow> int \<Rightarrow> parameter_definition" where
  "integer_parameter name label description lo hi preset =
     parameter name label description (PInteger lo hi) False (Some (JInt preset))"

definition absolute_path_parameter :: "string \<Rightarrow> string \<Rightarrow> string \<Rightarrow> parameter_definition" where
  "absolute_path_parameter name label description =
     parameter name label description PAbsolutePath True None"

definition host_parameter :: "string \<Rightarrow> string \<Rightarrow> string \<Rightarrow> bool \<Rightarrow> parameter_definition" where
  "host_parameter name label description required =
     parameter name label description PHost required None"

definition port_parameter ::
  "string \<Rightarrow> string \<Rightarrow> string \<Rightarrow> bool \<Rightarrow> 16 word option \<Rightarrow> parameter_definition" where
  "port_parameter name label description required preset =
     parameter name label description PPort required (map_option (\<lambda>p. JInt (uint p)) preset)"

definition interface_parameter :: "string \<Rightarrow> string \<Rightarrow> string \<Rightarrow> parameter_definition" where
  "interface_parameter name label description =
     parameter name label description PInterfaceName True None"

definition boolean_parameter :: "string \<Rightarrow> string \<Rightarrow> string \<Rightarrow> bool \<Rightarrow> parameter_definition" where
  "boolean_parameter name label description preset =
     parameter name label description PBoolean False (Some (JBool preset))"

definition enum_parameter ::
  "string \<Rightarrow> string \<Rightarrow> string \<Rightarrow> string list \<Rightarrow> string option \<Rightarrow> parameter_definition" where
  "enum_parameter name label description opts preset =
     parameter name label description (PEnum opts) (preset = None) (map_option JString preset)"

definition service_parameter :: parameter_definition where
  "service_parameter =
     parameter ''service'' ''service'' ''one of the services found on the server'' PServiceName True None"

definition service_multi_parameter :: "nat \<Rightarrow> parameter_definition" where
  "service_multi_parameter most =
     parameter ''services'' ''services'' ''one or more of the services found on the server''
       (PServiceMultiSelect most) True None"

definition container_parameter :: parameter_definition where
  "container_parameter =
     parameter ''container'' ''container'' ''one of the containers found on the server''
       PContainerName True None"

definition bounded_step :: "string \<Rightarrow> string \<Rightarrow> u64 \<Rightarrow> string \<Rightarrow> task_step" where
  "bounded_step ident title seconds template =
     \<lparr>ts_id = ident, ts_title = title, ts_timeout_seconds = seconds,
      ts_output_limit_bytes = 1024 * 1024, ts_command_template = template\<rparr>"

definition backup_item :: "string \<Rightarrow> backup_item_kind \<Rightarrow> string \<Rightarrow> backup_item_definition" where
  "backup_item ident kind target_template =
     \<lparr>bi_id = ident, bi_kind = kind, bi_target_template = target_template\<rparr>"

definition read_only_task ::
  "string \<Rightarrow> task_category \<Rightarrow> string \<Rightarrow> string \<Rightarrow> u32 \<Rightarrow> parameter_definition list \<Rightarrow>
   task_implementation list \<Rightarrow> task_definition" where
  "read_only_task ident category title description estimated_seconds parameters implementations =
     \<lparr>td_id = ident, td_version = 2, td_category = category, td_title = title,
      td_description = description, td_risk_level = Safe, td_estimated_seconds = estimated_seconds,
      td_privilege = CurrentUser, td_scope = ReadOnlyBatch, td_parameters = parameters,
      td_implementations = implementations, td_output_kind = OutKeyValue\<rparr>"

definition read_only_implementation ::
  "string \<Rightarrow> string list \<Rightarrow> task_step list \<Rightarrow> result_parser_kind \<Rightarrow> task_implementation" where
  "read_only_implementation ident required_commands steps result_parser =
     \<lparr>ti_id = ident,
      ti_compatibility =
        \<lparr>cp_os_families = linux_read_only_families, cp_service_managers = [],
         cp_required_commands = required_commands\<rparr>,
      ti_preflight_steps = [], ti_preview_steps = steps, ti_backup_plan = None,
      ti_execution_steps = steps, ti_verify_steps = [], ti_rollback_plan = None,
      ti_result_parser = result_parser\<rparr>"

definition bsd_read_only_implementation ::
  "string \<Rightarrow> string list \<Rightarrow> string list \<Rightarrow> u64 \<Rightarrow> string \<Rightarrow> result_parser_kind \<Rightarrow> task_implementation"
  where
  "bsd_read_only_implementation ident service_managers required_commands timeout_seconds command parser =
     (read_only_implementation ident required_commands
        [bounded_step ''collect'' ''collect BSD diagnostics'' timeout_seconds command] parser)
     \<lparr>ti_compatibility :=
        \<lparr>cp_os_families = [''bsd''], cp_service_managers = service_managers,
         cp_required_commands = required_commands\<rparr>\<rparr>"

definition dangerous_task ::
  "string \<Rightarrow> task_category \<Rightarrow> string \<Rightarrow> string \<Rightarrow> u32 \<Rightarrow> parameter_definition list \<Rightarrow>
   task_implementation list \<Rightarrow> output_kind \<Rightarrow> task_definition" where
  "dangerous_task ident category title description estimated_seconds parameters implementations
     output =
     \<lparr>td_id = ident, td_version = 2, td_category = category, td_title = title,
      td_description = description, td_risk_level = Dangerous,
      td_estimated_seconds = estimated_seconds, td_privilege = RootOrPasswordlessSudo,
      td_scope = SingleServer, td_parameters = parameters, td_implementations = implementations,
      td_output_kind = output\<rparr>"

definition dangerous_implementation ::
  "string \<Rightarrow> string list \<Rightarrow> string list \<Rightarrow> string \<Rightarrow> backup_item_definition list \<Rightarrow> string \<Rightarrow>
   string \<Rightarrow> string \<Rightarrow> result_parser_kind \<Rightarrow> task_implementation" where
  "dangerous_implementation ident service_managers required_commands preview_command backup_items
     execution_command verify_command rollback_command result_parser =
     \<lparr>ti_id = ident,
      ti_compatibility =
        \<lparr>cp_os_families = supported_families, cp_service_managers = service_managers,
         cp_required_commands = required_commands\<rparr>,
      ti_preflight_steps =
        [bounded_step ''preflight'' ''check target and recovery'' 30 preview_command],
      ti_preview_steps = [bounded_step ''preview'' ''preview the current state'' 30 preview_command],
      ti_backup_plan = Some backup_items,
      ti_execution_steps = [bounded_step ''execute'' ''controlled change'' 60 execution_command],
      ti_verify_steps = [bounded_step ''verify'' ''verify the target state'' 45 verify_command],
      ti_rollback_plan =
        Some \<lparr>rb_steps = [bounded_step ''rollback'' ''restore the previous state'' 60 rollback_command],
              rb_automatic_on_failure = True\<rparr>,
      ti_result_parser = result_parser\<rparr>"

text \<open>\<open>TaskSpec\<close>, \<open>task\<close> and \<open>implementation\<close> of \<^verbatim>\<open>catalog.rs\<close>.\<close>

definition legacy_task ::
  "string \<Rightarrow> task_category \<Rightarrow> string \<Rightarrow> string \<Rightarrow> risk_level \<Rightarrow> parameter_definition list \<Rightarrow>
   task_implementation list \<Rightarrow> output_kind \<Rightarrow> task_definition" where
  "legacy_task ident category title description risk parameters implementations output =
     \<lparr>td_id = ident, td_version = 2, td_category = category, td_title = title,
      td_description = description, td_risk_level = risk, td_estimated_seconds = 30,
      td_privilege = (if risk = Dangerous then RootOrPasswordlessSudo else CurrentUser),
      td_scope = (if risk = Safe then ReadOnlyBatch else SingleServer),
      td_parameters = parameters, td_implementations = implementations,
      td_output_kind = output\<rparr>"

definition compatibility :: "string list \<Rightarrow> string list \<Rightarrow> compatibility_predicate" where
  "compatibility service_managers required_commands =
     \<lparr>cp_os_families = supported_families, cp_service_managers = service_managers,
      cp_required_commands = required_commands\<rparr>"

definition legacy_step :: "string \<Rightarrow> string \<Rightarrow> string \<Rightarrow> task_step" where
  "legacy_step ident title command_template = bounded_step ident title 30 command_template"

definition legacy_implementation ::
  "string \<Rightarrow> string list \<Rightarrow> string list \<Rightarrow> string \<Rightarrow> result_parser_kind \<Rightarrow> task_implementation" where
  "legacy_implementation ident service_managers required_commands command_template result_parser =
     \<lparr>ti_id = ident, ti_compatibility = compatibility service_managers required_commands,
      ti_preflight_steps = [],
      ti_preview_steps = [legacy_step ''preview'' ''preview'' command_template],
      ti_backup_plan = None,
      ti_execution_steps = [legacy_step ''execute'' ''run the task'' command_template],
      ti_verify_steps = [], ti_rollback_plan = None, ti_result_parser = result_parser\<rparr>"

section \<open>Tasks\<close>

definition log_search_template :: string where
  "log_search_template = ''grep -n -F -- {{keyword}} {{path}} | head -n {{limit}}''"

definition log_search_task :: task_definition where
  "log_search_task =
     legacy_task ''logs.search'' CatLogs ''log search'' ''searches plain and gzip logs'' Caution
       [absolute_path_parameter ''path'' ''log path'' ''absolute remote .log or .gz path'',
        string_parameter ''keyword'' ''keyword'' ''fixed text'' 1 512,
        parameter ''caseSensitive'' ''case sensitive'' ''match case'' PBoolean False
          (Some (JBool False)),
        integer_parameter ''context'' ''context'' ''lines around a match'' 0 20 2,
        integer_parameter ''limit'' ''limit'' ''number of matches'' 1 10000 1000]
       [legacy_implementation ''grep'' [] [''grep''] log_search_template ParseText] OutLogMatches"

definition permissions_template :: string where
  "permissions_template =
     ''test ! -L {{path}} && chown -- {{uid}}:{{gid}} {{path}} && chmod -- {{mode}} {{path}}''"

definition file_permissions_task :: task_definition where
  "file_permissions_task =
     dangerous_task ''security.file_permissions'' CatSecurity ''change file permissions''
       ''changes owner and mode of one path and saves the previous ones'' 45
       [absolute_path_parameter ''path'' ''path'' ''one file or directory'',
        parameter ''mode'' ''mode'' ''octal mode'' PFileMode True None,
        parameter ''uid'' ''UID'' ''numeric UID'' (PInteger 0 60000) False (Some (JInt 0)),
        parameter ''gid'' ''GID'' ''numeric GID'' (PInteger 0 60000) False (Some (JInt 0))]
       [dangerous_implementation ''posix-stat'' [] [''stat'', ''chmod'', ''chown'']
          (''test ! -L {{path}}; stat -Lc '' @ shell_quote ''%n %u %g %a %F'' @ '' -- {{path}}'')
          [backup_item ''metadata-before'' RuntimeState
             (''test ! -L {{path}} && stat -Lc ''
              @ shell_quote (''path=%n'' @ [CHR 0x5C] @ ''nuid=%u'' @ [CHR 0x5C] @ ''ngid=%g''
                             @ [CHR 0x5C] @ ''nmode=%a'')
              @ '' -- {{path}}'')]
          permissions_template
          (''test ! -L {{path}}; test '' @ [CHR 0x22] @ ''$(stat -Lc '' @ shell_quote ''%u:%g:%a''
           @ '' -- {{path}})'' @ [CHR 0x22] @ '' = {{uid}}:{{gid}}:{{mode}}'')
          ''{{restore:metadata:metadata-before}}'' ParseKeyValue] OutKeyValue"


text \<open>The service actions of \<^verbatim>\<open>catalog/services.rs\<close>.\<close>

definition service_snapshot_command :: "string \<Rightarrow> string" where
  "service_snapshot_command executable =
     (if executable = ''systemctl'' then
        ''qz_active=$(systemctl is-active -- {{service}} 2>/dev/null || true); qz''
        @ ''_enabled=$(systemctl is-enabled -- {{service}} 2>/dev/null || true); pr''
        @ ''intf '' @ [CHR 0x27] @ ''manager=systemd'' @ [CHR 0x5C] @ ''nservice=%s''
        @ [CHR 0x5C] @ ''nactive=%s'' @ [CHR 0x5C] @ ''nenabled=%s'' @ [CHR 0x5C] @ ''n''
        @ [CHR 0x27] @ '' {{service}} '' @ [CHR 0x22] @ ''$qz_active'' @ [CHR 0x22] @ '' ''
        @ [CHR 0x22] @ ''$qz_enabled'' @ [CHR 0x22]
      else
        ''if service {{service}} status >/dev/null 2>&1; then qz_active=active; e''
        @ ''lse qz_active=inactive; fi; printf '' @ [CHR 0x27] @ ''manager=service''
        @ [CHR 0x5C] @ ''nservice=%s'' @ [CHR 0x5C] @ ''nactive=%s'' @ [CHR 0x5C]
        @ ''nenabled=unsupported'' @ [CHR 0x5C] @ ''n'' @ [CHR 0x27] @ '' {{service}} ''
        @ [CHR 0x22] @ ''$qz_active'' @ [CHR 0x22])"

definition service_preview_command :: "string \<Rightarrow> string" where
  "service_preview_command executable =
     (if executable = ''systemctl'' then
        ''systemctl show --no-pager -p ActiveState -p SubState -p UnitFileState -''
        @ ''- {{service}}; systemctl status --no-pager --lines=20 -- {{service}} 2>''
        @ ''&1 || true''
      else ''service {{service}} status 2>&1 || true'')"

definition service_execute_command :: "string \<Rightarrow> string \<Rightarrow> string" where
  "service_execute_command executable action =
     (if executable = ''systemctl'' then ''systemctl '' @ action @ '' -- {{service}}''
      else ''service {{service}} '' @ action)"

definition service_verify_command :: "string \<Rightarrow> string \<Rightarrow> string" where
  "service_verify_command executable action =
     (if executable = ''systemctl'' then
        (if action = ''stop'' then
           ''test '' @ [CHR 0x22]
           @ ''$(systemctl is-active -- {{service}} 2>/dev/null || true)'' @ [CHR 0x22]
           @ '' = inactive''
         else
           ''test '' @ [CHR 0x22]
           @ ''$(systemctl is-active -- {{service}} 2>/dev/null || true)'' @ [CHR 0x22]
           @ '' = active'')
      else if action = ''stop'' then ''! service {{service}} status >/dev/null 2>&1''
      else ''service {{service}} status'')"

definition service_action_implementation ::
  "string \<Rightarrow> string \<Rightarrow> string \<Rightarrow> string \<Rightarrow> task_implementation" where
  "service_action_implementation ident manager executable action =
     dangerous_implementation (ident @ ''-'' @ action) [manager] [executable]
       (service_preview_command executable)
       [backup_item ''service-state-before'' RuntimeState (service_snapshot_command executable)]
       (service_execute_command executable action) (service_verify_command executable action)
       ''{{restore:service:service-state-before}}'' ParseServiceStatus"

definition service_action :: "string \<Rightarrow> string \<Rightarrow> string \<Rightarrow> task_definition" where
  "service_action ident title action =
     dangerous_task ident CatService title
       ''saves the running state, then one controlled action; the state can be restored'' 60
       [service_parameter]
       [service_action_implementation ''systemd'' ''systemd'' ''systemctl'' action,
        service_action_implementation ''service'' ''service'' ''service'' action] OutKeyValue"

section \<open>Values that contain placeholders\<close>

lemma replace_parameters_append:
  "replace_parameters (ps @ qs) command = replace_parameters qs (replace_parameters ps command)"
  by (induction ps command rule: replace_parameters.induct) auto

lemma render_template_append:
  "render_template template impl (ps @ qs) = render_template (replace_parameters ps template) impl qs"
  by (simp add: render_template_def replace_parameters_append)

lemma replace_parameters_Cons:
  "replace_parameters (e # ps) command = replace_parameters ps (replace_parameters [e] command)"
  by (cases e) simp

text \<open>One parameter whose value may contain anything is replaced as if it stood alone.\<close>

lemma replace_one:
  assumes "list_all clean_segment segs" "clean_name n"
    and "\<not> list_ex (\<lambda>seg. seg = OptHole n) segs"
    and "template_text segs' = template_text (map (fill_hole n (vp_shell_value p)) segs)"
    and "list_all clean_segment segs'" "\<not> list_ex (\<lambda>seg. seg = OptHole n) segs'"
  shows "replace_parameters [(n, p)] (template_text segs) = template_text segs'"
proof -
  have "map (fill_optional n (vp_shell_value p)) segs' = segs'"
    using assms(6)
  proof (induction segs')
    case (Cons seg segs')
    then show ?case by (cases seg) auto
  qed simp
  then show ?thesis
    using replace_placeholder [OF assms(1,2)] replace_optional [OF assms(5,2)] assms(4) by simp
qed

lemma quiet_brace_free:
  "CHR ''{'' \<notin> set s \<Longrightarrow> CHR ''}'' \<notin> set s \<Longrightarrow> quiet s"
proof -
  assume s: "CHR ''{'' \<notin> set s" "CHR ''}'' \<notin> set s"
  have "\<not> str_contains s [a, a]" if "a \<notin> set s" for a
    using that by (induction s) (auto simp: starts_with_two)
  with s show ?thesis by (auto simp: quiet_def) (metis last_in_set list.set_sel(1))+
qed

lemma shell_quote_set: "set (shell_quote v) \<subseteq> insert (CHR 0x27) (insert (CHR 0x22) (set v))"
  by (auto simp: shell_quote_def quote_escape_def split: if_splits)

lemma quiet_shell_quote: "CHR ''{'' \<notin> set v \<Longrightarrow> CHR ''}'' \<notin> set v \<Longrightarrow> quiet (shell_quote v)"
  by (rule quiet_brace_free) (use shell_quote_set [of v] in auto)

lemma shell_quote_plain: "CHR 0x27 \<notin> set v \<Longrightarrow> shell_quote v = CHR 0x27 # v @ [CHR 0x27]"
proof -
  assume "CHR 0x27 \<notin> set v"
  then have "concat (map (\<lambda>c. if c = CHR 0x27 then quote_escape else [c]) v) = v"
    by (induction v) auto
  then show ?thesis by (simp add: shell_quote_def)
qed


lemma quiet_decimal: "quiet (decimal_int z)"
proof (rule quiet_brace_free)
  have "is_plain_char c \<Longrightarrow> c \<noteq> CHR ''{'' \<and> c \<noteq> CHR ''}''" for c
    by (auto simp: is_plain_char_def is_ascii_alphanumeric_def is_ascii_digit_def byte_def)
  with decimal_int_plain [of z] show "CHR ''{'' \<notin> set (decimal_int z)" "CHR ''}'' \<notin> set (decimal_int z)"
    by (auto simp: list_all_iff)
qed

definition quoted_value :: "string \<Rightarrow> validated_parameter" where
  "quoted_value s = \<lparr>vp_value = JString s, vp_shell_value = shell_quote s, vp_sensitive = False\<rparr>"

definition number_value :: "int \<Rightarrow> validated_parameter" where
  "number_value z = \<lparr>vp_value = JInt z, vp_shell_value = decimal_int z, vp_sensitive = False\<rparr>"

definition bool_value :: "bool \<Rightarrow> validated_parameter" where
  "bool_value b =
     \<lparr>vp_value = JBool b, vp_shell_value = (if b then ''true'' else ''false''), vp_sensitive = False\<rparr>"

lemmas task_record_simps =
  parameter_def string_parameter_def integer_parameter_def absolute_path_parameter_def
  enum_parameter_def legacy_task_def dangerous_task_def dangerous_implementation_def
  legacy_implementation_def legacy_step_def bounded_step_def

lemma log_search_values:
  assumes "starts_with path ''/''" "CHR 0x00 \<notin> set path"
    and "keyword \<noteq> []" "char_count keyword \<le> 512" "1 \<le> char_count keyword"
    and "CHR 0x0A \<notin> set keyword" "CHR 0x00 \<notin> set keyword"
  shows "validate_parameters parse_str log_search_task
      (JObject [(''keyword'', JString keyword), (''path'', JString path)])
    = Inr [(''caseSensitive'', bool_value False), (''context'', number_value 2),
           (''keyword'', quoted_value keyword), (''limit'', number_value 1000),
           (''path'', quoted_value path)]"
  using assms
  by (simp add: validate_parameters_def log_search_task_def task_record_simps given_value_def
      validate_value_def required_string_def reject_nul_def ok_or_def validate_task_constraints_def
      quoted_value_def number_value_def bool_value_def)

lemma permissions_values:
  assumes "starts_with path ''/''" "CHR 0x00 \<notin> set path"
    and "path \<notin> set protected_paths" "is_normalized_absolute_path path" "is_file_mode mode"
  shows "validate_parameters parse_str file_permissions_task
      (JObject [(''mode'', JString mode), (''path'', JString path)])
    = Inr [(''gid'', number_value 0), (''mode'', quoted_value mode), (''path'', quoted_value path),
           (''uid'', number_value 0)]"
  using assms
  by (simp add: validate_parameters_def file_permissions_task_def task_record_simps given_value_def
      validate_value_def required_string_def reject_nul_def ok_or_def validate_task_constraints_def
      quoted_value_def number_value_def quoted_if_def permissions_constraint_def string_value_def
      params_get_def)


section \<open>A value that names another parameter\<close>

lemma literal_clean:
  "list_all (\<lambda>c. c \<noteq> CHR ''{'' \<and> c \<noteq> CHR ''}'') s \<Longrightarrow> clean_segment (Lit s)"
  by (auto simp: list_all_iff intro!: quiet_brace_free)

lemma parameter_names [simp]:
  "clean_name ''caseSensitive''" "clean_name ''context''" "clean_name ''keyword''"
  "clean_name ''limit''" "clean_name ''path''" "clean_name ''gid''" "clean_name ''uid''"
  "clean_name ''mode''"
  by (simp_all add: clean_name_def is_parameter_byte_def is_ascii_alphanumeric_def
      is_ascii_digit_def byte_def)

definition log_search_segments :: "segment list" where
  "log_search_segments =
     [Lit ''grep -n -F -- '', Hole ''keyword'', Lit '' '', Hole ''path'', Lit '' | head -n '',
      Hole ''limit'']"

lemma log_search_text: "template_text log_search_segments = log_search_template"
  by (simp add: log_search_segments_def log_search_template_def placeholder_def)

lemma log_search_clean: "list_all clean_segment log_search_segments"
  by (simp add: log_search_segments_def quiet_brace_free)

text \<open>The template once the keyword stands in it: two more placeholders of the path than intended.\<close>

definition log_search_hijacked :: "segment list" where
  "log_search_hijacked =
     [Lit (''grep -n -F -- '' @ [CHR 0x27]), Hole ''path'', Lit (CHR 0x27 # '' ''), Hole ''path'',
      Lit '' | head -n '', Hole ''limit'']"

lemma log_search_hijack:
  "replace_parameters [(''caseSensitive'', bool_value False), (''context'', number_value 2),
      (''keyword'', quoted_value ''{{path}}'')] log_search_template
   = template_text log_search_hijacked"
proof -
  have same: "replace_parameters [(''caseSensitive'', bool_value False), (''context'', number_value 2)]
      (template_text log_search_segments) = template_text log_search_segments"
    using replace_parameters_segments [OF log_search_clean,
      of "[(''caseSensitive'', bool_value False), (''context'', number_value 2)]"]
    by (simp add: clean_parameter_def bool_value_def number_value_def quiet_decimal quiet_brace_free
        log_search_segments_def bind_segment_def params_get_def)
  have quoted: "shell_quote ''{{path}}'' = CHR 0x27 # ''{{path}}'' @ [CHR 0x27]"
    by (rule shell_quote_plain) simp
  have "replace_parameters [(''keyword'', quoted_value ''{{path}}'')] (template_text log_search_segments)
      = template_text log_search_hijacked"
    using log_search_clean
    by (intro replace_one)
       (simp_all add: log_search_segments_def log_search_hijacked_def quoted_value_def quoted
         placeholder_def quiet_brace_free)
  with same show ?thesis
    using replace_parameters_append [of "[(''caseSensitive'', bool_value False), (''context'', number_value 2)]"
      "[(''keyword'', quoted_value ''{{path}}'')]" "template_text log_search_segments"]
    by (simp add: log_search_text)
qed

lemma log_search_injected:
  assumes "CHR 0x27 \<notin> set path" "CHR ''{'' \<notin> set path" "CHR ''}'' \<notin> set path"
  shows "render_template log_search_template impl
      [(''caseSensitive'', bool_value False), (''context'', number_value 2),
       (''keyword'', quoted_value ''{{path}}''), (''limit'', number_value 1000),
       (''path'', quoted_value path)]
    = Inr (''grep -n -F -- '' @ empty_quotes @ path @ empty_quotes @ '' '' @ shell_quote path
           @ '' | head -n '' @ decimal_int 1000)"
proof -
  have "list_all clean_segment log_search_hijacked"
    by (simp add: log_search_hijacked_def quiet_brace_free)
  moreover have "list_all clean_parameter [(''limit'', number_value 1000), (''path'', quoted_value path)]"
    using assms by (simp add: clean_parameter_def number_value_def quoted_value_def quiet_decimal
        quiet_shell_quote)
  ultimately have "render_template (template_text log_search_hijacked) impl
      [(''limit'', number_value 1000), (''path'', quoted_value path)]
    = filled impl log_search_hijacked [(''limit'', number_value 1000), (''path'', quoted_value path)]"
    by (rule render_template_filled)
  also have "\<dots> = Inr (''grep -n -F -- '' @ empty_quotes @ path @ empty_quotes @ '' ''
      @ shell_quote path @ '' | head -n '' @ decimal_int 1000)"
    using assms shell_quote_plain [of path]
    by (simp add: filled_def log_search_hijacked_def unbound_def segment_value_def params_get_def
        quoted_value_def number_value_def empty_quotes_def)
  finally show ?thesis
    using render_template_append [of log_search_template impl
      "[(''caseSensitive'', bool_value False), (''context'', number_value 2),
        (''keyword'', quoted_value ''{{path}}'')]"
      "[(''limit'', number_value 1000), (''path'', quoted_value path)]"]
    by (simp add: log_search_hijack del: replace_parameters.simps)
qed

text \<open>C30: A placeholder in a value is replaced as well. In the log search of the catalogue the keyword
  \<open>{{path}}\<close> is accepted, and after it the text of the path stands outside all quotes: whatever the
  path holds between its first slash and its end, such as a semicolon and a second command, the
  remote shell executes.\<close>

theorem log_search_keyword_injects_path:
  assumes "starts_with path ''/''" "CHR 0x00 \<notin> set path"
    and "CHR 0x27 \<notin> set path" "CHR ''{'' \<notin> set path" "CHR ''}'' \<notin> set path"
  shows "bind_res (validate_parameters parse_str log_search_task
        (JObject [(''keyword'', JString ''{{path}}''), (''path'', JString path)]))
      (render_command (hd (td_implementations log_search_task)))
    = Inr (''grep -n -F -- '' @ empty_quotes @ path @ empty_quotes @ '' '' @ shell_quote path
           @ '' | head -n '' @ decimal_int 1000)"
proof -
  have k: "char_count ''{{path}}'' = 8" by (simp add: char_count_def is_cont_def byte_def)
  have "validate_parameters parse_str log_search_task
        (JObject [(''keyword'', JString ''{{path}}''), (''path'', JString path)])
    = Inr [(''caseSensitive'', bool_value False), (''context'', number_value 2),
           (''keyword'', quoted_value ''{{path}}''), (''limit'', number_value 1000),
           (''path'', quoted_value path)]"
    by (rule log_search_values [OF assms(1,2)]) (simp_all add: k)
  then show ?thesis
    using log_search_injected [OF assms(3-5)]
    by (simp add: render_command_def render_task_step_command_def log_search_task_def task_record_simps)
qed

theorem log_search_keyword_injects_path_witness:
  "bind_res (validate_parameters (\<lambda>_. None) log_search_task
        (JObject [(''keyword'', JString ''{{path}}''), (''path'', JString ''/x; reboot #'')]))
      (render_command (hd (td_implementations log_search_task)))
    = Inr (''grep -n -F -- '' @ empty_quotes @ ''/x; reboot #'' @ empty_quotes @ '' ''
           @ shell_quote ''/x; reboot #'' @ '' | head -n '' @ decimal_int 1000)"
  by (rule log_search_keyword_injects_path) simp_all


section \<open>A value with an optional placeholder\<close>

definition permissions_segments :: "segment list" where
  "permissions_segments =
     [Lit ''test ! -L '', Hole ''path'', Lit '' && chown -- '', Hole ''uid'', Lit '':'', Hole ''gid'',
      Lit '' '', Hole ''path'', Lit '' && chmod -- '', Hole ''mode'', Lit '' '', Hole ''path'']"

lemma permissions_text: "template_text permissions_segments = permissions_template"
  by (simp add: permissions_segments_def permissions_template_def placeholder_def)

lemma permissions_clean: "list_all clean_segment permissions_segments"
  by (simp add: permissions_segments_def quiet_brace_free)

text \<open>The command the task runs for a path, a mode, a user and a group, given as shell text.\<close>

definition permissions_command :: "string \<Rightarrow> string \<Rightarrow> string \<Rightarrow> string \<Rightarrow> string" where
  "permissions_command path mode uid gid =
     ''test ! -L '' @ path @ '' && chown -- '' @ uid @ '':'' @ gid @ '' '' @ path @ '' && chmod -- ''
     @ mode @ '' '' @ path"

text \<open>The template after the group, the mode and a path that ends in \<open>{{?x}}\<close> stand in it.\<close>

definition permissions_truncated :: "string \<Rightarrow> string \<Rightarrow> segment list" where
  "permissions_truncated path mode =
     (let q = [Lit (CHR 0x27 # path), OptHole ''x'', Lit [CHR 0x27]] in
      [Lit ''test ! -L ''] @ q @ [Lit '' && chown -- '', Hole ''uid'', Lit '':'', Lit (decimal_int 0),
       Lit '' ''] @ q @ [Lit '' && chmod -- '', Lit (shell_quote mode), Lit '' ''] @ q)"

definition plain_text :: "string \<Rightarrow> bool" where
  "plain_text s \<longleftrightarrow> CHR 0x27 \<notin> set s \<and> CHR ''{'' \<notin> set s \<and> CHR ''}'' \<notin> set s"

lemma permissions_truncate:
  assumes "plain_text path" "plain_text mode"
  shows "replace_parameters [(''gid'', number_value 0), (''mode'', quoted_value mode),
      (''path'', quoted_value (path @ ''{{?x}}''))] permissions_template
    = template_text (permissions_truncated path mode)"
proof -
  let ?bound = "map (bind_segment [(''gid'', number_value 0), (''mode'', quoted_value mode)])
    permissions_segments"
  have first: "replace_parameters [(''gid'', number_value 0), (''mode'', quoted_value mode)]
      (template_text permissions_segments) = template_text ?bound"
    using assms by (intro replace_parameters_segments [OF permissions_clean])
      (simp add: clean_parameter_def number_value_def quoted_value_def quiet_decimal
        quiet_shell_quote plain_text_def)
  have quoted: "shell_quote (path @ ''{{?x}}'') = CHR 0x27 # path @ ''{{?x}}'' @ [CHR 0x27]"
    using assms shell_quote_plain [of "path @ ''{{?x}}''"] by (simp add: plain_text_def)
  have bound: "?bound = [Lit ''test ! -L '', Hole ''path'', Lit '' && chown -- '', Hole ''uid'',
      Lit '':'', Lit (decimal_int 0), Lit '' '', Hole ''path'', Lit '' && chmod -- '',
      Lit (shell_quote mode), Lit '' '', Hole ''path'']"
    by (simp add: permissions_segments_def bind_segment_def params_get_def number_value_def
        quoted_value_def)
  have clean: "list_all clean_segment ?bound"
    using assms unfolding bound
    by (simp add: quiet_brace_free quiet_decimal quiet_shell_quote plain_text_def)
  have x: "clean_name ''x''"
    by (simp add: clean_name_def is_parameter_byte_def is_ascii_alphanumeric_def byte_def)
  have "replace_parameters [(''path'', quoted_value (path @ ''{{?x}}''))] (template_text ?bound)
      = template_text (permissions_truncated path mode)"
    using assms x clean unfolding bound
    by (intro replace_one)
       (simp_all add: permissions_truncated_def Let_def quoted_value_def quoted plain_text_def
         optional_placeholder_def quiet_brace_free quiet_decimal quiet_shell_quote)
  with first show ?thesis
    using replace_parameters_append [of "[(''gid'', number_value 0), (''mode'', quoted_value mode)]"
      "[(''path'', quoted_value (path @ ''{{?x}}''))]" "template_text permissions_segments"]
    by (simp add: permissions_text)
qed

lemma permissions_bypassed:
  assumes "plain_text path" "plain_text mode"
  shows "render_template permissions_template impl
      [(''gid'', number_value 0), (''mode'', quoted_value mode),
       (''path'', quoted_value (path @ ''{{?x}}'')), (''uid'', number_value 0)]
    = Inr (permissions_command (shell_quote path @ empty_quotes) (shell_quote mode)
            (decimal_int 0) (decimal_int 0))"
proof -
  have x: "clean_name ''x''"
    by (simp add: clean_name_def is_parameter_byte_def is_ascii_alphanumeric_def byte_def)
  have "list_all clean_segment (permissions_truncated path mode)"
    using assms x
    by (simp add: permissions_truncated_def Let_def quiet_brace_free quiet_decimal
        quiet_shell_quote plain_text_def)
  moreover have "list_all clean_parameter [(''uid'', number_value 0)]"
    by (simp add: clean_parameter_def number_value_def quiet_decimal)
  ultimately have "render_template (template_text (permissions_truncated path mode)) impl
      [(''uid'', number_value 0)] = filled impl (permissions_truncated path mode) [(''uid'', number_value 0)]"
    by (rule render_template_filled)
  also have "\<dots> = Inr (permissions_command (shell_quote path @ empty_quotes) (shell_quote mode)
      (decimal_int 0) (decimal_int 0))"
    using assms shell_quote_plain [of path]
    by (simp add: filled_def permissions_truncated_def Let_def unbound_def segment_value_def
        params_get_def number_value_def permissions_command_def plain_text_def empty_quotes_def)
  finally show ?thesis
    using render_template_append [of permissions_template impl
      "[(''gid'', number_value 0), (''mode'', quoted_value mode),
        (''path'', quoted_value (path @ ''{{?x}}''))]" "[(''uid'', number_value 0)]"]
    by (simp add: permissions_truncate [OF assms] del: replace_parameters.simps)
qed

lemma protected_with_suffix:
  assumes "path \<in> set protected_paths"
  shows "starts_with path ''/'' \<and> plain_text path \<and> CHR 0x00 \<notin> set path
    \<and> path @ ''{{?x}}'' \<notin> set protected_paths
    \<and> is_normalized_absolute_path (path @ ''{{?x}}'')"
  using assms
  by (auto simp: protected_paths_def plain_text_def is_normalized_absolute_path_def
      is_plain_segment_def)

lemma starts_with_prefix: "starts_with s p \<Longrightarrow> starts_with (s @ t) p"
  by (induction s p rule: starts_with.induct) auto

lemma file_mode_plain: "is_file_mode mode \<Longrightarrow> plain_text mode"
  by (auto simp: is_file_mode_def plain_text_def list_all_iff byte_def)

lemma shell_words_truncated: "shell_words (shell_quote path @ empty_quotes) = Some [path]"
  using sh_words_quote [of None path empty_quotes] by (simp add: empty_quotes_def)

text \<open>C32: The protection of the top-level directories is bypassed by a path that ends in an optional
  placeholder: for every protected directory the path followed by \<open>{{?x}}\<close> is accepted, and the
  placeholder then vanishes from the command, which changes owner and mode of the protected
  directory itself.\<close>

theorem file_permissions_reach_protected_path:
  assumes "path \<in> set protected_paths" "is_file_mode mode"
  shows "bind_res (validate_parameters parse_str file_permissions_task
        (JObject [(''mode'', JString mode), (''path'', JString (path @ ''{{?x}}''))]))
      (render_command (hd (td_implementations file_permissions_task)))
    = Inr (permissions_command (shell_quote path @ empty_quotes) (shell_quote mode)
            (decimal_int 0) (decimal_int 0))
    \<and> shell_words (shell_quote path @ empty_quotes) = Some [path]
    \<and> \<not> is_ok (validate_parameters parse_str file_permissions_task
        (JObject [(''mode'', JString mode), (''path'', JString path)]))"
proof (intro conjI)
  note p = protected_with_suffix [OF assms(1)]
  have "validate_parameters parse_str file_permissions_task
      (JObject [(''mode'', JString mode), (''path'', JString (path @ ''{{?x}}''))])
    = Inr [(''gid'', number_value 0), (''mode'', quoted_value mode),
           (''path'', quoted_value (path @ ''{{?x}}'')), (''uid'', number_value 0)]"
    using p assms(2) by (intro permissions_values) (auto simp: starts_with_prefix)
  then show "bind_res (validate_parameters parse_str file_permissions_task
        (JObject [(''mode'', JString mode), (''path'', JString (path @ ''{{?x}}''))]))
      (render_command (hd (td_implementations file_permissions_task)))
    = Inr (permissions_command (shell_quote path @ empty_quotes) (shell_quote mode)
            (decimal_int 0) (decimal_int 0))"
    using permissions_bypassed [OF _ file_mode_plain [OF assms(2)]] p
    by (simp add: render_command_def render_task_step_command_def file_permissions_task_def
        task_record_simps)
  show "shell_words (shell_quote path @ empty_quotes) = Some [path]"
    by (rule shell_words_truncated)
  show "\<not> is_ok (validate_parameters parse_str file_permissions_task
        (JObject [(''mode'', JString mode), (''path'', JString path)]))"
    using p assms
    by (simp add: validate_parameters_def file_permissions_task_def task_record_simps given_value_def
        validate_value_def required_string_def reject_nul_def ok_or_def validate_task_constraints_def
        quoted_if_def permissions_constraint_def string_value_def params_get_def)
qed

theorem file_permissions_reach_protected_path_witness:
  "bind_res (validate_parameters (\<lambda>_. None) file_permissions_task
        (JObject [(''mode'', JString ''0777''), (''path'', JString (''/etc'' @ ''{{?x}}''))]))
      (render_command (hd (td_implementations file_permissions_task)))
    = Inr (permissions_command (shell_quote ''/etc'' @ empty_quotes) (shell_quote ''0777'')
            (decimal_int 0) (decimal_int 0))"
  using file_permissions_reach_protected_path [of "''/etc''" "''0777''" "\<lambda>_. None"]
  by (simp add: protected_paths_def is_file_mode_def byte_def del: append.simps)

section \<open>Templates that mean what they say\<close>

text \<open>C27: The renderer, which replaces the parameters one after the other in the whole text, agrees
  with one pass over the template: if no value contains a double brace, every placeholder is filled
  with the text of its own parameter, an optional one without a value becomes an empty word, and the
  command is refused exactly if a required placeholder is left.\<close>

theorem render_is_single_pass:
  assumes "list_all clean_segment segments" and "list_all clean_parameter parameters"
    and "ts_command_template step = template_text segments"
  shows "render_task_step_command step impl parameters = filled impl segments parameters"
  unfolding render_task_step_command_def assms(3) by (rule render_template_filled [OF assms(1,2)])

theorem render_is_single_pass_witness:
  "render_task_step_command (bounded_step ''execute'' ''x'' 60 permissions_template) ''posix-stat''
     [(''gid'', number_value 0), (''mode'', quoted_value ''0640''),
      (''path'', quoted_value ''/srv/a b''), (''uid'', number_value 7)]
   = filled ''posix-stat'' permissions_segments
     [(''gid'', number_value 0), (''mode'', quoted_value ''0640''),
      (''path'', quoted_value ''/srv/a b''), (''uid'', number_value 7)]"
  by (rule render_is_single_pass [OF permissions_clean])
     (simp_all add: clean_parameter_def number_value_def quoted_value_def quiet_decimal
       quiet_shell_quote bounded_step_def permissions_text)


section \<open>A plan\<close>

definition service_host :: system_capabilities where
  "service_host =
     \<lparr>sc_probe_schema_version = 1, sc_platform_family = OsLinux, sc_remote_shell = Bash,
      sc_path_style = PathPosix, sc_os_id = ''debian'', sc_os_family = ''debian'', sc_version_id = None,
      sc_package_manager = None, sc_service_manager = ''service'', sc_architecture = ''x86_64'',
      sc_shell = ''/bin/bash'', sc_commands = [''service''], sc_services = [''ssh''], sc_containers = [],
      sc_interfaces = [], sc_dns_servers = [], sc_current_timezone = None, sc_current_time = None,
      sc_ntp_enabled = None, sc_ntp_synchronized = None, sc_timezones = []\<rparr>"

lemma service_text: "clean_name ''service''"
  by (simp add: clean_name_def is_parameter_byte_def is_ascii_alphanumeric_def is_ascii_digit_def byte_def)

lemma service_parameters_clean: "list_all clean_parameter [(''service'', quoted_value ''ssh'')]"
  using service_text by (simp add: clean_parameter_def quoted_value_def quiet_shell_quote)

lemma fill_service:
  assumes "quiet before" "quiet after"
  shows "render_template (before @ placeholder ''service'' @ after) impl [(''service'', quoted_value ''ssh'')]
    = Inr (before @ shell_quote ''ssh'' @ after)"
  using render_template_filled [OF _ service_parameters_clean, of "[Lit before, Hole ''service'', Lit after]"]
    assms service_text
  by (simp add: filled_def unbound_def segment_value_def params_get_def quoted_value_def)

lemma service_action_rendered:
  "render_template (service_preview_command ''service'') impl [(''service'', quoted_value ''ssh'')]
     = Inr (''service '' @ shell_quote ''ssh'' @ '' status 2>&1 || true'')"
  "render_template (service_execute_command ''service'' ''restart'') impl [(''service'', quoted_value ''ssh'')]
     = Inr (''service '' @ shell_quote ''ssh'' @ '' restart'')"
  "render_template (service_verify_command ''service'' ''restart'') impl [(''service'', quoted_value ''ssh'')]
     = Inr (''service '' @ shell_quote ''ssh'' @ '' status'')"
  using fill_service [of "''service ''" "'' status 2>&1 || true''" impl]
    fill_service [of "''service ''" "'' restart''" impl] fill_service [of "''service ''" "'' status''" impl]
  by (simp_all add: quiet_brace_free service_preview_command_def service_execute_command_def
      service_verify_command_def placeholder_def)

text \<open>C4: A plan is well formed: its parameters are well typed and stand for exactly the given values
  (no expansion by the shell), every service, container and interface they name was found on the
  server, and none of its commands has a placeholder left.\<close>

theorem planned_task_sound:
  assumes "plan_task parse_str task capabilities (JObject object) = Inr planned"
  shows "accepted_parameters parse_str task object (pt_parameters planned)
    \<and> list_all (target_found capabilities (pt_parameters planned)) (td_parameters task)
    \<and> list_all resolved_step (pt_preflight_steps planned @ pt_preview_steps planned
        @ pt_execution_steps planned @ pt_verify_steps planned)"
  using plan_task_sound [OF assms] by blast

lemma service_name_ssh: "is_service_name ''ssh''"
  by (simp add: is_service_name_def is_ascii_alphanumeric_def byte_def)

lemma service_host_facts:
  "has_service service_host ''ssh''" "has_command service_host ''service''"
  "sc_os_family service_host = ''debian''" "sc_service_manager service_host = ''service''"
  "vp_value (quoted_value v) = JString v"
  by (simp_all add: has_service_def has_command_def service_host_def eq_ignore_ascii_case_def
      quoted_value_def)

lemma service_host_plan:
  "\<exists>planned. plan_task (\<lambda>_. None) (service_action ''service.restart'' ''restart'' ''restart'')
     service_host (JObject [(''service'', JString ''ssh'')]) = Inr planned
     \<and> pt_parameters planned = [(''service'', quoted_value ''ssh'')]"
  by (simp add: plan_task_def service_action_def dangerous_task_def service_parameter_def parameter_def
      validate_parameters_def ok_or_def given_value_def validate_value_def quoted_if_def
      required_string_def service_name_ssh validate_task_constraints_def quoted_value_def [symmetric]
      validate_discovered_targets_def params_get_def discovered_def
      select_implementation_def service_action_implementation_def dangerous_implementation_def
      matches_capabilities_def supported_families_def
      render_steps_def render_step_def render_task_step_command_def bounded_step_def
      service_action_rendered service_host_facts)

theorem planned_task_sound_witness:
  "accepted_parameters (\<lambda>_. None) (service_action ''service.restart'' ''restart'' ''restart'')
     [(''service'', JString ''ssh'')] [(''service'', quoted_value ''ssh'')]"
  using service_host_plan planned_task_sound by metis

end
