(* ===== verification/Op_Assets.thy ===== *)
theory Op_Assets
  imports Op_Restore_Repo Task_Catalog
begin

text \<open>
  Where restore assets lie, and what a backup reads: \<^verbatim>\<open>src-tauri/src/core/tasks/recovery.rs\<close>. A
  relative path is its text with \<open>/\<close> between the components. \<open>Uuid::parse_str\<close> and the SHA-256 of a
  text in hexadecimal are arguments.
\<close>

section \<open>Paths\<close>

definition max_asset_name_bytes :: nat where
  "max_asset_name_bytes = 96"

definition task_restore_dir :: "uuid \<Rightarrow> string" where
  "task_restore_dir run = ''backups/tasks/'' @ uuid_text run"

text \<open>One underscore for every character that is not plain ASCII.\<close>

definition safe_asset_char :: "char \<Rightarrow> char" where
  "safe_asset_char c =
     (if is_ascii_alphanumeric c \<or> c \<in> {CHR ''.'', CHR ''-'', CHR ''_''} then c else CHR ''_'')"

definition safe_asset_name :: "string \<Rightarrow> string" where
  "safe_asset_name v =
     (let name = take max_asset_name_bytes (map safe_asset_char (filter (\<lambda>c. \<not> is_cont c) v))
      in if name \<in> {[], ''.'', ''..''} then ''remote-state'' else name)"

definition validate_confined_relative_path :: "string \<Rightarrow> unit app_result" where
  "validate_confined_relative_path relative =
     (if relative = [] \<or> CHR 0x00 \<in> set relative \<or> CHR 0x5C \<in> set relative
         \<or> starts_with relative ''/'' \<or> \<not> list_all safe_part (path_parts relative)
      then Inl (Security ''the path of a restore asset is not a safe relative path'')
      else Inr ())"

definition validate_restore_relative_path ::
  "(string \<Rightarrow> uuid option) \<Rightarrow> string \<Rightarrow> unit app_result" where
  "validate_restore_relative_path parse_str relative =
     bind_res (validate_confined_relative_path relative) (\<lambda>_.
       case path_parts relative of
         PNormal a # PNormal b # PNormal run # file \<Rightarrow>
           if a \<noteq> ''backups'' \<or> b \<noteq> ''tasks'' \<or> 1 < length file
           then Inl (Security ''restore assets can only lie below backups/tasks'')
           else if parse_str run = None
           then Inl (Security ''the restore directory must be the UUID of a run'')
           else (case file of
               [] \<Rightarrow> Inr ()
             | PNormal name # _ \<Rightarrow>
                 if name = [] \<or> 180 < length name \<or> ends_with name ''.partial'' \<or> CHR '':'' \<in> set name
                 then Inl (Security ''invalid name of a restore file'') else Inr ()
             | _ \<Rightarrow> Inl (Security ''invalid name of a restore file''))
       | _ \<Rightarrow> Inl (Security ''restore assets can only lie below backups/tasks''))"

text \<open>\<open>{:03}\<close>\<close>

definition three_digits :: "nat \<Rightarrow> string" where
  "three_digits n = replicate (3 - length (decimal n)) (CHR ''0'') @ decimal n"

definition original_name :: "string \<Rightarrow> string" where
  "original_name remote_target =
     (let name = List.last (split_char (CHR ''/'') remote_target)
      in if name = [] then ''remote-state'' else name)"

definition asset_file_name :: "(string \<Rightarrow> string) \<Rightarrow> nat \<Rightarrow> string \<Rightarrow> string" where
  "asset_file_name sha256 ordinal remote_target =
     three_digits ordinal @ ''-'' @ safe_asset_name (original_name remote_target) @ ''.''
       @ take 12 (sha256 remote_target) @ ''.backup''"

definition task_restore_item_relative_path ::
  "(string \<Rightarrow> uuid option) \<Rightarrow> (string \<Rightarrow> string) \<Rightarrow> uuid \<Rightarrow> nat \<Rightarrow> string \<Rightarrow> string app_result" where
  "task_restore_item_relative_path parse_str sha256 run ordinal remote_target =
     (if remote_target = [] \<or> CHR 0x00 \<in> set remote_target \<or> 1000 \<le> ordinal
      then Inl (Validation ''invalid target or ordinal of a restore item'')
      else let relative = task_restore_dir run @ ''/'' @ asset_file_name sha256 ordinal remote_target
           in map_res (\<lambda>_. relative) (validate_restore_relative_path parse_str relative))"

definition resolve_task_restore_path ::
  "(string \<Rightarrow> uuid option) \<Rightarrow> string \<Rightarrow> string \<Rightarrow> string app_result" where
  "resolve_task_restore_path parse_str data_root relative =
     (if \<not> starts_with data_root ''/'' then Inl (Security ''the data root must be absolute'')
      else map_res (\<lambda>_. data_root @ (if ends_with data_root ''/'' then [] else ''/'') @ relative)
             (validate_restore_relative_path parse_str relative))"

section \<open>Backup targets\<close>

fun scalar_text :: "(json \<Rightarrow> string) \<Rightarrow> json \<Rightarrow> string option" where
  "scalar_text encode (JString s) = Some s"
| "scalar_text encode (JInt i) = Some (decimal_int i)"
| "scalar_text encode (JFloat r) = Some (encode (JFloat r))"
| "scalar_text encode (JBool b) = Some (if b then ''true'' else ''false'')"
| "scalar_text encode _ = None"

fun replace_scalars ::
  "(json \<Rightarrow> string) \<Rightarrow> validated_parameters \<Rightarrow> string \<Rightarrow> string app_result" where
  "replace_scalars encode [] rendered = Inr rendered"
| "replace_scalars encode ((name, p) # ps) rendered =
     (case scalar_text encode (vp_value p) of
        None \<Rightarrow> Inl (Validation (''backup parameter '' @ name @ '' is not a single value''))
      | Some v \<Rightarrow> replace_scalars encode ps (replace_str (placeholder name) v rendered))"

definition render_backup_target ::
  "(json \<Rightarrow> string) \<Rightarrow> string \<Rightarrow> string \<Rightarrow> validated_parameters \<Rightarrow> string app_result" where
  "render_backup_target encode template implementation_id parameters =
     (if template = [] \<or> CHR 0x00 \<in> set template
      then Inl (Validation (''invalid restore target of '' @ implementation_id))
      else bind_res (replace_scalars encode parameters template) (\<lambda>rendered.
        if str_contains rendered ''{{'' \<or> str_contains rendered ''}}'' \<or> CHR 0x00 \<in> set rendered
        then Inl (Validation (''unresolved restore target of '' @ implementation_id))
        else Inr rendered))"

end
