(* ===== verification/Op_Result.thy ===== *)
theory Op_Result
  imports Op_Model
begin

text \<open>
  The structured result of an operation, \<^verbatim>\<open>src-tauri/src/core/tasks/result.rs\<close>: the markers that the
  remote collectors print are turned into findings, and the redacted output is kept up to 64 KiB.
  The redactor is an argument. A set in byte order is the sorted list of its elements.
\<close>

definition max_technical_details_bytes :: nat where
  "max_technical_details_bytes = 64 * 1024"

definition max_findings :: nat where
  "max_findings = 100"

definition max_suggestions :: nat where
  "max_suggestions = 20"

datatype operation_conclusion = ConNormal | ConWarning | ConFailed | ConUncertain
datatype finding_level = LevelInfo | LevelWarning | LevelError

record operation_finding =
  fi_level :: finding_level
  fi_title :: string
  fi_detail :: string

record operation_result =
  ores_status :: operation_conclusion
  ores_summary :: string
  ores_findings :: "operation_finding list"
  ores_suggestions :: "string list"
  ores_technical_details :: string

definition valid_marker_token :: "string \<Rightarrow> bool" where
  "valid_marker_token v \<longleftrightarrow>
     v \<noteq> [] \<and> length v \<le> 64
     \<and> list_all (\<lambda>b. (97 \<le> byte b \<and> byte b \<le> 122) \<or> is_ascii_digit b \<or> b = CHR ''_'') v"

definition known_warning :: "string \<Rightarrow> bool" where
  "known_warning marker \<longleftrightarrow>
     marker \<in> set [''disk_usage'', ''cpu_pressure'', ''memory_pressure'', ''oom_events'',
       ''connectivity_failed'', ''udp_inconclusive'', ''service_failed'', ''container_unhealthy'',
       ''firewall_exposure'', ''time_drift'']"

definition known_error :: "string \<Rightarrow> bool" where
  "known_error marker \<longleftrightarrow>
     marker \<in> set [''process_not_found'', ''packet_capture_failed'', ''capture_too_large'',
       ''invalid_container_action'']"

definition error_title :: "string \<Rightarrow> string" where
  "error_title marker =
     (if marker = ''process_not_found'' then ''process not found''
      else if marker = ''packet_capture_failed'' then ''packet capture failed''
      else if marker = ''capture_too_large'' then ''packet capture above the limit''
      else if marker = ''invalid_container_action'' then ''invalid container action''
      else ''diagnosis failed'')"

text \<open>Title, detail and suggestion of a warning.\<close>

definition warning_guidance :: "string \<Rightarrow> string \<times> string \<times> string" where
  "warning_guidance marker =
     (if marker = ''disk_usage'' then (''disk space low'', ''usage in the warning range'', ''remove logs and caches'')
      else if marker = ''cpu_pressure'' then (''CPU pressure'', ''load needs attention'', ''look at the top processes'')
      else if marker = ''memory_pressure'' \<or> marker = ''oom_events''
        then (''memory pressure'', ''signs of memory pressure or OOM'', ''look at the memory ranking'')
      else if marker = ''connectivity_failed''
        then (''connectivity'', ''the basic probe failed'', ''check address, routes and firewall'')
      else if marker = ''udp_inconclusive''
        then (''UDP inconclusive'', ''no answer to the UDP probe'', ''check the listener and the firewall'')
      else if marker = ''service_failed''
        then (''service state'', ''failed or not running'', ''look at the log before a restart'')
      else if marker = ''container_unhealthy''
        then (''container health'', ''reported unhealthy'', ''look at the health check and limits'')
      else if marker = ''firewall_exposure''
        then (''network exposure'', ''ports and rules may differ'', ''check each open port'')
      else if marker = ''time_drift''
        then (''time synchronisation'', ''clock or source abnormal'', ''check NTP and its source'')
      else (''warning'', ''a marker needs attention'', ''look at the technical details''))"

definition push_finding ::
  "operation_finding list \<Rightarrow> finding_level \<Rightarrow> string \<Rightarrow> string \<Rightarrow> operation_finding list" where
  "push_finding findings level title detail =
     (if length findings < max_findings
      then findings @ [\<lparr>fi_level = level, fi_title = title, fi_detail = detail\<rparr>] else findings)"

definition push_suggestion :: "string list \<Rightarrow> string \<Rightarrow> string list" where
  "push_suggestion suggestions suggestion =
     (if length suggestions < max_suggestions \<and> suggestion \<notin> set suggestions
      then suggestions @ [suggestion] else suggestions)"

text \<open>\<open>str::lines\<close>: split at line feeds, a carriage return before one removed, no empty last line.\<close>

definition strip_cr :: "string \<Rightarrow> string" where
  "strip_cr l = (if l \<noteq> [] \<and> List.last l = CHR 0x0D then butlast l else l)"

definition str_lines :: "string \<Rightarrow> string list" where
  "str_lines s =
     (let parts = split_char (CHR 0x0A) s;
          rest = List.last parts
      in map strip_cr (butlast parts) @ (if rest = [] then [] else [rest]))"

text \<open>What the markers of the output say.\<close>

record markers =
  mk_metrics :: "(string \<times> string) list"
  mk_warnings :: "string list"
  mk_errors :: "string list"
  mk_unsupported :: "string list"

definition no_markers :: markers where
  "no_markers = \<lparr>mk_metrics = [], mk_warnings = [], mk_errors = [], mk_unsupported = []\<rparr>"

definition read_marker :: "string \<Rightarrow> markers \<Rightarrow> markers" where
  "read_marker line m =
     (case strip_prefix ''__QZ_METRIC__ '' line of
        Some v \<Rightarrow>
          (case split_once (CHR ''='') v of
             Some (key, val) \<Rightarrow>
               if valid_marker_token key \<and> length val \<le> 256
               then m\<lparr>mk_metrics := (key, val) # mk_metrics m\<rparr> else m
           | None \<Rightarrow> m)
      | None \<Rightarrow>
     (case strip_prefix ''__QZ_WARNING__ '' line of
        Some c \<Rightarrow> if known_warning c then m\<lparr>mk_warnings := c # mk_warnings m\<rparr> else m
      | None \<Rightarrow>
     (case strip_prefix ''__QZ_ERROR__ '' line of
        Some c \<Rightarrow> if known_error c then m\<lparr>mk_errors := c # mk_errors m\<rparr> else m
      | None \<Rightarrow>
     (case strip_prefix ''__QZ_UNSUPPORTED__ '' line of
        Some c \<Rightarrow> if valid_marker_token c then m\<lparr>mk_unsupported := c # mk_unsupported m\<rparr> else m
      | None \<Rightarrow> m))))"

definition in_order_set :: "string list \<Rightarrow> string list" where
  "in_order_set xs = sort (remdups xs)"

text \<open>The warnings that follow from the metrics and from the whole output.\<close>

definition derived_warnings :: "result_parser_kind \<Rightarrow> string \<Rightarrow> markers \<Rightarrow> string list" where
  "derived_warnings parser details m =
     (case Option.bind (map_of (mk_metrics m) ''disk_percent'') parse_u8 of
        Some v \<Rightarrow> if 90 \<le> v then [''disk_usage''] else [] | None \<Rightarrow> [])
     @ (if parser = ParseServiceStatus
           \<and> (str_contains details ''ActiveState=failed'' \<or> str_contains details ''ActiveState=inactive'')
        then [''service_failed''] else [])
     @ (if parser = ParseContainerStatus \<and> str_contains (to_ascii_lowercase details) ''unhealthy''
        then [''container_unhealthy''] else [])"

definition udp_inconclusive :: "result_parser_kind \<Rightarrow> string \<Rightarrow> bool" where
  "udp_inconclusive parser details \<longleftrightarrow>
     parser = ParseNetworkProbe
     \<and> list_ex (\<lambda>line. trim_ascii_end (trim_start line) = ''probe=no_response'') (str_lines details)"

definition findings_of ::
  "string list \<Rightarrow> string list \<Rightarrow> string list \<Rightarrow> bool \<Rightarrow> operation_finding list \<times> string list" where
  "findings_of errors warnings unsupported udp =
     (let f1 = foldl (\<lambda>f c. push_finding f LevelError (error_title c) ''the collector reports a failure'')
                 [] errors;
          (f2, s2) = foldl (\<lambda>(f, s) c. case warning_guidance c of (title, detail, suggestion) \<Rightarrow>
                         (push_finding f LevelWarning title detail, push_suggestion s suggestion))
                       (f1, []) warnings;
          (f3, s3) = foldl (\<lambda>(f, s) c.
                         (push_finding f LevelInfo ''a check is not available'' (''missing: '' @ c),
                          push_suggestion s ''install the read-only tool or ask an administrator''))
                       (f2, s2) unsupported
      in if udp
         then (push_finding f3 LevelInfo ''UDP probe without answer'' ''unreachable, or silent by protocol'',
               push_suggestion s3 ''check listener, firewall and a real request'')
         else (f3, s3))"

definition conclusion_of ::
  "string list \<Rightarrow> string list \<Rightarrow> string list \<Rightarrow> bool \<Rightarrow> operation_conclusion \<times> string" where
  "conclusion_of errors warnings unsupported udp =
     (if errors \<noteq> [] then (ConFailed, ''the diagnosis failed'')
      else if udp then (ConUncertain, ''the probe got no answer'')
      else if ''disk_usage'' \<in> set warnings then (ConWarning, ''disk usage is high'')
      else if warnings \<noteq> [] then (ConWarning, ''something needs attention'')
      else if unsupported \<noteq> [] then (ConUncertain, ''some checks are not available'')
      else (ConNormal, ''nothing abnormal found''))"

definition parse_result ::
  "(string \<Rightarrow> string) \<Rightarrow> result_parser_kind \<Rightarrow> string \<Rightarrow> operation_result app_result" where
  "parse_result redact parser raw =
     (let details = truncate_utf8 (redact raw) max_technical_details_bytes;
          m = foldl (\<lambda>m l. read_marker l m) no_markers (str_lines details);
          warnings = in_order_set (derived_warnings parser details m @ mk_warnings m);
          errors = in_order_set (mk_errors m);
          unsupported = in_order_set (mk_unsupported m);
          udp = udp_inconclusive parser details;
          (findings, suggestions) = findings_of errors warnings unsupported udp;
          (status, summary) = conclusion_of errors warnings unsupported udp
      in Inr \<lparr>ores_status = status, ores_summary = summary, ores_findings = findings,
              ores_suggestions = suggestions, ores_technical_details = details\<rparr>)"

text \<open>The derived \<open>Serialize\<close> of a result, as a JSON value.\<close>

fun conclusion_text :: "operation_conclusion \<Rightarrow> string" where
  "conclusion_text ConNormal = ''normal''"
| "conclusion_text ConWarning = ''warning''"
| "conclusion_text ConFailed = ''failed''"
| "conclusion_text ConUncertain = ''uncertain''"

fun level_text :: "finding_level \<Rightarrow> string" where
  "level_text LevelInfo = ''info''"
| "level_text LevelWarning = ''warning''"
| "level_text LevelError = ''error''"

definition finding_json :: "operation_finding \<Rightarrow> json" where
  "finding_json f =
     JObject [(''level'', JString (level_text (fi_level f))), (''title'', JString (fi_title f)),
              (''detail'', JString (fi_detail f))]"

definition result_json :: "operation_result \<Rightarrow> json" where
  "result_json r =
     JObject [(''status'', JString (conclusion_text (ores_status r))),
              (''summary'', JString (ores_summary r)),
              (''findings'', JArray (map finding_json (ores_findings r))),
              (''suggestions'', JArray (map JString (ores_suggestions r))),
              (''technicalDetails'', JString (ores_technical_details r))]"

section \<open>Facts\<close>

lemma parse_result_total: "\<exists>r. parse_result redact parser raw = Inr r"
  by (simp add: parse_result_def Let_def split: prod.split)

lemma parse_result_details:
  "parse_result redact parser raw = Inr r \<Longrightarrow>
     ores_technical_details r = truncate_utf8 (redact raw) max_technical_details_bytes"
  by (auto simp: parse_result_def Let_def split: prod.splits)

text \<open>
  What the text of a JSON value takes at least, as \<open>serde_json\<close> writes it: quotes around a string,
  and every key and value of an object.
\<close>

definition json_text_ok :: "(json \<Rightarrow> string) \<Rightarrow> bool" where
  "json_text_ok encode \<longleftrightarrow>
     (\<forall>s. length s + 2 \<le> length (encode (JString s)))
     \<and> (\<forall>ms. sum_list (map (\<lambda>(k, v). length k + length (encode v)) ms) \<le> length (encode (JObject ms)))"

lemma result_json_size:
  assumes "json_text_ok encode"
  shows "length (ores_technical_details r) + 44 \<le> length (encode (result_json r))"
proof -
  have s: "length s + 2 \<le> length (encode (JString s))" for s
    using assms by (simp add: json_text_ok_def)
  have o: "sum_list (map (\<lambda>(k, v). length k + length (encode v)) ms) \<le> length (encode (JObject ms))"
    for ms using assms by (simp add: json_text_ok_def)
  show ?thesis
    using o [of "[(''status'', JString (conclusion_text (ores_status r))),
        (''summary'', JString (ores_summary r)),
        (''findings'', JArray (map finding_json (ores_findings r))),
        (''suggestions'', JArray (map JString (ores_suggestions r))),
        (''technicalDetails'', JString (ores_technical_details r))]"]
      s [of "ores_technical_details r"]
    unfolding result_json_def by simp
qed

end
