(* ===== verification/Op_Env.thy ===== *)
theory Op_Env
  imports Op_Assets Op_Result
begin

text \<open>
  What the operation services work with: the tables, the answers of everything outside (clock,
  cancel token, connections, remote commands, local files), and a log of what was done on a server.
  Answers are indexed by a tick that every question advances, so the same question can be answered
  differently each time. An entry of the log holds the tables as they were at that moment.
\<close>

section \<open>Answers from outside\<close>

record server_profile =
  sp_id :: string
  sp_name :: string
  sp_host :: string
  sp_port :: nat
  sp_username :: string

record connected_server =
  cs_profile :: server_profile
  cs_capabilities :: system_capabilities

text \<open>A step as \<open>ExecutionService::execute_planned_step_with_cancel\<close> gets it.\<close>

record step_call =
  sl_server_id :: string
  sl_task_id :: string
  sl_task_version :: int
  sl_category :: string
  sl_step :: rendered_task_step
  sl_parameters :: "execution_parameter list"

text \<open>\<open>OperationFileBackup\<close>: a copy in the data directory, and the metadata of the remote file.\<close>

record remote_file_metadata =
  rm_size :: "u64 option"
  rm_uid :: "nat option"
  rm_gid :: "nat option"
  rm_permissions :: "nat option"
  rm_modified_at :: "nat option"

record file_backup =
  fb_transfer :: "(string \<times> string) option"
  fb_metadata :: "remote_file_metadata option"

record stored_restore_asset =
  ra_relative_path :: string
  ra_bytes :: u64
  ra_sha256 :: string

record snapshot_rollback_command =
  sr_command :: string
  sr_verify :: string

record ip_change_recovery_plan =
  ir_target_host :: string
  ir_arm_command :: string
  ir_apply_command :: string
  ir_finalize_command :: string
  ir_inspect_command :: string
  ir_rollback_script_sha256 :: string

record op_env =
  oe_catalog :: "task_definition list"
  oe_data_root :: string
  oe_parse_uuid :: "string \<Rightarrow> uuid option"
  oe_encode :: "json \<Rightarrow> string"
  oe_redact :: "string \<Rightarrow> string"
  oe_default_redact :: "string \<Rightarrow> string"
  oe_sha256 :: "string \<Rightarrow> string"
  oe_ip_plan :: "uuid \<Rightarrow> string \<Rightarrow> string \<Rightarrow> string \<Rightarrow> string \<Rightarrow> u64 \<Rightarrow> ip_change_recovery_plan app_result"
  oe_snapshot_rollback :: "string \<Rightarrow> string \<Rightarrow> snapshot_rollback_command app_result"
  oe_now :: "nat \<Rightarrow> int"
  oe_uuid :: "nat \<Rightarrow> uuid"
  oe_cancelled :: "nat \<Rightarrow> bool"
  oe_server :: "nat \<Rightarrow> string \<Rightarrow> server_profile app_result"
  oe_connect :: "nat \<Rightarrow> string \<Rightarrow> connected_server app_result"
  oe_connect_at :: "nat \<Rightarrow> string \<Rightarrow> string \<Rightarrow> connected_server app_result"
  oe_command :: "nat \<Rightarrow> string \<Rightarrow> command_output app_result"
  oe_step :: "nat \<Rightarrow> step_call \<Rightarrow> execution_event list \<times> execution_details app_result"
  oe_fetch :: "nat \<Rightarrow> string \<Rightarrow> string \<Rightarrow> file_backup app_result"
  oe_store :: "nat \<Rightarrow> string \<Rightarrow> string \<Rightarrow> stored_restore_asset app_result"
  oe_verify_asset :: "nat \<Rightarrow> string \<Rightarrow> string \<Rightarrow> unit app_result"
  oe_read_asset :: "nat \<Rightarrow> string \<Rightarrow> string app_result"
  oe_upload :: "nat \<Rightarrow> string \<Rightarrow> string \<Rightarrow> unit app_result"
  oe_commit_host :: "nat \<Rightarrow> string \<Rightarrow> string \<Rightarrow> unit app_result"

section \<open>State\<close>

datatype op_effect =
    EffStep uuid operation_phase step_call
  | EffCommand string string
  | EffCommandAt string string string
  | EffUpload string string
  | EffCommitHost string string

record op_state =
  ox_db :: op_db
  ox_tick :: nat
  ox_log :: "(op_effect \<times> op_db) list"

definition on_db :: "(op_db, 'a) st \<Rightarrow> (op_state, 'a) st" where
  "on_db m s = (case m (ox_db s) of (r, db) \<Rightarrow> (r, s\<lparr>ox_db := db\<rparr>))"

definition look :: "(op_db \<Rightarrow> 'a) \<Rightarrow> (op_state, 'a) st" where
  "look f s = (Inr (f (ox_db s)), s)"

definition ask :: "(nat \<Rightarrow> 'a) \<Rightarrow> (op_state, 'a) st" where
  "ask f s = (Inr (f (ox_tick s)), s\<lparr>ox_tick := Suc (ox_tick s)\<rparr>)"

definition ask_res :: "(nat \<Rightarrow> 'a app_result) \<Rightarrow> (op_state, 'a) st" where
  "ask_res f s = (f (ox_tick s), s\<lparr>ox_tick := Suc (ox_tick s)\<rparr>)"

definition log_effect :: "op_effect \<Rightarrow> (op_state, unit) st" where
  "log_effect eff s = (Inr (), s\<lparr>ox_log := ox_log s @ [(eff, ox_db s)]\<rparr>)"

text \<open>\<open>match m { Ok(x) => \<dots>, Err(e) => \<dots> }\<close>, and \<open>let _ = m\<close>.\<close>

definition attempt :: "(op_state, 'a) st \<Rightarrow> (op_state, 'a app_result) st" where
  "attempt m s = (case m s of (r, s') \<Rightarrow> (Inr r, s'))"

definition discard :: "(op_state, 'a) st \<Rightarrow> (op_state, unit) st" where
  "discard m s = (Inr (), snd (m s))"

definition from_res :: "'a app_result \<Rightarrow> (op_state, 'a) st" where
  "from_res r s = (r, s)"

section \<open>Repository calls that read the clock\<close>

definition with_now :: "op_env \<Rightarrow> (int \<Rightarrow> (op_db, 'a) st) \<Rightarrow> (op_state, 'a) st" where
  "with_now env m = bind_st (ask (oe_now env)) (\<lambda>now. on_db (m now))"

definition ox_transition :: "op_env \<Rightarrow> uuid \<Rightarrow> operation_status \<Rightarrow> (op_state, unit) st" where
  "ox_transition env run next = with_now env (op_transition run next)"

definition ox_mark_step_running ::
  "op_env \<Rightarrow> uuid \<Rightarrow> operation_phase \<Rightarrow> nat \<Rightarrow> (op_state, unit) st" where
  "ox_mark_step_running env run phase index =
     with_now env (\<lambda>now. op_mark_step_running run phase index now)"

definition ox_skip_pending_steps ::
  "op_env \<Rightarrow> uuid \<Rightarrow> operation_phase \<Rightarrow> nat \<Rightarrow> (op_state, nat) st" where
  "ox_skip_pending_steps env run phase from_index =
     with_now env (\<lambda>now. op_skip_pending_steps run phase from_index now)"

text \<open>\<open>finish_step\<close> of a step without an execution of its own.\<close>

definition ox_finish_step ::
  "op_env \<Rightarrow> uuid \<Rightarrow> operation_phase \<Rightarrow> nat \<Rightarrow> step_status \<Rightarrow> string option \<Rightarrow> string option \<Rightarrow>
   (op_state, unit) st" where
  "ox_finish_step env run phase index status summary message =
     with_now env (\<lambda>now. op_finish_step
       \<lparr>fos_run_id = run, fos_phase = phase, fos_index = index, fos_status = status,
        fos_execution_id = None, fos_output_summary = summary, fos_error_message = message,
        fos_finished_at = now\<rparr>)"

text \<open>\<open>finish_step\<close> with what the execution of the step recorded.\<close>

definition ox_finish_executed ::
  "op_env \<Rightarrow> uuid \<Rightarrow> operation_phase \<Rightarrow> nat \<Rightarrow> step_status \<Rightarrow> execution_record \<Rightarrow>
   (op_state, unit) st" where
  "ox_finish_executed env run phase index status rec =
     with_now env (\<lambda>now. op_finish_step
       \<lparr>fos_run_id = run, fos_phase = phase, fos_index = index, fos_status = status,
        fos_execution_id = Some (er_id rec), fos_output_summary = er_output_summary rec,
        fos_error_message = er_error_message rec,
        fos_finished_at = (case er_finished_at rec of None \<Rightarrow> now | Some t \<Rightarrow> t)\<rparr>)"

definition require_details :: "uuid \<Rightarrow> (op_state, operation_details) st" where
  "require_details run =
     bind_st (look (op_get run))
       (\<lambda>d. from_res (ok_or (Validation ''operation run does not exist'') d))"

section \<open>Remote commands\<close>

definition connect :: "op_env \<Rightarrow> string \<Rightarrow> (op_state, connected_server) st" where
  "connect env server = ask_res (\<lambda>t. oe_connect env t server)"

definition execute_authenticated ::
  "op_env \<Rightarrow> string \<Rightarrow> string \<Rightarrow> (op_state, command_output) st" where
  "execute_authenticated env server command =
     bind_st (log_effect (EffCommand server command)) (\<lambda>_. ask_res (\<lambda>t. oe_command env t command))"

definition execute_checked :: "op_env \<Rightarrow> string \<Rightarrow> string \<Rightarrow> (op_state, unit) st" where
  "execute_checked env server command =
     bind_st (execute_authenticated env server command) (\<lambda>output.
       if co_exit_status output = 0 then ret_st ()
       else fail_st (ssh_command (co_exit_status output) (oe_redact env (co_stderr output))))"

text \<open>\<open>probe_privilege\<close> of a session: the account, then \<open>sudo -n true\<close> if it is not root.\<close>

definition ox_probe_privilege :: "op_env \<Rightarrow> string \<Rightarrow> (op_state, privilege_mode) st" where
  "ox_probe_privilege env server =
     bind_st (execute_authenticated env server privilege_uid_command) (\<lambda>uid_output.
     bind_st (from_res (parse_uid uid_output)) (\<lambda>uid.
       if uid = 0 then ret_st PrivRoot
       else bind_st (execute_authenticated env server passwordless_sudo_probe_command)
              (\<lambda>sudo_output. from_res (evaluate_privilege_probe uid_output (Some sudo_output)))))"

text \<open>One step through the execution service, which records it as an execution.\<close>

definition execute_step ::
  "op_env \<Rightarrow> uuid \<Rightarrow> operation_phase \<Rightarrow> step_call \<Rightarrow>
   (op_state, execution_event list \<times> execution_details app_result) st" where
  "execute_step env run phase call =
     bind_st (log_effect (EffStep run phase call)) (\<lambda>_.
     bind_st (ask (\<lambda>t. oe_step env t call)) (\<lambda>answer.
     bind_st (case snd answer of
         Inl e \<Rightarrow> ret_st ()
       | Inr details \<Rightarrow> on_db (\<lambda>db. (Inr (),
           db\<lparr>odb_executions := er_id (ed_record details) # odb_executions db\<rparr>))) (\<lambda>_.
       ret_st answer)))"

end
