(* ===== verification/Op_Capture.thy ===== *)
theory Op_Capture
  imports Op_Env
begin

text \<open>
  Restore points made and used: \<^verbatim>\<open>src-tauri/src/services/operation_restore_service.rs\<close>. The files of the
  data directory and the transfers to and from a server are answers from outside; so is the command
  that undoes a snapshot (\<open>build_snapshot_rollback_command\<close>).
\<close>

section \<open>Texts\<close>

definition snapshot_rollback_tasks :: "string list" where
  "snapshot_rollback_tasks =
     [''system.hostname_change'', ''system.timezone_change'', ''system.time_sync_change'',
      ''storage.swap_manage'', ''security.file_permissions'', ''service.start'', ''service.stop'',
      ''service.restart'', ''service.boot_policy'', ''container.action'',
      ''security.firewall_open_port'', ''network.ip_change'']"

definition is_snapshot_rollback_task :: "string \<Rightarrow> bool" where
  "is_snapshot_rollback_task task_id \<longleftrightarrow> task_id \<in> set snapshot_rollback_tasks"

fun is_connection_uncertain :: "app_error \<Rightarrow> bool" where
  "is_connection_uncertain (RemoteStateUncertain _) = True"
| "is_connection_uncertain (Ssh _) = True"
| "is_connection_uncertain (Io _) = True"
| "is_connection_uncertain (Transfer _) = True"
| "is_connection_uncertain _ = False"

definition privileged_backup_command ::
  "backup_item_kind \<Rightarrow> string \<Rightarrow> privilege_mode \<Rightarrow> string option app_result" where
  "privileged_backup_command kind target mode =
     (if kind \<in> {CommandSnapshot, RuntimeState} then map_res Some (elevate_fixed_command target mode)
      else Inr None)"

definition cron_target :: string where
  "cron_target = ''/etc/cron.d/qingzhou-managed''"

definition opt_json :: "nat option \<Rightarrow> json" where
  "opt_json v = (case v of None \<Rightarrow> JNull | Some n \<Rightarrow> JInt (int n))"

definition file_metadata_json :: "remote_file_metadata \<Rightarrow> json" where
  "file_metadata_json m =
     JObject [(''originalExisted'', JBool True),
              (''size'', opt_json (map_option unat (rm_size m))),
              (''uid'', opt_json (rm_uid m)), (''gid'', opt_json (rm_gid m)),
              (''permissions'', opt_json (rm_permissions m)),
              (''modifiedAt'', opt_json (rm_modified_at m))]"

definition missing_file_json :: json where
  "missing_file_json = JObject [(''originalExisted'', JBool False)]"

definition snapshot_json :: "int \<Rightarrow> u64 \<Rightarrow> json" where
  "snapshot_json exit_status n =
     JObject [(''originalExisted'', JBool True), (''exitStatus'', JInt exit_status),
              (''bytes'', JInt (uint n))]"

definition newline :: string where
  "newline = [CHR 0x0A]"

definition snapshot_text :: "op_env \<Rightarrow> command_output \<Rightarrow> string" where
  "snapshot_text env output =
     ''stdout:'' @ newline @ oe_redact env (co_stdout output) @ newline
       @ ''stderr:'' @ newline @ oe_redact env (co_stderr output)"

section \<open>Capture\<close>

text \<open>What one item saves: the path and hash of its asset, and the metadata.\<close>

type_synonym captured = "string option \<times> string option \<times> json"

definition capture_file ::
  "op_env \<Rightarrow> string \<Rightarrow> backup_item_kind \<Rightarrow> string \<Rightarrow> string \<Rightarrow> (op_state, captured) st" where
  "capture_file env task_id kind target relative =
     (if kind = ManagedBlock \<and> (task_id \<noteq> ''service.cron_manage'' \<or> target \<noteq> cron_target)
      then fail_st (Security ''invalid restore target of the managed cron block'')
      else bind_st (ask_res (\<lambda>t. oe_fetch env t target relative)) (\<lambda>backup.
        case fb_transfer backup of
          None \<Rightarrow> ret_st (None, None, missing_file_json)
        | Some (location, sha256) \<Rightarrow>
            (case fb_metadata backup of
               None \<Rightarrow> fail_st (Integrity ''backup without owner or mode'')
             | Some m \<Rightarrow>
                 if rm_uid m = None \<or> rm_gid m = None \<or> rm_permissions m = None
                 then fail_st (Integrity ''backup without owner or mode'')
                 else ret_st (Some location, Some sha256, file_metadata_json m))))"

definition capture_snapshot ::
  "op_env \<Rightarrow> string \<Rightarrow> string \<Rightarrow> backup_item_kind \<Rightarrow> string \<Rightarrow> string \<Rightarrow> privilege_mode \<Rightarrow>
   (op_state, captured) st" where
  "capture_snapshot env server task_id kind target relative mode =
     bind_st (from_res (privileged_backup_command kind target mode)) (\<lambda>command.
     bind_st (from_res (ok_or (Validation ''the snapshot has no command'') command)) (\<lambda>command.
     bind_st (execute_authenticated env server command) (\<lambda>output.
       if co_exit_status output \<noteq> 0
       then fail_st (ssh_command (co_exit_status output) (oe_redact env (co_stderr output)))
       else
         let snapshot = snapshot_text env output in
         bind_st (if is_snapshot_rollback_task task_id
                  then bind_st (from_res (oe_snapshot_rollback env task_id snapshot)) (\<lambda>_. ret_st ())
                  else ret_st ()) (\<lambda>_.
         bind_st (ask_res (\<lambda>t. oe_store env t relative snapshot)) (\<lambda>asset.
           ret_st (Some (ra_relative_path asset), Some (ra_sha256 asset),
                   snapshot_json (co_exit_status output) (ra_bytes asset)))))))"

definition capture_item ::
  "op_env \<Rightarrow> uuid \<Rightarrow> uuid \<Rightarrow> string \<Rightarrow> string \<Rightarrow> string \<Rightarrow> validated_parameters \<Rightarrow> privilege_mode \<Rightarrow>
   nat \<Rightarrow> backup_item_definition \<Rightarrow> (op_state, unit) st" where
  "capture_item env point run server task_id implementation_id parameters mode ordinal item =
     bind_st (ask (oe_cancelled env)) (\<lambda>cancelled.
       if cancelled then fail_st Cancelled
       else
     bind_st (from_res (render_backup_target (oe_encode env) (bi_target_template item)
                implementation_id parameters)) (\<lambda>target.
     bind_st (from_res (task_restore_item_relative_path (oe_parse_uuid env) (oe_sha256 env)
                run ordinal target)) (\<lambda>relative.
     bind_st (if bi_kind item \<in> {RemoteFile, ManagedBlock}
              then capture_file env task_id (bi_kind item) target relative
              else capture_snapshot env server task_id (bi_kind item) target relative mode)
       (\<lambda>(path, sha256, metadata).
     bind_st (ask (oe_uuid env)) (\<lambda>i.
     bind_st (on_db (rs_add_item (oe_encode env)
         \<lparr>nori_point_id = point, nori_ordinal = ordinal, nori_kind = bi_kind item,
          nori_remote_target = target, nori_local_relative_path = path, nori_sha256 = sha256,
          nori_original_metadata = metadata, nori_status = RiAvailable,
          nori_error_summary = None\<rparr> i)) (\<lambda>_. ret_st ()))))))"

fun capture_connected ::
  "op_env \<Rightarrow> uuid \<Rightarrow> uuid \<Rightarrow> string \<Rightarrow> string \<Rightarrow> string \<Rightarrow> validated_parameters \<Rightarrow> privilege_mode \<Rightarrow>
   nat \<Rightarrow> backup_plan \<Rightarrow> (op_state, unit) st" where
  "capture_connected env point run server task_id impl parameters mode ordinal [] = ret_st ()"
| "capture_connected env point run server task_id impl parameters mode ordinal (item # items) =
     bind_st (capture_item env point run server task_id impl parameters mode ordinal item) (\<lambda>_.
       capture_connected env point run server task_id impl parameters mode (Suc ordinal) items)"

text \<open>\<open>m\<close>, and on an error the point is marked failed; if that fails too, its error is returned.\<close>

definition or_creation_failed ::
  "op_env \<Rightarrow> uuid \<Rightarrow> (op_state, 'a) st \<Rightarrow> (op_state, 'a) st" where
  "or_creation_failed env point m =
     bind_st (attempt m) (\<lambda>r. case r of
         Inr x \<Rightarrow> ret_st x
       | Inl e \<Rightarrow> bind_st (with_now env (rs_mark_creation_failed point)) (\<lambda>_. fail_st e))"

text \<open>The same, but an error of the marking is ignored.\<close>

definition or_try_creation_failed ::
  "op_env \<Rightarrow> uuid \<Rightarrow> (op_state, 'a) st \<Rightarrow> (op_state, 'a) st" where
  "or_try_creation_failed env point m =
     bind_st (attempt m) (\<lambda>r. case r of
         Inr x \<Rightarrow> ret_st x
       | Inl e \<Rightarrow> bind_st (discard (with_now env (rs_mark_creation_failed point))) (\<lambda>_. fail_st e))"

definition rs_require :: "uuid \<Rightarrow> app_error \<Rightarrow> (op_state, op_restore_details) st" where
  "rs_require point e = bind_st (look (rs_get point)) (\<lambda>d. from_res (ok_or e d))"

definition capture ::
  "op_env \<Rightarrow> uuid \<Rightarrow> string \<Rightarrow> string \<Rightarrow> string \<Rightarrow> backup_plan \<Rightarrow> validated_parameters \<Rightarrow>
   (op_state, op_restore_details) st" where
  "capture env run server task_id implementation_id backup_plan parameters =
     (if backup_plan = [] then fail_st (Validation ''the dangerous task has no restore item'')
      else
     bind_st (ask (oe_uuid env)) (\<lambda>i.
     bind_st (with_now env (rs_create
         \<lparr>norp_run_id = run, norp_server_id = server, norp_task_id = task_id,
          norp_local_relative_dir = task_restore_dir run, norp_remote_asset_id = None,
          norp_expires_at = None\<rparr> i)) (\<lambda>creating.
     let point = orp_id creating in
     bind_st (or_creation_failed env point (bind_st (ask (oe_cancelled env)) (\<lambda>cancelled.
         if cancelled then fail_st Cancelled else ret_st ()))) (\<lambda>_.
     bind_st (or_creation_failed env point (connect env server)) (\<lambda>_.
     bind_st (or_creation_failed env point (ox_probe_privilege env server)) (\<lambda>mode.
     bind_st (or_try_creation_failed env point
         (capture_connected env point run server task_id implementation_id parameters mode 0
            backup_plan)) (\<lambda>_.
     bind_st (or_try_creation_failed env point (with_now env (rs_mark_available point))) (\<lambda>_.
       rs_require point (Database ''row not found'')))))))))"

section \<open>Rollback of one item\<close>

definition read_verified_asset :: "op_env \<Rightarrow> op_restore_item \<Rightarrow> (op_state, string) st" where
  "read_verified_asset env item =
     bind_st (from_res (ok_or (Integrity ''restore item without a local asset'')
                (ori_local_relative_path item))) (\<lambda>relative.
     bind_st (from_res (ok_or (Integrity ''restore item without SHA-256'') (ori_sha256 item)))
       (\<lambda>expected.
     bind_st (from_res (resolve_task_restore_path (oe_parse_uuid env) (oe_data_root env) relative))
       (\<lambda>path.
     bind_st (ask_res (\<lambda>t. oe_verify_asset env t path expected)) (\<lambda>_.
     bind_st (ask_res (\<lambda>t. oe_read_asset env t path)) (\<lambda>contents.
       if 1024 * 1024 < length contents
       then fail_st (Integrity ''snapshot above the limit of 1 MiB'')
       else ret_st contents)))))"

definition metadata_u64 :: "op_restore_item \<Rightarrow> string \<Rightarrow> nat option" where
  "metadata_u64 item key = Option.bind (json_get (ori_original_metadata item) key) json_as_u64"

definition metadata_bool :: "op_restore_item \<Rightarrow> string \<Rightarrow> bool option" where
  "metadata_bool item key = Option.bind (json_get (ori_original_metadata item) key) json_as_bool"

text \<open>\<open>{:o}\<close>\<close>

fun octal :: "nat \<Rightarrow> string" where
  "octal n = (if n < 8 then [char_of (48 + n)] else octal (n div 8) @ [char_of (48 + n mod 8)])"

declare octal.simps [simp del]

definition quote :: string where
  "quote = [CHR 0x22]"

definition remove_command :: "string \<Rightarrow> string" where
  "remove_command target =
     ''if test -L '' @ target @ ''; then exit 65; fi; rm -f -- '' @ target @ ''; test ! -e '' @ target"

definition replace_command :: "string \<Rightarrow> string \<Rightarrow> string \<Rightarrow> nat \<Rightarrow> nat \<Rightarrow> nat \<Rightarrow> string" where
  "replace_command target staging target_temp uid gid permissions =
     (let tmp = quote @ ''$tmp'' @ quote; none = shell_quote [] in
      ''tmp='' @ none @ ''; cleanup() { test -z '' @ tmp @ '' || rm -f -- '' @ tmp @ ''; rm -f -- ''
      @ staging @ ''; }; trap cleanup EXIT HUP INT TERM; test ! -L '' @ target
      @ '' && tmp=$(mktemp '' @ target_temp @ '') && cat -- '' @ staging @ '' > '' @ tmp
      @ '' && chown -- '' @ decimal uid @ '':'' @ decimal gid @ '' '' @ tmp
      @ '' && chmod -- '' @ octal permissions @ '' '' @ tmp @ '' && mv -f -- '' @ tmp @ '' '' @ target
      @ '' && tmp='' @ none
      @ ''; result=$?; cleanup; trap - EXIT HUP INT TERM; exit $result'')"

definition verify_hash_command :: "string \<Rightarrow> string \<Rightarrow> string" where
  "verify_hash_command target expected =
     ''test ! -L '' @ target @ '' && set -- $(sha256sum -- '' @ target @ '') && test ''
     @ quote @ ''$1'' @ quote @ '' = '' @ shell_quote expected"

definition restore_remote_file ::
  "op_env \<Rightarrow> string \<Rightarrow> op_restore_item \<Rightarrow> privilege_mode \<Rightarrow> (op_state, unit) st" where
  "restore_remote_file env server item mode =
     bind_st (from_res (validate_remote_path (ori_remote_target item))) (\<lambda>_.
     let target = shell_quote (ori_remote_target item);
         run = (\<lambda>command. bind_st (from_res (elevate_fixed_command command mode))
                  (execute_checked env server)) in
     bind_st (from_res (ok_or (Integrity ''restore item without the state of its file'')
                (metadata_bool item ''originalExisted''))) (\<lambda>existed.
       if \<not> existed then run (remove_command target)
       else
     bind_st (from_res (ok_or (Integrity ''restore item without a local asset'')
                (ori_local_relative_path item))) (\<lambda>relative.
     bind_st (from_res (ok_or (Integrity ''restore item without SHA-256'') (ori_sha256 item)))
       (\<lambda>expected.
     bind_st (from_res (resolve_task_restore_path (oe_parse_uuid env) (oe_data_root env) relative))
       (\<lambda>path.
     bind_st (ask_res (\<lambda>t. oe_verify_asset env t path expected)) (\<lambda>_.
     bind_st (from_res (ok_or (Integrity ''restore item without UID'') (metadata_u64 item ''uid''))) (\<lambda>uid.
     bind_st (from_res (ok_or (Integrity ''restore item without GID'') (metadata_u64 item ''gid''))) (\<lambda>gid.
     bind_st (from_res (ok_or (Integrity ''restore item without permissions'')
                (metadata_u64 item ''permissions''))) (\<lambda>permissions.
       if 2 ^ 32 \<le> uid \<or> 2 ^ 32 \<le> gid then fail_st (Integrity ''owner out of range'')
       else
     bind_st (ask (oe_uuid env)) (\<lambda>fresh.
     let staging = ''/tmp/.qingzhou-restore-'' @ uuid_text fresh in
     bind_st (log_effect (EffUpload server staging)) (\<lambda>_.
     bind_st (ask_res (\<lambda>t. oe_upload env t path staging)) (\<lambda>_.
     bind_st (attempt (run (replace_command target (shell_quote staging)
         (shell_quote (ori_remote_target item @ ''.qingzhou.XXXXXX'')) uid gid
         (permissions mod 4096)))) (\<lambda>result.
       case result of
         Inl e \<Rightarrow> bind_st (discard (execute_authenticated env server
                    (''rm -f -- '' @ shell_quote staging))) (\<lambda>_. fail_st e)
       | Inr _ \<Rightarrow> run (verify_hash_command target expected))))))))))))))"

definition rollback_item ::
  "op_env \<Rightarrow> string \<Rightarrow> string \<Rightarrow> op_restore_item \<Rightarrow> privilege_mode \<Rightarrow> (op_state, unit) st" where
  "rollback_item env server task_id item mode =
     (if ori_kind item \<in> {CommandSnapshot, RuntimeState} then
        bind_st (read_verified_asset env item) (\<lambda>snapshot.
        bind_st (from_res (oe_snapshot_rollback env task_id snapshot)) (\<lambda>rollback.
        bind_st (from_res (elevate_fixed_command (sr_command rollback) mode)) (\<lambda>command.
        bind_st (execute_checked env server command) (\<lambda>_.
        bind_st (from_res (elevate_fixed_command (sr_verify rollback) mode))
          (execute_checked env server)))))
      else if ori_kind item = ManagedBlock
        \<and> (task_id \<noteq> ''service.cron_manage'' \<or> ori_remote_target item \<noteq> cron_target)
      then fail_st (Security ''invalid restore target of the managed cron block'')
      else restore_remote_file env server item mode)"

section \<open>Rollback\<close>

text \<open>How many items were restored, the failures, and the message of a lost connection.\<close>

type_synonym rollback_tally = "nat \<times> string list \<times> string option"

text \<open>\<open>rollback\<close> is only called with a fresh token, which nobody cancels.\<close>

fun rollback_items ::
  "op_env \<Rightarrow> string \<Rightarrow> string \<Rightarrow> privilege_mode \<Rightarrow> op_restore_item list \<Rightarrow> rollback_tally \<Rightarrow>
   (op_state, rollback_tally) st" where
  "rollback_items env server task_id mode [] tally = ret_st tally"
| "rollback_items env server task_id mode (item # items) (succeeded, failures, uncertain) =
     (if ori_status item \<in> {RiRolledBack, RiSkipped}
      then rollback_items env server task_id mode items (succeeded, failures, uncertain)
      else
     bind_st (on_db (rs_mark_item_rolling_back (ori_id item))) (\<lambda>_.
     bind_st (attempt (rollback_item env server task_id item mode)) (\<lambda>r.
       case r of
         Inr _ \<Rightarrow>
           bind_st (on_db (rs_finish_item_rollback (ori_id item) RiRolledBack None)) (\<lambda>_.
             rollback_items env server task_id mode items (Suc succeeded, failures, uncertain))
       | Inl e \<Rightarrow>
           bind_st (on_db (rs_finish_item_rollback (ori_id item) RiFailed (Some (display e)))) (\<lambda>_.
             let failures' = failures @ [decimal (ori_ordinal item) @ '':'' @ display e] in
             if is_connection_uncertain e then ret_st (succeeded, failures', Some (display e))
             else rollback_items env server task_id mode items
                    (succeeded, failures', uncertain)))))"

definition rollback_status :: "rollback_tally \<Rightarrow> restore_point_status" where
  "rollback_status tally =
     (case tally of (succeeded, failures, _) \<Rightarrow>
        if failures = [] then RpRolledBack else if succeeded = 0 then RpFailed else RpPartial)"

text \<open>\<open>m\<close>, and on an error the rollback ends as failed.\<close>

definition or_rollback_failed :: "op_env \<Rightarrow> uuid \<Rightarrow> (op_state, 'a) st \<Rightarrow> (op_state, 'a) st" where
  "or_rollback_failed env point m =
     bind_st (attempt m) (\<lambda>r. case r of
         Inr x \<Rightarrow> ret_st x
       | Inl e \<Rightarrow> bind_st (with_now env (rs_finish_rollback point RpFailed)) (\<lambda>_. fail_st e))"

definition rollback :: "op_env \<Rightarrow> uuid \<Rightarrow> (op_state, op_restore_details) st" where
  "rollback env point =
     bind_st (rs_require point (Validation ''restore point does not exist'')) (\<lambda>details.
     bind_st (with_now env (rs_begin_rollback point)) (\<lambda>_.
     let server = orp_server_id (rd_point details) in
     bind_st (or_rollback_failed env point (connect env server)) (\<lambda>_.
     bind_st (or_rollback_failed env point (ox_probe_privilege env server)) (\<lambda>mode.
     bind_st (rollback_items env server (orp_task_id (rd_point details)) mode
         (rev (rd_items details)) (0, [], None)) (\<lambda>tally.
     bind_st (with_now env (rs_finish_rollback point (rollback_status tally))) (\<lambda>_.
       case snd (snd tally) of
         Some message \<Rightarrow> fail_st (RemoteStateUncertain (''connection lost during the rollback: '' @ message))
       | None \<Rightarrow> rs_require point (Database ''row not found'')))))))"

section \<open>Observed rollbacks and remote assets\<close>

definition mark_remote_rollback_observed :: "op_env \<Rightarrow> uuid \<Rightarrow> (op_state, unit) st" where
  "mark_remote_rollback_observed env run =
     bind_st (look (rs_list_by_run run)) (\<lambda>points.
     bind_st (from_res (ok_or (Integrity ''no available restore point for the remote rollback'')
         (List.find (\<lambda>d. orp_status (rd_point d) = RpAvailable) points))) (\<lambda>d.
       with_now env (rs_mark_remote_rollback_observed (orp_id (rd_point d)))))"

definition attach_remote_asset :: "op_env \<Rightarrow> uuid \<Rightarrow> string \<Rightarrow> int \<Rightarrow> (op_state, unit) st" where
  "attach_remote_asset env point asset expires_at =
     with_now env (rs_attach_remote_asset point asset expires_at)"

end
