(* ===== verification/Op_Service.thy ===== *)
theory Op_Service
  imports Op_Capture
begin

text \<open>
  Operations from the preview to the end: \<^verbatim>\<open>src-tauri/src/services/operation_service.rs\<close>, and the state
  of an address change read back in \<^verbatim>\<open>src-tauri/src/services/remote_recovery_service.rs\<close>.
\<close>

section \<open>Requests and helpers\<close>

record op_preflight_request =
  opr_task_id :: string
  opr_task_version :: int
  opr_parameters :: json

record op_start_request =
  osr_task_id :: string
  osr_task_version :: int
  osr_parameters :: json
  osr_confirmed_preview_id :: "uuid option"

definition resolve_definition :: "op_env \<Rightarrow> string \<Rightarrow> int \<Rightarrow> task_definition app_result" where
  "resolve_definition env task_id requested_version =
     (case List.find (\<lambda>d. td_id d = task_id) (oe_catalog env) of
        None \<Rightarrow> Inl (Validation ''operation task does not exist'')
      | Some task \<Rightarrow>
          if \<not> task_version_is_compatible task requested_version
          then Inl (Validation ''version of the operation task does not exist'') else Inr task)"

definition require_dangerous_preview :: "task_definition \<Rightarrow> uuid option \<Rightarrow> unit app_result" where
  "require_dangerous_preview task preview =
     (if td_risk_level task = Dangerous \<and> preview = None
      then Inl (Validation ''a dangerous task needs a confirmed preview'') else Inr ())"

fun statuses_for_execution :: "execution_status \<Rightarrow> step_status \<times> operation_status option" where
  "statuses_for_execution ESucceeded = (StSucceeded, None)"
| "statuses_for_execution ECancelled = (StCancelled, Some OpCancelled)"
| "statuses_for_execution EUncertain = (StUncertain, Some OpUncertain)"
| "statuses_for_execution _ = (StFailed, Some OpFailed)"

fun operation_status_for_error :: "app_error \<Rightarrow> operation_status" where
  "operation_status_for_error Cancelled = OpCancelled"
| "operation_status_for_error (RemoteStateUncertain _) = OpUncertain"
| "operation_status_for_error (Ssh _) = OpUncertain"
| "operation_status_for_error (Io _) = OpUncertain"
| "operation_status_for_error (Transfer _) = OpUncertain"
| "operation_status_for_error _ = OpFailed"

definition parser_warning_result :: "string \<Rightarrow> app_error \<Rightarrow> operation_result" where
  "parser_warning_result summary e =
     \<lparr>ores_status = ConWarning, ores_summary = summary, ores_findings = [],
      ores_suggestions = [''finished, but the result could not be structured''],
      ores_technical_details = display e\<rparr>"

definition elevate_steps ::
  "rendered_task_step list \<Rightarrow> privilege_mode \<Rightarrow> rendered_task_step list app_result" where
  "elevate_steps steps mode =
     collect_res (\<lambda>step. map_res (\<lambda>command. step\<lparr>rs_command := command\<rparr>)
       (elevate_fixed_command (rs_command step) mode)) steps"

definition missing_network_parameter :: "string \<Rightarrow> app_error" where
  "missing_network_parameter name = Validation (''missing protected network parameter: '' @ name)"

definition required_parameter_str :: "validated_parameters \<Rightarrow> string \<Rightarrow> string app_result" where
  "required_parameter_str parameters name =
     ok_or (missing_network_parameter name)
       (Option.bind (params_get parameters name) (\<lambda>p. json_as_str (vp_value p)))"

definition required_parameter_u64 :: "validated_parameters \<Rightarrow> string \<Rightarrow> u64 app_result" where
  "required_parameter_u64 parameters name =
     ok_or (missing_network_parameter name)
       (Option.bind (params_get parameters name)
         (\<lambda>p. map_option of_nat (json_as_u64 (vp_value p))))"

text \<open>\<open>str::split\<close> on a text of two characters.\<close>

fun split_two :: "char \<Rightarrow> char \<Rightarrow> string \<Rightarrow> string \<Rightarrow> string list" where
  "split_two a b cur [] = [cur]"
| "split_two a b cur [c] = [cur @ [c]]"
| "split_two a b cur (c # d # cs) =
     (if c = a \<and> d = b then cur # split_two a b [] cs else split_two a b (cur @ [c]) (d # cs))"

definition network_fields :: "string list" where
  "network_fields = [''interface'', ''cidr'', ''gateway'', ''rollbackSeconds'']"

fun parse_summary_items ::
  "string list \<Rightarrow> (string \<times> json) list \<Rightarrow> (string \<times> json) list app_result" where
  "parse_summary_items [] object = Inr object"
| "parse_summary_items (item # items) object =
     bind_res (ok_or (Integrity ''invalid format of the address summary'') (split_once (CHR ''='') item))
       (\<lambda>(name, v).
       if name \<notin> set network_fields \<or> name \<in> fst ` set object
       then Inl (Integrity ''unknown or repeated field in the address summary'')
       else bind_res (if name = ''rollbackSeconds''
                      then map_res (\<lambda>n. JInt (int n)) (ok_or (Integrity ''invalid waiting time'')
                             (parse_unsigned (2 ^ 64) v))
                      else Inr (JString v))
              (\<lambda>j. parse_summary_items items (btree_insert name j object)))"

definition parse_network_parameter_summary :: "string \<Rightarrow> json app_result" where
  "parse_network_parameter_summary summary =
     bind_res (parse_summary_items (split_two (CHR '','') (CHR '' '') [] summary) []) (\<lambda>object.
       if length object \<noteq> 4 then Inl (Integrity ''incomplete address summary'')
       else Inr (JObject object))"

fun execution_history_category :: "task_category \<Rightarrow> string" where
  "execution_history_category CatSystem = ''system''"
| "execution_history_category CatService = ''service''"
| "execution_history_category CatLogs = ''logs''"
| "execution_history_category _ = ''advanced''"

definition display_value :: "op_env \<Rightarrow> validated_parameter \<Rightarrow> string" where
  "display_value env p =
     (if vp_sensitive p then ''[REDACTED]''
      else case json_as_str (vp_value p) of Some s \<Rightarrow> s | None \<Rightarrow> oe_encode env (vp_value p))"

definition parameter_summary :: "op_env \<Rightarrow> validated_parameters \<Rightarrow> string option" where
  "parameter_summary env parameters =
     (let summary = join_with '', '' (map (\<lambda>(name, p). name @ ''='' @ display_value env p) parameters)
      in if summary = [] then None else Some summary)"

definition history_parameters :: "op_env \<Rightarrow> validated_parameters \<Rightarrow> execution_parameter list" where
  "history_parameters env parameters =
     map (\<lambda>(name, p). \<lparr>ep_name = name, ep_display_value = display_value env p,
                       ep_sensitive = vp_sensitive p\<rparr>) parameters"

subsection \<open>The captured output\<close>

definition max_captured_operation_output :: nat where
  "max_captured_operation_output = 1024 * 1024"

definition append_output :: "string \<Rightarrow> string \<Rightarrow> string" where
  "append_output output more_text =
     (if max_captured_operation_output \<le> length output then output
      else let remaining = max_captured_operation_output - length output
           in if length more_text \<le> remaining then output @ more_text
              else output @ take (floor_boundary more_text remaining) more_text)"

definition sink_send :: "string \<Rightarrow> execution_event \<Rightarrow> string" where
  "sink_send output event =
     (case ev_payload event of
        Stdout t _ \<Rightarrow> append_output output t
      | Stderr t _ \<Rightarrow> append_output output t
      | _ \<Rightarrow> output)"

subsection \<open>The summary of a read-only preview\<close>

definition trim_text :: "string \<Rightarrow> string" where
  "trim_text s = trim_ascii_end (trim_start s)"

definition append_capped_summary :: "string \<Rightarrow> string \<Rightarrow> nat \<Rightarrow> string" where
  "append_capped_summary summary v limit =
     (if limit \<le> length summary then summary
      else let summary = (if summary = [] then [] else summary @ newline);
               remaining = limit - length summary
           in if length v \<le> remaining then summary @ trim_text v
              else summary @ trim_text (take (floor_boundary v remaining) v))"

section \<open>Preview\<close>

record op_disconnect_risk =
  dr_may_disconnect :: bool
  dr_explanation :: "string option"
  dr_automatic_recovery_seconds :: "nat option"

record op_preview =
  ov_preview_id :: uuid
  ov_server_id :: string
  ov_task_id :: string
  ov_task_version :: int
  ov_implementation_id :: string
  ov_risk_level :: risk_level
  ov_privilege :: privilege_requirement
  ov_scope :: execution_scope
  ov_status :: operation_status
  ov_step_titles :: "string list"
  ov_estimated_seconds :: u32
  ov_confirmation_token :: "uuid option"
  ov_server :: server_profile
  ov_permission_summary :: string
  ov_current_state_summary :: string
  ov_target_state_summary :: string
  ov_backup_summary :: "string list"
  ov_disconnect_risk :: op_disconnect_risk

definition permission_summary :: "privilege_requirement \<Rightarrow> privilege_mode option \<Rightarrow> string" where
  "permission_summary requirement mode =
     (case requirement of
        CurrentUser \<Rightarrow> ''uses the rights of the SSH user''
      | RootOrPasswordlessSudo \<Rightarrow>
          (case mode of
             Some PrivRoot \<Rightarrow> ''the account is root''
           | Some PasswordlessSudo \<Rightarrow> ''the server has passwordless sudo''
           | None \<Rightarrow> ''root or passwordless sudo must be confirmed first''))"

definition disconnect_risk :: "task_definition \<Rightarrow> validated_parameters \<Rightarrow> op_disconnect_risk" where
  "disconnect_risk task parameters =
     (if td_id task = ''network.ip_change''
      then \<lparr>dr_may_disconnect = True, dr_explanation = Some ''the connection may break'',
            dr_automatic_recovery_seconds = Option.bind (params_get parameters ''rollbackSeconds'')
              (\<lambda>p. json_as_u64 (vp_value p))\<rparr>
      else \<lparr>dr_may_disconnect = False, dr_explanation = None, dr_automatic_recovery_seconds = None\<rparr>)"

definition removes_ssh_port :: "task_definition \<Rightarrow> validated_parameters \<Rightarrow> server_profile \<Rightarrow> bool" where
  "removes_ssh_port task parameters server \<longleftrightarrow>
     td_id task = ''security.firewall_open_port''
     \<and> string_value parameters ''action'' = Some ''remove''
     \<and> string_value parameters ''protocol'' = Some ''tcp''
     \<and> Option.bind (params_get parameters ''port'') (\<lambda>p. json_as_u64 (vp_value p))
         = Some (sp_port server)"

definition begin_preflight ::
  "op_env \<Rightarrow> string \<Rightarrow> op_preflight_request \<Rightarrow> (op_state, task_definition \<times> operation_run) st" where
  "begin_preflight env server_id request =
     bind_st (from_res (resolve_definition env (opr_task_id request) (opr_task_version request)))
       (\<lambda>task.
     bind_st (from_res (validate_parameters (oe_parse_uuid env) task (opr_parameters request)))
       (\<lambda>validated.
     bind_st (ask_res (\<lambda>t. oe_server env t server_id)) (\<lambda>server.
       if removes_ssh_port task validated server
       then fail_st (Validation ''the rule of the SSH port in use cannot be removed'')
       else
     bind_st (ask (oe_uuid env)) (\<lambda>i.
     bind_st (with_now env (op_create
         \<lparr>nor_server_id = server_id, nor_task_id = td_id task, nor_task_version = td_version task,
          nor_risk_level = td_risk_level task,
          nor_parameters_summary = parameter_summary env validated\<rparr> i)) (\<lambda>run.
     bind_st (ox_transition env (or_id run) OpPreflighting) (\<lambda>_.
       ret_st (task, run)))))))"

definition mark_preflight_failed :: "op_env \<Rightarrow> uuid \<Rightarrow> (op_state, unit) st" where
  "mark_preflight_failed env run = discard (ox_transition env run OpFailed)"

definition or_preflight_failed :: "op_env \<Rightarrow> uuid \<Rightarrow> (op_state, 'a) st \<Rightarrow> (op_state, 'a) st" where
  "or_preflight_failed env run m =
     bind_st (attempt m) (\<lambda>r. case r of
         Inr x \<Rightarrow> ret_st x
       | Inl e \<Rightarrow> bind_st (mark_preflight_failed env run) (\<lambda>_. fail_st e))"

fun create_phase_steps ::
  "uuid \<Rightarrow> operation_phase \<Rightarrow> nat \<Rightarrow> (string \<times> string) list \<Rightarrow> (op_state, unit) st" where
  "create_phase_steps run phase index [] = ret_st ()"
| "create_phase_steps run phase index ((step_id, title) # steps) =
     bind_st (on_db (op_create_step
         \<lparr>nos_run_id = run, nos_phase = phase, nos_index = index, nos_step_id = step_id,
          nos_title = title\<rparr>)) (\<lambda>_.
       create_phase_steps run phase (Suc index) steps)"

definition step_labels :: "rendered_task_step list \<Rightarrow> (string \<times> string) list" where
  "step_labels = map (\<lambda>s. (rs_id s, rs_title s))"

definition create_steps :: "uuid \<Rightarrow> planned_task \<Rightarrow> (op_state, unit) st" where
  "create_steps run plan =
     bind_st (create_phase_steps run PhPreflight 0 (step_labels (pt_preflight_steps plan))) (\<lambda>_.
     bind_st (case pt_backup_plan plan of
         None \<Rightarrow> ret_st ()
       | Some items \<Rightarrow> create_phase_steps run PhBackup 0
           (map (\<lambda>i. (bi_id i, ''create restore item: '' @ bi_id i)) items)) (\<lambda>_.
     bind_st (create_phase_steps run PhExecute 0 (step_labels (pt_execution_steps plan))) (\<lambda>_.
     bind_st (create_phase_steps run PhVerify 0 (step_labels (pt_verify_steps plan))) (\<lambda>_.
       case pt_rollback_plan plan of
         None \<Rightarrow> ret_st ()
       | Some r \<Rightarrow> create_phase_steps run PhRollback 0
           (map (\<lambda>s. (ts_id s, ts_title s)) (rb_steps r))))))"

definition complete_preflight ::
  "op_env \<Rightarrow> operation_run \<Rightarrow> task_definition \<Rightarrow> json \<Rightarrow> system_capabilities \<Rightarrow> server_profile \<Rightarrow>
   string \<Rightarrow> string \<Rightarrow> (op_state, op_preview) st" where
  "complete_preflight env run task parameters capabilities server permission current_state =
     bind_st (or_preflight_failed env (or_id run)
         (from_res (plan_task (oe_parse_uuid env) task capabilities parameters))) (\<lambda>plan.
     bind_st (or_preflight_failed env (or_id run) (create_steps (or_id run) plan)) (\<lambda>_.
     bind_st (ox_transition env (or_id run) OpPreviewReady) (\<lambda>_.
     let summary = public_summary plan in
     ret_st
       \<lparr>ov_preview_id = or_id run, ov_server_id = or_server_id run,
        ov_task_id = pp_definition_id summary, ov_task_version = pp_definition_version summary,
        ov_implementation_id = pp_implementation_id summary, ov_risk_level = pp_risk_level summary,
        ov_privilege = pp_privilege summary, ov_scope = td_scope task, ov_status = OpPreviewReady,
        ov_step_titles = pp_step_titles summary,
        ov_estimated_seconds = pp_estimated_seconds summary,
        ov_confirmation_token = (if pp_risk_level summary = Dangerous then Some (or_id run) else None),
        ov_server = server, ov_permission_summary = permission,
        ov_current_state_summary = current_state,
        ov_target_state_summary = (case parameter_summary env (pt_parameters plan) of
            Some t \<Rightarrow> t | None \<Rightarrow> ''this task has no target parameters''),
        ov_backup_summary = (case pt_backup_plan plan of
            None \<Rightarrow> [] | Some items \<Rightarrow> map (\<lambda>i. ''backup before: '' @ bi_id i) items),
        ov_disconnect_risk = disconnect_risk task (pt_parameters plan)\<rparr>)))"

text \<open>A command above its time limit is the answer \<open>RemoteStateUncertain\<close>.\<close>

fun preview_steps_loop ::
  "op_env \<Rightarrow> string \<Rightarrow> privilege_mode \<Rightarrow> rendered_task_step list \<Rightarrow> string \<Rightarrow> (op_state, string) st"
where
  "preview_steps_loop env server mode [] summary = ret_st summary"
| "preview_steps_loop env server mode (step # steps) summary =
     bind_st (from_res (elevate_fixed_command (rs_command step) mode)) (\<lambda>command.
     bind_st (execute_authenticated env server command) (\<lambda>output.
       if co_exit_status output \<noteq> 0
       then fail_st (ssh_command (co_exit_status output) (oe_redact env (co_stderr output)))
       else preview_steps_loop env server mode steps
              (append_capped_summary summary (oe_redact env (co_stdout output)) (8 * 1024))))"

definition run_dangerous_preview ::
  "op_env \<Rightarrow> string \<Rightarrow> rendered_task_step list \<Rightarrow> privilege_mode \<Rightarrow> (op_state, string) st" where
  "run_dangerous_preview env server steps mode =
     bind_st (preview_steps_loop env server mode steps []) (\<lambda>summary.
       ret_st (if is_blank summary then ''the preview passed and returned no state'' else summary))"

definition optional_privilege ::
  "op_env \<Rightarrow> string \<Rightarrow> task_definition \<Rightarrow> (op_state, privilege_mode option) st" where
  "optional_privilege env server task =
     (if td_privilege task = RootOrPasswordlessSudo
      then bind_st (ox_probe_privilege env server) (\<lambda>mode. ret_st (Some mode)) else ret_st None)"

definition mode_or_root :: "privilege_mode option \<Rightarrow> privilege_mode" where
  "mode_or_root mode = (case mode of None \<Rightarrow> PrivRoot | Some m \<Rightarrow> m)"

definition preflight :: "op_env \<Rightarrow> string \<Rightarrow> op_preflight_request \<Rightarrow> (op_state, op_preview) st" where
  "preflight env server_id request =
     bind_st (begin_preflight env server_id request) (\<lambda>(task, run).
     bind_st (or_preflight_failed env (or_id run) (connect env server_id)) (\<lambda>connected.
     let capabilities = cs_capabilities connected in
     bind_st (or_preflight_failed env (or_id run) (optional_privilege env server_id task)) (\<lambda>mode.
     bind_st (if td_risk_level task = Dangerous
         then bind_st (or_preflight_failed env (or_id run) (from_res
                  (plan_task (oe_parse_uuid env) task capabilities (opr_parameters request)))) (\<lambda>plan.
              or_preflight_failed env (or_id run)
                (run_dangerous_preview env server_id (pt_preview_steps plan) (mode_or_root mode)))
         else ret_st ''a read-only task reads the state when it runs'') (\<lambda>current_state.
       complete_preflight env run task (opr_parameters request) capabilities
         (cs_profile connected) (permission_summary (td_privilege task) mode) current_state))))"

definition preflight_with_capabilities ::
  "op_env \<Rightarrow> string \<Rightarrow> op_preflight_request \<Rightarrow> system_capabilities \<Rightarrow> (op_state, op_preview) st" where
  "preflight_with_capabilities env server_id request capabilities =
     bind_st (begin_preflight env server_id request) (\<lambda>(task, run).
     bind_st (ask_res (\<lambda>t. oe_server env t server_id)) (\<lambda>server.
       complete_preflight env run task (opr_parameters request) capabilities server
         (permission_summary (td_privilege task) None) ''no remote state was read''))"

end
