(* ===== verification/Op_Run.thy ===== *)
theory Op_Run
  imports Op_Service
begin

text \<open>
  The run of an operation: \<open>start\<close>, \<open>run_dangerous\<close>, the rollbacks, the reconciliation of an address
  change and \<open>cancel\<close>, in \<^verbatim>\<open>src-tauri/src/services/operation_service.rs\<close>.
\<close>

section \<open>One phase\<close>

text \<open>What the steps of a run have in common.\<close>

record run_context =
  rc_run :: uuid
  rc_server_id :: string
  rc_task :: task_definition
  rc_history :: "execution_parameter list"

definition call_of :: "run_context \<Rightarrow> rendered_task_step \<Rightarrow> step_call" where
  "call_of c step =
     \<lparr>sl_server_id = rc_server_id c, sl_task_id = td_id (rc_task c),
      sl_task_version = td_version (rc_task c),
      sl_category = execution_history_category (td_category (rc_task c)), sl_step = step,
      sl_parameters = rc_history c\<rparr>"

text \<open>The step fails and the ones after it are skipped; \<open>skip\<close> from \<open>index\<close> on.\<close>

definition fail_step ::
  "op_env \<Rightarrow> uuid \<Rightarrow> operation_phase \<Rightarrow> nat \<Rightarrow> app_error \<Rightarrow> (op_state, unit) st" where
  "fail_step env run phase index e =
     bind_st (ox_finish_step env run phase index StFailed None (Some (display e))) (\<lambda>_.
     bind_st (ox_skip_pending_steps env run phase (Suc index)) (\<lambda>_. ret_st ()))"

definition connection_categories :: "string list" where
  "connection_categories = [''ssh'', ''io'', ''transfer'', ''remote_state_uncertain'']"

definition phase_status :: "execution_record \<Rightarrow> operation_status option" where
  "phase_status rec =
     (let status = snd (statuses_for_execution (er_status rec)) in
      if status = Some OpFailed
         \<and> (case er_error_category rec of None \<Rightarrow> False | Some c \<Rightarrow> c \<in> set connection_categories)
      then Some OpUncertain else status)"

fun run_phase ::
  "op_env \<Rightarrow> run_context \<Rightarrow> operation_phase \<Rightarrow> nat \<Rightarrow> rendered_task_step list \<Rightarrow> string \<Rightarrow>
   (op_state, operation_status option \<times> string) st" where
  "run_phase env c phase index [] output = ret_st (None, output)"
| "run_phase env c phase index (step # steps) output =
     bind_st (ask (oe_cancelled env)) (\<lambda>cancelled.
       if cancelled
       then bind_st (ox_skip_pending_steps env (rc_run c) phase index)
              (\<lambda>_. ret_st (Some OpCancelled, output))
       else
     bind_st (ox_mark_step_running env (rc_run c) phase index) (\<lambda>_.
     bind_st (execute_step env (rc_run c) phase (call_of c step)) (\<lambda>(events, execution).
     let output = foldl sink_send output events in
       case execution of
         Inl e \<Rightarrow> bind_st (fail_step env (rc_run c) phase index e)
                    (\<lambda>_. ret_st (Some (operation_status_for_error e), output))
       | Inr details \<Rightarrow>
           let rec = ed_record details in
           bind_st (ox_finish_executed env (rc_run c) phase index
                      (fst (statuses_for_execution (er_status rec))) rec) (\<lambda>_.
             case phase_status rec of
               None \<Rightarrow> run_phase env c phase (Suc index) steps output
             | Some status \<Rightarrow> bind_st (ox_skip_pending_steps env (rc_run c) phase (Suc index))
                 (\<lambda>_. ret_st (Some status, output))))))"

section \<open>Safe tasks\<close>

text \<open>
  The loop over the steps of a task without backup: the result of a run that ended inside it, or
  the output of all steps.
\<close>

fun run_safe_steps ::
  "op_env \<Rightarrow> run_context \<Rightarrow> nat \<Rightarrow> rendered_task_step list \<Rightarrow> string \<Rightarrow>
   (op_state, operation_details + string) st" where
  "run_safe_steps env c index [] output = ret_st (Inr output)"
| "run_safe_steps env c index (step # steps) output =
     bind_st (ask (oe_cancelled env)) (\<lambda>cancelled.
       if cancelled
       then bind_st (ox_skip_pending_steps env (rc_run c) PhExecute index) (\<lambda>_.
            bind_st (ox_transition env (rc_run c) OpCancelled) (\<lambda>_.
            bind_st (require_details (rc_run c)) (\<lambda>d. ret_st (Inl d))))
       else
     bind_st (ox_mark_step_running env (rc_run c) PhExecute index) (\<lambda>_.
     bind_st (execute_step env (rc_run c) PhExecute (call_of c step)) (\<lambda>(events, execution).
     let output = foldl sink_send output events in
       case execution of
         Inl e \<Rightarrow>
           bind_st (fail_step env (rc_run c) PhExecute index e) (\<lambda>_.
           bind_st (ox_transition env (rc_run c) OpFailed) (\<lambda>_. fail_st e))
       | Inr details \<Rightarrow>
           let rec = ed_record details; statuses = statuses_for_execution (er_status rec) in
           bind_st (ox_finish_executed env (rc_run c) PhExecute index (fst statuses) rec) (\<lambda>_.
             case snd statuses of
               None \<Rightarrow> run_safe_steps env c (Suc index) steps output
             | Some status \<Rightarrow>
                 bind_st (ox_skip_pending_steps env (rc_run c) PhExecute (Suc index)) (\<lambda>_.
                 bind_st (ox_transition env (rc_run c) status) (\<lambda>_.
                 bind_st (require_details (rc_run c)) (\<lambda>d. ret_st (Inl d))))))))"

definition result_of ::
  "op_env \<Rightarrow> planned_task \<Rightarrow> string \<Rightarrow> string \<Rightarrow> operation_result" where
  "result_of env plan summary output =
     (case parse_result (oe_default_redact env) (pt_result_parser plan) output of
        Inr r \<Rightarrow> r | Inl e \<Rightarrow> parser_warning_result summary e)"

definition ox_set_result :: "op_env \<Rightarrow> uuid \<Rightarrow> operation_result \<Rightarrow> (op_state, unit) st" where
  "ox_set_result env run result =
     with_now env (op_set_result (oe_encode env) run (result_json result))"

definition run_safe ::
  "op_env \<Rightarrow> run_context \<Rightarrow> planned_task \<Rightarrow> (op_state, operation_details) st" where
  "run_safe env c plan =
     bind_st (ask (oe_cancelled env)) (\<lambda>cancelled.
       if cancelled
       then bind_st (ox_transition env (rc_run c) OpCancelled) (\<lambda>_. require_details (rc_run c))
       else
     bind_st (ox_transition env (rc_run c) OpRunning) (\<lambda>_.
     bind_st (run_safe_steps env c 0 (pt_execution_steps plan) []) (\<lambda>r.
       case r of
         Inl d \<Rightarrow> ret_st d
       | Inr output \<Rightarrow>
           bind_st (attempt (ox_set_result env (rc_run c) (result_of env plan ''finished'' output)))
             (\<lambda>stored.
           case stored of
             Inl e \<Rightarrow> bind_st (discard (ox_transition env (rc_run c) OpFailed)) (\<lambda>_. fail_st e)
           | Inr _ \<Rightarrow>
               bind_st (ox_transition env (rc_run c) OpSucceeded) (\<lambda>_.
                 require_details (rc_run c))))))"

section \<open>Dangerous tasks\<close>

text \<open>What the automatic rollback ends with: the status of its step, of the run, and the message.\<close>

definition rollback_outcome ::
  "op_restore_details app_result \<Rightarrow> step_status \<times> operation_status \<times> string option" where
  "rollback_outcome r =
     (case r of
        Inr details \<Rightarrow>
          (if orp_status (rd_point details) = RpRolledBack then (StSucceeded, OpRolledBack, None)
           else if orp_status (rd_point details) = RpPartial
           then (StFailed, OpRollbackPartial, Some ''only some items were restored'')
           else (StFailed, OpRollbackFailed, Some ''the automatic rollback failed''))
      | Inl e \<Rightarrow>
          (if operation_status_for_error e = OpUncertain
           then (StUncertain, OpUncertain, Some (display e))
           else (StFailed, OpRollbackFailed, Some (display e))))"

definition finish_dangerous_failure ::
  "op_env \<Rightarrow> uuid \<Rightarrow> uuid \<Rightarrow> operation_status \<Rightarrow> (op_state, operation_details) st" where
  "finish_dangerous_failure env run point failure =
     (if failure = OpUncertain
      then bind_st (ox_transition env run OpUncertain) (\<lambda>_. require_details run)
      else
     bind_st (ox_transition env run OpRollbackAvailable) (\<lambda>_.
     bind_st (ox_transition env run OpRollingBack) (\<lambda>_.
     bind_st (ox_mark_step_running env run PhRollback 0) (\<lambda>_.
     bind_st (attempt (rollback env point)) (\<lambda>r.
     let (step_status, run_status, message) = rollback_outcome r in
     bind_st (ox_finish_step env run PhRollback 0 step_status
         (if step_status = StSucceeded then Some ''restored and verified'' else None) message) (\<lambda>_.
     bind_st (ox_transition env run run_status) (\<lambda>_. require_details run)))))))"

definition dangerous_tasks :: "string list" where
  "dangerous_tasks =
     [''system.hostname_change'', ''system.timezone_change'', ''system.time_sync_change'',
      ''storage.swap_manage'', ''security.file_permissions'', ''service.start'', ''service.stop'',
      ''service.restart'', ''service.boot_policy'', ''service.cron_manage'', ''container.action'',
      ''network.hosts_manage'', ''security.firewall_open_port'', ''network.ip_change'']"

text \<open>Every backup step is finished once the point is complete.\<close>

fun finish_backup_steps :: "op_env \<Rightarrow> uuid \<Rightarrow> nat \<Rightarrow> nat \<Rightarrow> (op_state, unit) st" where
  "finish_backup_steps env run index 0 = ret_st ()"
| "finish_backup_steps env run index (Suc n) =
     bind_st (if 0 < index then ox_mark_step_running env run PhBackup index else ret_st ()) (\<lambda>_.
     bind_st (ox_finish_step env run PhBackup index StSucceeded
                (Some ''restore item verified and saved'') None) (\<lambda>_.
       finish_backup_steps env run (Suc index) n))"

definition ip_recovery_plan ::
  "op_env \<Rightarrow> uuid \<Rightarrow> string \<Rightarrow> validated_parameters \<Rightarrow> ip_change_recovery_plan app_result" where
  "ip_recovery_plan env run implementation_id parameters =
     bind_res (required_parameter_str parameters ''interface'') (\<lambda>interface.
     bind_res (required_parameter_str parameters ''cidr'') (\<lambda>cidr.
     bind_res (required_parameter_str parameters ''gateway'') (\<lambda>gateway.
     bind_res (required_parameter_u64 parameters ''rollbackSeconds'') (\<lambda>seconds.
       oe_ip_plan env run implementation_id interface cidr gateway seconds))))"

definition network_step :: "string \<Rightarrow> string \<Rightarrow> string \<Rightarrow> rendered_task_step" where
  "network_step i title command =
     \<lparr>rs_id = i, rs_title = title, rs_command = command, rs_timeout_seconds = 45,
      rs_output_limit_bytes = 64 * 1024\<rparr>"

definition network_steps ::
  "ip_change_recovery_plan \<Rightarrow> privilege_mode \<Rightarrow> rendered_task_step list app_result" where
  "network_steps recovery mode =
     bind_res (elevate_fixed_command (ir_arm_command recovery) mode) (\<lambda>arm.
     bind_res (elevate_fixed_command (ir_apply_command recovery) mode) (\<lambda>change.
       Inr [network_step ''arm-rollback'' ''arm the automatic rollback'' arm,
            network_step ''apply-network'' ''stage the new address'' change]))"

text \<open>\<open>execute_connected\<close> at the verified new address: the account's rights, the command, its result.\<close>

definition execute_at ::
  "op_env \<Rightarrow> string \<Rightarrow> string \<Rightarrow> string \<Rightarrow> privilege_mode \<Rightarrow> (op_state, command_output) st" where
  "execute_at env server host command mode =
     bind_st (ask_res (\<lambda>t. oe_connect_at env t server host)) (\<lambda>_.
     bind_st (from_res (elevate_fixed_command command mode)) (\<lambda>command.
     bind_st (log_effect (EffCommandAt server host command)) (\<lambda>_.
     bind_st (ask_res (\<lambda>t. oe_command env t command)) (\<lambda>output.
       if co_exit_status output \<noteq> 0
       then fail_st (ssh_command (co_exit_status output) (oe_redact env (co_stderr output)))
       else ret_st output))))"

definition commit_host :: "op_env \<Rightarrow> string \<Rightarrow> string \<Rightarrow> (op_state, unit) st" where
  "commit_host env server host =
     bind_st (log_effect (EffCommitHost server host)) (\<lambda>_.
       ask_res (\<lambda>t. oe_commit_host env t server host))"

text \<open>The verification of an address change: the result of a run that ended in it, or the output.\<close>

definition verify_ip_change ::
  "op_env \<Rightarrow> run_context \<Rightarrow> uuid \<Rightarrow> ip_change_recovery_plan \<Rightarrow> privilege_mode \<Rightarrow> string \<Rightarrow>
   (op_state, operation_details + string) st" where
  "verify_ip_change env c point recovery mode output =
     (let run = rc_run c in
     bind_st (ox_mark_step_running env run PhVerify 0) (\<lambda>_.
     bind_st (ask (oe_cancelled env)) (\<lambda>cancelled.
       if cancelled
       then bind_st (ox_finish_step env run PhVerify 0 StUncertain None
                       (Some ''the automatic recovery of the server is armed'')) (\<lambda>_.
            bind_st (finish_dangerous_failure env run point OpUncertain) (\<lambda>d. ret_st (Inl d)))
       else
     bind_st (attempt (execute_at env (rc_server_id c) (ir_target_host recovery)
                (ir_finalize_command recovery) mode)) (\<lambda>finalized.
       case finalized of
         Inr answer \<Rightarrow>
           bind_st (attempt (commit_host env (rc_server_id c) (ir_target_host recovery))) (\<lambda>committed.
             case committed of
               Inl e \<Rightarrow>
                 bind_st (ox_finish_step env run PhVerify 0 StUncertain
                    (Some ''verified, but the address of the profile was not changed'')
                    (Some (display e))) (\<lambda>_.
                 bind_st (ox_transition env run OpUncertain) (\<lambda>_.
                 bind_st (require_details run) (\<lambda>d. ret_st (Inl d))))
             | Inr _ \<Rightarrow>
                 bind_st (ox_finish_step env run PhVerify 0 StSucceeded
                    (Some ''verified through the new address'') None) (\<lambda>_.
                   ret_st (Inr (output @ co_stdout answer))))
       | Inl e \<Rightarrow>
           bind_st (ox_finish_step env run PhVerify 0 StUncertain
              (Some ''not verified; the timed recovery stays armed'') (Some (display e))) (\<lambda>_.
           bind_st (finish_dangerous_failure env run point OpUncertain) (\<lambda>d. ret_st (Inl d)))))))"

text \<open>From the restore point on: run, verify, store the result.\<close>

definition run_protected ::
  "op_env \<Rightarrow> run_context \<Rightarrow> planned_task \<Rightarrow> uuid \<Rightarrow> ip_change_recovery_plan option \<Rightarrow>
   rendered_task_step list \<Rightarrow> rendered_task_step list \<Rightarrow> privilege_mode \<Rightarrow>
   (op_state, operation_details) st" where
  "run_protected env c plan point recovery execution_steps verify_steps mode =
     (let run = rc_run c in
     bind_st (ox_transition env run OpRunning) (\<lambda>_.
     bind_st (run_phase env c PhExecute 0 execution_steps []) (\<lambda>(failed, output).
       case failed of
         Some status \<Rightarrow> finish_dangerous_failure env run point status
       | None \<Rightarrow>
     bind_st (ox_transition env run OpVerifying) (\<lambda>_.
     bind_st (case recovery of
         Some r \<Rightarrow> verify_ip_change env c point r mode output
       | None \<Rightarrow> bind_st (run_phase env c PhVerify 0 verify_steps output) (\<lambda>(failed, output).
           case failed of
             Some status \<Rightarrow> bind_st (finish_dangerous_failure env run point status)
               (\<lambda>d. ret_st (Inl d))
           | None \<Rightarrow> ret_st (Inr output))) (\<lambda>verified.
       case verified of
         Inl d \<Rightarrow> ret_st d
       | Inr output \<Rightarrow>
           bind_st (ox_set_result env run (result_of env plan ''verified'' output)) (\<lambda>_.
           bind_st (ox_transition env run OpSucceeded) (\<lambda>_. require_details run)))))))"

definition day_millis :: int where
  "day_millis = 24 * 60 * 60 * 1000"

definition prepare_recovery ::
  "op_env \<Rightarrow> run_context \<Rightarrow> planned_task \<Rightarrow> uuid \<Rightarrow> (op_state, ip_change_recovery_plan option) st" where
  "prepare_recovery env c plan point =
     (if td_id (rc_task c) = ''network.ip_change''
      then bind_st (from_res (ip_recovery_plan env (rc_run c) (pt_implementation_id plan)
                      (pt_parameters plan))) (\<lambda>recovery.
           bind_st (ask (oe_now env)) (\<lambda>now.
           bind_st (attach_remote_asset env point
                      (''qingzhou-recovery/'' @ uuid_text (rc_run c)) (now + day_millis)) (\<lambda>_.
             ret_st (Some recovery))))
      else ret_st None)"

definition run_dangerous ::
  "op_env \<Rightarrow> run_context \<Rightarrow> planned_task \<Rightarrow> privilege_mode \<Rightarrow> (op_state, operation_details) st" where
  "run_dangerous env c plan mode =
     (let run = rc_run c; task = rc_task c in
      if td_id task \<notin> set dangerous_tasks
      then fail_st (Validation ''no recovery for this dangerous task; nothing was changed'')
      else case pt_backup_plan plan of
        None \<Rightarrow> fail_st (Validation ''a dangerous task without a restore point'')
      | Some backup_plan \<Rightarrow>
          if pt_verify_steps plan = [] \<or> pt_rollback_plan plan = None
          then fail_st (Validation ''a dangerous task without verification or rollback'')
          else
     bind_st (ox_transition env run OpWaitingConfirmation) (\<lambda>_.
     bind_st (ask (oe_cancelled env)) (\<lambda>cancelled.
       if cancelled
       then bind_st (ox_transition env run OpCancelled) (\<lambda>_. require_details run)
       else
     bind_st (ox_transition env run OpBackingUp) (\<lambda>_.
     bind_st (ox_mark_step_running env run PhBackup 0) (\<lambda>_.
     bind_st (attempt (capture env run (rc_server_id c) (td_id task) (pt_implementation_id plan)
                backup_plan (pt_parameters plan))) (\<lambda>captured.
       case captured of
         Inl e \<Rightarrow>
           bind_st (ox_finish_step env run PhBackup 0 StFailed None (Some (display e))) (\<lambda>_.
           bind_st (ox_skip_pending_steps env run PhBackup 1) (\<lambda>_.
           bind_st (ox_transition env run (if e = Cancelled then OpCancelled else OpFailed)) (\<lambda>_.
             require_details run)))
       | Inr restore \<Rightarrow>
           let point = orp_id (rd_point restore) in
           bind_st (finish_backup_steps env run 0 (length backup_plan)) (\<lambda>_.
           bind_st (prepare_recovery env c plan point) (\<lambda>recovery.
           bind_st (from_res (case recovery of
               Some r \<Rightarrow> network_steps r mode
             | None \<Rightarrow> elevate_steps (pt_execution_steps plan) mode)) (\<lambda>execution_steps.
           bind_st (from_res (elevate_steps (pt_verify_steps plan) mode)) (\<lambda>verify_steps.
             run_protected env c plan point recovery execution_steps verify_steps mode))))))))))"

section \<open>Start\<close>

definition require_matching_preview ::
  "uuid \<Rightarrow> string \<Rightarrow> task_definition \<Rightarrow> string option \<Rightarrow> (op_state, unit) st" where
  "require_matching_preview preview server_id task summary =
     bind_st (look (op_get preview)) (\<lambda>d.
     bind_st (from_res (ok_or (Validation ''the confirmed preview does not exist'') d)) (\<lambda>details.
       let run = od_run details in
       if or_server_id run \<noteq> server_id \<or> or_task_id run \<noteq> td_id task
          \<or> or_task_version run \<noteq> td_version task \<or> or_status run \<noteq> OpPreviewReady
          \<or> or_parameters_summary run \<noteq> summary
       then fail_st (Validation ''the confirmed preview does not match this task'')
       else ret_st ()))"

definition start_with_capabilities_and_cancel ::
  "op_env \<Rightarrow> string \<Rightarrow> op_start_request \<Rightarrow> system_capabilities \<Rightarrow> privilege_mode option \<Rightarrow>
   (op_state, operation_details) st" where
  "start_with_capabilities_and_cancel env server_id request capabilities mode =
     bind_st (from_res (resolve_definition env (osr_task_id request) (osr_task_version request)))
       (\<lambda>task.
     bind_st (from_res (validate_parameters (oe_parse_uuid env) task (osr_parameters request)))
       (\<lambda>validated.
     bind_st (from_res (require_dangerous_preview task (osr_confirmed_preview_id request))) (\<lambda>_.
     bind_st (case osr_confirmed_preview_id request of
         Some preview \<Rightarrow> bind_st (require_matching_preview preview server_id task
             (parameter_summary env validated)) (\<lambda>_. ret_st preview)
       | None \<Rightarrow> bind_st (preflight_with_capabilities env server_id
             \<lparr>opr_task_id = osr_task_id request, opr_task_version = osr_task_version request,
              opr_parameters = osr_parameters request\<rparr> capabilities)
             (\<lambda>preview. ret_st (ov_preview_id preview))) (\<lambda>run.
     bind_st (from_res (select_implementation task capabilities)) (\<lambda>implementation.
     bind_st (from_res (plan_task (oe_parse_uuid env) task capabilities (osr_parameters request)))
       (\<lambda>plan.
     let c = \<lparr>rc_run = run, rc_server_id = server_id, rc_task = task,
              rc_history = history_parameters env (pt_parameters plan)\<rparr> in
       if td_risk_level task = Dangerous then run_dangerous env c plan (mode_or_root mode)
       else if ti_backup_plan implementation \<noteq> None
       then fail_st (Validation ''a task with a backup plan cannot run directly'')
       else run_safe env c plan))))))"

definition start_with_cancel ::
  "op_env \<Rightarrow> string \<Rightarrow> op_start_request \<Rightarrow> (op_state, operation_details) st" where
  "start_with_cancel env server_id request =
     bind_st (from_res (resolve_definition env (osr_task_id request) (osr_task_version request)))
       (\<lambda>task.
     bind_st (from_res (validate_parameters (oe_parse_uuid env) task (osr_parameters request)))
       (\<lambda>_.
     bind_st (from_res (require_dangerous_preview task (osr_confirmed_preview_id request))) (\<lambda>_.
     bind_st (ask (oe_cancelled env)) (\<lambda>cancelled.
       if cancelled then fail_st Cancelled
       else
     bind_st (connect env server_id) (\<lambda>connected.
     bind_st (optional_privilege env server_id task) (\<lambda>mode.
       start_with_capabilities_and_cancel env server_id request (cs_capabilities connected) mode))))))"

section \<open>Manual rollback and cancel\<close>

definition rollback_operation :: "op_env \<Rightarrow> uuid \<Rightarrow> (op_state, operation_details \<times> operation_status) st"
where
  "rollback_operation env point =
     bind_st (rs_require point (Validation ''restore point does not exist'')) (\<lambda>restore.
       if orp_status (rd_point restore) \<notin> {RpAvailable, RpPartial, RpFailed}
       then fail_st RestorePointAlreadyConsumed
       else
     let run = orp_run_id (rd_point restore) in
     bind_st (require_details run) (\<lambda>operation.
     bind_st (if or_status (od_run operation)
           \<in> {OpSucceeded, OpFailed, OpUncertain, OpRollbackPartial, OpRollbackFailed}
         then ox_transition env run OpRollbackAvailable
         else if or_status (od_run operation) = OpRollbackAvailable then ret_st ()
         else fail_st (Validation ''the operation cannot be rolled back now'')) (\<lambda>_.
     bind_st (ox_transition env run OpRollingBack) (\<lambda>_.
     bind_st (ox_mark_step_running env run PhRollback 0) (\<lambda>_.
     bind_st (attempt (rollback env point)) (\<lambda>r.
     let (step_status, run_status, details) = (case r of
         Inr d \<Rightarrow>
           (if orp_status (rd_point d) = RpRolledBack then (StSucceeded, OpRolledBack, None)
            else (StFailed, OpRollbackPartial,
                  Some (''restoreStatus='' @ restore_point_status_as_str (orp_status (rd_point d)))))
       | Inl e \<Rightarrow>
           (if operation_status_for_error e = OpUncertain
            then (StUncertain, OpUncertain, Some (truncate_utf8 (display e) (8 * 1024)))
            else (StFailed, OpRollbackFailed, Some (truncate_utf8 (display e) (8 * 1024))))) in
     bind_st (ox_finish_step env run PhRollback 0 step_status
         (if step_status = StSucceeded then Some ''restore point applied and verified'' else None)
         details) (\<lambda>_.
     bind_st (ox_transition env run run_status) (\<lambda>_.
     bind_st (require_details run) (\<lambda>operation. ret_st (operation, run_status))))))))))"

definition cancel_operation :: "op_env \<Rightarrow> uuid \<Rightarrow> (op_state, unit) st" where
  "cancel_operation env run =
     bind_st (require_details run) (\<lambda>details.
       if or_status (od_run details) \<in> {OpBackingUp, OpRunning, OpVerifying, OpRollingBack}
       then fail_st (Validation ''the task is running on the server'')
       else ox_transition env run OpCancelled)"

section \<open>An address change read back\<close>

datatype ip_recovery_state = IpArmed | IpStaged | IpCommitted | IpRolledBack

definition is_sha256_text :: "string \<Rightarrow> bool" where
  "is_sha256_text v \<longleftrightarrow>
     length v = 64 \<and> list_all (\<lambda>b. is_ascii_digit b \<or> (97 \<le> byte b \<and> byte b \<le> 102)) v"

fun recovery_fields ::
  "string list \<Rightarrow> (string \<times> string) list \<Rightarrow> (string \<times> string) list app_result" where
  "recovery_fields [] fields_so_far = Inr fields_so_far"
| "recovery_fields (line # lines) fields_so_far =
     bind_res (ok_or (Integrity ''invalid format of the recovery state'') (split_once (CHR ''='') line))
       (\<lambda>(key, v).
       if key \<notin> {''state'', ''scriptsha'', ''committed''} \<or> key \<in> fst ` set fields_so_far
       then Inl (Integrity ''unknown or repeated field in the recovery state'')
       else recovery_fields lines (btree_insert key v fields_so_far))"

definition required_field :: "(string \<times> string) list \<Rightarrow> string \<Rightarrow> string app_result" where
  "required_field vs key =
     (case map_of vs key of
        Some v \<Rightarrow> if v \<noteq> [] \<and> CHR 0x00 \<notin> set v then Inr v
                  else Inl (Integrity (''missing field: '' @ key))
      | None \<Rightarrow> Inl (Integrity (''missing field: '' @ key)))"

definition parse_ip_recovery_state :: "string \<Rightarrow> string \<Rightarrow> ip_recovery_state app_result" where
  "parse_ip_recovery_state output expected_sha256 =
     (if \<not> is_sha256_text expected_sha256 then Inl (Integrity ''invalid SHA-256 of the script'')
      else
     bind_res (recovery_fields (filter (\<lambda>l. l \<noteq> []) (str_lines output)) []) (\<lambda>vs.
       if length vs \<noteq> 3 then Inl (Integrity ''incomplete recovery state'')
       else
     bind_res (required_field vs ''scriptsha'') (\<lambda>sha.
       if sha \<noteq> expected_sha256 then Inl (Integrity ''SHA-256 of the recovery script differs'')
       else
     bind_res (required_field vs ''committed'') (\<lambda>flag.
       if flag \<noteq> ''true'' \<and> flag \<noteq> ''false'' then Inl (Integrity ''invalid commit flag'')
       else
     bind_res (required_field vs ''state'') (\<lambda>state.
       if state = ''armed'' \<and> flag = ''false'' then Inr IpArmed
       else if state = ''staged'' \<and> flag = ''false'' then Inr IpStaged
       else if state = ''committed'' \<and> flag = ''true'' then Inr IpCommitted
       else if state = ''rolled_back'' \<and> flag = ''false'' then Inr IpRolledBack
       else Inl (Integrity ''recovery state and commit flag differ''))))))"

text \<open>
  The session through which the server is reached: the current address, or the new one if that
  fails; the capabilities, the rights and whether the current address works.
\<close>

definition reach_for_reconcile ::
  "op_env \<Rightarrow> string \<Rightarrow> string \<Rightarrow> (op_state, system_capabilities \<times> privilege_mode \<times> bool) st" where
  "reach_for_reconcile env server target =
     bind_st (attempt (connect env server)) (\<lambda>current.
       case current of
         Inr session \<Rightarrow>
           bind_st (ox_probe_privilege env server) (\<lambda>mode.
             ret_st (cs_capabilities session, mode, True))
       | Inl _ \<Rightarrow>
           bind_st (ask_res (\<lambda>t. oe_connect_at env t server target)) (\<lambda>session.
           bind_st (ox_probe_privilege env server) (\<lambda>mode.
             ret_st (cs_capabilities session, mode, False))))"

definition inspect_recovery ::
  "op_env \<Rightarrow> string \<Rightarrow> ip_change_recovery_plan \<Rightarrow> privilege_mode \<Rightarrow> bool \<Rightarrow>
   (op_state, command_output) st" where
  "inspect_recovery env server recovery mode inspect_current =
     (if inspect_current
      then bind_st (connect env server) (\<lambda>_.
           bind_st (from_res (elevate_fixed_command (ir_inspect_command recovery) mode)) (\<lambda>command.
           bind_st (execute_authenticated env server command) (\<lambda>output.
             if co_exit_status output \<noteq> 0
             then fail_st (ssh_command (co_exit_status output) (oe_redact env (co_stderr output)))
             else ret_st output)))
      else execute_at env server (ir_target_host recovery) (ir_inspect_command recovery) mode)"

definition committed_result :: operation_result where
  "committed_result =
     \<lparr>ores_status = ConNormal, ores_summary = ''reconnected at the new address and confirmed'',
      ores_findings = [], ores_suggestions = [], ores_technical_details = ''reconciled=committed''\<rparr>"

definition rolled_back_result :: operation_result where
  "rolled_back_result =
     \<lparr>ores_status = ConWarning, ores_summary = ''the server restored the old network by itself'',
      ores_findings = [], ores_suggestions = [''check the old address before another change''],
      ores_technical_details = ''reconciled=rolled_back''\<rparr>"

definition settle_reconciled ::
  "op_env \<Rightarrow> operation_details \<Rightarrow> ip_change_recovery_plan \<Rightarrow> ip_recovery_state \<Rightarrow>
   (op_state, unit) st" where
  "settle_reconciled env details recovery state =
     (let run = or_id (od_run details) in
      case state of
        IpCommitted \<Rightarrow>
          bind_st (commit_host env (or_server_id (od_run details)) (ir_target_host recovery)) (\<lambda>_.
          bind_st (ox_set_result env run committed_result) (\<lambda>_.
          bind_st (if list_ex (\<lambda>s. os_phase s = PhVerify \<and> os_index s = 0 \<and> os_status s = StUncertain)
                (od_steps details)
              then ox_finish_step env run PhVerify 0 StSucceeded (Some ''verified after reconnecting'') None
              else ret_st ()) (\<lambda>_.
            ox_transition env run OpSucceeded)))
      | IpRolledBack \<Rightarrow>
          bind_st (mark_remote_rollback_observed env run) (\<lambda>_.
          bind_st (ox_set_result env run rolled_back_result) (\<lambda>_.
            ox_transition env run OpRolledBack))
      | _ \<Rightarrow> ret_st ())"

definition reconcile_ip_change :: "op_env \<Rightarrow> uuid \<Rightarrow> (op_state, operation_details) st" where
  "reconcile_ip_change env run =
     bind_st (require_details run) (\<lambda>details.
     let r = od_run details in
       if or_task_id r \<noteq> ''network.ip_change'' \<or> or_status r \<noteq> OpUncertain
       then fail_st (Validation ''only an unconfirmed address change can be checked again'')
       else
     bind_st (from_res (ok_or (Integrity ''the run has no parameter summary'')
                (or_parameters_summary r))) (\<lambda>summary.
     bind_st (from_res (parse_network_parameter_summary summary)) (\<lambda>parameters.
     bind_st (from_res (ok_or (Integrity ''the new address of the run is invalid'')
         (map_option fst (Option.bind (Option.bind (json_get parameters ''cidr'') json_as_str)
           (split_once (CHR ''/'')))))) (\<lambda>target.
     bind_st (reach_for_reconcile env (or_server_id r) target) (\<lambda>(capabilities, mode, current).
     bind_st (from_res (resolve_definition env ''network.ip_change'' (or_task_version r))) (\<lambda>task.
     bind_st (from_res (plan_task (oe_parse_uuid env) task capabilities parameters)) (\<lambda>planned.
     bind_st (from_res (validate_parameters (oe_parse_uuid env) task parameters)) (\<lambda>validated.
     bind_st (from_res (ip_recovery_plan env run (pt_implementation_id planned) validated))
       (\<lambda>recovery.
     bind_st (inspect_recovery env (or_server_id r) recovery mode current) (\<lambda>observation.
     bind_st (from_res (parse_ip_recovery_state (co_stdout observation)
                (ir_rollback_script_sha256 recovery))) (\<lambda>observed.
     bind_st (if observed = IpStaged
         then bind_st (attempt (execute_at env (or_server_id r) (ir_target_host recovery)
                  (ir_finalize_command recovery) mode)) (\<lambda>f.
              ret_st (if is_ok f then IpCommitted else observed))
         else ret_st observed) (\<lambda>state.
     bind_st (settle_reconciled env details recovery state) (\<lambda>_.
       require_details run)))))))))))))"

end
