(* ===== verification/Op_Safety.thy ===== *)
theory Op_Safety
  imports Op_Run
begin

text \<open>
  What a run of an operation guarantees. Every step sent to a server is checked against the tables
  of that moment: the run is recorded as running, and a change by a dangerous task has a complete
  restore point. The second half says what the final status of a run means.
\<close>

section \<open>Operations that leave the tables of runs and restore points alone\<close>

definition core :: "op_state \<Rightarrow> operation_run list \<times> op_restore_point list \<times> op_restore_item list
    \<times> (op_effect \<times> op_db) list" where
  "core s = (odb_runs (ox_db s), odb_points (ox_db s), odb_items (ox_db s), ox_log s)"

definition quiet :: "(op_state, 'a) st \<Rightarrow> bool" where
  "quiet m \<longleftrightarrow> (\<forall>s. core (snd (m s)) = core s)"

named_theorems quiet_intros \<open>operations that leave the core of the state alone\<close>

lemma quiet_bind [quiet_intros]: "quiet m \<Longrightarrow> (\<And>x. quiet (k x)) \<Longrightarrow> quiet (bind_st m k)"
  unfolding quiet_def bind_st_def by (auto split: prod.split sum.split) (metis snd_conv)+

lemma quiet_basic [quiet_intros]:
  "quiet (ret_st x)" "quiet (fail_st e)" "quiet (ask f)" "quiet (ask_res g)" "quiet (look h)"
  "quiet (from_res r)"
  by (simp_all add: quiet_def core_def ask_def ask_res_def look_def from_res_def)

lemma quiet_attempt [quiet_intros]: "quiet m \<Longrightarrow> quiet (attempt m)"
  by (simp add: quiet_def attempt_def split: prod.split) (metis snd_conv)

lemma quiet_if [quiet_intros]: "quiet m \<Longrightarrow> quiet n \<Longrightarrow> quiet (if b then m else n)"
  by simp

definition quiet_db :: "(op_db, 'a) st \<Rightarrow> bool" where
  "quiet_db m \<longleftrightarrow> (\<forall>db. odb_runs (snd (m db)) = odb_runs db \<and> odb_points (snd (m db)) = odb_points db
     \<and> odb_items (snd (m db)) = odb_items db)"

lemma quiet_on_db [quiet_intros]: "quiet_db m \<Longrightarrow> quiet (on_db m)"
  by (simp add: quiet_def quiet_db_def core_def on_db_def split: prod.split) (metis snd_conv)

lemma quiet_with_now [quiet_intros]: "(\<And>now. quiet_db (m now)) \<Longrightarrow> quiet (with_now env m)"
  unfolding with_now_def by (intro quiet_intros)

lemma quiet_db_transition_step: "quiet_db (transition_step run phase index c)"
  by (auto simp: quiet_db_def transition_step_def index_to_i64_def commit_one_def ensure_changed_def
      update_op_steps_def Let_def split: option.split)

lemma quiet_db_steps [quiet_intros]:
  "quiet_db (op_mark_step_running run phase index now)"
  "quiet_db (op_skip_pending_steps run phase index now)"
  "quiet_db (op_finish_step fin)"
  "quiet_db (op_create_step draft)"
  using quiet_db_transition_step
  by (simp_all add: op_mark_step_running_def op_finish_step_def quiet_db_def fail_st_def
      op_skip_pending_steps_def index_to_i64_def update_op_steps_def op_create_step_def Let_def
      split: sum.split)

lemma quiet_steps [quiet_intros]:
  "quiet (ox_mark_step_running env run phase index)"
  "quiet (ox_skip_pending_steps env run phase index)"
  "quiet (ox_finish_step env run phase index status summary message)"
  "quiet (ox_finish_executed env run phase index status rec)"
  unfolding ox_mark_step_running_def ox_skip_pending_steps_def ox_finish_step_def
    ox_finish_executed_def by (intro quiet_intros)+

lemma quiet_fail_step [quiet_intros]: "quiet (fail_step env run phase index e)"
  unfolding fail_step_def by (intro quiet_intros)

lemma quiet_require_details [quiet_intros]: "quiet (require_details run)"
  unfolding require_details_def by (intro quiet_intros)

lemma quiet_finish_backup_steps [quiet_intros]: "quiet (finish_backup_steps env run index n)"
proof (induction n arbitrary: index)
  case (Suc n)
  show ?case by (simp only: finish_backup_steps.simps) (intro quiet_intros Suc)
qed (simp add: quiet_basic)

lemma quiet_create_phase_steps [quiet_intros]: "quiet (create_phase_steps run phase index steps)"
proof (induction steps arbitrary: index)
  case (Cons x xs)
  then show ?case by (cases x) (simp, intro quiet_intros, simp)
qed (simp add: quiet_basic)

lemma quiet_create_steps [quiet_intros]: "quiet (create_steps run plan)"
  unfolding create_steps_def
  by (intro quiet_intros) (auto split: option.split intro: quiet_intros)

lemma quiet_keeps: "quiet m \<Longrightarrow> (\<And>s t. core s = core t \<Longrightarrow> P s = P t) \<Longrightarrow> keeps P m"
  by (metis keepsI quiet_def)

section \<open>Steps that were sent\<close>

text \<open>The restore point of a run is complete.\<close>

definition restore_ready :: "op_db \<Rightarrow> uuid \<Rightarrow> bool" where
  "restore_ready db run \<longleftrightarrow>
     list_ex (\<lambda>p. orp_run_id p = run \<and> orp_status p = RpAvailable \<and> items_of db (orp_id p) \<noteq> []
       \<and> list_all (\<lambda>x. ori_status x = RiAvailable) (items_of db (orp_id p))) (odb_points db)"

definition status_of_run :: "op_db \<Rightarrow> uuid \<Rightarrow> operation_status option" where
  "status_of_run db run = map_option or_status (run_row db run)"

definition is_dangerous_id :: "op_env \<Rightarrow> string \<Rightarrow> bool" where
  "is_dangerous_id env task_id \<longleftrightarrow>
     (case List.find (\<lambda>d. td_id d = task_id) (oe_catalog env) of
        None \<Rightarrow> False | Some task \<Rightarrow> td_risk_level task = Dangerous)"

definition phase_run_status :: "operation_phase \<Rightarrow> operation_status" where
  "phase_run_status phase = (if phase = PhExecute then OpRunning else OpVerifying)"

text \<open>What a step on a server needs in the tables.\<close>

definition step_allowed :: "op_env \<Rightarrow> uuid \<Rightarrow> operation_phase \<Rightarrow> string \<Rightarrow> op_db \<Rightarrow> bool" where
  "step_allowed env run phase task_id db \<longleftrightarrow>
     phase \<in> {PhExecute, PhVerify} \<and> status_of_run db run = Some (phase_run_status phase)
     \<and> (is_dangerous_id env task_id \<longrightarrow> restore_ready db run)"

definition entry_allowed :: "op_env \<Rightarrow> op_effect \<times> op_db \<Rightarrow> bool" where
  "entry_allowed env entry =
     (case entry of
        (EffStep run phase call, db) \<Rightarrow> step_allowed env run phase (sl_task_id call) db
      | _ \<Rightarrow> True)"

text \<open>The primary keys of the three tables.\<close>

definition core_keys :: "op_db \<Rightarrow> bool" where
  "core_keys db \<longleftrightarrow> distinct (map or_id (odb_runs db)) \<and> distinct (map orp_id (odb_points db))
     \<and> distinct (map ori_id (odb_items db))"

text \<open>Every entry of the log passes a test, and the keys are unique.\<close>

definition sane :: "(op_effect \<times> op_db \<Rightarrow> bool) \<Rightarrow> op_state \<Rightarrow> bool" where
  "sane allowed s \<longleftrightarrow> list_all allowed (ox_log s) \<and> core_keys (ox_db s)"

lemma core_eq:
  assumes "core s = core t"
  shows "sane allowed s = sane allowed t" "status_of_run (ox_db s) run = status_of_run (ox_db t) run"
    "restore_ready (ox_db s) run = restore_ready (ox_db t) run"
    "step_allowed env run phase task_id (ox_db s) = step_allowed env run phase task_id (ox_db t)"
    "items_of (ox_db s) p = items_of (ox_db t) p" "point_row (ox_db s) p = point_row (ox_db t) p"
  using assms
  by (simp_all add: core_def sane_def core_keys_def status_of_run_def run_row_def restore_ready_def items_of_def
      step_allowed_def point_row_def)

text \<open>A condition on the restore points and their items only.\<close>

definition restore_part :: "(op_db \<Rightarrow> bool) \<Rightarrow> bool" where
  "restore_part Q \<longleftrightarrow> (\<forall>db db'. odb_points db = odb_points db' \<longrightarrow> odb_items db = odb_items db' \<longrightarrow>
     Q db = Q db')"

definition in_phase ::
  "op_env \<Rightarrow> run_context \<Rightarrow> operation_phase \<Rightarrow> (op_db \<Rightarrow> bool) \<Rightarrow> op_state \<Rightarrow> bool" where
  "in_phase env c phase Q s \<longleftrightarrow>
     sane (entry_allowed env) s \<and> step_allowed env (rc_run c) phase (td_id (rc_task c)) (ox_db s) \<and> Q (ox_db s)"

lemma restore_partD: "restore_part Q \<Longrightarrow> core s = core t \<Longrightarrow> Q (ox_db s) = Q (ox_db t)"
  unfolding restore_part_def core_def by blast

lemma keeps_quiet_sane: "quiet m \<Longrightarrow> keeps (sane allowed) m"
  by (erule quiet_keeps) (rule core_eq(1))

lemma keeps_quiet_phase:
  assumes "restore_part Q" "quiet m"
  shows "keeps (in_phase env c phase Q) m"
  using assms(2)
proof (rule quiet_keeps)
  fix s t :: op_state
  assume "core s = core t"
  from core_eq(1,4) [OF this] restore_partD [OF assms(1) this] show "in_phase env c phase Q s = in_phase env c phase Q t"
    by (simp add: in_phase_def)
qed

lemma keeps_execute_step:
  assumes rp: "restore_part Q"
  shows "keeps (in_phase env c phase Q) (execute_step env' (rc_run c) phase (call_of c step))"
proof -
  have log: "keeps (in_phase env c phase Q) (log_effect (EffStep (rc_run c) phase (call_of c step)))"
    by (rule keepsI)
      (simp add: log_effect_def in_phase_def sane_def entry_allowed_def call_of_def)
  have ins: "quiet_db (\<lambda>db. (Inr (), db\<lparr>odb_executions := v # odb_executions db\<rparr>))" for v
    by (simp add: quiet_db_def)
  show ?thesis
    unfolding execute_step_def
    by (rule keeps_bind [OF log])
      (intro keeps_quiet_phase [OF rp] quiet_intros, auto split: sum.split intro!: quiet_intros ins)
qed

lemma keeps_run_phase:
  assumes rp: "restore_part Q"
  shows "keeps (in_phase env c phase Q) (run_phase env' c phase index steps output)"
proof (induction steps arbitrary: index "output")
  case (Cons step steps)
  have tail: "keeps (in_phase env c phase Q)
      (case execution of
         Inl e \<Rightarrow> bind_st (fail_step env' (rc_run c) phase index e)
                    (\<lambda>_. ret_st (Some (operation_status_for_error e), output))
       | Inr details \<Rightarrow>
           let rec = ed_record details in
           bind_st (ox_finish_executed env' (rc_run c) phase index
                      (fst (statuses_for_execution (er_status rec))) rec) (\<lambda>_.
             case phase_status rec of
               None \<Rightarrow> run_phase env' c phase (Suc index) steps output
             | Some status \<Rightarrow> bind_st (ox_skip_pending_steps env' (rc_run c) phase (Suc index))
                 (\<lambda>_. ret_st (Some status, output))))" for execution and "output"
    by (cases execution)
      (auto simp: Let_def split: option.split
        intro!: keeps_bind Cons.IH keeps_quiet_phase [OF rp quiet_steps(4)]
          keeps_quiet_phase [OF rp quiet_steps(2)] keeps_quiet_phase [OF rp quiet_fail_step] keeps_ret)
  show ?case
    by (simp only: run_phase.simps)
      (auto simp: Let_def intro!: keeps_bind keeps_if keeps_execute_step [OF rp] tail keeps_ret
        keeps_quiet_phase [OF rp quiet_steps(1)] keeps_quiet_phase [OF rp quiet_steps(2)]
        keeps_quiet_phase [OF rp quiet_basic(3)])
qed (simp add: keeps_ret)


section \<open>Calls that send no step\<close>

definition core_keys_db :: "(op_db, 'a) st \<Rightarrow> bool" where
  "core_keys_db m \<longleftrightarrow> (\<forall>db. core_keys db \<longrightarrow> core_keys (snd (m db)))"

named_theorems sane_intros \<open>calls that keep the log and the keys\<close>

lemma quiet_db_keys [sane_intros]: "quiet_db m \<Longrightarrow> core_keys_db m"
  by (simp add: quiet_db_def core_keys_db_def core_keys_def)

lemma keys_runs [simp]: "core_keys (snd (update_op_runs p (\<lambda>r. f r) db)) = core_keys db"
  if "\<And>r. or_id (f r) = or_id r"
  using that by (simp add: update_op_runs_def core_keys_def upd_where_keys)

lemma keys_points [simp]: "core_keys (snd (update_points p (\<lambda>r. f r) db)) = core_keys db"
  if "\<And>r. orp_id (f r) = orp_id r"
  using that by (simp add: update_points_def core_keys_def upd_where_keys)

lemma keys_items [simp]: "core_keys (snd (update_items p (\<lambda>r. f r) db)) = core_keys db"
  if "\<And>r. ori_id (f r) = ori_id r"
  using that by (simp add: update_items_def core_keys_def upd_where_keys)

lemma core_keys_runs [sane_intros]:
  "core_keys_db (op_transition run next now)"
  "core_keys_db (op_set_result encode run result now)"
  "core_keys_db (op_start_personal_script run now)"
  "core_keys_db (op_create draft run now)"
  by (auto simp: core_keys_db_def op_transition_def op_set_result_def op_start_personal_script_def
      commit_one_def Let_def split: option.split sum.split)
    (auto simp: op_create_def core_keys_def run_row_def row_by_None new_run_row_def image_iff
        split: sum.split)

lemma core_keys_points [sane_intros]:
  "core_keys_db (rs_create point_draft i now)"
  "core_keys_db (rs_add_item encode item_draft j)"
  "core_keys_db (rs_mark_available i now)"
  "core_keys_db (rs_attach_remote_asset i asset expires_at now)"
  "core_keys_db (rs_mark_remote_rollback_observed i now)"
  "core_keys_db (rs_mark_creation_failed i now)"
  "core_keys_db (rs_mark_item_rolling_back j)"
  "core_keys_db (rs_finish_item_rollback j status message)"
  "core_keys_db (rs_begin_rollback i now)"
  "core_keys_db (rs_finish_rollback i point_status now)"
         apply (auto simp: core_keys_db_def rs_create_def core_keys_def point_row_def row_by_None
      new_point_row_def split: sum.split option.split)[1]
        apply (auto simp: core_keys_db_def rs_add_item_def core_keys_def row_by_None new_item_row_def
      split: sum.split option.split)[1]
  by (simp_all add: core_keys_db_def rs_mark_available_def one_row_def rs_attach_remote_asset_def
      rs_mark_remote_rollback_observed_def rs_mark_creation_failed_def rs_mark_item_rolling_back_def
      rs_finish_item_rollback_def rs_begin_rollback_def rs_finish_rollback_def Let_def
      split: sum.split option.split)

lemma sane_on_db [sane_intros]: "core_keys_db m \<Longrightarrow> keeps (sane allowed) (on_db m)"
  by (simp add: keeps_def sane_def on_db_def core_keys_db_def split_beta)

lemma sane_with_now [sane_intros]: "(\<And>now. core_keys_db (m now)) \<Longrightarrow> keeps (sane allowed) (with_now env' m)"
  unfolding with_now_def
  by (rule keeps_bind [OF keeps_quiet_sane [OF quiet_basic(3)] sane_on_db])

lemma sane_attempt [sane_intros]: "keeps (sane allowed) m \<Longrightarrow> keeps (sane allowed) (attempt m)"
  by (simp add: keeps_def attempt_def split_beta)

lemma sane_discard [sane_intros]: "keeps (sane allowed) m \<Longrightarrow> keeps (sane allowed) (discard m)"
  by (simp add: keeps_def discard_def)

text \<open>
  A test of the entries of the log that lets every effect through which is not a step. All calls but
  the runs themselves keep such a log; the lemmas are proved once for every test of this kind.
\<close>

locale effect_log =
  fixes allowed :: "op_effect \<times> op_db \<Rightarrow> bool"
  assumes command: "allowed (EffCommand server command, db)"
    and command_at: "allowed (EffCommandAt server host command, db)"
    and upload: "allowed (EffUpload server path, db)"
    and commit_host: "allowed (EffCommitHost server host, db)"
begin

lemma sane_log_effect [sane_intros]:
  "keeps (sane allowed) (log_effect (EffCommand a b))" "keeps (sane allowed) (log_effect (EffCommandAt a b d))"
  "keeps (sane allowed) (log_effect (EffUpload a b))" "keeps (sane allowed) (log_effect (EffCommitHost a b))"
  by (simp_all add: keeps_def log_effect_def sane_def command command_at upload commit_host)

lemmas sane_rules = keeps_bind keeps_ret keeps_fail keeps_if sane_intros keeps_case_sum
  keeps_case_option keeps_case_prod keeps_let quiet_basic [THEN keeps_quiet_sane]
  quiet_steps [THEN keeps_quiet_sane] quiet_require_details [THEN keeps_quiet_sane]
  quiet_finish_backup_steps [THEN keeps_quiet_sane] quiet_create_steps [THEN keeps_quiet_sane]

lemma sane_remote [sane_intros]:
  "keeps (sane allowed) (execute_authenticated env' server command)"
  "keeps (sane allowed) (connect env' server)"
  unfolding execute_authenticated_def connect_def by (intro sane_rules)+

lemma sane_checked [sane_intros]: "keeps (sane allowed) (execute_checked env' server command)"
  unfolding execute_checked_def by (intro sane_rules sane_remote)

lemma sane_probe [sane_intros]: "keeps (sane allowed) (ox_probe_privilege env' server)"
  unfolding ox_probe_privilege_def by (intro sane_rules sane_remote)


lemma sane_capture_file [sane_intros]:
  "keeps (sane allowed) (capture_file env' task_id kind target relative)"
  unfolding capture_file_def by (intro sane_rules)

lemma sane_capture_snapshot [sane_intros]:
  "keeps (sane allowed) (capture_snapshot env' server task_id kind target relative mode)"
  unfolding capture_snapshot_def by (intro sane_rules sane_intros)

lemma sane_capture_item [sane_intros]:
  "keeps (sane allowed) (capture_item env' point run server task_id impl parameters mode ordinal item)"
  unfolding capture_item_def by (intro sane_rules sane_intros)

lemma sane_capture_connected [sane_intros]:
  "keeps (sane allowed) (capture_connected env' point run server task_id impl parameters mode ordinal items)"
  by (induction items arbitrary: ordinal) (simp_all add: keeps_ret keeps_bind sane_capture_item)

lemma sane_or_failed [sane_intros]:
  "keeps (sane allowed) m \<Longrightarrow> keeps (sane allowed) (or_creation_failed env' point m)"
  "keeps (sane allowed) m \<Longrightarrow> keeps (sane allowed) (or_try_creation_failed env' point m)"
  "keeps (sane allowed) m \<Longrightarrow> keeps (sane allowed) (or_rollback_failed env' point m)"
  unfolding or_creation_failed_def or_try_creation_failed_def or_rollback_failed_def
  by (intro sane_rules sane_intros; assumption)+

lemma sane_rs_require [sane_intros]: "keeps (sane allowed) (rs_require point e)"
  unfolding rs_require_def by (intro sane_rules)

lemma sane_capture [sane_intros]:
  "keeps (sane allowed) (capture env' run server task_id impl items parameters)"
  unfolding capture_def by (intro sane_rules sane_intros)

lemma sane_transition [sane_intros]: "keeps (sane allowed) (ox_transition env' run next)"
  unfolding ox_transition_def by (intro sane_rules)

lemma sane_set_result [sane_intros]: "keeps (sane allowed) (ox_set_result env' run result)"
  unfolding ox_set_result_def by (intro sane_rules)

lemma sane_read_asset [sane_intros]: "keeps (sane allowed) (read_verified_asset env' item)"
  unfolding read_verified_asset_def by (intro sane_rules)

lemma sane_restore_remote_file [sane_intros]:
  "keeps (sane allowed) (restore_remote_file env' server item mode)"
  unfolding restore_remote_file_def Let_def by (intro sane_rules sane_intros)

lemma sane_rollback_item [sane_intros]:
  "keeps (sane allowed) (rollback_item env' server task_id item mode)"
  unfolding rollback_item_def by (intro sane_rules sane_intros)

lemma sane_rollback_items [sane_intros]:
  "keeps (sane allowed) (rollback_items env' server task_id mode items tally)"
proof (induction items arbitrary: tally)
  case (Cons item items)
  then show ?case
    by (cases tally) (simp only: rollback_items.simps, intro sane_rules sane_intros)
qed (simp add: keeps_ret)

lemma sane_rollback [sane_intros]: "keeps (sane allowed) (rollback env' point)"
  unfolding rollback_def by (intro sane_rules sane_intros)

lemma sane_finish_dangerous_failure [sane_intros]:
  "keeps (sane allowed) (finish_dangerous_failure env' run point failure)"
  unfolding finish_dangerous_failure_def by (intro sane_rules sane_intros)

lemma sane_execute_at [sane_intros]: "keeps (sane allowed) (execute_at env' server host command mode)"
  unfolding execute_at_def by (intro sane_rules)

lemma sane_commit_host [sane_intros]: "keeps (sane allowed) (commit_host env' server host)"
  unfolding commit_host_def by (intro sane_rules)

lemma sane_verify_ip_change [sane_intros]:
  "keeps (sane allowed) (verify_ip_change env' c point recovery mode output)"
  unfolding verify_ip_change_def by (intro sane_rules sane_intros)

lemma sane_prepare_recovery [sane_intros]: "keeps (sane allowed) (prepare_recovery env' c plan point)"
  unfolding prepare_recovery_def attach_remote_asset_def by (intro sane_rules sane_intros)

lemma sane_preflight_parts [sane_intros]:
  "keeps (sane allowed) (begin_preflight env' server_id request)"
  "keeps (sane allowed) (mark_preflight_failed env' run)"
  unfolding begin_preflight_def mark_preflight_failed_def by (intro sane_rules sane_intros)+

lemma sane_or_preflight_failed [sane_intros]:
  "keeps (sane allowed) m \<Longrightarrow> keeps (sane allowed) (or_preflight_failed env' run m)"
  unfolding or_preflight_failed_def by (intro sane_rules sane_intros)

lemma sane_complete_preflight [sane_intros]:
  "keeps (sane allowed) (complete_preflight env' run task parameters capabilities server permission current)"
  unfolding complete_preflight_def by (intro sane_rules sane_intros)

lemma sane_preview_steps [sane_intros]:
  "keeps (sane allowed) (preview_steps_loop env' server mode steps summary)"
  by (induction steps arbitrary: summary)
    (simp_all only: preview_steps_loop.simps, (intro sane_rules sane_intros; simp)+)

lemma sane_preflight [sane_intros]:
  "keeps (sane allowed) (optional_privilege env' server task)"
  "keeps (sane allowed) (run_dangerous_preview env' server steps mode)"
  "keeps (sane allowed) (preflight_with_capabilities env' server_id request capabilities)"
  unfolding optional_privilege_def run_dangerous_preview_def preflight_with_capabilities_def
  by (intro sane_rules sane_intros)+

lemma sane_preflight_all [sane_intros]: "keeps (sane allowed) (preflight env' server_id request)"
  unfolding preflight_def by (intro sane_rules sane_intros)

lemma sane_matching_preview [sane_intros]:
  "keeps (sane allowed) (require_matching_preview preview server_id task summary)"
  unfolding require_matching_preview_def by (intro sane_rules)

lemma sane_rollback_operation [sane_intros]: "keeps (sane allowed) (rollback_operation env' point)"
  unfolding rollback_operation_def by (intro sane_rules sane_intros)

lemma sane_cancel [sane_intros]: "keeps (sane allowed) (cancel_operation env' run)"
  unfolding cancel_operation_def by (intro sane_rules sane_intros)

lemma sane_reconcile_parts [sane_intros]:
  "keeps (sane allowed) (reach_for_reconcile env' server target)"
  "keeps (sane allowed) (inspect_recovery env' server recovery mode current)"
  "keeps (sane allowed) (mark_remote_rollback_observed env' run)"
  unfolding reach_for_reconcile_def inspect_recovery_def mark_remote_rollback_observed_def
  by (intro sane_rules sane_intros)+

lemma sane_settle [sane_intros]: "keeps (sane allowed) (settle_reconciled env' details recovery state)"
  by (cases state) (simp_all only: settle_reconciled_def Let_def ip_recovery_state.case,
    (intro sane_rules sane_intros)+)

lemma sane_reconcile [sane_intros]: "keeps (sane allowed) (reconcile_ip_change env' run)"
  unfolding reconcile_ip_change_def by (intro sane_rules sane_intros)

end

text \<open>The test of the claims, and the stricter one of a log without any step.\<close>

fun no_step :: "op_effect \<times> op_db \<Rightarrow> bool" where
  "no_step (EffStep run phase call, db) \<longleftrightarrow> False"
| "no_step _ \<longleftrightarrow> True"

definition unsent_entry :: "op_env \<Rightarrow> op_effect \<times> op_db \<Rightarrow> bool" where
  "unsent_entry env e \<longleftrightarrow> entry_allowed env e \<and> no_step e"

interpretation audit: effect_log "entry_allowed env" for env
  by unfold_locales (simp_all add: entry_allowed_def)

interpretation unsent: effect_log "unsent_entry env" for env
  by unfold_locales (simp_all add: unsent_entry_def entry_allowed_def)

abbreviation audited :: "op_env \<Rightarrow> op_state \<Rightarrow> bool" where
  "audited env \<equiv> sane (entry_allowed env)"

abbreviation untouched :: "op_env \<Rightarrow> op_state \<Rightarrow> bool" where
  "untouched env \<equiv> sane (unsent_entry env)"

lemma untouched_audited: "untouched env s \<Longrightarrow> audited env s"
  by (auto simp: sane_def unsent_entry_def list_all_iff)

end
