(* ===== verification/Op_Outcome.thy ===== *)
theory Op_Outcome
  imports Op_Safety
begin

text \<open>
  What a service call leaves behind: a change only after a complete restore point, a terminal status
  for every run that returns, and what the statuses \<open>failed\<close>, \<open>cancelled\<close> and \<open>rolled back\<close> promise.
\<close>

section \<open>Calls that leave the tables alone\<close>

definition db_is :: "op_db \<Rightarrow> op_state \<Rightarrow> bool" where
  "db_is db s \<longleftrightarrow> ox_db s = db"

lemma db_basic:
  "keeps (db_is db) (ask f)" "keeps (db_is db) (ask_res g)" "keeps (db_is db) (look h)"
  "keeps (db_is db) (from_res r)" "keeps (db_is db) (log_effect eff)"
  by (simp_all add: keeps_def db_is_def ask_def ask_res_def look_def from_res_def log_effect_def)

lemma db_attempt: "keeps (db_is db) m \<Longrightarrow> keeps (db_is db) (attempt m)"
  and db_discard: "keeps (db_is db) m \<Longrightarrow> keeps (db_is db) (discard m)"
  by (simp_all add: keeps_def attempt_def discard_def split_beta)

lemmas db_rules = keeps_bind keeps_ret keeps_fail keeps_if keeps_case_sum keeps_case_option
  keeps_case_prod keeps_let db_basic db_attempt db_discard

lemma db_remote:
  "keeps (db_is db) (execute_authenticated env server command)"
  "keeps (db_is db) (connect env server)"
  "keeps (db_is db) (rs_require point e)"
  unfolding execute_authenticated_def connect_def rs_require_def by (intro db_rules)+

lemma db_checked: "keeps (db_is db) (execute_checked env server command)"
  unfolding execute_checked_def by (intro db_rules db_remote)

lemma db_probe: "keeps (db_is db) (ox_probe_privilege env server)"
  unfolding ox_probe_privilege_def by (intro db_rules db_remote)

lemma db_captured:
  "keeps (db_is db) (capture_file env task_id kind target relative)"
  "keeps (db_is db) (capture_snapshot env server task_id kind target relative mode)"
  unfolding capture_file_def capture_snapshot_def by (intro db_rules db_remote)+

lemma db_restore_remote_file: "keeps (db_is db) (restore_remote_file env server item mode)"
  unfolding restore_remote_file_def Let_def by (intro db_rules db_checked db_remote)

lemma db_read_asset: "keeps (db_is db) (read_verified_asset env item)"
  unfolding read_verified_asset_def by (intro db_rules)

lemma db_rollback_item: "keeps (db_is db) (rollback_item env server task_id item mode)"
  unfolding rollback_item_def
  by (intro db_rules db_checked db_read_asset db_restore_remote_file)

lemma same_db: "(\<And>db. keeps (db_is db) m) \<Longrightarrow> ox_db (snd (m s)) = ox_db s"
  by (simp add: keeps_def db_is_def)

section \<open>Transitions\<close>

lemma transition_post:
  assumes "ox_transition env run next s = (Inr x, s')"
  shows "status_of_run (ox_db s') run = Some next" "odb_points (ox_db s') = odb_points (ox_db s)"
    "odb_items (ox_db s') = odb_items (ox_db s)" "ox_log s' = ox_log s"
    "odb_steps (ox_db s') = odb_steps (ox_db s)"
proof -
  have t: "op_transition run next (oe_now env (ox_tick s)) (ox_db s) = (Inr x, ox_db s')"
      "ox_log s' = ox_log s"
    using assms
    by (auto simp: ox_transition_def with_now_def bind_st_def ask_def on_db_def split: prod.splits)
  show "ox_log s' = ox_log s" by (rule t(2))
  obtain r where r: "run_row (ox_db s) run = Some r" "op_can_transition (or_status r) next"
    and u: "ox_db s' = snd (update_op_runs (\<lambda>q. or_id q = run \<and> or_status q = or_status r)
      (\<lambda>q. q\<lparr>or_status := next, or_updated_at := oe_now env (ox_tick s),
             or_finished_at := (if op_is_terminal next then Some (oe_now env (ox_tick s)) else None)\<rparr>)
      (ox_db s))"
    using t(1) by (auto simp: op_transition_def commit_one_def Let_def split: option.splits if_splits sum.splits)
  show "odb_points (ox_db s') = odb_points (ox_db s)" "odb_items (ox_db s') = odb_items (ox_db s)"
    "odb_steps (ox_db s') = odb_steps (ox_db s)"
    by (simp_all add: u update_op_runs_def)
  show "status_of_run (ox_db s') run = Some next"
    using r(1) by (simp add: u status_of_run_def run_row_def update_op_runs_def row_by_upd_where)
qed

lemma require_details_post:
  assumes "require_details run s = (Inr d, s')"
  shows "s' = s" "status_of_run (ox_db s) run = Some (or_status (od_run d))" "or_id (od_run d) = run"
  using assms
  by (auto simp: require_details_def bind_st_def look_def from_res_def ok_or_def op_get_def
      status_of_run_def run_row_def dest: row_by_Some split: option.splits)

lemma keeps_result: "keeps I m \<Longrightarrow> I s \<Longrightarrow> m s = (r, s') \<Longrightarrow> I s'"
  by (metis keepsD snd_conv)

definition no_condition :: "op_db \<Rightarrow> bool" where
  "no_condition db \<longleftrightarrow> True"

lemma no_condition_part: "restore_part no_condition"
  by (simp add: restore_part_def no_condition_def)

section \<open>Restore points in use\<close>

text \<open>The restore point of a run has been applied: every item is rolled back, or was left out.\<close>

definition item_done :: "op_restore_item \<Rightarrow> bool" where
  "item_done x \<longleftrightarrow> ori_status x \<in> {RiRolledBack, RiSkipped}"

definition undone :: "op_db \<Rightarrow> uuid \<Rightarrow> bool" where
  "undone db run \<longleftrightarrow>
     list_ex (\<lambda>p. orp_run_id p = run \<and> orp_status p = RpRolledBack
       \<and> list_all item_done (items_of db (orp_id p))) (odb_points db)"

text \<open>The point belongs to the run.\<close>

definition owner :: "uuid \<Rightarrow> uuid \<Rightarrow> op_db \<Rightarrow> bool" where
  "owner point run db \<longleftrightarrow> map_option orp_run_id (point_row db point) = Some run"

text \<open>
  While a rollback is at work: the items still to be handled are rows of the table, and unless
  something has failed every other item of the point is done.
\<close>

definition at_work :: "uuid \<Rightarrow> op_restore_item list \<Rightarrow> string list \<Rightarrow> op_db \<Rightarrow> bool" where
  "at_work point items failures db \<longleftrightarrow>
     set items \<subseteq> set (items_of db point) \<and> distinct (map ori_id items)
     \<and> (failures = [] \<longrightarrow> (\<forall>x \<in> set (items_of db point). item_done x \<or> x \<in> set items))"

lemma one_row_Inr:
  assumes "one_row u m db = (Inr x, db')"
  shows "db' = snd (u db)" "fst (u db) = 1"
  using assms by (auto simp: one_row_def ensure_changed_def split: if_splits)

lemma items_update:
  assumes "one_row (update_items (\<lambda>x. ori_id x = i \<and> P x) f) m db = (Inr y, db')"
    and "core_keys db" and "x0 \<in> set (items_of db point)" "ori_id x0 = i"
    and "\<And>x. ori_id (f x) = ori_id x" "\<And>x. ori_point_id (f x) = ori_point_id x"
  shows "items_of db' point = map (\<lambda>x. if ori_id x = i then f x else x) (items_of db point)"
    and "odb_points db' = odb_points db" and "core_keys db'" and "P x0"
proof -
  note db' = one_row_Inr [OF assms(1)]
  have d: "distinct (map ori_id (odb_items db))" using assms(2) by (simp add: core_keys_def)
  have x0: "x0 \<in> set (odb_items db)" using assms(3) by (simp add: items_of_def)
  have row: "row_by ori_id i (odb_items db) = Some x0"
    using row_by_distinct [OF d x0] assms(4) by simp
  then show P: "P x0"
    using db'(2) affected_by_key [OF d, of i P]
    by (cases "P x0") (simp_all add: update_items_def)
  have "x = x0" if "x \<in> set (odb_items db)" "ori_id x = i" for x
    using row_by_distinct [OF d that(1)] that(2) row by simp
  with P have same: "(if ori_id x = i \<and> P x then f x else x) = (if ori_id x = i then f x else x)"
    if "x \<in> set (odb_items db)" for x
    using that by auto
  have "upd_where (\<lambda>x. ori_id x = i \<and> P x) f (odb_items db)
      = map (\<lambda>x. if ori_id x = i then f x else x) (odb_items db)"
    by (simp add: upd_where_def same)
  moreover have "filter (\<lambda>x. ori_point_id x = point) (map (\<lambda>x. if ori_id x = i then f x else x) xs)
      = map (\<lambda>x. if ori_id x = i then f x else x) (filter (\<lambda>x. ori_point_id x = point) xs)" for xs
    by (induction xs) (simp_all add: assms(6))
  ultimately show "items_of db' point = map (\<lambda>x. if ori_id x = i then f x else x) (items_of db point)"
    unfolding db'(1) by (simp add: update_items_def items_of_def)
  show "odb_points db' = odb_points db" unfolding db'(1) by (simp add: update_items_def)
  show "core_keys db'" unfolding db'(1) using assms(2) by (simp add: keys_items [OF assms(5)])
qed

lemma at_work_update:
  assumes u: "one_row (update_items (\<lambda>x. ori_id x = ori_id item \<and> P x) f) m db = (Inr y, db')"
    and k: "core_keys db" and w: "at_work point (item' # items) failures db"
    and item: "ori_id item' = ori_id item"
    and f: "\<And>x. ori_id (f x) = ori_id x" "\<And>x. ori_point_id (f x) = ori_point_id x"
  shows "at_work point (f item' # items) failures db'"
proof -
  have m: "item' \<in> set (items_of db point)" using w by (simp add: at_work_def)
  note r = items_update(1) [OF u k m item f]
  have "ori_id item \<notin> ori_id ` set items" using w item by (simp add: at_work_def)
  then have other: "ori_id x \<noteq> ori_id item" if "x \<in> set items" for x
    using that by (metis imageI)
  have "distinct (map ori_id (items_of db point))"
    using k distinct_filter by (simp add: core_keys_def items_of_def distinct_map_filter)
  then have uniq: "x = item'" if "x \<in> set (items_of db point)" "ori_id x = ori_id item" for x
    using that m item by (auto simp: distinct_map inj_on_def)
  have sub: "set (f item' # items) \<subseteq> set (items_of db' point)"
  proof
    fix x assume "x \<in> set (f item' # items)"
    then consider "x = f item'" | "x \<in> set items" by auto
    then show "x \<in> set (items_of db' point)"
    proof cases
      case 1
      then show ?thesis using m item by (auto simp: r intro: image_eqI [of _ _ item'])
    next
      case 2
      then have "x \<in> set (items_of db point)" using w by (auto simp: at_work_def)
      then show ?thesis using other [OF 2] by (auto simp: r intro: image_eqI [of _ _ x])
    qed
  qed
  have rest: "item_done x \<or> x \<in> set (f item' # items)"
    if "x \<in> set (items_of db' point)" "failures = []" for x
  proof -
    have "x \<in> (\<lambda>z. if ori_id z = ori_id item then f z else z) ` set (items_of db point)"
      using that(1) by (simp only: r set_map)
    then obtain z where
      z: "z \<in> set (items_of db point)" "x = (if ori_id z = ori_id item then f z else z)"
      by blast
    show ?thesis
    proof (cases "ori_id z = ori_id item")
      case True
      then show ?thesis using uniq [OF z(1)] z(2) by simp
    next
      case False
      then have "z \<noteq> item'" using item by auto
      then show ?thesis using w z False that(2) by (auto simp: at_work_def)
    qed
  qed
  have "distinct (map ori_id (f item' # items))" using w f(1) by (simp add: at_work_def)
  with sub rest show ?thesis by (auto simp: at_work_def)
qed


definition tally_ok :: "uuid \<Rightarrow> uuid \<Rightarrow> op_restore_item list \<Rightarrow> rollback_tally \<Rightarrow> op_db \<Rightarrow> bool" where
  "tally_ok point run items tally db \<longleftrightarrow>
     core_keys db \<and> owner point run db \<and> at_work point items (fst (snd tally)) db"

definition working :: "(op_effect \<times> op_db \<Rightarrow> bool) \<Rightarrow> uuid \<Rightarrow> uuid \<Rightarrow> op_restore_item list \<Rightarrow> rollback_tally \<Rightarrow> op_state \<Rightarrow> bool"
where
  "working allowed point run items tally s \<longleftrightarrow> sane allowed s \<and> tally_ok point run items tally (ox_db s)"

lemma owner_points: "odb_points db' = odb_points db \<Longrightarrow> owner point run db' = owner point run db"
  by (simp add: owner_def point_row_def)

lemma on_db_Inr:
  assumes "on_db m s = (Inr x, s')"
  obtains db' where "m (ox_db s) = (Inr x, db')" "s' = s\<lparr>ox_db := db'\<rparr>"
  using assms by (auto simp: on_db_def split: prod.splits)

lemma sane_db: "sane allowed (s\<lparr>ox_db := db\<rparr>) \<longleftrightarrow> list_all allowed (ox_log s) \<and> core_keys db"
  by (simp add: sane_def)

lemma working_update:
  assumes "on_db (one_row (update_items (\<lambda>x. ori_id x = ori_id item \<and> P x) f) m) s = (Inr y, s')"
    and "working allowed point run (item' # items) tally s" "ori_id item' = ori_id item"
    and "\<And>x. ori_id (f x) = ori_id x" "\<And>x. ori_point_id (f x) = ori_point_id x"
  shows "working allowed point run (f item' # items) tally s'"
proof -
  obtain db' where u: "one_row (update_items (\<lambda>x. ori_id x = ori_id item \<and> P x) f) m (ox_db s) = (Inr y, db')"
    and s': "s' = s\<lparr>ox_db := db'\<rparr>" by (rule on_db_Inr [OF assms(1)])
  have k: "core_keys (ox_db s)" and w: "at_work point (item' # items) (fst (snd tally)) (ox_db s)"
    and o: "owner point run (ox_db s)" and l: "list_all allowed (ox_log s)"
    using assms(2) by (auto simp: working_def tally_ok_def sane_def)
  have "item' \<in> set (items_of (ox_db s) point)" using w by (simp add: at_work_def)
  note r = items_update [OF u k this assms(3-5)]
  show ?thesis
    using at_work_update [OF u k w assms(3-5)] r(2,3) o l
    by (simp add: working_def tally_ok_def s' sane_db owner_points [OF r(2)])
qed

lemma working_drop:
  assumes "working allowed point run (item # items) (n, failures, u) s"
    and "item_done item \<or> failures' \<noteq> []" "failures' = [] \<Longrightarrow> failures = []"
  shows "working allowed point run items (n', failures', u') s"
  using assms by (auto simp: working_def tally_ok_def at_work_def)

definition rolling :: "op_restore_item \<Rightarrow> op_restore_item" where
  "rolling item = item\<lparr>ori_status := RiRollingBack, ori_error_summary := None\<rparr>"

lemma working_sane: "working allowed point run items tally s \<Longrightarrow> sane allowed s"
  by (simp add: working_def)

text \<open>All items are handled: without a failure every item of the point is done.\<close>

definition handled :: "(op_effect \<times> op_db \<Rightarrow> bool) \<Rightarrow> uuid \<Rightarrow> uuid \<Rightarrow> rollback_tally \<Rightarrow> op_state \<Rightarrow> bool" where
  "handled allowed point run t s \<longleftrightarrow> sane allowed s \<and> owner point run (ox_db s)
     \<and> (fst (snd t) = [] \<longrightarrow> list_all item_done (items_of (ox_db s) point))"

lemma working_handled:
  "working allowed point run items t s \<Longrightarrow> items = [] \<or> fst (snd t) \<noteq> [] \<Longrightarrow> handled allowed point run t s"
  by (auto simp: working_def handled_def tally_ok_def at_work_def list_all_iff)

lemma with_now_Inr:
  assumes "with_now env m s = (Inr x, s')"
  obtains now db' where "m now (ox_db s) = (Inr x, db')" "ox_db s' = db'" "ox_log s' = ox_log s"
  using assms
  by (auto simp: with_now_def bind_st_def ask_def on_db_def split: prod.splits)

lemma points_update:
  assumes "\<And>p. orp_id (f p) = orp_id p" "\<And>p. orp_run_id (f p) = orp_run_id p"
  shows "owner i run (snd (update_points (\<lambda>p. orp_id p = i \<and> P p) f db)) = owner i run db"
    "odb_items (snd (update_points (\<lambda>p. orp_id p = i \<and> P p) f db)) = odb_items db"
    "point_row (snd (update_points (\<lambda>p. orp_id p = i \<and> P p) f db)) i
       = map_option (\<lambda>p. if P p then f p else p) (point_row db i)"
  using assms(2)
  by (cases "row_by orp_id i (odb_points db)";
      simp add: owner_def point_row_def update_points_def
      row_by_upd_where [where key = orp_id and f = f, OF assms(1)])+

lemma begin_rollback_Inr:
  assumes "rs_begin_rollback i now db = (Inr x, db')"
  shows "owner i run db' = owner i run db" "odb_items db' = odb_items db"
proof -
  have "db' = snd (update_points (\<lambda>p. orp_id p = i \<and> orp_status p \<in> {RpAvailable, RpPartial, RpFailed})
      (\<lambda>p. p\<lparr>orp_status := RpRollingBack, orp_updated_at := now\<rparr>) db)"
    using assms by (auto simp: rs_begin_rollback_def Let_def split: if_splits option.splits)
  then show "owner i run db' = owner i run db" "odb_items db' = odb_items db"
    using points_update(1,2) [where f = "\<lambda>p. p\<lparr>orp_status := RpRollingBack, orp_updated_at := now\<rparr>"]
    by simp_all
qed

lemma finish_rollback_Inr:
  assumes "rs_finish_rollback i status now db = (Inr x, db')" "core_keys db"
  shows "owner i run db' = owner i run db" "odb_items db' = odb_items db"
    "map_option orp_status (point_row db' i) = Some status"
proof -
  let ?f = "\<lambda>p. p\<lparr>orp_status := status, orp_updated_at := now\<rparr>"
  let ?u = "update_points (\<lambda>p. orp_id p = i \<and> orp_status p = RpRollingBack) ?f"
  have "one_row ?u ''restore point is not being rolled back'' db = (Inr x, db')"
    using assms(1) by (simp add: rs_finish_rollback_def split: if_splits)
  note u = one_row_Inr [OF this]
  show "owner i run db' = owner i run db" "odb_items db' = odb_items db"
    unfolding u(1) by (rule points_update(1), simp, simp) (rule points_update(2), simp, simp)
  have d: "distinct (map orp_id (odb_points db))" using assms(2) by (simp add: core_keys_def)
  have "affected (\<lambda>p. orp_id p = i \<and> orp_status p = RpRollingBack) (odb_points db) = 1"
    using u(2) by (simp only: update_points_def fst_conv)
  then obtain p where "point_row db i = Some p" "orp_status p = RpRollingBack"
    unfolding affected_by_key [OF d] point_row_def by (auto split: option.splits if_splits)
  then show "map_option orp_status (point_row db' i) = Some status"
    unfolding u(1) by (subst points_update(3)) simp_all
qed

lemma rs_require_Inr:
  assumes "rs_require point e s = (Inr d, s')"
  shows "s' = s" "rs_get point (ox_db s) = Some d"
  using assms
  by (auto simp: rs_require_def bind_st_def look_def from_res_def ok_or_def split: option.splits)

lemma rs_get_items:
  assumes "rs_get point db = Some d" "core_keys db"
  shows "set (rd_items d) = set (items_of db point)" "distinct (map ori_id (rd_items d))"
    "point_row db point = Some (rd_point d)"
proof -
  have "rd_items d = sort_key ori_ordinal (items_of db point)"
    using assms(1) by (auto simp: rs_get_def rs_list_items_def)
  moreover have "distinct (map ori_id (items_of db point))"
    using assms(2) by (simp add: core_keys_def items_of_def distinct_map_filter)
  ultimately show "set (rd_items d) = set (items_of db point)" "distinct (map ori_id (rd_items d))"
    by (simp_all add: distinct_map)
  show "point_row db point = Some (rd_point d)" using assms(1) by (auto simp: rs_get_def)
qed

section \<open>The end of a failed change\<close>

definition restored :: "(op_effect \<times> op_db \<Rightarrow> bool) \<Rightarrow> (op_db \<Rightarrow> bool) \<Rightarrow> op_state \<Rightarrow> bool" where
  "restored allowed Q s \<longleftrightarrow> sane allowed s \<and> Q (ox_db s)"

lemma restored_sane: "restored allowed Q s \<Longrightarrow> sane allowed s"
  by (simp add: restored_def)

lemma restore_part_points:
  "restore_part (owner point run)" "restore_part (\<lambda>db. undone db run)"
  "restore_part (\<lambda>db. restore_ready db run)"
  by (simp_all add: restore_part_def owner_def point_row_def undone_def restore_ready_def items_of_def)

lemma restore_part_imp: "restore_part Q \<Longrightarrow> restore_part (\<lambda>db. P \<longrightarrow> Q db)"
  unfolding restore_part_def by blast

lemma restore_part_conj:
  assumes "restore_part Q" "restore_part R"
  shows "restore_part (\<lambda>db. Q db \<and> R db)"
  unfolding restore_part_def
proof (intro allI impI)
  fix db db' :: op_db assume e: "odb_points db = odb_points db'" "odb_items db = odb_items db'"
  have "Q db = Q db'" "R db = R db'" using assms e unfolding restore_part_def by blast+
  then show "(Q db \<and> R db) = (Q db' \<and> R db')" by simp
qed

lemmas restore_part_intros = restore_part_points restore_part_imp restore_part_conj

lemma triple_attempt:
  "triple I m Q E \<Longrightarrow> triple I (attempt m) (\<lambda>r s. case r of Inr x \<Rightarrow> Q x s | Inl _ \<Rightarrow> E s) E'"
  by (auto simp: triple_def attempt_def split: prod.splits sum.splits)

lemma rollback_outcome_status:
  assumes "rollback_outcome r = (step_status, run_status, message)"
  shows "op_is_terminal run_status" "run_status \<notin> {OpFailed, OpCancelled}"
    "run_status = OpRolledBack \<Longrightarrow> \<exists>d. r = Inr d \<and> orp_status (rd_point d) = RpRolledBack"
    "step_status \<in> {StSucceeded, StFailed, StUncertain}"
  using assms by (auto simp: rollback_outcome_def op_is_terminal_def split: sum.splits if_splits)

section \<open>The end of a run\<close>

text \<open>A call has ended with the details \<open>d\<close> of the run, which are those of the table.\<close>

definition ended :: "(op_effect \<times> op_db \<Rightarrow> bool) \<Rightarrow> uuid \<Rightarrow> operation_details \<Rightarrow> op_state \<Rightarrow> bool" where
  "ended allowed run d s \<longleftrightarrow> sane allowed s \<and> or_id (od_run d) = run
     \<and> status_of_run (ox_db s) run = Some (or_status (od_run d))
     \<and> op_is_terminal (or_status (od_run d))"

text \<open>The end of a run whose change was sent: never \<open>failed\<close> or \<open>cancelled\<close>.\<close>

definition changed_end :: "(op_effect \<times> op_db \<Rightarrow> bool) \<Rightarrow> uuid \<Rightarrow> operation_details \<Rightarrow> op_state \<Rightarrow> bool" where
  "changed_end allowed run d s \<longleftrightarrow> ended allowed run d s \<and> or_status (od_run d) \<notin> {OpFailed, OpCancelled}
     \<and> (or_status (od_run d) = OpRolledBack \<longrightarrow> undone (ox_db s) run)"

lemma keeps_db_part:
  assumes "\<And>db. keeps (db_is db) m" "keeps (sane allowed) m"
  shows "keeps (\<lambda>s. sane allowed s \<and> P (ox_db s)) m"
  using assms(2) same_db [OF assms(1)] by (simp add: keeps_def)

lemma triple_restored_quiet:
  assumes "restore_part Q" "quiet m"
  shows "triple (restored allowed Q) m (\<lambda>_. restored allowed Q) (sane allowed)"
proof (rule triple_keeps)
  show "keeps (restored allowed Q) m"
    using assms(2)
  proof (rule quiet_keeps)
    fix s t :: op_state
    assume "core s = core t"
    from core_eq(1) [OF this] restore_partD [OF assms(1) this]
    show "restored allowed Q s = restored allowed Q t" by (simp add: restored_def)
  qed
qed (rule restored_sane)

lemma statuses_terminal: "snd (statuses_for_execution e) = Some st \<Longrightarrow> op_is_terminal st"
  by (cases e) (auto simp: op_is_terminal_def)


section \<open>Calls under any test of the log\<close>

context effect_log
begin

lemma triple_sane: "keeps (sane allowed) m \<Longrightarrow> triple (sane allowed) m (\<lambda>_. sane allowed) (sane allowed)"
  by (rule triple_keeps)

lemma triple_sane_bind:
  "keeps (sane allowed) m \<Longrightarrow> (\<And>x. triple (sane allowed) (k x) Q (sane allowed)) \<Longrightarrow>
     triple (sane allowed) (bind_st m k) Q (sane allowed)"
  by (rule triple_keep)

lemma triple_transition:
  "triple (sane allowed) (ox_transition env' run next)
     (\<lambda>_ s. sane allowed s \<and> status_of_run (ox_db s) run = Some next) (sane allowed)"
  by (rule tripleI) (auto dest: keeps_result [OF sane_transition] transition_post(1))

lemma triple_require:
  "triple (\<lambda>s. sane allowed s \<and> status_of_run (ox_db s) run = Some st) (require_details run)
     (\<lambda>d s. sane allowed s \<and> status_of_run (ox_db s) run = Some st \<and> or_status (od_run d) = st
       \<and> or_id (od_run d) = run) (sane allowed)"
  by (rule tripleI)
    (auto dest: require_details_post keeps_result [OF keeps_quiet_sane [OF quiet_require_details]])

lemma triple_end:
  assumes "op_is_terminal st" "\<And>d s. ended allowed run d s \<Longrightarrow> or_status (od_run d) = st \<Longrightarrow> Q d s"
  shows "triple (sane allowed) (bind_st (ox_transition env' run st) (\<lambda>_. require_details run)) Q (sane allowed)"
  by (rule triple_bind [OF triple_transition], rule triple_conseq [OF triple_require])
    (use assms in \<open>auto simp: ended_def\<close>)

lemma triple_end_inl:
  assumes "op_is_terminal st" "\<And>d s. ended allowed run d s \<Longrightarrow> or_status (od_run d) = st \<Longrightarrow> Q (Inl d) s"
  shows "triple (sane allowed) (bind_st (ox_transition env' run st)
     (\<lambda>_. bind_st (require_details run) (\<lambda>d. ret_st (Inl d)))) Q (sane allowed)"
  by (rule triple_bind [OF triple_transition], rule triple_bind [OF triple_require], rule triple_ret)
    (use assms in \<open>auto simp: ended_def\<close>)

lemma triple_mark_item:
  "triple (working allowed point run (item # items) tally) (on_db (rs_mark_item_rolling_back (ori_id item)))
     (\<lambda>_. working allowed point run (rolling item # items) tally) (sane allowed)"
proof (rule tripleI)
  fix s y s'
  assume w: "working allowed point run (item # items) tally s"
    and u: "on_db (rs_mark_item_rolling_back (ori_id item)) s = (Inr y, s')"
  show "working allowed point run (rolling item # items) tally s'"
    unfolding rolling_def
    by (rule working_update [OF u[unfolded rs_mark_item_rolling_back_def] w]) simp_all
next
  fix s e s'
  assume "working allowed point run (item # items) tally s"
    and "on_db (rs_mark_item_rolling_back (ori_id item)) s = (Inl e, s')"
  then show "sane allowed s'"
    using keeps_result [OF sane_on_db [OF core_keys_points(7)]] working_sane by blast
qed

lemma triple_remote_item:
  "triple (working allowed point run items tally) (attempt (rollback_item env' server task_id item mode))
     (\<lambda>_. working allowed point run items tally) (sane allowed)"
  unfolding working_def
  by (rule triple_keeps [OF keeps_db_part [OF db_attempt [OF db_rollback_item]
        sane_attempt [OF sane_rollback_item]]]) simp

lemma triple_finish_item:
  assumes st: "st = RiRolledBack \<and> failures' = failures \<or> st = RiFailed \<and> failures' \<noteq> []"
  shows "triple (working allowed point run (rolling item # items) (n, failures, u))
      (on_db (rs_finish_item_rollback (ori_id item) st message))
      (\<lambda>_. working allowed point run items (n', failures', u')) (sane allowed)"
proof (rule tripleI)
  fix s y s'
  let ?done = "\<lambda>x. x\<lparr>ori_status := st, ori_error_summary := cap_utf8 message (8 * 1024)\<rparr>"
  assume w: "working allowed point run (rolling item # items) (n, failures, u) s"
    and u: "on_db (rs_finish_item_rollback (ori_id item) st message) s = (Inr y, s')"
  have eq: "rs_finish_item_rollback (ori_id item) st message
      = one_row (update_items (\<lambda>x. ori_id x = ori_id item \<and> ori_status x = RiRollingBack) ?done)
          ''restore item is not being rolled back''"
    using st by (auto simp: rs_finish_item_rollback_def)
  have "working allowed point run (?done (rolling item) # items) (n, failures, u) s'"
    by (rule working_update [OF u[unfolded eq] w]) (simp_all add: rolling_def)
  then show "working allowed point run items (n', failures', u') s'"
    by (rule working_drop) (use st in \<open>auto simp: item_done_def\<close>)
next
  fix s e s'
  assume "working allowed point run (rolling item # items) (n, failures, u) s"
    and "on_db (rs_finish_item_rollback (ori_id item) st message) s = (Inl e, s')"
  then show "sane allowed s'"
    using keeps_result [OF sane_on_db [OF core_keys_points(8)]] working_sane by blast
qed

lemma triple_rollback_items:
  "triple (working allowed point run items tally) (rollback_items env' server task_id mode items tally)
     (handled allowed point run) (sane allowed)"
proof (induction items arbitrary: tally)
  case Nil
  show ?case by (simp only: rollback_items.simps, rule triple_ret) (erule working_handled, simp)
next
  case (Cons item items)
  obtain n failures u where t: "tally = (n, failures, u)" by (cases tally)
  have stop: "triple (working allowed point run items (a, f @ [m], b)) (ret_st (a', f @ [m], b'))
      (handled allowed point run) (sane allowed)" for a b a' b' f m
    by (rule triple_ret) (auto simp: handled_def working_def tally_ok_def)
  have skip: "triple (working allowed point run (item # items) (n, failures, u))
      (rollback_items env' server task_id mode items (n, failures, u)) (handled allowed point run) (sane allowed)"
    if "item_done item"
    by (rule triple_conseq [OF Cons.IH [of "(n, failures, u)"]]) (auto intro: working_drop that)
  show ?case
    apply (simp only: t rollback_items.simps flip: item_done_def)
    apply (rule triple_if)
     apply (rule skip, assumption)
    apply (rule triple_bind [OF triple_mark_item])
    apply (rule triple_bind [OF triple_remote_item])
    apply (simp only: Let_def split: sum.split)
    apply (intro conjI allI impI)
     apply (rule triple_bind [OF triple_finish_item [where n' = n and u' = u
          and failures' = "failures @ [decimal (ori_ordinal item) @ '':'' @ display e]" for e]], simp)
     apply (rule triple_if)
      apply (rule stop)
     apply (rule Cons.IH)
    apply (rule triple_bind [OF triple_finish_item], simp)
    apply (rule Cons.IH)
    done
qed


lemma triple_or_rollback_failed:
  assumes "\<And>db. keeps (db_is db) m" "keeps (sane allowed) m"
  shows "triple (\<lambda>s. sane allowed s \<and> P (ox_db s)) (or_rollback_failed env' point m)
    (\<lambda>_ s. sane allowed s \<and> P (ox_db s)) (sane allowed)"
proof -
  have a: "triple (\<lambda>s. sane allowed s \<and> P (ox_db s)) (attempt m) (\<lambda>_ s. sane allowed s \<and> P (ox_db s)) (sane allowed)"
    by (rule triple_keeps [OF keeps_db_part [OF db_attempt [OF assms(1)] sane_attempt [OF assms(2)]]]) simp
  have fail: "triple (\<lambda>s. sane allowed s \<and> P (ox_db s))
      (bind_st (with_now env' (rs_finish_rollback point RpFailed)) (\<lambda>_. fail_st e)) Q (sane allowed)"
    for e and Q :: "'a \<Rightarrow> op_state \<Rightarrow> bool"
    by (rule triple_conseq [OF triple_sane_bind [OF sane_with_now [OF core_keys_points(10)] triple_fail_st]])
      auto
  show ?thesis
    unfolding or_rollback_failed_def
    by (rule triple_bind [OF a]) (auto split: sum.split intro: fail triple_ret)
qed

lemma triple_rollback:
  "triple (\<lambda>s. sane allowed s \<and> owner point run (ox_db s)) (rollback env' point)
     (\<lambda>d s. sane allowed s \<and> (orp_status (rd_point d) = RpRolledBack \<longrightarrow> undone (ox_db s) run)) (sane allowed)"
proof -
  let ?I = "\<lambda>s. sane allowed s \<and> owner point run (ox_db s)"
  let ?G = "\<lambda>d db. owner point run db \<and> set (rd_items d) = set (items_of db point)
      \<and> distinct (map ori_id (rd_items d))"
  have get: "triple ?I (rs_require point e) (\<lambda>d s. sane allowed s \<and> ?G d (ox_db s)) (sane allowed)" for e
  proof (rule tripleI)
    fix s d s' assume s: "?I s" "rs_require point e s = (Inr d, s')"
    note r = rs_require_Inr [OF s(2)]
    from s(1) rs_get_items [OF r(2)] show "sane allowed s' \<and> ?G d (ox_db s')"
      by (simp add: r(1) sane_def)
  qed (auto intro: keeps_result [OF sane_rs_require])
  have start: "triple (\<lambda>s. sane allowed s \<and> ?G d (ox_db s)) (with_now env' (rs_begin_rollback point))
      (\<lambda>_ s. sane allowed s \<and> ?G d (ox_db s)) (sane allowed)" for d
  proof (rule tripleI)
    fix s x s'
    assume s: "sane allowed s \<and> ?G d (ox_db s)" "with_now env' (rs_begin_rollback point) s = (Inr x, s')"
    have "sane allowed s'" using keeps_result [OF sane_with_now [where m = "rs_begin_rollback point", OF core_keys_points(9)]] s by blast
    with s(1) show "sane allowed s' \<and> ?G d (ox_db s')"
      by (rule_tac with_now_Inr [OF s(2)]) (auto simp: begin_rollback_Inr items_of_def)
  qed (auto intro: keeps_result [OF sane_with_now [where m = "rs_begin_rollback point", OF core_keys_points(9)]])
  have items: "triple (\<lambda>s. sane allowed s \<and> ?G d (ox_db s))
      (rollback_items env' server task_id mode (rev (rd_items d)) (0, [], None))
      (handled allowed point run) (sane allowed)" for d server task_id mode
    by (rule triple_conseq [OF triple_rollback_items])
      (auto simp: working_def tally_ok_def at_work_def sane_def simp flip: rev_map)
  have finish: "triple (handled allowed point run t) (with_now env' (rs_finish_rollback point (rollback_status t)))
      (\<lambda>_ s. handled allowed point run t s
        \<and> map_option orp_status (point_row (ox_db s) point) = Some (rollback_status t)) (sane allowed)" for t
  proof (rule tripleI)
    fix s x s'
    assume s: "handled allowed point run t s"
      "with_now env' (rs_finish_rollback point (rollback_status t)) s = (Inr x, s')"
    have "sane allowed s'" using keeps_result [OF sane_with_now [where m = "rs_finish_rollback point (rollback_status t)", OF core_keys_points(10)]] s
      unfolding handled_def by blast
    moreover have "core_keys (ox_db s)" using s(1) by (simp add: handled_def sane_def)
    ultimately show "handled allowed point run t s'
        \<and> map_option orp_status (point_row (ox_db s') point) = Some (rollback_status t)"
      using s(1) by (rule_tac with_now_Inr [OF s(2)])
        (auto simp: handled_def finish_rollback_Inr items_of_def)
  qed (auto simp: handled_def intro: keeps_result [OF sane_with_now [where m = "rs_finish_rollback point (rollback_status t)", OF core_keys_points(10)]])
  have end_ok: "triple (\<lambda>s. handled allowed point run t s
        \<and> map_option orp_status (point_row (ox_db s) point) = Some (rollback_status t))
      (rs_require point e)
      (\<lambda>d s. sane allowed s \<and> (orp_status (rd_point d) = RpRolledBack \<longrightarrow> undone (ox_db s) run)) (sane allowed)"
    for t e
  proof (rule tripleI)
    fix s d s'
    assume s: "handled allowed point run t s
        \<and> map_option orp_status (point_row (ox_db s) point) = Some (rollback_status t)"
      "rs_require point e s = (Inr d, s')"
    note r = rs_require_Inr [OF s(2)]
    have k: "core_keys (ox_db s)" using s(1) by (simp add: handled_def sane_def)
    note p = rs_get_items(3) [OF r(2) k]
    have "undone (ox_db s) run" if "orp_status (rd_point d) = RpRolledBack"
    proof -
      have "rollback_status t = RpRolledBack" using s(1) p that by simp
      then have "fst (snd t) = []" by (auto simp: rollback_status_def split: prod.splits if_splits)
      moreover have "rd_point d \<in> set (odb_points (ox_db s))" "orp_id (rd_point d) = point"
        using p by (auto simp: point_row_def dest: row_by_Some)
      ultimately show ?thesis
        using s(1) p that by (auto simp: undone_def handled_def owner_def list_ex_iff)
    qed
    then show "sane allowed s' \<and> (orp_status (rd_point d) = RpRolledBack \<longrightarrow> undone (ox_db s') run)"
      using s(1) by (simp add: r(1) handled_def)
  qed (auto simp: handled_def intro: keeps_result [OF sane_rs_require])
  show ?thesis
    unfolding rollback_def Let_def
    apply (rule triple_bind [OF get])
    apply (rule triple_bind [OF start])
    apply (rule triple_bind [OF triple_or_rollback_failed [OF db_remote(2) sane_remote(2)]])
    apply (rule triple_bind [OF triple_or_rollback_failed [OF db_probe sane_probe]])
    apply (rule triple_bind [OF items])
    apply (rule triple_bind [OF finish])
    apply (simp only: split: option.split)
    apply (intro conjI impI allI)
     apply (rule end_ok)
    apply (rule triple_fail_st)
    apply (simp add: handled_def)
    done
qed


lemma triple_restored_transition:
  assumes "restore_part Q"
  shows "triple (restored allowed Q) (ox_transition env' run next)
    (\<lambda>_ s. restored allowed Q s \<and> status_of_run (ox_db s) run = Some next) (sane allowed)"
proof (rule tripleI)
  fix s x s'
  assume s: "restored allowed Q s" "ox_transition env' run next s = (Inr x, s')"
  note t = transition_post [OF s(2)]
  have "Q (ox_db s') = Q (ox_db s)" using assms t(2,3) unfolding restore_part_def by blast
  with s keeps_result [OF sane_transition restored_sane [OF s(1)] s(2)] t(1)
  show "restored allowed Q s' \<and> status_of_run (ox_db s') run = Some next" by (simp add: restored_def)
qed (auto dest: restored_sane intro: keeps_result [OF sane_transition])

lemma triple_restored_step:
  assumes "restore_part Q"
  shows "triple (restored allowed Q) (ox_transition env' run next) (\<lambda>_. restored allowed Q) (sane allowed)"
  by (rule triple_conseq [OF triple_restored_transition [OF assms]]) auto

lemma triple_changed_end:
  assumes "restore_part Q" "op_is_terminal st" "st \<notin> {OpFailed, OpCancelled}"
    and "\<And>db. Q db \<Longrightarrow> st = OpRolledBack \<Longrightarrow> undone db run"
    and "\<And>d s. changed_end allowed run d s \<Longrightarrow> or_status (od_run d) = st \<Longrightarrow> R d s"
  shows "triple (restored allowed Q) (bind_st (ox_transition env' run st) (\<lambda>_. require_details run))
    R (sane allowed)"
proof (rule triple_bind [OF triple_restored_transition [OF assms(1)]], rule tripleI)
  fix s d s'
  assume s: "restored allowed Q s \<and> status_of_run (ox_db s) run = Some st" "require_details run s = (Inr d, s')"
  note r = require_details_post [OF s(2)]
  from s(1) r have st: "or_status (od_run d) = st" by simp
  have "undone (ox_db s) run" if "st = OpRolledBack"
    using s(1) that by (intro assms(4)) (simp_all add: restored_def)
  with s(1) r st assms(2,3) have "changed_end allowed run d s'"
    by (simp add: changed_end_def ended_def restored_def)
  with st show "R d s'" by (intro assms(5))
qed (auto simp: restored_def intro: keeps_result [OF keeps_quiet_sane [OF quiet_require_details]])

lemma triple_finish_dangerous_failure:
  "triple (restored allowed (owner point run)) (finish_dangerous_failure env' run point failure)
     (changed_end allowed run) (sane allowed)"
proof -
  let ?P = "\<lambda>st db. st = OpRolledBack \<longrightarrow> undone db run"
  have rolled: "triple (restored allowed (owner point run)) (attempt (rollback env' point))
      (\<lambda>r. restored allowed (?P (fst (snd (rollback_outcome r))))) (sane allowed)"
    by (rule triple_conseq [OF triple_attempt [OF triple_rollback [of point run env']]])
      (auto simp: restored_def rollback_outcome_def split: sum.splits if_splits)
  have rest: "triple (restored allowed (?P (fst (snd (rollback_outcome r)))))
      (case rollback_outcome r of (step_status, run_status, message) \<Rightarrow>
        bind_st (ox_finish_step env' run PhRollback 0 step_status
         (if step_status = StSucceeded then Some ''restored and verified'' else None) message) (\<lambda>_.
        bind_st (ox_transition env' run run_status) (\<lambda>_. require_details run)))
      (changed_end allowed run) (sane allowed)" for r
  proof (cases "rollback_outcome r")
    case (fields step_status run_status message)
    note o = rollback_outcome_status [OF fields]
    have P: "restore_part (?P run_status)" by (intro restore_part_intros)
    show ?thesis
      by (simp only: fields prod.case fst_conv snd_conv,
          rule triple_bind [OF triple_restored_quiet [OF P quiet_steps(3)]],
          rule triple_changed_end [OF P o(1,2)]) auto
  qed
  note Q = restore_part_intros(1) [of point run]
  show ?thesis
    unfolding finish_dangerous_failure_def Let_def
    apply (rule triple_if)
     apply (rule triple_changed_end [OF Q])
        apply (simp_all add: op_is_terminal_def)[4]
    apply (rule triple_bind [OF triple_restored_step [OF Q]])
    apply (rule triple_bind [OF triple_restored_step [OF Q]])
    apply (rule triple_bind [OF triple_restored_quiet [OF Q quiet_steps(1)]])
    apply (rule triple_bind [OF rolled])
    apply (rule rest)
    done
qed


end

section \<open>Safe tasks\<close>

lemma in_phase_sane: "in_phase env c phase Q s \<Longrightarrow> audited env s"
  by (simp add: in_phase_def)

lemma triple_in_phase:
  "keeps (in_phase env c phase Q) m \<Longrightarrow> (\<And>x. triple (in_phase env c phase Q) (k x) R (audited env)) \<Longrightarrow>
     triple (in_phase env c phase Q) (bind_st m k) R (audited env)"
  by (rule triple_keep) (auto dest: in_phase_sane)

lemma triple_from_phase:
  "triple (audited env) m R (audited env) \<Longrightarrow> triple (in_phase env c phase Q) m R (audited env)"
  by (erule triple_conseq) (auto dest: in_phase_sane)

definition safe_post :: "op_env \<Rightarrow> run_context \<Rightarrow> operation_details + string \<Rightarrow> op_state \<Rightarrow> bool" where
  "safe_post env c r s \<longleftrightarrow>
     (case r of Inr _ \<Rightarrow> in_phase env c PhExecute no_condition s | Inl d \<Rightarrow> ended (entry_allowed env) (rc_run c) d s)"

lemma triple_safe_steps:
  "triple (in_phase env c PhExecute no_condition) (run_safe_steps env' c index steps output)
     (safe_post env c)
     (audited env)"
proof (induction steps arbitrary: index "output")
  case Nil
  show ?case by (simp only: run_safe_steps.simps, rule triple_ret) (simp add: safe_post_def)
next
  case (Cons step steps)
  have stop: "triple (in_phase env c PhExecute no_condition)
      (bind_st (ox_skip_pending_steps env' (rc_run c) PhExecute i) (\<lambda>_.
       bind_st (ox_transition env' (rc_run c) st) (\<lambda>_.
       bind_st (require_details (rc_run c)) (\<lambda>d. ret_st (Inl d)))))
      (safe_post env c)
      (audited env)" if "op_is_terminal st" for i st
    by (rule triple_in_phase [OF keeps_quiet_phase [OF no_condition_part quiet_steps(2)]], rule triple_from_phase,
        rule audit.triple_end_inl [OF that]) (simp add: safe_post_def)
  have failed: "triple (in_phase env c PhExecute no_condition)
      (bind_st (fail_step env' (rc_run c) PhExecute index e) (\<lambda>_.
       bind_st (ox_transition env' (rc_run c) OpFailed) (\<lambda>_. fail_st e))) Q (audited env)"
    for e and Q :: "operation_details + string \<Rightarrow> op_state \<Rightarrow> bool"
    by (rule triple_in_phase [OF keeps_quiet_phase [OF no_condition_part quiet_fail_step]], rule triple_from_phase,
        rule audit.triple_sane_bind [OF audit.sane_transition], rule triple_fail_st)
  have exec: "keeps (in_phase env c PhExecute no_condition) (execute_step env' (rc_run c) PhExecute (call_of c step))"
    by (rule keeps_execute_step [OF no_condition_part])
  show ?case
    apply (simp only: run_safe_steps.simps)
    apply (rule triple_in_phase [OF keeps_quiet_phase [OF no_condition_part quiet_basic(3)]])
    apply (rule triple_if)
     apply (rule stop, simp add: op_is_terminal_def)
    apply (rule triple_in_phase [OF keeps_quiet_phase [OF no_condition_part quiet_steps(1)]])
    apply (rule triple_in_phase [OF exec])
    apply (clarsimp simp: Let_def split: sum.split)
    apply (intro conjI allI impI)
     apply (rule failed)
    apply (rule triple_in_phase [OF keeps_quiet_phase [OF no_condition_part quiet_steps(4)]])
    apply (simp split: option.split)
    apply (intro conjI allI impI Cons.IH stop)
    apply (erule statuses_terminal)
    done
qed


lemma triple_run_safe:
  assumes "\<not> is_dangerous_id env (td_id (rc_task c))"
  shows "triple (audited env) (run_safe env' c plan) (ended (entry_allowed env) (rc_run c)) (audited env)"
proof -
  have enter: "triple (audited env) (ox_transition env' (rc_run c) OpRunning)
      (\<lambda>_. in_phase env c PhExecute no_condition) (audited env)"
    by (rule triple_conseq [OF audit.triple_transition])
      (use assms in \<open>auto simp: in_phase_def step_allowed_def phase_run_status_def no_condition_def\<close>)
  have store: "triple (audited env)
      (bind_st (attempt (ox_set_result env' (rc_run c) (result_of env' plan ''finished'' output)))
        (\<lambda>stored. case stored of
           Inl e \<Rightarrow> bind_st (discard (ox_transition env' (rc_run c) OpFailed)) (\<lambda>_. fail_st e)
         | Inr _ \<Rightarrow> bind_st (ox_transition env' (rc_run c) OpSucceeded) (\<lambda>_. require_details (rc_run c))))
      (ended (entry_allowed env) (rc_run c)) (audited env)" for "output"
    by (rule audit.triple_sane_bind [OF sane_attempt [OF audit.sane_set_result]])
      (auto split: sum.split intro!: audit.triple_sane_bind sane_discard audit.sane_transition triple_fail_st audit.triple_end
        simp: op_is_terminal_def)
  have rest: "triple (safe_post env c r) (case r of
         Inl d \<Rightarrow> ret_st d
       | Inr output \<Rightarrow>
           bind_st (attempt (ox_set_result env' (rc_run c) (result_of env' plan ''finished'' output)))
             (\<lambda>stored.
           case stored of
             Inl e \<Rightarrow> bind_st (discard (ox_transition env' (rc_run c) OpFailed)) (\<lambda>_. fail_st e)
           | Inr _ \<Rightarrow>
               bind_st (ox_transition env' (rc_run c) OpSucceeded) (\<lambda>_.
                 require_details (rc_run c))))
      (ended (entry_allowed env) (rc_run c)) (audited env)" for r
  proof (cases r)
    case (Inl d)
    show ?thesis by (simp only: Inl sum.case, rule triple_ret) (simp add: safe_post_def)
  next
    case (Inr "output")
    have "safe_post env c r = in_phase env c PhExecute no_condition" by (simp add: Inr safe_post_def fun_eq_iff)
    then show ?thesis by (simp only: Inr sum.case) (rule triple_from_phase [OF store])
  qed
  show ?thesis
    apply (simp only: run_safe_def)
    apply (rule audit.triple_sane_bind [OF keeps_quiet_sane [OF quiet_basic(3)]])
    apply (rule triple_if)
     apply (rule audit.triple_end, simp add: op_is_terminal_def, assumption)
    apply (rule triple_bind [OF enter])
    apply (rule triple_bind [OF triple_safe_steps])
    apply (rule rest)
    done
qed


end
