(* ===== verification/Op_Guard.thy ===== *)
theory Op_Guard
  imports Op_Outcome
begin

text \<open>
  A dangerous task changes a server only behind a complete restore point, and what the end of an
  operation means.
\<close>

section \<open>The capture of a restore point\<close>

definition points_are :: "op_restore_point list \<Rightarrow> op_state \<Rightarrow> bool" where
  "points_are ps s \<longleftrightarrow> odb_points (ox_db s) = ps"

lemma points_db: "(\<And>db. keeps (db_is db) m) \<Longrightarrow> keeps (points_are ps) m"
  by (metis (no_types, lifting) keepsI points_are_def same_db)

lemma points_add_item: "keeps (points_are ps) (on_db (rs_add_item encode draft i))"
  by (rule keepsI)
    (auto simp: points_are_def on_db_def rs_add_item_def split: prod.splits sum.splits option.splits
      if_splits)

lemma points_capture_item:
  "keeps (points_are ps) (capture_item env point run server task_id impl parameters mode ordinal item)"
  unfolding capture_item_def
  by (intro keeps_bind keeps_if keeps_case_prod keeps_ret keeps_fail points_add_item
      points_db [OF db_basic(1)] points_db [OF db_basic(4)] points_db [OF db_captured(1)]
      points_db [OF db_captured(2)])

lemma points_capture_connected:
  "keeps (points_are ps)
    (capture_connected env point run server task_id impl parameters mode ordinal items)"
  by (induction items arbitrary: ordinal) (simp_all add: keeps_ret keeps_bind points_capture_item)

lemma create_point_post:
  assumes "rs_create draft i now db = (Inr p, db')"
  shows "owner (orp_id p) (norp_run_id draft) db'"
  using assms
  by (auto simp: rs_create_def owner_def point_row_def row_by_append new_point_row_def
      split: sum.splits option.splits if_splits)

lemma mark_available_post:
  assumes "rs_mark_available i now db = (Inr x, db')" "core_keys db" "owner i run db"
  shows "owner i run db' \<and> restore_ready db' run"
proof -
  let ?P = "\<lambda>p. orp_status p = RpCreating \<and> items_of db i \<noteq> []
      \<and> list_all (\<lambda>x. ori_status x = RiAvailable) (items_of db i)"
  let ?f = "\<lambda>p. p\<lparr>orp_status := RpAvailable, orp_updated_at := now\<rparr>"
  have "one_row (update_points (\<lambda>p. orp_id p = i \<and> ?P p) ?f) ''restore point is not complete'' db
      = (Inr x, db')"
    using assms(1) by (simp add: rs_mark_available_def)
  note u = one_row_Inr [OF this]
  have d: "distinct (map orp_id (odb_points db))" using assms(2) by (simp add: core_keys_def)
  have "affected (\<lambda>p. orp_id p = i \<and> ?P p) (odb_points db) = 1"
    using u(2) by (simp only: update_points_def fst_conv)
  then obtain p where p: "point_row db i = Some p" "?P p"
    unfolding affected_by_key [OF d] point_row_def by (auto split: option.splits if_splits)
  have o: "owner i run db'"
    unfolding u(1) using assms(3) by (subst points_update(1)) simp_all
  have items: "items_of db' i = items_of db i"
    unfolding u(1) by (simp add: items_of_def update_points_def)
  have row: "point_row db' i = Some (?f p)"
    unfolding u(1) using p by (subst points_update(3)) simp_all
  then have "?f p \<in> set (odb_points db')" "orp_id (?f p) = i"
    unfolding point_row_def by (auto dest: row_by_Some)
  moreover have "orp_run_id (?f p) = run" using o row by (simp add: owner_def)
  ultimately have "restore_ready db' run"
    using p(2) items unfolding restore_ready_def list_ex_iff by (intro bexI [of _ "?f p"]) simp_all
  with o show ?thesis by simp
qed

text \<open>The point of a run is complete.\<close>

definition guarded :: "uuid \<Rightarrow> uuid \<Rightarrow> op_db \<Rightarrow> bool" where
  "guarded point run db \<longleftrightarrow> owner point run db \<and> restore_ready db run"

lemma guarded_part: "restore_part (guarded point run)"
  unfolding guarded_def by (intro restore_part_intros)

context effect_log
begin

lemma triple_or_handler:
  assumes m: "triple (restored allowed Q) m R (sane allowed)"
    and h: "keeps (sane allowed) h"
  shows "triple (restored allowed Q)
    (bind_st (attempt m) (\<lambda>r. case r of Inr x \<Rightarrow> ret_st x | Inl e \<Rightarrow> bind_st h (\<lambda>_. fail_st e)))
    R (sane allowed)"
  by (rule triple_bind [OF triple_attempt [OF m]])
    (auto split: sum.split intro!: triple_ret triple_sane_bind [OF h] triple_fail_st)

lemma triple_owner_points:
  assumes "\<And>ps. keeps (points_are ps) m" "keeps (sane allowed) m"
  shows "triple (restored allowed (owner point run)) m (\<lambda>_. restored allowed (owner point run))
    (sane allowed)"
proof (rule triple_keeps [OF keepsI])
  fix s assume s: "restored allowed (owner point run) s"
  have "odb_points (ox_db (snd (m s))) = odb_points (ox_db s)"
    using keepsD [OF assms(1) [of "odb_points (ox_db s)"], of s] by (simp add: points_are_def)
  with s keepsD [OF assms(2), of s] show "restored allowed (owner point run) (snd (m s))"
    by (simp add: restored_def owner_def point_row_def)
qed (rule restored_sane)

lemma sane_failed_marks: "keeps (sane allowed) (with_now env (rs_mark_creation_failed point))"
  by (rule sane_with_now) (rule core_keys_points)

lemma triple_creation_failed:
  assumes "\<And>ps. keeps (points_are ps) m" "keeps (sane allowed) m"
  shows "triple (restored allowed (owner point run)) (or_creation_failed env point m)
      (\<lambda>_. restored allowed (owner point run)) (sane allowed)"
    and "triple (restored allowed (owner point run)) (or_try_creation_failed env point m)
      (\<lambda>_. restored allowed (owner point run)) (sane allowed)"
  unfolding or_creation_failed_def or_try_creation_failed_def
  by (rule triple_or_handler [OF triple_owner_points [OF assms]] sane_discard sane_failed_marks)+

lemma triple_capture:
  "triple (sane allowed) (capture env run server task_id impl items parameters)
     (\<lambda>d. restored allowed (guarded (orp_id (rd_point d)) run)) (sane allowed)"
proof -
  have create: "triple (sane allowed) (with_now env (rs_create draft i))
      (\<lambda>p. restored allowed (owner (orp_id p) (norp_run_id draft))) (sane allowed)" for draft i
  proof (rule tripleI)
    fix s p s' assume s: "sane allowed s" "with_now env (rs_create draft i) s = (Inr p, s')"
    have "sane allowed s'"
      using keeps_result [OF sane_with_now [where m = "rs_create draft i", OF core_keys_points(1)]] s by blast
    with s show "restored allowed (owner (orp_id p) (norp_run_id draft)) s'"
      by (auto elim!: with_now_Inr dest: create_point_post simp: restored_def)
  qed (auto intro: keeps_result [OF sane_with_now [where m = "rs_create draft i", OF core_keys_points(1)]])
  have avail: "triple (restored allowed (owner point run)) (with_now env (rs_mark_available point))
      (\<lambda>_. restored allowed (guarded point run)) (sane allowed)" for point
  proof (rule tripleI)
    fix s x s'
    assume s: "restored allowed (owner point run) s"
      "with_now env (rs_mark_available point) s = (Inr x, s')"
    have "sane allowed s'"
      using keeps_result [OF sane_with_now [where m = "rs_mark_available point", OF core_keys_points(3)]]
        s restored_sane by blast
    moreover have "core_keys (ox_db s)" using s(1) by (simp add: restored_def sane_def)
    ultimately show "restored allowed (guarded point run) s'"
      using s by (auto elim!: with_now_Inr dest!: mark_available_post simp: restored_def guarded_def)
  qed (auto intro: keeps_result [OF sane_with_now [where m = "rs_mark_available point", OF core_keys_points(3)]]
        restored_sane)
  have result: "triple (restored allowed (guarded point run)) (rs_require point e)
      (\<lambda>d. restored allowed (guarded (orp_id (rd_point d)) run)) (sane allowed)" for point e
  proof (rule tripleI)
    fix s d s'
    assume s: "restored allowed (guarded point run) s" "rs_require point e s = (Inr d, s')"
    note r = rs_require_Inr [OF s(2)]
    have "orp_id (rd_point d) = point"
      using r(2) by (auto simp: rs_get_def point_row_def dest: row_by_Some)
    with s(1) r(1) show "restored allowed (guarded (orp_id (rd_point d)) run) s'" by simp
  qed (auto intro: keeps_result [OF sane_rs_require] restored_sane)
  show ?thesis
    unfolding capture_def Let_def
    apply (rule triple_if)
     apply (rule triple_fail_st, assumption)
    apply (rule triple_sane_bind [OF keeps_quiet_sane [OF quiet_basic(3)]])
    apply (rule triple_bind [OF create])
    apply (simp only: new_op_restore_point.simps)
    apply (rule triple_bind [OF triple_creation_failed(1)])
      apply (rule points_db, intro db_rules)
     apply (intro sane_rules sane_intros)
    apply (rule triple_bind [OF triple_creation_failed(1) [OF points_db [OF db_remote(2)] sane_remote(2)]])
    apply (rule triple_bind [OF triple_creation_failed(1) [OF points_db [OF db_probe] sane_probe]])
    apply (rule triple_bind [OF triple_creation_failed(2) [OF points_capture_connected sane_capture_connected]])
    apply (rule triple_bind [OF _ result])
    apply (unfold or_try_creation_failed_def)
    apply (rule triple_or_handler [OF avail sane_discard [OF sane_failed_marks]])
    done
qed

end

section \<open>The protected part of a run\<close>

text \<open>
  In a phase of a run with its restore point; the last conjunct is what the automatic rollback needs.
\<close>

abbreviation protected_phase :: "op_env \<Rightarrow> run_context \<Rightarrow> operation_phase \<Rightarrow> uuid \<Rightarrow> op_state \<Rightarrow> bool"
where
  "protected_phase env c phase point \<equiv> in_phase env c phase (guarded point (rc_run c))"

lemma protected_restored:
  "protected_phase env c phase point s \<Longrightarrow> restored (entry_allowed env) (owner point (rc_run c)) s"
  by (simp add: in_phase_def restored_def guarded_def)

lemma triple_enter:
  assumes "phase \<in> {PhExecute, PhVerify}"
  shows "triple (restored (entry_allowed env) (guarded point (rc_run c)))
    (ox_transition env' (rc_run c) (phase_run_status phase))
    (\<lambda>_. protected_phase env c phase point) (audited env)"
  by (rule triple_conseq [OF audit.triple_restored_transition [OF guarded_part]])
    (use assms in \<open>auto simp: in_phase_def step_allowed_def restored_def guarded_def\<close>)

lemma triple_failure:
  "triple (protected_phase env c phase point) (finish_dangerous_failure env' (rc_run c) point st)
     (changed_end (entry_allowed env) (rc_run c)) (audited env)"
  by (rule triple_conseq [OF audit.triple_finish_dangerous_failure]) (auto dest: protected_restored)

definition verified_post ::
  "op_env \<Rightarrow> run_context \<Rightarrow> operation_details + string \<Rightarrow> op_state \<Rightarrow> bool" where
  "verified_post env c r s \<longleftrightarrow>
     (case r of Inr _ \<Rightarrow> audited env s | Inl d \<Rightarrow> changed_end (entry_allowed env) (rc_run c) d s)"

lemma triple_failure_inl:
  "triple (protected_phase env c phase point)
     (bind_st (finish_dangerous_failure env' (rc_run c) point st) (\<lambda>d. ret_st (Inl d)))
     (verified_post env c) (audited env)"
  by (rule triple_bind [OF triple_failure], rule triple_ret) (simp add: verified_post_def)

lemma protected_quiet:
  "quiet m \<Longrightarrow> (\<And>x. triple (protected_phase env c phase point) (k x) R (audited env)) \<Longrightarrow>
     triple (protected_phase env c phase point) (bind_st m k) R (audited env)"
  by (rule triple_in_phase [OF keeps_quiet_phase [OF guarded_part]])

lemma protected_keep:
  assumes "\<And>db. keeps (db_is db) m" "\<And>env. keeps (audited env) m"
    and "\<And>x. triple (protected_phase env c phase point) (k x) R (audited env)"
  shows "triple (protected_phase env c phase point) (bind_st m k) R (audited env)"
proof (rule triple_in_phase [OF _ assms(3)])
  show "keeps (protected_phase env c phase point) m"
    using keeps_db_part [OF assms(1,2), of env "\<lambda>db. step_allowed env (rc_run c) phase (td_id (rc_task c)) db
        \<and> guarded point (rc_run c) db"]
    by (simp add: in_phase_def [abs_def])
qed

lemma db_execute_at: "keeps (db_is db) (execute_at env server host command mode)"
  unfolding execute_at_def by (intro db_rules)

lemma db_commit_host: "keeps (db_is db) (commit_host env server host)"
  unfolding commit_host_def by (intro db_rules)

lemma triple_uncertain_inl:
  "triple (protected_phase env c phase point)
     (bind_st (ox_transition env' (rc_run c) OpUncertain)
       (\<lambda>_. bind_st (require_details (rc_run c)) (\<lambda>d. ret_st (Inl d))))
     (verified_post env c) (audited env)"
proof (rule triple_from_phase, rule audit.triple_end_inl)
  fix d s assume "ended (entry_allowed env) (rc_run c) d s" "or_status (od_run d) = OpUncertain"
  then show "verified_post env c (Inl d) s" by (simp add: verified_post_def changed_end_def)
qed (simp add: op_is_terminal_def)

lemma triple_verify_ip_change:
  "triple (protected_phase env c PhVerify point)
     (verify_ip_change env' c point recovery mode output) (verified_post env c) (audited env)"
  unfolding verify_ip_change_def Let_def
  apply (rule protected_quiet [OF quiet_steps(1)])
  apply (rule protected_quiet [OF quiet_basic(3)])
  apply (rule triple_if)
   apply (rule protected_quiet [OF quiet_steps(3)])
   apply (rule triple_failure_inl)
  apply (rule protected_keep [OF db_attempt [OF db_execute_at] sane_attempt [OF audit.sane_execute_at]])
  apply (simp only: split: sum.split)
  apply (intro conjI allI impI)
   apply (rule protected_quiet [OF quiet_steps(3)])
   apply (rule triple_failure_inl)
  apply (rule protected_keep [OF db_attempt [OF db_commit_host] sane_attempt [OF audit.sane_commit_host]])
  apply (simp only: split: sum.split)
  apply (intro conjI allI impI)
   apply (rule protected_quiet [OF quiet_steps(3)])
   apply (rule triple_uncertain_inl)
  apply (rule protected_quiet [OF quiet_steps(3)])
  apply (rule triple_ret)
  apply (simp add: verified_post_def in_phase_def)
  done

lemma triple_verify_phase:
  "triple (protected_phase env c PhVerify point)
     (bind_st (run_phase env' c PhVerify 0 steps output) (\<lambda>(failed, output).
        case failed of
          Some status \<Rightarrow> bind_st (finish_dangerous_failure env' (rc_run c) point status)
            (\<lambda>d. ret_st (Inl d))
        | None \<Rightarrow> ret_st (Inr output))) (verified_post env c) (audited env)"
  by (rule triple_in_phase [OF keeps_run_phase [OF guarded_part]])
    (auto split: option.split intro!: triple_failure_inl triple_ret simp: verified_post_def in_phase_def)

lemma triple_store_result:
  "triple (verified_post env c r) (case r of
      Inl d \<Rightarrow> ret_st d
    | Inr output \<Rightarrow>
        bind_st (ox_set_result env' (rc_run c) (result_of env' plan ''verified'' output)) (\<lambda>_.
        bind_st (ox_transition env' (rc_run c) OpSucceeded) (\<lambda>_. require_details (rc_run c))))
    (changed_end (entry_allowed env) (rc_run c)) (audited env)"
proof (cases r)
  case (Inl d)
  show ?thesis by (simp only: Inl sum.case, rule triple_ret) (simp add: verified_post_def)
next
  case (Inr "output")
  have "verified_post env c r = audited env" by (simp add: Inr verified_post_def fun_eq_iff)
  then show ?thesis
    by (simp only: Inr sum.case)
      (rule audit.triple_sane_bind [OF audit.sane_set_result], rule audit.triple_end,
        auto simp: op_is_terminal_def changed_end_def)
qed

lemma triple_run_protected:
  "triple (restored (entry_allowed env) (guarded point (rc_run c)))
     (run_protected env' c plan point recovery execution_steps verify_steps mode)
     (changed_end (entry_allowed env) (rc_run c)) (audited env)"
proof -
  have verify: "triple (protected_phase env c PhVerify point) (case recovery of
         Some r \<Rightarrow> verify_ip_change env' c point r mode output
       | None \<Rightarrow> bind_st (run_phase env' c PhVerify 0 verify_steps output) (\<lambda>(failed, output).
           case failed of
             Some status \<Rightarrow> bind_st (finish_dangerous_failure env' (rc_run c) point status)
               (\<lambda>d. ret_st (Inl d))
           | None \<Rightarrow> ret_st (Inr output))) (verified_post env c) (audited env)" for "output"
    by (cases recovery) (simp_all add: triple_verify_phase triple_verify_ip_change)
  have next_phase: "triple (protected_phase env c PhExecute point) (ox_transition env' (rc_run c) OpVerifying)
      (\<lambda>_. protected_phase env c PhVerify point) (audited env)"
    by (rule triple_conseq [OF triple_enter [of PhVerify, unfolded phase_run_status_def, simplified]])
      (auto simp: in_phase_def restored_def)
  have executed: "triple (protected_phase env c PhExecute point)
      (case failed of
         Some status \<Rightarrow> finish_dangerous_failure env' (rc_run c) point status
       | None \<Rightarrow>
           bind_st (ox_transition env' (rc_run c) OpVerifying) (\<lambda>_.
           bind_st (case recovery of
               Some r \<Rightarrow> verify_ip_change env' c point r mode output
             | None \<Rightarrow> bind_st (run_phase env' c PhVerify 0 verify_steps output) (\<lambda>(failed, output).
                 case failed of
                   Some status \<Rightarrow> bind_st (finish_dangerous_failure env' (rc_run c) point status)
                     (\<lambda>d. ret_st (Inl d))
                 | None \<Rightarrow> ret_st (Inr output))) (\<lambda>verified.
             case verified of
               Inl d \<Rightarrow> ret_st d
             | Inr output \<Rightarrow>
                 bind_st (ox_set_result env' (rc_run c) (result_of env' plan ''verified'' output)) (\<lambda>_.
                 bind_st (ox_transition env' (rc_run c) OpSucceeded) (\<lambda>_.
                   require_details (rc_run c))))))
      (changed_end (entry_allowed env) (rc_run c)) (audited env)" for failed and "output"
    by (cases failed, simp_all only: option.case)
      (rule triple_bind [OF next_phase], rule triple_bind [OF verify], rule triple_store_result,
        rule triple_failure)
  show ?thesis
    unfolding run_protected_def Let_def
    apply (rule triple_bind [OF triple_enter [of PhExecute, unfolded phase_run_status_def, simplified]])
    apply (rule triple_in_phase [OF keeps_run_phase [OF guarded_part]])
    apply (simp only: split_beta)
    apply (rule executed)
    done
qed

section \<open>A dangerous task\<close>

lemma restore_ready_update:
  assumes "restore_ready db run"
    and "\<And>p. orp_id (f p) = orp_id p" "\<And>p. orp_run_id (f p) = orp_run_id p"
    and "\<And>p. orp_status (f p) = orp_status p"
  shows "restore_ready (snd (update_points P f db)) run"
proof -
  obtain p where p: "p \<in> set (odb_points db)" "orp_run_id p = run" "orp_status p = RpAvailable"
    "items_of db (orp_id p) \<noteq> []" "list_all (\<lambda>x. ori_status x = RiAvailable) (items_of db (orp_id p))"
    using assms(1) by (auto simp: restore_ready_def list_ex_iff)
  have "items_of (snd (update_points P f db)) i = items_of db i" for i
    by (simp add: items_of_def update_points_def)
  moreover have "(if P p then f p else p) \<in> set (odb_points (snd (update_points P f db)))"
    using p(1) by (auto simp: update_points_def set_upd_where)
  ultimately show ?thesis
    unfolding restore_ready_def list_ex_iff
    using p(2-5) assms(2-4) by (intro bexI [of _ "if P p then f p else p"]) simp_all
qed

lemma triple_prepare_recovery:
  "triple (restored (entry_allowed env) (guarded point (rc_run c))) (prepare_recovery env' c plan point)
     (\<lambda>_. restored (entry_allowed env) (guarded point (rc_run c))) (audited env)"
proof -
  have attach: "triple (restored (entry_allowed env) (guarded point run))
      (attach_remote_asset env' point asset expires)
      (\<lambda>_. restored (entry_allowed env) (guarded point run)) (audited env)" for run asset expires
  proof (rule tripleI)
    fix s x s'
    assume s: "restored (entry_allowed env) (guarded point run) s"
      "attach_remote_asset env' point asset expires s = (Inr x, s')"
    have k: "audited env s'"
      using keeps_result [OF sane_with_now [where m = "rs_attach_remote_asset point asset expires",
            OF core_keys_points(4)]] s restored_sane unfolding attach_remote_asset_def by blast
    obtain now where a: "rs_attach_remote_asset point asset expires now (ox_db s) = (Inr x, ox_db s')"
      using s(2) unfolding attach_remote_asset_def by (auto elim: with_now_Inr)
    let ?f = "\<lambda>p. p\<lparr>orp_remote_asset_id := Some asset, orp_expires_at := Some expires,
                   orp_updated_at := now\<rparr>"
    have db: "ox_db s' = snd (update_points (\<lambda>p. orp_id p = point \<and>
        (orp_status p = RpAvailable \<and> orp_remote_asset_id p = None)) ?f (ox_db s))"
      using a by (auto simp: rs_attach_remote_asset_def dest: one_row_Inr split: if_splits)
    have "owner point run (ox_db s')"
      unfolding db using s(1) by (subst points_update(1)) (simp_all add: restored_def guarded_def)
    moreover have "restore_ready (ox_db s') run"
      unfolding db using s(1) by (intro restore_ready_update) (simp_all add: restored_def guarded_def)
    ultimately show "restored (entry_allowed env) (guarded point run) s'"
      using k by (simp add: restored_def guarded_def)
  qed (auto simp: attach_remote_asset_def dest: restored_sane
      intro: keeps_result [OF sane_with_now [where m = "rs_attach_remote_asset point asset expires",
            OF core_keys_points(4)]])
  show ?thesis
    unfolding prepare_recovery_def
    apply (rule triple_if)
     apply (rule triple_bind [OF triple_restored_quiet [OF guarded_part quiet_basic(6)]])
     apply (rule triple_bind [OF triple_restored_quiet [OF guarded_part quiet_basic(3)]])
     apply (rule triple_bind [OF attach])
     apply (rule triple_ret, assumption)
    apply (rule triple_ret, assumption)
    done
qed

text \<open>
  What the details of a run that returned mean. Failed or cancelled: the log passes the test it
  passed before. Rolled back: the restore point was applied in full.
\<close>

definition outcome ::
  "(op_effect \<times> op_db \<Rightarrow> bool) \<Rightarrow> op_env \<Rightarrow> uuid \<Rightarrow> operation_details \<Rightarrow> op_state \<Rightarrow> bool" where
  "outcome allowed env run d s \<longleftrightarrow> ended (entry_allowed env) run d s
     \<and> (or_status (od_run d) \<in> {OpFailed, OpCancelled} \<longrightarrow> list_all allowed (ox_log s))
     \<and> (or_status (od_run d) = OpRolledBack \<longrightarrow> undone (ox_db s) run)"

text \<open>A test of the log that is at least as strict as the one of the claims.\<close>

locale stricter_log = effect_log +
  fixes env :: op_env
  assumes stricter: "allowed e \<Longrightarrow> entry_allowed env e"
begin

lemma stricter_audited: "sane allowed s \<Longrightarrow> audited env s"
  by (auto simp: sane_def list_all_iff dest: stricter)

lemma changed_outcome: "changed_end (entry_allowed env) run d s \<Longrightarrow> outcome allowed env run d s"
  by (auto simp: changed_end_def outcome_def)

lemma unsent_outcome:
  "ended (allowed) run d s \<Longrightarrow> or_status (od_run d) \<noteq> OpRolledBack \<Longrightarrow> outcome allowed env run d s"
  by (auto simp: outcome_def ended_def sane_def list_all_iff dest: stricter)

lemma triple_unsent:
  "triple (sane allowed) m Q (sane allowed) \<Longrightarrow> (\<And>x s. Q x s \<Longrightarrow> R x s) \<Longrightarrow>
     triple (sane allowed) m R (audited env)"
  by (erule triple_conseq) (auto dest: stricter_audited)

lemma triple_unsent_bind:
  assumes "keeps (sane allowed) m" "\<And>x. triple (sane allowed) (k x) R (audited env)"
  shows "triple (sane allowed) (bind_st m k) R (audited env)"
  by (rule triple_keep [OF assms(1) stricter_audited assms(2)])

lemma triple_unsent_end:
  assumes "op_is_terminal st" "st \<noteq> OpRolledBack"
  shows "triple (sane allowed) (bind_st (ox_transition env' run st) (\<lambda>_. require_details run))
    (outcome allowed env run) (audited env)"
proof (rule triple_unsent [OF triple_end [OF assms(1)]])
  fix d s assume "ended (allowed) run d s" "or_status (od_run d) = st"
  then show "outcome allowed env run d s" using assms(2) by (intro unsent_outcome) simp_all
qed

lemma restored_audited:
  "restored (allowed) Q s \<Longrightarrow> restored (entry_allowed env) Q s"
  by (auto simp: restored_def dest: stricter_audited)

lemma triple_run_dangerous:
  "triple (sane allowed) (run_dangerous env' c plan mode) (outcome allowed env (rc_run c)) (audited env)"
proof -
  have failed: "triple (sane allowed)
      (bind_st (ox_finish_step env' (rc_run c) PhBackup 0 StFailed None (Some (display e))) (\<lambda>_.
       bind_st (ox_skip_pending_steps env' (rc_run c) PhBackup 1) (\<lambda>_.
       bind_st (ox_transition env' (rc_run c) (if e = Cancelled then OpCancelled else OpFailed)) (\<lambda>_.
         require_details (rc_run c))))) (outcome allowed env (rc_run c)) (audited env)" for e
    by (rule triple_unsent_bind [OF keeps_quiet_sane [OF quiet_steps(3)]],
        rule triple_unsent_bind [OF keeps_quiet_sane [OF quiet_steps(2)]], rule triple_unsent_end)
      (simp_all add: op_is_terminal_def)
  have captured: "triple (restored (allowed) (guarded point (rc_run c)))
      (bind_st (finish_backup_steps env' (rc_run c) 0 n) (\<lambda>_.
       bind_st (prepare_recovery env' c plan point) (\<lambda>recovery.
       bind_st (from_res (case recovery of
           Some r \<Rightarrow> network_steps r mode
         | None \<Rightarrow> elevate_steps (pt_execution_steps plan) mode)) (\<lambda>execution_steps.
       bind_st (from_res (elevate_steps (pt_verify_steps plan) mode)) (\<lambda>verify_steps.
         run_protected env' c plan point recovery execution_steps verify_steps mode)))))
      (outcome allowed env (rc_run c)) (audited env)" for point n
  proof -
    note quiet = triple_restored_quiet [OF guarded_part]
    have "triple (restored (entry_allowed env) (guarded point (rc_run c)))
      (bind_st (finish_backup_steps env' (rc_run c) 0 n) (\<lambda>_.
       bind_st (prepare_recovery env' c plan point) (\<lambda>recovery.
       bind_st (from_res (case recovery of
           Some r \<Rightarrow> network_steps r mode
         | None \<Rightarrow> elevate_steps (pt_execution_steps plan) mode)) (\<lambda>execution_steps.
       bind_st (from_res (elevate_steps (pt_verify_steps plan) mode)) (\<lambda>verify_steps.
         run_protected env' c plan point recovery execution_steps verify_steps mode)))))
      (changed_end (entry_allowed env) (rc_run c)) (audited env)"
      by (rule triple_bind [OF quiet [OF quiet_finish_backup_steps]],
          rule triple_bind [OF triple_prepare_recovery],
          rule triple_bind [OF quiet [OF quiet_basic(6)]],
          rule triple_bind [OF quiet [OF quiet_basic(6)]], rule triple_run_protected)
    then show ?thesis
      by (rule triple_conseq) (auto dest: restored_audited changed_outcome)
  qed
  have reject: "triple (sane allowed) (fail_st e) R (audited env)"
    for e and R :: "operation_details \<Rightarrow> op_state \<Rightarrow> bool"
    by (rule triple_fail_st) (rule stricter_audited)
  have capture: "triple (sane allowed) (attempt (capture env' run server task_id impl items parameters))
      (\<lambda>r s. case r of Inr d \<Rightarrow> restored (allowed) (guarded (orp_id (rd_point d)) run) s
         | Inl _ \<Rightarrow> sane allowed s) (audited env)" for run server task_id impl items parameters
    by (rule triple_attempt [OF triple_capture])
  have after: "triple (\<lambda>s. case r of
           Inr d \<Rightarrow> restored (allowed) (guarded (orp_id (rd_point d)) (rc_run c)) s
         | Inl _ \<Rightarrow> sane allowed s) (case r of Inl e \<Rightarrow> f e | Inr d \<Rightarrow> g d) R (audited env)"
    if "\<And>e. triple (sane allowed) (f e) R (audited env)"
      "\<And>d. triple (restored (allowed) (guarded (orp_id (rd_point d)) (rc_run c))) (g d) R
         (audited env)"
    for r and f g :: "_ \<Rightarrow> (op_state, operation_details) st" and R
    by (cases r) (simp_all only: sum.case that)
  show ?thesis
    unfolding run_dangerous_def Let_def
    apply (rule triple_if)
     apply (rule reject)
    apply (simp only: split: option.split)
    apply (intro conjI allI impI)
     apply (rule reject)
    apply (rule triple_if)
     apply (rule reject)
    apply (rule triple_unsent_bind [OF sane_transition])
    apply (rule triple_unsent_bind [OF keeps_quiet_sane [OF quiet_basic(3)]])
    apply (rule triple_if)
     apply (rule triple_unsent_end)
      apply (simp_all only: op_is_terminal_def insert_iff operation_status.simps simp_thms)
    apply (rule triple_unsent_bind [OF sane_transition])
    apply (rule triple_unsent_bind [OF keeps_quiet_sane [OF quiet_steps(1)]])
    apply (rule triple_bind [OF capture])
    apply (rule after [OF failed captured])
    done
qed

text \<open>The call as a whole, after the checks that \<open>start\<close> makes first.\<close>

lemma triple_run:
  assumes "td_risk_level (rc_task c) = Dangerous \<or> \<not> is_dangerous_id env (td_id (rc_task c))"
  shows "triple (sane allowed)
    (if td_risk_level (rc_task c) = Dangerous then run_dangerous env' c plan mode
     else if backup then fail_st e else run_safe env' c plan)
    (\<lambda>d s. if td_risk_level (rc_task c) = Dangerous then outcome allowed env (rc_run c) d s
       else ended (entry_allowed env) (rc_run c) d s) (audited env)"
proof (cases "td_risk_level (rc_task c) = Dangerous")
  case True
  then show ?thesis by (simp add: triple_run_dangerous)
next
  case False
  with assms have "\<not> is_dangerous_id env (td_id (rc_task c))" by simp
  note safe = triple_conseq [OF triple_run_safe [OF this] stricter_audited]
  show ?thesis
    by (simp add: False) (intro conjI impI safe triple_fail_st; simp add: stricter_audited)
qed

end

interpretation guard: stricter_log "entry_allowed env" env for env
  by unfold_locales

interpretation fresh: stricter_log "unsent_entry env" env for env
  by unfold_locales (simp add: unsent_entry_def)

end
