(* ===== verification/Op_Demo.thy ===== *)
theory Op_Demo
  imports Op_Guard "HOL-Library.Code_Target_Numeral"
begin

text \<open>
  One concrete world for the witnesses of the claims about operations: a catalogue of one dangerous
  task, a server that answers every command, and the tables after its preview. The step of the task
  ends with a lost connection, so that its run is \<open>uncertain\<close>.
\<close>

definition demo_execution :: "execution_status \<Rightarrow> step_call \<Rightarrow> execution_details" where
  "demo_execution status call =
     \<lparr>ed_record = \<lparr>er_id = 900, er_server_id = sl_server_id call, er_task_id = sl_task_id call,
        er_task_version = sl_task_version call, er_category = sl_category call,
        er_status = status, er_created_at = 0, er_started_at = Some 0, er_finished_at = Some 1,
        er_duration_ms = None, er_exit_code = Some 0, er_error_category = None,
        er_error_message = None, er_retryable = False, er_parameters_summary = None,
        er_output_summary = None, er_remote_process_group = None\<rparr>,
      ed_parameters = [], ed_files = []\<rparr>"

definition demo_hash :: string where
  "demo_hash = replicate 64 (CHR ''0'')"

definition demo_task :: task_definition where
  "demo_task = dangerous_task ''service.restart'' CatService ''t'' ''d'' 1 []
     [dangerous_implementation ''i'' [] [] ''a'' [backup_item ''b'' RuntimeState ''c''] ''d'' ''e'' ''f''
        ParseKeyValue] OutKeyValue"

definition demo_profile :: "string \<Rightarrow> server_profile" where
  "demo_profile i =
     \<lparr>sp_id = i, sp_name = i, sp_host = ''h'', sp_port = 22, sp_username = ''root''\<rparr>"

definition demo_env :: op_env where
  "demo_env =
     \<lparr>oe_catalog = [demo_task],
      oe_data_root = ''/data'', oe_parse_uuid = (\<lambda>_. Some 0), oe_encode = (\<lambda>_. ''{}''),
      oe_redact = id, oe_default_redact = id, oe_sha256 = (\<lambda>_. demo_hash),
      oe_ip_plan = (\<lambda>_ _ _ _ _ _. Inl Cancelled),
      oe_snapshot_rollback = (\<lambda>_ _. Inr \<lparr>sr_command = ''x'', sr_verify = ''y''\<rparr>),
      oe_now = (\<lambda>t. int t), oe_uuid = (\<lambda>t. of_nat (Suc t)), oe_cancelled = (\<lambda>_. False),
      oe_server = (\<lambda>_ i. Inr (demo_profile i)),
      oe_connect = (\<lambda>_ i. Inr \<lparr>cs_profile = demo_profile i, cs_capabilities = service_host\<rparr>),
      oe_connect_at = (\<lambda>_ _ _. Inl Cancelled),
      oe_command = (\<lambda>_ _. Inr \<lparr>co_exit_status = 0, co_stdout = ''0'', co_stderr = ''''\<rparr>),
      oe_step = (\<lambda>_ call. ([], Inr (demo_execution EUncertain call))),
      oe_fetch = (\<lambda>_ _ _. Inl Cancelled),
      oe_store = (\<lambda>_ relative _.
        Inr \<lparr>ra_relative_path = relative, ra_bytes = 1, ra_sha256 = demo_hash\<rparr>),
      oe_verify_asset = (\<lambda>_ _ _. Inr ()), oe_read_asset = (\<lambda>_ _. Inr []),
      oe_upload = (\<lambda>_ _ _. Inr ()), oe_commit_host = (\<lambda>_ _ _. Inr ())\<rparr>"

definition waiting_step :: "operation_phase \<Rightarrow> operation_step" where
  "waiting_step phase =
     \<lparr>os_run_id = 2, os_phase = phase, os_index = 0, os_step_id = ''i'', os_title = ''t'',
      os_status = StPending, os_execution_id = None, os_output_summary = None,
      os_error_message = None, os_started_at = None, os_finished_at = None\<rparr>"

definition demo_previewed :: op_state where
  "demo_previewed =
     \<lparr>ox_db = \<lparr>odb_servers = [''s''], odb_executions = [],
        odb_runs =
          [\<lparr>or_id = 2, or_server_id = ''s'', or_task_id = ''service.restart'', or_task_version = 2,
            or_risk_level = Dangerous, or_status = OpPreviewReady, or_parameters_summary = None,
            or_result = None, or_error_category = None, or_error_message = None, or_created_at = 2,
            or_updated_at = 7, or_finished_at = None\<rparr>],
        odb_steps = map waiting_step [PhBackup, PhExecute],
        odb_points = [], odb_items = []\<rparr>,
      ox_tick = 8, ox_log = []\<rparr>"

definition demo_request :: op_start_request where
  "demo_request =
     \<lparr>osr_task_id = ''service.restart'', osr_task_version = 2, osr_parameters = JObject [],
      osr_confirmed_preview_id = Some 2\<rparr>"

text \<open>The confirmed preview is started: a step is sent, and the run ends as uncertain.\<close>

definition demo_outcome :: "operation_details app_result \<times> op_state \<Rightarrow> bool" where
  "demo_outcome result = (case result of (r, s) \<Rightarrow>
     list_ex (\<lambda>(e, db). case e of EffStep run phase c \<Rightarrow> sl_task_id c = ''service.restart'' | _ \<Rightarrow> False)
       (ox_log s)
     \<and> (case r of Inr d \<Rightarrow> or_status (od_run d) = OpUncertain | Inl e \<Rightarrow> False))"

lemma demo_started: "demo_outcome (start_with_cancel demo_env ''s'' demo_request demo_previewed)"
  by code_simp

lemma demo_dangerous: "is_dangerous_id demo_env ''service.restart''"
  by code_simp

lemma demo_keys: "core_keys (ox_db demo_previewed)" "ox_log demo_previewed = []"
  by (simp_all add: demo_previewed_def core_keys_def)

text \<open>An address change that lost its connection, as \<open>reconcile_ip_change\<close> finds it.\<close>

definition demo_uncertain :: op_state where
  "demo_uncertain =
     \<lparr>ox_db = (ox_db demo_previewed)\<lparr>odb_runs := map (\<lambda>r. r\<lparr>or_task_id := ''network.ip_change'',
        or_status := OpUncertain\<rparr>) (odb_runs (ox_db demo_previewed))\<rparr>, ox_tick = 0, ox_log = []\<rparr>"

definition demo_recovery :: ip_change_recovery_plan where
  "demo_recovery =
     \<lparr>ir_target_host = ''h'', ir_arm_command = ''a'', ir_apply_command = ''b'',
      ir_finalize_command = ''c'', ir_inspect_command = ''d'', ir_rollback_script_sha256 = demo_hash\<rparr>"

definition demo_details :: operation_details where
  "demo_details = \<lparr>od_run = hd (odb_runs (ox_db demo_uncertain)), od_steps = []\<rparr>"

end
