(* ===== verification/Op_Claims.thy ===== *)
theory Op_Claims
  imports Op_Demo
begin

text \<open>
  The claims about operations: histories of service calls, the meaning of the end of a call, and the
  paths on which the code does not do what it means to.
\<close>

section \<open>Start\<close>

lemma resolve_dangerous:
  assumes "resolve_definition env task_id version = Inr task"
  shows "is_dangerous_id env (td_id task) \<longleftrightarrow> td_risk_level task = Dangerous" "td_id task = task_id"
proof -
  have f: "List.find (\<lambda>d. td_id d = task_id) (oe_catalog env) = Some task"
    using assms by (auto simp: resolve_definition_def split: option.splits if_splits)
  then show i: "td_id task = task_id" by (auto simp: find_Some_iff)
  from f show "is_dangerous_id env (td_id task) \<longleftrightarrow> td_risk_level task = Dangerous"
    by (simp add: is_dangerous_id_def i)
qed

context stricter_log
begin

text \<open>The details of a call that returned.\<close>

definition returned :: "bool \<Rightarrow> operation_details \<Rightarrow> op_state \<Rightarrow> bool" where
  "returned dangerous d s \<longleftrightarrow>
     (if dangerous then outcome allowed env (or_id (od_run d)) d s
      else ended (entry_allowed env) (or_id (od_run d)) d s)"

lemma triple_start_with_capabilities:
  "triple (sane allowed) (start_with_capabilities_and_cancel env server_id request capabilities mode)
     (returned (is_dangerous_id env (osr_task_id request))) (audited env)"
proof -
  have pure: "triple (sane allowed) (bind_st (from_res r) k) R (audited env)"
    if "\<And>x. r = Inr x \<Longrightarrow> triple (sane allowed) (k x) R (audited env)"
    for r :: "'b app_result" and k and R :: "operation_details \<Rightarrow> op_state \<Rightarrow> bool"
    using that stricter_audited
    by (cases r) (auto simp: triple_def bind_st_def from_res_def)
  show ?thesis
    unfolding start_with_capabilities_and_cancel_def Let_def
  proof (rule pure, rule pure, rule pure, rule triple_unsent_bind, goal_cases)
    case (1 task validated u)
    show ?case
      by (intro keeps_case_option keeps_bind sane_preflight(3) sane_matching_preview keeps_ret)
  next
    case (2 task validated u run)
    note d = resolve_dangerous [OF 2(1)]
    show ?case
    proof (rule pure, rule pure, goal_cases)
      case (1 implementation plan)
      let ?c = "\<lparr>rc_run = run, rc_server_id = server_id, rc_task = task,
              rc_history = history_parameters env (pt_parameters plan)\<rparr>"
      have safe: "td_risk_level (rc_task ?c) = Dangerous \<or> \<not> is_dangerous_id env (td_id (rc_task ?c))"
        using d(1) by simp
      have t: "triple (sane allowed)
        (if td_risk_level task = Dangerous then run_dangerous env ?c plan (mode_or_root mode)
         else if ti_backup_plan implementation \<noteq> None
         then fail_st (Validation ''a task with a backup plan cannot run directly'')
         else run_safe env ?c plan)
        (\<lambda>d s. if td_risk_level task = Dangerous then outcome allowed env run d s
           else ended (entry_allowed env) run d s) (audited env)"
        using triple_run [OF safe, of env plan "mode_or_root mode" "ti_backup_plan implementation \<noteq> None"]
        by (simp only: run_context.simps)
      have "is_dangerous_id env (osr_task_id request) \<longleftrightarrow> td_risk_level task = Dangerous"
        using d by simp
      then show ?case
        by (intro triple_conseq [OF t]) (auto simp: returned_def outcome_def ended_def split: if_splits)
    qed
  qed
qed

lemma triple_start:
  "triple (sane allowed) (start_with_cancel env server_id request)
     (returned (is_dangerous_id env (osr_task_id request))) (audited env)"
  unfolding start_with_cancel_def
  by (intro triple_unsent_bind triple_if triple_fail_st triple_start_with_capabilities
      keeps_quiet_sane [OF quiet_basic(6)] keeps_quiet_sane [OF quiet_basic(3)] sane_remote
      sane_preflight(1)) (rule stricter_audited)

end

section \<open>Histories of calls\<close>

datatype op_call =
    CallPreflight string op_preflight_request
  | CallStart string op_start_request
  | CallRollback uuid
  | CallReconcile uuid
  | CallCancel uuid
  | CallRestart

text \<open>The state after a call; a restart recovers what it finds interrupted.\<close>

definition run_call :: "op_env \<Rightarrow> op_call \<Rightarrow> op_state \<Rightarrow> op_state" where
  "run_call env call s =
     (case call of
        CallPreflight server request \<Rightarrow> snd (preflight env server request s)
      | CallStart server request \<Rightarrow> snd (start_with_cancel env server request s)
      | CallRollback point \<Rightarrow> snd (rollback_operation env point s)
      | CallReconcile run \<Rightarrow> snd (reconcile_ip_change env run s)
      | CallCancel run \<Rightarrow> snd (cancel_operation env run s)
      | CallRestart \<Rightarrow> snd (bind_st (with_now env op_recover_interrupted)
          (\<lambda>_. with_now env rs_recover_interrupted) s))"

lemma core_keys_recover:
  "core_keys_db (op_recover_interrupted now)" "core_keys_db (rs_recover_interrupted now)"
  by (auto simp: core_keys_db_def op_recover_interrupted_def rs_recover_interrupted_def Let_def
      update_op_steps_def core_keys_def update_op_runs_def update_items_def update_points_def
      upd_where_keys)

lemma audited_call:
  assumes "audited env s"
  shows "audited env (run_call env call s)"
proof (cases call)
  case (CallStart server request)
  have "audited env (snd (start_with_cancel env server request s))"
    using guard.triple_start [of env server request] assms
    unfolding triple_def guard.returned_def outcome_def ended_def
    by (cases "start_with_cancel env server request s") (fastforce split: sum.splits if_splits)
  then show ?thesis by (simp add: run_call_def CallStart)
next
  case CallRestart
  have "keeps (audited env) (bind_st (with_now env op_recover_interrupted)
      (\<lambda>_. with_now env rs_recover_interrupted))"
    by (intro keeps_bind sane_with_now core_keys_recover)
  then show ?thesis using assms by (simp add: run_call_def CallRestart keepsD)
qed (use assms in \<open>simp_all add: run_call_def keepsD audit.sane_preflight_all
    audit.sane_rollback_operation audit.sane_reconcile audit.sane_cancel\<close>)

lemma audited_calls: "audited env s \<Longrightarrow> audited env (fold (run_call env) calls s)"
  by (induction calls arbitrary: s) (simp_all add: audited_call)

section \<open>What can be relied on\<close>

text \<open>C2: No step of a dangerous task is sent to a server, in any history of previews, starts,
  rollbacks, reconciliations, cancellations and restarts, unless at that moment the table records the
  run as running (or verifying) and its restore point as available, with at least one item and every
  item saved.\<close>

theorem dangerous_change_has_restore_point:
  assumes "core_keys (ox_db s)" and "ox_log s = []"
    and "(EffStep run phase call, db) \<in> set (ox_log (fold (run_call env) calls s))"
  shows "status_of_run db run = Some (phase_run_status phase)
    \<and> (is_dangerous_id env (sl_task_id call) \<longrightarrow> restore_ready db run)"
proof -
  have "audited env s" using assms(1,2) by (simp add: sane_def)
  from audited_calls [OF this, of calls] assms(3)
  have "entry_allowed env (EffStep run phase call, db)" by (auto simp: sane_def list_all_iff)
  then show ?thesis by (simp add: entry_allowed_def step_allowed_def)
qed

theorem dangerous_change_has_restore_point_witness:
  "\<exists>run phase call db. (EffStep run phase call, db)
      \<in> set (ox_log (fold (run_call demo_env) [CallStart ''s'' demo_request] demo_previewed))
    \<and> is_dangerous_id demo_env (sl_task_id call)
    \<and> status_of_run db run = Some (phase_run_status phase) \<and> restore_ready db run"
proof -
  let ?log = "ox_log (fold (run_call demo_env) [CallStart ''s'' demo_request] demo_previewed)"
  obtain e db where "(e, db) \<in> set ?log"
      "case e of EffStep run phase c \<Rightarrow> sl_task_id c = ''service.restart'' | _ \<Rightarrow> False"
    using demo_started by (auto simp: demo_outcome_def run_call_def list_ex_iff split: prod.splits)
  then obtain run phase call where e: "(EffStep run phase call, db) \<in> set ?log"
      "sl_task_id call = ''service.restart''"
    by (cases e) auto
  have "is_dangerous_id demo_env (sl_task_id call)"
    using demo_dangerous e(2) by simp
  then show ?thesis
    using dangerous_change_has_restore_point [OF demo_keys e(1)] e(1) by blast
qed

text \<open>C3: When \<open>start\<close> returns the details of a run, its status is terminal and is the one in the
  table. For a dangerous task \<open>failed\<close> and \<open>cancelled\<close> mean that no step at all was sent, and
  \<open>rolled_back\<close> that the restore point of the run was applied to every item.\<close>

theorem operation_outcome:
  assumes "core_keys (ox_db s)" and "ox_log s = []"
    and "start_with_cancel env server_id request s = (Inr d, s')"
  shows "op_is_terminal (or_status (od_run d))
    \<and> status_of_run (ox_db s') (or_id (od_run d)) = Some (or_status (od_run d))
    \<and> (is_dangerous_id env (osr_task_id request) \<longrightarrow>
        (or_status (od_run d) \<in> {OpFailed, OpCancelled} \<longrightarrow> list_all no_step (ox_log s'))
        \<and> (or_status (od_run d) = OpRolledBack \<longrightarrow> undone (ox_db s') (or_id (od_run d))))"
proof -
  have "untouched env s" using assms(1,2) by (simp add: sane_def)
  with fresh.triple_start [of env server_id request] assms(3)
  have "fresh.returned env (is_dangerous_id env (osr_task_id request)) d s'"
    unfolding triple_def by fastforce
  then show ?thesis
    by (auto simp: fresh.returned_def outcome_def ended_def unsent_entry_def list_all_iff split: if_splits)
qed

theorem operation_outcome_witness:
  "\<exists>d s'. start_with_cancel demo_env ''s'' demo_request demo_previewed = (Inr d, s')
    \<and> or_status (od_run d) = OpUncertain
    \<and> status_of_run (ox_db s') (or_id (od_run d)) = Some OpUncertain"
proof -
  obtain d s' where r: "start_with_cancel demo_env ''s'' demo_request demo_previewed = (Inr d, s')"
      "or_status (od_run d) = OpUncertain"
    using demo_started by (auto simp: demo_outcome_def split: prod.splits sum.splits)
  then show ?thesis using operation_outcome [OF demo_keys r(1)] by auto
qed

section \<open>An address change is never reconciled\<close>

definition uncertain :: "uuid \<Rightarrow> op_state \<Rightarrow> bool" where
  "uncertain run s \<longleftrightarrow> core_keys (ox_db s) \<and> status_of_run (ox_db s) run = Some OpUncertain"

lemma uncertain_db: "(\<And>db. keeps (db_is db) m) \<Longrightarrow> keeps (uncertain run) m"
  by (simp add: keeps_def uncertain_def same_db)

lemma set_result_uncertain:
  assumes "uncertain run s"
  shows "\<not> is_ok (fst (ox_set_result env run result s))"
    and "uncertain run (snd (ox_set_result env run result s))"
proof -
  let ?p = "\<lambda>r. or_id r = run \<and> or_status r \<in> {OpRunning, OpVerifying}"
  have k: "distinct (map or_id (odb_runs (ox_db s)))" using assms by (simp add: uncertain_def core_keys_def)
  obtain r where r: "row_by or_id run (odb_runs (ox_db s)) = Some r" "or_status r = OpUncertain"
    using assms by (auto simp: uncertain_def status_of_run_def run_row_def)
  have zero: "affected ?p (odb_runs (ox_db s)) = 0"
    unfolding affected_by_key [OF k] using r by simp
  have same: "upd_where ?p f (odb_runs (ox_db s)) = odb_runs (ox_db s)" for f
    by (rule affected_zero [OF zero])
  have none: "\<not> list_ex ?p (odb_runs (ox_db s))"
    using zero by (auto simp: affected_def list_ex_iff filter_empty_conv)
  show "\<not> is_ok (fst (ox_set_result env run result s))"
    and "uncertain run (snd (ox_set_result env run result s))"
    using zero same none assms
    by (auto simp: ox_set_result_def with_now_def bind_st_def ask_def on_db_def op_set_result_def Let_def
        update_op_runs_def ensure_changed_def uncertain_def split: prod.splits if_splits)
qed

lemma uncertain_observed: "keeps (uncertain run) (mark_remote_rollback_observed env run')"
proof -
  have m: "keeps (uncertain run) (with_now env (rs_mark_remote_rollback_observed i))" for i
    by (rule keepsI)
      (auto simp: with_now_def bind_st_def ask_def on_db_def rs_mark_remote_rollback_observed_def
        Let_def ensure_changed_def update_points_def update_items_def uncertain_def core_keys_def
        status_of_run_def run_row_def upd_where_keys split: prod.splits if_splits)
  show ?thesis
    unfolding mark_remote_rollback_observed_def
    by (intro keeps_bind m uncertain_db db_basic)
qed

lemma triple_set_result_uncertain:
  "triple (uncertain run) (ox_set_result env run result) (\<lambda>_ _. False) (uncertain run)"
proof (rule tripleI)
  fix s x s' assume "uncertain run s" "ox_set_result env run result s = (Inr x, s')"
  then show False using set_result_uncertain(1) [of run s env result] by simp
next
  fix s e s' assume "uncertain run s" "ox_set_result env run result s = (Inl e, s')"
  then show "uncertain run s'" using set_result_uncertain(2) [of run s env result] by simp
qed

lemma triple_uncertain_bind:
  "keeps (uncertain run) m \<Longrightarrow> (\<And>x. triple (uncertain run) (k x) R (uncertain run)) \<Longrightarrow>
     triple (uncertain run) (bind_st m k) R (uncertain run)"
  by (rule triple_keep)

lemma triple_impossible: "triple (\<lambda>_. False) m Q E"
  by (simp add: triple_def)

lemma triple_settle:
  assumes "or_id (od_run details) = run"
  shows "triple (uncertain run) (settle_reconciled env details recovery state)
    (\<lambda>_ s. uncertain run s \<and> state \<notin> {IpCommitted, IpRolledBack}) (uncertain run)"
proof (cases state)
  case IpCommitted
  show ?thesis
    unfolding settle_reconciled_def Let_def assms IpCommitted ip_recovery_state.case
    by (rule triple_uncertain_bind [OF uncertain_db [OF db_commit_host]],
        rule triple_bind [OF triple_set_result_uncertain], rule triple_impossible)
next
  case IpRolledBack
  show ?thesis
    unfolding settle_reconciled_def Let_def assms IpRolledBack ip_recovery_state.case
    by (rule triple_uncertain_bind [OF uncertain_observed],
        rule triple_bind [OF triple_set_result_uncertain], rule triple_impossible)
qed (simp_all add: settle_reconciled_def triple_ret)

lemma db_reconcile_parts:
  "keeps (db_is db) (reach_for_reconcile env server target)"
  "keeps (db_is db) (inspect_recovery env server recovery mode current)"
  "keeps (db_is db) (require_details run)"
  unfolding reach_for_reconcile_def inspect_recovery_def require_details_def
  by (intro db_rules db_remote db_probe db_execute_at)+

lemma triple_reconcile:
  "triple (uncertain run) (reconcile_ip_change env run) (\<lambda>_. uncertain run) (uncertain run)"
proof -
  have get: "triple (uncertain run) (require_details run)
      (\<lambda>d s. or_id (od_run d) = run \<and> uncertain run s) (uncertain run)"
    by (rule tripleI)
      (auto dest: require_details_post keeps_result [OF uncertain_db [OF db_reconcile_parts(3)]])
  have settle: "triple (uncertain run) (settle_reconciled env details recovery state)
      (\<lambda>_. uncertain run) (uncertain run)"
    if "or_id (od_run details) = run" for details recovery state
    by (rule triple_conseq [OF triple_settle [OF that]]) auto
  have last: "triple (uncertain run) (bind_st (settle_reconciled env details recovery state)
      (\<lambda>_. require_details run)) (\<lambda>_. uncertain run) (uncertain run)"
    if "or_id (od_run details) = run" for details recovery state
    by (rule triple_bind [OF settle [OF that]], rule triple_keeps [OF uncertain_db])
      (rule db_reconcile_parts)
  note step = triple_uncertain_bind [OF uncertain_db]
  show ?thesis
    unfolding reconcile_ip_change_def Let_def
    apply (rule triple_bind [OF get])
    apply (rule triple_fact)
    apply (rule triple_if)
     apply (rule triple_fail_st, assumption)
    apply (rule step [OF db_basic(4)])+
    apply (rule step [OF db_reconcile_parts(1)])
    apply (simp only: split_beta)
    apply (rule step [OF db_basic(4)])+
    apply (rule step [OF db_reconcile_parts(2)])
    apply (rule step [OF db_basic(4)])
    apply (rule triple_uncertain_bind [OF uncertain_db])
     apply (intro db_rules db_execute_at)
    apply (erule last)
    done
qed

text \<open>C28: The reconciliation of an address change cannot succeed. Whatever the server answers, the run
  stays \<open>uncertain\<close>: if the server reports that the change was committed, or that it was rolled back,
  storing the result fails, because results are only
  stored for running operations. The code means to end the run as succeeded or rolled back.\<close>

theorem reconcile_never_settles:
  assumes "core_keys (ox_db s)" and "status_of_run (ox_db s) run = Some OpUncertain"
  shows "status_of_run (ox_db (snd (reconcile_ip_change env run s))) run = Some OpUncertain
    \<and> (or_id (od_run details) = run \<longrightarrow> state \<in> {IpCommitted, IpRolledBack} \<longrightarrow>
        \<not> is_ok (fst (settle_reconciled env details recovery state s)))"
proof (intro conjI impI)
  have u: "uncertain run s" using assms by (simp add: uncertain_def)
  from tripleD [OF triple_reconcile u, of env]
  show "status_of_run (ox_db (snd (reconcile_ip_change env run s))) run = Some OpUncertain"
    by (cases "fst (reconcile_ip_change env run s)") (auto simp: uncertain_def)
  assume "or_id (od_run details) = run" "state \<in> {IpCommitted, IpRolledBack}"
  from tripleD(1) [OF triple_settle [OF this(1)] u, of env recovery state] this(2)
  show "\<not> is_ok (fst (settle_reconciled env details recovery state s))"
    by (cases "fst (settle_reconciled env details recovery state s)") auto
qed

theorem reconcile_never_settles_witness:
  "status_of_run (ox_db (snd (reconcile_ip_change demo_env 2 demo_uncertain))) 2 = Some OpUncertain
    \<and> \<not> is_ok (fst (settle_reconciled demo_env demo_details demo_recovery IpCommitted demo_uncertain))"
  using reconcile_never_settles [of demo_uncertain 2 demo_env demo_details IpCommitted demo_recovery]
  by (simp add: demo_uncertain_def demo_previewed_def core_keys_def status_of_run_def run_row_def
      demo_details_def)

section \<open>Long outputs\<close>

lemma transition_succeeds:
  assumes "core_keys (ox_db s)" "status_of_run (ox_db s) run = Some st" "op_can_transition st next"
  obtains s' where "ox_transition env run next s = (Inr (), s')"
    "status_of_run (ox_db s') run = Some next"
proof -
  have k: "distinct (map or_id (odb_runs (ox_db s)))" using assms(1) by (simp add: core_keys_def)
  obtain r where r: "row_by or_id run (odb_runs (ox_db s)) = Some r" "or_status r = st"
    using assms(2) by (auto simp: status_of_run_def run_row_def)
  have "affected (\<lambda>q. or_id q = run \<and> or_status q = st) (odb_runs (ox_db s)) = 1"
    unfolding affected_by_key [OF k] using r by simp
  then have "is_ok (fst (ox_transition env run next s))"
    using r assms(3)
    by (simp add: ox_transition_def with_now_def bind_st_def ask_def on_db_def op_transition_def Let_def
        run_row_def commit_one_def update_op_runs_def ensure_changed_def)
  then obtain s' where "ox_transition env run next s = (Inr (), s')"
    by (cases "ox_transition env run next s"; cases "fst (ox_transition env run next s)") auto
  then show ?thesis using transition_post(1) that by blast
qed

lemma set_result_too_long:
  assumes "core_keys (ox_db s)" "json_text_ok (oe_encode env)"
    and "65492 < length (ores_technical_details result)"
  shows "\<not> is_ok (fst (ox_set_result env run result s))"
    and "ox_db (snd (ox_set_result env run result s)) = ox_db s"
proof -
  have "65536 < length (oe_encode env (result_json result))"
    using result_json_size [OF assms(2), of result] assms(3) by simp
  moreover have "upd_where p f xs = xs \<and> affected p xs = 0" if "\<not> list_ex p xs"
    for p f and xs :: "operation_run list"
    using that by (induction xs) auto
  ultimately show "\<not> is_ok (fst (ox_set_result env run result s))"
    and "ox_db (snd (ox_set_result env run result s)) = ox_db s"
    by (auto simp: ox_set_result_def with_now_def bind_st_def ask_def on_db_def op_set_result_def Let_def
        update_op_runs_def ensure_changed_def result_column_bytes_def split: prod.splits if_splits)
qed

section \<open>A restore point is a command too\<close>

text \<open>The item that saves owner and mode of a path before they are changed.\<close>

definition permissions_backup_item :: backup_item_definition where
  "permissions_backup_item =
     hd (the (ti_backup_plan (hd (td_implementations file_permissions_task))))"

definition stat_format :: string where
  "stat_format = shell_quote (''path=%n'' @ [CHR 0x5C] @ ''nuid=%u'' @ [CHR 0x5C] @ ''ngid=%g''
     @ [CHR 0x5C] @ ''nmode=%a'')"

definition permissions_backup_command :: "string \<Rightarrow> string" where
  "permissions_backup_command path =
     ''test ! -L '' @ path @ '' && stat -Lc '' @ stat_format @ '' -- '' @ path"

definition permissions_backup_segments :: "segment list" where
  "permissions_backup_segments =
     [Lit ''test ! -L '', Hole ''path'', Lit ('' && stat -Lc '' @ stat_format @ '' -- ''),
      Hole ''path'']"

lemma stat_format_plain:
  "CHR ''{'' \<notin> set stat_format" "CHR ''}'' \<notin> set stat_format" "CHR 0x00 \<notin> set stat_format"
  by (simp_all add: stat_format_def shell_quote_def quote_escape_def)

lemma permissions_backup_template:
  "bi_target_template permissions_backup_item = template_text permissions_backup_segments"
  by (simp add: permissions_backup_item_def file_permissions_task_def task_record_simps
      stat_format_def placeholder_def backup_item_def permissions_backup_segments_def)

lemma permissions_backup_clean: "list_all clean_segment permissions_backup_segments"
  using stat_format_plain by (simp add: permissions_backup_segments_def quiet_brace_free)

lemma replace_absent: "CHR ''{'' \<notin> set s \<Longrightarrow> replace_str (placeholder n) v s = s"
  using replace_silent [OF silent_head, of "CHR ''{''" s "tl (placeholder n)" v "[]"]
  by (auto simp: placeholder_def list_all_iff)

lemma brace_free_contains:
  "CHR ''{'' \<notin> set s \<Longrightarrow> \<not> str_contains s ''{{''" "CHR ''}'' \<notin> set s \<Longrightarrow> \<not> str_contains s ''}}''"
  using silent_contains [OF silent_head, of "CHR ''{''" s "''{''"]
    silent_contains [OF silent_head, of "CHR ''}''" s "''}''"]
  by (auto simp: list_all_iff)

lemma permissions_backup_rendered:
  assumes "CHR ''{'' \<notin> set path" "CHR ''}'' \<notin> set path" "CHR 0x00 \<notin> set path"
  shows "render_backup_target encode (bi_target_template permissions_backup_item) impl
      [(''gid'', number_value 0), (''mode'', quoted_value mode), (''path'', quoted_value path),
       (''uid'', number_value 0)]
    = Inr (permissions_backup_command path)"
proof -
  let ?t = "template_text permissions_backup_segments"
  have other: "replace_str (placeholder n) v ?t = ?t" if "clean_name n" "n \<noteq> ''path''" for n v
    using that replace_placeholder [OF permissions_backup_clean, of n v]
    by (simp add: permissions_backup_segments_def)
  have hit: "replace_str (placeholder ''path'') path ?t = permissions_backup_command path"
    using replace_placeholder [OF permissions_backup_clean, of "''path''" path]
    by (simp add: permissions_backup_segments_def permissions_backup_command_def)
  have free: "CHR ''{'' \<notin> set (permissions_backup_command path)"
    "CHR ''}'' \<notin> set (permissions_backup_command path)"
    "CHR 0x00 \<notin> set (permissions_backup_command path)"
    using assms stat_format_plain by (simp_all add: permissions_backup_command_def)
  have "?t \<noteq> []" "CHR 0x00 \<notin> set ?t"
    using stat_format_plain by (simp_all add: permissions_backup_segments_def placeholder_def)
  then show ?thesis
    by (simp add: permissions_backup_template render_backup_target_def quoted_value_def
        number_value_def other hit replace_absent brace_free_contains free)
qed

text \<open>C31: The command that saves owner and mode before a change holds the path as it was given, without
  quotes (every other command of the task quotes it), and the service runs it as root: the checks
  accept a path such as \<open>/x; reboot\<close>, and its second part is a command of its own.\<close>

theorem backup_command_injects_path:
  assumes "is_normalized_absolute_path path" "CHR 0x00 \<notin> set path" "path \<notin> set protected_paths"
    and "CHR ''{'' \<notin> set path" "CHR ''}'' \<notin> set path" "is_file_mode mode"
  shows "bind_res (validate_parameters parse_str file_permissions_task
        (JObject [(''mode'', JString mode), (''path'', JString path)]))
      (render_backup_target encode (bi_target_template permissions_backup_item) impl)
    = Inr (permissions_backup_command path)"
proof -
  have "starts_with path ''/''" using assms(1) by (simp add: is_normalized_absolute_path_def)
  then show ?thesis
    using permissions_values [OF _ assms(2,3,1,6)] permissions_backup_rendered [OF assms(4,5,2)]
    by simp
qed

theorem backup_command_injects_path_witness:
  "bind_res (validate_parameters (\<lambda>_. None) file_permissions_task
        (JObject [(''mode'', JString ''0640''), (''path'', JString ''/x; reboot'')]))
      (render_backup_target (\<lambda>_. []) (bi_target_template permissions_backup_item) ''posix-stat'')
    = Inr (permissions_backup_command ''/x; reboot'')"
  by (rule backup_command_injects_path)
    (simp_all add: is_normalized_absolute_path_def is_plain_segment_def protected_paths_def
      is_file_mode_def byte_def)

end
