(* ===== verification/Op_Liveness.thy ===== *)
theory Op_Liveness
  imports Op_Claims
begin

text \<open>
  What ends well: the run of a safe task whose steps all succeed, and the one point where it
  nevertheless fails.
\<close>

section \<open>Operations that succeed\<close>

definition succeeds ::
  "('s \<Rightarrow> bool) \<Rightarrow> ('s, 'a) st \<Rightarrow> ('a \<Rightarrow> 's \<Rightarrow> bool) \<Rightarrow> bool" where
  "succeeds P m Q \<longleftrightarrow> (\<forall>s. P s \<longrightarrow> (\<exists>x s'. m s = (Inr x, s') \<and> Q x s'))"

lemma succeedsI: "(\<And>s. P s \<Longrightarrow> \<exists>x s'. m s = (Inr x, s') \<and> Q x s') \<Longrightarrow> succeeds P m Q"
  by (simp add: succeeds_def)

lemma succeedsE:
  assumes "succeeds P m Q" "P s"
  obtains x s' where "m s = (Inr x, s')" "Q x s'"
  using assms by (auto simp: succeeds_def)

lemma succeeds_bind:
  "succeeds P m Q \<Longrightarrow> (\<And>x. succeeds (Q x) (k x) R) \<Longrightarrow> succeeds P (bind_st m k) R"
  unfolding succeeds_def bind_st_def by fastforce

lemma bind_run: "m s = (Inr x, s') \<Longrightarrow> bind_st m k s = k x s'"
  by (simp add: bind_st_def)

lemma succeeds_conseq:
  "succeeds P m Q \<Longrightarrow> (\<And>s. P' s \<Longrightarrow> P s) \<Longrightarrow> (\<And>x s. Q x s \<Longrightarrow> Q' x s) \<Longrightarrow> succeeds P' m Q'"
  unfolding succeeds_def by blast

lemma succeeds_fact: "(A \<Longrightarrow> succeeds P m Q) \<Longrightarrow> succeeds (\<lambda>s. A \<and> P s) m Q"
  unfolding succeeds_def by blast

lemma succeeds_ret: "(\<And>s. P s \<Longrightarrow> Q x s) \<Longrightarrow> succeeds P (ret_st x) Q"
  by (auto intro!: succeedsI simp: ret_st_def)

lemma succeeds_false: "(\<And>s. \<not> P s) \<Longrightarrow> succeeds P m Q"
  by (simp add: succeeds_def)

section \<open>Steps that wait\<close>

definition pending_from :: "op_db \<Rightarrow> uuid \<Rightarrow> operation_phase \<Rightarrow> nat \<Rightarrow> nat \<Rightarrow> bool" where
  "pending_from db run phase index n \<longleftrightarrow>
     list_all (\<lambda>i. map_option os_status (step_row db run phase i) = Some StPending) [index..<index + n]"

definition steps_ready :: "operation_status \<Rightarrow> uuid \<Rightarrow> nat \<Rightarrow> nat \<Rightarrow> op_state \<Rightarrow> bool" where
  "steps_ready status run index n s \<longleftrightarrow>
     core_keys (ox_db s) \<and> distinct (map step_key (odb_steps (ox_db s)))
     \<and> status_of_run (ox_db s) run = Some status \<and> index + n \<le> max_i64
     \<and> pending_from (ox_db s) run PhExecute index n"

text \<open>The same while step \<open>index\<close> itself runs.\<close>

definition step_runs :: "uuid \<Rightarrow> nat \<Rightarrow> nat \<Rightarrow> op_state \<Rightarrow> bool" where
  "step_runs run index n s \<longleftrightarrow>
     steps_ready OpRunning run (Suc index) n s
     \<and> map_option os_status (step_row (ox_db s) run PhExecute index) = Some StRunning"

lemma pending_from_Suc:
  "pending_from db run phase index (Suc n) \<longleftrightarrow>
     map_option os_status (step_row db run phase index) = Some StPending
     \<and> pending_from db run phase (Suc index) n"
  by (simp add: pending_from_def upt_conv_Cons del: upt_Suc)

lemma pending_from_cong:
  assumes "\<And>i. index \<le> i \<Longrightarrow> step_row db' run phase i = step_row db run phase i"
  shows "pending_from db' run phase index n = pending_from db run phase index n"
  using assms by (simp add: pending_from_def list_all_iff)

lemma transition_step_succeeds:
  assumes "distinct (map step_key (odb_steps db))" "index \<le> max_i64"
    and "map_option os_status (step_row db run phase index) = Some current"
    and "step_can_transition current (sc_next c)"
    and "\<And>e. sc_execution_id c = Some e \<Longrightarrow> e \<in> set (odb_executions db)"
  obtains db' where "transition_step run phase index c db = (Inr (), db')"
    and "odb_runs db' = odb_runs db" "odb_points db' = odb_points db" "odb_items db' = odb_items db"
    and "map step_key (odb_steps db') = map step_key (odb_steps db)"
    and "map_option os_status (step_row db' run phase index) = Some (sc_next c)"
    and "\<And>i. i \<noteq> index \<Longrightarrow> step_row db' run phase i = step_row db run phase i"
proof -
  let ?p = "\<lambda>s. step_key s = (run, phase, index) \<and> os_status s = current"
  let ?db = "db\<lparr>odb_steps := upd_where ?p (apply_step_change c) (odb_steps db)\<rparr>"
  obtain s where s: "row_by step_key (run, phase, index) (odb_steps db) = Some s" "os_status s = current"
    using assms(3) by (auto simp: step_row_def)
  have key: "step_key (apply_step_change c r) = step_key r" for r
    by (simp add: apply_step_change_def step_key_def)
  have keys: "map step_key (upd_where ?p (apply_step_change c) (odb_steps db)) = map step_key (odb_steps db)"
    by (rule upd_where_keys) (rule key)
  have one: "affected ?p (odb_steps db) = 1"
    unfolding affected_by_key [OF assms(1)] using s by simp
  have rows: "step_row ?db run phase i =
      (if i = index then Some (apply_step_change c s) else step_row db run phase i)" for i
    using s row_by_upd_where [where key = step_key and j = "(run, phase, i)" and k = "(run, phase, index)"
        and p = "\<lambda>s. os_status s = current" and f = "apply_step_change c" and rows = "odb_steps db", OF key]
    by (simp add: step_row_def)
  have "transition_step run phase index c db = (Inr (), ?db)"
    using assms(2,4,5) s one
    by (auto simp: transition_step_def index_to_i64_def step_row_def commit_one_def ensure_changed_def
        update_op_steps_def split: option.split)
  then show ?thesis
    by (rule that) (simp_all add: rows keys, simp add: apply_step_change_def)
qed

text \<open>A step transition inside the tables, for a run whose other steps wait.\<close>

lemma succeeds_step:
  assumes "step_can_transition current (sc_next c)"
    and "steps_ready OpRunning run (Suc index) n (s\<lparr>ox_db := db\<rparr>)"
    and "map_option os_status (step_row db run PhExecute index) = Some current"
    and "\<And>e. sc_execution_id c = Some e \<Longrightarrow> e \<in> set (odb_executions db)"
  obtains db' where "transition_step run PhExecute index c db = (Inr (), db')"
    and "steps_ready OpRunning run (Suc index) n (s\<lparr>ox_db := db'\<rparr>)"
    and "map_option os_status (step_row db' run PhExecute index) = Some (sc_next c)"
proof -
  have d: "distinct (map step_key (odb_steps db))" and i: "index \<le> max_i64"
    using assms(2) by (simp_all add: steps_ready_def)
  obtain db' where t: "transition_step run PhExecute index c db = (Inr (), db')"
    "odb_runs db' = odb_runs db" "odb_points db' = odb_points db" "odb_items db' = odb_items db"
    "map step_key (odb_steps db') = map step_key (odb_steps db)"
    "map_option os_status (step_row db' run PhExecute index) = Some (sc_next c)"
    "\<And>i. i \<noteq> index \<Longrightarrow> step_row db' run PhExecute i = step_row db run PhExecute i"
    using transition_step_succeeds [OF d i assms(3,1,4)] by blast
  have "pending_from db' run PhExecute (Suc index) n = pending_from db run PhExecute (Suc index) n"
    by (rule pending_from_cong) (simp add: t(7))
  with assms(2) t show ?thesis
    by (intro that [OF t(1)]) (auto simp: steps_ready_def core_keys_def status_of_run_def run_row_def)
qed

section \<open>A task whose steps succeed\<close>

definition steps_succeed :: "op_env \<Rightarrow> bool" where
  "steps_succeed env \<longleftrightarrow> (\<forall>t call. \<not> oe_cancelled env t
     \<and> (\<exists>d. snd (oe_step env t call) = Inr d \<and> er_status (ed_record d) = ESucceeded))"

lemma with_now_eq:
  "m (oe_now env (ox_tick s)) (ox_db s) = (Inr x, db') \<Longrightarrow>
     with_now env m s = (Inr x, s\<lparr>ox_db := db', ox_tick := Suc (ox_tick s)\<rparr>)"
  by (simp add: with_now_def bind_st_def ask_def on_db_def)

lemma steps_ready_db:
  "steps_ready status run index n s = steps_ready status run index n t" if "ox_db s = ox_db t"
  using that by (simp add: steps_ready_def)

lemma steps_ready_first:
  "steps_ready OpRunning run index (Suc n) s \<longleftrightarrow> steps_ready OpRunning run (Suc index) n s
     \<and> map_option os_status (step_row (ox_db s) run PhExecute index) = Some StPending"
  by (auto simp: steps_ready_def pending_from_Suc)

lemma succeeds_mark:
  "succeeds (steps_ready OpRunning run index (Suc n)) (ox_mark_step_running env run PhExecute index)
     (\<lambda>_. step_runs run index n)"
proof (rule succeedsI)
  fix s assume "steps_ready OpRunning run index (Suc n) s"
  then have s: "steps_ready OpRunning run (Suc index) n (s\<lparr>ox_db := ox_db s\<rparr>)"
    "map_option os_status (step_row (ox_db s) run PhExecute index) = Some StPending"
    by (simp_all add: steps_ready_first)
  let ?c = "\<lparr>sc_next = StRunning, sc_execution_id = None, sc_output_summary = None,
    sc_error_message = None, sc_started_at = Some (oe_now env (ox_tick s)), sc_finished_at = None\<rparr>"
  have c: "step_can_transition StPending (sc_next ?c)" by (simp add: step_can_transition_def)
  obtain db' where t: "transition_step run PhExecute index ?c (ox_db s) = (Inr (), db')"
    and r: "steps_ready OpRunning run (Suc index) n (s\<lparr>ox_db := db'\<rparr>)"
      "map_option os_status (step_row db' run PhExecute index) = Some StRunning"
    using succeeds_step [OF c s] by auto
  from t have "ox_mark_step_running env run PhExecute index s
      = (Inr (), s\<lparr>ox_db := db', ox_tick := Suc (ox_tick s)\<rparr>)"
    unfolding ox_mark_step_running_def
    by (intro with_now_eq) (simp add: op_mark_step_running_def)
  with r show "\<exists>x s'. ox_mark_step_running env run PhExecute index s = (Inr x, s') \<and> step_runs run index n s'"
    by (simp add: step_runs_def steps_ready_def)
qed

definition executed :: "uuid \<Rightarrow> nat \<Rightarrow> nat \<Rightarrow> execution_details app_result \<Rightarrow> op_state \<Rightarrow> bool" where
  "executed run index n r s \<longleftrightarrow>
     (case r of Inl _ \<Rightarrow> False
      | Inr d \<Rightarrow> er_status (ed_record d) = ESucceeded
          \<and> er_id (ed_record d) \<in> set (odb_executions (ox_db s)) \<and> step_runs run index n s)"

lemma succeeds_execute:
  assumes "steps_succeed env"
  shows "succeeds (step_runs run index n) (execute_step env run PhExecute call)
     (\<lambda>answer. executed run index n (snd answer))"
proof (rule succeedsI)
  fix s assume s: "step_runs run index n s"
  obtain d where d: "snd (oe_step env (ox_tick s) call) = Inr d" "er_status (ed_record d) = ESucceeded"
    using assms by (auto simp: steps_succeed_def)
  let ?s = "s\<lparr>ox_log := ox_log s @ [(EffStep run PhExecute call, ox_db s)], ox_tick := Suc (ox_tick s),
     ox_db := (ox_db s)\<lparr>odb_executions := er_id (ed_record d) # odb_executions (ox_db s)\<rparr>\<rparr>"
  have e: "execute_step env run PhExecute call s = (Inr (oe_step env (ox_tick s) call), ?s)"
    by (simp add: execute_step_def bind_st_def log_effect_def ask_def d on_db_def ret_st_def)
  have "pending_from (ox_db ?s) run PhExecute (Suc index) n = pending_from (ox_db s) run PhExecute (Suc index) n"
    by (rule pending_from_cong) (simp add: step_row_def)
  with s d have "executed run index n (snd (oe_step env (ox_tick s) call)) ?s"
    by (simp add: executed_def step_runs_def steps_ready_def core_keys_def status_of_run_def run_row_def
        step_row_def)
  with e show "\<exists>x s'. execute_step env run PhExecute call s = (Inr x, s') \<and> executed run index n (snd x) s'"
    by blast
qed

lemma succeeds_finish:
  "succeeds (executed run index n (Inr d)) (ox_finish_executed env run PhExecute index StSucceeded (ed_record d))
     (\<lambda>_. steps_ready OpRunning run (Suc index) n)"
proof (rule succeedsI)
  fix s assume "executed run index n (Inr d) s"
  then have s: "steps_ready OpRunning run (Suc index) n (s\<lparr>ox_db := ox_db s\<rparr>)"
    "map_option os_status (step_row (ox_db s) run PhExecute index) = Some StRunning"
    and e: "er_id (ed_record d) \<in> set (odb_executions (ox_db s))"
    by (simp_all add: executed_def step_runs_def)
  let ?r = "ed_record d"
  let ?c = "\<lparr>sc_next = StSucceeded, sc_execution_id = Some (er_id ?r),
    sc_output_summary = cap_utf8 (er_output_summary ?r) (8 * 1024),
    sc_error_message = cap_utf8 (er_error_message ?r) (8 * 1024), sc_started_at = None,
    sc_finished_at = Some (case er_finished_at ?r of None \<Rightarrow> oe_now env (ox_tick s) | Some t \<Rightarrow> t)\<rparr>"
  have c: "step_can_transition StRunning (sc_next ?c)" by (simp add: step_can_transition_def)
  obtain db' where t: "transition_step run PhExecute index ?c (ox_db s) = (Inr (), db')"
    and r: "steps_ready OpRunning run (Suc index) n (s\<lparr>ox_db := db'\<rparr>)"
    using succeeds_step [OF c s] e by auto
  from t have "ox_finish_executed env run PhExecute index StSucceeded ?r s
      = (Inr (), s\<lparr>ox_db := db', ox_tick := Suc (ox_tick s)\<rparr>)"
    unfolding ox_finish_executed_def
    by (intro with_now_eq) (simp add: op_finish_step_def step_is_terminal_def)
  with r show "\<exists>x s'. ox_finish_executed env run PhExecute index StSucceeded ?r s = (Inr x, s')
      \<and> steps_ready OpRunning run (Suc index) n s'"
    by (simp add: steps_ready_def)
qed

lemma succeeds_uncancelled:
  assumes "steps_succeed env" "\<And>s t. ox_db s = ox_db t \<Longrightarrow> P s = P t"
  shows "succeeds P (ask (oe_cancelled env)) (\<lambda>b s. \<not> b \<and> P s)"
proof (rule succeedsI)
  fix s assume "P s"
  then have "P (s\<lparr>ox_tick := Suc (ox_tick s)\<rparr>)" using assms(2) [of "s\<lparr>ox_tick := Suc (ox_tick s)\<rparr>" s] by simp
  then show "\<exists>b s'. ask (oe_cancelled env) s = (Inr b, s') \<and> \<not> b \<and> P s'"
    using assms(1) by (auto simp: ask_def steps_succeed_def)
qed

lemma ready_transition:
  assumes s: "steps_ready status run index n s" and can: "op_can_transition status next"
  obtains s' where "ox_transition env run next s = (Inr (), s')" "steps_ready next run index n s'"
proof -
  from s have "core_keys (ox_db s)" "status_of_run (ox_db s) run = Some status"
    by (simp_all add: steps_ready_def)
  from transition_succeeds [OF this can, of env]
  obtain s' where s': "ox_transition env run next s = (Inr (), s')" by blast
  have "core_keys_db (op_transition run next now)" for now by (intro sane_intros)
  then have "core_keys (ox_db s')"
    using s s' by (auto simp: ox_transition_def with_now_def bind_st_def ask_def on_db_def core_keys_db_def
        steps_ready_def split: prod.splits) (metis snd_conv)
  with s transition_post(1,5) [OF s'] have "steps_ready next run index n s'"
    by (simp add: steps_ready_def pending_from_def step_row_def)
  with s' show ?thesis by (rule that)
qed

lemma succeeds_safe_steps:
  assumes "steps_succeed env"
  shows "succeeds (steps_ready OpRunning (rc_run c) index (length steps))
     (run_safe_steps env c index steps output)
     (\<lambda>r s. \<not> isl r \<and> steps_ready OpRunning (rc_run c) (index + length steps) 0 s)"
proof (induction steps arbitrary: index "output")
  case Nil
  show ?case by (simp only: run_safe_steps.simps, rule succeeds_ret) simp
next
  case (Cons step steps)
  let ?run = "rc_run c" and ?n = "length steps"
  let ?R = "\<lambda>r s. \<not> isl r \<and> steps_ready OpRunning ?run (index + length (step # steps)) 0 s"
  let ?rest = "\<lambda>(events, execution).
     let output' = foldl sink_send output events in
       case execution of
         Inl e \<Rightarrow>
           bind_st (fail_step env ?run PhExecute index e) (\<lambda>_.
           bind_st (ox_transition env ?run OpFailed) (\<lambda>_. fail_st e))
       | Inr details \<Rightarrow>
           let rec = ed_record details; statuses = statuses_for_execution (er_status rec) in
           bind_st (ox_finish_executed env ?run PhExecute index (fst statuses) rec) (\<lambda>_.
             case snd statuses of
               None \<Rightarrow> run_safe_steps env c (Suc index) steps output'
             | Some status \<Rightarrow>
                 bind_st (ox_skip_pending_steps env ?run PhExecute (Suc index)) (\<lambda>_.
                 bind_st (ox_transition env ?run status) (\<lambda>_.
                 bind_st (require_details ?run) (\<lambda>d. ret_st (Inl d)))))"
  have rest: "succeeds (executed ?run index ?n (snd x)) (?rest x) ?R" for x
  proof (cases x)
    case (Pair events execution)
    show ?thesis
    proof (cases execution)
      case (Inl e)
      show ?thesis by (rule succeeds_false) (simp add: Pair Inl executed_def)
    next
      case (Inr d)
      show ?thesis
      proof (cases "er_status (ed_record d) = ESucceeded")
        case True
        show ?thesis
          by (simp only: Pair Inr Let_def prod.case sum.case snd_conv fst_conv True statuses_for_execution.simps
              option.case, rule succeeds_bind [OF succeeds_finish], rule succeeds_conseq [OF Cons.IH]) simp_all
      qed (rule succeeds_false, simp add: Pair Inr executed_def)
    qed
  qed
  show ?case
    apply (simp only: run_safe_steps.simps)
    apply (rule succeeds_bind [OF succeeds_uncancelled [OF assms steps_ready_db]], assumption)
    apply (rule succeeds_fact)
    apply (simp only: if_False length_Cons)
    apply (rule succeeds_bind [OF succeeds_mark])
    apply (rule succeeds_bind [OF succeeds_execute [OF assms]])
    apply (rule rest [simplified length_Cons])
    done
qed

text \<open>A task without backup whose steps all succeed: its output, and the state when it is known.\<close>

definition safe_output :: "op_env \<Rightarrow> run_context \<Rightarrow> planned_task \<Rightarrow> op_state \<Rightarrow> string" where
  "safe_output env c plan s =
     (case fst (bind_st (ask (oe_cancelled env)) (\<lambda>_. bind_st (ox_transition env (rc_run c) OpRunning)
        (\<lambda>_. run_safe_steps env c 0 (pt_execution_steps plan) [])) s) of
        Inr (Inr output) \<Rightarrow> output | _ \<Rightarrow> [])"

lemma run_safe_finish:
  assumes "steps_succeed env" "status \<in> {OpPreflighting, OpPreviewReady}"
    and "steps_ready status (rc_run c) 0 (length (pt_execution_steps plan)) s"
  obtains s' where "steps_ready OpRunning (rc_run c) (length (pt_execution_steps plan)) 0 s'"
    and "run_safe env c plan s =
      bind_st (attempt (ox_set_result env (rc_run c)
          (result_of env plan ''finished'' (safe_output env c plan s))))
        (\<lambda>stored. case stored of
           Inl e \<Rightarrow> bind_st (discard (ox_transition env (rc_run c) OpFailed)) (\<lambda>_. fail_st e)
         | Inr _ \<Rightarrow> bind_st (ox_transition env (rc_run c) OpSucceeded) (\<lambda>_. require_details (rc_run c))) s'"
proof -
  let ?n = "length (pt_execution_steps plan)" and ?t = "s\<lparr>ox_tick := Suc (ox_tick s)\<rparr>"
  have ask: "ask (oe_cancelled env) s = (Inr False, ?t)"
    using assms(1) by (simp add: ask_def steps_succeed_def)
  have can: "op_can_transition status OpRunning"
    using assms(2) by (auto simp: op_can_transition_def)
  have "steps_ready status (rc_run c) 0 ?n ?t"
    using assms(3) by (simp add: steps_ready_def)
  then obtain s1 where s1: "ox_transition env (rc_run c) OpRunning ?t = (Inr (), s1)"
    "steps_ready OpRunning (rc_run c) 0 ?n s1"
    by (rule ready_transition [OF _ can])
  obtain r s2 where s2: "run_safe_steps env c 0 (pt_execution_steps plan) [] s1 = (Inr r, s2)"
    "\<not> isl r \<and> steps_ready OpRunning (rc_run c) (0 + ?n) 0 s2"
    by (rule succeedsE [OF succeeds_safe_steps [OF assms(1)] s1(2)])
  then obtain "output" where r: "r = Inr output" by (cases r) auto
  have "safe_output env c plan s = output"
    by (simp add: safe_output_def bind_st_def ask s1 s2 r)
  then show ?thesis
    using s2 by (intro that [of s2])
      (simp_all add: run_safe_def bind_run [where m = "ask (oe_cancelled env)", OF ask]
        bind_run [where m = "ox_transition env (rc_run c) OpRunning", OF s1(1)]
        bind_run [where m = "run_safe_steps env c 0 (pt_execution_steps plan) []", OF s2(1)] r)
qed

lemma set_result_succeeds:
  assumes "steps_ready OpRunning run index n s"
    and "length (oe_encode env (result_json result)) \<le> 65536"
  shows "\<exists>s'. ox_set_result env run result s = (Inr (), s') \<and> steps_ready OpRunning run index n s'"
proof -
  let ?p = "\<lambda>r. or_id r = run \<and> or_status r \<in> {OpRunning, OpVerifying}"
  let ?f = "\<lambda>now r. r\<lparr>or_result := Some (result_json result), or_updated_at := now\<rparr>"
  let ?db = "\<lambda>now db. db\<lparr>odb_runs := upd_where ?p (?f now) (odb_runs db)\<rparr>"
  have k: "distinct (map or_id (odb_runs (ox_db s)))"
    using assms(1) by (simp add: steps_ready_def core_keys_def)
  obtain r where r: "row_by or_id run (odb_runs (ox_db s)) = Some r" "or_status r = OpRunning"
    using assms(1) by (auto simp: steps_ready_def status_of_run_def run_row_def)
  have one: "affected ?p (odb_runs (ox_db s)) = 1"
    unfolding affected_by_key [OF k] using r by simp
  let ?now = "oe_now env (ox_tick s)"
  have "op_set_result (oe_encode env) run (result_json result) ?now (ox_db s) = (Inr (), ?db ?now (ox_db s))"
    using assms(2) one
    by (simp add: op_set_result_def Let_def max_result_bytes_def result_column_bytes_def update_op_runs_def
        ensure_changed_def)
  then have "ox_set_result env run result s
      = (Inr (), s\<lparr>ox_db := ?db ?now (ox_db s), ox_tick := Suc (ox_tick s)\<rparr>)"
    unfolding ox_set_result_def by (rule with_now_eq)
  moreover have "row_by or_id run (upd_where ?p (?f ?now) (odb_runs (ox_db s))) = Some (?f ?now r)"
    using r row_by_upd_where [where key = or_id and f = "?f ?now" and k = run and j = run
        and p = "\<lambda>r. or_status r \<in> {OpRunning, OpVerifying}" and rows = "odb_runs (ox_db s)"]
    by simp
  ultimately show ?thesis
    using assms(1) r
    by (simp add: steps_ready_def core_keys_def upd_where_keys status_of_run_def run_row_def
        pending_from_def step_row_def)
qed

text \<open>C6: A task without backup comes to its end: if its run is ready, nobody cancels it, every step
  succeeds and the encoded result has at most 64 KiB, then the run succeeds and its details say so.\<close>

theorem safe_run_succeeds:
  assumes "steps_succeed env" "status \<in> {OpPreflighting, OpPreviewReady}"
    and "steps_ready status (rc_run c) 0 (length (pt_execution_steps plan)) s"
    and "length (oe_encode env (result_json
           (result_of env plan ''finished'' (safe_output env c plan s)))) \<le> 65536"
  shows "\<exists>d s'. run_safe env c plan s = (Inr d, s') \<and> or_status (od_run d) = OpSucceeded
    \<and> status_of_run (ox_db s') (rc_run c) = Some OpSucceeded"
proof -
  let ?result = "result_of env plan ''finished'' (safe_output env c plan s)"
  let ?n = "length (pt_execution_steps plan)"
  obtain s1 where s1: "steps_ready OpRunning (rc_run c) ?n 0 s1"
    and run: "run_safe env c plan s = bind_st (attempt (ox_set_result env (rc_run c) ?result))
        (\<lambda>stored. case stored of
           Inl e \<Rightarrow> bind_st (discard (ox_transition env (rc_run c) OpFailed)) (\<lambda>_. fail_st e)
         | Inr _ \<Rightarrow> bind_st (ox_transition env (rc_run c) OpSucceeded) (\<lambda>_. require_details (rc_run c))) s1"
    by (rule run_safe_finish [OF assms(1-3)])
  obtain s2 where s2: "ox_set_result env (rc_run c) ?result s1 = (Inr (), s2)"
    "steps_ready OpRunning (rc_run c) ?n 0 s2"
    using set_result_succeeds [OF s1 assms(4)] by metis
  have can: "op_can_transition OpRunning OpSucceeded" by (simp add: op_can_transition_def)
  obtain s3 where s3: "ox_transition env (rc_run c) OpSucceeded s2 = (Inr (), s3)"
    "steps_ready OpSucceeded (rc_run c) ?n 0 s3"
    by (rule ready_transition [OF s2(2) can])
  obtain d where d: "require_details (rc_run c) s3 = (Inr d, s3)" "or_status (od_run d) = OpSucceeded"
    using s3(2) by (auto simp: require_details_def bind_st_def look_def from_res_def ok_or_def op_get_def
        steps_ready_def status_of_run_def)
  show ?thesis
    using s3(2) by (simp add: run bind_st_def attempt_def s2(1) s3(1) d steps_ready_def)
qed


section \<open>Concrete runs\<close>

text \<open>The same world when the steps succeed, and when the results are long.\<close>

definition demo_succeeds :: op_env where
  "demo_succeeds = demo_env\<lparr>oe_step := (\<lambda>_ call. ([], Inr (demo_execution ESucceeded call)))\<rparr>"

fun json_letters :: "json \<Rightarrow> string" where
  "json_letters (JString s) = CHR 0x22 # s @ [CHR 0x22]"
| "json_letters (JObject ms) = concat (map (\<lambda>(k, v). k @ json_letters v) ms)"
| "json_letters _ = []"


definition demo_long :: op_env where
  "demo_long = demo_succeeds\<lparr>oe_encode := json_letters,
     oe_default_redact := (\<lambda>_. replicate 65500 (CHR ''x''))\<rparr>"

definition demo_context :: run_context where
  "demo_context = \<lparr>rc_run = 2, rc_server_id = ''s'', rc_task = demo_task, rc_history = []\<rparr>"

definition demo_plan :: planned_task where
  "demo_plan =
     \<lparr>pt_definition_id = ''service.restart'', pt_definition_version = 2, pt_implementation_id = ''i'',
      pt_risk_level = Safe, pt_privilege = CurrentUser, pt_parameters = [], pt_preflight_steps = [],
      pt_preview_steps = [], pt_backup_plan = None,
      pt_execution_steps = [network_step ''execute'' ''t'' ''d''], pt_verify_steps = [],
      pt_rollback_plan = None, pt_result_parser = ParseKeyValue, pt_estimated_seconds = 1\<rparr>"


lemma demo_steps_succeed: "steps_succeed demo_succeeds" "steps_succeed demo_long"
  by (simp_all add: steps_succeed_def demo_succeeds_def demo_long_def demo_env_def demo_execution_def)

lemma demo_ready:
  "steps_ready OpPreviewReady (rc_run demo_context) 0 (length (pt_execution_steps demo_plan)) demo_previewed"
  by (simp add: steps_ready_def demo_previewed_def demo_context_def demo_plan_def core_keys_def
      status_of_run_def run_row_def step_key_def waiting_step_def max_i64_def pending_from_def step_row_def)

theorem safe_run_succeeds_witness:
  "\<exists>d s'. run_safe demo_succeeds demo_context demo_plan demo_previewed = (Inr d, s')
    \<and> or_status (od_run d) = OpSucceeded \<and> status_of_run (ox_db s') (rc_run demo_context) = Some OpSucceeded"
  by (rule safe_run_succeeds [OF demo_steps_succeed(1) _ demo_ready])
    (simp_all add: demo_succeeds_def demo_env_def)


end
