(* ===== verification/Op_Batch.thy ===== *)
theory Op_Batch
  imports Op_Claims
begin

text \<open>
  One task on several servers: \<^verbatim>\<open>src-tauri/src/domain/operation_batch.rs\<close>,
  \<^verbatim>\<open>repositories/operation_batch_repository.rs\<close> and \<^verbatim>\<open>services/operation_batch_service.rs\<close>. The workers
  of a batch are interleaved at their database calls and at their looks at the cancel token; the
  operation of one server is one step.
\<close>

section \<open>Statuses and records\<close>

datatype batch_status = BqQueued | BqRunning | BqSucceeded | BqPartial | BqFailed | BqCancelled

fun batch_status_as_str :: "batch_status \<Rightarrow> string" where
  "batch_status_as_str BqQueued = ''queued''"
| "batch_status_as_str BqRunning = ''running''"
| "batch_status_as_str BqSucceeded = ''succeeded''"
| "batch_status_as_str BqPartial = ''partial''"
| "batch_status_as_str BqFailed = ''failed''"
| "batch_status_as_str BqCancelled = ''cancelled''"

definition batch_status_try_from :: "string \<Rightarrow> batch_status app_result" where
  "batch_status_try_from v =
     (if v = ''queued'' then Inr BqQueued
      else if v = ''running'' then Inr BqRunning
      else if v = ''succeeded'' then Inr BqSucceeded
      else if v = ''partial'' then Inr BqPartial
      else if v = ''failed'' then Inr BqFailed
      else if v = ''cancelled'' then Inr BqCancelled
      else Inl (Validation (''unknown batch status: '' @ v)))"

definition batch_is_terminal :: "batch_status \<Rightarrow> bool" where
  "batch_is_terminal s \<longleftrightarrow> s \<in> {BqSucceeded, BqPartial, BqFailed, BqCancelled}"

datatype batch_item_status = BiQueued | BiRunning | BiSucceeded | BiFailed | BiCancelled

fun batch_item_status_as_str :: "batch_item_status \<Rightarrow> string" where
  "batch_item_status_as_str BiQueued = ''queued''"
| "batch_item_status_as_str BiRunning = ''running''"
| "batch_item_status_as_str BiSucceeded = ''succeeded''"
| "batch_item_status_as_str BiFailed = ''failed''"
| "batch_item_status_as_str BiCancelled = ''cancelled''"

definition batch_item_status_try_from :: "string \<Rightarrow> batch_item_status app_result" where
  "batch_item_status_try_from v =
     (if v = ''queued'' then Inr BiQueued
      else if v = ''running'' then Inr BiRunning
      else if v = ''succeeded'' then Inr BiSucceeded
      else if v = ''failed'' then Inr BiFailed
      else if v = ''cancelled'' then Inr BiCancelled
      else Inl (Validation (''unknown batch item status: '' @ v)))"

definition batch_item_is_terminal :: "batch_item_status \<Rightarrow> bool" where
  "batch_item_is_terminal s \<longleftrightarrow> s \<in> {BiSucceeded, BiFailed, BiCancelled}"

interpretation batch_status_enum: str_enum batch_status_as_str batch_status_try_from
proof unfold_locales
  fix x show "batch_status_try_from (batch_status_as_str x) = Inr x"
    by (cases x) (simp_all add: batch_status_try_from_def)
next
  fix v x show "batch_status_try_from v = Inr x \<Longrightarrow> v = batch_status_as_str x"
    by (auto simp: batch_status_try_from_def split: if_splits)
qed

interpretation batch_item_status_enum: str_enum batch_item_status_as_str batch_item_status_try_from
proof unfold_locales
  fix x show "batch_item_status_try_from (batch_item_status_as_str x) = Inr x"
    by (cases x) (simp_all add: batch_item_status_try_from_def)
next
  fix v x show "batch_item_status_try_from v = Inr x \<Longrightarrow> v = batch_item_status_as_str x"
    by (auto simp: batch_item_status_try_from_def split: if_splits)
qed

record batch_request =
  br_server_ids :: "string list"
  br_task_id :: string
  br_task_version :: int
  br_parameters :: json

record batch_record =
  ob_id :: uuid
  ob_task_id :: string
  ob_task_version :: int
  ob_status :: batch_status
  ob_created_at :: int
  ob_finished_at :: "int option"

record batch_item =
  oi_batch_id :: uuid
  oi_server_id :: string
  oi_run_id :: "uuid option"
  oi_status :: batch_item_status
  oi_error :: "string option"

record batch_details =
  bd_batch :: batch_record
  bd_items :: "batch_item list"

record new_batch =
  nb_task_id :: string
  nb_task_version :: int
  nb_server_ids :: "string list"

section \<open>Repository\<close>

record batch_db =
  bdb_batches :: "batch_record list"
  bdb_items :: "batch_item list"
  bdb_servers :: "string list"

definition item_key :: "batch_item \<Rightarrow> uuid \<times> string" where
  "item_key r = (oi_batch_id r, oi_server_id r)"

definition batch_row :: "batch_db \<Rightarrow> uuid \<Rightarrow> batch_record option" where
  "batch_row db b = row_by ob_id b (bdb_batches db)"

definition items_in :: "batch_db \<Rightarrow> uuid \<Rightarrow> batch_item list" where
  "items_in db b = filter (\<lambda>r. oi_batch_id r = b) (bdb_items db)"

definition queued_item :: "uuid \<Rightarrow> string \<Rightarrow> batch_item" where
  "queued_item b server =
     \<lparr>oi_batch_id = b, oi_server_id = server, oi_run_id = None, oi_status = BiQueued,
      oi_error = None\<rparr>"

text \<open>The keys and foreign keys make the transaction fail as a whole.\<close>

definition ob_create :: "new_batch \<Rightarrow> uuid \<Rightarrow> int \<Rightarrow> (batch_db, batch_record) st" where
  "ob_create draft i now db =
     (if is_blank (nb_task_id draft) \<or> CHR 0x00 \<in> set (nb_task_id draft)
         \<or> nb_task_version draft \<le> 0 \<or> nb_server_ids draft = []
      then (Inl (Validation ''incomplete batch''), db)
      else if batch_row db i \<noteq> None \<or> \<not> distinct (nb_server_ids draft)
         \<or> \<not> set (nb_server_ids draft) \<subseteq> set (bdb_servers db)
         \<or> list_ex (\<lambda>r. oi_batch_id r = i) (bdb_items db)
      then (Inl (Database ''constraint failed''), db)
      else let row = \<lparr>ob_id = i, ob_task_id = nb_task_id draft,
                      ob_task_version = nb_task_version draft, ob_status = BqQueued,
                      ob_created_at = now, ob_finished_at = None\<rparr>
           in (Inr row, db\<lparr>bdb_batches := bdb_batches db @ [row],
                           bdb_items := bdb_items db @ map (queued_item i) (nb_server_ids draft)\<rparr>))"

definition transition_batch ::
  "uuid \<Rightarrow> batch_status \<Rightarrow> batch_status \<Rightarrow> int \<Rightarrow> (batch_db, unit) st" where
  "transition_batch b current next now db =
     (let p = (\<lambda>r. ob_id r = b \<and> ob_status r = current) in
      (ensure_changed (affected p (bdb_batches db)) ''the status of the batch has changed'',
       db\<lparr>bdb_batches := upd_where p (\<lambda>r. r\<lparr>ob_status := next,
             ob_finished_at := (if batch_is_terminal next then Some now else None)\<rparr>)
           (bdb_batches db)\<rparr>))"

definition ob_mark_running :: "uuid \<Rightarrow> int \<Rightarrow> (batch_db, unit) st" where
  "ob_mark_running b now = transition_batch b BqQueued BqRunning now"

definition update_batch_items ::
  "(batch_item \<Rightarrow> bool) \<Rightarrow> (batch_item \<Rightarrow> batch_item) \<Rightarrow> batch_db \<Rightarrow> nat \<times> batch_db" where
  "update_batch_items p f db =
     (affected p (bdb_items db), db\<lparr>bdb_items := upd_where p f (bdb_items db)\<rparr>)"

definition ob_mark_item_running :: "uuid \<Rightarrow> string \<Rightarrow> (batch_db, unit) st" where
  "ob_mark_item_running b server db =
     (case update_batch_items (\<lambda>r. item_key r = (b, server) \<and> oi_status r = BiQueued)
             (\<lambda>r. r\<lparr>oi_status := BiRunning\<rparr>) db of
        (n, db') \<Rightarrow> (ensure_changed n ''the batch item was cancelled or started'', db'))"

definition ob_finish_item ::
  "uuid list \<Rightarrow> uuid \<Rightarrow> string \<Rightarrow> batch_item_status \<Rightarrow> uuid option \<Rightarrow> string option \<Rightarrow>
   (batch_db, unit) st" where
  "ob_finish_item runs b server status run message db =
     (if \<not> batch_item_is_terminal status
      then (Inl (Validation ''invalid final status of a batch item''), db)
      else if (case run of None \<Rightarrow> False | Some i \<Rightarrow> i \<notin> set runs)
      then (Inl (Database ''constraint failed''), db)
      else (case update_batch_items (\<lambda>r. item_key r = (b, server) \<and> oi_status r = BiRunning)
             (\<lambda>r. r\<lparr>oi_status := status, oi_run_id := coalesce_opt run (oi_run_id r),
                    oi_error := cap_utf8 message (8 * 1024)\<rparr>) db of
        (n, db') \<Rightarrow> (ensure_changed n ''the status of the batch item has changed'', db')))"

definition ob_cancel_queued_items :: "uuid \<Rightarrow> (batch_db, nat) st" where
  "ob_cancel_queued_items b db =
     (case update_batch_items (\<lambda>r. oi_batch_id r = b \<and> oi_status r = BiQueued)
             (\<lambda>r. r\<lparr>oi_status := BiCancelled, oi_error := Some ''cancelled by the user''\<rparr>) db of
        (n, db') \<Rightarrow> (Inr n, db'))"

definition ob_fail_nonterminal_items :: "uuid \<Rightarrow> string \<Rightarrow> (batch_db, nat) st" where
  "ob_fail_nonterminal_items b message db =
     (case update_batch_items (\<lambda>r. oi_batch_id r = b \<and> oi_status r \<in> {BiQueued, BiRunning})
             (\<lambda>r. r\<lparr>oi_status := BiFailed, oi_error := cap_utf8 (Some message) (8 * 1024)\<rparr>) db of
        (n, db') \<Rightarrow> (Inr n, db'))"

text \<open>What a batch ends with, from the numbers of its items.\<close>

definition batch_conclusion :: "bool \<Rightarrow> nat \<Rightarrow> nat \<Rightarrow> nat \<Rightarrow> batch_status" where
  "batch_conclusion cancelled succeeded failed cancelled_items =
     (if cancelled \<or> 0 < cancelled_items then BqCancelled
      else if failed = 0 \<and> 0 < succeeded then BqSucceeded
      else if succeeded = 0 \<and> 0 < failed then BqFailed
      else BqPartial)"

definition count_status :: "batch_item_status \<Rightarrow> batch_item list \<Rightarrow> nat" where
  "count_status status items = length (filter (\<lambda>r. oi_status r = status) items)"

definition ob_complete :: "uuid \<Rightarrow> bool \<Rightarrow> int \<Rightarrow> (batch_db, batch_status) st" where
  "ob_complete b cancelled now db =
     (let items = items_in db b in
      if list_ex (\<lambda>r. oi_status r \<in> {BiQueued, BiRunning}) items
      then (Inl (Validation ''the batch still has unfinished items''), db)
      else let next = batch_conclusion cancelled (count_status BiSucceeded items)
                        (count_status BiFailed items) (count_status BiCancelled items)
           in (case transition_batch b BqRunning next now db of
                 (Inl e, db') \<Rightarrow> (Inl e, db') | (Inr _, db') \<Rightarrow> (Inr next, db')))"

definition ob_get :: "uuid \<Rightarrow> batch_db \<Rightarrow> batch_details option" where
  "ob_get b db = map_option (\<lambda>row. \<lparr>bd_batch = row, bd_items = items_in db b\<rparr>) (batch_row db b)"

definition ob_recover_interrupted :: "int \<Rightarrow> (batch_db, nat) st" where
  "ob_recover_interrupted now db =
     (let open_batch = (\<lambda>b. list_ex (\<lambda>r. ob_id r = b \<and> ob_status r \<in> {BqQueued, BqRunning})
            (bdb_batches db));
          db1 = snd (update_batch_items
            (\<lambda>r. oi_status r \<in> {BiQueued, BiRunning} \<and> open_batch (oi_batch_id r))
            (\<lambda>r. r\<lparr>oi_status := BiFailed,
                   oi_error := Some ''state not confirmed when the program ended''\<rparr>) db);
          p = (\<lambda>r. ob_status r \<in> {BqQueued, BqRunning})
      in (Inr (affected p (bdb_batches db1)),
          db1\<lparr>bdb_batches := upd_where p (\<lambda>r. r\<lparr>ob_status := BqFailed, ob_finished_at := Some now\<rparr>)
                (bdb_batches db1)\<rparr>))"

section \<open>The operation of one server\<close>

record batch_outcome =
  bo_run_id :: "uuid option"
  bo_status :: batch_item_status
  bo_error :: "string option"

definition outcome_succeeded :: "uuid option \<Rightarrow> batch_outcome" where
  "outcome_succeeded run = \<lparr>bo_run_id = run, bo_status = BiSucceeded, bo_error = None\<rparr>"

definition outcome_failed :: "string \<Rightarrow> batch_outcome" where
  "outcome_failed message = \<lparr>bo_run_id = None, bo_status = BiFailed, bo_error = Some message\<rparr>"

definition outcome_cancelled :: "uuid option \<Rightarrow> batch_outcome" where
  "outcome_cancelled run =
     \<lparr>bo_run_id = run, bo_status = BiCancelled, bo_error = Some ''cancelled by the user''\<rparr>"

definition outcome_of :: "operation_details app_result \<Rightarrow> batch_outcome" where
  "outcome_of result =
     (case result of
        Inr details \<Rightarrow>
          let run = od_run details in
          (if or_status run = OpSucceeded then outcome_succeeded (Some (or_id run))
           else if or_status run = OpCancelled then outcome_cancelled (Some (or_id run))
           else \<lparr>bo_run_id = Some (or_id run), bo_status = BiFailed,
                 bo_error = (case or_error_message run of
                     Some m \<Rightarrow> Some m | None \<Rightarrow> Some ''the task of the server failed'')\<rparr>)
      | Inl e \<Rightarrow> if e = Cancelled then outcome_cancelled None else outcome_failed (display e))"

definition batch_start_request :: "batch_request \<Rightarrow> op_start_request" where
  "batch_start_request request =
     \<lparr>osr_task_id = br_task_id request, osr_task_version = br_task_version request,
      osr_parameters = br_parameters request, osr_confirmed_preview_id = None\<rparr>"

definition run_operation ::
  "op_env \<Rightarrow> string \<Rightarrow> batch_request \<Rightarrow> bool \<Rightarrow> op_state \<Rightarrow> batch_outcome \<times> op_state" where
  "run_operation env server request cancelled s =
     (if cancelled then (outcome_cancelled None, s)
      else case start_with_cancel env server (batch_start_request request) s of
        (result, s') \<Rightarrow> (outcome_of result, s'))"

section \<open>Before a batch runs\<close>

definition max_batch_servers :: nat where "max_batch_servers = 20"
definition batch_concurrency :: nat where "batch_concurrency = 3"

text \<open>The loop over the servers: none is empty and none was seen before.\<close>

fun distinct_servers :: "string list \<Rightarrow> string list \<Rightarrow> bool" where
  "distinct_servers seen [] = True"
| "distinct_servers seen (server # servers) =
     (\<not> is_blank server \<and> CHR 0x00 \<notin> set server \<and> server \<notin> set seen
      \<and> distinct_servers (server # seen) servers)"

definition validate_batch :: "op_env \<Rightarrow> batch_request \<Rightarrow> batch_db \<Rightarrow> unit app_result" where
  "validate_batch env request db =
     (if \<not> (1 \<le> length (br_server_ids request) \<and> length (br_server_ids request) \<le> max_batch_servers)
      then Inl (Validation ''a batch takes 1 to 20 servers'')
      else if \<not> distinct_servers [] (br_server_ids request)
      then Inl (Validation ''empty or repeated server'')
      else case List.find (\<lambda>d. td_id d = br_task_id request) (oe_catalog env) of
        None \<Rightarrow> Inl (Validation ''task does not exist'')
      | Some task \<Rightarrow>
          if \<not> task_version_is_compatible task (br_task_version request)
          then Inl (Validation ''task version does not exist'')
          else if td_risk_level task \<noteq> Safe \<or> td_scope task \<noteq> ReadOnlyBatch
          then Inl (Validation ''only safe read-only tasks can run as a batch'')
          else bind_res (validate_parameters (oe_parse_uuid env) task (br_parameters request)) (\<lambda>_.
            case List.find (\<lambda>server. server \<notin> set (bdb_servers db)) (br_server_ids request) of
              Some server \<Rightarrow> Inl (Validation (''server does not exist: '' @ server))
            | None \<Rightarrow> Inr ()))"

section \<open>A running batch\<close>

text \<open>
  A worker waits for one of the three permits, looks at the token once more, marks its item,
  runs the operation and stores its outcome. The permit is given back when the worker is done.
\<close>

datatype batch_worker =
    WWaiting | WPermitted | WChecked | WMarked | WFinishing batch_outcome | WDone "unit app_result"

datatype batch_main =
    BmStarting | BmJoining | BmJoined "app_error option" | BmSettling "app_error option"
  | BmCompleting | BmRemoving "batch_details app_result" | BmReturned "batch_details app_result"

record batch_state =
  bt_db :: batch_db
  bt_ops :: op_state
  bt_registry :: "uuid \<Rightarrow> bool option"
  bt_cancelled :: bool
  bt_cancels :: nat
  bt_workers :: "(string \<times> batch_worker) list"
  bt_main :: batch_main

text \<open>The registry holds the tokens; the token of this batch is also kept by its workers.\<close>

definition batch_register :: "uuid \<Rightarrow> (uuid \<Rightarrow> bool option) \<Rightarrow> (uuid \<Rightarrow> bool option) app_result" where
  "batch_register b reg =
     (if reg b \<noteq> None then Inl (Validation ''the batch is already running'') else Inr (reg(b \<mapsto> False)))"

definition batch_remove :: "uuid \<Rightarrow> (uuid \<Rightarrow> bool option) \<Rightarrow> (uuid \<Rightarrow> bool option)" where
  "batch_remove b reg = reg(b := None)"

definition batch_cancel :: "uuid \<Rightarrow> (uuid \<Rightarrow> bool option) \<Rightarrow> (uuid \<Rightarrow> bool option) app_result" where
  "batch_cancel b reg =
     (if reg b = None then Inl (Validation ''the batch does not exist or has ended'')
      else Inr (reg(b \<mapsto> True)))"

definition prepare_batch ::
  "op_env \<Rightarrow> batch_request \<Rightarrow> uuid \<Rightarrow> int \<Rightarrow> batch_db \<Rightarrow> op_state \<Rightarrow> (uuid \<Rightarrow> bool option) \<Rightarrow>
   batch_state app_result" where
  "prepare_batch env request i now db ops reg =
     bind_res (validate_batch env request db) (\<lambda>_.
       case ob_create \<lparr>nb_task_id = br_task_id request, nb_task_version = br_task_version request,
                       nb_server_ids = br_server_ids request\<rparr> i now db of
         (Inl e, _) \<Rightarrow> Inl e
       | (Inr row, db') \<Rightarrow> bind_res (batch_register (ob_id row) reg) (\<lambda>reg'. Inr
           \<lparr>bt_db = db', bt_ops = ops, bt_registry = reg', bt_cancelled = False, bt_cancels = 0,
            bt_workers = map (\<lambda>server. (server, WWaiting)) (br_server_ids request),
            bt_main = BmStarting\<rparr>))"

definition has_permit :: "batch_worker \<Rightarrow> bool" where
  "has_permit w \<longleftrightarrow> (case w of WWaiting \<Rightarrow> False | WDone _ \<Rightarrow> False | _ \<Rightarrow> True)"

definition permits_used :: "(string \<times> batch_worker) list \<Rightarrow> nat" where
  "permits_used ws = length (filter (has_permit \<circ> snd) ws)"

definition set_worker :: "nat \<Rightarrow> batch_worker \<Rightarrow> batch_state \<Rightarrow> batch_state" where
  "set_worker k w s = s\<lparr>bt_workers := (bt_workers s)[k := (fst (bt_workers s ! k), w)]\<rparr>"

definition run_ids :: "op_state \<Rightarrow> uuid list" where
  "run_ids s = map or_id (odb_runs (ox_db s))"

text \<open>One step of a worker; what it sees of the token is the token at that moment.\<close>

fun worker_step ::
  "op_env \<Rightarrow> uuid \<Rightarrow> batch_request \<Rightarrow> nat \<Rightarrow> string \<Rightarrow> batch_worker \<Rightarrow> batch_state \<Rightarrow> batch_state option" where
  "worker_step env b request k server WWaiting s =
     (if bt_cancelled s then Some (set_worker k (WDone (Inr ())) s)
      else if permits_used (bt_workers s) < batch_concurrency then Some (set_worker k WPermitted s)
      else None)"
| "worker_step env b request k server WPermitted s =
     Some (set_worker k (if bt_cancelled s then WDone (Inr ()) else WChecked) s)"
| "worker_step env b request k server WChecked s =
     (case ob_mark_item_running b server (bt_db s) of
        (Inl e, db) \<Rightarrow> Some (set_worker k (WDone (Inl e)) (s\<lparr>bt_db := db\<rparr>))
      | (Inr _, db) \<Rightarrow> Some (set_worker k WMarked (s\<lparr>bt_db := db\<rparr>)))"
| "worker_step env b request k server WMarked s =
     (case run_operation env server request (bt_cancelled s) (bt_ops s) of
        (res, ops) \<Rightarrow> Some (set_worker k (WFinishing res) (s\<lparr>bt_ops := ops\<rparr>)))"
| "worker_step env b request k server (WFinishing res) s =
     (case ob_finish_item (run_ids (bt_ops s)) b server (bo_status res) (bo_run_id res)
             (bo_error res) (bt_db s) of
        (result, db) \<Rightarrow> Some (set_worker k (WDone result) (s\<lparr>bt_db := db\<rparr>)))"
| "worker_step env b request k server (WDone r) s = None"

definition worker_errors :: "(string \<times> batch_worker) list \<Rightarrow> app_error set" where
  "worker_errors ws = {e. WDone (Inl e) \<in> snd ` set ws}"

definition all_done :: "(string \<times> batch_worker) list \<Rightarrow> bool" where
  "all_done ws \<longleftrightarrow> list_all (\<lambda>(_, w). case w of WDone _ \<Rightarrow> True | _ \<Rightarrow> False) ws"

text \<open>
  The task that started the workers, after they are joined: \<open>error\<close> is the error that was joined
  first, if any. The last step gives back the registry entry and returns.
\<close>

definition main_step :: "uuid \<Rightarrow> int \<Rightarrow> batch_state \<Rightarrow> batch_state option" where
  "main_step b now s =
     (case bt_main s of
        BmStarting \<Rightarrow>
          (case ob_mark_running b now (bt_db s) of
             (Inl e, db) \<Rightarrow> Some (s\<lparr>bt_db := db, bt_main := BmRemoving (Inl e)\<rparr>)
           | (Inr _, db) \<Rightarrow> Some (s\<lparr>bt_db := db, bt_main := BmJoining\<rparr>))
      | BmJoining \<Rightarrow> None
      | BmJoined error \<Rightarrow>
          Some (s\<lparr>bt_db := (if bt_cancelled s then snd (ob_cancel_queued_items b (bt_db s)) else bt_db s),
                  bt_main := BmSettling error\<rparr>)
      | BmSettling error \<Rightarrow>
          Some (s\<lparr>bt_db := (case error of None \<Rightarrow> bt_db s
                    | Some e \<Rightarrow> snd (ob_fail_nonterminal_items b (display e) (bt_db s))),
                  bt_main := BmCompleting\<rparr>)
      | BmCompleting \<Rightarrow>
          (case ob_complete b (bt_cancelled s) now (bt_db s) of
             (Inl e, db) \<Rightarrow> Some (s\<lparr>bt_db := db, bt_main := BmRemoving (Inl e)\<rparr>)
           | (Inr _, db) \<Rightarrow> Some (s\<lparr>bt_db := db, bt_main := BmRemoving
               (ok_or (Validation ''the batch does not exist'') (ob_get b db))\<rparr>))
      | BmRemoving result \<Rightarrow>
          Some (s\<lparr>bt_registry := batch_remove b (bt_registry s), bt_main := BmReturned result\<rparr>)
      | BmReturned result \<Rightarrow> None)"

inductive batch_work :: "op_env \<Rightarrow> uuid \<Rightarrow> batch_request \<Rightarrow> batch_state \<Rightarrow> batch_state \<Rightarrow> bool"
  for env b request where
  worker: "bt_main s = BmJoining \<Longrightarrow> k < length (bt_workers s) \<Longrightarrow>
      bt_workers s ! k = (server, w) \<Longrightarrow> worker_step env b request k server w s = Some s' \<Longrightarrow>
      batch_work env b request s s'"
| joined: "bt_main s = BmJoining \<Longrightarrow> all_done (bt_workers s) \<Longrightarrow>
      (case error of None \<Rightarrow> worker_errors (bt_workers s) = {}
       | Some e \<Rightarrow> e \<in> worker_errors (bt_workers s)) \<Longrightarrow>
      batch_work env b request s (s\<lparr>bt_main := BmJoined error\<rparr>)"
| main: "main_step b now s = Some s' \<Longrightarrow> batch_work env b request s s'"

text \<open>\<open>cancel\<close>: first the token, later the queued items.\<close>

inductive batch_step :: "op_env \<Rightarrow> uuid \<Rightarrow> batch_request \<Rightarrow> batch_state \<Rightarrow> batch_state \<Rightarrow> bool"
  for env b request where
  work: "batch_work env b request s s' \<Longrightarrow> batch_step env b request s s'"
| cancel_token: "batch_cancel b (bt_registry s) = Inr reg \<Longrightarrow>
      batch_step env b request s
        (s\<lparr>bt_registry := reg, bt_cancelled := True, bt_cancels := Suc (bt_cancels s)\<rparr>)"
| cancel_items: "bt_cancels s = Suc n \<Longrightarrow>
      batch_step env b request s
        (s\<lparr>bt_db := snd (ob_cancel_queued_items b (bt_db s)), bt_cancels := n\<rparr>)"

end
