(* ===== verification/Op_Batch_Items.thy ===== *)
theory Op_Batch_Items
  imports Op_Batch
begin

text \<open>
  What the operations on the tables of batches do to the status of each item, and what one call of
  the operation service leaves behind: the runs of earlier calls stay in the table.
\<close>

section \<open>The items of a batch\<close>

text \<open>The status of every item of a batch, by server; the operations in terms of it.\<close>

definition statuses :: "batch_db \<Rightarrow> uuid \<Rightarrow> string \<Rightarrow> batch_item_status option" where
  "statuses db b server = map_option oi_status (row_by item_key (b, server) (bdb_items db))"

definition batch_keys :: "batch_db \<Rightarrow> bool" where
  "batch_keys db \<longleftrightarrow> distinct (map item_key (bdb_items db)) \<and> distinct (map ob_id (bdb_batches db))"

definition batch_at :: "batch_db \<Rightarrow> uuid \<Rightarrow> batch_status option" where
  "batch_at db b = map_option ob_status (batch_row db b)"

lemma statuses_keyed:
  assumes "\<And>r. item_key (f r) = item_key r"
  shows "statuses (snd (update_batch_items (\<lambda>r. item_key r = (b, server) \<and> p r) f db)) b'
    = (statuses db b')(server := if b' = b
         then map_option (\<lambda>r. oi_status (if p r then f r else r)) (row_by item_key (b, server) (bdb_items db))
         else statuses db b' server)"
  using row_by_upd_where [of item_key f, OF assms]
  by (auto simp: fun_eq_iff statuses_def update_batch_items_def option.map_comp comp_def)

lemma batch_keys_update:
  assumes "\<And>r. item_key (f r) = item_key r"
  shows "batch_keys (snd (update_batch_items p f db)) = batch_keys db"
    "bdb_batches (snd (update_batch_items p f db)) = bdb_batches db"
  using upd_where_keys [of item_key f, OF assms] by (simp_all add: batch_keys_def update_batch_items_def)

lemma statuses_where:
  assumes "\<And>r. item_key (f r) = item_key r" "\<And>r. p r \<longleftrightarrow> oi_batch_id r = b \<and> q (oi_status r)"
    "\<And>r. oi_status (f r) = next"
  shows "statuses (snd (update_batch_items p f db)) b server
    = map_option (\<lambda>t. if q t then next else t) (statuses db b server)"
proof -
  have "row_by item_key (b, server) (upd_where p f rows)
      = map_option (\<lambda>r. if q (oi_status r) then f r else r) (row_by item_key (b, server) rows)" for rows
    using assms(1,2) by (induction rows) (auto simp: item_key_def)
  then show ?thesis
    using assms(3) by (auto simp: statuses_def update_batch_items_def option.map_comp comp_def if_distrib
        cong: option.map_cong if_cong)
qed

lemma mark_item_effect:
  assumes "batch_keys db" "ob_mark_item_running b server db = (r, db')"
  shows "batch_keys db'" "bdb_batches db' = bdb_batches db"
    "statuses db b server = Some BiQueued \<Longrightarrow> r = Inr () \<and> statuses db' b = (statuses db b)(server \<mapsto> BiRunning)"
    "statuses db b server \<noteq> Some BiQueued \<Longrightarrow> (\<exists>e. r = Inl e) \<and> statuses db' b = statuses db b"
proof -
  let ?f = "\<lambda>r::batch_item. r\<lparr>oi_status := BiRunning\<rparr>"
  let ?u = "update_batch_items (\<lambda>r. item_key r = (b, server) \<and> oi_status r = BiQueued) ?f db"
  have f: "item_key (?f r) = item_key r" for r by (simp add: item_key_def)
  have db': "db' = snd ?u" and r: "r = ensure_changed (fst ?u) ''the batch item was cancelled or started''"
    using assms(2) by (auto simp: ob_mark_item_running_def split: prod.splits)
  show "batch_keys db'" "bdb_batches db' = bdb_batches db"
    unfolding db' batch_keys_update [where f = ?f, OF f] using assms(1) by simp_all
  have n: "fst ?u = (if statuses db b server = Some BiQueued then 1 else 0)"
    using assms(1) affected_by_key [of item_key "bdb_items db" "(b, server)" "\<lambda>r. oi_status r = BiQueued"]
    by (auto simp: update_batch_items_def batch_keys_def statuses_def split: option.splits)
  have st: "statuses db' b = (statuses db b)(server := map_option (\<lambda>r. oi_status (if oi_status r = BiQueued then ?f r else r))
      (row_by item_key (b, server) (bdb_items db)))"
    unfolding db' by (subst statuses_keyed [where f = ?f, OF f]) simp
  show "r = Inr () \<and> statuses db' b = (statuses db b)(server \<mapsto> BiRunning)" if "statuses db b server = Some BiQueued"
    using that n r st by (auto simp: ensure_changed_def statuses_def)
  show "(\<exists>e. r = Inl e) \<and> statuses db' b = statuses db b" if "statuses db b server \<noteq> Some BiQueued"
    using that n r st by (auto simp: ensure_changed_def statuses_def fun_eq_iff option.map_comp intro!: option.map_cong)
qed

lemma finish_item_effect:
  assumes "batch_keys db" "ob_finish_item runs b server status run message db = (r, db')"
    and "batch_item_is_terminal status" "\<And>i. run = Some i \<Longrightarrow> i \<in> set runs"
    and "statuses db b server = Some BiRunning"
  shows "batch_keys db'" "bdb_batches db' = bdb_batches db" "r = Inr ()"
    "statuses db' b = (statuses db b)(server \<mapsto> status)"
proof -
  let ?f = "\<lambda>r. r\<lparr>oi_status := status, oi_run_id := coalesce_opt run (oi_run_id r),
                    oi_error := cap_utf8 message (8 * 1024)\<rparr>"
  let ?u = "update_batch_items (\<lambda>r. item_key r = (b, server) \<and> oi_status r = BiRunning) ?f db"
  have f: "item_key (?f r) = item_key r" for r by (simp add: item_key_def)
  have db': "db' = snd ?u" and r: "r = ensure_changed (fst ?u) ''the status of the batch item has changed''"
    using assms(2-4) by (auto simp: ob_finish_item_def split: prod.splits if_splits option.splits)
  show "batch_keys db'" "bdb_batches db' = bdb_batches db"
    unfolding db' batch_keys_update [where f = ?f, OF f] using assms(1) by simp_all
  have "fst ?u = 1"
    using assms(1,5) affected_by_key [of item_key "bdb_items db" "(b, server)" "\<lambda>r. oi_status r = BiRunning"]
    by (auto simp: update_batch_items_def batch_keys_def statuses_def split: option.splits)
  then show "r = Inr ()" by (simp add: r ensure_changed_def)
  show "statuses db' b = (statuses db b)(server \<mapsto> status)"
    unfolding db' by (subst statuses_keyed [where f = ?f, OF f]) (use assms(5) in \<open>auto simp: statuses_def\<close>)
qed

lemma cancel_items_effect:
  "batch_keys (snd (ob_cancel_queued_items b db)) = batch_keys db"
  "bdb_batches (snd (ob_cancel_queued_items b db)) = bdb_batches db"
  "statuses (snd (ob_cancel_queued_items b db)) b server
    = map_option (\<lambda>t. if t = BiQueued then BiCancelled else t) (statuses db b server)"
proof -
  let ?f = "\<lambda>r. r\<lparr>oi_status := BiCancelled, oi_error := Some ''cancelled by the user''\<rparr>"
  let ?p = "\<lambda>r. oi_batch_id r = b \<and> oi_status r = BiQueued"
  have f: "item_key (?f r) = item_key r" for r by (simp add: item_key_def)
  have e: "snd (ob_cancel_queued_items b db) = snd (update_batch_items ?p ?f db)"
    by (simp add: ob_cancel_queued_items_def split: prod.split)
  show "batch_keys (snd (ob_cancel_queued_items b db)) = batch_keys db"
    "bdb_batches (snd (ob_cancel_queued_items b db)) = bdb_batches db"
    unfolding e by (rule batch_keys_update [where f = ?f, OF f])+
  show "statuses (snd (ob_cancel_queued_items b db)) b server
    = map_option (\<lambda>t. if t = BiQueued then BiCancelled else t) (statuses db b server)"
    unfolding e by (rule statuses_where [where f = ?f, OF f]) simp_all
qed

lemma fail_items_effect:
  "batch_keys (snd (ob_fail_nonterminal_items b m db)) = batch_keys db"
  "bdb_batches (snd (ob_fail_nonterminal_items b m db)) = bdb_batches db"
  "statuses (snd (ob_fail_nonterminal_items b m db)) b server
    = map_option (\<lambda>t. if t \<in> {BiQueued, BiRunning} then BiFailed else t) (statuses db b server)"
proof -
  let ?f = "\<lambda>r. r\<lparr>oi_status := BiFailed, oi_error := cap_utf8 (Some m) (8 * 1024)\<rparr>"
  let ?p = "\<lambda>r. oi_batch_id r = b \<and> oi_status r \<in> {BiQueued, BiRunning}"
  have f: "item_key (?f r) = item_key r" for r by (simp add: item_key_def)
  have e: "snd (ob_fail_nonterminal_items b m db) = snd (update_batch_items ?p ?f db)"
    by (simp add: ob_fail_nonterminal_items_def split: prod.split)
  show "batch_keys (snd (ob_fail_nonterminal_items b m db)) = batch_keys db"
    "bdb_batches (snd (ob_fail_nonterminal_items b m db)) = bdb_batches db"
    unfolding e by (rule batch_keys_update [where f = ?f, OF f])+
  show "statuses (snd (ob_fail_nonterminal_items b m db)) b server
    = map_option (\<lambda>t. if t \<in> {BiQueued, BiRunning} then BiFailed else t) (statuses db b server)"
    unfolding e by (rule statuses_where [where f = ?f, OF f]) simp_all
qed

section \<open>The batch as a whole\<close>

lemma transition_effect:
  assumes "batch_keys db" "batch_at db b = Some current"
  shows "fst (transition_batch b current next now db) = Inr ()"
    "batch_keys (snd (transition_batch b current next now db))"
    "bdb_items (snd (transition_batch b current next now db)) = bdb_items db"
    "batch_at (snd (transition_batch b current next now db)) b = Some next"
proof -
  let ?f = "\<lambda>r. r\<lparr>ob_status := next,
             ob_finished_at := (if batch_is_terminal next then Some now else None)\<rparr>"
  let ?p = "\<lambda>r. ob_id r = b \<and> ob_status r = current"
  obtain row where row: "batch_row db b = Some row" "ob_status row = current"
    using assms(2) by (auto simp: batch_at_def)
  have "affected ?p (bdb_batches db) = 1"
    using assms(1) affected_by_key [of ob_id "bdb_batches db" b "\<lambda>r. ob_status r = current"] row
    by (simp add: batch_keys_def batch_row_def)
  then show "fst (transition_batch b current next now db) = Inr ()"
    by (simp add: transition_batch_def Let_def ensure_changed_def)
  show "batch_keys (snd (transition_batch b current next now db))"
    using assms(1) upd_where_keys [of ob_id ?f ?p "bdb_batches db"]
    by (simp add: transition_batch_def batch_keys_def Let_def)
  show "bdb_items (snd (transition_batch b current next now db)) = bdb_items db"
    by (simp add: transition_batch_def Let_def)
  show "batch_at (snd (transition_batch b current next now db)) b = Some next"
    using row row_by_upd_where [of ob_id ?f b b "\<lambda>r. ob_status r = current" "bdb_batches db"]
    by (simp add: transition_batch_def Let_def batch_at_def batch_row_def)
qed

lemma statuses_of_item:
  "batch_keys db \<Longrightarrow> r \<in> set (items_in db b) \<Longrightarrow> statuses db b (oi_server_id r) = Some (oi_status r)"
  using row_by_distinct [of item_key "bdb_items db" r]
  by (auto simp: batch_keys_def items_in_def statuses_def item_key_def)

lemma statuses_servers: "dom (statuses db b) = oi_server_id ` set (items_in db b)"
proof -
  have "statuses db b server \<noteq> None \<longleftrightarrow> server \<in> oi_server_id ` set (items_in db b)" for server
    using row_by_None [of item_key "(b, server)" "bdb_items db"]
    by (auto simp: statuses_def items_in_def item_key_def image_iff)
  then show ?thesis by (simp add: dom_def set_eq_iff)
qed

lemma statuses_items: "bdb_items db = bdb_items db' \<Longrightarrow> statuses db = statuses db'"
  by (simp add: statuses_def fun_eq_iff)

lemma batch_conclusion_terminal: "batch_is_terminal (batch_conclusion cancelled x y z)"
  by (simp add: batch_conclusion_def batch_is_terminal_def)

text \<open>Every item of the batch has ended.\<close>

definition items_settled :: "batch_db \<Rightarrow> uuid \<Rightarrow> bool" where
  "items_settled db b \<longleftrightarrow> (\<forall>t\<in>ran (statuses db b). batch_item_is_terminal t)"

lemma complete_effect:
  assumes "batch_keys db" "batch_at db b = Some BqRunning" "items_settled db b"
  obtains nxt where "fst (ob_complete b cancelled now db) = Inr nxt" "batch_is_terminal nxt"
    "batch_keys (snd (ob_complete b cancelled now db))"
    "bdb_items (snd (ob_complete b cancelled now db)) = bdb_items db"
    "batch_at (snd (ob_complete b cancelled now db)) b = Some nxt"
proof -
  let ?n = "batch_conclusion cancelled (count_status BiSucceeded (items_in db b))
    (count_status BiFailed (items_in db b)) (count_status BiCancelled (items_in db b))"
  note t = transition_effect [OF assms(1,2), of ?n now]
  have "\<not> list_ex (\<lambda>r. oi_status r \<in> {BiQueued, BiRunning}) (items_in db b)"
    using assms(3) statuses_of_item [OF assms(1)]
    by (fastforce simp: list_ex_iff items_settled_def ran_def batch_item_is_terminal_def)
  then have "ob_complete b cancelled now db = (Inr ?n, snd (transition_batch b BqRunning ?n now db))"
    using t(1) by (cases "transition_batch b BqRunning ?n now db") (simp add: ob_complete_def Let_def)
  then show thesis using that [of ?n] t batch_conclusion_terminal by simp
qed

section \<open>The runs that a call leaves in the table\<close>

definition knows :: "uuid \<Rightarrow> op_state \<Rightarrow> bool" where
  "knows i s \<longleftrightarrow> i \<in> set (run_ids s)"

definition keeps_runs :: "(op_db, 'a) st \<Rightarrow> bool" where
  "keeps_runs m \<longleftrightarrow>
     (\<forall>db. set (map or_id (odb_runs db)) \<subseteq> set (map or_id (odb_runs (snd (m db)))))"

named_theorems knows_intros \<open>calls that delete no run\<close>

lemma knows_quiet: "quiet m \<Longrightarrow> keeps (knows i) m"
  by (erule quiet_keeps) (simp add: knows_def run_ids_def core_def)

lemma knows_on_db [knows_intros]: "keeps_runs m \<Longrightarrow> keeps (knows i) (on_db m)"
  by (auto simp: keeps_def knows_def run_ids_def on_db_def keeps_runs_def split_beta)

lemma knows_with_now [knows_intros]: "(\<And>now. keeps_runs (m now)) \<Longrightarrow> keeps (knows i) (with_now env m)"
  unfolding with_now_def by (rule keeps_bind [OF knows_quiet [OF quiet_basic(3)] knows_on_db])

lemma knows_log [knows_intros]: "keeps (knows i) (log_effect e)"
  by (simp add: keeps_def knows_def run_ids_def log_effect_def)

lemma knows_attempt [knows_intros]: "keeps (knows i) m \<Longrightarrow> keeps (knows i) (attempt m)"
  by (simp add: keeps_def attempt_def split_beta)

lemma knows_discard [knows_intros]: "keeps (knows i) m \<Longrightarrow> keeps (knows i) (discard m)"
  by (simp add: keeps_def discard_def)

lemma keeps_runs_update [simp]:
  "(\<And>r. or_id (f r) = or_id r) \<Longrightarrow>
     map or_id (odb_runs (snd (update_op_runs p f db))) = map or_id (odb_runs db)"
  by (simp add: update_op_runs_def upd_where_keys)

lemma keeps_runs_ops [knows_intros]:
  "keeps_runs (op_transition run next now)" "keeps_runs (op_set_result encode run result now)"
  "keeps_runs (op_create draft run now)"
  "keeps_runs (\<lambda>db. (Inr (), db\<lparr>odb_executions := x # odb_executions db\<rparr>))"
  by (auto simp: keeps_runs_def op_transition_def op_set_result_def commit_one_def Let_def
      op_create_def simp del: set_map split: option.split sum.split)

lemmas knows_rules = keeps_bind keeps_ret keeps_fail keeps_if knows_intros keeps_case_sum
  keeps_case_option keeps_case_prod keeps_let quiet_basic [THEN knows_quiet]
  quiet_steps [THEN knows_quiet] quiet_require_details [THEN knows_quiet]
  quiet_create_steps [THEN knows_quiet] quiet_fail_step [THEN knows_quiet]

lemma knows_remote [knows_intros]:
  "keeps (knows i) (execute_authenticated env server command)" "keeps (knows i) (connect env server)"
  "keeps (knows i) (ox_transition env run next)" "keeps (knows i) (ox_set_result env run result)"
  "keeps (knows i) (execute_step env run phase call)"
  unfolding execute_authenticated_def connect_def ox_transition_def ox_set_result_def execute_step_def
  by (intro knows_rules)+

lemma knows_optional [knows_intros]: "keeps (knows i) (optional_privilege env server task)"
  unfolding optional_privilege_def ox_probe_privilege_def by (intro knows_rules knows_intros)

lemma knows_safe_steps [knows_intros]: "keeps (knows i) (run_safe_steps env c index steps output)"
proof (induction steps arbitrary: index "output")
  case (Cons step steps)
  then show ?case by (simp only: run_safe_steps.simps Let_def) (intro knows_rules knows_intros Cons)
qed (simp add: keeps_ret)

lemma knows_safe [knows_intros]: "keeps (knows i) (run_safe env c plan)"
  unfolding run_safe_def by (intro knows_rules knows_intros)

lemma knows_preflight [knows_intros]:
  "keeps (knows i) (preflight_with_capabilities env server_id request capabilities)"
  unfolding preflight_with_capabilities_def begin_preflight_def complete_preflight_def Let_def
    or_preflight_failed_def mark_preflight_failed_def by (intro knows_rules knows_intros)

lemma knows_bind_res: "(\<And>x. r = Inr x \<Longrightarrow> keeps I (k x)) \<Longrightarrow> keeps I (bind_st (from_res r) k)"
  by (cases r) (simp_all add: keeps_def bind_st_def from_res_def)

lemma knows_start:
  assumes "\<not> is_dangerous_id env (osr_task_id request)"
  shows "keeps (knows i) (start_with_cancel env server_id request)"
proof -
  have "keeps (knows i) (start_with_capabilities_and_cancel env server_id request capabilities mode)"
    for capabilities mode
    unfolding start_with_capabilities_and_cancel_def Let_def
  proof (rule knows_bind_res)
    fix task assume t: "resolve_definition env (osr_task_id request) (osr_task_version request) = Inr task"
    from resolve_dangerous [OF t] assms have "td_risk_level task \<noteq> Dangerous" by simp
    then show "keeps (knows i) (bind_st (from_res (validate_parameters (oe_parse_uuid env) task (osr_parameters request)))
       (\<lambda>validated.
     bind_st (from_res (require_dangerous_preview task (osr_confirmed_preview_id request))) (\<lambda>_.
     bind_st (case osr_confirmed_preview_id request of
         Some preview \<Rightarrow> bind_st (require_matching_preview preview server_id task
             (parameter_summary env validated)) (\<lambda>_. ret_st preview)
       | None \<Rightarrow> bind_st (preflight_with_capabilities env server_id
             \<lparr>opr_task_id = osr_task_id request, opr_task_version = osr_task_version request,
              opr_parameters = osr_parameters request\<rparr> capabilities)
             (\<lambda>preview. ret_st (ov_preview_id preview))) (\<lambda>run.
     bind_st (from_res (select_implementation task capabilities)) (\<lambda>implementation.
     bind_st (from_res (plan_task (oe_parse_uuid env) task capabilities (osr_parameters request)))
       (\<lambda>plan.
       if td_risk_level task = Dangerous then run_dangerous env \<lparr>rc_run = run, rc_server_id = server_id, rc_task = task,
              rc_history = history_parameters env (pt_parameters plan)\<rparr> plan (mode_or_root mode)
       else if ti_backup_plan implementation \<noteq> None
       then fail_st (Validation ''a task with a backup plan cannot run directly'')
       else run_safe env \<lparr>rc_run = run, rc_server_id = server_id, rc_task = task,
              rc_history = history_parameters env (pt_parameters plan)\<rparr> plan))))))"
      unfolding require_matching_preview_def Let_def
      by (simp only: if_False) (intro knows_rules knows_intros)
  qed
  then show ?thesis
    unfolding start_with_cancel_def by (intro knows_rules knows_intros)
qed

lemma ended_known: "ended allowed run d s \<Longrightarrow> or_id (od_run d) \<in> set (run_ids s)"
  by (auto simp: ended_def status_of_run_def run_row_def run_ids_def dest!: row_by_Some)
    (metis image_eqI)

lemma outcome_of_terminal: "batch_item_is_terminal (bo_status (outcome_of result))"
  by (simp add: outcome_of_def Let_def outcome_succeeded_def outcome_failed_def outcome_cancelled_def
      batch_item_is_terminal_def split: sum.split)

lemma run_operation_effect:
  assumes "audited env s" "\<not> is_dangerous_id env (br_task_id request)"
    and "run_operation env server request cancelled s = (res, s')"
  shows "audited env s'" "batch_item_is_terminal (bo_status res)"
    "set_option (bo_run_id res) \<subseteq> set (run_ids s')" "set (run_ids s) \<subseteq> set (run_ids s')"
proof -
  let ?q = "batch_start_request request"
  have q: "\<not> is_dangerous_id env (osr_task_id ?q)" using assms(2) by (simp add: batch_start_request_def)
  obtain r t where rt: "start_with_cancel env server ?q s = (r, t)" by fastforce
  have e: "case r of Inr d \<Rightarrow> ended (entry_allowed env) (or_id (od_run d)) d t | Inl _ \<Rightarrow> audited env t"
    using guard.triple_start [of env server ?q] assms(1) q rt
    unfolding triple_def guard.returned_def by (fastforce split: sum.splits)
  have k: "set (run_ids s) \<subseteq> set (run_ids t)"
  proof
    fix i assume "i \<in> set (run_ids s)"
    with keepsD [OF knows_start [OF q, of i server], of s] rt show "i \<in> set (run_ids t)"
      by (simp add: knows_def)
  qed
  show "audited env s'" using assms(1,3) e rt
    by (auto simp: run_operation_def ended_def split: if_splits sum.splits)
  show "batch_item_is_terminal (bo_status res)" using assms(3) rt outcome_of_terminal
    by (auto simp: run_operation_def outcome_cancelled_def batch_item_is_terminal_def split: if_splits)
  show "set_option (bo_run_id res) \<subseteq> set (run_ids s')"
    using assms(3) e rt ended_known
    by (auto simp: run_operation_def outcome_of_def Let_def outcome_cancelled_def outcome_succeeded_def
        outcome_failed_def split: if_splits sum.splits)
  show "set (run_ids s) \<subseteq> set (run_ids s')"
    using assms(3) k rt by (auto simp: run_operation_def split: if_splits)
qed

end
