(* ===== verification/Op_Batch_Safety.thy ===== *)
theory Op_Batch_Safety
  imports Op_Batch_Items
begin

text \<open>
  The invariant of a running batch under every interleaving of its workers, its main task and
  \<open>cancel\<close>; the number of steps it can still make; and the claims about batches.
\<close>

section \<open>The invariant of a running batch\<close>

definition worker_ok ::
  "bool \<Rightarrow> uuid list \<Rightarrow> batch_item_status option \<Rightarrow> batch_worker \<Rightarrow> bool" where
  "worker_ok cancelled runs st w \<longleftrightarrow>
     (case w of
        WMarked \<Rightarrow> st = Some BiRunning
      | WFinishing res \<Rightarrow> st = Some BiRunning \<and> batch_item_is_terminal (bo_status res)
          \<and> set_option (bo_run_id res) \<subseteq> set runs
      | WDone r \<Rightarrow> st \<in> {Some BiSucceeded, Some BiFailed, Some BiCancelled}
          \<or> st = Some BiQueued \<and> cancelled
      | _ \<Rightarrow> st = Some BiQueued \<or> st = Some BiCancelled \<and> cancelled)"

definition batch_ended :: "batch_db \<Rightarrow> uuid \<Rightarrow> bool" where
  "batch_ended db b \<longleftrightarrow> (\<exists>t. batch_at db b = Some t \<and> batch_is_terminal t)"

definition ended_details :: "string set \<Rightarrow> batch_details \<Rightarrow> bool" where
  "ended_details servers d \<longleftrightarrow> batch_is_terminal (ob_status (bd_batch d))
     \<and> oi_server_id ` set (bd_items d) = servers
     \<and> list_all (\<lambda>r. batch_item_is_terminal (oi_status r)) (bd_items d)"

fun main_ok :: "uuid \<Rightarrow> batch_main \<Rightarrow> batch_state \<Rightarrow> bool" where
  "main_ok b BmStarting s \<longleftrightarrow> batch_at (bt_db s) b = Some BqQueued \<and> bt_registry s b \<noteq> None
     \<and> (\<forall>w\<in>snd ` set (bt_workers s). w = WWaiting)"
| "main_ok b BmJoining s \<longleftrightarrow> batch_at (bt_db s) b = Some BqRunning \<and> bt_registry s b \<noteq> None"
| "main_ok b (BmJoined e) s \<longleftrightarrow> batch_at (bt_db s) b = Some BqRunning \<and> bt_registry s b \<noteq> None
     \<and> all_done (bt_workers s)"
| "main_ok b (BmSettling e) s \<longleftrightarrow> batch_at (bt_db s) b = Some BqRunning \<and> bt_registry s b \<noteq> None
     \<and> all_done (bt_workers s) \<and> items_settled (bt_db s) b"
| "main_ok b BmCompleting s \<longleftrightarrow> batch_at (bt_db s) b = Some BqRunning \<and> bt_registry s b \<noteq> None
     \<and> all_done (bt_workers s) \<and> items_settled (bt_db s) b"
| "main_ok b (BmRemoving r) s \<longleftrightarrow> batch_ended (bt_db s) b \<and> bt_registry s b \<noteq> None
     \<and> all_done (bt_workers s) \<and> items_settled (bt_db s) b
     \<and> (\<exists>d. r = Inr d \<and> ended_details (fst ` set (bt_workers s)) d)"
| "main_ok b (BmReturned r) s \<longleftrightarrow> batch_ended (bt_db s) b \<and> bt_registry s b = None
     \<and> all_done (bt_workers s) \<and> items_settled (bt_db s) b
     \<and> (\<exists>d. r = Inr d \<and> ended_details (fst ` set (bt_workers s)) d)"

definition worker_at :: "uuid \<Rightarrow> batch_state \<Rightarrow> nat \<Rightarrow> bool" where
  "worker_at b s k \<longleftrightarrow> worker_ok (bt_cancelled s) (run_ids (bt_ops s))
     (statuses (bt_db s) b (fst (bt_workers s ! k))) (snd (bt_workers s ! k))"

definition batch_inv :: "op_env \<Rightarrow> uuid \<Rightarrow> batch_state \<Rightarrow> bool" where
  "batch_inv env b s \<longleftrightarrow> batch_keys (bt_db s)
     \<and> dom (statuses (bt_db s) b) = fst ` set (bt_workers s) \<and> distinct (map fst (bt_workers s))
     \<and> audited env (bt_ops s) \<and> permits_used (bt_workers s) \<le> batch_concurrency
     \<and> (0 < bt_cancels s \<longrightarrow> bt_cancelled s)
     \<and> (\<forall>k<length (bt_workers s). worker_at b s k) \<and> main_ok b (bt_main s) s"

lemma permits_set:
  "k < length ws \<Longrightarrow> permits_used (ws[k := x]) + (if has_permit (snd (ws ! k)) then 1 else 0)
     = permits_used ws + (if has_permit (snd x) then 1 else 0)"
proof (induction ws arbitrary: k)
  case (Cons w ws)
  then show ?case by (cases k) (auto simp: permits_used_def)
qed simp

lemma permits_step:
  assumes "k < length ws" "has_permit (snd x) \<Longrightarrow> has_permit (snd (ws ! k)) \<or> permits_used ws < n"
    and "permits_used ws \<le> n"
  shows "permits_used (ws[k := x]) \<le> n"
  using permits_set [OF assms(1), of x] assms(2,3) by (auto split: if_splits)

lemma worker_ok_mono:
  "worker_ok c runs st w \<Longrightarrow> set runs \<subseteq> set runs' \<Longrightarrow> (c \<longrightarrow> c') \<Longrightarrow> worker_ok c' runs' st w"
  by (auto simp: worker_ok_def split: batch_worker.splits)

text \<open>One worker moves: its item and its place in the list are all that changes of the batch.\<close>

lemma batch_inv_worker:
  assumes inv: "batch_inv env b s" and m: "bt_main s = BmJoining"
    and k: "k < length (bt_workers s)" "bt_workers s ! k = (server, w)"
    and db: "batch_keys db" "bdb_batches db = bdb_batches (bt_db s)"
      "statuses db b = (statuses (bt_db s) b)(server := Some st)"
    and ops: "audited env ops" "set (run_ids (bt_ops s)) \<subseteq> set (run_ids ops)"
    and w': "worker_ok (bt_cancelled s) (run_ids ops) (Some st) w'"
      "has_permit w' \<Longrightarrow> has_permit w \<or> permits_used (bt_workers s) < batch_concurrency"
  shows "batch_inv env b (set_worker k w' (s\<lparr>bt_db := db, bt_ops := ops\<rparr>))"
proof -
  let ?s = "set_worker k w' (s\<lparr>bt_db := db, bt_ops := ops\<rparr>)"
  have ws: "bt_workers ?s = (bt_workers s)[k := (server, w')]" using k(2) by (simp add: set_worker_def)
  have fst_ws: "map fst (bt_workers ?s) = map fst (bt_workers s)"
    using k by (auto simp: ws map_update intro!: nth_equalityI simp: nth_list_update)
  have other: "fst (bt_workers s ! j) \<noteq> server" if "j < length (bt_workers s)" "j \<noteq> k" for j
    using inv k that nth_eq_iff_index_eq [of "map fst (bt_workers s)" j k] by (auto simp: batch_inv_def)
  have "worker_at b ?s j" if "j < length (bt_workers ?s)" for j
  proof (cases "j = k")
    case True
    then show ?thesis using w'(1) k(1) db(3) by (simp add: worker_at_def ws) (simp add: set_worker_def)
  next
    case False
    with that inv have "worker_at b s j" by (simp add: batch_inv_def ws)
    then show ?thesis using False other [of j] that db(3) ops(2)
      by (simp add: worker_at_def ws) (auto simp: set_worker_def intro: worker_ok_mono)
  qed
  moreover have "permits_used (bt_workers ?s) \<le> batch_concurrency"
    unfolding ws using inv w'(2) k by (intro permits_step) (auto simp: batch_inv_def)
  moreover have "dom (statuses db b) = fst ` set (bt_workers ?s)"
  proof -
    have "server \<in> fst ` set (bt_workers s)" using k by (metis fst_conv image_eqI nth_mem)
    moreover have "fst ` set (bt_workers ?s) = fst ` set (bt_workers s)"
      using arg_cong [OF fst_ws, of set] by simp
    moreover have "dom (statuses db b) = insert server (dom (statuses (bt_db s) b))"
      unfolding db(3) by auto
    ultimately show ?thesis using inv by (simp add: batch_inv_def insert_absorb)
  qed
  moreover have "batch_at db b = batch_at (bt_db s) b" by (simp add: batch_at_def batch_row_def db(2))
  moreover have "bt_db ?s = db" "bt_ops ?s = ops" "bt_main ?s = BmJoining" "bt_cancels ?s = bt_cancels s"
      "bt_registry ?s = bt_registry s" "bt_cancelled ?s = bt_cancelled s"
    by (simp_all add: set_worker_def m)
  ultimately show ?thesis
    unfolding batch_inv_def using inv m db(1) ops(1) fst_ws by (simp add: batch_inv_def)
qed

lemma batch_inv_worker_only:
  assumes "batch_inv env b s" "bt_main s = BmJoining" "k < length (bt_workers s)"
    "bt_workers s ! k = (server, w)" "statuses (bt_db s) b server = Some st"
    "worker_ok (bt_cancelled s) (run_ids (bt_ops s)) (Some st) w'"
    "has_permit w' \<Longrightarrow> has_permit w \<or> permits_used (bt_workers s) < batch_concurrency"
  shows "batch_inv env b (set_worker k w' s)"
  using batch_inv_worker [OF assms(1-4), of "bt_db s" st "bt_ops s" w'] assms
  by (simp add: batch_inv_def fun_upd_idem)

lemma batch_inv_worker_step:
  assumes inv: "batch_inv env b s" and m: "bt_main s = BmJoining"
    and k: "k < length (bt_workers s)" "bt_workers s ! k = (server, w)"
    and safe: "\<not> is_dangerous_id env (br_task_id request)"
    and step: "worker_step env b request k server w s = Some s'"
  shows "batch_inv env b s'"
proof -
  let ?st = "statuses (bt_db s) b server"
  have ok: "worker_ok (bt_cancelled s) (run_ids (bt_ops s)) ?st w"
    using inv k by (auto simp: batch_inv_def worker_at_def)
  note same = batch_inv_worker_only [OF inv m k]
  have keys: "batch_keys (bt_db s)" and aud: "audited env (bt_ops s)" using inv by (simp_all add: batch_inv_def)
  show ?thesis
  proof (cases w)
    case WWaiting
    then show ?thesis using ok step
      by (auto simp: worker_ok_def has_permit_def split: if_splits intro!: same)
  next
    case WPermitted
    then show ?thesis using ok step
      by (auto simp: worker_ok_def has_permit_def split: if_splits intro!: same)
  next
    case WChecked
    obtain r db where mark: "ob_mark_item_running b server (bt_db s) = (r, db)" by fastforce
    note eff = mark_item_effect [OF keys mark]
    show ?thesis
    proof (cases "?st = Some BiQueued")
      case True
      from eff(3) [OF this] have r: "r = Inr ()" "statuses db b = (statuses (bt_db s) b)(server \<mapsto> BiRunning)"
        by simp_all
      show ?thesis using step WChecked mark r
        batch_inv_worker [OF inv m k eff(1,2) r(2) aud, of WMarked]
        by (simp add: worker_ok_def has_permit_def)
    next
      case False
      with ok WChecked have st: "?st = Some BiCancelled" "bt_cancelled s" by (auto simp: worker_ok_def)
      from eff(4) [OF False] obtain e where r: "r = Inl e" "statuses db b = statuses (bt_db s) b" by blast
      have r2: "statuses db b = (statuses (bt_db s) b)(server := Some BiCancelled)"
        using r(2) st(1) by (simp add: fun_upd_idem)
      show ?thesis using step WChecked mark r(1)
        batch_inv_worker [OF inv m k eff(1,2) r2 aud, of "WDone (Inl e)"]
        by (simp add: worker_ok_def has_permit_def)
    qed
  next
    case WMarked
    obtain res ops where run: "run_operation env server request (bt_cancelled s) (bt_ops s) = (res, ops)" by fastforce
    note eff = run_operation_effect [OF aud safe run]
    have st: "?st = Some BiRunning" using ok WMarked by (simp add: worker_ok_def)
    then show ?thesis using step WMarked run eff keys
        batch_inv_worker [OF inv m k, of "bt_db s" BiRunning ops "WFinishing res"]
      by (simp add: worker_ok_def has_permit_def fun_upd_idem)
  next
    case (WFinishing res)
    obtain r db where fin: "ob_finish_item (run_ids (bt_ops s)) b server (bo_status res) (bo_run_id res)
        (bo_error res) (bt_db s) = (r, db)" by fastforce
    have st: "?st = Some BiRunning" "batch_item_is_terminal (bo_status res)"
        "\<And>i. bo_run_id res = Some i \<Longrightarrow> i \<in> set (run_ids (bt_ops s))"
      using ok WFinishing by (auto simp: worker_ok_def)
    note eff = finish_item_effect [OF keys fin st(2,3,1)]
    show ?thesis using step WFinishing fin st(2)
      batch_inv_worker [OF inv m k eff(1,2,4) aud, of "WDone r"]
      by (auto simp: worker_ok_def has_permit_def batch_item_is_terminal_def)
  qed (use step in simp)
qed

lemma all_done_at: "all_done ws \<Longrightarrow> k < length ws \<Longrightarrow> \<exists>r. snd (ws ! k) = WDone r"
  by (cases "ws ! k"; cases "snd (ws ! k)")
    (auto simp: all_done_def list_all_length split: prod.splits batch_worker.splits)

text \<open>All items of the batch change at once.\<close>

lemma batch_inv_items:
  assumes inv: "batch_inv env b s" and db: "batch_keys db" "bdb_batches db = bdb_batches (bt_db s)"
    and st: "\<And>server. statuses db b server = map_option g (statuses (bt_db s) b server)"
    and g: "\<And>t. g t = (if t \<in> A then u else t)" "batch_item_is_terminal u" "BiRunning \<notin> A \<or> all_done (bt_workers s)"
      "BiQueued \<in> A \<Longrightarrow> u = BiCancelled \<and> bt_cancelled s \<or> all_done (bt_workers s)"
      "A \<subseteq> {BiQueued, BiRunning}"
  shows "batch_inv env b (s\<lparr>bt_db := db\<rparr>)"
proof -
  have dom: "dom (statuses db b) = dom (statuses (bt_db s) b)" using st by (auto simp: dom_def)
  have fin: "items_settled (bt_db s) b \<Longrightarrow> items_settled db b"
    using st g(1,2) by (auto simp: items_settled_def ran_def)
  have "worker_at b (s\<lparr>bt_db := db\<rparr>) k" if "k < length (bt_workers s)" for k
  proof -
    have ok: "worker_at b s k" using inv that by (simp add: batch_inv_def)
    have ended: "all_done (bt_workers s) \<Longrightarrow> \<exists>r. snd (bt_workers s ! k) = WDone r"
      using all_done_at [OF _ that] by blast
    show ?thesis
      using ok g(2-5) ended unfolding worker_at_def worker_ok_def
      by (cases "snd (bt_workers s ! k)"; cases "statuses (bt_db s) b (fst (bt_workers s ! k))")
        (auto simp: st g(1) batch_item_is_terminal_def)
  qed
  moreover have "batch_at db b = batch_at (bt_db s) b" by (simp add: batch_at_def batch_row_def db(2))
  then have "main_ok b (bt_main s) (s\<lparr>bt_db := db\<rparr>)"
    using inv fin by (cases "bt_main s") (auto simp: batch_inv_def batch_ended_def)
  ultimately show ?thesis using inv db(1) dom by (simp add: batch_inv_def)
qed

lemma batch_inv_cancel_items:
  assumes "batch_inv env b s" "bt_cancelled s"
  shows "batch_inv env b (s\<lparr>bt_db := snd (ob_cancel_queued_items b (bt_db s))\<rparr>)"
  using assms
  by (intro batch_inv_items [where A = "{BiQueued}" and u = BiCancelled and g = "\<lambda>t. if t = BiQueued then BiCancelled else t"])
    (simp_all add: cancel_items_effect batch_inv_def batch_item_is_terminal_def)

lemma batch_inv_fail_items:
  assumes "batch_inv env b s" "all_done (bt_workers s)"
  shows "batch_inv env b (s\<lparr>bt_db := snd (ob_fail_nonterminal_items b m (bt_db s))\<rparr>)"
  using assms
  by (intro batch_inv_items [where A = "{BiQueued, BiRunning}" and u = BiFailed and g = "\<lambda>t. if t \<in> {BiQueued, BiRunning} then BiFailed else t"])
    (simp_all add: fail_items_effect batch_inv_def batch_item_is_terminal_def)

lemma worker_at_cong:
  assumes "bt_workers s' = bt_workers s" "statuses (bt_db s') = statuses (bt_db s)" "bt_ops s' = bt_ops s"
    "bt_cancelled s \<longrightarrow> bt_cancelled s'" "worker_at b s k"
  shows "worker_at b s' k"
  using assms by (auto simp: worker_at_def intro: worker_ok_mono)

text \<open>The main task moves: the items stay as they are.\<close>

lemma batch_inv_main:
  assumes "batch_inv env b s" "batch_keys db" "statuses db = statuses (bt_db s)"
    and "main_ok b m (s\<lparr>bt_db := db, bt_main := m, bt_registry := reg\<rparr>)"
  shows "batch_inv env b (s\<lparr>bt_db := db, bt_main := m, bt_registry := reg\<rparr>)"
  using assms
  by (auto simp: batch_inv_def elim!: worker_at_cong [rotated -1])

lemma all_done_settled:
  assumes "batch_inv env b s" "all_done (bt_workers s)"
  shows "items_settled (if bt_cancelled s then snd (ob_cancel_queued_items b (bt_db s)) else bt_db s) b"
proof -
  have "t \<in> {BiSucceeded, BiFailed, BiCancelled} \<or> t = BiQueued \<and> bt_cancelled s"
    if "statuses (bt_db s) b server = Some t" for server t
  proof -
    have "server \<in> fst ` set (bt_workers s)" using assms(1) that by (auto simp: batch_inv_def)
    then obtain k where k: "k < length (bt_workers s)" "fst (bt_workers s ! k) = server"
      by (metis imageE in_set_conv_nth)
    from all_done_at [OF assms(2) k(1)] obtain r where "snd (bt_workers s ! k) = WDone r" by blast
    then show ?thesis using assms(1) k that by (fastforce simp: batch_inv_def worker_at_def worker_ok_def)
  qed
  then show ?thesis
    by (fastforce simp: items_settled_def ran_def cancel_items_effect batch_item_is_terminal_def)
qed

lemma get_ended:
  assumes "batch_keys db" "batch_at db b = Some nxt" "batch_is_terminal nxt" "items_settled db b"
  obtains d where "ob_get b db = Some d" "ended_details (dom (statuses db b)) d"
proof -
  obtain row where row: "batch_row db b = Some row" "ob_status row = nxt"
    using assms(2) by (auto simp: batch_at_def)
  have "ended_details (dom (statuses db b)) \<lparr>bd_batch = row, bd_items = items_in db b\<rparr>"
    using assms(3,4) row(2) statuses_of_item [OF assms(1)]
    by (fastforce simp: ended_details_def statuses_servers list_all_iff items_settled_def ran_def)
  then show thesis using that row(1) by (simp add: ob_get_def)
qed

lemma batch_inv_main_step:
  assumes inv: "batch_inv env b s" and step: "main_step b now s = Some s'"
  shows "batch_inv env b s'"
proof -
  have keys: "batch_keys (bt_db s)" and main: "main_ok b (bt_main s) s"
    and dom: "dom (statuses (bt_db s) b) = fst ` set (bt_workers s)"
    using inv by (simp_all add: batch_inv_def)
  have move: "batch_inv env b (t\<lparr>bt_main := m\<rparr>)"
    if "batch_inv env b t" "main_ok b m (t\<lparr>bt_main := m\<rparr>)" for t m
    using batch_inv_main [OF that(1), of "bt_db t" m "bt_registry t"] that by (simp add: batch_inv_def)
  show ?thesis
  proof (cases "bt_main s")
    case BmStarting
    let ?db = "snd (transition_batch b BqQueued BqRunning now (bt_db s))"
    have "batch_at (bt_db s) b = Some BqQueued" using main BmStarting by simp
    note t = transition_effect [OF keys this, of BqRunning now]
    have "s' = s\<lparr>bt_db := ?db, bt_main := BmJoining, bt_registry := bt_registry s\<rparr>"
      using step BmStarting t(1) unfolding main_step_def ob_mark_running_def
      by (cases "transition_batch b BqQueued BqRunning now (bt_db s)") auto
    moreover have "batch_inv env b (s\<lparr>bt_db := ?db, bt_main := BmJoining, bt_registry := bt_registry s\<rparr>)"
      using main BmStarting t by (intro batch_inv_main [OF inv]) (auto intro: statuses_items)
    ultimately show ?thesis by simp
  next
    case (BmJoined e)
    let ?db = "if bt_cancelled s then snd (ob_cancel_queued_items b (bt_db s)) else bt_db s"
    have i: "batch_inv env b (s\<lparr>bt_db := ?db\<rparr>)"
      using inv batch_inv_cancel_items [OF inv] by simp
    have "main_ok b (BmSettling e) (s\<lparr>bt_db := ?db, bt_main := BmSettling e\<rparr>)"
      using main BmJoined all_done_settled [OF inv] by (simp add: batch_at_def batch_row_def cancel_items_effect)
    with move [OF i, of "BmSettling e"] show ?thesis using step BmJoined by (simp add: main_step_def)
  next
    case (BmSettling e)
    let ?db = "case e of None \<Rightarrow> bt_db s | Some e \<Rightarrow> snd (ob_fail_nonterminal_items b (display e) (bt_db s))"
    have i: "batch_inv env b (s\<lparr>bt_db := ?db\<rparr>)"
      using inv main BmSettling batch_inv_fail_items [OF inv] by (simp split: option.split)
    then have "main_ok b (BmSettling e) (s\<lparr>bt_db := ?db\<rparr>)" using BmSettling by (simp add: batch_inv_def)
    with move [OF i, of BmCompleting] show ?thesis using step BmSettling by (simp add: main_step_def)
  next
    case BmCompleting
    have c: "batch_at (bt_db s) b = Some BqRunning" "items_settled (bt_db s) b" "all_done (bt_workers s)"
        "bt_registry s b \<noteq> None"
      using main BmCompleting by simp_all
    obtain nxt where n: "fst (ob_complete b (bt_cancelled s) now (bt_db s)) = Inr nxt" "batch_is_terminal nxt"
      "batch_keys (snd (ob_complete b (bt_cancelled s) now (bt_db s)))"
      "bdb_items (snd (ob_complete b (bt_cancelled s) now (bt_db s))) = bdb_items (bt_db s)"
      "batch_at (snd (ob_complete b (bt_cancelled s) now (bt_db s))) b = Some nxt"
      using complete_effect [OF keys c(1,2)] by blast
    let ?db = "snd (ob_complete b (bt_cancelled s) now (bt_db s))"
    have st: "statuses ?db = statuses (bt_db s)" by (rule statuses_items [OF n(4)])
    have fin: "items_settled ?db b" using c(2) by (simp add: items_settled_def st)
    obtain d where d: "ob_get b ?db = Some d" "ended_details (dom (statuses ?db b)) d"
      using get_ended [OF n(3,5,2) fin] .
    have "s' = s\<lparr>bt_db := ?db, bt_main := BmRemoving (Inr d), bt_registry := bt_registry s\<rparr>"
      using step BmCompleting n(1) d(1) unfolding main_step_def
      by (cases "ob_complete b (bt_cancelled s) now (bt_db s)") (auto simp: ok_or_def)
    moreover have "batch_inv env b (s\<lparr>bt_db := ?db, bt_main := BmRemoving (Inr d), bt_registry := bt_registry s\<rparr>)"
      using c(3,4) n(2,3,5) fin st d(2) dom by (intro batch_inv_main [OF inv]) (auto simp: batch_ended_def)
    ultimately show ?thesis by simp
  next
    case (BmRemoving r)
    have "batch_inv env b (s\<lparr>bt_db := bt_db s, bt_main := BmReturned r,
        bt_registry := batch_remove b (bt_registry s)\<rparr>)"
      using main BmRemoving keys by (intro batch_inv_main [OF inv]) (auto simp: batch_remove_def)
    moreover have "s' = s\<lparr>bt_db := bt_db s, bt_main := BmReturned r,
        bt_registry := batch_remove b (bt_registry s)\<rparr>"
      using step BmRemoving by (cases s) (simp add: main_step_def)
    ultimately show ?thesis by simp
  qed (use step in \<open>simp_all add: main_step_def\<close>)
qed

lemma batch_inv_step:
  assumes "batch_step env b request s s'" "\<not> is_dangerous_id env (br_task_id request)" "batch_inv env b s"
  shows "batch_inv env b s'"
  using assms(1)
proof cases
  case work
  then show ?thesis
  proof cases
    case (worker k server w)
    then show ?thesis using batch_inv_worker_step [OF assms(3)] assms(2) by blast
  next
    case (joined error)
    then show ?thesis using assms(3) batch_inv_main [OF assms(3), of "bt_db s" "BmJoined error" "bt_registry s"]
      by (simp add: batch_inv_def)
  qed (rule batch_inv_main_step [OF assms(3)])
next
  case (cancel_token reg)
  have "main_ok b (bt_main s) s'" using assms(3) cancel_token
    by (cases "bt_main s") (auto simp: batch_inv_def batch_cancel_def split: if_splits)
  then show ?thesis using assms(3) cancel_token
    by (auto simp: batch_inv_def elim!: worker_at_cong [rotated -1])
next
  case (cancel_items n)
  have "batch_inv env b (s\<lparr>bt_db := snd (ob_cancel_queued_items b (bt_db s))\<rparr>)"
    using assms(3) cancel_items by (intro batch_inv_cancel_items) (simp_all add: batch_inv_def)
  moreover have "bt_cancelled s" using assms(3) cancel_items by (simp add: batch_inv_def)
  ultimately show ?thesis using cancel_items
    by (cases "bt_main s") (auto simp: batch_inv_def batch_ended_def worker_at_def)
qed

lemma batch_inv_reach:
  assumes "(batch_step env b request)\<^sup>*\<^sup>* s s'" "\<not> is_dangerous_id env (br_task_id request)" "batch_inv env b s"
  shows "batch_inv env b s'"
  using assms by (induction rule: rtranclp_induct) (auto intro: batch_inv_step)

section \<open>A prepared batch\<close>

lemma distinct_servers_distinct: "distinct_servers seen servers \<Longrightarrow> distinct servers \<and> set servers \<inter> set seen = {}"
  by (induction servers arbitrary: seen) fastforce+

lemma prepare_batch_inv:
  assumes "batch_keys db" "audited env ops" "prepare_batch env request i now db ops reg = Inr s"
  shows "batch_inv env i s" "\<not> is_dangerous_id env (br_task_id request)"
    "map fst (bt_workers s) = br_server_ids request"
proof -
  let ?draft = "\<lparr>nb_task_id = br_task_id request, nb_task_version = br_task_version request,
    nb_server_ids = br_server_ids request\<rparr>"
  obtain row db' reg' where v: "validate_batch env request db = Inr ()"
      and c: "ob_create ?draft i now db = (Inr row, db')" and r: "batch_register (ob_id row) reg = Inr reg'"
      and s: "s = \<lparr>bt_db = db', bt_ops = ops, bt_registry = reg', bt_cancelled = False, bt_cancels = 0,
            bt_workers = map (\<lambda>server. (server, WWaiting)) (br_server_ids request), bt_main = BmStarting\<rparr>"
    using assms(3) by (auto simp: prepare_batch_def bind_res_Inr split: sum.splits prod.splits)
  show "\<not> is_dangerous_id env (br_task_id request)"
    using v by (auto simp: validate_batch_def is_dangerous_id_def split: if_splits option.splits)
  show "map fst (bt_workers s) = br_server_ids request" by (simp add: s comp_def)
  have d: "distinct (br_server_ids request)"
    using v distinct_servers_distinct [of "[]"] by (auto simp: validate_batch_def split: if_splits)
  have new: "batch_row db i = None" "\<forall>r\<in>set (bdb_items db). oi_batch_id r \<noteq> i"
      "row = \<lparr>ob_id = i, ob_task_id = br_task_id request, ob_task_version = br_task_version request,
         ob_status = BqQueued, ob_created_at = now, ob_finished_at = None\<rparr>"
      "db' = db\<lparr>bdb_batches := bdb_batches db @ [row],
         bdb_items := bdb_items db @ map (queued_item i) (br_server_ids request)\<rparr>"
    using c by (auto simp: ob_create_def Let_def list_ex_iff split: if_splits)
  have st: "statuses db' i = (\<lambda>server. if server \<in> set (br_server_ids request) then Some BiQueued else None)"
  proof
    fix server
    have "row_by item_key (i, server) (bdb_items db) = None"
      using new(2) by (auto simp: row_by_None item_key_def)
    moreover have "row_by item_key (i, server) (map (queued_item i) servers)
        = (if server \<in> set servers then Some (queued_item i server) else None)" for servers
      by (induction servers) (auto simp: queued_item_def item_key_def)
    ultimately show "statuses db' i server = (if server \<in> set (br_server_ids request) then Some BiQueued else None)"
      by (simp add: statuses_def new(4) row_by_append queued_item_def)
  qed
  have "distinct (map item_key (map (queued_item i) (br_server_ids request)))"
    using d by (simp add: distinct_map inj_on_def item_key_def queued_item_def comp_def)
  moreover have "i \<notin> ob_id ` set (bdb_batches db)" using new(1) by (simp add: batch_row_def row_by_None)
  ultimately have keys: "batch_keys db'"
    using assms(1) new(2,3) by (auto simp: batch_keys_def new(4) item_key_def queued_item_def)
  have at: "batch_at db' i = Some BqQueued"
    using new(1,3) by (simp add: batch_at_def batch_row_def new(4) row_by_append)
  have p: "permits_used (map (\<lambda>server. (server, WWaiting)) servers) = 0" for servers
    by (induction servers) (simp_all add: permits_used_def has_permit_def)
  have "reg' i \<noteq> None" using r new(3) by (auto simp: batch_register_def split: if_splits)
  then show "batch_inv env i s"
    using keys st at assms(2) d p
    by (auto simp: batch_inv_def s worker_at_def worker_ok_def comp_def dom_def image_image split: if_splits)
qed

section \<open>Progress\<close>

fun worker_rank :: "batch_worker \<Rightarrow> nat" where
  "worker_rank WWaiting = 5"
| "worker_rank WPermitted = 4"
| "worker_rank WChecked = 3"
| "worker_rank WMarked = 2"
| "worker_rank (WFinishing res) = 1"
| "worker_rank (WDone r) = 0"

fun main_rank :: "batch_main \<Rightarrow> nat" where
  "main_rank BmStarting = 6"
| "main_rank BmJoining = 5"
| "main_rank (BmJoined e) = 4"
| "main_rank (BmSettling e) = 3"
| "main_rank BmCompleting = 2"
| "main_rank (BmRemoving r) = 1"
| "main_rank (BmReturned r) = 0"

text \<open>The number of steps that a batch can still make.\<close>

definition batch_rank :: "batch_state \<Rightarrow> nat" where
  "batch_rank s = sum_list (map (worker_rank \<circ> snd) (bt_workers s)) + main_rank (bt_main s)"

lemma rank_set_worker:
  assumes "k < length (bt_workers s)" "bt_workers s ! k = (server, w)" "worker_rank w' < worker_rank w"
  shows "batch_rank (set_worker k w' s) < batch_rank s"
proof -
  have "sum_list (map (worker_rank \<circ> snd) (ws[k := (server, w')])) < sum_list (map (worker_rank \<circ> snd) ws)"
    if "k < length ws" "ws ! k = (server, w)" for ws :: "(string \<times> batch_worker) list" and k
    using that assms(3)
  proof (induction ws arbitrary: k)
    case (Cons x ws)
    then show ?case by (cases k) auto
  qed simp
  from this [OF assms(1,2)] assms(2) show ?thesis by (simp add: batch_rank_def set_worker_def)
qed

lemma rank_worker_step:
  assumes "k < length (bt_workers s)" "bt_workers s ! k = (server, w)"
    and "worker_step env b request k server w s = Some s'"
  shows "batch_rank s' < batch_rank s"
proof -
  have "batch_rank (set_worker k w' (s\<lparr>bt_db := db, bt_ops := ops\<rparr>)) < batch_rank s"
    if "worker_rank w' < worker_rank w" for w' db ops
    using rank_set_worker [of k "s\<lparr>bt_db := db, bt_ops := ops\<rparr>" server w w'] assms(1,2) that
    by (simp add: batch_rank_def)
  from this [where db = "bt_db s" and ops = "bt_ops s"] this [where ops = "bt_ops s"]
    this [where db = "bt_db s"] assms(3)
  show ?thesis by (cases w) (auto split: if_splits prod.splits sum.splits)
qed

lemma rank_work:
  assumes "batch_work env b request s s'"
  shows "batch_rank s' < batch_rank s"
  using assms
proof cases
  case (worker k server w)
  then show ?thesis by (intro rank_worker_step)
next
  case (joined error)
  then show ?thesis by (simp add: batch_rank_def)
next
  case (main now)
  then show ?thesis
    by (cases "bt_main s") (auto simp: main_step_def batch_rank_def split: prod.splits sum.splits)
qed

lemma rank_step: "batch_step env b request s s' \<Longrightarrow> batch_rank s' \<le> batch_rank s"
  by (cases rule: batch_step.cases) (auto dest: rank_work simp: batch_rank_def)

lemma rank_reach: "(batch_step env b request)\<^sup>*\<^sup>* s s' \<Longrightarrow> batch_rank s' \<le> batch_rank s"
  by (induction rule: rtranclp_induct) (auto dest: rank_step)

lemma rank_prepared:
  "prepare_batch env request i now db ops reg = Inr s \<Longrightarrow>
     batch_rank s = 5 * length (br_server_ids request) + 6"
  by (auto simp: prepare_batch_def bind_res_Inr batch_rank_def comp_def sum_list_triv
      split: sum.splits prod.splits)

lemma worker_can_step:
  assumes "\<not> all_done (bt_workers s)"
  obtains k server w s' where "k < length (bt_workers s)" "bt_workers s ! k = (server, w)"
    "worker_step env b request k server w s = Some s'"
proof (cases "permits_used (bt_workers s) = 0")
  case True
  from assms obtain x where x: "x \<in> set (bt_workers s)" "\<And>r. snd x \<noteq> WDone r"
    by (fastforce simp: all_done_def list_all_iff split: batch_worker.splits)
  then have "\<not> has_permit (snd x)" using True by (auto simp: permits_used_def filter_empty_conv)
  with x(2) have w: "snd x = WWaiting" by (cases "snd x") (auto simp: has_permit_def)
  from x(1) obtain k where "k < length (bt_workers s)" "bt_workers s ! k = x" by (metis in_set_conv_nth)
  then show thesis using that [of k "fst x" WWaiting] w True
    by (cases x; cases "bt_cancelled s") (auto simp: batch_concurrency_def)
next
  case False
  then obtain x where x: "x \<in> set (bt_workers s)" "has_permit (snd x)"
    by (auto simp: permits_used_def filter_empty_conv)
  then obtain k where k: "k < length (bt_workers s)" "bt_workers s ! k = (fst x, snd x)"
    by (metis in_set_conv_nth prod.collapse)
  have "\<exists>s'. worker_step env b request k (fst x) (snd x) s = Some s'"
    using x(2) by (cases "snd x") (auto simp: has_permit_def split: prod.splits sum.splits)
  then show thesis using that k by blast
qed

lemma work_possible:
  assumes "\<And>r. bt_main s \<noteq> BmReturned r"
  obtains s' where "batch_work env b request s s'"
proof (cases "bt_main s = BmJoining")
  case False
  have "\<exists>s'. main_step b 0 s = Some s'"
    using False assms by (cases "bt_main s") (auto simp: main_step_def split: prod.splits sum.splits)
  then show thesis using that batch_work.main by blast
next
  case True
  show thesis
  proof (cases "all_done (bt_workers s)")
    case joinable: True
    show thesis
    proof (cases "worker_errors (bt_workers s) = {}")
      case True
      then show thesis 
        by (intro that [OF batch_work.joined [OF \<open>bt_main s = BmJoining\<close> joinable, of None]]) simp
    next
      case False
      then obtain e where "e \<in> worker_errors (bt_workers s)" by blast
      then show thesis 
        by (intro that [OF batch_work.joined [OF \<open>bt_main s = BmJoining\<close> joinable, of "Some e"]]) simp
    qed
  next
    case False
    then show thesis using worker_can_step [of s env b request] batch_work.worker [OF True] that by metis
  qed
qed

lemma batch_can_return: "\<exists>s' r. (batch_step env b request)\<^sup>*\<^sup>* s s' \<and> bt_main s' = BmReturned r"
proof (induction "batch_rank s" arbitrary: s rule: less_induct)
  case less
  show ?case
  proof (cases "\<exists>r. bt_main s = BmReturned r")
    case False
    then obtain t where t: "batch_work env b request s t" using work_possible [of s env b request] by blast
    from less [OF rank_work [OF t]] obtain s' r where "(batch_step env b request)\<^sup>*\<^sup>* t s'" "bt_main s' = BmReturned r"
      by blast
    then show ?thesis using converse_rtranclp_into_rtranclp [of "batch_step env b request", OF batch_step.work [OF t]] by blast
  qed auto
qed

lemma running_has_permit:
  assumes "batch_inv env b s" "statuses (bt_db s) b server = Some BiRunning"
  shows "server \<in> fst ` set (filter (has_permit \<circ> snd) (bt_workers s))"
proof -
  have "server \<in> fst ` set (bt_workers s)" using assms by (auto simp: batch_inv_def)
  then obtain k where k: "k < length (bt_workers s)" "fst (bt_workers s ! k) = server"
    by (metis imageE in_set_conv_nth)
  then have "worker_at b s k" using assms(1) by (simp add: batch_inv_def)
  with assms(2) k(2) have "has_permit (snd (bt_workers s ! k))"
    by (auto simp: worker_at_def worker_ok_def has_permit_def split: batch_worker.splits)
  with k show ?thesis by (auto intro!: image_eqI [of _ _ "bt_workers s ! k"])
qed

lemma running_bounded:
  assumes "batch_inv env b s"
  shows "count_status BiRunning (items_in (bt_db s) b) \<le> permits_used (bt_workers s)"
proof -
  let ?run = "filter (\<lambda>r. oi_status r = BiRunning) (items_in (bt_db s) b)"
  have keys: "batch_keys (bt_db s)" using assms by (simp add: batch_inv_def)
  have "distinct (map item_key ?run)"
    using keys by (simp add: batch_keys_def items_in_def distinct_map_filter)
  moreover have "map item_key ?run = map (Pair b) (map oi_server_id ?run)"
    by (auto simp: items_in_def item_key_def)
  ultimately have "distinct (map oi_server_id ?run)" using distinct_map by metis
  then have "length ?run = card (oi_server_id ` set ?run)" by (metis distinct_card length_map set_map)
  also have "\<dots> \<le> card (fst ` set (filter (has_permit \<circ> snd) (bt_workers s)))"
    using running_has_permit [OF assms] statuses_of_item [OF keys]
    by (intro card_mono) fastforce+
  also have "\<dots> \<le> permits_used (bt_workers s)"
    unfolding permits_used_def by (metis card_length length_map set_map)
  finally show ?thesis by (simp add: count_status_def)
qed

lemma workers_kept:
  assumes "(batch_step env b request)\<^sup>*\<^sup>* s s'"
  shows "map fst (bt_workers s') = map fst (bt_workers s)"
proof -
  have set_kept: "map fst (bt_workers (set_worker k w t)) = map fst (bt_workers t)" for k w t
    by (cases "k < length (bt_workers t)")
      (auto simp: set_worker_def nth_list_update intro!: nth_equalityI)
  have "map fst (bt_workers u) = map fst (bt_workers t)" if "batch_step env b request t u" for t u
    using that
  proof cases
    case work
    then show ?thesis
    proof cases
      case (worker k server w)
      from worker(4) show ?thesis
        by (cases w) (auto simp: set_kept split: if_splits prod.splits sum.splits)
    next
      case (main now)
      then show ?thesis by (cases "bt_main t") (auto simp: main_step_def split: prod.splits sum.splits)
    qed auto
  qed auto
  with assms show ?thesis by (induction rule: rtranclp_induct) simp_all
qed

section \<open>What a batch guarantees\<close>

text \<open>C5: However the workers of a batch, its main task and calls of \<open>cancel\<close> are interleaved: when
  the batch returns, it returns its details (never an error), the batch and the item of every
  requested server have a final status, nothing in the table is left queued or running, and the
  registry has no entry of the batch any more.\<close>

theorem batch_run_settles:
  assumes "batch_keys db" and "core_keys (ox_db ops)" and "ox_log ops = []"
    and "prepare_batch env request i now db ops reg = Inr s0"
    and "(batch_step env i request)\<^sup>*\<^sup>* s0 s" and "bt_main s = BmReturned result"
  shows "\<exists>d. result = Inr d \<and> batch_is_terminal (ob_status (bd_batch d))
    \<and> oi_server_id ` set (bd_items d) = set (br_server_ids request)
    \<and> list_all (\<lambda>r. batch_item_is_terminal (oi_status r)) (bd_items d)
    \<and> list_all (\<lambda>r. batch_item_is_terminal (oi_status r)) (items_in (bt_db s) i)
    \<and> bt_registry s i = None"
proof -
  have "audited env ops" using assms(2,3) by (simp add: sane_def)
  note p = prepare_batch_inv [OF assms(1) this assms(4)]
  have inv: "batch_inv env i s" by (rule batch_inv_reach [OF assms(5) p(2,1)])
  have "map fst (bt_workers s) = map fst (bt_workers s0)"
    using assms(5) by (rule workers_kept)
  with p(3) have ws: "fst ` set (bt_workers s) = set (br_server_ids request)" by (metis set_map)
  have "main_ok i (BmReturned result) s" using inv assms(6) by (simp add: batch_inv_def)
  moreover have "list_all (\<lambda>r. batch_item_is_terminal (oi_status r)) (items_in (bt_db s) i)"
    using calculation statuses_of_item [of "bt_db s" _ i] inv
    by (fastforce simp: list_all_iff items_settled_def ran_def batch_inv_def)
  ultimately show ?thesis by (auto simp: ended_details_def ws)
qed

text \<open>C16: At no moment are more than three servers of a batch at work: at most three of its items are
  recorded as running, and once the workers are joined none is.\<close>

theorem batch_concurrency_bounded:
  assumes "batch_keys db" and "core_keys (ox_db ops)" and "ox_log ops = []"
    and "prepare_batch env request i now db ops reg = Inr s0"
    and "(batch_step env i request)\<^sup>*\<^sup>* s0 s"
  shows "count_status BiRunning (items_in (bt_db s) i) \<le> 3
    \<and> (all_done (bt_workers s) \<longrightarrow> count_status BiRunning (items_in (bt_db s) i) = 0)"
proof -
  have "audited env ops" using assms(2,3) by (simp add: sane_def)
  note p = prepare_batch_inv [OF assms(1) this assms(4)]
  have inv: "batch_inv env i s" by (rule batch_inv_reach [OF assms(5) p(2,1)])
  have "permits_used (bt_workers s) = 0" if "all_done (bt_workers s)"
    using that by (auto simp: permits_used_def filter_empty_conv all_done_def list_all_iff has_permit_def
        split: batch_worker.splits)
  then show ?thesis using running_bounded [OF inv] inv by (auto simp: batch_inv_def batch_concurrency_def)
qed

text \<open>C17: A batch always comes to its end: in every state that the interleavings can reach some worker
  or the main task can make a step until the batch has returned, and every step brings it nearer to
  its end, whatever is called in between.\<close>

theorem batch_run_progress:
  assumes "prepare_batch env request i now db ops reg = Inr s0"
    and "(batch_step env i request)\<^sup>*\<^sup>* s0 s"
  shows "((\<exists>result. bt_main s = BmReturned result) \<or> (\<exists>s'. batch_work env i request s s'))
    \<and> (\<forall>s'. batch_work env i request s s' \<longrightarrow> batch_rank s' < batch_rank s)
    \<and> (\<forall>s'. batch_step env i request s s' \<longrightarrow> batch_rank s' \<le> batch_rank s)
    \<and> batch_rank s \<le> 5 * length (br_server_ids request) + 6"
proof -
  have "batch_rank s0 \<le> 5 * length (br_server_ids request) + 6"
    using assms(1) rank_prepared by simp
  with rank_reach [OF assms(2)] show ?thesis
    using work_possible [of s env i request] rank_work [of env i request s] rank_step [of env i request s] by (metis le_trans)
qed

section \<open>A batch on one server\<close>

definition demo_batch_env :: op_env where
  "demo_batch_env = demo_env\<lparr>oe_catalog := [read_only_task ''system.uptime'' CatSystem ''t'' ''d'' 1 []
     [read_only_implementation ''i'' [] [] ParseKeyValue]]\<rparr>"

definition demo_batch_request :: batch_request where
  "demo_batch_request =
     \<lparr>br_server_ids = [''s''], br_task_id = ''system.uptime'', br_task_version = 2,
      br_parameters = JObject []\<rparr>"

definition demo_batch_db :: batch_db where
  "demo_batch_db = \<lparr>bdb_batches = [], bdb_items = [], bdb_servers = [''s'']\<rparr>"

abbreviation demo_prepared :: "batch_state app_result" where
  "demo_prepared \<equiv>
     prepare_batch demo_batch_env demo_batch_request 1 0 demo_batch_db demo_previewed (\<lambda>_. None)"

lemma demo_batch_prepared: "is_ok demo_prepared"
  by code_simp

lemma demo_batch_keys: "batch_keys demo_batch_db"
  by (simp add: batch_keys_def demo_batch_db_def)

theorem batch_run_settles_witness:
  "\<exists>s0 s d. demo_prepared = Inr s0
    \<and> (batch_step demo_batch_env 1 demo_batch_request)\<^sup>*\<^sup>* s0 s \<and> bt_main s = BmReturned (Inr d)
    \<and> oi_server_id ` set (bd_items d) = {''s''} \<and> bt_registry s 1 = None"
proof -
  obtain s0 where p: "demo_prepared = Inr s0" using demo_batch_prepared by (auto simp: is_ok_def split: sum.splits)
  obtain s r where s: "(batch_step demo_batch_env 1 demo_batch_request)\<^sup>*\<^sup>* s0 s" "bt_main s = BmReturned r"
    using batch_can_return by blast
  from batch_run_settles [OF demo_batch_keys demo_keys p s] p s show ?thesis
    by (auto simp: demo_batch_request_def)
qed

theorem batch_concurrency_bounded_witness:
  "\<exists>s0. demo_prepared = Inr s0 \<and> count_status BiRunning (items_in (bt_db s0) 1) \<le> 3"
proof -
  obtain s0 where p: "demo_prepared = Inr s0" using demo_batch_prepared by (auto simp: is_ok_def split: sum.splits)
  from batch_concurrency_bounded [OF demo_batch_keys demo_keys p rtranclp.rtrancl_refl] p show ?thesis by blast
qed

theorem batch_run_progress_witness:
  "\<exists>s0 s'. demo_prepared = Inr s0 \<and> batch_work demo_batch_env 1 demo_batch_request s0 s'
    \<and> batch_rank s' < batch_rank s0"
proof -
  obtain s0 where p: "demo_prepared = Inr s0" using demo_batch_prepared by (auto simp: is_ok_def split: sum.splits)
  have "bt_main s0 \<noteq> BmReturned r" for r
    using p by (auto simp: prepare_batch_def bind_res_Inr split: sum.splits prod.splits)
  with batch_run_progress [OF p rtranclp.rtrancl_refl] p show ?thesis by blast
qed

end
