(* ===== verification/Exec_Repo.thy ===== *)
theory Exec_Repo
  imports Op_Repo Task_Params Exec_Stream
begin

text \<open>
  \<^verbatim>\<open>src-tauri/src/repositories/execution_repository.rs\<close> over the tables of
  \<^verbatim>\<open>migrations/0002_tasks_and_executions.sql\<close>, with their CHECK constraints and foreign keys. A clock
  reading and a fresh UUID are arguments; a row is the record that it encodes.
\<close>

section \<open>Tables\<close>

record new_execution =
  ne_server_id :: string
  ne_task_id :: string
  ne_task_version :: int
  ne_category :: string
  ne_parameters :: "execution_parameter list"

record finish_execution =
  fe_id :: uuid
  fe_status :: execution_status
  fe_finished_at :: int
  fe_duration_ms :: u64
  fe_exit_code :: "int option"
  fe_error_category :: "string option"
  fe_error_message :: "string option"
  fe_retryable :: bool
  fe_output_summary :: "string option"
  fe_remote_process_group :: "string option"

record execution_filter =
  xf_server_id :: "string option"
  xf_category :: "string option"
  xf_status :: "execution_status option"
  xf_created_from :: "int option"
  xf_created_to :: "int option"

record exec_db =
  xdb_servers :: "string list"
  xdb_records :: "execution_record list"
  xdb_parameters :: "(uuid \<times> execution_parameter) list"
  xdb_files :: "(uuid \<times> execution_file) list"

definition exec_row :: "exec_db \<Rightarrow> uuid \<Rightarrow> execution_record option" where
  "exec_row db i = row_by er_id i (xdb_records db)"

section \<open>Checks\<close>

definition execution_categories :: "string list" where
  "execution_categories = [''system'', ''service'', ''logs'', ''advanced'', ''transfer'']"

definition validate_execution :: "new_execution \<Rightarrow> unit app_result" where
  "validate_execution draft =
     (if is_blank (ne_server_id draft) \<or> is_blank (ne_task_id draft) \<or> is_blank (ne_category draft)
         \<or> ne_task_version draft \<le> 0
      then Inl (Validation ''incomplete execution'')
      else if ne_category draft \<notin> set execution_categories
      then Inl (Validation ''invalid execution category'')
      else if list_ex (\<lambda>p. is_blank (ep_name p) \<or> CHR 0x00 \<in> set (ep_name p)
             \<or> 8 * 1024 < length (ep_display_value p)) (ne_parameters draft)
      then Inl (Validation ''invalid execution parameter'')
      else Inr ())"

definition file_path_parts :: "string \<Rightarrow> string list" where
  "file_path_parts path = concat (map (split_char (CHR 0x5C)) (split_char (CHR ''/'') path))"

definition is_hexdigit :: "char \<Rightarrow> bool" where
  "is_hexdigit c \<longleftrightarrow>
     is_ascii_digit c \<or> (65 \<le> byte c \<and> byte c \<le> 70) \<or> (97 \<le> byte c \<and> byte c \<le> 102)"

definition validate_execution_file :: "host_os \<Rightarrow> execution_file \<Rightarrow> unit app_result" where
  "validate_execution_file os f =
     (if ef_relative_path f = [] \<or> CHR 0x00 \<in> set (ef_relative_path f)
         \<or> is_absolute os (ef_relative_path f) \<or> ''..'' \<in> set (file_path_parts (ef_relative_path f))
      then Inl (Validation ''execution files need a safe relative path'')
      else if length (ef_sha256 f) \<noteq> 64 \<or> \<not> list_all is_hexdigit (ef_sha256 f)
      then Inl (Validation ''invalid SHA-256 of an execution file'')
      else Inr ())"

definition shown_value :: "execution_parameter \<Rightarrow> string" where
  "shown_value p = (if ep_sensitive p then ''[REDACTED]'' else ep_display_value p)"

definition execution_parameter_summary :: "execution_parameter list \<Rightarrow> string option" where
  "execution_parameter_summary ps =
     (if ps = [] then None
      else cap_utf8 (Some (join_with '', '' (map (\<lambda>p. ep_name p @ ''='' @ shown_value p) ps))) (8 * 1024))"

section \<open>Queries\<close>

definition new_execution_row :: "new_execution \<Rightarrow> uuid \<Rightarrow> int \<Rightarrow> execution_record" where
  "new_execution_row draft i now =
     \<lparr>er_id = i, er_server_id = ne_server_id draft, er_task_id = ne_task_id draft,
      er_task_version = ne_task_version draft, er_category = ne_category draft,
      er_status = EQueued, er_created_at = now, er_started_at = None, er_finished_at = None,
      er_duration_ms = None, er_exit_code = None, er_error_category = None,
      er_error_message = None, er_retryable = False,
      er_parameters_summary = execution_parameter_summary (ne_parameters draft),
      er_output_summary = None, er_remote_process_group = None\<rparr>"

definition xr_create :: "new_execution \<Rightarrow> uuid \<Rightarrow> int \<Rightarrow> (exec_db, execution_record) st" where
  "xr_create draft i now db =
     (case validate_execution draft of
        Inl e \<Rightarrow> (Inl e, db)
      | Inr _ \<Rightarrow>
          if exec_row db i \<noteq> None \<or> ne_server_id draft \<notin> set (xdb_servers db)
             \<or> \<not> distinct (map ep_name (ne_parameters draft))
             \<or> list_ex (\<lambda>(j, _). j = i) (xdb_parameters db)
          then (Inl (Database ''constraint failed''), db)
          else (Inr (new_execution_row draft i now),
                db\<lparr>xdb_records := xdb_records db @ [new_execution_row draft i now],
                   xdb_parameters := xdb_parameters db @ map (\<lambda>p. (i, p\<lparr>ep_display_value := shown_value p\<rparr>))
                     (ne_parameters draft)\<rparr>))"

definition update_executions ::
  "(execution_record \<Rightarrow> bool) \<Rightarrow> (execution_record \<Rightarrow> execution_record) \<Rightarrow> exec_db \<Rightarrow> nat \<times> exec_db" where
  "update_executions p f db =
     (affected p (xdb_records db), db\<lparr>xdb_records := upd_where p f (xdb_records db)\<rparr>)"

definition xr_mark_running :: "uuid \<Rightarrow> int \<Rightarrow> (exec_db, unit) st" where
  "xr_mark_running i started_at db =
     (case update_executions (\<lambda>r. er_id r = i \<and> er_status r = EQueued)
             (\<lambda>r. r\<lparr>er_status := ERunning, er_started_at := Some started_at\<rparr>) db of
        (n, db') \<Rightarrow> (ensure_changed n ''the execution cannot start'', db'))"

definition finished_execution :: "finish_execution \<Rightarrow> execution_record \<Rightarrow> execution_record" where
  "finished_execution fin r =
     r\<lparr>er_status := fe_status fin, er_finished_at := Some (fe_finished_at fin),
       er_duration_ms := Some (fe_duration_ms fin), er_exit_code := fe_exit_code fin,
       er_error_category := fe_error_category fin,
       er_error_message := cap_utf8 (fe_error_message fin) (8 * 1024),
       er_retryable := fe_retryable fin,
       er_output_summary := cap_utf8 (fe_output_summary fin) (8 * 1024),
       er_remote_process_group := fe_remote_process_group fin\<rparr>"

definition xr_finish :: "finish_execution \<Rightarrow> (exec_db, unit) st" where
  "xr_finish fin db =
     (if \<not> execution_is_terminal (fe_status fin)
      then (Inl (Validation ''invalid final status of an execution''), db)
      else if max_i64 < unat (fe_duration_ms fin)
      then (Inl (Validation ''duration of the execution out of range''), db)
      else (case update_executions (\<lambda>r. er_id r = fe_id fin \<and> er_status r \<in> {EQueued, ERunning})
             (finished_execution fin) db of
        (n, db') \<Rightarrow> (ensure_changed n ''the execution cannot end'', db')))"

definition xr_add_file :: "host_os \<Rightarrow> uuid \<Rightarrow> execution_file \<Rightarrow> (exec_db, unit) st" where
  "xr_add_file os i f db =
     (case validate_execution_file os f of
        Inl e \<Rightarrow> (Inl e, db)
      | Inr _ \<Rightarrow>
          if max_i64 < unat (ef_size_bytes f)
          then (Inl (Validation ''size of the execution file out of range''), db)
          else if exec_row db i = None \<or> list_ex (\<lambda>(_, g). ef_id g = ef_id f) (xdb_files db)
          then (Inl (Database ''constraint failed''), db)
          else (Inr (), db\<lparr>xdb_files := xdb_files db
                  @ [(i, f\<lparr>ef_sha256 := to_ascii_lowercase (ef_sha256 f)\<rparr>)]\<rparr>))"

definition xr_get :: "uuid \<Rightarrow> exec_db \<Rightarrow> execution_details option" where
  "xr_get i db =
     map_option (\<lambda>r.
       \<lparr>ed_record = r,
        ed_parameters = sort_key ep_name (map snd (filter (\<lambda>(j, _). j = i) (xdb_parameters db))),
        ed_files = sort_key (\<lambda>f. uint (ef_id f)) (map snd (filter (\<lambda>(j, _). j = i) (xdb_files db)))\<rparr>)
       (exec_row db i)"

definition matches_filter :: "execution_filter \<Rightarrow> execution_record \<Rightarrow> bool" where
  "matches_filter f r \<longleftrightarrow>
     (case xf_server_id f of None \<Rightarrow> True | Some v \<Rightarrow> er_server_id r = v)
     \<and> (case xf_category f of None \<Rightarrow> True | Some v \<Rightarrow> er_category r = v)
     \<and> (case xf_status f of None \<Rightarrow> True | Some v \<Rightarrow> er_status r = v)
     \<and> (case xf_created_from f of None \<Rightarrow> True | Some v \<Rightarrow> v \<le> er_created_at r)
     \<and> (case xf_created_to f of None \<Rightarrow> True | Some v \<Rightarrow> er_created_at r \<le> v)"

definition xr_list :: "execution_filter \<Rightarrow> exec_db \<Rightarrow> execution_record list" where
  "xr_list f db =
     take 500 (sort_key (\<lambda>r. (- er_created_at r, - uint (er_id r)))
       (filter (matches_filter f) (xdb_records db)))"

definition xr_recover_interrupted :: "int \<Rightarrow> (exec_db, nat) st" where
  "xr_recover_interrupted now db =
     (case update_executions (\<lambda>r. er_status r = ERunning)
             (\<lambda>r. r\<lparr>er_status := EUncertain, er_finished_at := Some now,
                    er_duration_ms := Some (case er_started_at r of
                        None \<Rightarrow> 0 | Some t \<Rightarrow> word_of_int (max 0 (now - t))),
                    er_error_category := Some ''interrupted'',
                    er_error_message := Some ''the remote state was not confirmed when the program ended'',
                    er_retryable := True\<rparr>) db of
        (n, db') \<Rightarrow> (Inr n, db'))"

section \<open>The rows\<close>

definition exec_keys :: "exec_db \<Rightarrow> bool" where
  "exec_keys db \<longleftrightarrow> distinct (map er_id (xdb_records db))"

definition status_at :: "exec_db \<Rightarrow> uuid \<Rightarrow> execution_status option" where
  "status_at db i = map_option er_status (exec_row db i)"

lemma update_executions_row:
  assumes "\<And>r. er_id (f r) = er_id r"
  shows "exec_keys (snd (update_executions p f db)) = exec_keys db"
    "exec_row (snd (update_executions (\<lambda>r. er_id r = i \<and> q r) f db)) j
      = (if j = i then map_option (\<lambda>r. if q r then f r else r) (exec_row db i) else exec_row db j)"
  using upd_where_keys [of er_id f, OF assms] row_by_upd_where [of er_id f, OF assms]
  by (simp_all add: exec_keys_def exec_row_def update_executions_def)

lemma update_executions_affected:
  "exec_keys db \<Longrightarrow> fst (update_executions (\<lambda>r. er_id r = i \<and> q r) f db)
     = (case exec_row db i of None \<Rightarrow> 0 | Some r \<Rightarrow> if q r then 1 else 0)"
  by (simp add: update_executions_def exec_keys_def exec_row_def affected_by_key)

lemma create_effect:
  assumes "exec_keys db" "xr_create draft i now db = (Inr row, db')"
  shows "exec_keys db'" "row = new_execution_row draft i now" "exec_row db i = None"
    "exec_row db' j = (if j = i then Some row else exec_row db j)"
    "xdb_files db' = xdb_files db"
proof -
  have c: "exec_row db i = None" "row = new_execution_row draft i now"
      "xdb_records db' = xdb_records db @ [row]" "xdb_files db' = xdb_files db"
    using assms(2) by (auto simp: xr_create_def split: sum.splits if_splits)
  have i: "er_id row = i" by (simp add: c(2) new_execution_row_def)
  show "exec_keys db'" using assms(1) c(1,3) i by (auto simp: exec_keys_def exec_row_def row_by_None)
  show "row = new_execution_row draft i now" "exec_row db i = None" "xdb_files db' = xdb_files db"
    by (fact c)+
  show "exec_row db' j = (if j = i then Some row else exec_row db j)"
    using c(1,3) i by (auto simp: exec_row_def row_by_append split: option.split)
qed

lemma mark_running_effect:
  assumes "exec_keys db" "status_at db i = Some EQueued"
  obtains db' where "xr_mark_running i t db = (Inr (), db')" "exec_keys db'"
    "status_at db' i = Some ERunning" "xdb_files db' = xdb_files db"
    "\<And>j. j \<noteq> i \<Longrightarrow> exec_row db' j = exec_row db j"
proof -
  let ?f = "\<lambda>r. r\<lparr>er_status := ERunning, er_started_at := Some t\<rparr>"
  let ?u = "update_executions (\<lambda>r. er_id r = i \<and> er_status r = EQueued) ?f db"
  have f: "er_id (?f r) = er_id r" for r by simp
  note u = update_executions_row [where f = ?f, OF f]
  have "fst ?u = 1" using assms update_executions_affected [OF assms(1), of i "\<lambda>r. er_status r = EQueued" ?f]
    by (auto simp: status_at_def)
  then have "xr_mark_running i t db = (Inr (), snd ?u)"
    by (simp add: xr_mark_running_def ensure_changed_def split_beta)
  then show thesis
    using that [of "snd ?u"] u assms by (auto simp: status_at_def update_executions_def)
qed

lemma finish_execution_effect:
  assumes "exec_keys db" "status_at db (fe_id fin) \<in> {Some EQueued, Some ERunning}"
    and "execution_is_terminal (fe_status fin)" "unat (fe_duration_ms fin) \<le> max_i64"
  obtains db' where "xr_finish fin db = (Inr (), db')" "exec_keys db'"
    "status_at db' (fe_id fin) = Some (fe_status fin)" "xdb_files db' = xdb_files db"
    "map_option (finished_execution fin) (exec_row db (fe_id fin)) = exec_row db' (fe_id fin)"
    "\<And>j. j \<noteq> fe_id fin \<Longrightarrow> exec_row db' j = exec_row db j"
proof -
  let ?q = "\<lambda>r. er_status r \<in> {EQueued, ERunning}"
  let ?u = "update_executions (\<lambda>r. er_id r = fe_id fin \<and> ?q r) (finished_execution fin) db"
  have f: "er_id (finished_execution fin r) = er_id r" for r by (simp add: finished_execution_def)
  note u = update_executions_row [where f = "finished_execution fin", OF f]
  obtain r where r: "exec_row db (fe_id fin) = Some r" "?q r"
    using assms(2) by (auto simp: status_at_def)
  have "fst ?u = 1" using r update_executions_affected [OF assms(1), of "fe_id fin" ?q "finished_execution fin"]
    by simp
  then have fin: "xr_finish fin db = (Inr (), snd ?u)"
    using assms(3,4) unfolding xr_finish_def split_beta ensure_changed_def
    by (simp del: execution_is_terminal.simps)
  define db' where "db' = snd ?u"
  have row: "exec_row db' j = (if j = fe_id fin then Some (finished_execution fin r) else exec_row db j)" for j
    using u(2) [of "fe_id fin" ?q db j] r by (simp add: db'_def)
  have keep: "exec_keys db'" "xdb_files db' = xdb_files db"
    using u(1) assms(1) by (simp_all add: db'_def update_executions_def)
  show thesis
    by (rule that [OF fin [folded db'_def] keep(1) _ keep(2)])
      (simp_all add: status_at_def row r(1) finished_execution_def)
qed

text \<open>Every other row has ended: what an update of one row keeps of that.\<close>

definition rest_ended :: "exec_db \<Rightarrow> uuid set \<Rightarrow> bool" where
  "rest_ended db open_rows \<longleftrightarrow>
     (\<forall>j st. status_at db j = Some st \<longrightarrow> j \<notin> open_rows \<longrightarrow> execution_is_terminal st)"

lemma rest_ended_other:
  assumes "\<And>j. j \<noteq> i \<Longrightarrow> exec_row db' j = exec_row db j" "rest_ended db {i}"
  shows "rest_ended db' {i}"
    "status_at db' i = Some s \<Longrightarrow> execution_is_terminal s \<Longrightarrow> rest_ended db' {}"
proof -
  have other: "status_at db' j = status_at db j" if "j \<noteq> i" for j
    using assms(1) [OF that] by (simp add: status_at_def)
  show "rest_ended db' {i}" using assms(2) other unfolding rest_ended_def by (metis singletonI)
  show "rest_ended db' {}" if "status_at db' i = Some s" "execution_is_terminal s"
    using assms(2) other that unfolding rest_ended_def by (metis option.inject singletonD)
qed

text \<open>Recovery at the start of the program: no row stays \<open>running\<close>; queued rows stay queued.\<close>

lemma recover_executions_effect:
  "status_at (snd (xr_recover_interrupted now db)) i
     = map_option (\<lambda>s. if s = ERunning then EUncertain else s) (status_at db i)"
proof -
  let ?f = "\<lambda>r. r\<lparr>er_status := EUncertain, er_finished_at := Some now,
                    er_duration_ms := Some (case er_started_at r of
                        None \<Rightarrow> 0 | Some t \<Rightarrow> word_of_int (max 0 (now - t))),
                    er_error_category := Some ''interrupted'',
                    er_error_message := Some ''the remote state was not confirmed when the program ended'',
                    er_retryable := True\<rparr>"
  have "map_option er_status (row_by er_id i (upd_where (\<lambda>r. er_status r = ERunning) ?f rows))
      = map_option (\<lambda>s. if s = ERunning then EUncertain else s) (map_option er_status (row_by er_id i rows))"
    for rows by (induction rows) auto
  then show ?thesis
    by (simp add: status_at_def exec_row_def xr_recover_interrupted_def update_executions_def)
qed

end
