(* ===== verification/Exec_Command.thy ===== *)
theory Exec_Command
  imports Exec_Repo Op_Env
begin

text \<open>
  One remote command with its output: \<^verbatim>\<open>src-tauri/src/core/ssh/executor.rs\<close> and
  \<^verbatim>\<open>services/event_sink.rs\<close>. The SSH channel is the list of what \<open>select!\<close> sees of it; the clock, the
  redactor, the local file and the sink of the events are arguments whose answers are indexed by a
  tick.
\<close>

section \<open>The world of an execution\<close>

text \<open>
  What the loop over the channel sees: output, extended output, the exit status, another message, the
  cancelled token, or the timeout. The end of the list is the closed channel.
\<close>

datatype channel_event =
    ChData string | ChExtended string | ChExit nat | ChOther | ChCancelled | ChTimeout

record exec_env =
  xe_os :: host_os
  xe_catalog :: "task_definition list"
  xe_parse_uuid :: "string \<Rightarrow> uuid option"
  xe_encode :: "json \<Rightarrow> string"
  xe_redact :: "string \<Rightarrow> string"
  xe_powershell :: "string \<Rightarrow> string"
  xe_now :: "nat \<Rightarrow> int"
  xe_uuid :: "nat \<Rightarrow> uuid"
  xe_cancelled :: "nat \<Rightarrow> bool"
  xe_connect :: "nat \<Rightarrow> string \<Rightarrow> connected_server app_result"
  xe_open :: "nat \<Rightarrow> unit app_result"
  xe_request :: "nat \<Rightarrow> string \<Rightarrow> unit app_result"
  xe_messages :: "nat \<Rightarrow> string \<Rightarrow> channel_event list"
  xe_close :: "nat \<Rightarrow> bool"
  xe_write :: "nat \<Rightarrow> unit app_result"
  xe_send :: "nat \<Rightarrow> execution_event \<Rightarrow> unit app_result"
  xe_exists :: "nat \<Rightarrow> bool"
  xe_size :: "nat \<Rightarrow> u64 app_result"
  xe_sha256 :: "nat \<Rightarrow> string app_result"

record exec_world =
  xw_db :: exec_db
  xw_registry :: "uuid \<Rightarrow> bool option"
  xw_tick :: nat
  xw_events :: "execution_event list"
  xw_sequence :: u64
  xw_logs :: "uuid \<Rightarrow> string option"

definition xask :: "(nat \<Rightarrow> 'a) \<Rightarrow> (exec_world, 'a) st" where
  "xask f w = (Inr (f (xw_tick w)), w\<lparr>xw_tick := Suc (xw_tick w)\<rparr>)"

definition xask_res :: "(nat \<Rightarrow> 'a app_result) \<Rightarrow> (exec_world, 'a) st" where
  "xask_res f w = (f (xw_tick w), w\<lparr>xw_tick := Suc (xw_tick w)\<rparr>)"

definition xdb :: "(exec_db, 'a) st \<Rightarrow> (exec_world, 'a) st" where
  "xdb m w = (case m (xw_db w) of (r, db) \<Rightarrow> (r, w\<lparr>xw_db := db\<rparr>))"

text \<open>\<open>match m { \<dots> }\<close>: the result of \<open>m\<close> as a value.\<close>

definition caught :: "(exec_world, 'a) st \<Rightarrow> (exec_world, 'a app_result) st" where
  "caught m w = (case m w of (r, w') \<Rightarrow> (Inr r, w'))"

definition xres :: "'a app_result \<Rightarrow> (exec_world, 'a) st" where
  "xres r w = (r, w)"

section \<open>Events\<close>

text \<open>
  \<open>MonotonicEventSink::emit\<close>: the event gets the next number of the execution, whatever number its
  sender gave it, and goes to the sink, which may refuse it.
\<close>

definition restart_sequence :: "(exec_world, unit) st" where
  "restart_sequence w = (Inr (), w\<lparr>xw_sequence := 0\<rparr>)"

definition emit_event :: "exec_env \<Rightarrow> execution_event_payload \<Rightarrow> (exec_world, unit) st" where
  "emit_event env payload =
     bind_st (xask (xe_now env)) (\<lambda>now w.
       case next_event payload now (xw_sequence w) of (event, sequence) \<Rightarrow>
         (case xe_send env (xw_tick w) event of
            Inl e \<Rightarrow> (Inl e, w\<lparr>xw_sequence := sequence, xw_tick := Suc (xw_tick w)\<rparr>)
          | Inr _ \<Rightarrow> (Inr (), w\<lparr>xw_sequence := sequence, xw_tick := Suc (xw_tick w),
                              xw_events := xw_events w @ [event]\<rparr>)))"

section \<open>The writer of the output\<close>

datatype output_stream = OutStdout | OutStderr

record stream_writer =
  sw_budget :: output_budget
  sw_event_bytes :: nat
  sw_stdout_decoder :: utf8_chunker
  sw_stderr_decoder :: utf8_chunker
  sw_stdout_pending :: string
  sw_stderr_pending :: string
  sw_stdout_bytes :: u64
  sw_stderr_bytes :: u64

definition max_output_bytes :: nat where
  "max_output_bytes = 32 * 1024 * 1024"

definition append_log :: "exec_env \<Rightarrow> uuid \<Rightarrow> string \<Rightarrow> (exec_world, unit) st" where
  "append_log env i v =
     bind_st (xask_res (xe_write env)) (\<lambda>_ w.
       (Inr (), w\<lparr>xw_logs := (xw_logs w)(i \<mapsto> (case xw_logs w i of None \<Rightarrow> [] | Some t \<Rightarrow> t) @ v)\<rparr>))"

definition create_log :: "exec_env \<Rightarrow> uuid \<Rightarrow> (exec_world, unit) st" where
  "create_log env i =
     bind_st (xask_res (xe_write env)) (\<lambda>_.
     bind_st (xask_res (xe_write env)) (\<lambda>_ w. (Inr (), w\<lparr>xw_logs := (xw_logs w)(i \<mapsto> [])\<rparr>)))"

definition open_writer ::
  "exec_env \<Rightarrow> uuid \<Rightarrow> u64 \<Rightarrow> nat \<Rightarrow> (exec_world, stream_writer) st" where
  "open_writer env i limit event_bytes =
     (if limit = 0 \<or> max_output_bytes < unat limit
      then fail_st (Validation ''invalid output limit'')
      else
     bind_st (create_log env i) (\<lambda>_.
     bind_st (xres (new_chunker max_event_bytes)) (\<lambda>decoder.
       ret_st \<lparr>sw_budget = new_budget limit, sw_event_bytes = event_bytes,
               sw_stdout_decoder = decoder, sw_stderr_decoder = decoder,
               sw_stdout_pending = [], sw_stderr_pending = [],
               sw_stdout_bytes = 0, sw_stderr_bytes = 0\<rparr>)))"

definition stream_prefix :: "output_stream \<Rightarrow> string" where
  "stream_prefix stream = (case stream of OutStdout \<Rightarrow> ''[stdout] '' | OutStderr \<Rightarrow> ''[stderr] '')"

definition stream_payload :: "output_stream \<Rightarrow> string \<Rightarrow> stream_writer \<Rightarrow> execution_event_payload" where
  "stream_payload stream chunk w =
     (case stream of OutStdout \<Rightarrow> Stdout chunk (sw_stdout_bytes w)
      | OutStderr \<Rightarrow> Stderr chunk (sw_stderr_bytes w))"

fun emit_chunks ::
  "exec_env \<Rightarrow> uuid \<Rightarrow> output_stream \<Rightarrow> stream_writer \<Rightarrow> string list \<Rightarrow> (exec_world, unit) st" where
  "emit_chunks env i stream w [] = ret_st ()"
| "emit_chunks env i stream w (chunk # chunks) =
     bind_st (append_log env i (stream_prefix stream)) (\<lambda>_.
     bind_st (append_log env i chunk) (\<lambda>_.
     bind_st (append_log env i [CHR 0x0A]) (\<lambda>_.
     bind_st (emit_event env (stream_payload stream chunk w)) (\<lambda>_.
       emit_chunks env i stream w chunks))))"

definition emit_text ::
  "exec_env \<Rightarrow> uuid \<Rightarrow> output_stream \<Rightarrow> stream_writer \<Rightarrow> string \<Rightarrow> (exec_world, unit) st" where
  "emit_text env i stream w v =
     (if v = [] then ret_st ()
      else bind_st (xres (new_chunker (sw_event_bytes w))) (\<lambda>chunker.
        case push_bytes (xe_redact env v) chunker of
          (chunks, chunker') \<Rightarrow> emit_chunks env i stream w (chunks @ fst (finish_chunks chunker'))))"

text \<open>The text up to the last newline, and the rest.\<close>

definition complete_lines :: "string \<Rightarrow> string \<times> string" where
  "complete_lines s =
     (rev (dropWhile (\<lambda>c. c \<noteq> CHR 0x0A) (rev s)), rev (takeWhile (\<lambda>c. c \<noteq> CHR 0x0A) (rev s)))"

definition flush_complete_lines ::
  "exec_env \<Rightarrow> uuid \<Rightarrow> output_stream \<Rightarrow> stream_writer \<Rightarrow> (exec_world, stream_writer) st" where
  "flush_complete_lines env i stream w =
     (case stream of
        OutStdout \<Rightarrow> (case complete_lines (sw_stdout_pending w) of
          (lines, rest) \<Rightarrow>
            if lines = [] then ret_st w
            else bind_st (emit_text env i stream (w\<lparr>sw_stdout_pending := rest\<rparr>) lines)
                   (\<lambda>_. ret_st (w\<lparr>sw_stdout_pending := rest\<rparr>)))
      | OutStderr \<Rightarrow> (case complete_lines (sw_stderr_pending w) of
          (lines, rest) \<Rightarrow>
            if lines = [] then ret_st w
            else bind_st (emit_text env i stream (w\<lparr>sw_stderr_pending := rest\<rparr>) lines)
                   (\<lambda>_. ret_st (w\<lparr>sw_stderr_pending := rest\<rparr>))))"

definition sat_add_u64 :: "u64 \<Rightarrow> u64 \<Rightarrow> u64" where
  "sat_add_u64 a b = (if unat a + unat b < 2 ^ 64 then a + b else - 1)"

definition decode_into :: "output_stream \<Rightarrow> string \<Rightarrow> stream_writer \<Rightarrow> stream_writer" where
  "decode_into stream bytes w =
     (case stream of
        OutStdout \<Rightarrow> (case push_bytes bytes (sw_stdout_decoder w) of
          (chunks, decoder) \<Rightarrow>
            w\<lparr>sw_stdout_bytes := sat_add_u64 (sw_stdout_bytes w) (of_nat (length bytes)),
              sw_stdout_decoder := decoder,
              sw_stdout_pending := sw_stdout_pending w @ concat chunks\<rparr>)
      | OutStderr \<Rightarrow> (case push_bytes bytes (sw_stderr_decoder w) of
          (chunks, decoder) \<Rightarrow>
            w\<lparr>sw_stderr_bytes := sat_add_u64 (sw_stderr_bytes w) (of_nat (length bytes)),
              sw_stderr_decoder := decoder,
              sw_stderr_pending := sw_stderr_pending w @ concat chunks\<rparr>))"

definition write_output ::
  "exec_env \<Rightarrow> uuid \<Rightarrow> output_stream \<Rightarrow> string \<Rightarrow> stream_writer \<Rightarrow> (exec_world, stream_writer) st" where
  "write_output env i stream bytes w =
     (case consume (of_nat (length bytes)) (sw_budget w) of
        (Inl e, _) \<Rightarrow> fail_st e
      | (Inr _, budget) \<Rightarrow>
          flush_complete_lines env i stream (decode_into stream bytes (w\<lparr>sw_budget := budget\<rparr>)))"

definition finish_writer ::
  "exec_env \<Rightarrow> uuid \<Rightarrow> stream_writer \<Rightarrow> (exec_world, u64 \<times> u64) st" where
  "finish_writer env i w =
     (let out = sw_stdout_pending w @ concat (fst (finish_chunks (sw_stdout_decoder w)));
          err = sw_stderr_pending w @ concat (fst (finish_chunks (sw_stderr_decoder w))) in
     bind_st (emit_text env i OutStdout w out) (\<lambda>_.
     bind_st (emit_text env i OutStderr w err) (\<lambda>_.
     bind_st (xask_res (xe_write env)) (\<lambda>_.
       ret_st (sw_stdout_bytes w, sw_stderr_bytes w)))))"

section \<open>A command\<close>

record command_request =
  cr_execution_id :: uuid
  cr_command :: string
  cr_timeout_seconds :: u64
  cr_max_output_bytes :: u64

definition validate_command :: "command_request \<Rightarrow> unit app_result" where
  "validate_command request =
     (if cr_command request = [] \<or> CHR 0x00 \<in> set (cr_command request)
      then Inl (Validation ''empty command or NUL'')
      else if cr_timeout_seconds request = 0 then Inl (Validation ''timeout must be positive'')
      else if cr_max_output_bytes request = 0 \<or> max_output_bytes < unat (cr_max_output_bytes request)
      then Inl (Validation ''output limit out of range'')
      else Inr ())"

record command_outcome =
  co_exit :: int
  co_stdout_bytes :: u64
  co_stderr_bytes :: u64

datatype read_end = ReadTimedOut | ReadFailed app_error | ReadDone "int option" stream_writer

definition exit_i32 :: "nat \<Rightarrow> int" where
  "exit_i32 n = (if n < 2 ^ 31 then int n else 2 ^ 31 - 1)"

fun read_channel ::
  "exec_env \<Rightarrow> uuid \<Rightarrow> channel_event list \<Rightarrow> int option \<Rightarrow> stream_writer \<Rightarrow> (exec_world, read_end) st"
where
  "read_channel env i [] exit w = ret_st (ReadDone exit w)"
| "read_channel env i (ChTimeout # events) exit w = ret_st ReadTimedOut"
| "read_channel env i (ChCancelled # events) exit w = ret_st (ReadFailed Cancelled)"
| "read_channel env i (ChData bytes # events) exit w =
     bind_st (caught (write_output env i OutStdout bytes w)) (\<lambda>r. case r of
         Inl e \<Rightarrow> ret_st (ReadFailed e) | Inr w' \<Rightarrow> read_channel env i events exit w')"
| "read_channel env i (ChExtended bytes # events) exit w =
     bind_st (caught (write_output env i OutStderr bytes w)) (\<lambda>r. case r of
         Inl e \<Rightarrow> ret_st (ReadFailed e) | Inr w' \<Rightarrow> read_channel env i events exit w')"
| "read_channel env i (ChExit n # events) exit w = read_channel env i events (Some (exit_i32 n)) w"
| "read_channel env i (ChOther # events) exit w = read_channel env i events exit w"

definition require_exit_status :: "int option \<Rightarrow> int app_result" where
  "require_exit_status exit =
     ok_or (RemoteStateUncertain ''the channel closed without an exit status'') exit"

definition execute_streaming :: "exec_env \<Rightarrow> command_request \<Rightarrow> (exec_world, command_outcome) st" where
  "execute_streaming env request =
     (let i = cr_execution_id request in
     bind_st (xres (validate_command request)) (\<lambda>_.
     bind_st (xask (xe_now env)) (\<lambda>started_at.
     bind_st (xask_res (xe_open env)) (\<lambda>_.
     bind_st (xask_res (\<lambda>t. xe_request env t (cr_command request))) (\<lambda>_.
     bind_st (open_writer env i (cr_max_output_bytes request) max_event_bytes) (\<lambda>writer.
     bind_st (emit_event env (Started i started_at)) (\<lambda>_.
     bind_st (xask (\<lambda>t. xe_messages env t (cr_command request))) (\<lambda>events.
     bind_st (read_channel env i events None writer) (\<lambda>outcome.
       case outcome of
         ReadTimedOut \<Rightarrow>
           bind_st (xask (xe_close env)) (\<lambda>_. fail_st (Io ''reading the SSH output timed out''))
       | ReadFailed e \<Rightarrow>
           if e = Cancelled
           then bind_st (xask (xe_close env)) (\<lambda>closed.
                  fail_st (if closed then Cancelled
                    else RemoteStateUncertain ''the channel could not be closed''))
           else fail_st e
       | ReadDone exit w \<Rightarrow>
           bind_st (finish_writer env i w) (\<lambda>(out, err).
           bind_st (xres (require_exit_status exit)) (\<lambda>status.
             ret_st \<lparr>co_exit = status, co_stdout_bytes = out, co_stderr_bytes = err\<rparr>)))))))))))"

end
