(* ===== verification/Exec_Service.thy ===== *)
theory Exec_Service
  imports Exec_Command Task_Plan
begin

text \<open>
  \<^verbatim>\<open>src-tauri/src/services/execution_service.rs\<close>: quick tasks, custom commands, maintenance, personal
  scripts and the steps of operations, each as one recorded execution; and the launcher of a script in
  \<^verbatim>\<open>core/scripts/environment.rs\<close>.
\<close>

section \<open>Scripts\<close>

datatype script_shell = ShPosix | ShBash | ShPowerShell

fun script_shell_as_str :: "script_shell \<Rightarrow> string" where
  "script_shell_as_str ShPosix = ''posix_sh''"
| "script_shell_as_str ShBash = ''bash''"
| "script_shell_as_str ShPowerShell = ''powershell''"

fun script_shell_display_name :: "script_shell \<Rightarrow> string" where
  "script_shell_display_name ShPosix = ''POSIX sh''"
| "script_shell_display_name ShBash = ''Bash''"
| "script_shell_display_name ShPowerShell = ''PowerShell''"

definition script_executable :: "script_shell \<Rightarrow> system_capabilities \<Rightarrow> string app_result" where
  "script_executable shell capabilities =
     (if shell = ShPosix \<and> has_command capabilities ''sh'' then Inr ''sh''
      else if shell = ShBash \<and> has_command capabilities ''bash'' then Inr ''bash''
      else if shell = ShPowerShell \<and> has_command capabilities ''pwsh'' then Inr ''pwsh''
      else if shell = ShPowerShell \<and> has_command capabilities ''powershell'' then Inr ''powershell''
      else Inl (Compatibility (''not found on the server: '' @ script_shell_display_name shell)))"

definition validate_script_body :: "string \<Rightarrow> unit app_result" where
  "validate_script_body body =
     (if body = [] \<or> 1024 * 1024 < length body \<or> CHR 0x00 \<in> set body
      then Inl (Validation ''the script must have 1 byte to 1 MiB and no NUL'') else Inr ())"

text \<open>\<open>Uuid::simple\<close>: the 32 digits without hyphens. The candidates are fresh UUIDs.\<close>

fun unique_heredoc_delimiter :: "uuid list \<Rightarrow> string \<Rightarrow> string app_result" where
  "unique_heredoc_delimiter [] body = Inl (Integrity ''no safe input delimiter for the script'')"
| "unique_heredoc_delimiter (u # us) body =
     (let delimiter = ''QZ_SCRIPT_'' @ hex_digits 32 (unat u) in
      if \<not> str_contains body delimiter then Inr delimiter else unique_heredoc_delimiter us body)"

fun launcher_assignments :: "validated_parameters \<Rightarrow> string app_result" where
  "launcher_assignments [] = Inr []"
| "launcher_assignments ((name, p) # ps) =
     bind_res (script_parameter_env_name name) (\<lambda>env_name.
     bind_res (launcher_assignments ps) (\<lambda>rest.
       Inr ('' '' @ env_name @ ''='' @ vp_shell_value p @ rest)))"

definition render_posix_launcher ::
  "uuid list \<Rightarrow> string \<Rightarrow> string \<Rightarrow> validated_parameters \<Rightarrow> string app_result" where
  "render_posix_launcher candidates executable body parameters =
     bind_res (unique_heredoc_delimiter candidates body) (\<lambda>delimiter.
     bind_res (launcher_assignments parameters) (\<lambda>assignments.
       Inr (''env'' @ assignments @ '' '' @ executable @ '' -s <<'' @ [CHR 0x27] @ delimiter
            @ [CHR 0x27, CHR 0x0A] @ body @ [CHR 0x0A] @ delimiter)))"

definition powershell_value :: "(json \<Rightarrow> string) \<Rightarrow> json \<Rightarrow> string" where
  "powershell_value encode v = (case v of JString s \<Rightarrow> s | JNull \<Rightarrow> [] | _ \<Rightarrow> encode v)"

definition quote_doubled :: "string \<Rightarrow> string" where
  "quote_doubled s = concat (map (\<lambda>c. if c = CHR 0x27 then [CHR 0x27, CHR 0x27] else [c]) s)"

fun powershell_assignments :: "(json \<Rightarrow> string) \<Rightarrow> validated_parameters \<Rightarrow> string app_result" where
  "powershell_assignments encode [] = Inr []"
| "powershell_assignments encode ((name, p) # ps) =
     bind_res (script_parameter_env_name name) (\<lambda>env_name.
     bind_res (powershell_assignments encode ps) (\<lambda>rest.
       Inr (''$env:'' @ env_name @ '' = '' @ [CHR 0x27]
            @ quote_doubled (powershell_value encode (vp_value p)) @ [CHR 0x27, CHR 0x0A] @ rest)))"

text \<open>\<open>xe_powershell\<close> is the base64 text of the UTF-16 encoding.\<close>

definition render_powershell_launcher ::
  "exec_env \<Rightarrow> string \<Rightarrow> string \<Rightarrow> validated_parameters \<Rightarrow> string app_result" where
  "render_powershell_launcher env executable body parameters =
     bind_res (powershell_assignments (xe_encode env) parameters) (\<lambda>assignments.
       Inr (executable @ '' -NoLogo -NoProfile -NonInteractive -EncodedCommand ''
            @ xe_powershell env (''$ErrorActionPreference = '' @ [CHR 0x27] @ ''Stop''
                @ [CHR 0x27, CHR 0x0A] @ assignments @ body)))"

definition render_script_launcher ::
  "exec_env \<Rightarrow> uuid list \<Rightarrow> script_shell \<Rightarrow> string \<Rightarrow> string \<Rightarrow> validated_parameters \<Rightarrow> string app_result"
where
  "render_script_launcher env candidates shell executable body parameters =
     bind_res (validate_script_body body) (\<lambda>_.
       if (shell = ShPosix \<and> executable = ''sh'') \<or> (shell = ShBash \<and> executable = ''bash'')
       then render_posix_launcher candidates executable body parameters
       else if shell = ShPowerShell \<and> (executable = ''powershell'' \<or> executable = ''pwsh'')
       then render_powershell_launcher env executable body parameters
       else Inl (Validation ''shell and launcher differ''))"

definition fresh_candidates :: "exec_env \<Rightarrow> nat \<Rightarrow> uuid list" where
  "fresh_candidates env t = map (xe_uuid env) [t..<t + 16]"

section \<open>Custom commands\<close>

datatype custom_mode = CustomCommand | CustomScript

record custom_request =
  cu_mode :: custom_mode
  cu_content :: string
  cu_timeout_seconds :: u64
  cu_dangerous_confirmed :: bool
  cu_shell :: script_shell

definition obvious_interactive_pattern :: "string \<Rightarrow> string option" where
  "obvious_interactive_pattern content =
     (let lower = to_ascii_lowercase content in
      if str_contains lower ''sudo '' \<and> \<not> str_contains lower ''sudo -n '' then Some ''sudo''
      else map_option snd (List.find (\<lambda>(pattern, label). str_contains lower pattern)
        [(''read-host'', ''Read-Host''), (''read -p'', ''read -p''), (''passwd'', ''passwd''),
         (''tail -f'', ''tail -f''), ('' less '', ''less''), ('' vim '', ''vim''), ('' nano '', ''nano'')]))"

definition validate_custom :: "custom_request \<Rightarrow> unit app_result" where
  "validate_custom request =
     (if \<not> cu_dangerous_confirmed request
      then Inl (Validation ''custom commands need a second confirmation'')
      else if is_blank (cu_content request) \<or> CHR 0x00 \<in> set (cu_content request)
         \<or> 1024 * 1024 < length (cu_content request)
      then Inl (Validation ''invalid custom command'')
      else if \<not> (1 \<le> unat (cu_timeout_seconds request) \<and> unat (cu_timeout_seconds request) \<le> 3600)
      then Inl (Validation ''timeout between 1 and 3600 seconds'')
      else case obvious_interactive_pattern (cu_content request) of
        Some pattern \<Rightarrow> Inl (Compatibility (''needs interactive input: '' @ pattern))
      | None \<Rightarrow> Inr ())"

definition render_with_executable ::
  "exec_env \<Rightarrow> uuid list \<Rightarrow> custom_request \<Rightarrow> string \<Rightarrow> string app_result" where
  "render_with_executable env candidates request executable =
     bind_res (validate_custom request) (\<lambda>_.
       if cu_mode request = CustomCommand \<and> cu_shell request = ShPosix then Inr (cu_content request)
       else if cu_mode request = CustomCommand \<and> cu_shell request = ShBash
       then Inr (''bash -lc '' @ shell_quote (cu_content request))
       else render_script_launcher env candidates (cu_shell request) executable (cu_content request) [])"

definition render_for ::
  "exec_env \<Rightarrow> uuid list \<Rightarrow> custom_request \<Rightarrow> system_capabilities \<Rightarrow> string app_result" where
  "render_for env candidates request capabilities =
     bind_res (script_executable (cu_shell request) capabilities)
       (render_with_executable env candidates request)"

section \<open>The registry of running executions\<close>

definition xreg_register :: "uuid \<Rightarrow> (exec_world, unit) st" where
  "xreg_register i w =
     (if xw_registry w i \<noteq> None then (Inl (Validation ''the execution is already running''), w)
      else (Inr (), w\<lparr>xw_registry := (xw_registry w)(i \<mapsto> False)\<rparr>))"

definition xreg_cancel :: "uuid \<Rightarrow> (exec_world, unit) st" where
  "xreg_cancel i w =
     (if xw_registry w i = None
      then (Inl (Validation ''the execution does not exist or has ended''), w)
      else (Inr (), w\<lparr>xw_registry := (xw_registry w)(i \<mapsto> True)\<rparr>))"

definition xreg_remove :: "uuid \<Rightarrow> (exec_world, unit) st" where
  "xreg_remove i w = (Inr (), w\<lparr>xw_registry := (xw_registry w)(i := None)\<rparr>)"

section \<open>The end of an execution\<close>

text \<open>\<open>finished_at.saturating_sub(started_at)\<close>, 0 when negative.\<close>

definition elapsed :: "int \<Rightarrow> int \<Rightarrow> u64" where
  "elapsed started_at finished_at = word_of_int (max 0 (min (finished_at - started_at) (2 ^ 63 - 1)))"

definition status_for_error :: "app_error \<Rightarrow> execution_status" where
  "status_for_error e =
     (case e of Cancelled \<Rightarrow> ECancelled | RemoteStateUncertain _ \<Rightarrow> EUncertain | _ \<Rightarrow> EFailed)"

definition exit_code_of_error :: "app_error \<Rightarrow> int option" where
  "exit_code_of_error e = (case e of SshCommand exit_status _ \<Rightarrow> Some exit_status | _ \<Rightarrow> None)"

definition finish_error :: "exec_env \<Rightarrow> uuid \<Rightarrow> int \<Rightarrow> app_error \<Rightarrow> (exec_world, unit) st" where
  "finish_error env i started_at e =
     bind_st (xask (xe_now env)) (\<lambda>finished_at.
     bind_st (xdb (xr_finish
         \<lparr>fe_id = i, fe_status = status_for_error e, fe_finished_at = finished_at,
          fe_duration_ms = elapsed started_at finished_at, fe_exit_code = exit_code_of_error e,
          fe_error_category = Some (code e), fe_error_message = Some (display e),
          fe_retryable = retryable_error e, fe_output_summary = None,
          fe_remote_process_group = None\<rparr>)) (\<lambda>_.
       emit_event env (Failed (code e) (display e) (retryable_error e))))"

definition require_execution :: "uuid \<Rightarrow> (exec_world, execution_details) st" where
  "require_execution i w =
     (ok_or (Validation ''the execution does not exist'') (xr_get i (xw_db w)), w)"

definition fail_before_run :: "exec_env \<Rightarrow> uuid \<Rightarrow> app_error \<Rightarrow> (exec_world, execution_details) st" where
  "fail_before_run env i e =
     bind_st (xask (xe_now env)) (\<lambda>started_at.
     bind_st (xdb (xr_mark_running i started_at)) (\<lambda>_.
     bind_st restart_sequence (\<lambda>_.
     bind_st (finish_error env i started_at e) (\<lambda>_. require_execution i))))"

definition execution_log_path :: "uuid \<Rightarrow> string" where
  "execution_log_path i = ''logs/executions/'' @ uuid_text i @ ''.log''"

definition record_output_file :: "exec_env \<Rightarrow> uuid \<Rightarrow> (exec_world, unit) st" where
  "record_output_file env i =
     bind_st (xask_res (xe_size env)) (\<lambda>size_bytes.
     bind_st (xask (xe_uuid env)) (\<lambda>file_id.
     bind_st (xask_res (xe_sha256 env)) (\<lambda>sha256.
       xdb (xr_add_file (xe_os env) i
         \<lparr>ef_id = file_id, ef_relative_path = execution_log_path i, ef_purpose = ''execution_log'',
          ef_size_bytes = size_bytes, ef_sha256 = sha256\<rparr>))))"

definition finish_success ::
  "exec_env \<Rightarrow> uuid \<Rightarrow> int \<Rightarrow> command_outcome \<Rightarrow> (exec_world, unit) st" where
  "finish_success env i started_at outcome =
     bind_st (xask (xe_exists env)) (\<lambda>present.
     bind_st (if present then record_output_file env i else ret_st ()) (\<lambda>_.
     bind_st (xask (xe_now env)) (\<lambda>finished_at.
     bind_st (xdb (xr_finish
         \<lparr>fe_id = i, fe_status = ESucceeded, fe_finished_at = finished_at,
          fe_duration_ms = elapsed started_at finished_at, fe_exit_code = Some 0,
          fe_error_category = None, fe_error_message = None, fe_retryable = False,
          fe_output_summary = Some (''stdout '' @ decimal (unat (co_stdout_bytes outcome))
            @ '' bytes, stderr '' @ decimal (unat (co_stderr_bytes outcome)) @ '' bytes''),
          fe_remote_process_group = None\<rparr>)) (\<lambda>_.
       emit_event env (Finished ESucceeded (Some 0) (elapsed started_at finished_at) None)))))"

definition run_connected_command ::
  "exec_env \<Rightarrow> uuid \<Rightarrow> string \<Rightarrow> u64 \<Rightarrow> u64 \<Rightarrow> (exec_world, execution_details) st" where
  "run_connected_command env i command timeout_seconds max_output =
     bind_st (xask (xe_now env)) (\<lambda>started_at.
     bind_st (xdb (xr_mark_running i started_at)) (\<lambda>_.
     bind_st (xreg_register i) (\<lambda>_.
     bind_st restart_sequence (\<lambda>_.
     bind_st (caught (execute_streaming env
         \<lparr>cr_execution_id = i, cr_command = command, cr_timeout_seconds = timeout_seconds,
          cr_max_output_bytes = max_output\<rparr>)) (\<lambda>outcome.
     bind_st (xreg_remove i) (\<lambda>_.
     bind_st (case outcome of
         Inr out \<Rightarrow>
           if co_exit out = 0 then finish_success env i started_at out
           else finish_error env i started_at
                  (ssh_command (co_exit out) ''the remote command failed'')
       | Inl e \<Rightarrow> finish_error env i started_at e) (\<lambda>_.
       require_execution i)))))))"

section \<open>Starting an execution\<close>

definition default_output_limit :: u64 where
  "default_output_limit = 32 * 1024 * 1024"

definition create_execution ::
  "exec_env \<Rightarrow> new_execution \<Rightarrow> (exec_world, execution_record) st" where
  "create_execution env draft =
     bind_st (xask (xe_uuid env)) (\<lambda>i. bind_st (xask (xe_now env)) (\<lambda>now. xdb (xr_create draft i now)))"

text \<open>\<open>select!\<close> of the cancelled token and the connection, or the connection alone.\<close>

definition connect_unless_cancelled ::
  "exec_env \<Rightarrow> bool \<Rightarrow> string \<Rightarrow> (exec_world, connected_server app_result) st" where
  "connect_unless_cancelled env cancellable server_id =
     bind_st (xask (xe_cancelled env)) (\<lambda>cancelled.
       if cancellable \<and> cancelled then ret_st (Inl Cancelled)
       else caught (xask_res (\<lambda>t. xe_connect env t server_id)))"

definition run_command_with_limit_and_cancel ::
  "exec_env \<Rightarrow> uuid \<Rightarrow> string \<Rightarrow> u64 \<Rightarrow> u64 \<Rightarrow> bool \<Rightarrow> (exec_world, execution_details) st" where
  "run_command_with_limit_and_cancel env i command timeout_seconds max_output cancellable =
     bind_st (require_execution i) (\<lambda>details.
     bind_st (connect_unless_cancelled env cancellable (er_server_id (ed_record details))) (\<lambda>connected.
       case connected of
         Inl e \<Rightarrow> fail_before_run env i e
       | Inr _ \<Rightarrow> run_connected_command env i command timeout_seconds max_output))"

definition exec_display_value :: "exec_env \<Rightarrow> validated_parameter \<Rightarrow> string" where
  "exec_display_value env p =
     (if vp_sensitive p then ''[REDACTED]''
      else case json_as_str (vp_value p) of Some s \<Rightarrow> s | None \<Rightarrow> xe_encode env (vp_value p))"

definition exec_history_parameters ::
  "exec_env \<Rightarrow> validated_parameters \<Rightarrow> execution_parameter list" where
  "exec_history_parameters env parameters =
     map (\<lambda>(name, p). \<lparr>ep_name = name, ep_display_value = exec_display_value env p,
                       ep_sensitive = vp_sensitive p\<rparr>) parameters"

definition reject_legacy_dangerous_task :: "task_definition \<Rightarrow> unit app_result" where
  "reject_legacy_dangerous_task task =
     (if td_risk_level task = Dangerous
      then Inl (Security ''dangerous tasks run as operations only'') else Inr ())"

definition run_task ::
  "exec_env \<Rightarrow> uuid \<Rightarrow> task_definition \<Rightarrow> validated_parameters \<Rightarrow> (exec_world, execution_details) st" where
  "run_task env i task parameters =
     bind_st (require_execution i) (\<lambda>details.
     bind_st (caught (xask_res (\<lambda>t. xe_connect env t (er_server_id (ed_record details))))) (\<lambda>connected.
       case connected of
         Inl e \<Rightarrow> fail_before_run env i e
       | Inr server \<Rightarrow>
           (case bind_res (select_implementation task (cs_capabilities server))
                   (\<lambda>implementation. render_command implementation parameters) of
              Inl e \<Rightarrow> fail_before_run env i e
            | Inr command \<Rightarrow> run_connected_command env i command 60 default_output_limit)))"

record task_request =
  tr_task_id :: string
  tr_parameters :: json
  tr_dangerous_confirmed :: bool

definition execute_task ::
  "exec_env \<Rightarrow> string \<Rightarrow> task_request \<Rightarrow> (exec_world, execution_details) st" where
  "execute_task env server_id request =
     bind_st (xres (ok_or (Validation ''the quick task does not exist'')
         (List.find (\<lambda>d. td_id d = tr_task_id request) (xe_catalog env)))) (\<lambda>task.
     bind_st (xres (reject_legacy_dangerous_task task)) (\<lambda>_.
     bind_st (xres (validate_parameters (xe_parse_uuid env) task (tr_parameters request)))
       (\<lambda>parameters.
     bind_st (create_execution env
         \<lparr>ne_server_id = server_id, ne_task_id = td_id task, ne_task_version = td_version task,
          ne_category = task_category_as_str (td_category task),
          ne_parameters = exec_history_parameters env parameters\<rparr>) (\<lambda>execution.
       run_task env (er_id execution) task parameters))))"

definition plain_parameter :: "string \<Rightarrow> string \<Rightarrow> execution_parameter" where
  "plain_parameter name v = \<lparr>ep_name = name, ep_display_value = v, ep_sensitive = False\<rparr>"

definition custom_mode_name :: "custom_mode \<Rightarrow> string" where
  "custom_mode_name mode = (case mode of CustomCommand \<Rightarrow> ''command'' | CustomScript \<Rightarrow> ''script'')"

definition execute_custom ::
  "exec_env \<Rightarrow> string \<Rightarrow> custom_request \<Rightarrow> (exec_world, execution_details) st" where
  "execute_custom env server_id request =
     (let mode = custom_mode_name (cu_mode request) in
     bind_st (xres (validate_custom request)) (\<lambda>_.
     bind_st (create_execution env
         \<lparr>ne_server_id = server_id, ne_task_id = ''advanced.'' @ mode, ne_task_version = 1,
          ne_category = ''advanced'',
          ne_parameters =
            [plain_parameter ''mode'' mode,
             plain_parameter ''shell'' (script_shell_as_str (cu_shell request)),
             \<lparr>ep_name = ''content'', ep_display_value = ''[REDACTED]'', ep_sensitive = True\<rparr>,
             plain_parameter ''timeoutSeconds'' (decimal (unat (cu_timeout_seconds request)))]\<rparr>)
       (\<lambda>execution.
     bind_st (caught (xask_res (\<lambda>t. xe_connect env t server_id))) (\<lambda>connected.
       case connected of
         Inl e \<Rightarrow> fail_before_run env (er_id execution) e
       | Inr server \<Rightarrow>
     bind_st (xask (fresh_candidates env)) (\<lambda>candidates.
       case render_for env candidates request (cs_capabilities server) of
         Inl e \<Rightarrow> fail_before_run env (er_id execution) e
       | Inr command \<Rightarrow>
           run_connected_command env (er_id execution) command (cu_timeout_seconds request)
             default_output_limit)))))"

definition execute_fixed_maintenance ::
  "exec_env \<Rightarrow> string \<Rightarrow> string \<Rightarrow> string list \<Rightarrow> string \<Rightarrow> (exec_world, execution_details) st" where
  "execute_fixed_maintenance env server_id package_manager packages command =
     bind_st (create_execution env
         \<lparr>ne_server_id = server_id, ne_task_id = ''maintenance.package_install'', ne_task_version = 1,
          ne_category = ''maintenance'',
          ne_parameters = [plain_parameter ''packageManager'' package_manager,
                           plain_parameter ''packages'' (join_with '', '' packages)]\<rparr>) (\<lambda>execution.
       run_command_with_limit_and_cancel env (er_id execution) command (10 * 60) (2 * 1024 * 1024)
         False)"

definition execute_personal_script ::
  "exec_env \<Rightarrow> string \<Rightarrow> int \<Rightarrow> script_shell \<Rightarrow> string \<Rightarrow> validated_parameters \<Rightarrow> u64 \<Rightarrow>
   execution_parameter list \<Rightarrow> (exec_world, execution_details) st" where
  "execute_personal_script env server_id script_version shell body validated timeout_seconds parameters =
     bind_st (create_execution env
         \<lparr>ne_server_id = server_id, ne_task_id = ''script.personal'', ne_task_version = script_version,
          ne_category = ''advanced'', ne_parameters = parameters\<rparr>) (\<lambda>execution.
     bind_st (connect_unless_cancelled env True server_id) (\<lambda>connected.
       case connected of
         Inl e \<Rightarrow> fail_before_run env (er_id execution) e
       | Inr server \<Rightarrow>
     bind_st (xask (fresh_candidates env)) (\<lambda>candidates.
       case bind_res (script_executable shell (cs_capabilities server))
              (\<lambda>executable. render_script_launcher env candidates shell executable body validated) of
         Inl e \<Rightarrow> fail_before_run env (er_id execution) e
       | Inr launcher \<Rightarrow>
           run_connected_command env (er_id execution) launcher timeout_seconds
             default_output_limit)))"

definition execute_planned_step :: "exec_env \<Rightarrow> step_call \<Rightarrow> bool \<Rightarrow> (exec_world, execution_details) st" where
  "execute_planned_step env call cancellable =
     bind_st (create_execution env
         \<lparr>ne_server_id = sl_server_id call, ne_task_id = sl_task_id call,
          ne_task_version = sl_task_version call, ne_category = sl_category call,
          ne_parameters = sl_parameters call\<rparr>) (\<lambda>execution.
       run_command_with_limit_and_cancel env (er_id execution) (rs_command (sl_step call))
         (rs_timeout_seconds (sl_step call)) (rs_output_limit_bytes (sl_step call)) cancellable)"

end
