(* ===== verification/Exec_Safety.thy ===== *)
theory Exec_Safety
  imports Exec_Service
begin

text \<open>
  What every execution guarantees: its row ends and its registry entry goes. A call is a triple: an
  assertion before it, one after its result and one after its error.
\<close>

section \<open>Calls that leave the tables and the registry alone\<close>

definition still :: "(exec_world, 'a) st \<Rightarrow> bool" where
  "still m \<longleftrightarrow> (\<forall>w. xw_db (snd (m w)) = xw_db w \<and> xw_registry (snd (m w)) = xw_registry w
     \<and> xw_tick w \<le> xw_tick (snd (m w)))"

named_theorems still_intros \<open>calls that leave the tables and the registry alone\<close>

lemma stillI:
  "(\<And>w r w'. m w = (r, w') \<Longrightarrow> xw_db w' = xw_db w \<and> xw_registry w' = xw_registry w \<and> xw_tick w \<le> xw_tick w') \<Longrightarrow>
     still m"
  unfolding still_def by (metis prod.collapse)

lemma stillD:
  "still m \<Longrightarrow> m w = (r, w') \<Longrightarrow> xw_db w' = xw_db w \<and> xw_registry w' = xw_registry w \<and> xw_tick w \<le> xw_tick w'"
  unfolding still_def by (metis snd_conv)

lemma still_bind [still_intros]: "still m \<Longrightarrow> (\<And>x. still (k x)) \<Longrightarrow> still (bind_st m k)"
proof (rule stillI)
  fix w r w' assume m: "still m" and k: "\<And>x. still (k x)" and e: "bind_st m k w = (r, w')"
  obtain r1 w1 where 1: "m w = (r1, w1)" by fastforce
  note first = stillD [OF m 1]
  show "xw_db w' = xw_db w \<and> xw_registry w' = xw_registry w \<and> xw_tick w \<le> xw_tick w'"
  proof (cases r1)
    case (Inr x)
    then have "k x w1 = (r, w')" using e 1 by (simp add: bind_st_def)
    from stillD [OF k this] first show ?thesis by simp
  next
    case (Inl err)
    then have "w' = w1" using e 1 by (simp add: bind_st_def)
    then show ?thesis using first by simp
  qed
qed

lemma still_basic [still_intros]:
  "still (ret_st x)" "still (fail_st e)" "still (xask f)" "still (xask_res g)" "still (xres r)"
  "still restart_sequence"
  by (simp_all add: still_def xask_def xask_res_def xres_def restart_sequence_def)

lemma still_caught [still_intros]: "still m \<Longrightarrow> still (caught m)"
  by (rule stillI) (auto simp: caught_def split: prod.splits dest: stillD)

lemma still_emit [still_intros]: "still (emit_event env payload)"
  by (simp add: still_def emit_event_def bind_st_def xask_def split: prod.split sum.split)

lemma still_if [still_intros]: "still m \<Longrightarrow> still n \<Longrightarrow> still (if b then m else n)"
  by simp

lemma still_case_sum [still_intros]:
  "(\<And>e. still (f e)) \<Longrightarrow> (\<And>x. still (g x)) \<Longrightarrow> still (case r of Inl e \<Rightarrow> f e | Inr x \<Rightarrow> g x)"
  by (simp split: sum.split)

lemma still_case_prod [still_intros]: "(\<And>a b. still (g a b)) \<Longrightarrow> still (case p of (a, b) \<Rightarrow> g a b)"
  by (simp split: prod.split)

lemma still_case_stream [still_intros]:
  "still m \<Longrightarrow> still n \<Longrightarrow> still (case stream of OutStdout \<Rightarrow> m | OutStderr \<Rightarrow> n)"
  by (simp split: output_stream.split)

lemma still_log [still_intros]: "still (append_log env i v)" "still (create_log env i)"
  by (simp_all add: still_def append_log_def create_log_def bind_st_def xask_res_def split: sum.split prod.split)

lemma still_chunks [still_intros]: "still (emit_chunks env i stream sw chunks)"
  by (induction chunks) (simp_all only: emit_chunks.simps, (intro still_intros; assumption?)+)

lemma still_text [still_intros]: "still (emit_text env i stream sw v)"
  unfolding emit_text_def by (intro still_intros)

lemma still_write [still_intros]:
  "still (flush_complete_lines env i stream sw)" "still (write_output env i stream bytes sw)"
  "still (finish_writer env i sw)" "still (open_writer env i limit event_bytes)"
  unfolding flush_complete_lines_def write_output_def finish_writer_def open_writer_def Let_def
  by (intro still_intros)+

lemma still_read [still_intros]: "still (read_channel env i events exit sw)"
  by (induction env i events exit sw rule: read_channel.induct)
    (simp_all only: read_channel.simps, (intro still_intros; assumption?)+)

lemma still_case_end [still_intros]:
  "still m \<Longrightarrow> (\<And>e. still (f e)) \<Longrightarrow> (\<And>x w. still (g x w)) \<Longrightarrow>
     still (case r of ReadTimedOut \<Rightarrow> m | ReadFailed e \<Rightarrow> f e | ReadDone x w \<Rightarrow> g x w)"
  by (simp split: read_end.split)

lemma still_streaming [still_intros]: "still (execute_streaming env request)"
  unfolding execute_streaming_def Let_def by (intro still_intros)

section \<open>An execution ends\<close>

text \<open>The identifiers that are drawn from now on are not those of the recorded files.\<close>

definition fresh_files :: "exec_env \<Rightarrow> exec_world \<Rightarrow> bool" where
  "fresh_files env w \<longleftrightarrow>
     (\<forall>t\<ge>xw_tick w. \<forall>(j, f)\<in>set (xdb_files (xw_db w)). ef_id f \<noteq> xe_uuid env t)"

definition tidy :: "exec_world \<Rightarrow> bool" where
  "tidy w \<longleftrightarrow> exec_keys (xw_db w) \<and> rest_ended (xw_db w) {} \<and> xw_registry w = (\<lambda>_. None)"

text \<open>
  One execution is in progress, in a given status; the last flag tells that no file of it is recorded.
\<close>

definition in_progress ::
  "exec_env \<Rightarrow> uuid \<Rightarrow> execution_status \<Rightarrow> bool \<Rightarrow> bool \<Rightarrow> exec_world \<Rightarrow> bool"
where
  "in_progress env i st registered fr w \<longleftrightarrow> exec_keys (xw_db w) \<and> rest_ended (xw_db w) {i}
     \<and> (fr \<longrightarrow> fresh_files env w) \<and> status_at (xw_db w) i = Some st
     \<and> xw_registry w = (if registered then [i \<mapsto> False] else (\<lambda>_. None))"

text \<open>What a call starts from.\<close>

abbreviation ready :: "exec_env \<Rightarrow> exec_world \<Rightarrow> bool" where
  "ready env w \<equiv> tidy w \<and> fresh_files env w"

lemma fresh_later:
  assumes "fresh_files env w" "xw_db w' = xw_db w" "xw_tick w \<le> xw_tick w'"
  shows "fresh_files env w'"
  unfolding fresh_files_def assms(2)
proof (intro allI impI)
  fix t assume "xw_tick w' \<le> t"
  with assms(3) have "xw_tick w \<le> t" by simp
  with assms(1) show "\<forall>(j, f)\<in>set (xdb_files (xw_db w)). ef_id f \<noteq> xe_uuid env t"
    unfolding fresh_files_def by blast
qed

lemma keeps_still:
  assumes "still m"
  shows "keeps (in_progress env i st registered fr) m" "keeps (ready env) m" "keeps tidy m"
proof -
  have "xw_db (snd (m w)) = xw_db w" "xw_registry (snd (m w)) = xw_registry w"
      "fresh_files env w \<Longrightarrow> fresh_files env (snd (m w))" for w
    using assms fresh_later [of env w "snd (m w)"] by (simp_all add: still_def)
  then show "keeps (in_progress env i st registered fr) m" "keeps (ready env) m" "keeps tidy m"
    by (simp_all add: keeps_def in_progress_def tidy_def)
qed

lemma elapsed_bound: "unat (elapsed a b) \<le> max_i64"
proof -
  let ?z = "max 0 (min (b - a) (2 ^ 63 - 1))"
  have "unat (word_of_int ?z :: u64) = nat ?z"
    by (simp add: unat_eq_nat_uint uint_word_of_int take_bit_int_eq_self)
  moreover have "?z \<le> 2 ^ 63 - 1" by simp
  then have "nat ?z \<le> nat (2 ^ 63 - 1)" by (rule nat_mono)
  ultimately show ?thesis by (simp add: elapsed_def max_i64_def)
qed

lemma status_for_error_terminal: "execution_is_terminal (status_for_error e)"
  by (cases e) (simp_all add: status_for_error_def)

lemma tidy_finish:
  assumes "execution_is_terminal (fe_status fin)" "unat (fe_duration_ms fin) \<le> max_i64"
    "st \<in> {EQueued, ERunning}"
  shows "triple (in_progress env (fe_id fin) st False fr) (xdb (xr_finish fin))
    (\<lambda>_ w. tidy w \<and> status_at (xw_db w) (fe_id fin) = Some (fe_status fin)) (\<lambda>_. False)"
proof (rule tripleI)
  fix w r w' assume w: "in_progress env (fe_id fin) st False fr w"
  then have k: "exec_keys (xw_db w)" and s: "status_at (xw_db w) (fe_id fin) \<in> {Some EQueued, Some ERunning}"
    using assms(3) by (auto simp: in_progress_def)
  from finish_execution_effect [OF k s assms(1,2)] obtain db' where db':
      "xr_finish fin (xw_db w) = (Inr (), db')" "exec_keys db'"
      "status_at db' (fe_id fin) = Some (fe_status fin)" "xdb_files db' = xdb_files (xw_db w)"
      "\<And>j. j \<noteq> fe_id fin \<Longrightarrow> exec_row db' j = exec_row (xw_db w) j"
    by metis
  have t: "tidy (w\<lparr>xw_db := db'\<rparr>)"
    using w db'(2,4) rest_ended_other(2) [OF db'(5) _ db'(3) assms(1)]
    by (simp add: tidy_def in_progress_def fresh_files_def)
  show "tidy w' \<and> status_at (xw_db w') (fe_id fin) = Some (fe_status fin)"
    if "xdb (xr_finish fin) w = (Inr r, w')"
    using that t db'(1,3) by (auto simp: xdb_def)
  show False if "xdb (xr_finish fin) w = (Inl e, w')" for e
    using that db'(1) by (auto simp: xdb_def)
qed

text \<open>A call that cannot fail.\<close>

definition sure :: "(exec_world, 'a) st \<Rightarrow> bool" where
  "sure m \<longleftrightarrow> (\<forall>w. is_ok (fst (m w)))"

lemma sure_calls: "sure (xask f)" "sure (caught m)" "sure restart_sequence" "sure (ret_st x)"
  by (simp_all add: sure_def xask_def caught_def restart_sequence_def split_beta)

lemma triple_sure:
  assumes "sure m" "still m"
  shows "triple (in_progress env i st registered fr) m (\<lambda>_. in_progress env i st registered fr) E"
proof (rule tripleI)
  fix w x w' assume "in_progress env i st registered fr w"
  with keepsD [OF keeps_still(1) [OF assms(2)] this] show "in_progress env i st registered fr w'"
    if "m w = (Inr x, w')" using that by simp
  show "E w'" if "m w = (Inl e, w')" for e
    using that assms(1) by (metis fst_conv is_ok_simps(2) sure_def)
qed

lemma triple_sure_bind:
  "sure m \<Longrightarrow> still m \<Longrightarrow> (\<And>x. triple (in_progress env i st registered fr) (k x) R E) \<Longrightarrow>
     triple (in_progress env i st registered fr) (bind_st m k) R E"
  by (rule triple_bind [OF triple_sure])

text \<open>What a call returns: the details of the row that it leaves.\<close>

definition ended_in :: "exec_world \<Rightarrow> execution_details \<Rightarrow> bool" where
  "ended_in w d \<longleftrightarrow> xr_get (er_id (ed_record d)) (xw_db w) = Some d
     \<and> execution_is_terminal (er_status (ed_record d))"

definition closed_row :: "uuid \<Rightarrow> exec_world \<Rightarrow> bool" where
  "closed_row i w \<longleftrightarrow> tidy w \<and> status_at (xw_db w) i \<noteq> None"

lemma require_cases:
  assumes "require_execution i w = (Inr d, w')"
  shows "w' = w" "er_id (ed_record d) = i" "exec_row (xw_db w) i = Some (ed_record d)"
    "xr_get i (xw_db w) = Some d"
proof -
  have get: "xr_get i (xw_db w) = Some d" and w': "w' = w"
    using assms by (auto simp: require_execution_def ok_or_Inr)
  then have row: "exec_row (xw_db w) i = Some (ed_record d)"
    by (auto simp: xr_get_def)
  then have "er_id (ed_record d) = i" by (auto simp: exec_row_def dest: row_by_Some)
  with get w' row show "w' = w" "er_id (ed_record d) = i" "exec_row (xw_db w) i = Some (ed_record d)"
      "xr_get i (xw_db w) = Some d"
    by simp_all
qed

lemma triple_closed_details:
  "triple (closed_row i) (require_execution i) (\<lambda>d w. tidy w \<and> ended_in w d) tidy"
proof (rule tripleI)
  fix w d w' assume w: "closed_row i w" and r: "require_execution i w = (Inr d, w')"
  note row = require_cases [OF r]
  have "status_at (xw_db w) i = Some (er_status (ed_record d))" by (simp add: status_at_def row(3))
  then have "execution_is_terminal (er_status (ed_record d))"
    using w unfolding closed_row_def tidy_def rest_ended_def by blast
  then show "tidy w' \<and> ended_in w' d"
    using w row by (simp add: closed_row_def ended_in_def del: execution_is_terminal.simps)
qed (simp add: require_execution_def closed_row_def)

lemma triple_finish_event:
  assumes "execution_is_terminal (fe_status fin)" "unat (fe_duration_ms fin) \<le> max_i64"
    and "fe_id fin = i" "st \<in> {EQueued, ERunning}"
  shows "triple (in_progress env i st False fr) (bind_st (xdb (xr_finish fin)) (\<lambda>_. emit_event env payload))
    (\<lambda>_. closed_row i) tidy"
proof -
  have "triple (in_progress env i st False fr) (xdb (xr_finish fin)) (\<lambda>_. closed_row i) tidy"
    by (rule triple_conseq [OF tidy_finish [OF assms(1,2,4), of env, unfolded assms(3)]])
      (auto simp: closed_row_def)
  moreover have "triple (closed_row i) (emit_event env payload) (\<lambda>_. closed_row i) tidy"
  proof (rule triple_keeps)
    show "keeps (closed_row i) (emit_event env payload)"
      using keeps_still(3) [OF still_emit [of env payload]] still_emit [of env payload]
      by (simp add: keeps_def closed_row_def still_def)
  qed (simp add: closed_row_def)
  ultimately show ?thesis by (rule triple_bind)
qed

lemma triple_finish_error:
  assumes "st \<in> {EQueued, ERunning}"
  shows "triple (in_progress env i st False fr) (finish_error env i t e) (\<lambda>_. closed_row i) tidy"
  unfolding finish_error_def using assms
  by (intro triple_sure_bind sure_calls still_basic triple_finish_event)
    (simp_all only: finish_execution.simps elapsed_bound status_for_error_terminal)

lemma triple_mark_running:
  "triple (in_progress env i EQueued False True) (xdb (xr_mark_running i t))
     (\<lambda>_. in_progress env i ERunning False True) E"
proof (rule tripleI)
  fix w r w' assume w: "in_progress env i EQueued False True w"
  then have "exec_keys (xw_db w)" "status_at (xw_db w) i = Some EQueued" by (simp_all add: in_progress_def)
  from mark_running_effect [OF this, of t] obtain db' where db':
      "xr_mark_running i t (xw_db w) = (Inr (), db')" "exec_keys db'" "status_at db' i = Some ERunning"
      "xdb_files db' = xdb_files (xw_db w)" "\<And>j. j \<noteq> i \<Longrightarrow> exec_row db' j = exec_row (xw_db w) j"
    by metis
  have "in_progress env i ERunning False True (w\<lparr>xw_db := db'\<rparr>)"
    using w db'(2-4) rest_ended_other(1) [OF db'(5)] by (simp add: in_progress_def fresh_files_def)
  then show "in_progress env i ERunning False True w'" if "xdb (xr_mark_running i t) w = (Inr r, w')"
    using that db'(1) by (auto simp: xdb_def)
  show "E w'" if "xdb (xr_mark_running i t) w = (Inl e, w')" for e
    using that db'(1) by (auto simp: xdb_def)
qed

lemma triple_registry:
  "triple (in_progress env i st False fr) (xreg_register i) (\<lambda>_. in_progress env i st True fr) E"
  "triple (in_progress env i st True fr) (xreg_remove i) (\<lambda>_. in_progress env i st False fr) E"
  by (auto simp: triple_def xreg_register_def xreg_remove_def in_progress_def fresh_files_def fun_eq_iff)

lemma triple_fail_before_run:
  "triple (in_progress env i EQueued False True) (fail_before_run env i e)
     (\<lambda>d w. tidy w \<and> ended_in w d) tidy"
  unfolding fail_before_run_def
  by (intro triple_sure_bind sure_calls still_basic triple_bind [OF triple_mark_running]
      triple_bind [OF triple_finish_error] triple_closed_details) simp_all

section \<open>The file of the output\<close>

text \<open>What recording the file of the output needs from the local system.\<close>

definition recordable :: "exec_env \<Rightarrow> bool" where
  "recordable env \<longleftrightarrow>
     (\<forall>t. \<exists>n. xe_size env t = Inr n \<and> unat n \<le> max_i64)
     \<and> (\<forall>t. \<exists>h. xe_sha256 env t = Inr h \<and> length h = 64 \<and> list_all is_hexdigit h)"

lemma log_path_parts: "''..'' \<notin> set (file_path_parts (execution_log_path i))"
proof -
  have hex: "c \<notin> set (uuid_text i)" if "c \<notin> set ''0123456789abcdef-''" for c
    using uuid_text_chars [of i] that by blast
  have tail: "split_char (CHR ''/'') (uuid_text i @ ''.log'') = [uuid_text i @ ''.log'']"
    using hex [of "CHR ''/''"] by (intro split_char_single) simp
  have "split_char (CHR ''/'') (''logs'' @ CHR ''/'' # ''executions'' @ CHR ''/'' # uuid_text i @ ''.log'')
      = [''logs'', ''executions'', uuid_text i @ ''.log'']"
    by (simp add: split_char_append split_char_single tail)
  then have "split_char (CHR ''/'') (execution_log_path i) = [''logs'', ''executions'', uuid_text i @ ''.log'']"
    by (simp add: execution_log_path_def)
  moreover have "split_char (CHR 0x5C) (uuid_text i @ ''.log'') = [uuid_text i @ ''.log'']"
    using hex [of "CHR 0x5C"] by (intro split_char_single) simp
  moreover have "split_char (CHR 0x5C) ''logs'' = [''logs'']" "split_char (CHR 0x5C) ''executions'' = [''executions'']"
    by (rule split_char_single, simp)+
  moreover have "uuid_text i @ ''.log'' \<noteq> ''..''"
    using arg_cong [of "uuid_text i @ ''.log''" "''..''" rev] by auto
  ultimately show ?thesis by (auto simp: file_path_parts_def)
qed

lemma log_file_valid:
  assumes "length h = 64" "list_all is_hexdigit h"
  shows "validate_execution_file os
    \<lparr>ef_id = u, ef_relative_path = execution_log_path i, ef_purpose = p, ef_size_bytes = n, ef_sha256 = h\<rparr> = Inr ()"
proof -
  have "CHR 0x00 \<notin> set (execution_log_path i)"
    using uuid_text_chars [of i] by (auto simp: execution_log_path_def)
  moreover have "\<not> is_absolute os (execution_log_path i)"
    by (cases os) (auto simp: is_absolute_def execution_log_path_def is_separator_def)
  ultimately show ?thesis
    using assms log_path_parts [of i] by (simp add: validate_execution_file_def execution_log_path_def)
qed

lemma triple_record_output:
  assumes "recordable env"
  shows "triple (in_progress env i ERunning False True) (record_output_file env i)
    (\<lambda>_. in_progress env i ERunning False False) E"
proof (rule tripleI)
  fix w r w' assume w: "in_progress env i ERunning False True w"
  let ?t = "xw_tick w"
  obtain n h where a: "xe_size env ?t = Inr n" "unat n \<le> max_i64" "xe_sha256 env (Suc (Suc ?t)) = Inr h"
      "length h = 64" "list_all is_hexdigit h"
    using assms unfolding recordable_def by metis
  let ?f = "\<lparr>ef_id = xe_uuid env (Suc ?t), ef_relative_path = execution_log_path i,
      ef_purpose = ''execution_log'', ef_size_bytes = n, ef_sha256 = h\<rparr>"
  have "fresh_files env w" using w by (simp add: in_progress_def)
  then have "\<forall>(j, g)\<in>set (xdb_files (xw_db w)). ef_id g \<noteq> xe_uuid env (Suc ?t)"
    unfolding fresh_files_def by simp
  then have "\<not> list_ex (\<lambda>(_, g). ef_id g = ef_id ?f) (xdb_files (xw_db w))"
    by (auto simp: list_ex_iff)
  moreover have "exec_row (xw_db w) i \<noteq> None" using w by (auto simp: in_progress_def status_at_def)
  ultimately have add: "xr_add_file (xe_os env) i ?f (xw_db w) = (Inr (), (xw_db w)\<lparr>xdb_files :=
      xdb_files (xw_db w) @ [(i, ?f\<lparr>ef_sha256 := to_ascii_lowercase h\<rparr>)]\<rparr>)" (is "_ = (_, ?db)")
    using a(2) log_file_valid [OF a(4,5)] by (simp add: xr_add_file_def not_less)
  have run: "record_output_file env i w = (Inr (), w\<lparr>xw_tick := Suc (Suc (Suc ?t)), xw_db := ?db\<rparr>)"
    using a(1,3) add by (simp add: record_output_file_def bind_st_def xask_def xask_res_def xdb_def)
  have "in_progress env i ERunning False False (w\<lparr>xw_tick := Suc (Suc (Suc ?t)), xw_db := ?db\<rparr>)"
    using w by (simp add: in_progress_def exec_keys_def rest_ended_def status_at_def exec_row_def)
  then show "in_progress env i ERunning False False w'" if "record_output_file env i w = (Inr r, w')"
    using that run by simp
  show "E w'" if "record_output_file env i w = (Inl e, w')" for e
    using that run by simp
qed

lemma forget_fresh: "triple I m (\<lambda>_. in_progress env i st registered fr) E \<Longrightarrow>
    triple I m (\<lambda>_. in_progress env i st registered False) E"
  by (erule triple_conseq) (simp_all add: in_progress_def)

section \<open>A connected command\<close>

lemma triple_finish_success:
  assumes "recordable env"
  shows "triple (in_progress env i ERunning False True) (finish_success env i t out)
    (\<lambda>_. closed_row i) tidy"
proof -
  have logged: "triple (in_progress env i ERunning False True)
      (if present then record_output_file env i else ret_st ())
      (\<lambda>_. in_progress env i ERunning False False) tidy" for present
    using triple_record_output [OF assms] forget_fresh [OF triple_sure [OF sure_calls(4) still_basic(1)]]
    by auto
  show ?thesis
    unfolding finish_success_def
    by (intro triple_sure_bind sure_calls still_basic triple_bind [OF logged] triple_finish_event)
      (simp_all add: elapsed_bound)
qed

lemma triple_run_connected:
  assumes "recordable env"
  shows "triple (in_progress env i EQueued False True) (run_connected_command env i command timeout limit)
    (\<lambda>d w. tidy w \<and> ended_in w d) tidy"
proof -
  have rest: "triple (in_progress env i ERunning False True)
      (case outcome of
         Inr out \<Rightarrow> if co_exit out = 0 then finish_success env i t out
           else finish_error env i t (ssh_command (co_exit out) m)
       | Inl e \<Rightarrow> finish_error env i t e) (\<lambda>_. closed_row i) tidy" for outcome t m
    using triple_finish_success [OF assms] triple_finish_error [of ERunning] by (cases outcome) auto
  show ?thesis
    unfolding run_connected_command_def
    by (intro triple_sure_bind sure_calls still_basic still_caught still_streaming
        triple_bind [OF triple_mark_running] triple_bind [OF triple_registry(1)]
        triple_bind [OF triple_registry(2)] triple_bind [OF rest] triple_closed_details)
qed

section \<open>The calls of the service\<close>

datatype exec_call =
    CallTask string task_request
  | CallCustom string custom_request
  | CallMaintenance string string "string list" string
  | CallScript string int script_shell string validated_parameters u64 "execution_parameter list"
  | CallStep step_call bool

definition run_exec :: "exec_env \<Rightarrow> exec_call \<Rightarrow> (exec_world, execution_details) st" where
  "run_exec env call =
     (case call of
        CallTask server request \<Rightarrow> execute_task env server request
      | CallCustom server request \<Rightarrow> execute_custom env server request
      | CallMaintenance server manager packages command \<Rightarrow>
          execute_fixed_maintenance env server manager packages command
      | CallScript server version shell body validated timeout parameters \<Rightarrow>
          execute_personal_script env server version shell body validated timeout parameters
      | CallStep step cancellable \<Rightarrow> execute_planned_step env step cancellable)"

lemma triple_create:
  "triple (ready env) (create_execution env draft)
     (\<lambda>row. in_progress env (er_id row) EQueued False True) tidy"
proof -
  have create: "triple (ready env) (xdb (xr_create draft i now))
      (\<lambda>row. in_progress env (er_id row) EQueued False True) tidy" for i now
  proof (rule tripleI)
    fix w row w' assume w: "ready env w" and r: "xdb (xr_create draft i now) w = (Inr row, w')"
    then obtain db' where db': "xr_create draft i now (xw_db w) = (Inr row, db')" "w' = w\<lparr>xw_db := db'\<rparr>"
      by (auto simp: xdb_def split: prod.splits)
    have k: "exec_keys (xw_db w)" using w by (simp add: tidy_def)
    note c = create_effect [OF k db'(1)]
    have i: "er_id row = i" "er_status row = EQueued" using c(2) by (simp_all add: new_execution_row_def)
    have "rest_ended (xw_db w) {i}" using w by (simp add: tidy_def rest_ended_def)
    then have "rest_ended db' {i}" by (rule rest_ended_other(1) [rotated]) (simp add: c(4))
    then show "in_progress env (er_id row) EQueued False True w'"
      using w c(1,4,5) i by (simp add: db'(2) in_progress_def tidy_def fresh_files_def status_at_def)
  next
    fix w e w' assume w: "ready env w" and r: "xdb (xr_create draft i now) w = (Inl e, w')"
    have "snd (xr_create draft i now (xw_db w)) = xw_db w" if "xr_create draft i now (xw_db w) = (Inl e, db)" for db
      using that by (auto simp: xr_create_def split: sum.splits if_splits)
    then have "w' = w" using r by (auto simp: xdb_def split: prod.splits)
    then show "tidy w'" using w by simp
  qed
  show ?thesis
    unfolding create_execution_def
    by (intro triple_bind [OF triple_keeps [OF keeps_still(2) [OF still_basic(3)]]] create) simp_all
qed

lemma triple_check:
  "(\<And>x. triple (ready env) (k x) R tidy) \<Longrightarrow> triple (ready env) (bind_st (xres r) k) R tidy"
  by (rule triple_bind [OF triple_keeps [OF keeps_still(2) [OF still_basic(5)]]]) simp_all

lemma triple_details:
  assumes "\<And>d. triple (in_progress env i EQueued False True) (k d) R tidy"
  shows "triple (in_progress env i EQueued False True) (bind_st (require_execution i) k) R tidy"
proof -
  have "triple (in_progress env i EQueued False True) (require_execution i)
      (\<lambda>_. in_progress env i EQueued False True) tidy"
    by (auto simp: triple_def require_execution_def in_progress_def status_at_def xr_get_def ok_or_def
        split: option.split)
  then show ?thesis by (rule triple_bind) (rule assms)
qed

lemma connect_sure: "sure (connect_unless_cancelled env cancellable server)"
    "still (connect_unless_cancelled env cancellable server)"
  unfolding connect_unless_cancelled_def
  by (simp add: sure_def bind_st_def xask_def caught_def split_beta) (intro still_intros)

lemma triple_run_command:
  assumes "recordable env"
  shows "triple (in_progress env i EQueued False True)
    (run_command_with_limit_and_cancel env i command timeout limit cancellable)
    (\<lambda>d w. tidy w \<and> ended_in w d) tidy"
  unfolding run_command_with_limit_and_cancel_def
  by (intro triple_details triple_sure_bind connect_sure)
    (simp split: sum.split add: triple_fail_before_run triple_run_connected [OF assms])

lemma triple_exec:
  assumes "recordable env"
  shows "triple (ready env) (run_exec env call) (\<lambda>d w. tidy w \<and> ended_in w d) tidy"
proof -
  note run = triple_run_connected [OF assms] and fail = triple_fail_before_run
  have pick: "triple I (case r of Inl e \<Rightarrow> f e | Inr x \<Rightarrow> g x) R E"
    if "\<And>e. triple I (f e) R E" "\<And>x. triple I (g x) R E" for I and r :: "'b app_result" and f g R E
    using that by (cases r) auto
  note step = triple_check triple_bind [OF triple_create] triple_details triple_sure_bind
    connect_sure sure_calls still_basic still_caught pick run fail
  show ?thesis
  proof (cases call)
    case (CallStep s c)
    show ?thesis unfolding run_exec_def CallStep execute_planned_step_def
      by (simp, intro triple_bind [OF triple_create] triple_run_command assms)
  next
    case (CallMaintenance s m p c)
    show ?thesis unfolding run_exec_def CallMaintenance execute_fixed_maintenance_def
      by (simp, intro triple_bind [OF triple_create] triple_run_command assms)
  next
    case (CallTask s r)
    show ?thesis unfolding run_exec_def CallTask execute_task_def run_task_def by (simp, intro step)
  next
    case (CallCustom s r)
    show ?thesis unfolding run_exec_def CallCustom execute_custom_def Let_def by (simp, intro step)
  next
    case (CallScript s v sh b val t ps)
    show ?thesis unfolding run_exec_def CallScript execute_personal_script_def by (simp, intro step)
  qed
qed

end
