(* ===== verification/Exec_Numbered.thy ===== *)
theory Exec_Numbered
  imports Exec_Safety
begin

text \<open>The events of one execution: their numbers, and the one that tells its end.\<close>

section \<open>Numbered events\<close>

definition ev_final :: "execution_event \<Rightarrow> bool" where
  "ev_final e \<longleftrightarrow> (case ev_payload e of Finished _ _ _ _ \<Rightarrow> True | Failed _ _ _ \<Rightarrow> True | _ \<Rightarrow> False)"

definition ev_success :: "execution_event \<Rightarrow> bool" where
  "ev_success e \<longleftrightarrow> (case ev_payload e of Finished _ _ _ _ \<Rightarrow> True | _ \<Rightarrow> False)"

definition final_payload :: "execution_event_payload \<Rightarrow> bool" where
  "final_payload p \<longleftrightarrow> (case p of Finished _ _ _ _ \<Rightarrow> True | Failed _ _ _ \<Rightarrow> True | _ \<Rightarrow> False)"

text \<open>The numbers grow; beyond \<open>2 ^ 64 - 1\<close> events the counter stays at its maximum.\<close>

definition increasing :: "u64 \<Rightarrow> execution_event list \<Rightarrow> bool" where
  "increasing sequence new \<longleftrightarrow> (sequence \<noteq> - 1 \<longrightarrow> sorted_wrt (<) (map ev_sequence new)
     \<and> (\<forall>e\<in>set new. ev_sequence e \<le> sequence))"

definition numbered :: "execution_event list \<Rightarrow> exec_world \<Rightarrow> bool" where
  "numbered base w \<longleftrightarrow> (\<exists>new. xw_events w = base @ new \<and> list_all (\<lambda>e. \<not> ev_final e) new
     \<and> increasing (xw_sequence w) new)"

definition told :: "uuid \<Rightarrow> execution_event list \<Rightarrow> exec_world \<Rightarrow> bool" where
  "told i base w \<longleftrightarrow> (\<exists>new e. xw_events w = base @ new @ [e] \<and> list_all (\<lambda>e. \<not> ev_final e) new
     \<and> ev_final e \<and> increasing (xw_sequence w) (new @ [e])
     \<and> (status_at (xw_db w) i = Some ESucceeded \<longleftrightarrow> ev_success e))"

lemma next_number:
  assumes "next_event payload now current = (event, sequence)"
  shows "ev_sequence event = sequence" "ev_payload event = payload"
    "sequence \<noteq> - 1 \<Longrightarrow> current \<noteq> - 1 \<and> current < sequence"
proof -
  show "ev_sequence event = sequence" "ev_payload event = payload"
    using assms by (auto simp: next_event_def Let_def split: if_splits)
  show "current \<noteq> - 1 \<and> current < sequence" if "sequence \<noteq> - 1"
  proof -
    have c: "current \<noteq> - 1" "sequence = current + 1"
      using assms that by (auto simp: next_event_def Let_def split: if_splits)
    then have "1 + current \<noteq> 0" by (metis add.commute add_eq_0_iff)
    then have "unat sequence = Suc (unat current)" using c(2) by (metis add.commute unatSuc)
    then show ?thesis using c(1) by (simp add: word_less_nat_alt)
  qed
qed

lemma increasing_next:
  assumes "increasing current new" "next_event payload now current = (event, sequence)"
  shows "increasing sequence new" "increasing sequence (new @ [event])"
proof -
  show "increasing sequence new"
    using assms next_number(3) [OF assms(2)] unfolding increasing_def by (meson le_less_trans less_imp_le)
  show "increasing sequence (new @ [event])"
    using assms next_number(1,3) [OF assms(2)] unfolding increasing_def
    by (auto simp: sorted_wrt_append dest: le_less_trans less_imp_le)
qed

lemma emit_cases:
  assumes "emit_event env payload w = (r, w')"
  obtains event sequence now where "next_event payload now (xw_sequence w) = (event, sequence)"
    "xw_sequence w' = sequence" "xw_db w' = xw_db w"
    "xw_events w' = xw_events w @ (case r of Inl _ \<Rightarrow> [] | Inr _ \<Rightarrow> [event])"
proof -
  let ?now = "xe_now env (xw_tick w)"
  obtain event sequence where n: "next_event payload ?now (xw_sequence w) = (event, sequence)" by fastforce
  show thesis
  proof (cases "xe_send env (Suc (xw_tick w)) event")
    case (Inl err)
    then have "r = Inl err" "w' = w\<lparr>xw_tick := Suc (Suc (xw_tick w)), xw_sequence := sequence\<rparr>"
      using assms n by (auto simp: emit_event_def bind_st_def xask_def)
    then show thesis using that [OF n] by simp
  next
    case (Inr u)
    then have "r = Inr ()" "w' = w\<lparr>xw_tick := Suc (Suc (xw_tick w)), xw_sequence := sequence,
        xw_events := xw_events w @ [event]\<rparr>"
      using assms n by (auto simp: emit_event_def bind_st_def xask_def)
    then show thesis using that [OF n] by simp
  qed
qed

lemma numbered_emit:
  assumes "\<not> final_payload payload"
  shows "keeps (numbered base) (emit_event env payload)"
proof (rule keepsI)
  fix w assume w: "numbered base w"
  obtain r w' where e: "emit_event env payload w = (r, w')" by fastforce
  then show "numbered base (snd (emit_event env payload w))"
  proof (rule emit_cases)
    fix event sequence now
    assume n: "next_event payload now (xw_sequence w) = (event, sequence)" "xw_sequence w' = sequence"
      "xw_events w' = xw_events w @ (case r of Inl _ \<Rightarrow> [] | Inr _ \<Rightarrow> [event])"
    obtain new where new: "xw_events w = base @ new" "list_all (\<lambda>e. \<not> ev_final e) new"
        "increasing (xw_sequence w) new"
      using w by (auto simp: numbered_def)
    have "\<not> ev_final event"
      using assms next_number(2) [OF n(1)] by (auto simp: ev_final_def final_payload_def split: execution_event_payload.splits)
    then show ?thesis
      using n(2,3) new increasing_next [OF new(3) n(1)] e
      by (cases r) (auto simp: numbered_def)
  qed
qed

lemma told_emit:
  assumes "final_payload payload"
  shows "triple (\<lambda>w. numbered base w \<and> (status_at (xw_db w) i = Some ESucceeded \<longleftrightarrow>
      (case payload of Finished _ _ _ _ \<Rightarrow> True | _ \<Rightarrow> False)))
    (emit_event env payload) (\<lambda>_. told i base) (numbered base)"
proof (rule tripleI)
  fix w r w'
  assume w: "numbered base w \<and> (status_at (xw_db w) i = Some ESucceeded \<longleftrightarrow>
      (case payload of Finished _ _ _ _ \<Rightarrow> True | _ \<Rightarrow> False))"
  then obtain new where new: "xw_events w = base @ new" "list_all (\<lambda>e. \<not> ev_final e) new"
      "increasing (xw_sequence w) new"
    by (auto simp: numbered_def)
  show "told i base w'" if "emit_event env payload w = (Inr r, w')"
    using that
  proof (rule emit_cases)
    fix event sequence now
    assume n: "next_event payload now (xw_sequence w) = (event, sequence)" "xw_sequence w' = sequence"
      "xw_db w' = xw_db w" "xw_events w' = xw_events w @ (case Inr r of Inl _ \<Rightarrow> [] | Inr _ \<Rightarrow> [event])"
    note next_number(2) [OF n(1)]
    then have "ev_final event" "ev_success event \<longleftrightarrow> (case payload of Finished _ _ _ _ \<Rightarrow> True | _ \<Rightarrow> False)"
      using assms by (simp_all add: ev_final_def ev_success_def final_payload_def)
    then show ?thesis
      using w n(2-4) new increasing_next(2) [OF new(3) n(1)] by (auto simp: told_def)
  qed
  show "numbered base w'" if "emit_event env payload w = (Inl e, w')" for e
    using that
  proof (rule emit_cases)
    fix event sequence now
    assume n: "next_event payload now (xw_sequence w) = (event, sequence)" "xw_sequence w' = sequence"
      "xw_events w' = xw_events w @ (case Inl e of Inl _ \<Rightarrow> [] | Inr _ \<Rightarrow> [event])"
    then show ?thesis using new increasing_next(1) [OF new(3) n(1)] by (auto simp: numbered_def)
  qed
qed

section \<open>Calls that emit no final event\<close>

named_theorems numbered_intros \<open>calls that emit no final event\<close>

lemma numbered_silent:
  "(\<And>w. xw_events (snd (m w)) = xw_events w) \<Longrightarrow> (\<And>w. xw_sequence (snd (m w)) = xw_sequence w) \<Longrightarrow>
     keeps (numbered base) m"
  by (simp add: keeps_def numbered_def)

lemma numbered_basic [numbered_intros]:
  "keeps (numbered base) (xask f)" "keeps (numbered base) (xask_res g)" "keeps (numbered base) (xres r)"
  "keeps (numbered base) (xreg_register i)" "keeps (numbered base) (xreg_remove i)"
  "keeps (numbered base) (xdb q)" "keeps (numbered base) (require_execution i)"
  by (rule numbered_silent; simp add: xask_def xask_res_def xres_def xreg_register_def xreg_remove_def
      xdb_def require_execution_def split_beta)+

lemma numbered_caught [numbered_intros]: "keeps (numbered base) m \<Longrightarrow> keeps (numbered base) (caught m)"
  by (simp add: keeps_def caught_def split_beta)

lemma numbered_log [numbered_intros]:
  "keeps (numbered base) (append_log env i v)" "keeps (numbered base) (create_log env i)"
  by (rule numbered_silent;
      simp add: append_log_def create_log_def bind_st_def xask_res_def split: sum.split prod.split)+

lemma keeps_case_stream:
  "keeps I m \<Longrightarrow> keeps I n \<Longrightarrow> keeps I (case stream of OutStdout \<Rightarrow> m | OutStderr \<Rightarrow> n)"
  by (simp split: output_stream.split)

lemma keeps_case_end:
  "keeps I m \<Longrightarrow> (\<And>e. keeps I (f e)) \<Longrightarrow> (\<And>x w. keeps I (g x w)) \<Longrightarrow>
     keeps I (case r of ReadTimedOut \<Rightarrow> m | ReadFailed e \<Rightarrow> f e | ReadDone x w \<Rightarrow> g x w)"
  by (simp split: read_end.split)

lemmas numbered_rules = keeps_bind keeps_ret keeps_fail keeps_if keeps_case_sum keeps_case_prod
  keeps_case_stream keeps_case_end numbered_intros

lemma stream_payload_open: "\<not> final_payload (stream_payload stream chunk sw)" "\<not> final_payload (Started i t)"
  by (simp_all add: stream_payload_def final_payload_def split: output_stream.split)

lemma numbered_chunks [numbered_intros]: "keeps (numbered base) (emit_chunks env i stream sw chunks)"
  by (induction chunks)
    (simp_all only: emit_chunks.simps,
     (intro numbered_rules numbered_emit stream_payload_open; assumption?)+)

lemma numbered_text [numbered_intros]: "keeps (numbered base) (emit_text env i stream sw v)"
  unfolding emit_text_def by (intro numbered_rules numbered_intros)

lemma numbered_write [numbered_intros]:
  "keeps (numbered base) (flush_complete_lines env i stream sw)"
  unfolding flush_complete_lines_def by (intro numbered_rules numbered_intros)

lemma numbered_writer [numbered_intros]:
  "keeps (numbered base) (write_output env i stream bytes sw)"
  "keeps (numbered base) (finish_writer env i sw)"
  "keeps (numbered base) (open_writer env i limit event_bytes)"
  unfolding write_output_def finish_writer_def open_writer_def Let_def
  by (intro numbered_rules numbered_intros)+

lemma numbered_read [numbered_intros]: "keeps (numbered base) (read_channel env i events exit sw)"
  by (induction env i events exit sw rule: read_channel.induct)
    (simp_all only: read_channel.simps, (intro numbered_rules numbered_intros; assumption?)+)

lemma numbered_streaming [numbered_intros]: "keeps (numbered base) (execute_streaming env request)"
  unfolding execute_streaming_def Let_def
  by (intro numbered_rules numbered_intros numbered_emit stream_payload_open)

lemma numbered_record [numbered_intros]: "keeps (numbered base) (record_output_file env i)"
  unfolding record_output_file_def by (intro numbered_rules)

section \<open>The end of an execution\<close>

lemma triple_both:
  "triple I m Q E \<Longrightarrow> triple I' m Q' E' \<Longrightarrow>
     triple (\<lambda>w. I w \<and> I' w) m (\<lambda>x w. Q x w \<and> Q' x w) (\<lambda>w. E w \<and> E' w)"
  by (fastforce simp: triple_def split: prod.splits sum.splits)

lemma triple_numbered:
  "triple I m Q E \<Longrightarrow> keeps (numbered base) m \<Longrightarrow>
     triple (\<lambda>w. I w \<and> numbered base w) m (\<lambda>x w. Q x w \<and> numbered base w) (\<lambda>w. E w \<and> numbered base w)"
  by (erule triple_both) (rule triple_keeps, assumption)

text \<open>In progress, and the events so far are numbered.\<close>

abbreviation underway ::
  "exec_env \<Rightarrow> uuid \<Rightarrow> execution_status \<Rightarrow> bool \<Rightarrow> bool \<Rightarrow> execution_event list \<Rightarrow> exec_world \<Rightarrow> bool" where
  "underway env i st registered fr base w \<equiv> in_progress env i st registered fr w \<and> numbered base w"

lemma underway_bind:
  assumes "triple (in_progress env i st registered fr) m (\<lambda>_. in_progress env i st' registered' fr') (\<lambda>_. False)"
    and "keeps (numbered base) m"
    and "\<And>x. triple (underway env i st' registered' fr' base) (k x) R E"
  shows "triple (underway env i st registered fr base) (bind_st m k) R E"
  by (rule triple_bind [OF triple_conseq [OF triple_numbered [OF assms(1,2)]] assms(3)]) auto

lemma underway_sure:
  "sure m \<Longrightarrow> still m \<Longrightarrow> keeps (numbered base) m \<Longrightarrow>
     (\<And>x. triple (underway env i st registered fr base) (k x) R E) \<Longrightarrow>
     triple (underway env i st registered fr base) (bind_st m k) R E"
  by (rule underway_bind [OF triple_sure])

lemma underway_finish:
  assumes "execution_is_terminal (fe_status fin)" "unat (fe_duration_ms fin) \<le> max_i64"
    and "fe_id fin = i" "st \<in> {EQueued, ERunning}" "final_payload payload"
    and "fe_status fin = ESucceeded \<longleftrightarrow> (case payload of Finished _ _ _ _ \<Rightarrow> True | _ \<Rightarrow> False)"
  shows "triple (underway env i st False fr base) (bind_st (xdb (xr_finish fin)) (\<lambda>_. emit_event env payload))
    (\<lambda>_ w. told i base w \<and> status_at (xw_db w) i \<noteq> None) (numbered base)"
proof -
  have fin: "triple (underway env i st False fr base) (xdb (xr_finish fin))
      (\<lambda>_ w. (numbered base w \<and> (status_at (xw_db w) i = Some ESucceeded \<longleftrightarrow>
          (case payload of Finished _ _ _ _ \<Rightarrow> True | _ \<Rightarrow> False))) \<and> status_at (xw_db w) i \<noteq> None)
      (numbered base)"
    by (rule triple_conseq [OF triple_numbered [OF tidy_finish [OF assms(1,2,4), of env, unfolded assms(3)]
          numbered_basic(6)]])
      (use assms(6) in auto)
  have "keeps (\<lambda>w. status_at (xw_db w) i \<noteq> None) (emit_event env payload)"
    using still_emit [of env payload] by (simp add: keeps_def still_def)
  note emit = triple_both [OF told_emit [OF assms(5)] triple_keeps [OF this, where E = "\<lambda>_. True"]]
  show ?thesis
    by (rule triple_bind [OF fin]) (rule triple_conseq [OF emit], auto)
qed

lemma underway_finish_error:
  assumes "st \<in> {EQueued, ERunning}"
  shows "triple (underway env i st False fr base) (finish_error env i t e)
    (\<lambda>_ w. told i base w \<and> status_at (xw_db w) i \<noteq> None) (numbered base)"
proof -
  have "status_for_error e \<noteq> ESucceeded" by (cases e) (simp_all add: status_for_error_def)
  then show ?thesis
    unfolding finish_error_def using assms
    by (intro underway_sure sure_calls still_basic numbered_intros underway_finish)
      (simp_all only: finish_execution.simps elapsed_bound status_for_error_terminal,
       simp_all add: final_payload_def)
qed

lemma told_details:
  "triple (\<lambda>w. told i base w \<and> status_at (xw_db w) i \<noteq> None) (require_execution i)
     (\<lambda>d w. told (er_id (ed_record d)) base w
        \<and> status_at (xw_db w) (er_id (ed_record d)) = Some (er_status (ed_record d))) (numbered base)"
proof (rule tripleI)
  fix w d w' assume w: "told i base w \<and> status_at (xw_db w) i \<noteq> None"
    and r: "require_execution i w = (Inr d, w')"
  then have row: "exec_row (xw_db w) i = Some (ed_record d)" "w' = w"
    by (auto simp: require_execution_def xr_get_def ok_or_Inr)
  moreover have "er_id (ed_record d) = i" using row(1) by (auto simp: exec_row_def dest: row_by_Some)
  ultimately show "told (er_id (ed_record d)) base w'
      \<and> status_at (xw_db w') (er_id (ed_record d)) = Some (er_status (ed_record d))"
    using w by (simp add: status_at_def)
qed (auto simp: require_execution_def xr_get_def status_at_def ok_or_def split: option.splits)

section \<open>Whole calls\<close>

definition unheard :: "execution_event list \<Rightarrow> exec_world \<Rightarrow> bool" where
  "unheard base w \<longleftrightarrow> xw_events w = base"

lemma unheard_basic:
  "keeps (unheard base) (xask f)" "keeps (unheard base) (xask_res g)" "keeps (unheard base) (xres r)"
  "keeps (unheard base) (xreg_register i)" "keeps (unheard base) (xdb q)"
  "keeps (unheard base) (require_execution i)"
  by (auto simp: keeps_def unheard_def xask_def xask_res_def xres_def xreg_register_def
      xdb_def require_execution_def split_beta)

lemma unheard_caught: "keeps (unheard base) m \<Longrightarrow> keeps (unheard base) (caught m)"
  by (simp add: keeps_def caught_def split_beta)

lemma unheard_numbered: "unheard base w \<Longrightarrow> numbered base w"
  by (simp add: unheard_def numbered_def increasing_def)

text \<open>What a call gives back: details and a final event, or an error and no final event.\<close>

abbreviation answered :: "execution_event list \<Rightarrow> execution_details \<Rightarrow> exec_world \<Rightarrow> bool" where
  "answered base d w \<equiv> told (er_id (ed_record d)) base w
     \<and> status_at (xw_db w) (er_id (ed_record d)) = Some (er_status (ed_record d))"

abbreviation waiting ::
  "exec_env \<Rightarrow> uuid \<Rightarrow> execution_status \<Rightarrow> bool \<Rightarrow> bool \<Rightarrow> execution_event list \<Rightarrow> exec_world \<Rightarrow> bool" where
  "waiting env i st registered fr base w \<equiv> in_progress env i st registered fr w \<and> unheard base w"

lemma waiting_bind:
  assumes "triple (in_progress env i st registered fr) m (\<lambda>_. in_progress env i st' registered' fr') (\<lambda>_. False)"
    and "keeps (unheard base) m"
    and "\<And>x. triple (waiting env i st' registered' fr' base) (k x) R E"
  shows "triple (waiting env i st registered fr base) (bind_st m k) R E"
  by (rule triple_bind [OF triple_conseq [OF triple_both [OF assms(1) triple_keeps [OF assms(2),
        where E = "\<lambda>_. True"]]] assms(3)]) auto

lemma waiting_sure:
  "sure m \<Longrightarrow> still m \<Longrightarrow> keeps (unheard base) m \<Longrightarrow>
     (\<And>x. triple (waiting env i st registered fr base) (k x) R E) \<Longrightarrow>
     triple (waiting env i st registered fr base) (bind_st m k) R E"
  by (rule waiting_bind [OF triple_sure])

lemma waiting_restart:
  assumes "triple (underway env i st registered fr base) (k ()) R E"
  shows "triple (waiting env i st registered fr base) (bind_st restart_sequence k) R E"
proof -
  have "triple (waiting env i st registered fr base) restart_sequence
      (\<lambda>x w. underway env i st registered fr base w) E"
    by (auto simp: triple_def restart_sequence_def in_progress_def fresh_files_def unheard_def numbered_def
        increasing_def)
  then show ?thesis by (rule triple_bind) (use assms in simp)
qed

lemma told_finish_success:
  assumes "recordable env"
  shows "triple (underway env i ERunning False True base) (finish_success env i t out)
    (\<lambda>_ w. told i base w \<and> status_at (xw_db w) i \<noteq> None) (numbered base)"
proof -
  have logged: "triple (underway env i ERunning False True base)
      (bind_st (if present then record_output_file env i else ret_st ()) k) R E"
    if "triple (underway env i ERunning False False base) (k ()) R E"
    for present and k :: "unit \<Rightarrow> (exec_world, unit) st" and R E
    using that underway_bind [OF triple_record_output [OF assms] numbered_record, where k = k]
      underway_bind [OF forget_fresh [OF triple_sure [OF sure_calls(4) still_basic(1)]] keeps_ret, where k = k]
    by (cases present) auto
  show ?thesis
    unfolding finish_success_def
    by (intro underway_sure sure_calls still_basic numbered_intros logged underway_finish)
      (simp_all add: elapsed_bound final_payload_def)
qed

lemma answered_fail_before_run:
  "triple (waiting env i EQueued False True base) (fail_before_run env i e) (answered base) (numbered base)"
  unfolding fail_before_run_def
  by (intro waiting_sure sure_calls still_basic unheard_basic waiting_bind [OF triple_mark_running]
      waiting_restart triple_bind [OF underway_finish_error] told_details) simp_all

lemma answered_run_connected:
  assumes "recordable env"
  shows "triple (waiting env i EQueued False True base) (run_connected_command env i command timeout limit)
    (answered base) (numbered base)"
proof -
  have rest: "triple (underway env i ERunning False True base)
      (case outcome of
         Inr out \<Rightarrow> if co_exit out = 0 then finish_success env i t out
           else finish_error env i t (ssh_command (co_exit out) m)
       | Inl e \<Rightarrow> finish_error env i t e)
      (\<lambda>_ w. told i base w \<and> status_at (xw_db w) i \<noteq> None) (numbered base)" for outcome t m
    using told_finish_success [OF assms] underway_finish_error [of ERunning] by (cases outcome) auto
  show ?thesis
    unfolding run_connected_command_def
    by (intro waiting_sure sure_calls still_basic unheard_basic waiting_bind [OF triple_mark_running]
        waiting_bind [OF triple_registry(1)] waiting_restart underway_sure still_caught still_streaming
        numbered_caught numbered_streaming underway_bind [OF triple_registry(2)] numbered_basic
        triple_bind [OF rest] told_details)
qed

lemma waiting_details:
  "triple (in_progress env i EQueued False True) (require_execution i)
     (\<lambda>_. in_progress env i EQueued False True) (\<lambda>_. False)"
  by (auto simp: triple_def require_execution_def in_progress_def status_at_def xr_get_def ok_or_def
      split: option.split)

lemma connect_unheard: "keeps (unheard base) (connect_unless_cancelled env cancellable server)"
  unfolding connect_unless_cancelled_def
  by (intro keeps_bind keeps_if keeps_ret unheard_basic unheard_caught)

lemma answered_run_command:
  assumes "recordable env"
  shows "triple (waiting env i EQueued False True base)
    (run_command_with_limit_and_cancel env i command timeout limit cancellable)
    (answered base) (numbered base)"
proof -
  have pick: "triple (waiting env i EQueued False True base) (case connected of Inl e \<Rightarrow> fail_before_run env i e
       | Inr _ \<Rightarrow> run_connected_command env i command timeout limit) (answered base) (numbered base)"
    for connected :: "connected_server app_result"
    using answered_fail_before_run answered_run_connected [OF assms] by (cases connected) auto
  show ?thesis
    unfolding run_command_with_limit_and_cancel_def
    by (intro waiting_bind [OF waiting_details] unheard_basic waiting_sure connect_sure connect_unheard pick)
qed

text \<open>Before the row exists: nothing is told yet.\<close>

abbreviation expectant :: "exec_env \<Rightarrow> execution_event list \<Rightarrow> exec_world \<Rightarrow> bool" where
  "expectant env base w \<equiv> ready env w \<and> unheard base w"

lemma waiting_create:
  assumes "\<And>row. triple (waiting env (er_id row) EQueued False True base) (k row) R (numbered base)"
  shows "triple (expectant env base) (bind_st (create_execution env draft) k) R (numbered base)"
proof -
  have "keeps (unheard base) (create_execution env draft)"
    unfolding create_execution_def by (intro keeps_bind unheard_basic)
  note both = triple_both [OF triple_create triple_keeps [OF this, where E = "unheard base"]]
  show ?thesis
    by (rule triple_bind [OF triple_conseq [OF both] assms]) (auto intro: unheard_numbered)
qed

lemma waiting_check:
  assumes "\<And>x. triple (expectant env base) (k x) R (numbered base)"
  shows "triple (expectant env base) (bind_st (xres r) k) R (numbered base)"
proof (rule triple_bind [OF triple_keeps assms])
  show "keeps (expectant env base) (xres r)" by (simp add: keeps_def xres_def)
qed (auto intro: unheard_numbered)

lemma answered_exec:
  assumes "recordable env"
  shows "triple (expectant env base) (run_exec env call) (answered base) (numbered base)"
proof -
  note run = answered_run_connected [OF assms] and fail = answered_fail_before_run
  have pick: "triple I (case r of Inl e \<Rightarrow> f e | Inr x \<Rightarrow> g x) R E"
    if "\<And>e. triple I (f e) R E" "\<And>x. triple I (g x) R E" for I and r :: "'b app_result" and f g R E
    using that by (cases r) auto
  note step = waiting_check waiting_create waiting_bind [OF waiting_details] waiting_sure
    connect_sure connect_unheard unheard_caught unheard_basic sure_calls still_basic still_caught pick run fail
  show ?thesis
  proof (cases call)
    case (CallStep s c)
    show ?thesis unfolding run_exec_def CallStep execute_planned_step_def
      by (simp only: exec_call.case, intro waiting_create answered_run_command assms)
  next
    case (CallMaintenance s m p c)
    show ?thesis unfolding run_exec_def CallMaintenance execute_fixed_maintenance_def
      by (simp only: exec_call.case, intro waiting_create answered_run_command assms)
  next
    case (CallTask s r)
    show ?thesis unfolding run_exec_def CallTask execute_task_def run_task_def by (simp only: exec_call.case, intro step)
  next
    case (CallCustom s r)
    show ?thesis unfolding run_exec_def CallCustom execute_custom_def Let_def by (simp only: exec_call.case, intro step)
  next
    case (CallScript s v sh b val t ps)
    show ?thesis unfolding run_exec_def CallScript execute_personal_script_def by (simp only: exec_call.case, intro step)
  qed
qed

end
