(* ===== verification/Exec_Text.thy ===== *)
theory Exec_Text
  imports Exec_Numbered
begin

text \<open>
  The text of the output: what the sink gets of a stream is the decoded stream, cut after newlines into
  pieces that pass the redactor one by one.
\<close>

section \<open>One stream\<close>

definition stream_text :: "output_stream \<Rightarrow> execution_event list \<Rightarrow> string" where
  "stream_text stream events = concat (map (\<lambda>e. case ev_payload e of
       Stdout v n \<Rightarrow> if stream = OutStdout then v else []
     | Stderr v n \<Rightarrow> if stream = OutStderr then v else [] | _ \<Rightarrow> []) events)"

definition stream_bytes :: "output_stream \<Rightarrow> channel_event list \<Rightarrow> string" where
  "stream_bytes stream events = concat (map (\<lambda>e. case e of
       ChData v \<Rightarrow> if stream = OutStdout then v else []
     | ChExtended v \<Rightarrow> if stream = OutStderr then v else [] | _ \<Rightarrow> []) events)"

definition pending_text :: "output_stream \<Rightarrow> stream_writer \<Rightarrow> string" where
  "pending_text stream sw =
     (case stream of OutStdout \<Rightarrow> sw_stdout_pending sw | OutStderr \<Rightarrow> sw_stderr_pending sw)"

definition stream_decoder :: "output_stream \<Rightarrow> stream_writer \<Rightarrow> utf8_chunker" where
  "stream_decoder stream sw =
     (case stream of OutStdout \<Rightarrow> sw_stdout_decoder sw | OutStderr \<Rightarrow> sw_stderr_decoder sw)"

definition stream_total :: "output_stream \<Rightarrow> stream_writer \<Rightarrow> u64" where
  "stream_total stream sw =
     (case stream of OutStdout \<Rightarrow> sw_stdout_bytes sw | OutStderr \<Rightarrow> sw_stderr_bytes sw)"

lemmas stream_parts = pending_text_def stream_decoder_def stream_total_def

text \<open>What the sink gets of a piece of text.\<close>

definition shown :: "exec_env \<Rightarrow> string \<Rightarrow> string" where
  "shown env v = lossy (xe_redact env v)"

text \<open>Pieces that end with a newline, all but the last of the stream.\<close>

definition whole_lines :: "string \<Rightarrow> bool" where
  "whole_lines v \<longleftrightarrow> v \<noteq> [] \<and> last v = CHR 0x0A"

text \<open>
  A stream has been delivered: the text that was sent is the decoded stream, cut into pieces after
  newlines, each of which went through the redactor.
\<close>

definition delivered :: "exec_env \<Rightarrow> execution_event list \<Rightarrow> output_stream \<Rightarrow> string \<Rightarrow> bool" where
  "delivered env sent_events stream bytes \<longleftrightarrow> (\<exists>pieces. concat pieces = lossy bytes
     \<and> stream_text stream sent_events = concat (map (shown env) pieces)
     \<and> list_all whole_lines (butlast pieces))"

lemma complete_lines_spec:
  assumes "complete_lines s = (ls, rest)"
  shows "s = ls @ rest" "ls \<noteq> [] \<Longrightarrow> whole_lines ls"
proof -
  let ?p = "\<lambda>c. c \<noteq> CHR 0x0A"
  have e: "ls = rev (dropWhile ?p (rev s))" "rest = rev (takeWhile ?p (rev s))"
    using assms by (simp_all add: complete_lines_def)
  have "rev s = takeWhile ?p (rev s) @ dropWhile ?p (rev s)" by simp
  then show "s = ls @ rest" unfolding e by (metis rev_append rev_rev_ident)
  show "whole_lines ls" if "ls \<noteq> []"
  proof -
    from that have d: "dropWhile ?p (rev s) \<noteq> []" by (simp add: e)
    from hd_dropWhile [OF d] have "hd (dropWhile ?p (rev s)) = CHR 0x0A" by simp
    then show ?thesis using d by (simp add: whole_lines_def e last_rev)
  qed
qed

section \<open>What is sent\<close>

definition sent :: "execution_event list \<Rightarrow> (output_stream \<Rightarrow> string) \<Rightarrow> exec_world \<Rightarrow> bool" where
  "sent base f w \<longleftrightarrow> (\<exists>new. xw_events w = base @ new \<and> (\<forall>s. stream_text s new = f s))"

lemma sent_silent:
  "(\<And>w. xw_events (snd (m w)) = xw_events w) \<Longrightarrow> triple (sent base f) m (\<lambda>_. sent base f) (\<lambda>_. True)"
  by (rule triple_keeps) (simp_all add: keeps_def sent_def)

lemma sent_basic:
  "triple (sent base f) (xask g) (\<lambda>_. sent base f) (\<lambda>_. True)"
  "triple (sent base f) (xask_res h) (\<lambda>_. sent base f) (\<lambda>_. True)"
  "triple (sent base f) (append_log env i v) (\<lambda>_. sent base f) (\<lambda>_. True)"
  "triple (sent base f) (create_log env i) (\<lambda>_. sent base f) (\<lambda>_. True)"
  by (rule sent_silent; simp add: xask_def xask_res_def append_log_def create_log_def bind_st_def
      split: sum.split prod.split)+

lemma triple_res: "(\<And>x. r = Inr x \<Longrightarrow> triple I (k x) Q E) \<Longrightarrow> (\<And>s. I s \<Longrightarrow> E s) \<Longrightarrow>
    triple I (bind_st (xres r) k) Q E"
  by (cases r) (simp_all add: triple_def bind_st_def xres_def)

lemma triple_return: "(\<And>s. I s \<Longrightarrow> Q x s) \<Longrightarrow> triple I (ret_st x) Q E"
  by (simp add: triple_def ret_st_def)

lemma stream_text_append [simp]: "stream_text s (xs @ ys) = stream_text s xs @ stream_text s ys"
  by (simp add: stream_text_def)

text \<open>What one event adds to the text of each stream.\<close>

definition payload_text :: "execution_event_payload \<Rightarrow> output_stream \<Rightarrow> string" where
  "payload_text payload s = (case payload of Stdout v n \<Rightarrow> if s = OutStdout then v else []
     | Stderr v n \<Rightarrow> if s = OutStderr then v else [] | _ \<Rightarrow> [])"

lemma sent_emit:
  "triple (sent base f) (emit_event env payload) (\<lambda>_. sent base (\<lambda>s. f s @ payload_text payload s)) (\<lambda>_. True)"
proof (rule tripleI)
  fix w r w' assume "sent base f w" and e: "emit_event env payload w = (Inr r, w')"
  then obtain new where new: "xw_events w = base @ new" "\<And>s. stream_text s new = f s"
    by (auto simp: sent_def)
  from e show "sent base (\<lambda>s. f s @ payload_text payload s) w'"
  proof (rule emit_cases)
    fix event sequence now
    assume n: "next_event payload now (xw_sequence w) = (event, sequence)"
      "xw_events w' = xw_events w @ (case Inr r of Inl _ \<Rightarrow> [] | Inr _ \<Rightarrow> [event])"
    have "stream_text s [event] = payload_text payload s" for s
      using next_number(2) [OF n(1)] by (simp add: stream_text_def payload_text_def)
    then show ?thesis
      using new n(2) unfolding sent_def by (intro exI [of _ "new @ [event]"]) simp
  qed
qed simp

lemma payload_text_stream:
  "payload_text (stream_payload stream chunk sw) s = (if s = stream then chunk else [])"
  "payload_text (Started i t) s = []"
  by (cases stream; cases s; simp add: payload_text_def stream_payload_def)+

lemma sent_chunks:
  "triple (sent base f) (emit_chunks env i stream sw chunks)
     (\<lambda>_. sent base (f(stream := f stream @ concat chunks))) (\<lambda>_. True)"
proof (induction chunks arbitrary: f)
  case Nil
  show ?case unfolding emit_chunks.simps by (rule triple_return) simp
next
  case (Cons chunk chunks)
  have f: "(\<lambda>s. f s @ payload_text (stream_payload stream chunk sw) s) = f(stream := f stream @ chunk)"
    by (auto simp: payload_text_stream)
  note step = sent_emit [of base f env "stream_payload stream chunk sw", unfolded f]
  have rest: "triple (sent base (f(stream := f stream @ chunk))) (emit_chunks env i stream sw chunks)
      (\<lambda>_. sent base (f(stream := f stream @ concat (chunk # chunks)))) (\<lambda>_. True)"
    using Cons.IH [of "f(stream := f stream @ chunk)"] by (simp del: fun_upd_apply add: fun_upd_same)
  show ?case
    unfolding emit_chunks.simps
    by (intro triple_bind [OF sent_basic(3)] triple_bind [OF step] rest)
qed

lemma sent_text:
  "triple (sent base f) (emit_text env i stream sw v)
     (\<lambda>_. sent base (f(stream := f stream @ (if v = [] then [] else shown env v)))) (\<lambda>_. True)"
proof (cases "v = []")
  case False
  have "triple (sent base f) (case push_bytes (xe_redact env v) c of (chunks, c') \<Rightarrow>
        emit_chunks env i stream sw (chunks @ fst (finish_chunks c')))
      (\<lambda>_. sent base (f(stream := f stream @ shown env v))) (\<lambda>_. True)"
    if "new_chunker (sw_event_bytes sw) = Inr c" for c
  proof -
    obtain chunks c' where p: "push_bytes (xe_redact env v) c = (chunks, c')" by fastforce
    have "4 \<le> max_bytes c" "pending c = []"
      using that by (auto simp: new_chunker_def split: if_splits)
    with feed_spec [of c "[xe_redact env v]"] p have "concat (chunks @ fst (finish_chunks c')) = shown env v"
      by (simp add: shown_def)
    with sent_chunks [of base f env i stream sw "chunks @ fst (finish_chunks c')"] show ?thesis
      by (simp add: p)
  qed
  with False show ?thesis unfolding emit_text_def by (auto intro: triple_res)
qed (auto simp: emit_text_def intro: triple_return)

section \<open>What waits in the writer\<close>

text \<open>
  One stream: the bytes so far are the pieces that were sent, the text after the last newline and the
  beginning of a character.
\<close>

definition waits :: "output_stream \<Rightarrow> string \<Rightarrow> string list \<Rightarrow> stream_writer \<Rightarrow> bool" where
  "waits stream bytes pieces sw \<longleftrightarrow> list_all whole_lines pieces
     \<and> 4 \<le> max_bytes (stream_decoder stream sw) \<and> unat (stream_total stream sw) = length bytes
     \<and> (\<forall>rest. lossy (bytes @ rest)
          = concat pieces @ pending_text stream sw @ lossy (pending (stream_decoder stream sw) @ rest))"

definition budgeted :: "(output_stream \<Rightarrow> string) \<Rightarrow> u64 \<Rightarrow> stream_writer \<Rightarrow> bool" where
  "budgeted bytes limit sw \<longleftrightarrow> ob_limit (sw_budget sw) = limit
     \<and> unat (ob_consumed (sw_budget sw)) = length (bytes OutStdout) + length (bytes OutStderr)
     \<and> length (bytes OutStdout) + length (bytes OutStderr) \<le> unat limit"

definition relayed ::
  "exec_env \<Rightarrow> execution_event list \<Rightarrow> (output_stream \<Rightarrow> string) \<Rightarrow> u64 \<Rightarrow> stream_writer \<Rightarrow> exec_world \<Rightarrow> bool"
where
  "relayed env base bytes limit sw w \<longleftrightarrow> (\<exists>pieces. sent base (\<lambda>s. concat (map (shown env) (pieces s))) w
     \<and> (\<forall>s. waits s (bytes s) (pieces s) sw) \<and> budgeted bytes limit sw)"

lemma relayedI:
  "sent base (\<lambda>s. concat (map (shown env) (pieces s))) w \<Longrightarrow> (\<And>s. waits s (bytes s) (pieces s) sw) \<Longrightarrow>
     budgeted bytes limit sw \<Longrightarrow> relayed env base bytes limit sw w"
  unfolding relayed_def by blast

lemma relayed_pre:
  assumes "\<And>pieces. (\<And>s. waits s (bytes s) (pieces s) sw) \<Longrightarrow> budgeted bytes limit sw \<Longrightarrow>
      triple (sent base (\<lambda>s. concat (map (shown env) (pieces s)))) m Q (\<lambda>_. True)"
  shows "triple (relayed env base bytes limit sw) m Q (\<lambda>_. True)"
proof (rule tripleI)
  fix w x w' assume "relayed env base bytes limit sw w" and run: "m w = (Inr x, w')"
  then obtain pieces where p: "sent base (\<lambda>s. concat (map (shown env) (pieces s))) w"
      "\<And>s. waits s (bytes s) (pieces s) sw" "budgeted bytes limit sw"
    by (auto simp: relayed_def)
  have "case m w of (Inr x, w') \<Rightarrow> Q x w' | (Inl _, w') \<Rightarrow> True"
    using assms [OF p(2,3)] p(1) by (simp add: triple_def)
  then show "Q x w'" by (simp add: run)
qed simp

lemma push_spec:
  assumes "push_bytes block d = (chunks, d')" "4 \<le> max_bytes d"
  shows "max_bytes d' = max_bytes d" "lossy (pending d @ block @ t) = concat chunks @ lossy (pending d' @ t)"
proof -
  obtain dec rest where d: "drain_loop False (pending d @ block) = (dec, rest)" by fastforce
  then have c: "chunks = split_utf8 dec (max_bytes d)" "d' = d\<lparr>pending := rest\<rparr>"
    using assms(1) by (simp_all add: push_bytes_def drain_decodable_def)
  show "max_bytes d' = max_bytes d" by (simp add: c)
  show "lossy (pending d @ block @ t) = concat chunks @ lossy (pending d' @ t)"
    using drain_loop_more [OF d, of t] split_utf8_spec [of dec "max_bytes d"] assms(2) by (simp add: c)
qed

lemma sat_add_u64_exact: "unat a + n < 2 ^ 64 \<Longrightarrow> unat (sat_add_u64 a (of_nat n)) = unat a + n"
  by (simp add: sat_add_u64_def unat_word_ariths unat_of_nat)

lemma waits_decode:
  assumes "waits stream bytes pieces sw" "length bytes + length block < 2 ^ 64"
  shows "waits stream (bytes @ block) pieces (decode_into stream block sw)"
    "s \<noteq> stream \<Longrightarrow> waits s b p (decode_into stream block sw) = waits s b p sw"
    "sw_budget (decode_into stream block sw) = sw_budget sw"
proof -
  obtain chunks d where push: "push_bytes block (stream_decoder stream sw) = (chunks, d)" by fastforce
  have parts: "stream_decoder stream (decode_into stream block sw) = d"
      "pending_text stream (decode_into stream block sw) = pending_text stream sw @ concat chunks"
      "stream_total stream (decode_into stream block sw)
        = sat_add_u64 (stream_total stream sw) (of_nat (length block))"
      "sw_budget (decode_into stream block sw) = sw_budget sw"
    using push by (cases stream; simp add: stream_parts decode_into_def)+
  have other: "stream_decoder s (decode_into stream block sw) = stream_decoder s sw"
      "pending_text s (decode_into stream block sw) = pending_text s sw"
      "stream_total s (decode_into stream block sw) = stream_total s sw" if "s \<noteq> stream"
    using push that by (cases stream; cases s; simp add: stream_parts decode_into_def)+
  have "4 \<le> max_bytes (stream_decoder stream sw)" using assms(1) by (simp add: waits_def)
  note p = push_spec [OF push this]
  show "waits stream (bytes @ block) pieces (decode_into stream block sw)"
    using assms p sat_add_u64_exact by (simp add: waits_def parts)
  show "s \<noteq> stream \<Longrightarrow> waits s b p (decode_into stream block sw) = waits s b p sw"
    by (simp add: waits_def other)
  show "sw_budget (decode_into stream block sw) = sw_budget sw" by (fact parts)
qed

definition set_pending :: "output_stream \<Rightarrow> string \<Rightarrow> stream_writer \<Rightarrow> stream_writer" where
  "set_pending stream rest sw = (case stream of
     OutStdout \<Rightarrow> sw\<lparr>sw_stdout_pending := rest\<rparr> | OutStderr \<Rightarrow> sw\<lparr>sw_stderr_pending := rest\<rparr>)"

lemma flush_step:
  "flush_complete_lines env i stream sw = (case complete_lines (pending_text stream sw) of (ls, rest) \<Rightarrow>
     if ls = [] then ret_st sw
     else bind_st (emit_text env i stream (set_pending stream rest sw) ls)
            (\<lambda>_. ret_st (set_pending stream rest sw)))"
  by (cases stream) (simp_all add: flush_complete_lines_def pending_text_def set_pending_def split: prod.split)

lemma waits_flush:
  assumes "waits stream bytes pieces sw" "pending_text stream sw = ls @ rest" "whole_lines ls"
  shows "waits stream bytes (pieces @ [ls]) (set_pending stream rest sw)"
    "s \<noteq> stream \<Longrightarrow> waits s b p (set_pending stream rest sw) = waits s b p sw"
    "sw_budget (set_pending stream rest sw) = sw_budget sw"
  using assms by (cases stream; cases s; simp add: waits_def set_pending_def stream_parts)+

lemma flush_relays:
  "triple (relayed env base bytes limit sw) (flush_complete_lines env i stream sw)
     (\<lambda>sw'. relayed env base bytes limit sw') (\<lambda>_. True)"
proof (rule relayed_pre)
  fix pieces assume p: "\<And>s. waits s (bytes s) (pieces s) sw" and b: "budgeted bytes limit sw"
  let ?f = "\<lambda>s. concat (map (shown env) (pieces s))"
  obtain ls rest where l: "complete_lines (pending_text stream sw) = (ls, rest)" by fastforce
  note spec = complete_lines_spec [OF l]
  show "triple (sent base ?f) (flush_complete_lines env i stream sw)
      (\<lambda>sw'. relayed env base bytes limit sw') (\<lambda>_. True)"
  proof (cases "ls = []")
    case True
    have "triple (sent base ?f) (ret_st sw) (\<lambda>sw'. relayed env base bytes limit sw') (\<lambda>_. True)"
      by (rule triple_return) (use p b in \<open>auto simp: relayed_def\<close>)
    then show ?thesis by (simp add: flush_step l True)
  next
    case False
    let ?sw = "set_pending stream rest sw" and ?pieces = "pieces(stream := pieces stream @ [ls])"
    note w = waits_flush [OF p spec(1) spec(2) [OF False]]
    have waits: "waits s (bytes s) (?pieces s) ?sw" for s
      using w p by (cases "s = stream") auto
    have f: "(\<lambda>s. concat (map (shown env) (?pieces s))) = ?f(stream := ?f stream @ shown env ls)"
      by auto
    have "budgeted bytes limit ?sw" using b w(3) by (simp add: budgeted_def)
    then have reach: "relayed env base bytes limit ?sw w'"
      if "sent base (?f(stream := ?f stream @ shown env ls)) w'" for w'
      using that waits f unfolding relayed_def by (intro exI [of _ ?pieces]) simp
    show ?thesis
      unfolding flush_step l using False sent_text [of base ?f env i stream ?sw ls]
      by (auto intro!: triple_bind triple_return reach)
  qed
qed

lemma write_relays:
  assumes "length block < 2 ^ 64"
  shows "triple (relayed env base bytes limit sw) (write_output env i stream block sw)
    (\<lambda>sw'. relayed env base (bytes(stream := bytes stream @ block)) limit sw') (\<lambda>_. True)"
proof (rule relayed_pre)
  fix pieces assume p: "\<And>s. waits s (bytes s) (pieces s) sw" and b: "budgeted bytes limit sw"
  let ?bytes = "bytes(stream := bytes stream @ block)"
  obtain r budget where c: "consume (of_nat (length block)) (sw_budget sw) = (r, budget)" by fastforce
  have len: "unat (of_nat (length block) :: u64) = length block"
    using assms by (simp add: unat_of_nat)
  show "triple (sent base (\<lambda>s. concat (map (shown env) (pieces s)))) (write_output env i stream block sw)
      (\<lambda>sw'. relayed env base ?bytes limit sw') (\<lambda>_. True)"
  proof (cases r)
    case (Inl e)
    then show ?thesis by (simp add: write_output_def c triple_def)
  next
    case (Inr n)
    let ?sw = "sw\<lparr>sw_budget := budget\<rparr>"
    note ok = consume_ok [of "of_nat (length block)" "sw_budget sw", unfolded c len]
    have fits: "unat (ob_consumed (sw_budget sw)) + length block \<le> unat (ob_limit (sw_budget sw))"
      using ok Inr by (simp split: if_splits)
    have "unat limit < 2 ^ 64" using unsigned_less [of limit] by simp
    then have len: "length (bytes s) + length block < 2 ^ 64" for s
      using fits b by (cases s) (simp_all add: budgeted_def)
    have before: "waits s (bytes s) (pieces s) ?sw" for s
      using p [of s] by (cases s) (simp_all add: waits_def stream_parts)
    note after = waits_decode [OF before [of stream] len [of stream]]
    have w: "waits s (?bytes s) (pieces s) (decode_into stream block ?sw)" for s
      using after(1,2) before by (cases "s = stream") auto
    have "budgeted ?bytes limit (decode_into stream block ?sw)"
      using b fits ok by (cases stream) (simp_all add: budgeted_def decode_into_def split_beta)
    from relayedI [OF _ w this] have "triple (sent base (\<lambda>s. concat (map (shown env) (pieces s))))
        (flush_complete_lines env i stream (decode_into stream block ?sw))
        (\<lambda>sw'. relayed env base ?bytes limit sw') (\<lambda>_. True)"
      by (intro triple_conseq [OF flush_relays [of env base ?bytes limit]])
    then show ?thesis by (simp add: write_output_def c Inr)
  qed
qed

section \<open>A whole command\<close>

text \<open>The last piece of each stream is sent when the channel has closed.\<close>

lemma waits_finish:
  assumes "waits s bytes pieces sw"
    and "out = pending_text s sw @ concat (fst (finish_chunks (stream_decoder s sw)))"
    and "stream_text s new = concat (map (shown env) pieces) @ (if out = [] then [] else shown env out)"
  shows "delivered env new s bytes"
proof -
  let ?pieces = "pieces @ (if out = [] then [] else [out])"
  have "concat (fst (finish_chunks (stream_decoder s sw))) = lossy (pending (stream_decoder s sw))"
    using feed_spec [of "stream_decoder s sw" "[]"] assms(1) by (simp add: waits_def)
  moreover have "lossy (bytes @ []) = concat pieces @ pending_text s sw @ lossy (pending (stream_decoder s sw) @ [])"
    using assms(1) unfolding waits_def by blast
  ultimately have "concat ?pieces = lossy bytes" by (simp add: assms(2))
  moreover have "list_all whole_lines (butlast ?pieces)"
    using assms(1) by (auto simp: waits_def list_all_iff dest: in_set_butlastD)
  ultimately show ?thesis unfolding delivered_def using assms(3) by (intro exI [of _ ?pieces]) simp
qed

definition complete_answer ::
  "exec_env \<Rightarrow> execution_event list \<Rightarrow> (output_stream \<Rightarrow> string) \<Rightarrow> u64 \<Rightarrow> u64 \<Rightarrow> u64 \<Rightarrow> exec_world \<Rightarrow> bool"
where
  "complete_answer env base bytes limit out err w \<longleftrightarrow> (\<exists>new. xw_events w = base @ new
     \<and> (\<forall>s. delivered env new s (bytes s)) \<and> unat out = length (bytes OutStdout)
     \<and> unat err = length (bytes OutStderr)
     \<and> length (bytes OutStdout) + length (bytes OutStderr) \<le> unat limit)"

lemma finish_delivers:
  "triple (relayed env base bytes limit sw) (finish_writer env i sw)
     (\<lambda>(out, err). complete_answer env base bytes limit out err) (\<lambda>_. True)"
proof (rule relayed_pre)
  fix pieces assume p: "\<And>s. waits s (bytes s) (pieces s) sw" and b: "budgeted bytes limit sw"
  let ?f = "\<lambda>s. concat (map (shown env) (pieces s))"
  define out where "out s = pending_text s sw @ concat (fst (finish_chunks (stream_decoder s sw)))" for s
  let ?add = "\<lambda>s. if out s = [] then [] else shown env (out s)"
  let ?g = "?f(OutStdout := ?f OutStdout @ ?add OutStdout)"
  have finish: "finish_writer env i sw =
      bind_st (emit_text env i OutStdout sw (out OutStdout)) (\<lambda>_.
      bind_st (emit_text env i OutStderr sw (out OutStderr)) (\<lambda>_.
      bind_st (xask_res (xe_write env)) (\<lambda>_. ret_st (stream_total OutStdout sw, stream_total OutStderr sw))))"
    by (simp add: finish_writer_def out_def stream_parts Let_def)
  have answer: "complete_answer env base bytes limit (stream_total OutStdout sw) (stream_total OutStderr sw) w"
    if sent: "sent base (?g(OutStderr := ?g OutStderr @ ?add OutStderr)) w" for w
  proof -
    from sent obtain new where new: "xw_events w = base @ new"
        "\<And>s. stream_text s new = (?g(OutStderr := ?g OutStderr @ ?add OutStderr)) s"
      by (auto simp: sent_def)
    have "stream_text s new = ?f s @ ?add s" for s
      using new(2) [of s] by (cases s) simp_all
    then have "delivered env new s (bytes s)" for s
      by (rule waits_finish [OF p out_def])
    then show ?thesis
      using new(1) p b unfolding complete_answer_def by (auto simp: waits_def budgeted_def)
  qed
  show "triple (sent base ?f) (finish_writer env i sw)
      (\<lambda>(out, err). complete_answer env base bytes limit out err) (\<lambda>_. True)"
    unfolding finish
    by (intro triple_bind [OF sent_text] triple_bind [OF sent_basic(2)] triple_return)
      (simp only: prod.case, rule answer)
qed

text \<open>A block of the channel is shorter than the address space.\<close>

definition block_fits :: "channel_event \<Rightarrow> bool" where
  "block_fits e \<longleftrightarrow> (case e of ChData v \<Rightarrow> length v < 2 ^ 64 | ChExtended v \<Rightarrow> length v < 2 ^ 64 | _ \<Rightarrow> True)"

lemma triple_caught: "triple I m Q E \<Longrightarrow> triple I (caught m) (\<lambda>r w. case r of Inr x \<Rightarrow> Q x w | Inl _ \<Rightarrow> E w) E'"
  by (fastforce simp: triple_def caught_def split: prod.splits sum.splits)

lemma triple_stops: "triple I (fail_st e) Q (\<lambda>_. True)"
  by (simp add: triple_def)

lemma read_relays:
  "list_all block_fits events \<Longrightarrow>
   triple (relayed env base bytes limit sw) (read_channel env i events exit sw)
     (\<lambda>r w. case r of ReadDone x sw' \<Rightarrow> relayed env base (\<lambda>s. bytes s @ stream_bytes s events) limit sw' w
            | _ \<Rightarrow> True) (\<lambda>_. True)"
proof (induction events arbitrary: bytes exit sw)
  case Nil
  show ?case unfolding read_channel.simps by (rule triple_return) (simp add: stream_bytes_def)
next
  case (Cons e events)
  let ?Q = "\<lambda>r w. case r of ReadDone x sw' \<Rightarrow>
      relayed env base (\<lambda>s. bytes s @ stream_bytes s (e # events)) limit sw' w | _ \<Rightarrow> True"
  have rest: "list_all block_fits events" using Cons.prems by simp
  have block: "triple (relayed env base bytes limit sw)
      (bind_st (caught (write_output env i stream v sw)) (\<lambda>r. case r of
         Inl e \<Rightarrow> ret_st (ReadFailed e) | Inr sw' \<Rightarrow> read_channel env i events exit sw')) ?Q (\<lambda>_. True)"
    if "length v < 2 ^ 64"
      and eq: "(\<lambda>s. (bytes(stream := bytes stream @ v)) s @ stream_bytes s events)
        = (\<lambda>s. bytes s @ stream_bytes s (e # events))" for stream v
  proof (rule triple_bind [OF triple_caught [OF write_relays [OF that(1)]]])
    fix r :: "stream_writer app_result"
    show "triple (\<lambda>w. case r of Inr sw' \<Rightarrow> relayed env base (bytes(stream := bytes stream @ v)) limit sw' w
          | Inl _ \<Rightarrow> True)
        (case r of Inl e \<Rightarrow> ret_st (ReadFailed e) | Inr sw' \<Rightarrow> read_channel env i events exit sw') ?Q (\<lambda>_. True)"
    proof (cases r)
      case (Inl err)
      then show ?thesis by (simp add: triple_def)
    next
      case (Inr sw')
      with Cons.IH [OF rest, of "bytes(stream := bytes stream @ v)" sw' exit] show ?thesis
        by (simp only: eq sum.case)
    qed
  qed
  show ?case
  proof (cases e)
    case (ChData v)
    with Cons.prems have "length v < 2 ^ 64" by (simp add: block_fits_def)
    from block [OF this, of OutStdout] show ?thesis
      by (simp add: ChData stream_bytes_def fun_eq_iff)
  next
    case (ChExtended v)
    with Cons.prems have "length v < 2 ^ 64" by (simp add: block_fits_def)
    from block [OF this, of OutStderr] show ?thesis
      by (simp add: ChExtended stream_bytes_def fun_eq_iff)
  next
    case (ChExit n)
    have "stream_bytes s (e # events) = stream_bytes s events" for s by (simp add: ChExit stream_bytes_def)
    with Cons.IH [OF rest, of bytes sw "Some (exit_i32 n)"] show ?thesis
      by (simp only: ChExit read_channel.simps)
  next
    case ChOther
    have "stream_bytes s (e # events) = stream_bytes s events" for s by (simp add: ChOther stream_bytes_def)
    with Cons.IH [OF rest, of bytes sw exit] show ?thesis
      by (simp only: ChOther read_channel.simps)
  next
    case ChCancelled
    show ?thesis unfolding ChCancelled read_channel.simps by (rule triple_return) simp
  next
    case ChTimeout
    show ?thesis unfolding ChTimeout read_channel.simps by (rule triple_return) simp
  qed
qed

lemma read_then:
  assumes "list_all block_fits events"
    and "\<And>outcome. triple (\<lambda>w. case outcome of
        ReadDone x sw' \<Rightarrow> relayed env base (\<lambda>s. stream_bytes s events) limit sw' w | _ \<Rightarrow> True) (k outcome) Q (\<lambda>_. True)"
  shows "triple (relayed env base (\<lambda>_. []) limit sw) (bind_st (read_channel env i events exit sw) k) Q (\<lambda>_. True)"
  using triple_bind [OF read_relays [OF assms(1), of env base "\<lambda>_. []"], unfolded append_Nil] assms(2) by blast

lemma open_relays:
  "triple (sent base (\<lambda>_. [])) (open_writer env i limit event_bytes)
     (\<lambda>sw. relayed env base (\<lambda>_. []) limit sw) (\<lambda>_. True)"
proof -
  have "relayed env base (\<lambda>_. []) limit
      \<lparr>sw_budget = new_budget limit, sw_event_bytes = event_bytes, sw_stdout_decoder = decoder,
       sw_stderr_decoder = decoder, sw_stdout_pending = [], sw_stderr_pending = [], sw_stdout_bytes = 0,
       sw_stderr_bytes = 0\<rparr> w"
    if "sent base (\<lambda>_. []) w" "new_chunker max_event_bytes = Inr decoder" for w decoder
  proof (rule relayedI [where pieces = "\<lambda>_. []"])
    have "max_bytes decoder = max_event_bytes" "pending decoder = []"
      using that(2) by (auto simp: new_chunker_def split: if_splits)
    then show "waits s [] [] \<lparr>sw_budget = new_budget limit, sw_event_bytes = event_bytes,
        sw_stdout_decoder = decoder, sw_stderr_decoder = decoder, sw_stdout_pending = [],
        sw_stderr_pending = [], sw_stdout_bytes = 0, sw_stderr_bytes = 0\<rparr>" for s
      by (cases s) (simp_all add: waits_def stream_parts max_event_bytes_def)
  qed (use that in \<open>simp_all add: budgeted_def new_budget_def\<close>)
  then show ?thesis
    unfolding open_writer_def
    by (auto intro!: triple_bind [OF sent_basic(4)] triple_res triple_return triple_stops)
qed

lemma started_relays:
  "triple (relayed env base bytes limit sw) (emit_event env (Started i t))
     (\<lambda>_. relayed env base bytes limit sw) (\<lambda>_. True)"
proof (rule relayed_pre)
  fix pieces assume p: "\<And>s. waits s (bytes s) (pieces s) sw" "budgeted bytes limit sw"
  show "triple (sent base (\<lambda>s. concat (map (shown env) (pieces s)))) (emit_event env (Started i t))
      (\<lambda>_. relayed env base bytes limit sw) (\<lambda>_. True)"
    by (rule triple_conseq [OF sent_emit]) (use p in \<open>auto simp: payload_text_stream intro: relayedI\<close>)
qed

lemma triple_ask:
  assumes "\<And>w n. I w \<Longrightarrow> I (w\<lparr>xw_tick := n\<rparr>)" "\<And>t. triple I (k (g t)) Q E"
  shows "triple I (bind_st (xask g) k) Q E"
  using assms by (simp add: triple_def bind_st_def xask_def)

lemma sent_tick: "sent base f w \<Longrightarrow> sent base f (w\<lparr>xw_tick := n\<rparr>)"
    "relayed env base bytes limit sw w \<Longrightarrow> relayed env base bytes limit sw (w\<lparr>xw_tick := n\<rparr>)"
  by (simp_all add: relayed_def sent_def)

definition answered_in_full :: "exec_env \<Rightarrow> execution_event list \<Rightarrow> command_request \<Rightarrow> command_outcome \<Rightarrow> exec_world \<Rightarrow> bool"
where
  "answered_in_full env base request outcome w \<longleftrightarrow> (\<exists>t. complete_answer env base
     (\<lambda>s. stream_bytes s (xe_messages env t (cr_command request))) (cr_max_output_bytes request)
     (co_stdout_bytes outcome) (co_stderr_bytes outcome) w)"

lemma streaming_answers:
  assumes "\<And>t. list_all block_fits (xe_messages env t (cr_command request))"
  shows "triple (sent base (\<lambda>_. [])) (execute_streaming env request)
    (\<lambda>outcome. answered_in_full env base request outcome) (\<lambda>_. True)"
proof -
  let ?bytes = "\<lambda>t s. stream_bytes s (xe_messages env t (cr_command request))"
  let ?limit = "cr_max_output_bytes request"
  have ended: "triple (\<lambda>w. case outcome of ReadDone x sw' \<Rightarrow> relayed env base (?bytes t) ?limit sw' w | _ \<Rightarrow> True)
      (case outcome of
         ReadTimedOut \<Rightarrow> bind_st (xask (xe_close env)) (\<lambda>_. fail_st (Io m))
       | ReadFailed e \<Rightarrow> if e = Cancelled
           then bind_st (xask (xe_close env)) (\<lambda>closed. fail_st (g closed)) else fail_st e
       | ReadDone exit sw \<Rightarrow>
           bind_st (finish_writer env i sw) (\<lambda>(out, err).
           bind_st (xres (require_exit_status exit)) (\<lambda>status.
             ret_st \<lparr>co_exit = status, co_stdout_bytes = out, co_stderr_bytes = err\<rparr>)))
      (\<lambda>outcome. answered_in_full env base request outcome) (\<lambda>_. True)" for outcome t i m g
  proof (cases outcome)
    case (ReadDone exit sw)
    then show ?thesis
      by (auto intro!: triple_bind [OF finish_delivers] triple_res triple_return simp: answered_in_full_def)
  qed (auto simp: triple_def bind_st_def xask_def)
  show ?thesis
    unfolding execute_streaming_def Let_def
    by (intro triple_res triple_bind [OF sent_basic(1)] triple_bind [OF sent_basic(2)]
        triple_bind [OF open_relays] triple_bind [OF started_relays] triple_ask sent_tick
        read_then [OF assms] ended) simp_all
qed

end
