(* ===== verification/Task_Remedy.thy ===== *)
theory Task_Remedy
  imports Exec_Service Task_Plan
begin

text \<open>
  Which tasks a server can run and how a missing component is installed:
  \<^verbatim>\<open>src-tauri/src/core/tasks/availability.rs\<close>, \<^verbatim>\<open>core/tasks/remediation.rs\<close> and
  \<^verbatim>\<open>services/task_remediation_service.rs\<close>.
\<close>

section \<open>Packages\<close>

datatype package_manager_kind = PmApt | PmDnf | PmYum

definition package_manager_try_from :: "string \<Rightarrow> package_manager_kind app_result" where
  "package_manager_try_from v =
     (if v = ''apt'' then Inr PmApt else if v = ''dnf'' then Inr PmDnf
      else if v = ''yum'' then Inr PmYum
      else Inl (Security ''package manager not in the built-in list''))"

datatype package_id =
    PkNetcatOpenbsd | PkNmapNcat | PkTcpdump | PkLsof | PkSysstat | PkDnsutils | PkBindUtils

fun package_as_str :: "package_id \<Rightarrow> string" where
  "package_as_str PkNetcatOpenbsd = ''netcat-openbsd''"
| "package_as_str PkNmapNcat = ''nmap-ncat''"
| "package_as_str PkTcpdump = ''tcpdump''"
| "package_as_str PkLsof = ''lsof''"
| "package_as_str PkSysstat = ''sysstat''"
| "package_as_str PkDnsutils = ''dnsutils''"
| "package_as_str PkBindUtils = ''bind-utils''"

definition package_try_from :: "string \<Rightarrow> package_id app_result" where
  "package_try_from v =
     (if v = ''netcat-openbsd'' then Inr PkNetcatOpenbsd
      else if v = ''nmap-ncat'' then Inr PkNmapNcat
      else if v = ''tcpdump'' then Inr PkTcpdump
      else if v = ''lsof'' then Inr PkLsof
      else if v = ''sysstat'' then Inr PkSysstat
      else if v = ''dnsutils'' then Inr PkDnsutils
      else if v = ''bind-utils'' then Inr PkBindUtils
      else Inl (Security ''package not in the built-in list''))"

interpretation package_enum: str_enum package_as_str package_try_from
proof unfold_locales
  fix x show "package_try_from (package_as_str x) = Inr x"
    by (cases x) (simp_all add: package_try_from_def)
next
  fix v x show "package_try_from v = Inr x \<Longrightarrow> v = package_as_str x"
    by (auto simp: package_try_from_def split: if_splits)
qed

definition package_allowed :: "package_manager_kind \<Rightarrow> package_id \<Rightarrow> bool" where
  "package_allowed manager package \<longleftrightarrow>
     (if manager = PmApt then package \<in> {PkNetcatOpenbsd, PkTcpdump, PkLsof, PkSysstat, PkDnsutils}
      else package \<in> {PkNmapNcat, PkTcpdump, PkLsof, PkSysstat, PkBindUtils})"

text \<open>\<open>sort_by_key\<close> is stable; the names of the packages are distinct.\<close>

definition fixed_install_command :: "package_manager_kind \<Rightarrow> package_id list \<Rightarrow> string app_result" where
  "fixed_install_command manager packages =
     (if packages = [] then Inl (Validation ''no package to install'')
      else let packages = remdups_adj (sort_key package_as_str packages) in
        if list_ex (\<lambda>p. \<not> package_allowed manager p) packages
        then Inl (Security ''the package does not fit the package manager'')
        else Inr ((case manager of
              PmApt \<Rightarrow> ''apt-get install -y --no-install-recommends ''
            | PmDnf \<Rightarrow> ''dnf install -y ''
            | PmYum \<Rightarrow> ''yum install -y '') @ join_with '' '' (map package_as_str packages)))"

definition package_for :: "string \<Rightarrow> string \<Rightarrow> string option" where
  "package_for manager command =
     (if manager = ''apt'' \<and> command \<in> {''nc'', ''ncat''} then Some ''netcat-openbsd''
      else if manager \<in> {''dnf'', ''yum''} \<and> command \<in> {''nc'', ''ncat''} then Some ''nmap-ncat''
      else if manager \<in> {''apt'', ''dnf'', ''yum''} \<and> command = ''tcpdump'' then Some ''tcpdump''
      else if manager \<in> {''apt'', ''dnf'', ''yum''} \<and> command = ''lsof'' then Some ''lsof''
      else if manager \<in> {''apt'', ''dnf'', ''yum''} \<and> command = ''iostat'' then Some ''sysstat''
      else if manager = ''apt'' \<and> command = ''dig'' then Some ''dnsutils''
      else if manager \<in> {''dnf'', ''yum''} \<and> command = ''dig'' then Some ''bind-utils''
      else None)"

record remediation_summary =
  rm_package_manager :: string
  rm_missing_commands :: "string list"
  rm_packages :: "string list"

text \<open>A \<open>BTreeSet\<close> and \<open>sort\<close> with \<open>dedup\<close>.\<close>

definition sorted_once :: "string list \<Rightarrow> string list" where
  "sorted_once xs = remdups_adj (sort xs)"

definition remediation_for :: "string option \<Rightarrow> string list \<Rightarrow> remediation_summary option" where
  "remediation_for package_manager missing =
     (if missing = [] then None
      else case package_manager of
        None \<Rightarrow> None
      | Some manager \<Rightarrow>
          if list_ex (\<lambda>c. package_for manager c = None) missing then None
          else Some \<lparr>rm_package_manager = manager, rm_missing_commands = sorted_once missing,
                     rm_packages = sorted_once (map (\<lambda>c. the (package_for manager c)) missing)\<rparr>)"

section \<open>Availability\<close>

datatype availability_state = AvReady | AvRemediable | AvPermissionBlocked | AvUnsupported

record availability_evaluation =
  av_state :: availability_state
  av_implementation_id :: "string option"
  av_summary :: string
  av_missing_commands :: "string list"
  av_blocking_capabilities :: "string list"

record implementation_fit =
  if_implementation :: task_implementation
  if_missing_commands :: "string list"
  if_blocking_capabilities :: "string list"

definition fit_score :: "implementation_fit \<Rightarrow> nat" where
  "fit_score f = length (if_missing_commands f) + length (if_blocking_capabilities f)"

definition evaluate_implementation ::
  "task_implementation \<Rightarrow> system_capabilities \<Rightarrow> implementation_fit" where
  "evaluate_implementation implementation capabilities =
     (let predicate = ti_compatibility implementation;
          os_blocked = cp_os_families predicate \<noteq> []
            \<and> \<not> list_ex (\<lambda>family. family = sc_os_family capabilities
                   \<or> family = os_family_as_str (sc_platform_family capabilities))
                 (cp_os_families predicate);
          manager_blocked = cp_service_managers predicate \<noteq> []
            \<and> \<not> list_ex (\<lambda>manager. manager = sc_service_manager capabilities)
                 (cp_service_managers predicate) in
      \<lparr>if_implementation = implementation,
       if_missing_commands = sorted_once
         (filter (\<lambda>command. \<not> has_command capabilities command) (cp_required_commands predicate)),
       if_blocking_capabilities =
         (if os_blocked then [''system not supported: '' @ sc_os_family capabilities] else [])
         @ (if manager_blocked
            then [''service manager not supported: '' @ sc_service_manager capabilities] else [])\<rparr>)"

text \<open>\<open>min_by_key\<close>: the first of the smallest.\<close>

fun min_by_key :: "('a \<Rightarrow> nat) \<Rightarrow> 'a list \<Rightarrow> 'a option" where
  "min_by_key f [] = None"
| "min_by_key f (x # xs) =
     (case min_by_key f xs of None \<Rightarrow> Some x | Some y \<Rightarrow> if f y < f x then Some y else Some x)"

definition unavailable_summary :: "string list \<Rightarrow> string list \<Rightarrow> string" where
  "unavailable_summary missing blockers =
     (if missing = [] \<and> blockers = [] then ''the tool is not supported on this server''
      else join_with ''; ''
        ((if missing \<noteq> [] then [''missing components: '' @ join_with '', '' missing] else [])
         @ (if blockers \<noteq> [] then [join_with ''; '' blockers] else [])))"

definition evaluate_task_availability ::
  "task_definition \<Rightarrow> system_capabilities \<Rightarrow> availability_evaluation" where
  "evaluate_task_availability task capabilities =
     (case min_by_key fit_score
         (map (\<lambda>i. evaluate_implementation i capabilities) (td_implementations task)) of
        None \<Rightarrow> \<lparr>av_state = AvUnsupported, av_implementation_id = None,
                 av_summary = ''the tool has no implementation'', av_missing_commands = [],
                 av_blocking_capabilities = [''no implementation'']\<rparr>
      | Some best \<Rightarrow>
          if fit_score best = 0
          then \<lparr>av_state = AvReady, av_implementation_id = Some (ti_id (if_implementation best)),
                av_summary = ''ready'', av_missing_commands = [], av_blocking_capabilities = []\<rparr>
          else
            (let remediation = (if if_blocking_capabilities best = []
                   then remediation_for (sc_package_manager capabilities) (if_missing_commands best)
                   else None) in
             \<lparr>av_state = (if remediation = None then AvUnsupported else AvRemediable),
              av_implementation_id = Some (ti_id (if_implementation best)),
              av_summary = (case remediation of
                  Some r \<Rightarrow> ''missing components '' @ join_with '', '' (rm_missing_commands r)
                    @ '', installable with '' @ rm_package_manager r @ '': ''
                    @ join_with '', '' (rm_packages r)
                | None \<Rightarrow> unavailable_summary (if_missing_commands best)
                    (if_blocking_capabilities best)),
              av_missing_commands = if_missing_commands best,
              av_blocking_capabilities = if_blocking_capabilities best\<rparr>))"

section \<open>Previews of an installation\<close>

record remediation_binding =
  rb_server_id :: string
  rb_task_id :: string
  rb_implementation_id :: string
  rb_missing_commands :: "string list"
  rb_packages :: "string list"
  rb_package_manager :: string
  rb_privilege_mode :: privilege_mode

record stored_remediation =
  sr_confirmation_token :: uuid
  sr_expires_at :: int
  sr_command_summary :: string
  sr_binding :: remediation_binding

definition remediation_ttl :: int where
  "remediation_ttl = 5 * 60 * 1000"

definition command_for_binding :: "remediation_binding \<Rightarrow> string app_result" where
  "command_for_binding binding =
     bind_res (package_manager_try_from (rb_package_manager binding)) (\<lambda>manager.
     bind_res (collect_res package_try_from (rb_packages binding)) (\<lambda>packages.
       fixed_install_command manager packages))"

type_synonym remediation_registry = "uuid \<Rightarrow> stored_remediation option"

definition remediation_issue ::
  "uuid \<Rightarrow> uuid \<Rightarrow> remediation_binding \<Rightarrow> int \<Rightarrow> remediation_registry \<Rightarrow>
   stored_remediation app_result \<times> remediation_registry" where
  "remediation_issue preview_id token binding now reg =
     (case command_for_binding binding of
        Inl e \<Rightarrow> (Inl e, reg)
      | Inr command \<Rightarrow>
          (let stored = \<lparr>sr_confirmation_token = token,
               sr_expires_at = min (now + remediation_ttl) (2 ^ 63 - 1),
               sr_command_summary = command, sr_binding = binding\<rparr>
           in (Inr stored, reg(preview_id \<mapsto> stored))))"

definition remediation_consume ::
  "uuid \<Rightarrow> uuid \<Rightarrow> int \<Rightarrow> remediation_registry \<Rightarrow>
   remediation_binding app_result \<times> remediation_registry" where
  "remediation_consume preview_id token now reg =
     (case reg preview_id of
        None \<Rightarrow> (Inl (Validation ''the preview does not exist or was used''), reg)
      | Some stored \<Rightarrow>
          if sr_expires_at stored < now
          then (Inl (Validation ''the confirmation has expired''), reg(preview_id := None))
          else if sr_confirmation_token stored \<noteq> token
          then (Inl (Security ''wrong confirmation token''), reg)
          else (Inr (sr_binding stored), reg(preview_id := None)))"

definition ensure_same_binding ::
  "remediation_binding \<Rightarrow> remediation_binding \<Rightarrow> unit app_result" where
  "ensure_same_binding expected current =
     (if rb_server_id expected \<noteq> rb_server_id current \<or> rb_task_id expected \<noteq> rb_task_id current
         \<or> rb_implementation_id expected \<noteq> rb_implementation_id current
         \<or> rb_missing_commands expected \<noteq> rb_missing_commands current
         \<or> rb_packages expected \<noteq> rb_packages current
         \<or> rb_package_manager expected \<noteq> rb_package_manager current
      then Inl (Security ''the server has changed since the preview'') else Inr ())"

definition find_task :: "exec_env \<Rightarrow> string \<Rightarrow> task_definition app_result" where
  "find_task env task_id = ok_or (Validation ''the tool does not exist'')
     (List.find (\<lambda>d. td_id d = task_id) (xe_catalog env))"

definition binding_for ::
  "exec_env \<Rightarrow> string \<Rightarrow> string \<Rightarrow> system_capabilities \<Rightarrow> privilege_mode \<Rightarrow>
   remediation_binding app_result" where
  "binding_for env server_id task_id capabilities mode =
     bind_res (find_task env task_id) (\<lambda>task.
     let evaluation = evaluate_task_availability task capabilities in
       if av_state evaluation \<noteq> AvRemediable then Inl (Validation (av_summary evaluation))
       else
     bind_res (ok_or (Security ''the missing component is not in the fixed list'')
         (remediation_for (sc_package_manager capabilities) (av_missing_commands evaluation)))
       (\<lambda>remediation.
     bind_res (ok_or (Compatibility ''the tool has no implementation to complete'')
         (av_implementation_id evaluation)) (\<lambda>implementation_id.
       Inr \<lparr>rb_server_id = server_id, rb_task_id = task_id,
            rb_implementation_id = implementation_id,
            rb_missing_commands = rm_missing_commands remediation,
            rb_packages = rm_packages remediation,
            rb_package_manager = rm_package_manager remediation, rb_privilege_mode = mode\<rparr>)))"

text \<open>
  The world of the service: its previews and the executions. \<open>probe\<close> is the answer of
  \<open>probe_privilege\<close>, \<open>refresh\<close> that of \<open>list_task_definitions\<close>: the state of each task.
\<close>

record remediation_world =
  rw_previews :: remediation_registry
  rw_exec :: exec_world

definition remediation_preview ::
  "exec_env \<Rightarrow> (nat \<Rightarrow> privilege_mode app_result) \<Rightarrow> string \<Rightarrow> string \<Rightarrow>
   (remediation_world, stored_remediation) st" where
  "remediation_preview env probe server_id task_id w =
     (let x = rw_exec w; t = xw_tick x in
      case bind_res (xe_connect env t server_id) (\<lambda>server.
           bind_res (find_task env task_id) (\<lambda>task.
           bind_res (probe (t + 1)) (\<lambda>mode.
             binding_for env server_id (td_id task) (cs_capabilities server) mode))) of
        Inl e \<Rightarrow> (Inl e, w\<lparr>rw_exec := x\<lparr>xw_tick := t + 2\<rparr>\<rparr>)
      | Inr binding \<Rightarrow>
          (case remediation_issue (xe_uuid env (t + 2)) (xe_uuid env (t + 3)) binding
                  (xe_now env (t + 4)) (rw_previews w) of
             (r, reg) \<Rightarrow> (r, w\<lparr>rw_previews := reg, rw_exec := x\<lparr>xw_tick := t + 5\<rparr>\<rparr>)))"

definition remediation_confirm ::
  "exec_env \<Rightarrow> (nat \<Rightarrow> privilege_mode app_result) \<Rightarrow> (nat \<Rightarrow> (string \<times> availability_state) list app_result) \<Rightarrow>
   string \<Rightarrow> uuid \<Rightarrow> uuid \<Rightarrow> (remediation_world, availability_state) st" where
  "remediation_confirm env probe refresh server_id preview_id token w =
     (let x = rw_exec w; t = xw_tick x in
      case remediation_consume preview_id token (xe_now env t) (rw_previews w) of
        (Inl e, reg) \<Rightarrow> (Inl e, w\<lparr>rw_previews := reg, rw_exec := x\<lparr>xw_tick := t + 1\<rparr>\<rparr>)
      | (Inr expected, reg) \<Rightarrow>
          (let w1 = w\<lparr>rw_previews := reg, rw_exec := x\<lparr>xw_tick := t + 3\<rparr>\<rparr> in
           if rb_server_id expected \<noteq> server_id
           then (Inl (Security ''the token is for another server''), w1)
           else
           case bind_res (xe_connect env (t + 1) server_id) (\<lambda>server.
                bind_res (probe (t + 2)) (\<lambda>mode.
                bind_res (binding_for env server_id (rb_task_id expected) (cs_capabilities server) mode)
                  (\<lambda>current.
                bind_res (ensure_same_binding expected current) (\<lambda>_.
                bind_res (command_for_binding current) (\<lambda>command.
                bind_res (elevate_fixed_command command (rb_privilege_mode current)) (\<lambda>command.
                  Inr (current, command))))))) of
             Inl e \<Rightarrow> (Inl e, w1)
           | Inr (current, command) \<Rightarrow>
               (case execute_fixed_maintenance env server_id (rb_package_manager current)
                       (rb_packages current) command (rw_exec w1) of
                  (result, x') \<Rightarrow>
                    (bind_res result (\<lambda>_. bind_res (refresh (xw_tick x')) (\<lambda>tools.
                       ok_or (Validation ''the tool cannot be read again'')
                         (map_of tools (rb_task_id current)))),
                     w1\<lparr>rw_exec := x'\<lparr>xw_tick := Suc (xw_tick x')\<rparr>\<rparr>))))"

end
