(* ===== verification/Exec_Claims.thy ===== *)
theory Exec_Claims
  imports Exec_Text Task_Remedy "HOL-Library.Code_Target_Numeral"
begin

text \<open>
  The claims about executions and about the remediation of missing components, with the concrete server
  that their witnesses run on.
\<close>

section \<open>The worlds that the service reaches\<close>

text \<open>
  From empty tables, one call after the other. The identifiers that a call draws are new to the table of
  files, which is what a random UUID gives.
\<close>

definition no_executions :: exec_world where
  "no_executions =
     \<lparr>xw_db = \<lparr>xdb_servers = [''s''], xdb_records = [], xdb_parameters = [], xdb_files = []\<rparr>,
      xw_registry = (\<lambda>_. None), xw_tick = 0, xw_events = [], xw_sequence = 0, xw_logs = (\<lambda>_. None)\<rparr>"

inductive exec_reachable :: "exec_env \<Rightarrow> exec_world \<Rightarrow> bool" for env where
  no_calls: "exec_reachable env (no_executions\<lparr>xw_db := (xw_db no_executions)\<lparr>xdb_servers := servers\<rparr>\<rparr>)"
| one_call: "exec_reachable env w \<Longrightarrow> fresh_files env w \<Longrightarrow> run_exec env call w = (result, w') \<Longrightarrow>
     exec_reachable env w'"

lemma reachable_tidy:
  assumes "recordable env" "exec_reachable env w"
  shows "tidy w"
  using assms(2)
proof induction
  case (no_calls servers)
  then show ?case
    by (simp add: tidy_def no_executions_def exec_keys_def rest_ended_def status_at_def exec_row_def)
next
  case (one_call w call result w')
  with triple_exec [OF assms(1), of call] show ?case
    by (cases result) (auto simp: triple_def split: prod.splits)
qed

lemma tidy_rows: "tidy w \<Longrightarrow> list_all (\<lambda>row. execution_is_terminal (er_status row)) (xdb_records (xw_db w))"
  unfolding tidy_def exec_keys_def rest_ended_def status_at_def exec_row_def list_all_iff
  by (metis empty_iff option.map(2) row_by_distinct)

section \<open>A server for the witnesses\<close>

text \<open>It refuses the connection. Evaluation takes the first result apart before it goes on.\<close>

fun bind_next :: "('a \<Rightarrow> 's \<Rightarrow> ('e + 'b) \<times> 's) \<Rightarrow> ('e + 'a) \<times> 's \<Rightarrow> ('e + 'b) \<times> 's" where
  "bind_next k (Inl e, w) = (Inl e, w)"
| "bind_next k (Inr x, w) = k x w"

lemma bind_code [code]: "bind_st m k = (\<lambda>w. bind_next k (m w))"
  by (auto simp: bind_st_def fun_eq_iff split: prod.split sum.split)

lemma decoder_code [code]:
  "from_utf8 [] = (0, None)"
  "from_utf8 (c # cs) = (case utf8_next (c # cs) of
       Char n \<Rightarrow> (case from_utf8 (drop n (c # cs)) of (valid, err) \<Rightarrow> (n + valid, err))
     | Bad n \<Rightarrow> (0, Some (InvalidLen n)) | Incomplete \<Rightarrow> (0, Some Truncated))"
  by (simp_all add: from_utf8.simps [of "[]"] from_utf8.simps [of "c # cs"])

lemma drain_code [code]:
  "drain_loop at_end [] = ([], [])"
  "drain_loop at_end (c # cs) = (case from_utf8 (c # cs) of
       (valid, None) \<Rightarrow> (c # cs, [])
     | (valid, Some (InvalidLen n)) \<Rightarrow>
         (case drain_loop at_end (drop n (drop valid (c # cs))) of
            (text, rest) \<Rightarrow> (take valid (c # cs) @ replacement @ text, rest))
     | (valid, Some Truncated) \<Rightarrow>
         if \<not> at_end then (take valid (c # cs), drop valid (c # cs))
         else (take valid (c # cs) @ replacement, []))"
  by (subst drain_loop.simps, simp add: from_utf8.simps [of "[]"], rule drain_loop.simps)

lemma chars_code [code]:
  "utf8_chars [] = []"
  "utf8_chars (c # cs) = (case utf8_next (c # cs) of
       Char n \<Rightarrow> take n (c # cs) # utf8_chars (drop n (c # cs)) | _ \<Rightarrow> [])"
  by (simp_all add: utf8_chars.simps [of "[]"] utf8_chars.simps [of "c # cs"])

definition quick_env :: exec_env where
  "quick_env =
     \<lparr>xe_os = UnixHost, xe_catalog = [], xe_parse_uuid = (\<lambda>_. None), xe_encode = (\<lambda>_. ''{}''),
      xe_redact = id, xe_powershell = id, xe_now = int, xe_uuid = of_nat, xe_cancelled = (\<lambda>_. False),
      xe_connect = (\<lambda>_ _. Inl (Io ''refused'')), xe_open = (\<lambda>_. Inr ()), xe_request = (\<lambda>_ _. Inr ()),
      xe_messages = (\<lambda>_ _. [ChData ''ok'', ChExit 0]), xe_close = (\<lambda>_. True),
      xe_write = (\<lambda>_. Inr ()), xe_send = (\<lambda>_ _. Inr ()), xe_exists = (\<lambda>_. True),
      xe_size = (\<lambda>_. Inr 3), xe_sha256 = (\<lambda>_. Inr (replicate 64 (CHR ''0'')))\<rparr>"

definition quick_draft :: new_execution where
  "quick_draft = \<lparr>ne_server_id = ''s'', ne_task_id = ''t'', ne_task_version = 2, ne_category = ''service'',
     ne_parameters = []\<rparr>"

definition quick_call :: exec_call where
  "quick_call = CallStep
     \<lparr>sl_server_id = ''s'', sl_task_id = ''t'', sl_task_version = 2, sl_category = ''service'',
      sl_step = \<lparr>rs_id = ''i'', rs_title = ''t'', rs_command = ''x'', rs_timeout_seconds = 60,
                 rs_output_limit_bytes = 1024\<rparr>,
      sl_parameters = []\<rparr> True"

definition quick_created :: exec_world where
  "quick_created = snd (create_execution quick_env quick_draft no_executions)"

definition quick_outcome :: "execution_details app_result \<times> exec_world \<Rightarrow> bool" where
  "quick_outcome outcome = (case outcome of (r, w) \<Rightarrow>
     (case r of Inr d \<Rightarrow> er_status (ed_record d) = EFailed | Inl e \<Rightarrow> False)
     \<and> length (xw_events w) = 1 \<and> length (xdb_records (xw_db w)) = 1)"

lemma quick_parts:
  "fst (create_execution quick_env quick_draft no_executions) = Inr (new_execution_row quick_draft 0 1)"
  "xw_tick quick_created = 2"
  "quick_outcome (fail_before_run quick_env 0 (Io ''refused'') (quick_created\<lparr>xw_tick := 4\<rparr>))"
  by code_simp+

lemma quick_run: "quick_outcome (run_exec quick_env quick_call no_executions)"
proof -
  have created: "create_execution quick_env quick_draft no_executions
      = (Inr (new_execution_row quick_draft 0 1), quick_created)"
    using quick_parts(1) by (simp add: quick_created_def prod_eq_iff)
  have "xr_get 0 (xw_db quick_created) \<noteq> None" by code_simp
  then obtain d where d: "xr_get 0 (xw_db quick_created) = Some d" by blast
  have "run_exec quick_env quick_call no_executions
      = fail_before_run quick_env 0 (Io ''refused'') (quick_created\<lparr>xw_tick := 4\<rparr>)"
    using created d quick_parts(2)
    by (simp add: run_exec_def quick_call_def execute_planned_step_def bind_st_def quick_draft_def
        new_execution_row_def run_command_with_limit_and_cancel_def require_execution_def ok_or_def
        connect_unless_cancelled_def xask_def xask_res_def caught_def quick_env_def)
  then show ?thesis using quick_parts(3) by simp
qed

text \<open>C8: From empty tables, whatever quick tasks, custom commands, scripts and steps are run one after the
other and however each one ends (connection refused, command failed, cancelled, timed out, output too long,
sink or log file refusing it), no execution is left queued or running: every row is succeeded, failed,
cancelled or uncertain, the registry of running executions is empty and no two rows share an identifier.
The local system must be able to measure and hash the output file.\<close>

theorem executions_settle:
  assumes "recordable env" "exec_reachable env w"
  shows "list_all (\<lambda>row. execution_is_terminal (er_status row)) (xdb_records (xw_db w))
    \<and> xw_registry w = (\<lambda>_. None) \<and> distinct (map er_id (xdb_records (xw_db w)))"
proof -
  have "tidy w" using assms by (rule reachable_tidy)
  then show ?thesis using tidy_rows [of w] by (simp add: tidy_def exec_keys_def)
qed


lemma quick_ready: "recordable quick_env" "exec_reachable quick_env no_executions"
    "fresh_files quick_env no_executions"
proof -
  have "list_all is_hexdigit (replicate 64 (CHR ''0''))" by code_simp
  then show "recordable quick_env" by (simp add: recordable_def quick_env_def max_i64_def)
  have "no_executions\<lparr>xw_db := (xw_db no_executions)\<lparr>xdb_servers := [''s'']\<rparr>\<rparr> = no_executions"
    by (simp add: no_executions_def)
  then show "exec_reachable quick_env no_executions" by (metis exec_reachable.no_calls)
  show "fresh_files quick_env no_executions" by (simp add: fresh_files_def no_executions_def)
qed

theorem executions_settle_witness:
  "length (xdb_records (xw_db (snd (run_exec quick_env quick_call no_executions)))) = 1
   \<and> list_all (\<lambda>row. execution_is_terminal (er_status row))
       (xdb_records (xw_db (snd (run_exec quick_env quick_call no_executions))))"
proof -
  have "exec_reachable quick_env (snd (run_exec quick_env quick_call no_executions))"
    by (rule exec_reachable.one_call [OF quick_ready(2,3) prod.collapse [symmetric]])
  from executions_settle [OF quick_ready(1) this] show ?thesis
    using quick_run by (simp add: quick_outcome_def split_beta)
qed


section \<open>The output of a command\<close>

definition quick_request :: command_request where
  "quick_request = \<lparr>cr_execution_id = 0, cr_command = ''x'', cr_timeout_seconds = 60,
     cr_max_output_bytes = 1024\<rparr>"

lemma quick_decoder:
  "new_chunker max_event_bytes = Inr \<lparr>max_bytes = max_event_bytes, pending = []\<rparr>"
  "push_bytes ''ok'' \<lparr>max_bytes = max_event_bytes, pending = []\<rparr>
     = ([''ok''], \<lparr>max_bytes = max_event_bytes, pending = []\<rparr>)"
  "finish_chunks \<lparr>max_bytes = max_event_bytes, pending = []\<rparr>
     = ([], \<lparr>max_bytes = max_event_bytes, pending = []\<rparr>)"
  by code_simp+

lemma quick_answer:
  "fst (execute_streaming quick_env quick_request no_executions)
     = Inr \<lparr>co_exit = 0, co_stdout_bytes = 2, co_stderr_bytes = 0\<rparr>"
  by (simp add: execute_streaming_def Let_def bind_st_def xres_def xask_def xask_res_def quick_env_def
      quick_request_def no_executions_def validate_command_def max_output_bytes_def open_writer_def
      create_log_def quick_decoder new_budget_def emit_event_def next_event_def write_output_def consume_def
      decode_into_def flush_complete_lines_def complete_lines_def caught_def finish_writer_def emit_text_def
      append_log_def require_exit_status_def ok_or_def exit_i32_def sat_add_u64_def stream_payload_def)

text \<open>C10: When a command ends normally, the sink has received all of its output: for each of the two
streams the texts of the events are the lossy UTF-8 decoding of all bytes of the stream, however the
channel cut them, split after newlines into pieces that went through the redactor one by one, so that a
secret within a line is never cut apart before it is redacted. The byte counts of the answer are exact,
and together they are within the limit of the request.\<close>

theorem streamed_output_redacted:
  assumes "\<forall>t. list_all block_fits (xe_messages env t (cr_command request))"
    and "execute_streaming env request w = (Inr outcome, w')"
  shows "\<exists>t new. xw_events w' = xw_events w @ new
    \<and> (\<forall>stream. delivered env new stream (stream_bytes stream (xe_messages env t (cr_command request))))
    \<and> unat (co_stdout_bytes outcome) = length (stream_bytes OutStdout (xe_messages env t (cr_command request)))
    \<and> unat (co_stderr_bytes outcome) = length (stream_bytes OutStderr (xe_messages env t (cr_command request)))
    \<and> unat (co_stdout_bytes outcome) + unat (co_stderr_bytes outcome) \<le> unat (cr_max_output_bytes request)"
proof -
  have start: "sent (xw_events w) (\<lambda>_. []) w" by (simp add: sent_def stream_text_def)
  have "list_all block_fits (xe_messages env t (cr_command request))" for t using assms(1) by blast
  from streaming_answers [OF this, unfolded triple_def, rule_format, OF start]
  have "answered_in_full env (xw_events w) request outcome w'" by (simp add: assms(2))
  then show ?thesis unfolding answered_in_full_def complete_answer_def by auto
qed

theorem streamed_output_redacted_witness:
  "\<exists>outcome w'. execute_streaming quick_env quick_request no_executions = (Inr outcome, w')
     \<and> delivered quick_env (xw_events w') OutStdout ''ok'' \<and> co_stdout_bytes outcome = 2"
proof -
  obtain r w' where "execute_streaming quick_env quick_request no_executions = (r, w')" by fastforce
  with quick_answer have r: "execute_streaming quick_env quick_request no_executions
      = (Inr \<lparr>co_exit = 0, co_stdout_bytes = 2, co_stderr_bytes = 0\<rparr>, w')" by simp
  have "\<forall>t. list_all block_fits (xe_messages quick_env t (cr_command quick_request))"
    by (simp add: quick_env_def block_fits_def)
  from streamed_output_redacted [OF this r] obtain t where
    "delivered quick_env (xw_events w') OutStdout (stream_bytes OutStdout (xe_messages quick_env t ''x''))"
    by (auto simp: no_executions_def quick_request_def)
  then have "delivered quick_env (xw_events w') OutStdout ''ok''"
    by (simp add: quick_env_def stream_bytes_def)
  with r show ?thesis by auto
qed

section \<open>Availability\<close>

lemma smallest_zero:
  "(case min_by_key f xs of None \<Rightarrow> None | Some y \<Rightarrow> if f y = 0 then Some y else None)
     = List.find (\<lambda>x. f x = (0::nat)) xs"
  by (induction xs) (auto split: option.splits if_splits)

lemma sorted_once_Nil [simp]: "sorted_once xs = [] \<longleftrightarrow> xs = []"
  by (metis remdups_adj_Nil_iff set_empty set_sort sorted_once_def)

lemma fit_zero:
  "fit_score (evaluate_implementation i c) = 0 \<longleftrightarrow> matches_capabilities (ti_compatibility i) c"
  by (auto simp: fit_score_def evaluate_implementation_def matches_capabilities_def Let_def
      filter_empty_conv list_all_iff)

lemma fit_implementation [simp]: "if_implementation (evaluate_implementation i c) = i"
  by (simp add: evaluate_implementation_def Let_def)

text \<open>The library shows a task as ready exactly when the planner finds an implementation for the
server, and it names the implementation that will run.\<close>

theorem availability_agrees_with_selection:
  "case select_implementation task capabilities of
     Inr i \<Rightarrow> av_state (evaluate_task_availability task capabilities) = AvReady
       \<and> av_implementation_id (evaluate_task_availability task capabilities) = Some (ti_id i)
   | Inl _ \<Rightarrow> av_state (evaluate_task_availability task capabilities) \<noteq> AvReady"
proof -
  let ?fits = "map (\<lambda>i. evaluate_implementation i capabilities) (td_implementations task)"
  have "List.find (\<lambda>f. fit_score f = 0) (map (\<lambda>i. evaluate_implementation i capabilities) impls)
      = map_option (\<lambda>i. evaluate_implementation i capabilities)
          (List.find (\<lambda>i. matches_capabilities (ti_compatibility i) capabilities) impls)" for impls
    by (induction impls) (simp_all add: fit_zero)
  then have found: "(case min_by_key fit_score ?fits of None \<Rightarrow> None
       | Some y \<Rightarrow> if fit_score y = 0 then Some y else None)
      = map_option (\<lambda>i. evaluate_implementation i capabilities)
          (List.find (\<lambda>i. matches_capabilities (ti_compatibility i) capabilities) (td_implementations task))"
    by (simp only: smallest_zero)
  show ?thesis
    using found
    by (cases "List.find (\<lambda>i. matches_capabilities (ti_compatibility i) capabilities) (td_implementations task)")
      (auto simp: select_implementation_def ok_or_def evaluate_task_availability_def Let_def
        split: option.splits if_splits)
qed

section \<open>Remediation\<close>

lemma maintenance_rejected:
  "execute_fixed_maintenance env server manager packages command w
     = (Inl (Validation (if is_blank server then ''incomplete execution'' else ''invalid execution category'')),
        w\<lparr>xw_tick := Suc (Suc (xw_tick w))\<rparr>)"
proof -
  have "\<not> is_blank ''maintenance.package_install''" "\<not> is_blank ''maintenance''" by code_simp+
  then show ?thesis
    by (simp add: execute_fixed_maintenance_def create_execution_def bind_st_def xask_def xdb_def
        xr_create_def validate_execution_def execution_categories_def)
qed

lemma binding_for_channels:
  "binding_for (env\<lparr>xe_open := a, xe_request := b, xe_messages := c, xe_close := d\<rparr>) server task capabilities mode
     = binding_for env server task capabilities mode"
  by (simp add: binding_for_def find_task_def)

lemma remediation_consumed:
  "remediation_consume preview token now reg = (Inr binding, reg') \<Longrightarrow> reg' preview = None"
  by (auto simp: remediation_consume_def split: option.splits if_splits)

text \<open>C21: Confirming the installation of a missing component never succeeds, also when the preview is
valid, the token fits and the server answers. A confirmation that is accepted uses the preview up, connects
and probes the privilege, in order to compare the server with the preview, and ends with an error there
or, at the latest, when the install command is to be recorded under the category \<open>maintenance\<close>, which the
table of executions does not accept. What is proved of the rest: the install command is never sent, in that
the result and all that the call leaves do not depend on whether a channel for it could be opened, on how
a request would be answered or on what the server would then deliver; no execution, event or log is
written and the registry of running executions stays as it was; and what the task list says when it is
read again changes nothing. The answers to the connection and to the probe are arguments.\<close>

theorem remediation_never_installs:
  "\<not> is_ok (fst (remediation_confirm env probe refresh server preview token w))
   \<and> xw_db (rw_exec (snd (remediation_confirm env probe refresh server preview token w))) = xw_db (rw_exec w)
   \<and> xw_events (rw_exec (snd (remediation_confirm env probe refresh server preview token w)))
       = xw_events (rw_exec w)
   \<and> xw_logs (rw_exec (snd (remediation_confirm env probe refresh server preview token w)))
       = xw_logs (rw_exec w)
   \<and> xw_registry (rw_exec (snd (remediation_confirm env probe refresh server preview token w)))
       = xw_registry (rw_exec w)
   \<and> (\<forall>opened answer messages closed refresh'.
        remediation_confirm (env\<lparr>xe_open := opened, xe_request := answer, xe_messages := messages,
            xe_close := closed\<rparr>) probe refresh' server preview token w
          = remediation_confirm env probe refresh server preview token w)
   \<and> (case remediation_consume preview token (xe_now env (xw_tick (rw_exec w))) (rw_previews w) of
          (Inl e, _) \<Rightarrow> fst (remediation_confirm env probe refresh server preview token w) = Inl e
        | (Inr _, _) \<Rightarrow> rw_previews (snd (remediation_confirm env probe refresh server preview token w)) preview = None)"
proof (intro conjI allI)
  fix opened answer messages closed refresh'
  show "remediation_confirm (env\<lparr>xe_open := opened, xe_request := answer, xe_messages := messages,
      xe_close := closed\<rparr>) probe refresh' server preview token w
    = remediation_confirm env probe refresh server preview token w"
    by (simp add: remediation_confirm_def Let_def maintenance_rejected binding_for_channels
        split: prod.split sum.split)
next
  show "case remediation_consume preview token (xe_now env (xw_tick (rw_exec w))) (rw_previews w) of
      (Inl e, _) \<Rightarrow> fst (remediation_confirm env probe refresh server preview token w) = Inl e
    | (Inr _, _) \<Rightarrow> rw_previews (snd (remediation_confirm env probe refresh server preview token w)) preview = None"
    using remediation_consumed [of preview token "xe_now env (xw_tick (rw_exec w))" "rw_previews w"]
    by (auto simp: remediation_confirm_def Let_def maintenance_rejected split: prod.split sum.split)
qed (simp_all add: remediation_confirm_def Let_def maintenance_rejected split: prod.split sum.split)

text \<open>A server that lacks \<open>tcpdump\<close> and has \<open>apt\<close>: the preview of the installation is issued, and its
confirmation gets as far as the refused execution.\<close>

definition capture_task :: task_definition where
  "capture_task =
     \<lparr>td_id = ''network.capture'', td_version = 1, td_category = CatNetwork, td_title = ''t'',
      td_description = ''d'', td_risk_level = Safe, td_estimated_seconds = 1,
      td_privilege = RootOrPasswordlessSudo, td_scope = SingleServer, td_parameters = [],
      td_implementations =
        [\<lparr>ti_id = ''i'',
          ti_compatibility = \<lparr>cp_os_families = [], cp_service_managers = [], cp_required_commands = [''tcpdump'']\<rparr>,
          ti_preflight_steps = [], ti_preview_steps = [], ti_backup_plan = None, ti_execution_steps = [],
          ti_verify_steps = [], ti_rollback_plan = None, ti_result_parser = ParseText\<rparr>],
      td_output_kind = OutText\<rparr>"

definition bare_server :: connected_server where
  "bare_server =
     \<lparr>cs_profile = \<lparr>sp_id = ''s'', sp_name = ''s'', sp_host = ''h'', sp_port = 22, sp_username = ''root''\<rparr>,
      cs_capabilities =
        \<lparr>sc_probe_schema_version = 1, sc_platform_family = OsLinux, sc_remote_shell = Bash,
         sc_path_style = PathPosix, sc_os_id = ''debian'', sc_os_family = ''debian'', sc_version_id = None,
         sc_package_manager = Some ''apt'', sc_service_manager = ''systemd'', sc_architecture = ''x86_64'',
         sc_shell = ''/bin/bash'', sc_commands = [], sc_services = [], sc_containers = [],
         sc_interfaces = [], sc_dns_servers = [], sc_current_timezone = None, sc_current_time = None,
         sc_ntp_enabled = None, sc_ntp_synchronized = None, sc_timezones = []\<rparr>\<rparr>"

definition remedy_env :: exec_env where
  "remedy_env = quick_env\<lparr>xe_catalog := [capture_task], xe_connect := (\<lambda>_ _. Inr bare_server)\<rparr>"

definition remedy_previewed :: remediation_world where
  "remedy_previewed = snd (remediation_preview remedy_env (\<lambda>_. Inr PrivRoot) ''s'' ''network.capture''
     \<lparr>rw_previews = (\<lambda>_. None), rw_exec = no_executions\<rparr>)"

definition capture_binding :: remediation_binding where
  "capture_binding =
     \<lparr>rb_server_id = ''s'', rb_task_id = ''network.capture'', rb_implementation_id = ''i'',
      rb_missing_commands = [''tcpdump''], rb_packages = [''tcpdump''], rb_package_manager = ''apt'',
      rb_privilege_mode = PrivRoot\<rparr>"

lemma remedy_env_facts:
  "xe_connect remedy_env t i = Inr bare_server" "xe_uuid remedy_env = of_nat" "xe_now remedy_env = int"
  "find_task remedy_env ''network.capture'' = Inr capture_task" "td_id capture_task = ''network.capture''"
  by (simp_all add: find_task_def remedy_env_def quick_env_def capture_task_def ok_or_def)

lemma capture_bound:
  "binding_for remedy_env ''s'' ''network.capture'' (cs_capabilities bare_server) PrivRoot = Inr capture_binding"
proof -
  have "evaluate_task_availability capture_task (cs_capabilities bare_server)
      = \<lparr>av_state = AvRemediable, av_implementation_id = Some ''i'',
         av_summary = ''missing components tcpdump, installable with apt: tcpdump'',
         av_missing_commands = [''tcpdump''], av_blocking_capabilities = []\<rparr>"
    by (simp add: evaluate_task_availability_def capture_task_def bare_server_def evaluate_implementation_def
        has_command_def sorted_once_def fit_score_def remediation_for_def package_for_def Let_def join_with.simps)
  moreover have "remediation_for (sc_package_manager (cs_capabilities bare_server)) [''tcpdump'']
      = Some \<lparr>rm_package_manager = ''apt'', rm_missing_commands = [''tcpdump''], rm_packages = [''tcpdump'']\<rparr>"
    by (simp add: bare_server_def remediation_for_def package_for_def sorted_once_def)
  ultimately show ?thesis
    by (simp add: binding_for_def remedy_env_facts Let_def ok_or_def capture_binding_def)
qed

lemma capture_command:
  "command_for_binding capture_binding = Inr ''apt-get install -y --no-install-recommends tcpdump''"
  "elevate_fixed_command ''apt-get install -y --no-install-recommends tcpdump'' (rb_privilege_mode capture_binding)
     = Inr ''apt-get install -y --no-install-recommends tcpdump''"
  by (simp add: command_for_binding_def capture_binding_def package_manager_try_from_def package_try_from_def
        package_allowed_def fixed_install_command_def)
     (simp add: elevate_fixed_command_def capture_binding_def)

lemma capture_previewed:
  "remedy_previewed =
     \<lparr>rw_previews = [2 \<mapsto> \<lparr>sr_confirmation_token = 3, sr_expires_at = 300004,
        sr_command_summary = ''apt-get install -y --no-install-recommends tcpdump'', sr_binding = capture_binding\<rparr>],
      rw_exec = no_executions\<lparr>xw_tick := 5\<rparr>\<rparr>"
  by (simp add: remedy_previewed_def remediation_preview_def Let_def remedy_env_facts capture_bound
      remediation_issue_def capture_command no_executions_def remediation_ttl_def)

theorem remediation_never_installs_witness:
  "fst (remediation_confirm remedy_env (\<lambda>_. Inr PrivRoot) (\<lambda>_. Inr []) ''s'' 2 3 remedy_previewed)
     = Inl (Validation ''invalid execution category'')
   \<and> rw_previews remedy_previewed 2 \<noteq> None
   \<and> rw_previews (snd (remediation_confirm remedy_env (\<lambda>_. Inr PrivRoot) (\<lambda>_. Inr []) ''s'' 2 3 remedy_previewed)) 2
       = None"
proof -
  have c: "remediation_consume 2 3 (xe_now remedy_env (xw_tick (rw_exec remedy_previewed))) (rw_previews remedy_previewed)
      = (Inr capture_binding, Map.empty)"
    by (auto simp: remediation_consume_def capture_previewed remedy_env_facts)
  have b: "rb_server_id capture_binding = ''s''" "rb_task_id capture_binding = ''network.capture''"
    "ensure_same_binding capture_binding capture_binding = Inr ()"
    by (simp_all add: capture_binding_def ensure_same_binding_def)
  have "\<not> is_blank ''s''" by (simp add: is_blank_def trim_start.simps byte_def)
  then have "fst (remediation_confirm remedy_env (\<lambda>_. Inr PrivRoot) (\<lambda>_. Inr []) ''s'' 2 3 remedy_previewed)
     = Inl (Validation ''invalid execution category'')"
    by (simp add: remediation_confirm_def Let_def c [unfolded remedy_env_facts] b remedy_env_facts capture_bound
        capture_command maintenance_rejected)
  moreover have "rw_previews remedy_previewed 2 \<noteq> None" by (simp add: capture_previewed)
  ultimately show ?thesis
    using remediation_never_installs [of remedy_env "\<lambda>_. Inr PrivRoot" "\<lambda>_. Inr []" "''s''" 2 3 remedy_previewed]
    by (simp add: c)
qed

section \<open>The launcher of a script\<close>

text \<open>What a shell reads as the here document: the lines before the first that is the delimiter.\<close>

definition here_document :: "string \<Rightarrow> string \<Rightarrow> string list" where
  "here_document delimiter rest = takeWhile (\<lambda>l. l \<noteq> delimiter) (split_char (CHR 0x0A) rest)"

lemma split_char_pieces:
  "\<exists>b. s = hd (split_char d s) @ b" "l \<in> set (split_char d s) \<Longrightarrow> \<exists>a b. s = a @ l @ b"
proof -
  have first: "\<exists>b. v = hd (split_char d v) @ b" for v
    by (induction v) (auto split: list.split)
  then show "\<exists>b. s = hd (split_char d s) @ b" .
  show "l \<in> set (split_char d s) \<Longrightarrow> \<exists>a b. s = a @ l @ b"
  proof (induction s)
    case (Cons c cs)
    obtain w ws where ws: "split_char d cs = w # ws" by (cases "split_char d cs") auto
    obtain b where b: "cs = w @ b" using first [of cs] ws by auto
    consider "l = []" | "l = c # w" | "l \<in> set (split_char d cs)"
      using Cons.prems ws by (auto split: if_splits)
    then show ?case
    proof cases
      case 2
      then have "c # cs = [] @ l @ b" by (simp add: b)
      then show ?thesis by blast
    next
      case 3
      then obtain a b where "cs = a @ l @ b" using Cons.IH by blast
      then have "c # cs = (c # a) @ l @ b" by simp
      then show ?thesis by blast
    qed auto
  qed simp
qed

lemma delimiter_found:
  assumes "unique_heredoc_delimiter candidates body = Inr delimiter"
  shows "\<not> str_contains body delimiter" "CHR 0x0A \<notin> set delimiter"
proof -
  have "\<exists>u :: uuid. delimiter = ''QZ_SCRIPT_'' @ hex_digits 32 (unat u) \<and> \<not> str_contains body delimiter"
    using assms by (induction candidates) (auto simp: Let_def split: if_splits)
  then obtain u :: uuid where u: "delimiter = ''QZ_SCRIPT_'' @ hex_digits 32 (unat u)"
      "\<not> str_contains body delimiter"
    by blast
  then show "\<not> str_contains body delimiter" by simp
  show "CHR 0x0A \<notin> set delimiter" using hex_digits_chars [of 32 "unat u"] by (auto simp: u(1))
qed

text \<open>C20: The launcher of a personal script hands the shell the body of the script and nothing else: the
here document that the shell reads consists of exactly the lines of the body, whatever the body contains,
and the launcher ends with the delimiter; before the document come the assignments of the parameters and
the executable.\<close>

theorem posix_launcher_delivers_body:
  assumes "render_posix_launcher candidates executable body parameters = Inr launcher"
  shows "\<exists>assignments delimiter rest. launcher_assignments parameters = Inr assignments
    \<and> launcher = ''env'' @ assignments @ '' '' @ executable @ '' -s <<'' @ [CHR 0x27] @ delimiter
        @ [CHR 0x27, CHR 0x0A] @ rest
    \<and> here_document delimiter rest = split_char (CHR 0x0A) body
    \<and> split_char (CHR 0x0A) rest = here_document delimiter rest @ [delimiter]"
proof -
  obtain delimiter assignments where d: "unique_heredoc_delimiter candidates body = Inr delimiter"
    and a: "launcher_assignments parameters = Inr assignments"
    and l: "launcher = ''env'' @ assignments @ '' '' @ executable @ '' -s <<'' @ [CHR 0x27] @ delimiter
        @ [CHR 0x27, CHR 0x0A] @ body @ CHR 0x0A # delimiter"
    using assms by (auto simp: render_posix_launcher_def result_simps)
  have lines: "split_char (CHR 0x0A) (body @ CHR 0x0A # delimiter) = split_char (CHR 0x0A) body @ [delimiter]"
    using delimiter_found(2) [OF d] by (simp add: split_char_append split_char_single)
  have "line \<noteq> delimiter" if "line \<in> set (split_char (CHR 0x0A) body)" for line
    using split_char_pieces(2) [OF that] contains_append delimiter_found(1) [OF d] by blast
  then have "here_document delimiter (body @ CHR 0x0A # delimiter) = split_char (CHR 0x0A) body"
    unfolding here_document_def lines by (subst takeWhile_append2) auto
  with a l lines show ?thesis
    by (intro exI [of _ assignments] exI [of _ delimiter] exI [of _ "body @ CHR 0x0A # delimiter"]) simp
qed

theorem posix_launcher_delivers_body_witness:
  "\<exists>launcher delimiter rest.
     render_posix_launcher [5] ''sh'' (''echo a'' @ [CHR 0x0A] @ ''EOF'' @ [CHR 0x0A]) [] = Inr launcher
     \<and> launcher = ''env sh -s <<'' @ [CHR 0x27] @ delimiter @ [CHR 0x27, CHR 0x0A] @ rest
     \<and> here_document delimiter rest = [''echo a'', ''EOF'', []]
     \<and> split_char (CHR 0x0A) rest = [''echo a'', ''EOF'', [], delimiter]"
proof -
  let ?body = "''echo a'' @ [CHR 0x0A] @ ''EOF'' @ [CHR 0x0A]"
  have "is_ok (render_posix_launcher [5] ''sh'' ?body [])" by code_simp
  then obtain launcher where l: "render_posix_launcher [5] ''sh'' ?body [] = Inr launcher"
    by (cases "render_posix_launcher [5] ''sh'' ?body []") auto
  have "launcher_assignments [] = Inr []" by code_simp
  with posix_launcher_delivers_body [OF l] obtain delimiter rest where
    "launcher = ''env sh -s <<'' @ [CHR 0x27] @ delimiter @ [CHR 0x27, CHR 0x0A] @ rest"
    "here_document delimiter rest = [''echo a'', ''EOF'', []]"
    "split_char (CHR 0x0A) rest = [''echo a'', ''EOF'', [], delimiter]" by auto
  with l show ?thesis by blast
qed

end
